(* ===== verification/JsNumber.thy ===== *)
theory JsNumber
  imports Complex_Main
begin

text \<open>
  The numbers of the modelled TypeScript are IEEE 754 doubles. A finite double is a
  rational, so a number is modelled as a \<open>rat\<close> and every arithmetic operation of the
  source as the exact operation followed by \<open>fl\<close>, the rounding of the exact result to
  the nearest double (53 significant bits, ties to even, gradual underflow at
  \<open>2 powi (- 1074)\<close>). Comparisons, \<open>Math.min\<close>, \<open>Math.max\<close>, \<open>Math.floor\<close>, \<open>Math.abs\<close> and unary
  minus are exact on doubles and are used as they are. Not represented: infinities and
  NaN (an operation whose exact result has magnitude \<open>2 powi 1024\<close> or more would overflow, and
  a division by zero does not yield a number), and the sign of zero. Every division of
  the models stands behind a guard of the code, or its divisor is a non-zero constant.

  The second half of the theory states the facts the components use: rounding is
  monotone, exact on integers up to \<open>2 ^ 53\<close>, never crosses an integer upwards in a
  quotient of integers, and sums of integers are exact while they stay below \<open>2 ^ 53\<close>.
\<close>

type_synonym jsnum = rat

subsection \<open>Rounding a rational to a double\<close>

fun ilog2 :: "int \<Rightarrow> nat" where
  "ilog2 n = (if n \<le> 1 then 0 else Suc (ilog2 (n div 2)))"

declare ilog2.simps [simp del]

definition expo :: "rat \<Rightarrow> int" where
  "expo x =
     (if 1 \<le> x then int (ilog2 \<lfloor>x\<rfloor>) else - int (ilog2 (\<lceil>1 / x\<rceil> - 1)) - 1)"

definition quantum :: "rat \<Rightarrow> rat" where
  "quantum x = 2 powi (max (expo \<bar>x\<bar> - 52) (- 1074))"

definition rne :: "rat \<Rightarrow> int" where
  "rne x =
     (let f = \<lfloor>x\<rfloor>; d = x - of_int f
      in if d < 1/2 then f else if 1/2 < d then f + 1 else if even f then f else f + 1)"

definition fl :: "rat \<Rightarrow> rat" where
  "fl x = (if x = 0 then 0 else of_int (rne (x / quantum x)) * quantum x)"

lemma ilog2_bounds: "1 \<le> n \<Longrightarrow> 2 ^ ilog2 n \<le> n \<and> n < 2 ^ (ilog2 n + 1)"
proof (induction n rule: ilog2.induct)
  case (1 n)
  show ?case
  proof (cases "n \<le> 1")
    case True
    with "1.prems" have "n = 1" by simp
    then show ?thesis by (simp add: ilog2.simps [of 1])
  next
    case False
    then have "2 ^ ilog2 (n div 2) \<le> n div 2 \<and> n div 2 < 2 ^ (ilog2 (n div 2) + 1)"
      by (intro "1.IH") auto
    with False show ?thesis by (simp add: ilog2.simps [of n]) linarith
  qed
qed

lemma expo_bounds:
  assumes "0 < x"
  shows "2 powi (expo x) \<le> x" and "x < 2 powi (expo x + 1)"
proof -
  have "2 powi (expo x) \<le> x \<and> x < 2 powi (expo x + 1)"
  proof (cases "1 \<le> x")
    case True
    let ?k = "ilog2 \<lfloor>x\<rfloor>"
    have "1 \<le> \<lfloor>x\<rfloor>" using True by simp
    then have b: "2 ^ ?k \<le> \<lfloor>x\<rfloor>" "\<lfloor>x\<rfloor> < 2 ^ (?k + 1)" using ilog2_bounds by auto
    from b(1) have lo: "(2::rat) ^ ?k \<le> x" by (simp add: le_floor_iff)
    from b(2) have hi: "x < (2::rat) ^ (?k + 1)" by (simp add: floor_less_iff)
    have e: "expo x = int ?k" "expo x + 1 = int (?k + 1)" using True by (simp_all add: expo_def)
    show ?thesis unfolding e(2) using lo hi by (simp add: e(1) power_int_def nat_add_distrib)
  next
    case False
    let ?y = "1 / x" and ?k = "ilog2 (\<lceil>1 / x\<rceil> - 1)"
    have "1 < ?y" using False assms by simp
    then have "1 \<le> \<lceil>?y\<rceil> - 1" by (simp add: less_ceiling_iff le_diff_eq)
    then have b: "2 ^ ?k \<le> \<lceil>?y\<rceil> - 1" "\<lceil>?y\<rceil> - 1 < 2 ^ (?k + 1)"
      by (simp_all only: ilog2_bounds)
    have "\<lceil>?y\<rceil> \<le> 2 ^ (?k + 1)" using b(2) by linarith
    then have "?y \<le> (2::rat) ^ (?k + 1)" by (simp add: ceiling_le_iff)
    then have A: "inverse ((2::rat) ^ (?k + 1)) \<le> x" using assms by (simp add: field_simps)
    have "2 ^ ?k < \<lceil>?y\<rceil>" using b(1) by linarith
    then have "(2::rat) ^ ?k < ?y" by (simp add: less_ceiling_iff)
    then have B: "x < inverse ((2::rat) ^ ?k)" using assms by (simp add: field_simps)
    have e: "expo x = - int (?k + 1)" "expo x + 1 = - int ?k" using False by (simp_all add: expo_def)
    show ?thesis unfolding e(2) unfolding e(1) using A B
      by (simp only: power_int_minus power_int_of_nat simp_thms)
  qed
  then show "2 powi (expo x) \<le> x" and "x < 2 powi (expo x + 1)" by auto
qed

lemma two_powi_pos [simp]: "(0::rat) < 2 powi e"
  by (simp add: zero_less_power_int)

lemma quantum_pos [simp]: "0 < quantum x"
  by (simp add: quantum_def)

lemma quantum_nonzero [simp]: "quantum x \<noteq> 0"
  using quantum_pos [of x] by linarith

lemma quantum_minus [simp]: "quantum (- x) = quantum x"
  by (simp add: quantum_def)

lemma rne_of_int [simp]: "rne (of_int n) = n"
  by (simp add: rne_def)

lemma rne_err: "\<bar>of_int (rne x) - x\<bar> \<le> 1/2"
proof -
  have b: "of_int \<lfloor>x\<rfloor> \<le> x" "x < of_int \<lfloor>x\<rfloor> + 1" by linarith+
  have "rne x = \<lfloor>x\<rfloor> \<and> x - of_int \<lfloor>x\<rfloor> \<le> 1/2
      \<or> rne x = \<lfloor>x\<rfloor> + 1 \<and> 1/2 \<le> x - of_int \<lfloor>x\<rfloor>"
    by (auto simp: rne_def Let_def)
  then show ?thesis
  proof (elim disjE conjE)
    assume "rne x = \<lfloor>x\<rfloor>" "x - of_int \<lfloor>x\<rfloor> \<le> 1/2"
    then show ?thesis using b by linarith
  next
    assume r: "rne x = \<lfloor>x\<rfloor> + 1" "1/2 \<le> x - of_int \<lfloor>x\<rfloor>"
    have "of_int (rne x) = of_int \<lfloor>x\<rfloor> + (1::rat)" by (simp add: r(1))
    then show ?thesis using r(2) b by linarith
  qed
qed

lemma rne_floor_or: "rne x = \<lfloor>x\<rfloor> \<or> rne x = \<lfloor>x\<rfloor> + 1"
  by (auto simp: rne_def Let_def)

lemma rne_mono:
  assumes "x \<le> y"
  shows "rne x \<le> rne y"
proof -
  have fl: "\<lfloor>x\<rfloor> \<le> \<lfloor>y\<rfloor>" using assms by (rule floor_mono)
  show ?thesis
  proof (cases "\<lfloor>x\<rfloor> = \<lfloor>y\<rfloor>")
    case True
    with assms show ?thesis by (auto simp: rne_def Let_def)
  next
    case False
    with fl have "\<lfloor>x\<rfloor> + 1 \<le> \<lfloor>y\<rfloor>" by simp
    with rne_floor_or [of x] rne_floor_or [of y] show ?thesis by linarith
  qed
qed

lemma rne_minus: "rne (- x) = - rne x"
proof (cases "x = of_int \<lfloor>x\<rfloor>")
  case True
  then show ?thesis by (metis of_int_minus rne_of_int)
next
  case False
  have f: "\<lfloor>- x\<rfloor> = - \<lfloor>x\<rfloor> - 1"
  proof (rule floor_unique)
    show "of_int (- \<lfloor>x\<rfloor> - 1) \<le> - x" by simp linarith
    have "of_int \<lfloor>x\<rfloor> < x" using False by linarith
    then show "- x < of_int (- \<lfloor>x\<rfloor> - 1) + 1" by simp
  qed
  show ?thesis
    by (auto simp: rne_def Let_def f)
qed

lemma fl_zero [simp]: "fl 0 = 0"
  by (simp add: fl_def)

lemma fl_minus [simp]: "fl (- x) = - fl x"
  by (simp add: fl_def rne_minus)

lemma fl_err: "\<bar>fl x - x\<bar> \<le> quantum x / 2"
proof (cases "x = 0")
  case False
  have "fl x - x = (of_int (rne (x / quantum x)) - x / quantum x) * quantum x"
    using False by (simp add: fl_def field_simps)
  then have "\<bar>fl x - x\<bar> = \<bar>of_int (rne (x / quantum x)) - x / quantum x\<bar> * quantum x"
    by (simp add: abs_mult abs_of_pos)
  also have "\<dots> \<le> (1/2) * quantum x"
    by (rule mult_right_mono [OF rne_err]) (simp add: less_imp_le)
  finally show ?thesis by simp
qed (simp add: less_imp_le)

text \<open>A rational is exactly a double when it is a 53 bit multiple of a power of two.\<close>

lemma two_powi_int: "0 \<le> k \<Longrightarrow> (2::rat) powi k = of_int (2 ^ nat k)"
  by (simp add: power_int_def)

lemma expo_less:
  assumes "0 < x" "x < 2 powi e"
  shows "expo x < e"
proof (rule ccontr)
  assume "\<not> expo x < e"
  then have "(2::rat) powi e \<le> 2 powi (expo x)" by (intro power_int_increasing) auto
  with expo_bounds(1) [OF assms(1)] assms(2) show False by linarith
qed

lemma expo_ge:
  assumes "0 < x" "2 powi e \<le> x"
  shows "e \<le> expo x"
proof (rule ccontr)
  assume "\<not> e \<le> expo x"
  then have "(2::rat) powi (expo x + 1) \<le> 2 powi e" by (intro power_int_increasing) auto
  with expo_bounds(2) [OF assms(1)] assms(2) show False by linarith
qed

lemma fl_exact:
  assumes m: "\<bar>m\<bar> \<le> 2 ^ 53" and e: "- 1074 \<le> e"
  shows "fl (of_int m * 2 powi e) = of_int m * 2 powi e"
proof (cases "m = 0")
  case False
  let ?x = "of_int m * 2 powi e :: rat"
  have x0: "0 < \<bar>?x\<bar>" using False by (simp add: abs_mult)
  have "\<exists>n::int. ?x / quantum ?x = of_int n"
  proof (cases "\<bar>m\<bar> = 2 ^ 53")
    case False
    with m have "\<bar>m\<bar> < 2 ^ 53" by simp
    then have "\<bar>of_int m\<bar> < (2::rat) ^ 53"
      by (metis of_int_abs of_int_less_iff of_int_numeral of_int_power)
    then have "\<bar>?x\<bar> < 2 ^ 53 * 2 powi e" by (simp add: abs_mult)
    also have "\<dots> = 2 powi (53 + e)" by (simp add: power_int_add)
    finally have "expo \<bar>?x\<bar> < 53 + e" using expo_less [OF x0] by simp
    then have "max (expo \<bar>?x\<bar> - 52) (- 1074) \<le> e" using e by simp
    then obtain k where k: "e = max (expo \<bar>?x\<bar> - 52) (- 1074) + k" "0 \<le> k"
      by (metis add_diff_cancel_left' diff_ge_0_iff_ge diff_add_cancel add.commute)
    have "2 powi e = quantum ?x * 2 powi k"
      unfolding quantum_def by (subst k(1)) (simp add: power_int_add)
    then have "?x / quantum ?x = of_int m * (quantum ?x * 2 powi k) / quantum ?x"
      by (rule arg_cong)
    also have "\<dots> = of_int m * 2 powi k" by simp
    also have "\<dots> = of_int (m * 2 ^ nat k)" by (simp only: two_powi_int [OF k(2)] of_int_mult)
    finally show ?thesis by blast
  next
    case True
    then have am: "\<bar>of_int m\<bar> = (2::rat) ^ 53"
      by (metis of_int_abs of_int_numeral of_int_power)
    have ax: "\<bar>?x\<bar> = 2 powi (53 + e)" by (simp add: abs_mult am power_int_add)
    have "expo \<bar>?x\<bar> < 54 + e"
      by (rule expo_less [OF x0]) (simp add: ax power_int_strict_increasing)
    moreover have "53 + e \<le> expo \<bar>?x\<bar>" by (rule expo_ge [OF x0]) (simp add: ax)
    ultimately have "expo \<bar>?x\<bar> = 53 + e" by simp
    then have q: "quantum ?x = 2 powi (e + 1)" using e by (simp add: quantum_def add.commute)
    have "m = 2 ^ 53 \<or> m = - (2 ^ 53)" using True by linarith
    then have "m = 2 * (m div 2)" by auto
    then have "?x = of_int (m div 2) * 2 powi (e + 1)"
      by (simp add: power_int_add)
    then have "?x / 2 powi (e + 1) = of_int (m div 2)" by (simp only: divide_eq_eq) simp
    then have "?x / quantum ?x = of_int (m div 2)" by (simp only: q)
    then show ?thesis by blast
  qed
  then obtain n :: int where n: "?x / quantum ?x = of_int n" by blast
  have "?x \<noteq> 0" using x0 by linarith
  then have "fl ?x = of_int n * quantum ?x" by (simp add: fl_def n del: of_int_mult)
  also have "\<dots> = ?x" using n by (simp add: field_simps)
  finally show ?thesis .
qed simp


lemma fl_of_int [simp]:
  assumes "\<bar>n\<bar> \<le> 2 ^ 53"
  shows "fl (of_int n) = of_int n"
  using fl_exact [OF assms, of 0] by simp

lemma fl_numeral [simp]: "(numeral k :: int) \<le> 2 ^ 53 \<Longrightarrow> fl (numeral k) = numeral k"
  using fl_of_int [of "numeral k"] by simp

lemma fl_one [simp]: "fl 1 = 1"
  using fl_of_int [of 1] by simp

lemma fl_pos_le:
  assumes xy: "0 < x" "x \<le> y"
  shows "fl x \<le> fl y"
proof (cases "quantum x = quantum y")
  case True
  have "x / quantum y \<le> y / quantum y" using xy by (simp add: divide_right_mono less_imp_le)
  then have "rne (x / quantum y) \<le> rne (y / quantum y)" by (rule rne_mono)
  then have "(of_int (rne (x / quantum y)) :: rat) \<le> of_int (rne (y / quantum y))" by simp
  with True xy show ?thesis by (simp add: fl_def mult_right_mono less_imp_le)
next
  case False
  have ee: "expo x \<le> expo y"
    using expo_ge [of y "expo x"] expo_bounds(1) [of x] xy by linarith
  have qx: "quantum x = 2 powi (max (expo x - 52) (- 1074))"
    and qy: "quantum y = 2 powi (max (expo y - 52) (- 1074))" using xy by (simp_all add: quantum_def)
  have "expo x \<noteq> expo y" using False by (auto simp: qx qy)
  with ee have lt: "expo x < expo y" by simp
  have big: "- 1074 < expo y - 52"
    using False ee by (rule_tac ccontr) (auto simp: qx qy max_def)
  let ?k = "expo y - max (expo x - 52) (- 1074)"
  have k0: "0 \<le> ?k" using ee big by simp
  let ?P = "2 powi expo y :: rat"
  have Pq: "?P / quantum x = of_int (2 ^ nat ?k)"
    unfolding qx using k0 by (simp add: power_int_diff [symmetric]) (simp add: power_int_def)
  have "x \<le> ?P"
  proof -
    have "x < 2 powi (expo x + 1)" using expo_bounds(2) xy by simp
    also have "\<dots> \<le> ?P" using lt by (intro power_int_increasing) auto
    finally show ?thesis by simp
  qed
  then have "x / quantum x \<le> of_int (2 ^ nat ?k)"
    unfolding Pq [symmetric] by (simp add: divide_right_mono less_imp_le)
  then have "rne (x / quantum x) \<le> 2 ^ nat ?k" by (metis rne_mono rne_of_int)
  then have "(of_int (rne (x / quantum x)) :: rat) \<le> of_int (2 ^ nat ?k)" by (rule of_int_le_iff [THEN iffD2])
  then have "fl x \<le> of_int (2 ^ nat ?k) * quantum x"
    using xy by (simp add: fl_def mult_right_mono less_imp_le)
  also have "\<dots> = ?P" using Pq by (simp add: field_simps)
  also have "?P \<le> fl y"
  proof -
    have qy': "quantum y = 2 powi (expo y - 52)" using big by (simp add: qy max_def)
    have "of_int (2 ^ 52) * quantum y = ?P" by (simp add: qy' power_int_diff)
    moreover have "?P \<le> y" using expo_bounds(1) xy by simp
    ultimately have "of_int (2 ^ 52) \<le> y / quantum y" by (simp add: field_simps)
    then have "2 ^ 52 \<le> rne (y / quantum y)" by (metis rne_mono rne_of_int)
    then have "of_int (2 ^ 52) \<le> (of_int (rne (y / quantum y)) :: rat)" by (rule of_int_le_iff [THEN iffD2])
    then have "of_int (2 ^ 52) * quantum y \<le> fl y"
      using xy by (simp add: fl_def mult_right_mono less_imp_le)
    with \<open>of_int (2 ^ 52) * quantum y = ?P\<close> show ?thesis by simp
  qed
  finally show ?thesis .
qed

lemma fl_nonneg: "0 \<le> x \<Longrightarrow> 0 \<le> fl x"
proof (cases "x = 0")
  case False
  assume "0 \<le> x"
  with False have "0 < x / quantum x" by simp
  then have "0 \<le> rne (x / quantum x)" using rne_mono [of 0 "x / quantum x"] by (simp add: rne_def)
  with False show ?thesis by (simp add: fl_def less_imp_le)
qed simp

lemma fl_mono: "x \<le> y \<Longrightarrow> fl x \<le> fl y"
proof -
  assume xy: "x \<le> y"
  consider "0 < x" | "x \<le> 0" "0 \<le> y" | "y < 0" using xy by linarith
  then show ?thesis
  proof cases
    case 1 then show ?thesis using xy by (rule fl_pos_le)
  next
    case 2
    then have "0 \<le> fl y" "0 \<le> fl (- x)" by (auto intro: fl_nonneg simp del: fl_minus)
    then show ?thesis by simp
  next
    case 3
    then have "fl (- y) \<le> fl (- x)" using xy by (intro fl_pos_le) auto
    then show ?thesis by simp
  qed
qed


lemma rne_abs_le:
  assumes "\<bar>x\<bar> \<le> of_int n"
  shows "\<bar>rne x\<bar> \<le> n"
proof -
  have "x \<le> of_int n" "of_int (- n) \<le> x" using assms by (simp_all add: abs_le_iff minus_le_iff)
  then have "rne x \<le> rne (of_int n)" "rne (of_int (- n)) \<le> rne x" by (simp_all only: rne_mono)
  then show ?thesis unfolding rne_of_int by simp
qed

lemma fl_repr: "\<exists>m e. fl x = of_int m * 2 powi e \<and> \<bar>m\<bar> \<le> 2 ^ 53 \<and> - 1074 \<le> e"
proof (cases "x = 0")
  case True
  then have "fl x = of_int 0 * 2 powi 0 \<and> \<bar>0::int\<bar> \<le> 2 ^ 53 \<and> - 1074 \<le> (0::int)" by simp
  then show ?thesis by blast
next
  case False
  let ?e = "max (expo \<bar>x\<bar> - 52) (- 1074)"
  have "\<bar>x\<bar> < 2 powi (expo \<bar>x\<bar> + 1)" using expo_bounds(2) [of "\<bar>x\<bar>"] False by simp
  also have "\<dots> \<le> 2 powi (53 + ?e)" by (intro power_int_increasing) auto
  also have "\<dots> = of_int (2 ^ 53) * quantum x" by (simp add: power_int_add quantum_def)
  finally have "\<bar>x / quantum x\<bar> \<le> of_int (2 ^ 53)"
    by (simp add: abs_divide divide_le_eq less_imp_le)
  then have "\<bar>rne (x / quantum x)\<bar> \<le> 2 ^ 53" by (rule rne_abs_le)
  moreover have "fl x = of_int (rne (x / quantum x)) * 2 powi ?e"
    using False by (simp add: fl_def quantum_def)
  ultimately show ?thesis using max.cobounded2 by blast
qed

lemma fl_idem [simp]: "fl (fl x) = fl x"
  using fl_repr [of x] fl_exact by metis

lemma fl_le_int: "x \<le> of_int n \<Longrightarrow> \<bar>n\<bar> \<le> 2 ^ 53 \<Longrightarrow> fl x \<le> of_int n"
  using fl_mono [of x "of_int n"] by simp

lemma fl_ge_int: "of_int n \<le> x \<Longrightarrow> \<bar>n\<bar> \<le> 2 ^ 53 \<Longrightarrow> of_int n \<le> fl x"
  using fl_mono [of "of_int n" x] by simp

lemma quantum_le:
  assumes "x \<noteq> 0" "2 powi (- 1022) \<le> \<bar>x\<bar>"
  shows "quantum x \<le> \<bar>x\<bar> / 2 ^ 52"
proof -
  have "- 1022 \<le> expo \<bar>x\<bar>" using assms by (intro expo_ge) auto
  then have "max (expo \<bar>x\<bar> - 52) (- 1074) = expo \<bar>x\<bar> - 52" by simp
  then have "quantum x = 2 powi (expo \<bar>x\<bar> - 52)" by (simp only: quantum_def)
  also have "\<dots> = 2 powi (expo \<bar>x\<bar>) / 2 ^ 52" by (simp add: power_int_diff)
  also have "\<dots> \<le> \<bar>x\<bar> / 2 ^ 52" using expo_bounds(1) [of "\<bar>x\<bar>"] assms by simp
  finally show ?thesis .
qed

lemma tiny_le_inverse: "0 < b \<Longrightarrow> b \<le> 2 ^ 53 \<Longrightarrow> 2 powi (- 1022) \<le> 1 / (of_int b :: rat)"
proof -
  assume b: "0 < b" "b \<le> 2 ^ 53"
  have "(2::rat) powi (- 1022) \<le> 2 powi (- 53)" by (rule power_int_increasing) auto
  also have "\<dots> = 1 / of_int (2 ^ 53)" by (simp add: power_int_minus)
  also have "\<dots> \<le> 1 / of_int b" using b by (intro divide_left_mono) (auto simp del: of_int_power)
  finally show ?thesis .
qed

text \<open>
  The correctly rounded quotient of two integers that fit in 53 bits has the same floor
  as the exact quotient: rounding never carries a quotient over the next integer.
\<close>

lemma floor_fl_div:
  fixes a b :: int
  assumes a: "0 \<le> a" "a < 2 ^ 53" and b: "0 < b" "b \<le> 2 ^ 53"
  shows "\<lfloor>fl (of_int a / of_int b)\<rfloor> = a div b"
proof (cases "a = 0")
  case False
  let ?x = "of_int a / of_int b :: rat" and ?q = "a div b"
  have x: "0 < ?x" using False a b by simp
  have q: "\<lfloor>?x\<rfloor> = ?q" by (simp add: floor_divide_of_int_eq)
  have q0: "0 \<le> ?q" using a b by (simp add: pos_imp_zdiv_nonneg_iff)
  have qa: "?q \<le> a" using zdiv_mono2 [of a 1 b] a b by simp
  have "of_int ?q \<le> ?x" using q by linarith
  then have lo: "of_int ?q \<le> fl ?x" by (rule fl_ge_int) (use q0 qa a in simp)
  have "a = b * ?q + a mod b" "a mod b < b" using b by simp_all
  moreover have "(?q + 1) * b = b * ?q + b" by (simp add: algebra_simps)
  ultimately have "a + 1 \<le> (?q + 1) * b" by linarith
  then have "of_int (a + 1) \<le> (of_int ((?q + 1) * b) :: rat)" by (rule of_int_le_iff [THEN iffD2])
  then have gap: "?x + 1 / of_int b \<le> of_int (?q + 1)"
    using b by (simp add: field_simps)
  have "1 / of_int b \<le> ?x" using False a b by (simp add: divide_right_mono)
  then have "2 powi (- 1022) \<le> \<bar>?x\<bar>" using tiny_le_inverse [OF b] x by linarith
  with x have "quantum ?x \<le> \<bar>?x\<bar> / 2 ^ 52" by (intro quantum_le) auto
  then have "quantum ?x \<le> ?x / 2 ^ 52" by (simp only: abs_of_pos [OF x])
  moreover have "fl ?x - ?x \<le> quantum ?x / 2" using fl_err [of ?x] by linarith
  ultimately have "fl ?x - ?x \<le> ?x / 2 ^ 53" by simp
  also have "\<dots> < 1 / of_int b"
  proof -
    have "of_int a < (of_int (2 ^ 53) :: rat)" using a(2) by (rule of_int_less_iff [THEN iffD2])
    then show ?thesis using b by (simp add: field_simps)
  qed
  finally have "fl ?x < of_int (?q + 1)" using gap by linarith
  with lo show ?thesis by (intro floor_unique) auto
qed simp


text \<open>Evaluation of floors of concrete rationals.\<close>

lemma floor_numeral_div [simp]:
  "\<lfloor>numeral a / numeral b :: rat\<rfloor> = numeral a div numeral b"
  "\<lfloor>1 / numeral b :: rat\<rfloor> = 1 div numeral b"
  "\<lfloor>- (numeral a / numeral b) :: rat\<rfloor> = - numeral a div numeral b"
  "\<lfloor>- (1 / numeral b) :: rat\<rfloor> = - 1 div numeral b"
  using floor_divide_of_int_eq [of "numeral a" "numeral b"] floor_divide_of_int_eq [of 1 "numeral b"]
    floor_divide_of_int_eq [of "- numeral a" "numeral b"] floor_divide_of_int_eq [of "- 1" "numeral b"]
  by simp_all

lemma fl_eqI:
  assumes "2 ^ 52 * 2 powi e \<le> x" "x < 2 ^ 53 * 2 powi e" "- 1074 \<le> e" "rne (x / 2 powi e) = m"
  shows "fl x = of_int m * 2 powi e"
proof -
  have x: "0 < x" using assms(1) by (rule less_le_trans [rotated]) simp
  have "expo x < 53 + e" by (rule expo_less [OF x]) (use assms(2) in \<open>simp add: power_int_add\<close>)
  moreover have "52 + e \<le> expo x" by (rule expo_ge [OF x]) (use assms(1) in \<open>simp add: power_int_add\<close>)
  ultimately have "max (expo x - 52) (- 1074) = e" using assms(3) by simp
  then have "quantum x = 2 powi e" using x by (simp add: quantum_def)
  then show ?thesis using x assms(4) by (simp add: fl_def)
qed

lemma lit_002: "fl (2 / 100) = 5764607523034235 / 2 ^ 58"
proof -
  have "fl (2 / 100) = of_int 5764607523034235 * 2 powi (- 58)"
    by (rule fl_eqI) (simp_all add: power_int_minus rne_def Let_def)
  then show ?thesis by (simp add: power_int_minus)
qed


subsection \<open>The operators and library functions of the source\<close>

text \<open>Binary operators on numbers, and a numeric literal of the source text.\<close>

definition add_js :: "jsnum \<Rightarrow> jsnum \<Rightarrow> jsnum" where
  "add_js x y = fl (x + y)"

definition sub_js :: "jsnum \<Rightarrow> jsnum \<Rightarrow> jsnum" where
  "sub_js x y = fl (x - y)"

definition mul_js :: "jsnum \<Rightarrow> jsnum \<Rightarrow> jsnum" where
  "mul_js x y = fl (x * y)"

definition div_js :: "jsnum \<Rightarrow> jsnum \<Rightarrow> jsnum" where
  "div_js x y = fl (x / y)"

definition lit :: "rat \<Rightarrow> jsnum" where
  "lit q = fl q"

text \<open>\<open>Math.floor\<close>, and \<open>Math.round\<close>, which rounds halves up.\<close>

definition math_floor :: "jsnum \<Rightarrow> jsnum" where
  "math_floor x = of_int \<lfloor>x\<rfloor>"

definition math_round :: "jsnum \<Rightarrow> jsnum" where
  "math_round x = of_int \<lfloor>x + 1 / 2\<rfloor>"

text \<open>The remainder operator truncates the quotient, and is exact on doubles.\<close>

definition rem_js :: "jsnum \<Rightarrow> jsnum \<Rightarrow> jsnum" where
  "rem_js x y = (let q = x / y; t = (if 0 \<le> q then \<lfloor>q\<rfloor> else \<lceil>q\<rceil>) in x - y * of_int t)"

text \<open>
  \<open>Number(v.toFixed(d))\<close>: the decimal with \<open>d\<close> fraction digits nearest to \<open>v\<close> (the larger
  one on a tie, computed on the magnitude), read back as a double. The library formats
  that way below magnitude \<open>10 ^ 21\<close>.
\<close>

definition to_fixed :: "nat \<Rightarrow> jsnum \<Rightarrow> jsnum" where
  "to_fixed d v =
     (let r = (\<lambda>x. fl (of_int \<lfloor>x * 10 ^ d + 1 / 2\<rfloor> / 10 ^ d))
      in if v < 0 then - r (- v) else r v)"

definition number_epsilon :: jsnum where
  "number_epsilon = 1 / 2 ^ 52"

text \<open>\<open>xs.reduce((s, x) => s + f(x), 0)\<close>.\<close>

definition sum_js :: "('a \<Rightarrow> jsnum) \<Rightarrow> 'a list \<Rightarrow> jsnum" where
  "sum_js f xs = foldl (\<lambda>s x. add_js s (f x)) 0 xs"

lemma math_floor_of_int [simp]: "math_floor (of_int n) = of_int n"
  by (simp add: math_floor_def)

lemma math_round_of_int [simp]: "math_round (of_int n) = of_int n"
proof -
  have "\<lfloor>of_int n + 1 / 2 :: rat\<rfloor> = n" by (rule floor_unique) auto
  then show ?thesis by (simp add: math_round_def)
qed

lemma sum_js_Nil [simp]: "sum_js f [] = 0"
  by (simp add: sum_js_def)

lemma sum_js_snoc: "sum_js f (xs @ [x]) = add_js (sum_js f xs) (f x)"
  by (simp add: sum_js_def)

lemma sum_js_int:
  assumes "\<And>x. x \<in> set xs \<Longrightarrow> f x = of_int (g x)"
    and "\<And>x. x \<in> set xs \<Longrightarrow> 0 \<le> g x"
    and "(\<Sum>x\<leftarrow>xs. g x) \<le> 2 ^ 53"
  shows "sum_js f xs = of_int (\<Sum>x\<leftarrow>xs. g x)"
  using assms
proof (induction xs rule: rev_induct)
  case (snoc x xs)
  have nn: "0 \<le> (\<Sum>y\<leftarrow>xs. g y)" using snoc.prems(2) by (intro sum_list_nonneg) auto
  have gx: "0 \<le> g x" using snoc.prems(2) by simp
  have le: "(\<Sum>y\<leftarrow>xs. g y) + g x \<le> 2 ^ 53" using snoc.prems(3) by simp
  have "(\<Sum>y\<leftarrow>xs. g y) \<le> 2 ^ 53" using le gx by linarith
  then have "sum_js f xs = of_int (\<Sum>y\<leftarrow>xs. g y)"
    by (intro snoc.IH snoc.prems) auto
  moreover have "fl (of_int ((\<Sum>y\<leftarrow>xs. g y) + g x)) = of_int ((\<Sum>y\<leftarrow>xs. g y) + g x)"
    by (rule fl_of_int) (use nn gx le in simp)
  ultimately show ?case
    using snoc.prems(1) by (simp add: sum_js_snoc add_js_def)
qed simp

lemma sum_js_nonneg:
  assumes "\<And>x. x \<in> set xs \<Longrightarrow> 0 \<le> f x"
  shows "0 \<le> sum_js f xs"
  using assms by (induction xs rule: rev_induct) (auto simp: sum_js_snoc add_js_def intro!: fl_nonneg)

lemma sum_js_cong: "xs = ys \<Longrightarrow> (\<And>x. x \<in> set ys \<Longrightarrow> f x = g x) \<Longrightarrow> sum_js f xs = sum_js g ys"
  unfolding sum_js_def by (rule foldl_cong) auto

lemma add_js_of_int [simp]: "\<bar>a + b\<bar> \<le> 2 ^ 53 \<Longrightarrow> add_js (of_int a) (of_int b) = of_int (a + b)"
  unfolding add_js_def by (metis fl_of_int of_int_add)

lemma sub_js_of_int [simp]: "\<bar>a - b\<bar> \<le> 2 ^ 53 \<Longrightarrow> sub_js (of_int a) (of_int b) = of_int (a - b)"
  unfolding sub_js_def by (metis fl_of_int of_int_diff)

lemma mul_js_of_int [simp]: "\<bar>a * b\<bar> \<le> 2 ^ 53 \<Longrightarrow> mul_js (of_int a) (of_int b) = of_int (a * b)"
  unfolding mul_js_def by (metis fl_of_int of_int_mult)

lemma floor_div_js:
  "0 \<le> a \<Longrightarrow> a < 2 ^ 53 \<Longrightarrow> 0 < b \<Longrightarrow> b \<le> 2 ^ 53 \<Longrightarrow>
   math_floor (div_js (of_int a) (of_int b)) = of_int (a div b)"
  by (simp add: math_floor_def div_js_def floor_fl_div)

end
