(* ===== verification/Prelude.thy ===== *)
theory Prelude
  imports JsNumber "HOL-Library.Sublist"
begin

text \<open>
  What the components share: the outcome of an asynchronous handler that may throw, the
  tables of the relational store with the repository operations the services call on
  them, and the facts about both that carry the component proofs.
\<close>

named_theorems table_simps \<open>reading a table after it was written\<close>

subsection \<open>Handlers that may throw\<close>

text \<open>
  A handler takes the state and returns the error it throws (\<open>Inl\<close>) or its value
  (\<open>Inr\<close>), together with the state it leaves behind. A throw keeps the effects that
  happened before it, as in the source; only \<open>transaction\<close> undoes writes.
\<close>

type_synonym ('s, 'e, 'a) handler = "'s \<Rightarrow> ('e + 'a) \<times> 's"

definition throw :: "'e \<Rightarrow> ('s, 'e, 'a) handler" where
  "throw e s = (Inl e, s)"

definition done_with :: "'a \<Rightarrow> ('s, 'e, 'a) handler" where
  "done_with x s = (Inr x, s)"

text \<open>\<open>await m\<close>, then the rest of the handler on its value; a throw of \<open>m\<close> propagates.\<close>

definition and_then :: "('s, 'e, 'a) handler \<Rightarrow> ('a \<Rightarrow> ('s, 'e, 'b) handler) \<Rightarrow> ('s, 'e, 'b) handler" where
  "and_then m k s = (case m s of (Inl e, s') \<Rightarrow> (Inl e, s') | (Inr x, s') \<Rightarrow> k x s')"

text \<open>
  \<open>dataSource.transaction\<close>: when the body throws, the writes to the database are undone
  (\<open>restore\<close> puts the database part of the old state into the new one) while effects
  outside the database stay.
\<close>

definition transaction :: "('s \<Rightarrow> 's \<Rightarrow> 's) \<Rightarrow> ('s, 'e, 'a) handler \<Rightarrow> ('s, 'e, 'a) handler" where
  "transaction restore body s =
     (case body s of (Inl e, s') \<Rightarrow> (Inl e, restore s s') | (Inr x, s') \<Rightarrow> (Inr x, s'))"

lemma throw_simp [simp]: "throw e s = (Inl e, s)"
  by (simp add: throw_def)

lemma done_with_simp [simp]: "done_with x s = (Inr x, s)"
  by (simp add: done_with_def)

lemma and_then_throw [simp]: "and_then (throw e) k s = (Inl e, s)"
  by (simp add: and_then_def)

lemma and_then_done [simp]: "and_then (done_with x) k s = k x s"
  by (simp add: and_then_def)

lemma transaction_ok:
  "transaction restore body s = (Inr x, s') \<longleftrightarrow> body s = (Inr x, s')"
  by (auto simp: transaction_def split: prod.splits sum.splits)

lemma transaction_err:
  "transaction restore body s = (Inl e, s') \<longleftrightarrow> (\<exists>t. body s = (Inl e, t) \<and> s' = restore s t)"
  by (auto simp: transaction_def split: prod.splits sum.splits)

subsection \<open>Tables\<close>

text \<open>
  A table of the store is the list of its rows in the order of insertion, which is the
  order of the creation time stamps the queries sort by. The operations are those the
  services call on a TypeORM repository: \<open>find\<close> and \<open>findOne\<close> by a condition, \<open>save\<close> of a
  new row, \<open>update\<close> of the rows that meet a condition and \<open>delete\<close> of them.
\<close>

definition find_where :: "('r \<Rightarrow> bool) \<Rightarrow> 'r list \<Rightarrow> 'r list" where
  "find_where p t = filter p t"

definition find_one :: "('r \<Rightarrow> bool) \<Rightarrow> 'r list \<Rightarrow> 'r option" where
  "find_one p t = List.find p t"

definition insert_row :: "'r \<Rightarrow> 'r list \<Rightarrow> 'r list" where
  "insert_row r t = t @ [r]"

definition update_where :: "('r \<Rightarrow> bool) \<Rightarrow> ('r \<Rightarrow> 'r) \<Rightarrow> 'r list \<Rightarrow> 'r list" where
  "update_where p f t = map (\<lambda>r. if p r then f r else r) t"

definition delete_where :: "('r \<Rightarrow> bool) \<Rightarrow> 'r list \<Rightarrow> 'r list" where
  "delete_where p t = filter (\<lambda>r. \<not> p r) t"

definition affected :: "('r \<Rightarrow> bool) \<Rightarrow> 'r list \<Rightarrow> nat" where
  "affected p t = length (filter p t)"

lemma find_where_insert [table_simps, simp]:
  "find_where p (insert_row r t) = find_where p t @ (if p r then [r] else [])"
  by (simp add: find_where_def insert_row_def)

lemma find_where_update_other [table_simps]:
  "(\<And>r. q r \<Longrightarrow> p (f r) = p r) \<Longrightarrow> find_where p (update_where q f t) = update_where q f (find_where p t)"
  by (induction t) (auto simp: find_where_def update_where_def)

lemma find_one_SomeD: "find_one p t = Some r \<Longrightarrow> p r \<and> r \<in> set t"
  by (auto simp: find_one_def find_Some_iff)

lemma find_one_None_iff [table_simps]: "find_one p t = None \<longleftrightarrow> (\<forall>r \<in> set t. \<not> p r)"
  by (auto simp: find_one_def find_None_iff)

lemma set_insert_row [table_simps, simp]: "set (insert_row r t) = insert r (set t)"
  by (simp add: insert_row_def)

lemma set_update_where [table_simps]:
  "set (update_where p f t) = (\<lambda>r. if p r then f r else r) ` set t"
  by (simp add: update_where_def)

lemma set_delete_where [table_simps, simp]: "set (delete_where p t) = {r \<in> set t. \<not> p r}"
  by (auto simp: delete_where_def)

lemma length_update_where [simp]: "length (update_where p f t) = length t"
  by (simp add: update_where_def)

lemma map_update_where [table_simps]:
  "(\<And>r. p r \<Longrightarrow> g (f r) = g r) \<Longrightarrow> map g (update_where p f t) = map g t"
  by (simp add: update_where_def)

lemma affected_eq_0 [simp]: "affected p t = 0 \<longleftrightarrow> (\<forall>r \<in> set t. \<not> p r)"
  by (simp add: affected_def filter_empty_conv)

lemma affected_pos: "0 < affected p t \<longleftrightarrow> (\<exists>r \<in> set t. p r)"
  by (auto simp: affected_def filter_empty_conv)

lemma update_where_none: "\<forall>r \<in> set t. \<not> p r \<Longrightarrow> update_where p f t = t"
  by (simp add: update_where_def map_idI)

lemma find_one_insert:
  "find_one p (insert_row r t) =
     (case find_one p t of Some x \<Rightarrow> Some x | None \<Rightarrow> if p r then Some r else None)"
  by (induction t) (auto simp: find_one_def insert_row_def)

lemma find_one_update [table_simps]:
  "(\<And>r. q r \<Longrightarrow> p (f r) = p r) \<Longrightarrow>
   find_one p (update_where q f t) = map_option (\<lambda>r. if q r then f r else r) (find_one p t)"
  by (induction t) (auto simp: find_one_def update_where_def)

lemma find_one_cong: "(\<And>r. r \<in> set t \<Longrightarrow> p r = q r) \<Longrightarrow> find_one p t = find_one q t"
  unfolding find_one_def by (rule find_cong) auto

text \<open>A row that is found and saved again with the same key.\<close>

lemma find_one_replaced:
  "find_one P t = Some q \<Longrightarrow> P c \<Longrightarrow> find_one P (update_where (\<lambda>r. g r = g q) (\<lambda>_. c) t) = Some c"
  by (induction t) (auto simp: find_one_def update_where_def split: if_splits)

lemma map_update_key:
  "distinct (map k rows) \<Longrightarrow> r \<in> set rows \<Longrightarrow> h r' = h r \<Longrightarrow> map h (update_where (\<lambda>x. k x = k r) (\<lambda>_. r') rows) = map h rows"
  by (auto simp: update_where_def distinct_map inj_on_def)

lemma sum_update_where:
  fixes g :: "'a \<Rightarrow> int"
  assumes "distinct (map k rows)" "r \<in> set rows"
  shows "(\<Sum>x\<leftarrow>update_where (\<lambda>x. k x = k r) (\<lambda>_. r') rows. g x) = (\<Sum>x\<leftarrow>rows. g x) - g r + g r'"
  using assms
proof (induction rows)
  case (Cons y rows)
  show ?case
  proof (cases "y = r")
    case True
    with Cons.prems(1) have "update_where (\<lambda>x. k x = k r) (\<lambda>_. r') rows = rows"
      by (intro update_where_none) (auto simp: image_iff)
    with True show ?thesis by (simp add: update_where_def)
  next
    case False
    with Cons.prems have "r \<in> set rows" "k y \<noteq> k r" by auto
    with Cons show ?thesis by (simp add: update_where_def)
  qed
qed simp

text \<open>
  The contract of a repository that the components rely on: what a query returns after
  an insertion, after an update and after a deletion, over any carrier of tables.
\<close>

locale repository =
  fixes all_rows :: "'t \<Rightarrow> 'r list"
    and query :: "('r \<Rightarrow> bool) \<Rightarrow> 't \<Rightarrow> 'r list"
    and insert_one :: "'r \<Rightarrow> 't \<Rightarrow> 't"
    and update_rows :: "('r \<Rightarrow> bool) \<Rightarrow> ('r \<Rightarrow> 'r) \<Rightarrow> 't \<Rightarrow> 't"
    and delete_rows :: "('r \<Rightarrow> bool) \<Rightarrow> 't \<Rightarrow> 't"
  assumes query_rows: "query p t = filter p (all_rows t)"
    and rows_insert: "all_rows (insert_one r t) = all_rows t @ [r]"
    and rows_update: "all_rows (update_rows p f t) = map (\<lambda>r. if p r then f r else r) (all_rows t)"
    and rows_delete: "all_rows (delete_rows p t) = filter (\<lambda>r. \<not> p r) (all_rows t)"
begin

lemma query_insert: "query p (insert_one r t) = query p t @ (if p r then [r] else [])"
  by (simp add: query_rows rows_insert)

lemma update_leaves_condition: "(\<And>r. p r \<Longrightarrow> \<not> p (f r)) \<Longrightarrow> query p (update_rows p f t) = []"
  by (auto simp: query_rows rows_update filter_empty_conv)

lemma delete_then_query: "query p (delete_rows p t) = []"
  by (simp add: query_rows rows_delete filter_empty_conv)

lemma delete_keeps_others: "(\<And>r. q r \<Longrightarrow> \<not> p r) \<Longrightarrow> query q (delete_rows p t) = query q t"
  by (auto simp: query_rows rows_delete intro!: filter_cong)

lemma row_accounted: "r \<in> set (all_rows t) \<Longrightarrow> r \<in> set (all_rows (delete_rows p t)) \<or> r \<in> set (query p t)"
  by (auto simp: query_rows rows_delete)

end

interpretation tbl: repository "\<lambda>t. t" find_where insert_row update_where delete_where
  by unfold_locales (simp_all add: find_where_def insert_row_def update_where_def delete_where_def)

subsection \<open>Lists\<close>

lemma sum_list_mono_map:
  fixes f g :: "'a \<Rightarrow> int"
  shows "(\<And>x. x \<in> set xs \<Longrightarrow> f x \<le> g x) \<Longrightarrow> (\<Sum>x\<leftarrow>xs. f x) \<le> (\<Sum>x\<leftarrow>xs. g x)"
  by (induction xs) (auto simp: add_mono)

lemma subseq_set: "subseq xs ys \<Longrightarrow> set xs \<subseteq> set ys"
  using set_nths_subset by (fastforce simp: subseq_conv_nths)

lemma of_int_sum_list_map: "of_int (\<Sum>x\<leftarrow>xs. f x) = (\<Sum>x\<leftarrow>xs. of_int (f x))"
  by (induction xs) auto

subsection \<open>Strings\<close>

text \<open>\<open>s.split(sep)\<close> for a separator of one character.\<close>

fun split_on :: "char \<Rightarrow> string \<Rightarrow> string list" where
  "split_on sep [] = [[]]"
| "split_on sep (c # cs) =
     (if c = sep then [] # split_on sep cs
      else case split_on sep cs of [] \<Rightarrow> [[c]] | p # ps \<Rightarrow> (c # p) # ps)"

lemma split_on_nonempty [simp]: "split_on sep t \<noteq> []"
  by (cases t) (auto split: list.split)

lemma split_on_append:
  "sep \<notin> set u \<Longrightarrow> split_on sep (u @ sep # v) = u # split_on sep v"
  by (induction u) auto

lemma split_on_no_sep: "sep \<notin> set u \<Longrightarrow> split_on sep u = [u]"
  by (induction u) auto

end
