(* ===== verification/Money.thy ===== *)
theory Money
  imports Prelude
begin

text \<open>
  \<open>backend/src/common/money\<close>: splitting an integer amount by ratios
  (\<open>split-ratio.ts\<close>) and the conversion between XLM and stroops (\<open>stroops.ts\<close>). The
  theory also proves, once for the two services that use it, that the loop which gives
  every party but the last the floor of its proportional share and the last one the
  rest hands out exactly the total and never a negative amount (\<open>prorata\<close>).
\<close>

subsection \<open>Ratios\<close>

datatype ratio_error = RatiosEmpty | RatioNegative | RatiosDoNotSum jsnum

definition split_ratio :: "jsnum \<Rightarrow> jsnum list \<Rightarrow> ratio_error + jsnum list" where
  "split_ratio tot ratios =
     (if ratios = [] then Inl RatiosEmpty
      else if list_ex (\<lambda>r. r < 0) ratios then Inl RatioNegative
      else
        let s = sum_js (\<lambda>r. r) ratios
        in if lit (1 / 10 ^ 9) < \<bar>sub_js s 1\<bar> then Inl (RatiosDoNotSum s)
           else
             let shares = map (\<lambda>r. math_floor (mul_js tot r)) ratios;
                 distributed = sum_js (\<lambda>x. x) shares;
                 i = length shares - 1
             in Inr (shares[i := add_js (shares ! i) (sub_js tot distributed)]))"

definition stroops_per_xlm :: jsnum where
  "stroops_per_xlm = 10000000"

definition to_stroops :: "jsnum \<Rightarrow> jsnum" where
  "to_stroops xlm = math_floor (mul_js xlm stroops_per_xlm)"

definition from_stroops :: "jsnum \<Rightarrow> jsnum" where
  "from_stroops stroops = div_js stroops stroops_per_xlm"

subsection \<open>Relative rounding error\<close>

abbreviation ulp1 :: rat where
  "ulp1 \<equiv> 1 / 2 ^ 53"

definition well_scaled :: "rat \<Rightarrow> bool" where
  "well_scaled x \<longleftrightarrow> x = 0 \<or> 1 / 2 ^ 300 \<le> x"

lemma well_scaled_nonneg: "well_scaled x \<Longrightarrow> 0 \<le> x"
  by (auto simp: well_scaled_def intro: order_trans [rotated])

lemma scale_tiny: "(2::rat) powi (- 1022) \<le> 1 / 2 ^ 300"
proof -
  have "(2::rat) powi (- 1022) \<le> 2 powi (- 300)" by (rule power_int_increasing) auto
  also have "\<dots> = 1 / 2 ^ 300" by (simp add: power_int_minus)
  finally show ?thesis .
qed

lemma fl_rel:
  assumes "well_scaled x"
  shows "fl x \<le> x * (1 + ulp1)" and "x * (1 - ulp1) \<le> fl x"
proof -
  have "\<bar>fl x - x\<bar> \<le> x * ulp1"
  proof (cases "x = 0")
    case False
    with assms have x: "1 / 2 ^ 300 \<le> x" by (simp add: well_scaled_def)
    then have "2 powi (- 1022) \<le> x" using scale_tiny by (rule order_trans [rotated])
    moreover from x have x0: "0 < x" by (rule less_le_trans [rotated]) simp
    ultimately have "quantum x \<le> \<bar>x\<bar> / 2 ^ 52" by (intro quantum_le) auto
    then have "quantum x / 2 \<le> x * ulp1" using x0 by simp
    with fl_err [of x] show ?thesis by linarith
  qed simp
  then have "fl x - x \<le> x * ulp1" "x - fl x \<le> x * ulp1" by linarith+
  then show "fl x \<le> x * (1 + ulp1)" and "x * (1 - ulp1) \<le> fl x"
    by (simp_all add: algebra_simps)
qed

lemma fl_pow2: "fl (1 / 2 ^ 300) = 1 / 2 ^ 300"
  using fl_exact [of 1 "- 300"] by (simp add: power_int_minus)

lemma fl_well_scaled: "well_scaled x \<Longrightarrow> well_scaled (fl x)"
  using fl_mono [of "1 / 2 ^ 300" x] unfolding well_scaled_def fl_pow2 by fastforce

lemma fl_pos: "1 / 2 ^ 300 \<le> x \<Longrightarrow> 0 < fl x"
  using fl_mono [of "1 / 2 ^ 300" x] less_le_trans [of 0 "1 / 2 ^ 300" "fl x"]
  unfolding fl_pow2 by fastforce

lemma well_scaled_add: "well_scaled x \<Longrightarrow> well_scaled y \<Longrightarrow> well_scaled (x + y)"
  using well_scaled_nonneg [of x] well_scaled_nonneg [of y]
  by (auto simp: well_scaled_def)

lemma power_one_minus: "1 - of_nat n * ulp1 \<le> (1 - ulp1) ^ n"
proof (induction n)
  case (Suc n)
  have "1 - of_nat (Suc n) * ulp1 \<le> (1 - of_nat n * ulp1) * (1 - ulp1)"
    by (simp add: algebra_simps)
  also have "\<dots> \<le> (1 - ulp1) ^ n * (1 - ulp1)"
    using Suc.IH by (intro mult_right_mono) auto
  finally show ?case by (simp add: mult.commute)
qed simp

lemma sum_js_scaled:
  assumes "\<forall>w \<in> set ws. well_scaled (f w)"
  shows "well_scaled (sum_js f ws) \<and> (\<Sum>w\<leftarrow>ws. f w) * (1 - ulp1) ^ length ws \<le> sum_js f ws"
  using assms
proof (induction ws rule: rev_induct)
  case Nil
  then show ?case by (simp add: well_scaled_def)
next
  case (snoc w ws)
  let ?s = "sum_js f ws" and ?S = "\<Sum>w\<leftarrow>ws. f w" and ?p = "(1 - ulp1) ^ length ws"
  have IH: "well_scaled ?s" "?S * ?p \<le> ?s" using snoc by auto
  have w: "well_scaled (f w)" "0 \<le> f w" using snoc.prems well_scaled_nonneg by auto
  have sw: "well_scaled (?s + f w)" using IH(1) w(1) by (rule well_scaled_add)
  have p1: "?p \<le> 1" by (intro power_le_one) auto
  have "f w * ?p \<le> f w" using p1 w(2) by (simp add: mult_left_le)
  then have "(?S + f w) * ?p \<le> ?s + f w" using IH(2) by (simp add: algebra_simps)
  then have "(?S + f w) * ?p * (1 - ulp1) \<le> (?s + f w) * (1 - ulp1)"
    by (intro mult_right_mono) auto
  also have "\<dots> \<le> fl (?s + f w)" by (rule fl_rel(2) [OF sw])
  finally show ?case
    using fl_well_scaled [OF sw] by (simp add: sum_js_snoc add_js_def mult.assoc mult.commute)
qed


subsection \<open>Proportional allocation with the rest to the last party\<close>

text \<open>
  The loop shared by \<open>computeFarmerPayoutSplits\<close> and \<open>allocateProportionalAmounts\<close>, over
  the weights alone: \<open>share\<close> is the floor of the proportional part as the code computes it.
\<close>

definition share :: "jsnum \<Rightarrow> jsnum \<Rightarrow> jsnum \<Rightarrow> jsnum" where
  "share t tw w = math_floor (div_js (mul_js t w) tw)"

fun prorata :: "jsnum \<Rightarrow> jsnum \<Rightarrow> jsnum \<Rightarrow> jsnum list \<Rightarrow> jsnum list" where
  "prorata t tw alloc [] = []"
| "prorata t tw alloc [w] = [sub_js t alloc]"
| "prorata t tw alloc (w # v # ws) =
     share t tw w # prorata t tw (add_js alloc (share t tw w)) (v # ws)"

lemma length_prorata [simp]: "length (prorata t tw a ws) = length ws"
  by (induction t tw a ws rule: prorata.induct) auto

lemma share_floor: "share t tw w = of_int \<lfloor>fl (fl (t * w) / tw)\<rfloor>"
  by (simp add: share_def math_floor_def div_js_def mul_js_def)

lemma share_nonneg: "0 \<le> t \<Longrightarrow> 0 \<le> w \<Longrightarrow> 0 < tw \<Longrightarrow> 0 \<le> share t tw w"
  unfolding share_floor by (simp add: fl_nonneg)

lemma share_le:
  assumes t: "1 \<le> t" and w: "w = 0 \<or> 1 / 2 ^ 100 \<le> w" and tw: "0 < tw" "tw \<le> 2 ^ 100"
  shows "share t tw w \<le> t * w / tw * (1 + ulp1) ^ 2"
proof (cases "w = 0")
  case False
  with w have w': "1 / 2 ^ 100 \<le> w" by simp
  then have w0: "0 < w" by (rule less_le_trans [rotated]) simp
  have "1 * w \<le> t * w" by (rule mult_right_mono [OF t less_imp_le [OF w0]])
  with w' have tw': "1 / 2 ^ 100 \<le> t * w" by linarith
  then have ws1: "well_scaled (t * w)" by (auto simp: well_scaled_def)
  let ?a = "fl (t * w)"
  have "1 / 2 ^ 100 = fl (1 / 2 ^ 100)"
    using fl_exact [of 1 "- 100"] by (simp add: power_int_minus)
  then have a: "1 / 2 ^ 100 \<le> ?a" using fl_mono [OF tw'] by linarith
  have "1 / 2 ^ 300 \<le> (1 / 2 ^ 100) / (2 ^ 100 :: rat)" by simp
  also have "\<dots> \<le> ?a / tw" using a tw by (intro frac_le) auto
  finally have ws2: "well_scaled (?a / tw)" by (simp add: well_scaled_def)
  have "share t tw w \<le> fl (?a / tw)" by (simp add: share_floor)
  also have "\<dots> \<le> ?a / tw * (1 + ulp1)" by (rule fl_rel(1) [OF ws2])
  also have "\<dots> \<le> (t * w * (1 + ulp1)) / tw * (1 + ulp1)"
    using fl_rel(1) [OF ws1] tw by (intro mult_right_mono divide_right_mono) auto
  finally show ?thesis by (simp add: power2_eq_square mult.assoc)
qed (simp add: share_floor)

lemma prorata_int:
  assumes "ws \<noteq> []" "\<And>w. w \<in> set (butlast ws) \<Longrightarrow> share t tw w = of_int (c w) \<and> 0 \<le> c w"
    and "t = of_int T" "0 \<le> A" "A + (\<Sum>w\<leftarrow>butlast ws. c w) \<le> T" "T \<le> 2 ^ 53"
  shows "prorata t tw (of_int A) ws = map of_int (map c (butlast ws) @ [T - A - (\<Sum>w\<leftarrow>butlast ws. c w)])"
  using assms
proof (induction ws arbitrary: A rule: induct_list012)
  case (2 w)
  then show ?case by simp
next
  case (3 w v ws)
  have cw: "share t tw w = of_int (c w)" "0 \<le> c w" using "3.prems"(2) [of w] by auto
  have nn: "0 \<le> (\<Sum>x\<leftarrow>butlast (v # ws). c x)"
    by (intro sum_list_nonneg) (use "3.prems"(2) in auto)
  have le: "A + c w + (\<Sum>x\<leftarrow>butlast (v # ws). c x) \<le> T" using "3.prems"(5) by simp
  have "add_js (of_int A) (share t tw w) = of_int (A + c w)"
    unfolding cw(1) by (rule add_js_of_int) (use nn le cw(2) "3.prems"(4,6) in linarith)
  moreover have "prorata t tw (of_int (A + c w)) (v # ws) =
      map of_int (map c (butlast (v # ws)) @ [T - (A + c w) - (\<Sum>x\<leftarrow>butlast (v # ws). c x)])"
    by (rule "3.IH"(2)) (use "3.prems" cw(2) le in auto)
  ultimately show ?case by (simp add: cw(1) diff_diff_eq add.assoc)
qed simp


lemma allocation_bound:
  fixes T X :: rat
  assumes "0 \<le> T" "T \<le> 2 ^ 40" "0 \<le> X" "X * (1 - of_nat n * ulp1) \<le> 1" "n \<le> 1000"
  shows "T * X * (1 + ulp1) ^ 2 < T + 1"
proof -
  have "(of_nat n :: rat) \<le> 1000" using assms(5) by simp
  then have "X * (1 - 1000 * ulp1) \<le> X * (1 - of_nat n * ulp1)"
    using assms(3) by (intro mult_left_mono) auto
  with assms(4) have "X * (1 - 1000 * ulp1) \<le> 1" by linarith
  then have "X \<le> 1 + 1 / 2 ^ 42" by simp
  then have "X * (1 + ulp1) ^ 2 \<le> (1 + 1 / 2 ^ 42) * (1 + ulp1) ^ 2"
    by (intro mult_right_mono) auto
  also have "\<dots> \<le> 1 + 1 / 2 ^ 41" by (simp add: power2_eq_square)
  finally have "T * (X * (1 + ulp1) ^ 2) \<le> T * (1 + 1 / 2 ^ 41)"
    using assms(1) by (rule mult_left_mono)
  also have "\<dots> < T + 1" using assms(2) by (simp add: algebra_simps)
  finally show ?thesis by (simp add: mult.assoc)
qed

lemma sum_list_map_scale: "(\<Sum>w\<leftarrow>ws. a * w / b * c) = a * (\<Sum>w\<leftarrow>ws. w) / b * (c::rat)"
  by (induction ws) (simp_all add: algebra_simps add_divide_distrib)

lemma sum_butlast_le:
  fixes f :: "'a \<Rightarrow> 'b::ordered_ab_group_add"
  assumes "\<And>x. x \<in> set xs \<Longrightarrow> 0 \<le> f x"
  shows "(\<Sum>x\<leftarrow>butlast xs. f x) \<le> (\<Sum>x\<leftarrow>xs. f x)"
  using assms by (induction xs rule: rev_induct) auto

lemma shares_within_total:
  assumes n: "length ws \<le> 1000" and T: "0 \<le> T" "T \<le> 2 ^ 40"
    and ws: "\<forall>w \<in> set ws. w = 0 \<or> 1 / 2 ^ 100 \<le> w"
    and tw: "tw = sum_js (\<lambda>w. w) ws" "0 < tw" "tw \<le> 2 ^ 100"
  shows "(\<Sum>w\<leftarrow>butlast ws. \<lfloor>fl (fl (of_int T * w) / tw)\<rfloor>) \<le> T"
proof (cases "T = 0")
  case True
  then show ?thesis by simp
next
  case False
  then have T1: "1 \<le> (of_int T :: rat)" using T by simp
  have T40: "(of_int T :: rat) \<le> 2 ^ 40" using T(2) by (metis of_int_le_iff of_int_numeral of_int_power)
  have nn: "0 \<le> w" if "w \<in> set ws" for w
    using ws that by (auto intro: order_trans [of 0 "1 / 2 ^ 100"])
  have scaled: "\<forall>w \<in> set ws. well_scaled w"
    using ws by (auto simp: well_scaled_def intro: order_trans [rotated])
  let ?S = "\<Sum>w\<leftarrow>ws. w" and ?X = "(\<Sum>w\<leftarrow>ws. w) / tw"
  have "?S * (1 - of_nat (length ws) * ulp1) \<le> ?S * (1 - ulp1) ^ length ws"
    using nn by (intro mult_left_mono power_one_minus sum_list_nonneg) auto
  also have "\<dots> \<le> tw" using sum_js_scaled [of ws "\<lambda>w. w"] scaled tw(1) by simp
  finally have X: "?X * (1 - of_nat (length ws) * ulp1) \<le> 1" using tw(2) by (simp add: field_simps)
  have X0: "0 \<le> ?X" using nn tw(2) by (intro divide_nonneg_pos sum_list_nonneg) auto
  have "of_int (\<Sum>w\<leftarrow>butlast ws. \<lfloor>fl (fl (of_int T * w) / tw)\<rfloor>)
      = (\<Sum>w\<leftarrow>butlast ws. share (of_int T) tw w)"
    by (simp only: share_floor of_int_sum_list_map)
  also have "\<dots> \<le> (\<Sum>w\<leftarrow>butlast ws. of_int T * w / tw * (1 + ulp1) ^ 2)"
    by (intro sum_list_mono share_le T1 tw) (use ws in_set_butlastD in fast)
  also have "\<dots> \<le> (\<Sum>w\<leftarrow>ws. of_int T * w / tw * (1 + ulp1) ^ 2)"
    using nn T1 tw(2) by (intro sum_butlast_le) auto
  also have "\<dots> = of_int T * ?S / tw * (1 + ulp1) ^ 2" by (rule sum_list_map_scale)
  also have "\<dots> = of_int T * ?X * (1 + ulp1) ^ 2" by (simp only: times_divide_eq_right)
  also have "\<dots> < of_int T + 1"
    by (rule allocation_bound [OF _ _ X0 X n]) (use T in \<open>simp_all only: of_int_0_le_iff T40\<close>)
  finally have "of_int (\<Sum>w\<leftarrow>butlast ws. \<lfloor>fl (fl (of_int T * w) / tw)\<rfloor>) < (of_int (T + 1) :: rat)"
    by simp
  then show ?thesis by (simp only: of_int_less_iff)
qed

text \<open>The allocation hands out exactly the total, in non-negative integer parts.\<close>

lemma prorata_allocates:
  assumes "ws \<noteq> []" "length ws \<le> 1000" "0 \<le> T" "T \<le> 2 ^ 40"
    and "\<forall>w \<in> set ws. w = 0 \<or> 1 / 2 ^ 100 \<le> w"
    and "tw = sum_js (\<lambda>w. w) ws" "0 < tw" "tw \<le> 2 ^ 100"
  shows "\<exists>cs. prorata (of_int T) tw 0 ws = map of_int cs \<and> sum_list cs = T \<and> (\<forall>c \<in> set cs. 0 \<le> c)"
proof -
  let ?c = "\<lambda>w. \<lfloor>fl (fl (of_int T * w) / tw)\<rfloor>"
  let ?r = "T - (\<Sum>w\<leftarrow>butlast ws. ?c w)"
  have le: "(\<Sum>w\<leftarrow>butlast ws. ?c w) \<le> T" by (rule shares_within_total) (use assms in auto)
  have c: "share (of_int T) tw w = of_int (?c w) \<and> 0 \<le> ?c w" if "w \<in> set (butlast ws)" for w
  proof -
    have "0 \<le> w" using assms(5) in_set_butlastD [OF that] by (auto intro: order_trans [of 0 "1 / 2 ^ 100"])
    then have "0 \<le> share (of_int T) tw w" using assms(3,7) by (intro share_nonneg) auto
    then show ?thesis by (simp add: share_floor)
  qed
  have "prorata (of_int T) tw (of_int 0) ws = map of_int (map ?c (butlast ws) @ [T - 0 - (\<Sum>w\<leftarrow>butlast ws. ?c w)])"
    by (rule prorata_int) (use assms(1,3,4) c le in auto)
  moreover have "\<forall>x \<in> set (map ?c (butlast ws) @ [?r]). 0 \<le> x" using c le by auto
  ultimately show ?thesis
    by (intro exI [of _ "map ?c (butlast ws) @ [?r]"]) simp
qed


subsection \<open>Properties\<close>

lemma fl_sum_js: "fl (sum_js f xs) = sum_js f xs"
  by (induction xs rule: rev_induct) (simp_all add: sum_js_snoc add_js_def)

lemma sum_js_ge_member:
  assumes "\<forall>x \<in> set xs. 0 \<le> f x \<and> fl (f x) = f x" "y \<in> set xs"
  shows "f y \<le> sum_js f xs"
  using assms
proof (induction xs rule: rev_induct)
  case (snoc x xs)
  have s0: "0 \<le> sum_js f xs" by (rule sum_js_nonneg) (use snoc.prems in auto)
  show ?case
  proof (cases "y = x")
    case True
    have "fl (f x) \<le> fl (sum_js f xs + f x)" using s0 by (intro fl_mono) simp
    with True snoc.prems show ?thesis by (simp add: sum_js_snoc add_js_def)
  next
    case False
    have "sum_js f xs \<le> fl (sum_js f xs + f x)"
      using fl_mono [of "sum_js f xs" "sum_js f xs + f x"] snoc.prems by (simp add: fl_sum_js)
    moreover have "f y \<le> sum_js f xs" using snoc False by auto
    ultimately show ?thesis by (simp add: sum_js_snoc add_js_def)
  qed
qed simp

lemma ratio_sum_le_2: "\<not> lit (1 / 10 ^ 9) < \<bar>sub_js s 1\<bar> \<Longrightarrow> s \<le> 2"
proof (rule ccontr)
  assume h: "\<not> lit (1 / 10 ^ 9) < \<bar>sub_js s 1\<bar>" "\<not> s \<le> 2"
  have "fl (1 / 10 ^ 9) \<le> fl (1 / 2)" by (rule fl_mono) simp
  moreover have "fl (1 / 2) = 1 / 2" using fl_exact [of 1 "- 1"] by (simp add: power_int_minus)
  moreover have "fl 1 \<le> fl (s - 1)" using h(2) by (intro fl_mono) simp
  ultimately show False using h(1) by (simp add: lit_def sub_js_def)
qed

lemma sum_list_last_update:
  fixes xs :: "rat list"
  assumes "xs \<noteq> []"
  shows "sum_list (xs[length xs - 1 := y]) = sum_list xs - last xs + y"
  using assms by (cases xs rule: rev_cases) auto

text \<open>
  Whenever \<open>splitRatio\<close> accepts the ratios, the shares it returns for an integer total
  add up to exactly that total, there is one share per ratio, and every share but the
  last is the non-negative floor of its part.
\<close>

theorem split_ratio_conserves:
  assumes ok: "split_ratio (of_int T) ratios = Inr shares"
    and T: "0 \<le> T" "T * int (length ratios) \<le> 2 ^ 51"
    and dbl: "\<forall>r \<in> set ratios. fl r = r"
  shows "sum_list shares = of_int T \<and> length shares = length ratios \<and>
    (\<forall>i < length ratios - 1. shares ! i = math_floor (mul_js (of_int T) (ratios ! i)) \<and> 0 \<le> shares ! i)"
proof -
  let ?k = "\<lambda>r. \<lfloor>fl (of_int T * r)\<rfloor>" and ?n = "length ratios"
  let ?ss = "map (\<lambda>r. math_floor (mul_js (of_int T) r)) ratios"
  have ne: "ratios \<noteq> []" and nn: "\<forall>r \<in> set ratios. 0 \<le> r"
    and s: "\<not> lit (1 / 10 ^ 9) < \<bar>sub_js (sum_js (\<lambda>r. r) ratios) 1\<bar>"
    and sh: "shares = ?ss[?n - 1 := add_js (?ss ! (?n - 1)) (sub_js (of_int T) (sum_js (\<lambda>x. x) ?ss))]"
    using ok by (auto simp: split_ratio_def Let_def list_ex_iff split: if_splits)
  have "T * 1 \<le> T * int ?n" by (rule mult_left_mono) (use T ne in \<open>auto simp: Suc_le_eq\<close>)
  with T(2) have T51: "T \<le> 2 ^ 51" by linarith
  have ss: "?ss = map of_int (map ?k ratios)"
    by (simp add: math_floor_def mul_js_def)
  have k: "0 \<le> ?k r" "?k r \<le> 2 * T" if "r \<in> set ratios" for r
  proof -
    have "r \<le> sum_js (\<lambda>r. r) ratios" by (rule sum_js_ge_member) (use nn dbl that in auto)
    then have r2: "r \<le> 2" using ratio_sum_le_2 [OF s] by linarith
    show "0 \<le> ?k r" using T(1) nn that by (simp add: fl_nonneg)
    have "of_int T * r \<le> of_int T * 2" by (rule mult_left_mono [OF r2]) (use T(1) in simp)
    then have "of_int T * r \<le> of_int (2 * T)" by (simp add: mult.commute)
    then have "fl (of_int T * r) \<le> of_int (2 * T)" by (rule fl_le_int) (use T(1) T51 in simp)
    then show "?k r \<le> 2 * T" by (simp add: floor_le_iff)
  qed
  have "(\<Sum>r\<leftarrow>ratios. ?k r) \<le> (\<Sum>r\<leftarrow>ratios. 2 * T)" by (rule sum_list_mono_map) (use k in auto)
  also have "\<dots> \<le> 2 ^ 52" using T(2) by (simp add: sum_list_triv)
  finally have K: "(\<Sum>r\<leftarrow>ratios. ?k r) \<le> 2 ^ 52" .
  have K0: "0 \<le> (\<Sum>r\<leftarrow>ratios. ?k r)" by (intro sum_list_nonneg) (use k in auto)
  have dist: "sum_js (\<lambda>x. x) ?ss = of_int (\<Sum>r\<leftarrow>ratios. ?k r)"
  proof -
    have "sum_js (\<lambda>x. x) ?ss = of_int (\<Sum>x\<leftarrow>?ss. \<lfloor>x\<rfloor>)"
      by (rule sum_js_int) (use k K in \<open>auto simp: ss o_def\<close>)
    then show ?thesis by (simp add: ss o_def)
  qed
  have T52: "2 * T \<le> 2 ^ 52" using T51 by simp
  have lastk: "?k (last ratios) \<le> 2 ^ 52" "0 \<le> ?k (last ratios)"
    using k(2) [OF last_in_set [OF ne]] k(1) [OF last_in_set [OF ne]] T52 by - linarith+
  have lst: "?ss ! (?n - 1) = of_int (?k (last ratios))"
    using ne by (simp add: ss last_conv_nth)
  have upd: "add_js (?ss ! (?n - 1)) (sub_js (of_int T) (sum_js (\<lambda>x. x) ?ss))
      = of_int (?k (last ratios) + (T - (\<Sum>r\<leftarrow>ratios. ?k r)))"
  proof -
    have a: "\<bar>T - (\<Sum>r\<leftarrow>ratios. ?k r)\<bar> \<le> 2 ^ 53" using K K0 T51 T(1) by (simp add: abs_le_iff)
    have b: "\<bar>?k (last ratios) + (T - (\<Sum>r\<leftarrow>ratios. ?k r))\<bar> \<le> 2 ^ 53"
    proof -
      have "(2::int) ^ 52 + 2 ^ 51 \<le> 2 ^ 53" "0 \<le> (2::int) ^ 51" by simp_all
      then show ?thesis using K K0 T51 T(1) lastk by linarith
    qed
    show ?thesis unfolding dist lst sub_js_of_int [OF a] by (rule add_js_of_int [OF b])
  qed
  have "sum_list shares = sum_list ?ss - last ?ss + of_int (?k (last ratios) + (T - (\<Sum>r\<leftarrow>ratios. ?k r)))"
    unfolding sh upd using sum_list_last_update [of ?ss] ne by simp
  moreover have "sum_list ?ss = of_int (\<Sum>r\<leftarrow>ratios. ?k r)"
    by (simp add: ss o_def of_int_sum_list_map)
  moreover have "last ?ss = of_int (?k (last ratios))" using ne by (simp add: ss last_map)
  ultimately have "sum_list shares = of_int T" by simp
  moreover have "\<forall>i < ?n - 1. shares ! i = math_floor (mul_js (of_int T) (ratios ! i)) \<and> 0 \<le> shares ! i"
    using k(1) by (auto simp: sh mul_js_def math_floor_def)
  ultimately show ?thesis by (simp add: sh)
qed

theorem split_ratio_conserves_witness:
  "split_ratio (of_int 101) [1 / 2, 1 / 4, 1 / 4] = Inr [50, 25, 26]
   \<and> sum_list [50, 25, 26 :: rat] = of_int 101"
proof -
  have h: "split_ratio (of_int 101) [1 / 2, 1 / 4, 1 / 4] = Inr [50, 25, 26]" by code_simp
  have d: "\<forall>r \<in> set [1 / 2, 1 / 4, 1 / 4 :: rat]. fl r = r" by code_simp
  show ?thesis using h split_ratio_conserves [OF h _ _ d] by simp
qed

text \<open>
  The last share absorbs the difference, so the tolerance on the sum of the ratios can
  make it negative: two ratios that exceed one by less than 1e-9 turn a total of
  \<open>2 ^ 33\<close> stroops into a share of minus four stroops.
\<close>

theorem split_ratio_negative_share:
  "split_ratio (2 ^ 33) [1 / 2 + 1 / 2 ^ 31, 1 / 2, 0] = Inr [2 ^ 32 + 4, 2 ^ 32, - 4]"
  by code_simp

end
