(* ===== verification/PayoutSplit.thy ===== *)
theory PayoutSplit
  imports Money
begin

text \<open>
  \<open>backend/src/escrow/payout-split.ts\<close>: the delivery payment of a deal is split between
  the lead farmer and the accepted co-farmers in integer cents, the last participant
  absorbing the rounding remainder.
\<close>

record payout_participant =
  pp_farmer_id :: string
  pp_wallet_address :: "string option"
  pp_portion_percent :: jsnum

record farmer_payout =
  fp_recipient_id :: string
  fp_wallet_address :: "string option"
  fp_amount_usd :: jsnum

datatype payout_error = NoPositiveWeights

definition weight :: "payout_participant \<Rightarrow> jsnum" where
  "weight p = max (pp_portion_percent p) 0"

definition payout_row :: "payout_participant \<Rightarrow> jsnum \<Rightarrow> farmer_payout" where
  "payout_row p cents =
     \<lparr>fp_recipient_id = pp_farmer_id p, fp_wallet_address = pp_wallet_address p,
      fp_amount_usd = div_js cents 100\<rparr>"

text \<open>The \<open>map\<close> over the participants, with the running \<open>allocatedCents\<close>.\<close>

fun payout_rows :: "jsnum \<Rightarrow> jsnum \<Rightarrow> jsnum \<Rightarrow> payout_participant list \<Rightarrow> farmer_payout list" where
  "payout_rows total_cents total_weight allocated [] = []"
| "payout_rows total_cents total_weight allocated [p] = [payout_row p (sub_js total_cents allocated)]"
| "payout_rows total_cents total_weight allocated (p # q # ps) =
     (let cents = math_floor (div_js (mul_js total_cents (weight p)) total_weight)
      in payout_row p cents #
         payout_rows total_cents total_weight (add_js allocated cents) (q # ps))"

definition pool_cents :: "jsnum \<Rightarrow> jsnum" where
  "pool_cents net_pool = math_round (mul_js (add_js net_pool number_epsilon) 100)"

definition compute_farmer_payout_splits ::
  "jsnum \<Rightarrow> payout_participant list \<Rightarrow> payout_error + farmer_payout list" where
  "compute_farmer_payout_splits net_pool participants =
     (if participants = [] then Inr []
      else
        let total_weight = sum_js weight participants
        in if total_weight \<le> 0 then Inl NoPositiveWeights
           else
             let total_cents = pool_cents net_pool;
                 rows = payout_rows total_cents total_weight 0 participants
             in Inr (filter (\<lambda>row. 0 < fp_amount_usd row) rows))"

lemma payout_rows_prorata:
  "payout_rows tc tw a ps = map2 payout_row ps (prorata tc tw a (map weight ps))"
proof (induction tc tw a ps rule: payout_rows.induct)
  case (3 tc tw a p q ps)
  then show ?case by (simp add: Let_def share_def)
qed simp_all

lemma cent_amount_pos_iff: "0 \<le> c \<Longrightarrow> 0 < div_js (of_int c) 100 \<longleftrightarrow> c \<noteq> 0"
proof
  assume c: "0 \<le> c" "c \<noteq> 0"
  have "1 / 2 ^ 300 \<le> (1 / 100 :: rat)" by simp
  also have "\<dots> \<le> of_int c / 100" using c by (intro divide_right_mono) auto
  finally show "0 < div_js (of_int c) 100" unfolding div_js_def by (rule fl_pos)
qed (auto simp: div_js_def)

lemma filter_map2_cents:
  assumes "length ps = length cs" "\<forall>c \<in> set cs. 0 \<le> c"
  shows "map fp_amount_usd (filter (\<lambda>r. 0 < fp_amount_usd r) (map2 payout_row ps (map of_int cs)))
         = map (\<lambda>c. div_js (of_int c) 100) (filter (\<lambda>c. c \<noteq> 0) cs)"
  using assms
proof (induction ps cs rule: list_induct2)
  case (Cons p ps c cs)
  then show ?case by (simp add: payout_row_def cent_amount_pos_iff del: of_int_eq_0_iff)
qed simp

lemma sum_filter_nonzero: "sum_list (filter (\<lambda>c. c \<noteq> 0) cs) = sum_list (cs :: int list)"
  by (induction cs) auto

lemma recipients_of_rows:
  "length ps = length cs \<Longrightarrow>
   set (map fp_recipient_id (filter P (map2 payout_row ps cs))) \<subseteq> pp_farmer_id ` set ps"
  by (induction ps cs rule: list_induct2) (auto simp: payout_row_def)

lemma pool_cents_int: "\<exists>n. pool_cents x = of_int n"
  by (simp add: pool_cents_def math_round_def)

lemma payout_split_sound:
  assumes ne: "ps \<noteq> []" "length ps \<le> 1000"
    and w: "\<forall>p \<in> set ps. weight p = 0 \<or> 1 / 2 ^ 100 \<le> weight p"
    and tw: "0 < sum_js weight ps" "sum_js weight ps \<le> 2 ^ 100"
    and pool: "pool_cents net_pool = of_int T" "0 \<le> T" "T \<le> 2 ^ 40"
  shows "\<exists>payouts cs. compute_farmer_payout_splits net_pool ps = Inr payouts \<and>
    map fp_amount_usd payouts = map (\<lambda>c. div_js (of_int c) 100) cs \<and>
    sum_list cs = T \<and> list_all (\<lambda>c. 0 < c) cs \<and>
    set (map fp_recipient_id payouts) \<subseteq> pp_farmer_id ` set ps"
proof -
  have "sum_js weight ps = sum_js (\<lambda>w. w) (map weight ps)"
    by (simp add: sum_js_def foldl_map)
  then obtain cs where cs: "prorata (of_int T) (sum_js weight ps) 0 (map weight ps) = map of_int cs"
      "sum_list cs = T" "\<forall>c \<in> set cs. 0 \<le> c"
    using prorata_allocates [of "map weight ps" T "sum_js weight ps"] ne w tw pool(2,3) by auto
  have len: "length ps = length cs" using arg_cong [OF cs(1), of length] by simp
  let ?rows = "map2 payout_row ps (map of_int cs)"
  have "compute_farmer_payout_splits net_pool ps = Inr (filter (\<lambda>r. 0 < fp_amount_usd r) ?rows)"
    using ne tw pool(1) by (simp add: compute_farmer_payout_splits_def Let_def payout_rows_prorata cs(1))
  moreover have "list_all (\<lambda>c. 0 < c) (filter (\<lambda>c. c \<noteq> 0) cs)"
    using cs(3) by (auto simp: list_all_iff less_le)
  ultimately show ?thesis
    using filter_map2_cents [OF len cs(3)] sum_filter_nonzero [of cs] cs(2)
      recipients_of_rows [of ps "map of_int cs"] len by fastforce
qed

text \<open>
  C28: for a pool of at most ten billion dollars and at most a thousand participants with
  weights that are zero or not minute, the split succeeds, every payout it returns is a
  positive whole number of cents to one of the participants, and the payouts add up to
  exactly the cents of the pool.
\<close>

theorem payout_split_conserves_pool:
  assumes ne: "ps \<noteq> []" "length ps \<le> 1000"
    and w: "\<forall>p \<in> set ps. weight p = 0 \<or> 1 / 2 ^ 100 \<le> weight p"
    and tw: "0 < sum_js weight ps" "sum_js weight ps \<le> 2 ^ 100"
    and pool: "pool_cents net_pool = of_int T" "0 \<le> T" "T \<le> 2 ^ 40"
  shows "\<exists>payouts cs. compute_farmer_payout_splits net_pool ps = Inr payouts \<and>
    map fp_amount_usd payouts = map (\<lambda>c. div_js (of_int c) 100) cs \<and>
    sum_list cs = T \<and> list_all (\<lambda>c. 0 < c) cs \<and>
    set (map fp_recipient_id payouts) \<subseteq> pp_farmer_id ` set ps"
  by (rule payout_split_sound [OF assms])

theorem payout_split_conserves_pool_witness:
  "\<exists>payouts cs. compute_farmer_payout_splits 100
      [\<lparr>pp_farmer_id = ''lead'', pp_wallet_address = None, pp_portion_percent = 67\<rparr>,
       \<lparr>pp_farmer_id = ''co'', pp_wallet_address = None, pp_portion_percent = 33\<rparr>] = Inr payouts \<and>
    map fp_amount_usd payouts = map (\<lambda>c. div_js (of_int c) 100) cs \<and>
    sum_list cs = 10000 \<and> list_all (\<lambda>c. 0 < c) cs \<and>
    set (map fp_recipient_id payouts) \<subseteq> pp_farmer_id ` set
      [\<lparr>pp_farmer_id = ''lead'', pp_wallet_address = None, pp_portion_percent = 67\<rparr>,
       \<lparr>pp_farmer_id = ''co'', pp_wallet_address = None, pp_portion_percent = 33\<rparr>]"
proof -
  have "pool_cents 100 = of_int 10000" by code_simp
  moreover have "sum_js weight
      [\<lparr>pp_farmer_id = ''lead'', pp_wallet_address = None, pp_portion_percent = 67\<rparr>,
       \<lparr>pp_farmer_id = ''co'', pp_wallet_address = None, pp_portion_percent = 33\<rparr>] = 100"
    by code_simp
  ultimately show ?thesis
    by (intro payout_split_conserves_pool) (simp_all add: weight_def)
qed

text \<open>
  The split throws exactly when there are participants and none of them has a positive
  portion.
\<close>

theorem payout_split_error_iff:
  assumes "\<forall>p \<in> set ps. fl (pp_portion_percent p) = pp_portion_percent p"
  shows "compute_farmer_payout_splits net_pool ps = Inl NoPositiveWeights \<longleftrightarrow>
    ps \<noteq> [] \<and> (\<forall>p \<in> set ps. pp_portion_percent p \<le> 0)"
proof -
  have w: "\<forall>p \<in> set ps. 0 \<le> weight p \<and> fl (weight p) = weight p"
    using assms by (auto simp: weight_def max_def)
  have "sum_js weight ps \<le> 0 \<longleftrightarrow> (\<forall>p \<in> set ps. pp_portion_percent p \<le> 0)"
  proof
    assume s: "sum_js weight ps \<le> 0"
    show "\<forall>p \<in> set ps. pp_portion_percent p \<le> 0"
    proof
      fix p assume "p \<in> set ps"
      then have "weight p \<le> 0" using sum_js_ge_member [OF w] s by fastforce
      then show "pp_portion_percent p \<le> 0" by (simp add: weight_def)
    qed
  next
    assume "\<forall>p \<in> set ps. pp_portion_percent p \<le> 0"
    then have "sum_js weight ps = sum_js (\<lambda>_. 0) ps"
      by (intro sum_js_cong) (auto simp: weight_def)
    also have "\<dots> = 0" by (induction ps rule: rev_induct) (simp_all add: sum_js_snoc add_js_def)
    finally show "sum_js weight ps \<le> 0" by simp
  qed
  then show ?thesis by (auto simp: compute_farmer_payout_splits_def Let_def)
qed

theorem payout_split_error_iff_witness:
  "compute_farmer_payout_splits 100
     [\<lparr>pp_farmer_id = ''lead'', pp_wallet_address = None, pp_portion_percent = - 5\<rparr>]
   = Inl NoPositiveWeights"
  by (subst payout_split_error_iff) (simp_all)

end
