(* ===== verification/Idempotency.thy ===== *)
theory Idempotency
  imports Prelude
begin

text \<open>
  \<open>backend/src/queue/idempotency.service.ts\<close>: a lease per business key in Redis that keeps
  two consumers from processing the same message. Redis itself is not part of the
  repository: the service's operations take its client as a record of operations
  (\<open>redis_ops\<close>), the locale \<open>redis_client\<close> states the documented behaviour of the commands
  the service uses (\<open>GET\<close>, \<open>SET\<close>, \<open>SET NX EX\<close>, \<open>DEL\<close>), and \<open>kv_store\<close> is a store with
  expiry times that meets it. The end of the theory runs several consumers over one
  store, one command at a time.
\<close>

subsection \<open>The client and its contract\<close>

record 's redis_ops =
  op_get :: "string \<Rightarrow> 's \<Rightarrow> string option"
  op_set_nx :: "string \<Rightarrow> string \<Rightarrow> nat \<Rightarrow> 's \<Rightarrow> bool \<times> 's"
  op_set :: "string \<Rightarrow> string \<Rightarrow> nat \<Rightarrow> 's \<Rightarrow> 's"
  op_del :: "string \<Rightarrow> 's \<Rightarrow> 's"

record lease =
  acquired :: bool
  lease_status :: "string option"

subsection \<open>The service\<close>

text \<open>
  \<open>onModuleInit\<close>: the service is online when a URL is configured and the connection
  succeeds; otherwise it runs without duplicate protection.
\<close>

definition on_module_init :: "string \<Rightarrow> bool \<Rightarrow> bool" where
  "on_module_init trimmed_url connects \<longleftrightarrow> trimmed_url \<noteq> [] \<and> connects"

text \<open>
  \<open>acquireLease\<close> is two commands with other consumers running in between: a \<open>GET\<close> that may
  settle the matter, and an atomic \<open>SET NX EX\<close>.
\<close>

definition acquire_check :: "'s redis_ops \<Rightarrow> string \<Rightarrow> 's \<Rightarrow> lease option" where
  "acquire_check ops key s =
     (let existing = op_get ops key s
      in if existing = Some ''done'' then Some \<lparr>acquired = False, lease_status = Some ''done''\<rparr>
         else if existing = Some ''processing''
         then Some \<lparr>acquired = False, lease_status = Some ''processing''\<rparr>
         else None)"

definition acquire_set :: "'s redis_ops \<Rightarrow> string \<Rightarrow> nat \<Rightarrow> 's \<Rightarrow> lease \<times> 's" where
  "acquire_set ops key ttl s =
     (case op_set_nx ops key ''processing'' ttl s of
        (ok, s') \<Rightarrow>
          if \<not> ok then
            (\<lparr>acquired = False,
              lease_status = Some (case op_get ops key s' of Some v \<Rightarrow> v | None \<Rightarrow> ''processing'')\<rparr>, s')
          else (\<lparr>acquired = True, lease_status = None\<rparr>, s'))"

definition acquire_lease ::
  "'s redis_ops \<Rightarrow> bool \<Rightarrow> string \<Rightarrow> nat \<Rightarrow> 's \<Rightarrow> lease \<times> 's" where
  "acquire_lease ops online key ttl s =
     (if \<not> online then (\<lparr>acquired = True, lease_status = None\<rparr>, s)
      else case acquire_check ops key s of
             Some l \<Rightarrow> (l, s)
           | None \<Rightarrow> acquire_set ops key ttl s)"

lemmas acquire_defs = acquire_lease_def acquire_check_def acquire_set_def Let_def

definition mark_done :: "'s redis_ops \<Rightarrow> bool \<Rightarrow> string \<Rightarrow> nat \<Rightarrow> 's \<Rightarrow> 's" where
  "mark_done ops online key persist_ttl s =
     (if \<not> online then s else op_set ops key ''done'' persist_ttl s)"

definition release_lease :: "'s redis_ops \<Rightarrow> bool \<Rightarrow> string \<Rightarrow> 's \<Rightarrow> 's" where
  "release_lease ops online key s =
     (if \<not> online then s
      else if op_get ops key s = Some ''processing'' then op_del ops key s else s)"

definition build_key :: "string \<Rightarrow> string \<Rightarrow> string" where
  "build_key event business_id = ''idempotency:'' @ event @ '':'' @ business_id"

locale redis_client =
  fixes ops :: "'s redis_ops"
  assumes nx_ok: "op_set_nx ops k v t s = (True, s') \<Longrightarrow> op_get ops k s = None"
    and nx_written: "op_set_nx ops k v t s = (True, s') \<Longrightarrow> 0 < t \<Longrightarrow> op_get ops k s' = Some v"
    and nx_refused: "op_set_nx ops k v t s = (False, s') \<Longrightarrow> op_get ops k s \<noteq> None \<and> s' = s"
    and nx_other: "op_set_nx ops k v t s = (b, s') \<Longrightarrow> k' \<noteq> k \<Longrightarrow> op_get ops k' s' = op_get ops k' s"
    and set_get: "0 < t \<Longrightarrow> op_get ops k (op_set ops k v t s) = Some v"
    and set_other: "k' \<noteq> k \<Longrightarrow> op_get ops k' (op_set ops k v t s) = op_get ops k' s"
    and del_get: "op_get ops k (op_del ops k s) = None"
    and del_other: "k' \<noteq> k \<Longrightarrow> op_get ops k' (op_del ops k s) = op_get ops k' s"
begin

lemma acquire_set_cases:
  assumes "acquire_set ops k t s = (l, s')"
  shows "if acquired l then op_get ops k s = None \<and> (0 < t \<longrightarrow> op_get ops k s' = Some ''processing'')
         else op_get ops k s \<noteq> None \<and> s' = s"
  using assms nx_ok [of k "''processing''" t s s'] nx_refused [of k "''processing''" t s s']
    nx_written [of k "''processing''" t s s']
  by (cases "op_set_nx ops k ''processing'' t s") (auto simp: acquire_set_def split: if_splits)

lemma acquired_iff: "acquired (fst (acquire_lease ops True k t s)) \<longleftrightarrow> op_get ops k s = None"
proof (cases "acquire_set ops k t s")
  case (Pair l s')
  from acquire_set_cases [OF this] Pair show ?thesis
    by (auto simp: acquire_lease_def acquire_check_def Let_def split: if_splits)
qed

lemma acquire_marks:
  "acquire_lease ops True k t s = (l, s') \<Longrightarrow> acquired l \<Longrightarrow> 0 < t \<Longrightarrow> op_get ops k s' = Some ''processing''"
  by (auto simp: acquire_lease_def acquire_check_def Let_def split: if_splits dest!: acquire_set_cases)

lemma acquire_refused_keeps:
  "acquire_lease ops True k t s = (l, s') \<Longrightarrow> \<not> acquired l \<Longrightarrow> s' = s"
  by (auto simp: acquire_lease_def acquire_check_def Let_def split: if_splits dest!: acquire_set_cases)

lemma acquire_other:
  "acquire_lease ops True k t s = (l, s') \<Longrightarrow> k' \<noteq> k \<Longrightarrow> op_get ops k' s' = op_get ops k' s"
  by (auto simp: acquire_defs nx_other split: if_splits prod.splits)

lemma second_acquire_refused:
  assumes "acquire_lease ops True k t s = (l, s')" "acquired l" "0 < t"
  shows "acquire_lease ops True k u s' = (\<lparr>acquired = False, lease_status = Some ''processing''\<rparr>, s')"
  using acquire_marks [OF assms] by (simp add: acquire_defs)

lemma done_refuses:
  assumes "0 < p"
  shows "acquire_lease ops True k t (mark_done ops True k p s)
    = (\<lparr>acquired = False, lease_status = Some ''done''\<rparr>, mark_done ops True k p s)"
  using set_get [OF assms, of k "''done''" s] by (simp add: acquire_defs mark_done_def)

lemma release_keeps_done: "op_get ops k s = Some ''done'' \<Longrightarrow> release_lease ops True k s = s"
  by (simp add: release_lease_def)

lemma release_frees:
  assumes "acquire_lease ops True k t s = (l, s')" "acquired l" "0 < t"
  shows "acquired (fst (acquire_lease ops True k u (release_lease ops True k s')))"
  using acquire_marks [OF assms] by (simp add: acquired_iff release_lease_def del_get)

lemma other_keys_kept:
  assumes "k' \<noteq> k"
  shows "op_get ops k' (mark_done ops True k p s) = op_get ops k' s"
    and "op_get ops k' (release_lease ops True k s) = op_get ops k' s"
  using assms by (simp_all add: mark_done_def release_lease_def set_other del_other)

end

subsection \<open>A store that meets the contract\<close>

record kv_store =
  entries :: "string \<rightharpoonup> string \<times> nat"
  clock :: nat

definition kv_get :: "string \<Rightarrow> kv_store \<Rightarrow> string option" where
  "kv_get k r = (case entries r k of Some (v, e) \<Rightarrow> if clock r < e then Some v else None | None \<Rightarrow> None)"

definition kv_set :: "string \<Rightarrow> string \<Rightarrow> nat \<Rightarrow> kv_store \<Rightarrow> kv_store" where
  "kv_set k v ttl r = r\<lparr>entries := (entries r)(k \<mapsto> (v, clock r + ttl))\<rparr>"

definition kv_set_nx :: "string \<Rightarrow> string \<Rightarrow> nat \<Rightarrow> kv_store \<Rightarrow> bool \<times> kv_store" where
  "kv_set_nx k v ttl r = (if kv_get k r = None then (True, kv_set k v ttl r) else (False, r))"

definition kv_del :: "string \<Rightarrow> kv_store \<Rightarrow> kv_store" where
  "kv_del k r = r\<lparr>entries := (entries r)(k := None)\<rparr>"

definition kv_ops :: "kv_store redis_ops" where
  "kv_ops = \<lparr>op_get = kv_get, op_set_nx = kv_set_nx, op_set = kv_set, op_del = kv_del\<rparr>"

interpretation kv: redis_client kv_ops
  by unfold_locales
     (auto simp: kv_ops_def kv_set_nx_def kv_set_def kv_del_def kv_get_def split: if_splits option.splits)


subsection \<open>Several consumers, one command at a time\<close>

text \<open>
  Consumers run \<open>acquireLease\<close> one command at a time. A consumer is idle, has seen a key
  that does not refuse it (\<open>Checked\<close>), or holds the lease, as \<open>acquire_check\<close> and
  \<open>acquire_set\<close> answer; it ends with \<open>markDone\<close> or \<open>releaseLease\<close>. The clock may advance at any
  time as long as the lease of a consumer that is still working does not run out.
\<close>

datatype phase = Idle | Checked | Holding

record cluster =
  store :: kv_store
  phase_of :: "nat \<Rightarrow> phase"

definition advance :: "nat \<Rightarrow> kv_store \<Rightarrow> kv_store" where
  "advance d r = r\<lparr>clock := clock r + d\<rparr>"

definition set_phase :: "nat \<Rightarrow> phase \<Rightarrow> cluster \<Rightarrow> cluster" where
  "set_phase i p c = c\<lparr>phase_of := (phase_of c)(i := p)\<rparr>"

inductive consumer_step :: "string \<Rightarrow> nat \<Rightarrow> nat \<Rightarrow> cluster \<Rightarrow> cluster \<Rightarrow> bool"
  for key :: string and ttl :: nat and persist_ttl :: nat where
  check: "phase_of c i = Idle \<Longrightarrow> acquire_check kv_ops key (store c) = None \<Longrightarrow>
     consumer_step key ttl persist_ttl c (set_phase i Checked c)"
| take_lease: "phase_of c i = Checked \<Longrightarrow> acquire_set kv_ops key ttl (store c) = (l, r) \<Longrightarrow>
     consumer_step key ttl persist_ttl c
       (set_phase i (if acquired l then Holding else Idle) c\<lparr>store := r\<rparr>)"
| succeed: "phase_of c i = Holding \<Longrightarrow>
     consumer_step key ttl persist_ttl c
       (set_phase i Idle c\<lparr>store := mark_done kv_ops True key persist_ttl (store c)\<rparr>)"
| fail: "phase_of c i = Holding \<Longrightarrow>
     consumer_step key ttl persist_ttl c
       (set_phase i Idle c\<lparr>store := release_lease kv_ops True key (store c)\<rparr>)"
| tick: "(\<And>i. phase_of c i = Holding \<Longrightarrow> kv_get key (advance d (store c)) = kv_get key (store c)) \<Longrightarrow>
     consumer_step key ttl persist_ttl c (c\<lparr>store := advance d (store c)\<rparr>)"

inductive cluster_reachable :: "string \<Rightarrow> nat \<Rightarrow> nat \<Rightarrow> cluster \<Rightarrow> bool"
  for key :: string and ttl :: nat and persist_ttl :: nat where
  start: "(\<And>i. phase_of c i = Idle) \<Longrightarrow> cluster_reachable key ttl persist_ttl c"
| step: "cluster_reachable key ttl persist_ttl c \<Longrightarrow> consumer_step key ttl persist_ttl c d \<Longrightarrow>
     cluster_reachable key ttl persist_ttl d"

inductive_cases consumer_stepE: "consumer_step key ttl persist_ttl c d"

definition lease_inv :: "string \<Rightarrow> cluster \<Rightarrow> bool" where
  "lease_inv key c \<longleftrightarrow>
     (\<forall>i j. phase_of c i = Holding \<longrightarrow> phase_of c j = Holding \<longrightarrow> i = j) \<and>
     (\<forall>i. phase_of c i = Holding \<longrightarrow> kv_get key (store c) = Some ''processing'')"

lemma set_phase_simps [simp]:
  "phase_of (set_phase i p c) = (phase_of c)(i := p)"
  "store (set_phase i p c) = store c"
  by (simp_all add: set_phase_def)

lemma consumer_step_inv:
  "consumer_step key ttl ptl c d \<Longrightarrow> 0 < ttl \<Longrightarrow> lease_inv key c \<Longrightarrow> lease_inv key d"
proof (induction rule: consumer_step.induct)
  case (take_lease c i l r)
  note set = kv.acquire_set_cases [OF take_lease.hyps(2)]
  show ?case
  proof (cases "acquired l")
    case True
    with set take_lease.prems(1) have free: "kv_get key (store c) = None"
      and now: "kv_get key r = Some ''processing''" by (simp_all add: kv_ops_def)
    have "phase_of c j \<noteq> Holding" for j using take_lease.prems(2) free by (auto simp: lease_inv_def)
    with now True show ?thesis by (simp add: lease_inv_def)
  next
    case False
    with set take_lease.prems(2) show ?thesis by (auto simp: lease_inv_def)
  qed
next
  case (tick c d)
  have "kv_get key (advance d (store c)) = Some ''processing''" if "phase_of c i = Holding" for i
    using tick.hyps [OF that] tick.prems(2) that by (auto simp: lease_inv_def)
  then show ?case using tick.prems(2) by (auto simp: lease_inv_def)
qed (auto simp: lease_inv_def)

lemma cluster_reachable_inv: "cluster_reachable key ttl ptl c \<Longrightarrow> 0 < ttl \<Longrightarrow> lease_inv key c"
proof (induction rule: cluster_reachable.induct)
  case (start c)
  then show ?case by (simp add: lease_inv_def)
next
  case (step c d)
  then show ?case by (blast intro: consumer_step_inv)
qed

text \<open>
  C29: in every interleaving of any number of consumers in which a working consumer finishes
  before its lease runs out, at most one of them holds the lease of a key.
\<close>

theorem lease_mutual_exclusion:
  assumes "cluster_reachable key ttl ptl c" "0 < ttl"
    and "phase_of c i = Holding" "phase_of c j = Holding"
  shows "i = j"
  using cluster_reachable_inv [OF assms(1,2)] assms(3,4) by (auto simp: lease_inv_def)

definition free_store :: kv_store where
  "free_store = \<lparr>entries = Map.empty, clock = 0\<rparr>"

definition one_holder :: cluster where
  "one_holder = \<lparr>store = kv_set ''k'' ''processing'' 900 free_store, phase_of = (\<lambda>_. Idle)(7 := Holding)\<rparr>"

lemma one_holder_reachable: "cluster_reachable ''k'' 900 86400 one_holder"
proof -
  let ?c0 = "\<lparr>store = free_store, phase_of = (\<lambda>_. Idle)\<rparr>"
  let ?c1 = "set_phase 7 Checked ?c0"
  have "cluster_reachable ''k'' 900 86400 ?c0" by (rule cluster_reachable.start) simp
  then have "cluster_reachable ''k'' 900 86400 ?c1"
    by (rule cluster_reachable.step, intro consumer_step.check)
       (simp_all add: acquire_check_def kv_ops_def kv_get_def free_store_def)
  then have "cluster_reachable ''k'' 900 86400
      (set_phase 7 (if acquired \<lparr>acquired = True, lease_status = None\<rparr> then Holding else Idle) ?c1
        \<lparr>store := kv_set ''k'' ''processing'' 900 free_store\<rparr>)"
    by (rule cluster_reachable.step, intro consumer_step.take_lease)
       (simp_all add: acquire_set_def kv_ops_def kv_set_nx_def kv_get_def free_store_def)
  then show ?thesis by (simp add: one_holder_def set_phase_def)
qed

theorem lease_mutual_exclusion_witness:
  "phase_of one_holder 7 = Holding \<and> (\<forall>j. phase_of one_holder j = Holding \<longleftrightarrow> j = 7)"
proof -
  have h: "phase_of one_holder 7 = Holding" by (simp add: one_holder_def)
  moreover have "j = 7" if "phase_of one_holder j = Holding" for j
    by (rule lease_mutual_exclusion [OF one_holder_reachable _ that h]) simp
  ultimately show ?thesis by blast
qed

text \<open>
  After a consumer that acquired a lease marks the key done, every further attempt is
  refused with status \<open>done\<close>, and releasing the lease in between does not undo the marker.
\<close>

theorem done_key_is_never_reacquired:
  assumes "acquire_lease kv_ops True key ttl s = (l, s1)" "acquired l" "0 < persist_ttl"
  shows "acquire_lease kv_ops True key ttl' (release_lease kv_ops True key (mark_done kv_ops True key persist_ttl s1))
    = (\<lparr>acquired = False, lease_status = Some ''done''\<rparr>, mark_done kv_ops True key persist_ttl s1)"
proof -
  have "op_get kv_ops key (mark_done kv_ops True key persist_ttl s1) = Some ''done''"
    using kv.set_get [OF assms(3)] by (simp add: mark_done_def)
  then show ?thesis using kv.done_refuses [OF assms(3)] by (simp add: kv.release_keeps_done)
qed

theorem done_key_is_never_reacquired_witness:
  "fst (acquire_lease kv_ops True ''k'' 300
     (release_lease kv_ops True ''k'' (mark_done kv_ops True ''k'' 86400
       (snd (acquire_lease kv_ops True ''k'' 900 free_store)))))
   = \<lparr>acquired = False, lease_status = Some ''done''\<rparr>"
proof -
  have "acquire_lease kv_ops True ''k'' 900 free_store =
      (\<lparr>acquired = True, lease_status = None\<rparr>, snd (acquire_lease kv_ops True ''k'' 900 free_store))"
    by (simp add: acquire_defs kv_ops_def kv_set_nx_def kv_get_def free_store_def)
  from done_key_is_never_reacquired [OF this, of 86400 300] show ?thesis by simp
qed

text \<open>
  C7: the release is not tied to the consumer that took the lease. Consumer A takes the lease
  for 900 seconds, overruns it, and B takes the key; when A then fails and releases, it
  removes the lease of B, and C acquires the key although the lease of B has not run out.
\<close>

definition expired_owner_run :: "lease list" where
  "expired_owner_run =
     (let (a, s1) = acquire_lease kv_ops True ''k'' 900 free_store;
          (b, s2) = acquire_lease kv_ops True ''k'' 900 (advance 901 s1);
          (b', s3) = acquire_lease kv_ops True ''k'' 900 s2;
          (c, s4) = acquire_lease kv_ops True ''k'' 900 (release_lease kv_ops True ''k'' s3)
      in [a, b, b', c])"

theorem release_by_expired_owner:
  "map acquired expired_owner_run = [True, True, False, True]"
  by (simp add: expired_owner_run_def acquire_defs kv_ops_def kv_set_nx_def kv_get_def kv_set_def
    kv_del_def advance_def release_lease_def free_store_def Let_def)

text \<open>
  Keys of different events or of different business ids are different, as long as the
  event name has no colon.
\<close>

theorem build_key_injective:
  assumes "CHR '':'' \<notin> set event" "CHR '':'' \<notin> set event'"
    and "build_key event bid = build_key event' bid'"
  shows "event = event' \<and> bid = bid'"
proof -
  have "event @ CHR '':'' # bid = event' @ CHR '':'' # bid'" using assms(3) by (simp add: build_key_def)
  then show ?thesis using assms(1,2)
    by (induction event arbitrary: event') (case_tac event'; auto)+
qed

theorem build_key_injective_witness:
  "build_key ''deal.delivered'' ''42'' \<noteq> build_key ''payment.distribution'' ''42''"
  using build_key_injective [of "''deal.delivered''" "''payment.distribution''" "''42''" "''42''"] by auto

end
