(* ===== verification/Outbox.thy ===== *)
theory Outbox
  imports Prelude "HOL-Library.Multiset"
begin

text \<open>
  The transactional outbox, \<open>backend/src/outbox\<close>: events are written to a table inside the
  transaction of the business write (\<open>outbox.service.ts\<close>), a processor publishes them to the
  broker once per second in batches of fifty (\<open>outbox.processor.ts\<close>), failures count up to
  ten, and failed events move to a dead-letter table. The broker is a parameter: \<open>broker e\<close>
  is \<open>None\<close> when it accepts the event and \<open>Some err\<close> when the emission throws. Identifiers
  and the current time, which the database and the runtime supply, are arguments.
\<close>

subsection \<open>State\<close>

record outbox_event =
  oe_id :: string
  oe_type :: string
  oe_payload :: string
  oe_processed :: bool
  oe_retry_count :: nat
  oe_last_error :: "string option"
  oe_processed_at :: "int option"

record dead_letter =
  dl_original_event_id :: string
  dl_type :: string
  dl_payload :: string
  dl_retry_count :: nat
  dl_last_error :: "string option"

text \<open>
  \<open>published\<close> is the sequence of messages the broker has accepted (identifier of the row, event
  type and payload before its encryption), \<open>pending_gauge\<close> and \<open>publish_errors\<close> are the two
  metrics, \<open>is_processing\<close> is the flag of the processor.
\<close>

record outbox_state =
  outbox :: "outbox_event list"
  dead_letters :: "dead_letter list"
  published :: "(string \<times> string \<times> string) list"
  pending_gauge :: nat
  publish_errors :: "string list"
  is_processing :: bool

subsection \<open>OutboxService\<close>

definition new_event :: "string \<Rightarrow> string \<Rightarrow> string \<Rightarrow> outbox_event" where
  "new_event uuid event_type payload =
     \<lparr>oe_id = uuid, oe_type = event_type, oe_payload = payload, oe_processed = False,
      oe_retry_count = 0, oe_last_error = None, oe_processed_at = None\<rparr>"

definition write_event :: "string \<Rightarrow> string \<Rightarrow> string \<Rightarrow> outbox_state \<Rightarrow> outbox_state" where
  "write_event uuid event_type payload s =
     s\<lparr>outbox := insert_row (new_event uuid event_type payload) (outbox s)\<rparr>"

definition write_event_direct :: "string \<Rightarrow> string \<Rightarrow> string \<Rightarrow> outbox_state \<Rightarrow> outbox_state" where
  "write_event_direct uuid event_type payload s =
     s\<lparr>outbox := insert_row (new_event uuid event_type payload) (outbox s)\<rparr>"

definition write_events :: "(string \<times> string \<times> string) list \<Rightarrow> outbox_state \<Rightarrow> outbox_state" where
  "write_events events s =
     s\<lparr>outbox := outbox s @ map (\<lambda>(uuid, event_type, payload). new_event uuid event_type payload) events\<rparr>"

definition get_unprocessed_events :: "nat \<Rightarrow> outbox_state \<Rightarrow> outbox_event list" where
  "get_unprocessed_events limit s = take limit (find_where (\<lambda>e. \<not> oe_processed e) (outbox s))"

text \<open>
  The \<open>SELECT ... FOR UPDATE SKIP LOCKED\<close> runs between its own \<open>BEGIN\<close> and \<open>COMMIT\<close>: the row
  locks are gone when the method returns, and the rows are not changed.
\<close>

definition publishable :: "outbox_event \<Rightarrow> bool" where
  "publishable e \<longleftrightarrow> \<not> oe_processed e \<and> oe_retry_count e < 10"

definition publish_pending :: "nat \<Rightarrow> outbox_state \<Rightarrow> outbox_event list \<times> outbox_state" where
  "publish_pending limit s =
     (let rows = take limit (find_where publishable (outbox s))
      in (rows, s\<lparr>pending_gauge := length rows\<rparr>))"

definition record_publish_error :: "string \<Rightarrow> outbox_state \<Rightarrow> outbox_state" where
  "record_publish_error event_type s = s\<lparr>publish_errors := publish_errors s @ [event_type]\<rparr>"

definition mark_processed :: "string \<Rightarrow> int \<Rightarrow> outbox_state \<Rightarrow> outbox_state" where
  "mark_processed uuid now s =
     s\<lparr>outbox := update_where (\<lambda>e. oe_id e = uuid)
        (\<lambda>e. e\<lparr>oe_processed := True, oe_processed_at := Some now\<rparr>) (outbox s)\<rparr>"

definition mark_failed :: "string \<Rightarrow> string \<Rightarrow> outbox_state \<Rightarrow> outbox_state" where
  "mark_failed uuid err s =
     s\<lparr>outbox := update_where (\<lambda>e. oe_id e = uuid) (\<lambda>e. e\<lparr>oe_last_error := Some err\<rparr>)
        (update_where (\<lambda>e. oe_id e = uuid) (\<lambda>e. e\<lparr>oe_retry_count := oe_retry_count e + 1\<rparr>) (outbox s))\<rparr>"

definition get_dead_letter_events :: "nat \<Rightarrow> outbox_state \<Rightarrow> outbox_event list" where
  "get_dead_letter_events max_retries s =
     filter (\<lambda>e. max_retries \<le> oe_retry_count e) (find_where (\<lambda>e. \<not> oe_processed e) (outbox s))"

definition cleanup_processed_events :: "int \<Rightarrow> outbox_state \<Rightarrow> nat \<times> outbox_state" where
  "cleanup_processed_events older_than s =
     (let p = (\<lambda>e. oe_processed e \<and> oe_processed_at e = Some older_than)
      in (affected p (outbox s), s\<lparr>outbox := delete_where p (outbox s)\<rparr>))"

definition to_dead_letter :: "outbox_event \<Rightarrow> dead_letter" where
  "to_dead_letter e =
     \<lparr>dl_original_event_id = oe_id e, dl_type = oe_type e, dl_payload = oe_payload e,
      dl_retry_count = oe_retry_count e, dl_last_error = oe_last_error e\<rparr>"

definition move_to_dead_letter :: "nat \<Rightarrow> outbox_state \<Rightarrow> nat \<times> outbox_state" where
  "move_to_dead_letter max_retries s =
     (let moved = find_where (\<lambda>e. \<not> oe_processed e \<and> max_retries \<le> oe_retry_count e) (outbox s);
          s' = s\<lparr>dead_letters := dead_letters s @ map to_dead_letter moved\<rparr>
      in if 0 < length moved
         then (length moved, s'\<lparr>outbox := delete_where (\<lambda>e. oe_id e \<in> set (map oe_id moved)) (outbox s')\<rparr>)
         else (length moved, s'))"

subsection \<open>OutboxProcessor\<close>

definition batch_size :: nat where
  "batch_size = 50"

definition process_event ::
  "(outbox_event \<Rightarrow> string option) \<Rightarrow> int \<Rightarrow> outbox_event \<Rightarrow> outbox_state \<Rightarrow> outbox_state" where
  "process_event broker now e s =
     (case broker e of
        None \<Rightarrow> mark_processed (oe_id e) now
                  (s\<lparr>published := published s @ [(oe_id e, oe_type e, oe_payload e)]\<rparr>)
      | Some err \<Rightarrow> record_publish_error (oe_type e) (mark_failed (oe_id e) err s))"

text \<open>
  One tick of the processor; it is skipped while an earlier tick is still running.
\<close>

definition process_outbox ::
  "(outbox_event \<Rightarrow> string option) \<Rightarrow> int \<Rightarrow> outbox_state \<Rightarrow> outbox_state" where
  "process_outbox broker now s =
     (if is_processing s then s
      else (case publish_pending batch_size (s\<lparr>is_processing := True\<rparr>) of (events, s') \<Rightarrow>
        (fold (process_event broker now) events s')\<lparr>is_processing := False\<rparr>))"

subsection \<open>Invariant\<close>

text \<open>
  Identifiers are unique, a row marked processed was accepted by the broker, an unprocessed
  row has failed at most ten times.
\<close>

definition outbox_inv :: "outbox_state \<Rightarrow> bool" where
  "outbox_inv s \<longleftrightarrow>
     distinct (map oe_id (outbox s)) \<and>
     (\<forall>e \<in> set (outbox s). oe_processed e \<longrightarrow> (oe_id e, oe_type e, oe_payload e) \<in> set (published s)) \<and>
     (\<forall>e \<in> set (outbox s). oe_retry_count e \<le> 10)"

lemma outbox_inv_write:
  "outbox_inv s \<Longrightarrow> uuid \<notin> oe_id ` set (outbox s) \<Longrightarrow> outbox_inv (write_event uuid ty p s)"
  by (auto simp: outbox_inv_def write_event_def new_event_def insert_row_def)

lemma distinct_id_row:
  "distinct (map oe_id t) \<Longrightarrow> e \<in> set t \<Longrightarrow> e' \<in> set t \<Longrightarrow> oe_id e = oe_id e' \<Longrightarrow> e = e'"
  by (metis distinct_map inj_on_eq_iff)

lemma mark_processed_simps [simp]:
  "map oe_id (outbox (mark_processed i now s)) = map oe_id (outbox s)"
  "published (mark_processed i now s) = published s"
  "dead_letters (mark_processed i now s) = dead_letters s"
  by (simp_all add: mark_processed_def map_update_where)

lemma mark_failed_simps [simp]:
  "map oe_id (outbox (mark_failed i err s)) = map oe_id (outbox s)"
  "published (mark_failed i err s) = published s"
  "dead_letters (mark_failed i err s) = dead_letters s"
  by (simp_all add: mark_failed_def map_update_where)

lemma record_publish_error_simps [simp]:
  "outbox (record_publish_error ty s) = outbox s"
  "published (record_publish_error ty s) = published s"
  "dead_letters (record_publish_error ty s) = dead_letters s"
  by (simp_all add: record_publish_error_def)

lemma outbox_inv_flags [simp]:
  "outbox_inv (s\<lparr>pending_gauge := g\<rparr>) = outbox_inv s"
  "outbox_inv (s\<lparr>is_processing := f\<rparr>) = outbox_inv s"
  by (simp_all add: outbox_inv_def)

lemma process_event_ids [simp]:
  "map oe_id (outbox (process_event b now e s)) = map oe_id (outbox s)"
  by (simp add: process_event_def split: option.split)

text \<open>A row with another identifier is not touched by processing an event.\<close>

lemma process_event_other:
  assumes "oe_id e' \<noteq> oe_id e"
  shows "e' \<in> set (outbox (process_event b now e s)) \<longleftrightarrow> e' \<in> set (outbox s)"
proof -
  have "e' \<in> set (update_where (\<lambda>x. oe_id x = oe_id e) f t) \<longleftrightarrow> e' \<in> set t"
    if "\<And>x. oe_id (f x) = oe_id x" for f :: "outbox_event \<Rightarrow> outbox_event" and t
    using assms that by (fastforce simp: update_where_def image_iff)
  then show ?thesis by (simp add: process_event_def mark_processed_def mark_failed_def split: option.split)
qed

lemma process_event_same:
  assumes "distinct (map oe_id (outbox s))" "e \<in> set (outbox s)" "e' \<in> set (outbox (process_event b now e s))"
    "oe_id e' = oe_id e"
  shows "e' = (case b e of None \<Rightarrow> e\<lparr>oe_processed := True, oe_processed_at := Some now\<rparr>
    | Some err \<Rightarrow> e\<lparr>oe_retry_count := oe_retry_count e + 1, oe_last_error := Some err\<rparr>)"
  using assms distinct_id_row [OF assms(1,2)]
  by (force simp: process_event_def mark_processed_def mark_failed_def update_where_def
      split: option.splits if_splits)

lemma process_event_inv:
  assumes inv: "outbox_inv s" and e: "e \<in> set (outbox s)" "publishable e"
  shows "outbox_inv (process_event b now e s)"
proof -
  have d: "distinct (map oe_id (outbox s))" using inv by (simp add: outbox_inv_def)
  have pub: "set (published s) \<subseteq> set (published (process_event b now e s))"
    by (auto simp: process_event_def split: option.split)
  have "(oe_processed e' \<longrightarrow> (oe_id e', oe_type e', oe_payload e') \<in> set (published (process_event b now e s)))
      \<and> oe_retry_count e' \<le> 10"
    if e': "e' \<in> set (outbox (process_event b now e s))" for e'
  proof (cases "oe_id e' = oe_id e")
    case True
    from process_event_same [OF d e(1) e' True] e(2) inv e(1) show ?thesis
      by (auto simp: process_event_def publishable_def outbox_inv_def split: option.splits)
  next
    case False
    then have "e' \<in> set (outbox s)" using e' by (simp add: process_event_other)
    with inv pub show ?thesis by (auto simp: outbox_inv_def)
  qed
  then show ?thesis using d by (simp add: outbox_inv_def)
qed


subsection \<open>A batch\<close>

definition message :: "outbox_event \<Rightarrow> string \<times> string \<times> string" where
  "message e = (oe_id e, oe_type e, oe_payload e)"

lemma process_event_published:
  "published (process_event b now e s) = published s @ (if b e = None then [message e] else [])"
  by (simp add: process_event_def message_def split: option.split)

lemma fold_published:
  "published (fold (process_event b now) es s) = published s @ map message (filter (\<lambda>e. b e = None) es)"
  by (induction es arbitrary: s) (simp_all add: process_event_published)

lemma fold_ids [simp]: "map oe_id (outbox (fold (process_event b now) es s)) = map oe_id (outbox s)"
  by (induction es arbitrary: s) simp_all

lemma fold_other:
  "oe_id e' \<notin> oe_id ` set es \<Longrightarrow>
   e' \<in> set (outbox (fold (process_event b now) es s)) \<longleftrightarrow> e' \<in> set (outbox s)"
  by (induction es arbitrary: s) (simp_all add: process_event_other)

lemma fold_inv:
  "outbox_inv s \<Longrightarrow> distinct (map oe_id es) \<Longrightarrow> \<forall>e \<in> set es. e \<in> set (outbox s) \<and> publishable e \<Longrightarrow>
   outbox_inv (fold (process_event b now) es s)"
proof (induction es arbitrary: s)
  case (Cons e es)
  have "x \<in> set (outbox (process_event b now e s))" if "x \<in> set es" for x
  proof -
    have "oe_id x \<noteq> oe_id e" using Cons.prems(2) that by (auto simp: image_iff)
    then show ?thesis using Cons.prems(3) that by (simp add: process_event_other)
  qed
  then show ?case using Cons by (simp add: process_event_inv)
qed simp

lemma fold_accepted:
  assumes "outbox_inv s" "distinct (map oe_id es)" "\<forall>e \<in> set es. e \<in> set (outbox s) \<and> publishable e"
    and "e' \<in> set (outbox (fold (process_event b now) es s))" "oe_id e' \<in> oe_id ` set es" "\<forall>e. b e = None"
  shows "oe_processed e'"
  using assms
proof (induction es arbitrary: s)
  case (Cons e es)
  let ?s = "process_event b now e s"
  have inv: "outbox_inv ?s" using Cons.prems by (simp add: process_event_inv)
  have mem: "\<forall>x \<in> set es. x \<in> set (outbox ?s) \<and> publishable x"
  proof
    fix x assume x: "x \<in> set es"
    then have "oe_id x \<noteq> oe_id e" using Cons.prems(2) by (auto simp: image_iff)
    then show "x \<in> set (outbox ?s) \<and> publishable x" using Cons.prems(3) x by (simp add: process_event_other)
  qed
  show ?case
  proof (cases "oe_id e' \<in> oe_id ` set es")
    case True
    have "distinct (map oe_id es)" using Cons.prems(2) by simp
    moreover have "e' \<in> set (outbox (fold (process_event b now) es ?s))" using Cons.prems(4) by simp
    ultimately show ?thesis by (rule Cons.IH [OF inv _ mem _ True Cons.prems(6)])
  next
    case False
    have e': "e' \<in> set (outbox ?s)" using Cons.prems(4) fold_other [OF False] by simp
    have same: "oe_id e' = oe_id e" using Cons.prems(5) False by auto
    have d: "distinct (map oe_id (outbox s))" "e \<in> set (outbox s)"
      using Cons.prems(1,3) by (simp_all add: outbox_inv_def)
    show ?thesis using process_event_same [OF d e' same] Cons.prems(6) by simp
  qed
qed simp

lemma batch_rows:
  assumes "outbox_inv s"
  shows "distinct (map oe_id (take n (find_where publishable (outbox s))))"
    and "\<forall>e \<in> set (take n (find_where publishable (outbox s))). e \<in> set (outbox s) \<and> publishable e"
proof -
  have "distinct (map oe_id (find_where publishable (outbox s)))"
    using assms by (simp add: find_where_def outbox_inv_def distinct_map_filter)
  then show "distinct (map oe_id (take n (find_where publishable (outbox s))))"
    by (simp add: take_map [symmetric])
  show "\<forall>e \<in> set (take n (find_where publishable (outbox s))). e \<in> set (outbox s) \<and> publishable e"
    by (auto simp: find_where_def dest: in_set_takeD)
qed

subsection \<open>Properties\<close>

definition sample_event :: outbox_event where
  "sample_event = new_event ''e1'' ''deal.funded'' ''{}''"

definition sample_state :: outbox_state where
  "sample_state = \<lparr>outbox = [sample_event], dead_letters = [], published = [],
     pending_gauge = 0, publish_errors = [], is_processing = False\<rparr>"

lemmas sample_defs = sample_state_def sample_event_def new_event_def

lemma sample_inv: "outbox_inv sample_state"
  by (simp add: outbox_inv_def sample_defs)

lemma process_outbox_fold:
  "process_outbox broker now s =
     (if is_processing s then s
      else (fold (process_event broker now) (take batch_size (find_where publishable (outbox s)))
             (s\<lparr>is_processing := True,
                pending_gauge := length (take batch_size (find_where publishable (outbox s)))\<rparr>))
           \<lparr>is_processing := False\<rparr>)"
  by (simp add: process_outbox_def publish_pending_def Let_def)

text \<open>
  C30: a tick keeps the invariant of the outbox: identifiers stay unique, every row marked
  processed has been accepted by the broker, and no row counts more than ten failures.
\<close>

theorem outbox_tick_keeps_invariant:
  assumes "outbox_inv s"
  shows "outbox_inv (process_outbox broker now s)"
  using assms batch_rows [OF assms, of batch_size]
  by (auto simp: process_outbox_fold intro!: fold_inv)

theorem outbox_tick_keeps_invariant_witness:
  "outbox_inv (process_outbox (\<lambda>_. Some ''down'') 5 sample_state)"
  by (rule outbox_tick_keeps_invariant [OF sample_inv])

text \<open>
  A tick sends to the broker the oldest fifty unprocessed rows with fewer than ten
  failures, in order of creation and each once, and nothing while another tick runs.
\<close>

theorem outbox_tick_publishes_in_order:
  "published (process_outbox broker now s) = published s @
     (if is_processing s then []
      else map message (filter (\<lambda>e. broker e = None)
             (take 50 (filter (\<lambda>e. \<not> oe_processed e \<and> oe_retry_count e < 10) (outbox s)))))"
  by (simp add: process_outbox_fold batch_size_def fold_published find_where_def
      publishable_def [abs_def])

text \<open>
  When the broker accepts everything and at most fifty rows are pending, no row is
  pending after the tick.
\<close>

theorem outbox_tick_drains:
  assumes inv: "outbox_inv s" and small: "length (filter publishable (outbox s)) \<le> 50"
    and up: "\<forall>e. broker e = None" and idle: "\<not> is_processing s"
  shows "fst (publish_pending n (process_outbox broker now s)) = []"
proof -
  let ?es = "filter publishable (outbox s)"
  let ?t = "s\<lparr>is_processing := True, pending_gauge := length ?es\<rparr>"
  let ?s' = "fold (process_event broker now) ?es ?t"
  have es: "take batch_size (find_where publishable (outbox s)) = ?es"
    using small by (simp add: batch_size_def find_where_def)
  note rows = batch_rows [OF inv, of batch_size, unfolded es]
  have t: "outbox_inv ?t" "\<forall>e \<in> set ?es. e \<in> set (outbox ?t) \<and> publishable e" using inv by auto
  have "\<not> publishable e'" if e': "e' \<in> set (outbox ?s')" for e'
  proof (cases "oe_id e' \<in> oe_id ` set ?es")
    case True
    from fold_accepted [OF t(1) rows(1) t(2) e' True up] show ?thesis by (simp add: publishable_def)
  next
    case False
    then have "e' \<in> set (outbox s)" using e' fold_other [OF False, of broker now ?t] by simp
    with False show ?thesis by auto
  qed
  then have "filter publishable (outbox ?s') = []" by (intro filter_False ballI)
  moreover have "process_outbox broker now s = ?s'\<lparr>is_processing := False\<rparr>"
    using idle by (simp only: process_outbox_fold es if_False)
  ultimately show ?thesis by (simp add: publish_pending_def find_where_def)
qed

theorem outbox_tick_drains_witness:
  "fst (publish_pending 7 (process_outbox (\<lambda>_. None) 5 sample_state)) = []"
  by (rule outbox_tick_drains [OF sample_inv]) (simp_all add: sample_defs publishable_def)

lemma mset_map_partition:
  "mset (map f (filter p xs)) + mset (map f (filter (\<lambda>x. \<not> p x) xs)) = mset (map f xs)"
  by (induction xs) simp_all

lemma move_to_dead_letter_tables:
  assumes "outbox_inv s"
  shows "outbox (snd (move_to_dead_letter k s)) = filter (\<lambda>e. oe_processed e \<or> oe_retry_count e < k) (outbox s)"
    and "dead_letters (snd (move_to_dead_letter k s)) = dead_letters s @
           map to_dead_letter (filter (\<lambda>e. \<not> (oe_processed e \<or> oe_retry_count e < k)) (outbox s))"
proof -
  let ?q = "\<lambda>e. oe_processed e \<or> oe_retry_count e < k"
  let ?m = "filter (\<lambda>e. \<not> ?q e) (outbox s)"
  have m: "find_where (\<lambda>e. \<not> oe_processed e \<and> k \<le> oe_retry_count e) (outbox s) = ?m"
    by (simp add: find_where_def not_less)
  have d: "distinct (map oe_id (outbox s))" using assms by (simp add: outbox_inv_def)
  have "oe_id e \<in> oe_id ` set ?m \<longleftrightarrow> \<not> ?q e" if "e \<in> set (outbox s)" for e
    using distinct_id_row [OF d] that by fastforce
  then have "filter (\<lambda>e. oe_id e \<notin> oe_id ` set ?m) (outbox s) = filter ?q (outbox s)"
    by (intro filter_cong) auto
  moreover have "?m = [] \<Longrightarrow> filter ?q (outbox s) = outbox s"
    by (simp add: filter_empty_conv filter_id_conv)
  ultimately show "outbox (snd (move_to_dead_letter k s)) = filter ?q (outbox s)"
    by (auto simp: move_to_dead_letter_def Let_def m delete_where_def)
  show "dead_letters (snd (move_to_dead_letter k s)) = dead_letters s @ map to_dead_letter ?m"
    by (simp add: move_to_dead_letter_def Let_def m)
qed

text \<open>
  Moving events to the dead-letter table loses none and duplicates none: the identifiers
  in the outbox and among the dead letters are the same as before, and no unprocessed row
  with that many failures stays in the outbox.
\<close>

theorem dead_letter_move_conserves_events:
  assumes "outbox_inv s" "move_to_dead_letter k s = (n, s')"
  shows "mset (map oe_id (outbox s')) + mset (map dl_original_event_id (dead_letters s'))
       = mset (map oe_id (outbox s)) + mset (map dl_original_event_id (dead_letters s))
     \<and> get_dead_letter_events k s' = []"
proof -
  let ?q = "\<lambda>e. oe_processed e \<or> oe_retry_count e < k"
  have s': "s' = snd (move_to_dead_letter k s)" using assms(2) by simp
  have dl: "dl_original_event_id \<circ> to_dead_letter = oe_id" by (auto simp: to_dead_letter_def)
  have "mset (map oe_id (outbox s')) + mset (map dl_original_event_id (dead_letters s'))
       = mset (map oe_id (outbox s)) + mset (map dl_original_event_id (dead_letters s))"
    by (simp only: s' move_to_dead_letter_tables [OF assms(1)] map_append map_map dl mset_append
        mset_map_partition [of oe_id ?q "outbox s", symmetric] add_ac)
  moreover have "get_dead_letter_events k s' = []"
    unfolding s' get_dead_letter_events_def move_to_dead_letter_tables [OF assms(1)] find_where_def
    by (auto simp: filter_empty_conv)
  ultimately show ?thesis ..
qed

theorem dead_letter_move_conserves_events_witness:
  "get_dead_letter_events 0 (snd (move_to_dead_letter 0 sample_state)) = []"
  using dead_letter_move_conserves_events [OF sample_inv, of 0 "fst (move_to_dead_letter 0 sample_state)"
      "snd (move_to_dead_letter 0 sample_state)"] by simp

text \<open>
  Two instances of the processor whose claims both run before either has marked its rows,
  which the source allows since the claim keeps no lock.
\<close>

definition two_processors ::
  "(outbox_event \<Rightarrow> string option) \<Rightarrow> int \<Rightarrow> outbox_state \<Rightarrow> outbox_state" where
  "two_processors broker now s =
     (let (batch1, s1) = publish_pending batch_size s;
          (batch2, s2) = publish_pending batch_size s1
      in fold (process_event broker now) batch2 (fold (process_event broker now) batch1 s2))"

text \<open>
  The claim of a batch is not exclusive: when two processors claim before either marks
  its rows, every message of the batch is published twice.
\<close>

theorem concurrent_claims_publish_twice:
  "published (two_processors (\<lambda>_. None) now s) =
     (let batch = map message (take 50 (filter publishable (outbox s)))
      in published s @ batch @ batch)"
  by (simp add: two_processors_def publish_pending_def Let_def fold_published find_where_def batch_size_def)

text \<open>
  The clean-up keeps every processed row whose time of processing differs from the
  cut-off, the rows processed long before it included, and every unprocessed row.
\<close>

theorem cleanup_keeps_older_rows:
  assumes "e \<in> set (outbox s)" "oe_processed_at e \<noteq> Some older_than \<or> \<not> oe_processed e"
  shows "e \<in> set (outbox (snd (cleanup_processed_events older_than s)))"
  using assms by (auto simp: cleanup_processed_events_def Let_def)

theorem cleanup_keeps_older_rows_witness:
  "\<exists>e. oe_processed e \<and> oe_processed_at e = Some 5 \<and>
     e \<in> set (outbox (snd (cleanup_processed_events 1000 (process_outbox (\<lambda>_. None) 5 sample_state))))"
proof (intro exI conjI)
  let ?e = "sample_event\<lparr>oe_processed := True, oe_processed_at := Some 5\<rparr>"
  show "oe_processed ?e" "oe_processed_at ?e = Some 5" by simp_all
  show "?e \<in> set (outbox (snd (cleanup_processed_events 1000 (process_outbox (\<lambda>_. None) 5 sample_state))))"
    by (rule cleanup_keeps_older_rows)
      (simp_all add: sample_defs process_outbox_fold batch_size_def find_where_def publishable_def
        process_event_def mark_processed_def update_where_def)
qed

end
