(* ===== verification/RetryPolicy.thy ===== *)
theory RetryPolicy
  imports Prelude
begin

text \<open>
  The retry arithmetic of the queue consumers: \<open>backend/src/common/retry-policy.ts\<close> (policies
  built from options) and the helpers of \<open>backend/src/queue/retry-policy.ts\<close> (the delivery
  attempt read from the broker's header, the classification of errors, the back-off). Random
  numbers are arguments, between 0 included and 1 excluded where a theorem needs it.
\<close>

subsection \<open>Policies\<close>

record retry_policy =
  rp_base_delay_ms :: jsnum
  rp_max_attempts :: int
  rp_max_delay_ms :: jsnum
  rp_factor :: jsnum
  rp_jitter :: bool

text \<open>\<open>Math.pow\<close> with an integral exponent, correctly rounded.\<close>

definition pow_js :: "jsnum \<Rightarrow> int \<Rightarrow> jsnum" where
  "pow_js b k = fl (if 0 \<le> k then b ^ nat k else 1 / b ^ nat (- k))"

definition next_attempt_ms :: "retry_policy \<Rightarrow> jsnum \<Rightarrow> int \<Rightarrow> jsnum" where
  "next_attempt_ms opts random attempt =
     (let base = mul_js (rp_base_delay_ms opts) (pow_js (rp_factor opts) (attempt - 1));
          capped = min base (rp_max_delay_ms opts)
      in if \<not> rp_jitter opts then capped
         else math_floor (mul_js capped (add_js 1 (mul_js (lit (2 / 10)) random))))"

definition is_exhausted :: "retry_policy \<Rightarrow> int \<Rightarrow> bool" where
  "is_exhausted opts attempt \<longleftrightarrow> rp_max_attempts opts \<le> attempt"

definition default_retry_policy :: retry_policy where
  "default_retry_policy =
     \<lparr>rp_base_delay_ms = 1000, rp_max_attempts = 3, rp_max_delay_ms = 10000, rp_factor = 2,
      rp_jitter = False\<rparr>"

definition stellar_retry_policy :: retry_policy where
  "stellar_retry_policy =
     \<lparr>rp_base_delay_ms = 1000, rp_max_attempts = 3, rp_max_delay_ms = 10000, rp_factor = 2,
      rp_jitter = False\<rparr>"

subsection \<open>Queue helpers\<close>

text \<open>
  The header \<open>x-death\<close> of a message: absent (or not an array), or the list of its entries,
  each with an optional count.
\<close>

definition get_delivery_attempt :: "nat option list option \<Rightarrow> nat" where
  "get_delivery_attempt x_death =
     (case x_death of
        None \<Rightarrow> 1
      | Some deaths \<Rightarrow>
          if deaths = [] then 1
          else foldl (\<lambda>sum d. sum + (case d of None \<Rightarrow> 0 | Some c \<Rightarrow> c)) 0 deaths + 1)"

fun starts_with :: "string \<Rightarrow> string \<Rightarrow> bool" where
  "starts_with [] t = True"
| "starts_with (c # cs) [] = False"
| "starts_with (c # cs) (d # ds) = (c = d \<and> starts_with cs ds)"

text \<open>\<open>t.includes(needle)\<close>.\<close>

fun str_includes :: "string \<Rightarrow> string \<Rightarrow> bool" where
  "str_includes needle [] = starts_with needle []"
| "str_includes needle (c # cs) = (starts_with needle (c # cs) \<or> str_includes needle cs)"

definition transient_needles :: "string list" where
  "transient_needles =
     [''stellar'', ''horizon'', ''timeout'', ''ETIMEDOUT'', ''ECONNREFUSED'', ''ENOTFOUND'',
      ''connection'', ''database'']"

definition is_transient_queue_error :: "string \<Rightarrow> bool" where
  "is_transient_queue_error message = list_ex (\<lambda>needle. str_includes needle message) transient_needles"

definition get_exponential_backoff_delay_ms :: "int \<Rightarrow> jsnum \<Rightarrow> jsnum \<Rightarrow> jsnum \<Rightarrow> jsnum" where
  "get_exponential_backoff_delay_ms attempt base_delay_ms max_jitter_ms random =
     (let normalized = max 1 attempt;
          exponential = mul_js (pow_js 2 (normalized - 1)) base_delay_ms;
          jitter = math_floor (mul_js random max_jitter_ms)
      in add_js exponential jitter)"

definition calculate_backoff_with_jitter :: "int \<Rightarrow> jsnum \<Rightarrow> jsnum \<Rightarrow> jsnum \<Rightarrow> jsnum" where
  "calculate_backoff_with_jitter attempt base_delay_ms max_jitter_ms random =
     (let normalized = max 0 attempt;
          exponential = mul_js base_delay_ms (pow_js 2 normalized);
          jitter = math_floor (mul_js random max_jitter_ms)
      in add_js exponential jitter)"

subsection \<open>Lemmas\<close>

lemma starts_with_append: "starts_with u t \<longleftrightarrow> (\<exists>v. t = u @ v)"
  by (induction u t rule: starts_with.induct) auto

lemma str_includes_iff: "str_includes needle t \<longleftrightarrow> (\<exists>u v. t = u @ needle @ v)"
proof (induction needle t rule: str_includes.induct)
  case (2 needle c cs)
  have "(\<exists>u v. c # cs = u @ needle @ v) \<longleftrightarrow> starts_with needle (c # cs) \<or> (\<exists>u v. cs = u @ needle @ v)"
  proof
    assume "\<exists>u v. c # cs = u @ needle @ v"
    then obtain u v where "c # cs = u @ needle @ v" by blast
    then show "starts_with needle (c # cs) \<or> (\<exists>u v. cs = u @ needle @ v)"
      by (cases u) (auto simp: starts_with_append)
  next
    assume "starts_with needle (c # cs) \<or> (\<exists>u v. cs = u @ needle @ v)"
    then show "\<exists>u v. c # cs = u @ needle @ v"
      by (metis append_Cons append_Nil starts_with_append)
  qed
  with 2 show ?case by simp
qed (auto simp: starts_with_append)

lemma jitter_bounds:
  assumes "0 \<le> r" "r \<le> 1" "0 \<le> j" "j \<le> 2 ^ 53"
  shows "\<exists>n. math_floor (mul_js r (of_int j)) = of_int n \<and> 0 \<le> n \<and> n \<le> j"
proof (intro exI conjI)
  let ?x = "mul_js r (of_int j)"
  show "math_floor ?x = of_int \<lfloor>?x\<rfloor>" by (simp add: math_floor_def)
  have "0 \<le> ?x" unfolding mul_js_def using assms by (intro fl_nonneg) simp
  then show "0 \<le> \<lfloor>?x\<rfloor>" by simp
  have "r * of_int j \<le> 1 * of_int j" using assms by (intro mult_right_mono) auto
  then have "?x \<le> of_int j" unfolding mul_js_def using assms by (intro fl_le_int) auto
  then show "\<lfloor>?x\<rfloor> \<le> j" by linarith
qed

lemma pow_js_2: "0 \<le> k \<Longrightarrow> 2 ^ nat k \<le> (2 ^ 53 :: int) \<Longrightarrow> pow_js 2 k = of_int (2 ^ nat k)"
  using fl_of_int [of "2 ^ nat k"] by (simp add: pow_js_def)

lemma exponential_int:
  assumes k: "0 \<le> k" and b: "0 < b" "2 ^ nat k * b \<le> (2 ^ 53 :: int)"
  shows "mul_js (pow_js 2 k) (of_int b) = of_int (2 ^ nat k * b)"
proof -
  have "(2::int) ^ nat k * 1 \<le> 2 ^ nat k * b" using b(1) by (intro mult_left_mono) auto
  then have "2 ^ nat k \<le> (2 ^ 53 :: int)" using b(2) by linarith
  then have "pow_js 2 k = of_int (2 ^ nat k)" by (rule pow_js_2 [OF k])
  moreover have "\<bar>2 ^ nat k * b\<bar> \<le> (2 ^ 53 :: int)" using b by (simp add: abs_mult)
  ultimately show ?thesis using mul_js_of_int [of "2 ^ nat k" b] by simp
qed

text \<open>
  The back-off before the retry of an attempt is the base delay doubled once per earlier
  attempt, plus a whole number of milliseconds of at most the maximal jitter; the two
  back-off functions agree when one counts attempts from one and the other from zero.
\<close>

theorem backoff_doubles_within_jitter:
  assumes r: "0 \<le> r" "r \<le> 1" and j: "0 \<le> j" and b: "0 < b"
    and small: "2 ^ nat (max 1 attempt - 1) * b + j \<le> (2 ^ 53 :: int)"
  shows "(\<exists>n. get_exponential_backoff_delay_ms attempt (of_int b) (of_int j) r
              = of_int (2 ^ nat (max 1 attempt - 1) * b + n) \<and> 0 \<le> n \<and> n \<le> j) \<and>
    calculate_backoff_with_jitter (max 1 attempt - 1) (of_int b) (of_int j) r
      = get_exponential_backoff_delay_ms attempt (of_int b) (of_int j) r"
proof -
  let ?k = "max 1 attempt - 1"
  have pos: "0 \<le> 2 ^ nat ?k * b" using b by simp
  then have e: "mul_js (pow_js 2 ?k) (of_int b) = of_int (2 ^ nat ?k * b)"
    using small j b by (intro exponential_int) auto
  from pos small have j53: "j \<le> 2 ^ 53" by linarith
  obtain n where n: "math_floor (mul_js r (of_int j)) = of_int n" "0 \<le> n" "n \<le> j"
    using jitter_bounds [OF r j j53] by blast
  have "add_js (of_int (2 ^ nat ?k * b)) (of_int n) = of_int (2 ^ nat ?k * b + n)"
    using pos small n by (intro add_js_of_int) linarith
  moreover have "max 0 ?k = ?k" by simp
  ultimately show ?thesis using n e
    by (simp only: get_exponential_backoff_delay_ms_def calculate_backoff_with_jitter_def Let_def
        mult.commute [of "of_int b"] mul_js_def) auto
qed

theorem backoff_doubles_within_jitter_witness:
  "\<exists>n. get_exponential_backoff_delay_ms 3 (of_int 1000) (of_int 500) (1 / 2) = of_int (4000 + n) \<and> 0 \<le> n \<and> n \<le> 500"
  using backoff_doubles_within_jitter [of "1 / 2" 500 1000 3] by simp

text \<open>
  Without jitter the delay of a policy never exceeds its cap and never shrinks from one
  attempt to the next, when the base delay is not negative and the factor at least one.
\<close>

theorem policy_delay_capped_and_monotone:
  assumes "\<not> rp_jitter p" "0 \<le> rp_base_delay_ms p" "1 \<le> rp_factor p" "1 \<le> a" "a \<le> b"
  shows "next_attempt_ms p r a \<le> rp_max_delay_ms p \<and> next_attempt_ms p r a \<le> next_attempt_ms p r' b"
proof -
  have "rp_factor p ^ nat (a - 1) \<le> rp_factor p ^ nat (b - 1)"
    using assms by (intro power_increasing nat_mono) auto
  then have "pow_js (rp_factor p) (a - 1) \<le> pow_js (rp_factor p) (b - 1)"
    using assms by (simp add: pow_js_def fl_mono)
  then have "mul_js (rp_base_delay_ms p) (pow_js (rp_factor p) (a - 1))
      \<le> mul_js (rp_base_delay_ms p) (pow_js (rp_factor p) (b - 1))"
    using assms unfolding mul_js_def by (intro fl_mono mult_left_mono) auto
  then show ?thesis using assms(1) by (auto simp: next_attempt_ms_def Let_def)
qed

theorem policy_delay_capped_and_monotone_witness:
  "next_attempt_ms default_retry_policy 0 2 \<le> 10000"
  using policy_delay_capped_and_monotone [of default_retry_policy 2 5 0 0]
  by (simp add: default_retry_policy_def)

text \<open>
  The cap of a policy with jitter does not bound its delay: the jitter is added after
  the cap is applied.
\<close>

theorem jitter_exceeds_cap:
  "rp_max_delay_ms (default_retry_policy\<lparr>rp_jitter := True\<rparr>)
     < next_attempt_ms (default_retry_policy\<lparr>rp_jitter := True\<rparr>) (1 / 2) 5"
  by code_simp

text \<open>
  An error is retried exactly when its message contains one of the listed words as
  written, and the attempt number read from the broker's header is one more than the sum of
  the death counts.
\<close>

theorem queue_error_classification:
  "(is_transient_queue_error message \<longleftrightarrow> (\<exists>needle \<in> set transient_needles. \<exists>u v. message = u @ needle @ v)) \<and>
   get_delivery_attempt x_death = 1 + (\<Sum>d\<leftarrow>(case x_death of None \<Rightarrow> [] | Some ds \<Rightarrow> ds). case d of None \<Rightarrow> 0 | Some c \<Rightarrow> c)"
proof -
  have "foldl (\<lambda>s d. s + (case d of None \<Rightarrow> 0 | Some c \<Rightarrow> c)) a ds
      = a + (\<Sum>d\<leftarrow>ds. case d of None \<Rightarrow> 0 | Some c \<Rightarrow> c)" for a :: nat and ds
    by (induction ds arbitrary: a) auto
  then show ?thesis
    by (auto simp: get_delivery_attempt_def is_transient_queue_error_def list_ex_iff str_includes_iff
        split: option.split)
qed

end
