(* ===== verification/Fees.thy ===== *)
theory Fees
  imports Money
begin

text \<open>
  The fees of an investment: the breakdown computed from the fee configurations
  (\<open>backend/src/investments/fee-calculator.service.ts\<close>) and its encoding in the memo of the
  Stellar transaction (\<open>backend/src/investments/fee-transaction.utils.ts\<close>). The text of a
  number inside \<open>JSON.stringify\<close> is the parameter \<open>show_num\<close> of the runtime.
\<close>

subsection \<open>Fee configurations\<close>

datatype fee_type = PlatformOrigination | PlatformSuccess | InvestorEntry | EarlyExit

datatype investor_tier = TierRetail | TierVip | TierInstitutional

record fee_configuration =
  fc_deal_type :: string
  fc_investor_tier :: investor_tier
  fc_fee_type :: fee_type
  fc_rate_percent :: jsnum
  fc_description :: "string option"
  fc_effective_from :: int
  fc_effective_to :: "int option"

record fee_line_item =
  li_type :: fee_type
  li_description :: string
  li_rate_percent :: jsnum
  li_amount :: jsnum
  li_effective_from :: int

record fee_breakdown =
  fb_gross_amount :: jsnum
  fb_platform_origination_fee :: "fee_line_item option"
  fb_platform_success_fee :: "fee_line_item option"
  fb_investor_entry_fee :: "fee_line_item option"
  fb_early_exit_fee :: "fee_line_item option"
  fb_total_fees :: jsnum
  fb_net_investment_amount :: jsnum
  fb_breakdown :: "fee_line_item list"

datatype fee_error = NoFeeConfiguration string investor_tier

subsection \<open>FeeCalculatorService\<close>

text \<open>The order of the database enumeration the query sorts by.\<close>

fun fee_rank :: "fee_type \<Rightarrow> nat" where
  "fee_rank PlatformOrigination = 0"
| "fee_rank PlatformSuccess = 1"
| "fee_rank InvestorEntry = 2"
| "fee_rank EarlyExit = 3"

definition effective_at :: "int \<Rightarrow> fee_configuration \<Rightarrow> bool" where
  "effective_at date c \<longleftrightarrow>
     fc_effective_from c \<le> date \<and> (case fc_effective_to c of Some t \<Rightarrow> date < t | None \<Rightarrow> True)"

definition get_applicable_fees ::
  "fee_configuration list \<Rightarrow> string \<Rightarrow> investor_tier \<Rightarrow> int \<Rightarrow> fee_configuration list" where
  "get_applicable_fees repo deal_type tier date =
     sort_key (\<lambda>c. fee_rank (fc_fee_type c))
       (find_where (\<lambda>c. fc_deal_type c = deal_type \<and> fc_investor_tier c = tier \<and> effective_at date c) repo)"

fun tier_text :: "investor_tier \<Rightarrow> string" where
  "tier_text TierRetail = ''retail''"
| "tier_text TierVip = ''vip''"
| "tier_text TierInstitutional = ''institutional''"

fun get_default_fee_description :: "fee_type \<Rightarrow> investor_tier \<Rightarrow> string" where
  "get_default_fee_description PlatformOrigination tier = ''Platform origination fee''"
| "get_default_fee_description PlatformSuccess tier = ''Platform success fee''"
| "get_default_fee_description InvestorEntry tier = ''Investor entry fee ('' @ tier_text tier @ '')''"
| "get_default_fee_description EarlyExit tier = ''Early exit penalty fee''"

definition calculate_fee_line_item :: "fee_configuration \<Rightarrow> jsnum \<Rightarrow> fee_line_item" where
  "calculate_fee_line_item config base_amount =
     (let amount = div_js (mul_js base_amount (fc_rate_percent config)) 100
      in \<lparr>li_type = fc_fee_type config,
          li_description = (case fc_description config of
             Some d \<Rightarrow> if d = [] then get_default_fee_description (fc_fee_type config) (fc_investor_tier config) else d
           | None \<Rightarrow> get_default_fee_description (fc_fee_type config) (fc_investor_tier config)),
          li_rate_percent = fc_rate_percent config,
          li_amount = div_js (math_round (mul_js amount 100)) 100,
          li_effective_from = fc_effective_from config\<rparr>)"

text \<open>One iteration of the loop over the applicable configurations.\<close>

definition add_line_item :: "bool \<Rightarrow> jsnum \<Rightarrow> fee_configuration \<Rightarrow> fee_breakdown \<Rightarrow> fee_breakdown" where
  "add_line_item is_early_exit gross c b =
     (if is_early_exit \<and> fc_fee_type c \<noteq> EarlyExit then b
      else if \<not> is_early_exit \<and> fc_fee_type c = EarlyExit then b
      else
        let item = calculate_fee_line_item c gross;
            b' = b\<lparr>fb_breakdown := fb_breakdown b @ [item],
                   fb_total_fees := add_js (fb_total_fees b) (li_amount item)\<rparr>
        in case fc_fee_type c of
             PlatformOrigination \<Rightarrow> b'\<lparr>fb_platform_origination_fee := Some item\<rparr>
           | PlatformSuccess \<Rightarrow> b'\<lparr>fb_platform_success_fee := Some item\<rparr>
           | InvestorEntry \<Rightarrow> b'\<lparr>fb_investor_entry_fee := Some item\<rparr>
           | EarlyExit \<Rightarrow> b'\<lparr>fb_early_exit_fee := Some item\<rparr>)"

definition empty_breakdown :: "jsnum \<Rightarrow> fee_breakdown" where
  "empty_breakdown gross =
     \<lparr>fb_gross_amount = gross, fb_platform_origination_fee = None, fb_platform_success_fee = None,
      fb_investor_entry_fee = None, fb_early_exit_fee = None, fb_total_fees = 0,
      fb_net_investment_amount = gross, fb_breakdown = []\<rparr>"

definition item_amount :: "fee_line_item option \<Rightarrow> jsnum" where
  "item_amount x = (case x of Some i \<Rightarrow> li_amount i | None \<Rightarrow> 0)"

definition calculate_fee_breakdown ::
  "fee_configuration list \<Rightarrow> string \<Rightarrow> investor_tier \<Rightarrow> jsnum \<Rightarrow> bool \<Rightarrow> int \<Rightarrow> fee_error + fee_breakdown" where
  "calculate_fee_breakdown repo deal_type tier gross is_early_exit date =
     (let fees = get_applicable_fees repo deal_type tier date
      in if fees = [] then Inl (NoFeeConfiguration deal_type tier)
         else
           let b = fold (add_line_item is_early_exit gross) fees (empty_breakdown gross)
           in Inr (b\<lparr>fb_net_investment_amount := sub_js gross (item_amount (fb_investor_entry_fee b))\<rparr>))"

definition get_investor_tier_from_user :: "string \<Rightarrow> investor_tier" where
  "get_investor_tier_from_user role =
     (if role = ''company_admin'' \<or> role = ''admin'' then TierInstitutional else TierRetail)"

definition validate_deal_type_has_configurations ::
  "fee_configuration list \<Rightarrow> string \<Rightarrow> int \<Rightarrow> bool" where
  "validate_deal_type_has_configurations repo deal_type date \<longleftrightarrow>
     0 < affected (\<lambda>c. fc_deal_type c = deal_type \<and> effective_at date c) repo"

subsection \<open>The memo of the transaction\<close>

record encoded_fee_data =
  ef_fee_hash :: string
  ef_total_fee_stroops :: jsnum
  ef_compressed :: string

definition base64_alphabet :: string where
  "base64_alphabet = ''ABCDEFGHIJKLMNOPQRSTUVWXYZabcdefghijklmnopqrstuvwxyz0123456789+/''"

definition b64 :: "nat \<Rightarrow> char" where
  "b64 n = base64_alphabet ! (n mod 64)"

text \<open>\<open>Buffer.from(s).toString('base64')\<close> of an ASCII string.\<close>

fun base64 :: "string \<Rightarrow> string" where
  "base64 [] = []"
| "base64 [a] =
     (let x = of_char a :: nat in [b64 (x div 4), b64 (x mod 4 * 16), CHR ''='', CHR ''=''])"
| "base64 [a, b] =
     (let x = of_char a :: nat; y = of_char b
      in [b64 (x div 4), b64 (x mod 4 * 16 + y div 16), b64 (y mod 16 * 4), CHR ''=''])"
| "base64 (a # b # c # cs) =
     (let x = of_char a :: nat; y = of_char b; z = of_char c
      in b64 (x div 4) # b64 (x mod 4 * 16 + y div 16) # b64 (y mod 16 * 4 + z div 64) # b64 z # base64 cs)"

definition json_field :: "(jsnum \<Rightarrow> string) \<Rightarrow> string \<Rightarrow> jsnum \<Rightarrow> string" where
  "json_field show_num name v = CHR 0x22 # name @ [CHR 0x22, CHR '':''] @ show_num v"

definition fee_string :: "(jsnum \<Rightarrow> string) \<Rightarrow> fee_breakdown \<Rightarrow> string" where
  "fee_string show_num b =
     ''{'' @ json_field show_num ''grossAmount'' (fb_gross_amount b) @
     '','' @ json_field show_num ''platformOriginationFee'' (item_amount (fb_platform_origination_fee b)) @
     '','' @ json_field show_num ''platformSuccessFee'' (item_amount (fb_platform_success_fee b)) @
     '','' @ json_field show_num ''investorEntryFee'' (item_amount (fb_investor_entry_fee b)) @
     '','' @ json_field show_num ''earlyExitFee'' (item_amount (fb_early_exit_fee b)) @
     '','' @ json_field show_num ''totalFees'' (fb_total_fees b) @
     '','' @ json_field show_num ''netInvestmentAmount'' (fb_net_investment_amount b) @ ''}''"

definition item_rate :: "fee_line_item option \<Rightarrow> jsnum" where
  "item_rate x = (case x of Some i \<Rightarrow> li_rate_percent i | None \<Rightarrow> 0)"

definition compressed_string :: "(jsnum \<Rightarrow> string) \<Rightarrow> fee_breakdown \<Rightarrow> string" where
  "compressed_string show_num b =
     ''{'' @ json_field show_num ''t'' (fb_total_fees b) @
     '','' @ json_field show_num ''n'' (fb_net_investment_amount b) @
     '','' @ json_field show_num ''pof'' (item_rate (fb_platform_origination_fee b)) @
     '','' @ json_field show_num ''psf'' (item_rate (fb_platform_success_fee b)) @
     '','' @ json_field show_num ''ief'' (item_rate (fb_investor_entry_fee b)) @
     '','' @ json_field show_num ''eef'' (item_rate (fb_early_exit_fee b)) @ ''}''"

definition encode_fee_data :: "(jsnum \<Rightarrow> string) \<Rightarrow> fee_breakdown \<Rightarrow> encoded_fee_data" where
  "encode_fee_data show_num b =
     \<lparr>ef_fee_hash = take 16 (base64 (fee_string show_num b)),
      ef_total_fee_stroops = math_round (mul_js (fb_total_fees b) 10000000),
      ef_compressed = base64 (compressed_string show_num b)\<rparr>"

definition generate_investment_memo :: "(jsnum \<Rightarrow> string) \<Rightarrow> string \<Rightarrow> jsnum \<Rightarrow> encoded_fee_data \<Rightarrow> string" where
  "generate_investment_memo show_num asset_code token_amount fee_data =
     ''invest:'' @ asset_code @ '':'' @ show_num token_amount @ '':'' @ ef_fee_hash fee_data"

definition verify_fee_data :: "(jsnum \<Rightarrow> string) \<Rightarrow> fee_breakdown \<Rightarrow> encoded_fee_data \<Rightarrow> bool" where
  "verify_fee_data show_num original encoded \<longleftrightarrow>
     ef_fee_hash (encode_fee_data show_num original) = ef_fee_hash encoded"

definition extract_fee_hash_from_memo :: "string \<Rightarrow> string option" where
  "extract_fee_hash_from_memo memo =
     (let parts = split_on (CHR '':'') memo
      in if 4 \<le> length parts \<and> parts ! 0 = ''invest'' then Some (parts ! 3) else None)"

subsection \<open>The breakdown\<close>

definition charged :: "bool \<Rightarrow> fee_configuration \<Rightarrow> bool" where
  "charged is_early_exit c \<longleftrightarrow> (is_early_exit \<longleftrightarrow> fc_fee_type c = EarlyExit)"

lemma add_line_item_simps:
  "fb_breakdown (add_line_item e g c b) =
     fb_breakdown b @ (if charged e c then [calculate_fee_line_item c g] else [])"
  "fb_total_fees (add_line_item e g c b) =
     (if charged e c then add_js (fb_total_fees b) (li_amount (calculate_fee_line_item c g)) else fb_total_fees b)"
  "fb_investor_entry_fee (add_line_item e g c b) =
     (if charged e c \<and> fc_fee_type c = InvestorEntry then Some (calculate_fee_line_item c g)
      else fb_investor_entry_fee b)"
  "fb_gross_amount (add_line_item e g c b) = fb_gross_amount b"
  by (auto simp: add_line_item_def charged_def Let_def split: fee_type.splits)

lemma fold_breakdown:
  "fb_breakdown (fold (add_line_item e g) fees b) =
     fb_breakdown b @ map (\<lambda>c. calculate_fee_line_item c g) (filter (charged e) fees)"
  by (induction fees arbitrary: b) (simp_all add: add_line_item_simps)

lemma fold_total:
  "fb_total_fees (fold (add_line_item e g) fees b) =
     foldl (\<lambda>s i. add_js s (li_amount i)) (fb_total_fees b) (map (\<lambda>c. calculate_fee_line_item c g) (filter (charged e) fees))"
  by (induction fees arbitrary: b) (simp_all add: add_line_item_simps)

lemma fold_entry:
  "fb_investor_entry_fee (fold (add_line_item e g) fees b) = Some i \<Longrightarrow>
   fb_investor_entry_fee b = Some i \<or> (\<exists>c \<in> set fees. i = calculate_fee_line_item c g)"
proof (induction fees arbitrary: b)
  case (Cons c fees)
  from Cons.IH [of "add_line_item e g c b"] Cons.prems show ?case
    by (auto simp: add_line_item_simps split: if_splits)
qed simp

lemma fold_gross [simp]: "fb_gross_amount (fold (add_line_item e g) fees b) = fb_gross_amount b"
  by (induction fees arbitrary: b) (simp_all add: add_line_item_simps)

lemma set_applicable:
  "set (get_applicable_fees repo deal_type tier date) =
     {c \<in> set repo. fc_deal_type c = deal_type \<and> fc_investor_tier c = tier \<and> effective_at date c}"
  by (auto simp: get_applicable_fees_def find_where_def)

lemma fl_upper: "x \<le> y \<Longrightarrow> well_scaled y \<Longrightarrow> fl x \<le> y * (1 + ulp1)"
  using fl_mono fl_rel(1) order_trans by blast

lemma div_js_nonneg: "0 \<le> x \<Longrightarrow> 0 \<le> k \<Longrightarrow> 0 \<le> div_js x k"
  by (simp add: div_js_def fl_nonneg)

lemma div_js_mono: "x \<le> y \<Longrightarrow> 0 \<le> k \<Longrightarrow> div_js x k \<le> div_js y k"
  by (simp add: div_js_def fl_mono divide_right_mono)

text \<open>
  The rounded fee of a whole number of cents never exceeds it: the four roundings add less
  than half a cent.
\<close>

lemma line_amount_bounds:
  assumes c: "0 \<le> c" "c \<le> 2 ^ 45" and r: "0 \<le> fc_rate_percent cfg" "fc_rate_percent cfg \<le> 100"
  shows "0 \<le> li_amount (calculate_fee_line_item cfg (div_js (of_int c) 100))"
    and "li_amount (calculate_fee_line_item cfg (div_js (of_int c) 100)) \<le> div_js (of_int c) 100"
proof -
  let ?g = "div_js (of_int c) 100" and ?u = "1 + ulp1"
  let ?a = "div_js (mul_js ?g (fc_rate_percent cfg)) 100"
  let ?m = "mul_js ?a 100"
  have amount: "li_amount (calculate_fee_line_item cfg ?g) = div_js (math_round ?m) 100"
    by (simp add: calculate_fee_line_item_def Let_def)
  have g0: "0 \<le> ?g" using c by (simp add: div_js_def fl_nonneg)
  have a0: "0 \<le> ?a" using g0 r by (simp add: div_js_def mul_js_def fl_nonneg)
  have m0: "0 \<le> ?m" using a0 by (simp add: mul_js_def fl_nonneg)
  then have "0 \<le> math_round ?m" by (simp add: math_round_def)
  then show "0 \<le> li_amount (calculate_fee_line_item cfg ?g)"
    unfolding amount by (intro div_js_nonneg) auto
  have ws: "well_scaled (of_int c * k)" if "1 / 100 \<le> k" for k :: rat
  proof (cases "c = 0")
    case False
    then have "1 * (1 / 100) \<le> of_int c * k" using c that by (intro mult_mono) auto
    moreover have "1 / 2 ^ 300 \<le> (1 * (1 / 100) :: rat)" by simp
    ultimately have "1 / 2 ^ 300 \<le> of_int c * k" by (rule order_trans [rotated])
    then show ?thesis by (simp add: well_scaled_def)
  qed (simp add: well_scaled_def)
  have "?g \<le> of_int c * (1 / 100) * ?u"
    unfolding div_js_def by (rule fl_upper [OF _ ws]) simp_all
  then have "?g * fc_rate_percent cfg \<le> of_int c * (1 / 100) * ?u * 100"
    using r g0 by (intro mult_mono) auto
  then have "?g * fc_rate_percent cfg \<le> of_int c * ?u" by simp
  then have "mul_js ?g (fc_rate_percent cfg) \<le> of_int c * ?u * ?u"
    unfolding mul_js_def by (rule fl_upper [OF _ ws]) simp
  then have "?a \<le> of_int c * (?u * ?u / 100) * ?u"
    unfolding div_js_def by (intro fl_upper ws) (simp_all add: mult.assoc)
  then have "?m \<le> of_int c * (?u * ?u * ?u) * ?u"
    unfolding mul_js_def by (intro fl_upper ws) (simp_all add: mult.assoc)
  also have "\<dots> = of_int c * (?u * ?u * ?u * ?u)" by (simp add: mult.assoc)
  also have "\<dots> \<le> of_int c * (1 + 1 / 2 ^ 48)"
    using c by (intro mult_left_mono) auto
  also have "\<dots> = of_int c + of_int c / 2 ^ 48" by (simp add: algebra_simps)
  also have "\<dots> < of_int c + 1 / 2"
  proof -
    have "(of_int c :: rat) \<le> of_int (2 ^ 45)" using c(2) by (simp only: of_int_le_iff)
    then show ?thesis by simp
  qed
  finally have "\<lfloor>?m + 1 / 2\<rfloor> \<le> c" by linarith
  then have "math_round ?m \<le> of_int c" by (simp add: math_round_def)
  then show "li_amount (calculate_fee_line_item cfg ?g) \<le> ?g"
    unfolding amount by (intro div_js_mono) auto
qed


definition sample_config :: fee_configuration where
  "sample_config =
     \<lparr>fc_deal_type = ''Cocoa'', fc_investor_tier = TierRetail, fc_fee_type = InvestorEntry,
      fc_rate_percent = 2, fc_description = None, fc_effective_from = 0, fc_effective_to = None\<rparr>"


subsection \<open>The memo\<close>

text \<open>The hash is the encoding of the first twelve characters of the JSON text, which are fixed.\<close>

lemma fee_hash_constant: "ef_fee_hash (encode_fee_data show_num b) = ''eyJncm9zc0Ftb3Vu''"
  by (simp add: encode_fee_data_def fee_string_def json_field_def Let_def b64_def base64_alphabet_def)

text \<open>
  The verification of the fees does not depend on the fees: the data encoded for any
  breakdown is accepted for every other breakdown.
\<close>

theorem fee_verification_accepts_any_breakdown:
  "verify_fee_data show_num original (encode_fee_data show_num' tampered)"
  by (simp add: verify_fee_data_def fee_hash_constant)

text \<open>
  When neither the asset code nor the text of the token amount contains a colon, the
  hash read back from a memo is the hash it was generated with.
\<close>

theorem memo_hash_roundtrip:
  assumes "CHR '':'' \<notin> set asset_code" "CHR '':'' \<notin> set (show_num token_amount)"
  shows "extract_fee_hash_from_memo
           (generate_investment_memo show_num asset_code token_amount (encode_fee_data show_num b))
         = Some (ef_fee_hash (encode_fee_data show_num b))"
proof -
  have "CHR '':'' \<notin> set ''invest''" by simp
  moreover have "CHR '':'' \<notin> set ''eyJncm9zc0Ftb3Vu''" by simp
  ultimately have "split_on (CHR '':'') (''invest'' @ CHR '':'' # asset_code @ CHR '':'' # show_num token_amount @ CHR '':'' # ''eyJncm9zc0Ftb3Vu'')
      = [''invest'', asset_code, show_num token_amount, ''eyJncm9zc0Ftb3Vu'']"
    using assms by (simp only: split_on_append split_on_no_sep not_False_eq_True)
  moreover have "generate_investment_memo show_num asset_code token_amount (encode_fee_data show_num b)
      = ''invest'' @ CHR '':'' # asset_code @ CHR '':'' # show_num token_amount @ CHR '':'' # ''eyJncm9zc0Ftb3Vu''"
    by (simp add: generate_investment_memo_def fee_hash_constant)
  ultimately show ?thesis
    by (simp only: extract_fee_hash_from_memo_def fee_hash_constant Let_def) simp
qed

theorem memo_hash_roundtrip_witness:
  "extract_fee_hash_from_memo
     (generate_investment_memo (\<lambda>_. ''10'') ''COCOA'' 10 (encode_fee_data (\<lambda>_. ''10'') (empty_breakdown 100))) \<noteq> None"
  by (subst memo_hash_roundtrip) simp_all

end
