(* ===== verification/AnnualCap.thy ===== *)
theory AnnualCap
  imports Prelude
begin

text \<open>
  Accreditation tiers and investment caps: \<open>backend/src/accreditation/annual-cap.service.ts\<close>
  with the tiers and limits of \<open>backend/src/auth/entities/user.entity.ts\<close>. An infinite cap is
  \<open>None\<close>. The current year is an argument.
\<close>

datatype accreditation_tier = Retail | Accredited | Institutional

instantiation accreditation_tier :: linorder
begin

fun tier_index :: "accreditation_tier \<Rightarrow> nat" where
  "tier_index Retail = 0"
| "tier_index Accredited = 1"
| "tier_index Institutional = 2"

definition less_eq_accreditation_tier :: "accreditation_tier \<Rightarrow> accreditation_tier \<Rightarrow> bool" where
  "a \<le> b \<longleftrightarrow> tier_index a \<le> tier_index b"

definition less_accreditation_tier :: "accreditation_tier \<Rightarrow> accreditation_tier \<Rightarrow> bool" where
  "a < b \<longleftrightarrow> tier_index a < tier_index b"

instance
proof
  fix a b c :: accreditation_tier
  show "a < b \<longleftrightarrow> a \<le> b \<and> \<not> b \<le> a"
    by (auto simp: less_eq_accreditation_tier_def less_accreditation_tier_def)
  show "a \<le> a" by (simp add: less_eq_accreditation_tier_def)
  show "a \<le> b \<Longrightarrow> b \<le> c \<Longrightarrow> a \<le> c" by (simp add: less_eq_accreditation_tier_def)
  show "a \<le> b \<Longrightarrow> b \<le> a \<Longrightarrow> a = b"
    by (cases a; cases b) (simp_all add: less_eq_accreditation_tier_def)
  show "a \<le> b \<or> b \<le> a" by (auto simp: less_eq_accreditation_tier_def)
qed

end

definition tier_order :: "accreditation_tier list" where
  "tier_order = [Retail, Accredited, Institutional]"

fun index_of :: "'a \<Rightarrow> 'a list \<Rightarrow> int" where
  "index_of x [] = - 1"
| "index_of x (y # ys) = (if x = y then 0 else (let i = index_of x ys in if i = - 1 then - 1 else i + 1))"

definition tier_satisfies :: "accreditation_tier \<Rightarrow> accreditation_tier \<Rightarrow> bool" where
  "tier_satisfies user_tier required_tier \<longleftrightarrow> index_of required_tier tier_order \<le> index_of user_tier tier_order"

fun annual_cap_usd :: "accreditation_tier \<Rightarrow> jsnum option" where
  "annual_cap_usd Retail = Some 10000"
| "annual_cap_usd Accredited = None"
| "annual_cap_usd Institutional = None"

fun per_deal_cap_usd :: "accreditation_tier \<Rightarrow> jsnum option" where
  "per_deal_cap_usd Retail = Some 5000"
| "per_deal_cap_usd Accredited = Some 50000"
| "per_deal_cap_usd Institutional = None"

record annual_total =
  at_investor_id :: string
  at_year :: int
  at_total_usd :: jsnum

datatype cap_error =
    TierInsufficient accreditation_tier accreditation_tier
  | PerDealCapExceeded jsnum
  | AnnualCapExceeded jsnum jsnum

subsection \<open>AnnualCapService\<close>

definition total_row :: "string \<Rightarrow> int \<Rightarrow> annual_total list \<Rightarrow> annual_total option" where
  "total_row investor year repo = find_one (\<lambda>r. at_investor_id r = investor \<and> at_year r = year) repo"

text \<open>\<open>getAnnualTotal\<close>, and the reading of the total inside \<open>enforceCaps\<close>.\<close>

definition get_annual_total :: "string \<Rightarrow> int \<Rightarrow> annual_total list \<Rightarrow> jsnum" where
  "get_annual_total investor year repo =
     (case total_row investor year repo of Some r \<Rightarrow> at_total_usd r | None \<Rightarrow> 0)"

definition enforce_caps ::
  "annual_total list \<Rightarrow> string \<Rightarrow> accreditation_tier \<Rightarrow> jsnum \<Rightarrow> accreditation_tier \<Rightarrow> int \<Rightarrow> cap_error + unit" where
  "enforce_caps repo investor tier amount deal_minimum_tier year =
     (if \<not> tier_satisfies tier deal_minimum_tier then Inl (TierInsufficient tier deal_minimum_tier)
      else case (case per_deal_cap_usd tier of
                   Some cap \<Rightarrow> if cap < amount then Some cap else None
                 | None \<Rightarrow> None) of
        Some cap \<Rightarrow> Inl (PerDealCapExceeded cap)
      | None \<Rightarrow>
          (case annual_cap_usd tier of
             None \<Rightarrow> Inr ()
           | Some annual_cap \<Rightarrow>
               (let current_total = get_annual_total investor year repo
                in if annual_cap < add_js current_total amount
                   then Inl (AnnualCapExceeded annual_cap (max 0 (sub_js annual_cap current_total)))
                   else Inr ())))"

definition record_annual_investment :: "string \<Rightarrow> jsnum \<Rightarrow> int \<Rightarrow> annual_total list \<Rightarrow> annual_total list" where
  "record_annual_investment investor amount year repo =
     (case total_row investor year repo of
        None \<Rightarrow> insert_row \<lparr>at_investor_id = investor, at_year = year, at_total_usd = add_js 0 amount\<rparr> repo
      | Some r \<Rightarrow> update_where (\<lambda>x. at_investor_id x = investor \<and> at_year x = year)
                    (\<lambda>x. x\<lparr>at_total_usd := add_js (at_total_usd r) amount\<rparr>) repo)"

definition reset_one :: "int \<Rightarrow> annual_total \<Rightarrow> annual_total list \<Rightarrow> annual_total list" where
  "reset_one new_year r repo =
     (case total_row (at_investor_id r) new_year repo of
        None \<Rightarrow> insert_row \<lparr>at_investor_id = at_investor_id r, at_year = new_year, at_total_usd = 0\<rparr> repo
      | Some _ \<Rightarrow> update_where (\<lambda>x. at_investor_id x = at_investor_id r \<and> at_year x = new_year)
                    (\<lambda>x. x\<lparr>at_total_usd := 0\<rparr>) repo)"

definition reset_annual_totals :: "int \<Rightarrow> annual_total list \<Rightarrow> annual_total list" where
  "reset_annual_totals new_year repo =
     fold (reset_one new_year) (find_where (\<lambda>r. at_year r = new_year - 1) repo) repo"

subsection \<open>Lemmas\<close>

lemma tier_satisfies_le: "tier_satisfies a b \<longleftrightarrow> b \<le> a"
  by (cases a; cases b) (simp_all add: tier_satisfies_def tier_order_def less_eq_accreditation_tier_def)

lemma total_row_recorded:
  "get_annual_total investor year (record_annual_investment investor amount year repo)
     = add_js (get_annual_total investor year repo) amount"
proof (cases "total_row investor year repo")
  case None
  then show ?thesis
    by (simp add: get_annual_total_def record_annual_investment_def total_row_def find_one_insert)
next
  case (Some r)
  then have "at_investor_id r = investor \<and> at_year r = year"
    by (auto simp: total_row_def dest: find_one_SomeD)
  with Some show ?thesis
    by (simp add: get_annual_total_def record_annual_investment_def total_row_def find_one_update)
qed

lemma total_row_other:
  assumes "i \<noteq> investor \<or> y \<noteq> year"
  shows "get_annual_total i y (record_annual_investment investor amount year repo) = get_annual_total i y repo"
proof (cases "total_row investor year repo")
  case None
  with assms show ?thesis
    by (auto simp: get_annual_total_def record_annual_investment_def total_row_def find_one_insert
        split: option.split)
next
  case (Some r)
  with assms show ?thesis
    by (auto simp: get_annual_total_def record_annual_investment_def total_row_def find_one_update
        split: option.split dest!: find_one_SomeD)
qed

lemma enforce_caps_ok:
  "enforce_caps repo i t a m y = Inr () \<longleftrightarrow>
     m \<le> t \<and> (\<forall>cap. per_deal_cap_usd t = Some cap \<longrightarrow> a \<le> cap) \<and>
     (\<forall>cap. annual_cap_usd t = Some cap \<longrightarrow> add_js (get_annual_total i y repo) a \<le> cap)"
  by (auto simp: enforce_caps_def tier_satisfies_le Let_def not_less split: option.split)

subsection \<open>Properties\<close>

text \<open>
  C32: an investment is accepted exactly when the investor's tier is at least the deal's, the
  amount is within the cap of the tier for one deal and the total of the year would stay
  within its annual cap; when an accepted investment is then recorded, the total of the
  investor and year has grown by the amount, is still within the annual cap, and no other
  total has changed.
\<close>

theorem accepted_investment_stays_within_caps:
  "(enforce_caps repo i t a m y = Inr () \<longleftrightarrow>
      m \<le> t \<and> (case per_deal_cap_usd t of Some cap \<Rightarrow> a \<le> cap | None \<Rightarrow> True) \<and>
      (case annual_cap_usd t of Some cap \<Rightarrow> add_js (get_annual_total i y repo) a \<le> cap | None \<Rightarrow> True)) \<and>
   get_annual_total i y (record_annual_investment i a y repo) = add_js (get_annual_total i y repo) a \<and>
   (enforce_caps repo i t a m y = Inr () \<longrightarrow>
      (case annual_cap_usd t of
         Some cap \<Rightarrow> get_annual_total i y (record_annual_investment i a y repo) \<le> cap
       | None \<Rightarrow> True)) \<and>
   (\<forall>j z. (j, z) \<noteq> (i, y) \<longrightarrow>
      get_annual_total j z (record_annual_investment i a y repo) = get_annual_total j z repo)"
  by (auto simp: enforce_caps_ok total_row_recorded total_row_other split: option.split)

theorem accepted_investment_stays_within_caps_witness:
  "enforce_caps [] ''i'' Retail 4000 Retail 2026 = Inr () \<and>
   get_annual_total ''i'' 2026 (record_annual_investment ''i'' 4000 2026 []) \<le> 10000"
proof -
  have e: "enforce_caps [] ''i'' Retail 4000 Retail 2026 = Inr ()" by code_simp
  with accepted_investment_stays_within_caps [of "[]" "''i''" Retail 4000 Retail 2026]
  show ?thesis by simp
qed

text \<open>
  The check and the recording are two steps: two investments that are both checked
  before either is recorded are both accepted although together they break the annual cap.
\<close>

theorem concurrent_checks_break_annual_cap:
  "\<exists>repo. enforce_caps repo ''i'' Retail 4000 Retail 2026 = Inr () \<and>
          enforce_caps repo ''i'' Retail 5000 Retail 2026 = Inr () \<and>
          annual_cap_usd Retail = Some 10000 \<and>
          10000 < get_annual_total ''i'' 2026
            (record_annual_investment ''i'' 5000 2026 (record_annual_investment ''i'' 4000 2026 repo))"
  by (rule exI [of _ "[\<lparr>at_investor_id = ''i'', at_year = 2026, at_total_usd = 4000\<rparr>]"]) code_simp

end
