(* ===== verification/Entities.thy ===== *)
theory Entities
  imports AnnualCap
begin

text \<open>
  The entities the services share, with the columns the modelled code reads or writes:
  users (\<open>auth/entities/user.entity.ts\<close>), trade deals and their co-farmers
  (\<open>trade-deals/entities\<close>), investments and their event log (\<open>investments/entities\<close>).
  Decimal columns are numbers, as the \<open>Number(...)\<close> conversions of the services make them;
  time stamps are integers (milliseconds).
\<close>

text \<open>A nullable string that is tested for truth: null and the empty string are false.\<close>

definition present :: "string option \<Rightarrow> bool" where
  "present x \<longleftrightarrow> (case x of None \<Rightarrow> False | Some s \<Rightarrow> s \<noteq> [])"

lemma present_simps [simp]: "\<not> present None" "present (Some s) \<longleftrightarrow> s \<noteq> []"
  by (simp_all add: present_def)

lemma present_the: "present x \<longleftrightarrow> (\<exists>s. x = Some s \<and> s \<noteq> [])"
  by (cases x) auto

text \<open>
  The exceptions of the services with their code (or message), by HTTP class; \<open>Internal\<close> is any
  other error, such as one an external service throws.
\<close>

datatype http_error =
    BadRequest string | NotFound string | Forbidden string | Unprocessable string
  | Conflict string | Unauthorized string | TooManyRequests string | Internal string

record user =
  us_id :: string
  us_email :: string
  us_role :: string
  us_wallet_address :: "string option"
  us_accreditation_tier :: "accreditation_tier option"

datatype deal_status =
    DealDraft | DealOpen | DealFunded | DealDelivered | DealCompleted | DealFailed
  | DealCanceled | DealExpired

record trade_deal =
  td_id :: string
  td_commodity :: string
  td_total_value :: jsnum
  td_token_count :: jsnum
  td_token_symbol :: string
  td_status :: deal_status
  td_farmer_id :: string
  td_trader_id :: string
  td_escrow_public_key :: "string option"
  td_escrow_secret_key :: "string option"
  td_issuer_public_key :: "string option"
  td_issuer_secret_key :: "string option"
  td_total_invested :: jsnum
  td_app_trace_id :: "string option"
  td_min_lot_size :: "jsnum option"
  td_lot_step :: "jsnum option"
  td_milestone_release_pct :: jsnum
  td_minimum_tier :: "accreditation_tier option"
  td_deleted :: bool

datatype co_farmer_status = CoInvited | CoAccepted | CoDeclined | CoRemoved

record deal_co_farmer =
  cf_trade_deal_id :: string
  cf_farmer_id :: string
  cf_portion_percent :: jsnum
  cf_status :: co_farmer_status

datatype investment_status =
    InvPending | InvConfirmed | InvActive | InvReleasing | InvCompleted | InvCancelled
  | InvFailed | InvRefunded

text \<open>
  One party of the travel rule data: \<open>None\<close> stands for a field that is missing or is not a
  string. The data itself is \<open>(originator, beneficiary)\<close>, a party being \<open>None\<close> when it is
  missing or not an object.
\<close>

record travel_rule_party =
  tp_name :: "string option"
  tp_address :: "string option"
  tp_account_number :: "string option"

type_synonym compliance_data = "travel_rule_party option \<times> travel_rule_party option"

record investment =
  iv_id :: string
  iv_trade_deal_id :: string
  iv_investor_id :: string
  iv_token_amount :: jsnum
  iv_amount_usd :: jsnum
  iv_stellar_tx_id :: "string option"
  iv_compliance_data :: "compliance_data option"
  iv_status :: investment_status
  iv_created_at :: int
  iv_deleted :: bool

subsection \<open>Queries\<close>

text \<open>Rows whose soft-delete time stamp is set are not seen by \<open>find\<close> and \<open>findOne\<close>.\<close>

definition find_deal :: "string \<Rightarrow> trade_deal list \<Rightarrow> trade_deal option" where
  "find_deal i deals = find_one (\<lambda>d. td_id d = i \<and> \<not> td_deleted d) deals"

definition find_user :: "string \<Rightarrow> user list \<Rightarrow> user option" where
  "find_user i users = find_one (\<lambda>u. us_id u = i) users"

definition find_investment :: "string \<Rightarrow> investment list \<Rightarrow> investment option" where
  "find_investment i investments = find_one (\<lambda>v. iv_id v = i \<and> \<not> iv_deleted v) investments"

definition investments_of :: "string \<Rightarrow> investment_status \<Rightarrow> investment list \<Rightarrow> investment list" where
  "investments_of deal_id status investments =
     find_where (\<lambda>v. iv_trade_deal_id v = deal_id \<and> iv_status v = status \<and> \<not> iv_deleted v) investments"

text \<open>\<open>update(Entity, id, changes)\<close>: the update by key does not look at the soft-delete column.\<close>

definition update_deal :: "string \<Rightarrow> (trade_deal \<Rightarrow> trade_deal) \<Rightarrow> trade_deal list \<Rightarrow> trade_deal list" where
  "update_deal i f deals = update_where (\<lambda>d. td_id d = i) f deals"

definition update_investment :: "string \<Rightarrow> (investment \<Rightarrow> investment) \<Rightarrow> investment list \<Rightarrow> investment list" where
  "update_investment i f investments = update_where (\<lambda>v. iv_id v = i) f investments"

lemma find_dealD: "find_deal i deals = Some d \<Longrightarrow> td_id d = i \<and> d \<in> set deals \<and> \<not> td_deleted d"
  by (auto simp: find_deal_def dest: find_one_SomeD)

lemma find_userD: "find_user i users = Some u \<Longrightarrow> us_id u = i \<and> u \<in> set users"
  by (auto simp: find_user_def dest: find_one_SomeD)

lemma find_investmentD:
  "find_investment i investments = Some v \<Longrightarrow> iv_id v = i \<and> v \<in> set investments \<and> \<not> iv_deleted v"
  by (auto simp: find_investment_def dest: find_one_SomeD)

lemma set_investments_of:
  "v \<in> set (investments_of d st t) \<longleftrightarrow>
     v \<in> set t \<and> iv_trade_deal_id v = d \<and> iv_status v = st \<and> \<not> iv_deleted v"
  by (auto simp: investments_of_def find_where_def)

lemma find_investment_update:
  "(\<And>v. iv_id (f v) = iv_id v) \<Longrightarrow> (\<And>v. iv_deleted (f v) = iv_deleted v) \<Longrightarrow>
   find_investment i (update_investment j f t) =
     map_option (\<lambda>v. if iv_id v = j then f v else v) (find_investment i t)"
  by (simp add: find_investment_def update_investment_def find_one_update)

lemma find_deal_update:
  "(\<And>d. td_id (f d) = td_id d) \<Longrightarrow> (\<And>d. td_deleted (f d) = td_deleted d) \<Longrightarrow>
   find_deal i (update_deal j f t) = map_option (\<lambda>d. if td_id d = j then f d else d) (find_deal i t)"
  by (simp add: find_deal_def update_deal_def find_one_update)

end
