(* ===== verification/QueueService.thy ===== *)
theory QueueService
  imports Entities
begin

text \<open>
  \<open>backend/src/queue/queue.service.ts\<close>: jobs are either emitted to the broker at once or
  written to the outbox inside the transaction of the caller. \<open>encrypt_error\<close> stands for the
  encryption of the payload: the error it throws for a queue, if any. What becomes of the
  outbox rows is the subject of theory \<open>Outbox\<close>.
\<close>

record investment_fund_payload =
  if_investment_id :: string
  if_signed_xdr :: string
  if_escrow_public_key :: string
  if_encrypted_escrow_secret :: string
  if_asset_code :: string
  if_token_amount :: jsnum
  if_investor_wallet :: string
  if_amount_usd :: jsnum

record deal_funded_payload =
  df_trade_deal_id :: string
  df_commodity :: string
  df_total_value :: jsnum
  df_investors :: "(string \<times> jsnum) list"

record deal_publish_payload =
  dp_deal_id :: string
  dp_token_symbol :: string
  dp_escrow_public_key :: string
  dp_encrypted_escrow_secret :: string
  dp_token_count :: jsnum

text \<open>
  \<open>EmailJob kind recipient user deal amounts\<close> and \<open>AlertJob kind deal error\<close> are the payloads
  other services emit directly.
\<close>

datatype job =
    PublishJob deal_publish_payload
  | DeliveredJob string
  | CleanupJob string
  | FundJob investment_fund_payload
  | FundedJob deal_funded_payload
  | EmailJob string "string option" string string "jsnum list"
  | AlertJob string string string

record queue_message =
  qm_event :: string
  qm_job :: job
  qm_correlation_id :: "string option"

record queue_state =
  q_correlation_id :: "string option"
  q_emitted :: "queue_message list"
  q_outbox :: "queue_message list"
  q_analytics :: "(string \<times> string) list"

type_synonym 'a queue_handler = "(queue_state, string, 'a) handler"

definition emit :: "(string \<Rightarrow> string option) \<Rightarrow> string \<Rightarrow> queue_message \<Rightarrow> unit queue_handler" where
  "emit encrypt_error pattern data s =
     (case encrypt_error pattern of
        Some err \<Rightarrow> (Inl err, s)
      | None \<Rightarrow> (Inr (), s\<lparr>q_emitted := q_emitted s @ [data],
                         q_analytics := q_analytics s @ [(pattern, ''published'')]\<rparr>))"

definition add_correlation_id :: "string \<Rightarrow> job \<Rightarrow> queue_state \<Rightarrow> queue_message" where
  "add_correlation_id event payload s =
     \<lparr>qm_event = event, qm_job = payload, qm_correlation_id = q_correlation_id s\<rparr>"

definition enqueue_job :: "(string \<Rightarrow> string option) \<Rightarrow> string \<Rightarrow> job \<Rightarrow> unit queue_handler" where
  "enqueue_job encrypt_error event payload s = emit encrypt_error event (add_correlation_id event payload s) s"

definition enqueue_deal_publish :: "(string \<Rightarrow> string option) \<Rightarrow> deal_publish_payload \<Rightarrow> unit queue_handler" where
  "enqueue_deal_publish encrypt_error payload = enqueue_job encrypt_error ''deal.publish'' (PublishJob payload)"

definition enqueue_deal_delivered :: "(string \<Rightarrow> string option) \<Rightarrow> string \<Rightarrow> unit queue_handler" where
  "enqueue_deal_delivered encrypt_error deal_id = enqueue_job encrypt_error ''deal.delivered'' (DeliveredJob deal_id)"

definition enqueue_deal_cleanup :: "(string \<Rightarrow> string option) \<Rightarrow> string \<Rightarrow> unit queue_handler" where
  "enqueue_deal_cleanup encrypt_error deal_id = enqueue_job encrypt_error ''deal.cleanup'' (CleanupJob deal_id)"

definition enqueue_investment_fund :: "(string \<Rightarrow> string option) \<Rightarrow> investment_fund_payload \<Rightarrow> unit queue_handler" where
  "enqueue_investment_fund encrypt_error payload = enqueue_job encrypt_error ''investment.fund'' (FundJob payload)"

definition enqueue_deal_funded :: "(string \<Rightarrow> string option) \<Rightarrow> deal_funded_payload \<Rightarrow> unit queue_handler" where
  "enqueue_deal_funded encrypt_error payload = enqueue_job encrypt_error ''deal.funded'' (FundedJob payload)"

text \<open>The transactional variants write the outbox and emit nothing.\<close>

definition write_outbox :: "string \<Rightarrow> job \<Rightarrow> queue_state \<Rightarrow> queue_state" where
  "write_outbox event payload s =
     s\<lparr>q_outbox := insert_row (add_correlation_id event payload s) (q_outbox s)\<rparr>"

definition enqueue_deal_publish_transactional :: "deal_publish_payload \<Rightarrow> queue_state \<Rightarrow> queue_state" where
  "enqueue_deal_publish_transactional payload = write_outbox ''deal.publish'' (PublishJob payload)"

definition enqueue_deal_delivered_transactional :: "string \<Rightarrow> queue_state \<Rightarrow> queue_state" where
  "enqueue_deal_delivered_transactional deal_id = write_outbox ''deal.delivered'' (DeliveredJob deal_id)"

definition enqueue_deal_cleanup_transactional :: "string \<Rightarrow> queue_state \<Rightarrow> queue_state" where
  "enqueue_deal_cleanup_transactional deal_id = write_outbox ''deal.cleanup'' (CleanupJob deal_id)"

definition enqueue_investment_fund_transactional :: "investment_fund_payload \<Rightarrow> queue_state \<Rightarrow> queue_state" where
  "enqueue_investment_fund_transactional payload = write_outbox ''investment.fund'' (FundJob payload)"

definition enqueue_deal_funded_transactional :: "deal_funded_payload \<Rightarrow> queue_state \<Rightarrow> queue_state" where
  "enqueue_deal_funded_transactional payload = write_outbox ''deal.funded'' (FundedJob payload)"

lemmas enqueue_defs =
  enqueue_deal_publish_def enqueue_deal_delivered_def enqueue_deal_cleanup_def
  enqueue_investment_fund_def enqueue_deal_funded_def

lemmas transactional_defs =
  enqueue_deal_publish_transactional_def enqueue_deal_delivered_transactional_def
  enqueue_deal_cleanup_transactional_def enqueue_investment_fund_transactional_def
  enqueue_deal_funded_transactional_def

text \<open>
  The database part of the queue state is the outbox: a rolled back transaction takes its
  rows away and leaves what was emitted.
\<close>

definition restore_outbox :: "queue_state \<Rightarrow> queue_state \<Rightarrow> queue_state" where
  "restore_outbox before s = s\<lparr>q_outbox := q_outbox before\<rparr>"

lemma write_outbox_simps [simp]:
  "q_emitted (write_outbox ev p s) = q_emitted s"
  "q_outbox (write_outbox ev p s) = q_outbox s @ [\<lparr>qm_event = ev, qm_job = p, qm_correlation_id = q_correlation_id s\<rparr>]"
  "q_correlation_id (write_outbox ev p s) = q_correlation_id s"
  by (simp_all add: write_outbox_def insert_row_def add_correlation_id_def)

lemma enqueue_job_result:
  "enqueue_job enc ev p s =
     (case enc ev of Some err \<Rightarrow> (Inl err, s)
      | None \<Rightarrow> (Inr (), s\<lparr>q_emitted := q_emitted s @ [\<lparr>qm_event = ev, qm_job = p, qm_correlation_id = q_correlation_id s\<rparr>],
                          q_analytics := q_analytics s @ [(ev, ''published'')]\<rparr>))"
  by (simp add: enqueue_job_def emit_def add_correlation_id_def)

text \<open>
  A job written inside a transaction disappears with it: after a rollback the queue
  state is the old one, whereas a job emitted directly inside the transaction has been
  sent all the same.
\<close>

theorem rollback_undoes_transactional_jobs_only:
  "restore_outbox s (write_outbox ev p s) = s \<and>
   (encrypt_error ev = None \<longrightarrow>
      q_emitted (restore_outbox s (snd (enqueue_job encrypt_error ev p s)))
        = q_emitted s @ [\<lparr>qm_event = ev, qm_job = p, qm_correlation_id = q_correlation_id s\<rparr>])"
  by (simp add: restore_outbox_def write_outbox_def enqueue_job_result)

theorem rollback_undoes_transactional_jobs_only_witness:
  "q_emitted (restore_outbox \<lparr>q_correlation_id = None, q_emitted = [], q_outbox = [], q_analytics = []\<rparr>
     (snd (enqueue_job (\<lambda>_. None) ''deal.delivered'' (DeliveredJob ''d1'')
        \<lparr>q_correlation_id = None, q_emitted = [], q_outbox = [], q_analytics = []\<rparr>)))
   = [\<lparr>qm_event = ''deal.delivered'', qm_job = DeliveredJob ''d1'', qm_correlation_id = None\<rparr>]"
  using rollback_undoes_transactional_jobs_only
    [of "\<lparr>q_correlation_id = None, q_emitted = [], q_outbox = [], q_analytics = []\<rparr>" "''deal.delivered''"
       "DeliveredJob ''d1''" "\<lambda>_. None"] by simp

end
