(* ===== verification/Pagination.thy ===== *)
theory Pagination
  imports Prelude
begin

text \<open>
  \<open>backend/src/common/pagination.ts\<close>: the page and limit of a query are normalised, a query
  returns one page of the rows and the number of pages. An argument that is absent or not a
  finite number is \<open>None\<close>.
\<close>

record page_query =
  pq_page :: "int option"
  pq_limit :: "int option"

record 'a paginated =
  pr_data :: "'a list"
  pr_total :: int
  pr_page :: int
  pr_limit :: int
  pr_total_pages :: int

text \<open>The result is \<open>(page, limit, skip)\<close>.\<close>

definition normalize_pagination :: "page_query \<Rightarrow> int \<times> int \<times> int" where
  "normalize_pagination query =
     (let page = (case pq_page query of Some p \<Rightarrow> if 0 < p then p else 1 | None \<Rightarrow> 1);
          requested_limit = (case pq_limit query of Some l \<Rightarrow> if 0 < l then l else 20 | None \<Rightarrow> 20);
          limit = min requested_limit 100
      in (page, limit, (page - 1) * limit))"

definition to_paginated_result :: "'a list \<Rightarrow> int \<Rightarrow> int \<Rightarrow> int \<Rightarrow> 'a paginated" where
  "to_paginated_result data all_count page limit =
     \<lparr>pr_data = data, pr_total = all_count, pr_page = page, pr_limit = limit,
      pr_total_pages = \<lceil>(of_int all_count / of_int limit :: rat)\<rceil>\<rparr>"

text \<open>\<open>findAndCount\<close> with \<open>skip\<close> and \<open>take\<close> on the rows a query selects, and the result built from it.\<close>

definition paginate :: "page_query \<Rightarrow> 'a list \<Rightarrow> 'a paginated" where
  "paginate query rows =
     (case normalize_pagination query of (page, limit, skip) \<Rightarrow>
        to_paginated_result (take (nat limit) (drop (nat skip) rows)) (int (length rows)) page limit)"

lemma normalize_bounds:
  assumes "normalize_pagination q = (page, limit, skip)"
  shows "1 \<le> page" "1 \<le> limit" "limit \<le> 100" "skip = (page - 1) * limit"
  using assms by (auto simp: normalize_pagination_def Let_def split: option.splits if_splits)

lemma pages_cover:
  "concat (map (\<lambda>k. take n (drop (k * n) xs)) [0..<m]) = take (m * n) xs"
proof (induction m)
  case (Suc m)
  then show ?case by (simp add: take_add [symmetric] add.commute)
qed simp

text \<open>
  For every requested limit, reading the pages from the first to the last one the result
  announces returns every row exactly once and in order, and no page holds more than one
  hundred rows.
\<close>

theorem pages_partition_rows:
  "(let n = pr_total_pages (paginate (q\<lparr>pq_page := Some 1\<rparr>) rows)
    in concat (map (\<lambda>k. pr_data (paginate (q\<lparr>pq_page := Some (int k + 1)\<rparr>) rows)) [0..<nat n]) = rows) \<and>
   length (pr_data (paginate q rows)) \<le> 100"
proof -
  obtain page limit skip where q: "normalize_pagination q = (page, limit, skip)" by (cases "normalize_pagination q")
  note b = normalize_bounds [OF q]
  have lim: "fst (snd (normalize_pagination q)) = limit" using q by simp
  have k: "normalize_pagination (q\<lparr>pq_page := Some (int k + 1)\<rparr>) = (int k + 1, limit, int k * limit)" for k
    using lim by (simp add: normalize_pagination_def Let_def)
  have page_data: "pr_data (paginate (q\<lparr>pq_page := Some (int k + 1)\<rparr>) rows) = take (nat limit) (drop (k * nat limit) rows)" for k
    using b by (simp add: paginate_def k to_paginated_result_def nat_mult_distrib)
  let ?n = "\<lceil>(of_int (int (length rows)) / of_int limit :: rat)\<rceil>"
  have n: "pr_total_pages (paginate (q\<lparr>pq_page := Some 1\<rparr>) rows) = ?n"
    using k [of 0] by (simp add: paginate_def to_paginated_result_def)
  have pos: "0 < (of_int limit :: rat)" using b(2) by simp
  have "(of_int (int (length rows)) / of_int limit :: rat) \<le> of_int ?n" by (rule le_of_int_ceiling)
  then have "(of_int (int (length rows)) :: rat) \<le> of_int ?n * of_int limit"
    using pos by (simp only: pos_divide_le_eq)
  then have "(of_int (int (length rows)) :: rat) \<le> of_int (?n * limit)" by (simp only: of_int_mult)
  then have "int (length rows) \<le> ?n * limit" by (simp only: of_int_le_iff)
  moreover have "0 \<le> (of_int (int (length rows)) / of_int limit :: rat)" using pos by simp
  then have "0 \<le> ?n" unfolding zero_le_ceiling by linarith
  ultimately have "int (length rows) \<le> int (nat ?n * nat limit)" using b(2) by simp
  then have "length rows \<le> nat ?n * nat limit" by linarith
  then have "concat (map (\<lambda>k. pr_data (paginate (q\<lparr>pq_page := Some (int k + 1)\<rparr>) rows)) [0..<nat ?n]) = rows"
    unfolding page_data pages_cover by simp
  moreover have "length (pr_data (paginate q rows)) \<le> 100"
    using b by (simp add: paginate_def q to_paginated_result_def)
  ultimately show ?thesis by (simp add: n)
qed

end
