(* ===== verification/InvestmentEvents.thy ===== *)
theory InvestmentEvents
  imports Entities
begin

text \<open>
  The event log of investments (\<open>backend/src/investments/investment-event-store.service.ts\<close>),
  whose replay derives the status of an investment, and the check of the lot size
  (\<open>lot-size.utils.ts\<close>).
\<close>

datatype investment_event_type =
    InvestmentCreated | InvestmentActivated | InvestmentReleaseStarted | InvestmentCompleted
  | InvestmentCancelledByUser | InvestmentRefunded | InvestmentFailedEscrow

datatype event_payload =
    EmptyPayload
  | CreatedPayload jsnum jsnum string
  | ActivatedPayload string
  | ReasonPayload "string option"
  | CoolingOffPayload "string option"

record investment_event =
  ie_investment_id :: string
  ie_event_type :: investment_event_type
  ie_payload :: event_payload
  ie_actor_id :: "string option"
  ie_occurred_at :: int

record state_projection =
  sp_investment_id :: string
  sp_status :: investment_status
  sp_event_count :: nat
  sp_last_event_at :: "int option"

definition append_event ::
  "string \<Rightarrow> investment_event_type \<Rightarrow> event_payload \<Rightarrow> string option \<Rightarrow> int \<Rightarrow>
   investment_event list \<Rightarrow> investment_event list" where
  "append_event investment_id event_type payload actor_id now repo =
     insert_row \<lparr>ie_investment_id = investment_id, ie_event_type = event_type, ie_payload = payload,
                 ie_actor_id = actor_id, ie_occurred_at = now\<rparr> repo"

definition get_events :: "string \<Rightarrow> investment_event list \<Rightarrow> investment_event list" where
  "get_events investment_id repo = find_where (\<lambda>e. ie_investment_id e = investment_id) repo"

text \<open>The \<open>switch\<close> of the replay loop.\<close>

fun status_after :: "investment_event_type \<Rightarrow> investment_status" where
  "status_after InvestmentCreated = InvPending"
| "status_after InvestmentActivated = InvActive"
| "status_after InvestmentReleaseStarted = InvReleasing"
| "status_after InvestmentCompleted = InvCompleted"
| "status_after InvestmentCancelledByUser = InvCancelled"
| "status_after InvestmentRefunded = InvRefunded"
| "status_after InvestmentFailedEscrow = InvFailed"

definition rebuild_state_from_events ::
  "string \<Rightarrow> investment_event list \<Rightarrow> http_error + state_projection" where
  "rebuild_state_from_events investment_id repo =
     (let events = get_events investment_id repo
      in if events = [] then Inl (NotFound ''No events found for investment'')
         else Inr \<lparr>sp_investment_id = investment_id,
                   sp_status = foldl (\<lambda>status e. status_after (ie_event_type e)) InvPending events,
                   sp_event_count = length events,
                   sp_last_event_at = Some (ie_occurred_at (last events))\<rparr>)"

lemma replay_last:
  "events \<noteq> [] \<Longrightarrow>
   foldl (\<lambda>status e. status_after (ie_event_type e)) st events = status_after (ie_event_type (last events))"
  by (induction events arbitrary: st) auto

lemma get_events_append [simp]:
  "get_events i (append_event j ty p a now repo) =
     get_events i repo @ (if i = j then [\<lparr>ie_investment_id = j, ie_event_type = ty, ie_payload = p, ie_actor_id = a, ie_occurred_at = now\<rparr>] else [])"
  by (simp add: get_events_def append_event_def)

lemma rebuild_after_append:
  "rebuild_state_from_events i (append_event i ty p a now repo) =
     Inr \<lparr>sp_investment_id = i, sp_status = status_after ty,
          sp_event_count = Suc (length (get_events i repo)), sp_last_event_at = Some now\<rparr>"
  by (simp add: rebuild_state_from_events_def Let_def)

lemma rebuild_other:
  "i \<noteq> j \<Longrightarrow> rebuild_state_from_events i (append_event j ty p a now repo) = rebuild_state_from_events i repo"
  by (simp add: rebuild_state_from_events_def)

subsection \<open>Lot size\<close>

datatype lot_size_error = LotSizeBelowMin | LotSizeInvalidStep

definition validate_lot_size :: "jsnum \<Rightarrow> jsnum \<Rightarrow> jsnum \<Rightarrow> lot_size_error option" where
  "validate_lot_size amount_usd min_lot_size lot_step =
     (if amount_usd < min_lot_size then Some LotSizeBelowMin
      else if 0 < lot_step \<and> rem_js (sub_js amount_usd min_lot_size) lot_step \<noteq> 0
      then Some LotSizeInvalidStep
      else None)"

lemma rem_js_zero_iff:
  assumes "0 < k" "0 \<le> x"
  shows "rem_js x k = 0 \<longleftrightarrow> (\<exists>n. x = of_int n * k)"
proof -
  have "rem_js x k = x - k * of_int \<lfloor>x / k\<rfloor>" using assms by (simp add: rem_js_def Let_def)
  moreover have "x = of_int n * k \<Longrightarrow> \<lfloor>x / k\<rfloor> = n" for n using assms by simp
  ultimately show ?thesis by (metis eq_iff_diff_eq_0 mult.commute)
qed

text \<open>
  For whole dollar amounts an investment passes the lot check exactly when it is the
  minimum plus a whole number of steps, for a positive step.
\<close>

theorem lot_size_valid_iff:
  assumes "0 < step" "\<bar>amount - minimum\<bar> \<le> 2 ^ 53"
  shows "validate_lot_size (of_int amount) (of_int minimum) (of_int step) = None
         \<longleftrightarrow> (\<exists>n \<ge> 0. amount = minimum + n * step)"
proof (cases "amount < minimum")
  case True
  have "minimum \<le> minimum + n * step" if "0 \<le> n" for n using assms(1) that by simp
  with True show ?thesis by (fastforce simp: validate_lot_size_def)
next
  case False
  have "rem_js (of_int (amount - minimum)) (of_int step) = 0
      \<longleftrightarrow> (\<exists>n. (of_int (amount - minimum) :: rat) = of_int n * of_int step)"
    using assms(1) False by (intro rem_js_zero_iff) auto
  also have "\<dots> \<longleftrightarrow> (\<exists>n. amount - minimum = n * step)"
    by (simp only: of_int_mult [symmetric] of_int_eq_iff)
  also have "\<dots> \<longleftrightarrow> (\<exists>n \<ge> 0. amount = minimum + n * step)"
    using assms(1) False by (metis add.commute diff_add_cancel diff_ge_0_iff_ge eq_diff_eq linorder_not_less zero_le_mult_iff)
  finally show ?thesis using assms False by (simp add: validate_lot_size_def)
qed

theorem lot_size_valid_iff_witness:
  "validate_lot_size (of_int 70) (of_int 50) (of_int 10) = None"
proof -
  have "\<exists>n \<ge> (0::int). 70 = 50 + n * 10" by (rule exI [of _ 2]) simp
  with lot_size_valid_iff [of 10 70 50] show ?thesis by simp
qed

end
