(* ===== verification/Sanctions.thy ===== *)
theory Sanctions
  imports Entities
begin

text \<open>
  \<open>backend/src/auth/utils/ofac-sanctions-check.ts\<close>: the screening of a wallet address. The
  answer of the risk service is an argument: the data of a response, an HTTP failure with
  its status (\<open>None\<close> when no response arrived) or another error.
\<close>

datatype risk_answer =
    RiskData "string list option" "jsnum option"
  | HttpFailure "nat option"
  | OtherFailure

record sanctions_config =
  sc_api_key :: "string option"
  sc_risk_threshold :: "jsnum option"
  sc_node_env :: "string option"

definition blocked_categories :: "string list" where
  "blocked_categories = [''sanctions'', ''ofac'', ''blocked'']"

text \<open>\<open>config.get(...) || 80\<close>: a configured zero counts as absent.\<close>

definition risk_threshold :: "sanctions_config \<Rightarrow> jsnum" where
  "risk_threshold c = (case sc_risk_threshold c of Some t \<Rightarrow> if t = 0 then 80 else t | None \<Rightarrow> 80)"

definition is_address_sanctioned ::
  "sanctions_config \<Rightarrow> (string \<Rightarrow> risk_answer) \<Rightarrow> string \<Rightarrow> http_error + bool" where
  "is_address_sanctioned c service wallet =
     (if \<not> present (sc_api_key c) then Inr False
      else case service wallet of
        RiskData assessments risk_score \<Rightarrow>
          (if (case assessments of Some as \<Rightarrow> list_ex (\<lambda>a. a \<in> set blocked_categories) as | None \<Rightarrow> False)
           then Inr True
           else case risk_score of
             Some r \<Rightarrow> Inr (r \<noteq> 0 \<and> risk_threshold c \<le> r)
           | None \<Rightarrow> Inr False)
      | HttpFailure status \<Rightarrow>
          (if status = Some 404 then Inr False
           else if status = Some 401 \<or> status = Some 403 then Inl (BadRequest ''SANCTIONS_CHECK_FAILED'')
           else if sc_node_env c = Some ''production'' then Inl (BadRequest ''SANCTIONS_CHECK_FAILED'')
           else Inr False)
      | OtherFailure \<Rightarrow> Inl (BadRequest ''SANCTIONS_CHECK_FAILED''))"

text \<open>
  In production with an API key the screening fails closed: an address is let through
  only when the service answered with no blocked category and a score below the threshold,
  or answered that it does not know the address.
\<close>

theorem screening_fails_closed:
  assumes "present (sc_api_key c)" "sc_node_env c = Some ''production''"
    and "is_address_sanctioned c service wallet = Inr False"
  shows "service wallet = HttpFailure (Some 404) \<or>
    (\<exists>as r. service wallet = RiskData as r \<and>
       (\<forall>a \<in> set (case as of Some xs \<Rightarrow> xs | None \<Rightarrow> []). a \<notin> set blocked_categories) \<and>
       (\<forall>x. r = Some x \<longrightarrow> x = 0 \<or> x < risk_threshold c))"
  using assms by (auto simp: is_address_sanctioned_def list_ex_iff split: risk_answer.splits option.splits if_splits)

theorem screening_fails_closed_witness:
  "\<exists>as r. (\<lambda>_. RiskData (Some [''mixer'']) (Some 10)) ''G1'' = RiskData as r \<and>
     (\<forall>a \<in> set (case as of Some xs \<Rightarrow> xs | None \<Rightarrow> []). a \<notin> set blocked_categories)"
  using screening_fails_closed
    [of "\<lparr>sc_api_key = Some ''k'', sc_risk_threshold = None, sc_node_env = Some ''production''\<rparr>"
       "\<lambda>_. RiskData (Some [''mixer'']) (Some 10)" "''G1''"]
  by (simp add: is_address_sanctioned_def risk_threshold_def blocked_categories_def)

end
