(* ===== verification/Investments.thy ===== *)
theory Investments
  imports QueueService Pagination InvestmentEvents Sanctions Fees
begin

text \<open>
  \<open>backend/src/investments/investments.service.ts\<close>: an investor creates an investment in an
  open deal, confirms it with the hash of the Stellar transaction, or cancels it within the
  cooling-off window; other services mark it failed, releasing, completed, cancelled or
  refunded. The Stellar service, the risk service, clock, identifiers and configuration are
  the parameters gathered in \<open>investments_env\<close>; the optional services (event log, annual cap,
  referral, gateway) are present, as \<open>investments.module.ts\<close> provides them.
\<close>

subsection \<open>State and parameters\<close>

record investments_state =
  sv_users :: "user list"
  sv_deals :: "trade_deal list"
  sv_investments :: "investment list"
  sv_events :: "investment_event list"
  sv_totals :: "annual_total list"
  sv_queue :: queue_state
  sv_reward_triggers :: "string list"
  sv_confirmed_pushes :: "(string \<times> string \<times> string) list"
  sv_deal_pushes :: "(string \<times> deal_status) list"

record investments_env =
  en_trustline :: "string \<Rightarrow> string + bool"
  en_risk_service :: "string \<Rightarrow> risk_answer"
  en_sanctions :: sanctions_config
  en_fees :: "fee_configuration list"
  en_create_tx :: "string \<Rightarrow> string option \<Rightarrow> jsnum \<Rightarrow> string \<Rightarrow> jsnum \<Rightarrow> string option \<Rightarrow>
                   compliance_data option \<Rightarrow> string \<Rightarrow> string + string"
  en_fund_escrow :: "string \<Rightarrow> string \<Rightarrow> jsnum \<Rightarrow> string option \<Rightarrow> string \<Rightarrow> jsnum \<Rightarrow> string + string"
  en_show_num :: "jsnum \<Rightarrow> string"
  en_cooling_off_hours :: "jsnum option"
  en_now :: int
  en_year :: int
  en_uuid :: string
  en_trace_id :: string

type_synonym 'a investments_handler = "(investments_state, http_error, 'a) handler"

text \<open>A rolled back transaction undoes the writes to the database, not the pushes or the emissions.\<close>

definition restore_db :: "investments_state \<Rightarrow> investments_state \<Rightarrow> investments_state" where
  "restore_db before s =
     s\<lparr>sv_users := sv_users before, sv_deals := sv_deals before, sv_investments := sv_investments before,
       sv_events := sv_events before, sv_totals := sv_totals before,
       sv_queue := restore_outbox (sv_queue before) (sv_queue s)\<rparr>"

record create_investment_dto =
  ci_trade_deal_id :: string
  ci_token_amount :: jsnum
  ci_amount_usd :: jsnum
  ci_compliance_data :: "compliance_data option"

record create_investment_result =
  cr_investment :: investment
  cr_unsigned_xdr :: string
  cr_fee_breakdown :: fee_breakdown

subsection \<open>createInvestment\<close>

definition travel_rule_threshold_usd :: jsnum where
  "travel_rule_threshold_usd = 1000"

definition js_space :: "char \<Rightarrow> bool" where
  "js_space c \<longleftrightarrow> (let n = (of_char c :: nat) in (9 \<le> n \<and> n \<le> 13) \<or> n = 32 \<or> n = 160)"

text \<open>\<open>typeof field === 'string' && field.trim().length > 0\<close>.\<close>

definition filled :: "string option \<Rightarrow> bool" where
  "filled field \<longleftrightarrow> (case field of Some t \<Rightarrow> list_ex (\<lambda>c. \<not> js_space c) t | None \<Rightarrow> False)"

definition has_required_fields :: "travel_rule_party option \<Rightarrow> bool" where
  "has_required_fields party \<longleftrightarrow>
     (case party of None \<Rightarrow> False
      | Some p \<Rightarrow> filled (tp_name p) \<and> filled (tp_address p) \<and> filled (tp_account_number p))"

definition assert_travel_rule_compliance :: "jsnum \<Rightarrow> compliance_data option \<Rightarrow> http_error + unit" where
  "assert_travel_rule_compliance amount_usd data =
     (if amount_usd \<le> travel_rule_threshold_usd then Inr ()
      else if \<not> has_required_fields (case data of Some (orig, _) \<Rightarrow> orig | None \<Rightarrow> None) \<or>
              \<not> has_required_fields (case data of Some (_, ben) \<Rightarrow> ben | None \<Rightarrow> None)
      then Inl (BadRequest ''TRAVEL_RULE_DATA_REQUIRED'')
      else Inr ())"

fun cap_code :: "cap_error \<Rightarrow> http_error" where
  "cap_code (TierInsufficient _ _) = Unprocessable ''TIER_INSUFFICIENT''"
| "cap_code (PerDealCapExceeded _) = Unprocessable ''PER_DEAL_CAP_EXCEEDED''"
| "cap_code (AnnualCapExceeded _ _) = Unprocessable ''ANNUAL_CAP_EXCEEDED''"

fun lot_code :: "lot_size_error \<Rightarrow> http_error" where
  "lot_code LotSizeBelowMin = Unprocessable ''LOT_SIZE_BELOW_MIN''"
| "lot_code LotSizeInvalidStep = Unprocessable ''LOT_SIZE_INVALID_STEP''"

definition or_retail :: "accreditation_tier option \<Rightarrow> accreditation_tier" where
  "or_retail t = (case t of Some x \<Rightarrow> x | None \<Rightarrow> Retail)"

text \<open>The checks before the transaction; they return the wallet and the fees.\<close>

definition admit_investment ::
  "investments_env \<Rightarrow> string \<Rightarrow> create_investment_dto \<Rightarrow> investments_state \<Rightarrow>
   http_error + (string \<times> fee_breakdown)" where
  "admit_investment env investor_id dto s =
     (case assert_travel_rule_compliance (ci_amount_usd dto) (ci_compliance_data dto) of
        Inl e \<Rightarrow> Inl e
      | Inr _ \<Rightarrow>
     (case find_user investor_id (sv_users s) of
        None \<Rightarrow> Inl (NotFound ''Investor not found.'')
      | Some investor \<Rightarrow>
     (case us_wallet_address investor of
        None \<Rightarrow> Inl (Unprocessable ''NO_WALLET_ADDRESS'')
      | Some wallet \<Rightarrow>
     if wallet = [] then Inl (Unprocessable ''NO_WALLET_ADDRESS'')
     else (case en_trustline env wallet of
        Inl e \<Rightarrow> Inl (Internal e)
      | Inr has_trustline \<Rightarrow>
     if \<not> has_trustline then Inl (Unprocessable ''NO_USDC_TRUSTLINE'')
     else (case is_address_sanctioned (en_sanctions env) (en_risk_service env) wallet of
        Inl e \<Rightarrow> Inl e
      | Inr sanctioned \<Rightarrow>
     if sanctioned then Inl (Forbidden ''SANCTIONED_ADDRESS'')
     else (case find_deal (ci_trade_deal_id dto) (sv_deals s) of
        None \<Rightarrow> Inl (NotFound ''Trade deal not found.'')
      | Some deal \<Rightarrow>
     (case enforce_caps (sv_totals s) investor_id (or_retail (us_accreditation_tier investor))
             (ci_amount_usd dto) (or_retail (td_minimum_tier deal)) (en_year env) of
        Inl e \<Rightarrow> Inl (cap_code e)
      | Inr _ \<Rightarrow>
     (case calculate_fee_breakdown (en_fees env) (td_commodity deal)
             (get_investor_tier_from_user (us_role investor)) (ci_amount_usd dto) False (en_now env) of
        Inl _ \<Rightarrow> Inl (NotFound ''No fee configuration found'')
      | Inr fees \<Rightarrow> Inr (wallet, fees)))))))))"

definition or_one :: "jsnum option \<Rightarrow> jsnum" where
  "or_one x = (case x of Some n \<Rightarrow> n | None \<Rightarrow> 1)"

definition new_investment :: "investments_env \<Rightarrow> string \<Rightarrow> create_investment_dto \<Rightarrow> investment" where
  "new_investment env investor_id dto =
     \<lparr>iv_id = en_uuid env, iv_trade_deal_id = ci_trade_deal_id dto, iv_investor_id = investor_id,
      iv_token_amount = ci_token_amount dto, iv_amount_usd = ci_amount_usd dto,
      iv_stellar_tx_id = None, iv_compliance_data = ci_compliance_data dto,
      iv_status = InvPending, iv_created_at = en_now env, iv_deleted = False\<rparr>"

text \<open>The body of the transaction, under the lock of the deal.\<close>

definition place_investment ::
  "investments_env \<Rightarrow> string \<Rightarrow> create_investment_dto \<Rightarrow> investment investments_handler" where
  "place_investment env investor_id dto s =
     (case find_deal (ci_trade_deal_id dto) (sv_deals s) of
        None \<Rightarrow> throw (NotFound ''Trade deal not found.'') s
      | Some deal \<Rightarrow>
     if td_status deal \<noteq> DealOpen then throw (Unprocessable ''DEAL_NOT_OPEN'') s
     else if \<not> present (td_escrow_public_key deal) then throw (Unprocessable ''NO_ESCROW_ACCOUNT'') s
     else if \<not> present (td_issuer_public_key deal) then throw (Unprocessable ''NO_ISSUER_KEY'') s
     else
       (let current = investments_of (ci_trade_deal_id dto) InvConfirmed (sv_investments s);
            total_tokens = sum_js iv_token_amount current;
            available = sub_js (td_token_count deal) total_tokens
        in if available < ci_token_amount dto then throw (Unprocessable ''INSUFFICIENT_TOKENS'') s
           else case validate_lot_size (ci_amount_usd dto) (or_one (td_min_lot_size deal)) (or_one (td_lot_step deal)) of
             Some e \<Rightarrow> throw (lot_code e) s
           | None \<Rightarrow>
               if td_total_value deal < add_js (sum_js iv_amount_usd current) (ci_amount_usd dto)
               then throw (Unprocessable ''OVER_FUNDING'') s
               else (let placed = new_investment env investor_id dto
                     in done_with placed (s\<lparr>sv_investments := insert_row placed (sv_investments s)\<rparr>))))"

text \<open>After the transaction: the unsigned Stellar transaction, the event and the annual total.\<close>

definition finish_investment ::
  "investments_env \<Rightarrow> string \<Rightarrow> create_investment_dto \<Rightarrow> string \<Rightarrow> fee_breakdown \<Rightarrow> investment \<Rightarrow>
   create_investment_result investments_handler" where
  "finish_investment env investor_id dto wallet fees placed s =
     (case find_deal (ci_trade_deal_id dto) (sv_deals s) of
        None \<Rightarrow> throw (Internal ''TypeError'') s
      | Some deal \<Rightarrow>
     (case en_create_tx env wallet (td_escrow_public_key deal) (ci_amount_usd dto) (td_token_symbol deal)
             (ci_token_amount dto) (td_issuer_public_key deal) (ci_compliance_data dto)
             (generate_investment_memo (en_show_num env) (td_token_symbol deal) (ci_token_amount dto)
                (encode_fee_data (en_show_num env) fees)) of
        Inl e \<Rightarrow> throw (Internal e) s
      | Inr xdr \<Rightarrow>
          done_with \<lparr>cr_investment = placed, cr_unsigned_xdr = xdr, cr_fee_breakdown = fees\<rparr>
            (s\<lparr>sv_events := append_event (iv_id placed) InvestmentCreated
                  (CreatedPayload (ci_amount_usd dto) (ci_token_amount dto) (ci_trade_deal_id dto))
                  (Some investor_id) (en_now env) (sv_events s),
               sv_totals := record_annual_investment investor_id (ci_amount_usd dto) (en_year env) (sv_totals s)\<rparr>)))"

definition create_investment ::
  "investments_env \<Rightarrow> string \<Rightarrow> create_investment_dto \<Rightarrow> create_investment_result investments_handler" where
  "create_investment env investor_id dto s =
     (case admit_investment env investor_id dto s of
        Inl e \<Rightarrow> throw e s
      | Inr (wallet, fees) \<Rightarrow>
          and_then (transaction restore_db (place_investment env investor_id dto))
            (finish_investment env investor_id dto wallet fees) s)"

subsection \<open>confirmInvestment\<close>

definition hex_digit :: "char \<Rightarrow> bool" where
  "hex_digit c \<longleftrightarrow> c \<in> set ''0123456789abcdefABCDEF''"

definition stellar_tx_hash_ok :: "string \<Rightarrow> bool" where
  "stellar_tx_hash_ok t \<longleftrightarrow> length t = 64 \<and> list_all hex_digit t"

text \<open>The checks of the request; the deal comes with the investment (relation \<open>tradeDeal\<close>).\<close>

definition confirm_check ::
  "string \<Rightarrow> string \<Rightarrow> string \<Rightarrow> investments_state \<Rightarrow> http_error + trade_deal option" where
  "confirm_check investor_id investment_id stellar_tx_id s =
     (if \<not> stellar_tx_hash_ok stellar_tx_id then Inl (BadRequest ''INVALID_STELLAR_TX_ID'')
      else case find_investment investment_id (sv_investments s) of
        None \<Rightarrow> Inl (NotFound ''Investment not found.'')
      | Some placed \<Rightarrow>
          if iv_investor_id placed \<noteq> investor_id then Inl (Forbidden ''NOT_INVESTMENT_OWNER'')
          else if iv_status placed \<noteq> InvPending then Inl (Unprocessable ''INVALID_STATUS'')
          else Inr (find_deal (iv_trade_deal_id placed) (sv_deals s)))"

definition mark_confirmed :: "string \<Rightarrow> investment \<Rightarrow> investment" where
  "mark_confirmed stellar_tx_id v = v\<lparr>iv_status := InvConfirmed, iv_stellar_tx_id := Some stellar_tx_id\<rparr>"

text \<open>The body of the transaction; its value is \<open>becameFunded\<close>.\<close>

definition confirm_commit ::
  "investments_env \<Rightarrow> string \<Rightarrow> string \<Rightarrow> trade_deal option \<Rightarrow> bool investments_handler" where
  "confirm_commit env investment_id stellar_tx_id deal s =
     (let s1 = s\<lparr>sv_investments := update_investment investment_id (mark_confirmed stellar_tx_id) (sv_investments s)\<rparr>
      in case deal of
        None \<Rightarrow> throw (Internal ''TypeError'') s1
      | Some d \<Rightarrow>
          (let new_total = sum_js iv_amount_usd (investments_of (td_id d) InvConfirmed (sv_investments s1));
               s2 = s1\<lparr>sv_deals := update_deal (td_id d) (\<lambda>x. x\<lparr>td_total_invested := new_total\<rparr>) (sv_deals s1)\<rparr>
           in if td_total_value d \<le> new_total
              then (let open_deal = (\<lambda>x. td_id x = td_id d \<and> td_status x = DealOpen)
                    in done_with (0 < affected open_deal (sv_deals s2))
                         (s2\<lparr>sv_deals := update_where open_deal
                               (\<lambda>x. x\<lparr>td_status := DealFunded, td_app_trace_id := Some (en_trace_id env)\<rparr>) (sv_deals s2)\<rparr>))
              else done_with False s2))"

definition send_funded_notification :: "trade_deal \<Rightarrow> investments_state \<Rightarrow> investments_state" where
  "send_funded_notification d s =
     s\<lparr>sv_queue := enqueue_deal_funded_transactional
         \<lparr>df_trade_deal_id = td_id d, df_commodity = td_commodity d, df_total_value = td_total_value d,
          df_investors = map (\<lambda>v. (case find_user (iv_investor_id v) (sv_users s) of Some u \<Rightarrow> us_email u | None \<Rightarrow> [],
                                   iv_token_amount v))
                           (investments_of (td_id d) InvConfirmed (sv_investments s))\<rparr> (sv_queue s)\<rparr>"

definition confirm_finish ::
  "investments_env \<Rightarrow> string \<Rightarrow> string \<Rightarrow> string \<Rightarrow> trade_deal \<Rightarrow> bool \<Rightarrow> investment option investments_handler" where
  "confirm_finish env investor_id investment_id stellar_tx_id d became_funded s =
     (let s1 = (if became_funded then send_funded_notification d s else s);
          s2 = s1\<lparr>sv_reward_triggers := sv_reward_triggers s1 @ [investor_id],
                  sv_events := append_event investment_id InvestmentActivated (ActivatedPayload stellar_tx_id)
                                 (Some investor_id) (en_now env) (sv_events s1),
                  sv_confirmed_pushes := sv_confirmed_pushes s1 @ [(investor_id, td_id d, investment_id)]\<rparr>;
          s3 = (if became_funded then s2\<lparr>sv_deal_pushes := sv_deal_pushes s2 @ [(td_id d, DealFunded)]\<rparr> else s2)
      in done_with (find_investment investment_id (sv_investments s3)) s3)"

definition confirm_investment ::
  "investments_env \<Rightarrow> string \<Rightarrow> string \<Rightarrow> string \<Rightarrow> investment option investments_handler" where
  "confirm_investment env investor_id investment_id stellar_tx_id s =
     (case confirm_check investor_id investment_id stellar_tx_id s of
        Inl e \<Rightarrow> throw e s
      | Inr deal \<Rightarrow>
          and_then (transaction restore_db (confirm_commit env investment_id stellar_tx_id deal))
            (\<lambda>became_funded s'. case deal of
                None \<Rightarrow> throw (Internal ''TypeError'') s'
              | Some d \<Rightarrow> confirm_finish env investor_id investment_id stellar_tx_id d became_funded s') s)"

subsection \<open>Status changes by other services\<close>

text \<open>An unconditional update of the status followed by the event, as the five methods have it.\<close>

definition set_status ::
  "investments_env \<Rightarrow> string \<Rightarrow> investment_status \<Rightarrow> investment_event_type \<Rightarrow> event_payload \<Rightarrow>
   string option \<Rightarrow> investments_state \<Rightarrow> investments_state" where
  "set_status env investment_id st ty payload actor_id s =
     s\<lparr>sv_investments := update_investment investment_id (\<lambda>v. v\<lparr>iv_status := st\<rparr>) (sv_investments s),
       sv_events := append_event investment_id ty payload actor_id (en_now env) (sv_events s)\<rparr>"

definition mark_investment_failed where
  "mark_investment_failed env investment_id actor_id =
     set_status env investment_id InvFailed InvestmentFailedEscrow EmptyPayload actor_id"

definition start_release where
  "start_release env investment_id actor_id =
     set_status env investment_id InvReleasing InvestmentReleaseStarted EmptyPayload actor_id"

definition complete_investment where
  "complete_investment env investment_id actor_id =
     set_status env investment_id InvCompleted InvestmentCompleted EmptyPayload actor_id"

definition cancel_investment where
  "cancel_investment env investment_id actor_id reason =
     set_status env investment_id InvCancelled InvestmentCancelledByUser (ReasonPayload reason) actor_id"

definition refund_investment where
  "refund_investment env investment_id actor_id reason =
     set_status env investment_id InvRefunded InvestmentRefunded (ReasonPayload reason) actor_id"

subsection \<open>Cooling-off cancellation\<close>

definition cooling_off_hours :: "investments_env \<Rightarrow> jsnum" where
  "cooling_off_hours env =
     (case en_cooling_off_hours env of Some h \<Rightarrow> if 0 < h then h else 48 | None \<Rightarrow> 48)"

definition cooling_off_deadline :: "investments_env \<Rightarrow> investment \<Rightarrow> int" where
  "cooling_off_deadline env v = iv_created_at v + \<lfloor>cooling_off_hours env\<rfloor> * 3600000"

definition cancel_check ::
  "investments_env \<Rightarrow> string \<Rightarrow> string \<Rightarrow> investments_state \<Rightarrow> http_error + unit" where
  "cancel_check env investor_id investment_id s =
     (case find_investment investment_id (sv_investments s) of
        None \<Rightarrow> Inl (NotFound ''Investment not found.'')
      | Some v \<Rightarrow>
          if iv_investor_id v \<noteq> investor_id then Inl (Forbidden ''You do not own this investment.'')
          else if iv_status v \<noteq> InvPending then Inl (Unprocessable ''NOT_CANCELLABLE'')
          else if cooling_off_deadline env v < en_now env then Inl (Unprocessable ''COOLING_OFF_EXPIRED'')
          else Inr ())"

text \<open>The conditional update: it takes effect only on a row that is still pending.\<close>

definition cancel_commit ::
  "investments_env \<Rightarrow> string \<Rightarrow> string \<Rightarrow> string option \<Rightarrow> investment option investments_handler" where
  "cancel_commit env investor_id investment_id reason s =
     (let pending = (\<lambda>v. iv_id v = investment_id \<and> iv_status v = InvPending)
      in if affected pending (sv_investments s) = 0 then throw (Unprocessable ''NOT_CANCELLABLE'') s
         else
           (let s1 = s\<lparr>sv_investments := update_where pending (\<lambda>v. v\<lparr>iv_status := InvCancelled\<rparr>) (sv_investments s),
                       sv_events := append_event investment_id InvestmentCancelledByUser (CoolingOffPayload reason)
                                      (Some investor_id) (en_now env) (sv_events s)\<rparr>
            in done_with (find_investment investment_id (sv_investments s1)) s1))"

definition request_cooling_off_cancel ::
  "investments_env \<Rightarrow> string \<Rightarrow> string \<Rightarrow> string option \<Rightarrow> investment option investments_handler" where
  "request_cooling_off_cancel env investor_id investment_id reason s =
     (case cancel_check env investor_id investment_id s of
        Inl e \<Rightarrow> throw e s
      | Inr _ \<Rightarrow> cancel_commit env investor_id investment_id reason s)"

subsection \<open>Reconciliation, funding, queries\<close>

definition reconcile_state_from_events :: "string \<Rightarrow> investment option investments_handler" where
  "reconcile_state_from_events investment_id s =
     (case rebuild_state_from_events investment_id (sv_events s) of
        Inl e \<Rightarrow> throw e s
      | Inr projection \<Rightarrow>
          (let s1 = s\<lparr>sv_investments := update_investment investment_id
                        (\<lambda>v. v\<lparr>iv_status := sp_status projection\<rparr>) (sv_investments s)\<rparr>
           in done_with (find_investment investment_id (sv_investments s1)) s1))"

datatype fund_result = FundQueued string | FundConfirmed string string

definition fund_escrow ::
  "investments_env \<Rightarrow> string \<Rightarrow> string \<Rightarrow> string option \<Rightarrow> fund_result investments_handler" where
  "fund_escrow env investment_id wallet signed_xdr s =
     (case find_investment investment_id (sv_investments s) of
        None \<Rightarrow> throw (NotFound ''Investment not found.'') s
      | Some placed \<Rightarrow>
     if iv_status placed \<noteq> InvPending then throw (Unprocessable ''INVALID_STATUS'') s
     else (case find_deal (iv_trade_deal_id placed) (sv_deals s) of
        None \<Rightarrow> throw (Internal ''TypeError'') s
      | Some deal \<Rightarrow>
     (case td_escrow_public_key deal of
        None \<Rightarrow> throw (Unprocessable ''NO_ESCROW_ACCOUNT'') s
      | Some escrow_key \<Rightarrow>
     if escrow_key = [] then throw (Unprocessable ''NO_ESCROW_ACCOUNT'') s
     else if present signed_xdr
     then done_with (FundQueued investment_id)
            (s\<lparr>sv_queue := enqueue_investment_fund_transactional
                 \<lparr>if_investment_id = investment_id,
                  if_signed_xdr = (case signed_xdr of Some x \<Rightarrow> x | None \<Rightarrow> []),
                  if_escrow_public_key = escrow_key,
                  if_encrypted_escrow_secret = (case td_escrow_secret_key deal of Some k \<Rightarrow> k | None \<Rightarrow> []),
                  if_asset_code = td_token_symbol deal, if_token_amount = iv_token_amount placed,
                  if_investor_wallet = wallet, if_amount_usd = iv_amount_usd placed\<rparr> (sv_queue s)\<rparr>)
     else (case en_fund_escrow env escrow_key wallet (iv_amount_usd placed) (td_escrow_secret_key deal)
                  (td_token_symbol deal) (iv_token_amount placed) of
        Inl e \<Rightarrow> throw (Internal e) s
      | Inr tx \<Rightarrow>
          and_then (confirm_investment env (iv_investor_id placed) investment_id tx)
            (\<lambda>_. done_with (FundConfirmed investment_id tx)) s))))"

definition get_investment_by_id :: "string \<Rightarrow> investments_state \<Rightarrow> investment option" where
  "get_investment_by_id i s = find_investment i (sv_investments s)"

text \<open>Newest first is the reverse of the order of insertion.\<close>

definition get_investments_by_trade_deal :: "string \<Rightarrow> page_query \<Rightarrow> investments_state \<Rightarrow> investment paginated" where
  "get_investments_by_trade_deal deal_id query s =
     paginate query (rev (find_where (\<lambda>v. iv_trade_deal_id v = deal_id \<and> \<not> iv_deleted v) (sv_investments s)))"

definition get_investments_by_investor :: "string \<Rightarrow> page_query \<Rightarrow> investments_state \<Rightarrow> investment paginated" where
  "get_investments_by_investor investor_id query s =
     paginate query (rev (find_where (\<lambda>v. iv_investor_id v = investor_id \<and> \<not> iv_deleted v) (sv_investments s)))"

definition get_active_holdings_for_investor :: "string \<Rightarrow> investments_state \<Rightarrow> investment list" where
  "get_active_holdings_for_investor investor_id s =
     rev (find_where (\<lambda>v. iv_investor_id v = investor_id \<and> \<not> iv_deleted v \<and>
            iv_status v \<in> set [InvPending, InvConfirmed, InvReleasing]) (sv_investments s))"

subsection \<open>Creating an investment\<close>

lemma admit_ok:
  assumes "admit_investment env i dto s = Inr (w, fees)"
  shows "\<exists>u deal. find_user i (sv_users s) = Some u \<and> us_wallet_address u = Some w \<and> w \<noteq> [] \<and>
      find_deal (ci_trade_deal_id dto) (sv_deals s) = Some deal \<and>
      assert_travel_rule_compliance (ci_amount_usd dto) (ci_compliance_data dto) = Inr () \<and>
      en_trustline env w = Inr True \<and>
      is_address_sanctioned (en_sanctions env) (en_risk_service env) w = Inr False \<and>
      enforce_caps (sv_totals s) i (or_retail (us_accreditation_tier u)) (ci_amount_usd dto)
        (or_retail (td_minimum_tier deal)) (en_year env) = Inr ()"
  using assms unfolding admit_investment_def
  by (simp split: sum.splits option.splits if_splits)

lemma place_ok:
  assumes "place_investment env i dto s = (Inr placed, s')"
  shows "\<exists>deal. find_deal (ci_trade_deal_id dto) (sv_deals s) = Some deal \<and> td_status deal = DealOpen \<and>
      ci_token_amount dto \<le> sub_js (td_token_count deal)
        (sum_js iv_token_amount (investments_of (ci_trade_deal_id dto) InvConfirmed (sv_investments s))) \<and>
      validate_lot_size (ci_amount_usd dto) (or_one (td_min_lot_size deal)) (or_one (td_lot_step deal)) = None \<and>
      add_js (sum_js iv_amount_usd (investments_of (ci_trade_deal_id dto) InvConfirmed (sv_investments s)))
        (ci_amount_usd dto) \<le> td_total_value deal"
    and "placed = new_investment env i dto"
    and "s' = s\<lparr>sv_investments := insert_row placed (sv_investments s)\<rparr>"
  using assms unfolding place_investment_def
  by (auto simp: Let_def not_less split: option.splits if_splits)

lemma place_err: "place_investment env i dto s = (Inl e, s') \<Longrightarrow> s' = s"
  unfolding place_investment_def by (auto simp: Let_def split: option.splits if_splits)

lemma restore_db_same [simp]: "restore_db s s = s"
  by (simp add: restore_db_def restore_outbox_def)

text \<open>
  The guards an accepted investment has passed, over the state before the call.
\<close>

definition admissible :: "investments_env \<Rightarrow> string \<Rightarrow> create_investment_dto \<Rightarrow> investments_state \<Rightarrow> bool" where
  "admissible env i dto s \<longleftrightarrow>
     (case (find_user i (sv_users s), find_deal (ci_trade_deal_id dto) (sv_deals s)) of
        (Some u, Some deal) \<Rightarrow>
          (case us_wallet_address u of Some w \<Rightarrow>
             w \<noteq> [] \<and> en_trustline env w = Inr True \<and>
             is_address_sanctioned (en_sanctions env) (en_risk_service env) w = Inr False
           | None \<Rightarrow> False) \<and>
          assert_travel_rule_compliance (ci_amount_usd dto) (ci_compliance_data dto) = Inr () \<and>
          enforce_caps (sv_totals s) i (or_retail (us_accreditation_tier u)) (ci_amount_usd dto)
            (or_retail (td_minimum_tier deal)) (en_year env) = Inr () \<and>
          td_status deal = DealOpen \<and>
          ci_token_amount dto \<le> sub_js (td_token_count deal)
            (sum_js iv_token_amount (investments_of (ci_trade_deal_id dto) InvConfirmed (sv_investments s))) \<and>
          validate_lot_size (ci_amount_usd dto) (or_one (td_min_lot_size deal)) (or_one (td_lot_step deal)) = None \<and>
          add_js (sum_js iv_amount_usd (investments_of (ci_trade_deal_id dto) InvConfirmed (sv_investments s)))
            (ci_amount_usd dto) \<le> td_total_value deal
      | _ \<Rightarrow> False)"

lemma create_cases:
  obtains (refused) e where "create_investment env i dto s = (Inl e, s)"
  | (no_tx) e where "create_investment env i dto s =
       (Inl e, s\<lparr>sv_investments := insert_row (new_investment env i dto) (sv_investments s)\<rparr>)" "admissible env i dto s"
  | (accepted) r where "create_investment env i dto s =
       (Inr r, s\<lparr>sv_investments := insert_row (new_investment env i dto) (sv_investments s),
          sv_events := append_event (en_uuid env) InvestmentCreated
             (CreatedPayload (ci_amount_usd dto) (ci_token_amount dto) (ci_trade_deal_id dto)) (Some i) (en_now env) (sv_events s),
          sv_totals := record_annual_investment i (ci_amount_usd dto) (en_year env) (sv_totals s)\<rparr>)"
       "admissible env i dto s" "cr_investment r = new_investment env i dto"
proof (cases "admit_investment env i dto s")
  case (Inl e)
  then show ?thesis by (intro refused [of e]) (simp add: create_investment_def)
next
  case (Inr wf)
  obtain w fees where wf: "wf = (w, fees)" by (cases wf)
  let ?placed = "new_investment env i dto"
  let ?s1 = "s\<lparr>sv_investments := insert_row ?placed (sv_investments s)\<rparr>"
  obtain r s' where p: "place_investment env i dto s = (r, s')" by (cases "place_investment env i dto s")
  show ?thesis
  proof (cases r)
    case (Inl e)
    then have "create_investment env i dto s = (Inl e, s)"
      using Inr wf p place_err [of env i dto s e s']
      by (simp add: create_investment_def and_then_def transaction_def)
    then show ?thesis by (rule refused)
  next
    case r: (Inr placed)
    note ok = place_ok [OF p [unfolded r]]
    have adm: "admissible env i dto s"
      using ok(1) admit_ok [OF Inr [unfolded wf]] by (auto simp: admissible_def)
    have c: "create_investment env i dto s = finish_investment env i dto w fees ?placed ?s1"
      using Inr wf p r ok(2,3) by (simp add: create_investment_def and_then_def transaction_def)
    obtain deal where d: "find_deal (ci_trade_deal_id dto) (sv_deals s) = Some deal" using ok(1) by blast
    show ?thesis
    proof (cases "en_create_tx env w (td_escrow_public_key deal) (ci_amount_usd dto) (td_token_symbol deal)
             (ci_token_amount dto) (td_issuer_public_key deal) (ci_compliance_data dto)
             (generate_investment_memo (en_show_num env) (td_token_symbol deal) (ci_token_amount dto)
                (encode_fee_data (en_show_num env) fees))")
      case (Inl e)
      then have "create_investment env i dto s = (Inl (Internal e), ?s1)"
        unfolding c using d by (simp add: finish_investment_def)
      then show ?thesis using adm by (rule no_tx)
    next
      case (Inr xdr)
      then have "create_investment env i dto s =
        (Inr \<lparr>cr_investment = ?placed, cr_unsigned_xdr = xdr, cr_fee_breakdown = fees\<rparr>,
         ?s1\<lparr>sv_events := append_event (en_uuid env) InvestmentCreated
             (CreatedPayload (ci_amount_usd dto) (ci_token_amount dto) (ci_trade_deal_id dto)) (Some i) (en_now env) (sv_events s),
          sv_totals := record_annual_investment i (ci_amount_usd dto) (en_year env) (sv_totals s)\<rparr>)"
        unfolding c using d by (simp add: finish_investment_def new_investment_def)
      then show ?thesis using adm by (rule accepted) simp
    qed
  qed
qed

subsection \<open>Confirming an investment\<close>

lemma confirm_check_ok:
  "confirm_check i k tx s = Inr d \<longleftrightarrow>
     stellar_tx_hash_ok tx \<and>
     (\<exists>v. find_investment k (sv_investments s) = Some v \<and> iv_investor_id v = i \<and> iv_status v = InvPending \<and>
          d = find_deal (iv_trade_deal_id v) (sv_deals s))"
  by (auto simp: confirm_check_def split: option.splits if_splits)

definition confirmed_total :: "string \<Rightarrow> investments_state \<Rightarrow> jsnum" where
  "confirmed_total deal_id s = sum_js iv_amount_usd (investments_of deal_id InvConfirmed (sv_investments s))"

lemma mark_confirmed_simps [simp]:
  "iv_id (mark_confirmed tx v) = iv_id v" "iv_deleted (mark_confirmed tx v) = iv_deleted v"
  "iv_status (mark_confirmed tx v) = InvConfirmed" "iv_trade_deal_id (mark_confirmed tx v) = iv_trade_deal_id v"
  by (simp_all add: mark_confirmed_def)

lemma in_update_where: "y \<in> set (update_where p f t) \<Longrightarrow> \<exists>r \<in> set t. y = (if p r then f r else r)"
  unfolding update_where_def set_map by blast

lemma bex_update_where:
  "(\<And>r. p (f r) = p r) \<Longrightarrow> (\<exists>x \<in> set (update_where q f t). p x) \<longleftrightarrow> (\<exists>x \<in> set t. p x)"
  by (auto simp: update_where_def)

lemma confirm_commit_result:
  "\<exists>s1. confirm_commit env k tx (Some d) s = (Inr (td_total_value d \<le> confirmed_total (td_id d) s1 \<and>
       (\<exists>x \<in> set (sv_deals s). td_id x = td_id d \<and> td_status x = DealOpen)), s1) \<and>
     sv_investments s1 = update_investment k (mark_confirmed tx) (sv_investments s) \<and>
     sv_deals s1 = map (\<lambda>x. if td_id x = td_id d
        then (if td_status x = DealOpen \<and> td_total_value d \<le> confirmed_total (td_id d) s1
              then x\<lparr>td_total_invested := confirmed_total (td_id d) s1, td_status := DealFunded, td_app_trace_id := Some (en_trace_id env)\<rparr>
              else x\<lparr>td_total_invested := confirmed_total (td_id d) s1\<rparr>)
        else x) (sv_deals s) \<and>
     sv_events s1 = sv_events s \<and> sv_queue s1 = sv_queue s \<and> sv_users s1 = sv_users s"
  by (simp add: confirm_commit_def Let_def confirmed_total_def update_deal_def affected_pos bex_update_where)
    (auto simp: update_where_def confirmed_total_def)

lemma send_funded_simps [simp]:
  "sv_investments (send_funded_notification d s) = sv_investments s"
  "sv_deals (send_funded_notification d s) = sv_deals s"
  "sv_events (send_funded_notification d s) = sv_events s"
  "sv_queue (send_funded_notification d s) =
     write_outbox ''deal.funded'' (FundedJob
         \<lparr>df_trade_deal_id = td_id d, df_commodity = td_commodity d, df_total_value = td_total_value d,
          df_investors = map (\<lambda>v. (case find_user (iv_investor_id v) (sv_users s) of Some u \<Rightarrow> us_email u | None \<Rightarrow> [],
                                   iv_token_amount v))
                           (investments_of (td_id d) InvConfirmed (sv_investments s))\<rparr>) (sv_queue s)"
  by (simp_all add: send_funded_notification_def enqueue_deal_funded_transactional_def)

lemma confirm_err_keeps_state: "confirm_investment env i k tx s = (Inl e, s') \<Longrightarrow> s' = s"
proof (cases "confirm_check i k tx s")
  case (Inr d)
  assume a: "confirm_investment env i k tx s = (Inl e, s')"
  show ?thesis
  proof (cases d)
    case None
    with Inr a show ?thesis
      by (simp add: confirm_investment_def and_then_def transaction_def confirm_commit_def restore_db_def restore_outbox_def)
  next
    case (Some x)
    from confirm_commit_result [of env k tx x s] Inr a Some show ?thesis
      by (auto simp: confirm_investment_def and_then_def transaction_def confirm_finish_def Let_def)
  qed
qed (simp add: confirm_investment_def)

lemma confirm_ok:
  assumes "confirm_investment env i k tx s = (Inr v', s')"
  obtains v d s1 where "find_investment k (sv_investments s) = Some v" "iv_investor_id v = i" "iv_status v = InvPending"
    "stellar_tx_hash_ok tx" "find_deal (iv_trade_deal_id v) (sv_deals s) = Some d"
    "(let funded = (td_total_value d \<le> confirmed_total (td_id d) s1 \<and>
       (\<exists>x \<in> set (sv_deals s). td_id x = td_id d \<and> td_status x = DealOpen))
      in confirm_commit env k tx (Some d) s = (Inr funded, s1) \<and>
         (Inr v', s') = confirm_finish env i k tx d funded s1)"
proof -
  obtain d where d: "confirm_check i k tx s = Inr d"
    using assms by (cases "confirm_check i k tx s") (simp_all add: confirm_investment_def)
  have "d \<noteq> None"
  proof
    assume "d = None"
    with assms d show False
      by (simp add: confirm_investment_def and_then_def transaction_def confirm_commit_def)
  qed
  then obtain x where x: "d = Some x" by blast
  from confirm_commit_result [of env k tx x s] obtain s1 where
    s1: "confirm_commit env k tx (Some x) s = (Inr (td_total_value x \<le> confirmed_total (td_id x) s1 \<and>
       (\<exists>y \<in> set (sv_deals s). td_id y = td_id x \<and> td_status y = DealOpen)), s1)" by blast
  obtain v where v: "stellar_tx_hash_ok tx" "find_investment k (sv_investments s) = Some v"
      "iv_investor_id v = i" "iv_status v = InvPending" "find_deal (iv_trade_deal_id v) (sv_deals s) = Some x"
    using d unfolding confirm_check_ok x by metis
  have "(Inr v', s') = confirm_finish env i k tx x (td_total_value x \<le> confirmed_total (td_id x) s1 \<and>
       (\<exists>y \<in> set (sv_deals s). td_id y = td_id x \<and> td_status y = DealOpen)) s1"
    using assms d x s1 by (simp add: confirm_investment_def and_then_def transaction_def)
  with v s1 show ?thesis by (intro that [of v x s1]) (simp_all add: Let_def)
qed

subsection \<open>Sample state\<close>

definition sample_fee :: fee_configuration where
  "sample_fee =
     \<lparr>fc_deal_type = ''Cocoa'', fc_investor_tier = TierRetail, fc_fee_type = InvestorEntry,
      fc_rate_percent = 2, fc_description = None, fc_effective_from = 0, fc_effective_to = None\<rparr>"

definition sample_env :: investments_env where
  "sample_env =
     \<lparr>en_trustline = (\<lambda>_. Inr True), en_risk_service = (\<lambda>_. OtherFailure),
      en_sanctions = \<lparr>sc_api_key = None, sc_risk_threshold = None, sc_node_env = None\<rparr>,
      en_fees = [sample_fee], en_create_tx = (\<lambda>_ _ _ _ _ _ _ _. Inr ''xdr''),
      en_fund_escrow = (\<lambda>_ _ _ _ _ _. Inr ''tx''), en_show_num = (\<lambda>_. ''n''),
      en_cooling_off_hours = None, en_now = 1000, en_year = 2026, en_uuid = ''v1'', en_trace_id = ''app''\<rparr>"

definition sample_deal :: trade_deal where
  "sample_deal =
     \<lparr>td_id = ''d1'', td_commodity = ''Cocoa'', td_total_value = 1000, td_token_count = 20,
      td_token_symbol = ''COC'', td_status = DealOpen, td_farmer_id = ''f1'', td_trader_id = ''t1'',
      td_escrow_public_key = Some ''E'', td_escrow_secret_key = Some ''K'', td_issuer_public_key = Some ''I'', td_issuer_secret_key = None,
      td_total_invested = 0, td_app_trace_id = None, td_min_lot_size = None, td_lot_step = None,
      td_milestone_release_pct = 0, td_minimum_tier = None, td_deleted = False\<rparr>"

definition sample_user :: "string \<Rightarrow> user" where
  "sample_user i =
     \<lparr>us_id = i, us_email = ''e'', us_role = ''investor'', us_wallet_address = Some ''G'', us_accreditation_tier = None\<rparr>"

definition empty_queue :: queue_state where
  "empty_queue = \<lparr>q_correlation_id = None, q_emitted = [], q_outbox = [], q_analytics = []\<rparr>"

definition sample_state :: investments_state where
  "sample_state =
     \<lparr>sv_users = [sample_user ''i1'', sample_user ''i2''], sv_deals = [sample_deal], sv_investments = [],
      sv_events = [], sv_totals = [], sv_queue = empty_queue, sv_reward_triggers = [],
      sv_confirmed_pushes = [], sv_deal_pushes = []\<rparr>"

definition sample_dto :: create_investment_dto where
  "sample_dto =
     \<lparr>ci_trade_deal_id = ''d1'', ci_token_amount = 10, ci_amount_usd = 1000, ci_compliance_data = None\<rparr>"

definition sample_hash :: string where
  "sample_hash = replicate 64 (CHR ''a'')"

definition created_state :: investments_state where
  "created_state = sample_state\<lparr>sv_investments := [new_investment sample_env ''i1'' sample_dto]\<rparr>"

lemmas sample_defs = sample_env_def sample_deal_def sample_user_def empty_queue_def sample_state_def
  sample_dto_def created_state_def new_investment_def

subsection \<open>Properties\<close>

text \<open>
  Every call of \<open>createInvestment\<close> ends in one of three ways: it is refused and changes
  nothing; or the investment passed every guard (wallet, trustline, sanctions, travel rule,
  caps, open deal, tokens left, lot size, deal value) and a pending row is added together
  with its event and the annual total; or the row is added and the Stellar service then
  fails, which leaves the pending row without event and without annual total.
\<close>

theorem create_investment_outcomes:
  "case create_investment env i dto s of
     (Inl e, s') \<Rightarrow> s' = s \<or>
       (admissible env i dto s \<and>
        s' = s\<lparr>sv_investments := sv_investments s @ [new_investment env i dto]\<rparr>)
   | (Inr r, s') \<Rightarrow> admissible env i dto s \<and> cr_investment r = new_investment env i dto \<and>
       iv_status (cr_investment r) = InvPending \<and>
       s' = s\<lparr>sv_investments := sv_investments s @ [new_investment env i dto],
              sv_events := append_event (en_uuid env) InvestmentCreated
                (CreatedPayload (ci_amount_usd dto) (ci_token_amount dto) (ci_trade_deal_id dto)) (Some i) (en_now env) (sv_events s),
              sv_totals := record_annual_investment i (ci_amount_usd dto) (en_year env) (sv_totals s)\<rparr>"
  by (rule create_cases [of env i dto s]) (auto simp: insert_row_def new_investment_def)


lemma sample_confirmation:
  "isl (fst (confirm_investment sample_env ''i1'' ''v1'' sample_hash created_state)) = False \<and>
   isl (fst (request_cooling_off_cancel sample_env ''i1'' ''v1'' None created_state)) = False \<and>
   confirmed_total ''d1'' (snd (confirm_investment sample_env ''i1'' ''v1'' sample_hash created_state)) = 1000"
  by code_simp


text \<open>
  Two investors each create an investment for the whole value of the same deal and both
  confirm it: the guard of the creation counts confirmed investments only.
\<close>

definition second_env :: investments_env where
  "second_env = sample_env\<lparr>en_uuid := ''v2''\<rparr>"

definition two_creations :: "investments_state" where
  "two_creations =
     snd (create_investment second_env ''i2'' sample_dto (snd (create_investment sample_env ''i1'' sample_dto sample_state)))"

definition two_confirmations :: "investments_state" where
  "two_confirmations =
     snd (confirm_investment second_env ''i2'' ''v2'' sample_hash
       (snd (confirm_investment sample_env ''i1'' ''v1'' sample_hash two_creations)))"

definition sample_one :: investments_state where
  "sample_one = sample_state\<lparr>
     sv_investments := [new_investment sample_env ''i1'' sample_dto],
     sv_events := append_event ''v1'' InvestmentCreated (CreatedPayload 1000 10 ''d1'') (Some ''i1'') 1000 [],
     sv_totals := record_annual_investment ''i1'' 1000 2026 []\<rparr>"

definition sample_two :: investments_state where
  "sample_two = sample_one\<lparr>
     sv_investments := [new_investment sample_env ''i1'' sample_dto, new_investment second_env ''i2'' sample_dto],
     sv_events := append_event ''v2'' InvestmentCreated (CreatedPayload 1000 10 ''d1'') (Some ''i2'') 1000 (sv_events sample_one),
     sv_totals := record_annual_investment ''i2'' 1000 2026 (sv_totals sample_one)\<rparr>"

lemma create_state:
  assumes "isl (admit_investment env i dto s) = False" "isl (fst (place_investment env i dto s)) = False"
    and "en_create_tx env = (\<lambda>_ _ _ _ _ _ _ _. Inr xdr)"
  shows "snd (create_investment env i dto s) =
    s\<lparr>sv_investments := sv_investments s @ [new_investment env i dto],
       sv_events := append_event (en_uuid env) InvestmentCreated
         (CreatedPayload (ci_amount_usd dto) (ci_token_amount dto) (ci_trade_deal_id dto)) (Some i) (en_now env) (sv_events s),
       sv_totals := record_annual_investment i (ci_amount_usd dto) (en_year env) (sv_totals s)\<rparr>"
proof -
  obtain w fees where a: "admit_investment env i dto s = Inr (w, fees)"
    using assms(1) by (cases "admit_investment env i dto s") auto
  obtain v s1 where p: "place_investment env i dto s = (Inr v, s1)"
    using assms(2) by (cases "place_investment env i dto s"; cases "fst (place_investment env i dto s)") auto
  note ok = place_ok [OF p]
  show ?thesis using a p ok assms(3)
    by (auto simp: create_investment_def and_then_def transaction_def finish_investment_def insert_row_def new_investment_def)
qed

text \<open>The guards of the creation are the same with and without a pending investment in the table.\<close>

lemma pending_not_counted:
  "iv_status v \<noteq> InvConfirmed \<Longrightarrow> investments_of d InvConfirmed (t @ [v]) = investments_of d InvConfirmed t"
  by (simp add: investments_of_def find_where_def)

lemma sample_guards:
  "(isl (admit_investment sample_env ''i1'' sample_dto sample_state) = False \<and>
    isl (fst (place_investment sample_env ''i1'' sample_dto sample_state)) = False) \<and>
   (isl (admit_investment second_env ''i2'' sample_dto sample_one) = False \<and>
    isl (fst (place_investment second_env ''i2'' sample_dto sample_one)) = False)"
  by code_simp

lemma create_one: "snd (create_investment sample_env ''i1'' sample_dto sample_state) = sample_one"
  by (subst create_state, rule sample_guards [THEN conjunct1, THEN conjunct1], rule sample_guards [THEN conjunct1, THEN conjunct2],
      simp add: sample_env_def)
    (simp add: sample_one_def sample_env_def sample_dto_def sample_state_def)
lemma create_two: "snd (create_investment second_env ''i2'' sample_dto sample_one) = sample_two"
  by (subst create_state, rule sample_guards [THEN conjunct2, THEN conjunct1], rule sample_guards [THEN conjunct2, THEN conjunct2],
      simp add: second_env_def sample_env_def)
    (simp add: sample_one_def sample_two_def second_env_def sample_env_def sample_dto_def sample_state_def)
text \<open>
  The over-funding guard can be passed twice: from an open deal of value 1000 without
  investments the service creates and confirms two investments of 1000 each, after which
  the total invested of the deal is 2000.
\<close>

theorem deal_can_be_overfunded:
  "map iv_status (sv_investments two_creations) = [InvPending, InvPending] \<and>
   map iv_status (sv_investments two_confirmations) = [InvConfirmed, InvConfirmed] \<and>
   map (\<lambda>d. (td_total_value d, td_total_invested d)) (sv_deals two_confirmations) = [(1000, 2000)]"
proof -
  have two: "two_creations = sample_two" by (simp add: two_creations_def create_one create_two)
  have "map iv_status (sv_investments sample_two) = [InvPending, InvPending] \<and>
    map iv_status (sv_investments (snd (confirm_investment second_env ''i2'' ''v2'' sample_hash
      (snd (confirm_investment sample_env ''i1'' ''v1'' sample_hash sample_two))))) = [InvConfirmed, InvConfirmed] \<and>
    map (\<lambda>d. (td_total_value d, td_total_invested d)) (sv_deals (snd (confirm_investment second_env ''i2'' ''v2'' sample_hash
      (snd (confirm_investment sample_env ''i1'' ''v1'' sample_hash sample_two))))) = [(1000, 2000)]"
    by code_simp
  then show ?thesis by (simp only: two two_confirmations_def)
qed

lemma cancel_ok:
  assumes "request_cooling_off_cancel env i k reason s = (Inr v', s')"
  shows "\<exists>v. find_investment k (sv_investments s) = Some v \<and> iv_investor_id v = i \<and> iv_status v = InvPending \<and>
      en_now env \<le> cooling_off_deadline env v"
    and "s' = s\<lparr>sv_investments := update_where (\<lambda>v. iv_id v = k \<and> iv_status v = InvPending)
                   (\<lambda>v. v\<lparr>iv_status := InvCancelled\<rparr>) (sv_investments s),
               sv_events := append_event k InvestmentCancelledByUser (CoolingOffPayload reason) (Some i) (en_now env) (sv_events s)\<rparr>"
    and "v' = find_investment k (sv_investments s')"
  using assms unfolding request_cooling_off_cancel_def cancel_check_def cancel_commit_def
  by (auto simp: Let_def not_less split: option.splits if_splits)

lemma cancel_found:
  assumes "find_investment k t = Some v" "iv_status v = InvPending"
    and "distinct (map iv_id t)"
  shows "find_investment k (update_where (\<lambda>v. iv_id v = k \<and> iv_status v = InvPending)
           (\<lambda>v. v\<lparr>iv_status := InvCancelled\<rparr>) t) = Some (v\<lparr>iv_status := InvCancelled\<rparr>)"
proof -
  have "find_one (\<lambda>w. iv_id w = k \<and> \<not> iv_deleted w) (update_where (\<lambda>v. iv_id v = k \<and> iv_status v = InvPending)
           (\<lambda>v. v\<lparr>iv_status := InvCancelled\<rparr>) t)
      = map_option (\<lambda>r. if iv_id r = k \<and> iv_status r = InvPending then r\<lparr>iv_status := InvCancelled\<rparr> else r)
          (find_one (\<lambda>w. iv_id w = k \<and> \<not> iv_deleted w) t)"
    by (rule find_one_update) simp
  then show ?thesis using assms find_investmentD [OF assms(1)] by (simp add: find_investment_def)
qed

text \<open>
  A cooling-off cancellation succeeds exactly when the investor owns the investment, it
  is pending and the deadline has not passed; then the investment is cancelled and the
  event recorded, otherwise nothing changes.
\<close>

theorem cooling_off_cancel_correct:
  assumes unique: "distinct (map iv_id (sv_investments s))"
  shows "case request_cooling_off_cancel env i k reason s of
      (Inr v', s') \<Rightarrow> (\<exists>v. find_investment k (sv_investments s) = Some v \<and> iv_investor_id v = i \<and>
          iv_status v = InvPending \<and> en_now env \<le> cooling_off_deadline env v \<and>
          v' = Some (v\<lparr>iv_status := InvCancelled\<rparr>) \<and> find_investment k (sv_investments s') = v') \<and>
          get_events k (sv_events s') \<noteq> get_events k (sv_events s)
    | (Inl e, s') \<Rightarrow> s' = s \<and> \<not> (\<exists>v. find_investment k (sv_investments s) = Some v \<and> iv_investor_id v = i \<and>
          iv_status v = InvPending \<and> en_now env \<le> cooling_off_deadline env v)"
proof (cases "request_cooling_off_cancel env i k reason s")
  case (Pair r s')
  show ?thesis
  proof (cases r)
    case (Inr v')
    from cancel_ok [OF Pair [unfolded Inr]] cancel_found [OF _ _ unique] show ?thesis
      using Pair Inr by auto
  next
    case (Inl e)
    have "s' = s"
      using Pair Inl unfolding request_cooling_off_cancel_def cancel_check_def cancel_commit_def
      by (auto simp: Let_def split: option.splits if_splits)
    moreover have "\<not> (iv_investor_id v = i \<and> iv_status v = InvPending \<and> en_now env \<le> cooling_off_deadline env v)"
      if v: "find_investment k (sv_investments s) = Some v" for v
    proof
      assume a: "iv_investor_id v = i \<and> iv_status v = InvPending \<and> en_now env \<le> cooling_off_deadline env v"
      then have "affected (\<lambda>v. iv_id v = k \<and> iv_status v = InvPending) (sv_investments s) \<noteq> 0"
        using find_investmentD [OF v] by auto
      with a v Pair Inl show False
        unfolding request_cooling_off_cancel_def cancel_check_def cancel_commit_def
        by (simp add: Let_def del: affected_eq_0)
    qed
    ultimately show ?thesis using Pair Inl by auto
  qed
qed

theorem cooling_off_cancel_correct_witness:
  "find_investment ''v1'' (sv_investments (snd (request_cooling_off_cancel sample_env ''i1'' ''v1'' None created_state)))
     = Some (new_investment sample_env ''i1'' sample_dto\<lparr>iv_status := InvCancelled\<rparr>)"
proof -
  have u: "distinct (map iv_id (sv_investments created_state))" by (simp add: sample_defs)
  have "find_investment ''v1'' (sv_investments created_state) = Some (new_investment sample_env ''i1'' sample_dto)"
    by (simp add: sample_defs find_investment_def find_one_def)
  with cooling_off_cancel_correct [OF u, where env = sample_env and i = "''i1''" and k = "''v1''" and reason = None] show ?thesis
    by (auto simp: sample_defs cooling_off_deadline_def cooling_off_hours_def split: prod.splits sum.splits)
qed

text \<open>
  The check and the transaction of a confirmation are two steps, and the transaction
  updates the row whatever its status: when the investor's cancellation succeeds between
  them, the cancelled investment ends up confirmed.
\<close>

theorem confirmation_overrides_cancellation:
  assumes unique: "distinct (map iv_id (sv_investments s))"
    and check: "confirm_check i k tx s = Inr (Some d)"
    and cancel: "request_cooling_off_cancel env i k reason s = (Inr v, s1)"
  shows "(\<exists>w. find_investment k (sv_investments s1) = Some w \<and> iv_status w = InvCancelled) \<and>
    (\<exists>w. find_investment k (sv_investments (snd (confirm_commit env k tx (Some d) s1))) = Some w \<and>
         iv_status w = InvConfirmed)"
proof -
  from cancel_ok [OF cancel] obtain w where w: "find_investment k (sv_investments s) = Some w" "iv_status w = InvPending"
    by blast
  have f: "find_investment k (sv_investments s1) = Some (w\<lparr>iv_status := InvCancelled\<rparr>)"
    using cancel_found [OF w unique] cancel_ok(2) [OF cancel] by simp
  from confirm_commit_result [of env k tx d s1] obtain s2 where
    "snd (confirm_commit env k tx (Some d) s1) = s2" "sv_investments s2 = update_investment k (mark_confirmed tx) (sv_investments s1)"
    by auto
  with f find_investmentD [OF f] show ?thesis by (simp add: find_investment_update)
qed

theorem confirmation_overrides_cancellation_witness:
  "\<exists>w. find_investment ''v1'' (sv_investments (snd (confirm_commit sample_env ''v1'' sample_hash (Some sample_deal)
     (snd (request_cooling_off_cancel sample_env ''i1'' ''v1'' None created_state))))) = Some w \<and> iv_status w = InvConfirmed"
proof -
  have u: "distinct (map iv_id (sv_investments created_state))" by (simp add: sample_defs)
  have c: "confirm_check ''i1'' ''v1'' sample_hash created_state = Inr (Some sample_deal)"
    by (simp add: confirm_check_def sample_defs find_investment_def find_deal_def find_one_def
        stellar_tx_hash_ok_def sample_hash_def hex_digit_def list_all_iff)
  obtain r s1 where x: "request_cooling_off_cancel sample_env ''i1'' ''v1'' None created_state = (r, s1)"
    by (cases "request_cooling_off_cancel sample_env ''i1'' ''v1'' None created_state")
  then obtain v where "r = Inr v" using sample_confirmation by (cases r) auto
  with confirmation_overrides_cancellation [OF u c] x show ?thesis by auto
qed

text \<open>
  Reconciling an investment right after it was confirmed sets it to active, so the
  investment no longer counts among the confirmed ones of its deal: the replay maps the
  event of a confirmation to a status the confirmation never writes.
\<close>

theorem reconciliation_undoes_confirmation:
  assumes "confirm_investment env i k tx s = (Inr v, s')"
  shows "\<exists>w s''. reconcile_state_from_events k s' = (Inr (Some w), s'') \<and>
    (\<exists>u. v = Some u \<and> iv_status u = InvConfirmed) \<and> iv_status w = InvActive \<and>
    (\<forall>x \<in> set (investments_of (iv_trade_deal_id w) InvConfirmed (sv_investments s'')). iv_id x \<noteq> k)"
proof (rule confirm_ok [OF assms])
  fix x d s1
  assume x: "find_investment k (sv_investments s) = Some x"
    and c: "let funded = (td_total_value d \<le> confirmed_total (td_id d) s1 \<and>
         (\<exists>x \<in> set (sv_deals s). td_id x = td_id d \<and> td_status x = DealOpen))
      in confirm_commit env k tx (Some d) s = (Inr funded, s1) \<and>
         (Inr v, s') = confirm_finish env i k tx d funded s1"
  from c confirm_commit_result [of env k tx d s]
  have s': "sv_investments s' = update_investment k (mark_confirmed tx) (sv_investments s)"
      "\<exists>evs. sv_events s' = append_event k InvestmentActivated (ActivatedPayload tx) (Some i) (en_now env) evs"
      "v = find_investment k (sv_investments s')"
    by (auto simp: Let_def confirm_finish_def)
  have f: "find_investment k (sv_investments s') = Some (mark_confirmed tx x)"
    using x find_investmentD [OF x] by (simp add: s'(1) find_investment_update)
  let ?t = "update_investment k (\<lambda>v. v\<lparr>iv_status := InvActive\<rparr>) (sv_investments s')"
  have "reconcile_state_from_events k s' = (Inr (find_investment k ?t), s'\<lparr>sv_investments := ?t\<rparr>)"
    using s'(2) by (auto simp: reconcile_state_from_events_def rebuild_after_append Let_def)
  moreover have "find_investment k ?t = Some (mark_confirmed tx x\<lparr>iv_status := InvActive\<rparr>)"
    using f find_investmentD [OF x] by (simp add: find_investment_update)
  moreover have "iv_id y \<noteq> k" if "y \<in> set (investments_of dl InvConfirmed ?t)" for y dl
  proof -
    have y: "y \<in> set ?t" "iv_status y = InvConfirmed" using that by (simp_all only: set_investments_of)
    from in_update_where [OF y(1) [unfolded update_investment_def]] obtain r where
      "y = (if iv_id r = k then r\<lparr>iv_status := InvActive\<rparr> else r)" by blast
    with y(2) show ?thesis by (cases "iv_id r = k") simp_all
  qed
  ultimately show ?thesis using s'(3) f by auto
qed

theorem reconciliation_undoes_confirmation_witness:
  "\<exists>w s''. reconcile_state_from_events ''v1''
      (snd (confirm_investment sample_env ''i1'' ''v1'' sample_hash created_state)) = (Inr (Some w), s'') \<and> iv_status w = InvActive"
proof -
  obtain r s' where c: "confirm_investment sample_env ''i1'' ''v1'' sample_hash created_state = (r, s')"
    by (cases "confirm_investment sample_env ''i1'' ''v1'' sample_hash created_state")
  then obtain v' where r: "r = Inr v'" using sample_confirmation by (cases r) auto
  from reconciliation_undoes_confirmation [OF c [unfolded r]] c show ?thesis by auto
qed

end
