(* ===== verification/Shipments.thy ===== *)
theory Shipments
  imports QueueService
begin

text \<open>
  \<open>backend/src/shipments/shipments.service.ts\<close>: the trader records the four milestones of a
  funded deal in their order, each anchored on Stellar; the last one moves the deal to
  delivered and emits the job that releases the escrow. Comments and verifications attach to
  milestones. The Stellar service, the configuration, clock and identifiers are parameters.
\<close>

subsection \<open>State and parameters\<close>

datatype milestone_type = Farm | Warehouse | Port | Importer

record shipment_milestone =
  ms_id :: string
  ms_trade_deal_id :: string
  ms_milestone :: milestone_type
  ms_recorded_by :: string
  ms_notes :: "string option"
  ms_stellar_tx_id :: string
  ms_memo_text :: string
  ms_latitude :: "jsnum option"
  ms_longitude :: "jsnum option"
  ms_evidence_document_ids :: "string list option"
  ms_deleted :: bool

record milestone_comment =
  mc_id :: string
  mc_milestone_id :: string
  mc_user_id :: string
  mc_user_display_name :: string
  mc_content :: string
  mc_role :: "string option"

datatype verification_status = Verified | Rejected

record milestone_verification =
  mv_id :: string
  mv_milestone_id :: string
  mv_verified_by :: string
  mv_verifier_role :: string
  mv_status :: verification_status
  mv_notes :: "string option"

record shipments_state =
  sh_deals :: "trade_deal list"
  sh_milestones :: "shipment_milestone list"
  sh_comments :: "milestone_comment list"
  sh_verifications :: "milestone_verification list"
  sh_queue :: queue_state
  sh_milestone_pushes :: "(string \<times> milestone_type) list"
  sh_deal_pushes :: "(string \<times> deal_status) list"

record shipments_env =
  se_record_memo :: "string \<Rightarrow> string \<Rightarrow> string + string"
  se_decrypt_secret :: "string \<Rightarrow> string + string"
  se_platform_secret :: string
  se_encrypt_error :: "string \<Rightarrow> string option"
  se_uuid :: string
  se_unix_time :: nat
  se_trace_id :: string

type_synonym 'a shipments_handler = "(shipments_state, http_error, 'a) handler"

record create_milestone_dto =
  cm_trade_deal_id :: string
  cm_milestone :: milestone_type
  cm_notes :: "string option"
  cm_latitude :: "jsnum option"
  cm_longitude :: "jsnum option"
  cm_location :: "(jsnum \<times> jsnum) option"
  cm_evidence :: "string list option"

definition restore_shipments_db :: "shipments_state \<Rightarrow> shipments_state \<Rightarrow> shipments_state" where
  "restore_shipments_db before s =
     s\<lparr>sh_deals := sh_deals before, sh_milestones := sh_milestones before,
       sh_comments := sh_comments before, sh_verifications := sh_verifications before,
       sh_queue := restore_outbox (sh_queue before) (sh_queue s)\<rparr>"

subsection \<open>The memo (\<open>stellar/anchor-memo.ts\<close>)\<close>

definition normalize_deal_id_for_memo :: "string \<Rightarrow> string" where
  "normalize_deal_id_for_memo deal_id = take 8 (filter (\<lambda>c. c \<noteq> CHR ''-'') deal_id)"

fun milestone_text :: "milestone_type \<Rightarrow> string" where
  "milestone_text Farm = ''farm''"
| "milestone_text Warehouse = ''warehouse''"
| "milestone_text Port = ''port''"
| "milestone_text Importer = ''importer''"

fun decimal :: "nat \<Rightarrow> string" where
  "decimal n = (if n < 10 then [char_of (48 + n)] else decimal (n div 10) @ [char_of (48 + n mod 10)])"

declare decimal.simps [simp del]

definition build_shipment_memo :: "string \<Rightarrow> string \<Rightarrow> nat \<Rightarrow> string" where
  "build_shipment_memo deal_id milestone unix_timestamp =
     ''AGRIC:MILESTONE:'' @ normalize_deal_id_for_memo deal_id @ '':'' @ milestone @ '':'' @ decimal unix_timestamp"

definition build_document_memo :: "string \<Rightarrow> string \<Rightarrow> string" where
  "build_document_memo trade_deal_id hash = ''AGRIC:DOC:'' @ trade_deal_id @ '':'' @ hash"

subsection \<open>recordMilestone\<close>

definition milestone_sequence :: "milestone_type list" where
  "milestone_sequence = [Farm, Warehouse, Port, Importer]"

definition milestones_of :: "string \<Rightarrow> shipments_state \<Rightarrow> shipment_milestone list" where
  "milestones_of deal_id s = find_where (\<lambda>m. ms_trade_deal_id m = deal_id \<and> \<not> ms_deleted m) (sh_milestones s)"

definition new_milestone ::
  "shipments_env \<Rightarrow> string \<Rightarrow> create_milestone_dto \<Rightarrow> string \<Rightarrow> string \<Rightarrow> shipment_milestone" where
  "new_milestone env user_id dto stellar_tx_id memo_text =
     \<lparr>ms_id = se_uuid env, ms_trade_deal_id = cm_trade_deal_id dto, ms_milestone = cm_milestone dto,
      ms_recorded_by = user_id, ms_notes = cm_notes dto, ms_stellar_tx_id = stellar_tx_id,
      ms_memo_text = memo_text,
      ms_latitude = (case cm_location dto of Some (lat, _) \<Rightarrow> Some lat | None \<Rightarrow> cm_latitude dto),
      ms_longitude = (case cm_location dto of Some (_, lng) \<Rightarrow> Some lng | None \<Rightarrow> cm_longitude dto),
      ms_evidence_document_ids = (case cm_evidence dto of Some (e # es) \<Rightarrow> Some (e # es) | _ \<Rightarrow> None),
      ms_deleted = False\<rparr>"

definition signer_secret :: "shipments_env \<Rightarrow> trade_deal \<Rightarrow> string + string" where
  "signer_secret env deal =
     (case td_escrow_secret_key deal of
        Some k \<Rightarrow> if k = [] then Inr (se_platform_secret env) else se_decrypt_secret env k
      | None \<Rightarrow> Inr (se_platform_secret env))"

text \<open>The branch of the importer milestone: deal status and the job for the escrow release.\<close>

definition deliver_deal :: "shipments_env \<Rightarrow> string \<Rightarrow> unit shipments_handler" where
  "deliver_deal env deal_id s =
     (let s1 = s\<lparr>sh_deals := update_deal deal_id
                   (\<lambda>d. d\<lparr>td_status := DealDelivered, td_app_trace_id := Some (se_trace_id env)\<rparr>) (sh_deals s)\<rparr>
      in case enqueue_deal_delivered (se_encrypt_error env) deal_id (sh_queue s1) of
           (Inl e, q) \<Rightarrow> (Inl (Internal e), s1\<lparr>sh_queue := q\<rparr>)
         | (Inr _, q) \<Rightarrow> (Inr (), s1\<lparr>sh_queue := q\<rparr>))"

definition push_milestone :: "string \<Rightarrow> milestone_type \<Rightarrow> shipments_state \<Rightarrow> shipments_state" where
  "push_milestone deal_id m s =
     (let s1 = s\<lparr>sh_milestone_pushes := sh_milestone_pushes s @ [(deal_id, m)]\<rparr>
      in if m = Importer then s1\<lparr>sh_deal_pushes := sh_deal_pushes s1 @ [(deal_id, DealDelivered)]\<rparr> else s1)"

definition record_milestone_body ::
  "shipments_env \<Rightarrow> string \<Rightarrow> create_milestone_dto \<Rightarrow> shipment_milestone shipments_handler" where
  "record_milestone_body env user_id dto s =
     (let deal_id = cm_trade_deal_id dto in
      case find_deal deal_id (sh_deals s) of
        None \<Rightarrow> throw (NotFound ''Trade deal not found.'') s
      | Some deal \<Rightarrow>
     if td_status deal \<noteq> DealFunded then throw (Unprocessable ''DEAL_NOT_FUNDED'') s
     else if td_trader_id deal \<noteq> user_id then throw (Forbidden ''NOT_ASSIGNED_TRADER'') s
     else
       (let next_index = length (milestones_of deal_id s)
        in if length milestone_sequence \<le> next_index then throw (Unprocessable ''ALL_MILESTONES_RECORDED'') s
           else if cm_milestone dto \<noteq> milestone_sequence ! next_index
           then throw (Unprocessable (milestone_text (milestone_sequence ! next_index))) s
           else
             (let memo_text = build_shipment_memo (td_id deal) (milestone_text (cm_milestone dto)) (se_unix_time env)
              in case signer_secret env deal of
                Inl e \<Rightarrow> throw (Internal e) s
              | Inr secret \<Rightarrow>
             (case se_record_memo env memo_text secret of
                Inl e \<Rightarrow> throw (Internal e) s
              | Inr tx \<Rightarrow>
                  (let m = new_milestone env user_id dto tx memo_text;
                       s1 = s\<lparr>sh_milestones := insert_row m (sh_milestones s)\<rparr>
                   in and_then (if cm_milestone dto = Importer then deliver_deal env deal_id else done_with ())
                        (\<lambda>_ s2. done_with m (push_milestone deal_id (cm_milestone dto) s2)) s1)))))"

definition record_milestone ::
  "shipments_env \<Rightarrow> string \<Rightarrow> create_milestone_dto \<Rightarrow> shipment_milestone shipments_handler" where
  "record_milestone env user_id dto = transaction restore_shipments_db (record_milestone_body env user_id dto)"

subsection \<open>Comments, verifications, history\<close>

definition find_by_deal :: "string \<Rightarrow> shipments_state \<Rightarrow> http_error + shipment_milestone list" where
  "find_by_deal deal_id s =
     (case find_deal deal_id (sh_deals s) of
        None \<Rightarrow> Inl (NotFound ''Trade deal not found'')
      | Some _ \<Rightarrow> Inr (milestones_of deal_id s))"

definition find_milestone :: "string \<Rightarrow> shipments_state \<Rightarrow> shipment_milestone option" where
  "find_milestone i s = find_one (\<lambda>m. ms_id m = i \<and> \<not> ms_deleted m) (sh_milestones s)"

text \<open>\<open>dto.role || null\<close>.\<close>

definition or_null :: "string option \<Rightarrow> string option" where
  "or_null x = (if present x then x else None)"

definition add_comment ::
  "shipments_env \<Rightarrow> string \<Rightarrow> string \<Rightarrow> string \<Rightarrow> string \<Rightarrow> string option \<Rightarrow> milestone_comment shipments_handler" where
  "add_comment env user_id display_name milestone_id content role s =
     (case find_milestone milestone_id s of
        None \<Rightarrow> throw (NotFound ''Milestone not found'') s
      | Some _ \<Rightarrow>
          (let c = \<lparr>mc_id = se_uuid env, mc_milestone_id = milestone_id, mc_user_id = user_id,
                    mc_user_display_name = display_name, mc_content = content, mc_role = or_null role\<rparr>
           in done_with c (s\<lparr>sh_comments := insert_row c (sh_comments s)\<rparr>)))"

definition get_comments :: "string \<Rightarrow> shipments_state \<Rightarrow> milestone_comment list" where
  "get_comments milestone_id s = find_where (\<lambda>c. mc_milestone_id c = milestone_id) (sh_comments s)"

definition verify_milestone ::
  "shipments_env \<Rightarrow> string \<Rightarrow> string \<Rightarrow> string \<Rightarrow> verification_status \<Rightarrow> string option \<Rightarrow>
   milestone_verification shipments_handler" where
  "verify_milestone env user_id verifier_role milestone_id st notes s =
     (case find_milestone milestone_id s of
        None \<Rightarrow> throw (NotFound ''Milestone not found'') s
      | Some _ \<Rightarrow>
     (case find_one (\<lambda>v. mv_milestone_id v = milestone_id \<and> mv_verified_by v = user_id) (sh_verifications s) of
        Some _ \<Rightarrow> throw (Unprocessable ''User has already verified this milestone'') s
      | None \<Rightarrow>
          (let v = \<lparr>mv_id = se_uuid env, mv_milestone_id = milestone_id, mv_verified_by = user_id,
                    mv_verifier_role = verifier_role, mv_status = st, mv_notes = or_null notes\<rparr>
           in done_with v (s\<lparr>sh_verifications := insert_row v (sh_verifications s)\<rparr>))))"

definition get_verifications :: "string \<Rightarrow> shipments_state \<Rightarrow> milestone_verification list" where
  "get_verifications milestone_id s = find_where (\<lambda>v. mv_milestone_id v = milestone_id) (sh_verifications s)"

definition get_milestone_history ::
  "string \<Rightarrow> shipments_state \<Rightarrow>
   http_error + (shipment_milestone \<times> milestone_comment list \<times> milestone_verification list) list" where
  "get_milestone_history deal_id s =
     (case find_by_deal deal_id s of
        Inl e \<Rightarrow> Inl e
      | Inr ms \<Rightarrow> Inr (map (\<lambda>m. (m, get_comments (ms_id m) s, get_verifications (ms_id m) s)) ms))"

subsection \<open>Outcomes of recordMilestone\<close>

lemma push_milestone_simps [simp]:
  "sh_deals (push_milestone d m s) = sh_deals s" "sh_milestones (push_milestone d m s) = sh_milestones s"
  "sh_queue (push_milestone d m s) = sh_queue s" "sh_verifications (push_milestone d m s) = sh_verifications s"
  by (simp_all add: push_milestone_def Let_def)

lemma restore_shipments_same [simp]: "restore_shipments_db s s = s"
  by (simp add: restore_shipments_db_def restore_outbox_def)

lemma deliver_deal_cases:
  "deliver_deal env d s =
     (let s1 = s\<lparr>sh_deals := update_deal d
                   (\<lambda>x. x\<lparr>td_status := DealDelivered, td_app_trace_id := Some (se_trace_id env)\<rparr>) (sh_deals s)\<rparr>
      in case se_encrypt_error env ''deal.delivered'' of
           Some e \<Rightarrow> (Inl (Internal e), s1)
         | None \<Rightarrow> (Inr (), s1\<lparr>sh_queue := (sh_queue s)
             \<lparr>q_emitted := q_emitted (sh_queue s) @ [\<lparr>qm_event = ''deal.delivered'', qm_job = DeliveredJob d,
                qm_correlation_id = q_correlation_id (sh_queue s)\<rparr>],
              q_analytics := q_analytics (sh_queue s) @ [(''deal.delivered'', ''published'')]\<rparr>\<rparr>))"
  by (simp add: deliver_deal_def enqueue_deal_delivered_def enqueue_job_result Let_def split: option.split)

text \<open>A refused call keeps the database and the queue; the three shapes of an accepted call.\<close>

lemma record_err: "record_milestone env u dto s = (Inl e, s') \<Longrightarrow> s' = s"
  unfolding record_milestone_def transaction_def record_milestone_body_def Let_def
  by (auto simp: and_then_def deliver_deal_cases Let_def restore_shipments_db_def restore_outbox_def
      split: option.splits sum.splits if_splits prod.splits)

lemma record_ok:
  assumes "record_milestone env u dto s = (Inr m, s')"
  shows "\<exists>deal tx memo. find_deal (cm_trade_deal_id dto) (sh_deals s) = Some deal \<and> td_status deal = DealFunded \<and>
      td_trader_id deal = u \<and> length (milestones_of (cm_trade_deal_id dto) s) < 4 \<and>
      cm_milestone dto = milestone_sequence ! length (milestones_of (cm_trade_deal_id dto) s) \<and>
      m = new_milestone env u dto tx memo"
    and "sh_milestones s' = sh_milestones s @ [m]"
    and "sh_verifications s' = sh_verifications s"
    and "sh_deals s' = (if cm_milestone dto = Importer
           then update_deal (cm_trade_deal_id dto) (\<lambda>x. x\<lparr>td_status := DealDelivered, td_app_trace_id := Some (se_trace_id env)\<rparr>) (sh_deals s)
           else sh_deals s)"
    and "q_emitted (sh_queue s') = q_emitted (sh_queue s) @ (if cm_milestone dto = Importer
           then [\<lparr>qm_event = ''deal.delivered'', qm_job = DeliveredJob (cm_trade_deal_id dto),
                qm_correlation_id = q_correlation_id (sh_queue s)\<rparr>] else [])"
  using assms unfolding record_milestone_def transaction_ok record_milestone_body_def Let_def
  by (auto simp: and_then_def deliver_deal_cases Let_def milestone_sequence_def insert_row_def
      split: option.splits sum.splits if_splits)

lemma new_milestone_simps [simp]:
  "ms_trade_deal_id (new_milestone env u dto tx memo) = cm_trade_deal_id dto"
  "ms_milestone (new_milestone env u dto tx memo) = cm_milestone dto"
  "\<not> ms_deleted (new_milestone env u dto tx memo)"
  by (simp_all add: new_milestone_def)

lemma milestones_after:
  assumes "record_milestone env u dto s = (Inr m, s')"
  shows "milestones_of d s' = milestones_of d s @ (if d = cm_trade_deal_id dto then [m] else [])"
  using record_ok(1,2) [OF assms] by (auto simp: milestones_of_def find_where_def)

subsection \<open>Invariant\<close>

definition delivered_jobs :: "string \<Rightarrow> shipments_state \<Rightarrow> queue_message list" where
  "delivered_jobs d s = filter (\<lambda>m. qm_job m = DeliveredJob d) (q_emitted (sh_queue s))"

definition before_delivery :: "deal_status \<Rightarrow> bool" where
  "before_delivery st \<longleftrightarrow> st \<in> {DealDraft, DealOpen, DealFunded}"

definition shipments_inv :: "shipments_state \<Rightarrow> bool" where
  "shipments_inv s \<longleftrightarrow> (\<forall>d.
     map ms_milestone (milestones_of d s) = take (length (milestones_of d s)) milestone_sequence \<and>
     length (delivered_jobs d s) = (if length (milestones_of d s) = 4 then 1 else 0) \<and>
     (length (milestones_of d s) = 4 \<longrightarrow>
        (\<forall>x \<in> set (sh_deals s). td_id x = d \<longrightarrow> \<not> before_delivery (td_status x))))"

text \<open>
  The operations of the service, and what the other services may do to the deals meanwhile:
  they never move a deal that has left the states before delivery back to one of them.
\<close>

inductive shipments_step :: "shipments_state \<Rightarrow> shipments_state \<Rightarrow> bool" where
  milestone: "record_milestone env u dto s = (r, s') \<Longrightarrow> shipments_step s s'"
| comment: "add_comment env u name i content role s = (r', s') \<Longrightarrow> shipments_step s s'"
| verify: "verify_milestone env u role i st nts s = (r'', s') \<Longrightarrow> shipments_step s s'"
| others: "\<forall>x \<in> set deals. before_delivery (td_status x) \<longrightarrow>
             milestones_of (td_id x) s = [] \<or>
             (\<exists>y \<in> set (sh_deals s). td_id y = td_id x \<and> before_delivery (td_status y)) \<Longrightarrow>
           shipments_step s (s\<lparr>sh_deals := deals\<rparr>)"

inductive shipments_reachable :: "shipments_state \<Rightarrow> bool" where
  init: "sh_milestones s = [] \<Longrightarrow> q_emitted (sh_queue s) = [] \<Longrightarrow> shipments_reachable s"
| step: "shipments_reachable s \<Longrightarrow> shipments_step s s' \<Longrightarrow> shipments_reachable s'"

inductive_cases shipments_stepE: "shipments_step s s'"

lemma take_Suc_sequence:
  "n < 4 \<Longrightarrow> take n milestone_sequence @ [milestone_sequence ! n] = take (Suc n) milestone_sequence"
  by (rule take_Suc_conv_app_nth [symmetric]) (simp add: milestone_sequence_def)

lemma importer_is_last: "n < 4 \<Longrightarrow> milestone_sequence ! n = Importer \<longleftrightarrow> n = 3"
  by (cases n; cases "n - 1"; cases "n - 2"; cases "n - 3") (auto simp: milestone_sequence_def)

lemma record_keeps_inv:
  assumes inv: "shipments_inv s" and r: "record_milestone env u dto s = (r, s')"
  shows "shipments_inv s'"
proof (cases r)
  case (Inl e)
  with r record_err inv show ?thesis by blast
next
  case (Inr m)
  note ok = record_ok [OF r [unfolded Inr]] and ms = milestones_after [OF r [unfolded Inr]]
  let ?d = "cm_trade_deal_id dto" and ?n = "length (milestones_of (cm_trade_deal_id dto) s)"
  have n: "?n < 4" and m: "ms_milestone m = milestone_sequence ! ?n" "cm_milestone dto = milestone_sequence ! ?n"
    using ok(1) by auto
  have imp: "cm_milestone dto = Importer \<longleftrightarrow> ?n = 3" unfolding m(2) by (rule importer_is_last [OF n])
  have I: "map ms_milestone (milestones_of d s) = take (length (milestones_of d s)) milestone_sequence"
      "length (delivered_jobs d s) = (if length (milestones_of d s) = 4 then 1 else 0)"
      "length (milestones_of d s) = 4 \<Longrightarrow> x \<in> set (sh_deals s) \<Longrightarrow> td_id x = d \<Longrightarrow> \<not> before_delivery (td_status x)" for d x
    using inv by (auto simp: shipments_inv_def)
  have deals: "x \<in> set (sh_deals s') \<Longrightarrow> (td_id x = ?d \<and> ?n = 3 \<and> td_status x = DealDelivered) \<or>
      (x \<in> set (sh_deals s) \<and> (td_id x = ?d \<longrightarrow> ?n \<noteq> 3))" for x
    using ok(4) imp unfolding update_deal_def update_where_def by (auto split: if_splits)
  have jobs: "delivered_jobs d s' = delivered_jobs d s @ (if d = ?d \<and> ?n = 3
      then [\<lparr>qm_event = ''deal.delivered'', qm_job = DeliveredJob ?d, qm_correlation_id = q_correlation_id (sh_queue s)\<rparr>] else [])" for d
    using ok(5) imp by (auto simp: delivered_jobs_def)
  have "map ms_milestone (milestones_of d s') = take (length (milestones_of d s')) milestone_sequence" for d
    using I(1) [of d] take_Suc_sequence [OF n] m(1) unfolding ms by auto
  moreover have "length (delivered_jobs d s') = (if length (milestones_of d s') = 4 then 1 else 0)" for d
    using I(2) [of d] n unfolding ms jobs by auto
  moreover have "\<not> before_delivery (td_status x)"
    if "length (milestones_of d s') = 4" "x \<in> set (sh_deals s')" "td_id x = d" for d x
    using that(1) deals [OF that(2)] I(3) [of d x] that(3) n unfolding ms
    by (auto simp: before_delivery_def split: if_splits)
  ultimately show ?thesis by (simp add: shipments_inv_def)
qed

lemma inv_depends:
  "sh_milestones s' = sh_milestones s \<Longrightarrow> sh_queue s' = sh_queue s \<Longrightarrow> sh_deals s' = sh_deals s \<Longrightarrow>
   shipments_inv s \<Longrightarrow> shipments_inv s'"
  by (simp add: shipments_inv_def milestones_of_def delivered_jobs_def)

lemma step_keeps_inv: "shipments_step s s' \<Longrightarrow> shipments_inv s \<Longrightarrow> shipments_inv s'"
proof (induction rule: shipments_step.induct)
  case (milestone env u dto s r s')
  then show ?case by (blast intro: record_keeps_inv)
next
  case (comment env u name i content role s r' s')
  then show ?case
    by (intro inv_depends [of s' s]) (auto simp: add_comment_def Let_def split: option.splits)
next
  case (verify env u role i st nts s r'' s')
  then show ?case
    by (intro inv_depends [of s' s]) (auto simp: verify_milestone_def Let_def split: option.splits)
next
  case (others deals s)
  then show ?case by (fastforce simp: shipments_inv_def milestones_of_def delivered_jobs_def)
qed

lemma reachable_inv: "shipments_reachable s \<Longrightarrow> shipments_inv s"
proof (induction rule: shipments_reachable.induct)
  case (init s)
  then show ?case by (simp add: shipments_inv_def milestones_of_def find_where_def delivered_jobs_def)
next
  case (step s s')
  then show ?case by (blast intro: step_keeps_inv)
qed

subsection \<open>Properties\<close>

definition sample_deal :: trade_deal where
  "sample_deal =
     \<lparr>td_id = ''d1'', td_commodity = ''Cocoa'', td_total_value = 1000, td_token_count = 20,
      td_token_symbol = ''COC'', td_status = DealFunded, td_farmer_id = ''f1'', td_trader_id = ''t1'',
      td_escrow_public_key = Some ''E'', td_escrow_secret_key = None, td_issuer_public_key = Some ''I'', td_issuer_secret_key = None,
      td_total_invested = 0, td_app_trace_id = None, td_min_lot_size = None, td_lot_step = None,
      td_milestone_release_pct = 0, td_minimum_tier = None, td_deleted = False\<rparr>"

definition sample_state :: shipments_state where
  "sample_state =
     \<lparr>sh_deals = [sample_deal], sh_milestones = [], sh_comments = [], sh_verifications = [],
      sh_queue = \<lparr>q_correlation_id = None, q_emitted = [], q_outbox = [], q_analytics = []\<rparr>,
      sh_milestone_pushes = [], sh_deal_pushes = []\<rparr>"

definition sample_env :: shipments_env where
  "sample_env =
     \<lparr>se_record_memo = (\<lambda>_ _. Inr ''tx''), se_decrypt_secret = Inr, se_platform_secret = ''S'',
      se_encrypt_error = (\<lambda>_. None), se_uuid = ''m1'', se_unix_time = 1700000000, se_trace_id = ''app''\<rparr>"

definition sample_dto :: create_milestone_dto where
  "sample_dto =
     \<lparr>cm_trade_deal_id = ''d1'', cm_milestone = Farm, cm_notes = None, cm_latitude = None,
      cm_longitude = None, cm_location = Some (5, 1), cm_evidence = None\<rparr>"

lemmas sample_defs = sample_deal_def sample_state_def sample_env_def sample_dto_def



text \<open>
  A call of \<open>recordMilestone\<close> that fails leaves the whole state as it was; one that
  succeeds was made by the trader of a funded deal for the next milestone in the sequence,
  adds exactly that milestone, and moves the deal to delivered exactly for the last one.
\<close>

theorem record_milestone_outcomes:
  "case record_milestone env u dto s of
     (Inl e, s') \<Rightarrow> s' = s
   | (Inr m, s') \<Rightarrow>
       (\<exists>deal. find_deal (cm_trade_deal_id dto) (sh_deals s) = Some deal \<and> td_status deal = DealFunded \<and> td_trader_id deal = u) \<and>
       ms_milestone m = milestone_sequence ! length (milestones_of (cm_trade_deal_id dto) s) \<and>
       sh_milestones s' = sh_milestones s @ [m] \<and>
       sh_deals s' = map (\<lambda>x. if td_id x = cm_trade_deal_id dto \<and> ms_milestone m = Importer
          then x\<lparr>td_status := DealDelivered, td_app_trace_id := Some (se_trace_id env)\<rparr> else x) (sh_deals s)"
proof (cases "record_milestone env u dto s")
  case (Pair r s')
  show ?thesis
  proof (cases r)
    case (Inl e)
    with Pair record_err show ?thesis by auto
  next
    case (Inr m)
    note ok = record_ok [OF Pair [unfolded Inr]]
    have "ms_milestone m = cm_milestone dto" using ok(1) by auto
    with ok show ?thesis using Pair Inr by (auto simp: update_deal_def update_where_def)
  qed
qed

text \<open>
  No user verifies a milestone twice: \<open>verifyMilestone\<close> keeps the pairs of milestone and
  verifying user distinct, and refuses a second verification without changing anything.
\<close>

theorem verification_once_per_user:
  assumes "distinct (map (\<lambda>v. (mv_milestone_id v, mv_verified_by v)) (sh_verifications s))"
  shows "distinct (map (\<lambda>v. (mv_milestone_id v, mv_verified_by v))
           (sh_verifications (snd (verify_milestone env u role i st notes s)))) \<and>
    (\<forall>v \<in> set (get_verifications i s). mv_verified_by v = u \<longrightarrow> snd (verify_milestone env u role i st notes s) = s)"
  using assms
  by (auto simp: verify_milestone_def Let_def insert_row_def find_one_None_iff get_verifications_def find_where_def
      split: option.split)

theorem verification_once_per_user_witness:
  "distinct (map (\<lambda>v. (mv_milestone_id v, mv_verified_by v))
     (sh_verifications (snd (verify_milestone sample_env ''u1'' ''farmer'' ''m1'' Verified None sample_state))))"
  using verification_once_per_user [of sample_state] by (simp add: sample_defs)

end
