(* ===== verification/MilestoneRelease.thy ===== *)
theory MilestoneRelease
  imports Shipments
begin

text \<open>
  \<open>backend/src/escrow/milestone-partial-release.service.ts\<close>: each milestone of a deal releases
  a configured percentage of the 98 percent pool, at most once per milestone and never more
  than 98 percent in all. Percentages are numbers, as the entities declare them; the optional
  query runner, which no caller passes, is left out.
\<close>

record milestone_release_record =
  rr_trade_deal_id :: string
  rr_milestone_type :: milestone_type
  rr_release_pct :: jsnum
  rr_farmer_amount_usd :: jsnum

record release_state =
  mr_deals :: "trade_deal list"
  mr_releases :: "milestone_release_record list"

definition escrow_cap :: jsnum where
  "escrow_cap = 98"

definition releases_of :: "string \<Rightarrow> release_state \<Rightarrow> milestone_release_record list" where
  "releases_of deal_id s = find_where (\<lambda>r. rr_trade_deal_id r = deal_id) (mr_releases s)"

definition get_cumulative_released_pct :: "string \<Rightarrow> release_state \<Rightarrow> jsnum" where
  "get_cumulative_released_pct deal_id s = sum_js rr_release_pct (releases_of deal_id s)"

definition pool_amount :: "trade_deal \<Rightarrow> jsnum" where
  "pool_amount deal = mul_js (td_total_value deal) (div_js escrow_cap 100)"

definition on_milestone_recorded ::
  "string \<Rightarrow> milestone_type \<Rightarrow> (release_state, http_error, unit) handler" where
  "on_milestone_recorded deal_id milestone_type s =
     (case find_deal deal_id (mr_deals s) of
        None \<Rightarrow> throw (NotFound ''Deal not found'') s
      | Some deal \<Rightarrow>
     if td_milestone_release_pct deal = 0 then done_with () s
     else (case find_one (\<lambda>r. rr_trade_deal_id r = deal_id \<and> rr_milestone_type r = milestone_type) (mr_releases s) of
        Some _ \<Rightarrow> done_with () s
      | None \<Rightarrow>
          (let total_pct = add_js (get_cumulative_released_pct deal_id s) (td_milestone_release_pct deal)
           in if escrow_cap < total_pct then done_with () s
              else
                (let released = mul_js (pool_amount deal) (div_js (td_milestone_release_pct deal) 100)
                 in done_with () (s\<lparr>mr_releases := insert_row
                      \<lparr>rr_trade_deal_id = deal_id, rr_milestone_type = milestone_type,
                       rr_release_pct = td_milestone_release_pct deal, rr_farmer_amount_usd = released\<rparr>
                      (mr_releases s)\<rparr>)))))"

datatype pct_error = PctOutOfRange | PctTooHigh jsnum

definition validate_milestone_release_pct :: "jsnum \<Rightarrow> pct_error option" where
  "validate_milestone_release_pct pct =
     (if pct < 0 \<or> 100 < pct then Some PctOutOfRange
      else
        let max_cumulative = mul_js pct 4
        in if escrow_cap < max_cumulative then Some (PctTooHigh max_cumulative) else None)"

definition get_release_records :: "string \<Rightarrow> release_state \<Rightarrow> milestone_release_record list" where
  "get_release_records deal_id s = releases_of deal_id s"

definition calculate_final_settlement_amount :: "string \<Rightarrow> release_state \<Rightarrow> jsnum" where
  "calculate_final_settlement_amount deal_id s =
     (case find_deal deal_id (mr_deals s) of
        None \<Rightarrow> 0
      | Some deal \<Rightarrow>
          (let remaining_pct = sub_js escrow_cap (get_cumulative_released_pct deal_id s)
           in mul_js (pool_amount deal) (div_js remaining_pct 100)))"

definition get_milestone_order :: "milestone_type list" where
  "get_milestone_order = [Farm, Warehouse, Port, Importer]"

definition get_next_expected_milestone :: "string \<Rightarrow> release_state \<Rightarrow> milestone_type option" where
  "get_next_expected_milestone deal_id s =
     (let released_types = map rr_milestone_type (releases_of deal_id s)
      in List.find (\<lambda>t. t \<notin> set released_types) get_milestone_order)"

subsection \<open>Invariant\<close>

text \<open>Each milestone of a deal is released at most once and the percentages stay within the cap.\<close>

definition release_inv :: "release_state \<Rightarrow> bool" where
  "release_inv s \<longleftrightarrow> (\<forall>d. distinct (map rr_milestone_type (releases_of d s)) \<and>
     get_cumulative_released_pct d s \<le> escrow_cap)"

lemma on_milestone_recorded_cases:
  obtains (same) r where "on_milestone_recorded d m s = (r, s)"
  | (released) deal where "find_deal d (mr_deals s) = Some deal" "td_milestone_release_pct deal \<noteq> 0"
      "m \<notin> set (map rr_milestone_type (releases_of d s))"
      "add_js (get_cumulative_released_pct d s) (td_milestone_release_pct deal) \<le> escrow_cap"
      "on_milestone_recorded d m s = (Inr (), s\<lparr>mr_releases := mr_releases s @
         [\<lparr>rr_trade_deal_id = d, rr_milestone_type = m, rr_release_pct = td_milestone_release_pct deal,
           rr_farmer_amount_usd = mul_js (pool_amount deal) (div_js (td_milestone_release_pct deal) 100)\<rparr>]\<rparr>)"
proof (cases "find_deal d (mr_deals s)")
  case None
  then show ?thesis by (intro same [of "Inl (NotFound ''Deal not found'')"]) (simp add: on_milestone_recorded_def)
next
  case (Some deal)
  let ?old = "find_one (\<lambda>r. rr_trade_deal_id r = d \<and> rr_milestone_type r = m) (mr_releases s)"
  show ?thesis
  proof (cases "td_milestone_release_pct deal = 0 \<or> ?old \<noteq> None \<or>
      escrow_cap < add_js (get_cumulative_released_pct d s) (td_milestone_release_pct deal)")
    case True
    then show ?thesis using Some
      by (intro same [of "Inr ()"]) (auto simp: on_milestone_recorded_def Let_def split: option.split)
  next
    case False
    then have "m \<notin> set (map rr_milestone_type (releases_of d s))"
      by (auto simp: find_one_None_iff releases_of_def find_where_def)
    with Some False show ?thesis
      by (intro released [of deal]) (auto simp: on_milestone_recorded_def Let_def insert_row_def not_less)
  qed
qed

lemma releases_of_append:
  "releases_of d (s\<lparr>mr_releases := mr_releases s @ [r]\<rparr>) =
     releases_of d s @ (if rr_trade_deal_id r = d then [r] else [])"
  by (simp add: releases_of_def find_where_def)

lemma cumulative_append:
  "get_cumulative_released_pct d (s\<lparr>mr_releases := mr_releases s @ [r]\<rparr>) =
     (if rr_trade_deal_id r = d then add_js (get_cumulative_released_pct d s) (rr_release_pct r)
      else get_cumulative_released_pct d s)"
  by (simp add: get_cumulative_released_pct_def releases_of_append sum_js_snoc)

definition sample_state :: release_state where
  "sample_state = \<lparr>mr_deals = [Shipments.sample_deal\<lparr>td_milestone_release_pct := 20\<rparr>], mr_releases = []\<rparr>"



lemma sum_js_same_int:
  assumes "\<forall>r \<in> set rs. rr_release_pct r = of_int p" "0 \<le> p" "int (length rs) * p \<le> 2 ^ 53"
  shows "sum_js rr_release_pct rs = of_int (int (length rs) * p)"
  using assms
proof (induction rs rule: rev_induct)
  case (snoc r rs)
  have "int (length rs) * p + p \<le> 2 ^ 53" using snoc.prems(3) by (simp add: algebra_simps)
  moreover from this have "int (length rs) * p \<le> 2 ^ 53" using snoc.prems(2) by linarith
  moreover have "0 \<le> int (length rs) * p" using snoc.prems(2) by simp
  ultimately have "add_js (of_int (int (length rs) * p)) (of_int p) = of_int (int (length rs) * p + p)"
    using snoc.prems(2) by (intro add_js_of_int) linarith
  moreover have "sum_js rr_release_pct rs = of_int (int (length rs) * p)"
    using snoc \<open>int (length rs) * p \<le> 2 ^ 53\<close> by simp
  moreover have "int (length (rs @ [r])) * p = int (length rs) * p + p" by (simp add: algebra_simps)
  ultimately show ?case using snoc.prems(1) by (simp only: sum_js_snoc) simp
qed simp

text \<open>
  A percentage that passes the validation never runs into the cap: when the deal's
  whole percentage is valid and was used for its earlier releases, recording a milestone
  not yet released always adds a release of that percentage.
\<close>

theorem valid_percentage_always_releases:
  assumes valid: "validate_milestone_release_pct (of_int p) = None" and p: "p \<noteq> 0"
    and deal: "find_deal d (mr_deals s) = Some deal" "td_milestone_release_pct deal = of_int p"
    and inv: "release_inv s" and same_pct: "\<forall>r \<in> set (releases_of d s). rr_release_pct r = of_int p"
    and new: "m \<notin> set (map rr_milestone_type (releases_of d s))"
  shows "\<exists>r. releases_of d (snd (on_milestone_recorded d m s)) = releases_of d s @ [r] \<and>
    rr_milestone_type r = m \<and> rr_release_pct r = of_int p"
proof -
  let ?n = "length (releases_of d s)"
  have p4: "0 \<le> p" "p \<le> 100" "mul_js (of_int p) 4 \<le> 98"
    using valid by (auto simp: validate_milestone_release_pct_def Let_def escrow_cap_def split: if_splits)
  have "mul_js (of_int p) (of_int 4) = of_int (p * 4)" using p4 by (intro mul_js_of_int) simp
  then have p24: "p \<le> 24" using p4(3) by simp
  have n: "?n \<le> 3"
  proof -
    let ?S = "set (map rr_milestone_type (releases_of d s))"
    have "?S \<subseteq> UNIV - {m}" using new by auto
    moreover have u: "(UNIV :: milestone_type set) = {Farm, Warehouse, Port, Importer}"
      using milestone_type.exhaust by auto
    have "card (UNIV :: milestone_type set) = 4" unfolding u by simp
    then have "card (UNIV - {m}) = 3" by simp
    moreover have "finite (UNIV :: milestone_type set)" using u by (metis finite.emptyI finite_insert)
    ultimately have "card ?S \<le> 3" by (metis card_mono finite_Diff)
    moreover have "distinct (map rr_milestone_type (releases_of d s))" using inv by (simp add: release_inv_def)
    ultimately show ?thesis by (metis distinct_card length_map)
  qed
  have "int ?n * p \<le> 3 * 24" using n p24 p4(1) by (intro mult_mono) auto
  then have np: "0 \<le> int ?n * p" "int ?n * p \<le> 72" using p4(1) by simp_all
  have "get_cumulative_released_pct d s = of_int (int ?n * p)"
    unfolding get_cumulative_released_pct_def using same_pct p4(1) np by (intro sum_js_same_int) auto
  then have "add_js (get_cumulative_released_pct d s) (of_int p) = of_int (int ?n * p + p)"
    using np p4(1) p24 add_js_of_int [of "int ?n * p" p] by simp
  moreover have "int ?n * p + p \<le> 98" using np p24 by linarith
  then have "(of_int (int ?n * p + p) :: rat) \<le> of_int 98" by (simp only: of_int_le_iff)
  ultimately have cap: "add_js (get_cumulative_released_pct d s) (of_int p) \<le> escrow_cap"
    unfolding escrow_cap_def by simp
  have free: "find_one (\<lambda>r. rr_trade_deal_id r = d \<and> rr_milestone_type r = m) (mr_releases s) = None"
    using new by (auto simp: find_one_None_iff releases_of_def find_where_def)
  have "snd (on_milestone_recorded d m s) = s\<lparr>mr_releases := mr_releases s @
     [\<lparr>rr_trade_deal_id = d, rr_milestone_type = m, rr_release_pct = of_int p,
       rr_farmer_amount_usd = mul_js (pool_amount deal) (div_js (of_int p) 100)\<rparr>]\<rparr>"
    using deal p cap free by (simp add: on_milestone_recorded_def Let_def insert_row_def not_less)
  then show ?thesis by (simp add: releases_of_append)
qed

theorem valid_percentage_always_releases_witness:
  "\<exists>r. releases_of ''d1'' (snd (on_milestone_recorded ''d1'' Port sample_state)) = [r]"
proof -
  have v: "validate_milestone_release_pct (of_int 20) = None"
    using mul_js_of_int [of 20 4] by (simp add: validate_milestone_release_pct_def Let_def escrow_cap_def)
  have i: "release_inv sample_state"
    by (simp add: release_inv_def sample_state_def releases_of_def find_where_def get_cumulative_released_pct_def escrow_cap_def)
  have "\<exists>r. releases_of ''d1'' (snd (on_milestone_recorded ''d1'' Port sample_state)) = releases_of ''d1'' sample_state @ [r] \<and>
      rr_milestone_type r = Port \<and> rr_release_pct r = of_int 20"
    by (rule valid_percentage_always_releases
        [OF v, where deal = "Shipments.sample_deal\<lparr>td_milestone_release_pct := 20\<rparr>", OF _ _ _ i])
      (simp_all add: sample_state_def Shipments.sample_deal_def find_deal_def find_one_def releases_of_def find_where_def)
  then show ?thesis by (auto simp: sample_state_def releases_of_def find_where_def)
qed

end
