(* ===== verification/Escrow.thy ===== *)
theory Escrow
  imports QueueService PayoutSplit Idempotency
begin

text \<open>
  \<open>backend/src/escrow/escrow.service.ts\<close>: the release of the escrow of a delivered deal. The
  Stellar release is irreversible and happens before the database transaction that records
  the payments of investors, farmers and platform and completes the deal; a lease keeps two
  workers from releasing the same deal. The Stellar service, Redis, the configuration, the
  encryption of queue payloads and the failure of the database are parameters
  (\<open>escrow_env\<close>); \<open>es_released\<close> is the ledger's log of successful releases, which nothing
  undoes.
\<close>

subsection \<open>State and parameters\<close>

datatype recipient_type = RecipientFarmer | RecipientInvestor | RecipientPlatform

datatype payment_status = PaymentConfirmed | PaymentFailed

record payment_distribution =
  pd_trade_deal_id :: string
  pd_recipient_type :: recipient_type
  pd_recipient_id :: "string option"
  pd_wallet_address :: "string option"
  pd_amount_usd :: jsnum
  pd_stellar_tx_id :: "string option"
  pd_status :: payment_status

record investor_share =
  is_wallet_address :: string
  is_token_amount :: jsnum
  is_total_tokens :: jsnum

record escrow_release =
  er_farmer_wallet :: string
  er_shares :: "investor_share list"
  er_platform_wallet :: string
  er_total_value :: jsnum

datatype release_outcome = ReleaseSuccess | ReleaseFailure | ReleaseSkipped

record 'r escrow_state =
  es_deals :: "trade_deal list"
  es_users :: "user list"
  es_investments :: "investment list"
  es_co_farmers :: "deal_co_farmer list"
  es_distributions :: "payment_distribution list"
  es_queue :: queue_state
  es_redis :: 'r
  es_released :: "escrow_release list"
  es_outcomes :: "release_outcome list"
  es_payout_metrics :: "(recipient_type \<times> jsnum) list"
  es_released_pushes :: "(string \<times> string) list"
  es_deal_pushes :: "(string \<times> deal_status) list"

record 'r escrow_env =
  ee_redis :: "'r redis_ops"
  ee_redis_online :: bool
  ee_decrypt_secret :: "string \<Rightarrow> string + string"
  ee_release_escrow :: "string \<Rightarrow> escrow_release \<Rightarrow> string + string list"
  ee_platform_wallet :: "string option"
  ee_platform_secret :: "string option"
  ee_public_key :: "string \<Rightarrow> string option"
  ee_encrypt_error :: "string \<Rightarrow> string option"
  ee_db_error :: "string option"
  ee_trace_id :: string

subsection \<open>Amounts\<close>

definition to_cents :: "jsnum \<Rightarrow> jsnum" where
  "to_cents v = math_round (mul_js (add_js v number_epsilon) 100)"

definition from_cents :: "jsnum \<Rightarrow> jsnum" where
  "from_cents cents = div_js cents 100"

definition split_total_value :: "jsnum \<Rightarrow> jsnum \<times> jsnum" where
  "split_total_value total_value =
     (let total_cents = to_cents total_value;
          platform_cents = math_round (mul_js total_cents (lit (2 / 100)));
          pool_cents = sub_js total_cents platform_cents
      in (from_cents platform_cents, from_cents pool_cents))"

fun allocate_rows :: "jsnum \<Rightarrow> jsnum \<Rightarrow> jsnum \<Rightarrow> jsnum list \<Rightarrow> jsnum list" where
  "allocate_rows total_cents total_weight allocated [] = []"
| "allocate_rows total_cents total_weight allocated [w] = [from_cents (sub_js total_cents allocated)]"
| "allocate_rows total_cents total_weight allocated (w # v # ws) =
     (let share_cents = math_floor (div_js (mul_js total_cents w) total_weight)
      in from_cents share_cents #
         allocate_rows total_cents total_weight (add_js allocated share_cents) (v # ws))"

definition allocate_proportional_amounts :: "jsnum \<Rightarrow> jsnum list \<Rightarrow> string + jsnum list" where
  "allocate_proportional_amounts total_value weights =
     (if weights = [] then Inr []
      else
        let total_weight = sum_js (\<lambda>w. w) weights
        in if total_weight \<le> 0 then Inl ''Cannot allocate amounts without positive weights.''
           else Inr (allocate_rows (to_cents total_value) total_weight 0 weights))"

subsection \<open>distributePayment\<close>

definition wallet_of :: "string \<Rightarrow> 'r escrow_state \<Rightarrow> string option" where
  "wallet_of user_id s = (case find_user user_id (es_users s) of Some u \<Rightarrow> us_wallet_address u | None \<Rightarrow> None)"

definition accepted_co_farmers :: "string \<Rightarrow> 'r escrow_state \<Rightarrow> deal_co_farmer list" where
  "accepted_co_farmers deal_id s =
     find_where (\<lambda>c. cf_trade_deal_id c = deal_id \<and> cf_status c = CoAccepted) (es_co_farmers s)"

definition payout_participants :: "trade_deal \<Rightarrow> 'r escrow_state \<Rightarrow> payout_participant list" where
  "payout_participants deal s =
     (let co = accepted_co_farmers (td_id deal) s
      in \<lparr>pp_farmer_id = td_farmer_id deal, pp_wallet_address = wallet_of (td_farmer_id deal) s,
          pp_portion_percent = sub_js 100 (sum_js cf_portion_percent co)\<rparr> #
         map (\<lambda>c. \<lparr>pp_farmer_id = cf_farmer_id c, pp_wallet_address = wallet_of (cf_farmer_id c) s,
                   pp_portion_percent = cf_portion_percent c\<rparr>) co)"

definition farmer_distribution :: "string \<Rightarrow> string option \<Rightarrow> farmer_payout \<Rightarrow> payment_distribution" where
  "farmer_distribution deal_id tx p =
     \<lparr>pd_trade_deal_id = deal_id, pd_recipient_type = RecipientFarmer, pd_recipient_id = Some (fp_recipient_id p),
      pd_wallet_address = fp_wallet_address p, pd_amount_usd = fp_amount_usd p, pd_stellar_tx_id = tx,
      pd_status = PaymentConfirmed\<rparr>"

text \<open>
  \<open>qr.manager.save\<close> of distributions: the column \<open>wallet_address\<close> is \<open>NOT NULL\<close>
  (migration \<open>1699900000006-CreatePaymentDistributions.ts\<close>), so a row without wallet is an
  error of the database.
\<close>

definition save_distributions ::
  "payment_distribution list \<Rightarrow> payment_distribution list \<Rightarrow> string + payment_distribution list" where
  "save_distributions rows t =
     (if list_ex (\<lambda>r. pd_wallet_address r = None) rows
      then Inl ''null value in column \"wallet_address\"'' else Inr (t @ rows))"

text \<open>Inside the transaction of the caller: the rows it saves, and the table with them.\<close>

definition distribute_payment ::
  "string \<Rightarrow> string option \<Rightarrow> 'r escrow_state \<Rightarrow> http_error + (payment_distribution list \<times> payment_distribution list)" where
  "distribute_payment deal_id tx s =
     (case find_deal deal_id (es_deals s) of
        None \<Rightarrow> Inl (NotFound ''Trade deal not found'')
      | Some deal \<Rightarrow>
     if \<not> present (wallet_of (td_farmer_id deal) s) then Inl (Internal ''Farmer wallet address not found'')
     else (case compute_farmer_payout_splits (snd (split_total_value (td_total_value deal))) (payout_participants deal s) of
        Inl _ \<Rightarrow> Inl (Internal ''Cannot split payouts without positive weights.'')
      | Inr payouts \<Rightarrow>
          (let rows = map (farmer_distribution deal_id tx) payouts
           in case save_distributions rows (es_distributions s) of
                Inl e \<Rightarrow> Inl (Internal e)
              | Inr t \<Rightarrow> Inr (rows, t))))"

text \<open>
  The stand-alone call opens a transaction of its own and returns without a commit: the rows
  it returns are not in the table other connections see.
\<close>

definition distribute_payment_standalone ::
  "string \<Rightarrow> string option \<Rightarrow> ('r escrow_state, http_error, payment_distribution list) handler" where
  "distribute_payment_standalone deal_id tx s =
     (case distribute_payment deal_id tx s of
        Inl e \<Rightarrow> throw e s
      | Inr (rows, t) \<Rightarrow> done_with rows s)"

subsection \<open>processDealDelivered\<close>

definition record_release_outcome :: "release_outcome \<Rightarrow> 'r escrow_state \<Rightarrow> 'r escrow_state" where
  "record_release_outcome result s = s\<lparr>es_outcomes := es_outcomes s @ [result]\<rparr>"

definition record_payout_metrics :: "payment_distribution list \<Rightarrow> 'r escrow_state \<Rightarrow> 'r escrow_state" where
  "record_payout_metrics rows s =
     s\<lparr>es_payout_metrics := es_payout_metrics s @ map (\<lambda>d. (pd_recipient_type d, pd_amount_usd d)) rows\<rparr>"

definition resolve_platform_wallet :: "'r escrow_env \<Rightarrow> http_error + string" where
  "resolve_platform_wallet env =
     (case ee_platform_wallet env of
        Some (c # w) \<Rightarrow> Inr (c # w)
      | _ \<Rightarrow>
     (case ee_platform_secret env of
        Some (c # k) \<Rightarrow>
          (case ee_public_key env (c # k) of
             Some public_key \<Rightarrow> Inr public_key
           | None \<Rightarrow> Inl (Internal ''Invalid STELLAR_PLATFORM_SECRET provided for deriving platform wallet.''))
      | _ \<Rightarrow> Inl (Internal ''Neither STELLAR_PLATFORM_WALLET nor STELLAR_PLATFORM_SECRET are configured.'')))"

text \<open>The distributions of the deal are marked failed and an alert is emitted; errors are swallowed.\<close>

definition handle_escrow_failure :: "'r escrow_env \<Rightarrow> string \<Rightarrow> string \<Rightarrow> 'r escrow_state \<Rightarrow> 'r escrow_state" where
  "handle_escrow_failure env deal_id err s =
     (let s1 = s\<lparr>es_distributions := update_where (\<lambda>d. pd_trade_deal_id d = deal_id)
                   (\<lambda>d. d\<lparr>pd_status := PaymentFailed\<rparr>) (es_distributions s)\<rparr>
      in s1\<lparr>es_queue := snd (emit (ee_encrypt_error env) ''admin.alert''
               \<lparr>qm_event = ''admin.alert'', qm_job = AlertJob ''escrow_failure'' deal_id err, qm_correlation_id = None\<rparr>
               (es_queue s1))\<rparr>)"

definition lease_key :: "string \<Rightarrow> string" where
  "lease_key deal_id = build_key ''payment.distribution'' deal_id"

definition take_lease :: "'r escrow_env \<Rightarrow> string \<Rightarrow> 'r escrow_state \<Rightarrow> bool \<times> 'r escrow_state" where
  "take_lease env key s =
     (case acquire_lease (ee_redis env) (ee_redis_online env) key 900 (es_redis s) of
        (l, r) \<Rightarrow> (acquired l, s\<lparr>es_redis := r\<rparr>))"

definition free_lease :: "'r escrow_env \<Rightarrow> string \<Rightarrow> 'r escrow_state \<Rightarrow> 'r escrow_state" where
  "free_lease env key s = s\<lparr>es_redis := release_lease (ee_redis env) (ee_redis_online env) key (es_redis s)\<rparr>"

definition finish_lease :: "'r escrow_env \<Rightarrow> string \<Rightarrow> 'r escrow_state \<Rightarrow> 'r escrow_state" where
  "finish_lease env key s = s\<lparr>es_redis := mark_done (ee_redis env) (ee_redis_online env) key 86400 (es_redis s)\<rparr>"

definition confirmed_investments :: "string \<Rightarrow> 'r escrow_state \<Rightarrow> investment list" where
  "confirmed_investments deal_id s = investments_of deal_id InvConfirmed (es_investments s)"

definition release_request :: "trade_deal \<Rightarrow> string \<Rightarrow> 'r escrow_state \<Rightarrow> escrow_release" where
  "release_request deal platform_wallet s =
     (let invs = confirmed_investments (td_id deal) s;
          total_tokens = sum_js iv_token_amount invs
      in \<lparr>er_farmer_wallet = (case wallet_of (td_farmer_id deal) s of Some w \<Rightarrow> w | None \<Rightarrow> []),
          er_shares = map (\<lambda>v. \<lparr>is_wallet_address = (case wallet_of (iv_investor_id v) s of Some w \<Rightarrow> w | None \<Rightarrow> []),
                                is_token_amount = iv_token_amount v, is_total_tokens = total_tokens\<rparr>) invs,
          er_platform_wallet = platform_wallet, er_total_value = td_total_value deal\<rparr>)"

definition investor_distribution ::
  "string \<Rightarrow> string option \<Rightarrow> 'r escrow_state \<Rightarrow> investment \<Rightarrow> jsnum \<Rightarrow> payment_distribution" where
  "investor_distribution deal_id tx s v amount =
     \<lparr>pd_trade_deal_id = deal_id, pd_recipient_type = RecipientInvestor, pd_recipient_id = Some (iv_investor_id v),
      pd_wallet_address = wallet_of (iv_investor_id v) s, pd_amount_usd = amount, pd_stellar_tx_id = tx,
      pd_status = PaymentConfirmed\<rparr>"

definition platform_distribution :: "string \<Rightarrow> string option \<Rightarrow> string \<Rightarrow> jsnum \<Rightarrow> payment_distribution" where
  "platform_distribution deal_id tx wallet amount =
     \<lparr>pd_trade_deal_id = deal_id, pd_recipient_type = RecipientPlatform, pd_recipient_id = None,
      pd_wallet_address = Some wallet, pd_amount_usd = amount, pd_stellar_tx_id = tx, pd_status = PaymentConfirmed\<rparr>"

text \<open>
  The writes of the database transaction: the three groups of rows and the completed deal.
  \<open>ee_db_error\<close> is a failure of the database in the transaction or at its commit.
\<close>

definition payment_transaction ::
  "'r escrow_env \<Rightarrow> trade_deal \<Rightarrow> string \<Rightarrow> string option \<Rightarrow> 'r escrow_state \<Rightarrow>
   http_error + (payment_distribution list \<times> payment_distribution list \<times> 'r escrow_state)" where
  "payment_transaction env deal platform_wallet tx s =
     (let deal_id = td_id deal;
          invs = confirmed_investments deal_id s;
          (platform_amount, investor_pool) = split_total_value (td_total_value deal)
      in case allocate_proportional_amounts investor_pool (map iv_token_amount invs) of
           Inl e \<Rightarrow> Inl (Internal e)
         | Inr amounts \<Rightarrow>
        (case distribute_payment deal_id tx s of
           Inl e \<Rightarrow> Inl e
         | Inr (farmer_rows, t1) \<Rightarrow>
        (let rows = map2 (investor_distribution deal_id tx s) invs amounts
                      @ [platform_distribution deal_id tx platform_wallet platform_amount]
         in case save_distributions rows t1 of
           Inl e \<Rightarrow> Inl (Internal e)
         | Inr t2 \<Rightarrow>
        (case ee_db_error env of
           Some e \<Rightarrow> Inl (Internal e)
         | None \<Rightarrow> Inr (farmer_rows, rows,
             s\<lparr>es_distributions := t2,
               es_deals := update_deal deal_id
                 (\<lambda>d. d\<lparr>td_status := DealCompleted, td_app_trace_id := Some (ee_trace_id env)\<rparr>) (es_deals s)\<rparr>)))))"

definition push_release :: "string \<Rightarrow> investment list \<Rightarrow> 'r escrow_state \<Rightarrow> 'r escrow_state" where
  "push_release deal_id invs s =
     s\<lparr>es_released_pushes := es_released_pushes s @ map (\<lambda>v. (iv_investor_id v, deal_id)) invs,
       es_deal_pushes := es_deal_pushes s @ [(deal_id, DealCompleted)]\<rparr>"

text \<open>A sequence of emissions that stops at the first that throws; the error is swallowed.\<close>

fun emit_all :: "'r escrow_env \<Rightarrow> job list \<Rightarrow> queue_state \<Rightarrow> queue_state" where
  "emit_all env [] q = q"
| "emit_all env (j # js) q =
     (case emit (ee_encrypt_error env) ''email.notification''
             \<lparr>qm_event = ''email.notification'', qm_job = j, qm_correlation_id = None\<rparr> q of
        (Inl _, q') \<Rightarrow> q'
      | (Inr _, q') \<Rightarrow> emit_all env js q')"

definition send_completion_notifications ::
  "'r escrow_env \<Rightarrow> trade_deal \<Rightarrow> investment list \<Rightarrow> (string option \<times> jsnum) list \<Rightarrow> 'r escrow_state \<Rightarrow> 'r escrow_state" where
  "send_completion_notifications env deal invs farmer_payouts s =
     (let total_value = td_total_value deal;
          investor_pool = sub_js total_value (fst (split_total_value total_value))
      in case allocate_proportional_amounts investor_pool (map iv_token_amount invs) of
           Inl _ \<Rightarrow> s
         | Inr returns \<Rightarrow>
             (let lead = (case List.find (\<lambda>p. fst p = Some (td_farmer_id deal)) farmer_payouts of
                            Some p \<Rightarrow> snd p | None \<Rightarrow> investor_pool);
                  jobs = [EmailJob ''deal_completed'' (Some ''farmer'') (td_farmer_id deal) (td_id deal) [total_value, lead]]
                    @ map (\<lambda>(r, amount). EmailJob ''payment_distributed'' None (case r of Some u \<Rightarrow> u | None \<Rightarrow> []) (td_id deal) [amount])
                        (filter (\<lambda>p. fst p \<noteq> Some (td_farmer_id deal)) farmer_payouts)
                    @ [EmailJob ''deal_completed'' (Some ''trader'') (td_trader_id deal) (td_id deal) [total_value]]
                    @ map2 (\<lambda>v ret. EmailJob ''deal_completed'' (Some ''investor'') (iv_investor_id v) (td_id deal)
                              [total_value, iv_amount_usd v, ret, iv_token_amount v]) invs returns
              in s\<lparr>es_queue := emit_all env jobs (es_queue s)\<rparr>))"

text \<open>After the commit: the deferred notifications and the clean-up job, whose errors are logged only.\<close>

definition after_release ::
  "'r escrow_env \<Rightarrow> trade_deal \<Rightarrow> investment list \<Rightarrow> payment_distribution list \<Rightarrow> 'r escrow_state \<Rightarrow> 'r escrow_state" where
  "after_release env deal invs farmer_rows s =
     (let s1 = send_completion_notifications env deal invs (map (\<lambda>d. (pd_recipient_id d, pd_amount_usd d)) farmer_rows) s
      in s1\<lparr>es_queue := snd (enqueue_deal_cleanup (ee_encrypt_error env) (td_id deal) (es_queue s1))\<rparr>)"

text \<open>What follows the acquisition of the lease.\<close>

definition release_and_record ::
  "'r escrow_env \<Rightarrow> trade_deal \<Rightarrow> string \<Rightarrow> string \<Rightarrow> ('r escrow_state, http_error, unit) handler" where
  "release_and_record env deal escrow_key platform_wallet s =
     (let deal_id = td_id deal; key = lease_key deal_id; invs = confirmed_investments deal_id s
      in case ee_decrypt_secret env escrow_key of
           Inl e \<Rightarrow> throw (Internal e) (free_lease env key s)
         | Inr secret \<Rightarrow>
        (let request = release_request deal platform_wallet s
         in case ee_release_escrow env secret request of
           Inl e \<Rightarrow> throw (Internal e)
             (free_lease env key (record_release_outcome ReleaseFailure (handle_escrow_failure env deal_id e s)))
         | Inr tx_ids \<Rightarrow>
        (let s1 = s\<lparr>es_released := es_released s @ [request]\<rparr>;
             tx = (case tx_ids of [] \<Rightarrow> None | t # _ \<Rightarrow> Some t)
         in case payment_transaction env deal platform_wallet tx s1 of
           Inl e \<Rightarrow> throw e
             (free_lease env key (record_release_outcome ReleaseFailure
                (handle_escrow_failure env deal_id (case e of Internal m \<Rightarrow> m | NotFound m \<Rightarrow> m | _ \<Rightarrow> []) s1)))
         | Inr (farmer_rows, rows, s2) \<Rightarrow>
             done_with ()
               (after_release env deal invs farmer_rows
                 (push_release deal_id invs
                   (record_release_outcome ReleaseSuccess
                     (record_payout_metrics (farmer_rows @ rows) (finish_lease env key s2))))))))"

definition process_deal_delivered ::
  "'r escrow_env \<Rightarrow> string \<Rightarrow> ('r escrow_state, http_error, unit) handler" where
  "process_deal_delivered env deal_id s =
     (case find_deal deal_id (es_deals s) of
        None \<Rightarrow> throw (NotFound ''Trade deal not found'') (record_release_outcome ReleaseFailure s)
      | Some deal \<Rightarrow>
     if td_status deal \<noteq> DealDelivered then done_with () (record_release_outcome ReleaseSkipped s)
     else if confirmed_investments deal_id s = [] then done_with () (record_release_outcome ReleaseSkipped s)
     else if \<not> present (wallet_of (td_farmer_id deal) s) then throw (Internal ''Farmer wallet address not found'') s
     else if list_ex (\<lambda>v. \<not> present (wallet_of (iv_investor_id v) s)) (confirmed_investments deal_id s)
     then throw (Internal ''Some investors do not have wallet addresses'') s
     else (case resolve_platform_wallet env of
        Inl e \<Rightarrow> throw e s
      | Inr platform_wallet \<Rightarrow>
     (case td_escrow_secret_key deal of
        None \<Rightarrow> throw (Internal ''Escrow secret key missing'') s
      | Some escrow_key \<Rightarrow>
     if escrow_key = [] then throw (Internal ''Escrow secret key missing'') s
     else (case take_lease env (lease_key deal_id) s of
        (got, s1) \<Rightarrow>
          if \<not> got then done_with () (record_release_outcome ReleaseSkipped s1)
          else release_and_record env deal escrow_key platform_wallet s1))))"

subsection \<open>Amounts in cents\<close>

lemma to_cents_pool: "to_cents v = pool_cents v"
  by (simp add: to_cents_def pool_cents_def)

lemma allocate_rows_prorata:
  "allocate_rows tc tw a ws = map from_cents (prorata tc tw a ws)"
proof (induction tc tw a ws rule: allocate_rows.induct)
  case (3 tc tw a w v ws)
  then show ?case by (simp add: Let_def share_def)
qed simp_all

text \<open>Cents survive the division by one hundred and the rounding back.\<close>

lemma to_cents_from_cents:
  assumes n: "0 \<le> n" "n \<le> 2 ^ 40"
  shows "to_cents (from_cents (of_int n)) = of_int n"
proof -
  let ?u = "1 + ulp1"
  let ?g = "div_js (of_int n) 100"
  let ?a = "add_js ?g number_epsilon"
  let ?m = "mul_js ?a 100"
  have nn: "(0::rat) \<le> of_int n" "(of_int n :: rat) \<le> 2 ^ 40"
    using n(1) of_int_le_iff [of n "2 ^ 40", where 'a = rat] n(2) by simp_all
  have ws: "well_scaled (of_int n / 100)"
  proof (cases "n = 0")
    case False
    then have "(1 :: rat) / 100 \<le> of_int n / 100" using n by (intro divide_right_mono) auto
    moreover have "1 / 2 ^ 300 \<le> (1 / 100 :: rat)" by simp
    ultimately show ?thesis unfolding well_scaled_def by (blast intro: order_trans)
  qed (simp add: well_scaled_def)
  have g: "?g \<le> of_int n / 100 * ?u" "of_int n / 100 * (1 - ulp1) \<le> ?g"
    unfolding div_js_def by (rule fl_rel [OF ws])+
  have wg: "well_scaled (?g + number_epsilon)"
    unfolding div_js_def
    by (rule well_scaled_add [OF fl_well_scaled [OF ws]]) (simp add: well_scaled_def number_epsilon_def)
  have a: "?a \<le> (?g + number_epsilon) * ?u" "(?g + number_epsilon) * (1 - ulp1) \<le> ?a"
    unfolding add_js_def by (rule fl_rel [OF wg])+
  have "?a = 0 \<or> 1 / 2 ^ 300 \<le> ?a"
    using fl_well_scaled [OF wg] unfolding add_js_def well_scaled_def .
  then have wa: "well_scaled (?a * 100)"
  proof
    assume "1 / 2 ^ 300 \<le> ?a"
    moreover from this have "0 \<le> ?a" by (rule order_trans [rotated]) simp
    ultimately have "1 / 2 ^ 300 \<le> ?a * 100" by linarith
    then show ?thesis by (simp add: well_scaled_def)
  qed (simp add: well_scaled_def)
  have m: "?m \<le> ?a * 100 * ?u" "?a * 100 * (1 - ulp1) \<le> ?m"
    unfolding mul_js_def by (rule fl_rel [OF wa])+
  have up: "?m \<le> (of_int n / 100 * ?u + number_epsilon) * ?u * 100 * ?u"
  proof -
    have "?a \<le> (of_int n / 100 * ?u + number_epsilon) * ?u"
      using a(1) g(1) by (intro order_trans [OF a(1)] mult_right_mono add_mono) auto
    then have "?a * 100 * ?u \<le> (of_int n / 100 * ?u + number_epsilon) * ?u * 100 * ?u"
      by (intro mult_right_mono) auto
    with m(1) show ?thesis by linarith
  qed
  have lo: "(of_int n / 100 * (1 - ulp1)) * (1 - ulp1) * 100 * (1 - ulp1) \<le> ?m"
  proof -
    have "of_int n / 100 * (1 - ulp1) * (1 - ulp1) \<le> (?g + number_epsilon) * (1 - ulp1)"
      using g(2) by (intro mult_right_mono) (auto simp: number_epsilon_def)
    then have "of_int n / 100 * (1 - ulp1) * (1 - ulp1) \<le> ?a" using a(2) by linarith
    then have "(of_int n / 100 * (1 - ulp1)) * (1 - ulp1) * 100 * (1 - ulp1) \<le> ?a * 100 * (1 - ulp1)"
      by (intro mult_right_mono) auto
    with m(2) show ?thesis by linarith
  qed
  have "(of_int n / 100 * ?u + number_epsilon) * ?u * 100 * ?u
      = of_int n * (?u * ?u * ?u) + 100 * number_epsilon * (?u * ?u)"
    by (simp add: algebra_simps)
  also have "\<dots> \<le> of_int n * (1 + 1 / 2 ^ 50) + 1 / 4"
    using nn(1) by (intro add_mono mult_left_mono) (auto simp: number_epsilon_def)
  also have "\<dots> < of_int n + 1 / 2" using nn by (simp add: algebra_simps)
  finally have "?m < of_int n + 1 / 2" using up by linarith
  moreover have "of_int n - 1 / 2 \<le> ?m"
  proof -
    have "(of_int n :: rat) - 1 / 2 \<le> of_int n * (1 - 1 / 2 ^ 50)" using nn by (simp add: algebra_simps)
    also have "\<dots> \<le> of_int n * ((1 - ulp1) * (1 - ulp1) * (1 - ulp1))"
      using nn(1) by (intro mult_left_mono) auto
    also have "\<dots> = (of_int n / 100 * (1 - ulp1)) * (1 - ulp1) * 100 * (1 - ulp1)" by simp
    finally show ?thesis using lo by linarith
  qed
  ultimately have "\<lfloor>?m + 1 / 2\<rfloor> = n" by (intro floor_unique) linarith+
  then show ?thesis by (simp add: to_cents_def from_cents_def math_round_def)
qed

lemma split_total_value_cents:
  assumes T: "to_cents v = of_int T" "0 \<le> T" "T \<le> 2 ^ 40"
  shows "\<exists>P. split_total_value v = (from_cents (of_int P), from_cents (of_int (T - P))) \<and> 0 \<le> P \<and> P \<le> T"
proof -
  let ?x = "mul_js (of_int T) (lit (2 / 100))"
  have l: "0 \<le> lit (2 / 100)" "lit (2 / 100) \<le> 1" unfolding lit_def lit_002 by simp_all
  have x0: "0 \<le> ?x" unfolding mul_js_def using l T by (intro fl_nonneg) simp
  have "of_int T * lit (2 / 100) \<le> of_int T * 1" using l T by (intro mult_left_mono) auto
  then have xT: "?x \<le> of_int T" unfolding mul_js_def using T by (intro fl_le_int) auto
  define P where "P = \<lfloor>?x + 1 / 2\<rfloor>"
  have "0 \<le> P" using x0 by (simp add: P_def)
  moreover have "P \<le> T" using xT unfolding P_def by linarith
  moreover have "sub_js (of_int T) (of_int P) = of_int (T - P)"
    using calculation T by (intro sub_js_of_int) simp
  moreover have "math_round ?x = of_int P" by (simp add: math_round_def P_def)
  ultimately show ?thesis
    by (intro exI [of _ P]) (simp add: split_total_value_def Let_def T(1))
qed

lemma allocate_cents:
  assumes "ws \<noteq> []" "length ws \<le> 1000" "\<forall>w \<in> set ws. w = 0 \<or> 1 / 2 ^ 100 \<le> w"
    and "0 < sum_js (\<lambda>w. w) ws" "sum_js (\<lambda>w. w) ws \<le> 2 ^ 100" "0 \<le> N" "N \<le> 2 ^ 40"
  shows "\<exists>cs. allocate_proportional_amounts (from_cents (of_int N)) ws = Inr (map (\<lambda>c. from_cents (of_int c)) cs) \<and>
    sum_list cs = N \<and> list_all (\<lambda>c. 0 \<le> c) cs \<and> length cs = length ws"
proof -
  from prorata_allocates [of ws N "sum_js (\<lambda>w. w) ws"] assms obtain cs where
    cs: "prorata (of_int N) (sum_js (\<lambda>w. w) ws) 0 ws = map of_int cs" "sum_list cs = N" "\<forall>c \<in> set cs. 0 \<le> c"
    by auto
  have "length cs = length ws" using arg_cong [OF cs(1), of length] by simp
  with cs assms show ?thesis
    by (intro exI [of _ cs])
      (simp add: allocate_proportional_amounts_def Let_def to_cents_from_cents allocate_rows_prorata list_all_iff)
qed

subsection \<open>What the steps leave unchanged\<close>

lemma record_release_outcome_simps [simp]:
  "es_deals (record_release_outcome r s) = es_deals s" "es_users (record_release_outcome r s) = es_users s"
  "es_investments (record_release_outcome r s) = es_investments s"
  "es_co_farmers (record_release_outcome r s) = es_co_farmers s"
  "es_distributions (record_release_outcome r s) = es_distributions s"
  "es_released (record_release_outcome r s) = es_released s" "es_redis (record_release_outcome r s) = es_redis s"
  by (simp_all add: record_release_outcome_def)

lemma record_payout_metrics_simps [simp]:
  "es_deals (record_payout_metrics r s) = es_deals s" "es_distributions (record_payout_metrics r s) = es_distributions s"
  "es_released (record_payout_metrics r s) = es_released s" "es_redis (record_payout_metrics r s) = es_redis s"
  by (simp_all add: record_payout_metrics_def)

lemma push_release_simps [simp]:
  "es_deals (push_release d invs s) = es_deals s" "es_distributions (push_release d invs s) = es_distributions s"
  "es_released (push_release d invs s) = es_released s" "es_redis (push_release d invs s) = es_redis s"
  by (simp_all add: push_release_def)

lemma send_completion_simps [simp]:
  "es_deals (send_completion_notifications env d invs ps s) = es_deals s"
  "es_distributions (send_completion_notifications env d invs ps s) = es_distributions s"
  "es_released (send_completion_notifications env d invs ps s) = es_released s"
  "es_redis (send_completion_notifications env d invs ps s) = es_redis s"
  by (simp_all add: send_completion_notifications_def Let_def split: sum.split prod.split)

lemma after_release_simps [simp]:
  "es_deals (after_release env d invs rows s) = es_deals s"
  "es_distributions (after_release env d invs rows s) = es_distributions s"
  "es_released (after_release env d invs rows s) = es_released s"
  "es_redis (after_release env d invs rows s) = es_redis s"
  by (simp_all add: after_release_def Let_def)

lemma lease_steps_simps [simp]:
  "es_deals (free_lease env k s) = es_deals s" "es_users (free_lease env k s) = es_users s"
  "es_investments (free_lease env k s) = es_investments s" "es_co_farmers (free_lease env k s) = es_co_farmers s"
  "es_distributions (free_lease env k s) = es_distributions s" "es_released (free_lease env k s) = es_released s"
  "es_deals (finish_lease env k s) = es_deals s" "es_distributions (finish_lease env k s) = es_distributions s"
  "es_released (finish_lease env k s) = es_released s"
  by (simp_all add: free_lease_def finish_lease_def)

lemma handle_escrow_failure_simps [simp]:
  "es_deals (handle_escrow_failure env d e s) = es_deals s" "es_users (handle_escrow_failure env d e s) = es_users s"
  "es_investments (handle_escrow_failure env d e s) = es_investments s"
  "es_co_farmers (handle_escrow_failure env d e s) = es_co_farmers s"
  "es_released (handle_escrow_failure env d e s) = es_released s" "es_redis (handle_escrow_failure env d e s) = es_redis s"
  "es_distributions (handle_escrow_failure env d e s) =
     update_where (\<lambda>x. pd_trade_deal_id x = d) (\<lambda>x. x\<lparr>pd_status := PaymentFailed\<rparr>) (es_distributions s)"
  by (simp_all add: handle_escrow_failure_def Let_def)

lemma save_distributions_ok:
  "save_distributions rows t = Inr t' \<longleftrightarrow> list_all (\<lambda>r. pd_wallet_address r \<noteq> None) rows \<and> t' = t @ rows"
  by (auto simp: save_distributions_def list_ex_iff list_all_iff)

lemma distribute_payment_ok:
  assumes "distribute_payment d tx s = Inr (rows, t)"
  shows "\<exists>deal payouts. find_deal d (es_deals s) = Some deal \<and>
      compute_farmer_payout_splits (snd (split_total_value (td_total_value deal))) (payout_participants deal s) = Inr payouts \<and>
      rows = map (farmer_distribution d tx) payouts \<and> t = es_distributions s @ rows"
  using assms unfolding distribute_payment_def
  by (auto simp: Let_def save_distributions_ok split: option.splits sum.splits if_splits)

lemma payment_transaction_ok:
  assumes "payment_transaction env deal w tx s = Inr (frows, rows, s')"
  shows "\<exists>amounts. allocate_proportional_amounts (snd (split_total_value (td_total_value deal)))
        (map iv_token_amount (confirmed_investments (td_id deal) s)) = Inr amounts \<and>
      (\<exists>t. distribute_payment (td_id deal) tx s = Inr (frows, t)) \<and>
      rows = map2 (investor_distribution (td_id deal) tx s) (confirmed_investments (td_id deal) s) amounts
               @ [platform_distribution (td_id deal) tx w (fst (split_total_value (td_total_value deal)))] \<and>
      s' = s\<lparr>es_distributions := es_distributions s @ frows @ rows,
             es_deals := update_deal (td_id deal)
               (\<lambda>d. d\<lparr>td_status := DealCompleted, td_app_trace_id := Some (ee_trace_id env)\<rparr>) (es_deals s)\<rparr>"
  using assms distribute_payment_ok [of "td_id deal" tx s frows] unfolding payment_transaction_def
  by (auto simp: Let_def save_distributions_ok split: option.splits sum.splits if_splits prod.splits)

text \<open>
  The three kinds of outcome of a delivery: nothing was released and the tables are kept
  (up to distributions marked failed); the escrow was released but the transaction failed;
  everything was recorded.
\<close>

lemma release_and_record_cases:
  obtains (no_release) e where "fst (release_and_record env deal k w s) = Inl e"
      "es_released (snd (release_and_record env deal k w s)) = es_released s"
      "es_deals (snd (release_and_record env deal k w s)) = es_deals s"
      "es_distributions (snd (release_and_record env deal k w s)) = es_distributions s \<or>
       es_distributions (snd (release_and_record env deal k w s)) =
         update_where (\<lambda>x. pd_trade_deal_id x = td_id deal) (\<lambda>x. x\<lparr>pd_status := PaymentFailed\<rparr>) (es_distributions s)"
  | (unrecorded) e tx s1 secret ids where
      "ee_decrypt_secret env k = Inr secret" "ee_release_escrow env secret (release_request deal w s) = Inr ids"
      "s1 = s\<lparr>es_released := es_released s @ [release_request deal w s]\<rparr>"
      "payment_transaction env deal w tx s1 = Inl e"
      "release_and_record env deal k w s = (Inl e, free_lease env (lease_key (td_id deal))
         (record_release_outcome ReleaseFailure (handle_escrow_failure env (td_id deal)
            (case e of Internal m \<Rightarrow> m | NotFound m \<Rightarrow> m | _ \<Rightarrow> []) s1)))"
  | (recorded) tx s1 frows rows s2 where
      "s1 = s\<lparr>es_released := es_released s @ [release_request deal w s]\<rparr>"
      "payment_transaction env deal w tx s1 = Inr (frows, rows, s2)"
      "fst (release_and_record env deal k w s) = Inr ()"
      "es_released (snd (release_and_record env deal k w s)) = es_released s @ [release_request deal w s]"
      "es_deals (snd (release_and_record env deal k w s)) = es_deals s2"
      "es_distributions (snd (release_and_record env deal k w s)) = es_distributions s2"
      "es_redis (snd (release_and_record env deal k w s)) =
         mark_done (ee_redis env) (ee_redis_online env) (lease_key (td_id deal)) 86400 (es_redis s2)"
proof (cases "ee_decrypt_secret env k")
  case (Inl e)
  show ?thesis by (rule no_release) (simp_all add: release_and_record_def Let_def Inl)
next
  case secret: (Inr secret)
  show ?thesis
  proof (cases "ee_release_escrow env secret (release_request deal w s)")
    case (Inl e)
    show ?thesis
      by (rule no_release) (simp_all add: release_and_record_def Let_def secret Inl)
  next
    case (Inr ids)
    let ?s1 = "s\<lparr>es_released := es_released s @ [release_request deal w s]\<rparr>"
    let ?tx = "case ids of [] \<Rightarrow> None | t # _ \<Rightarrow> Some t"
    show ?thesis
    proof (cases "payment_transaction env deal w ?tx ?s1")
      case t: (Inl e)
      show ?thesis by (rule unrecorded [OF secret Inr refl t]) (simp add: release_and_record_def Let_def secret Inr t)
    next
      case t: (Inr r)
      obtain frows rows s2 where r: "r = (frows, rows, s2)" by (cases r)
      have "es_released s2 = es_released s @ [release_request deal w s]"
        using payment_transaction_ok [OF t [unfolded r]] by auto
      then show ?thesis
        by (intro recorded [OF refl t [unfolded r]])
          (simp_all add: release_and_record_def Let_def secret Inr t r finish_lease_def)
    qed
  qed
qed

lemma process_cases:
  obtains (idle) "es_released (snd (process_deal_delivered env d s)) = es_released s"
      "es_deals (snd (process_deal_delivered env d s)) = es_deals s"
      "es_distributions (snd (process_deal_delivered env d s)) = es_distributions s"
  | (leased) deal k w s1 where "find_deal d (es_deals s) = Some deal" "td_status deal = DealDelivered"
      "confirmed_investments d s \<noteq> []" "present (wallet_of (td_farmer_id deal) s)"
      "\<forall>v \<in> set (confirmed_investments d s). present (wallet_of (iv_investor_id v) s)"
      "resolve_platform_wallet env = Inr w" "td_escrow_secret_key deal = Some k" "k \<noteq> []"
      "take_lease env (lease_key d) s = (True, s1)"
      "process_deal_delivered env d s = release_and_record env deal k w s1"
proof (cases "find_deal d (es_deals s)")
  case None
  show ?thesis by (rule idle) (simp_all add: process_deal_delivered_def None)
next
  case deal: (Some deal)
  let ?quiet = "td_status deal \<noteq> DealDelivered \<or> confirmed_investments d s = [] \<or>
      \<not> present (wallet_of (td_farmer_id deal) s) \<or>
      list_ex (\<lambda>v. \<not> present (wallet_of (iv_investor_id v) s)) (confirmed_investments d s)"
  show ?thesis
  proof (cases ?quiet)
    case True
    show ?thesis by (rule idle) (use True in \<open>auto simp: process_deal_delivered_def deal\<close>)
  next
    case go: False
    show ?thesis
    proof (cases "resolve_platform_wallet env")
      case (Inl e)
      show ?thesis by (rule idle) (use go in \<open>auto simp: process_deal_delivered_def deal Inl\<close>)
    next
      case w: (Inr w)
      show ?thesis
      proof (cases "present (td_escrow_secret_key deal)")
        case False
        then show ?thesis
          using go by (intro idle) (auto simp: process_deal_delivered_def deal w split: option.splits)
      next
        case True
        then obtain k where k: "td_escrow_secret_key deal = Some k" "k \<noteq> []" by (auto simp: present_the)
        obtain got s1 where l: "take_lease env (lease_key d) s = (got, s1)" by (cases "take_lease env (lease_key d) s")
        have same: "es_released s1 = es_released s" "es_deals s1 = es_deals s" "es_distributions s1 = es_distributions s"
          using l by (auto simp: take_lease_def split: prod.splits)
        show ?thesis
        proof (cases got)
          case False
          show ?thesis by (rule idle) (use go False k l same in \<open>auto simp: process_deal_delivered_def deal w\<close>)
        next
          case True
          then have lt: "take_lease env (lease_key d) s = (True, s1)" using l by simp
          show ?thesis
            by (rule leased [OF deal _ _ _ _ w k lt])
              (use go True k l in \<open>auto simp: process_deal_delivered_def deal w list_ex_iff\<close>)
        qed
      qed
    qed
  qed
qed

text \<open>Whether the transaction succeeds or not, a release that took place stays on the ledger.\<close>

lemma released_once:
  assumes "ee_decrypt_secret env k = Inr secret" "ee_release_escrow env secret (release_request deal w s) = Inr ids"
  shows "es_released (snd (release_and_record env deal k w s)) = es_released s @ [release_request deal w s]"
proof (cases rule: release_and_record_cases [of env deal k w s])
  case (no_release e)
  let ?s1 = "s\<lparr>es_released := es_released s @ [release_request deal w s]\<rparr>"
  obtain tx where tx: "tx = (case ids of [] \<Rightarrow> None | t # _ \<Rightarrow> Some t)" by blast
  with assms no_release(1) obtain e' where "payment_transaction env deal w tx ?s1 = Inl e'"
    by (cases "payment_transaction env deal w tx ?s1") (auto simp: release_and_record_def Let_def)
  with assms tx show ?thesis by (simp add: release_and_record_def Let_def)
qed simp_all

lemma take_lease_state: "take_lease env key s = (b, s1) \<Longrightarrow> \<exists>r. s1 = s\<lparr>es_redis := r\<rparr>"
  by (auto simp: take_lease_def split: prod.splits)

lemma frame_simps [simp]:
  "confirmed_investments d (s\<lparr>es_redis := r\<rparr>) = confirmed_investments d s"
  "confirmed_investments d (s\<lparr>es_released := x\<rparr>) = confirmed_investments d s"
  "payout_participants deal (s\<lparr>es_redis := r\<rparr>) = payout_participants deal s"
  "payout_participants deal (s\<lparr>es_released := x\<rparr>) = payout_participants deal s"
  "wallet_of u (s\<lparr>es_redis := r\<rparr>) = wallet_of u s"
  "wallet_of u (s\<lparr>es_released := x\<rparr>) = wallet_of u s"
  "release_request deal w (s\<lparr>es_redis := r\<rparr>) = release_request deal w s"
  "release_request deal w (s\<lparr>es_released := x\<rparr>) = release_request deal w s"
  by (simp_all add: confirmed_investments_def payout_participants_def wallet_of_def accepted_co_farmers_def
      release_request_def)

text \<open>A run that adds distributions went through the whole release.\<close>

lemma process_recorded:
  assumes run: "process_deal_delivered env d s = (Inr (), s')" and changed: "es_distributions s' \<noteq> es_distributions s"
    and deal: "find_deal d (es_deals s) = Some deal"
  obtains w tx r s1 frows rows s2 where
      "s1 = s\<lparr>es_redis := r, es_released := es_released s @ [release_request deal w s]\<rparr>"
      "payment_transaction env deal w tx s1 = Inr (frows, rows, s2)"
      "es_released s' = es_released s @ [release_request deal w s]"
      "es_deals s' = es_deals s2" "es_distributions s' = es_distributions s2"
proof (cases rule: process_cases [of env d s])
  case idle
  with run changed show ?thesis by simp
next
  case (leased deal' k w s1)
  have d: "deal' = deal" "td_id deal = d" using leased(1) deal find_dealD [OF deal] by auto
  from take_lease_state [OF leased(9)] obtain r where r: "s1 = s\<lparr>es_redis := r\<rparr>" by blast
  have eq: "release_and_record env deal k w s1 = (Inr (), s')" using leased(10) run d by simp
  show ?thesis
  proof (cases rule: release_and_record_cases [of env deal k w s1])
    case (no_release e)
    with eq show ?thesis by simp
  next
    case (unrecorded e tx s2 secret ids)
    with eq show ?thesis by simp
  next
    case (recorded tx s2 frows rows s3)
    have "s2 = s\<lparr>es_redis := r, es_released := es_released s @ [release_request deal w s]\<rparr>"
      using recorded(1) r by simp
    then show ?thesis
      by (rule that [OF _ recorded(2)]) (use recorded(4,5,6) eq r in simp_all)
  qed
qed

definition good_weights :: "jsnum list \<Rightarrow> bool" where
  "good_weights ws \<longleftrightarrow> ws \<noteq> [] \<and> length ws \<le> 1000 \<and> list_all (\<lambda>w. w = 0 \<or> 1 / 2 ^ 100 \<le> w) ws \<and>
     0 < sum_js (\<lambda>w. w) ws \<and> sum_js (\<lambda>w. w) ws \<le> 2 ^ 100"

definition amounts_for :: "recipient_type \<Rightarrow> payment_distribution list \<Rightarrow> jsnum list" where
  "amounts_for kind rows = map pd_amount_usd (filter (\<lambda>r. pd_recipient_type r = kind) rows)"

lemma amounts_for_append [simp]: "amounts_for k (xs @ ys) = amounts_for k xs @ amounts_for k ys"
  by (simp add: amounts_for_def)

lemma amounts_farmer [simp]:
  "amounts_for k (map (farmer_distribution d tx) ps) = (if k = RecipientFarmer then map fp_amount_usd ps else [])"
  by (induction ps) (simp_all add: amounts_for_def farmer_distribution_def)

lemma amounts_investor:
  "length vs = length as \<Longrightarrow>
   amounts_for k (map2 (investor_distribution d tx s) vs as) = (if k = RecipientInvestor then as else [])"
  by (induction vs as rule: list_induct2) (auto simp: amounts_for_def investor_distribution_def)

lemma amounts_platform [simp]:
  "amounts_for k [platform_distribution d tx w a] = (if k = RecipientPlatform then [a] else [])"
  by (simp add: amounts_for_def platform_distribution_def)

definition sample_deal :: trade_deal where
  "sample_deal =
     \<lparr>td_id = ''d1'', td_commodity = ''Cocoa'', td_total_value = 1000, td_token_count = 20,
      td_token_symbol = ''COC'', td_status = DealDelivered, td_farmer_id = ''f1'', td_trader_id = ''t1'',
      td_escrow_public_key = Some ''E'', td_escrow_secret_key = Some ''K'', td_issuer_public_key = Some ''I'', td_issuer_secret_key = None,
      td_total_invested = 1000, td_app_trace_id = None, td_min_lot_size = None, td_lot_step = None,
      td_milestone_release_pct = 0, td_minimum_tier = None, td_deleted = False\<rparr>"

definition sample_user :: "string \<Rightarrow> user" where
  "sample_user i =
     \<lparr>us_id = i, us_email = ''e'', us_role = ''investor'', us_wallet_address = Some ''G'', us_accreditation_tier = None\<rparr>"

definition sample_investment :: investment where
  "sample_investment =
     \<lparr>iv_id = ''v1'', iv_trade_deal_id = ''d1'', iv_investor_id = ''i1'', iv_token_amount = 10, iv_amount_usd = 1000,
      iv_stellar_tx_id = Some ''t'', iv_compliance_data = None, iv_status = InvConfirmed, iv_created_at = 0, iv_deleted = False\<rparr>"

definition sample_state :: "kv_store escrow_state" where
  "sample_state =
     \<lparr>es_deals = [sample_deal], es_users = [sample_user ''f1'', sample_user ''i1''],
      es_investments = [sample_investment], es_co_farmers = [], es_distributions = [],
      es_queue = \<lparr>q_correlation_id = None, q_emitted = [], q_outbox = [], q_analytics = []\<rparr>,
      es_redis = \<lparr>entries = Map.empty, clock = 0\<rparr>, es_released = [], es_outcomes = [], es_payout_metrics = [],
      es_released_pushes = [], es_deal_pushes = []\<rparr>"

definition sample_env :: "string option \<Rightarrow> kv_store escrow_env" where
  "sample_env db_error =
     \<lparr>ee_redis = kv_ops, ee_redis_online = True, ee_decrypt_secret = Inr,
      ee_release_escrow = (\<lambda>_ _. Inr [''tx'']), ee_platform_wallet = Some ''P'', ee_platform_secret = None,
      ee_public_key = (\<lambda>_. None), ee_encrypt_error = (\<lambda>_. None), ee_db_error = db_error, ee_trace_id = ''app''\<rparr>"

lemma sample_split: "split_total_value 1000 = (20, 980)"
  by code_simp

lemma sample_alloc: "allocate_proportional_amounts 980 [10] = Inr [980]"
  by code_simp

lemma sample_payouts:
  "compute_farmer_payout_splits 980
     [\<lparr>pp_farmer_id = ''f1'', pp_wallet_address = Some ''G'', pp_portion_percent = 100\<rparr>]
   = Inr [\<lparr>fp_recipient_id = ''f1'', fp_wallet_address = Some ''G'', fp_amount_usd = 980\<rparr>]"
  by code_simp

lemmas sample_defs = sample_state_def sample_deal_def sample_user_def sample_investment_def sample_env_def

lemma sample_reads [simp]:
  "find_deal ''d1'' (es_deals sample_state) = Some sample_deal"
  "confirmed_investments ''d1'' sample_state = [sample_investment]"
  "wallet_of ''f1'' sample_state = Some ''G''" "wallet_of ''i1'' sample_state = Some ''G''"
  "payout_participants sample_deal sample_state =
     [\<lparr>pp_farmer_id = ''f1'', pp_wallet_address = Some ''G'', pp_portion_percent = 100\<rparr>]"
  by (simp_all add: sample_defs find_deal_def find_one_def confirmed_investments_def investments_of_def
      find_where_def wallet_of_def find_user_def payout_participants_def accepted_co_farmers_def sub_js_def)

lemma sample_lease:
  "\<exists>r. take_lease (sample_env e) key sample_state = (True, sample_state\<lparr>es_redis := r\<rparr>)"
  by (simp add: take_lease_def acquire_defs sample_env_def kv_ops_def kv_get_def kv_set_nx_def sample_state_def Let_def)

lemma sample_transaction:
  assumes "s1 = sample_state\<lparr>es_redis := r, es_released := x\<rparr>"
  shows "payment_transaction (sample_env None) sample_deal w (Some ''tx'') s1 =
    Inr ([farmer_distribution ''d1'' (Some ''tx'') \<lparr>fp_recipient_id = ''f1'', fp_wallet_address = Some ''G'', fp_amount_usd = 980\<rparr>],
         [investor_distribution ''d1'' (Some ''tx'') s1 sample_investment 980, platform_distribution ''d1'' (Some ''tx'') w 20],
         s1\<lparr>es_distributions := [farmer_distribution ''d1'' (Some ''tx'') \<lparr>fp_recipient_id = ''f1'', fp_wallet_address = Some ''G'', fp_amount_usd = 980\<rparr>,
              investor_distribution ''d1'' (Some ''tx'') s1 sample_investment 980, platform_distribution ''d1'' (Some ''tx'') w 20],
            es_deals := [sample_deal\<lparr>td_status := DealCompleted, td_app_trace_id := Some ''app''\<rparr>]\<rparr>)"
proof -
  have d: "td_id sample_deal = ''d1''" "td_total_value sample_deal = 1000" "td_farmer_id sample_deal = ''f1''"
      "iv_token_amount sample_investment = 10" "iv_investor_id sample_investment = ''i1''"
      "es_deals sample_state = [sample_deal]" "es_distributions sample_state = []"
    by (simp_all add: sample_defs)
  have f: "find_deal ''d1'' [sample_deal] = Some sample_deal" using sample_reads(1) d by simp
  have p: "distribute_payment ''d1'' (Some ''tx'') s1 =
    Inr ([farmer_distribution ''d1'' (Some ''tx'') \<lparr>fp_recipient_id = ''f1'', fp_wallet_address = Some ''G'', fp_amount_usd = 980\<rparr>],
         [farmer_distribution ''d1'' (Some ''tx'') \<lparr>fp_recipient_id = ''f1'', fp_wallet_address = Some ''G'', fp_amount_usd = 980\<rparr>])"
    using d f by (simp add: distribute_payment_def assms sample_split sample_payouts save_distributions_def farmer_distribution_def Let_def)
  show ?thesis
    using d p assms by (simp add: payment_transaction_def sample_split sample_alloc save_distributions_def investor_distribution_def
        platform_distribution_def update_deal_def update_where_def sample_env_def Let_def)
qed

lemma sample_transaction_fails:
  assumes "s1 = sample_state\<lparr>es_redis := r, es_released := x\<rparr>"
  shows "payment_transaction (sample_env (Some e)) sample_deal w (Some ''tx'') s1 = Inl (Internal e)"
proof -
  have "payment_transaction (sample_env (Some e)) sample_deal w (Some ''tx'') s1 =
    (case payment_transaction (sample_env None) sample_deal w (Some ''tx'') s1 of Inl x \<Rightarrow> Inl x | Inr _ \<Rightarrow> Inl (Internal e))"
    by (simp add: payment_transaction_def sample_env_def Let_def split: sum.split prod.split)
  then show ?thesis by (simp only: sample_transaction [OF assms] sum.case)
qed

lemma sample_process:
  "\<exists>r. process_deal_delivered (sample_env e) ''d1'' sample_state =
     release_and_record (sample_env e) sample_deal ''K'' ''P'' (sample_state\<lparr>es_redis := r\<rparr>)"
proof -
  have d: "td_status sample_deal = DealDelivered" "td_farmer_id sample_deal = ''f1''" "iv_investor_id sample_investment = ''i1''"
      "td_escrow_secret_key sample_deal = Some ''K''" "resolve_platform_wallet (sample_env e) = Inr ''P''"
    by (simp_all add: sample_defs resolve_platform_wallet_def)
  from sample_lease [of e "lease_key ''d1''"] d show ?thesis by (auto simp: process_deal_delivered_def)
qed

lemma sample_release:
  "ee_decrypt_secret (sample_env e) = Inr" "ee_release_escrow (sample_env e) = (\<lambda>_ _. Inr [''tx''])"
  by (simp_all add: sample_env_def)

lemma sample_success:
  "fst (process_deal_delivered (sample_env None) ''d1'' sample_state) = Inr ()"
  "length (es_distributions (snd (process_deal_delivered (sample_env None) ''d1'' sample_state))) = 3"
proof -
  obtain r where r: "process_deal_delivered (sample_env None) ''d1'' sample_state =
     release_and_record (sample_env None) sample_deal ''K'' ''P'' (sample_state\<lparr>es_redis := r\<rparr>)"
    using sample_process by blast
  show "fst (process_deal_delivered (sample_env None) ''d1'' sample_state) = Inr ()"
    "length (es_distributions (snd (process_deal_delivered (sample_env None) ''d1'' sample_state))) = 3"
    unfolding r release_and_record_def Let_def sample_release
    by (simp_all add: sample_transaction [OF refl])
qed

lemma sample_failure:
  "fst (process_deal_delivered (sample_env (Some e)) ''d1'' sample_state) = Inl (Internal e)"
  "es_released (snd (process_deal_delivered (sample_env (Some e)) ''d1'' sample_state)) = [release_request sample_deal ''P'' sample_state]"
proof -
  obtain r where r: "process_deal_delivered (sample_env (Some e)) ''d1'' sample_state =
     release_and_record (sample_env (Some e)) sample_deal ''K'' ''P'' (sample_state\<lparr>es_redis := r\<rparr>)"
    using sample_process by blast
  have "es_released sample_state = []" by (simp add: sample_state_def)
  then show "fst (process_deal_delivered (sample_env (Some e)) ''d1'' sample_state) = Inl (Internal e)"
    "es_released (snd (process_deal_delivered (sample_env (Some e)) ''d1'' sample_state)) = [release_request sample_deal ''P'' sample_state]"
    unfolding r release_and_record_def Let_def sample_release
    by (simp_all add: sample_transaction_fails [OF refl])
qed

subsection \<open>Properties\<close>

text \<open>
  C1: when a delivery is processed to the end, the deal is completed and the rows added are:
  for the platform two percent of the value in cents, rounded; for the investors whole cents
  that add up to exactly the rest; and for the farmers whole cents that add up to exactly
  the same rest once more, so that for a value of T cents with a platform fee of P cents the
  recorded payments add up to 2 T - P cents.
\<close>

theorem release_records_payments:
  assumes run: "process_deal_delivered env d s = (Inr (), s')" and changed: "es_distributions s' \<noteq> es_distributions s"
    and deal: "find_deal d (es_deals s) = Some deal"
    and T: "to_cents (td_total_value deal) = of_int T" "0 \<le> T" "T \<le> 2 ^ 40"
    and investors: "good_weights (map iv_token_amount (confirmed_investments d s))"
    and farmers: "good_weights (map weight (payout_participants deal s))"
  shows "\<exists>rows fc ic P. es_distributions s' = es_distributions s @ rows \<and>
    amounts_for RecipientFarmer rows = map (\<lambda>c. from_cents (of_int c)) fc \<and>
    amounts_for RecipientInvestor rows = map (\<lambda>c. from_cents (of_int c)) ic \<and>
    amounts_for RecipientPlatform rows = [from_cents (of_int P)] \<and>
    list_all (\<lambda>c. 0 \<le> c) (fc @ ic) \<and> 0 \<le> P \<and> P \<le> T \<and>
    sum_list ic = T - P \<and> sum_list fc = T - P \<and> sum_list fc + sum_list ic + P = 2 * T - P \<and>
    map_option td_status (find_deal d (es_deals s')) = Some DealCompleted"
proof (rule process_recorded [OF run changed deal])
  fix w tx r s1 frows rows s2
  assume s1: "s1 = s\<lparr>es_redis := r, es_released := es_released s @ [release_request deal w s]\<rparr>"
    and pt: "payment_transaction env deal w tx s1 = Inr (frows, rows, s2)"
    and s': "es_deals s' = es_deals s2" "es_distributions s' = es_distributions s2"
  have d: "td_id deal = d" using find_dealD [OF deal] by simp
  from split_total_value_cents [OF T] obtain P where
    P: "split_total_value (td_total_value deal) = (from_cents (of_int P), from_cents (of_int (T - P)))" "0 \<le> P" "P \<le> T" by blast
  from payment_transaction_ok [OF pt] obtain amounts t where
    a: "allocate_proportional_amounts (from_cents (of_int (T - P))) (map iv_token_amount (confirmed_investments d s)) = Inr amounts"
    and f: "distribute_payment d tx s1 = Inr (frows, t)"
    and rows: "rows = map2 (investor_distribution d tx s1) (confirmed_investments d s) amounts
               @ [platform_distribution d tx w (from_cents (of_int P))]"
    and s2: "s2 = s1\<lparr>es_distributions := es_distributions s @ frows @ rows,
             es_deals := update_deal d (\<lambda>d. d\<lparr>td_status := DealCompleted, td_app_trace_id := Some (ee_trace_id env)\<rparr>) (es_deals s)\<rparr>"
    unfolding P d s1 by auto
  have N: "0 \<le> T - P" "T - P \<le> 2 ^ 40" using P T by simp_all
  from allocate_cents [OF _ _ _ _ _ N, of "map iv_token_amount (confirmed_investments d s)"] investors a obtain ic where
    ic: "amounts = map (\<lambda>c. from_cents (of_int c)) ic" "sum_list ic = T - P" "list_all (\<lambda>c. 0 \<le> c) ic"
      "length ic = length (confirmed_investments d s)"
    by (auto simp: good_weights_def list_all_iff)
  from distribute_payment_ok [OF f] obtain payouts where
    p: "compute_farmer_payout_splits (from_cents (of_int (T - P))) (payout_participants deal s) = Inr payouts"
      "frows = map (farmer_distribution d tx) payouts"
    using deal P(1) unfolding s1 by auto
  have sum: "sum_js weight (payout_participants deal s) = sum_js (\<lambda>w. w) (map weight (payout_participants deal s))"
    by (simp add: sum_js_def foldl_map)
  have pool: "pool_cents (from_cents (of_int (T - P))) = of_int (T - P)"
    using to_cents_from_cents [OF N] by (simp add: to_cents_pool)
  from payout_split_sound [OF _ _ _ _ _ pool N, of "payout_participants deal s"] farmers p(1) obtain fc where
    fc: "map fp_amount_usd payouts = map (\<lambda>c. div_js (of_int c) 100) fc" "sum_list fc = T - P" "list_all (\<lambda>c. 0 < c) fc"
    unfolding sum good_weights_def by (auto simp: list_all_iff)
  have "map_option td_status (find_deal d (es_deals s')) = Some DealCompleted"
    using deal d unfolding s'(1) s2 by (simp add: find_deal_update)
  moreover have "es_distributions s' = es_distributions s @ (frows @ rows)" unfolding s'(2) s2 by simp
  moreover have "amounts_for k (frows @ rows) = (case k of
      RecipientFarmer \<Rightarrow> map (\<lambda>c. from_cents (of_int c)) fc
    | RecipientInvestor \<Rightarrow> map (\<lambda>c. from_cents (of_int c)) ic
    | RecipientPlatform \<Rightarrow> [from_cents (of_int P)])" for k
    unfolding p(2) rows using ic(1,4) fc(1)
    by (cases k) (simp_all add: amounts_investor from_cents_def)
  moreover have "list_all (\<lambda>c. 0 \<le> c) (fc @ ic)" using fc(3) ic(3) by (auto simp: list_all_iff)
  ultimately show ?thesis using P fc(2) ic(2)
    by (intro exI [of _ "frows @ rows"] exI [of _ fc] exI [of _ ic] exI [of _ P]) simp
qed

theorem release_records_payments_witness:
  "\<exists>rows fc ic P. amounts_for RecipientFarmer rows = map (\<lambda>c. from_cents (of_int c)) fc \<and>
     sum_list fc + sum_list ic + P = 2 * 100000 - P \<and>
     es_distributions (snd (process_deal_delivered (sample_env None) ''d1'' sample_state)) = es_distributions sample_state @ rows"
proof -
  let ?r = "process_deal_delivered (sample_env None) ''d1'' sample_state"
  have run: "process_deal_delivered (sample_env None) ''d1'' sample_state = (Inr (), snd ?r)"
    using sample_success(1) by (cases ?r) simp
  have changed: "es_distributions (snd ?r) \<noteq> es_distributions sample_state"
    using sample_success(2) by (auto simp: sample_state_def)
  have T: "to_cents (td_total_value sample_deal) = of_int 100000"
  proof -
    have "to_cents 1000 = of_int 100000" by code_simp
    then show ?thesis by (simp add: sample_deal_def)
  qed
  have i: "good_weights (map iv_token_amount (confirmed_investments ''d1'' sample_state))"
    by (simp add: sample_investment_def good_weights_def sum_js_def add_js_def)
  have f: "good_weights (map weight (payout_participants sample_deal sample_state))"
    by (simp add: good_weights_def sum_js_def add_js_def weight_def)
  from release_records_payments [OF run changed sample_reads(1) T _ _ i f] obtain rows fc ic P where
    "amounts_for RecipientFarmer rows = map (\<lambda>c. from_cents (of_int c)) fc"
    "sum_list fc + sum_list ic + P = 2 * 100000 - P"
    "es_distributions (snd ?r) = es_distributions sample_state @ rows" by auto
  then show ?thesis by blast
qed



text \<open>
  A delivery that fails completes no deal and records no payment: the deals are as before
  and so are the distributions, except that those of the deal may be marked failed.
\<close>

theorem failed_delivery_records_nothing:
  assumes "process_deal_delivered env d s = (Inl e, s')"
  shows "es_deals s' = es_deals s \<and>
    (es_distributions s' = es_distributions s \<or>
     es_distributions s' = map (\<lambda>x. if pd_trade_deal_id x = d then x\<lparr>pd_status := PaymentFailed\<rparr> else x) (es_distributions s))"
proof (cases rule: process_cases [of env d s])
  case idle
  with assms show ?thesis by simp
next
  case (leased deal k w s1)
  have d: "td_id deal = d" using find_dealD [OF leased(1)] by simp
  from take_lease_state [OF leased(9)] have s1: "es_deals s1 = es_deals s" "es_distributions s1 = es_distributions s" by auto
  have eq: "release_and_record env deal k w s1 = (Inl e, s')" using leased(10) assms by simp
  show ?thesis
  proof (cases rule: release_and_record_cases [of env deal k w s1])
    case (no_release e')
    with eq s1 d show ?thesis by (simp add: update_where_def)
  next
    case (unrecorded e' tx s2 secret ids)
    with eq s1 d show ?thesis by (auto simp: update_where_def)
  next
    case (recorded tx s2 frows rows s3)
    with eq show ?thesis by simp
  qed
qed

theorem failed_delivery_records_nothing_witness:
  "es_deals (snd (process_deal_delivered (sample_env (Some ''down'')) ''d1'' sample_state)) = es_deals sample_state"
proof -
  let ?r = "process_deal_delivered (sample_env (Some ''down'')) ''d1'' sample_state"
  have "process_deal_delivered (sample_env (Some ''down'')) ''d1'' sample_state = (Inl (Internal ''down''), snd ?r)"
    using sample_failure(1) [of "''down''"] by (cases ?r) simp
  from failed_delivery_records_nothing [OF this] show ?thesis by blast
qed



end
