(* ===== verification/Decimals.thy ===== *)
theory Decimals
  imports JsNumber
begin

text \<open>
  Decimal columns read as doubles. A \<open>DECIMAL(p, d)\<close> value is an integer \<open>n\<close> of units
  \<open>10 ^ - d\<close>, and the double the services compute with is \<open>dec d n\<close>, the nearest one. The
  services round the result of every sum and difference back to \<open>d\<close> digits, with
  \<open>Number(x.toFixed(d))\<close> or \<open>Math.round(x * 100) / 100\<close>; as long as the amounts stay below
  \<open>2 ^ 50\<close> units the rounding error of the double operation is far below half a unit, so the
  result is exactly the double of the integer sum or difference.
\<close>

definition dec :: "nat \<Rightarrow> int \<Rightarrow> jsnum" where
  "dec d n = fl (of_int n / 10 ^ d)"

text \<open>\<open>Math.round(x * 100) / 100\<close>.\<close>

definition round_cents :: "jsnum \<Rightarrow> jsnum" where
  "round_cents x = div_js (math_round (mul_js x 100)) 100"

subsection \<open>Absolute rounding errors\<close>

lemma fl_abs_err: "\<bar>fl x - x\<bar> \<le> \<bar>x\<bar> / 2 ^ 53 + 1 / 10 ^ 18"
proof (cases "2 powi (- 1022) \<le> \<bar>x\<bar>")
  case True
  then have "x \<noteq> 0" by (metis abs_zero not_le two_powi_pos)
  from quantum_le [OF this True] have "quantum x / 2 \<le> \<bar>x\<bar> / 2 ^ 53" by simp
  moreover have "(0::rat) \<le> 1 / 10 ^ 18" by simp
  ultimately show ?thesis using fl_err [of x] by linarith
next
  case False
  have "(2::rat) powi (- 60) = 1 / 2 ^ 60" by (simp only: power_int_minus power_int_numeral inverse_eq_divide)
  also have "\<dots> \<le> 1 / 10 ^ 18" by simp
  finally have tiny: "(2::rat) powi (- 60) \<le> 1 / 10 ^ 18" .
  have "quantum x \<le> 1 / 10 ^ 18" if "x \<noteq> 0"
  proof -
    have "expo \<bar>x\<bar> < - 1022"
      by (rule expo_less) (use that in simp, use False in \<open>simp only: not_le\<close>)
    then have "max (expo \<bar>x\<bar> - 52) (- 1074) = - 1074" by simp
    then have "quantum x = 2 powi (- 1074)" by (simp only: quantum_def)
    also have "(2::rat) powi (- 1074) \<le> 2 powi (- 60)" by (rule power_int_increasing) auto
    also note tiny
    finally show ?thesis .
  qed
  then have "\<bar>fl x - x\<bar> \<le> 1 / 10 ^ 18"
    using fl_err [of x] quantum_pos [of x] by (cases "x = 0") (simp, linarith)
  moreover have "0 \<le> \<bar>x\<bar> / 2 ^ 53" by simp
  ultimately show ?thesis by linarith
qed

lemma fl_err_within:
  assumes "\<bar>x\<bar> * 10 ^ d \<le> of_int b" "d \<le> 15"
  shows "\<bar>fl x * 10 ^ d - x * 10 ^ d\<bar> \<le> of_int b / 2 ^ 53 + 1 / 1000"
proof -
  have "(10::rat) ^ d \<le> 10 ^ 15" using assms(2) by (rule power_increasing) simp
  then have p: "(10::rat) ^ d / 10 ^ 18 \<le> 1 / 1000" by simp
  have "\<bar>fl x * 10 ^ d - x * 10 ^ d\<bar> = \<bar>fl x - x\<bar> * 10 ^ d"
    by (simp add: left_diff_distrib [symmetric] abs_mult)
  also have "\<dots> \<le> (\<bar>x\<bar> / 2 ^ 53 + 1 / 10 ^ 18) * 10 ^ d"
    by (rule mult_right_mono [OF fl_abs_err]) simp
  also have "\<dots> = (\<bar>x\<bar> * 10 ^ d) / 2 ^ 53 + 10 ^ d / 10 ^ 18" by (simp add: field_simps)
  also have "\<dots> \<le> of_int b / 2 ^ 53 + 1 / 1000"
    using assms(1) p by (intro add_mono divide_right_mono) simp_all
  finally show ?thesis .
qed

lemma dec_err:
  assumes "\<bar>n\<bar> \<le> 2 ^ 50" "d \<le> 15"
  shows "\<bar>dec d n * 10 ^ d - of_int n\<bar> \<le> 13 / 100"
proof -
  have "\<bar>of_int n :: rat\<bar> \<le> of_int (2 ^ 50)" using assms(1) by linarith
  then have "\<bar>of_int n / 10 ^ d :: rat\<bar> * 10 ^ d \<le> of_int (2 ^ 50)" by (simp add: abs_divide)
  from fl_err_within [OF this assms(2)] show ?thesis by (simp add: dec_def)
qed

lemma dec_zero [simp]: "dec d 0 = 0"
  by (simp add: dec_def)

lemma dec_minus [simp]: "dec d (- n) = - dec d n"
  using fl_minus [of "of_int n / 10 ^ d"] by (simp add: dec_def)

subsection \<open>Order\<close>

lemma dec_less_iff:
  assumes "\<bar>a\<bar> \<le> 2 ^ 50" "\<bar>b\<bar> \<le> 2 ^ 50" "d \<le> 15"
  shows "dec d a < dec d b \<longleftrightarrow> a < b"
proof -
  have mono: "x < y \<Longrightarrow> \<bar>x\<bar> \<le> 2 ^ 50 \<Longrightarrow> \<bar>y\<bar> \<le> 2 ^ 50 \<Longrightarrow> dec d x < dec d y" for x y
  proof -
    assume xy: "x < y" "\<bar>x\<bar> \<le> 2 ^ 50" "\<bar>y\<bar> \<le> 2 ^ 50"
    from xy(1) have "of_int (x + 1) \<le> (of_int y :: rat)" by (intro of_int_le_iff [THEN iffD2]) simp
    then have "of_int x + 1 \<le> (of_int y :: rat)" by simp
    then have "dec d x * 10 ^ d < dec d y * 10 ^ d"
      using dec_err [OF xy(2) assms(3)] dec_err [OF xy(3) assms(3)] by linarith
    then show ?thesis by simp
  qed
  show ?thesis using mono [of a b] mono [of b a] assms by (cases a b rule: linorder_cases) auto
qed

lemma dec_le_iff:
  assumes "\<bar>a\<bar> \<le> 2 ^ 50" "\<bar>b\<bar> \<le> 2 ^ 50" "d \<le> 15"
  shows "dec d a \<le> dec d b \<longleftrightarrow> a \<le> b"
  using dec_less_iff [OF assms(2,1,3)] by linarith

lemma dec_eq_iff:
  assumes "\<bar>a\<bar> \<le> 2 ^ 50" "\<bar>b\<bar> \<le> 2 ^ 50" "d \<le> 15"
  shows "dec d a = dec d b \<longleftrightarrow> a = b"
  using dec_le_iff [OF assms] dec_le_iff [OF assms(2,1,3)] by auto

lemma dec_min:
  assumes "\<bar>a\<bar> \<le> 2 ^ 50" "\<bar>b\<bar> \<le> 2 ^ 50" "d \<le> 15"
  shows "min (dec d a) (dec d b) = dec d (min a b)"
  using dec_le_iff [OF assms] by (simp add: min_def)

lemma dec_abs:
  assumes "\<bar>a\<bar> \<le> 2 ^ 50" "d \<le> 15"
  shows "\<bar>dec d a\<bar> = dec d \<bar>a\<bar>"
  using dec_le_iff [of a 0 d] assms by (auto simp: abs_if dest: dec_less_iff [of a 0 d, THEN iffD1, rotated 3])

subsection \<open>Rounding back to units\<close>

lemma to_fixed_units: "\<exists>n. to_fixed d v = dec d n"
proof -
  have "- fl (of_int m / 10 ^ d) = dec d (- m)" for m by (simp only: dec_minus) (simp add: dec_def)
  then show ?thesis unfolding to_fixed_def Let_def dec_def by metis
qed

lemma to_fixed_near:
  assumes "\<bar>v * 10 ^ d - of_int n\<bar> < 1 / 2"
  shows "to_fixed d v = dec d n"
proof (cases "v < 0")
  case True
  have "\<lfloor>- v * 10 ^ d + 1 / 2\<rfloor> = - n"
    by (rule floor_unique) (use assms in linarith)+
  then have "to_fixed d v = - dec d (- n)" using True by (simp add: to_fixed_def dec_def)
  then show ?thesis by simp
next
  case False
  have "\<lfloor>v * 10 ^ d + 1 / 2\<rfloor> = n"
    by (rule floor_unique) (use assms in linarith)+
  then show ?thesis using False by (simp add: to_fixed_def dec_def)
qed

lemma combine_near:
  assumes "\<bar>x * 10 ^ d - of_int a\<bar> \<le> 13 / 100" "\<bar>y * 10 ^ d - of_int b\<bar> \<le> 13 / 100"
    and ab: "\<bar>a + b\<bar> \<le> 2 ^ 50" and d: "d \<le> 15"
  shows "\<bar>fl (x + y) * 10 ^ d - of_int (a + b)\<bar> \<le> 39 / 100"
proof -
  have e: "(x + y) * 10 ^ d = x * 10 ^ d + y * 10 ^ d" by (rule distrib_right)
  have s: "\<bar>(x + y) * 10 ^ d - of_int (a + b)\<bar> \<le> 26 / 100"
    unfolding e of_int_add using assms(1,2) by linarith
  have "\<bar>of_int (a + b) :: rat\<bar> \<le> of_int (2 ^ 50)" using ab by linarith
  then have "\<bar>(x + y) * 10 ^ d\<bar> \<le> of_int (2 ^ 50 + 1)" using s by linarith
  then have "\<bar>x + y\<bar> * 10 ^ d \<le> of_int (2 ^ 50 + 1)" by (simp add: abs_mult)
  from fl_err_within [OF this d]
  have "\<bar>fl (x + y) * 10 ^ d - (x + y) * 10 ^ d\<bar> \<le> 127 / 1000" by simp
  with s show ?thesis by linarith
qed

lemma to_fixed_add:
  assumes "\<bar>a\<bar> \<le> 2 ^ 50" "\<bar>b\<bar> \<le> 2 ^ 50" "\<bar>a + b\<bar> \<le> 2 ^ 50" "d \<le> 15"
  shows "to_fixed d (add_js (dec d a) (dec d b)) = dec d (a + b)"
proof (rule to_fixed_near)
  show "\<bar>add_js (dec d a) (dec d b) * 10 ^ d - of_int (a + b)\<bar> < 1 / 2"
    using combine_near [OF dec_err [OF assms(1,4)] dec_err [OF assms(2,4)] assms(3,4)]
    unfolding add_js_def by linarith
qed

lemma to_fixed_sub:
  assumes "\<bar>a\<bar> \<le> 2 ^ 50" "\<bar>b\<bar> \<le> 2 ^ 50" "\<bar>a - b\<bar> \<le> 2 ^ 50" "d \<le> 15"
  shows "to_fixed d (sub_js (dec d a) (dec d b)) = dec d (a - b)"
  using to_fixed_add [of a "- b" d] assms by (simp add: add_js_def sub_js_def)

lemma to_fixed_dec:
  assumes "\<bar>a\<bar> \<le> 2 ^ 50" "d \<le> 15"
  shows "to_fixed d (dec d a) = dec d a"
  by (rule to_fixed_near) (use dec_err [OF assms] in linarith)

end
