(* ===== verification/Marketplace.thy ===== *)
theory Marketplace
  imports QueueService Decimals "HOL-Library.Sublist"
begin

text \<open>
  \<open>backend/src/investments/marketplace-settlement.service.ts\<close> and
  \<open>secondary-order-matching.service.ts\<close>: the secondary market. Orders rest in one table, a
  matching pass sweeps the opposing orders in price-time priority, every fill is settled on
  chain as a trade of its own, and a scheduled sweep arms stop orders and matches every
  resting order. The settlement contract, the clock, the generated identifiers and the
  encryption of emitted payloads are parameters (\<open>market_env\<close>); \<open>mk_ledger\<close> is the log of the
  successful settlements on chain. Decimal columns are doubles, see theory \<open>Decimals\<close>.
\<close>

subsection \<open>Orders and trades\<close>

datatype order_type = LimitOrder | FokOrder | StopLossOrder

datatype order_side = Buy | Sell

datatype order_status =
  OrderOpen | OrderTriggered | OrderPartiallyFilled | OrderFilled | OrderCancelled | OrderExpired

datatype stop_direction = Above | Below

record secondary_order =
  so_id :: string
  so_order_id :: string
  so_user_id :: string
  so_deal_id :: "string option"
  so_investment_id :: "string option"
  so_side :: order_side
  so_type :: order_type
  so_token_code :: string
  so_token_amount :: jsnum
  so_filled_amount :: jsnum
  so_price_per_token :: jsnum
  so_trigger_price :: "jsnum option"
  so_stop_direction :: "stop_direction option"
  so_status :: order_status
  so_expires_at :: "int option"
  so_triggered_at :: "int option"
  so_filled_at :: "int option"
  so_cancelled_at :: "int option"
  so_cancel_reason :: "string option"

datatype trade_status = TradePending | TradeSettled | TradeFailed | TradeRefunded

text \<open>\<open>st_legs\<close> is the metadata of a fill: the order identifiers of taker and maker.\<close>

record secondary_trade =
  st_id :: string
  st_order_id :: string
  st_seller_id :: string
  st_buyer_id :: string
  st_token_code :: string
  st_token_amount :: jsnum
  st_price_per_token :: jsnum
  st_total_amount_usd :: jsnum
  st_platform_fee_usd :: jsnum
  st_net_amount_usd :: jsnum
  st_tx_hash :: "string option"
  st_status :: trade_status
  st_settled_at :: "int option"
  st_notified :: bool
  st_legs :: "(string \<times> string) option"

record order_dto =
  od_token_code :: string
  od_side :: order_side
  od_type :: "order_type option"
  od_token_amount :: jsnum
  od_price_per_token :: jsnum
  od_trigger_price :: "jsnum option"
  od_stop_direction :: "stop_direction option"
  od_expires_at :: "int option"

record order_fill =
  of_taker_order_id :: string
  of_maker_order_id :: string
  of_token_code :: string
  of_amount :: jsnum
  of_price_per_token :: jsnum
  of_trade_id :: string
  of_tx_hash :: string

record match_result =
  mo_order :: secondary_order
  mo_triggered :: bool
  mo_killed :: bool
  mo_filled :: bool
  mo_fills :: "order_fill list"
  mo_best_opposing_price :: "jsnum option"

datatype market_event =
    TradeSettledEvent string string string
  | OrderCancelledEvent string string "string option"
  | OrderTriggeredEvent string jsnum jsnum

record market_env =
  me_now :: int
  me_platform_fee_bps :: jsnum
  me_uuid :: "nat \<Rightarrow> string"
  me_stamp :: "nat \<Rightarrow> string"
  me_settle :: "string \<Rightarrow> string \<Rightarrow> string \<Rightarrow> jsnum \<Rightarrow> string + string"
  me_encrypt_error :: "string \<Rightarrow> string option"

record market_state =
  mk_orders :: "secondary_order list"
  mk_trades :: "secondary_trade list"
  mk_users :: "user list"
  mk_deals :: "trade_deal list"
  mk_ledger :: "(string \<times> string \<times> string \<times> jsnum) list"
  mk_events :: "market_event list"
  mk_serial :: nat

type_synonym 'a market_handler = "(market_state, http_error, 'a) handler"

subsection \<open>Helpers\<close>

definition qty_epsilon :: jsnum where
  "qty_epsilon = lit (1 / 10 ^ 7)"

definition round_amount :: "jsnum \<Rightarrow> jsnum" where
  "round_amount x = to_fixed 7 x"

definition resting_statuses :: "order_status list" where
  "resting_statuses = [OrderOpen, OrderTriggered, OrderPartiallyFilled]"

definition is_resting :: "secondary_order \<Rightarrow> bool" where
  "is_resting ord \<longleftrightarrow> so_status ord \<in> set resting_statuses"

definition is_terminal :: "secondary_order \<Rightarrow> bool" where
  "is_terminal ord \<longleftrightarrow>
     so_status ord = OrderFilled \<or> so_status ord = OrderCancelled \<or> so_status ord = OrderExpired"

definition opposite_side :: "order_side \<Rightarrow> order_side" where
  "opposite_side side = (if side = Buy then Sell else Buy)"

definition resolve_stop_direction :: "stop_direction option \<Rightarrow> order_side \<Rightarrow> stop_direction" where
  "resolve_stop_direction requested side =
     (case requested of Some d \<Rightarrow> d | None \<Rightarrow> if side = Sell then Below else Above)"

text \<open>\<open>toNumber\<close> of a nullable column.\<close>

definition to_number :: "jsnum option \<Rightarrow> jsnum" where
  "to_number v = (case v of None \<Rightarrow> 0 | Some x \<Rightarrow> x)"

definition is_trigger_satisfied :: "stop_direction \<Rightarrow> jsnum \<Rightarrow> jsnum \<Rightarrow> bool" where
  "is_trigger_satisfied direction market_price trigger_price \<longleftrightarrow>
     0 < trigger_price \<and>
     (if direction = Above then trigger_price \<le> market_price else market_price \<le> trigger_price)"

text \<open>\<open>generateId\<close>: the prefix and a stamp of time and random digits.\<close>

definition generate_id :: "market_env \<Rightarrow> string \<Rightarrow> market_state \<Rightarrow> string" where
  "generate_id env stem s = stem @ ''-'' @ me_stamp env (mk_serial s)"

definition compute_fees :: "market_env \<Rightarrow> jsnum \<Rightarrow> jsnum \<Rightarrow> jsnum \<times> jsnum \<times> jsnum" where
  "compute_fees env token_amount price_per_token =
     (let tot = round_amount (mul_js token_amount price_per_token);
          fee = round_amount (div_js (mul_js tot (me_platform_fee_bps env)) 10000);
          net = round_amount (sub_js tot fee)
      in (tot, fee, net))"

definition get_order :: "string \<Rightarrow> market_state \<Rightarrow> secondary_order option" where
  "get_order order_id s = find_one (\<lambda>r. so_order_id r = order_id) (mk_orders s)"

definition save_order :: "secondary_order \<Rightarrow> market_state \<Rightarrow> market_state" where
  "save_order ord s = s\<lparr>mk_orders := update_where (\<lambda>r. so_id r = so_id ord) (\<lambda>_. ord) (mk_orders s)\<rparr>"

definition save_trade :: "secondary_trade \<Rightarrow> market_state \<Rightarrow> market_state" where
  "save_trade trade s = s\<lparr>mk_trades := update_where (\<lambda>r. st_id r = st_id trade) (\<lambda>_. trade) (mk_trades s)\<rparr>"

definition emit_event :: "market_env \<Rightarrow> string \<Rightarrow> market_event \<Rightarrow> unit market_handler" where
  "emit_event env pattern ev s =
     (case me_encrypt_error env pattern of
        Some err \<Rightarrow> throw (Internal err) s
      | None \<Rightarrow> done_with () (s\<lparr>mk_events := mk_events s @ [ev]\<rparr>))"

text \<open>\<open>getLastPrice\<close>: the price of the trade settled last; of equal time stamps the later row.\<close>

fun latest_settled :: "secondary_trade list \<Rightarrow> secondary_trade option" where
  "latest_settled [] = None"
| "latest_settled (t # ts) =
     (case latest_settled ts of
        None \<Rightarrow> Some t
      | Some u \<Rightarrow> if the (st_settled_at t) \<le> the (st_settled_at u) then Some u else Some t)"

definition get_last_price :: "string \<Rightarrow> market_state \<Rightarrow> jsnum option" where
  "get_last_price token_code s =
     map_option st_price_per_token
       (latest_settled (find_where (\<lambda>t. st_token_code t = token_code \<and> st_status t = TradeSettled) (mk_trades s)))"

subsection \<open>Settlement of a trade\<close>

text \<open>\<open>notifyParties\<close>; its failure is caught and logged by the caller.\<close>

definition notify_parties :: "market_env \<Rightarrow> secondary_trade \<Rightarrow> market_state \<Rightarrow> market_state" where
  "notify_parties env trade s =
     snd (emit_event env ''secondary_trade.settled''
            (TradeSettledEvent (st_id trade) (st_seller_id trade) (st_buyer_id trade))
            (save_trade (trade\<lparr>st_notified := True\<rparr>) s))"

definition settle_trade ::
  "market_env \<Rightarrow> secondary_trade \<Rightarrow> string \<Rightarrow> string \<Rightarrow> string market_handler" where
  "settle_trade env trade buyer_wallet seller_wallet s =
     (let stroops = math_floor (mul_js (st_total_amount_usd trade) 10000000)
      in case me_settle env (st_order_id trade) buyer_wallet seller_wallet stroops of
           Inl e \<Rightarrow> throw (Internal e) s
         | Inr tx_hash \<Rightarrow>
             (let settled = trade\<lparr>st_tx_hash := Some tx_hash, st_status := TradeSettled,
                                  st_settled_at := Some (me_now env)\<rparr>
              in done_with tx_hash (notify_parties env settled (save_trade settled
                   (s\<lparr>mk_ledger := mk_ledger s @ [(st_order_id trade, buyer_wallet, seller_wallet, stroops)]\<rparr>)))))"

definition new_trade ::
  "market_env \<Rightarrow> string \<Rightarrow> string \<Rightarrow> string \<Rightarrow> jsnum \<Rightarrow> jsnum \<Rightarrow> (string \<times> string) option \<Rightarrow> market_state \<Rightarrow> secondary_trade" where
  "new_trade env seller_id buyer_id token_code amount price legs s =
     (case compute_fees env amount price of (tot, fee, net) \<Rightarrow>
        \<lparr>st_id = me_uuid env (mk_serial s), st_order_id = generate_id env ''order'' s,
         st_seller_id = seller_id, st_buyer_id = buyer_id, st_token_code = token_code,
         st_token_amount = amount, st_price_per_token = price, st_total_amount_usd = tot,
         st_platform_fee_usd = fee, st_net_amount_usd = net, st_tx_hash = None,
         st_status = TradePending, st_settled_at = None, st_notified = False, st_legs = legs\<rparr>)"

definition insert_trade :: "secondary_trade \<Rightarrow> market_state \<Rightarrow> market_state" where
  "insert_trade trade s = s\<lparr>mk_trades := insert_row trade (mk_trades s), mk_serial := Suc (mk_serial s)\<rparr>"

definition create_secondary_trade ::
  "market_env \<Rightarrow> string \<Rightarrow> string \<Rightarrow> string \<Rightarrow> jsnum \<Rightarrow> jsnum \<Rightarrow> string market_handler" where
  "create_secondary_trade env seller_id buyer_id token_code token_amount price_per_token s =
     (case find_user seller_id (mk_users s) of
        None \<Rightarrow> throw (NotFound ''Seller not found'') s
      | Some seller \<Rightarrow>
     (case find_user buyer_id (mk_users s) of
        None \<Rightarrow> throw (NotFound ''Buyer not found'') s
      | Some buyer \<Rightarrow>
     if \<not> present (us_wallet_address seller) then throw (Unprocessable ''Seller has no linked wallet'') s
     else if \<not> present (us_wallet_address buyer) then throw (Unprocessable ''Buyer has no linked wallet'') s
     else if seller_id = buyer_id then throw (BadRequest ''Seller and buyer cannot be the same user'') s
     else
       (let trade = new_trade env seller_id buyer_id token_code token_amount price_per_token None s
        in case settle_trade env trade (the (us_wallet_address buyer)) (the (us_wallet_address seller))
                  (insert_trade trade s) of
             (Inl _, s1) \<Rightarrow> throw (Unprocessable ''SETTLEMENT_FAILED'') s1
           | (Inr tx_hash, s1) \<Rightarrow> done_with tx_hash s1)))"

subsection \<open>Matching\<close>

definition remaining :: "secondary_order \<Rightarrow> jsnum" where
  "remaining ord = round_amount (sub_js (so_token_amount ord) (so_filled_amount ord))"

text \<open>
  \<open>findCrossingMakers\<close>: the resting opposing orders that cross the limit of the taker, best
  price first and then oldest first. The table is in the order of creation, and the sort is stable.
\<close>

definition matchable :: "market_env \<Rightarrow> secondary_order \<Rightarrow> bool" where
  "matchable env m \<longleftrightarrow>
     so_status m \<in> set resting_statuses \<and> so_filled_amount m < so_token_amount m
     \<and> (case so_expires_at m of None \<Rightarrow> True | Some e \<Rightarrow> me_now env < e)
     \<and> (so_type m \<noteq> StopLossOrder \<or> so_triggered_at m \<noteq> None)"

definition crosses :: "secondary_order \<Rightarrow> secondary_order \<Rightarrow> bool" where
  "crosses taker m \<longleftrightarrow>
     (if so_side taker = Buy then so_price_per_token m \<le> so_price_per_token taker
      else so_price_per_token taker \<le> so_price_per_token m)"

definition price_key :: "order_side \<Rightarrow> secondary_order \<Rightarrow> jsnum" where
  "price_key side m = (if side = Buy then so_price_per_token m else - so_price_per_token m)"

definition find_crossing_makers :: "market_env \<Rightarrow> secondary_order \<Rightarrow> market_state \<Rightarrow> secondary_order list" where
  "find_crossing_makers env taker s =
     sort_key (price_key (so_side taker))
       (find_where (\<lambda>m. so_token_code m = so_token_code taker \<and> so_side m = opposite_side (so_side taker)
                      \<and> matchable env m \<and> crosses taker m) (mk_orders s))"

text \<open>\<open>recordFill\<close>: one trade, settled on chain; a failure leaves the pending trade behind.\<close>

definition record_fill ::
  "market_env \<Rightarrow> secondary_order \<Rightarrow> secondary_order \<Rightarrow> jsnum \<Rightarrow> jsnum \<Rightarrow> string \<Rightarrow> string \<Rightarrow> order_fill market_handler" where
  "record_fill env taker maker amount price seller_id buyer_id s =
     (case (find_user seller_id (mk_users s), find_user buyer_id (mk_users s)) of
        (Some seller, Some buyer) \<Rightarrow>
          if \<not> present (us_wallet_address seller) \<or> \<not> present (us_wallet_address buyer)
          then throw (Unprocessable ''Fill party has no linked wallet'') s
          else
            (let trade = new_trade env seller_id buyer_id (so_token_code taker) amount price
                           (Some (so_order_id taker, so_order_id maker)) s
             in and_then (settle_trade env trade (the (us_wallet_address buyer)) (the (us_wallet_address seller)))
                  (\<lambda>tx_hash. done_with
                     \<lparr>of_taker_order_id = so_order_id taker, of_maker_order_id = so_order_id maker,
                      of_token_code = so_token_code taker, of_amount = amount, of_price_per_token = price,
                      of_trade_id = st_id trade, of_tx_hash = tx_hash\<rparr>)
                  (insert_trade trade s))
      | _ \<Rightarrow> throw (NotFound ''Fill party not found'') s)"

text \<open>The filled amount and the status of a leg after a fill.\<close>

definition fill_order :: "market_env \<Rightarrow> jsnum \<Rightarrow> secondary_order \<Rightarrow> secondary_order" where
  "fill_order env amount ord =
     (let filled = round_amount (add_js (so_filled_amount ord) amount)
      in if so_token_amount ord \<le> add_js filled qty_epsilon
         then ord\<lparr>so_filled_amount := filled, so_status := OrderFilled, so_filled_at := Some (me_now env)\<rparr>
         else ord\<lparr>so_filled_amount := filled, so_status := OrderPartiallyFilled\<rparr>)"

fun sweep_makers ::
  "market_env \<Rightarrow> secondary_order \<Rightarrow> secondary_order list \<Rightarrow> order_fill list \<Rightarrow> market_state \<Rightarrow>
   secondary_order \<times> order_fill list \<times> market_state" where
  "sweep_makers env ord [] fills s = (ord, fills, s)"
| "sweep_makers env ord (maker # makers) fills s =
     (if remaining ord \<le> qty_epsilon then (ord, fills, s)
      else if so_user_id maker = so_user_id ord then sweep_makers env ord makers fills s
      else if remaining maker \<le> qty_epsilon then sweep_makers env ord makers fills s
      else
        (let amount = round_amount (min (remaining ord) (remaining maker))
         in if amount \<le> qty_epsilon then sweep_makers env ord makers fills s
            else
              (let seller_id = (if so_side ord = Sell then so_user_id ord else so_user_id maker);
                   buyer_id = (if so_side ord = Sell then so_user_id maker else so_user_id ord)
               in case record_fill env ord maker amount (so_price_per_token maker) seller_id buyer_id s of
                    (Inl _, s1) \<Rightarrow> (ord, fills, s1)
                  | (Inr fill, s1) \<Rightarrow>
                      sweep_makers env (fill_order env amount ord) makers (fills @ [fill])
                        (save_order (fill_order env amount maker) (save_order (fill_order env amount ord) s1)))))"

text \<open>The size a fill-or-kill order finds on the book.\<close>

definition available_size :: "secondary_order \<Rightarrow> secondary_order list \<Rightarrow> jsnum" where
  "available_size ord makers =
     sum_js (\<lambda>m. max 0 (sub_js (so_token_amount m) (so_filled_amount m)))
       (filter (\<lambda>m. so_user_id m \<noteq> so_user_id ord) makers)"

definition no_match :: "secondary_order \<Rightarrow> match_result" where
  "no_match ord = \<lparr>mo_order = ord, mo_triggered = False, mo_killed = False, mo_filled = False,
                   mo_fills = [], mo_best_opposing_price = None\<rparr>"

text \<open>\<open>matchOrder\<close> from the query of the makers on.\<close>

definition match_book :: "market_env \<Rightarrow> secondary_order \<Rightarrow> match_result market_handler" where
  "match_book env ord s =
     (let makers = find_crossing_makers env ord s;
          best = (case makers of [] \<Rightarrow> None | m # _ \<Rightarrow> Some (so_price_per_token m))
      in if so_type ord = FokOrder \<and> add_js (available_size ord makers) qty_epsilon < remaining ord
         then
           (let killed = ord\<lparr>so_status := OrderCancelled, so_cancelled_at := Some (me_now env),
                             so_cancel_reason := Some ''fok_no_liquidity''\<rparr>
            in and_then (emit_event env ''secondary_order.cancelled''
                           (OrderCancelledEvent (so_order_id killed) (so_user_id killed) (so_cancel_reason killed)))
                 (\<lambda>_ s1. done_with
                    \<lparr>mo_order = killed, mo_triggered = (so_triggered_at killed \<noteq> None), mo_killed = True,
                     mo_filled = False, mo_fills = [], mo_best_opposing_price = best\<rparr>
                    (save_order killed s1)) s)
         else
           (case sweep_makers env ord makers [] s of (ord1, fills, s1) \<Rightarrow>
              done_with \<lparr>mo_order = ord1, mo_triggered = (so_triggered_at ord1 \<noteq> None), mo_killed = False,
                         mo_filled = (so_status ord1 = OrderFilled), mo_fills = fills,
                         mo_best_opposing_price = best\<rparr> s1))"

text \<open>Arming a stop order: it is saved and announced.\<close>

definition arm_order :: "market_env \<Rightarrow> jsnum \<Rightarrow> secondary_order \<Rightarrow> secondary_order market_handler" where
  "arm_order env market_price ord s =
     (let armed = ord\<lparr>so_status := OrderTriggered, so_triggered_at := Some (me_now env)\<rparr>
      in and_then (emit_event env ''secondary_order.triggered''
                     (OrderTriggeredEvent (so_order_id armed) market_price (to_number (so_trigger_price armed))))
           (\<lambda>_. done_with armed) (save_order armed s))"

definition match_order :: "market_env \<Rightarrow> string \<Rightarrow> match_result market_handler" where
  "match_order env order_id s =
     (case get_order order_id s of
        None \<Rightarrow> throw (NotFound ''Order not found'') s
      | Some ord \<Rightarrow>
     if is_terminal ord then done_with (no_match ord) s
     else if (case so_expires_at ord of None \<Rightarrow> False | Some e \<Rightarrow> e \<le> me_now env)
     then (let expired = ord\<lparr>so_status := OrderExpired, so_cancelled_at := Some (me_now env),
                             so_cancel_reason := Some ''expired''\<rparr>
           in done_with (no_match expired) (save_order expired s))
     else if so_type ord = StopLossOrder \<and> so_triggered_at ord = None
     then (case (get_last_price (so_token_code ord) s, so_stop_direction ord) of
             (Some market_price, Some direction) \<Rightarrow>
               if is_trigger_satisfied direction market_price (to_number (so_trigger_price ord))
               then and_then (arm_order env market_price ord) (\<lambda>armed. match_book env armed) s
               else done_with (no_match ord) s
           | _ \<Rightarrow> done_with (no_match ord) s)
     else match_book env ord s)"

subsection \<open>Placing and cancelling orders\<close>

definition new_order :: "market_env \<Rightarrow> string \<Rightarrow> order_dto \<Rightarrow> market_state \<Rightarrow> secondary_order" where
  "new_order env user_id dto s =
     (let type = (case od_type dto of None \<Rightarrow> LimitOrder | Some t \<Rightarrow> t);
          is_stop = (type = StopLossOrder)
      in \<lparr>so_id = me_uuid env (mk_serial s), so_order_id = generate_id env ''sord'' s, so_user_id = user_id,
          so_deal_id = None, so_investment_id = None, so_side = od_side dto, so_type = type,
          so_token_code = od_token_code dto, so_token_amount = round_amount (od_token_amount dto),
          so_filled_amount = 0, so_price_per_token = round_amount (od_price_per_token dto),
          so_trigger_price = (if is_stop then map_option round_amount (od_trigger_price dto) else None),
          so_stop_direction =
            (if is_stop then Some (resolve_stop_direction (od_stop_direction dto) (od_side dto)) else None),
          so_status = OrderOpen, so_expires_at = od_expires_at dto, so_triggered_at = None,
          so_filled_at = None, so_cancelled_at = None, so_cancel_reason = None\<rparr>)"

text \<open>The checks of \<open>createOrder\<close> before the order is stored.\<close>

definition order_error :: "string \<Rightarrow> order_dto \<Rightarrow> market_state \<Rightarrow> http_error option" where
  "order_error user_id dto s =
     (case find_user user_id (mk_users s) of
        None \<Rightarrow> Some (NotFound ''User not found'')
      | Some usr \<Rightarrow>
     if \<not> present (us_wallet_address usr) then Some (Unprocessable ''User has no linked wallet'')
     else if od_token_amount dto \<le> 0 then Some (BadRequest ''tokenAmount must be greater than zero'')
     else if od_price_per_token dto \<le> 0 then Some (BadRequest ''pricePerToken must be greater than zero'')
     else if od_type dto = Some StopLossOrder then
       (case od_trigger_price dto of
          None \<Rightarrow> Some (BadRequest ''triggerPrice is required for stop_loss orders'')
        | Some trigger \<Rightarrow>
            if trigger \<le> 0 then Some (BadRequest ''triggerPrice must be greater than zero'')
            else (case get_last_price (od_token_code dto) s of
                    Some last_price \<Rightarrow>
                      if is_trigger_satisfied (resolve_stop_direction (od_stop_direction dto) (od_side dto)) last_price trigger
                      then Some (Unprocessable ''STOP_ALREADY_CROSSED'') else None
                  | None \<Rightarrow> None))
     else None)"

definition insert_order :: "secondary_order \<Rightarrow> market_state \<Rightarrow> market_state" where
  "insert_order ord s = s\<lparr>mk_orders := insert_row ord (mk_orders s), mk_serial := Suc (mk_serial s)\<rparr>"

text \<open>The order is matched by its primary key \<open>order.id\<close>, as the source has it.\<close>

definition create_order :: "market_env \<Rightarrow> string \<Rightarrow> order_dto \<Rightarrow> match_result market_handler" where
  "create_order env user_id dto s =
     (case order_error user_id dto s of
        Some e \<Rightarrow> throw e s
      | None \<Rightarrow>
          (let ord = new_order env user_id dto s
           in match_order env (so_id ord) (insert_order ord s)))"

definition cancel_order ::
  "market_env \<Rightarrow> string \<Rightarrow> string \<Rightarrow> string option \<Rightarrow> secondary_order market_handler" where
  "cancel_order env order_id user_id reason s =
     (case get_order order_id s of
        None \<Rightarrow> throw (NotFound ''Order not found'') s
      | Some ord \<Rightarrow>
     if so_user_id ord \<noteq> user_id then throw (BadRequest ''Only the maker can cancel this order'') s
     else if \<not> is_resting ord then throw (BadRequest ''Order can no longer be cancelled'') s
     else
       (let cancelled = ord\<lparr>so_status := OrderCancelled, so_cancelled_at := Some (me_now env),
              so_cancel_reason := Some (case reason of None \<Rightarrow> ''user_requested'' | Some r \<Rightarrow> r)\<rparr>
        in and_then (emit_event env ''secondary_order.cancelled''
                       (OrderCancelledEvent (so_order_id cancelled) user_id (so_cancel_reason cancelled)))
             (\<lambda>_. done_with cancelled) (save_order cancelled s)))"

text \<open>The deal-scoped API writes to the same book and then tags the order.\<close>

definition resolve_deal_token_code :: "string \<Rightarrow> market_state \<Rightarrow> string" where
  "resolve_deal_token_code deal_id s =
     (case find_one (\<lambda>d. td_id d = deal_id) (mk_deals s) of
        None \<Rightarrow> ''UNSET''
      | Some d \<Rightarrow> if td_token_symbol d = [] then ''UNSET'' else td_token_symbol d)"

definition legacy_dto ::
  "string \<Rightarrow> order_side \<Rightarrow> jsnum \<Rightarrow> jsnum \<Rightarrow> int option \<Rightarrow> market_state \<Rightarrow> order_dto" where
  "legacy_dto deal_id side price quantity expiry s =
     \<lparr>od_token_code = resolve_deal_token_code deal_id s, od_side = side, od_type = Some LimitOrder,
      od_token_amount = quantity, od_price_per_token = price, od_trigger_price = None,
      od_stop_direction = None, od_expires_at = expiry\<rparr>"

definition tag_order :: "string \<Rightarrow> string option \<Rightarrow> match_result \<Rightarrow> match_result market_handler" where
  "tag_order deal_id investment_id r s =
     (let ord = (mo_order r)\<lparr>so_deal_id := Some deal_id,
                  so_investment_id := (case investment_id of None \<Rightarrow> so_investment_id (mo_order r) | i \<Rightarrow> i)\<rparr>
      in done_with (r\<lparr>mo_order := ord\<rparr>) (save_order ord s))"

definition create_sell_order ::
  "market_env \<Rightarrow> string \<Rightarrow> string \<Rightarrow> string \<Rightarrow> jsnum \<Rightarrow> jsnum \<Rightarrow> int option \<Rightarrow> match_result market_handler" where
  "create_sell_order env seller_id investment_id deal_id ask_price quantity expiry s =
     and_then (create_order env seller_id (legacy_dto deal_id Sell ask_price quantity expiry s))
       (tag_order deal_id (Some investment_id)) s"

definition create_buy_order ::
  "market_env \<Rightarrow> string \<Rightarrow> string \<Rightarrow> jsnum \<Rightarrow> jsnum \<Rightarrow> int option \<Rightarrow> match_result market_handler" where
  "create_buy_order env buyer_id deal_id bid_price quantity expiry s =
     and_then (create_order env buyer_id (legacy_dto deal_id Buy bid_price quantity expiry s))
       (tag_order deal_id None) s"

subsection \<open>The scheduled sweep\<close>

definition should_arm :: "jsnum \<Rightarrow> secondary_order \<Rightarrow> bool" where
  "should_arm market_price ord \<longleftrightarrow>
     0 < to_number (so_trigger_price ord) \<and>
     (case so_stop_direction ord of
        None \<Rightarrow> False
      | Some direction \<Rightarrow> is_trigger_satisfied direction market_price (to_number (so_trigger_price ord)))"

fun arm_all :: "market_env \<Rightarrow> jsnum \<Rightarrow> secondary_order list \<Rightarrow> secondary_order list market_handler" where
  "arm_all env market_price [] s = done_with [] s"
| "arm_all env market_price (ord # orders) s =
     (if should_arm market_price ord
      then and_then (arm_order env market_price ord)
             (\<lambda>armed. and_then (arm_all env market_price orders) (\<lambda>rest. done_with (armed # rest))) s
      else arm_all env market_price orders s)"

definition process_stop_loss_triggers :: "market_env \<Rightarrow> string \<Rightarrow> secondary_order list market_handler" where
  "process_stop_loss_triggers env token_code s =
     (case get_last_price token_code s of
        None \<Rightarrow> done_with [] s
      | Some market_price \<Rightarrow>
          arm_all env market_price
            (find_where (\<lambda>r. so_token_code r = token_code \<and> so_type r = StopLossOrder \<and> so_status r = OrderOpen)
               (mk_orders s)) s)"

text \<open>A failed match is logged and the sweep goes on.\<close>

fun match_each :: "market_env \<Rightarrow> string list \<Rightarrow> market_state \<Rightarrow> match_result list \<times> market_state" where
  "match_each env [] s = ([], s)"
| "match_each env (i # ids) s =
     (case match_order env i s of
        (Inl _, s1) \<Rightarrow> match_each env ids s1
      | (Inr r, s1) \<Rightarrow> (case match_each env ids s1 of (rs, s2) \<Rightarrow> (r # rs, s2)))"

definition match_open_orders :: "market_env \<Rightarrow> string \<Rightarrow> match_result list market_handler" where
  "match_open_orders env token_code s =
     and_then (process_stop_loss_triggers env token_code)
       (\<lambda>_ s1. case match_each env
                  (map so_order_id (find_where (\<lambda>r. so_token_code r = token_code \<and> is_resting r) (mk_orders s1))) s1
                of (rs, s2) \<Rightarrow> done_with rs s2) s"

definition get_active_token_codes :: "market_state \<Rightarrow> string list" where
  "get_active_token_codes s =
     remdups (map so_token_code (find_where is_resting (mk_orders s)) @
              map so_token_code (find_where (\<lambda>r. so_type r = StopLossOrder \<and> so_status r = OrderOpen
                                                \<and> so_triggered_at r = None) (mk_orders s)))"

fun match_tokens :: "market_env \<Rightarrow> string list \<Rightarrow> market_state \<Rightarrow> market_state" where
  "match_tokens env [] s = s"
| "match_tokens env (c # cs) s = match_tokens env cs (snd (match_open_orders env c s))"

text \<open>
  \<open>runScheduledMatching\<close>: \<open>busy\<close> is the flag \<open>isProcessing\<close>, which the \<open>finally\<close> clears; the
  failure of one token is contained.
\<close>

definition run_scheduled_matching :: "market_env \<Rightarrow> bool \<Rightarrow> market_state \<Rightarrow> market_state" where
  "run_scheduled_matching env busy s =
     (if busy then s else match_tokens env (get_active_token_codes s) s)"

definition match_orders :: "market_env \<Rightarrow> string \<Rightarrow> market_state \<Rightarrow> http_error option \<times> market_state" where
  "match_orders env deal_id s =
     foldl (\<lambda>(e, s1) c. case e of
                Some _ \<Rightarrow> (e, s1)
              | None \<Rightarrow> (case match_open_orders env c s1 of (Inl x, s2) \<Rightarrow> (Some x, s2) | (Inr _, s2) \<Rightarrow> (None, s2)))
       (None, s) (remdups (map so_token_code (find_where (\<lambda>r. so_deal_id r = Some deal_id) (mk_orders s))))"

subsection \<open>Queries\<close>

definition get_orders_by_user :: "string \<Rightarrow> order_status option \<Rightarrow> nat \<Rightarrow> nat \<Rightarrow> market_state \<Rightarrow> secondary_order list \<times> nat" where
  "get_orders_by_user user_id status page limit s =
     (let rows = find_where (\<lambda>r. so_user_id r = user_id \<and> (case status of None \<Rightarrow> True | Some x \<Rightarrow> so_status r = x)) (mk_orders s)
      in (take limit (drop ((page - 1) * limit) (rev rows)), length rows))"

definition get_secondary_trades_by_user :: "string \<Rightarrow> nat \<Rightarrow> nat \<Rightarrow> market_state \<Rightarrow> secondary_trade list \<times> nat" where
  "get_secondary_trades_by_user user_id page limit s =
     (let rows = find_where (\<lambda>t. st_seller_id t = user_id \<or> st_buyer_id t = user_id) (mk_trades s)
      in (take limit (drop ((page - 1) * limit) (rev rows)), length rows))"

definition get_secondary_trade_by_order_id :: "string \<Rightarrow> market_state \<Rightarrow> secondary_trade option" where
  "get_secondary_trade_by_order_id order_id s = find_one (\<lambda>t. st_order_id t = order_id) (mk_trades s)"

record book_level =
  bl_price :: jsnum
  bl_amount :: jsnum
  bl_count :: nat

text \<open>\<open>findRestingOrders\<close>, best price first, and \<open>aggregateLevels\<close>, one level per price.\<close>

definition find_resting_orders :: "market_env \<Rightarrow> string \<Rightarrow> order_side \<Rightarrow> nat \<Rightarrow> market_state \<Rightarrow> secondary_order list" where
  "find_resting_orders env token_code side n s =
     take n (sort_key (price_key (opposite_side side))
       (find_where (\<lambda>r. so_token_code r = token_code \<and> so_side r = side \<and> matchable env r) (mk_orders s)))"

fun add_level :: "jsnum \<Rightarrow> jsnum \<Rightarrow> book_level list \<Rightarrow> book_level list" where
  "add_level price amount [] = [\<lparr>bl_price = price, bl_amount = amount, bl_count = 1\<rparr>]"
| "add_level price amount (l # ls) =
     (if bl_price l = price
      then l\<lparr>bl_amount := round_amount (add_js (bl_amount l) amount), bl_count := bl_count l + 1\<rparr> # ls
      else l # add_level price amount ls)"

definition aggregate_levels :: "market_env \<Rightarrow> string \<Rightarrow> order_side \<Rightarrow> nat \<Rightarrow> market_state \<Rightarrow> book_level list" where
  "aggregate_levels env token_code side depth s =
     take depth (fold (\<lambda>r ls. let amount = sub_js (so_token_amount r) (so_filled_amount r)
                              in if amount \<le> qty_epsilon then ls
                                 else add_level (so_price_per_token r) amount ls)
                  (find_resting_orders env token_code side (depth * 4) s) [])"

definition get_order_book ::
  "market_env \<Rightarrow> string \<Rightarrow> nat \<Rightarrow> market_state \<Rightarrow> book_level list \<times> book_level list \<times> jsnum option" where
  "get_order_book env token_code depth s =
     (aggregate_levels env token_code Buy depth s, aggregate_levels env token_code Sell depth s,
      get_last_price token_code s)"

definition get_deal_order_book :: "string \<Rightarrow> market_state \<Rightarrow> secondary_order list \<times> secondary_order list" where
  "get_deal_order_book deal_id s =
     (sort_key so_price_per_token (find_where (\<lambda>r. so_deal_id r = Some deal_id \<and> so_side r = Sell) (mk_orders s)),
      sort_key (\<lambda>r. - so_price_per_token r) (find_where (\<lambda>r. so_deal_id r = Some deal_id \<and> so_side r = Buy) (mk_orders s)))"

end
