(* ===== verification/MarketMatching.thy ===== *)
theory MarketMatching
  imports Marketplace
begin

text \<open>
  The correctness of the secondary market: every filled unit of every order is backed by a
  trade settled on chain and no order is ever filled beyond its size. Both are part of an
  invariant of the tables (\<open>book_inv\<close>) that every operation of the service keeps, and that
  therefore holds in all reachable states. What follows from it is in theory \<open>MarketOutcomes\<close>.
\<close>

subsection \<open>Units\<close>

text \<open>The number of units \<open>10 ^ - 7\<close> of a column.\<close>

definition units :: "jsnum \<Rightarrow> int" where
  "units x = \<lfloor>x * 10 ^ 7 + 1 / 2\<rfloor>"

lemma units_dec: "\<bar>n\<bar> \<le> 2 ^ 50 \<Longrightarrow> units (dec 7 n) = n"
  unfolding units_def by (rule floor_unique) (use dec_err [of n 7] in \<open>linarith+\<close>)

lemma qty_epsilon_dec: "qty_epsilon = dec 7 1"
  by (simp add: qty_epsilon_def lit_def dec_def)

lemma round_amount_dec:
  "\<bar>a\<bar> \<le> 2 ^ 50 \<Longrightarrow> round_amount (dec 7 a) = dec 7 a"
  "\<bar>a\<bar> \<le> 2 ^ 50 \<Longrightarrow> \<bar>b\<bar> \<le> 2 ^ 50 \<Longrightarrow> \<bar>a + b\<bar> \<le> 2 ^ 50 \<Longrightarrow>
     round_amount (add_js (dec 7 a) (dec 7 b)) = dec 7 (a + b)"
  "\<bar>a\<bar> \<le> 2 ^ 50 \<Longrightarrow> \<bar>b\<bar> \<le> 2 ^ 50 \<Longrightarrow> \<bar>a - b\<bar> \<le> 2 ^ 50 \<Longrightarrow>
     round_amount (sub_js (dec 7 a) (dec 7 b)) = dec 7 (a - b)"
  by (simp_all add: round_amount_def to_fixed_dec to_fixed_add to_fixed_sub)

subsection \<open>Backing of the filled amounts\<close>

definition settled_for :: "string \<Rightarrow> secondary_trade \<Rightarrow> bool" where
  "settled_for i t \<longleftrightarrow>
     st_status t = TradeSettled \<and>
     (case st_legs t of None \<Rightarrow> False | Some (taker, maker) \<Rightarrow> i = taker \<or> i = maker)"

definition settled_units :: "string \<Rightarrow> secondary_trade list \<Rightarrow> int" where
  "settled_units i trades = (\<Sum>t\<leftarrow>filter (settled_for i) trades. units (st_token_amount t))"

definition order_backed :: "secondary_trade list \<Rightarrow> secondary_order \<Rightarrow> bool" where
  "order_backed trades r \<longleftrightarrow>
     (\<exists>a f. so_token_amount r = dec 7 a \<and> so_filled_amount r = dec 7 f \<and>
            0 \<le> f \<and> f \<le> a \<and> a \<le> 2 ^ 50 \<and> f = settled_units (so_order_id r) trades)"

definition order_known :: "(nat \<Rightarrow> string) \<Rightarrow> (nat \<Rightarrow> string) \<Rightarrow> nat \<Rightarrow> secondary_order \<Rightarrow> bool" where
  "order_known uuid stamp n r \<longleftrightarrow>
     (\<exists>k<n. so_id r = uuid k) \<and> (\<exists>k<n. so_order_id r = ''sord'' @ ''-'' @ stamp k)"

definition trade_known :: "(nat \<Rightarrow> string) \<Rightarrow> nat \<Rightarrow> secondary_order list \<Rightarrow> secondary_trade \<Rightarrow> bool" where
  "trade_known uuid n orders t \<longleftrightarrow>
     (\<exists>k<n. st_id t = uuid k) \<and>
     (\<forall>taker maker. st_legs t = Some (taker, maker) \<longrightarrow>
        taker \<in> so_order_id ` set orders \<and> maker \<in> so_order_id ` set orders)"

definition book_inv ::
  "(nat \<Rightarrow> string) \<Rightarrow> (nat \<Rightarrow> string) \<Rightarrow> market_state \<Rightarrow> bool" where
  "book_inv uuid stamp s \<longleftrightarrow>
     distinct (map so_id (mk_orders s)) \<and> distinct (map so_order_id (mk_orders s)) \<and>
     (\<forall>r\<in>set (mk_orders s). order_backed (mk_trades s) r \<and> order_known uuid stamp (mk_serial s) r) \<and>
     (\<forall>t\<in>set (mk_trades s). trade_known uuid (mk_serial s) (mk_orders s) t)"

lemma update_by_key:
  assumes "distinct (map k t)" "r \<in> set t" "k r' = k r"
  shows "update_where (\<lambda>x. k x = k r') (\<lambda>_. r') t = map (\<lambda>x. if x = r then r' else x) t"
proof -
  have "k x = k r \<longleftrightarrow> x = r" if "x \<in> set t" for x
    using assms(1,2) that by (auto simp: distinct_map dest: inj_onD)
  then show ?thesis using assms(3) by (simp add: update_where_def)
qed

text \<open>Replacing an order by one with the same keys.\<close>

definition same_keys :: "secondary_order \<Rightarrow> secondary_order \<Rightarrow> bool" where
  "same_keys r r' \<longleftrightarrow> so_id r' = so_id r \<and> so_order_id r' = so_order_id r"

lemma map_replace:
  assumes "r \<in> set t \<Longrightarrow> k r' = k r"
  shows "map k (map (\<lambda>x. if x = r then r' else x) t) = map k t"
  using assms by (auto simp: o_def)

lemma save_order_replaces:
  assumes "book_inv uuid stamp s" "r \<in> set (mk_orders s)" "same_keys r r'"
  shows "mk_orders (save_order r' s) = map (\<lambda>x. if x = r then r' else x) (mk_orders s)"
  using assms update_by_key [of so_id "mk_orders s" r r'] by (simp add: save_order_def book_inv_def same_keys_def)

lemma save_order_simps [simp]:
  "mk_trades (save_order r s) = mk_trades s" "mk_serial (save_order r s) = mk_serial s"
  "mk_users (save_order r s) = mk_users s" "mk_ledger (save_order r s) = mk_ledger s"
  by (simp_all add: save_order_def)

lemma order_known_same: "same_keys r r' \<Longrightarrow> order_known uuid stamp n r' = order_known uuid stamp n r"
  by (simp add: order_known_def same_keys_def)

lemma save_order_ids:
  assumes "book_inv uuid stamp s" "r \<in> set (mk_orders s)" "same_keys r r'"
  shows "map so_id (mk_orders (save_order r' s)) = map so_id (mk_orders s)"
    and "map so_order_id (mk_orders (save_order r' s)) = map so_order_id (mk_orders s)"
  using assms(3) by (auto simp: save_order_replaces [OF assms] map_replace same_keys_def)

text \<open>The fields the invariant is about.\<close>

definition same_size :: "secondary_order \<Rightarrow> secondary_order \<Rightarrow> bool" where
  "same_size r r' \<longleftrightarrow> same_keys r r' \<and> so_token_amount r' = so_token_amount r \<and> so_filled_amount r' = so_filled_amount r"

lemma order_backed_same: "same_size r r' \<Longrightarrow> order_backed ts r' = order_backed ts r"
  by (simp add: order_backed_def same_size_def same_keys_def)

lemma trade_known_ids:
  "map so_order_id orders' = map so_order_id orders \<Longrightarrow> trade_known uuid n orders' t = trade_known uuid n orders t"
  by (simp add: trade_known_def flip: set_map)

lemma save_order_inv:
  assumes inv: "book_inv uuid stamp s" and r: "r \<in> set (mk_orders s)" and same: "same_size r r'"
  shows "book_inv uuid stamp (save_order r' s)" "r' \<in> set (mk_orders (save_order r' s))"
proof -
  have keys: "same_keys r r'" using same by (simp add: same_size_def)
  note ids = save_order_ids [OF inv r keys]
  show "r' \<in> set (mk_orders (save_order r' s))" using r by (auto simp: save_order_replaces [OF inv r keys])
  have "order_backed (mk_trades s) x \<and> order_known uuid stamp (mk_serial s) x"
    if "x \<in> set (mk_orders (save_order r' s))" for x
    using that inv r same order_backed_same [OF same] order_known_same [OF keys]
    by (auto simp: save_order_replaces [OF inv r keys] book_inv_def split: if_splits)
  then show "book_inv uuid stamp (save_order r' s)"
    using inv unfolding book_inv_def save_order_simps ids trade_known_ids [OF ids(2)] by blast
qed

subsection \<open>The trade of a fill\<close>

text \<open>A fill adds one trade, settled or, when the settlement fails, pending.\<close>

definition fill_trade ::
  "market_env \<Rightarrow> secondary_order \<Rightarrow> secondary_order \<Rightarrow> jsnum \<Rightarrow> trade_status \<Rightarrow> market_state \<Rightarrow> market_state \<Rightarrow> bool" where
  "fill_trade env taker maker amount status s s' \<longleftrightarrow>
     (\<exists>t. mk_trades s' = mk_trades s @ [t] \<and> st_status t = status \<and> st_token_amount t = amount
        \<and> st_legs t = Some (so_order_id taker, so_order_id maker) \<and> st_id t = me_uuid env (mk_serial s))
     \<and> mk_orders s' = mk_orders s \<and> mk_users s' = mk_users s \<and> mk_serial s' = Suc (mk_serial s)"

lemma update_last:
  "\<forall>t\<in>set ts. k t \<noteq> i \<Longrightarrow> k u = i \<Longrightarrow> update_where (\<lambda>r. k r = i) (\<lambda>_. v) (ts @ [u]) = ts @ [v]"
  by (simp add: update_where_def map_idI)

lemma emit_event_frame [simp]:
  "mk_orders (snd (emit_event env p ev s)) = mk_orders s" "mk_trades (snd (emit_event env p ev s)) = mk_trades s"
  "mk_serial (snd (emit_event env p ev s)) = mk_serial s" "mk_users (snd (emit_event env p ev s)) = mk_users s"
  "mk_ledger (snd (emit_event env p ev s)) = mk_ledger s"
  by (simp_all add: emit_event_def split: option.splits)

lemma new_trade_simps [simp]:
  "st_id (new_trade env sl bu c a p l s) = me_uuid env (mk_serial s)"
  "st_token_amount (new_trade env sl bu c a p l s) = a"
  "st_legs (new_trade env sl bu c a p l s) = l"
  "st_status (new_trade env sl bu c a p l s) = TradePending"
  by (simp_all add: new_trade_def split: prod.splits)

lemma settle_trade_ok:
  assumes "settle_trade env t bw sw (insert_trade t s) = (Inr h, s')" "\<forall>u\<in>set (mk_trades s). st_id u \<noteq> st_id t"
  shows "\<exists>u. mk_trades s' = mk_trades s @ [u] \<and> st_status u = TradeSettled \<and> st_token_amount u = st_token_amount t
      \<and> st_legs u = st_legs t \<and> st_id u = st_id t"
    and "mk_orders s' = mk_orders s \<and> mk_users s' = mk_users s \<and> mk_serial s' = Suc (mk_serial s)"
  using assms
  by (auto simp: settle_trade_def notify_parties_def save_trade_def insert_trade_def insert_row_def Let_def
        update_last [of "mk_trades s" st_id] split: sum.splits)

lemma settle_trade_err:
  "settle_trade env t bw sw s = (Inl e, s') \<Longrightarrow> s' = s"
  by (auto simp: settle_trade_def Let_def split: sum.splits)

lemma record_fill_ok:
  assumes fill: "record_fill env taker maker amount price sl bu s = (Inr f, s')"
    and new: "\<forall>u\<in>set (mk_trades s). st_id u \<noteq> me_uuid env (mk_serial s)"
  shows "fill_trade env taker maker amount TradeSettled s s'"
    and "of_amount f = amount \<and> of_price_per_token f = price \<and> of_maker_order_id f = so_order_id maker"
proof -
  let ?t = "new_trade env sl bu (so_token_code taker) amount price (Some (so_order_id taker, so_order_id maker)) s"
  from fill obtain bw sw h where settle: "settle_trade env ?t bw sw (insert_trade ?t s) = (Inr h, s')"
    and f: "of_amount f = amount \<and> of_price_per_token f = price \<and> of_maker_order_id f = so_order_id maker"
    by (auto simp: record_fill_def and_then_def Let_def split: option.splits if_splits prod.splits sum.splits)
  from settle_trade_ok [OF settle] new show "fill_trade env taker maker amount TradeSettled s s'"
    by (simp add: fill_trade_def)
  show "of_amount f = amount \<and> of_price_per_token f = price \<and> of_maker_order_id f = so_order_id maker" by (rule f)
qed

lemma record_fill_err:
  assumes "record_fill env taker maker amount price sl bu s = (Inl e, s')"
  shows "s' = s \<or> fill_trade env taker maker amount TradePending s s'"
  using assms
  by (auto simp: record_fill_def and_then_def Let_def fill_trade_def insert_trade_def insert_row_def
        split: option.splits if_splits prod.splits sum.splits dest!: settle_trade_err)

lemma trade_id_new:
  assumes "book_inv uuid stamp s" "inj uuid" "t \<in> set (mk_trades s)"
  shows "st_id t \<noteq> uuid (mk_serial s)"
proof -
  obtain k where "k < mk_serial s" "st_id t = uuid k" using assms by (auto simp: book_inv_def trade_known_def)
  then show ?thesis using assms(2) by (auto dest: injD)
qed

lemma known_mono:
  "order_known uuid stamp n r \<Longrightarrow> order_known uuid stamp (Suc n) r"
  "trade_known uuid n os t \<Longrightarrow> trade_known uuid (Suc n) os t"
  by (auto simp: order_known_def trade_known_def less_Suc_eq)

lemma settled_units_snoc:
  "settled_units i (ts @ [t]) = settled_units i ts + (if settled_for i t then units (st_token_amount t) else 0)"
  by (simp add: settled_units_def)

lemma fill_trade_pending_inv:
  assumes inv: "book_inv (me_uuid env) stamp s" and t: "fill_trade env taker maker amount TradePending s s'"
    and legs: "taker \<in> set (mk_orders s)" "maker \<in> set (mk_orders s)"
  shows "book_inv (me_uuid env) stamp s'"
proof -
  obtain t where ts: "mk_trades s' = mk_trades s @ [t]" "st_status t = TradePending"
      "st_legs t = Some (so_order_id taker, so_order_id maker)" "st_id t = me_uuid env (mk_serial s)"
    and frame: "mk_orders s' = mk_orders s" "mk_serial s' = Suc (mk_serial s)"
    using assms(2) by (auto simp: fill_trade_def)
  have "order_backed (mk_trades s') r = order_backed (mk_trades s) r" for r
    using ts(2) by (simp add: order_backed_def ts(1) settled_units_snoc settled_for_def)
  moreover have "trade_known (me_uuid env) (mk_serial s') (mk_orders s') t"
    using ts legs by (auto simp: trade_known_def frame)
  ultimately show ?thesis using inv by (auto simp: book_inv_def ts(1) frame known_mono)
qed

text \<open>A settled fill updates both legs by the same amount.\<close>

lemma fill_order_simps [simp]:
  "so_id (fill_order env m r) = so_id r" "so_order_id (fill_order env m r) = so_order_id r"
  "so_token_amount (fill_order env m r) = so_token_amount r" "so_side (fill_order env m r) = so_side r"
  "so_user_id (fill_order env m r) = so_user_id r" "so_price_per_token (fill_order env m r) = so_price_per_token r"
  "so_filled_amount (fill_order env m r) = round_amount (add_js (so_filled_amount r) m)"
  by (simp_all add: fill_order_def Let_def)

lemma fill_order_keys: "same_keys r (fill_order env m r)"
  by (simp add: same_keys_def)

definition fits :: "int \<Rightarrow> secondary_order \<Rightarrow> bool" where
  "fits m r \<longleftrightarrow> (\<exists>a f. so_token_amount r = dec 7 a \<and> so_filled_amount r = dec 7 f \<and>
                    0 \<le> m \<and> 0 \<le> f \<and> f + m \<le> a \<and> a \<le> 2 ^ 50)"

lemma fill_order_backed:
  assumes b: "order_backed ts r" and fit: "fits m r"
    and t: "settled_for (so_order_id r) t" "st_token_amount t = dec 7 m"
  shows "order_backed (ts @ [t]) (fill_order env (dec 7 m) r)"
proof -
  from b obtain a f where r: "so_token_amount r = dec 7 a" "so_filled_amount r = dec 7 f" "0 \<le> f" "f \<le> a" "a \<le> 2 ^ 50"
    "f = settled_units (so_order_id r) ts" by (auto simp: order_backed_def)
  from fit obtain a' f' where r': "so_token_amount r = dec 7 a'" "so_filled_amount r = dec 7 f'"
    "0 \<le> m" "0 \<le> f'" "f' + m \<le> a'" "a' \<le> 2 ^ 50" by (auto simp: fits_def)
  have [simp]: "a' = a" "f' = f" using dec_eq_iff [of a a' 7] dec_eq_iff [of f f' 7] r r' by auto
  have "round_amount (add_js (dec 7 f) (dec 7 m)) = dec 7 (f + m)" by (rule round_amount_dec(2)) (use r r' in auto)
  moreover have "settled_units (so_order_id r) (ts @ [t]) = f + m"
    using r(6) r' t by (simp add: settled_units_snoc units_dec)
  ultimately show ?thesis using r r' unfolding order_backed_def by (intro exI [of _ a] exI [of _ "f + m"]) simp
qed

lemma book_inv_fill:
  assumes inv: "book_inv (me_uuid env) stamp s"
    and t: "fill_trade env taker maker (dec 7 m) TradeSettled s s1"
    and legs: "taker \<in> set (mk_orders s)" "maker \<in> set (mk_orders s)" "so_side taker \<noteq> so_side maker"
    and fit: "fits m taker" "fits m maker"
  defines "s2 \<equiv> save_order (fill_order env (dec 7 m) maker) (save_order (fill_order env (dec 7 m) taker) s1)"
  shows "book_inv (me_uuid env) stamp s2"
    and "mk_orders s2 = map (\<lambda>r. if r = taker then fill_order env (dec 7 m) taker
                            else if r = maker then fill_order env (dec 7 m) maker else r) (mk_orders s)"
proof -
  let ?tk = "fill_order env (dec 7 m) taker" and ?mk = "fill_order env (dec 7 m) maker"
  obtain t where ts: "mk_trades s1 = mk_trades s @ [t]" "st_status t = TradeSettled" "st_token_amount t = dec 7 m"
      "st_legs t = Some (so_order_id taker, so_order_id maker)" "st_id t = me_uuid env (mk_serial s)"
    and frame: "mk_orders s1 = mk_orders s" "mk_serial s1 = Suc (mk_serial s)"
    using t by (auto simp: fill_trade_def)
  have dist: "distinct (map so_id (mk_orders s))" "distinct (map so_order_id (mk_orders s))"
    using inv by (simp_all add: book_inv_def)
  have eq: "x = y" if "x \<in> set (mk_orders s)" "y \<in> set (mk_orders s)" "so_id x = so_id y \<or> so_order_id x = so_order_id y" for x y
    using that dist by (auto simp: distinct_map dest: inj_onD)
  have ne: "taker \<noteq> maker" using legs(3) by auto
  have first: "mk_orders (save_order ?tk s1) = map (\<lambda>x. if x = taker then ?tk else x) (mk_orders s)"
    using update_by_key [of so_id "mk_orders s" taker ?tk] dist legs by (simp add: save_order_def frame)
  have maker_in: "maker \<in> set (mk_orders (save_order ?tk s1))" using legs ne by (auto simp: first)
  have ids: "map so_id (mk_orders (save_order ?tk s1)) = map so_id (mk_orders s)"
    by (simp add: first map_replace)
  show orders: "mk_orders s2 = map (\<lambda>r. if r = taker then ?tk else if r = maker then ?mk else r) (mk_orders s)"
  proof -
    have "mk_orders s2 = map (\<lambda>x. if x = maker then ?mk else x) (mk_orders (save_order ?tk s1))"
      using update_by_key [of so_id "mk_orders (save_order ?tk s1)" maker ?mk] maker_in dist(1)
      by (simp add: s2_def save_order_def [of ?mk] ids)
    moreover have "?tk \<noteq> maker" using legs(3) by (metis fill_order_simps(4))
    ultimately show ?thesis by (auto simp: first)
  qed
  have keys: "map so_id (mk_orders s2) = map so_id (mk_orders s)"
    "map so_order_id (mk_orders s2) = map so_order_id (mk_orders s)" by (auto simp: orders)
  have "order_backed (mk_trades s @ [t]) r'" if r': "r' \<in> set (mk_orders s2)" for r'
  proof -
    from r' obtain r where r: "r \<in> set (mk_orders s)"
      and cases: "r' = (if r = taker then ?tk else if r = maker then ?mk else r)" by (auto simp: orders)
    have b: "order_backed (mk_trades s) r" using r inv by (simp add: book_inv_def)
    have for_legs: "settled_for (so_order_id x) t \<longleftrightarrow> x = taker \<or> x = maker" if "x \<in> set (mk_orders s)" for x
      using that legs ts(2,4) eq by (auto simp: settled_for_def)
    show ?thesis
    proof (cases "r = taker \<or> r = maker")
      case True
      then have "fits m r" using fit by auto
      with b have "order_backed (mk_trades s @ [t]) (fill_order env (dec 7 m) r)"
        by (rule fill_order_backed) (use True for_legs r ts(3) in auto)
      with True cases show ?thesis by auto
    next
      case False
      then have "\<not> settled_for (so_order_id r) t" using for_legs r by simp
      then show ?thesis using b False cases by (simp add: order_backed_def settled_units_snoc)
    qed
  qed
  moreover have "order_known (me_uuid env) stamp (Suc (mk_serial s)) r'" if "r' \<in> set (mk_orders s2)" for r'
    using that inv known_mono(1)
    by (auto simp: orders book_inv_def order_known_same [OF fill_order_keys] split: if_splits)
  moreover have "trade_known (me_uuid env) (Suc (mk_serial s)) (mk_orders s2) u" if "u \<in> set (mk_trades s @ [t])" for u
    using that inv legs ts(4,5) known_mono(2)
    unfolding trade_known_ids [OF keys(2)] by (auto simp: book_inv_def trade_known_def less_Suc_eq)
  moreover have "mk_trades s2 = mk_trades s @ [t]" "mk_serial s2 = Suc (mk_serial s)"
    by (simp_all add: s2_def ts(1) frame)
  ultimately show "book_inv (me_uuid env) stamp s2" using dist by (simp add: book_inv_def keys)
qed


subsection \<open>The sweep\<close>

text \<open>
  What a sweep leaves behind: the invariant, orders that differ from the old ones at most in
  the fill, and fills at the prices of makers in the order in which they were offered.
\<close>

lemma remaining_backed:
  assumes "order_backed ts r"
  obtains a f where "so_token_amount r = dec 7 a" "so_filled_amount r = dec 7 f" "0 \<le> f" "f \<le> a" "a \<le> 2 ^ 50"
    "remaining r = dec 7 (a - f)"
proof -
  from assms obtain a f where r: "so_token_amount r = dec 7 a" "so_filled_amount r = dec 7 f" "0 \<le> f" "f \<le> a" "a \<le> 2 ^ 50"
    by (auto simp: order_backed_def)
  moreover have "remaining r = dec 7 (a - f)" unfolding remaining_def r(1,2) by (rule round_amount_dec(3)) (use r in auto)
  ultimately show thesis using that by blast
qed

lemma fill_amount:
  assumes "order_backed ts r" "order_backed ts q" "\<not> remaining r \<le> qty_epsilon" "\<not> remaining q \<le> qty_epsilon"
  obtains m where "round_amount (min (remaining r) (remaining q)) = dec 7 m" "0 \<le> m" "fits m r" "fits m q"
proof -
  from assms(1) obtain a f where r: "so_token_amount r = dec 7 a" "so_filled_amount r = dec 7 f" "0 \<le> f" "f \<le> a"
    "a \<le> 2 ^ 50" "remaining r = dec 7 (a - f)" by (rule remaining_backed)
  from assms(2) obtain b g where q: "so_token_amount q = dec 7 b" "so_filled_amount q = dec 7 g" "0 \<le> g" "g \<le> b"
    "b \<le> 2 ^ 50" "remaining q = dec 7 (b - g)" by (rule remaining_backed)
  let ?m = "min (a - f) (b - g)"
  have "min (remaining r) (remaining q) = dec 7 ?m" unfolding r(6) q(6) by (rule dec_min) (use r q in auto)
  then have "round_amount (min (remaining r) (remaining q)) = dec 7 ?m"
    using round_amount_dec(1) [of ?m] r q by simp
  moreover have "0 \<le> ?m" using r q by simp
  moreover have "fits ?m r" unfolding fits_def by (rule exI [of _ a], rule exI [of _ f]) (use r q in auto)
  moreover have "fits ?m q" unfolding fits_def by (rule exI [of _ b], rule exI [of _ g]) (use r q in auto)
  ultimately show thesis by (rule that)
qed

lemma sweep_inv:
  assumes "sweep_makers env taker makers fills s = (taker', fills', s')"
    and "book_inv (me_uuid env) stamp s" "inj (me_uuid env)"
    and "taker \<in> set (mk_orders s)" "set makers \<subseteq> set (mk_orders s)" "distinct makers"
    and "\<forall>m\<in>set makers. so_side m \<noteq> so_side taker"
  shows "book_inv (me_uuid env) stamp s' \<and> taker' \<in> set (mk_orders s')"
  using assms
proof (induction env taker makers fills s arbitrary: taker' fills' s' rule: sweep_makers.induct)
  case (2 env taker maker makers fills s)
  note inv = "2.prems"(2) and prems = "2.prems"
  let ?amount = "round_amount (min (remaining taker) (remaining maker))"
  let ?sl = "if so_side taker = Sell then so_user_id taker else so_user_id maker"
  let ?bu = "if so_side taker = Sell then so_user_id maker else so_user_id taker"
  show ?case
  proof (cases "remaining taker \<le> qty_epsilon")
    case True
    then show ?thesis using prems by simp
  next
    case go: False
    show ?thesis
    proof (cases "so_user_id maker = so_user_id taker \<or> remaining maker \<le> qty_epsilon \<or> ?amount \<le> qty_epsilon")
      case True
      then have "sweep_makers env taker makers fills s = (taker', fills', s')" using prems(1) go by (auto simp: Let_def split: if_splits)
      moreover have "\<And>t f z. sweep_makers env taker makers fills s = (t, f, z) \<Longrightarrow>
          book_inv (me_uuid env) stamp z \<and> t \<in> set (mk_orders z)"
        using "2.IH"(1-3) [OF go] True prems by (auto simp: Let_def)
      ultimately show ?thesis by blast
    next
      case False
      have backed: "order_backed (mk_trades s) taker" "order_backed (mk_trades s) maker"
        using inv prems by (auto simp: book_inv_def)
      obtain m where m: "?amount = dec 7 m" "0 \<le> m" "fits m taker" "fits m maker"
        by (rule fill_amount [OF backed]) (use go False in auto)
      have new: "\<forall>u\<in>set (mk_trades s). st_id u \<noteq> me_uuid env (mk_serial s)"
        using trade_id_new [OF inv prems(3)] by blast
      show ?thesis
      proof (cases "record_fill env taker maker ?amount (so_price_per_token maker) ?sl ?bu s")
        case (Pair res s1)
        show ?thesis
        proof (cases res)
          case (Inl e)
          then have "taker' = taker" "s' = s1" using prems(1) go False Pair by (auto simp: Let_def)
          moreover have "s1 = s \<or> fill_trade env taker maker ?amount TradePending s s1"
            using record_fill_err Pair Inl by blast
          ultimately show ?thesis
            using inv prems fill_trade_pending_inv [OF inv, of taker maker] by (auto simp: fill_trade_def)
        next
          case (Inr f)
          let ?tk = "fill_order env (dec 7 m) taker" and ?mk = "fill_order env (dec 7 m) maker"
          let ?s2 = "save_order ?mk (save_order ?tk s1)"
          have t: "fill_trade env taker maker (dec 7 m) TradeSettled s s1"
            using record_fill_ok(1) [OF _ new] Pair Inr m(1) by metis
          have sides: "so_side taker \<noteq> so_side maker" using prems by auto
          note fill = book_inv_fill [OF inv t prems(4) _ sides m(3,4)]
          have maker: "maker \<in> set (mk_orders s)" using prems by simp
          note inv2 = fill(1) [OF maker] and orders2 = fill(2) [OF maker]
          have "sweep_makers env ?tk makers (fills @ [f]) ?s2 = (taker', fills', s')"
            using prems(1) go False Pair Inr by (simp add: Let_def m(1))
          moreover have "?tk \<in> set (mk_orders ?s2)" using prems(4) by (auto simp: orders2)
          moreover have "set makers \<subseteq> set (mk_orders ?s2)" using prems(5-7) by (auto simp: orders2)
          ultimately show ?thesis
            using "2.IH"(4) [OF go _ _ refl] False Pair Inr inv2 prems by (simp add: m(1))
        qed
      qed
    qed
  qed
qed simp


subsection \<open>Every operation keeps the invariant\<close>

lemma book_inv_frame:
  "mk_orders s' = mk_orders s \<Longrightarrow> mk_trades s' = mk_trades s \<Longrightarrow> mk_serial s' = mk_serial s \<Longrightarrow>
   book_inv uuid stamp s' = book_inv uuid stamp s"
  by (simp add: book_inv_def)

lemma emit_event_inv [simp]: "book_inv uuid stamp (snd (emit_event env p ev s)) = book_inv uuid stamp s"
  by (rule book_inv_frame) simp_all

lemma emit_event_state: "emit_event env p ev s = (res, s') \<Longrightarrow> s' = snd (emit_event env p ev s)"
  by simp

lemma find_crossing_makers_set:
  "m \<in> set (find_crossing_makers env taker s) \<longleftrightarrow>
     m \<in> set (mk_orders s) \<and> so_token_code m = so_token_code taker \<and> so_side m = opposite_side (so_side taker)
     \<and> matchable env m \<and> crosses taker m"
  by (auto simp: find_crossing_makers_def find_where_def)

lemma opposite_side_neq [simp]: "opposite_side x \<noteq> x"
  by (cases x) (simp_all add: opposite_side_def)

lemma find_crossing_makers_distinct:
  "distinct (map so_id (mk_orders s)) \<Longrightarrow> distinct (find_crossing_makers env taker s)"
  by (simp add: find_crossing_makers_def find_where_def distinct_map)

text \<open>An operation of the market keeps the invariant, and the order it answers with is a row of the table.\<close>

definition keeps_book ::
  "(nat \<Rightarrow> string) \<Rightarrow> (nat \<Rightarrow> string) \<Rightarrow> ('a \<Rightarrow> secondary_order) \<Rightarrow> (http_error + 'a) \<times> market_state \<Rightarrow> bool" where
  "keeps_book uuid stamp row out \<longleftrightarrow>
     book_inv uuid stamp (snd out) \<and> (\<forall>r. fst out = Inr r \<longrightarrow> row r \<in> set (mk_orders (snd out)))"

lemma keeps_book_throw [simp]: "keeps_book uuid stamp row (Inl e, s) \<longleftrightarrow> book_inv uuid stamp s"
  by (simp add: keeps_book_def)

lemma keeps_book_done [simp]:
  "keeps_book uuid stamp row (Inr x, s) \<longleftrightarrow> book_inv uuid stamp s \<and> row x \<in> set (mk_orders s)"
  by (simp add: keeps_book_def)

text \<open>After an event was emitted, or was not because the encryption failed, the rest runs on the same tables.\<close>

lemma keeps_book_emit:
  assumes "book_inv uuid stamp s"
    and "\<And>s1. mk_orders s1 = mk_orders s \<Longrightarrow> book_inv uuid stamp s1 \<Longrightarrow> keeps_book uuid stamp row (k () s1)"
  shows "keeps_book uuid stamp row (and_then (emit_event env p ev) k s)"
  using assms(1) assms(2) [of "s\<lparr>mk_events := mk_events s @ [ev]\<rparr>"]
    book_inv_frame [of "s\<lparr>mk_events := mk_events s @ [ev]\<rparr>" s]
  by (simp add: and_then_def emit_event_def keeps_book_def split: option.splits)

lemma keeps_book_and_then:
  assumes "keeps_book uuid stamp row (m s)"
    and "\<And>x s1. book_inv uuid stamp s1 \<Longrightarrow> row x \<in> set (mk_orders s1) \<Longrightarrow> keeps_book uuid stamp row' (k x s1)"
  shows "keeps_book uuid stamp row' (and_then m k s)"
  using assms by (cases "m s"; cases "fst (m s)") (auto simp: and_then_def keeps_book_def)

lemma match_book_inv:
  assumes inv: "book_inv (me_uuid env) stamp s" and inj: "inj (me_uuid env)" and ord: "ord \<in> set (mk_orders s)"
  shows "keeps_book (me_uuid env) stamp mo_order (match_book env ord s)"
proof -
  let ?makers = "find_crossing_makers env ord s"
  obtain ord1 fills s1 where sweep: "sweep_makers env ord ?makers [] s = (ord1, fills, s1)" by (metis prod_cases3)
  have "book_inv (me_uuid env) stamp s1 \<and> ord1 \<in> set (mk_orders s1)"
    by (rule sweep_inv [OF sweep inv inj ord])
       (use inv in \<open>auto simp: find_crossing_makers_set book_inv_def intro!: find_crossing_makers_distinct\<close>)
  moreover have "book_inv (me_uuid env) stamp (save_order (ord\<lparr>so_status := OrderCancelled, so_cancelled_at := c,
        so_cancel_reason := w\<rparr>) t) \<and> ord\<lparr>so_status := OrderCancelled, so_cancelled_at := c, so_cancel_reason := w\<rparr>
        \<in> set (mk_orders (save_order (ord\<lparr>so_status := OrderCancelled, so_cancelled_at := c, so_cancel_reason := w\<rparr>) t))"
    if "book_inv (me_uuid env) stamp t" "mk_orders t = mk_orders s" for t c w
    using save_order_inv [OF that(1)] ord by (simp add: same_size_def same_keys_def that(2))
  ultimately show ?thesis
    using inv by (auto simp: match_book_def Let_def sweep intro!: keeps_book_emit)
qed

lemma get_orderD: "get_order i s = Some r \<Longrightarrow> r \<in> set (mk_orders s) \<and> so_order_id r = i"
  by (auto simp: get_order_def dest: find_one_SomeD)

lemma arm_order_inv:
  assumes "book_inv uuid stamp s" "ord \<in> set (mk_orders s)"
  shows "keeps_book uuid stamp (\<lambda>x. x) (arm_order env price ord s)"
proof -
  let ?a = "ord\<lparr>so_status := OrderTriggered, so_triggered_at := Some (me_now env)\<rparr>"
  have "same_size ord ?a" by (simp add: same_size_def same_keys_def)
  from save_order_inv [OF assms this] show ?thesis
    by (simp add: arm_order_def Let_def) (rule keeps_book_emit, simp_all)
qed

lemma match_order_inv:
  assumes inv: "book_inv (me_uuid env) stamp s" and inj: "inj (me_uuid env)"
  shows "keeps_book (me_uuid env) stamp mo_order (match_order env i s)"
proof (cases "get_order i s")
  case None
  then show ?thesis using inv by (simp add: match_order_def)
next
  case (Some ord)
  then have ord: "ord \<in> set (mk_orders s)" by (simp add: get_orderD)
  let ?x = "ord\<lparr>so_status := OrderExpired, so_cancelled_at := Some (me_now env), so_cancel_reason := Some ''expired''\<rparr>"
  have "same_size ord ?x" by (simp add: same_size_def same_keys_def)
  note expired = save_order_inv [OF inv ord this]
  have armed: "keeps_book (me_uuid env) stamp mo_order (and_then (arm_order env price ord) (match_book env) s)" for price
    by (rule keeps_book_and_then [where row = "\<lambda>x. x"]) (use arm_order_inv [OF inv ord] match_book_inv inj in auto)
  show ?thesis
    using inv ord expired armed match_book_inv [OF inv inj ord]
    by (auto simp: match_order_def Some no_match_def Let_def split: option.splits)
qed


lemma round_amount_size:
  assumes "0 < x" "x \<le> 10 ^ 8"
  obtains n where "round_amount x = dec 7 n" "0 \<le> n" "n \<le> 2 ^ 50"
proof -
  let ?n = "\<lfloor>x * 10 ^ 7 + 1 / 2\<rfloor>"
  have "round_amount x = dec 7 ?n" using assms(1) by (simp add: round_amount_def to_fixed_def dec_def)
  moreover have "0 \<le> ?n" using assms(1) by simp
  moreover have "?n \<le> 2 ^ 50"
  proof -
    have "x * 10 ^ 7 \<le> 10 ^ 8 * 10 ^ 7" by (rule mult_right_mono [OF assms(2)]) simp
    then have "x * 10 ^ 7 + 1 / 2 < of_int (2 ^ 50)" by simp
    then show ?thesis by (simp add: floor_le_iff)
  qed
  ultimately show thesis by (rule that)
qed

lemma new_order_simps [simp]:
  "so_id (new_order env u dto s) = me_uuid env (mk_serial s)"
  "so_order_id (new_order env u dto s) = ''sord'' @ ''-'' @ me_stamp env (mk_serial s)"
  "so_filled_amount (new_order env u dto s) = 0"
  "so_token_amount (new_order env u dto s) = round_amount (od_token_amount dto)"
  by (simp_all add: new_order_def generate_id_def Let_def)

lemma insert_order_inv:
  assumes inv: "book_inv (me_uuid env) (me_stamp env) s" and inj: "inj (me_uuid env)" "inj (me_stamp env)"
    and size: "0 < od_token_amount dto" "od_token_amount dto \<le> 10 ^ 8"
  shows "book_inv (me_uuid env) (me_stamp env) (insert_order (new_order env u dto s) s)"
proof -
  let ?o = "new_order env u dto s" and ?n = "mk_serial s"
  obtain n where n: "round_amount (od_token_amount dto) = dec 7 n" "0 \<le> n" "n \<le> 2 ^ 50"
    by (rule round_amount_size [OF size])
  have old: "so_id r \<noteq> me_uuid env ?n \<and> so_order_id r \<noteq> so_order_id ?o" if "r \<in> set (mk_orders s)" for r
  proof -
    have "order_known (me_uuid env) (me_stamp env) ?n r" using that inv by (simp add: book_inv_def)
    then obtain k l where "k < ?n" "so_id r = me_uuid env k" "l < ?n" "so_order_id r = ''sord'' @ ''-'' @ me_stamp env l"
      by (auto simp: order_known_def)
    then show ?thesis using inj by (auto dest: injD)
  qed
  have "\<not> settled_for (so_order_id ?o) t" if "t \<in> set (mk_trades s)" for t
    using that inv old by (fastforce simp: settled_for_def book_inv_def trade_known_def split: option.splits prod.splits)
  then have "settled_units (so_order_id ?o) (mk_trades s) = 0"
    by (simp add: settled_units_def filter_False)
  then have "order_backed (mk_trades s) ?o"
    using n unfolding order_backed_def by (intro exI [of _ n] exI [of _ 0]) simp
  moreover have "order_known (me_uuid env) (me_stamp env) (Suc ?n) ?o" by (auto simp: order_known_def)
  moreover have "trade_known (me_uuid env) (Suc ?n) (mk_orders s @ [?o]) t" if "t \<in> set (mk_trades s)" for t
    using that inv by (fastforce simp: book_inv_def trade_known_def less_Suc_eq)
  moreover have "so_id ?o \<notin> so_id ` set (mk_orders s)" "so_order_id ?o \<notin> so_order_id ` set (mk_orders s)"
    using old by force+
  ultimately show ?thesis
    using inv by (auto simp: book_inv_def insert_order_def insert_row_def known_mono simp del: new_order_simps(1,2))
qed

lemma order_error_size: "order_error u dto s = None \<Longrightarrow> 0 < od_token_amount dto"
  by (auto simp: order_error_def split: option.splits if_splits)

lemma create_order_inv:
  assumes inv: "book_inv (me_uuid env) (me_stamp env) s" and inj: "inj (me_uuid env)" "inj (me_stamp env)"
    and size: "od_token_amount dto \<le> 10 ^ 8"
  shows "keeps_book (me_uuid env) (me_stamp env) mo_order (create_order env u dto s)"
  using inv match_order_inv [OF insert_order_inv [OF inv inj _ size] inj(1)] order_error_size
  by (auto simp: create_order_def Let_def split: option.splits)

lemma cancel_order_inv:
  assumes "book_inv uuid stamp s"
  shows "keeps_book uuid stamp (\<lambda>x. x) (cancel_order env i u reason s)"
proof (cases "get_order i s")
  case None
  then show ?thesis using assms by (simp add: cancel_order_def)
next
  case (Some ord)
  then have ord: "ord \<in> set (mk_orders s)" by (simp add: get_orderD)
  let ?c = "ord\<lparr>so_status := OrderCancelled, so_cancelled_at := Some (me_now env),
              so_cancel_reason := Some (case reason of None \<Rightarrow> ''user_requested'' | Some r \<Rightarrow> r)\<rparr>"
  have "same_size ord ?c" by (simp add: same_size_def same_keys_def)
  from save_order_inv [OF assms ord this] assms show ?thesis
    by (auto simp: cancel_order_def Some Let_def intro!: keeps_book_emit)
qed

lemma tag_order_inv:
  assumes "book_inv uuid stamp s" "mo_order r \<in> set (mk_orders s)"
  shows "keeps_book uuid stamp mo_order (tag_order d i r s)"
proof -
  let ?t = "mo_order r\<lparr>so_deal_id := Some d,
              so_investment_id := (case i of None \<Rightarrow> so_investment_id (mo_order r) | i \<Rightarrow> i)\<rparr>"
  have "same_size (mo_order r) ?t" by (simp add: same_size_def same_keys_def)
  from save_order_inv [OF assms this] show ?thesis by (simp add: tag_order_def Let_def)
qed

lemma legacy_orders_inv:
  assumes "book_inv (me_uuid env) (me_stamp env) s" "inj (me_uuid env)" "inj (me_stamp env)" "q \<le> 10 ^ 8"
  shows "keeps_book (me_uuid env) (me_stamp env) mo_order (create_sell_order env u iv d p q x s)"
    and "keeps_book (me_uuid env) (me_stamp env) mo_order (create_buy_order env u d p q x s)"
  using assms
  by (auto simp: create_sell_order_def create_buy_order_def legacy_dto_def
        intro!: keeps_book_and_then [where row = mo_order] create_order_inv tag_order_inv)

text \<open>Arming stops changes neither the sizes of the orders nor the trades.\<close>

lemma save_order_keys:
  assumes "book_inv uuid stamp s" "r \<in> set (mk_orders s)" "same_size r r'"
    and "\<exists>q \<in> set (mk_orders s). same_size q x"
  shows "\<exists>q \<in> set (mk_orders (save_order r' s)). same_size q x"
proof -
  have "same_keys r r'" using assms(3) by (simp add: same_size_def)
  note os = save_order_replaces [OF assms(1,2) this]
  obtain q where q: "q \<in> set (mk_orders s)" "same_size q x" using assms(4) by blast
  show ?thesis
  proof (rule bexI)
    show "(if q = r then r' else q) \<in> set (mk_orders (save_order r' s))" using q(1) by (auto simp: os)
    show "same_size (if q = r then r' else q) x" using q(2) assms(3) by (simp add: same_size_def same_keys_def)
  qed
qed

lemma arm_all_inv:
  assumes "book_inv uuid stamp s" "\<forall>r \<in> set os. \<exists>q \<in> set (mk_orders s). same_size q r"
  shows "book_inv uuid stamp (snd (arm_all env price os s))"
  using assms
proof (induction os arbitrary: s)
  case (Cons r rs)
  show ?case
  proof (cases "should_arm price r")
    case True
    let ?a = "r\<lparr>so_status := OrderTriggered, so_triggered_at := Some (me_now env)\<rparr>"
    obtain q where q: "q \<in> set (mk_orders s)" "same_size q r" using Cons.prems(2) by auto
    then have same: "same_size q ?a" by (simp add: same_size_def same_keys_def)
    note saved = save_order_inv(1) [OF Cons.prems(1) q(1) same]
    let ?s1 = "save_order ?a s"
    have rest: "\<forall>x \<in> set rs. \<exists>q \<in> set (mk_orders t). same_size q x" if "mk_orders t = mk_orders ?s1" for t
      using Cons.prems(2) save_order_keys [OF Cons.prems(1) q(1) same] by (simp add: that)
    obtain res s2 where arm: "arm_order env price r s = (res, s2)" by (metis prod.exhaust)
    then have s2: "s2 = snd (emit_event env ''secondary_order.triggered''
        (OrderTriggeredEvent (so_order_id ?a) price (to_number (so_trigger_price ?a))) ?s1)"
      by (auto simp: arm_order_def Let_def and_then_def split: prod.splits sum.splits)
    have inv2: "book_inv uuid stamp s2" using saved by (simp add: s2)
    have "book_inv uuid stamp (snd (arm_all env price rs s2))"
      by (rule Cons.IH [OF inv2 rest]) (simp add: s2)
    with inv2 True arm show ?thesis by (auto simp: and_then_def split: prod.splits sum.splits)
  next
    case False
    then show ?thesis using Cons by simp
  qed
qed simp

lemma process_stop_loss_triggers_inv:
  "book_inv uuid stamp s \<Longrightarrow> book_inv uuid stamp (snd (process_stop_loss_triggers env c s))"
  unfolding process_stop_loss_triggers_def
  by (auto simp: find_where_def same_size_def same_keys_def split: option.splits intro!: arm_all_inv)

lemma match_each_inv:
  assumes "book_inv (me_uuid env) stamp s" "inj (me_uuid env)"
  shows "book_inv (me_uuid env) stamp (snd (match_each env is s))"
  using assms(1)
proof (induction "is" arbitrary: s)
  case (Cons i ids)
  have "book_inv (me_uuid env) stamp (snd (match_order env i s))"
    using match_order_inv [OF Cons.prems assms(2)] by (simp add: keeps_book_def)
  from Cons.IH [OF this] show ?case
    by (cases "match_order env i s") (auto split: sum.splits prod.splits)
qed simp

lemma match_open_orders_inv:
  assumes "book_inv (me_uuid env) stamp s" "inj (me_uuid env)"
  shows "book_inv (me_uuid env) stamp (snd (match_open_orders env c s))"
proof -
  obtain res s1 where p: "process_stop_loss_triggers env c s = (res, s1)" by (metis prod.exhaust)
  have "book_inv (me_uuid env) stamp s1" using process_stop_loss_triggers_inv [OF assms(1), of env c] p by simp
  from this match_each_inv [OF this assms(2)] show ?thesis
    by (auto simp: match_open_orders_def and_then_def p split: sum.splits prod.splits) (metis snd_conv)
qed

lemma match_tokens_inv:
  "book_inv (me_uuid env) stamp s \<Longrightarrow> inj (me_uuid env) \<Longrightarrow> book_inv (me_uuid env) stamp (match_tokens env cs s)"
  by (induction cs arbitrary: s) (simp_all add: match_open_orders_inv)

lemma run_scheduled_matching_inv:
  "book_inv (me_uuid env) stamp s \<Longrightarrow> inj (me_uuid env) \<Longrightarrow>
   book_inv (me_uuid env) stamp (run_scheduled_matching env busy s)"
  by (simp add: run_scheduled_matching_def match_tokens_inv)

lemma create_secondary_trade_inv:
  assumes inv: "book_inv (me_uuid env) stamp s" and inj: "inj (me_uuid env)"
  shows "book_inv (me_uuid env) stamp (snd (create_secondary_trade env sl bu c a p s))"
proof -
  let ?t = "new_trade env sl bu c a p None s"
  have new: "\<forall>u\<in>set (mk_trades s). st_id u \<noteq> st_id ?t" using trade_id_new [OF inv inj] by auto
  have added: "book_inv (me_uuid env) stamp s'"
    if "mk_trades s' = mk_trades s @ [t]" "st_legs t = None" "st_id t = me_uuid env (mk_serial s)"
      "mk_orders s' = mk_orders s" "mk_serial s' = Suc (mk_serial s)" for s' t
    using inv that
    by (auto simp: book_inv_def trade_known_def order_backed_def settled_units_snoc settled_for_def known_mono less_Suc_eq)
  show ?thesis
  proof (cases "settle_trade env ?t (the (us_wallet_address (the (find_user bu (mk_users s)))))
           (the (us_wallet_address (the (find_user sl (mk_users s))))) (insert_trade ?t s)")
    case (Pair res s1)
    have "book_inv (me_uuid env) stamp s1"
    proof (cases res)
      case (Inl e)
      then have "s1 = insert_trade ?t s" using Pair settle_trade_err by blast
      then show ?thesis by (intro added [of s1 ?t]) (simp_all add: insert_trade_def insert_row_def)
    next
      case (Inr h)
      with Pair have "settle_trade env ?t (the (us_wallet_address (the (find_user bu (mk_users s)))))
           (the (us_wallet_address (the (find_user sl (mk_users s))))) (insert_trade ?t s) = (Inr h, s1)" by simp
      from settle_trade_ok [OF this new] show ?thesis by (auto intro: added)
    qed
    with inv Pair show ?thesis
      by (auto simp: create_secondary_trade_def Let_def split: option.splits sum.splits)
  qed
qed


lemma match_orders_inv:
  assumes "book_inv (me_uuid env) stamp s" "inj (me_uuid env)"
  shows "book_inv (me_uuid env) stamp (snd (match_orders env d s))"
proof -
  have "book_inv (me_uuid env) stamp (snd (foldl (\<lambda>(e, s1) c. case e of
                Some _ \<Rightarrow> (e, s1)
              | None \<Rightarrow> (case match_open_orders env c s1 of (Inl x, s2) \<Rightarrow> (Some x, s2) | (Inr _, s2) \<Rightarrow> (None, s2)))
       (e0, s0) cs))" if "book_inv (me_uuid env) stamp s0" for e0 :: "http_error option" and s0 cs
    using that
  proof (induction cs arbitrary: e0 s0)
    case (Cons c cs)
    have "book_inv (me_uuid env) stamp (snd (match_open_orders env c s0))"
      by (rule match_open_orders_inv [OF Cons.prems assms(2)])
    with Cons show ?case
      by (cases "match_open_orders env c s0") (auto split: option.splits sum.splits)
  qed simp
  then show ?thesis using assms(1) by (simp add: match_orders_def)
qed

subsection \<open>Reachable markets\<close>

text \<open>
  Any sequence of requests and sweeps, each with its own time, chain and queue; the
  generators of identifiers are common. An order is for at most a hundred million tokens.
\<close>

inductive market_step :: "(nat \<Rightarrow> string) \<Rightarrow> (nat \<Rightarrow> string) \<Rightarrow> market_state \<Rightarrow> market_state \<Rightarrow> bool"
  for uuid stamp :: "nat \<Rightarrow> string" where
  place: "me_uuid env = uuid \<Longrightarrow> me_stamp env = stamp \<Longrightarrow> od_token_amount dto \<le> 10 ^ 8 \<Longrightarrow>
     market_step uuid stamp s (snd (create_order env u dto s))"
| sell: "me_uuid env = uuid \<Longrightarrow> me_stamp env = stamp \<Longrightarrow> q \<le> 10 ^ 8 \<Longrightarrow>
     market_step uuid stamp s (snd (create_sell_order env u iv d p q x s))"
| buy: "me_uuid env = uuid \<Longrightarrow> me_stamp env = stamp \<Longrightarrow> q \<le> 10 ^ 8 \<Longrightarrow>
     market_step uuid stamp s (snd (create_buy_order env u d p q x s))"
| cancel: "me_uuid env = uuid \<Longrightarrow> me_stamp env = stamp \<Longrightarrow>
     market_step uuid stamp s (snd (cancel_order env i u reason s))"
| match: "me_uuid env = uuid \<Longrightarrow> me_stamp env = stamp \<Longrightarrow>
     market_step uuid stamp s (snd (match_order env i s))"
| sweep: "me_uuid env = uuid \<Longrightarrow> me_stamp env = stamp \<Longrightarrow>
     market_step uuid stamp s (run_scheduled_matching env busy s)"
| deal: "me_uuid env = uuid \<Longrightarrow> me_stamp env = stamp \<Longrightarrow>
     market_step uuid stamp s (snd (match_orders env d s))"
| trade: "me_uuid env = uuid \<Longrightarrow> me_stamp env = stamp \<Longrightarrow>
     market_step uuid stamp s (snd (create_secondary_trade env sl bu c a p s))"

inductive market_reachable :: "(nat \<Rightarrow> string) \<Rightarrow> (nat \<Rightarrow> string) \<Rightarrow> market_state \<Rightarrow> bool"
  for uuid stamp :: "nat \<Rightarrow> string" where
  start: "mk_orders s = [] \<Longrightarrow> mk_trades s = [] \<Longrightarrow> market_reachable uuid stamp s"
| step: "market_reachable uuid stamp s \<Longrightarrow> market_step uuid stamp s s' \<Longrightarrow> market_reachable uuid stamp s'"

lemma keeps_bookD: "keeps_book uuid stamp row out \<Longrightarrow> book_inv uuid stamp (snd out)"
  by (simp add: keeps_book_def)

lemma market_step_inv:
  assumes "market_step uuid stamp s s'" "inj uuid" "inj stamp" "book_inv uuid stamp s"
  shows "book_inv uuid stamp s'"
  using assms
  by (cases rule: market_step.cases)
     (auto intro: keeps_bookD [OF create_order_inv] keeps_bookD [OF legacy_orders_inv(1)] keeps_bookD [OF legacy_orders_inv(2)]
        keeps_bookD [OF cancel_order_inv] keeps_bookD [OF match_order_inv] run_scheduled_matching_inv match_orders_inv
        create_secondary_trade_inv)

lemma market_reachable_inv:
  assumes "market_reachable uuid stamp s" "inj uuid" "inj stamp"
  shows "book_inv uuid stamp s"
  using assms
proof (induction rule: market_reachable.induct)
  case (start s)
  then show ?case by (simp add: book_inv_def)
next
  case (step s s')
  then show ?case by (blast intro: market_step_inv)
qed

end
