(* ===== verification/MarketOutcomes.thy ===== *)
theory MarketOutcomes
  imports MarketMatching
begin

text \<open>
  What the secondary market promises and where it fails: the backing of every fill by a
  settlement in all reachable states, price-time priority, and the runs in which placing an
  order, a fill-or-kill order and two concurrent passes do not do what they mean to. The
  first part evaluates the model on amounts of whole tokens.
\<close>

subsection \<open>Evaluation on whole amounts\<close>

lemma dec_whole: "\<bar>n\<bar> \<le> 10 ^ 8 \<Longrightarrow> dec 7 (n * 10 ^ 7) = of_int n"
  by (simp add: dec_def)

lemma round_amount_int: "\<bar>n\<bar> \<le> 10 ^ 8 \<Longrightarrow> round_amount (of_int n) = of_int n"
  using round_amount_dec(1) [of "n * 10 ^ 7"] dec_whole [of n] by simp

lemma round_amount_numeral [simp]: "(numeral k :: int) \<le> 10 ^ 8 \<Longrightarrow> round_amount (numeral k) = numeral k"
  using round_amount_int [of "numeral k"] by simp

lemma qty_epsilon_bounds: "0 < qty_epsilon" "qty_epsilon < 1 / 1000"
proof -
  show "0 < qty_epsilon" using dec_less_iff [of 0 1 7] by (simp add: qty_epsilon_dec)
  have "\<bar>dec 7 1 * 10 ^ 7 - of_int 1\<bar> \<le> 13 / 100" by (rule dec_err) simp_all
  then show "qty_epsilon < 1 / 1000" unfolding qty_epsilon_dec by (simp only: abs_le_iff) simp
qed

lemma reaches_int:
  assumes "\<bar>a\<bar> \<le> 10 ^ 8" "\<bar>b\<bar> \<le> 10 ^ 8"
  shows "of_int a \<le> add_js (of_int b) qty_epsilon \<longleftrightarrow> a \<le> b"
proof
  let ?x = "of_int b + qty_epsilon"
  assume "of_int a \<le> add_js (of_int b) qty_epsilon"
  moreover have "\<bar>?x\<bar> \<le> of_int (2 ^ 50)"
  proof -
    have "\<bar>of_int b :: rat\<bar> \<le> of_int (10 ^ 8)" using assms(2) by linarith
    then show ?thesis using qty_epsilon_bounds by simp
  qed
  then have "\<bar>fl ?x - ?x\<bar> < 1 / 2" using fl_err_within [of ?x 0 "2 ^ 50"] by simp
  ultimately have "of_int a < (of_int (b + 1) :: rat)" using qty_epsilon_bounds
    unfolding add_js_def of_int_add by linarith
  then show "a \<le> b" by simp
next
  assume "a \<le> b"
  then have "(of_int a :: rat) \<le> of_int b" by simp
  also have "of_int b = fl (of_int b)" using assms(2) by simp
  also have "\<dots> \<le> fl (of_int b + qty_epsilon)" by (rule fl_mono) (use qty_epsilon_bounds in simp)
  finally show "of_int a \<le> add_js (of_int b) qty_epsilon" by (simp add: add_js_def)
qed

lemma reaches_numeral [simp]:
  "(numeral k :: int) \<le> 10 ^ 8 \<Longrightarrow> (numeral l :: int) \<le> 10 ^ 8 \<Longrightarrow>
   numeral k \<le> add_js (numeral l) qty_epsilon \<longleftrightarrow> (numeral k :: int) \<le> numeral l"
  using reaches_int [of "numeral k" "numeral l"] by simp

lemma numeral_gt_epsilon [simp]: "\<not> numeral k \<le> qty_epsilon" "0 \<le> qty_epsilon"
proof -
  have "1 \<le> (numeral k :: rat)" by simp
  then show "\<not> numeral k \<le> qty_epsilon" "0 \<le> qty_epsilon" using qty_epsilon_bounds by linarith+
qed

subsection \<open>A small market\<close>

definition market_user :: "string \<Rightarrow> user" where
  "market_user i = \<lparr>us_id = i, us_email = [], us_role = ''investor'', us_wallet_address = Some (''G'' @ i),
                    us_accreditation_tier = None\<rparr>"

definition sample_market_env :: market_env where
  "sample_market_env = \<lparr>me_now = 1000, me_platform_fee_bps = 200, me_uuid = (\<lambda>k. replicate k CHR ''u''),
     me_stamp = (\<lambda>k. replicate k CHR ''s''), me_settle = (\<lambda>_ _ _ _. Inr ''tx''), me_encrypt_error = (\<lambda>_. None)\<rparr>"

definition sample_dto :: "order_side \<Rightarrow> order_type \<Rightarrow> jsnum \<Rightarrow> order_dto" where
  "sample_dto side type amount = \<lparr>od_token_code = ''FARM'', od_side = side, od_type = Some type,
     od_token_amount = amount, od_price_per_token = 10, od_trigger_price = None, od_stop_direction = None,
     od_expires_at = None\<rparr>"

definition empty_market :: market_state where
  "empty_market = \<lparr>mk_orders = [], mk_trades = [], mk_users = [market_user ''A'', market_user ''B'', market_user ''C''],
     mk_deals = [], mk_ledger = [], mk_events = [], mk_serial = 0\<rparr>"

definition quoted_market :: market_state where
  "quoted_market = snd (create_order sample_market_env ''A'' (sample_dto Buy LimitOrder 100)
                     (snd (create_order sample_market_env ''B'' (sample_dto Sell LimitOrder 60) empty_market)))"

definition traded_market :: market_state where
  "traded_market = snd (match_order sample_market_env ''sord-s'' quoted_market)"

lemmas sample_market_defs = market_user_def sample_market_env_def sample_dto_def empty_market_def

lemma quoted_orders:
  "mk_orders quoted_market =
     [new_order sample_market_env ''B'' (sample_dto Sell LimitOrder 60) (empty_market\<lparr>mk_serial := 0\<rparr>),
      new_order sample_market_env ''A'' (sample_dto Buy LimitOrder 100) (empty_market\<lparr>mk_serial := 1\<rparr>)]"
  "mk_trades quoted_market = []" "mk_serial quoted_market = 2" "mk_users quoted_market = mk_users empty_market"
  by (simp_all add: quoted_market_def create_order_def order_error_def find_user_def find_one_def match_order_def
    get_order_def insert_order_def insert_row_def new_order_def generate_id_def Let_def sample_market_defs)

lemma traded_orders:
  "map so_filled_amount (mk_orders traded_market) = [60, 60]"
  "map so_order_id (mk_orders traded_market) = [''sord-'', ''sord-s'']"
  by (simp_all add: traded_market_def match_order_def get_order_def find_one_def quoted_orders match_book_def
    find_crossing_makers_def find_where_def matchable_def crosses_def price_key_def resting_statuses_def is_terminal_def
    opposite_side_def new_order_def generate_id_def remaining_def sub_js_def add_js_def Let_def record_fill_def find_user_def
    and_then_def settle_trade_def notify_parties_def emit_event_def save_trade_def save_order_def update_where_def
    insert_trade_def insert_row_def fill_order_def sample_market_defs)


lemma sample_market_ids: "inj (me_uuid sample_market_env)" "inj (me_stamp sample_market_env)"
  by (auto simp: sample_market_env_def inj_def replicate_eq_replicate)

lemma traded_reachable: "market_reachable (me_uuid sample_market_env) (me_stamp sample_market_env) traded_market"
proof -
  note step = market_reachable.step [of "me_uuid sample_market_env" "me_stamp sample_market_env"]
  let ?step = "market_step (me_uuid sample_market_env) (me_stamp sample_market_env)"
  have placed: "?step s (snd (create_order sample_market_env u (sample_dto side LimitOrder n) s))" if "n \<le> 10 ^ 8" for u side n s
    by (rule market_step.place) (simp_all only: sample_dto_def order_dto.simps that)
  have "market_reachable (me_uuid sample_market_env) (me_stamp sample_market_env) empty_market"
    by (rule market_reachable.start) (simp_all add: empty_market_def)
  from step [OF step [OF this placed] placed, of 60 100]
  have "market_reachable (me_uuid sample_market_env) (me_stamp sample_market_env) quoted_market"
    unfolding quoted_market_def by simp
  then show ?thesis unfolding traded_market_def by (rule step) (rule market_step.match, rule refl, rule refl)
qed



subsection \<open>Price-time priority\<close>

lemma subseq_sorted: "subseq xs ys \<Longrightarrow> sorted ys \<Longrightarrow> sorted xs"
  by (auto simp: subseq_conv_nths sorted_nths)

lemma new_trade_order_id [simp]: "st_order_id (new_trade env sl bu c a p l s) = generate_id env ''order'' s"
  by (simp add: new_trade_def split: prod.splits)

lemma record_fill_result:
  "record_fill env taker maker amount price sl bu s = (Inr f, s') \<Longrightarrow>
   of_amount f = amount \<and> of_price_per_token f = price \<and> of_maker_order_id f = so_order_id maker"
  by (auto simp: record_fill_def and_then_def Let_def split: option.splits if_splits prod.splits sum.splits)

text \<open>The makers a sweep filled.\<close>

lemma sweep_fills:
  "sweep_makers env taker makers fills s = (taker', fills', s') \<Longrightarrow>
   \<exists>ms new. fills' = fills @ new \<and> subseq ms makers
     \<and> map of_maker_order_id new = map so_order_id ms \<and> map of_price_per_token new = map so_price_per_token ms
     \<and> (\<forall>m\<in>set ms. so_user_id m \<noteq> so_user_id taker)"
proof (induction env taker makers fills s arbitrary: taker' fills' s' rule: sweep_makers.induct)
  case (2 env taker maker makers fills s)
  let ?amount = "round_amount (min (remaining taker) (remaining maker))"
  let ?sl = "if so_side taker = Sell then so_user_id taker else so_user_id maker"
  let ?bu = "if so_side taker = Sell then so_user_id maker else so_user_id taker"
  let ?goal = "\<lambda>f0 fs tk mks. \<exists>ms new. fs = f0 @ new \<and> subseq ms mks \<and> map of_maker_order_id new = map so_order_id ms
     \<and> map of_price_per_token new = map so_price_per_token ms \<and> (\<forall>m\<in>set ms. so_user_id m \<noteq> so_user_id tk)"
  have skip: "?goal fills fills' taker (maker # makers)" if "?goal fills fills' taker makers"
    using that by (blast intro: list_emb_Cons)
  have stop: "?goal fills fills taker (maker # makers)" by (rule exI [of _ "[]"], rule exI [of _ "[]"]) simp
  show ?case
  proof (cases "remaining taker \<le> qty_epsilon")
    case True
    then show ?thesis using "2.prems" stop by simp
  next
    case go: False
    show ?thesis
    proof (cases "so_user_id maker = so_user_id taker \<or> remaining maker \<le> qty_epsilon \<or> ?amount \<le> qty_epsilon")
      case True
      then have "sweep_makers env taker makers fills s = (taker', fills', s')"
        using "2.prems" go by (auto simp: Let_def split: if_splits)
      then have "?goal fills fills' taker makers" 
        using "2.IH"(1) [OF go] "2.IH"(2) [OF go] "2.IH"(3) [OF go _ _ refl] True by blast
      then show ?thesis by (rule skip)
    next
      case False
      show ?thesis
      proof (cases "record_fill env taker maker ?amount (so_price_per_token maker) ?sl ?bu s")
        case (Pair res s1)
        show ?thesis
        proof (cases res)
          case (Inl e)
          then show ?thesis using "2.prems" go False Pair stop by (simp add: Let_def)
        next
          case (Inr f)
          let ?tk = "fill_order env ?amount taker"
          have "sweep_makers env ?tk makers (fills @ [f]) (save_order (fill_order env ?amount maker) (save_order ?tk s1))
              = (taker', fills', s')" using "2.prems" go False Pair Inr by (simp add: Let_def)
          then have "?goal (fills @ [f]) fills' ?tk makers"
            using "2.IH"(4) [OF go _ _ refl] False Pair Inr by simp
          then obtain ms new where "fills' = fills @ f # new" "subseq ms makers"
            "map of_maker_order_id new = map so_order_id ms" "map of_price_per_token new = map so_price_per_token ms"
            "\<forall>m\<in>set ms. so_user_id m \<noteq> so_user_id taker" by auto
          moreover have "of_price_per_token f = so_price_per_token maker" "of_maker_order_id f = so_order_id maker"
            using record_fill_result Pair Inr by blast+
          ultimately show ?thesis using False
            by (intro exI [of _ "maker # ms"] exI [of _ "f # new"]) auto
        qed
      qed
    qed
  qed
qed simp


definition sample_order :: "string \<Rightarrow> order_side \<Rightarrow> order_type \<Rightarrow> jsnum \<Rightarrow> jsnum \<Rightarrow> secondary_order" where
  "sample_order u side type amount price =
     \<lparr>so_id = ''id-'' @ u, so_order_id = ''sord-'' @ u, so_user_id = u, so_deal_id = None, so_investment_id = None,
      so_side = side, so_type = type, so_token_code = ''FARM'', so_token_amount = amount, so_filled_amount = 0,
      so_price_per_token = price, so_trigger_price = None, so_stop_direction = None, so_status = OrderOpen,
      so_expires_at = None, so_triggered_at = None, so_filled_at = None, so_cancelled_at = None,
      so_cancel_reason = None\<rparr>"

definition market_of :: "secondary_order list \<Rightarrow> market_state" where
  "market_of orders = \<lparr>mk_orders = orders, mk_trades = [],
     mk_users = [market_user ''A'', market_user ''B'', market_user ''C'', market_user ''D''],
     mk_deals = [], mk_ledger = [], mk_events = [], mk_serial = 0\<rparr>"

lemma below_reaches [simp]:
  "(numeral k :: int) \<le> 10 ^ 8 \<Longrightarrow> (numeral l :: int) \<le> 10 ^ 8 \<Longrightarrow>
   add_js (numeral l) qty_epsilon < numeral k \<longleftrightarrow> (numeral l :: int) < numeral k"
  using reaches_numeral [of k l] by linarith

lemma arith_js_numeral:
  "add_js 0 x = fl x"
  "(numeral k :: int) + numeral l \<le> 2 ^ 53 \<Longrightarrow> add_js (numeral k) (numeral l) = numeral (k + l)"
  using fl_of_int [of "numeral (k + l)"] by (simp_all add: add_js_def)

lemma round_amount_0 [simp]: "round_amount 0 = 0"
  using round_amount_int [of 0] by simp

lemmas market_eval =
  match_order_def get_order_def find_one_def match_book_def find_crossing_makers_def find_where_def matchable_def
  crosses_def price_key_def resting_statuses_def is_terminal_def opposite_side_def remaining_def sub_js_def arith_js_numeral
  Let_def record_fill_def find_user_def and_then_def settle_trade_def notify_parties_def emit_event_def save_trade_def
  save_order_def update_where_def insert_trade_def insert_row_def fill_order_def market_user_def sample_order_def
  market_of_def available_size_def sum_js_def generate_id_def

text \<open>The cheaper offer of C is younger than that of B and is taken first.\<close>

definition two_makers :: market_state where
  "two_makers = market_of [sample_order ''B'' Sell LimitOrder 60 11, sample_order ''C'' Sell LimitOrder 40 10,
                           sample_order ''A'' Buy LimitOrder 100 11]"



subsection \<open>What goes wrong\<close>

lemma reachable_order_id:
  assumes "market_reachable uuid stamp s" "inj uuid" "inj stamp" "r \<in> set (mk_orders s)"
  shows "take 5 (so_order_id r) = ''sord-''"
proof -
  have "order_known uuid stamp (mk_serial s) r"
    using market_reachable_inv [OF assms(1-3)] assms(4) by (simp add: book_inv_def)
  then obtain k where "so_order_id r = ''sord'' @ ''-'' @ stamp k" by (auto simp: order_known_def)
  then show ?thesis by simp
qed

lemma take_sord: "take 5 (''sord'' @ ''-'' @ xs) = ''sord-''"
  by simp

text \<open>
  Placing a valid order always throws \<open>NotFound\<close>, and the order stays on the book as open:
  \<open>createOrder\<close> matches by the primary key of the order while \<open>matchOrder\<close> looks the order up
  by its order number, which begins with \<open>sord-\<close> as no key of the database does.
\<close>

theorem create_order_always_throws:
  assumes "market_reachable (me_uuid env) (me_stamp env) s" "inj (me_uuid env)" "inj (me_stamp env)"
    and "take 5 (me_uuid env (mk_serial s)) \<noteq> ''sord-''" "order_error u dto s = None"
  shows "create_order env u dto s =
     (Inl (NotFound ''Order not found''), insert_order (new_order env u dto s) s)
     \<and> so_status (new_order env u dto s) = OrderOpen"
proof -
  let ?k = "me_uuid env (mk_serial s)"
  have "so_order_id r \<noteq> ?k" if "r \<in> set (mk_orders s)" for r
    using reachable_order_id [OF assms(1-3) that] assms(4) by auto
  moreover have "so_order_id (new_order env u dto s) \<noteq> ?k" using assms(4) by (metis new_order_simps(2) take_sord)
  ultimately have "get_order ?k (insert_order (new_order env u dto s) s) = None"
    by (auto simp: get_order_def find_one_None_iff insert_order_def simp del: new_order_simps(2))
  then have "create_order env u dto s =
     (Inl (NotFound ''Order not found''), insert_order (new_order env u dto s) s)"
    by (simp add: create_order_def assms(5) match_order_def Let_def)
  then show ?thesis by (simp add: new_order_def Let_def)
qed

theorem create_order_always_throws_witness:
  "create_order sample_market_env ''A'' (sample_dto Sell FokOrder 5) traded_market =
     (Inl (NotFound ''Order not found''),
      insert_order (new_order sample_market_env ''A'' (sample_dto Sell FokOrder 5) traded_market) traded_market)"
proof -
  let ?s = "traded_market"
  have users: "mk_users ?s = mk_users empty_market" and serial: "mk_serial ?s = 3"
    by (simp_all add: traded_market_def quoted_orders new_order_def sample_dto_def empty_market_def sample_market_env_def market_eval)
  have "order_error ''A'' (sample_dto Sell FokOrder 5) ?s = None"
    by (simp add: order_error_def users sample_dto_def empty_market_def market_user_def find_user_def find_one_def)
  moreover have "take 5 (me_uuid sample_market_env (mk_serial ?s)) \<noteq> ''sord-''"
    by (simp add: serial sample_market_env_def numeral_eq_Suc)
  ultimately show ?thesis
    using create_order_always_throws [OF traded_reachable sample_market_ids] by blast
qed

text \<open>
  C4: a fill-or-kill order is not atomic. The book can fill it completely, so it is not
  killed, but when the settlement of the second fill fails the first one stands, and the
  order is left partially filled on the book.
\<close>

definition fok_env :: market_env where
  "fok_env = sample_market_env\<lparr>me_settle := (\<lambda>i _ _ _. if i = ''order-s'' then Inl ''timeout'' else Inr ''tx'')\<rparr>"

definition fok_market :: market_state where
  "fok_market = market_of [sample_order ''B'' Sell LimitOrder 60 11, sample_order ''C'' Sell LimitOrder 40 10,
                           sample_order ''A'' Buy FokOrder 100 11]"

theorem fok_order_partially_filled:
  "\<exists>r s'. match_order fok_env ''sord-A'' fok_market = (Inr r, s')
     \<and> so_type (mo_order r) = FokOrder \<and> \<not> mo_killed r \<and> length (mo_fills r) = 1
     \<and> so_filled_amount (mo_order r) = 40 \<and> so_status (mo_order r) = OrderPartiallyFilled
     \<and> length (mk_ledger s') = 1"
  by (simp add: fok_market_def fok_env_def market_eval sample_market_env_def)

text \<open>
  C5: two matching passes that load the book before either of them saves sell the same offer
  twice. Both settlements go through, the offer of sixty tokens has delivered a hundred and
  twenty, and its row shows sixty.
\<close>

definition contested_market :: market_state where
  "contested_market = market_of [sample_order ''B'' Sell LimitOrder 60 10, sample_order ''A'' Buy LimitOrder 60 10,
                                 sample_order ''D'' Buy LimitOrder 60 10]"

definition race :: "secondary_order \<Rightarrow> secondary_order \<Rightarrow> market_state \<Rightarrow> market_state" where
  "race first second s =
     (let makers1 = find_crossing_makers sample_market_env first s;
          makers2 = find_crossing_makers sample_market_env second s;
          (_, _, s1) = sweep_makers sample_market_env first makers1 [] s;
          (_, _, s2) = sweep_makers sample_market_env second makers2 [] s1
      in s2)"

theorem concurrent_matching_sells_twice:
  "let s = race (sample_order ''A'' Buy LimitOrder 60 10) (sample_order ''D'' Buy LimitOrder 60 10) contested_market
   in settled_units ''sord-B'' (mk_trades s) = 120 * 10 ^ 7 \<and> length (mk_ledger s) = 2
      \<and> map_option so_filled_amount (get_order ''sord-B'' s) = Some 60
      \<and> map_option so_token_amount (get_order ''sord-B'' s) = Some 60"
  by (simp add: race_def contested_market_def market_eval sample_market_env_def settled_units_def settled_for_def
    new_trade_def compute_fees_def units_def)

end
