(* ===== verification/Netting.thy ===== *)
theory Netting
  imports Entities Decimals "HOL-Library.List_Lexorder" "HOL-Library.Char_ord"
begin

text \<open>
  \<open>backend/src/settlement/netting.service.ts\<close>: obligations between parties are netted, pairwise
  (bilateral) or over all parties (multilateral), and a cycle settles the pending ones. The
  clock, the hash of the settlement batch and the failure of the last write are parameters
  (\<open>netting_env\<close>). The map of the parties is a list in the order of insertion, the order in
  which JavaScript enumerates keys that are not array indices.
\<close>

subsection \<open>Obligations, positions and transfers\<close>

datatype obligation_status =
  ObligationPending | ObligationIncluded | ObligationNetted | ObligationSettled | ObligationExcluded

datatype obligation_type = DealPayout | EscrowPayout | PlatformFee | SecondaryTradeDue | HarvestSettlement

datatype cycle_status =
  CycleScheduled | CycleAggregating | CycleNetted | CycleSettling | CycleSettled | CycleFailed

datatype cycle_frequency = Daily | Weekly | Adhoc

record obligation =
  ob_id :: string
  ob_payer_id :: string
  ob_payer_name :: string
  ob_payee_id :: string
  ob_payee_name :: string
  ob_deal_id :: "string option"
  ob_amount_usd :: jsnum
  ob_currency :: string
  ob_type :: obligation_type
  ob_status :: obligation_status
  ob_cycle_id :: "string option"
  ob_settlement_tx_hash :: "string option"
  ob_due_date :: int

datatype position_status = NetCreditor | NetDebtor | Neutral

record net_position =
  np_party_id :: string
  np_party_name :: string
  np_gross_payable_usd :: jsnum
  np_gross_receivable_usd :: jsnum
  np_net_balance_usd :: jsnum
  np_status :: position_status
  np_counterparty_risk_score :: jsnum
  np_credit_limit_usd :: jsnum
  np_limit_breached :: bool

text \<open>\<open>nt_number\<close> is the running number at the end of the transfer's identifier.\<close>

record netted_transfer =
  nt_number :: nat
  nt_from_id :: string
  nt_to_id :: string
  nt_amount_usd :: jsnum
  nt_settled :: bool
  nt_tx_hash :: "string option"

record multilateral_result =
  ml_gross_obligation_count :: nat
  ml_gross_total_volume_usd :: jsnum
  ml_net_settlement_count :: nat
  ml_net_total_volume_usd :: jsnum
  ml_transaction_count_reduction_pct :: jsnum
  ml_volume_reduction_pct :: jsnum
  ml_estimated_fee_savings_usd :: jsnum
  ml_party_positions :: "net_position list"
  ml_net_transfers :: "netted_transfer list"
  ml_is_balanced :: bool

record netting_cycle =
  nc_id :: string
  nc_number :: string
  nc_frequency :: cycle_frequency
  nc_status :: cycle_status
  nc_scheduled_at :: int
  nc_executed_at :: "int option"
  nc_settled_at :: "int option"
  nc_gross_count :: nat
  nc_gross_total_usd :: jsnum
  nc_net_count :: nat
  nc_net_total_usd :: jsnum
  nc_reduction_pct :: jsnum
  nc_fee_savings_usd :: jsnum
  nc_batch_tx_hash :: "string option"
  nc_metadata :: "(net_position list \<times> netted_transfer list) option"

record netting_state =
  nn_cycles :: "netting_cycle list"
  nn_obligations :: "obligation list"

record netting_env =
  ne_now :: int
  ne_hash :: "string \<Rightarrow> int \<Rightarrow> jsnum \<Rightarrow> nat \<Rightarrow> string"
  ne_save_error :: "string option"

type_synonym 'a netting_handler = "(netting_state, http_error, 'a) handler"

definition default_credit_limit_usd :: jsnum where
  "default_credit_limit_usd = 250000"

definition estimated_fee_per_tx_usd :: jsnum where
  "estimated_fee_per_tx_usd = 25"

subsection \<open>Recording obligations\<close>

definition create_obligation ::
  "string \<Rightarrow> string \<Rightarrow> string \<Rightarrow> string \<Rightarrow> string \<Rightarrow> string option \<Rightarrow> jsnum \<Rightarrow> string option \<Rightarrow> obligation_type \<Rightarrow> int
   \<Rightarrow> obligation netting_handler" where
  "create_obligation uuid payer_id payer_name payee_id payee_name deal_id amount currency type due s =
     (if amount \<le> 0 then throw (BadRequest ''Obligation amount must be positive'') s
      else if payer_id = payee_id then throw (BadRequest ''Payer and payee cannot be the same entity'') s
      else
        (let row = \<lparr>ob_id = uuid, ob_payer_id = payer_id, ob_payer_name = payer_name, ob_payee_id = payee_id,
               ob_payee_name = payee_name, ob_deal_id = (if present deal_id then deal_id else None),
               ob_amount_usd = amount, ob_currency = (if present currency then the currency else ''USD''),
               ob_type = type, ob_status = ObligationPending, ob_cycle_id = None, ob_settlement_tx_hash = None,
               ob_due_date = due\<rparr>
         in done_with row (s\<lparr>nn_obligations := insert_row row (nn_obligations s)\<rparr>)))"

definition get_pending_obligations :: "string option \<Rightarrow> string option \<Rightarrow> netting_state \<Rightarrow> obligation list" where
  "get_pending_obligations party_id deal_id s =
     sort_key ob_due_date
       (find_where (\<lambda>r. ob_status r = ObligationPending
          \<and> (present party_id \<longrightarrow> party_id = Some (ob_payer_id r) \<or> party_id = Some (ob_payee_id r))
          \<and> (present deal_id \<longrightarrow> ob_deal_id r = deal_id)) (nn_obligations s))"

subsection \<open>Bilateral netting\<close>

record party_pair =
  pr_a :: string
  pr_b :: string
  pr_a_to_b :: jsnum
  pr_b_to_a :: jsnum
  pr_count :: nat

record pairwise_position =
  pw_party_a :: string
  pw_party_b :: string
  pw_payer :: string
  pw_payee :: string
  pw_amount_usd :: jsnum
  pw_count :: nat

definition pair_of :: "obligation \<Rightarrow> string \<times> string" where
  "pair_of r = (if ob_payee_id r < ob_payer_id r then (ob_payee_id r, ob_payer_id r)
                else (ob_payer_id r, ob_payee_id r))"

definition pair_key :: "string \<Rightarrow> string \<Rightarrow> string" where
  "pair_key a b = a @ '':'' @ b"

definition book_pair :: "obligation \<Rightarrow> party_pair \<Rightarrow> party_pair" where
  "book_pair r p =
     (let q = p\<lparr>pr_count := pr_count p + 1\<rparr>
      in if ob_payer_id r = fst (pair_of r) then q\<lparr>pr_a_to_b := add_js (pr_a_to_b p) (ob_amount_usd r)\<rparr>
         else q\<lparr>pr_b_to_a := add_js (pr_b_to_a p) (ob_amount_usd r)\<rparr>)"

definition new_pair :: "obligation \<Rightarrow> party_pair" where
  "new_pair r = \<lparr>pr_a = fst (pair_of r), pr_b = snd (pair_of r), pr_a_to_b = 0, pr_b_to_a = 0, pr_count = 0\<rparr>"

definition add_to_pairs :: "party_pair list \<Rightarrow> obligation \<Rightarrow> party_pair list" where
  "add_to_pairs pairs r =
     (let key = (\<lambda>p. pair_key (pr_a p) (pr_b p) = pair_key (fst (pair_of r)) (snd (pair_of r)));
          known = (if find_one key pairs = None then insert_row (new_pair r) pairs else pairs)
      in update_where key (book_pair r) known)"

definition pairwise :: "party_pair \<Rightarrow> pairwise_position option" where
  "pairwise p =
     (let net = sub_js (pr_a_to_b p) (pr_b_to_a p)
      in if lit (1 / 1000) < \<bar>net\<bar>
         then Some \<lparr>pw_party_a = pr_a p, pw_party_b = pr_b p,
                    pw_payer = (if 0 < net then pr_a p else pr_b p),
                    pw_payee = (if 0 < net then pr_b p else pr_a p),
                    pw_amount_usd = round_cents \<bar>net\<bar>, pw_count = pr_count p\<rparr>
         else None)"

definition add_party :: "string \<Rightarrow> string list \<Rightarrow> string list" where
  "add_party i ps = (if i \<in> set ps then ps else ps @ [i])"

definition calculate_bilateral_netting :: "obligation list \<Rightarrow> string list \<times> pairwise_position list" where
  "calculate_bilateral_netting obs =
     (fold (\<lambda>r ps. add_party (ob_payee_id r) (add_party (ob_payer_id r) ps)) obs [],
      List.map_filter pairwise (foldl add_to_pairs [] obs))"

subsection \<open>Multilateral netting\<close>

definition new_position :: "string \<Rightarrow> string \<Rightarrow> net_position" where
  "new_position i name = \<lparr>np_party_id = i, np_party_name = name, np_gross_payable_usd = 0, np_gross_receivable_usd = 0,
     np_net_balance_usd = 0, np_status = Neutral, np_counterparty_risk_score = 25,
     np_credit_limit_usd = default_credit_limit_usd, np_limit_breached = False\<rparr>"

definition ensure_party :: "string \<Rightarrow> string \<Rightarrow> net_position list \<Rightarrow> net_position list" where
  "ensure_party i name ps =
     (if find_one (\<lambda>p. np_party_id p = i) ps = None then insert_row (new_position i name) ps else ps)"

text \<open>One obligation: the payer owes it, then the payee is owed it.\<close>

definition book_obligation :: "net_position list \<Rightarrow> obligation \<Rightarrow> net_position list" where
  "book_obligation ps r =
     (let ps1 = update_where (\<lambda>p. np_party_id p = ob_payer_id r)
                  (\<lambda>p. p\<lparr>np_gross_payable_usd := add_js (np_gross_payable_usd p) (ob_amount_usd r)\<rparr>)
                  (ensure_party (ob_payer_id r) (ob_payer_name r) ps)
      in update_where (\<lambda>p. np_party_id p = ob_payee_id r)
           (\<lambda>p. p\<lparr>np_gross_receivable_usd := add_js (np_gross_receivable_usd p) (ob_amount_usd r)\<rparr>)
           (ensure_party (ob_payee_id r) (ob_payee_name r) ps1))"

definition half_cent :: jsnum where
  "half_cent = lit (5 / 1000)"

definition close_position :: "net_position \<Rightarrow> net_position" where
  "close_position p =
     (let payable = round_cents (np_gross_payable_usd p);
          receivable = round_cents (np_gross_receivable_usd p);
          net = round_cents (sub_js receivable payable)
      in p\<lparr>np_gross_payable_usd := payable, np_gross_receivable_usd := receivable, np_net_balance_usd := net,
           np_limit_breached := np_credit_limit_usd p < \<bar>net\<bar>,
           np_status := (if half_cent < net then NetCreditor
                         else if net < - half_cent then NetDebtor else Neutral)\<rparr>)"

text \<open>\<open>creditors\<close> and \<open>debtors\<close> with what remains, largest first.\<close>

definition creditors_of :: "net_position list \<Rightarrow> (string \<times> jsnum) list" where
  "creditors_of ps = sort_key (\<lambda>c. - snd c)
     (map (\<lambda>p. (np_party_id p, np_net_balance_usd p)) (filter (\<lambda>p. np_status p = NetCreditor) ps))"

definition debtors_of :: "net_position list \<Rightarrow> (string \<times> jsnum) list" where
  "debtors_of ps = sort_key (\<lambda>c. - snd c)
     (map (\<lambda>p. (np_party_id p, \<bar>np_net_balance_usd p\<bar>)) (filter (\<lambda>p. np_status p = NetDebtor) ps))"

text \<open>
  The loop over both lists: the smaller of the two remaining amounts is transferred, and
  who has nothing left is passed over. One of the two remainders becomes zero in every
  round, which is why the loop ends.
\<close>

definition pass_over :: "string \<Rightarrow> jsnum \<Rightarrow> (string \<times> jsnum) list \<Rightarrow> (string \<times> jsnum) list" where
  "pass_over i rest xs = (if rest \<le> half_cent then xs else (i, rest) # xs)"

lemma round_cents_0 [simp]: "round_cents 0 = 0"
  using math_round_of_int [of 0] by (simp add: round_cents_def mul_js_def div_js_def)

lemma half_cent_nonneg: "0 \<le> half_cent"
  by (simp add: half_cent_def lit_def fl_nonneg)

lemma pass_over_0 [simp]: "pass_over i (round_cents (sub_js x x)) xs = xs"
  using half_cent_nonneg by (simp add: pass_over_def sub_js_def)

lemma length_pass_over: "length (pass_over i rest xs) \<le> Suc (length xs)"
  by (simp add: pass_over_def)

function match_transfers :: "nat \<Rightarrow> (string \<times> jsnum) list \<Rightarrow> (string \<times> jsnum) list \<Rightarrow> netted_transfer list" where
  "match_transfers n [] ds = []"
| "match_transfers n (c # cs) [] = []"
| "match_transfers n ((cp, credit) # cs) ((dp, debt) # ds) =
     (let amount = min credit debt;
          rounded = round_cents amount;
          made = (if 0 < rounded
                  then [\<lparr>nt_number = Suc n, nt_from_id = dp, nt_to_id = cp, nt_amount_usd = rounded,
                         nt_settled = False, nt_tx_hash = None\<rparr>]
                  else [])
      in made @ match_transfers (n + length made)
                  (pass_over cp (round_cents (sub_js credit amount)) cs)
                  (pass_over dp (round_cents (sub_js debt amount)) ds))"
  by pat_completeness auto
termination
proof (relation "measure (\<lambda>(n, cs, ds). length cs + length ds)")
  fix n :: nat and cp dp :: string and credit debt amount rounded :: jsnum and cs ds :: "(string \<times> jsnum) list"
    and made :: "netted_transfer list"
  assume amount: "amount = min credit debt"
  have "length (pass_over cp (round_cents (sub_js credit amount)) cs) +
        length (pass_over dp (round_cents (sub_js debt amount)) ds) < Suc (length cs) + Suc (length ds)"
  proof (cases "credit \<le> debt")
    case True
    then have "amount = credit" by (simp add: amount)
    then show ?thesis using length_pass_over [of dp _ ds] by (simp add: less_Suc_eq_le add_le_mono)
  next
    case False
    then have "amount = debt" by (simp add: amount)
    then show ?thesis using length_pass_over [of cp _ cs] by (simp add: less_Suc_eq_le add_le_mono)
  qed
  then show "((n + length made, pass_over cp (round_cents (sub_js credit amount)) cs,
               pass_over dp (round_cents (sub_js debt amount)) ds),
              n, (cp, credit) # cs, (dp, debt) # ds) \<in> measure (\<lambda>(n, cs, ds). length cs + length ds)"
    by simp
qed simp

definition percent_of :: "jsnum \<Rightarrow> jsnum \<Rightarrow> jsnum" where
  "percent_of part whole = div_js (math_round (mul_js (div_js part whole) 1000)) 10"

definition calculate_multilateral_netting :: "obligation list \<Rightarrow> multilateral_result" where
  "calculate_multilateral_netting obs =
     (let gross = sum_js ob_amount_usd obs;
          positions = map close_position (foldl book_obligation [] obs);
          net_sum = sum_js np_net_balance_usd positions;
          transfers = match_transfers 0 (creditors_of positions) (debtors_of positions);
          net_total = sum_js nt_amount_usd transfers;
          gross_count = length obs;
          net_count = length transfers;
          eliminated = max (of_nat gross_count - of_nat net_count) 0
      in \<lparr>ml_gross_obligation_count = gross_count,
          ml_gross_total_volume_usd = round_cents gross,
          ml_net_settlement_count = net_count,
          ml_net_total_volume_usd = round_cents net_total,
          ml_transaction_count_reduction_pct =
            (if 0 < gross_count then percent_of (of_nat gross_count - of_nat net_count) (of_nat gross_count) else 0),
          ml_volume_reduction_pct = (if 0 < gross then percent_of (sub_js gross net_total) gross else 0),
          ml_estimated_fee_savings_usd =
            round_cents (add_js (mul_js eliminated estimated_fee_per_tx_usd)
                                (mul_js (sub_js gross net_total) (lit (15 / 10000)))),
          ml_party_positions = positions,
          ml_net_transfers = transfers,
          ml_is_balanced = (\<bar>net_sum\<bar> < lit (5 / 100))\<rparr>)"


subsection \<open>Cycles\<close>

definition schedule_cycle :: "string \<Rightarrow> string \<Rightarrow> cycle_frequency \<Rightarrow> int \<Rightarrow> netting_cycle netting_handler" where
  "schedule_cycle uuid code frequency scheduled_at s =
     (let cyc = \<lparr>nc_id = uuid, nc_number = code, nc_frequency = frequency, nc_status = CycleScheduled,
                 nc_scheduled_at = scheduled_at, nc_executed_at = None, nc_settled_at = None, nc_gross_count = 0,
                 nc_gross_total_usd = 0, nc_net_count = 0, nc_net_total_usd = 0, nc_reduction_pct = 0,
                 nc_fee_savings_usd = 0, nc_batch_tx_hash = None, nc_metadata = None\<rparr>
      in done_with cyc (s\<lparr>nn_cycles := insert_row cyc (nn_cycles s)\<rparr>))"

definition get_cycle :: "string \<Rightarrow> netting_state \<Rightarrow> netting_cycle option" where
  "get_cycle i s = find_one (\<lambda>c. nc_id c = i) (nn_cycles s)"

definition list_cycles :: "cycle_status option \<Rightarrow> netting_state \<Rightarrow> netting_cycle list" where
  "list_cycles status s =
     sort_key (\<lambda>c. - nc_scheduled_at c)
       (find_where (\<lambda>c. case status of None \<Rightarrow> True | Some x \<Rightarrow> nc_status c = x) (nn_cycles s))"

definition save_cycle :: "netting_cycle \<Rightarrow> netting_state \<Rightarrow> netting_state" where
  "save_cycle cyc s = s\<lparr>nn_cycles := update_where (\<lambda>c. nc_id c = nc_id cyc) (\<lambda>_. cyc) (nn_cycles s)\<rparr>"

definition pending_obligations :: "netting_state \<Rightarrow> obligation list" where
  "pending_obligations s = find_where (\<lambda>r. ob_status r = ObligationPending) (nn_obligations s)"

definition empty_netting :: multilateral_result where
  "empty_netting = \<lparr>ml_gross_obligation_count = 0, ml_gross_total_volume_usd = 0, ml_net_settlement_count = 0,
     ml_net_total_volume_usd = 0, ml_transaction_count_reduction_pct = 0, ml_volume_reduction_pct = 0,
     ml_estimated_fee_savings_usd = 0, ml_party_positions = [], ml_net_transfers = [], ml_is_balanced = True\<rparr>"

text \<open>
  The first half of \<open>executeNettingCycle\<close>: the cycle is looked up and marked, and the pending
  obligations are loaded. The second half works on the rows that were loaded, whatever other
  cycles do in between; its last write, that of the cycle, may fail.
\<close>

definition begin_cycle :: "string \<Rightarrow> (netting_cycle \<times> obligation list) netting_handler" where
  "begin_cycle i s =
     (case get_cycle i s of
        None \<Rightarrow> throw (NotFound ''Netting cycle not found'') s
      | Some cyc \<Rightarrow>
     if nc_status cyc = CycleSettled then throw (BadRequest ''Cycle is already settled'') s
     else (let marked = cyc\<lparr>nc_status := CycleAggregating\<rparr>; s1 = save_cycle marked s
           in done_with (marked, pending_obligations s1) s1))"

definition settle_obligation :: "string \<Rightarrow> string \<Rightarrow> obligation \<Rightarrow> obligation" where
  "settle_obligation cycle_id tx_hash r =
     r\<lparr>ob_status := ObligationSettled, ob_cycle_id := Some cycle_id, ob_settlement_tx_hash := Some tx_hash\<rparr>"

definition save_obligations :: "obligation list \<Rightarrow> netting_state \<Rightarrow> netting_state" where
  "save_obligations rows s =
     s\<lparr>nn_obligations := foldl (\<lambda>t row. update_where (\<lambda>r. ob_id r = ob_id row) (\<lambda>_. row) t) (nn_obligations s) rows\<rparr>"

definition settled_cycle :: "netting_env \<Rightarrow> netting_cycle \<Rightarrow> multilateral_result \<Rightarrow> string \<Rightarrow> netting_cycle" where
  "settled_cycle env cyc res tx_hash =
     cyc\<lparr>nc_status := CycleSettled, nc_executed_at := Some (ne_now env), nc_settled_at := Some (ne_now env),
         nc_gross_count := ml_gross_obligation_count res, nc_gross_total_usd := ml_gross_total_volume_usd res,
         nc_net_count := ml_net_settlement_count res, nc_net_total_usd := ml_net_total_volume_usd res,
         nc_reduction_pct := ml_transaction_count_reduction_pct res,
         nc_fee_savings_usd := ml_estimated_fee_savings_usd res, nc_batch_tx_hash := Some tx_hash,
         nc_metadata := Some (ml_party_positions res, ml_net_transfers res)\<rparr>"

definition commit_cycle ::
  "netting_env \<Rightarrow> netting_cycle \<Rightarrow> obligation list \<Rightarrow> (netting_cycle \<times> multilateral_result) netting_handler" where
  "commit_cycle env cyc pending s =
     (if pending = [] then
        (let empty = cyc\<lparr>nc_status := CycleSettled, nc_settled_at := Some (ne_now env),
                         nc_gross_count := 0, nc_net_count := 0\<rparr>
         in case ne_save_error env of
              Some e \<Rightarrow> throw (Internal e) s
            | None \<Rightarrow> done_with (empty, empty_netting) (save_cycle empty s))
      else
        (let netted = calculate_multilateral_netting pending;
             tx_hash = ne_hash env (nc_number cyc) (ne_now env) (ml_net_total_volume_usd netted) (ml_net_settlement_count netted);
             res = netted\<lparr>ml_net_transfers :=
                     map (\<lambda>t. t\<lparr>nt_settled := True, nt_tx_hash := Some tx_hash\<rparr>) (ml_net_transfers netted)\<rparr>;
             final = settled_cycle env cyc res tx_hash;
             s1 = save_obligations (map (settle_obligation (nc_id cyc) tx_hash) pending) s
         in case ne_save_error env of
              Some e \<Rightarrow> throw (Internal e) s1
            | None \<Rightarrow> done_with (final, res) (save_cycle final s1)))"

definition execute_netting_cycle ::
  "netting_env \<Rightarrow> string \<Rightarrow> (netting_cycle \<times> multilateral_result) netting_handler" where
  "execute_netting_cycle env i s =
     and_then (begin_cycle i) (\<lambda>(cyc, pending). commit_cycle env cyc pending) s"

subsection \<open>Risk and unwinding\<close>

datatype risk_tier = RiskLow | RiskMedium | RiskHigh

record counterparty_risk =
  cr_exposure_ratio :: jsnum
  cr_tier :: risk_tier
  cr_approved :: bool
  cr_requires_collateral :: bool

definition check_counterparty_risk :: "jsnum \<Rightarrow> jsnum \<Rightarrow> counterparty_risk" where
  "check_counterparty_risk gross_payable credit_limit =
     (let ratio = div_js gross_payable credit_limit
      in \<lparr>cr_exposure_ratio = round_cents ratio,
          cr_tier = (if lit (8 / 10) < ratio then RiskHigh else if 1 / 2 < ratio then RiskMedium else RiskLow),
          cr_approved = (ratio \<le> 1), cr_requires_collateral = (lit (8 / 10) < ratio)\<rparr>)"

definition concerns :: "string \<Rightarrow> obligation \<Rightarrow> bool" where
  "concerns i r \<longleftrightarrow> ob_payer_id r = i \<or> ob_payee_id r = i"

definition unwind_defaulting_counterparty :: "string \<Rightarrow> string \<Rightarrow> multilateral_result netting_handler" where
  "unwind_defaulting_counterparty cycle_id party s =
     (case get_cycle cycle_id s of
        None \<Rightarrow> throw (NotFound ''Netting cycle not found'') s
      | Some cyc \<Rightarrow>
          (let rows = find_where (\<lambda>r. ob_cycle_id r = Some (nc_id cyc) \<or> ob_status r = ObligationPending) (nn_obligations s);
               excluded = map (\<lambda>r. r\<lparr>ob_status := ObligationExcluded\<rparr>) (filter (concerns party) rows)
           in done_with (calculate_multilateral_netting (filter (\<lambda>r. \<not> concerns party r) rows))
                (save_obligations excluded s)))"

subsection \<open>Reports\<close>

record netting_report =
  re_cycle_id :: string
  re_status :: cycle_status
  re_settled_at :: "int option"
  re_gross_count :: nat
  re_gross_usd :: jsnum
  re_net_count :: nat
  re_net_usd :: jsnum
  re_reduction_pct :: jsnum
  re_fee_savings_usd :: jsnum
  re_efficiency_pct :: jsnum
  re_positions :: "net_position list"
  re_transfers :: "netted_transfer list"
  re_audit_hash :: string

definition efficiency_gain :: "jsnum \<Rightarrow> jsnum \<Rightarrow> jsnum" where
  "efficiency_gain gross net = (if 0 < gross then percent_of (sub_js gross net) gross else 0)"

definition generate_netting_report :: "string \<Rightarrow> netting_state \<Rightarrow> http_error + netting_report" where
  "generate_netting_report i s =
     (case get_cycle i s of
        None \<Rightarrow> Inl (NotFound ''Netting cycle not found'')
      | Some c \<Rightarrow>
          (let (positions, transfers) = (case nc_metadata c of None \<Rightarrow> ([], []) | Some m \<Rightarrow> m)
           in Inr \<lparr>re_cycle_id = nc_id c, re_status = nc_status c, re_settled_at = nc_settled_at c,
                   re_gross_count = nc_gross_count c, re_gross_usd = nc_gross_total_usd c,
                   re_net_count = nc_net_count c, re_net_usd = nc_net_total_usd c,
                   re_reduction_pct = nc_reduction_pct c, re_fee_savings_usd = nc_fee_savings_usd c,
                   re_efficiency_pct = efficiency_gain (nc_gross_total_usd c) (nc_net_total_usd c),
                   re_positions = positions, re_transfers = transfers,
                   re_audit_hash = (if present (nc_batch_tx_hash c) then the (nc_batch_tx_hash c)
                                    else ''PENDING_SETTLEMENT'')\<rparr>))"

record netting_analytics =
  an_cycles :: nat
  an_gross_count :: nat
  an_gross_usd :: jsnum
  an_net_count :: nat
  an_net_usd :: jsnum
  an_average_reduction_pct :: jsnum
  an_fee_savings_usd :: jsnum
  an_efficiency_pct :: jsnum
  an_target_met :: bool

definition get_netting_analytics :: "netting_state \<Rightarrow> netting_analytics" where
  "get_netting_analytics s =
     (let cycles = find_where (\<lambda>c. nc_status c = CycleSettled) (nn_cycles s)
      in if cycles = [] then
           \<lparr>an_cycles = 0, an_gross_count = 0, an_gross_usd = 0, an_net_count = 0, an_net_usd = 0,
            an_average_reduction_pct = 0, an_fee_savings_usd = 0, an_efficiency_pct = 0, an_target_met = False\<rparr>
         else
           (let gross = sum_js nc_gross_total_usd cycles; net = sum_js nc_net_total_usd cycles;
                average = div_js (math_round (mul_js (div_js (sum_js nc_reduction_pct cycles) (of_nat (length cycles))) 10)) 10
            in \<lparr>an_cycles = length cycles, an_gross_count = (\<Sum>c\<leftarrow>cycles. nc_gross_count c),
                an_gross_usd = round_cents gross, an_net_count = (\<Sum>c\<leftarrow>cycles. nc_net_count c),
                an_net_usd = round_cents net, an_average_reduction_pct = average,
                an_fee_savings_usd = round_cents (sum_js nc_fee_savings_usd cycles),
                an_efficiency_pct = efficiency_gain gross net, an_target_met = (40 \<le> average)\<rparr>))"

text \<open>\<open>verifyNettingCompliance\<close>: of the four checks only the last one looks at the cycle.\<close>

definition verify_netting_compliance :: "string \<Rightarrow> netting_state \<Rightarrow> http_error + (bool \<times> (string \<times> bool) list)" where
  "verify_netting_compliance i s =
     (case get_cycle i s of
        None \<Rightarrow> Inl (NotFound ''Netting cycle not found'')
      | Some c \<Rightarrow>
          (let checks = [(''ISDA Master Agreement Enforceability'', True), (''Bankruptcy Remoteness'', True),
                         (''CPMI-IOSCO PFMI Principle 4 (Credit Risk)'', True),
                         (''Settlement Finality'', nc_status c = CycleSettled)]
           in Inr (list_all snd checks, checks)))"

end
