(* ===== verification/NettingCorrect.thy ===== *)
theory NettingCorrect
  imports Netting "HOL-Library.Multiset"
begin

text \<open>
  The correctness of netting. The loop over creditors and debtors, which computes in
  doubles, refines a loop over integers of cents (\<open>settle\<close>); there it is shown that the
  transfers give every party exactly its net position, and the sums of the service are
  shown to be exact for at most a thousand obligations of together at most \<open>2 ^ 39\<close> cents.
\<close>

subsection \<open>Cents\<close>

definition cents :: "jsnum \<Rightarrow> int" where
  "cents x = \<lfloor>x * 100 + 1 / 2\<rfloor>"

lemma fl_cents:
  assumes "\<bar>x * 100\<bar> \<le> 2 ^ 40 + 2"
  shows "\<bar>fl x * 100 - x * 100\<bar> \<le> 1 / 8000" "\<bar>fl (x * 100) - x * 100\<bar> \<le> 1 / 8000"
proof -
  have "\<bar>x\<bar> \<le> (2 ^ 40 + 2) / 100" using assms by (simp add: abs_mult)
  then have "\<bar>fl x - x\<bar> \<le> (2 ^ 40 + 2) / 100 / 2 ^ 53 + 1 / 10 ^ 18" using fl_abs_err [of x] by (simp add: field_simps)
  moreover have "(2 ^ 40 + 2) / 100 / 2 ^ 53 + 1 / 10 ^ 18 \<le> (1 / 800000 :: rat)" by simp
  ultimately show "\<bar>fl x * 100 - x * 100\<bar> \<le> 1 / 8000" by linarith
  have "\<bar>fl (x * 100) - x * 100\<bar> \<le> \<bar>x * 100\<bar> / 2 ^ 53 + 1 / 10 ^ 18" by (rule fl_abs_err)
  also have "\<dots> \<le> (2 ^ 40 + 2) / 2 ^ 53 + 1 / 10 ^ 18" using assms by (intro add_mono divide_right_mono) simp_all
  also have "\<dots> \<le> 1 / 8000" by simp
  finally show "\<bar>fl (x * 100) - x * 100\<bar> \<le> 1 / 8000" .
qed

lemma of_int_bound: "\<bar>n\<bar> \<le> m \<Longrightarrow> \<bar>of_int n :: rat\<bar> \<le> of_int m"
  by linarith

lemma dec_cents_err:
  assumes "\<bar>n\<bar> \<le> 2 ^ 40 + 2"
  shows "\<bar>dec 2 n * 100 - of_int n\<bar> \<le> 1 / 8000"
proof -
  have "\<bar>of_int n :: rat\<bar> \<le> 2 ^ 40 + 2" using of_int_bound [OF assms] by simp
  then show ?thesis using fl_cents(1) [of "of_int n / 100"] by (simp add: dec_def)
qed

lemma cents_dec: "\<bar>n\<bar> \<le> 2 ^ 40 \<Longrightarrow> cents (dec 2 n) = n"
  unfolding cents_def by (rule floor_unique) (use dec_cents_err [of n] in linarith)+

lemma round_cents_near:
  assumes "\<bar>x * 100 - of_int n\<bar> \<le> 2 / 5" "\<bar>n\<bar> \<le> 2 ^ 40 + 1"
  shows "round_cents x = dec 2 n"
proof -
  have "\<bar>of_int n :: rat\<bar> \<le> 2 ^ 40 + 1" using of_int_bound [OF assms(2)] by simp
  then have "\<bar>x * 100\<bar> \<le> 2 ^ 40 + 2" using assms(1) by linarith
  from fl_cents(2) [OF this] have "\<lfloor>fl (x * 100) + 1 / 2\<rfloor> = n"
    by (intro floor_unique) (use assms(1) in linarith)+
  then show ?thesis by (simp add: round_cents_def math_round_def mul_js_def div_js_def dec_def)
qed

lemma round_cents_dec: "\<bar>n\<bar> \<le> 2 ^ 40 \<Longrightarrow> round_cents (dec 2 n) = dec 2 n"
  using dec_cents_err [of n] by (intro round_cents_near) linarith+

lemma round_cents_sub:
  assumes "\<bar>a\<bar> \<le> 2 ^ 40" "\<bar>b\<bar> \<le> 2 ^ 40" "\<bar>a - b\<bar> \<le> 2 ^ 40"
  shows "round_cents (sub_js (dec 2 a) (dec 2 b)) = dec 2 (a - b)"
proof -
  let ?x = "dec 2 a - dec 2 b"
  have near: "\<bar>?x * 100 - of_int (a - b)\<bar> \<le> 2 / 8000"
    using dec_cents_err [of a] dec_cents_err [of b] assms by (simp only: left_diff_distrib of_int_diff) linarith
  moreover have "\<bar>of_int (a - b) :: rat\<bar> \<le> 2 ^ 40" using of_int_bound [OF assms(3)] by simp
  ultimately have "\<bar>?x * 100\<bar> \<le> 2 ^ 40 + 2" by linarith
  from fl_cents(1) [OF this] near have "\<bar>fl ?x * 100 - of_int (a - b)\<bar> \<le> 2 / 5" by linarith
  then show ?thesis unfolding sub_js_def by (rule round_cents_near) (use assms(3) in linarith)
qed

lemma half_cent_less:
  assumes "\<bar>n\<bar> \<le> 2 ^ 40"
  shows "half_cent < dec 2 n \<longleftrightarrow> 0 < n" "dec 2 n < - half_cent \<longleftrightarrow> n < 0" "dec 2 n \<le> half_cent \<longleftrightarrow> n \<le> 0"
proof -
  have half: "\<bar>half_cent * 100 - 1 / 2\<bar> \<le> 1 / 8000"
    using fl_cents(1) [of "5 / 1000"] by (simp add: half_cent_def lit_def)
  have n: "\<bar>dec 2 n * 100 - of_int n\<bar> \<le> 1 / 8000" by (rule dec_cents_err) (use assms in linarith)
  have int: "(0 < n \<longrightarrow> 1 \<le> (of_int n :: rat)) \<and> (n \<le> 0 \<longrightarrow> of_int n \<le> (0 :: rat))
      \<and> (n < 0 \<longrightarrow> of_int n \<le> (- 1 :: rat)) \<and> (0 \<le> n \<longrightarrow> 0 \<le> (of_int n :: rat))"
    by auto
  show "half_cent < dec 2 n \<longleftrightarrow> 0 < n" "dec 2 n < - half_cent \<longleftrightarrow> n < 0" "dec 2 n \<le> half_cent \<longleftrightarrow> n \<le> 0"
    using half n int by (cases "0 < n"; cases "n < 0"; simp; linarith)+
qed

text \<open>A sum of whole cents: the error per summand is below a four-thousandth of a cent.\<close>

lemma sum_js_cents:
  assumes "\<And>x. x \<in> set xs \<Longrightarrow> f x = dec 2 (g x)"
    and "(\<Sum>x\<leftarrow>xs. \<bar>g x\<bar>) \<le> 2 ^ 40" "length xs \<le> 4000"
  shows "\<bar>sum_js f xs * 100 - of_int (\<Sum>x\<leftarrow>xs. g x)\<bar> \<le> of_nat (length xs) / 4000"
  using assms
proof (induction xs rule: rev_induct)
  case (snoc x xs)
  have nonneg: "0 \<le> (\<Sum>y\<leftarrow>xs. \<bar>g y\<bar>)" by (rule sum_list_nonneg) auto
  have tot: "(\<Sum>y\<leftarrow>xs. \<bar>g y\<bar>) + \<bar>g x\<bar> \<le> 2 ^ 40" using snoc.prems(2) by simp
  have IH: "\<bar>sum_js f xs * 100 - of_int (\<Sum>y\<leftarrow>xs. g y)\<bar> \<le> of_nat (length xs) / 4000"
    using snoc.prems nonneg tot by (intro snoc.IH) auto
  have le: "\<bar>\<Sum>y\<leftarrow>xs. g y\<bar> \<le> (\<Sum>y\<leftarrow>xs. \<bar>g y\<bar>)" by (induction xs) auto
  have fx: "f x = dec 2 (g x)" using snoc.prems(1) by simp
  have x: "\<bar>dec 2 (g x) * 100 - of_int (g x)\<bar> \<le> 1 / 8000" by (rule dec_cents_err) (use tot nonneg in linarith)
  let ?s = "sum_js f xs + dec 2 (g x)"
  have near: "\<bar>?s * 100 - of_int ((\<Sum>y\<leftarrow>xs. g y) + g x)\<bar> \<le> of_nat (length xs) / 4000 + 1 / 8000"
    using IH x unfolding distrib_right of_int_add by linarith
  have len: "of_nat (length xs) / 4000 \<le> (1 :: rat)" using snoc.prems(3) by simp
  have "\<bar>(\<Sum>y\<leftarrow>xs. g y) + g x\<bar> \<le> 2 ^ 40" using le tot by linarith
  from of_int_bound [OF this]
  have "\<bar>of_int ((\<Sum>y\<leftarrow>xs. g y) + g x) :: rat\<bar> \<le> 2 ^ 40" by (simp only: of_int_power of_int_numeral)
  then have "\<bar>?s * 100\<bar> \<le> 2 ^ 40 + 2" using near len by linarith
  from fl_cents(1) [OF this] near
  have "\<bar>fl ?s * 100 - of_int ((\<Sum>y\<leftarrow>xs. g y) + g x)\<bar> \<le> of_nat (length xs) / 4000 + 2 / 8000" by linarith
  moreover have "(of_nat (length (xs @ [x])) / 4000 :: rat) = of_nat (length xs) / 4000 + 2 / 8000"
    by (simp add: add_divide_distrib)
  moreover have "sum_js f (xs @ [x]) = fl ?s" by (simp add: sum_js_snoc add_js_def fx)
  ultimately show ?case by simp
qed simp

lemma round_sum_cents:
  assumes "\<And>x. x \<in> set xs \<Longrightarrow> f x = dec 2 (g x)" "(\<Sum>x\<leftarrow>xs. \<bar>g x\<bar>) \<le> 2 ^ 40" "length xs \<le> 1000"
  shows "round_cents (sum_js f xs) = dec 2 (\<Sum>x\<leftarrow>xs. g x)"
proof (rule round_cents_near)
  have "of_nat (length xs) / 4000 \<le> (2 / 5 :: rat)" using assms(3) by simp
  moreover have "\<bar>sum_js f xs * 100 - of_int (\<Sum>x\<leftarrow>xs. g x)\<bar> \<le> of_nat (length xs) / 4000"
    by (rule sum_js_cents) (use assms in auto)
  ultimately show "\<bar>sum_js f xs * 100 - of_int (\<Sum>x\<leftarrow>xs. g x)\<bar> \<le> 2 / 5" by linarith
  have "\<bar>\<Sum>y\<leftarrow>xs. g y\<bar> \<le> (\<Sum>y\<leftarrow>xs. \<bar>g y\<bar>)" by (induction xs) auto
  then show "\<bar>\<Sum>x\<leftarrow>xs. g x\<bar> \<le> 2 ^ 40 + 1" using assms(2) by linarith
qed


subsection \<open>The loop on integers\<close>

text \<open>Transfers \<open>(from, to, cents)\<close>.\<close>

fun settle :: "(string \<times> int) list \<Rightarrow> (string \<times> int) list \<Rightarrow> (string \<times> string \<times> int) list" where
  "settle [] ds = []"
| "settle (c # cs) [] = []"
| "settle ((cp, c) # cs) ((dp, d) # ds) =
     (dp, cp, min c d) #
       (if c = d then settle cs ds
        else if c < d then settle cs ((dp, d - c) # ds)
        else settle ((cp, c - d) # cs) ds)"

definition moved :: "(string \<times> string \<times> int \<Rightarrow> string) \<Rightarrow> string \<Rightarrow> (string \<times> string \<times> int) list \<Rightarrow> int" where
  "moved who p ts = (\<Sum>t\<leftarrow>filter (\<lambda>t. who t = p) ts. snd (snd t))"

definition amount_of :: "string \<Rightarrow> (string \<times> int) list \<Rightarrow> int" where
  "amount_of p xs = (\<Sum>x\<leftarrow>filter (\<lambda>x. fst x = p) xs. snd x)"

lemma moved_simps [simp]:
  "moved who p [] = 0" "moved who p (t # ts) = (if who t = p then snd (snd t) else 0) + moved who p ts"
  by (simp_all add: moved_def)

lemma amount_of_simps [simp]:
  "amount_of p [] = 0" "amount_of p (x # xs) = (if fst x = p then snd x else 0) + amount_of p xs"
  by (simp_all add: amount_of_def)

definition all_positive :: "(string \<times> int) list \<Rightarrow> bool" where
  "all_positive xs \<longleftrightarrow> (\<forall>x\<in>set xs. 0 < snd x)"

lemma all_positive_simps [simp]: "all_positive []" "all_positive (x # xs) \<longleftrightarrow> 0 < snd x \<and> all_positive xs"
  by (auto simp: all_positive_def)

lemma all_positive_sum: "all_positive xs \<Longrightarrow> xs \<noteq> [] \<Longrightarrow> 0 < (\<Sum>x\<leftarrow>xs. snd x)"
proof (induction xs)
  case (Cons x xs)
  then have "0 \<le> (\<Sum>x\<leftarrow>xs. snd x)" by (cases xs) auto
  with Cons.prems show ?case by simp
qed simp

text \<open>When debts and credits balance, everyone gets and gives exactly what is due.\<close>

lemma settle_exact:
  assumes "all_positive cs" "all_positive ds" "(\<Sum>x\<leftarrow>cs. snd x) = (\<Sum>x\<leftarrow>ds. snd x)"
  shows "moved (fst \<circ> snd) p (settle cs ds) = amount_of p cs \<and> moved fst p (settle cs ds) = amount_of p ds"
  using assms
proof (induction cs ds rule: settle.induct)
  case (1 ds)
  then have "ds = []" using all_positive_sum [of ds] by fastforce
  then show ?case by simp
next
  case (2 c cs)
  then show ?case using all_positive_sum [of "c # cs"] by simp
next
  case (3 cp c cs dp d ds)
  then show ?case by (cases c d rule: linorder_cases) auto
qed

lemma settle_sound:
  assumes "all_positive cs" "all_positive ds" "(f, t, a) \<in> set (settle cs ds)"
  shows "0 < a" "f \<in> fst ` set ds" "t \<in> fst ` set cs"
  using assms by (induction cs ds rule: settle.induct) (auto split: if_splits)

lemma settle_length: "cs \<noteq> [] \<or> ds \<noteq> [] \<Longrightarrow> length (settle cs ds) < length cs + length ds"
proof (induction cs ds rule: settle.induct)
  case (3 cp c cs dp d ds)
  show ?case
  proof (cases "cs = [] \<and> ds = []")
    case True
    then show ?thesis by (simp add: min_def)
  next
    case False
    then show ?thesis using "3.IH" by (cases c d rule: linorder_cases) auto
  qed
qed auto

text \<open>The doubles of the service and the integers.\<close>

definition whole :: "(string \<times> jsnum) list \<Rightarrow> bool" where
  "whole xs \<longleftrightarrow> (\<forall>x\<in>set xs. \<exists>n. snd x = dec 2 n \<and> 0 < n \<and> n \<le> 2 ^ 40)"

definition in_cents :: "(string \<times> jsnum) list \<Rightarrow> (string \<times> int) list" where
  "in_cents xs = map (\<lambda>x. (fst x, cents (snd x))) xs"

definition transfer_cents :: "netted_transfer \<Rightarrow> string \<times> string \<times> int" where
  "transfer_cents t = (nt_from_id t, nt_to_id t, cents (nt_amount_usd t))"

lemma pass_over_cents:
  assumes "0 \<le> n" "n \<le> 2 ^ 40" "whole xs"
  shows "whole (pass_over i (dec 2 n) xs)"
    and "in_cents (pass_over i (dec 2 n) xs) = (if n = 0 then in_cents xs else (i, n) # in_cents xs)"
  using assms half_cent_less(3) [of n] by (auto simp: pass_over_def whole_def in_cents_def cents_dec)

lemma match_transfers_cents:
  assumes "whole cs" "whole ds"
  shows "map transfer_cents (match_transfers k cs ds) = settle (in_cents cs) (in_cents ds)
       \<and> (\<forall>t\<in>set (match_transfers k cs ds). \<exists>n. nt_amount_usd t = dec 2 n \<and> 0 < n \<and> n \<le> 2 ^ 40)"
  using assms
proof (induction k cs ds rule: match_transfers.induct)
  case (3 k cp credit cs dp debt ds)
  from "3.prems" obtain c d where c: "credit = dec 2 c" "0 < c" "c \<le> 2 ^ 40" and d: "debt = dec 2 d" "0 < d" "d \<le> 2 ^ 40"
    and rest: "whole cs" "whole ds" by (auto simp: whole_def)
  let ?m = "min c d"
  have m: "min credit debt = dec 2 ?m" unfolding c(1) d(1) by (rule dec_min) (use c d in auto)
  have m0: "0 < ?m" "?m \<le> 2 ^ 40" using c d by auto
  have round: "round_cents (dec 2 ?m) = dec 2 ?m" by (rule round_cents_dec) (use m0 in auto)
  have pos: "0 < dec 2 ?m" using dec_less_iff [of 0 ?m 2] m0 by simp
  have subs: "round_cents (sub_js credit (dec 2 ?m)) = dec 2 (c - ?m)"
      "round_cents (sub_js debt (dec 2 ?m)) = dec 2 (d - ?m)"
    unfolding c(1) d(1) by (rule round_cents_sub; use c d in auto)+
  let ?cs = "pass_over cp (dec 2 (c - ?m)) cs" and ?ds = "pass_over dp (dec 2 (d - ?m)) ds"
  have cs: "whole ?cs" "in_cents ?cs = (if c - ?m = 0 then in_cents cs else (cp, c - ?m) # in_cents cs)"
    by (rule pass_over_cents; use c d rest in auto)+
  have ds: "whole ?ds" "in_cents ?ds = (if d - ?m = 0 then in_cents ds else (dp, d - ?m) # in_cents ds)"
    by (rule pass_over_cents; use c d rest in auto)+
  let ?t = "\<lparr>nt_number = Suc k, nt_from_id = dp, nt_to_id = cp, nt_amount_usd = dec 2 ?m, nt_settled = False, nt_tx_hash = None\<rparr>"
  have step: "match_transfers k ((cp, credit) # cs) ((dp, debt) # ds) = ?t # match_transfers (Suc k) ?cs ?ds"
    using pos by (simp add: m round subs Let_def)
  have IH: "map transfer_cents (match_transfers (Suc k) ?cs ?ds) = settle (in_cents ?cs) (in_cents ?ds)
       \<and> (\<forall>t\<in>set (match_transfers (Suc k) ?cs ?ds). \<exists>n. nt_amount_usd t = dec 2 n \<and> 0 < n \<and> n \<le> 2 ^ 40)"
    using "3.IH" [OF m [symmetric] round [symmetric] refl] pos cs(1) ds(1) by (simp add: subs)
  have "settle (in_cents ((cp, credit) # cs)) (in_cents ((dp, debt) # ds))
      = (dp, cp, ?m) # settle (in_cents ?cs) (in_cents ?ds)"
    using c d unfolding cs(2) ds(2)
    by (cases c d rule: linorder_cases) (auto simp: in_cents_def cents_dec min_def)
  moreover have "transfer_cents ?t = (dp, cp, ?m)" using m0 by (simp add: transfer_cents_def cents_dec)
  ultimately show ?case unfolding step using IH m0 by auto
qed (auto simp: in_cents_def)


subsection \<open>The positions of the parties\<close>

definition owed_by :: "string \<Rightarrow> obligation list \<Rightarrow> int" where
  "owed_by i obs = (\<Sum>r\<leftarrow>filter (\<lambda>r. ob_payer_id r = i) obs. cents (ob_amount_usd r))"

definition owed_to :: "string \<Rightarrow> obligation list \<Rightarrow> int" where
  "owed_to i obs = (\<Sum>r\<leftarrow>filter (\<lambda>r. ob_payee_id r = i) obs. cents (ob_amount_usd r))"

definition position_at :: "(net_position \<Rightarrow> jsnum) \<Rightarrow> string \<Rightarrow> net_position list \<Rightarrow> jsnum" where
  "position_at f i ps = (case find_one (\<lambda>p. np_party_id p = i) ps of None \<Rightarrow> 0 | Some p \<Rightarrow> f p)"

lemma position_at_ensure [simp]:
  "(\<And>n. f (new_position j n) = 0) \<Longrightarrow> position_at f i (ensure_party j name ps) = position_at f i ps"
  by (auto simp: position_at_def ensure_party_def find_one_insert new_position_def split: option.splits)

lemma position_at_update:
  "(\<And>p. np_party_id (g p) = np_party_id p) \<Longrightarrow>
   position_at f i (update_where (\<lambda>p. np_party_id p = j) g ps) =
     (if i = j then position_at (\<lambda>p. f (g p)) i ps else position_at f i ps)"
  by (auto simp: position_at_def find_one_update split: option.splits dest: find_one_SomeD)

lemma find_ensured: "find_one (\<lambda>p. np_party_id p = i) (ensure_party i n ps) \<noteq> None"
  by (auto simp: ensure_party_def find_one_insert new_position_def split: option.splits)

lemma position_at_add:
  "find_one (\<lambda>p. np_party_id p = i) ps \<noteq> None \<Longrightarrow>
   position_at (\<lambda>p. add_js (f p) x) i ps = add_js (position_at f i ps) x"
  by (auto simp: position_at_def)

lemma book_obligation_at:
  "position_at np_gross_payable_usd i (book_obligation ps r) =
     (if i = ob_payer_id r then add_js (position_at np_gross_payable_usd i ps) (ob_amount_usd r)
      else position_at np_gross_payable_usd i ps)"
  "position_at np_gross_receivable_usd i (book_obligation ps r) =
     (if i = ob_payee_id r then add_js (position_at np_gross_receivable_usd i ps) (ob_amount_usd r)
      else position_at np_gross_receivable_usd i ps)"
  by (simp_all add: book_obligation_def Let_def position_at_update position_at_add find_ensured new_position_def)

lemma booked_at:
  "position_at np_gross_payable_usd i (foldl book_obligation [] obs) =
     sum_js ob_amount_usd (filter (\<lambda>r. ob_payer_id r = i) obs)"
  "position_at np_gross_receivable_usd i (foldl book_obligation [] obs) =
     sum_js ob_amount_usd (filter (\<lambda>r. ob_payee_id r = i) obs)"
proof (induction obs rule: rev_induct)
  case Nil
  { case 1 show ?case by (simp add: position_at_def find_one_def)
  next case 2 show ?case by (simp add: position_at_def find_one_def) }
next
  case (snoc r obs)
  { case 1 show ?case using snoc(1) by (cases "i = ob_payer_id r") (simp_all add: book_obligation_at sum_js_snoc)
  next case 2 show ?case using snoc(2) by (cases "i = ob_payee_id r") (simp_all add: book_obligation_at sum_js_snoc) }
qed

lemma ids_ensure:
  "set (map np_party_id (ensure_party i n ps)) = insert i (set (map np_party_id ps))"
  "distinct (map np_party_id (ensure_party i n ps)) = distinct (map np_party_id ps)"
  by (auto simp: ensure_party_def insert_row_def new_position_def find_one_None_iff dest!: find_one_SomeD
      split: if_splits intro: rev_image_eqI)

lemma ids_book:
  "set (map np_party_id (book_obligation ps r)) = insert (ob_payee_id r) (insert (ob_payer_id r) (set (map np_party_id ps)))"
  "distinct (map np_party_id (book_obligation ps r)) = distinct (map np_party_id ps)"
proof -
  have ids: "map np_party_id (update_where q (\<lambda>p. p\<lparr>np_gross_payable_usd := h p\<rparr>) ts) = map np_party_id ts"
    "map np_party_id (update_where q (\<lambda>p. p\<lparr>np_gross_receivable_usd := h p\<rparr>) ts) = map np_party_id ts" for q h ts
    by (simp_all add: map_update_where)
  show "set (map np_party_id (book_obligation ps r)) = insert (ob_payee_id r) (insert (ob_payer_id r) (set (map np_party_id ps)))"
    unfolding book_obligation_def Let_def ids ids_ensure by simp
  show "distinct (map np_party_id (book_obligation ps r)) = distinct (map np_party_id ps)"
    unfolding book_obligation_def Let_def ids ids_ensure by simp
qed

definition booked :: "obligation list \<Rightarrow> net_position list" where
  "booked obs = foldl book_obligation [] obs"

lemma booked_ids:
  "distinct (map np_party_id (booked obs))"
  "set (map np_party_id (booked obs)) = ob_payer_id ` set obs \<union> ob_payee_id ` set obs"
proof (induction obs rule: rev_induct)
  case Nil
  { case 1 show ?case by (simp add: booked_def)
  next case 2 show ?case by (simp add: booked_def) }
next
  case (snoc r obs)
  { case 1 show ?case using snoc(1) by (simp add: booked_def ids_book(2))
  next case 2 show ?case using snoc(2) unfolding booked_def by (simp only: foldl_append foldl.simps ids_book(1)) auto }
qed

lemma position_at_member:
  assumes "distinct (map np_party_id ps)" "p \<in> set ps"
  shows "position_at f (np_party_id p) ps = f p"
proof -
  obtain q where q: "find_one (\<lambda>x. np_party_id x = np_party_id p) ps = Some q"
    using assms(2) find_one_None_iff [of "\<lambda>x. np_party_id x = np_party_id p" ps] by auto
  then have "q = p" using find_one_SomeD [OF q] assms by (auto simp: distinct_map dest: inj_onD)
  then show ?thesis using q by (simp add: position_at_def)
qed

text \<open>Whole-cent obligations of together at most \<open>2 ^ 39\<close> cents, and at most a thousand of them.\<close>

definition well_sized :: "obligation list \<Rightarrow> bool" where
  "well_sized obs \<longleftrightarrow>
     (\<forall>r\<in>set obs. ob_amount_usd r = dec 2 (cents (ob_amount_usd r)) \<and> 0 < cents (ob_amount_usd r))
     \<and> (\<Sum>r\<leftarrow>obs. cents (ob_amount_usd r)) \<le> 2 ^ 39 \<and> length obs \<le> 1000"

lemma filter_sum_le:
  assumes "\<forall>x\<in>set xs. 0 \<le> (f x :: int)"
  shows "0 \<le> (\<Sum>x\<leftarrow>filter p xs. f x)" "(\<Sum>x\<leftarrow>filter p xs. f x) \<le> (\<Sum>x\<leftarrow>xs. f x)"
  using assms by (induction xs) auto

lemma booked_sum:
  assumes "well_sized obs"
  shows "round_cents (sum_js ob_amount_usd (filter q obs)) = dec 2 (\<Sum>r\<leftarrow>filter q obs. cents (ob_amount_usd r))"
proof (rule round_sum_cents)
  show "ob_amount_usd r = dec 2 (cents (ob_amount_usd r))" if "r \<in> set (filter q obs)" for r
    using assms that by (simp add: well_sized_def)
  have pos: "\<forall>r\<in>set obs. 0 \<le> cents (ob_amount_usd r)" using assms by (auto simp: well_sized_def less_imp_le)
  have "(\<Sum>r\<leftarrow>filter q obs. \<bar>cents (ob_amount_usd r)\<bar>) = (\<Sum>r\<leftarrow>filter q obs. cents (ob_amount_usd r))"
    using pos by (intro arg_cong [of _ _ sum_list] map_cong) auto
  then show "(\<Sum>r\<leftarrow>filter q obs. \<bar>cents (ob_amount_usd r)\<bar>) \<le> 2 ^ 40"
    using filter_sum_le(2) [OF pos, of q] assms by (simp add: well_sized_def)
  show "length (filter q obs) \<le> 1000"
    by (rule order_trans [OF length_filter_le]) (use assms in \<open>simp add: well_sized_def\<close>)
qed

definition net_cents :: "obligation list \<Rightarrow> string \<Rightarrow> int" where
  "net_cents obs i = owed_to i obs - owed_by i obs"

lemma owed_bounds:
  assumes "well_sized obs"
  shows "0 \<le> owed_by i obs" "owed_by i obs \<le> 2 ^ 39" "0 \<le> owed_to i obs" "owed_to i obs \<le> 2 ^ 39"
    "\<bar>net_cents obs i\<bar> \<le> 2 ^ 39"
proof -
  have pos: "\<forall>r\<in>set obs. 0 \<le> cents (ob_amount_usd r)" and tot: "(\<Sum>r\<leftarrow>obs. cents (ob_amount_usd r)) \<le> 2 ^ 39"
    using assms by (auto simp: well_sized_def less_imp_le)
  note b = filter_sum_le [OF pos, of "\<lambda>r. ob_payer_id r = i"] filter_sum_le [OF pos, of "\<lambda>r. ob_payee_id r = i"]
  show "0 \<le> owed_by i obs" "owed_by i obs \<le> 2 ^ 39" "0 \<le> owed_to i obs" "owed_to i obs \<le> 2 ^ 39"
    "\<bar>net_cents obs i\<bar> \<le> 2 ^ 39"
    using b tot by (simp_all add: owed_by_def owed_to_def net_cents_def)
qed

lemma closed_position:
  assumes ok: "well_sized obs" and p: "p \<in> set (booked obs)"
  shows "np_net_balance_usd (close_position p) = dec 2 (net_cents obs (np_party_id p))"
    and "np_status (close_position p) = (if 0 < net_cents obs (np_party_id p) then NetCreditor
           else if net_cents obs (np_party_id p) < 0 then NetDebtor else Neutral)"
proof -
  let ?i = "np_party_id p"
  note at = position_at_member [OF booked_ids(1) p, unfolded booked_def]
  have pay: "round_cents (np_gross_payable_usd p) = dec 2 (owed_by ?i obs)"
    unfolding at [of np_gross_payable_usd, symmetric] booked_at owed_by_def by (rule booked_sum [OF ok])
  have rec: "round_cents (np_gross_receivable_usd p) = dec 2 (owed_to ?i obs)"
    unfolding at [of np_gross_receivable_usd, symmetric] booked_at owed_to_def by (rule booked_sum [OF ok])
  note b = owed_bounds [OF ok, of ?i]
  have net: "round_cents (sub_js (dec 2 (owed_to ?i obs)) (dec 2 (owed_by ?i obs))) = dec 2 (net_cents obs ?i)"
    unfolding net_cents_def by (rule round_cents_sub) (use b in \<open>simp_all add: net_cents_def\<close>)
  show "np_net_balance_usd (close_position p) = dec 2 (net_cents obs ?i)"
    by (simp add: close_position_def Let_def pay rec net)
  show "np_status (close_position p) = (if 0 < net_cents obs ?i then NetCreditor
           else if net_cents obs ?i < 0 then NetDebtor else Neutral)"
    using half_cent_less [of "net_cents obs ?i"] b(5) by (simp add: close_position_def Let_def pay rec net)
qed


subsection \<open>Creditors and debtors\<close>

definition parties :: "obligation list \<Rightarrow> string list" where
  "parties obs = map np_party_id (booked obs)"

definition positions :: "obligation list \<Rightarrow> net_position list" where
  "positions obs = map close_position (booked obs)"

lemma close_position_id [simp]: "np_party_id (close_position p) = np_party_id p"
  by (simp add: close_position_def Let_def)

lemma parties_simps: "distinct (parties obs)" "set (parties obs) = ob_payer_id ` set obs \<union> ob_payee_id ` set obs"
  using booked_ids [of obs] by (simp_all add: parties_def)

definition side_of :: "int \<Rightarrow> obligation list \<Rightarrow> (string \<times> int) list" where
  "side_of sign obs = map (\<lambda>i. (i, sign * net_cents obs i)) (filter (\<lambda>i. 0 < sign * net_cents obs i) (parties obs))"

lemma unsorted_creditors:
  assumes "well_sized obs"
  shows "map (\<lambda>p. (np_party_id p, np_net_balance_usd p)) (filter (\<lambda>p. np_status p = NetCreditor) (positions obs))
       = map (\<lambda>x. (fst x, dec 2 (snd x))) (side_of 1 obs)"
    and "map (\<lambda>p. (np_party_id p, \<bar>np_net_balance_usd p\<bar>)) (filter (\<lambda>p. np_status p = NetDebtor) (positions obs))
       = map (\<lambda>x. (fst x, dec 2 (snd x))) (side_of (- 1) obs)"
proof -
  note closed = closed_position [OF assms]
  have abs: "\<bar>dec 2 (net_cents obs i)\<bar> = dec 2 (- net_cents obs i)" if "net_cents obs i < 0" for i
    using dec_abs [of "net_cents obs i" 2] owed_bounds(5) [OF assms, of i] that by simp
  have "map (\<lambda>p. (np_party_id p, np_net_balance_usd p)) (filter (\<lambda>p. np_status p = NetCreditor) (map close_position ps))
       = map (\<lambda>i. (i, dec 2 (net_cents obs i))) (filter (\<lambda>i. 0 < net_cents obs i) (map np_party_id ps))"
    "map (\<lambda>p. (np_party_id p, \<bar>np_net_balance_usd p\<bar>)) (filter (\<lambda>p. np_status p = NetDebtor) (map close_position ps))
       = map (\<lambda>i. (i, dec 2 (- net_cents obs i))) (filter (\<lambda>i. 0 < - net_cents obs i) (map np_party_id ps))"
    if "set ps \<subseteq> set (booked obs)" for ps
    using that by (induction ps) (simp_all add: closed abs del: dec_minus)
  from this [of "booked obs"] show
    "map (\<lambda>p. (np_party_id p, np_net_balance_usd p)) (filter (\<lambda>p. np_status p = NetCreditor) (positions obs))
       = map (\<lambda>x. (fst x, dec 2 (snd x))) (side_of 1 obs)"
    "map (\<lambda>p. (np_party_id p, \<bar>np_net_balance_usd p\<bar>)) (filter (\<lambda>p. np_status p = NetDebtor) (positions obs))
       = map (\<lambda>x. (fst x, dec 2 (snd x))) (side_of (- 1) obs)"
    by (simp_all add: side_of_def positions_def parties_def o_def del: dec_minus)
qed

lemma side_of_range:
  assumes "well_sized obs" "sign = 1 \<or> sign = - 1" "x \<in> set (side_of sign obs)"
  shows "0 < snd x \<and> snd x \<le> 2 ^ 39"
  using assms(2,3) owed_bounds(5) [OF assms(1), of "fst x"] by (auto simp: side_of_def)

lemma sort_key_cents:
  assumes "\<And>x. x \<in> set xs \<Longrightarrow> 0 < snd x \<and> snd x \<le> 2 ^ 39"
    and "ys = sort_key k (map (\<lambda>x. (fst x, dec 2 (snd x))) xs)"
  shows "whole ys" "mset (in_cents ys) = mset xs"
proof -
  show "whole ys" using assms(1) by (fastforce simp: whole_def assms(2))
  have "mset (in_cents ys) = mset (map (\<lambda>x. (fst x, cents (dec 2 (snd x)))) xs)"
    by (simp add: in_cents_def assms(2) multiset.map_comp o_def)
  also have "map (\<lambda>x. (fst x, cents (dec 2 (snd x)))) xs = xs"
    using assms(1) by (intro map_idI) (fastforce simp: cents_dec)
  finally show "mset (in_cents ys) = mset xs" .
qed

lemma creditors_debtors:
  assumes "well_sized obs"
  shows "whole (creditors_of (positions obs))" "mset (in_cents (creditors_of (positions obs))) = mset (side_of 1 obs)"
    and "whole (debtors_of (positions obs))" "mset (in_cents (debtors_of (positions obs))) = mset (side_of (- 1) obs)"
proof -
  note sorted = sort_key_cents [OF _ refl, of "side_of sign obs" "\<lambda>c. - snd c" for sign]
  have c: "creditors_of (positions obs) = sort_key (\<lambda>c. - snd c) (map (\<lambda>x. (fst x, dec 2 (snd x))) (side_of 1 obs))"
    by (simp only: creditors_of_def unsorted_creditors [OF assms])
  have d: "debtors_of (positions obs) = sort_key (\<lambda>c. - snd c) (map (\<lambda>x. (fst x, dec 2 (snd x))) (side_of (- 1) obs))"
    by (simp only: debtors_of_def unsorted_creditors [OF assms])
  show "whole (creditors_of (positions obs))" "mset (in_cents (creditors_of (positions obs))) = mset (side_of 1 obs)"
    unfolding c by (rule sorted; use side_of_range [OF assms] in blast)+
  show "whole (debtors_of (positions obs))" "mset (in_cents (debtors_of (positions obs))) = mset (side_of (- 1) obs)"
    unfolding d by (rule sorted; use side_of_range [OF assms] in blast)+
qed

lemma amount_of_mset: "amount_of p xs = (\<Sum>x\<in>#filter_mset (\<lambda>x. fst x = p) (mset xs). snd x)"
  by (induction xs) auto

lemma sum_snd_mset: "(\<Sum>x\<leftarrow>xs. snd x) = (\<Sum>x\<in>#mset xs. (snd x :: int))"
  by (induction xs) auto

lemma all_positive_mset: "all_positive xs \<longleftrightarrow> (\<forall>x\<in>#mset xs. 0 < snd x)"
  by (simp add: all_positive_def)

lemma amount_of_side:
  "amount_of p (side_of sign obs) = (if p \<in> set (parties obs) then max 0 (sign * net_cents obs p) else 0)"
proof -
  have "amount_of p (map (\<lambda>i. (i, f i)) (filter (\<lambda>i. 0 < f i) is)) = (if p \<in> set is then max 0 (f p) else 0)"
    if "distinct is" for "is" and f :: "string \<Rightarrow> int"
    using that by (induction "is") (auto simp: amount_of_def)
  then show ?thesis by (simp add: side_of_def parties_simps)
qed

lemma sum_parties:
  assumes "distinct is" "\<forall>r\<in>set obs. who r \<in> set is"
  shows "(\<Sum>i\<leftarrow>is. \<Sum>r\<leftarrow>filter (\<lambda>r. who r = i) obs. f r) = (\<Sum>r\<leftarrow>obs. (f r :: int))"
  using assms(2)
proof (induction obs)
  case (Cons r obs)
  have one: "(\<Sum>i\<leftarrow>is. if who r = i then f r else 0) = f r"
    using assms(1) Cons.prems by (simp add: sum_list_distinct_conv_sum_set)
  have "(\<Sum>i\<leftarrow>is. \<Sum>q\<leftarrow>filter (\<lambda>q. who q = i) (r # obs). f q)
      = (\<Sum>i\<leftarrow>is. (if who r = i then f r else 0) + (\<Sum>q\<leftarrow>filter (\<lambda>q. who q = i) obs. f q))"
    by (intro arg_cong [of _ _ sum_list] map_cong) auto
  then show ?case using Cons one by (simp add: sum_list_addf)
qed simp

lemma net_positions_balance: "(\<Sum>i\<leftarrow>parties obs. net_cents obs i) = 0"
proof -
  have "(\<Sum>i\<leftarrow>parties obs. owed_by i obs) = (\<Sum>r\<leftarrow>obs. cents (ob_amount_usd r))"
    unfolding owed_by_def by (rule sum_parties) (simp_all add: parties_simps)
  moreover have "(\<Sum>i\<leftarrow>parties obs. owed_to i obs) = (\<Sum>r\<leftarrow>obs. cents (ob_amount_usd r))"
    unfolding owed_to_def by (rule sum_parties) (simp_all add: parties_simps)
  ultimately show ?thesis by (simp add: net_cents_def sum_list_subtractf)
qed

lemma sides_balance: "(\<Sum>x\<leftarrow>side_of 1 obs. snd x) = (\<Sum>x\<leftarrow>side_of (- 1) obs. snd x)"
proof -
  have "(\<Sum>x\<leftarrow>map (\<lambda>i. (i, f i)) (filter (\<lambda>i. 0 < f i) is). snd x)
      - (\<Sum>x\<leftarrow>map (\<lambda>i. (i, - f i)) (filter (\<lambda>i. 0 < - f i) is). snd x) = (\<Sum>i\<leftarrow>is. f i)" for "is" and f :: "string \<Rightarrow> int"
    by (induction "is") auto
  from this [of "net_cents obs" "parties obs"] show ?thesis by (simp add: side_of_def net_positions_balance)
qed


subsection \<open>Multilateral netting\<close>

lemma netting_transfers:
  assumes ok: "well_sized obs"
  defines "ts \<equiv> match_transfers 0 (creditors_of (positions obs)) (debtors_of (positions obs))"
  shows "moved (fst \<circ> snd) p (map transfer_cents ts) - moved fst p (map transfer_cents ts) = net_cents obs p"
    and "\<forall>t\<in>set ts. \<exists>n. nt_amount_usd t = dec 2 n \<and> 0 < n \<and> n \<le> 2 ^ 40"
    and "ts \<noteq> [] \<Longrightarrow> length ts < length (parties obs)"
proof -
  let ?cs = "in_cents (creditors_of (positions obs))" and ?ds = "in_cents (debtors_of (positions obs))"
  note sides = creditors_debtors [OF ok]
  have refines: "map transfer_cents ts = settle ?cs ?ds"
    "\<forall>t\<in>set ts. \<exists>n. nt_amount_usd t = dec 2 n \<and> 0 < n \<and> n \<le> 2 ^ 40"
    using match_transfers_cents [OF sides(1,3), of 0] by (simp_all add: ts_def)
  have pos: "all_positive ?cs" "all_positive ?ds"
    unfolding all_positive_mset sides(2,4) using side_of_range [OF ok] by auto
  have balance: "(\<Sum>x\<leftarrow>?cs. snd x) = (\<Sum>x\<leftarrow>?ds. snd x)"
  proof -
    have "(\<Sum>x\<leftarrow>?cs. snd x) = (\<Sum>x\<leftarrow>side_of 1 obs. snd x)"
      by (simp only: sum_snd_mset sides(2))
    moreover have "(\<Sum>x\<leftarrow>?ds. snd x) = (\<Sum>x\<leftarrow>side_of (- 1) obs. snd x)"
      by (simp only: sum_snd_mset sides(4))
    ultimately show ?thesis by (simp only: sides_balance)
  qed
  have absent: "net_cents obs p = 0" if "p \<notin> set (parties obs)"
  proof -
    have "filter (\<lambda>r. ob_payer_id r = p) obs = []" "filter (\<lambda>r. ob_payee_id r = p) obs = []"
      using that by (auto simp: parties_simps filter_empty_conv)
    then show ?thesis by (simp add: net_cents_def owed_by_def owed_to_def)
  qed
  have amounts: "amount_of p ?cs = amount_of p (side_of 1 obs)" "amount_of p ?ds = amount_of p (side_of (- 1) obs)"
    unfolding amount_of_mset sides(2,4) by (rule refl)+
  show "moved (fst \<circ> snd) p (map transfer_cents ts) - moved fst p (map transfer_cents ts) = net_cents obs p"
    using settle_exact [OF pos balance, of p] absent by (auto simp: refines(1) amounts amount_of_side)
  show "\<forall>t\<in>set ts. \<exists>n. nt_amount_usd t = dec 2 n \<and> 0 < n \<and> n \<le> 2 ^ 40" by (rule refines(2))
  assume "ts \<noteq> []"
  then have "?cs \<noteq> [] \<or> ?ds \<noteq> []" using refines(1) by (metis list.map_disc_iff settle.simps(1))
  from settle_length [OF this] have "length ts < length ?cs + length ?ds" by (metis length_map refines(1))
  also have "\<dots> = length (side_of 1 obs) + length (side_of (- 1) obs)"
    using sides(2,4) by (metis size_mset)
  also have "\<dots> \<le> length (parties obs)"
  proof -
    have "length (filter (\<lambda>i. 0 < f i) is) + length (filter (\<lambda>i. 0 < - f i) is) \<le> length is"
      for "is" and f :: "string \<Rightarrow> int" by (induction "is") auto
    from this [of "net_cents obs" "parties obs"] show ?thesis by (simp add: side_of_def)
  qed
  finally show "length ts < length (parties obs)" .
qed

lemma multilateral_simps:
  "ml_net_transfers (calculate_multilateral_netting obs) =
     match_transfers 0 (creditors_of (positions obs)) (debtors_of (positions obs))"
  "ml_party_positions (calculate_multilateral_netting obs) = positions obs"
  "ml_is_balanced (calculate_multilateral_netting obs) \<longleftrightarrow> \<bar>sum_js np_net_balance_usd (positions obs)\<bar> < lit (5 / 100)"
  by (simp_all add: calculate_multilateral_netting_def Let_def positions_def booked_def)

text \<open>
  C35: multilateral netting of whole-cent obligations settles everyone's net position to the
  cent. For every party, what it receives less what it pays in the transfers is what it was
  owed less what it owed; every transfer is a positive number of cents, and there are fewer
  transfers than parties.
\<close>

theorem netting_settles_net_positions:
  assumes "well_sized obs"
  shows "let ts = ml_net_transfers (calculate_multilateral_netting obs) in
     (\<forall>p. moved (fst \<circ> snd) p (map transfer_cents ts) - moved fst p (map transfer_cents ts)
            = owed_to p obs - owed_by p obs)
     \<and> (\<forall>t\<in>set ts. \<exists>n>0. nt_amount_usd t = dec 2 n)
     \<and> (ts \<noteq> [] \<longrightarrow> length ts < length (ml_party_positions (calculate_multilateral_netting obs)))"
  using netting_transfers [OF assms]
  by (fastforce simp: multilateral_simps net_cents_def positions_def parties_def)

text \<open>
  C36: on amounts that are whole cents the loop over doubles makes exactly the transfers of
  the loop over integers: rounding never loses or invents a cent.
\<close>

theorem match_transfers_refines:
  assumes "whole cs" "whole ds"
  shows "map transfer_cents (match_transfers n cs ds) = settle (in_cents cs) (in_cents ds)"
  using match_transfers_cents [OF assms] by blast

text \<open>Three parties that owe each other, for the applications of the theorems.\<close>

definition example_due :: "string \<Rightarrow> string \<Rightarrow> string \<Rightarrow> int \<Rightarrow> obligation" where
  "example_due i payer payee n = \<lparr>ob_id = i, ob_payer_id = payer, ob_payer_name = payer, ob_payee_id = payee,
     ob_payee_name = payee, ob_deal_id = None, ob_amount_usd = dec 2 n, ob_currency = ''USD'', ob_type = DealPayout,
     ob_status = ObligationPending, ob_cycle_id = None, ob_settlement_tx_hash = None, ob_due_date = 0\<rparr>"

definition example_dues :: "obligation list" where
  "example_dues = [example_due ''1'' ''A'' ''B'' 10000, example_due ''2'' ''B'' ''C'' 6050, example_due ''3'' ''C'' ''A'' 3010]"

lemma example_dues_sized: "well_sized example_dues"
  by (simp add: well_sized_def example_dues_def example_due_def cents_dec)

theorem netting_settles_net_positions_witness:
  "well_sized example_dues \<and> (let ts = ml_net_transfers (calculate_multilateral_netting example_dues) in
     moved (fst \<circ> snd) ''A'' (map transfer_cents ts) - moved fst ''A'' (map transfer_cents ts) = - 6990
     \<and> moved (fst \<circ> snd) ''B'' (map transfer_cents ts) - moved fst ''B'' (map transfer_cents ts) = 3950)"
  using netting_settles_net_positions [OF example_dues_sized] example_dues_sized
  by (simp add: Let_def owed_to_def owed_by_def example_dues_def example_due_def cents_dec)

theorem match_transfers_refines_witness:
  "map transfer_cents (match_transfers 0 [(''B'', dec 2 3950), (''C'', dec 2 3040)] [(''A'', dec 2 6990)])
     = [(''A'', ''B'', 3950), (''A'', ''C'', 3040)]"
proof -
  have "whole [(''B'', dec 2 3950), (''C'', dec 2 3040)]" "whole [(''A'', dec 2 6990)]"
    by (auto simp: whole_def)
  from match_transfers_refines [OF this] show ?thesis
    by (simp only:) (simp add: in_cents_def cents_dec)
qed

text \<open>
  C37: the loop of the transfers ends for any amounts, also those that are no whole cents:
  each round passes over a creditor or a debtor, and there are fewer transfers than both
  together.
\<close>

theorem match_transfers_bounded: "length (match_transfers n cs ds) \<le> length cs + length ds - 1"
proof (induction n cs ds rule: match_transfers.induct)
  case (3 n cp credit cs dp debt ds)
  let ?a = "min credit debt" let ?r = "round_cents ?a"
  let ?made = "if 0 < ?r then [\<lparr>nt_number = Suc n, nt_from_id = dp, nt_to_id = cp, nt_amount_usd = ?r,
                  nt_settled = False, nt_tx_hash = None\<rparr>] else []"
  let ?cs = "pass_over cp (round_cents (sub_js credit ?a)) cs" and ?ds = "pass_over dp (round_cents (sub_js debt ?a)) ds"
  have made: "length ?made \<le> 1" by simp
  have shrink: "length ?cs + length ?ds \<le> Suc (length cs + length ds)"
  proof (cases "credit \<le> debt")
    case True
    then show ?thesis using length_pass_over [of dp _ ds] by (simp add: min_def le_Suc_eq add_le_mono)
  next
    case False
    then show ?thesis using length_pass_over [of cp _ cs] by (simp add: min_def le_Suc_eq add_le_mono)
  qed
  have "length (match_transfers n ((cp, credit) # cs) ((dp, debt) # ds))
      = length ?made + length (match_transfers (n + length ?made) ?cs ?ds)"
    by (simp only: match_transfers.simps Let_def length_append)
  also have "\<dots> \<le> 1 + (length ?cs + length ?ds - 1)"
    using "3.IH" [OF refl refl refl] made by (intro add_mono) auto
  also have "\<dots> \<le> length ((cp, credit) # cs) + length ((dp, debt) # ds) - 1" using shrink by simp
  finally show ?case .
qed simp_all

end
