(* ===== verification/NettingCycles.thy ===== *)
theory NettingCycles
  imports NettingCorrect
begin

text \<open>
  What executing, repeating, overlapping and unwinding cycles does to the rows: the loops of
  \<open>Netting\<close> are correct on their input (\<open>NettingCorrect\<close>), but the service reads and
  writes the rows without a transaction and without a lock.
\<close>

definition unique_rows :: "netting_state \<Rightarrow> bool" where
  "unique_rows s \<longleftrightarrow> distinct (map ob_id (nn_obligations s))"

definition settle_pending :: "string \<Rightarrow> string \<Rightarrow> obligation list \<Rightarrow> obligation list" where
  "settle_pending cycle_id tx_hash t =
     update_where (\<lambda>r. ob_status r = ObligationPending) (settle_obligation cycle_id tx_hash) t"

lemma settle_obligation_simps [simp]:
  "ob_id (settle_obligation c h r) = ob_id r"
  "ob_status (settle_obligation c h r) = ObligationSettled"
  "ob_cycle_id (settle_obligation c h r) = Some c"
  "ob_payer_id (settle_obligation c h r) = ob_payer_id r"
  "ob_payee_id (settle_obligation c h r) = ob_payee_id r"
  "ob_amount_usd (settle_obligation c h r) = ob_amount_usd r"
  by (simp_all add: settle_obligation_def)

lemma cycle_fields [simp]:
  "nn_obligations (save_cycle c s) = nn_obligations s"
  "nn_cycles (save_obligations rows s) = nn_cycles s"
  "get_cycle i (save_obligations rows s) = get_cycle i s"
  by (simp_all add: save_cycle_def save_obligations_def get_cycle_def)

lemma get_cycle_id: "get_cycle i s = Some c \<Longrightarrow> nc_id c = i"
  by (auto simp: get_cycle_def dest: find_one_SomeD)

lemma get_cycle_save:
  "get_cycle i s \<noteq> None \<Longrightarrow> get_cycle i (save_cycle c s) = (if nc_id c = i then Some c else get_cycle i s)"
proof -
  assume known: "get_cycle i s \<noteq> None"
  have "get_cycle i (save_cycle c s) = map_option (\<lambda>r. if nc_id r = nc_id c then c else r) (get_cycle i s)"
    unfolding get_cycle_def save_cycle_def by simp (rule find_one_update, auto)
  then show ?thesis using known get_cycle_id [of i s] by (auto split: if_splits)
qed

text \<open>Saving rows one by one with \<open>g\<close> applied is applying \<open>g\<close> to them in the table.\<close>

lemma save_mapped:
  assumes ids: "distinct (map ob_id t)" and sub: "set rows \<subseteq> set t" and g: "\<And>r. ob_id (g r) = ob_id r"
  shows "foldl (\<lambda>t row. update_where (\<lambda>r. ob_id r = ob_id row) (\<lambda>_. row) t) t (map g rows)
       = update_where (\<lambda>r. r \<in> set rows) g t"
  using sub
proof (induction rows rule: rev_induct)
  case Nil
  then show ?case by (simp add: update_where_def)
next
  case (snoc x rows)
  let ?t = "update_where (\<lambda>r. r \<in> set rows) g t"
  have inj: "r = x" if "r \<in> set t" "ob_id r = ob_id x" for r
    using ids snoc.prems that by (auto simp: distinct_map dest: inj_onD)
  have "update_where (\<lambda>r. ob_id r = ob_id (g x)) (\<lambda>_. g x) ?t = update_where (\<lambda>r. r \<in> set (rows @ [x])) g t"
    unfolding update_where_def map_map by (rule map_cong) (auto simp: g dest: inj)
  then show ?case using snoc by simp
qed

lemma save_settled:
  assumes "unique_rows s"
  shows "save_obligations (map (settle_obligation c h) (pending_obligations s)) s =
     s\<lparr>nn_obligations := settle_pending c h (nn_obligations s)\<rparr>"
proof -
  have "foldl (\<lambda>t row. update_where (\<lambda>r. ob_id r = ob_id row) (\<lambda>_. row) t) (nn_obligations s)
          (map (settle_obligation c h) (pending_obligations s))
      = update_where (\<lambda>r. r \<in> set (pending_obligations s)) (settle_obligation c h) (nn_obligations s)"
    by (rule save_mapped) (use assms in \<open>auto simp: unique_rows_def pending_obligations_def find_where_def\<close>)
  also have "\<dots> = settle_pending c h (nn_obligations s)"
    by (auto simp: settle_pending_def update_where_def pending_obligations_def find_where_def)
  finally show ?thesis by (simp add: save_obligations_def)
qed

lemma pending_settled:
  "find_where (\<lambda>r. ob_status r = ObligationPending) (settle_pending c h t) = []"
  unfolding settle_pending_def by (rule tbl.update_leaves_condition) simp

lemma pending_save_cycle [simp]: "pending_obligations (save_cycle c s) = pending_obligations s"
  by (simp add: pending_obligations_def)

lemma begin_cycle_eq:
  assumes "get_cycle i s = Some c" "nc_status c \<noteq> CycleSettled"
  shows "begin_cycle i s = (Inr (c\<lparr>nc_status := CycleAggregating\<rparr>, pending_obligations s),
     save_cycle (c\<lparr>nc_status := CycleAggregating\<rparr>) s)"
  using assms by (simp add: begin_cycle_def Let_def)

definition batch_hash :: "netting_env \<Rightarrow> netting_cycle \<Rightarrow> obligation list \<Rightarrow> string" where
  "batch_hash env c rows =
     (let res = calculate_multilateral_netting rows
      in ne_hash env (nc_number c) (ne_now env) (ml_net_total_volume_usd res) (ml_net_settlement_count res))"

definition settled_result :: "netting_env \<Rightarrow> netting_cycle \<Rightarrow> obligation list \<Rightarrow> multilateral_result" where
  "settled_result env c rows =
     (let res = calculate_multilateral_netting rows
      in res\<lparr>ml_net_transfers :=
           map (\<lambda>t. t\<lparr>nt_settled := True, nt_tx_hash := Some (batch_hash env c rows)\<rparr>) (ml_net_transfers res)\<rparr>)"

lemma commit_cycle_eq:
  assumes "rows \<noteq> []"
  shows "commit_cycle env c rows s =
     (let final = settled_cycle env c (settled_result env c rows) (batch_hash env c rows);
          s1 = save_obligations (map (settle_obligation (nc_id c) (batch_hash env c rows)) rows) s
      in case ne_save_error env of
           Some e \<Rightarrow> (Inl (Internal e), s1)
         | None \<Rightarrow> (Inr (final, settled_result env c rows), save_cycle final s1))"
  using assms by (simp add: commit_cycle_def Let_def settled_result_def batch_hash_def split: option.splits)

lemma settled_cycle_simps [simp]:
  "nc_id (settled_cycle env c res h) = nc_id c" "nc_status (settled_cycle env c res h) = CycleSettled"
  "nc_metadata (settled_cycle env c res h) = Some (ml_party_positions res, ml_net_transfers res)"
  by (simp_all add: settled_cycle_def)

lemma execute_eq:
  fixes env :: netting_env
  assumes "get_cycle i s = Some c" "nc_status c \<noteq> CycleSettled" "pending_obligations s \<noteq> []" "unique_rows s"
  defines "marked \<equiv> c\<lparr>nc_status := CycleAggregating\<rparr>"
  defines "h \<equiv> batch_hash env marked (pending_obligations s)"
  defines "final \<equiv> settled_cycle env marked (settled_result env marked (pending_obligations s)) h"
  defines "s1 \<equiv> (save_cycle marked s)\<lparr>nn_obligations := settle_pending i h (nn_obligations s)\<rparr>"
  shows "execute_netting_cycle env i s =
     (case ne_save_error env of
        Some e \<Rightarrow> (Inl (Internal e), s1)
      | None \<Rightarrow> (Inr (final, settled_result env marked (pending_obligations s)), save_cycle final s1))"
proof -
  have unique: "unique_rows (save_cycle marked s)" using assms(4) by (simp add: unique_rows_def)
  have "nc_id marked = i" using get_cycle_id [OF assms(1)] by (simp add: marked_def)
  moreover have "save_obligations (map (settle_obligation i h) (pending_obligations s)) (save_cycle marked s) = s1"
    using save_settled [OF unique, of i h] by (simp add: s1_def)
  moreover have "begin_cycle i s = (Inr (marked, pending_obligations s), save_cycle marked s)"
    unfolding marked_def by (rule begin_cycle_eq [OF assms(1,2)])
  ultimately show ?thesis
    unfolding execute_netting_cycle_def and_then_def commit_cycle_eq [OF assms(3)] final_def h_def
    by (simp add: Let_def commit_cycle_eq [OF assms(3)] split: option.splits)
qed

lemma get_cycle_rows [simp]: "get_cycle i (s\<lparr>nn_obligations := t\<rparr>) = get_cycle i s"
  by (simp add: get_cycle_def)

lemma save_cycle_rows [simp]: "nn_obligations (save_cycle c s) = nn_obligations s"
  by (simp add: save_cycle_def)

lemma pending_after [simp]:
  "pending_obligations (s\<lparr>nn_obligations := settle_pending c h t\<rparr>) = []"
  by (simp add: pending_obligations_def pending_settled)

lemma execute_nothing_pending:
  assumes "get_cycle i s = Some c" "nc_status c \<noteq> CycleSettled" "pending_obligations s = []" "ne_save_error env = None"
  shows "\<exists>cyc s'. execute_netting_cycle env i s = (Inr (cyc, empty_netting), s')
     \<and> nc_status cyc = CycleSettled \<and> nc_metadata cyc = nc_metadata c \<and> nn_obligations s' = nn_obligations s"
  using assms by (simp add: execute_netting_cycle_def and_then_def begin_cycle_eq commit_cycle_def Let_def)

text \<open>Two scheduled cycles over the three obligations, for the applications of the theorems.\<close>

definition example_cycle :: "string \<Rightarrow> netting_cycle" where
  "example_cycle i = \<lparr>nc_id = i, nc_number = ''CYCLE-'' @ i, nc_frequency = Daily, nc_status = CycleScheduled,
     nc_scheduled_at = 0, nc_executed_at = None, nc_settled_at = None, nc_gross_count = 0, nc_gross_total_usd = 0,
     nc_net_count = 0, nc_net_total_usd = 0, nc_reduction_pct = 0, nc_fee_savings_usd = 0, nc_batch_tx_hash = None,
     nc_metadata = None\<rparr>"

definition example_netting :: netting_state where
  "example_netting = \<lparr>nn_cycles = [example_cycle ''X'', example_cycle ''Y''], nn_obligations = example_dues\<rparr>"

definition example_netting_env :: "string option \<Rightarrow> netting_env" where
  "example_netting_env e = \<lparr>ne_now = 5, ne_hash = (\<lambda>number now volume count. number), ne_save_error = e\<rparr>"

lemma example_netting_facts:
  "get_cycle ''X'' example_netting = Some (example_cycle ''X'')"
  "get_cycle ''Y'' example_netting = Some (example_cycle ''Y'')"
  "nc_status (example_cycle i) \<noteq> CycleSettled"
  "pending_obligations example_netting \<noteq> []" "unique_rows example_netting"
  "ne_save_error (example_netting_env e) = e"
  by (simp_all add: get_cycle_def example_netting_def example_cycle_def find_one_def pending_obligations_def
      find_where_def example_dues_def example_due_def unique_rows_def example_netting_env_def)

text \<open>
  A cycle that is executed settles every pending obligation, once. Every row that was
  pending is now settled under this cycle and its batch hash, no other row changed, nothing
  is pending any more, the transfers returned are those of the netting of the pending rows,
  and executing the cycle again is refused without any effect.
\<close>

theorem executed_cycle_settles_once:
  assumes "get_cycle i s = Some c" "nc_status c \<noteq> CycleSettled" "pending_obligations s \<noteq> []" "unique_rows s"
    and "ne_save_error env = None"
  shows "\<exists>cyc res h s'. execute_netting_cycle env i s = (Inr (cyc, res), s')
     \<and> nn_obligations s' = map (\<lambda>r. if ob_status r = ObligationPending then settle_obligation i h r else r) (nn_obligations s)
     \<and> pending_obligations s' = []
     \<and> map transfer_cents (ml_net_transfers res)
         = map transfer_cents (ml_net_transfers (calculate_multilateral_netting (pending_obligations s)))
     \<and> get_cycle i s' = Some cyc \<and> nc_status cyc = CycleSettled
     \<and> execute_netting_cycle env i s' = (Inl (BadRequest ''Cycle is already settled''), s')"
proof -
  let ?m = "c\<lparr>nc_status := CycleAggregating\<rparr>" and ?p = "pending_obligations s"
  let ?h = "batch_hash env ?m ?p" and ?res = "settled_result env ?m ?p"
  let ?final = "settled_cycle env ?m ?res ?h"
  let ?s1 = "(save_cycle ?m s)\<lparr>nn_obligations := settle_pending i ?h (nn_obligations s)\<rparr>"
  let ?s' = "save_cycle ?final ?s1"
  have run: "execute_netting_cycle env i s = (Inr (?final, ?res), ?s')"
    using execute_eq [OF assms(1-4), of env] assms(5) by simp
  have "get_cycle i ?s' = Some ?final"
    using assms(1) get_cycle_id [OF assms(1)] by (simp add: get_cycle_save)
  moreover from this have "execute_netting_cycle env i ?s' = (Inl (BadRequest ''Cycle is already settled''), ?s')"
    by (simp add: execute_netting_cycle_def begin_cycle_def and_then_def)
  moreover have "nn_obligations ?s' = map (\<lambda>r. if ob_status r = ObligationPending then settle_obligation i ?h r else r) (nn_obligations s)"
    by (simp add: settle_pending_def update_where_def)
  moreover have "map transfer_cents (ml_net_transfers ?res) = map transfer_cents (ml_net_transfers (calculate_multilateral_netting ?p))"
    by (simp add: settled_result_def Let_def transfer_cents_def)
  moreover have "pending_obligations ?s' = []" by simp
  ultimately show ?thesis using run by (intro exI conjI) (assumption | simp)+
qed

theorem executed_cycle_settles_once_witness:
  "\<exists>cyc res s'. execute_netting_cycle (example_netting_env None) ''X'' example_netting = (Inr (cyc, res), s')
     \<and> map ob_status (nn_obligations s') = [ObligationSettled, ObligationSettled, ObligationSettled]"
proof -
  obtain cyc res h s' where
    "execute_netting_cycle (example_netting_env None) ''X'' example_netting = (Inr (cyc, res), s')"
    "nn_obligations s' = map (\<lambda>r. if ob_status r = ObligationPending then settle_obligation ''X'' h r else r)
       (nn_obligations example_netting)"
    using executed_cycle_settles_once [OF example_netting_facts(1,3,4,5,6)] by (elim exE conjE) (rule that)
  then show ?thesis
    by (intro exI conjI) (assumption | simp add: example_netting_def example_dues_def example_due_def)+
qed

text \<open>
  When the last write of a cycle fails, the transfers are lost. The obligations
  stay settled while the caller gets an error; a later execution of the same cycle then
  finds nothing pending, reports success with no transfer at all and marks the cycle
  settled, so that the settled obligations are never paid.
\<close>

theorem failing_save_loses_transfers:
  assumes "get_cycle i s = Some c" "nc_status c \<noteq> CycleSettled" "pending_obligations s \<noteq> []" "unique_rows s"
    and "ne_save_error env = Some e" "ne_save_error retry = None"
  shows "\<exists>s' s'' cyc. execute_netting_cycle env i s = (Inl (Internal e), s')
     \<and> pending_obligations s' = []
     \<and> execute_netting_cycle retry i s' = (Inr (cyc, empty_netting), s'')
     \<and> nc_status cyc = CycleSettled \<and> nc_metadata cyc = nc_metadata c \<and> ml_net_transfers empty_netting = []
     \<and> (\<forall>r\<in>set (nn_obligations s''). ob_status r \<noteq> ObligationPending)"
proof -
  let ?m = "c\<lparr>nc_status := CycleAggregating\<rparr>" and ?p = "pending_obligations s"
  let ?s1 = "(save_cycle ?m s)\<lparr>nn_obligations := settle_pending i (batch_hash env ?m ?p) (nn_obligations s)\<rparr>"
  have run: "execute_netting_cycle env i s = (Inl (Internal e), ?s1)"
    using execute_eq [OF assms(1-4), of env] assms(5) by simp
  have "get_cycle i ?s1 = Some ?m"
    using assms(1) get_cycle_id [OF assms(1)] by (simp add: get_cycle_save)
  from execute_nothing_pending [OF this _ _ assms(6)] obtain cyc s'' where
    "execute_netting_cycle retry i ?s1 = (Inr (cyc, empty_netting), s'')" "nc_status cyc = CycleSettled"
    "nc_metadata cyc = nc_metadata c" "nn_obligations s'' = nn_obligations ?s1" by auto
  moreover have "\<forall>r\<in>set (nn_obligations ?s1). ob_status r \<noteq> ObligationPending"
    by (auto simp: settle_pending_def update_where_def)
  ultimately show ?thesis using run by (intro exI conjI) (assumption | simp add: empty_netting_def)+
qed

theorem failing_save_loses_transfers_witness:
  "\<exists>s' s'' cyc.
     execute_netting_cycle (example_netting_env (Some ''connection lost'')) ''X'' example_netting
       = (Inl (Internal ''connection lost''), s')
     \<and> execute_netting_cycle (example_netting_env None) ''X'' s' = (Inr (cyc, empty_netting), s'')
     \<and> nc_status cyc = CycleSettled \<and> nc_metadata cyc = None"
proof -
  obtain s' s'' cyc where
    "execute_netting_cycle (example_netting_env (Some ''connection lost'')) ''X'' example_netting
       = (Inl (Internal ''connection lost''), s')"
    "execute_netting_cycle (example_netting_env None) ''X'' s' = (Inr (cyc, empty_netting), s'')"
    "nc_status cyc = CycleSettled" "nc_metadata cyc = nc_metadata (example_cycle ''X'')"
    using failing_save_loses_transfers [OF example_netting_facts(1,3,4,5)
        example_netting_facts(6) [of "Some ''connection lost''"] example_netting_facts(6)] by (elim exE conjE) (rule that)
  then show ?thesis by (intro exI conjI) (assumption | simp add: example_cycle_def)+
qed

lemma get_cycle_other:
  "get_cycle j s = Some d \<Longrightarrow> nc_id c \<noteq> j \<Longrightarrow> get_cycle j (save_cycle c s) = Some d"
  by (simp add: get_cycle_save)

lemma settle_again:
  assumes "unique_rows s"
  shows "save_obligations (map (settle_obligation j k) (pending_obligations s))
           (s\<lparr>nn_obligations := settle_pending i h (nn_obligations s)\<rparr>)
       = s\<lparr>nn_obligations := settle_pending j k (nn_obligations s)\<rparr>"
proof -
  let ?t = "settle_pending i h (nn_obligations s)" and ?rows = "find_where (\<lambda>r. ob_status r = ObligationPending) (nn_obligations s)"
  have same: "settle_obligation j k (settle_obligation i h r) = settle_obligation j k r" for r
    by (simp add: settle_obligation_def)
  have again: "map (settle_obligation j k) ?rows = map (settle_obligation j k) (map (settle_obligation i h) ?rows)"
    by (simp add: same)
  have ids: "distinct (map ob_id ?t)"
    using assms by (simp add: settle_pending_def map_update_where unique_rows_def)
  have sub: "set (map (settle_obligation i h) ?rows) \<subseteq> set ?t"
    by (force simp: settle_pending_def set_update_where find_where_def)
  have inj: "r = q" if "r \<in> set (nn_obligations s)" "q \<in> set (nn_obligations s)" "ob_id r = ob_id q" for r q
    using assms that by (auto simp: unique_rows_def distinct_map dest: inj_onD)
  have "foldl (\<lambda>t row. update_where (\<lambda>r. ob_id r = ob_id row) (\<lambda>_. row) t) ?t (map (settle_obligation j k) ?rows)
      = update_where (\<lambda>r. r \<in> set (map (settle_obligation i h) ?rows)) (settle_obligation j k) ?t"
    unfolding again by (rule save_mapped [OF ids sub]) simp
  also have "\<dots> = settle_pending j k (nn_obligations s)"
    unfolding settle_pending_def update_where_def map_map
    by (rule map_cong) (auto simp: same find_where_def dest: inj arg_cong [of _ _ ob_id])
  finally show ?thesis by (simp add: save_obligations_def pending_obligations_def)
qed

text \<open>
  Two cycles that overlap net the same obligations twice. When both have loaded the
  pending rows before the first one saves, each executes without an error the complete set
  of transfers, and the rows are left with the second cycle only.
\<close>

theorem overlapping_cycles_net_twice:
  assumes "get_cycle i s = Some c" "nc_status c \<noteq> CycleSettled" "get_cycle j s = Some d" "nc_status d \<noteq> CycleSettled"
    and "i \<noteq> j" "pending_obligations s \<noteq> []" "unique_rows s" "ne_save_error env = None"
  shows "\<exists>c1 d1 p q s1 s2 s3 s4 c2 d2 res1 res2 h.
      begin_cycle i s = (Inr (c1, p), s1) \<and> begin_cycle j s1 = (Inr (d1, q), s2)
    \<and> commit_cycle env c1 p s2 = (Inr (c2, res1), s3) \<and> commit_cycle env d1 q s3 = (Inr (d2, res2), s4)
    \<and> map transfer_cents (ml_net_transfers res1)
        = map transfer_cents (ml_net_transfers (calculate_multilateral_netting (pending_obligations s)))
    \<and> map transfer_cents (ml_net_transfers res2) = map transfer_cents (ml_net_transfers res1)
    \<and> nn_obligations s4 = map (\<lambda>r. if ob_status r = ObligationPending then settle_obligation j h r else r) (nn_obligations s)"
proof -
  let ?c = "c\<lparr>nc_status := CycleAggregating\<rparr>" and ?d = "d\<lparr>nc_status := CycleAggregating\<rparr>" and ?p = "pending_obligations s"
  let ?s1 = "save_cycle ?c s" let ?s2 = "save_cycle ?d ?s1"
  let ?h = "batch_hash env ?c ?p" and ?k = "batch_hash env ?d ?p"
  let ?fc = "settled_cycle env ?c (settled_result env ?c ?p) ?h" and ?fd = "settled_cycle env ?d (settled_result env ?d ?p) ?k"
  let ?s3 = "save_cycle ?fc (?s2\<lparr>nn_obligations := settle_pending i ?h (nn_obligations s)\<rparr>)"
  have ids: "nc_id c = i" "nc_id d = j" using assms(1,3) by (auto dest: get_cycle_id)
  have b1: "begin_cycle i s = (Inr (?c, ?p), ?s1)" by (rule begin_cycle_eq [OF assms(1,2)])
  have "get_cycle j ?s1 = Some d" by (rule get_cycle_other [OF assms(3)]) (simp add: ids assms(5))
  from begin_cycle_eq [OF this assms(4)] have b2: "begin_cycle j ?s1 = (Inr (?d, ?p), ?s2)" by simp
  have u: "unique_rows ?s2" "unique_rows (save_cycle ?fc ?s2)" using assms(7) by (simp_all add: unique_rows_def)
  have c1: "commit_cycle env ?c ?p ?s2 = (Inr (?fc, settled_result env ?c ?p), ?s3)"
    using commit_cycle_eq [OF assms(6), of env ?c ?s2] save_settled [OF u(1), of i ?h] assms(8) ids
    by (simp add: Let_def)
  have swap: "?s3 = (save_cycle ?fc ?s2)\<lparr>nn_obligations := settle_pending i ?h (nn_obligations s)\<rparr>"
    by (simp add: save_cycle_def)
  have c2: "commit_cycle env ?d ?p ?s3 = (Inr (?fd, settled_result env ?d ?p),
      save_cycle ?fd ((save_cycle ?fc ?s2)\<lparr>nn_obligations := settle_pending j ?k (nn_obligations s)\<rparr>))"
    using commit_cycle_eq [OF assms(6), of env ?d ?s3] settle_again [OF u(2), of j ?k i ?h] assms(8) ids
    by (simp add: Let_def swap)
  have nets: "map transfer_cents (ml_net_transfers (settled_result env e ?p))
      = map transfer_cents (ml_net_transfers (calculate_multilateral_netting ?p))" for e
    by (simp add: settled_result_def Let_def transfer_cents_def)
  show ?thesis
    by (rule exI, rule exI, rule exI, rule exI, rule exI, rule exI, rule exI, rule exI, rule exI, rule exI,
        rule exI, rule exI, rule exI [of _ ?k], intro conjI, rule b1, rule b2, rule c1, rule c2)
      (simp_all add: nets settle_pending_def update_where_def)
qed

theorem overlapping_cycles_net_twice_witness:
  "\<exists>c1 d1 p q s1 s2 s3 s4 c2 d2 res1 res2.
      begin_cycle ''X'' example_netting = (Inr (c1, p), s1) \<and> begin_cycle ''Y'' s1 = (Inr (d1, q), s2)
    \<and> commit_cycle (example_netting_env None) c1 p s2 = (Inr (c2, res1), s3)
    \<and> commit_cycle (example_netting_env None) d1 q s3 = (Inr (d2, res2), s4)
    \<and> map transfer_cents (ml_net_transfers res2) = map transfer_cents (ml_net_transfers res1)"
proof -
  have "''X'' \<noteq> ''Y''" by simp
  from overlapping_cycles_net_twice [OF example_netting_facts(1,3,2,3) this example_netting_facts(4,5,6)]
  show ?thesis by (elim exE conjE) (intro exI conjI; assumption)
qed

end
