(* ===== verification/NettingBilateral.thy ===== *)
theory NettingBilateral
  imports NettingCorrect
begin

text \<open>
  The two nettings of \<open>settlement/netting.service.ts\<close> agree: what a party receives less what it
  pays in the pairwise positions of the bilateral matrix is its net position in the multilateral
  result. The pairs are kept under the text \<open>id1:id2\<close>, so the identifiers must be free of colons,
  as UUIDs are. A pair whose two sums differ by at most a tenth of a cent is dropped, which
  bounds the number of obligations here to three hundred.
\<close>

subsection \<open>The table of pairs\<close>

definition pair_id :: "party_pair \<Rightarrow> string \<times> string" where
  "pair_id p = (pr_a p, pr_b p)"

definition pairs_of :: "obligation list \<Rightarrow> party_pair list" where
  "pairs_of obs = foldl add_to_pairs [] obs"

definition plain_ids :: "obligation list \<Rightarrow> bool" where
  "plain_ids obs \<longleftrightarrow> (\<forall>r \<in> set obs. CHR '':'' \<notin> set (ob_payer_id r) \<and> CHR '':'' \<notin> set (ob_payee_id r))"

definition paid_within :: "obligation list \<Rightarrow> party_pair \<Rightarrow> bool \<Rightarrow> obligation list" where
  "paid_within obs p forth = filter (\<lambda>r. pair_of r = pair_id p \<and> (ob_payer_id r = pr_a p) = forth) obs"

lemma pair_key_inj:
  assumes "CHR '':'' \<notin> set a" "CHR '':'' \<notin> set c"
  shows "pair_key a b = pair_key c d \<longleftrightarrow> a = c \<and> b = d"
proof
  assume "pair_key a b = pair_key c d"
  then have eq: "a @ CHR '':'' # b = c @ CHR '':'' # d" by (simp add: pair_key_def)
  have "a # split_on CHR '':'' b = split_on CHR '':'' (a @ CHR '':'' # b)" by (rule split_on_append [OF assms(1), symmetric])
  also have "\<dots> = c # split_on CHR '':'' d" unfolding eq by (rule split_on_append [OF assms(2)])
  finally have "a = c" by simp
  then show "a = c \<and> b = d" using eq by simp
qed simp

lemma book_pair_simps [simp]:
  "pair_id (book_pair r p) = pair_id p" "pr_a (book_pair r p) = pr_a p" "pr_b (book_pair r p) = pr_b p"
  "pr_a_to_b (book_pair r p) =
     (if ob_payer_id r = fst (pair_of r) then add_js (pr_a_to_b p) (ob_amount_usd r) else pr_a_to_b p)"
  "pr_b_to_a (book_pair r p) =
     (if ob_payer_id r = fst (pair_of r) then pr_b_to_a p else add_js (pr_b_to_a p) (ob_amount_usd r))"
  by (simp_all add: book_pair_def pair_id_def Let_def)

lemma new_pair_simps [simp]:
  "pair_id (new_pair r) = pair_of r" "pr_a_to_b (new_pair r) = 0" "pr_b_to_a (new_pair r) = 0"
  by (simp_all add: new_pair_def pair_id_def)

lemma pair_of_plain: "plain_ids [r] \<Longrightarrow> CHR '':'' \<notin> set (fst (pair_of r))"
  by (auto simp: plain_ids_def pair_of_def)

lemma pair_of_cases:
  "pair_of r = (ob_payer_id r, ob_payee_id r) \<or> pair_of r = (ob_payee_id r, ob_payer_id r) \<and> ob_payer_id r \<noteq> ob_payee_id r"
  by (auto simp: pair_of_def)

lemma add_to_pairs_plain:
  assumes "plain_ids [r]" "\<forall>p \<in> set ps. CHR '':'' \<notin> set (pr_a p)"
  shows "add_to_pairs ps r = update_where (\<lambda>p. pair_id p = pair_of r) (book_pair r)
    (if pair_of r \<in> pair_id ` set ps then ps else ps @ [new_pair r])"
proof -
  let ?key = "\<lambda>p. pair_key (pr_a p) (pr_b p) = pair_key (fst (pair_of r)) (snd (pair_of r))"
  have key: "?key p \<longleftrightarrow> pair_id p = pair_of r" if "p \<in> set ps \<or> p = new_pair r" for p
  proof -
    have "CHR '':'' \<notin> set (pr_a p)" using that assms(2) pair_of_plain [OF assms(1)] by (auto simp: new_pair_def)
    then show ?thesis using pair_key_inj [OF _ pair_of_plain [OF assms(1)]] by (auto simp: pair_id_def prod_eq_iff)
  qed
  have "find_one ?key ps = find_one (\<lambda>p. pair_id p = pair_of r) ps" by (rule find_one_cong) (simp add: key)
  moreover have "find_one (\<lambda>p. pair_id p = pair_of r) ps = None \<longleftrightarrow> pair_of r \<notin> pair_id ` set ps"
    by (auto simp: find_one_None_iff image_iff)
  ultimately have none: "find_one ?key ps = None \<longleftrightarrow> pair_of r \<notin> pair_id ` set ps" by simp
  have "update_where ?key (book_pair r) qs = update_where (\<lambda>p. pair_id p = pair_of r) (book_pair r) qs"
    if "set qs \<subseteq> insert (new_pair r) (set ps)" for qs
    unfolding update_where_def by (rule map_cong [OF refl]) (use that key in auto)
  then show ?thesis by (auto simp: add_to_pairs_def Let_def insert_row_def none)
qed

lemma pairs_of_invariant:
  assumes "plain_ids obs"
  shows "distinct (map pair_id (pairs_of obs)) \<and> set (map pair_id (pairs_of obs)) = pair_of ` set obs
    \<and> (\<forall>p \<in> set (pairs_of obs). pr_a_to_b p = sum_js ob_amount_usd (paid_within obs p True)
         \<and> pr_b_to_a p = sum_js ob_amount_usd (paid_within obs p False))"
  using assms
proof (induction obs rule: rev_induct)
  case Nil
  then show ?case by (simp add: pairs_of_def)
next
  case (snoc r obs)
  define ps where "ps = pairs_of obs"
  define known where "known = (if pair_of r \<in> pair_id ` set ps then ps else ps @ [new_pair r])"
  have IH: "distinct (map pair_id ps)" "pair_id ` set ps = pair_of ` set obs"
    "\<And>p. p \<in> set ps \<Longrightarrow> pr_a_to_b p = sum_js ob_amount_usd (paid_within obs p True)
       \<and> pr_b_to_a p = sum_js ob_amount_usd (paid_within obs p False)"
    using snoc by (simp_all add: ps_def plain_ids_def)
  have plain: "CHR '':'' \<notin> set (pr_a p)" if "p \<in> set ps" for p
  proof -
    have "pair_id p \<in> pair_of ` set obs" unfolding IH(2) [symmetric] using that by (rule imageI)
    then obtain q where "q \<in> set obs" "pair_of q = pair_id p" by (auto simp del: image_eqI)
    then show ?thesis using snoc.prems pair_of_plain [of q] by (auto simp: plain_ids_def pair_id_def)
  qed
  have step: "pairs_of (obs @ [r]) = update_where (\<lambda>p. pair_id p = pair_of r) (book_pair r) known"
    using snoc.prems plain add_to_pairs_plain [of r ps] by (simp add: pairs_of_def ps_def known_def plain_ids_def)
  have ids: "map pair_id (update_where (\<lambda>p. pair_id p = pair_of r) (book_pair r) known) = map pair_id known"
    by (rule map_update_where) simp
  have known: "pr_a_to_b p = sum_js ob_amount_usd (paid_within obs p True)
       \<and> pr_b_to_a p = sum_js ob_amount_usd (paid_within obs p False)" if p: "p \<in> set known" for p
  proof (cases "p \<in> set ps")
    case False
    then have "p = new_pair r" "pair_of r \<notin> pair_of ` set obs" using p IH(2) by (auto simp: known_def split: if_splits)
    then have "paid_within obs p forth = []" for forth
      by (auto simp: paid_within_def filter_empty_conv image_iff)
    then show ?thesis using \<open>p = new_pair r\<close> by simp
  qed (rule IH(3))
  show ?case
  proof (intro conjI ballI)
    show "distinct (map pair_id (pairs_of (obs @ [r])))" "set (map pair_id (pairs_of (obs @ [r]))) = pair_of ` set (obs @ [r])"
      unfolding step ids using IH(1,2) by (auto simp: known_def)
  next
    fix p assume "p \<in> set (pairs_of (obs @ [r]))"
    then obtain q where q: "q \<in> set known" "p = (if pair_id q = pair_of r then book_pair r q else q)"
      by (auto simp: step set_update_where)
    have same: "pair_id p = pair_id q" "pr_a p = pr_a q" using q(2) by auto
    have a: "pair_id q = pair_of r \<Longrightarrow> pr_a q = fst (pair_of r)" by (simp add: pair_id_def prod_eq_iff)
    have within: "paid_within (obs @ [r]) p forth = paid_within obs q forth
        @ (if pair_of r = pair_id q \<and> (ob_payer_id r = pr_a q) = forth then [r] else [])" for forth
      by (simp add: paid_within_def same)
    show "pr_a_to_b p = sum_js ob_amount_usd (paid_within (obs @ [r]) p True)"
      "pr_b_to_a p = sum_js ob_amount_usd (paid_within (obs @ [r]) p False)"
      using known [OF q(1)] q(2) a unfolding within by (auto simp: sum_js_snoc)
  qed
qed

subsection \<open>Pairs in cents\<close>

definition pair_cents :: "obligation list \<Rightarrow> party_pair \<Rightarrow> int" where
  "pair_cents obs p = (\<Sum>r\<leftarrow>paid_within obs p True. cents (ob_amount_usd r))
                    - (\<Sum>r\<leftarrow>paid_within obs p False. cents (ob_amount_usd r))"

lemma sum_js_booked:
  assumes "well_sized obs" "length obs \<le> 300"
  shows "\<bar>sum_js ob_amount_usd (filter q obs) * 100 - of_int (\<Sum>r\<leftarrow>filter q obs. cents (ob_amount_usd r))\<bar>
    \<le> of_nat (length (filter q obs)) / 4000"
proof (rule sum_js_cents)
  have pos: "\<forall>r\<in>set obs. 0 \<le> cents (ob_amount_usd r)" using assms(1) by (auto simp: well_sized_def less_imp_le)
  have "(\<Sum>r\<leftarrow>filter q obs. \<bar>cents (ob_amount_usd r)\<bar>) = (\<Sum>r\<leftarrow>filter q obs. cents (ob_amount_usd r))"
    using pos by (intro arg_cong [of _ _ sum_list] map_cong) auto
  then show "(\<Sum>r\<leftarrow>filter q obs. \<bar>cents (ob_amount_usd r)\<bar>) \<le> 2 ^ 40"
    using filter_sum_le(2) [OF pos, of q] assms(1) by (simp add: well_sized_def)
  show "length (filter q obs) \<le> 4000" by (rule order_trans [OF length_filter_le]) (use assms(2) in simp)
qed (use assms(1) in \<open>simp add: well_sized_def\<close>)

lemma disjoint_filters: "(\<And>x. \<not> (p x \<and> q x)) \<Longrightarrow> length (filter p xs) + length (filter q xs) \<le> length xs"
  by (induction xs) auto

lemma pairwise_cents:
  assumes ok: "well_sized obs" "length obs \<le> 300"
    and p: "pr_a_to_b p = sum_js ob_amount_usd (paid_within obs p True)" "pr_b_to_a p = sum_js ob_amount_usd (paid_within obs p False)"
  defines "n \<equiv> pair_cents obs p"
  shows "pairwise p = (if n = 0 then None
    else Some \<lparr>pw_party_a = pr_a p, pw_party_b = pr_b p, pw_payer = (if 0 < n then pr_a p else pr_b p),
           pw_payee = (if 0 < n then pr_b p else pr_a p), pw_amount_usd = dec 2 \<bar>n\<bar>, pw_count = pr_count p\<rparr>)"
    and "\<bar>n\<bar> \<le> 2 ^ 39"
proof -
  define x where "x = pr_a_to_b p - pr_b_to_a p"
  have pos: "\<forall>r\<in>set obs. 0 \<le> cents (ob_amount_usd r)" and tot: "(\<Sum>r\<leftarrow>obs. cents (ob_amount_usd r)) \<le> 2 ^ 39"
    using ok(1) by (auto simp: well_sized_def less_imp_le)
  show n: "\<bar>n\<bar> \<le> 2 ^ 39"
    using filter_sum_le [OF pos, of "\<lambda>r. pair_of r = pair_id p \<and> (ob_payer_id r = pr_a p) = True"]
      filter_sum_le [OF pos, of "\<lambda>r. pair_of r = pair_id p \<and> (ob_payer_id r = pr_a p) = False"] tot
    unfolding n_def pair_cents_def paid_within_def by linarith
  have "length (paid_within obs p True) + length (paid_within obs p False) \<le> length obs"
    unfolding paid_within_def by (rule disjoint_filters) auto
  then have "length (paid_within obs p True) + length (paid_within obs p False) \<le> 300" using ok(2) by linarith
  then have "of_nat (length (paid_within obs p True)) + of_nat (length (paid_within obs p False)) \<le> (300 :: rat)"
    by (metis of_nat_add of_nat_le_iff of_nat_numeral)
  then have len: "of_nat (length (paid_within obs p True)) / 4000 + of_nat (length (paid_within obs p False)) / 4000 \<le> (3 / 40 :: rat)"
    by simp
  have near: "\<bar>x * 100 - of_int n\<bar> \<le> 3 / 40"
    using sum_js_booked [OF ok, of "\<lambda>r. pair_of r = pair_id p \<and> (ob_payer_id r = pr_a p) = True"]
      sum_js_booked [OF ok, of "\<lambda>r. pair_of r = pair_id p \<and> (ob_payer_id r = pr_a p) = False"] len
    unfolding x_def p n_def pair_cents_def paid_within_def left_diff_distrib of_int_diff by linarith
  have "\<bar>of_int n :: rat\<bar> \<le> 2 ^ 39" using of_int_bound [OF n] by (simp only: of_int_power of_int_numeral)
  then have "\<bar>x * 100\<bar> \<le> 2 ^ 39 + 3 / 40" using near by linarith
  also have "\<dots> \<le> (2 ^ 40 + 2 :: rat)" by simp
  finally have "\<bar>fl x * 100 - x * 100\<bar> \<le> 1 / 8000" by (rule fl_cents(1))
  then have net: "\<bar>fl x * 100 - of_int n\<bar> \<le> 1 / 10 - 1 / 1000" using near by linarith
  have tenth: "\<bar>lit (1 / 1000) * 100 - 1 / 10\<bar> \<le> 1 / 8000" using fl_cents(1) [of "1 / 1000"] by (simp add: lit_def)
  have int: "n = 0 \<or> 1 \<le> (of_int n :: rat) \<or> of_int n \<le> (- 1 :: rat)" by auto
  have kept: "lit (1 / 1000) < \<bar>fl x\<bar> \<longleftrightarrow> n \<noteq> 0" using int net tenth by (auto simp: abs_if; linarith)
  have sign: "0 < fl x \<longleftrightarrow> 0 < n" if "n \<noteq> 0" using int net that by (auto; linarith)
  have "\<bar>\<bar>fl x\<bar> * 100 - of_int \<bar>n\<bar>\<bar> \<le> 2 / 5" using net by (simp add: abs_if; linarith)
  then have round: "round_cents \<bar>fl x\<bar> = dec 2 \<bar>n\<bar>" by (rule round_cents_near) (use n in simp)
  have "sub_js (pr_a_to_b p) (pr_b_to_a p) = fl x" by (simp add: sub_js_def x_def)
  then show "pairwise p = (if n = 0 then None
    else Some \<lparr>pw_party_a = pr_a p, pw_party_b = pr_b p, pw_payer = (if 0 < n then pr_a p else pr_b p),
           pw_payee = (if 0 < n then pr_b p else pr_a p), pw_amount_usd = dec 2 \<bar>n\<bar>, pw_count = pr_count p\<rparr>)"
    using kept sign by (simp add: pairwise_def Let_def round)
qed

subsection \<open>Agreement\<close>

text \<open>What a party receives less what it pays in pairwise positions.\<close>

definition bilateral_net :: "string \<Rightarrow> pairwise_position list \<Rightarrow> int" where
  "bilateral_net i ws = (\<Sum>w\<leftarrow>ws. (if pw_payee w = i then cents (pw_amount_usd w) else 0)
                               - (if pw_payer w = i then cents (pw_amount_usd w) else 0))"

lemma map_filter_simps2:
  "List.map_filter f [] = []" "List.map_filter f (x # xs) = (case f x of None \<Rightarrow> [] | Some y \<Rightarrow> [y]) @ List.map_filter f xs"
  by (auto simp: List.map_filter_def split: option.splits)

lemma bilateral_net_append: "bilateral_net i (xs @ ys) = bilateral_net i xs + bilateral_net i ys"
  by (simp add: bilateral_net_def)

definition share_in :: "string \<Rightarrow> obligation \<Rightarrow> int" where
  "share_in i r = (if ob_payee_id r = i then cents (ob_amount_usd r) else 0)
                - (if ob_payer_id r = i then cents (ob_amount_usd r) else 0)"

lemma sum_share_in: "(\<Sum>r\<leftarrow>obs. share_in i r) = net_cents obs i"
  by (induction obs) (auto simp: share_in_def net_cents_def owed_to_def owed_by_def)

lemma pair_cents_share:
  "(if pr_b p = i then pair_cents obs p else 0) - (if pr_a p = i then pair_cents obs p else 0)
   = (\<Sum>r\<leftarrow>filter (\<lambda>r. pair_of r = pair_id p) obs. share_in i r)"
proof (induction obs)
  case (Cons r obs)
  have "pair_cents (r # obs) p = (if pair_of r = pair_id p
      then (if ob_payer_id r = pr_a p then cents (ob_amount_usd r) else - cents (ob_amount_usd r)) else 0) + pair_cents obs p"
    by (simp add: pair_cents_def paid_within_def)
  then show ?case using Cons pair_of_cases [of r] by (auto simp: share_in_def pair_id_def)
qed (simp add: pair_cents_def paid_within_def)

lemma bilateral_net_eq:
  assumes "well_sized obs" "length obs \<le> 300" "plain_ids obs"
  shows "bilateral_net i (List.map_filter pairwise (pairs_of obs)) = net_cents obs i"
proof -
  note inv = pairs_of_invariant [OF assms(3)]
  have one: "bilateral_net i (case pairwise p of None \<Rightarrow> [] | Some w \<Rightarrow> [w])
      = (\<Sum>r\<leftarrow>filter (\<lambda>r. pair_of r = pair_id p) obs. share_in i r)" if "p \<in> set (pairs_of obs)" for p
  proof -
    have sums: "pr_a_to_b p = sum_js ob_amount_usd (paid_within obs p True)" "pr_b_to_a p = sum_js ob_amount_usd (paid_within obs p False)"
      using inv that by auto
    note pw = pairwise_cents [OF assms(1,2) sums]
    have "cents (dec 2 \<bar>pair_cents obs p\<bar>) = \<bar>pair_cents obs p\<bar>" by (rule cents_dec) (use pw(2) in simp)
    then show ?thesis
      unfolding pair_cents_share [symmetric] pw(1) by (auto simp: bilateral_net_def)
  qed
  have "bilateral_net i (List.map_filter pairwise ps)
      = (\<Sum>k\<leftarrow>map pair_id ps. \<Sum>r\<leftarrow>filter (\<lambda>r. pair_of r = k) obs. share_in i r)" if "set ps \<subseteq> set (pairs_of obs)" for ps
    using that
  proof (induction ps)
    case (Cons p ps)
    then show ?case by (simp only: map_filter_simps2(2) bilateral_net_append one set_simps insert_subset list.map sum_list.Cons)
  qed (simp add: bilateral_net_def List.map_filter_def)
  from this [of "pairs_of obs"] have "bilateral_net i (List.map_filter pairwise (pairs_of obs))
      = (\<Sum>k\<leftarrow>map pair_id (pairs_of obs). \<Sum>r\<leftarrow>filter (\<lambda>r. pair_of r = k) obs. share_in i r)" by simp
  also have "\<dots> = (\<Sum>r\<leftarrow>obs. share_in i r)" using inv by (intro sum_parties) auto
  also have "\<dots> = net_cents obs i" by (rule sum_share_in)
  finally show ?thesis .
qed

text \<open>
  C38: bilateral and multilateral netting agree on at most three hundred whole-cent obligations: for
  every party of the multilateral result, the pairwise positions of the bilateral matrix leave it
  with exactly its net balance.
\<close>
theorem bilateral_agrees_with_multilateral:
  assumes "well_sized obs" "length obs \<le> 300" "plain_ids obs"
    and "p \<in> set (ml_party_positions (calculate_multilateral_netting obs))"
  shows "np_net_balance_usd p = dec 2 (bilateral_net (np_party_id p) (snd (calculate_bilateral_netting obs)))"
proof -
  obtain q where q: "q \<in> set (booked obs)" "p = close_position q"
    using assms(4) by (auto simp: multilateral_simps positions_def)
  have "snd (calculate_bilateral_netting obs) = List.map_filter pairwise (pairs_of obs)"
    by (simp add: calculate_bilateral_netting_def pairs_of_def)
  then show ?thesis
    using closed_position(1) [OF assms(1) q(1)] by (simp add: q(2) bilateral_net_eq [OF assms(1-3)])
qed

theorem bilateral_agrees_with_multilateral_witness:
  "list_all (\<lambda>p. np_net_balance_usd p = dec 2 (bilateral_net (np_party_id p) (snd (calculate_bilateral_netting example_dues))))
     (ml_party_positions (calculate_multilateral_netting example_dues))"
  unfolding list_all_iff
  by (intro ballI bilateral_agrees_with_multilateral [OF example_dues_sized])
     (simp_all add: example_dues_def example_due_def plain_ids_def)

end
