(* ===== verification/QueueCrypto.thy ===== *)
theory QueueCrypto
  imports Prelude "HOL-Library.Word"
begin

text \<open>
  \<open>backend/src/queue/queue.crypto.ts\<close>: the text form of encrypted queue payloads, the ring of
  keys, and their decoding. The ciphers, JSON and the environment variables are parameters
  (\<open>crypto_env\<close>); the associated data and the plain text are passed to the ciphers as text,
  their UTF-8 encoding being part of the parameter. Errors are the messages thrown.
\<close>

subsection \<open>Bytes and hexadecimal text\<close>

type_synonym bytes = "8 word list"

definition hex_digits :: string where
  "hex_digits = ''0123456789abcdef''"

definition hex_byte :: "8 word \<Rightarrow> string" where
  "hex_byte b = [hex_digits ! (unat b div 16), hex_digits ! (unat b mod 16)]"

text \<open>\<open>buffer.toString('hex')\<close>.\<close>

definition to_hex :: "bytes \<Rightarrow> string" where
  "to_hex bs = concat (map hex_byte bs)"

definition hex_value :: "char \<Rightarrow> nat option" where
  "hex_value c =
     (let n = of_char c :: nat
      in if 48 \<le> n \<and> n \<le> 57 then Some (n - 48)
         else if 97 \<le> n \<and> n \<le> 102 then Some (n - 87)
         else if 65 \<le> n \<and> n \<le> 70 then Some (n - 55)
         else None)"

text \<open>\<open>Buffer.from(text, 'hex')\<close> stops at the first pair that is not two digits.\<close>

fun from_hex :: "string \<Rightarrow> bytes" where
  "from_hex (a # b # cs) =
     (case (hex_value a, hex_value b) of
        (Some x, Some y) \<Rightarrow> of_nat (16 * x + y) # from_hex cs
      | _ \<Rightarrow> [])"
| "from_hex _ = []"

text \<open>\<open>HEX_PATTERN\<close>, \<open>HEX_KEY_PATTERN\<close> and \<open>KEY_ID_PATTERN\<close>.\<close>

definition is_hex :: "string \<Rightarrow> bool" where
  "is_hex t = list_all (\<lambda>c. hex_value c \<noteq> None) t"

definition is_hex_key :: "string \<Rightarrow> bool" where
  "is_hex_key t \<longleftrightarrow> length t = 64 \<and> is_hex t"

definition key_id_char :: "char \<Rightarrow> bool" where
  "key_id_char c =
     (let n = of_char c :: nat
      in 65 \<le> n \<and> n \<le> 90 \<or> 97 \<le> n \<and> n \<le> 122 \<or> 48 \<le> n \<and> n \<le> 57 \<or> c = CHR ''_'' \<or> c = CHR ''-'')"

definition is_key_id :: "string \<Rightarrow> bool" where
  "is_key_id t \<longleftrightarrow> t \<noteq> [] \<and> list_all key_id_char t"

text \<open>\<open>text.trim() !== ''\<close>: some character is no white space.\<close>

definition white_space :: "char \<Rightarrow> bool" where
  "white_space c = (let n = of_char c :: nat in 9 \<le> n \<and> n \<le> 13 \<or> n = 32 \<or> n = 160)"

definition blank :: "string \<Rightarrow> bool" where
  "blank t = list_all white_space t"

subsection \<open>The ring of keys\<close>

text \<open>
  \<open>ce_json_ring\<close> is \<open>JSON.parse\<close> of the ring variable: \<open>None\<close> when it throws, \<open>Some None\<close> for a
  value that is not an object, and otherwise the entries in the order of \<open>Object.entries\<close>, an
  entry whose value is not a string being \<open>None\<close>.
\<close>

record 'a crypto_env =
  ce_ring_variable :: "string option"
  ce_queue_key :: "string option"
  ce_encryption_key :: "string option"
  ce_primary_key_id :: "string option"
  ce_json_ring :: "string \<Rightarrow> (string \<times> string option) list option option"
  ce_gcm_seal :: "bytes \<Rightarrow> bytes \<Rightarrow> string \<Rightarrow> string \<Rightarrow> bytes \<times> bytes"
  ce_gcm_open :: "bytes \<Rightarrow> bytes \<Rightarrow> string \<Rightarrow> bytes \<Rightarrow> bytes \<Rightarrow> string option"
  ce_cbc_open :: "bytes \<Rightarrow> bytes \<Rightarrow> bytes \<Rightarrow> string option"
  ce_stringify :: "'a \<Rightarrow> string"
  ce_parse :: "string \<Rightarrow> 'a option"

type_synonym key_ring = "(string \<times> bytes) list"

definition parse_key :: "string \<Rightarrow> string + bytes" where
  "parse_key hex =
     (if \<not> is_hex_key hex then Inl ''must be a 64-character hex string (32 bytes)'' else Inr (from_hex hex))"

fun parse_entries :: "(string \<times> string option) list \<Rightarrow> string + key_ring" where
  "parse_entries [] = Inr []"
| "parse_entries ((i, v) # es) =
     (if \<not> is_key_id i then Inl ''Invalid key id in QUEUE_ENCRYPTION_KEYS''
      else case v of
        None \<Rightarrow> Inl ''Key in QUEUE_ENCRYPTION_KEYS must be a string.''
      | Some hex \<Rightarrow>
     (case parse_key hex of
        Inl e \<Rightarrow> Inl e
      | Inr key \<Rightarrow> (case parse_entries es of Inl e \<Rightarrow> Inl e | Inr ring \<Rightarrow> Inr ((i, key) # ring))))"

definition parse_key_ring :: "'a crypto_env \<Rightarrow> string \<Rightarrow> string + key_ring" where
  "parse_key_ring env raw =
     (case ce_json_ring env raw of
        None \<Rightarrow> Inl ''QUEUE_ENCRYPTION_KEYS must be a JSON object''
      | Some None \<Rightarrow> Inl ''QUEUE_ENCRYPTION_KEYS must be a JSON object of keyId -> key.''
      | Some (Some entries) \<Rightarrow>
     (case parse_entries entries of
        Inl e \<Rightarrow> Inl e
      | Inr ring \<Rightarrow> if ring = [] then Inl ''QUEUE_ENCRYPTION_KEYS does not contain any keys.'' else Inr ring))"

text \<open>The first of the two variables that is set and not empty.\<close>

definition single_key :: "'a crypto_env \<Rightarrow> string option" where
  "single_key env =
     (case filter (\<lambda>v. v \<noteq> None \<and> v \<noteq> Some []) [ce_queue_key env, ce_encryption_key env] of
        [] \<Rightarrow> None | v # _ \<Rightarrow> v)"

definition default_key_id :: string where
  "default_key_id = ''1''"

text \<open>Without a ring the single key is a ring of one.\<close>

definition read_single :: "'a crypto_env \<Rightarrow> string + key_ring" where
  "read_single env =
     (case single_key env of
        None \<Rightarrow> Inl ''QUEUE_ENCRYPTION_KEY must be a 64-character hex string (32 bytes).''
      | Some hex \<Rightarrow>
          (let i = (case ce_primary_key_id env of Some x \<Rightarrow> x | None \<Rightarrow> default_key_id)
           in if \<not> is_key_id i then Inl ''QUEUE_ENCRYPTION_KEY_ID must match the pattern of key ids.''
              else (case parse_key hex of Inl e \<Rightarrow> Inl e | Inr key \<Rightarrow> Inr [(i, key)])))"

definition read_key_ring :: "'a crypto_env \<Rightarrow> string + key_ring" where
  "read_key_ring env =
     (case ce_ring_variable env of
        None \<Rightarrow> read_single env
      | Some raw \<Rightarrow> if blank raw then read_single env else parse_key_ring env raw)"

definition get_primary_key :: "'a crypto_env \<Rightarrow> string + (string \<times> bytes)" where
  "get_primary_key env =
     (case read_key_ring env of
        Inl e \<Rightarrow> Inl e
      | Inr ring \<Rightarrow>
          (case ce_primary_key_id env of
             Some (c # cs) \<Rightarrow>
               (case map_of ring (c # cs) of
                  None \<Rightarrow> Inl ''QUEUE_ENCRYPTION_KEY_ID is not present in the key ring.''
                | Some key \<Rightarrow> Inr (c # cs, key))
           | _ \<Rightarrow>
               (case map_of ring default_key_id of
                  Some key \<Rightarrow> Inr (default_key_id, key)
                | None \<Rightarrow> Inr (hd ring))))"

definition get_legacy_key :: "'a crypto_env \<Rightarrow> string + bytes" where
  "get_legacy_key env =
     (case single_key env of
        None \<Rightarrow> Inl ''QUEUE_ENCRYPTION_KEY must be set to decrypt legacy v1 payloads.''
      | Some hex \<Rightarrow> parse_key hex)"

definition get_key_by_id :: "'a crypto_env \<Rightarrow> string \<Rightarrow> string + bytes" where
  "get_key_by_id env i =
     (case read_key_ring env of
        Inl e \<Rightarrow> Inl e
      | Inr ring \<Rightarrow>
          (case map_of ring i of
             None \<Rightarrow> Inl ''No queue encryption key configured for this key id.''
           | Some key \<Rightarrow> Inr key))"

subsection \<open>Encryption and decryption\<close>

text \<open>\<open>v2:keyId:nonce:tag:data\<close>; the nonce is drawn at random.\<close>

definition v2_text :: "string \<Rightarrow> bytes \<Rightarrow> bytes \<Rightarrow> bytes \<Rightarrow> string" where
  "v2_text i nonce tag enc =
     ''v2'' @ CHR '':'' # i @ CHR '':'' # to_hex nonce @ CHR '':'' # to_hex tag @ CHR '':'' # to_hex enc"

definition encrypt_payload :: "'a crypto_env \<Rightarrow> bytes \<Rightarrow> 'a \<Rightarrow> string \<Rightarrow> string + string" where
  "encrypt_payload env nonce data aad =
     (case get_primary_key env of
        Inl e \<Rightarrow> Inl e
      | Inr (i, key) \<Rightarrow>
          (let (enc, tag) = ce_gcm_seal env key nonce aad (ce_stringify env data)
           in Inr (v2_text i nonce tag enc)))"

definition parse_plain :: "'a crypto_env \<Rightarrow> string option \<Rightarrow> string + 'a" where
  "parse_plain env plain =
     (case plain of
        None \<Rightarrow> Inl ''Unsupported state or unable to authenticate data''
      | Some t \<Rightarrow> (case ce_parse env t of None \<Rightarrow> Inl ''Unexpected token in JSON'' | Some x \<Rightarrow> Inr x))"

definition decrypt_v2 :: "'a crypto_env \<Rightarrow> string list \<Rightarrow> string \<Rightarrow> string + 'a" where
  "decrypt_v2 env parts aad =
     (case parts of
        [_, i, nonce, tag, enc] \<Rightarrow>
          if \<not> is_key_id i then Inl ''Invalid key id in ciphertext''
          else if length nonce \<noteq> 24 \<or> \<not> is_hex nonce then Inl ''Invalid AES-GCM nonce in ciphertext.''
          else if length tag \<noteq> 32 \<or> \<not> is_hex tag then Inl ''Invalid AES-GCM authentication tag in ciphertext.''
          else if odd (length enc) \<or> \<not> is_hex enc then Inl ''Invalid ciphertext payload encoding.''
          else (case get_key_by_id env i of
                  Inl e \<Rightarrow> Inl e
                | Inr key \<Rightarrow> parse_plain env (ce_gcm_open env key (from_hex nonce) aad (from_hex tag) (from_hex enc)))
      | _ \<Rightarrow> Inl ''Invalid ciphertext format'')"

definition decrypt_v1 :: "'a crypto_env \<Rightarrow> string list \<Rightarrow> string + 'a" where
  "decrypt_v1 env parts =
     (case parts of
        [_, iv, enc] \<Rightarrow>
          if length iv \<noteq> 32 \<or> \<not> is_hex iv then Inl ''Invalid AES-CBC IV in legacy v1 ciphertext.''
          else if odd (length enc) \<or> \<not> is_hex enc then Inl ''Invalid ciphertext payload encoding.''
          else (case get_legacy_key env of
                  Inl e \<Rightarrow> Inl e
                | Inr key \<Rightarrow> parse_plain env (ce_cbc_open env key (from_hex iv) (from_hex enc)))
      | _ \<Rightarrow> Inl ''Invalid ciphertext format'')"

definition decrypt_payload :: "'a crypto_env \<Rightarrow> string \<Rightarrow> string \<Rightarrow> string + 'a" where
  "decrypt_payload env ciphertext aad =
     (if ciphertext = [] then Inl ''Invalid ciphertext: expected a non-empty string.''
      else
        (let parts = split_on (CHR '':'') ciphertext
         in if hd parts = ''v2'' then decrypt_v2 env parts aad
            else if hd parts = ''v1'' then decrypt_v1 env parts
            else Inl ''Unsupported queue payload version''))"

subsection \<open>Hexadecimal text\<close>

lemma hex_value_digit: "n < 16 \<Longrightarrow> hex_value (hex_digits ! n) = Some n"
proof -
  have "\<forall>n\<in>set [0..<16]. hex_value (hex_digits ! n) = Some n" by code_simp
  then show "n < 16 \<Longrightarrow> hex_value (hex_digits ! n) = Some n" by simp
qed

lemma unat_byte: "unat (b :: 8 word) < 256"
  by (rule order_less_le_trans [OF unsigned_less]) simp

lemma hex_byte_values:
  "hex_value (hex_digits ! (unat (b :: 8 word) div 16)) = Some (unat b div 16)"
  "hex_value (hex_digits ! (unat b mod 16)) = Some (unat b mod 16)"
  using unat_byte [of b] by (auto intro!: hex_value_digit)

lemma from_to_hex [simp]: "from_hex (to_hex bs) = bs"
proof (induction bs)
  case (Cons b bs)
  have "16 * (unat b div 16) + unat b mod 16 = unat b" by simp
  then show ?case using Cons by (simp add: to_hex_def hex_byte_def hex_byte_values del: of_nat_add of_nat_mult)
qed (simp add: to_hex_def)

lemma is_hex_to_hex [simp]: "is_hex (to_hex bs)"
  by (induction bs) (simp_all add: to_hex_def is_hex_def hex_byte_def hex_byte_values)

lemma length_to_hex [simp]: "length (to_hex bs) = 2 * length bs"
  by (induction bs) (simp_all add: to_hex_def hex_byte_def)

lemma no_colon_hex: "is_hex t \<Longrightarrow> CHR '':'' \<notin> set t"
  by (auto simp: is_hex_def list_all_iff hex_value_def Let_def)

lemma no_colon_key_id: "is_key_id i \<Longrightarrow> CHR '':'' \<notin> set i"
  by (auto simp: is_key_id_def list_all_iff key_id_char_def Let_def)

lemma split_v2_text:
  "is_key_id i \<Longrightarrow> split_on (CHR '':'') (v2_text i nonce tag enc) = [''v2'', i, to_hex nonce, to_hex tag, to_hex enc]"
proof -
  assume "is_key_id i"
  moreover have "CHR '':'' \<notin> set ''v2''" by simp
  ultimately show ?thesis
    unfolding v2_text_def
    by (simp only: split_on_append split_on_no_sep no_colon_key_id no_colon_hex is_hex_to_hex not_False_eq_True)
qed

subsection \<open>The ring\<close>

lemma parse_entries_ids: "parse_entries es = Inr ring \<Longrightarrow> \<forall>(i, key)\<in>set ring. is_key_id i"
proof (induction es arbitrary: ring)
  case (Cons e es)
  obtain i v where e: "e = (i, v)" by (cases e)
  from Cons.prems obtain key rest where "is_key_id i" "parse_entries es = Inr rest" "ring = (i, key) # rest"
    by (auto simp: e split: if_splits option.splits sum.splits)
  with Cons.IH [of rest] show ?case by simp
qed simp

lemma ring_ids: "read_key_ring env = Inr ring \<Longrightarrow> ring \<noteq> [] \<and> (\<forall>(i, key)\<in>set ring. is_key_id i)"
  by (auto simp: read_key_ring_def read_single_def parse_key_ring_def Let_def
      split: option.splits if_splits sum.splits dest!: parse_entries_ids)

lemma primary_key:
  assumes "get_primary_key env = Inr (i, key)"
  shows "is_key_id i" "distinct (map fst ring) \<Longrightarrow> read_key_ring env = Inr ring \<Longrightarrow> get_key_by_id env i = Inr key"
proof -
  obtain ring' where ring: "read_key_ring env = Inr ring'"
    using assms by (auto simp: get_primary_key_def split: sum.splits)
  note ids = ring_ids [OF ring]
  have mem: "(i, key) \<in> set ring'"
    using assms ring ids by (auto simp: get_primary_key_def split: option.splits list.splits dest: map_of_SomeD
        intro: hd_in_set [THEN back_subst [of "\<lambda>x. x \<in> set ring'"]])
  then show "is_key_id i" using ids by auto
  assume "distinct (map fst ring)" "read_key_ring env = Inr ring"
  then show "get_key_by_id env i = Inr key" using ring mem by (simp add: get_key_by_id_def)
qed

subsection \<open>Round trip\<close>

text \<open>
  C25: a payload encrypted for a queue is decrypted on that queue to the data it was made of,
  also after the ring was rotated as long as it still holds the key the text names, and on any
  other queue it is refused. What is assumed of the cipher is that it opens what it sealed and
  authenticates the associated data, and of JSON that it reads back what it wrote.
\<close>

theorem queue_payload_roundtrip:
  assumes "get_primary_key env = Inr (i, key)" "get_key_by_id rotated i = Inr key"
    and "ce_gcm_seal env key nonce aad (ce_stringify env data) = (enc, tag)" "length nonce = 12" "length tag = 16"
    and "\<And>aad'. ce_gcm_open rotated key nonce aad' tag enc = (if aad' = aad then Some (ce_stringify env data) else None)"
    and "ce_parse rotated (ce_stringify env data) = Some data"
  shows "\<exists>c. encrypt_payload env nonce data aad = Inr c \<and> decrypt_payload rotated c aad = Inr data
     \<and> (\<forall>aad'. aad' \<noteq> aad \<longrightarrow> decrypt_payload rotated c aad' = Inl ''Unsupported state or unable to authenticate data'')"
proof -
  have i: "is_key_id i" by (rule primary_key(1) [OF assms(1)])
  let ?c = "v2_text i nonce tag enc"
  have "encrypt_payload env nonce data aad = Inr ?c" using assms(1,3) by (simp add: encrypt_payload_def)
  moreover have "decrypt_payload rotated ?c a = parse_plain rotated (ce_gcm_open rotated key nonce a tag enc)" for a
  proof -
    have "?c \<noteq> []" by (simp add: v2_text_def)
    then show ?thesis
      using i assms(2,4,5) by (simp add: decrypt_payload_def split_v2_text decrypt_v2_def Let_def)
  qed
  ultimately show ?thesis using assms(6,7) by (simp add: parse_plain_def)
qed

definition example_crypto :: "string option \<Rightarrow> string crypto_env" where
  "example_crypto ring_json =
     \<lparr>ce_ring_variable = ring_json, ce_queue_key = Some (replicate 64 CHR ''a''), ce_encryption_key = None,
      ce_primary_key_id = None,
      ce_json_ring = (\<lambda>_. Some (Some [(''2'', Some (replicate 64 CHR ''b'')), (''1'', Some (replicate 64 CHR ''a''))])),
      ce_gcm_seal = (\<lambda>key nonce aad t. ([1, 2, 3], replicate 16 7)),
      ce_gcm_open = (\<lambda>key nonce aad tag enc. if aad = ''deal.delivered'' \<and> enc = [1, 2, 3] then Some ''{}'' else None),
      ce_cbc_open = (\<lambda>key iv enc. None), ce_stringify = (\<lambda>t. t), ce_parse = Some\<rparr>"

theorem queue_payload_roundtrip_witness:
  "\<exists>c. encrypt_payload (example_crypto None) (replicate 12 0) ''{}'' ''deal.delivered'' = Inr c
     \<and> decrypt_payload (example_crypto (Some ''ring'')) c ''deal.delivered'' = Inr ''{}''
     \<and> decrypt_payload (example_crypto (Some ''ring'')) c ''deal.funded'' = Inl ''Unsupported state or unable to authenticate data''"
proof -
  have key: "get_primary_key (example_crypto None) = Inr (''1'', from_hex (replicate 64 CHR ''a''))" by code_simp
  have rotated: "get_key_by_id (example_crypto (Some ''ring'')) ''1'' = Inr (from_hex (replicate 64 CHR ''a''))" by code_simp
  have "\<exists>c. encrypt_payload (example_crypto None) (replicate 12 0) ''{}'' ''deal.delivered'' = Inr c
     \<and> decrypt_payload (example_crypto (Some ''ring'')) c ''deal.delivered'' = Inr ''{}''
     \<and> (\<forall>aad'. aad' \<noteq> ''deal.delivered'' \<longrightarrow>
          decrypt_payload (example_crypto (Some ''ring'')) c aad' = Inl ''Unsupported state or unable to authenticate data'')"
    by (rule queue_payload_roundtrip [OF key rotated, where enc = "[1, 2, 3]" and tag = "replicate 16 7"])
      (simp_all add: example_crypto_def)
  then show ?thesis by auto
qed

end
