(* ===== verification/EscrowConsumer.thy ===== *)
theory EscrowConsumer
  imports Escrow QueueCrypto RetryPolicy
begin

text \<open>
  The consumer of \<open>deal.delivered\<close> (\<open>backend/src/escrow/escrow.consumer.ts\<close>) around the escrow
  service, the tools for the dead-letter queue (\<open>escrow-dlq.service.ts\<close>) and the retry of failed
  payments (\<open>failed-payments.service.ts\<close>). What the broker does with a message that is given
  back, the parser of JSON and the run of the service without a deal identifier are parameters.
\<close>

subsection \<open>Deliveries\<close>

text \<open>
  The payload the framework hands over: a text, an object with its \<open>tradeDealId\<close> (\<open>None\<close> when
  that is not a string), or any other value. \<open>qd_content\<close> is the text of the whole message,
  \<open>qd_deaths\<close> its \<open>x-death\<close> header.
\<close>

datatype wire_payload = WireText string | WireObject "string option" | WireOther

record queue_delivery =
  qd_payload :: wire_payload
  qd_content :: string
  qd_deaths :: "nat option list option"

datatype settlement = Ack | Requeue | DeadLetter

definition escrow_max_delivery_attempts :: nat where
  "escrow_max_delivery_attempts = 5"

text \<open>
  \<open>co_json_deal_id\<close> is the member \<open>tradeDealId\<close> of the parsed text, \<open>None\<close> when parsing throws or
  the member is no string. \<open>co_undefined_deal\<close> is the service called with a payload that has
  no such member.
\<close>

record 'r consumer_env =
  co_escrow :: "'r escrow_env"
  co_json_deal_id :: "string \<Rightarrow> string option"
  co_undefined_deal :: "('r escrow_state, http_error, unit) handler"

record 'r consumer_state =
  cn_escrow :: "'r escrow_state"
  cn_shutting_down :: bool
  cn_dlq_total :: nat

definition js_trim :: "string \<Rightarrow> string" where
  "js_trim t = rev (dropWhile white_space (rev (dropWhile white_space t)))"

definition parse_payload :: "'r consumer_env \<Rightarrow> queue_delivery \<Rightarrow> string option" where
  "parse_payload env d =
     (let from_text = (\<lambda>raw.
            if raw = [] then None
            else case co_json_deal_id env raw of
                   None \<Rightarrow> None
                 | Some i \<Rightarrow> if blank i then None else Some (js_trim i))
      in case qd_payload d of
           WireObject (Some i) \<Rightarrow> if blank i then from_text (qd_content d) else Some (js_trim i)
         | WireText t \<Rightarrow> from_text t
         | _ \<Rightarrow> from_text (qd_content d))"

text \<open>The service receives the payload as it came, not the parsed one.\<close>

definition deliver_to_service ::
  "'r consumer_env \<Rightarrow> wire_payload \<Rightarrow> ('r escrow_state, http_error, unit) handler" where
  "deliver_to_service env payload =
     (case payload of
        WireObject (Some i) \<Rightarrow> process_deal_delivered (co_escrow env) i
      | _ \<Rightarrow> co_undefined_deal env)"

definition delivery_key :: "string \<Rightarrow> string" where
  "delivery_key deal_id = build_key ''deal.delivered'' deal_id"

definition consume_deal_delivered ::
  "'r consumer_env \<Rightarrow> queue_delivery \<Rightarrow> 'r consumer_state \<Rightarrow> settlement \<times> 'r consumer_state" where
  "consume_deal_delivered env d s =
     (case parse_payload env d of
        None \<Rightarrow> (DeadLetter, s)
      | Some deal_id \<Rightarrow>
          (let exhausted = (escrow_max_delivery_attempts \<le> get_delivery_attempt (qd_deaths d));
               key = delivery_key deal_id
           in case take_lease (co_escrow env) key (cn_escrow s) of
                (got, e1) \<Rightarrow>
                  if \<not> got then (Ack, s\<lparr>cn_escrow := e1\<rparr>)
                  else (case deliver_to_service env (qd_payload d) e1 of
                          (Inr _, e2) \<Rightarrow> (Ack, s\<lparr>cn_escrow := finish_lease (co_escrow env) key e2\<rparr>)
                        | (Inl _, e2) \<Rightarrow>
                            (let s1 = s\<lparr>cn_escrow := free_lease (co_escrow env) key e2\<rparr>
                             in if exhausted then (DeadLetter, s1\<lparr>cn_dlq_total := cn_dlq_total s1 + 1\<rparr>)
                                else (Requeue, s1)))))"

definition handle_deal_delivered ::
  "'r consumer_env \<Rightarrow> queue_delivery \<Rightarrow> 'r consumer_state \<Rightarrow> settlement \<times> 'r consumer_state" where
  "handle_deal_delivered env d s =
     (if cn_shutting_down s then (Requeue, s) else consume_deal_delivered env d s)"

definition on_application_shutdown :: "'r consumer_state \<Rightarrow> 'r consumer_state" where
  "on_application_shutdown s = s\<lparr>cn_shutting_down := True\<rparr>"

text \<open>
  Up to \<open>n\<close> deliveries of one message; \<open>requeued\<close> is what the broker delivers again after the
  message was given back.
\<close>

fun deliveries ::
  "'r consumer_env \<Rightarrow> (queue_delivery \<Rightarrow> queue_delivery) \<Rightarrow> nat \<Rightarrow> queue_delivery \<Rightarrow> 'r consumer_state \<Rightarrow>
   settlement list \<times> 'r consumer_state" where
  "deliveries env requeued 0 d s = ([], s)"
| "deliveries env requeued (Suc n) d s =
     (case handle_deal_delivered env d s of
        (Requeue, s1) \<Rightarrow> (case deliveries env requeued n (requeued d) s1 of (as, s2) \<Rightarrow> (Requeue # as, s2))
      | (a, s1) \<Rightarrow> ([a], s1))"

subsection \<open>The dead-letter queue\<close>

record dlq_message =
  dm_message_id :: "string option"
  dm_content :: string
  dm_deaths :: "(nat option \<times> string option) list option"
  dm_retry_count :: "nat option"
  dm_failure_reason :: "string option"

record dlq_summary =
  ds_id :: string
  ds_payload_summary :: string
  ds_failure_reason :: string
  ds_retry_count :: nat

record dlq_state =
  dq_dead :: "dlq_message list"
  dq_escrow :: "(string \<times> dlq_message) list"
  dq_replays :: "string list"

text \<open>
  \<open>de_digest\<close> is the hash over content and headers; \<open>de_give_back\<close> is where the broker puts a
  message that is given back.
\<close>

record dlq_env =
  de_digest :: "dlq_message \<Rightarrow> string"
  de_give_back :: "dlq_message \<Rightarrow> dlq_message list \<Rightarrow> dlq_message list"

definition get_id :: "dlq_env \<Rightarrow> dlq_message \<Rightarrow> string" where
  "get_id env m = (if present (dm_message_id m) then the (dm_message_id m) else de_digest env m)"

definition to_dto :: "dlq_env \<Rightarrow> dlq_message \<Rightarrow> dlq_summary" where
  "to_dto env m =
     \<lparr>ds_id = get_id env m, ds_payload_summary = take 240 (dm_content m),
      ds_failure_reason =
        (case dm_deaths m of
           Some ((_, Some reason) # _) \<Rightarrow> reason
         | Some _ \<Rightarrow> ''unknown''
         | None \<Rightarrow> (case dm_failure_reason m of Some reason \<Rightarrow> reason | None \<Rightarrow> ''unknown'')),
      ds_retry_count =
        (case dm_deaths m of
           Some deaths \<Rightarrow> foldl (\<lambda>total (c, _). total + (case c of None \<Rightarrow> 0 | Some k \<Rightarrow> k)) 0 deaths
         | None \<Rightarrow> (case dm_retry_count m of Some k \<Rightarrow> k | None \<Rightarrow> 0))\<rparr>"

fun list_loop :: "dlq_env \<Rightarrow> nat \<Rightarrow> dlq_message list \<Rightarrow> dlq_summary list \<times> dlq_message list" where
  "list_loop env 0 q = ([], q)"
| "list_loop env (Suc n) [] = ([], [])"
| "list_loop env (Suc n) (m # q) =
     (case list_loop env n (de_give_back env m q) of (ds, q') \<Rightarrow> (to_dto env m # ds, q'))"

definition list_messages :: "dlq_env \<Rightarrow> dlq_state \<Rightarrow> dlq_summary list \<times> dlq_state" where
  "list_messages env s =
     (case list_loop env (length (dq_dead s)) (dq_dead s) of (ds, q) \<Rightarrow> (ds, s\<lparr>dq_dead := q\<rparr>))"

definition send_to_escrow :: "dlq_env \<Rightarrow> dlq_message \<Rightarrow> dlq_state \<Rightarrow> dlq_state" where
  "send_to_escrow env m s =
     s\<lparr>dq_escrow := dq_escrow s @ [(get_id env m, m)], dq_replays := dq_replays s @ [''success'']\<rparr>"

fun replay_loop :: "dlq_env \<Rightarrow> string \<Rightarrow> nat \<Rightarrow> dlq_message list \<Rightarrow> dlq_message option \<times> dlq_message list" where
  "replay_loop env i 0 q = (None, q)"
| "replay_loop env i (Suc n) [] = (None, [])"
| "replay_loop env i (Suc n) (m # q) =
     (if get_id env m = i then (Some m, q) else replay_loop env i n (de_give_back env m q))"

definition replay_message :: "dlq_env \<Rightarrow> string \<Rightarrow> dlq_state \<Rightarrow> bool \<times> dlq_state" where
  "replay_message env i s =
     (case replay_loop env i (length (dq_dead s)) (dq_dead s) of
        (Some m, q) \<Rightarrow> (True, send_to_escrow env m (s\<lparr>dq_dead := q\<rparr>))
      | (None, q) \<Rightarrow> (False, s\<lparr>dq_dead := q, dq_replays := dq_replays s @ [''not_found'']\<rparr>))"

definition replay_all :: "dlq_env \<Rightarrow> dlq_state \<Rightarrow> nat \<times> dlq_state" where
  "replay_all env s =
     (length (dq_dead s), fold (send_to_escrow env) (dq_dead s) (s\<lparr>dq_dead := []\<rparr>))"

subsection \<open>Failed payments\<close>

datatype tx_status = TxPending | TxSuccess | TxFailed | TxPendingClaim

record transaction_log =
  tl_id :: string
  tl_user_id :: "string option"
  tl_deal_id :: "string option"
  tl_tx_hash :: "string option"
  tl_status :: tx_status
  tl_error_code :: "string option"
  tl_created_at :: int

record payments_state =
  py_logs :: "transaction_log list"
  py_queue :: queue_state

text \<open>The page, with the total, the page number, the limit and the number of pages.\<close>

definition get_failed_payments :: "int \<Rightarrow> int \<Rightarrow> payments_state \<Rightarrow> transaction_log list \<times> nat \<times> int \<times> int \<times> int" where
  "get_failed_payments page limit s =
     (let safe_limit = min (max 1 limit) 100; safe_page = max 1 page;
          rows = sort_key (\<lambda>r. - tl_created_at r) (find_where (\<lambda>r. tl_status r = TxFailed) (py_logs s))
      in (take (nat safe_limit) (drop (nat ((safe_page - 1) * safe_limit)) rows), length rows, safe_page, safe_limit,
          \<lceil>div_js (of_nat (length rows)) (of_int safe_limit)\<rceil>))"

definition get_failed_payment_by_id :: "string \<Rightarrow> payments_state \<Rightarrow> http_error + transaction_log" where
  "get_failed_payment_by_id i s =
     (case find_one (\<lambda>r. tl_id r = i) (py_logs s) of
        None \<Rightarrow> Inl (NotFound ''Transaction log not found'')
      | Some r \<Rightarrow> if tl_status r \<noteq> TxFailed then Inl (BadRequest ''Transaction is not in failed state'') else Inr r)"

definition retry_failed_payment ::
  "(string \<Rightarrow> string option) \<Rightarrow> string \<Rightarrow> (payments_state, http_error, string) handler" where
  "retry_failed_payment encrypt_error i s =
     (case get_failed_payment_by_id i s of
        Inl e \<Rightarrow> throw e s
      | Inr r \<Rightarrow>
     (case tl_deal_id r of
        Some (c # cs) \<Rightarrow>
          (case enqueue_deal_delivered encrypt_error (c # cs) (py_queue s) of
             (Inl e, q) \<Rightarrow> throw (Internal e) (s\<lparr>py_queue := q\<rparr>)
           | (Inr _, q) \<Rightarrow> done_with (c # cs) (s\<lparr>py_queue := q\<rparr>))
      | _ \<Rightarrow> throw (BadRequest ''Transaction has no associated deal'') s))"

text \<open>One deal ready for release and its consumer, for the applications of the theorems.\<close>

definition example_consumer :: "kv_store consumer_env" where
  "example_consumer = \<lparr>co_escrow = sample_env None, co_json_deal_id = (\<lambda>_. None), co_undefined_deal = (\<lambda>e. (Inl (NotFound []), e))\<rparr>"

definition example_consumer_state :: "kv_store consumer_state" where
  "example_consumer_state = \<lparr>cn_escrow = sample_state, cn_shutting_down = False, cn_dlq_total = 0\<rparr>"

subsection \<open>What the consumer does\<close>

text \<open>
  Every \<open>deal.delivered\<close> that the queue service sends is dead-lettered unread. The payload on
  the queue is the encrypted text, which the consumer does not decrypt but parses as JSON;
  assumed of the parser is only that a text that begins with the letter v is no JSON.
\<close>

theorem encrypted_delivery_is_dead_lettered:
  assumes "encrypt_payload cenv nonce data ''deal.delivered'' = Inr c"
    and "\<And>t. co_json_deal_id env (CHR ''v'' # t) = None"
    and "qd_payload d = WireText c" "\<not> cn_shutting_down s"
  shows "handle_deal_delivered env d s = (DeadLetter, s)"
proof -
  have "\<exists>t. c = CHR ''v'' # t"
    using assms(1) by (auto simp: encrypt_payload_def v2_text_def Let_def split: sum.splits prod.splits)
  then show ?thesis
    using assms(2-4) by (auto simp: handle_deal_delivered_def consume_deal_delivered_def parse_payload_def Let_def)
qed

theorem encrypted_delivery_is_dead_lettered_witness:
  "\<exists>c. encrypt_payload (example_crypto None) (replicate 12 0) ''{}'' ''deal.delivered'' = Inr c
     \<and> handle_deal_delivered example_consumer \<lparr>qd_payload = WireText c, qd_content = c, qd_deaths = None\<rparr> example_consumer_state
         = (DeadLetter, example_consumer_state)"
proof -
  have "isl (encrypt_payload (example_crypto None) (replicate 12 0) ''{}'' ''deal.delivered'') = False" by code_simp
  then obtain c where c: "encrypt_payload (example_crypto None) (replicate 12 0) ''{}'' ''deal.delivered'' = Inr c"
    by (cases "encrypt_payload (example_crypto None) (replicate 12 0) ''{}'' ''deal.delivered''") auto
  from encrypted_delivery_is_dead_lettered [OF c, of example_consumer "\<lparr>qd_payload = WireText c, qd_content = c, qd_deaths = None\<rparr>"
      example_consumer_state]
  show ?thesis using c by (simp add: example_consumer_def example_consumer_state_def)
qed

text \<open>A message with a plain object as payload.\<close>

definition plain_delivery :: "string \<Rightarrow> nat option list option \<Rightarrow> queue_delivery" where
  "plain_delivery i deaths = \<lparr>qd_payload = WireObject (Some i), qd_content = [], qd_deaths = deaths\<rparr>"

definition trimmed :: "string \<Rightarrow> bool" where
  "trimmed i \<longleftrightarrow> \<not> blank i \<and> js_trim i = i"

lemma parse_plain_delivery: "trimmed i \<Longrightarrow> parse_payload env (plain_delivery i deaths) = Some i"
  by (simp add: parse_payload_def plain_delivery_def trimmed_def)

definition kv_consumer :: "kv_store consumer_env \<Rightarrow> bool" where
  "kv_consumer env \<longleftrightarrow> ee_redis (co_escrow env) = kv_ops \<and> ee_redis_online (co_escrow env)"

lemma take_lease_free:
  assumes "kv_consumer env" "kv_get key (es_redis e) = None"
  shows "take_lease (co_escrow env) key e = (True, e\<lparr>es_redis := kv_set key ''processing'' 900 (es_redis e)\<rparr>)"
  using assms by (simp add: kv_consumer_def take_lease_def acquire_defs kv_ops_def kv_set_nx_def)

lemma kv_get_set: "kv_get k (kv_set k v t r) = (if 0 < t then Some v else None)"
  by (simp add: kv_get_def kv_set_def)

lemma free_lease_frees:
  assumes "kv_consumer env" "kv_get key (es_redis e) = Some ''processing''"
  shows "es_redis (free_lease (co_escrow env) key e) = kv_del key (es_redis e)" "kv_get key (kv_del key r) = None"
  using assms by (simp_all add: kv_consumer_def free_lease_def release_lease_def kv_ops_def kv_del_def kv_get_def)

lemma example_consumer_facts:
  "kv_consumer example_consumer" "\<not> cn_shutting_down example_consumer_state" "trimmed ''d9''" "trimmed ''d1''"
  "find_deal ''d9'' (es_deals (cn_escrow example_consumer_state)) = None"
  "kv_get key (es_redis (cn_escrow example_consumer_state)) = None"
  "cn_escrow example_consumer_state = sample_state" "co_escrow example_consumer = sample_env None"
proof -
  show "trimmed ''d9''" "trimmed ''d1''" by code_simp+
qed (simp_all add: example_consumer_def example_consumer_state_def kv_consumer_def sample_defs find_deal_def find_one_def kv_get_def)

text \<open>
  What one delivery of a plain payload does. A deal whose lease is held or that is marked
  done is acknowledged without effect; a successful run is acknowledged and marked done; a run
  that throws frees the lease and gives the message back, or from the fifth counted attempt
  on sends it to the dead-letter queue and counts it.
\<close>

theorem delivery_outcomes:
  assumes "trimmed i" "\<not> cn_shutting_down s"
  shows "handle_deal_delivered env (plain_delivery i deaths) s =
    (let key = build_key ''deal.delivered'' i;
         (l, r) = acquire_lease (ee_redis (co_escrow env)) (ee_redis_online (co_escrow env)) key 900 (es_redis (cn_escrow s))
     in if \<not> acquired l then (Ack, s\<lparr>cn_escrow := (cn_escrow s)\<lparr>es_redis := r\<rparr>\<rparr>)
        else (case process_deal_delivered (co_escrow env) i ((cn_escrow s)\<lparr>es_redis := r\<rparr>) of
                (Inr _, e) \<Rightarrow> (Ack, s\<lparr>cn_escrow := finish_lease (co_escrow env) key e\<rparr>)
              | (Inl _, e) \<Rightarrow>
                  if 4 \<le> (\<Sum>c\<leftarrow>(case deaths of None \<Rightarrow> [] | Some cs \<Rightarrow> cs). case c of None \<Rightarrow> 0 | Some n \<Rightarrow> n)
                  then (DeadLetter, s\<lparr>cn_escrow := free_lease (co_escrow env) key e, cn_dlq_total := Suc (cn_dlq_total s)\<rparr>)
                  else (Requeue, s\<lparr>cn_escrow := free_lease (co_escrow env) key e\<rparr>)))"
proof -
  have sum: "foldl (\<lambda>s d. s + (case d of None \<Rightarrow> 0 | Some c \<Rightarrow> c)) a ds
      = a + (\<Sum>d\<leftarrow>ds. case d of None \<Rightarrow> 0 | Some c \<Rightarrow> c)" for a :: nat and ds
    by (induction ds arbitrary: a) auto
  have attempt: "5 \<le> get_delivery_attempt deaths \<longleftrightarrow>
      4 \<le> (\<Sum>c\<leftarrow>(case deaths of None \<Rightarrow> [] | Some cs \<Rightarrow> cs). case c of None \<Rightarrow> 0 | Some n \<Rightarrow> n)"
    by (auto simp: get_delivery_attempt_def sum split: option.split)
  show ?thesis
    using assms parse_plain_delivery [OF assms(1), of env deaths]
    by (simp add: handle_deal_delivered_def consume_deal_delivered_def Let_def take_lease_def delivery_key_def
        deliver_to_service_def plain_delivery_def escrow_max_delivery_attempts_def attempt split: prod.split sum.split)
qed

theorem delivery_outcomes_witness:
  "fst (handle_deal_delivered example_consumer (plain_delivery ''d9'' (Some [Some 3, None, Some 1])) example_consumer_state) = DeadLetter
   \<and> fst (handle_deal_delivered example_consumer (plain_delivery ''d9'' (Some [Some 3])) example_consumer_state) = Requeue"
proof -
  have "process_deal_delivered (sample_env None) ''d9'' (sample_state\<lparr>es_redis := r\<rparr>)
      = (Inl (NotFound ''Trade deal not found''), record_release_outcome ReleaseFailure (sample_state\<lparr>es_redis := r\<rparr>))" for r
    using example_consumer_facts(5) by (simp add: process_deal_delivered_def example_consumer_facts)
  moreover have "acquired (fst (acquire_lease kv_ops True k 900 (es_redis sample_state)))" for k
    using example_consumer_facts(6) kv.acquired_iff by (simp add: example_consumer_facts kv_ops_def)
  moreover have "ee_redis (sample_env None) = kv_ops" "ee_redis_online (sample_env None)" by (simp_all add: sample_env_def)
  ultimately show ?thesis
    using delivery_outcomes [OF example_consumer_facts(3,2), of example_consumer "Some [Some 3, None, Some 1]"]
      delivery_outcomes [OF example_consumer_facts(3,2), of example_consumer "Some [Some 3]"]
    by (simp add: example_consumer_facts Let_def case_prod_beta)
qed

text \<open>
  C3: the five attempts are never used up. A broker that gives a message back leaves its
  headers as they are (only dead-lettering appends to \<open>x-death\<close>), so a delivery that always
  fails, here one for a deal that does not exist, is given back for ever. Were each return
  counted in the header, as the comment of the consumer has it, the fifth attempt would
  be the last.
\<close>

definition counted_return :: "queue_delivery \<Rightarrow> queue_delivery" where
  "counted_return d = d\<lparr>qd_deaths := Some [Some (get_delivery_attempt (qd_deaths d))]\<rparr>"

lemma missing_deal_delivery:
  fixes s :: "kv_store consumer_state"
  assumes "trimmed i" "kv_consumer env" "\<not> cn_shutting_down s" "find_deal i (es_deals (cn_escrow s)) = None"
    and "kv_get (build_key ''deal.delivered'' i) (es_redis (cn_escrow s)) = None"
  shows "\<exists>s'. handle_deal_delivered env (plain_delivery i deaths) s
       = (if 5 \<le> get_delivery_attempt deaths then DeadLetter else Requeue, s')
     \<and> \<not> cn_shutting_down s' \<and> find_deal i (es_deals (cn_escrow s')) = None
     \<and> kv_get (build_key ''deal.delivered'' i) (es_redis (cn_escrow s')) = None"
proof -
  let ?key = "build_key ''deal.delivered'' i"
  let ?e1 = "(cn_escrow s)\<lparr>es_redis := kv_set ?key ''processing'' 900 (es_redis (cn_escrow s))\<rparr>"
  let ?e2 = "record_release_outcome ReleaseFailure ?e1"
  have "kv_get ?key (es_redis ?e2) = Some ''processing''" by (simp add: kv_get_set)
  note freed = free_lease_frees [OF assms(2) this]
  have deals: "es_deals (free_lease (co_escrow env) ?key ?e2) = es_deals (cn_escrow s)" by (simp add: free_lease_def)
  show ?thesis
    using assms(1,3,4) parse_plain_delivery [OF assms(1), of env deaths] freed deals
    by (simp add: handle_deal_delivered_def consume_deal_delivered_def Let_def delivery_key_def
        take_lease_free [OF assms(2,5)] deliver_to_service_def plain_delivery_def
        escrow_max_delivery_attempts_def process_deal_delivered_def)
qed

theorem failing_delivery_never_exhausts:
  fixes s :: "kv_store consumer_state"
  assumes "trimmed i" "kv_consumer env" "\<not> cn_shutting_down s" "find_deal i (es_deals (cn_escrow s)) = None"
    and "kv_get (build_key ''deal.delivered'' i) (es_redis (cn_escrow s)) = None"
    and "\<And>d. requeued d = d"
  shows "fst (deliveries env requeued n (plain_delivery i None) s) = replicate n Requeue
     \<and> fst (deliveries env counted_return (n + 5) (plain_delivery i None) s) = replicate 4 Requeue @ [DeadLetter]"
proof
  show "fst (deliveries env requeued n (plain_delivery i None) s) = replicate n Requeue"
    using assms(3-5)
  proof (induction n arbitrary: s)
    case (Suc n)
    from missing_deal_delivery [OF assms(1,2) Suc.prems, of None] obtain s' where s':
      "handle_deal_delivered env (plain_delivery i None) s = (Requeue, s')" "\<not> cn_shutting_down s'"
      "find_deal i (es_deals (cn_escrow s')) = None" "kv_get (build_key ''deal.delivered'' i) (es_redis (cn_escrow s')) = None"
      by (auto simp: get_delivery_attempt_def)
    then show ?case using Suc.IH [OF s'(2-4)] by (simp add: assms(6) case_prod_beta)
  qed simp
  have counted: "fst (deliveries env counted_return (n + k + 1) (plain_delivery i deaths) s) = replicate k Requeue @ [DeadLetter]"
    if "get_delivery_attempt deaths + k = 5" "\<not> cn_shutting_down s" "find_deal i (es_deals (cn_escrow s)) = None"
      "kv_get (build_key ''deal.delivered'' i) (es_redis (cn_escrow s)) = None" for k deaths and s :: "kv_store consumer_state"
    using that
  proof (induction k arbitrary: deaths s)
    case 0
    from missing_deal_delivery [OF assms(1,2) "0.prems"(2-4), of deaths] "0.prems"(1) show ?case by auto
  next
    case (Suc k)
    from missing_deal_delivery [OF assms(1,2) Suc.prems(2-4), of deaths] Suc.prems(1) obtain s' where s':
      "handle_deal_delivered env (plain_delivery i deaths) s = (Requeue, s')" "\<not> cn_shutting_down s'"
      "find_deal i (es_deals (cn_escrow s')) = None" "kv_get (build_key ''deal.delivered'' i) (es_redis (cn_escrow s')) = None"
      by auto
    have "counted_return (plain_delivery i deaths) = plain_delivery i (Some [Some (get_delivery_attempt deaths)])"
      by (simp add: counted_return_def plain_delivery_def)
    moreover have "get_delivery_attempt (Some [Some (get_delivery_attempt deaths)]) + k = 5"
      using Suc.prems(1) by (simp add: get_delivery_attempt_def)
    ultimately show ?case using Suc.IH [OF _ s'(2-4)] s'(1) by (simp add: case_prod_beta)
  qed
  have "get_delivery_attempt None + 4 = 5" by (simp add: get_delivery_attempt_def)
  from counted [OF this assms(3-5)] show
    "fst (deliveries env counted_return (n + 5) (plain_delivery i None) s) = replicate 4 Requeue @ [DeadLetter]"
    by (simp add: add.commute)
qed

theorem failing_delivery_never_exhausts_witness:
  "fst (deliveries example_consumer (\<lambda>d. d) 1000 (plain_delivery ''d9'' None) example_consumer_state) = replicate 1000 Requeue"
  using failing_delivery_never_exhausts [OF example_consumer_facts(3,1,2,5,6), of "\<lambda>d. d" 1000] by simp

text \<open>
  A deal whose consumer died is never released. The lease it left behind makes the
  redelivery look like a duplicate; it is acknowledged without any effect, and the broker
  then holds no message for the deal any more.
\<close>

theorem redelivery_after_crash_is_lost:
  assumes "trimmed i" "kv_consumer env" "\<not> cn_shutting_down s"
    and "kv_get (build_key ''deal.delivered'' i) (es_redis (cn_escrow s)) = Some ''processing''"
  shows "handle_deal_delivered env (plain_delivery i deaths) s = (Ack, s)"
  using assms parse_plain_delivery [OF assms(1), of env deaths]
  by (simp add: handle_deal_delivered_def consume_deal_delivered_def Let_def delivery_key_def take_lease_def acquire_defs
      kv_consumer_def kv_ops_def)

definition crashed_state :: "kv_store consumer_state" where
  "crashed_state = example_consumer_state\<lparr>cn_escrow :=
     sample_state\<lparr>es_redis := kv_set (build_key ''deal.delivered'' ''d1'') ''processing'' 900 (es_redis sample_state)\<rparr>\<rparr>"

theorem redelivery_after_crash_is_lost_witness:
  "handle_deal_delivered example_consumer (plain_delivery ''d1'' None) crashed_state = (Ack, crashed_state)
   \<and> map td_status (es_deals (cn_escrow crashed_state)) = [DealDelivered]"
proof -
  have "\<not> cn_shutting_down crashed_state"
    "kv_get (build_key ''deal.delivered'' ''d1'') (es_redis (cn_escrow crashed_state)) = Some ''processing''"
    by (simp_all add: crashed_state_def kv_get_set example_consumer_facts)
  from redelivery_after_crash_is_lost [OF example_consumer_facts(4,1) this] show ?thesis
    by (simp add: crashed_state_def sample_defs)
qed

subsection \<open>What the tools for the dead-letter queue do\<close>

lemma list_loop_head:
  "de_give_back env = Cons \<Longrightarrow> n \<le> length q \<Longrightarrow> list_loop env n q = (replicate n (to_dto env (hd q)), q)"
proof (induction n)
  case (Suc n)
  then obtain m r where "q = m # r" by (cases q) auto
  with Suc show ?case by simp
qed simp

lemma list_loop_tail:
  assumes "de_give_back env = (\<lambda>m q. q @ [m])"
  shows "list_loop env (length q) (q @ r) = (map (to_dto env) q, r @ q)"
proof (induction q arbitrary: r)
  case (Cons m q)
  from Cons.IH [of "r @ [m]"] show ?case by (simp add: assms)
qed simp

lemma replay_loop_head:
  "de_give_back env = Cons \<Longrightarrow> q \<noteq> [] \<Longrightarrow> get_id env (hd q) \<noteq> i \<Longrightarrow> replay_loop env i n q = (None, q)"
proof (induction n)
  case (Suc n)
  then obtain m r where "q = m # r" by (cases q) auto
  with Suc show ?case by simp
qed simp

lemma replay_loop_tail:
  assumes "de_give_back env = (\<lambda>m q. q @ [m])" "\<forall>x\<in>set u. get_id env x \<noteq> get_id env m"
  shows "replay_loop env (get_id env m) (length u + Suc k) (u @ m # r) = (Some m, r @ u)"
  using assms(2)
proof (induction u arbitrary: r)
  case (Cons x u)
  from Cons.IH [of "r @ [x]"] Cons.prems show ?case by (simp add: assms(1))
qed simp

text \<open>
  The tools see the whole dead-letter queue only when the broker puts a message that is
  given back at the end. Then every message is listed once, and replaying an identifier moves
  its first message to the escrow queue and keeps all the others. A broker that returns a message
  to its place, the head, shows them the first message again and again: the list repeats
  it, and no other message can be replayed. Replaying all moves every message in either case.
\<close>

theorem dlq_tools_need_requeue_at_end:
  assumes "dq_dead s = u @ m # r" "\<forall>x\<in>set u. get_id env x \<noteq> get_id env m"
  shows "(de_give_back env = (\<lambda>m q. q @ [m]) \<longrightarrow>
        list_messages env s = (map (to_dto env) (dq_dead s), s)
      \<and> replay_message env (get_id env m) s = (True, send_to_escrow env m (s\<lparr>dq_dead := r @ u\<rparr>)))
    \<and> (de_give_back env = Cons \<longrightarrow>
        list_messages env s = (replicate (length (dq_dead s)) (to_dto env (hd (dq_dead s))), s)
      \<and> (u \<noteq> [] \<longrightarrow> \<not> fst (replay_message env (get_id env m) s) \<and> dq_dead (snd (replay_message env (get_id env m) s)) = dq_dead s))
    \<and> fst (replay_all env s) = length (dq_dead s) \<and> dq_dead (snd (replay_all env s)) = []
    \<and> dq_escrow (snd (replay_all env s)) = dq_escrow s @ map (\<lambda>x. (get_id env x, x)) (dq_dead s)"
proof (intro conjI impI)
  assume tail: "de_give_back env = (\<lambda>m q. q @ [m])"
  show "list_messages env s = (map (to_dto env) (dq_dead s), s)"
    using list_loop_tail [OF tail, of "dq_dead s" "[]"] by (simp add: list_messages_def)
  show "replay_message env (get_id env m) s = (True, send_to_escrow env m (s\<lparr>dq_dead := r @ u\<rparr>))"
    using replay_loop_tail [OF tail assms(2), of "length r" r] by (simp add: replay_message_def assms(1))
next
  assume head: "de_give_back env = Cons"
  show "list_messages env s = (replicate (length (dq_dead s)) (to_dto env (hd (dq_dead s))), s)"
    using list_loop_head [OF head, of "length (dq_dead s)" "dq_dead s"] by (simp add: list_messages_def)
  assume "u \<noteq> []"
  then have "dq_dead s \<noteq> []" "get_id env (hd (dq_dead s)) \<noteq> get_id env m"
    using assms by (auto simp: hd_append)
  note replay_loop_head [OF head this, of "length (dq_dead s)"]
  then show "\<not> fst (replay_message env (get_id env m) s)" "dq_dead (snd (replay_message env (get_id env m) s)) = dq_dead s"
    by (simp_all add: replay_message_def)
next
  have sent: "dq_dead (fold (send_to_escrow env) q t) = dq_dead t
      \<and> dq_escrow (fold (send_to_escrow env) q t) = dq_escrow t @ map (\<lambda>x. (get_id env x, x)) q" for q t
    by (induction q arbitrary: t) (simp_all add: send_to_escrow_def)
  show "fst (replay_all env s) = length (dq_dead s)" "dq_dead (snd (replay_all env s)) = []"
    "dq_escrow (snd (replay_all env s)) = dq_escrow s @ map (\<lambda>x. (get_id env x, x)) (dq_dead s)"
    by (simp_all add: replay_all_def sent)
qed

definition example_dead :: "string \<Rightarrow> dlq_message" where
  "example_dead i = \<lparr>dm_message_id = Some i, dm_content = ''{}'', dm_deaths = Some [(Some 1, Some ''rejected'')],
     dm_retry_count = None, dm_failure_reason = None\<rparr>"

definition example_dlq :: dlq_state where
  "example_dlq = \<lparr>dq_dead = [example_dead ''m1'', example_dead ''m2''], dq_escrow = [], dq_replays = []\<rparr>"

definition example_dlq_env :: dlq_env where
  "example_dlq_env = \<lparr>de_digest = dm_content, de_give_back = Cons\<rparr>"

theorem dlq_tools_need_requeue_at_end_witness:
  "map ds_id (fst (list_messages example_dlq_env example_dlq)) = [''m1'', ''m1'']
   \<and> \<not> fst (replay_message example_dlq_env ''m2'' example_dlq)"
proof -
  have "dq_dead example_dlq = [example_dead ''m1''] @ example_dead ''m2'' # []"
    "\<forall>x\<in>set [example_dead ''m1'']. get_id example_dlq_env x \<noteq> get_id example_dlq_env (example_dead ''m2'')"
    by (simp_all add: example_dlq_def get_id_def example_dead_def)
  from dlq_tools_need_requeue_at_end [OF this] show ?thesis
    by (simp add: example_dlq_env_def example_dlq_def example_dead_def get_id_def to_dto_def numeral_2_eq_2)
qed

end
