(* ===== verification/QueueProcessor.thy ===== *)
theory QueueProcessor
  imports EscrowConsumer
begin

text \<open>
  \<open>backend/src/queue/queue.processor.ts\<close>: the consumers of the main queue. A message is
  decrypted, a lease is taken under its business key, the work is done, and the message is
  acknowledged, given back or dead-lettered. Stellar, the mail service, the templates and the
  failures of the database are parameters (\<open>processor_env\<close>); \<open>pr_chain\<close> is the log of what
  happened on the Stellar network, which nothing undoes, and the parameters may depend on it.
  Left out: the Soroban campaign that is initialised after a publication, logging, and the text
  of the mails (a mail is its address and subject).
\<close>

subsection \<open>State and parameters\<close>

text \<open>An issue names the asset, the account it is issued to and the amount.\<close>

datatype chain_event =
    AssetIssued string string jsnum
  | PaymentSubmitted string
  | TokensTransferred string string jsnum
  | AccountClosed string string

record email_payload =
  ep_message_id :: "string option"
  ep_user_id :: "string option"
  ep_type :: "string option"
  ep_email :: "string option"
  ep_deal_id :: "string option"
  ep_commodity :: "string option"

record 'r processor_state =
  pr_deals :: "trade_deal list"
  pr_investments :: "investment list"
  pr_users :: "user list"
  pr_redis :: 'r
  pr_chain :: "chain_event list"
  pr_mails :: "(string \<times> string) list"
  pr_pushes :: "(string \<times> string) list"
  pr_stopping :: bool

text \<open>\<open>pe_issue\<close> answers with the transaction, the issuer's public key and its secret.\<close>

record 'r processor_env =
  pe_redis :: "'r redis_ops"
  pe_redis_online :: bool
  pe_decrypt_secret :: "string \<Rightarrow> string + string"
  pe_encrypt_secret :: "string \<Rightarrow> string + string"
  pe_issue :: "string \<Rightarrow> string \<Rightarrow> string \<Rightarrow> jsnum \<Rightarrow> chain_event list \<Rightarrow> string + (string \<times> string \<times> string)"
  pe_submit :: "string \<Rightarrow> chain_event list \<Rightarrow> string + string"
  pe_transfer :: "string \<Rightarrow> investment_fund_payload \<Rightarrow> chain_event list \<Rightarrow> string option"
  pe_close :: "string \<Rightarrow> string \<Rightarrow> string \<Rightarrow> chain_event list \<Rightarrow> string option"
  pe_db_error :: "string option"
  pe_mail_error :: "string \<Rightarrow> string \<Rightarrow> string option"
  pe_subject :: "string \<Rightarrow> email_payload \<Rightarrow> user option \<Rightarrow> string"
  pe_platform_wallet :: "string option"
  pe_platform_secret :: "string option"
  pe_trace_id :: string

type_synonym 'r processing = "'r processor_state \<Rightarrow> settlement \<times> 'r processor_state"

definition default_queue_max_retries :: nat where
  "default_queue_max_retries = 3"

subsection \<open>Shared steps\<close>

definition nack_with_retry_limit :: "nat option list option \<Rightarrow> settlement" where
  "nack_with_retry_limit deaths =
     (if default_queue_max_retries \<le> get_delivery_attempt deaths then DeadLetter else Requeue)"

text \<open>\<open>track\<close> and \<open>unwrap\<close>: a stopping consumer gives the message back, one it cannot decrypt is dead-lettered.\<close>

definition track_message ::
  "'a crypto_env \<Rightarrow> string \<Rightarrow> ('a \<Rightarrow> 'r processing) \<Rightarrow> string \<Rightarrow> 'r processing" where
  "track_message crypto pattern work encrypted s =
     (if pr_stopping s then (Requeue, s)
      else (case decrypt_payload crypto encrypted pattern of
              Inl _ \<Rightarrow> (DeadLetter, s)
            | Inr data \<Rightarrow> work data s))"

definition stop_processor :: "'r processor_state \<Rightarrow> 'r processor_state" where
  "stop_processor s = s\<lparr>pr_stopping := True\<rparr>"

text \<open>The work under the lease of a key; a message whose lease is refused is acknowledged.\<close>

definition under_lease :: "'r processor_env \<Rightarrow> string \<Rightarrow> 'r processing \<Rightarrow> 'r processing" where
  "under_lease env key work s =
     (case acquire_lease (pe_redis env) (pe_redis_online env) key 300 (pr_redis s) of
        (l, r) \<Rightarrow> (let s1 = s\<lparr>pr_redis := r\<rparr> in if \<not> acquired l then (Ack, s1) else work s1))"

definition mark_key :: "'r processor_env \<Rightarrow> string \<Rightarrow> 'r processor_state \<Rightarrow> 'r processor_state" where
  "mark_key env key s = s\<lparr>pr_redis := mark_done (pe_redis env) (pe_redis_online env) key 86400 (pr_redis s)\<rparr>"

definition free_key :: "'r processor_env \<Rightarrow> string \<Rightarrow> 'r processor_state \<Rightarrow> 'r processor_state" where
  "free_key env key s = s\<lparr>pr_redis := release_lease (pe_redis env) (pe_redis_online env) key (pr_redis s)\<rparr>"

definition send_mail :: "'r processor_env \<Rightarrow> string \<Rightarrow> string \<Rightarrow> ('r processor_state, string, unit) handler" where
  "send_mail env address subject s =
     (case pe_mail_error env address subject of
        Some e \<Rightarrow> throw e s
      | None \<Rightarrow> done_with () (s\<lparr>pr_mails := pr_mails s @ [(address, subject)]\<rparr>))"

subsection \<open>deal.publish\<close>

text \<open>The body of the \<open>try\<close>: the asset is issued, then the deal is opened.\<close>

definition publish_body :: "'r processor_env \<Rightarrow> deal_publish_payload \<Rightarrow> ('r processor_state, string, unit) handler" where
  "publish_body env p s =
     (case pe_decrypt_secret env (dp_encrypted_escrow_secret p) of
        Inl e \<Rightarrow> throw e s
      | Inr escrow_secret \<Rightarrow>
     (case pe_issue env (dp_token_symbol p) (dp_escrow_public_key p) escrow_secret (dp_token_count p) (pr_chain s) of
        Inl e \<Rightarrow> throw e s
      | Inr (tx_id, issuer_public, issuer_secret) \<Rightarrow>
          (let s1 = s\<lparr>pr_chain := pr_chain s @ [AssetIssued (dp_token_symbol p) (dp_escrow_public_key p) (dp_token_count p)]\<rparr>
           in case pe_encrypt_secret env issuer_secret of
                Inl e \<Rightarrow> throw e s1
              | Inr encrypted \<Rightarrow>
                  if encrypted = issuer_secret then throw ''Issuer secret encryption failed'' s1
                  else (case pe_db_error env of
                          Some e \<Rightarrow> throw e s1
                        | None \<Rightarrow> done_with ()
                            (s1\<lparr>pr_deals := update_deal (dp_deal_id p)
                                  (\<lambda>d. d\<lparr>td_status := DealOpen, td_app_trace_id := Some (pe_trace_id env),
                                         td_issuer_public_key := Some issuer_public,
                                         td_issuer_secret_key := Some encrypted\<rparr>) (pr_deals s1)\<rparr>)))))"

definition publish_key :: "deal_publish_payload \<Rightarrow> string" where
  "publish_key p = build_key ''deal.publish'' (dp_deal_id p)"

definition process_deal_publish ::
  "'r processor_env \<Rightarrow> nat option list option \<Rightarrow> deal_publish_payload \<Rightarrow> 'r processing" where
  "process_deal_publish env deaths p =
     under_lease env (publish_key p) (\<lambda>s.
       case publish_body env p s of
         (Inr _, s1) \<Rightarrow> (Ack, mark_key env (publish_key p) s1)
       | (Inl _, s1) \<Rightarrow>
           (nack_with_retry_limit deaths,
            free_key env (publish_key p)
              (s1\<lparr>pr_deals := update_deal (dp_deal_id p)
                    (\<lambda>d. d\<lparr>td_status := DealFailed, td_app_trace_id := Some (pe_trace_id env)\<rparr>) (pr_deals s1)\<rparr>)))"

subsection \<open>investment.fund\<close>

definition fund_attempt :: "'r processor_env \<Rightarrow> investment_fund_payload \<Rightarrow> ('r processor_state, string, string) handler" where
  "fund_attempt env p s =
     (case pe_submit env (if_signed_xdr p) (pr_chain s) of
        Inl e \<Rightarrow> throw e s
      | Inr tx_id \<Rightarrow>
          (let s1 = s\<lparr>pr_chain := pr_chain s @ [PaymentSubmitted (if_signed_xdr p)]\<rparr>
           in case pe_decrypt_secret env (if_encrypted_escrow_secret p) of
                Inl e \<Rightarrow> throw e s1
              | Inr secret \<Rightarrow>
             (case pe_transfer env secret p (pr_chain s1) of
                Some e \<Rightarrow> throw e s1
              | None \<Rightarrow>
                  (let s2 = s1\<lparr>pr_chain := pr_chain s1 @
                              [TokensTransferred (if_investor_wallet p) (if_asset_code p) (if_token_amount p)]\<rparr>
                   in case pe_db_error env of
                        Some e \<Rightarrow> throw e s2
                      | None \<Rightarrow> done_with tx_id
                          (s2\<lparr>pr_investments := update_investment (if_investment_id p)
                                (\<lambda>v. v\<lparr>iv_status := InvConfirmed, iv_stellar_tx_id := Some tx_id\<rparr>) (pr_investments s2)\<rparr>)))))"

fun fund_loop :: "'r processor_env \<Rightarrow> investment_fund_payload \<Rightarrow> nat \<Rightarrow> 'r processor_state \<Rightarrow> bool \<times> 'r processor_state" where
  "fund_loop env p 0 s = (False, s)"
| "fund_loop env p (Suc n) s =
     (case fund_attempt env p s of (Inr _, s1) \<Rightarrow> (True, s1) | (Inl _, s1) \<Rightarrow> fund_loop env p n s1)"

definition fund_key :: "investment_fund_payload \<Rightarrow> string" where
  "fund_key p = build_key ''investment.fund'' (if_investment_id p)"

text \<open>The early return for an investment that is not pending keeps the lease.\<close>

definition process_investment_fund :: "'r processor_env \<Rightarrow> investment_fund_payload \<Rightarrow> 'r processing" where
  "process_investment_fund env p =
     under_lease env (fund_key p) (\<lambda>s.
       case find_investment (if_investment_id p) (pr_investments s) of
         None \<Rightarrow> (Ack, s)
       | Some current \<Rightarrow>
           if iv_status current \<noteq> InvPending then (Ack, s)
           else (case fund_loop env p default_queue_max_retries s of
                   (True, s1) \<Rightarrow>
                     (Ack, mark_key env (fund_key p)
                        (s1\<lparr>pr_pushes := pr_pushes s1 @
                              (if iv_investor_id current = [] then [] else [(iv_investor_id current, ''investment.confirmed'')])\<rparr>))
                 | (False, s1) \<Rightarrow>
                     (DeadLetter, free_key env (fund_key p)
                        (s1\<lparr>pr_investments := update_investment (if_investment_id p)
                              (\<lambda>v. v\<lparr>iv_status := InvFailed\<rparr>) (pr_investments s1)\<rparr>))))"

subsection \<open>deal.funded and email.notification\<close>

fun mail_investors ::
  "'r processor_env \<Rightarrow> string \<Rightarrow> (string \<times> jsnum) list \<Rightarrow> ('r processor_state, string, unit) handler" where
  "mail_investors env commodity [] s = done_with () s"
| "mail_investors env commodity ((address, tokens) # investors) s =
     and_then (send_mail env address (''Deal Fully Funded: '' @ commodity))
       (\<lambda>_. mail_investors env commodity investors) s"

definition process_deal_funded :: "'r processor_env \<Rightarrow> deal_funded_payload \<Rightarrow> 'r processing" where
  "process_deal_funded env p =
     (let key = build_key ''deal.funded'' (df_trade_deal_id p)
      in under_lease env key (\<lambda>s.
           case mail_investors env (df_commodity p) (df_investors p) s of
             (Inr _, s1) \<Rightarrow> (Ack, mark_key env key s1)
           | (Inl _, s1) \<Rightarrow> (Ack, free_key env key s1)))"

definition email_templates :: "(string \<times> string) list" where
  "email_templates =
     [(''welcome'', ''welcome''), (''kyc_verified'', ''kyc-approved''), (''kyc_rejected'', ''kyc-rejected''),
      (''investment_confirmed'', ''investment-confirmed''), (''payment_distributed'', ''payment-distributed''),
      (''deal_funded'', ''deal-funded''), (''deal_expired'', ''deal-expired''), (''password_reset'', ''password-reset''),
      (''account_lockout'', ''account-lockout''), (''security_alert_new_device'', ''security-alert''),
      (''co_farmer_invitation'', ''co-farmer-invitation'')]"

text \<open>The subject of a type without template; an empty subject is not sent.\<close>

definition legacy_subject :: "email_payload \<Rightarrow> string" where
  "legacy_subject p =
     (case ep_type p of
        None \<Rightarrow> []
      | Some t \<Rightarrow>
          if t = ''kyc_expiration_30'' then ''KYC Document Expiring in 30 Days''
          else if t = ''kyc_expiration_15'' then ''KYC Document Expiring in 15 Days''
          else if t = ''kyc_expiration_3'' then ''KYC Document Expiring in 3 Days''
          else if t = ''kyc_expired'' then ''KYC Documents Expired''
          else if t = ''deal_completed''
          then ''Deal Completed: '' @ (case ep_commodity p of Some c \<Rightarrow> c | None \<Rightarrow> ''undefined'')
          else [])"

definition email_business_id :: "email_payload \<Rightarrow> string" where
  "email_business_id p =
     (case ep_message_id p of
        Some i \<Rightarrow> i
      | None \<Rightarrow> (case ep_user_id p of Some u \<Rightarrow> u | None \<Rightarrow> ''unknown'') @ ''-'' @
                (case ep_type p of Some t \<Rightarrow> t | None \<Rightarrow> ''unknown''))"

definition email_key :: "email_payload \<Rightarrow> string" where
  "email_key p = build_key ''email.notification'' (email_business_id p)"

definition push_event :: "email_payload \<Rightarrow> string option" where
  "push_event p =
     (if ep_type p = Some ''deal_completed'' \<or> ep_type p = Some ''payment_distributed'' then Some ''escrow.released''
      else if ep_type p = Some ''kyc_verified'' \<or> ep_type p = Some ''kyc_approved'' then Some ''kyc.approved''
      else None)"

definition email_user :: "email_payload \<Rightarrow> 'r processor_state \<Rightarrow> user option" where
  "email_user p s = (if present (ep_user_id p) then find_user (the (ep_user_id p)) (pr_users s) else None)"

definition email_address :: "email_payload \<Rightarrow> 'r processor_state \<Rightarrow> string option" where
  "email_address p s =
     (if present (ep_email p) then ep_email p else map_option us_email (email_user p s))"

definition email_body :: "'r processor_env \<Rightarrow> email_payload \<Rightarrow> ('r processor_state, string, unit) handler" where
  "email_body env p s =
     and_then (\<lambda>s. if \<not> present (email_address p s) then done_with () s
                   else (case Option.bind (ep_type p) (map_of email_templates) of
                           Some template \<Rightarrow> send_mail env (the (email_address p s)) (pe_subject env template p (email_user p s)) s
                         | None \<Rightarrow>
                             if legacy_subject p = [] then done_with () s
                             else send_mail env (the (email_address p s)) (legacy_subject p) s))
       (\<lambda>_ s. done_with ()
          (s\<lparr>pr_pushes := pr_pushes s @
               (if present (ep_user_id p)
                then (case push_event p of None \<Rightarrow> [] | Some ev \<Rightarrow> [(the (ep_user_id p), ev)]) else [])\<rparr>)) s"

definition process_email_notification :: "'r processor_env \<Rightarrow> email_payload \<Rightarrow> 'r processing" where
  "process_email_notification env p =
     under_lease env (email_key p) (\<lambda>s.
       case email_body env p s of
         (Inr _, s1) \<Rightarrow> (Ack, mark_key env (email_key p) s1)
       | (Inl _, s1) \<Rightarrow> (Ack, free_key env (email_key p) s1))"

subsection \<open>deal.cleanup and escrow.release_notify\<close>

text \<open>
  \<open>TradeDealsService.findOne(id)\<close> answers with an object of its own making, here its fields of
  text: called without \<open>canViewSensitive\<close> it holds the public detail only, otherwise the keys too,
  but as \<open>escrow_public_key\<close> and \<open>issuer_public_key\<close>.
\<close>

definition deal_detail :: "bool \<Rightarrow> trade_deal \<Rightarrow> string \<rightharpoonup> string" where
  "deal_detail can_view_sensitive d =
     (let public_detail = [''id'' \<mapsto> td_id d, ''commodity'' \<mapsto> td_commodity d, ''token_symbol'' \<mapsto> td_token_symbol d]
      in if \<not> can_view_sensitive then public_detail
         else public_detail(''farmer_id'' \<mapsto> td_farmer_id d, ''trader_id'' \<mapsto> td_trader_id d,
                ''escrow_public_key'' := td_escrow_public_key d, ''issuer_public_key'' := td_issuer_public_key d))"

definition close_account ::
  "'r processor_env \<Rightarrow> string option \<Rightarrow> string option \<Rightarrow> string \<Rightarrow> 'r processor_state \<Rightarrow> 'r processor_state" where
  "close_account env public_key secret_key wallet s =
     (if \<not> present public_key \<or> \<not> present secret_key then s
      else (case pe_decrypt_secret env (the secret_key) of
              Inl _ \<Rightarrow> s
            | Inr secret \<Rightarrow>
           (case pe_close env (the public_key) secret wallet (pr_chain s) of
              Some _ \<Rightarrow> s
            | None \<Rightarrow> s\<lparr>pr_chain := pr_chain s @ [AccountClosed (the public_key) wallet]\<rparr>)))"

text \<open>\<open>STELLAR_PLATFORM_WALLET\<close>, or else \<open>STELLAR_PLATFORM_SECRET\<close> itself.\<close>

definition cleanup_wallet :: "'r processor_env \<Rightarrow> string" where
  "cleanup_wallet env =
     (case pe_platform_wallet env of
        Some w \<Rightarrow> w
      | None \<Rightarrow> (case pe_platform_secret env of Some k \<Rightarrow> k | None \<Rightarrow> []))"

definition process_deal_cleanup :: "'r processor_env \<Rightarrow> string \<Rightarrow> 'r processing" where
  "process_deal_cleanup env deal_id =
     (let key = build_key ''deal.cleanup'' deal_id
      in under_lease env key (\<lambda>s.
           case find_deal deal_id (pr_deals s) of
             None \<Rightarrow> (Ack, free_key env key s)
           | Some d \<Rightarrow>
               (let deal = deal_detail False d; wallet = cleanup_wallet env
                in if wallet = [] then (Ack, free_key env key s)
                   else (Ack, mark_key env key
                     (close_account env (deal ''issuerPublicKey'') (deal ''issuerSecretKey'') wallet
                       (close_account env (deal ''escrowPublicKey'') (deal ''escrowSecretKey'') wallet s))))))"

text \<open>
  A failure of a mail is logged. The class has no member \<open>queueService\<close>, so that the call after
  the mails, which would enqueue the clean-up, throws; the error is caught and logged too.
\<close>

definition mail_or_log :: "'r processor_env \<Rightarrow> string \<Rightarrow> string \<Rightarrow> 'r processor_state \<Rightarrow> 'r processor_state" where
  "mail_or_log env address subject s = snd (send_mail env address subject s)"

definition process_release_notify :: "'r processor_env \<Rightarrow> string \<Rightarrow> 'r processing" where
  "process_release_notify env deal_id s =
     (case find_deal deal_id (pr_deals s) of
        None \<Rightarrow> (Ack, s)
      | Some d \<Rightarrow>
          if td_status d \<noteq> DealCompleted then (Ack, s)
          else
            (let invs = find_where (\<lambda>v. iv_trade_deal_id v = deal_id \<and> \<not> iv_deleted v) (pr_investments s);
                 address = (\<lambda>i. case find_user i (pr_users s) of Some u \<Rightarrow> us_email u | None \<Rightarrow> []);
                 s1 = mail_or_log env (address (td_farmer_id d)) (''Deal Completed: '' @ td_commodity d) s
             in (Ack, fold (\<lambda>v. if address (iv_investor_id v) = [] then (\<lambda>t. t)
                                else mail_or_log env (address (iv_investor_id v)) (''Investment Completed: '' @ td_commodity d))
                        invs s1)))"

subsection \<open>The handlers\<close>

definition handle_deal_publish ::
  "deal_publish_payload crypto_env \<Rightarrow> 'r processor_env \<Rightarrow> nat option list option \<Rightarrow> string \<Rightarrow> 'r processing" where
  "handle_deal_publish crypto env deaths = track_message crypto ''deal.publish'' (process_deal_publish env deaths)"

definition handle_investment_fund ::
  "investment_fund_payload crypto_env \<Rightarrow> 'r processor_env \<Rightarrow> string \<Rightarrow> 'r processing" where
  "handle_investment_fund crypto env = track_message crypto ''investment.fund'' (process_investment_fund env)"

definition handle_deal_funded ::
  "deal_funded_payload crypto_env \<Rightarrow> 'r processor_env \<Rightarrow> string \<Rightarrow> 'r processing" where
  "handle_deal_funded crypto env = track_message crypto ''deal.funded'' (process_deal_funded env)"

definition handle_email_notification ::
  "email_payload crypto_env \<Rightarrow> 'r processor_env \<Rightarrow> string \<Rightarrow> 'r processing" where
  "handle_email_notification crypto env = track_message crypto ''email.notification'' (process_email_notification env)"

definition handle_deal_cleanup :: "string crypto_env \<Rightarrow> 'r processor_env \<Rightarrow> string \<Rightarrow> 'r processing" where
  "handle_deal_cleanup crypto env = track_message crypto ''deal.cleanup'' (process_deal_cleanup env)"

text \<open>This handler is not tracked: it works on while the consumer stops.\<close>

definition handle_escrow_release_notify :: "string crypto_env \<Rightarrow> 'r processor_env \<Rightarrow> string \<Rightarrow> 'r processing" where
  "handle_escrow_release_notify crypto env encrypted s =
     (case decrypt_payload crypto encrypted ''escrow.release_notify'' of
        Inl _ \<Rightarrow> (DeadLetter, s)
      | Inr deal_id \<Rightarrow> process_release_notify env deal_id s)"

subsection \<open>What the lease leaves\<close>

definition kv_processor :: "kv_store processor_env \<Rightarrow> bool" where
  "kv_processor env \<longleftrightarrow> pe_redis env = kv_ops \<and> pe_redis_online env"

lemma under_lease_free:
  assumes "kv_processor env" "kv_get key (pr_redis s) = None"
  shows "under_lease env key work s = work (s\<lparr>pr_redis := kv_set key ''processing'' 300 (pr_redis s)\<rparr>)"
  using assms by (simp add: under_lease_def kv_processor_def acquire_defs kv_ops_def kv_set_nx_def)

lemma under_lease_taken:
  assumes "kv_processor env" "kv_get key (pr_redis s) = Some v" "v = ''processing'' \<or> v = ''done''"
  shows "under_lease env key work s = (Ack, s)"
  using assms by (auto simp: under_lease_def kv_processor_def acquire_defs kv_ops_def)

lemma mark_key_marks:
  "kv_processor env \<Longrightarrow> kv_get key (pr_redis (mark_key env key s)) = Some ''done''"
  by (simp add: mark_key_def kv_processor_def mark_done_def kv_ops_def kv_get_set)

lemma free_key_frees:
  "kv_processor env \<Longrightarrow> kv_get key (pr_redis s) = Some ''processing'' \<Longrightarrow> kv_get key (pr_redis (free_key env key s)) = None"
  by (simp add: free_key_def kv_processor_def release_lease_def kv_ops_def kv_get_def kv_del_def)

lemma key_fields [simp]:
  "pr_deals (mark_key env k s) = pr_deals s" "pr_investments (mark_key env k s) = pr_investments s"
  "pr_chain (mark_key env k s) = pr_chain s" "pr_mails (mark_key env k s) = pr_mails s"
  "pr_users (mark_key env k s) = pr_users s" "pr_pushes (mark_key env k s) = pr_pushes s"
  "pr_deals (free_key env k s) = pr_deals s" "pr_investments (free_key env k s) = pr_investments s"
  "pr_chain (free_key env k s) = pr_chain s" "pr_mails (free_key env k s) = pr_mails s"
  "pr_users (free_key env k s) = pr_users s" "pr_pushes (free_key env k s) = pr_pushes s"
  by (simp_all add: mark_key_def free_key_def)

lemma send_mail_redis: "pr_redis (snd (send_mail env a t s)) = pr_redis s"
  by (simp add: send_mail_def split: option.split)

subsection \<open>Properties\<close>

text \<open>A deal, a pending investment and a network that never transfers tokens, for the applications.\<close>

definition example_processor :: "string option \<Rightarrow> kv_store processor_env" where
  "example_processor db_error =
     \<lparr>pe_redis = kv_ops, pe_redis_online = True, pe_decrypt_secret = Inr, pe_encrypt_secret = (\<lambda>k. Inr (CHR ''x'' # k)),
      pe_issue = (\<lambda>_ _ _ _ _. Inr (''tx'', ''P'', ''S'')), pe_submit = (\<lambda>_ _. Inr ''h''),
      pe_transfer = (\<lambda>_ _ _. Some ''no trustline''), pe_close = (\<lambda>_ _ _ _. None), pe_db_error = db_error,
      pe_mail_error = (\<lambda>_ _. None), pe_subject = (\<lambda>t _ _. t), pe_platform_wallet = Some ''W'',
      pe_platform_secret = None, pe_trace_id = ''app''\<rparr>"

definition example_processor_state :: "kv_store processor_state" where
  "example_processor_state =
     \<lparr>pr_deals = [sample_deal], pr_investments = [sample_investment\<lparr>iv_status := InvPending\<rparr>],
      pr_users = [sample_user ''f1''], pr_redis = \<lparr>entries = Map.empty, clock = 0\<rparr>, pr_chain = [], pr_mails = [],
      pr_pushes = [], pr_stopping = False\<rparr>"

definition example_fund :: investment_fund_payload where
  "example_fund = \<lparr>if_investment_id = ''v1'', if_signed_xdr = ''XDR'', if_escrow_public_key = ''E'',
     if_encrypted_escrow_secret = ''K'', if_asset_code = ''COC'', if_token_amount = 10, if_investor_wallet = ''G'',
     if_amount_usd = 1000\<rparr>"

definition example_publish :: deal_publish_payload where
  "example_publish = \<lparr>dp_deal_id = ''d1'', dp_token_symbol = ''COC'', dp_escrow_public_key = ''E'',
     dp_encrypted_escrow_secret = ''K'', dp_token_count = 20\<rparr>"

definition example_mail :: "string \<Rightarrow> email_payload" where
  "example_mail deal = \<lparr>ep_message_id = None, ep_user_id = Some ''f1'', ep_type = Some ''deal_completed'', ep_email = None,
     ep_deal_id = Some deal, ep_commodity = Some ''Cocoa''\<rparr>"

lemma example_processor_facts:
  "kv_processor (example_processor e)" "kv_get k (pr_redis example_processor_state) = None"
  "find_investment ''v1'' (pr_investments example_processor_state) = Some (sample_investment\<lparr>iv_status := InvPending\<rparr>)"
  by (simp_all add: kv_processor_def example_processor_def example_processor_state_def kv_get_def find_investment_def
      find_one_def sample_investment_def)

text \<open>
  The clean-up closes no account. The detail the trade deal service answers with has no
  field of the names the consumer reads, so that nothing is sent to Stellar, for any deal and
  any answers of the network; the message is acknowledged, and with a wallet configured the
  clean-up is marked done.
\<close>

theorem cleanup_closes_nothing:
  "fst (process_deal_cleanup env deal_id s) = Ack \<and> pr_chain (snd (process_deal_cleanup env deal_id s)) = pr_chain s"
  by (simp add: process_deal_cleanup_def Let_def under_lease_def deal_detail_def close_account_def
      split: option.split prod.split)

text \<open>
  A user gets one mail of a type a day. The completion mails carry no message identifier, so
  that their key is made of user and type alone; after one was sent, the mail of any other deal
  is acknowledged as a duplicate and nothing is sent.
\<close>

theorem second_mail_of_a_type_is_dropped:
  assumes "kv_processor env" "kv_get (email_key p) (pr_redis s) = None"
    and "ep_message_id p = None" "ep_message_id q = None" "ep_user_id q = ep_user_id p" "ep_type q = ep_type p"
    and "process_email_notification env p s = (a, s')" "fst (email_body env p s) = Inr ()"
  shows "a = Ack \<and> process_email_notification env q s' = (Ack, s')"
proof -
  have key: "email_key q = email_key p" using assms(3-6) by (simp add: email_key_def email_business_id_def)
  have same: "fst (email_body env p (s\<lparr>pr_redis := r\<rparr>)) = fst (email_body env p s)" for r
    by (simp add: email_body_def and_then_def send_mail_def email_address_def email_user_def split: option.split)
  obtain t where t: "email_body env p (s\<lparr>pr_redis := kv_set (email_key p) ''processing'' 300 (pr_redis s)\<rparr>) = (Inr (), t)"
    using same [of "kv_set (email_key p) ''processing'' 300 (pr_redis s)"] assms(8) by (metis prod.collapse)
  then have run: "a = Ack" "s' = mark_key env (email_key p) t"
    using assms(7) by (simp_all add: process_email_notification_def under_lease_free [OF assms(1,2)])
  have "kv_get (email_key q) (pr_redis s') = Some ''done''" by (simp add: run key mark_key_marks [OF assms(1)])
  from under_lease_taken [OF assms(1) this] run(1) show ?thesis by (simp add: process_email_notification_def)
qed

theorem second_mail_of_a_type_is_dropped_witness:
  "\<exists>s'. process_email_notification (example_processor None) (example_mail ''d1'') example_processor_state = (Ack, s')
     \<and> pr_mails s' = [(''e'', ''Deal Completed: Cocoa'')]
     \<and> process_email_notification (example_processor None) (example_mail ''d2'') s' = (Ack, s')"
proof -
  let ?s0 = "example_processor_state\<lparr>pr_redis := kv_set (email_key (example_mail ''d1'')) ''processing'' 300
               (pr_redis example_processor_state)\<rparr>"
  have body: "email_body (example_processor None) (example_mail ''d1'') (example_processor_state\<lparr>pr_redis := r\<rparr>)
      = (Inr (), example_processor_state\<lparr>pr_redis := r, pr_mails := [(''e'', ''Deal Completed: Cocoa'')],
           pr_pushes := [(''f1'', ''escrow.released'')]\<rparr>)" for r
    by (simp add: email_body_def and_then_def email_address_def email_user_def example_mail_def example_processor_state_def
        find_user_def find_one_def sample_user_def email_templates_def legacy_subject_def send_mail_def
        example_processor_def push_event_def)
  have "fst (email_body (example_processor None) (example_mail ''d1'') example_processor_state) = Inr ()"
    using body [of "pr_redis example_processor_state"] by simp
  moreover obtain a s' where run: "process_email_notification (example_processor None) (example_mail ''d1'') example_processor_state = (a, s')"
    by fastforce
  moreover have "pr_mails s' = [(''e'', ''Deal Completed: Cocoa'')]"
    using run by (auto simp: process_email_notification_def under_lease_free [OF example_processor_facts(1,2)] body)
  ultimately show ?thesis
    using second_mail_of_a_type_is_dropped [OF example_processor_facts(1,2), of "example_mail ''d1''" "example_mail ''d2''"]
    by (auto simp: example_mail_def)
qed

lemma fund_attempt_result:
  assumes "fund_attempt env p s = (r, s')"
  shows "pr_deals s' = pr_deals s \<and> pr_redis s' = pr_redis s
     \<and> (\<exists>ws. pr_chain s' = pr_chain s @ ws \<and> count_list ws (PaymentSubmitted (if_signed_xdr p)) \<le> 1)
     \<and> (case r of
          Inl _ \<Rightarrow> pr_investments s' = pr_investments s
        | Inr tx \<Rightarrow> pr_investments s' = update_investment (if_investment_id p)
                      (\<lambda>v. v\<lparr>iv_status := InvConfirmed, iv_stellar_tx_id := Some tx\<rparr>) (pr_investments s)
                  \<and> (\<exists>ws. pr_chain s' = ws @ [PaymentSubmitted (if_signed_xdr p),
                        TokensTransferred (if_investor_wallet p) (if_asset_code p) (if_token_amount p)]))"
  using assms by (auto simp: fund_attempt_def Let_def split: sum.splits option.splits)

lemma fund_loop_result:
  assumes "fund_loop env p n s = (ok, s')"
  shows "pr_deals s' = pr_deals s \<and> pr_redis s' = pr_redis s
     \<and> (\<exists>ws. pr_chain s' = pr_chain s @ ws \<and> count_list ws (PaymentSubmitted (if_signed_xdr p)) \<le> n)
     \<and> (if ok then (\<exists>tx. pr_investments s' = update_investment (if_investment_id p)
                      (\<lambda>v. v\<lparr>iv_status := InvConfirmed, iv_stellar_tx_id := Some tx\<rparr>) (pr_investments s))
                  \<and> (\<exists>ws. pr_chain s' = ws @ [PaymentSubmitted (if_signed_xdr p),
                        TokensTransferred (if_investor_wallet p) (if_asset_code p) (if_token_amount p)])
        else pr_investments s' = pr_investments s)"
  using assms
proof (induction n arbitrary: s)
  case (Suc n)
  obtain r s1 where one: "fund_attempt env p s = (r, s1)" by fastforce
  note first = fund_attempt_result [OF one]
  show ?case
  proof (cases r)
    case (Inr tx)
    then show ?thesis using Suc.prems one first by (fastforce simp: le_Suc_eq)
  next
    case (Inl e)
    then have rest: "fund_loop env p n s1 = (ok, s')" using Suc.prems one by simp
    from first obtain ws where ws: "pr_chain s1 = pr_chain s @ ws" "count_list ws (PaymentSubmitted (if_signed_xdr p)) \<le> 1" by blast
    from Suc.IH [OF rest] obtain us where us: "pr_chain s' = pr_chain s1 @ us" "count_list us (PaymentSubmitted (if_signed_xdr p)) \<le> n"
      by blast
    have "pr_chain s' = pr_chain s @ ws @ us" "count_list (ws @ us) (PaymentSubmitted (if_signed_xdr p)) \<le> Suc n"
      using ws us by simp_all
    then show ?thesis using Suc.IH [OF rest] first Inl by (auto split: if_splits)
  qed
qed simp

text \<open>
  What the funding of an investment does. Nothing on the network and no row changes unless
  the investment is pending; then the signed transaction is submitted at most three times, and
  either the tokens are transferred last and the investment is confirmed, or it is failed and
  the message dead-lettered. The deal is not touched in any case: its total invested is not
  increased.
\<close>

theorem investment_fund_outcomes:
  assumes "kv_processor env" "kv_get (fund_key p) (pr_redis s) = None"
    and "find_investment (if_investment_id p) (pr_investments s) = Some v"
    and "process_investment_fund env p s = (a, s')"
  shows "pr_deals s' = pr_deals s
     \<and> (iv_status v \<noteq> InvPending \<longrightarrow> a = Ack \<and> pr_chain s' = pr_chain s \<and> pr_investments s' = pr_investments s)
     \<and> (iv_status v = InvPending \<longrightarrow>
          (\<exists>ws. pr_chain s' = pr_chain s @ ws \<and> count_list ws (PaymentSubmitted (if_signed_xdr p)) \<le> 3)
        \<and> (a = Ack
            \<and> (\<exists>tx. find_investment (if_investment_id p) (pr_investments s')
                  = Some (v\<lparr>iv_status := InvConfirmed, iv_stellar_tx_id := Some tx\<rparr>))
            \<and> (\<exists>ws. pr_chain s' = ws @ [PaymentSubmitted (if_signed_xdr p),
                  TokensTransferred (if_investor_wallet p) (if_asset_code p) (if_token_amount p)])
          \<or> a = DeadLetter
            \<and> find_investment (if_investment_id p) (pr_investments s') = Some (v\<lparr>iv_status := InvFailed\<rparr>)))"
proof -
  let ?s0 = "s\<lparr>pr_redis := kv_set (fund_key p) ''processing'' 300 (pr_redis s)\<rparr>"
  obtain ok s1 where loop: "fund_loop env p 3 ?s0 = (ok, s1)" by fastforce
  note result = fund_loop_result [OF loop]
  have id: "iv_id v = if_investment_id p" using find_investmentD [OF assms(3)] by blast
  show ?thesis
  proof (cases "iv_status v = InvPending")
    case False
    then show ?thesis
      using assms(3,4) by (auto simp: process_investment_fund_def under_lease_free [OF assms(1,2)])
  next
    case True
    have chain: "\<exists>ws. pr_chain s1 = pr_chain s @ ws \<and> count_list ws (PaymentSubmitted (if_signed_xdr p)) \<le> 3"
      and deals: "pr_deals s1 = pr_deals s" using result by auto
    have run: "process_investment_fund env p s = (if ok then (Ack, mark_key env (fund_key p)
          (s1\<lparr>pr_pushes := pr_pushes s1 @ (if iv_investor_id v = [] then [] else [(iv_investor_id v, ''investment.confirmed'')])\<rparr>))
        else (DeadLetter, free_key env (fund_key p)
          (s1\<lparr>pr_investments := update_investment (if_investment_id p) (\<lambda>v. v\<lparr>iv_status := InvFailed\<rparr>) (pr_investments s1)\<rparr>)))"
      using True assms(3) loop by (simp add: process_investment_fund_def under_lease_free [OF assms(1,2)] default_queue_max_retries_def)
    show ?thesis
    proof (cases ok)
      case False
      then show ?thesis using True run assms(3,4) chain deals result id by (simp add: find_investment_update)
    next
      case ok: True
      then obtain tx where tx: "pr_investments s1 = update_investment (if_investment_id p)
          (\<lambda>v. v\<lparr>iv_status := InvConfirmed, iv_stellar_tx_id := Some tx\<rparr>) (pr_investments s)" using result by auto
      have last: "\<exists>ws. pr_chain s1 = ws @ [PaymentSubmitted (if_signed_xdr p),
          TokensTransferred (if_investor_wallet p) (if_asset_code p) (if_token_amount p)]" using result ok by auto
      have found: "\<exists>tx. find_investment (if_investment_id p) (pr_investments s1) = Some (v\<lparr>iv_status := InvConfirmed, iv_stellar_tx_id := Some tx\<rparr>)"
        using assms(3) id by (intro exI [of _ tx]) (simp add: tx find_investment_update)
      show ?thesis using True run assms(4) ok chain deals last found by (simp only: if_True prod.inject) (simp add: HOL.conj_assoc)
    qed
  qed
qed

theorem investment_fund_outcomes_witness:
  "find_investment ''v1'' (pr_investments (snd (process_investment_fund (example_processor None) example_fund example_processor_state)))
     = Some (sample_investment\<lparr>iv_status := InvFailed\<rparr>)
   \<or> fst (process_investment_fund (example_processor None) example_fund example_processor_state) = Ack"
proof -
  have id: "if_investment_id example_fund = ''v1''" by (simp add: example_fund_def)
  obtain a s' where "process_investment_fund (example_processor None) example_fund example_processor_state = (a, s')" by fastforce
  from investment_fund_outcomes [OF example_processor_facts(1,2) _ this] show ?thesis
    using \<open>process_investment_fund _ _ _ = (a, s')\<close> by (auto simp: id example_processor_facts(3))
qed

text \<open>
  An investor can pay and end with a failed investment. When the payment is submitted and
  every transfer of the tokens fails, the investment is marked failed and the message is
  dead-lettered, while the payment stays on the network.
\<close>

theorem paid_investment_marked_failed:
  assumes "kv_processor env" "kv_get (fund_key p) (pr_redis s) = None"
    and "find_investment (if_investment_id p) (pr_investments s) = Some v" "iv_status v = InvPending"
    and "pe_submit env (if_signed_xdr p) (pr_chain s) = Inr tx" "pe_decrypt_secret env (if_encrypted_escrow_secret p) = Inr secret"
    and "\<And>chain. pe_transfer env secret p chain \<noteq> None"
  shows "\<exists>s' ws. process_investment_fund env p s = (DeadLetter, s')
     \<and> find_investment (if_investment_id p) (pr_investments s') = Some (v\<lparr>iv_status := InvFailed\<rparr>)
     \<and> pr_chain s' = pr_chain s @ PaymentSubmitted (if_signed_xdr p) # ws
     \<and> (\<forall>w c n. TokensTransferred w c n \<notin> set ws)"
proof -
  have fails: "\<exists>e ws. fund_attempt env p t = (Inl e, t\<lparr>pr_chain := pr_chain t @ ws\<rparr>) \<and> (\<forall>w c n. TokensTransferred w c n \<notin> set ws)
      \<and> (isl (pe_submit env (if_signed_xdr p) (pr_chain t)) \<longrightarrow> ws = [])
      \<and> (\<not> isl (pe_submit env (if_signed_xdr p) (pr_chain t)) \<longrightarrow> ws = [PaymentSubmitted (if_signed_xdr p)])" for t
  proof -
    obtain e where "pe_transfer env secret p (pr_chain t @ [PaymentSubmitted (if_signed_xdr p)]) = Some e"
      using assms(7) by fastforce
    then show ?thesis by (cases "pe_submit env (if_signed_xdr p) (pr_chain t)") (auto simp: fund_attempt_def Let_def assms(6))
  qed
  have loop: "\<exists>ws. fund_loop env p n t = (False, t\<lparr>pr_chain := pr_chain t @ ws\<rparr>) \<and> (\<forall>w c k. TokensTransferred w c k \<notin> set ws)" for n t
  proof (induction n arbitrary: t)
    case 0
    show ?case by (intro exI [of _ "[]"]) simp
  next
    case (Suc n)
    obtain e us where us: "fund_attempt env p t = (Inl e, t\<lparr>pr_chain := pr_chain t @ us\<rparr>)" "\<forall>w c k. TokensTransferred w c k \<notin> set us"
      using fails [of t] by blast
    from Suc.IH [of "t\<lparr>pr_chain := pr_chain t @ us\<rparr>"] obtain ws where
      "fund_loop env p n (t\<lparr>pr_chain := pr_chain t @ us\<rparr>) = (False, t\<lparr>pr_chain := pr_chain t @ us @ ws\<rparr>)"
      "\<forall>w c k. TokensTransferred w c k \<notin> set ws" by auto
    then show ?case using us by (intro exI [of _ "us @ ws"]) auto
  qed
  let ?s0 = "s\<lparr>pr_redis := kv_set (fund_key p) ''processing'' 300 (pr_redis s)\<rparr>"
  obtain e where first: "fund_attempt env p ?s0 = (Inl e, ?s0\<lparr>pr_chain := pr_chain s @ [PaymentSubmitted (if_signed_xdr p)]\<rparr>)"
    using fails [of ?s0] assms(5) by auto
  obtain ws where ws: "fund_loop env p 2 (?s0\<lparr>pr_chain := pr_chain s @ [PaymentSubmitted (if_signed_xdr p)]\<rparr>)
      = (False, ?s0\<lparr>pr_chain := pr_chain s @ PaymentSubmitted (if_signed_xdr p) # ws\<rparr>)" "\<forall>w c k. TokensTransferred w c k \<notin> set ws"
    using loop [of 2 "?s0\<lparr>pr_chain := pr_chain s @ [PaymentSubmitted (if_signed_xdr p)]\<rparr>"] by auto
  have "fund_loop env p 3 ?s0 = (False, ?s0\<lparr>pr_chain := pr_chain s @ PaymentSubmitted (if_signed_xdr p) # ws\<rparr>)"
    using first ws(1) by (simp add: numeral_3_eq_3 numeral_2_eq_2)
  then show ?thesis
    using assms(3,4) ws(2) find_investmentD [OF assms(3)]
    by (intro exI [of _ "snd (process_investment_fund env p s)"] exI [of _ ws])
      (simp add: process_investment_fund_def under_lease_free [OF assms(1,2)] default_queue_max_retries_def find_investment_update)
qed

theorem paid_investment_marked_failed_witness:
  "\<exists>s' ws. process_investment_fund (example_processor None) example_fund example_processor_state = (DeadLetter, s')
     \<and> find_investment ''v1'' (pr_investments s') = Some (sample_investment\<lparr>iv_status := InvFailed\<rparr>) \<and> pr_chain s' = PaymentSubmitted ''XDR'' # ws"
proof -
  have p: "if_investment_id example_fund = ''v1''" "if_signed_xdr example_fund = ''XDR''" by (simp_all add: example_fund_def)
  have found: "find_investment (if_investment_id example_fund) (pr_investments example_processor_state)
      = Some (sample_investment\<lparr>iv_status := InvPending\<rparr>)" by (simp add: p example_processor_facts(3))
  have net: "pe_submit (example_processor None) (if_signed_xdr example_fund) (pr_chain example_processor_state) = Inr ''h''"
    "pe_decrypt_secret (example_processor None) (if_encrypted_escrow_secret example_fund) = Inr (if_encrypted_escrow_secret example_fund)"
    "\<And>chain. pe_transfer (example_processor None) (if_encrypted_escrow_secret example_fund) example_fund chain \<noteq> None"
    by (simp_all add: example_processor_def)
  have "iv_status (sample_investment\<lparr>iv_status := InvPending\<rparr>) = InvPending" by simp
  from paid_investment_marked_failed [OF example_processor_facts(1,2) found this net] obtain s' ws where
    run: "process_investment_fund (example_processor None) example_fund example_processor_state = (DeadLetter, s')"
    and inv: "find_investment (if_investment_id example_fund) (pr_investments s') = Some (sample_investment\<lparr>iv_status := InvFailed\<rparr>)"
    and chain: "pr_chain s' = pr_chain example_processor_state @ PaymentSubmitted (if_signed_xdr example_fund) # ws" by auto
  then show ?thesis using run by (auto simp: p example_processor_state_def)
qed

text \<open>
  A deal whose update fails after the asset was issued issues it again. The failure marks
  the deal failed, frees the lease and gives the message back; its next delivery does not look
  at the status or the keys of the deal and issues the asset a second time.
\<close>

theorem failed_publish_issues_again:
  assumes "kv_processor env" "kv_get (publish_key p) (pr_redis s) = None" "pe_db_error env = Some e"
    and "pe_decrypt_secret env (dp_encrypted_escrow_secret p) = Inr secret"
    and "\<And>chain. pe_issue env (dp_token_symbol p) (dp_escrow_public_key p) secret (dp_token_count p) chain = Inr (tx, pub, sec)"
    and "pe_encrypt_secret env sec = Inr enc" "enc \<noteq> sec"
  shows "\<exists>s1 s2. process_deal_publish env None p s = (Requeue, s1)
     \<and> process_deal_publish (env\<lparr>pe_db_error := None\<rparr>) None p s1 = (Ack, s2)
     \<and> pr_chain s2 = pr_chain s @
           [AssetIssued (dp_token_symbol p) (dp_escrow_public_key p) (dp_token_count p), AssetIssued (dp_token_symbol p) (dp_escrow_public_key p) (dp_token_count p)]"
proof -
  let ?s0 = "s\<lparr>pr_redis := kv_set (publish_key p) ''processing'' 300 (pr_redis s)\<rparr>"
  let ?fail = "\<lambda>d. d\<lparr>td_status := DealFailed, td_app_trace_id := Some (pe_trace_id env)\<rparr>"
  let ?s1 = "free_key env (publish_key p) (?s0\<lparr>pr_chain := pr_chain s @ [AssetIssued (dp_token_symbol p) (dp_escrow_public_key p) (dp_token_count p)],
      pr_deals := update_deal (dp_deal_id p) ?fail (pr_deals s)\<rparr>)"
  have first: "process_deal_publish env None p s = (Requeue, ?s1)"
    using assms(3-7) by (simp add: process_deal_publish_def under_lease_free [OF assms(1,2)] publish_body_def Let_def
        nack_with_retry_limit_def get_delivery_attempt_def default_queue_max_retries_def)
  have "kv_get (publish_key p) (pr_redis ?s1) = None"
    by (rule free_key_frees [OF assms(1)]) (simp add: kv_get_set)
  moreover have "kv_processor (env\<lparr>pe_db_error := None\<rparr>)" using assms(1) by (simp add: kv_processor_def)
  ultimately have "fst (process_deal_publish (env\<lparr>pe_db_error := None\<rparr>) None p ?s1) = Ack"
    "pr_chain (snd (process_deal_publish (env\<lparr>pe_db_error := None\<rparr>) None p ?s1)) =
       pr_chain s @ [AssetIssued (dp_token_symbol p) (dp_escrow_public_key p) (dp_token_count p), AssetIssued (dp_token_symbol p) (dp_escrow_public_key p) (dp_token_count p)]"
    using assms(3-7) by (simp_all add: process_deal_publish_def under_lease_free publish_body_def Let_def)
  with first show ?thesis by (metis prod.collapse)
qed

theorem failed_publish_issues_again_witness:
  "\<exists>s1 s2. process_deal_publish (example_processor (Some ''timeout'')) None example_publish example_processor_state = (Requeue, s1)
     \<and> process_deal_publish ((example_processor (Some ''timeout''))\<lparr>pe_db_error := None\<rparr>) None example_publish s1 = (Ack, s2)
     \<and> pr_chain s2 = [AssetIssued ''COC'' ''E'' 20, AssetIssued ''COC'' ''E'' 20]"
proof -
  have net: "pe_db_error (example_processor (Some ''timeout'')) = Some ''timeout''"
    "pe_decrypt_secret (example_processor (Some ''timeout'')) (dp_encrypted_escrow_secret example_publish) = Inr ''K''"
    "\<And>chain. pe_issue (example_processor (Some ''timeout'')) (dp_token_symbol example_publish)
       (dp_escrow_public_key example_publish) ''K'' (dp_token_count example_publish) chain = Inr (''tx'', ''P'', ''S'')"
    "pe_encrypt_secret (example_processor (Some ''timeout'')) ''S'' = Inr ''xS''" "''xS'' \<noteq> ''S''"
    by (simp_all add: example_processor_def example_publish_def)
  from failed_publish_issues_again [OF example_processor_facts(1,2) net] show ?thesis
    by (simp add: example_publish_def example_processor_state_def)
qed

end
