(* ===== verification/Settlement.thy ===== *)
theory Settlement
  imports Escrow
begin

text \<open>
  \<open>backend/src/settlement/settlement.service.ts\<close>: the settlement of a campaign on the contract when a
  harvest document is approved. The contract, the configuration, the mail service and the
  failure of the write that follows the call are parameters; the texts of the mails are reduced
  to recipient and reason, and the columns keep the numbers they are given.
\<close>

subsection \<open>Rows\<close>

datatype settlement_status = SettlementPending | Settling | Settled | SettlementFailed

record harvest_deal = trade_deal +
  hd_quantity :: jsnum
  hd_settlement_status :: settlement_status
  hd_settlement_tx_hash :: "string option"
  hd_harvest_amount :: "jsnum option"
  hd_quality_grade :: "jsnum option"
  hd_settled_at :: "int option"

text \<open>The two fields of the metadata are \<open>None\<close> when they are missing or null.\<close>

record deal_document =
  dd_id :: string
  dd_trade_deal_id :: string
  dd_type :: string
  dd_signature_verified :: bool
  dd_harvest_amount :: "jsnum option"
  dd_quality_grade :: "jsnum option"

record settlement_state =
  sm_deals :: "harvest_deal list"
  sm_calls :: "(string \<times> jsnum \<times> jsnum) list"
  sm_mails :: "(string \<times> string) list"

record settlement_env =
  sv_contract :: "string option"
  sv_settle :: "string \<Rightarrow> string \<Rightarrow> jsnum \<Rightarrow> jsnum \<Rightarrow> string + string"
  sv_save_error :: "string option"
  sv_mail_error :: "string option"
  sv_admin_email :: string
  sv_now :: int

type_synonym 'a settlement_handler = "(settlement_state, http_error, 'a) handler"

definition harvest_doc_types :: "string list" where
  "harvest_doc_types = [''harvest_completion'', ''warehouse_receipt'']"

definition find_harvest_deal :: "string \<Rightarrow> harvest_deal list \<Rightarrow> harvest_deal option" where
  "find_harvest_deal i deals = find_one (\<lambda>d. td_id d = i \<and> \<not> td_deleted d) deals"

definition save_harvest_deal :: "harvest_deal \<Rightarrow> settlement_state \<Rightarrow> settlement_state" where
  "save_harvest_deal d s = s\<lparr>sm_deals := update_where (\<lambda>r. td_id r = td_id d) (\<lambda>_. d) (sm_deals s)\<rparr>"

subsection \<open>Operations\<close>

definition extract_harvest_amount :: "deal_document option \<Rightarrow> harvest_deal \<Rightarrow> jsnum" where
  "extract_harvest_amount doc d =
     (case Option.bind doc dd_harvest_amount of Some n \<Rightarrow> n | None \<Rightarrow> hd_quantity d)"

definition extract_quality_grade :: "deal_document option \<Rightarrow> jsnum" where
  "extract_quality_grade doc = (case Option.bind doc dd_quality_grade of Some n \<Rightarrow> n | None \<Rightarrow> 100)"

definition mark_settlement_failed :: "settlement_env \<Rightarrow> harvest_deal \<Rightarrow> string \<Rightarrow> harvest_deal settlement_handler" where
  "mark_settlement_failed env d reason s =
     (let d' = d\<lparr>hd_settlement_status := SettlementFailed\<rparr>;
          s1 = save_harvest_deal d' s
      in case sv_mail_error env of
           Some e \<Rightarrow> throw (Internal e) s1
         | None \<Rightarrow> done_with d' (s1\<lparr>sm_mails := sm_mails s1 @ [(sv_admin_email env, reason)]\<rparr>))"

text \<open>The \<open>catch\<close> block: the failure is recorded on the object as it is then, and thrown again.\<close>

definition fail_settlement :: "settlement_env \<Rightarrow> harvest_deal \<Rightarrow> string \<Rightarrow> harvest_deal settlement_handler" where
  "fail_settlement env d reason =
     and_then (mark_settlement_failed env d reason) (\<lambda>_. throw (Internal reason))"

definition settled_deal :: "settlement_env \<Rightarrow> string \<Rightarrow> jsnum \<Rightarrow> jsnum \<Rightarrow> harvest_deal \<Rightarrow> harvest_deal" where
  "settled_deal env tx amount grade d =
     d\<lparr>hd_settlement_status := Settled, hd_settlement_tx_hash := Some tx, hd_harvest_amount := Some amount,
       hd_quality_grade := Some grade, hd_settled_at := Some (sv_now env), td_status := DealCompleted\<rparr>"

definition settle_campaign :: "settlement_env \<Rightarrow> harvest_deal \<Rightarrow> deal_document option \<Rightarrow> harvest_deal settlement_handler" where
  "settle_campaign env d doc s =
     (if hd_settlement_status d = Settled then done_with d s
      else if \<not> present (sv_contract env)
      then mark_settlement_failed env d ''Settlement contract not configured'' s
      else
        let d1 = d\<lparr>hd_settlement_status := Settling\<rparr>;
            s1 = save_harvest_deal d1 s;
            amount = extract_harvest_amount doc d1;
            grade = extract_quality_grade doc
        in case sv_settle env (the (sv_contract env)) (td_id d1) amount grade of
             Inl e \<Rightarrow> fail_settlement env d1 e s1
           | Inr tx \<Rightarrow>
               let s2 = s1\<lparr>sm_calls := sm_calls s1 @ [(td_id d1, amount, grade)]\<rparr>;
                   d2 = settled_deal env tx amount grade d1
               in case sv_save_error env of
                    Some e \<Rightarrow> fail_settlement env d2 e s2
                  | None \<Rightarrow> done_with d2 (save_harvest_deal d2 s2))"

definition on_document_approved :: "settlement_env \<Rightarrow> deal_document \<Rightarrow> harvest_deal option settlement_handler" where
  "on_document_approved env doc s =
     (if \<not> dd_signature_verified doc then done_with None s
      else if dd_type doc \<notin> set harvest_doc_types then done_with None s
      else case find_harvest_deal (dd_trade_deal_id doc) (sm_deals s) of
        None \<Rightarrow> done_with None s
      | Some d \<Rightarrow>
          if hd_settlement_status d = Settled then done_with (Some d) s
          else and_then (settle_campaign env d (Some doc)) (\<lambda>d'. done_with (Some d')) s)"

subsection \<open>Properties\<close>

lemma find_harvest_dealD:
  "find_harvest_deal i ds = Some d \<Longrightarrow> td_id d = i \<and> \<not> td_deleted d"
  by (auto simp: find_harvest_deal_def dest: find_one_SomeD)

lemma find_saved:
  assumes "find_harvest_deal i ds = Some d" "td_id d' = i" "\<not> td_deleted d'"
  shows "find_harvest_deal i (update_where (\<lambda>r. td_id r = i) (\<lambda>_. d') ds) = Some d'"
proof -
  have "find_one P ds = Some d \<Longrightarrow> (\<And>r. P r \<Longrightarrow> td_id r = i) \<Longrightarrow> P d' \<Longrightarrow>
      find_one P (update_where (\<lambda>r. td_id r = i) (\<lambda>_. d') ds) = Some d'" for P
    by (induction ds) (auto simp: find_one_def update_where_def split: if_splits)
  from this [of "\<lambda>d. td_id d = i \<and> \<not> td_deleted d"] show ?thesis using assms by (simp add: find_harvest_deal_def)
qed

lemma extract_harvest_amount_status [simp]:
  "extract_harvest_amount doc (d\<lparr>hd_settlement_status := x\<rparr>) = extract_harvest_amount doc d"
  by (simp add: extract_harvest_amount_def split: option.split)

lemma update_twice:
  "(\<And>r. p r \<Longrightarrow> p (f r)) \<Longrightarrow> update_where p g (update_where p f t) = update_where p (\<lambda>r. g (f r)) t"
  by (induction t) (auto simp: update_where_def)

text \<open>What the harvest deal shows to the services that do not know its further columns.\<close>

lemma find_truncated:
  "find_deal i (map trade_deal.truncate ds) = map_option trade_deal.truncate (find_harvest_deal i ds)"
proof -
  have "td_id (trade_deal.truncate d) = td_id d \<and> td_deleted (trade_deal.truncate d) = td_deleted d" for d :: harvest_deal
    by (cases d) (simp add: trade_deal.defs)
  then show ?thesis
    by (induction ds) (simp_all add: find_deal_def find_harvest_deal_def find_one_def)
qed

lemma status_truncated: "td_status (trade_deal.truncate (d :: harvest_deal)) = td_status d"
  by (cases d) (simp add: trade_deal.defs)

lemma approval_settles:
  assumes "dd_signature_verified doc" "dd_type doc \<in> set harvest_doc_types"
    and "find_harvest_deal (dd_trade_deal_id doc) (sm_deals s) = Some d" "hd_settlement_status d \<noteq> Settled"
    and "present (sv_contract env)"
    and "sv_settle env (the (sv_contract env)) (td_id d) (extract_harvest_amount (Some doc) d) (extract_quality_grade (Some doc)) = Inr tx"
  defines "d' \<equiv> settled_deal env tx (extract_harvest_amount (Some doc) d) (extract_quality_grade (Some doc)) d"
    and "call \<equiv> (td_id d, extract_harvest_amount (Some doc) d, extract_quality_grade (Some doc))"
  shows "sv_save_error env = None \<Longrightarrow> on_document_approved env doc s =
      (Inr (Some d'), s\<lparr>sm_deals := update_where (\<lambda>r. td_id r = td_id d) (\<lambda>_. d') (sm_deals s), sm_calls := sm_calls s @ [call]\<rparr>)"
    and "sv_save_error env = Some e \<Longrightarrow> sv_mail_error env = None \<Longrightarrow> on_document_approved env doc s =
      (Inl (Internal e), s\<lparr>sm_deals := update_where (\<lambda>r. td_id r = td_id d) (\<lambda>_. d'\<lparr>hd_settlement_status := SettlementFailed\<rparr>) (sm_deals s),
         sm_calls := sm_calls s @ [call], sm_mails := sm_mails s @ [(sv_admin_email env, e)]\<rparr>)"
  using assms(1-6)
  by (simp_all add: on_document_approved_def settle_campaign_def and_then_def Let_def save_harvest_deal_def
      settled_deal_def update_twice fail_settlement_def mark_settlement_failed_def d'_def call_def)

text \<open>
  A settlement on the contract keeps the escrow from being released. It sets the deal to
  completed whatever its status was; the delivery of the same deal that reaches the escrow service
  afterwards finds a status other than delivered and is skipped, so that nobody is paid, and the
  deal cannot be settled again.
\<close>
theorem settlement_keeps_escrow_locked:
  assumes "dd_signature_verified doc" "dd_type doc \<in> set harvest_doc_types"
    and "find_harvest_deal (dd_trade_deal_id doc) (sm_deals s) = Some d" "hd_settlement_status d \<noteq> Settled"
    and "present (sv_contract env)" "sv_save_error env = None"
    and "sv_settle env (the (sv_contract env)) (td_id d) (extract_harvest_amount (Some doc) d) (extract_quality_grade (Some doc)) = Inr tx"
    and "es_deals es = map trade_deal.truncate (sm_deals (snd (on_document_approved env doc s)))"
  shows "process_deal_delivered escrow_env (dd_trade_deal_id doc) es = (Inr (), record_release_outcome ReleaseSkipped es)
    \<and> (\<exists>d'. on_document_approved env' doc (snd (on_document_approved env doc s))
              = (Inr (Some d'), snd (on_document_approved env doc s)))"
proof -
  note run = approval_settles(1) [OF assms(1-5,7,6)]
  let ?d = "settled_deal env tx (extract_harvest_amount (Some doc) d) (extract_quality_grade (Some doc)) d"
  have id: "td_id d = dd_trade_deal_id doc" "\<not> td_deleted d" using find_harvest_dealD [OF assms(3)] by auto
  have found: "find_harvest_deal (dd_trade_deal_id doc) (sm_deals (snd (on_document_approved env doc s))) = Some ?d"
    using find_saved [OF assms(3), of ?d] id by (simp add: run settled_deal_def)
  have status: "hd_settlement_status ?d = Settled" "td_status ?d = DealCompleted" by (simp_all add: settled_deal_def)
  have "process_deal_delivered escrow_env (dd_trade_deal_id doc) es = (Inr (), record_release_outcome ReleaseSkipped es)"
    using assms(8) found status by (simp add: process_deal_delivered_def find_truncated status_truncated)
  moreover have "on_document_approved env' doc (snd (on_document_approved env doc s))
      = (Inr (Some ?d), snd (on_document_approved env doc s))"
    using found status(1) assms(1,2) by (simp add: on_document_approved_def)
  ultimately show ?thesis by blast
qed

text \<open>
  When the write after the call fails, the deal is left completed and yet marked as failed,
  and approving a document again settles the same campaign on the contract a second time.
\<close>
theorem failed_write_settles_twice:
  assumes "dd_signature_verified doc" "dd_type doc \<in> set harvest_doc_types"
    and "find_harvest_deal (dd_trade_deal_id doc) (sm_deals s) = Some d" "hd_settlement_status d \<noteq> Settled"
    and "present (sv_contract env)" "sv_save_error env = Some e" "sv_mail_error env = None"
    and settle: "\<And>amount grade. sv_settle env (the (sv_contract env)) (td_id d) amount grade = Inr tx"
    and "env' = env\<lparr>sv_save_error := None\<rparr>"
  shows "\<exists>d1 s1 call. on_document_approved env doc s = (Inl (Internal e), s1)
    \<and> find_harvest_deal (td_id d) (sm_deals s1) = Some d1
    \<and> td_status d1 = DealCompleted \<and> hd_settlement_status d1 = SettlementFailed
    \<and> sm_calls (snd (on_document_approved env' doc s1)) = sm_calls s @ [call, call]"
proof -
  let ?d = "(settled_deal env tx (extract_harvest_amount (Some doc) d) (extract_quality_grade (Some doc)) d)
    \<lparr>hd_settlement_status := SettlementFailed\<rparr>"
  let ?call = "(td_id d, extract_harvest_amount (Some doc) d, extract_quality_grade (Some doc))"
  obtain s1 where s1: "on_document_approved env doc s = (Inl (Internal e), s1)"
    "sm_deals s1 = update_where (\<lambda>r. td_id r = td_id d) (\<lambda>_. ?d) (sm_deals s)" "sm_calls s1 = sm_calls s @ [?call]"
    using approval_settles(2) [OF assms(1-5) settle assms(6,7)] by simp
  have id: "td_id d = dd_trade_deal_id doc" "\<not> td_deleted d" using find_harvest_dealD [OF assms(3)] by auto
  have found: "find_harvest_deal (dd_trade_deal_id doc) (sm_deals s1) = Some ?d"
    using find_saved [OF assms(3), of ?d] id by (simp add: s1(2) settled_deal_def)
  have same: "extract_harvest_amount (Some doc) ?d = extract_harvest_amount (Some doc) d" "td_id ?d = td_id d"
    by (simp_all add: extract_harvest_amount_def settled_deal_def split: option.split)
  have "sv_settle env' (the (sv_contract env')) (td_id ?d) (extract_harvest_amount (Some doc) ?d) (extract_quality_grade (Some doc)) = Inr tx"
    using settle same assms(9) by simp
  then have "sm_calls (snd (on_document_approved env' doc s1)) = sm_calls s1 @ [?call]"
    using approval_settles(1) [OF assms(1,2) found _ _ _, of env' tx] assms(5,9) same by simp
  moreover have "td_status ?d = DealCompleted" "hd_settlement_status ?d = SettlementFailed" by (simp_all add: settled_deal_def)
  ultimately show ?thesis using s1(1,3) found id by fastforce
qed

definition example_harvest_deal :: harvest_deal where
  "example_harvest_deal = \<lparr>td_id = ''d'', td_commodity = ''maize'', td_total_value = 100, td_token_count = 10,
     td_token_symbol = ''T'', td_status = DealDelivered, td_farmer_id = ''f'', td_trader_id = ''t'',
     td_escrow_public_key = None, td_escrow_secret_key = None, td_issuer_public_key = None,
     td_issuer_secret_key = None, td_total_invested = 100, td_app_trace_id = None, td_min_lot_size = None,
     td_lot_step = None, td_milestone_release_pct = 0, td_minimum_tier = None, td_deleted = False,
     hd_quantity = 50, hd_settlement_status = SettlementPending, hd_settlement_tx_hash = None, hd_harvest_amount = None,
     hd_quality_grade = None, hd_settled_at = None\<rparr>"

definition example_document :: deal_document where
  "example_document = \<lparr>dd_id = ''c'', dd_trade_deal_id = ''d'', dd_type = ''warehouse_receipt'',
     dd_signature_verified = True, dd_harvest_amount = Some 48, dd_quality_grade = None\<rparr>"

definition example_settlement :: settlement_state where
  "example_settlement = \<lparr>sm_deals = [example_harvest_deal], sm_calls = [], sm_mails = []\<rparr>"

definition example_settlement_env :: "string option \<Rightarrow> settlement_env" where
  "example_settlement_env err = \<lparr>sv_contract = Some ''C'', sv_settle = (\<lambda>_ _ _ _. Inr ''tx''), sv_save_error = err,
     sv_mail_error = None, sv_admin_email = ''a'', sv_now = 0\<rparr>"

lemmas example_settlement_defs =
  example_harvest_deal_def example_document_def example_settlement_def example_settlement_env_def
  harvest_doc_types_def find_harvest_deal_def find_one_def

theorem settlement_keeps_escrow_locked_witness:
  "process_deal_delivered (sample_env None) ''d''
     (sample_state\<lparr>es_deals := map trade_deal.truncate
        (sm_deals (snd (on_document_approved (example_settlement_env None) example_document example_settlement)))\<rparr>)
   = (Inr (), record_release_outcome ReleaseSkipped (sample_state\<lparr>es_deals := map trade_deal.truncate
        (sm_deals (snd (on_document_approved (example_settlement_env None) example_document example_settlement)))\<rparr>))"
proof -
  have "dd_trade_deal_id example_document = ''d''" by (simp add: example_document_def)
  moreover have "process_deal_delivered (sample_env None) (dd_trade_deal_id example_document)
     (sample_state\<lparr>es_deals := map trade_deal.truncate
        (sm_deals (snd (on_document_approved (example_settlement_env None) example_document example_settlement)))\<rparr>)
   = (Inr (), record_release_outcome ReleaseSkipped (sample_state\<lparr>es_deals := map trade_deal.truncate
        (sm_deals (snd (on_document_approved (example_settlement_env None) example_document example_settlement)))\<rparr>))"
    by (rule settlement_keeps_escrow_locked [where d = example_harvest_deal and tx = "''tx''", THEN conjunct1])
       (simp_all add: example_settlement_defs)
  ultimately show ?thesis by simp
qed

theorem failed_write_settles_twice_witness:
  "\<exists>d1 s1 call. on_document_approved (example_settlement_env (Some ''down'')) example_document example_settlement
      = (Inl (Internal ''down''), s1)
    \<and> find_harvest_deal ''d'' (sm_deals s1) = Some d1
    \<and> td_status d1 = DealCompleted \<and> hd_settlement_status d1 = SettlementFailed
    \<and> sm_calls (snd (on_document_approved (example_settlement_env None) example_document s1)) = [call, call]"
proof -
  have "\<exists>d1 s1 call. on_document_approved (example_settlement_env (Some ''down'')) example_document example_settlement
      = (Inl (Internal ''down''), s1)
    \<and> find_harvest_deal (td_id example_harvest_deal) (sm_deals s1) = Some d1
    \<and> td_status d1 = DealCompleted \<and> hd_settlement_status d1 = SettlementFailed
    \<and> sm_calls (snd (on_document_approved (example_settlement_env None) example_document s1))
        = sm_calls example_settlement @ [call, call]"
    by (rule failed_write_settles_twice [where tx = "''tx''"]) (simp_all add: example_settlement_defs)
  then show ?thesis by (simp add: example_harvest_deal_def example_settlement_def)
qed

end
