(* ===== verification/BigDecimal.thy ===== *)
theory BigDecimal
  imports Entities
begin

text \<open>
  Decimal amounts as the library \<open>bignumber.js\<close> computes them, for the market maker. A value is a
  finite number, an infinity or not a number, as for JavaScript numbers; the sign of zero is not
  represented. Sums and products are exact; quotients, roots and the printing to eight places
  round, and are a parameter (\<open>bn_ops\<close>) whose documented behaviour is the locale \<open>bignumber\<close>. The
  locale is interpreted on the default configuration of the library. \<open>numeric_column\<close> is what a
  column \<open>numeric(p, s)\<close> of the database keeps of a value.
\<close>

subsection \<open>Decimal arithmetic\<close>

record bn_ops =
  bn_div :: "rat \<Rightarrow> rat \<Rightarrow> rat"
  bn_sqrt :: "rat \<Rightarrow> rat"
  bn_fixed :: "rat \<Rightarrow> rat"
  bn_to_number :: "rat \<Rightarrow> rat"

locale bignumber =
  fixes b :: bn_ops
  assumes div_near: "y \<noteq> 0 \<Longrightarrow> \<bar>bn_div b x y - x / y\<bar> \<le> 1 / (2 * 10 ^ 20)"
    and div_nonneg: "0 \<le> x \<Longrightarrow> 0 < y \<Longrightarrow> 0 \<le> bn_div b x y"
    and sqrt_near: "0 \<le> x \<Longrightarrow> 0 \<le> bn_sqrt b x \<and> x \<le> (bn_sqrt b x + 1 / (2 * 10 ^ 20))\<^sup>2"
    and fixed_near: "\<bar>bn_fixed b x - x\<bar> \<le> 1 / (2 * 10 ^ 8)"
    and fixed_mono: "x \<le> y \<Longrightarrow> bn_fixed b x \<le> bn_fixed b y"
    and fixed_places: "\<exists>n. bn_fixed b x = of_int n / 10 ^ 8"
    and fixed_exact: "bn_fixed b (of_int n / 10 ^ 8) = of_int n / 10 ^ 8"
begin

lemma fixed_0 [simp]: "bn_fixed b 0 = 0"
  using fixed_exact [of 0] by simp

lemma fixed_nonneg: "0 \<le> x \<Longrightarrow> 0 \<le> bn_fixed b x"
  using fixed_mono [of 0 x] by simp

lemma fixed_idem [simp]: "bn_fixed b (bn_fixed b x) = bn_fixed b x"
proof -
  obtain n where "bn_fixed b x = of_int n / 10 ^ 8" using fixed_places by blast
  then show ?thesis by (simp only: fixed_exact)
qed

lemma fixed_add_exact: "bn_fixed b (bn_fixed b x + bn_fixed b y) = bn_fixed b x + bn_fixed b y"
proof -
  obtain m n where "bn_fixed b x = of_int m / 10 ^ 8" "bn_fixed b y = of_int n / 10 ^ 8"
    using fixed_places by blast
  then have "bn_fixed b x + bn_fixed b y = of_int (m + n) / 10 ^ 8" by (simp add: add_divide_distrib)
  then show ?thesis by (simp only: fixed_exact)
qed

end

text \<open>The default configuration: twenty places, halves away from zero.\<close>

definition half_up :: "nat \<Rightarrow> rat \<Rightarrow> rat" where
  "half_up n x =
     (if 0 \<le> x then of_int \<lfloor>x * 10 ^ n + 1 / 2\<rfloor> / 10 ^ n else - (of_int \<lfloor>- x * 10 ^ n + 1 / 2\<rfloor> / 10 ^ n))"

fun isqrt :: "nat \<Rightarrow> nat" where
  "isqrt n = (if n = 0 then 0 else let r = 2 * isqrt (n div 4) in if (r + 1)\<^sup>2 \<le> n then r + 1 else r)"

declare isqrt.simps [simp del]

definition half_up_sqrt :: "nat \<Rightarrow> rat \<Rightarrow> rat" where
  "half_up_sqrt n x =
     (let s = of_nat (isqrt (nat \<lfloor>x * 10 ^ (2 * n)\<rfloor>)) :: rat
      in (if (s + 1 / 2)\<^sup>2 \<le> x * 10 ^ (2 * n) then s + 1 else s) / 10 ^ n)"

definition decimal_ops :: bn_ops where
  "decimal_ops = \<lparr>bn_div = (\<lambda>x y. half_up 20 (x / y)), bn_sqrt = half_up_sqrt 20, bn_fixed = half_up 8, bn_to_number = fl\<rparr>"

lemma half_up_near: "\<bar>half_up n x - x\<bar> \<le> 1 / (2 * 10 ^ n)"
proof -
  have near: "\<bar>of_int \<lfloor>y * 10 ^ n + 1 / 2\<rfloor> / 10 ^ n - y\<bar> \<le> 1 / (2 * 10 ^ n)" for y :: rat
  proof -
    have "\<bar>of_int \<lfloor>y * 10 ^ n + 1 / 2\<rfloor> - y * 10 ^ n\<bar> \<le> (1 / 2 :: rat)" by linarith
    then have "\<bar>of_int \<lfloor>y * 10 ^ n + 1 / 2\<rfloor> - y * 10 ^ n\<bar> / 10 ^ n \<le> (1 / 2 :: rat) / 10 ^ n"
      by (intro divide_right_mono) simp_all
    also have "\<bar>of_int \<lfloor>y * 10 ^ n + 1 / 2\<rfloor> - y * 10 ^ n\<bar> / 10 ^ n
        = \<bar>(of_int \<lfloor>y * 10 ^ n + 1 / 2\<rfloor> - y * 10 ^ n) / 10 ^ n\<bar>" by (simp add: abs_divide)
    also have "(of_int \<lfloor>y * 10 ^ n + 1 / 2\<rfloor> - y * 10 ^ n) / 10 ^ n = of_int \<lfloor>y * 10 ^ n + 1 / 2\<rfloor> / 10 ^ n - y"
      by (simp add: diff_divide_distrib)
    finally show ?thesis by simp
  qed
  show ?thesis
  proof (cases "0 \<le> x")
    case True
    then show ?thesis using near [of x] by (simp add: half_up_def)
  next
    case False
    have "half_up n x - x = - (of_int \<lfloor>- x * 10 ^ n + 1 / 2\<rfloor> / 10 ^ n - (- x))" using False by (simp add: half_up_def)
    then show ?thesis using near [of "- x"] by (simp only: abs_minus_cancel)
  qed
qed

lemma half_up_sign: "0 \<le> x \<Longrightarrow> 0 \<le> half_up n x" "x \<le> 0 \<Longrightarrow> half_up n x \<le> 0"
proof -
  have "0 \<le> \<lfloor>y * 10 ^ n + 1 / 2\<rfloor>" if "0 \<le> y" for y :: rat using that by simp
  then have nn: "0 \<le> (of_int \<lfloor>y * 10 ^ n + 1 / 2\<rfloor> :: rat) / 10 ^ n" if "0 \<le> y" for y :: rat using that by simp
  show "0 \<le> x \<Longrightarrow> 0 \<le> half_up n x" using nn [of x] by (simp add: half_up_def)
  show "x \<le> 0 \<Longrightarrow> half_up n x \<le> 0" using nn [of "- x"] by (auto simp: half_up_def)
qed

lemma half_up_mono: "x \<le> y \<Longrightarrow> half_up n x \<le> half_up n y"
proof -
  assume le: "x \<le> y"
  have mono: "of_int \<lfloor>u * 10 ^ n + 1 / 2\<rfloor> / 10 ^ n \<le> (of_int \<lfloor>v * 10 ^ n + 1 / 2\<rfloor> / 10 ^ n :: rat)"
    if "u \<le> v" for u v :: rat
    using that by (intro divide_right_mono) (auto intro!: floor_mono)
  consider "0 \<le> x" | "x < 0" "0 \<le> y" | "y < 0" using le by linarith
  then show ?thesis
  proof cases
    case 1
    then show ?thesis using mono [OF le] le by (simp add: half_up_def)
  next
    case 2
    then show ?thesis using half_up_sign(2) [of x n] half_up_sign(1) [of y n] by linarith
  next
    case 3
    then show ?thesis using mono [of "- y" "- x"] le by (simp add: half_up_def)
  qed
qed

lemma half_up_exact: "half_up n (of_int k / 10 ^ n) = of_int k / 10 ^ n"
  by (simp add: half_up_def zero_le_divide_iff)

lemma isqrt_bounds: "(isqrt n)\<^sup>2 \<le> n \<and> n < (isqrt n + 1)\<^sup>2"
proof (induction n rule: isqrt.induct)
  case (1 n)
  show ?case
  proof (cases "n = 0")
    case False
    let ?r = "isqrt (n div 4)"
    have IH: "?r\<^sup>2 \<le> n div 4" "n div 4 < (?r + 1)\<^sup>2" using 1 False by simp_all
    have "n < 4 * (n div 4) + 4" by linarith
    also have "\<dots> \<le> 4 * (?r + 1)\<^sup>2" using IH(2) by linarith
    also have "\<dots> = (2 * ?r + 2)\<^sup>2" by (simp add: power2_eq_square algebra_simps)
    finally have up: "n < (2 * ?r + 2)\<^sup>2" .
    have "(2 * ?r)\<^sup>2 = 4 * ?r\<^sup>2" by (simp add: power2_eq_square)
    then have lo: "(2 * ?r)\<^sup>2 \<le> n" using IH(1) by linarith
    show ?thesis using False up lo by (subst (1 2) isqrt.simps) (simp add: Let_def)
  qed (simp add: isqrt.simps)
qed

lemma half_up_sqrt_near:
  assumes "0 \<le> x"
  shows "0 \<le> half_up_sqrt n x \<and> x \<le> (half_up_sqrt n x + 1 / (2 * 10 ^ n))\<^sup>2"
proof -
  define N where "N = nat \<lfloor>x * 10 ^ (2 * n)\<rfloor>"
  define s where "s = (of_nat (isqrt N) :: rat)"
  define c where "c = (if (s + 1 / 2)\<^sup>2 \<le> x * 10 ^ (2 * n) then s + 1 else s)"
  have h: "half_up_sqrt n x = c / 10 ^ n" by (simp add: half_up_sqrt_def Let_def N_def s_def c_def)
  have x0: "0 \<le> x * 10 ^ (2 * n)" using assms by simp
  then have "x * 10 ^ (2 * n) < of_nat N + 1" unfolding N_def by (simp add: of_nat_nat) linarith
  moreover have "N + 1 \<le> (isqrt N + 1)\<^sup>2" using isqrt_bounds [of N] by linarith
  then have "(of_nat (N + 1) :: rat) \<le> of_nat ((isqrt N + 1)\<^sup>2)" by (rule of_nat_mono)
  then have "(of_nat N :: rat) + 1 \<le> (s + 1)\<^sup>2" by (simp add: s_def add.commute)
  ultimately have up: "x * 10 ^ (2 * n) < (s + 1)\<^sup>2" by linarith
  have s0: "0 \<le> s" by (simp add: s_def)
  have "x * 10 ^ (2 * n) \<le> (c + 1 / 2)\<^sup>2"
  proof (cases "(s + 1 / 2)\<^sup>2 \<le> x * 10 ^ (2 * n)")
    case True
    have "(s + 1)\<^sup>2 \<le> (s + 1 + 1 / 2)\<^sup>2" using s0 by (intro power_mono) simp_all
    with True up show ?thesis by (simp add: c_def)
  qed (simp add: c_def)
  also have "(c + 1 / 2)\<^sup>2 = ((c / 10 ^ n + 1 / (2 * 10 ^ n)) * 10 ^ n)\<^sup>2" by (simp add: distrib_right)
  also have "\<dots> = (c / 10 ^ n + 1 / (2 * 10 ^ n))\<^sup>2 * 10 ^ (2 * n)" by (simp add: power_mult_distrib power_even_eq)
  finally have "x \<le> (c / 10 ^ n + 1 / (2 * 10 ^ n))\<^sup>2" by simp
  then show ?thesis using s0 by (simp add: h c_def)
qed

interpretation bn: bignumber decimal_ops
proof
  show "\<exists>n. bn_fixed decimal_ops x = of_int n / 10 ^ 8" for x
    by (cases "0 \<le> x") (auto simp: decimal_ops_def half_up_def intro: exI [of _ "- \<lfloor>- x * 10 ^ 8 + 1 / 2\<rfloor>"])
qed (simp_all add: decimal_ops_def half_up_near half_up_sign half_up_mono half_up_exact half_up_sqrt_near
      del: power_numeral)

subsection \<open>Values\<close>

text \<open>\<open>Inf True\<close> is the negative infinity.\<close>

datatype bignum = Fin rat | Inf bool | NaN

fun bn_neg :: "bignum \<Rightarrow> bignum" where
  "bn_neg (Fin x) = Fin (- x)"
| "bn_neg (Inf s) = Inf (\<not> s)"
| "bn_neg NaN = NaN"

fun bn_plus :: "bignum \<Rightarrow> bignum \<Rightarrow> bignum" where
  "bn_plus (Fin x) (Fin y) = Fin (x + y)"
| "bn_plus (Inf s) (Fin y) = Inf s"
| "bn_plus (Fin x) (Inf t) = Inf t"
| "bn_plus (Inf s) (Inf t) = (if s = t then Inf s else NaN)"
| "bn_plus _ _ = NaN"

definition bn_minus :: "bignum \<Rightarrow> bignum \<Rightarrow> bignum" where
  "bn_minus x y = bn_plus x (bn_neg y)"

fun bn_times :: "bignum \<Rightarrow> bignum \<Rightarrow> bignum" where
  "bn_times (Fin x) (Fin y) = Fin (x * y)"
| "bn_times (Inf s) (Fin y) = (if y = 0 then NaN else Inf (s \<noteq> (y < 0)))"
| "bn_times (Fin x) (Inf t) = (if x = 0 then NaN else Inf (t \<noteq> (x < 0)))"
| "bn_times (Inf s) (Inf t) = Inf (s \<noteq> t)"
| "bn_times _ _ = NaN"

fun bn_quot :: "bn_ops \<Rightarrow> bignum \<Rightarrow> bignum \<Rightarrow> bignum" where
  "bn_quot b (Fin x) (Fin y) =
     (if y \<noteq> 0 then Fin (bn_div b x y) else if x = 0 then NaN else Inf (x < 0))"
| "bn_quot b (Inf s) (Fin y) = Inf (s \<noteq> (y < 0))"
| "bn_quot b (Fin x) (Inf t) = Fin 0"
| "bn_quot b _ _ = NaN"

fun bn_root :: "bn_ops \<Rightarrow> bignum \<Rightarrow> bignum" where
  "bn_root b (Fin x) = (if x < 0 then NaN else Fin (bn_sqrt b x))"
| "bn_root b (Inf s) = (if s then NaN else Inf False)"
| "bn_root b NaN = NaN"

text \<open>\<open>x.toFixed(8)\<close>, as the number that is read back from the text, and \<open>x.toNumber()\<close>.\<close>

fun to_fixed8 :: "bn_ops \<Rightarrow> bignum \<Rightarrow> bignum" where
  "to_fixed8 b (Fin x) = Fin (bn_fixed b x)"
| "to_fixed8 b v = v"

fun bn_number :: "bn_ops \<Rightarrow> bignum \<Rightarrow> bignum" where
  "bn_number b (Fin x) = Fin (bn_to_number b x)"
| "bn_number b v = v"

text \<open>\<open>x.isLessThan(y)\<close>: false when either is not a number.\<close>

fun bn_less :: "bignum \<Rightarrow> bignum \<Rightarrow> bool" where
  "bn_less (Fin x) (Fin y) = (x < y)"
| "bn_less (Inf s) (Fin y) = s"
| "bn_less (Fin x) (Inf t) = (\<not> t)"
| "bn_less (Inf s) (Inf t) = (s \<and> \<not> t)"
| "bn_less _ _ = False"

definition bn_less_eq :: "bignum \<Rightarrow> bignum \<Rightarrow> bool" where
  "bn_less_eq x y \<longleftrightarrow> bn_less x y \<or> (x = y \<and> x \<noteq> NaN)"

definition bn_min :: "bignum \<Rightarrow> bignum \<Rightarrow> bignum" where
  "bn_min x y = (if x = NaN \<or> y = NaN then NaN else if bn_less y x then y else x)"

definition bn_max :: "bignum \<Rightarrow> bignum \<Rightarrow> bignum" where
  "bn_max x y = (if x = NaN \<or> y = NaN then NaN else if bn_less x y then y else x)"

lemma bn_minus_Fin [simp]: "bn_minus (Fin x) (Fin y) = Fin (x - y)"
  by (simp add: bn_minus_def)

lemma bn_less_eq_Fin [simp]: "bn_less_eq (Fin x) (Fin y) \<longleftrightarrow> x \<le> y"
  by (auto simp: bn_less_eq_def)

lemma bn_min_Fin [simp]: "bn_min (Fin x) (Fin y) = Fin (min x y)"
  by (simp add: bn_min_def min_def not_le)

lemma bn_max_Fin [simp]: "bn_max (Fin x) (Fin y) = Fin (max x y)"
  by (simp add: bn_max_def max_def)

subsection \<open>Columns\<close>

text \<open>
  A column \<open>numeric(p, s)\<close> rounds to \<open>s\<close> places, halves away from zero, and refuses an infinity and
  a number of more than \<open>p - s\<close> digits before the point; it keeps \<open>NaN\<close>.
\<close>

fun fits_column :: "nat \<Rightarrow> nat \<Rightarrow> bignum \<Rightarrow> bool" where
  "fits_column p s (Fin x) \<longleftrightarrow> \<bar>half_up s x\<bar> < 10 ^ (p - s)"
| "fits_column p s (Inf t) \<longleftrightarrow> False"
| "fits_column p s NaN \<longleftrightarrow> True"

fun kept :: "nat \<Rightarrow> bignum \<Rightarrow> bignum" where
  "kept s (Fin x) = Fin (half_up s x)"
| "kept s v = v"

lemma half_up_idem [simp]: "half_up n (half_up n x) = half_up n x"
proof -
  have "\<exists>k. half_up n x = of_int k / 10 ^ n"
    by (cases "0 \<le> x") (auto simp: half_up_def intro: exI [of _ "- \<lfloor>- x * 10 ^ n + 1 / 2\<rfloor>"])
  then show ?thesis by (metis half_up_exact)
qed

lemma kept_idem [simp]: "kept s (kept s v) = kept s v"
  by (cases v) simp_all

lemma fits_kept [simp]: "fits_column p s (kept s v) = fits_column p s v"
  by (cases v) simp_all

end
