(* ===== verification/Amm.thy ===== *)
theory Amm
  imports BigDecimal
begin

text \<open>
  \<open>backend/src/amm/services\<close>: the automated market maker, its pricing formulas, pools,
  liquidity positions, swaps and mining rewards, over the rows of \<open>amm/entities\<close>. Amounts are
  the values of \<open>BigDecimal\<close>; a text of a request stands for the value the library reads from it.
  Saving a row rounds every decimal column and fails when one does not fit. The columns that
  no service writes or reads (governance, fees earned, loss of a position) are left out, as are
  foreign keys. Rows are in the order of their creation.
\<close>

subsection \<open>Rows\<close>

datatype pool_status = PoolActive | PoolPaused | PoolDeprecated
datatype pricing_model = ConstantProduct | StableSwap | Linear
datatype swap_direction = Token0ToToken1 | Token1ToToken0
datatype swap_status = SwapPending | SwapCompleted | SwapFailed | SwapCancelled

record amm_pool =
  pl_id :: string
  pl_deal_id :: string
  pl_creator_id :: string
  pl_reserve0 :: bignum
  pl_reserve1 :: bignum
  pl_fee :: bignum
  pl_fees0 :: bignum
  pl_fees1 :: bignum
  pl_model :: pricing_model
  pl_amplification :: bignum
  pl_min_initial :: bignum
  pl_status :: pool_status
  pl_total_liquidity :: bignum
  pl_volume_24h :: bignum
  pl_fee_collected :: bignum
  pl_apr :: bignum
  pl_pause_reason :: "string option"
  pl_metadata :: string

record liquidity_position =
  lp_id :: string
  lp_pool_id :: string
  lp_user_id :: string
  lp_tokens :: bignum
  lp_deposit0 :: bignum
  lp_deposit1 :: bignum
  lp_value0 :: bignum
  lp_value1 :: bignum
  lp_rewards :: bignum
  lp_active :: bool
  lp_removed_at :: "int option"

text \<open>\<open>sw_fees_paid = None\<close>: the column \<open>feesPaid\<close> has no value. It admits none.\<close>

record amm_swap =
  sw_id :: string
  sw_pool_id :: string
  sw_user_id :: string
  sw_direction :: swap_direction
  sw_amount_in :: bignum
  sw_amount_out :: bignum
  sw_price :: bignum
  sw_impact :: bignum
  sw_fees_paid :: "bignum option"
  sw_minimum_out :: "bignum option"
  sw_slippage_exceeded :: bool
  sw_status :: swap_status

record mining_reward =
  mr_id :: string
  mr_pool_id :: string
  mr_user_id :: string
  mr_amount :: bignum
  mr_apy :: bignum
  mr_period_start :: int
  mr_period_end :: int
  mr_vested :: bool
  mr_vesting_pct :: bignum
  mr_claimed :: bool
  mr_claimed_at :: "int option"
  mr_claim_tx :: "string option"

record amm_state =
  am_deals :: "trade_deal list"
  am_pools :: "amm_pool list"
  am_positions :: "liquidity_position list"
  am_swaps :: "amm_swap list"
  am_rewards :: "mining_reward list"
  am_next :: nat

text \<open>The library, the identifier of the row created as number \<open>n\<close>, the clock, and the random text of a claim.\<close>

record amm_env =
  ae_bn :: bn_ops
  ae_new_id :: "nat \<Rightarrow> string"
  ae_now :: int
  ae_random :: string

type_synonym 'a amm_handler = "(amm_state, http_error, 'a) handler"

subsection \<open>Saving rows\<close>

definition pool_fits :: "amm_pool \<Rightarrow> bool" where
  "pool_fits p \<longleftrightarrow>
     fits_column 20 8 (pl_reserve0 p) \<and> fits_column 20 8 (pl_reserve1 p) \<and> fits_column 5 4 (pl_fee p) \<and>
     fits_column 20 8 (pl_fees0 p) \<and> fits_column 20 8 (pl_fees1 p) \<and> fits_column 20 8 (pl_amplification p) \<and>
     fits_column 20 8 (pl_min_initial p) \<and> fits_column 20 8 (pl_total_liquidity p) \<and>
     fits_column 20 8 (pl_volume_24h p) \<and> fits_column 20 8 (pl_fee_collected p) \<and> fits_column 10 2 (pl_apr p)"

definition pool_row :: "amm_pool \<Rightarrow> amm_pool" where
  "pool_row p = p\<lparr>pl_reserve0 := kept 8 (pl_reserve0 p), pl_reserve1 := kept 8 (pl_reserve1 p),
     pl_fee := kept 4 (pl_fee p), pl_fees0 := kept 8 (pl_fees0 p), pl_fees1 := kept 8 (pl_fees1 p),
     pl_amplification := kept 8 (pl_amplification p), pl_min_initial := kept 8 (pl_min_initial p),
     pl_total_liquidity := kept 8 (pl_total_liquidity p), pl_volume_24h := kept 8 (pl_volume_24h p),
     pl_fee_collected := kept 8 (pl_fee_collected p), pl_apr := kept 2 (pl_apr p)\<rparr>"

definition position_fits :: "liquidity_position \<Rightarrow> bool" where
  "position_fits q \<longleftrightarrow>
     fits_column 20 8 (lp_tokens q) \<and> fits_column 20 8 (lp_deposit0 q) \<and> fits_column 20 8 (lp_deposit1 q) \<and>
     fits_column 20 8 (lp_value0 q) \<and> fits_column 20 8 (lp_value1 q) \<and> fits_column 20 8 (lp_rewards q)"

definition position_row :: "liquidity_position \<Rightarrow> liquidity_position" where
  "position_row q = q\<lparr>lp_tokens := kept 8 (lp_tokens q), lp_deposit0 := kept 8 (lp_deposit0 q),
     lp_deposit1 := kept 8 (lp_deposit1 q), lp_value0 := kept 8 (lp_value0 q),
     lp_value1 := kept 8 (lp_value1 q), lp_rewards := kept 8 (lp_rewards q)\<rparr>"

definition swap_fits :: "amm_swap \<Rightarrow> bool" where
  "swap_fits w \<longleftrightarrow>
     fits_column 20 8 (sw_amount_in w) \<and> fits_column 20 8 (sw_amount_out w) \<and> fits_column 20 8 (sw_price w) \<and>
     fits_column 10 2 (sw_impact w) \<and> (\<forall>v \<in> set_option (sw_minimum_out w). fits_column 20 8 v) \<and>
     (\<exists>v \<in> set_option (sw_fees_paid w). fits_column 20 8 v)"

definition swap_row :: "amm_swap \<Rightarrow> amm_swap" where
  "swap_row w = w\<lparr>sw_amount_in := kept 8 (sw_amount_in w), sw_amount_out := kept 8 (sw_amount_out w),
     sw_price := kept 8 (sw_price w), sw_impact := kept 2 (sw_impact w),
     sw_minimum_out := map_option (kept 8) (sw_minimum_out w),
     sw_fees_paid := map_option (kept 8) (sw_fees_paid w)\<rparr>"

definition reward_fits :: "mining_reward \<Rightarrow> bool" where
  "reward_fits r \<longleftrightarrow> fits_column 20 8 (mr_amount r) \<and> fits_column 10 2 (mr_apy r) \<and> fits_column 10 2 (mr_vesting_pct r)"

definition reward_row :: "mining_reward \<Rightarrow> mining_reward" where
  "reward_row r = r\<lparr>mr_amount := kept 8 (mr_amount r), mr_apy := kept 2 (mr_apy r),
     mr_vesting_pct := kept 2 (mr_vesting_pct r)\<rparr>"

definition storage_error :: http_error where
  "storage_error = Internal ''the row violates a column''"

text \<open>\<open>save\<close> returns the object it was given; the rounding shows when the row is read again.\<close>

definition save_pool :: "amm_pool \<Rightarrow> amm_pool amm_handler" where
  "save_pool p s =
     (if pool_fits p
      then done_with p (s\<lparr>am_pools := update_where (\<lambda>r. pl_id r = pl_id p) (\<lambda>_. pool_row p) (am_pools s)\<rparr>)
      else throw storage_error s)"

definition add_pool :: "amm_env \<Rightarrow> amm_pool \<Rightarrow> amm_pool amm_handler" where
  "add_pool env p s =
     (let p' = p\<lparr>pl_id := ae_new_id env (am_next s)\<rparr>
      in if pool_fits p'
         then done_with p' (s\<lparr>am_pools := insert_row (pool_row p') (am_pools s), am_next := Suc (am_next s)\<rparr>)
         else throw storage_error s)"

definition save_position :: "liquidity_position \<Rightarrow> liquidity_position amm_handler" where
  "save_position q s =
     (if position_fits q
      then done_with q
        (s\<lparr>am_positions := update_where (\<lambda>r. lp_id r = lp_id q) (\<lambda>_. position_row q) (am_positions s)\<rparr>)
      else throw storage_error s)"

definition add_position :: "amm_env \<Rightarrow> liquidity_position \<Rightarrow> liquidity_position amm_handler" where
  "add_position env q s =
     (let q' = q\<lparr>lp_id := ae_new_id env (am_next s)\<rparr>
      in if position_fits q'
         then done_with q' (s\<lparr>am_positions := insert_row (position_row q') (am_positions s), am_next := Suc (am_next s)\<rparr>)
         else throw storage_error s)"

definition add_swap :: "amm_env \<Rightarrow> amm_swap \<Rightarrow> amm_swap amm_handler" where
  "add_swap env w s =
     (let w' = w\<lparr>sw_id := ae_new_id env (am_next s)\<rparr>
      in if swap_fits w'
         then done_with w' (s\<lparr>am_swaps := insert_row (swap_row w') (am_swaps s), am_next := Suc (am_next s)\<rparr>)
         else throw storage_error s)"

definition save_reward :: "mining_reward \<Rightarrow> mining_reward amm_handler" where
  "save_reward r s =
     (if reward_fits r
      then done_with r (s\<lparr>am_rewards := update_where (\<lambda>x. mr_id x = mr_id r) (\<lambda>_. reward_row r) (am_rewards s)\<rparr>)
      else throw storage_error s)"

definition add_reward :: "amm_env \<Rightarrow> mining_reward \<Rightarrow> mining_reward amm_handler" where
  "add_reward env r s =
     (let r' = r\<lparr>mr_id := ae_new_id env (am_next s)\<rparr>
      in if reward_fits r'
         then done_with r' (s\<lparr>am_rewards := insert_row (reward_row r') (am_rewards s), am_next := Suc (am_next s)\<rparr>)
         else throw storage_error s)"

subsection \<open>Pricing\<close>

record pricing =
  pr_amount_out :: bignum
  pr_price :: bignum
  pr_impact :: bignum
  pr_fee_paid :: bignum

definition after_fee :: "bn_ops \<Rightarrow> bignum \<Rightarrow> bignum \<Rightarrow> bignum" where
  "after_fee b amount_in fee = bn_times amount_in (bn_minus (Fin 1) (bn_quot b fee (Fin 100)))"

definition constant_product_price ::
  "bn_ops \<Rightarrow> bignum \<Rightarrow> bignum \<Rightarrow> bignum \<Rightarrow> swap_direction \<Rightarrow> bignum \<Rightarrow> pricing" where
  "constant_product_price b reserve0 reserve1 amount_in direction fee =
     (let net = after_fee b amount_in fee;
          k = bn_times reserve0 reserve1;
          amount_out =
            (case direction of
               Token0ToToken1 \<Rightarrow> bn_minus reserve1 (bn_quot b k (bn_plus reserve0 net))
             | Token1ToToken0 \<Rightarrow> bn_minus reserve0 (bn_quot b k (bn_plus reserve1 net)));
          spot =
            (case direction of
               Token0ToToken1 \<Rightarrow> bn_quot b reserve1 reserve0
             | Token1ToToken0 \<Rightarrow> bn_quot b reserve0 reserve1);
          price = bn_quot b amount_out net;
          impact = bn_number b (bn_times (bn_quot b (bn_minus spot price) spot) (Fin 100))
      in \<lparr>pr_amount_out = to_fixed8 b amount_out, pr_price = to_fixed8 b price,
          pr_impact = bn_max (Fin 0) impact, pr_fee_paid = to_fixed8 b (bn_minus amount_in net)\<rparr>)"

definition stable_swap_price ::
  "bn_ops \<Rightarrow> bignum \<Rightarrow> bignum \<Rightarrow> bignum \<Rightarrow> swap_direction \<Rightarrow> bignum \<Rightarrow> pricing" where
  "stable_swap_price b reserve0 reserve1 amount_in direction fee =
     (let net = after_fee b amount_in fee;
          constant = bn_plus reserve0 reserve1;
          amount_out =
            (case direction of
               Token0ToToken1 \<Rightarrow> bn_minus reserve1 (bn_minus constant (bn_plus reserve0 net))
             | Token1ToToken0 \<Rightarrow> bn_minus reserve0 (bn_minus constant (bn_plus reserve1 net)))
      in \<lparr>pr_amount_out = to_fixed8 b amount_out, pr_price = to_fixed8 b (bn_quot b amount_out net),
          pr_impact = Fin (1 / 2), pr_fee_paid = to_fixed8 b (bn_minus amount_in net)\<rparr>)"

definition linear_price :: "bn_ops \<Rightarrow> bignum \<Rightarrow> bignum \<Rightarrow> bignum \<Rightarrow> bignum \<Rightarrow> pricing" where
  "linear_price b reserve0 reserve1 amount_in fee =
     (let net = after_fee b amount_in fee;
          spot = bn_quot b reserve1 reserve0
      in \<lparr>pr_amount_out = to_fixed8 b (bn_times net spot), pr_price = to_fixed8 b spot,
          pr_impact = Fin 0, pr_fee_paid = to_fixed8 b (bn_minus amount_in net)\<rparr>)"

fun calculate_price ::
  "bn_ops \<Rightarrow> pricing_model \<Rightarrow> bignum \<Rightarrow> bignum \<Rightarrow> bignum \<Rightarrow> swap_direction \<Rightarrow> bignum \<Rightarrow> pricing" where
  "calculate_price b ConstantProduct reserve0 reserve1 amount_in direction fee =
     constant_product_price b reserve0 reserve1 amount_in direction fee"
| "calculate_price b StableSwap reserve0 reserve1 amount_in direction fee =
     stable_swap_price b reserve0 reserve1 amount_in direction fee"
| "calculate_price b Linear reserve0 reserve1 amount_in direction fee =
     linear_price b reserve0 reserve1 amount_in fee"

definition calculate_lp_tokens :: "bn_ops \<Rightarrow> bignum \<Rightarrow> bignum \<Rightarrow> bignum \<Rightarrow> bignum \<Rightarrow> bignum \<Rightarrow> bignum" where
  "calculate_lp_tokens b reserve0 reserve1 amount0 amount1 existing =
     (if reserve0 = Fin 0 \<or> reserve1 = Fin 0
      then to_fixed8 b (bn_root b (bn_times amount0 amount1))
      else to_fixed8 b (bn_min (bn_quot b (bn_times amount0 existing) reserve0)
                               (bn_quot b (bn_times amount1 existing) reserve1)))"

definition calculate_impermanent_loss :: "bn_ops \<Rightarrow> bignum \<Rightarrow> bignum \<Rightarrow> bignum \<Rightarrow> bignum \<Rightarrow> bignum \<times> bignum" where
  "calculate_impermanent_loss b deposited0 deposited1 current0 current1 =
     (let current_price = bn_quot b current1 current0;
          current_value = bn_plus current0 (bn_times current1 current_price);
          holding_value = bn_plus deposited0 deposited1;
          loss = bn_minus current_value holding_value;
          percentage = bn_number b (bn_times (bn_quot b loss holding_value) (Fin 100))
      in (to_fixed8 b loss, bn_min (Fin 0) percentage))"

subsection \<open>Pools and liquidity\<close>

record create_pool_dto =
  cp_deal_id :: string
  cp_reserve0 :: bignum
  cp_reserve1 :: bignum
  cp_fee :: bignum
  cp_model :: "pricing_model option"
  cp_amplification :: "bignum option"
  cp_min_initial :: "bignum option"
  cp_metadata :: "string option"

text \<open>\<open>x || d\<close> for a number: zero and \<open>NaN\<close> count as missing.\<close>

definition or_number :: "bignum option \<Rightarrow> bignum \<Rightarrow> bignum" where
  "or_number x d = (case x of None \<Rightarrow> d | Some v \<Rightarrow> if v = Fin 0 \<or> v = NaN then d else v)"

definition new_pool :: "bn_ops \<Rightarrow> create_pool_dto \<Rightarrow> string \<Rightarrow> amm_pool" where
  "new_pool b dto creator_id =
     \<lparr>pl_id = '''', pl_deal_id = cp_deal_id dto, pl_creator_id = creator_id,
      pl_reserve0 = to_fixed8 b (cp_reserve0 dto), pl_reserve1 = to_fixed8 b (cp_reserve1 dto),
      pl_fee = or_number (Some (cp_fee dto)) (Fin (fl (3 / 10))), pl_fees0 = Fin 0, pl_fees1 = Fin 0,
      pl_model = (case cp_model dto of Some m \<Rightarrow> m | None \<Rightarrow> ConstantProduct),
      pl_amplification = or_number (cp_amplification dto) (Fin 1),
      pl_min_initial = (case cp_min_initial dto of Some v \<Rightarrow> v | None \<Rightarrow> Fin 0),
      pl_status = PoolActive,
      pl_total_liquidity = to_fixed8 b (bn_root b (bn_times (cp_reserve0 dto) (cp_reserve1 dto))),
      pl_volume_24h = Fin 0, pl_fee_collected = Fin 0, pl_apr = Fin 0, pl_pause_reason = None,
      pl_metadata = (case cp_metadata dto of Some t \<Rightarrow> t | None \<Rightarrow> ''{}'')\<rparr>"

definition create_pool :: "amm_env \<Rightarrow> create_pool_dto \<Rightarrow> string \<Rightarrow> amm_pool amm_handler" where
  "create_pool env dto creator_id s =
     (if find_deal (cp_deal_id dto) (am_deals s) = None then throw (NotFound ''Deal not found'') s
      else if bn_less_eq (cp_reserve0 dto) (Fin 0) \<or> bn_less_eq (cp_reserve1 dto) (Fin 0)
      then throw (BadRequest ''Initial reserves must be positive'') s
      else add_pool env (new_pool (ae_bn env) dto creator_id) s)"

definition find_pool :: "string \<Rightarrow> amm_state \<Rightarrow> amm_pool option" where
  "find_pool i s = find_one (\<lambda>p. pl_id p = i) (am_pools s)"

definition get_pool :: "string \<Rightarrow> amm_pool amm_handler" where
  "get_pool i s = (case find_pool i s of None \<Rightarrow> throw (NotFound ''Pool not found'') s | Some p \<Rightarrow> done_with p s)"

text \<open>\<open>ad_min_tokens\<close> is \<open>None\<close> for a text that is missing or empty, as in the requests below.\<close>

record add_liquidity_dto =
  ad_pool_id :: string
  ad_amount0 :: bignum
  ad_amount1 :: bignum
  ad_min_tokens :: "bignum option"

definition deposited_pool :: "bn_ops \<Rightarrow> add_liquidity_dto \<Rightarrow> bignum \<Rightarrow> amm_pool \<Rightarrow> amm_pool" where
  "deposited_pool b dto tokens p =
     p\<lparr>pl_reserve0 := to_fixed8 b (bn_plus (pl_reserve0 p) (ad_amount0 dto)),
       pl_reserve1 := to_fixed8 b (bn_plus (pl_reserve1 p) (ad_amount1 dto)),
       pl_total_liquidity := to_fixed8 b (bn_plus (pl_total_liquidity p) tokens)\<rparr>"

definition new_position :: "bn_ops \<Rightarrow> add_liquidity_dto \<Rightarrow> string \<Rightarrow> bignum \<Rightarrow> liquidity_position" where
  "new_position b dto user_id tokens =
     \<lparr>lp_id = '''', lp_pool_id = ad_pool_id dto, lp_user_id = user_id, lp_tokens = tokens,
      lp_deposit0 = to_fixed8 b (ad_amount0 dto), lp_deposit1 = to_fixed8 b (ad_amount1 dto),
      lp_value0 = to_fixed8 b (ad_amount0 dto), lp_value1 = to_fixed8 b (ad_amount1 dto),
      lp_rewards = Fin 0, lp_active = True, lp_removed_at = None\<rparr>"

definition add_liquidity :: "amm_env \<Rightarrow> add_liquidity_dto \<Rightarrow> string \<Rightarrow> liquidity_position amm_handler" where
  "add_liquidity env dto user_id =
     and_then (get_pool (ad_pool_id dto)) (\<lambda>p s.
       if pl_status p \<noteq> PoolActive then throw (BadRequest ''Pool is not active'') s
       else if bn_less_eq (ad_amount0 dto) (Fin 0) \<or> bn_less_eq (ad_amount1 dto) (Fin 0)
       then throw (BadRequest ''Amounts must be positive'') s
       else
         let b = ae_bn env;
             tokens = calculate_lp_tokens b (pl_reserve0 p) (pl_reserve1 p) (ad_amount0 dto) (ad_amount1 dto)
                        (pl_total_liquidity p)
         in if \<exists>m \<in> set_option (ad_min_tokens dto). bn_less tokens m
            then throw (BadRequest ''Slippage exceeded minimum LP tokens'') s
            else and_then (save_pool (deposited_pool b dto tokens p))
                   (\<lambda>_. add_position env (new_position b dto user_id tokens)) s)"

record remove_liquidity_dto =
  rm_pool_id :: string
  rm_tokens :: bignum
  rm_min0 :: "bignum option"
  rm_min1 :: "bignum option"

definition find_position :: "string \<Rightarrow> string \<Rightarrow> amm_state \<Rightarrow> liquidity_position option" where
  "find_position pool_id user_id s =
     find_one (\<lambda>q. lp_pool_id q = pool_id \<and> lp_user_id q = user_id \<and> lp_active q) (am_positions s)"

text \<open>The amount of a token that the removed tokens stand for.\<close>

definition share_of :: "bn_ops \<Rightarrow> bignum \<Rightarrow> amm_pool \<Rightarrow> bignum \<Rightarrow> bignum" where
  "share_of b tokens p reserve = bn_times reserve (bn_quot b tokens (pl_total_liquidity p))"

definition withdrawn_pool :: "bn_ops \<Rightarrow> bignum \<Rightarrow> amm_pool \<Rightarrow> amm_pool" where
  "withdrawn_pool b tokens p =
     p\<lparr>pl_reserve0 := to_fixed8 b (bn_minus (pl_reserve0 p) (share_of b tokens p (pl_reserve0 p))),
       pl_reserve1 := to_fixed8 b (bn_minus (pl_reserve1 p) (share_of b tokens p (pl_reserve1 p))),
       pl_total_liquidity := to_fixed8 b (bn_minus (pl_total_liquidity p) tokens)\<rparr>"

definition withdrawn_position :: "amm_env \<Rightarrow> bignum \<Rightarrow> liquidity_position \<Rightarrow> liquidity_position" where
  "withdrawn_position env tokens q =
     (let left = to_fixed8 (ae_bn env) (bn_minus (lp_tokens q) tokens);
          q' = q\<lparr>lp_tokens := left\<rparr>
      in if left = Fin 0 then q'\<lparr>lp_active := False, lp_removed_at := Some (ae_now env)\<rparr> else q')"

definition remove_liquidity :: "amm_env \<Rightarrow> remove_liquidity_dto \<Rightarrow> string \<Rightarrow> (bignum \<times> bignum) amm_handler" where
  "remove_liquidity env dto user_id =
     and_then (get_pool (rm_pool_id dto)) (\<lambda>p s.
       case find_position (rm_pool_id dto) user_id s of
         None \<Rightarrow> throw (NotFound ''Liquidity position not found'') s
       | Some q \<Rightarrow>
           let b = ae_bn env;
               amount0 = share_of b (rm_tokens dto) p (pl_reserve0 p);
               amount1 = share_of b (rm_tokens dto) p (pl_reserve1 p)
           in if bn_less (lp_tokens q) (rm_tokens dto) then throw (BadRequest ''Insufficient LP tokens'') s
              else if \<exists>m \<in> set_option (rm_min0 dto). bn_less amount0 m
              then throw (BadRequest ''Slippage exceeded for token0'') s
              else if \<exists>m \<in> set_option (rm_min1 dto). bn_less amount1 m
              then throw (BadRequest ''Slippage exceeded for token1'') s
              else and_then (save_pool (withdrawn_pool b (rm_tokens dto) p))
                     (\<lambda>_. and_then (save_position (withdrawn_position env (rm_tokens dto) q))
                        (\<lambda>_. done_with (to_fixed8 b amount0, to_fixed8 b amount1))) s)"

definition get_position :: "string \<Rightarrow> string \<Rightarrow> liquidity_position amm_handler" where
  "get_position pool_id user_id s =
     (case find_position pool_id user_id s of
        None \<Rightarrow> throw (NotFound ''Position not found'') s | Some q \<Rightarrow> done_with q s)"

definition update_pool_status :: "string \<Rightarrow> pool_status \<Rightarrow> string option \<Rightarrow> amm_pool amm_handler" where
  "update_pool_status pool_id status reason =
     and_then (get_pool pool_id) (\<lambda>p.
       save_pool (if status = PoolPaused \<and> present reason
                  then p\<lparr>pl_status := status, pl_pause_reason := reason\<rparr> else p\<lparr>pl_status := status\<rparr>))"

definition get_all_pools :: "string option \<Rightarrow> amm_state \<Rightarrow> amm_pool list" where
  "get_all_pools deal_id s =
     (if present deal_id then find_where (\<lambda>p. Some (pl_deal_id p) = deal_id) (am_pools s) else am_pools s)"

subsection \<open>Swaps\<close>

record swap_dto =
  sd_pool_id :: string
  sd_amount_in :: bignum
  sd_direction :: swap_direction
  sd_minimum_out :: "bignum option"
  sd_slippage_pct :: "bignum option"

definition quote_of :: "bn_ops \<Rightarrow> amm_pool \<Rightarrow> bignum \<Rightarrow> swap_direction \<Rightarrow> pricing" where
  "quote_of b p amount_in direction =
     calculate_price b (pl_model p) (pl_reserve0 p) (pl_reserve1 p) amount_in direction (pl_fee p)"

definition get_swap_quote :: "amm_env \<Rightarrow> string \<Rightarrow> bignum \<Rightarrow> swap_direction \<Rightarrow> pricing amm_handler" where
  "get_swap_quote env pool_id amount_in direction s =
     (case find_pool pool_id s of
        None \<Rightarrow> throw (NotFound ''Pool not found'') s
      | Some p \<Rightarrow> done_with (quote_of (ae_bn env) p amount_in direction) s)"

definition minimum_out :: "bn_ops \<Rightarrow> swap_dto \<Rightarrow> bignum \<Rightarrow> bignum option" where
  "minimum_out b dto amount_out =
     (case sd_minimum_out dto of
        Some m \<Rightarrow> Some m
      | None \<Rightarrow>
          map_option (\<lambda>slippage.
              to_fixed8 b (bn_times amount_out (bn_quot b (bn_minus (Fin 100) slippage) (Fin 100))))
            (sd_slippage_pct dto))"

definition below_minimum :: "bn_ops \<Rightarrow> swap_dto \<Rightarrow> bignum \<Rightarrow> bool" where
  "below_minimum b dto amount_out \<longleftrightarrow> (\<exists>m \<in> set_option (minimum_out b dto amount_out). bn_less amount_out m)"

definition swapped_pool :: "bn_ops \<Rightarrow> swap_dto \<Rightarrow> pricing \<Rightarrow> amm_pool \<Rightarrow> amm_pool" where
  "swapped_pool b dto quote p =
     (let p1 =
        (case sd_direction dto of
           Token0ToToken1 \<Rightarrow>
             p\<lparr>pl_reserve0 := to_fixed8 b (bn_plus (pl_reserve0 p) (sd_amount_in dto)),
               pl_reserve1 := to_fixed8 b (bn_minus (pl_reserve1 p) (pr_amount_out quote)),
               pl_fees0 := to_fixed8 b (bn_plus (pl_fees0 p) (pr_fee_paid quote))\<rparr>
         | Token1ToToken0 \<Rightarrow>
             p\<lparr>pl_reserve0 := to_fixed8 b (bn_minus (pl_reserve0 p) (pr_amount_out quote)),
               pl_reserve1 := to_fixed8 b (bn_plus (pl_reserve1 p) (sd_amount_in dto)),
               pl_fees1 := to_fixed8 b (bn_plus (pl_fees1 p) (pr_fee_paid quote))\<rparr>)
      in p1\<lparr>pl_volume_24h := to_fixed8 b (bn_plus (pl_volume_24h p) (sd_amount_in dto))\<rparr>)"

text \<open>The created object: its field is called \<open>feePaid\<close>, the column \<open>feesPaid\<close>, which stays unset.\<close>

definition new_swap :: "bn_ops \<Rightarrow> swap_dto \<Rightarrow> string \<Rightarrow> pricing \<Rightarrow> amm_swap" where
  "new_swap b dto user_id quote =
     \<lparr>sw_id = '''', sw_pool_id = sd_pool_id dto, sw_user_id = user_id, sw_direction = sd_direction dto,
      sw_amount_in = to_fixed8 b (sd_amount_in dto), sw_amount_out = to_fixed8 b (pr_amount_out quote),
      sw_price = pr_price quote, sw_impact = pr_impact quote, sw_fees_paid = None,
      sw_minimum_out = minimum_out b dto (pr_amount_out quote),
      sw_slippage_exceeded = below_minimum b dto (pr_amount_out quote), sw_status = SwapCompleted\<rparr>"

definition execute_swap :: "amm_env \<Rightarrow> swap_dto \<Rightarrow> string \<Rightarrow> amm_swap amm_handler" where
  "execute_swap env dto user_id s =
     (case find_pool (sd_pool_id dto) s of
        None \<Rightarrow> throw (NotFound ''Pool not found'') s
      | Some p \<Rightarrow>
          let b = ae_bn env;
              quote = quote_of b p (sd_amount_in dto) (sd_direction dto)
          in if below_minimum b dto (pr_amount_out quote) \<and> or_number (sd_slippage_pct dto) (Fin 0) = Fin 0
             then throw (BadRequest ''Slippage exceeded'') s
             else and_then (save_pool (swapped_pool b dto quote p))
                    (\<lambda>_. add_swap env (new_swap b dto user_id quote)) s)"

definition page_of :: "nat \<Rightarrow> nat \<Rightarrow> 'r list \<Rightarrow> 'r list \<times> nat" where
  "page_of limit offset rows = (take limit (drop offset (rev rows)), length rows)"

definition get_swap_history :: "string \<Rightarrow> nat \<Rightarrow> nat \<Rightarrow> amm_state \<Rightarrow> amm_swap list \<times> nat" where
  "get_swap_history pool_id limit offset s =
     page_of limit offset (find_where (\<lambda>w. sw_pool_id w = pool_id) (am_swaps s))"

definition get_user_swaps :: "string \<Rightarrow> nat \<Rightarrow> nat \<Rightarrow> amm_state \<Rightarrow> amm_swap list \<times> nat" where
  "get_user_swaps user_id limit offset s =
     page_of limit offset (find_where (\<lambda>w. sw_user_id w = user_id) (am_swaps s))"

subsection \<open>Mining rewards\<close>

definition day_ms :: int where
  "day_ms = 24 * 60 * 60 * 1000"

definition or_one :: "bignum \<Rightarrow> bignum" where
  "or_one v = (if v = Fin 0 then Fin 1 else v)"

definition reward_amount :: "bn_ops \<Rightarrow> amm_pool \<Rightarrow> bignum \<Rightarrow> liquidity_position \<Rightarrow> bignum" where
  "reward_amount b p total_reward q =
     to_fixed8 b (bn_times total_reward (bn_quot b (lp_tokens q) (pl_total_liquidity p)))"

definition new_reward :: "amm_env \<Rightarrow> string \<Rightarrow> bignum \<Rightarrow> liquidity_position \<Rightarrow> mining_reward" where
  "new_reward env pool_id amount q =
     (let b = ae_bn env
      in \<lparr>mr_id = '''', mr_pool_id = pool_id, mr_user_id = lp_user_id q, mr_amount = amount,
          mr_apy = bn_number b (bn_times (bn_quot b (bn_times amount (Fin 365))
                     (or_one (bn_plus (lp_value0 q) (lp_value1 q)))) (Fin 100)),
          mr_period_start = ae_now env - day_ms, mr_period_end = ae_now env, mr_vested = False,
          mr_vesting_pct = Fin 0, mr_claimed = False, mr_claimed_at = None, mr_claim_tx = None\<rparr>)"

definition pool_apr :: "bn_ops \<Rightarrow> amm_pool \<Rightarrow> bignum \<Rightarrow> bignum" where
  "pool_apr b p total_reward =
     bn_number b (bn_times (bn_times (bn_quot b (bn_plus (pl_fee_collected p) total_reward)
       (or_one (bn_plus (pl_reserve0 p) (pl_reserve1 p)))) (Fin 100)) (Fin 365))"

fun reward_positions :: "amm_env \<Rightarrow> bignum \<Rightarrow> liquidity_position list \<Rightarrow> amm_pool \<Rightarrow> amm_pool amm_handler" where
  "reward_positions env total_reward [] p = done_with p"
| "reward_positions env total_reward (q # qs) p =
     (let b = ae_bn env;
          amount = reward_amount b p total_reward q
      in and_then (add_reward env (new_reward env (pl_id p) amount q))
           (\<lambda>_. and_then (save_position (q\<lparr>lp_rewards := to_fixed8 b (bn_plus (lp_rewards q) amount)\<rparr>))
              (\<lambda>_. reward_positions env total_reward qs (p\<lparr>pl_apr := pool_apr b p total_reward\<rparr>))))"

definition distribute_for_pool :: "amm_env \<Rightarrow> string \<Rightarrow> unit amm_handler" where
  "distribute_for_pool env pool_id s =
     (case find_pool pool_id s of
        None \<Rightarrow> done_with () s
      | Some p \<Rightarrow>
          and_then (reward_positions env (bn_times (pl_volume_24h p) (Fin (1 / 1000)))
                      (find_where (\<lambda>q. lp_pool_id q = pool_id \<and> lp_active q) (am_positions s)) p)
            (\<lambda>p'. and_then (save_pool p') (\<lambda>_. done_with ())) s)"

fun distribute_each :: "amm_env \<Rightarrow> amm_pool list \<Rightarrow> unit amm_handler" where
  "distribute_each env [] = done_with ()"
| "distribute_each env (p # ps) = and_then (distribute_for_pool env (pl_id p)) (\<lambda>_. distribute_each env ps)"

definition distribute_mining_rewards :: "amm_env \<Rightarrow> unit amm_handler" where
  "distribute_mining_rewards env s =
     distribute_each env (find_where (\<lambda>p. pl_status p = PoolActive) (am_pools s)) s"

definition claimable :: "string \<Rightarrow> amm_state \<Rightarrow> mining_reward list" where
  "claimable user_id s = find_where (\<lambda>r. mr_user_id r = user_id \<and> \<not> mr_claimed r \<and> mr_vested r) (am_rewards s)"

definition reward_total :: "bn_ops \<Rightarrow> mining_reward list \<Rightarrow> bignum" where
  "reward_total b rewards = foldl (\<lambda>sum r. to_fixed8 b (bn_plus sum (mr_amount r))) (Fin 0) rewards"

definition get_claimable_rewards :: "amm_env \<Rightarrow> string \<Rightarrow> amm_state \<Rightarrow> bignum" where
  "get_claimable_rewards env user_id s = reward_total (ae_bn env) (claimable user_id s)"

fun claim_each :: "amm_env \<Rightarrow> string \<Rightarrow> mining_reward list \<Rightarrow> unit amm_handler" where
  "claim_each env tx [] = done_with ()"
| "claim_each env tx (r # rs) =
     and_then (save_reward (r\<lparr>mr_claimed := True, mr_claimed_at := Some (ae_now env), mr_claim_tx := Some tx\<rparr>))
       (\<lambda>_. claim_each env tx rs)"

definition claim_rewards :: "amm_env \<Rightarrow> string \<Rightarrow> (bignum \<times> string) amm_handler" where
  "claim_rewards env user_id s =
     (let rewards = claimable user_id s;
          tx = ''0x'' @ ae_random env
      in and_then (claim_each env tx rewards)
           (\<lambda>_. done_with (reward_total (ae_bn env) rewards, tx)) s)"

definition get_reward_history :: "string \<Rightarrow> nat \<Rightarrow> amm_state \<Rightarrow> mining_reward list \<times> nat" where
  "get_reward_history user_id limit s = page_of limit 0 (find_where (\<lambda>r. mr_user_id r = user_id) (am_rewards s))"

subsection \<open>Every operation as a step\<close>

inductive amm_step :: "amm_state \<Rightarrow> amm_state \<Rightarrow> bool" where
  create: "amm_step s (snd (create_pool env dto creator_id s))"
| add: "amm_step s (snd (add_liquidity env dto user_id s))"
| remove: "amm_step s (snd (remove_liquidity env dto user_id s))"
| status: "amm_step s (snd (update_pool_status pool_id st reason s))"
| swap: "amm_step s (snd (execute_swap env dto user_id s))"
| rewards: "amm_step s (snd (distribute_mining_rewards env s))"
| claim: "amm_step s (snd (claim_rewards env user_id s))"

end
