(* ===== verification/AmmProps.thy ===== *)
theory AmmProps
  imports Amm
begin

text \<open>
  What holds of the market maker: invariants of all its operations, from the locale
  \<open>amm_invariant\<close>; the failure of every swap after its effect on the pool; the product of the
  reserves under the constant product formula; what the other formulas and the withdrawal do.
\<close>

subsection \<open>Invariants of the operations\<close>

text \<open>A property of the store that every single write of the services keeps is kept by every operation.\<close>

locale amm_invariant =
  fixes I :: "amm_state \<Rightarrow> bool"
  assumes pool_saved: "I s \<Longrightarrow> I (snd (save_pool p s))"
    and pool_added: "I s \<Longrightarrow> I (snd (add_pool env p s))"
    and position_saved: "I s \<Longrightarrow> I (snd (save_position q s))"
    and position_added: "I s \<Longrightarrow> I (snd (add_position env q s))"
    and reward_added: "I s \<Longrightarrow> \<not> mr_vested r \<Longrightarrow> I (snd (add_reward env r s))"
    and swap_added: "I s \<Longrightarrow> sw_fees_paid w = None \<Longrightarrow> I (snd (add_swap env w s))"
    and reward_saved:
      "I s \<Longrightarrow> r \<in> set (am_rewards s) \<Longrightarrow> mr_vested r \<Longrightarrow> mr_vested r' \<Longrightarrow> I t \<Longrightarrow> I (snd (save_reward r' t))"
begin

lemma then_keeps: "I (snd (m s)) \<Longrightarrow> (\<And>x t. I t \<Longrightarrow> I (snd (k x t))) \<Longrightarrow> I (snd (and_then m k s))"
  by (auto simp: and_then_def split: prod.splits sum.splits)

lemma get_pool_keeps: "I s \<Longrightarrow> I (snd (get_pool i s))"
  by (simp add: get_pool_def split: option.split)

lemma create_keeps: "I s \<Longrightarrow> I (snd (create_pool env dto u s))"
  by (simp add: create_pool_def pool_added)

lemma add_keeps: "I s \<Longrightarrow> I (snd (add_liquidity env dto u s))"
  unfolding add_liquidity_def
  by (rule then_keeps) (simp_all add: get_pool_keeps Let_def then_keeps pool_saved position_added)

lemma remove_keeps: "I s \<Longrightarrow> I (snd (remove_liquidity env dto u s))"
  unfolding remove_liquidity_def
  by (rule then_keeps)
     (simp_all add: get_pool_keeps Let_def then_keeps pool_saved position_saved split: option.split)

lemma status_keeps: "I s \<Longrightarrow> I (snd (update_pool_status i st reason s))"
  unfolding update_pool_status_def by (rule then_keeps) (simp_all add: get_pool_keeps pool_saved)

lemma swap_keeps: "I s \<Longrightarrow> I (snd (execute_swap env dto u s))"
  by (simp add: execute_swap_def Let_def then_keeps pool_saved swap_added new_swap_def split: option.split)

lemma reward_positions_keeps: "I s \<Longrightarrow> I (snd (reward_positions env total_reward qs p s))"
  by (induction qs arbitrary: p s)
     (simp_all add: Let_def then_keeps reward_added position_saved new_reward_def)

lemma distribute_keeps: "I s \<Longrightarrow> I (snd (distribute_for_pool env i s))"
  by (simp add: distribute_for_pool_def then_keeps reward_positions_keeps pool_saved split: option.split)

lemma distribute_each_keeps: "I s \<Longrightarrow> I (snd (distribute_each env ps s))"
  by (induction ps arbitrary: s) (simp_all add: then_keeps distribute_keeps)

lemma claim_each_keeps:
  "I s \<Longrightarrow> set rs \<subseteq> {r \<in> set (am_rewards s). mr_vested r} \<Longrightarrow> I t \<Longrightarrow> I (snd (claim_each env tx rs t))"
proof (induction rs arbitrary: t)
  case (Cons r rs)
  then have r: "r \<in> set (am_rewards s)" "mr_vested r" by auto
  show ?case
    unfolding claim_each.simps
    by (rule then_keeps, rule reward_saved [OF Cons.prems(1) r]) (use Cons r in auto)
qed simp

lemma claim_keeps: "I s \<Longrightarrow> I (snd (claim_rewards env u s))"
  unfolding claim_rewards_def Let_def
  by (rule then_keeps, rule claim_each_keeps) (auto simp: claimable_def find_where_def)

lemma step_keeps: "amm_step s t \<Longrightarrow> I s \<Longrightarrow> I t"
  by (induction rule: amm_step.induct)
     (simp_all add: create_keeps add_keeps remove_keeps status_keeps swap_keeps claim_keeps
        distribute_mining_rewards_def distribute_each_keeps)

lemma reachable_keeps: "amm_step\<^sup>*\<^sup>* s t \<Longrightarrow> I s \<Longrightarrow> I t"
  by (induction rule: rtranclp_induct) (auto intro: step_keeps)

end

lemmas amm_writes =
  save_pool_def add_pool_def save_position_def add_position_def add_reward_def add_swap_def save_reward_def

text \<open>Every stored row is one that its columns keep as it is.\<close>

definition rows_in_range :: "amm_state \<Rightarrow> bool" where
  "rows_in_range s \<longleftrightarrow>
     (\<forall>p \<in> set (am_pools s). pool_fits p \<and> pool_row p = p) \<and>
     (\<forall>q \<in> set (am_positions s). position_fits q \<and> position_row q = q) \<and>
     (\<forall>w \<in> set (am_swaps s). swap_fits w \<and> swap_row w = w) \<and>
     (\<forall>r \<in> set (am_rewards s). reward_fits r \<and> reward_row r = r)"

lemma pool_row_fits: "pool_fits p \<Longrightarrow> pool_fits (pool_row p) \<and> pool_row (pool_row p) = pool_row p"
  by (simp add: pool_fits_def pool_row_def)

lemma position_row_fits: "position_fits q \<Longrightarrow> position_fits (position_row q) \<and> position_row (position_row q) = position_row q"
  by (simp add: position_fits_def position_row_def)

lemma reward_row_fits: "reward_fits r \<Longrightarrow> reward_fits (reward_row r) \<and> reward_row (reward_row r) = reward_row r"
  by (simp add: reward_fits_def reward_row_def)

interpretation rng: amm_invariant rows_in_range
  by unfold_locales
     (auto simp: rows_in_range_def amm_writes Let_def set_update_where pool_row_fits position_row_fits
        reward_row_fits swap_fits_def)

interpretation unvested: amm_invariant "\<lambda>s. \<forall>r \<in> set (am_rewards s). \<not> mr_vested r"
  by unfold_locales (auto simp: amm_writes Let_def set_update_where reward_row_def)

interpretation same_swaps: amm_invariant "\<lambda>s. am_swaps s = ws" for ws
  by unfold_locales (auto simp: amm_writes Let_def swap_fits_def)

definition no_rows :: "trade_deal list \<Rightarrow> amm_state" where
  "no_rows deals = \<lparr>am_deals = deals, am_pools = [], am_positions = [], am_swaps = [], am_rewards = [], am_next = 0\<rparr>"

subsection \<open>Rows, swaps and rewards\<close>

definition example_deal :: trade_deal where
  "example_deal = \<lparr>td_id = ''d'', td_commodity = ''maize'', td_total_value = 100, td_token_count = 10,
     td_token_symbol = ''T'', td_status = DealOpen, td_farmer_id = ''f'', td_trader_id = ''t'',
     td_escrow_public_key = None, td_escrow_secret_key = None, td_issuer_public_key = None,
     td_issuer_secret_key = None, td_total_invested = 0, td_app_trace_id = None, td_min_lot_size = None,
     td_lot_step = None, td_milestone_release_pct = 0, td_minimum_tier = None, td_deleted = False\<rparr>"

definition example_amm_env :: amm_env where
  "example_amm_env = \<lparr>ae_bn = decimal_ops, ae_new_id = (\<lambda>n. replicate (Suc n) CHR ''i''), ae_now = 0, ae_random = ''1''\<rparr>"

definition example_pool :: amm_pool where
  "example_pool = \<lparr>pl_id = ''i'', pl_deal_id = ''d'', pl_creator_id = ''u'', pl_reserve0 = Fin 100, pl_reserve1 = Fin 200,
     pl_fee = Fin 1, pl_fees0 = Fin 0, pl_fees1 = Fin 0, pl_model = StableSwap, pl_amplification = Fin 1,
     pl_min_initial = Fin 0, pl_status = PoolActive, pl_total_liquidity = Fin 141, pl_volume_24h = Fin 0,
     pl_fee_collected = Fin 0, pl_apr = Fin 0, pl_pause_reason = None, pl_metadata = ''{}''\<rparr>"



text \<open>
  No mining reward can ever be claimed. From a store without rewards no operation of the services
  makes a vested reward, so the claimable amount of every user stays zero and a claim pays nothing.
\<close>
theorem rewards_are_never_claimable:
  assumes "amm_step\<^sup>*\<^sup>* (no_rows deals) s"
  shows "get_claimable_rewards env user_id s = Fin 0
    \<and> (\<exists>tx. claim_rewards env user_id s = (Inr (Fin 0, tx), s))"
proof -
  have "\<forall>r \<in> set (am_rewards s). \<not> mr_vested r"
    using assms by (rule unvested.reachable_keeps) (simp add: no_rows_def)
  then have "claimable user_id s = []" by (auto simp: claimable_def find_where_def filter_empty_conv)
  then show ?thesis by (simp add: get_claimable_rewards_def claim_rewards_def reward_total_def)
qed

theorem rewards_are_never_claimable_witness:
  "get_claimable_rewards example_amm_env ''u''
     (snd (distribute_mining_rewards example_amm_env (no_rows [example_deal]))) = Fin 0"
  by (rule rewards_are_never_claimable [THEN conjunct1], rule r_into_rtranclp, rule rewards)

lemma new_swap_refused: "add_swap env (new_swap b dto user_id quote) t = (Inl storage_error, t)"
  by (simp add: add_swap_def new_swap_def swap_fits_def Let_def)

lemma swapped_pool_id [simp]: "pl_id (swapped_pool b dto quote p) = pl_id p"
  by (simp add: swapped_pool_def Let_def split: swap_direction.split)

lemma execute_swap_effect:
  assumes "find_pool (sd_pool_id dto) s = Some p"
    and "quote = quote_of (ae_bn env) p (sd_amount_in dto) (sd_direction dto)"
    and "\<not> below_minimum (ae_bn env) dto (pr_amount_out quote)"
    and "pool_fits (swapped_pool (ae_bn env) dto quote p)"
  shows "execute_swap env dto user_id s =
      (Inl storage_error,
       s\<lparr>am_pools := update_where (\<lambda>r. pl_id r = pl_id p)
           (\<lambda>_. pool_row (swapped_pool (ae_bn env) dto quote p)) (am_pools s)\<rparr>)"
  using assms by (simp add: execute_swap_def Let_def and_then_def save_pool_def new_swap_refused)

text \<open>
  Every swap fails, and one that passes the slippage check fails after it has changed the pool:
  the swap row is created without its mandatory column, so saving it throws, and the reserves,
  fees and volume of the pool have been saved before. Nothing undoes them and no swap is recorded.
\<close>
theorem swap_fails_after_moving_the_pool:
  assumes "find_pool (sd_pool_id dto) s = Some p"
    and "quote = quote_of (ae_bn env) p (sd_amount_in dto) (sd_direction dto)"
    and "\<not> below_minimum (ae_bn env) dto (pr_amount_out quote)"
    and "pool_fits (swapped_pool (ae_bn env) dto quote p)"
  shows "execute_swap env dto user_id s =
      (Inl storage_error,
       s\<lparr>am_pools := update_where (\<lambda>r. pl_id r = pl_id p)
           (\<lambda>_. pool_row (swapped_pool (ae_bn env) dto quote p)) (am_pools s)\<rparr>)
    \<and> (\<forall>dto' user' t. \<exists>e. fst (execute_swap env dto' user' t) = Inl e)"
  by (rule conjI [OF execute_swap_effect [OF assms]])
     (auto simp: execute_swap_def Let_def and_then_def save_pool_def new_swap_refused split: option.split)

definition example_swap :: "rat \<Rightarrow> swap_dto" where
  "example_swap n = \<lparr>sd_pool_id = ''i'', sd_amount_in = Fin n, sd_direction = Token0ToToken1, sd_minimum_out = None, sd_slippage_pct = None\<rparr>"

definition example_market :: amm_state where
  "example_market = (no_rows [])\<lparr>am_pools := [example_pool]\<rparr>"

theorem swap_fails_after_moving_the_pool_witness:
  "map (\<lambda>p. (pl_reserve0 p, pl_reserve1 p, pl_fees0 p, pl_volume_24h p))
     (am_pools (snd (execute_swap example_amm_env (example_swap 10) ''u'' example_market)))
   = [(Fin 110, Fin (1901 / 10), Fin (1 / 10), Fin 10)]"
proof -
  have "execute_swap example_amm_env (example_swap 10) ''u'' example_market
      = (Inl storage_error,
         example_market\<lparr>am_pools := update_where (\<lambda>r. pl_id r = pl_id example_pool)
           (\<lambda>_. pool_row (swapped_pool (ae_bn example_amm_env) (example_swap 10)
              (quote_of decimal_ops example_pool (Fin 10) Token0ToToken1) example_pool)) (am_pools example_market)\<rparr>)"
    by (rule swap_fails_after_moving_the_pool [THEN conjunct1]) (code_simp+)
  then show ?thesis by (simp only: snd_conv) code_simp
qed

subsection \<open>Prices\<close>

lemma after_fee_Fin:
  "after_fee b (Fin n) (Fin f) = Fin (n * (1 - bn_div b f 100))"
  by (simp add: after_fee_def)

context bignumber
begin

lemma fixed_diff_exact: "bn_fixed b x = x \<Longrightarrow> bn_fixed b (x - bn_fixed b y) = x - bn_fixed b y"
proof -
  assume "bn_fixed b x = x"
  then obtain m n where "x = of_int m / 10 ^ 8" "bn_fixed b y = of_int n / 10 ^ 8"
    using fixed_places by metis
  then have "x - bn_fixed b y = of_int (m - n) / 10 ^ 8" by (simp add: diff_divide_distrib)
  then show ?thesis by (simp only: fixed_exact)
qed

lemma fixed_sum_exact: "bn_fixed b x = x \<Longrightarrow> bn_fixed b y = y \<Longrightarrow> bn_fixed b (x + y) = x + y"
  using fixed_add_exact [of x y] by simp

text \<open>A value that is hardly below zero is printed as zero at least.\<close>

lemma fixed_almost_nonneg: "- (1 / (2 * 10 ^ 20)) \<le> x \<Longrightarrow> 0 \<le> bn_fixed b x"
proof -
  assume "- (1 / (2 * 10 ^ 20)) \<le> x"
  moreover obtain n where n: "bn_fixed b x = of_int n / 10 ^ 8" using fixed_places by blast
  ultimately have "- (1 / (2 * 10 ^ 20)) - 1 / (2 * 10 ^ 8) \<le> (of_int n / 10 ^ 8 :: rat)"
    using fixed_near [of x] by linarith
  moreover have "- (1 / 10 ^ 8) < - (1 / (2 * 10 ^ 20)) - (1 / (2 * 10 ^ 8) :: rat)" by simp
  ultimately have "- (1 / 10 ^ 8) < (of_int n / 10 ^ 8 :: rat)" by linarith
  then have "(- 1 :: rat) < of_int n" by simp
  then have "0 \<le> n" by linarith
  then show ?thesis by (simp add: n)
qed

lemma fee_multiplier: "0 \<le> f \<Longrightarrow> f \<le> 99 \<Longrightarrow> 0 \<le> 1 - bn_div b f 100 \<and> 1 - bn_div b f 100 \<le> 1"
proof -
  assume f: "0 \<le> f" "f \<le> 99"
  have "bn_div b f 100 \<le> f / 100 + 1 / (2 * 10 ^ 20)" using div_near [of 100 f] by linarith
  moreover have "f / 100 + 1 / (2 * 10 ^ 20) \<le> (1 :: rat)" using f by simp
  ultimately show ?thesis using div_nonneg [of f 100] f by linarith
qed

text \<open>
  One side of the constant product: \<open>x\<close> and \<open>y\<close> the reserves of what is paid in and out, \<open>m\<close> of
  the \<open>n\<close> paid in counted by the formula.
\<close>

lemma product_kept:
  fixes x y m n :: rat
  assumes "0 < x" "0 \<le> y" "bn_fixed b y = y" "0 \<le> m" "m \<le> n"
  defines "a \<equiv> bn_fixed b (y - bn_div b (x * y) (x + m))"
  shows "0 \<le> a \<and> a \<le> y \<and> x * y \<le> (x + n) * (y - a) + (x + n) * (1 / (2 * 10 ^ 8) + 1 / (2 * 10 ^ 20))"
proof -
  define e where "e = (1 / (2 * 10 ^ 20) :: rat)"
  define e8 where "e8 = (1 / (2 * 10 ^ 8) :: rat)"
  define D where "D = bn_div b (x * y) (x + m)"
  have D: "\<bar>D - x * y / (x + m)\<bar> \<le> e" using div_near [of "x + m" "x * y"] assms by (simp add: D_def e_def)
  have near: "\<bar>a - (y - D)\<bar> \<le> e8" using fixed_near by (simp add: a_def D_def e8_def)
  have "x * y / (x + m) \<le> y" using assms by (simp add: divide_le_eq mult.commute [of x y] mult_left_mono)
  then have "- e \<le> y - D" using D by linarith
  then have a0: "0 \<le> a" unfolding a_def D_def e_def by (rule fixed_almost_nonneg)
  have "0 \<le> D" unfolding D_def using assms by (intro div_nonneg) simp_all
  then have ay: "a \<le> y" using fixed_mono [of "y - D" y] assms(3) by (simp add: a_def D_def)
  have "x * y / (x + m) \<le> (y - a) + (e8 + e)" using D near by linarith
  then have "x * y / (x + m) * (x + n) \<le> ((y - a) + (e8 + e)) * (x + n)"
    using assms by (intro mult_right_mono) simp_all
  moreover have "x * y / (x + m) * (x + m) \<le> x * y / (x + m) * (x + n)"
    using assms by (intro mult_left_mono) simp_all
  ultimately have "x * y \<le> ((y - a) + (e8 + e)) * (x + n)" using assms by simp
  also have "\<dots> = (x + n) * (y - a) + (x + n) * (e8 + e)" by (simp add: algebra_simps)
  finally show ?thesis using a0 ay by (simp only: e_def e8_def)
qed

end

definition reserve_in :: "swap_direction \<Rightarrow> amm_pool \<Rightarrow> bignum" where
  "reserve_in direction p = (case direction of Token0ToToken1 \<Rightarrow> pl_reserve0 p | Token1ToToken0 \<Rightarrow> pl_reserve1 p)"

definition reserve_out :: "swap_direction \<Rightarrow> amm_pool \<Rightarrow> bignum" where
  "reserve_out direction p = (case direction of Token0ToToken1 \<Rightarrow> pl_reserve1 p | Token1ToToken0 \<Rightarrow> pl_reserve0 p)"



text \<open>
  The stable swap formula pays the input less the fee whatever the reserves are: an input that
  exceeds the other reserve is accepted and leaves a negative reserve in the stored pool.
\<close>
theorem stable_swap_overdraws_reserve:
  assumes "bignumber (ae_bn env)" "find_pool (sd_pool_id dto) s = Some p"
    and "pl_model p = StableSwap" "pl_reserve0 p = Fin x" "pl_reserve1 p = Fin y" "pl_fee p = Fin f"
    and "sd_direction dto = Token0ToToken1" "sd_amount_in dto = Fin n" "sd_minimum_out dto = None" "sd_slippage_pct dto = None"
    and "bn_fixed (ae_bn env) y = y"
    and over: "y < bn_fixed (ae_bn env) (n * (1 - bn_div (ae_bn env) f 100))"
    and fits: "pool_fits (swapped_pool (ae_bn env) dto (quote_of (ae_bn env) p (Fin n) Token0ToToken1) p)"
  shows "\<exists>p' v. p' \<in> set (am_pools (snd (execute_swap env dto user_id s))) \<and> pl_id p' = pl_id p
    \<and> pl_reserve1 p' = Fin v \<and> v < 0"
proof -
  define b where "b = ae_bn env"
  define a where "a = bn_fixed b (n * (1 - bn_div b f 100))"
  define q where "q = quote_of b p (Fin n) Token0ToToken1"
  define p' where "p' = pool_row (swapped_pool b dto q p)"
  have out: "pr_amount_out q = Fin a"
    using assms by (simp add: q_def quote_of_def stable_swap_price_def Let_def after_fee_Fin a_def)
  obtain k where "y - a = of_int k / 10 ^ 8"
    using bignumber.fixed_diff_exact [OF assms(1,11)] bignumber.fixed_places [OF assms(1)]
    by (metis a_def b_def)
  then have row: "half_up 8 (y - a) = y - a" by (simp only: half_up_exact)
  have "bn_fixed b (y - a) = y - a"
    unfolding a_def b_def using assms(1,11) by (rule bignumber.fixed_diff_exact)
  then have "pl_reserve1 p' = Fin (y - a)"
    using assms(5,7) out row by (simp add: p'_def pool_row_def swapped_pool_def Let_def)
  moreover have "pl_id p' = pl_id p" using assms(7) by (simp add: p'_def pool_row_def swapped_pool_def Let_def)
  moreover have "y - a < 0" using over by (simp add: a_def b_def)
  moreover have "\<not> below_minimum b dto (pr_amount_out q)" using assms(9,10) by (simp add: below_minimum_def minimum_out_def)
  then have "execute_swap env dto user_id s = (Inl storage_error,
      s\<lparr>am_pools := update_where (\<lambda>r. pl_id r = pl_id p) (\<lambda>_. p') (am_pools s)\<rparr>)"
    unfolding p'_def b_def using assms(7,8) fits
    by (intro execute_swap_effect [OF assms(2)]) (simp_all add: q_def b_def)
  then have "p' \<in> set (am_pools (snd (execute_swap env dto user_id s)))"
    using find_one_SomeD [OF assms(2) [unfolded find_pool_def]] by (auto simp: set_update_where)
  ultimately show ?thesis by blast
qed

theorem stable_swap_overdraws_reserve_witness:
  "\<exists>p' v. p' \<in> set (am_pools (snd (execute_swap example_amm_env (example_swap 300) ''u'' example_market)))
    \<and> pl_id p' = ''i'' \<and> pl_reserve1 p' = Fin v \<and> v < 0"
proof -
  have "\<exists>p' v. p' \<in> set (am_pools (snd (execute_swap example_amm_env (example_swap 300) ''u'' example_market)))
    \<and> pl_id p' = pl_id example_pool \<and> pl_reserve1 p' = Fin v \<and> v < 0"
  proof (rule stable_swap_overdraws_reserve [where x = 100 and y = 200 and f = 1 and n = 300])
    show "bignumber (ae_bn example_amm_env)" by (simp add: example_amm_env_def bn.bignumber_axioms)
    show "bn_fixed (ae_bn example_amm_env) 200 = 200" by code_simp
    show "200 < bn_fixed (ae_bn example_amm_env) (300 * (1 - bn_div (ae_bn example_amm_env) 1 100))" by code_simp
    show "pool_fits (swapped_pool (ae_bn example_amm_env) (example_swap 300)
        (quote_of (ae_bn example_amm_env) example_pool (Fin 300) Token0ToToken1) example_pool)" by code_simp
  qed (simp_all add: example_swap_def example_pool_def example_market_def no_rows_def find_pool_def find_one_def)
  then show ?thesis by (simp add: example_pool_def)
qed

subsection \<open>Liquidity\<close>

lemma remove_liquidity_effect:
  assumes "find_pool (rm_pool_id dto) s = Some p" "find_position (rm_pool_id dto) user_id s = Some q"
    and "\<not> bn_less (lp_tokens q) (rm_tokens dto)" "rm_min0 dto = None" "rm_min1 dto = None"
    and "pool_fits (withdrawn_pool (ae_bn env) (rm_tokens dto) p)"
    and "position_fits (withdrawn_position env (rm_tokens dto) q)"
  shows "remove_liquidity env dto user_id s =
     (Inr (to_fixed8 (ae_bn env) (share_of (ae_bn env) (rm_tokens dto) p (pl_reserve0 p)),
           to_fixed8 (ae_bn env) (share_of (ae_bn env) (rm_tokens dto) p (pl_reserve1 p))),
      s\<lparr>am_pools := update_where (\<lambda>r. pl_id r = pl_id p)
          (\<lambda>_. pool_row (withdrawn_pool (ae_bn env) (rm_tokens dto) p)) (am_pools s),
        am_positions := update_where (\<lambda>r. lp_id r = lp_id q)
          (\<lambda>_. position_row (withdrawn_position env (rm_tokens dto) q)) (am_positions s)\<rparr>)"
  using assms
  by (simp add: remove_liquidity_def and_then_def get_pool_def save_pool_def save_position_def Let_def
      withdrawn_pool_def withdrawn_position_def)

text \<open>
  The withdrawal accepts a negative number of tokens. It then adds that many tokens to the
  position of the caller, who has deposited nothing for them.
\<close>
theorem negative_withdrawal_mints_tokens:
  assumes "bignumber (ae_bn env)"
    and "find_pool (rm_pool_id dto) s = Some p" "find_position (rm_pool_id dto) user_id s = Some q"
    and "lp_tokens q = Fin l" "0 \<le> l" "bn_fixed (ae_bn env) l = l"
    and "rm_tokens dto = Fin (- n)" "0 < n" "bn_fixed (ae_bn env) n = n"
    and "rm_min0 dto = None" "rm_min1 dto = None"
    and "pool_fits (withdrawn_pool (ae_bn env) (rm_tokens dto) p)"
    and "position_fits (withdrawn_position env (rm_tokens dto) q)"
  shows "\<exists>amounts s' q'. remove_liquidity env dto user_id s = (Inr amounts, s')
    \<and> find_position (rm_pool_id dto) user_id s' = Some q' \<and> lp_tokens q' = Fin (l + n)"
proof -
  let ?w = "withdrawn_position env (rm_tokens dto) q"
  have sum: "bn_fixed (ae_bn env) (l + n) = l + n" using assms(1,6,9) by (rule bignumber.fixed_sum_exact)
  obtain k where "l + n = of_int k / 10 ^ 8" using sum bignumber.fixed_places [OF assms(1)] by metis
  then have row: "half_up 8 (l + n) = l + n" by (simp only: half_up_exact)
  have w: "lp_tokens (position_row ?w) = Fin (l + n)" "lp_active (position_row ?w) = lp_active q"
    "lp_pool_id (position_row ?w) = lp_pool_id q" "lp_user_id (position_row ?w) = lp_user_id q"
    using assms(4,5,7,8) sum row by (simp_all add: withdrawn_position_def position_row_def Let_def)
  have "lp_pool_id q = rm_pool_id dto \<and> lp_user_id q = user_id \<and> lp_active q"
    using find_one_SomeD [OF assms(3) [unfolded find_position_def]] by simp
  then have found: "find_position (rm_pool_id dto) user_id
      (s\<lparr>am_pools := ps, am_positions := update_where (\<lambda>r. lp_id r = lp_id q) (\<lambda>_. position_row ?w) (am_positions s)\<rparr>)
      = Some (position_row ?w)" for ps
    using find_one_replaced [OF assms(3) [unfolded find_position_def], of "position_row ?w" lp_id] w
    by (simp add: find_position_def)
  have "\<not> bn_less (lp_tokens q) (rm_tokens dto)" using assms(4,5,7,8) by simp
  from remove_liquidity_effect [OF assms(2,3) this assms(10-13)] found w(1) show ?thesis by blast
qed

definition example_position :: liquidity_position where
  "example_position = \<lparr>lp_id = ''j'', lp_pool_id = ''i'', lp_user_id = ''u'', lp_tokens = Fin 1, lp_deposit0 = Fin 1,
     lp_deposit1 = Fin 1, lp_value0 = Fin 1, lp_value1 = Fin 1, lp_rewards = Fin 0, lp_active = True, lp_removed_at = None\<rparr>"

theorem negative_withdrawal_mints_tokens_witness:
  "\<exists>amounts s' q'. remove_liquidity example_amm_env \<lparr>rm_pool_id = ''i'', rm_tokens = Fin (- 1000), rm_min0 = None, rm_min1 = None\<rparr>
       ''u'' (example_market\<lparr>am_positions := [example_position]\<rparr>) = (Inr amounts, s')
    \<and> find_position ''i'' ''u'' s' = Some q' \<and> lp_tokens q' = Fin 1001"
proof -
  let ?dto = "\<lparr>rm_pool_id = ''i'', rm_tokens = Fin (- 1000), rm_min0 = None, rm_min1 = None\<rparr>"
  have "\<exists>amounts s' q'. remove_liquidity example_amm_env ?dto ''u'' (example_market\<lparr>am_positions := [example_position]\<rparr>) = (Inr amounts, s')
    \<and> find_position (rm_pool_id ?dto) ''u'' s' = Some q' \<and> lp_tokens q' = Fin (1 + 1000)"
  proof (rule negative_withdrawal_mints_tokens [where p = example_pool and q = example_position])
    show "bignumber (ae_bn example_amm_env)" by (simp add: example_amm_env_def bn.bignumber_axioms)
    show "bn_fixed (ae_bn example_amm_env) 1 = 1" "bn_fixed (ae_bn example_amm_env) 1000 = 1000" by code_simp+
    show "pool_fits (withdrawn_pool (ae_bn example_amm_env) (rm_tokens ?dto) example_pool)" by code_simp
    show "position_fits (withdrawn_position example_amm_env (rm_tokens ?dto) example_position)" by code_simp
  qed (simp_all add: example_pool_def example_position_def example_market_def no_rows_def find_pool_def
      find_position_def find_one_def)
  then show ?thesis by simp
qed

text \<open>
  Tokens issued for a deposit are worth at most the deposit: withdrawing them at once gives back
  of the first token no more than was paid in, up to the rounding of the number of tokens (less than
  one unit of the last place, weighted by the reserve per token) and of the quotient.
\<close>
theorem deposit_then_withdrawal_gains_nothing:
  assumes "bignumber b" "pl_reserve0 p = Fin r" "pl_reserve1 p = Fin r1" "pl_total_liquidity p = Fin l"
    and "0 < r" "0 < r1" "0 < l" "bn_fixed b r = r" "bn_fixed b l = l"
    and "ad_amount0 dto = Fin a" "ad_amount1 dto = Fin a1" "0 < a" "0 < a1" "bn_fixed b a = a"
    and "tokens = calculate_lp_tokens b (Fin r) (Fin r1) (Fin a) (Fin a1) (Fin l)"
    and "p' = deposited_pool b dto tokens p"
  shows "\<exists>w. share_of b tokens p' (pl_reserve0 p') = Fin w \<and> w \<le> a + (r + a) * (1 / 10 ^ 8 / l + 1 / 10 ^ 20)"
proof -
  define t where "t = bn_fixed b (min (bn_div b (a * l) r) (bn_div b (a1 * l) r1))"
  have tokens: "tokens = Fin t" using assms by (simp add: calculate_lp_tokens_def t_def)
  have t0: "0 \<le> t"
    unfolding t_def using assms by (intro bignumber.fixed_nonneg [OF assms(1)] min.boundedI bignumber.div_nonneg) simp_all
  have "t \<le> min (bn_div b (a * l) r) (bn_div b (a1 * l) r1) + 1 / (2 * 10 ^ 8)"
    using bignumber.fixed_near [OF assms(1), of "min (bn_div b (a * l) r) (bn_div b (a1 * l) r1)"]
    unfolding t_def by linarith
  moreover have "bn_div b (a * l) r \<le> a * l / r + 1 / (2 * 10 ^ 20)"
    using bignumber.div_near [OF assms(1), of r "a * l"] assms(5) by linarith
  moreover have "1 / (2 * 10 ^ 8) + 1 / (2 * 10 ^ 20) \<le> (1 / 10 ^ 8 :: rat)" by simp
  ultimately have t: "t \<le> a * l / r + 1 / 10 ^ 8" by linarith
  have sums: "bn_fixed b (r + a) = r + a" "bn_fixed b (l + t) = l + t"
    using bignumber.fixed_sum_exact [OF assms(1,8,14)] bignumber.fixed_sum_exact [OF assms(1,9)]
      bignumber.fixed_idem [OF assms(1)] by (simp_all add: t_def)
  have lt: "0 < l + t" using assms(7) t0 by simp
  define w where "w = (r + a) * bn_div b t (l + t)"
  have share: "share_of b tokens p' (pl_reserve0 p') = Fin w"
    using assms(2-4,10,11,16) sums lt tokens by (simp add: share_of_def deposited_pool_def w_def)
  have "t / (l + t) \<le> a / (r + a) + 1 / 10 ^ 8 / l"
  proof -
    have split: "(u * y + z * c) / (y * z) = u / z + c / y" if "y \<noteq> 0" "z \<noteq> 0" for u y z c :: rat
      using that by (simp add: field_simps)
    have "(r + a) * t \<le> (r + a) * (a * l / r + 1 / 10 ^ 8)" using t assms by (intro mult_left_mono) simp_all
    then have "r * t \<le> a * l + r * (1 / 10 ^ 8)" using t assms(5) by (simp add: field_simps)
    moreover have "r * (1 / 10 ^ 8) \<le> (r + a) * (1 / 10 ^ 8)" using assms by simp
    ultimately have "r * t \<le> a * l + (r + a) * (1 / 10 ^ 8)" by linarith
    then have "t * (r + a) \<le> a * (l + t) + (r + a) * (1 / 10 ^ 8)" by (simp add: algebra_simps)
    then have "t * (r + a) / ((l + t) * (r + a)) \<le> (a * (l + t) + (r + a) * (1 / 10 ^ 8)) / ((l + t) * (r + a))"
      using lt assms by (intro divide_right_mono) simp_all
    also have "t * (r + a) / ((l + t) * (r + a)) = t / (l + t)" using assms by simp
    also have "(a * (l + t) + (r + a) * (1 / 10 ^ 8)) / ((l + t) * (r + a)) = a / (r + a) + 1 / 10 ^ 8 / (l + t)"
      using lt assms by (intro split) simp_all
    finally show ?thesis using divide_left_mono [of l "l + t" "1 / 10 ^ 8"] t0 assms(7) lt by simp
  qed
  then have "bn_div b t (l + t) \<le> a / (r + a) + 1 / 10 ^ 8 / l + 1 / 10 ^ 20"
  proof -
    have "\<bar>bn_div b t (l + t) - t / (l + t)\<bar> \<le> 1 / (2 * 10 ^ 20)"
      using bignumber.div_near [OF assms(1), of "l + t" t] lt by linarith
    moreover have "1 / (2 * 10 ^ 20) \<le> (1 / 10 ^ 20 :: rat)" by simp
    ultimately show ?thesis using \<open>t / (l + t) \<le> a / (r + a) + 1 / 10 ^ 8 / l\<close> by linarith
  qed
  then have "w \<le> (r + a) * (a / (r + a) + 1 / 10 ^ 8 / l + 1 / 10 ^ 20)"
    unfolding w_def using assms by (intro mult_left_mono) simp_all
  also have "\<dots> = a + (r + a) * (1 / 10 ^ 8 / l + 1 / 10 ^ 20)" using assms by (simp add: distrib_left)
  finally show ?thesis using share by blast
qed

theorem deposit_then_withdrawal_gains_nothing_witness:
  "\<exists>w. share_of decimal_ops (Fin (141 / 10)) (deposited_pool decimal_ops
         \<lparr>ad_pool_id = ''i'', ad_amount0 = Fin 10, ad_amount1 = Fin 30, ad_min_tokens = None\<rparr> (Fin (141 / 10)) example_pool) (Fin 110) = Fin w
    \<and> w \<le> 10 + 110 * (1 / 10 ^ 8 / 141 + 1 / 10 ^ 20)"
proof -
  let ?dto = "\<lparr>ad_pool_id = ''i'', ad_amount0 = Fin 10, ad_amount1 = Fin 30, ad_min_tokens = None\<rparr>"
  let ?p = "deposited_pool decimal_ops ?dto (Fin (141 / 10)) example_pool"
  have fixed: "bn_fixed decimal_ops 100 = 100" "bn_fixed decimal_ops 10 = 10" "bn_fixed decimal_ops 141 = 141" by code_simp+
  have tokens: "Fin (141 / 10) = calculate_lp_tokens decimal_ops (Fin 100) (Fin 200) (Fin 10) (Fin 30) (Fin 141)" by code_simp
  have r0: "pl_reserve0 ?p = Fin 110" by code_simp
  have "\<exists>w. share_of decimal_ops (Fin (141 / 10)) ?p (pl_reserve0 ?p) = Fin w
      \<and> w \<le> 10 + (100 + 10) * (1 / 10 ^ 8 / 141 + 1 / 10 ^ 20)"
    by (rule deposit_then_withdrawal_gains_nothing [OF bn.bignumber_axioms _ _ _ _ _ _ _ _ _ _ _ _ _ tokens refl])
       (simp_all add: example_pool_def fixed)
  then show ?thesis unfolding r0 by simp
qed

end
