(* ===== verification/JsText.thy ===== *)
theory JsText
  imports Prelude
begin

text \<open>
  Functions of JavaScript on text that several components use: the letters and digits of the
  patterns, the change of case, which is that of ASCII letters, and the joining of texts.
\<close>

definition char_between :: "char \<Rightarrow> char \<Rightarrow> char \<Rightarrow> bool" where
  "char_between a b c \<longleftrightarrow> (of_char a :: nat) \<le> of_char c \<and> (of_char c :: nat) \<le> of_char b"

definition ascii_lower :: "string \<Rightarrow> string" where
  "ascii_lower t = map (\<lambda>c. if char_between CHR ''A'' CHR ''Z'' c then char_of (of_char c + (32 :: nat)) else c) t"

definition ascii_upper :: "string \<Rightarrow> string" where
  "ascii_upper t = map (\<lambda>c. if char_between CHR ''a'' CHR ''z'' c then char_of (of_char c - (32 :: nat)) else c) t"

definition alphanumeric :: "char \<Rightarrow> bool" where
  "alphanumeric c \<longleftrightarrow> char_between CHR ''a'' CHR ''z'' c \<or> char_between CHR ''A'' CHR ''Z'' c \<or> char_between CHR ''0'' CHR ''9'' c"

text \<open>\<open>texts.join(sep)\<close>.\<close>

fun join_with :: "string \<Rightarrow> string list \<Rightarrow> string" where
  "join_with sep [] = []"
| "join_with sep [t] = t"
| "join_with sep (t # u # us) = t @ sep @ join_with sep (u # us)"

end
