(* ===== verification/TradeDeals.thy ===== *)
theory TradeDeals
  imports QueueProcessor Investments JsText
begin

text \<open>
  \<open>backend/src/trade-deals/trade-deals.service.ts\<close> and \<open>trade-deals-cron.service.ts\<close>: the life of a
  deal before it is funded: creation, documents, publication, cancellation, expiry, the closing of
  an underfunded deal by the hourly job, and the refund of pending investments. The rows extend
  those of \<open>Entities\<close> by the columns that only these services use. Stellar, Soroban, the failures
  of the database, clock, identifiers and trace identifier are parameters. Left out: the listings,
  the suggestions and scores (other services), and the columns of description and logistics. The
  lower-casing of the database is that of ASCII letters.
\<close>

subsection \<open>Rows and parameters\<close>

record listed_deal = trade_deal +
  ld_title :: string
  ld_quantity :: jsnum
  ld_min_target :: "jsnum option"
  ld_deadline :: "int option"
  ld_delivery_date :: int
  ld_asset_tx :: "string option"
  ld_campaign :: "string option"

record deal_upload =
  du_id :: string
  du_trade_deal_id :: string
  du_uploader_id :: string
  du_type :: string
  du_ipfs_hash :: string
  du_storage_url :: string
  du_stellar_tx_id :: "string option"
  du_memo_text :: "string option"
  du_signature_verified :: bool

datatype campaign_call = MarkedFailed string | InvestorRefunded string string

record deals_state =
  tr_deals :: "listed_deal list"
  tr_documents :: "deal_upload list"
  tr_users :: "user list"
  tr_investments :: "investment list"
  tr_queue :: queue_state
  tr_escrows :: "(string \<times> string) list"
  tr_clawbacks :: "(string \<times> (string \<times> jsnum) list) list"
  tr_campaigns :: "campaign_call list"

record deals_env =
  tv_create_escrow :: "string \<Rightarrow> string + (string \<times> string)"
  tv_encrypt_secret :: "string \<Rightarrow> string + string"
  tv_decrypt_secret :: "string \<Rightarrow> string + string"
  tv_clawback :: "string \<Rightarrow> string \<Rightarrow> string \<Rightarrow> (string \<times> jsnum) list \<Rightarrow> string option"
  tv_soroban :: bool
  tv_mark_failed :: "string \<Rightarrow> string option"
  tv_refund :: "string \<Rightarrow> string \<Rightarrow> string option"
  tv_db_error :: "string option"
  tv_encrypt_error :: "string \<Rightarrow> string option"
  tv_new_id :: string
  tv_now :: int
  tv_trace_id :: string

type_synonym 'a deals_handler = "(deals_state, http_error, 'a) handler"

definition find_listed :: "string \<Rightarrow> listed_deal list \<Rightarrow> listed_deal option" where
  "find_listed i deals = find_one (\<lambda>d. td_id d = i \<and> \<not> td_deleted d) deals"

definition update_listed :: "string \<Rightarrow> (listed_deal \<Rightarrow> listed_deal) \<Rightarrow> deals_state \<Rightarrow> deals_state" where
  "update_listed i f s = s\<lparr>tr_deals := update_where (\<lambda>d. td_id d = i) f (tr_deals s)\<rparr>"

definition with_status :: "deals_env \<Rightarrow> deal_status \<Rightarrow> listed_deal \<Rightarrow> listed_deal" where
  "with_status env st d = d\<lparr>td_status := st, td_app_trace_id := Some (tv_trace_id env)\<rparr>"

subsection \<open>Creation and documents\<close>

definition generate_token_symbol :: "string \<Rightarrow> string \<Rightarrow> string" where
  "generate_token_symbol commodity deal_id =
     (let code = take 8 (ascii_upper (filter alphanumeric commodity));
          short = filter (\<lambda>c. c \<noteq> CHR ''-'') deal_id
      in take 12 (code @ drop (length short - 4) short))"

record create_deal_dto =
  cd_title :: "string option"
  cd_commodity :: string
  cd_quantity :: jsnum
  cd_total_value :: jsnum
  cd_farmer_id :: "string option"
  cd_trader_id :: "string option"
  cd_delivery_date :: int
  cd_funding_deadline :: "int option"
  cd_min_target :: "jsnum option"
  cd_min_lot_size :: "jsnum option"
  cd_lot_step :: "jsnum option"

definition normalized_title :: "create_deal_dto \<Rightarrow> string" where
  "normalized_title dto =
     (case map_option js_trim (cd_title dto) of
        Some (c # cs) \<Rightarrow> c # cs
      | _ \<Rightarrow> js_trim (cd_commodity dto))"

text \<open>
  The entity class has no properties for the funding deadline and the minimum funding target, so
  the values of the request are dropped and the two columns stay empty.
\<close>

definition new_deal :: "deals_env \<Rightarrow> string \<Rightarrow> create_deal_dto \<Rightarrow> listed_deal" where
  "new_deal env trader_id dto =
     \<lparr>td_id = tv_new_id env, td_commodity = cd_commodity dto, td_total_value = cd_total_value dto,
      td_token_count = math_floor (div_js (cd_total_value dto) 100),
      td_token_symbol = generate_token_symbol (cd_commodity dto) (tv_new_id env), td_status = DealDraft,
      td_farmer_id = (case cd_farmer_id dto of Some f \<Rightarrow> f | None \<Rightarrow> trader_id),
      td_trader_id = (case cd_trader_id dto of Some t \<Rightarrow> t | None \<Rightarrow> trader_id),
      td_escrow_public_key = None, td_escrow_secret_key = None, td_issuer_public_key = None,
      td_issuer_secret_key = None, td_total_invested = 0, td_app_trace_id = None,
      td_min_lot_size = Some (case cd_min_lot_size dto of Some n \<Rightarrow> n | None \<Rightarrow> 1),
      td_lot_step = Some (case cd_lot_step dto of Some n \<Rightarrow> n | None \<Rightarrow> 1),
      td_milestone_release_pct = 0, td_minimum_tier = None, td_deleted = False,
      ld_title = normalized_title dto, ld_quantity = cd_quantity dto,
      ld_min_target = None, ld_deadline = None,
      ld_delivery_date = cd_delivery_date dto, ld_asset_tx = None, ld_campaign = None\<rparr>"

definition create_deal :: "deals_env \<Rightarrow> string \<Rightarrow> create_deal_dto \<Rightarrow> listed_deal deals_handler" where
  "create_deal env trader_id dto s =
     (let d = new_deal env trader_id dto
      in if \<exists>x \<in> set (tr_deals s). \<not> td_deleted x \<and> ascii_lower (ld_title x) = ascii_lower (normalized_title dto)
         then throw (BadRequest ''DUPLICATE_TITLE'') s
         else case find_user (td_farmer_id d) (tr_users s) of
           None \<Rightarrow> throw (NotFound ''Farmer not found.'') s
         | Some farmer \<Rightarrow>
             if us_role farmer \<noteq> ''farmer'' then throw (BadRequest ''INVALID_FARMER'') s
             else if td_token_count d < 1 then throw (BadRequest ''INVALID_TOKEN_COUNT'') s
             else done_with d (s\<lparr>tr_deals := insert_row d (tr_deals s)\<rparr>))"

definition valid_doc_types :: "string list" where
  "valid_doc_types = [''purchase_agreement'', ''bill_of_lading'', ''export_certificate'', ''warehouse_receipt'']"

definition max_file_size_bytes :: jsnum where
  "max_file_size_bytes = 10 * 1024 * 1024"

definition add_document :: "deals_env \<Rightarrow> deal_upload \<Rightarrow> jsnum option \<Rightarrow> deal_upload deals_handler" where
  "add_document env dto file_size s =
     (if du_type dto \<notin> set valid_doc_types then throw (BadRequest ''INVALID_DOC_TYPE'') s
      else if \<exists>n \<in> set_option file_size. max_file_size_bytes < n then throw (BadRequest ''FILE_TOO_LARGE'') s
      else case find_listed (du_trade_deal_id dto) (tr_deals s) of
        None \<Rightarrow> throw (NotFound ''Trade deal not found.'') s
      | Some _ \<Rightarrow>
          (let row = dto\<lparr>du_id := tv_new_id env\<rparr>
           in done_with row (s\<lparr>tr_documents := insert_row row (tr_documents s)\<rparr>)))"

definition update_document_storage :: "string \<Rightarrow> string \<Rightarrow> string \<Rightarrow> deals_state \<Rightarrow> deals_state" where
  "update_document_storage i ipfs url s =
     s\<lparr>tr_documents := update_where (\<lambda>x. du_id x = i) (\<lambda>x. x\<lparr>du_ipfs_hash := ipfs, du_storage_url := url\<rparr>) (tr_documents s)\<rparr>"

definition update_deal_status :: "deals_env \<Rightarrow> string \<Rightarrow> deal_status \<Rightarrow> string option \<Rightarrow> deals_state \<Rightarrow> deals_state" where
  "update_deal_status env i st tx s =
     update_listed i (\<lambda>d. let d' = with_status env st d in if present tx then d'\<lparr>ld_asset_tx := tx\<rparr> else d') s"

subsection \<open>Publication\<close>

definition stellar_failed :: http_error where
  "stellar_failed = Unprocessable ''STELLAR_OPERATION_FAILED''"

definition publish_job :: "listed_deal \<Rightarrow> string \<Rightarrow> string \<Rightarrow> deal_publish_payload" where
  "publish_job d public_key encrypted =
     \<lparr>dp_deal_id = td_id d, dp_token_symbol = td_token_symbol d, dp_escrow_public_key = public_key,
      dp_encrypted_escrow_secret = encrypted, dp_token_count = td_token_count d\<rparr>"

text \<open>The transaction: the keys of the escrow and the job, both or neither.\<close>

definition store_escrow :: "deals_env \<Rightarrow> listed_deal \<Rightarrow> string \<Rightarrow> string \<Rightarrow> listed_deal deals_handler" where
  "store_escrow env d public_key encrypted s =
     (let keys = (\<lambda>x. x\<lparr>td_escrow_public_key := Some public_key, td_escrow_secret_key := Some encrypted\<rparr>)
      in case tv_db_error env of
           Some e \<Rightarrow> throw stellar_failed s
         | None \<Rightarrow>
             done_with (keys d)
               ((update_listed (td_id d) keys s)\<lparr>tr_queue := enqueue_deal_publish_transactional
                  (publish_job d public_key encrypted) (tr_queue s)\<rparr>))"

definition publish_deal :: "deals_env \<Rightarrow> string \<Rightarrow> string \<Rightarrow> listed_deal deals_handler" where
  "publish_deal env deal_id trader_id s =
     (case find_listed deal_id (tr_deals s) of
        None \<Rightarrow> throw (NotFound ''Trade deal not found.'') s
      | Some d \<Rightarrow>
          if td_trader_id d \<noteq> trader_id then throw (Forbidden ''NOT_ASSIGNED_TRADER'') s
          else if td_status d \<noteq> DealDraft then throw (Unprocessable ''DEAL_NOT_DRAFT'') s
          else if find_where (\<lambda>x. du_trade_deal_id x = deal_id) (tr_documents s) = [] then throw (Unprocessable ''NO_DOCUMENTS'') s
          else case tv_create_escrow env deal_id of
            Inl e \<Rightarrow> throw stellar_failed s
          | Inr (public_key, secret_key) \<Rightarrow>
              (let s1 = s\<lparr>tr_escrows := tr_escrows s @ [(deal_id, public_key)]\<rparr>
               in case tv_encrypt_secret env secret_key of
                    Inl e \<Rightarrow> throw stellar_failed s1
                  | Inr encrypted \<Rightarrow> store_escrow env d public_key encrypted s1))"

subsection \<open>Cancellation, expiry and closing\<close>

definition confirmed_of :: "string \<Rightarrow> deals_state \<Rightarrow> investment list" where
  "confirmed_of deal_id s = investments_of deal_id InvConfirmed (tr_investments s)"

definition wallet_in :: "deals_state \<Rightarrow> investment \<Rightarrow> string option" where
  "wallet_in s v = (case find_user (iv_investor_id v) (tr_users s) of Some u \<Rightarrow> us_wallet_address u | None \<Rightarrow> None)"

definition holders :: "deals_state \<Rightarrow> investment list \<Rightarrow> (string \<times> jsnum) list" where
  "holders s invs = map (\<lambda>v. (the (wallet_in s v), iv_token_amount v)) (filter (\<lambda>v. present (wallet_in s v)) invs)"

definition with_unsold :: "listed_deal \<Rightarrow> (string \<times> jsnum) list \<Rightarrow> (string \<times> jsnum) list" where
  "with_unsold d shares =
     (let unsold = sub_js (td_token_count d) (sum_js snd shares)
      in if 0 < unsold \<and> present (td_escrow_public_key d) then shares @ [(the (td_escrow_public_key d), unsold)] else shares)"

definition issued :: "listed_deal \<Rightarrow> bool" where
  "issued d \<longleftrightarrow> present (td_issuer_public_key d) \<and> present (td_issuer_secret_key d) \<and> present (ld_asset_tx d)"

definition claw_back :: "deals_env \<Rightarrow> listed_deal \<Rightarrow> (string \<times> jsnum) list \<Rightarrow> unit deals_handler" where
  "claw_back env d shares s =
     (if shares = [] then done_with () s
      else case tv_decrypt_secret env (the (td_issuer_secret_key d)) of
        Inl e \<Rightarrow> throw (Internal e) s
      | Inr secret \<Rightarrow>
          (case tv_clawback env (td_token_symbol d) (the (td_issuer_public_key d)) secret shares of
             Some e \<Rightarrow> throw (Internal e) s
           | None \<Rightarrow> done_with () (s\<lparr>tr_clawbacks := tr_clawbacks s @ [(td_id d, shares)]\<rparr>)))"

definition mark_refunded :: "investment list \<Rightarrow> deals_state \<Rightarrow> deals_state" where
  "mark_refunded invs s =
     s\<lparr>tr_investments := update_where (\<lambda>v. iv_id v \<in> iv_id ` set invs) (\<lambda>v. v\<lparr>iv_status := InvRefunded\<rparr>) (tr_investments s)\<rparr>"

definition cancel_deal :: "deals_env \<Rightarrow> string \<Rightarrow> string \<Rightarrow> listed_deal deals_handler" where
  "cancel_deal env deal_id trader_id s =
     (case find_listed deal_id (tr_deals s) of
        None \<Rightarrow> throw (NotFound ''Trade deal not found.'') s
      | Some d \<Rightarrow>
          if td_trader_id d \<noteq> trader_id then throw (Forbidden ''NOT_ASSIGNED_TRADER'') s
          else if td_status d = DealCanceled then done_with d s
          else if td_status d \<notin> {DealDraft, DealOpen} then throw (Unprocessable ''DEAL_NOT_CANCELABLE'') s
          else
            let invs = confirmed_of deal_id s
            in and_then (if td_status d = DealOpen \<and> issued d then claw_back env d (with_unsold d (holders s invs)) else done_with ())
                 (\<lambda>_ s1. case tv_db_error env of
                    Some e \<Rightarrow> throw (Internal e) s1
                  | None \<Rightarrow> done_with (with_status env DealCanceled d)
                      (update_listed deal_id (with_status env DealCanceled) (mark_refunded invs s1))) s)"

definition expiry_messages :: "deals_env \<Rightarrow> listed_deal \<Rightarrow> deals_state \<Rightarrow> deals_state" where
  "expiry_messages env d s =
     (let q1 = snd (enqueue_job (tv_encrypt_error env) ''email.notification'' (EmailJob ''deal_expired'' None [] (td_id d) []) (tr_queue s))
      in s\<lparr>tr_queue := snd (enqueue_job (tv_encrypt_error env) ''admin.alert'' (AlertJob ''deal_expired'' (td_id d) []) q1)\<rparr>)"

definition expire_deal :: "deals_env \<Rightarrow> string \<Rightarrow> listed_deal deals_handler" where
  "expire_deal env deal_id s =
     (case find_listed deal_id (tr_deals s) of
        None \<Rightarrow> throw (NotFound ''Trade deal not found.'') s
      | Some d \<Rightarrow>
          if td_status d \<noteq> DealOpen then throw (Unprocessable ''DEAL_NOT_OPEN'') s
          else if td_total_value d \<le> td_total_invested d then throw (Unprocessable ''DEAL_FUNDED'') s
          else
            let invs = confirmed_of deal_id s
            in and_then (if issued d then claw_back env d (with_unsold d (holders s invs)) else done_with ())
                 (\<lambda>_ s1. done_with (with_status env DealExpired d)
                    (expiry_messages env d (update_listed deal_id (with_status env DealExpired) (mark_refunded invs s1)))) s)"

fun refund_each :: "deals_env \<Rightarrow> string \<Rightarrow> investment list \<Rightarrow> unit deals_handler" where
  "refund_each env contract [] = done_with ()"
| "refund_each env contract (v # vs) = (\<lambda>s.
     if \<not> present (wallet_in s v) then throw (Unprocessable ''INVESTOR_WALLET_REQUIRED'') s
     else case tv_refund env contract (the (wallet_in s v)) of
       Some e \<Rightarrow> throw (Internal e) s
     | None \<Rightarrow> refund_each env contract vs
                 (s\<lparr>tr_campaigns := tr_campaigns s @ [InvestorRefunded contract (the (wallet_in s v))]\<rparr>))"

definition refund_on_campaign :: "deals_env \<Rightarrow> string \<Rightarrow> investment list \<Rightarrow> unit deals_handler" where
  "refund_on_campaign env contract invs s =
     (case tv_mark_failed env contract of
        Some e \<Rightarrow> throw (Internal e) s
      | None \<Rightarrow> refund_each env contract invs (s\<lparr>tr_campaigns := tr_campaigns s @ [MarkedFailed contract]\<rparr>))"

text \<open>\<open>deal.minimumFundingTarget\<close> is undefined on every deal that is read, so the target is the total value.\<close>

definition close_underfunded_deal :: "deals_env \<Rightarrow> string \<Rightarrow> listed_deal deals_handler" where
  "close_underfunded_deal env deal_id s =
     (case find_listed deal_id (tr_deals s) of
        None \<Rightarrow> throw (NotFound ''Trade deal not found.'') s
      | Some d \<Rightarrow>
          if td_status d \<noteq> DealOpen then throw (Unprocessable ''DEAL_NOT_OPEN'') s
          else if td_total_value d \<le> td_total_invested d then throw (Unprocessable ''FUNDING_TARGET_REACHED'') s
          else
            let invs = confirmed_of deal_id s
            in and_then (if present (ld_campaign d) \<and> tv_soroban env then refund_on_campaign env (the (ld_campaign d)) invs
                         else if issued d then claw_back env d (holders s invs) else done_with ())
                 (\<lambda>_ s1. done_with (with_status env DealExpired d)
                    (update_listed deal_id (with_status env DealExpired) (mark_refunded invs s1))) s)"

subsection \<open>The hourly jobs, deletion and restoration\<close>

text \<open>This query reads the two columns themselves.\<close>

definition min_target :: "listed_deal \<Rightarrow> jsnum" where
  "min_target d = (case ld_min_target d of Some n \<Rightarrow> n | None \<Rightarrow> td_total_value d)"

definition overdue :: "deals_env \<Rightarrow> listed_deal \<Rightarrow> bool" where
  "overdue env d \<longleftrightarrow> td_status d = DealOpen \<and> \<not> td_deleted d \<and>
     (case ld_deadline d of Some t \<Rightarrow> t | None \<Rightarrow> ld_delivery_date d) < tv_now env \<and> td_total_invested d < min_target d"

fun close_each :: "deals_env \<Rightarrow> listed_deal list \<Rightarrow> deals_state \<Rightarrow> deals_state" where
  "close_each env [] s = s"
| "close_each env (d # ds) s = close_each env ds (snd (close_underfunded_deal env (td_id d) s))"

definition expire_overdue_deals :: "deals_env \<Rightarrow> deals_state \<Rightarrow> deals_state" where
  "expire_overdue_deals env s = close_each env (find_where (overdue env) (tr_deals s)) s"

definition pending_on_expired :: "deals_state \<Rightarrow> investment list" where
  "pending_on_expired s = find_where (\<lambda>v. iv_status v = InvPending \<and> \<not> iv_deleted v \<and>
     (\<exists>d \<in> set_option (find_listed (iv_trade_deal_id v) (tr_deals s)). td_status d = DealExpired)) (tr_investments s)"

definition refund_message :: "deals_env \<Rightarrow> investment \<Rightarrow> queue_state \<Rightarrow> queue_state" where
  "refund_message env v q = snd (enqueue_job (tv_encrypt_error env) ''email.notification''
     (EmailJob ''investment_refunded_deal_expired'' None [] (iv_trade_deal_id v) [iv_amount_usd v]) q)"

definition refund_pending_on_expired :: "deals_env \<Rightarrow> deals_state \<Rightarrow> deals_state" where
  "refund_pending_on_expired env s =
     (let invs = pending_on_expired s
      in (mark_refunded invs s)\<lparr>tr_queue := fold (refund_message env) invs (tr_queue s)\<rparr>)"

definition soft_delete_deal :: "string \<Rightarrow> unit deals_handler" where
  "soft_delete_deal deal_id s =
     (case find_listed deal_id (tr_deals s) of
        None \<Rightarrow> throw (NotFound ''Trade deal not found.'') s
      | Some _ \<Rightarrow> done_with () (update_listed deal_id (\<lambda>d. d\<lparr>td_deleted := True\<rparr>) s))"

definition restore_deal :: "string \<Rightarrow> unit deals_handler" where
  "restore_deal deal_id s =
     (case find_one (\<lambda>d. td_id d = deal_id) (tr_deals s) of
        None \<Rightarrow> throw (NotFound ''Trade deal not found.'') s
      | Some d \<Rightarrow>
          if \<not> td_deleted d then done_with () s
          else done_with () (update_listed deal_id (\<lambda>d. d\<lparr>td_deleted := False\<rparr>) s))"

text \<open>The operations of the services; only \<open>update_deal_status\<close>, which no part of the application calls, is left out.\<close>

inductive deals_step :: "deals_state \<Rightarrow> deals_state \<Rightarrow> bool" where
  create: "tv_new_id env \<notin> td_id ` set (tr_deals s) \<Longrightarrow> deals_step s (snd (create_deal env trader_id dto s))"
| document: "deals_step s (snd (add_document env upload file_size s))"
| storage: "deals_step s (update_document_storage i ipfs url s)"
| publish: "deals_step s (snd (publish_deal env i trader_id s))"
| cancel: "deals_step s (snd (cancel_deal env i trader_id s))"
| expire: "deals_step s (snd (expire_deal env i s))"
| overdue: "deals_step s (expire_overdue_deals env s)"
| refund: "deals_step s (refund_pending_on_expired env s)"
| delete: "deals_step s (snd (soft_delete_deal i s))"
| restore: "deals_step s (snd (restore_deal i s))"

end
