(* ===== verification/DealLifecycle.thy ===== *)
theory DealLifecycle
  imports TradeDeals
begin

text \<open>
  What the operations of \<open>TradeDeals\<close> guarantee: the outcomes of a cancellation, the path of the
  status of a deal through any sequence of operations, and what happens between these services
  and the ones that confirm investments and issue the tokens of a published deal.
\<close>

subsection \<open>Rows found and rows written\<close>

lemma find_listed_SomeD:
  "find_listed i ds = Some d \<Longrightarrow> td_id d = i \<and> \<not> td_deleted d \<and> d \<in> set ds"
  by (auto simp: find_listed_def dest: find_one_SomeD)

lemma find_listed_update:
  "(\<And>d. td_id (f d) = td_id d \<and> td_deleted (f d) = td_deleted d) \<Longrightarrow>
   find_listed j (tr_deals (update_listed i f s)) =
     map_option (\<lambda>d. if td_id d = i then f d else d) (find_listed j (tr_deals s))"
  by (simp add: find_listed_def update_listed_def find_one_update)

lemma find_deal_truncated:
  "find_deal i (map trade_deal.truncate ds) = map_option trade_deal.truncate (find_listed i ds)"
proof -
  have "td_id (trade_deal.truncate d) = td_id d \<and> td_deleted (trade_deal.truncate d) = td_deleted d" for d :: listed_deal
    by (cases d) (simp add: trade_deal.defs)
  then show ?thesis by (induction ds) (simp_all add: find_deal_def find_listed_def find_one_def)
qed

lemma truncated_fields [simp]:
  "td_id (trade_deal.truncate (d :: listed_deal)) = td_id d"
  "td_status (trade_deal.truncate d) = td_status d"
  "td_escrow_public_key (trade_deal.truncate d) = td_escrow_public_key d"
  "td_deleted (trade_deal.truncate d) = td_deleted d"
  by (cases d, simp add: trade_deal.defs)+

lemma with_status_simps [simp]:
  "td_id (with_status env st d) = td_id d" "td_deleted (with_status env st d) = td_deleted d"
  "td_status (with_status env st d) = st"
  by (simp_all add: with_status_def)

lemma update_listed_simps [simp]:
  "tr_investments (update_listed i f s) = tr_investments s" "tr_queue (update_listed i f s) = tr_queue s"
  "tr_clawbacks (update_listed i f s) = tr_clawbacks s" "tr_campaigns (update_listed i f s) = tr_campaigns s"
  "tr_users (update_listed i f s) = tr_users s" "tr_documents (update_listed i f s) = tr_documents s"
  "tr_escrows (update_listed i f s) = tr_escrows s"
  by (simp_all add: update_listed_def)

lemma mark_refunded_simps [simp]:
  "tr_deals (mark_refunded vs s) = tr_deals s" "tr_clawbacks (mark_refunded vs s) = tr_clawbacks s"
  "tr_queue (mark_refunded vs s) = tr_queue s" "tr_users (mark_refunded vs s) = tr_users s"
  by (simp_all add: mark_refunded_def)

text \<open>A claw-back only adds to the claw-backs.\<close>

lemma claw_back_frame:
  "claw_back env d shares s = (r, s1) \<Longrightarrow>
     tr_deals s1 = tr_deals s \<and> tr_investments s1 = tr_investments s \<and> tr_users s1 = tr_users s \<and> tr_queue s1 = tr_queue s"
  by (auto simp: claw_back_def split: if_splits sum.splits option.splits)

lemma refund_each_frame:
  "refund_each env c vs s = (r, s1) \<Longrightarrow> tr_deals s1 = tr_deals s \<and> tr_investments s1 = tr_investments s"
  by (induction vs arbitrary: s) (fastforce split: if_splits option.splits)+

lemma refund_on_campaign_frame:
  "refund_on_campaign env c vs s = (r, s1) \<Longrightarrow> tr_deals s1 = tr_deals s \<and> tr_investments s1 = tr_investments s"
  by (auto simp: refund_on_campaign_def split: option.splits dest: refund_each_frame)

lemma confirmed_of_refunded: "confirmed_of i (mark_refunded (confirmed_of i s) s) = []"
  by (auto simp: confirmed_of_def mark_refunded_def investments_of_def find_where_def update_where_def filter_empty_conv)

lemma confirmed_of_cong: "tr_investments s = tr_investments t \<Longrightarrow> confirmed_of i s = confirmed_of i t"
  by (simp add: confirmed_of_def)

lemma mark_refunded_cong: "tr_investments s = tr_investments t \<Longrightarrow> tr_investments (mark_refunded vs s) = tr_investments (mark_refunded vs t)"
  by (simp add: mark_refunded_def)

subsection \<open>Sample state\<close>

definition example_deals_env :: deals_env where
  "example_deals_env =
     \<lparr>tv_create_escrow = (\<lambda>_. Inr (''E1'', ''K1'')), tv_encrypt_secret = Inr, tv_decrypt_secret = Inr,
      tv_clawback = (\<lambda>_ _ _ _. None), tv_soroban = True, tv_mark_failed = (\<lambda>_. None), tv_refund = (\<lambda>_ _. None),
      tv_db_error = None, tv_encrypt_error = (\<lambda>_. None), tv_new_id = ''d1'', tv_now = 10, tv_trace_id = ''app''\<rparr>"

definition example_dto :: create_deal_dto where
  "example_dto =
     \<lparr>cd_title = None, cd_commodity = ''COCOA'', cd_quantity = 1, cd_total_value = 2000, cd_farmer_id = Some ''f1'',
      cd_trader_id = None, cd_delivery_date = 5, cd_funding_deadline = None, cd_min_target = None,
      cd_min_lot_size = None, cd_lot_step = None\<rparr>"

definition example_listed :: "deal_status \<Rightarrow> listed_deal" where
  "example_listed st = (new_deal example_deals_env ''t1'' example_dto)
     \<lparr>td_status := st, td_escrow_public_key := Some ''E'', td_issuer_public_key := Some ''I'', td_issuer_secret_key := Some ''S'',
      ld_asset_tx := Some ''tx''\<rparr>"

definition example_investment :: "string \<Rightarrow> investment_status \<Rightarrow> investment" where
  "example_investment k st =
     \<lparr>iv_id = k, iv_trade_deal_id = ''d1'', iv_investor_id = ''i1'', iv_token_amount = 10, iv_amount_usd = 1000,
      iv_stellar_tx_id = None, iv_compliance_data = None, iv_status = st, iv_created_at = 0, iv_deleted = False\<rparr>"

definition example_deals :: "deal_status \<Rightarrow> deals_state" where
  "example_deals st =
     \<lparr>tr_deals = [example_listed st],
      tr_documents = [\<lparr>du_id = ''x'', du_trade_deal_id = ''d1'', du_uploader_id = ''t1'', du_type = ''bill_of_lading'',
        du_ipfs_hash = ''h'', du_storage_url = ''u'', du_stellar_tx_id = None, du_memo_text = None, du_signature_verified = False\<rparr>],
      tr_users = [sample_user ''i1''],
      tr_investments = [example_investment ''v1'' InvConfirmed, example_investment ''v2'' InvPending],
      tr_queue = empty_queue, tr_escrows = [], tr_clawbacks = [], tr_campaigns = []\<rparr>"

definition example_confirming :: "deals_state \<Rightarrow> investments_state" where
  "example_confirming s =
     \<lparr>sv_users = tr_users s, sv_deals = map trade_deal.truncate (tr_deals s), sv_investments = tr_investments s,
      sv_events = [], sv_totals = [], sv_queue = tr_queue s, sv_reward_triggers = [], sv_confirmed_pushes = [], sv_deal_pushes = []\<rparr>"

lemma example_rows: "distinct (map iv_id (tr_investments (example_deals st)))"
  by (simp add: example_deals_def example_investment_def)

lemma example_cancellation:
  obtains d s' where "cancel_deal example_deals_env ''d1'' ''t1'' (example_deals DealOpen) = (Inr d, s')"
proof -
  have "\<not> isl (fst (cancel_deal example_deals_env ''d1'' ''t1'' (example_deals DealOpen)))"
    by (simp add: cancel_deal_def example_deals_def example_listed_def new_deal_def example_dto_def example_deals_env_def
        find_listed_def find_one_def claw_back_def and_then_def Let_def split: sum.split)
  then show thesis using that by (metis prod.collapse sum.collapse(2))
qed

subsection \<open>Cancellation\<close>

lemma cancel_cases:
  obtains (refused) e s1 where "cancel_deal env i t s = (Inl e, s1)"
      "tr_deals s1 = tr_deals s" "tr_investments s1 = tr_investments s"
  | (already) d where "cancel_deal env i t s = (Inr d, s)" "find_listed i (tr_deals s) = Some d"
      "td_trader_id d = t" "td_status d = DealCanceled"
  | (canceled) d s1 where "find_listed i (tr_deals s) = Some d" "td_trader_id d = t" "td_status d \<in> {DealDraft, DealOpen}"
      "tr_deals s1 = tr_deals s" "tr_investments s1 = tr_investments s"
      "(if td_status d = DealOpen \<and> issued d then claw_back env d (with_unsold d (holders s (confirmed_of i s))) else done_with ()) s = (Inr (), s1)"
      "cancel_deal env i t s = (Inr (with_status env DealCanceled d),
         update_listed i (with_status env DealCanceled) (mark_refunded (confirmed_of i s) s1))"
proof (cases "find_listed i (tr_deals s)")
  case None
  then show thesis using refused by (simp add: cancel_deal_def)
next
  case (Some d)
  let ?m = "if td_status d = DealOpen \<and> issued d then claw_back env d (with_unsold d (holders s (confirmed_of i s))) else done_with ()"
  obtain r s1 where m: "?m s = (r, s1)" by fastforce
  then have frame: "tr_deals s1 = tr_deals s" "tr_investments s1 = tr_investments s"
    by (auto split: if_splits dest: claw_back_frame)
  consider "td_trader_id d \<noteq> t" | "td_trader_id d = t" "td_status d = DealCanceled"
    | "td_trader_id d = t" "td_status d \<notin> {DealCanceled, DealDraft, DealOpen}"
    | "td_trader_id d = t" "td_status d \<in> {DealDraft, DealOpen}" by blast
  then show thesis
  proof cases
    case 1
    then show thesis using Some refused [of "Forbidden ''NOT_ASSIGNED_TRADER''" s] by (simp add: cancel_deal_def)
  next
    case 2
    then show thesis using Some already by (simp add: cancel_deal_def)
  next
    case 3
    then show thesis using Some refused [of "Unprocessable ''DEAL_NOT_CANCELABLE''" s] by (simp add: cancel_deal_def)
  next
    case 4
    then have run: "cancel_deal env i t s = and_then ?m (\<lambda>_ s1. case tv_db_error env of
        Some e \<Rightarrow> throw (Internal e) s1
      | None \<Rightarrow> done_with (with_status env DealCanceled d)
          (update_listed i (with_status env DealCanceled) (mark_refunded (confirmed_of i s) s1))) s"
      using Some by (auto simp: cancel_deal_def Let_def)
    show thesis
    proof (cases r)
      case (Inl e)
      then show thesis using run m frame refused by (simp add: and_then_def)
    next
      case (Inr u)
      then show thesis using run m frame refused canceled [OF Some] 4
        by (cases "tv_db_error env") (simp_all add: and_then_def)
    qed
  qed
qed

lemma refunded_rows:
  assumes "distinct (map iv_id rows)"
  shows "update_where (\<lambda>v. iv_id v \<in> iv_id ` set (find_where p rows)) f rows = map (\<lambda>v. if p v then f v else v) rows"
proof -
  have "iv_id v \<in> iv_id ` set (find_where p rows) \<longleftrightarrow> p v" if "v \<in> set rows" for v
    using that assms by (auto simp: find_where_def distinct_map dest: inj_onD)
  then show ?thesis by (simp add: update_where_def)
qed

lemma cancellation_facts:
  assumes "distinct (map iv_id (tr_investments s))"
  shows "case cancel_deal env i t s of
      (Inl e, s') \<Rightarrow> tr_deals s' = tr_deals s \<and> tr_investments s' = tr_investments s
    | (Inr d, s') \<Rightarrow> td_trader_id d = t \<and> td_status d = DealCanceled \<and> find_listed i (tr_deals s') = Some d
        \<and> (if s' = s then True
           else td_status (the (find_listed i (tr_deals s))) \<in> {DealDraft, DealOpen}
             \<and> tr_investments s' = map (\<lambda>v. if iv_trade_deal_id v = i \<and> iv_status v = InvConfirmed \<and> \<not> iv_deleted v
                                           then v\<lparr>iv_status := InvRefunded\<rparr> else v) (tr_investments s))"
proof (cases rule: cancel_cases [of env i t s])
  case (canceled d s1)
  have "find_listed i (tr_deals (update_listed i (with_status env DealCanceled) (mark_refunded (confirmed_of i s) s1)))
      = Some (with_status env DealCanceled d)"
    using find_listed_SomeD [OF canceled(1)] canceled(1,4) by (simp add: find_listed_update)
  moreover have "td_trader_id (with_status env DealCanceled d) = t" using canceled(2) by (simp add: with_status_def)
  moreover have "tr_investments (mark_refunded (confirmed_of i s) s1) =
      map (\<lambda>v. if iv_trade_deal_id v = i \<and> iv_status v = InvConfirmed \<and> \<not> iv_deleted v
               then v\<lparr>iv_status := InvRefunded\<rparr> else v) (tr_investments s)"
    unfolding mark_refunded_def confirmed_of_def investments_of_def using canceled(5) by (simp add: refunded_rows [OF assms])
  ultimately show ?thesis using canceled by simp
qed simp_all

lemma canceled_keeps_pending:
  assumes "cancel_deal env i t s = (Inr d, s')" "distinct (map iv_id (tr_investments s))"
    and "find_investment k (tr_investments s) = Some v" "iv_status v = InvPending"
  shows "find_investment k (tr_investments s') = Some v"
proof (cases "s' = s")
  case False
  have "tr_investments s' = update_where (\<lambda>v. iv_trade_deal_id v = i \<and> iv_status v = InvConfirmed \<and> \<not> iv_deleted v)
      (\<lambda>v. v\<lparr>iv_status := InvRefunded\<rparr>) (tr_investments s)"
    using cancellation_facts [OF assms(2), where env = env and i = i and t = t] assms(1) False by (simp add: update_where_def)
  then show ?thesis using assms(3,4) by (simp add: find_investment_def find_one_update)
qed (use assms in simp)

lemma found_after_confirmation:
  assumes "find_deal i ds = Some d" "td_status d \<noteq> DealOpen"
  shows "find_deal i (map (\<lambda>x. if td_id x = i
      then (if td_status x = DealOpen \<and> c then x\<lparr>td_total_invested := n, td_status := DealFunded, td_app_trace_id := tr\<rparr>
            else x\<lparr>td_total_invested := n\<rparr>) else x) ds) = Some (d\<lparr>td_total_invested := n\<rparr>)"
  using assms by (induction ds) (auto simp: find_deal_def find_one_def split: if_splits)

text \<open>
  The outcomes of a cancellation. One that throws changes no deal and no investment, whatever
  it had clawed back before. One that returns was asked for by the trader of the deal and leaves it
  canceled; then the deal was canceled before and nothing changes, or it was a draft or open and
  exactly its confirmed investments become refunded.
\<close>
theorem cancellation_outcomes:
  assumes "distinct (map iv_id (tr_investments s))"
  shows "case cancel_deal env i t s of
      (Inl e, s') \<Rightarrow> tr_deals s' = tr_deals s \<and> tr_investments s' = tr_investments s
    | (Inr d, s') \<Rightarrow> td_trader_id d = t \<and> td_status d = DealCanceled \<and> find_listed i (tr_deals s') = Some d
        \<and> (if s' = s then True
           else td_status (the (find_listed i (tr_deals s))) \<in> {DealDraft, DealOpen}
             \<and> tr_investments s' = map (\<lambda>v. if iv_trade_deal_id v = i \<and> iv_status v = InvConfirmed \<and> \<not> iv_deleted v
                                           then v\<lparr>iv_status := InvRefunded\<rparr> else v) (tr_investments s))"
  by (rule cancellation_facts [OF assms])

theorem cancellation_outcomes_witness:
  "map iv_status (tr_investments (snd (cancel_deal example_deals_env ''d1'' ''t1'' (example_deals DealOpen)))) = [InvRefunded, InvPending]"
proof -
  obtain d s' where r: "cancel_deal example_deals_env ''d1'' ''t1'' (example_deals DealOpen) = (Inr d, s')"
    by (rule example_cancellation)
  have "td_status (the (find_listed ''d1'' (tr_deals (example_deals DealOpen)))) = DealOpen"
    by (simp add: example_deals_def example_listed_def new_deal_def example_deals_env_def find_listed_def find_one_def)
  then show ?thesis
    using cancellation_outcomes [OF example_rows [of DealOpen], where env = example_deals_env and i = "''d1''" and t = "''t1''"] r
    by (simp only: prod.case sum.case) (auto simp: example_deals_def example_investment_def split: if_splits)
qed

text \<open>
  A canceled deal still takes money. An investment that was pending when its deal was canceled
  stays pending, the hourly refund of pending investments passes over it because the deal is not
  expired, and its owner can confirm it, which adds it to the total of the canceled deal.
\<close>
theorem canceled_deal_takes_money:
  assumes "cancel_deal env i t s = (Inr d, s')" "distinct (map iv_id (tr_investments s))"
    and "find_investment k (tr_investments s) = Some v" "iv_trade_deal_id v = i" "iv_status v = InvPending"
    and "sv_deals es = map trade_deal.truncate (tr_deals s')" "sv_investments es = tr_investments s'"
    and "stellar_tx_hash_ok tx"
  shows "v \<notin> set (pending_on_expired s') \<and>
    (\<exists>w es' d'. confirm_investment e (iv_investor_id v) k tx es = (Inr (Some w), es') \<and> iv_status w = InvConfirmed
       \<and> find_deal i (sv_deals es') = Some d' \<and> td_status d' = DealCanceled \<and> td_total_invested d' = confirmed_total i es')"
proof -
  have d: "td_status d = DealCanceled" "find_listed i (tr_deals s') = Some d" "td_id d = i"
    using cancellation_facts [OF assms(2), where env = env and i = i and t = t] find_listed_SomeD assms(1) by fastforce+
  have v: "find_investment k (tr_investments s') = Some v"
    using canceled_keeps_pending [OF assms(1,2,3,5)] .
  let ?d = "trade_deal.truncate d"
  have found: "find_deal i (sv_deals es) = Some ?d" using d(2) by (simp add: assms(6) find_deal_truncated)
  have check: "confirm_check (iv_investor_id v) k tx es = Inr (Some ?d)"
    using v assms(4,5,7,8) found by (auto simp: confirm_check_ok)
  obtain es1 where es1: "confirm_commit e k tx (Some ?d) es = (Inr (td_total_value ?d \<le> confirmed_total i es1 \<and>
        (\<exists>x \<in> set (sv_deals es). td_id x = i \<and> td_status x = DealOpen)), es1)"
      "sv_investments es1 = update_investment k (mark_confirmed tx) (sv_investments es)"
      "sv_deals es1 = map (\<lambda>x. if td_id x = i
        then (if td_status x = DealOpen \<and> td_total_value ?d \<le> confirmed_total i es1
              then x\<lparr>td_total_invested := confirmed_total i es1, td_status := DealFunded, td_app_trace_id := Some (en_trace_id e)\<rparr>
              else x\<lparr>td_total_invested := confirmed_total i es1\<rparr>) else x) (sv_deals es)"
    using confirm_commit_result [of e k tx ?d es] d(3) by auto
  let ?r = "confirm_investment e (iv_investor_id v) k tx es"
  have run: "fst ?r = Inr (find_investment k (sv_investments es1)) \<and> sv_deals (snd ?r) = sv_deals es1
      \<and> sv_investments (snd ?r) = sv_investments es1"
    using check es1(1) by (simp add: confirm_investment_def and_then_def transaction_def confirm_finish_def Let_def)
  have w: "find_investment k (sv_investments es1) = Some (mark_confirmed tx v)"
    using v assms(7) find_one_SomeD [OF v [unfolded find_investment_def]]
    by (simp add: es1(2) find_investment_def update_investment_def find_one_update)
  have "find_deal i (sv_deals es1) = Some (?d\<lparr>td_total_invested := confirmed_total i es1\<rparr>)"
    unfolding es1(3) using found by (rule found_after_confirmation) (simp add: d(1))
  moreover have "v \<notin> set (pending_on_expired s')"
    using d assms(4) by (simp add: pending_on_expired_def find_where_def)
  moreover have "confirmed_total i (snd ?r) = confirmed_total i es1" using run by (simp add: confirmed_total_def)
  ultimately show ?thesis using run w d(1) by (cases ?r) simp
qed

theorem canceled_deal_takes_money_witness:
  "\<exists>w es'. confirm_investment Investments.sample_env ''i1'' ''v2'' sample_hash
       (example_confirming (snd (cancel_deal example_deals_env ''d1'' ''t1'' (example_deals DealOpen)))) = (Inr (Some w), es')
     \<and> iv_status w = InvConfirmed"
proof -
  obtain d s' where r: "cancel_deal example_deals_env ''d1'' ''t1'' (example_deals DealOpen) = (Inr d, s')"
    by (rule example_cancellation)
  have v: "find_investment ''v2'' (tr_investments (example_deals DealOpen)) = Some (example_investment ''v2'' InvPending)"
    by (simp add: example_deals_def example_investment_def find_investment_def find_one_def)
  have h: "stellar_tx_hash_ok sample_hash" by (simp add: stellar_tx_hash_ok_def sample_hash_def hex_digit_def list_all_iff)
  have "sv_deals (example_confirming s') = map trade_deal.truncate (tr_deals s')" "sv_investments (example_confirming s') = tr_investments s'"
    by (simp_all add: example_confirming_def)
  from canceled_deal_takes_money [OF r example_rows v _ _ this h, of Investments.sample_env] show ?thesis
    by (auto simp: r example_investment_def)
qed

subsection \<open>Publication\<close>

abbreviation with_keys :: "string \<Rightarrow> string \<Rightarrow> listed_deal \<Rightarrow> listed_deal" where
  "with_keys public_key encrypted d \<equiv> d\<lparr>td_escrow_public_key := Some public_key, td_escrow_secret_key := Some encrypted\<rparr>"

lemma publication_succeeds:
  assumes "find_listed i (tr_deals s) = Some d" "td_trader_id d = t" "td_status d = DealDraft"
    and "find_where (\<lambda>x. du_trade_deal_id x = i) (tr_documents s) \<noteq> []"
    and "tv_create_escrow env i = Inr (p, k)" "tv_encrypt_secret env k = Inr c" "tv_db_error env = None"
  shows "publish_deal env i t s = (Inr (with_keys p c d),
      (update_listed i (with_keys p c) (s\<lparr>tr_escrows := tr_escrows s @ [(i, p)]\<rparr>))\<lparr>tr_queue := enqueue_deal_publish_transactional (publish_job d p c) (tr_queue s)\<rparr>)"
  using assms find_listed_SomeD [OF assms(1)]
  by (simp add: publish_deal_def store_escrow_def Let_def update_listed_def)

lemma publish_job_keys [simp]: "publish_job (with_keys p c d) p' c' = publish_job d p' c'"
  by (simp add: publish_job_def)

lemma publish_job_simps [simp]:
  "dp_deal_id (publish_job d p c) = td_id d" "dp_token_symbol (publish_job d p c) = td_token_symbol d"
  "dp_escrow_public_key (publish_job d p c) = p" "dp_encrypted_escrow_secret (publish_job d p c) = c"
  "dp_token_count (publish_job d p c) = td_token_count d"
  by (simp_all add: publish_job_def)

lemma find_deal_changed:
  "find_deal i ds = Some d \<Longrightarrow> (\<And>x. td_id (f x) = td_id x \<and> td_deleted (f x) = td_deleted x) \<Longrightarrow>
   find_deal i (update_deal i f ds) = Some (f d)"
  using find_one_SomeD [of "\<lambda>d. td_id d = i \<and> \<not> td_deleted d" ds d]
  by (simp add: find_deal_def update_deal_def find_one_update)

text \<open>
  C5: publishing a deal twice strands its tokens. The deal stays a draft until the queue has
  processed its job, so that the trader can publish it again, which creates a second escrow account
  and replaces the keys of the first. The first job then issues the tokens to the first account and
  opens the deal with the second one, and the second job is dropped as a duplicate.
\<close>
theorem publishing_twice_strands_the_tokens:
  assumes "find_listed i (tr_deals s) = Some d" "td_trader_id d = t" "td_status d = DealDraft"
    and "find_where (\<lambda>x. du_trade_deal_id x = i) (tr_documents s) \<noteq> []"
    and "tv_create_escrow env i = Inr (p1, k1)" "tv_encrypt_secret env k1 = Inr c1" "tv_db_error env = None"
    and "tv_create_escrow env' i = Inr (p2, k2)" "tv_encrypt_secret env' k2 = Inr c2" "tv_db_error env' = None"
    and "s2 = snd (publish_deal env' i t (snd (publish_deal env i t s)))"
    and "pr_deals ps = map trade_deal.truncate (tr_deals s2)"
    and "kv_processor pe" "kv_get (build_key ''deal.publish'' i) (pr_redis ps) = None" "pe_decrypt_secret pe c1 = Inr k1"
    and "pe_issue pe (td_token_symbol d) p1 k1 (td_token_count d) (pr_chain ps) = Inr (tx, pub, sec)"
    and "pe_encrypt_secret pe sec = Inr enc" "enc \<noteq> sec" "pe_db_error pe = None"
  shows "map qm_job (q_outbox (tr_queue s2)) =
      map qm_job (q_outbox (tr_queue s)) @ [PublishJob (publish_job d p1 c1), PublishJob (publish_job d p2 c2)]
    \<and> (\<exists>ps1 opened. process_deal_publish pe None (publish_job d p1 c1) ps = (Ack, ps1)
       \<and> pr_chain ps1 = pr_chain ps @ [AssetIssued (td_token_symbol d) p1 (td_token_count d)]
       \<and> find_deal i (pr_deals ps1) = Some opened \<and> td_status opened = DealOpen \<and> td_escrow_public_key opened = Some p2
       \<and> process_deal_publish pe None (publish_job d p2 c2) ps1 = (Ack, ps1))"
proof -
  have id: "td_id d = i" using find_listed_SomeD assms(1) by blast
  let ?s1 = "snd (publish_deal env i t s)"
  note first = publication_succeeds [OF assms(1-7)]
  have d1: "find_listed i (tr_deals ?s1) = Some (with_keys p1 c1 d)"
    using assms(1) id by (simp add: first find_listed_update)
  note second = publication_succeeds [OF d1 _ _ _ assms(8-10), of t]
  have s2: "tr_deals s2 = tr_deals (update_listed i (with_keys p2 c2) ?s1)"
     "tr_queue s2 = enqueue_deal_publish_transactional (publish_job d p2 c2)
        (enqueue_deal_publish_transactional (publish_job d p1 c1) (tr_queue s))"
    using second assms(2-4) by (simp_all add: assms(11) first update_listed_def)
  have "find_listed i (tr_deals s2) = Some (with_keys p2 c2 (with_keys p1 c1 d))"
    unfolding s2(1) using d1 id by (simp add: find_listed_update)
  then have row: "find_deal i (pr_deals ps) = Some (trade_deal.truncate (with_keys p2 c2 (with_keys p1 c1 d)))"
    by (simp add: assms(12) find_deal_truncated)
  have key: "publish_key (publish_job d p c) = build_key ''deal.publish'' i" for p c
    by (simp add: publish_key_def id)
  let ?open = "\<lambda>x. x\<lparr>td_status := DealOpen, td_app_trace_id := Some (pe_trace_id pe),
      td_issuer_public_key := Some pub, td_issuer_secret_key := Some enc\<rparr>"
  let ?ps1 = "snd (process_deal_publish pe None (publish_job d p1 c1) ps)"
  have run: "process_deal_publish pe None (publish_job d p1 c1) ps = (Ack, ?ps1)"
     "pr_chain ?ps1 = pr_chain ps @ [AssetIssued (td_token_symbol d) p1 (td_token_count d)]"
     "pr_deals ?ps1 = update_deal i ?open (pr_deals ps)"
     "kv_get (build_key ''deal.publish'' i) (pr_redis ?ps1) = Some ''done''"
    using assms(13-19) by (simp_all add: process_deal_publish_def key under_lease_free publish_body_def
        Let_def id mark_key_marks)
  have "find_deal i (pr_deals ?ps1) = Some (?open (trade_deal.truncate (with_keys p2 c2 (with_keys p1 c1 d))))"
    unfolding run(3) by (rule find_deal_changed [OF row]) simp
  moreover have "process_deal_publish pe None (publish_job d p2 c2) ?ps1 = (Ack, ?ps1)"
    unfolding process_deal_publish_def [of pe None "publish_job d p2 c2"] key
    by (rule under_lease_taken [OF assms(13) run(4)]) simp
  ultimately show ?thesis using run(1,2) by (fastforce simp: s2(2) transactional_defs)
qed

definition example_second_env :: deals_env where
  "example_second_env = example_deals_env\<lparr>tv_create_escrow := (\<lambda>_. Inr (''E2'', ''K2''))\<rparr>"

definition twice_published :: deals_state where
  "twice_published = snd (publish_deal example_second_env ''d1'' ''t1''
     (snd (publish_deal example_deals_env ''d1'' ''t1'' (example_deals DealDraft))))"

theorem publishing_twice_strands_the_tokens_witness:
  "\<exists>ps1 opened. process_deal_publish (example_processor None) None (publish_job (example_listed DealDraft) ''E1'' ''K1'')
        (example_processor_state\<lparr>pr_deals := map trade_deal.truncate (tr_deals twice_published)\<rparr>) = (Ack, ps1)
     \<and> pr_chain ps1 = [AssetIssued ''COCOAd1'' ''E1'' 20]
     \<and> find_deal ''d1'' (pr_deals ps1) = Some opened \<and> td_status opened = DealOpen \<and> td_escrow_public_key opened = Some ''E2''"
proof -
  let ?ps = "example_processor_state\<lparr>pr_deals := map trade_deal.truncate (tr_deals twice_published)\<rparr>"
  have d: "find_listed ''d1'' (tr_deals (example_deals DealDraft)) = Some (example_listed DealDraft)"
    "td_trader_id (example_listed DealDraft) = ''t1''" "td_status (example_listed DealDraft) = DealDraft"
    "find_where (\<lambda>x. du_trade_deal_id x = ''d1'') (tr_documents (example_deals DealDraft)) \<noteq> []"
    by (simp_all add: example_deals_def example_listed_def new_deal_def example_deals_env_def example_dto_def find_listed_def
        find_one_def find_where_def)
  have e: "tv_create_escrow example_deals_env ''d1'' = Inr (''E1'', ''K1'')" "tv_encrypt_secret example_deals_env ''K1'' = Inr ''K1''"
    "tv_db_error example_deals_env = None" "tv_create_escrow example_second_env ''d1'' = Inr (''E2'', ''K2'')"
    "tv_encrypt_secret example_second_env ''K2'' = Inr ''K2''" "tv_db_error example_second_env = None"
    by (simp_all add: example_second_env_def example_deals_env_def)
  have p: "pr_deals ?ps = map trade_deal.truncate (tr_deals twice_published)" "kv_processor (example_processor None)"
    "kv_get (build_key ''deal.publish'' ''d1'') (pr_redis ?ps) = None"
    using example_processor_facts(1,2) by simp_all
  have i: "pe_decrypt_secret (example_processor None) ''K1'' = Inr ''K1''"
    "pe_issue (example_processor None) (td_token_symbol (example_listed DealDraft)) ''E1'' ''K1''
       (td_token_count (example_listed DealDraft)) (pr_chain ?ps) = Inr (''tx'', ''P'', ''S'')"
    "pe_encrypt_secret (example_processor None) ''S'' = Inr ''xS''" "''xS'' \<noteq> ''S''" "pe_db_error (example_processor None) = None"
    by (simp_all add: example_processor_def)
  have "td_token_symbol (example_listed DealDraft) = ''COCOAd1''" "td_token_count (example_listed DealDraft) = 20"
    "pr_chain ?ps = []"
    by (simp_all add: example_listed_def new_deal_def example_dto_def example_deals_env_def generate_token_symbol_def ascii_upper_def
        alphanumeric_def char_between_def div_js_def math_floor_def Let_def example_processor_state_def)
  with publishing_twice_strands_the_tokens [OF d e twice_published_def p i] show ?thesis by auto
qed

subsection \<open>The path of the status\<close>

text \<open>
  How these services may change a deal: a draft or open deal may be canceled, an open one may
  expire, and of any other deal only the mark of deletion changes.
\<close>

definition lifecycle :: "listed_deal \<Rightarrow> listed_deal \<Rightarrow> bool" where
  "lifecycle d d' \<longleftrightarrow> td_id d' = td_id d \<and>
     (case td_status d of
        DealDraft \<Rightarrow> td_status d' \<in> {DealDraft, DealCanceled}
      | DealOpen \<Rightarrow> td_status d' \<in> {DealOpen, DealCanceled, DealExpired}
      | _ \<Rightarrow> d' = d\<lparr>td_deleted := td_deleted d'\<rparr>)"

lemma lifecycle_refl [simp]: "lifecycle d d"
  by (simp add: lifecycle_def split: deal_status.split)

lemma closed_eq: "d' = d\<lparr>td_deleted := b\<rparr> \<Longrightarrow> td_status d' = td_status d"
  by simp

lemma lifecycle_trans: "lifecycle d d' \<Longrightarrow> lifecycle d' d'' \<Longrightarrow> lifecycle d d''"
  unfolding lifecycle_def
  by (cases "td_status d"; cases "td_status d'"; auto dest: closed_eq; cases d; cases d'; cases d''; auto)

text \<open>What an operation on a table with unique identifiers keeps.\<close>

definition table_follows :: "listed_deal list \<Rightarrow> listed_deal list \<Rightarrow> bool" where
  "table_follows ds ds' \<longleftrightarrow> (distinct (map td_id ds) \<longrightarrow>
     distinct (map td_id ds') \<and> (\<forall>d \<in> set ds. \<exists>d' \<in> set ds'. lifecycle d d'))"

lemma table_follows_refl [simp]: "table_follows ds ds"
  unfolding table_follows_def by (blast intro: lifecycle_refl)

lemma table_follows_trans: "table_follows a b \<Longrightarrow> table_follows b c \<Longrightarrow> table_follows a c"
  unfolding table_follows_def using lifecycle_trans by meson

lemma table_follows_update:
  assumes "\<And>d. td_id (f d) = td_id d" "\<And>d. d \<in> set (tr_deals s) \<Longrightarrow> td_id d = i \<Longrightarrow> distinct (map td_id (tr_deals s)) \<Longrightarrow> lifecycle d (f d)"
  shows "table_follows (tr_deals s) (tr_deals (update_listed i f s))"
proof -
  have "map td_id (tr_deals (update_listed i f s)) = map td_id (tr_deals s)"
    using assms(1) by (simp add: update_listed_def map_update_where)
  moreover have "\<exists>d' \<in> set (tr_deals (update_listed i f s)). lifecycle d d'"
    if "d \<in> set (tr_deals s)" "distinct (map td_id (tr_deals s))" for d
  proof
    show "lifecycle d (if td_id d = i then f d else d)" using assms(2) that by simp
    show "(if td_id d = i then f d else d) \<in> set (tr_deals (update_listed i f s))"
      using that by (auto simp: update_listed_def set_update_where)
  qed
  ultimately show ?thesis by (simp add: table_follows_def)
qed

lemma found_row:
  "find_listed i ds = Some d \<Longrightarrow> distinct (map td_id ds) \<Longrightarrow> x \<in> set ds \<Longrightarrow> td_id x = i \<Longrightarrow> x = d"
  using find_listed_SomeD [of i ds d] by (auto simp: distinct_map dest: inj_onD)

lemma table_follows_found:
  assumes "find_listed i (tr_deals s) = Some d" "\<And>x. td_id (f x) = td_id x" "lifecycle d (f d)"
  shows "table_follows (tr_deals s) (tr_deals (update_listed i f s))"
  using assms found_row by (intro table_follows_update) blast+

lemma table_follows_insert: "td_id d \<notin> td_id ` set ds \<Longrightarrow> table_follows ds (insert_row d ds)"
  unfolding table_follows_def by (auto simp: insert_row_def intro: lifecycle_refl)

lemma create_follows:
  "tv_new_id env \<notin> td_id ` set (tr_deals s) \<Longrightarrow> table_follows (tr_deals s) (tr_deals (snd (create_deal env t dto s)))"
  using table_follows_insert [of "new_deal env t dto" "tr_deals s"]
  by (auto simp: create_deal_def Let_def new_deal_def split: option.split)

lemma publish_follows: "table_follows (tr_deals s) (tr_deals (snd (publish_deal env i t s)))"
proof -
  have "table_follows (tr_deals s) (tr_deals (update_listed (td_id d) (with_keys p c) s))"
    if "find_listed i (tr_deals s) = Some d" "td_status d = DealDraft" for d p c
    using table_follows_found [of "td_id d" s d "with_keys p c"] that find_listed_SomeD [OF that(1)]
    by (simp add: lifecycle_def)
  then show ?thesis
    by (auto simp: publish_deal_def store_escrow_def Let_def update_listed_def split: option.split sum.split)
qed

lemma lifecycle_end:
  "td_status d = DealDraft \<and> st = DealCanceled \<or> td_status d = DealOpen \<and> st \<in> {DealCanceled, DealExpired} \<Longrightarrow>
   lifecycle d (with_status env st d)"
  by (auto simp: lifecycle_def)

lemma cancel_follows: "table_follows (tr_deals s) (tr_deals (snd (cancel_deal env i t s)))"
proof (cases rule: cancel_cases [of env i t s])
  case (canceled d s1)
  have "table_follows (tr_deals (mark_refunded (confirmed_of i s) s1))
      (tr_deals (update_listed i (with_status env DealCanceled) (mark_refunded (confirmed_of i s) s1)))"
    using canceled(1,3,4) by (intro table_follows_found [of i _ d] lifecycle_end) auto
  then show ?thesis using canceled by simp
qed simp_all

lemma expiry_messages_deals [simp]: "tr_deals (expiry_messages env d s) = tr_deals s"
  by (simp add: expiry_messages_def Let_def)

lemma expire_follows: "table_follows (tr_deals s) (tr_deals (snd (expire_deal env i s)))"
proof (cases "find_listed i (tr_deals s)")
  case (Some d)
  obtain r s1 where m: "(if issued d then claw_back env d (with_unsold d (holders s (confirmed_of i s))) else done_with ()) s = (r, s1)"
    by fastforce
  then have s1: "tr_deals s1 = tr_deals s" by (auto split: if_splits dest: claw_back_frame)
  have "table_follows (tr_deals (mark_refunded (confirmed_of i s) s1))
      (tr_deals (update_listed i (with_status env DealExpired) (mark_refunded (confirmed_of i s) s1)))" if "td_status d = DealOpen"
    using Some that by (intro table_follows_found [of i _ d] lifecycle_end) (auto simp: s1)
  then show ?thesis using Some s1 m by (cases r) (auto simp: expire_deal_def Let_def and_then_def)
qed (simp add: expire_deal_def)

lemma close_follows: "table_follows (tr_deals s) (tr_deals (snd (close_underfunded_deal env i s)))"
proof (cases "find_listed i (tr_deals s)")
  case (Some d)
  obtain r s1 where m: "(if present (ld_campaign d) \<and> tv_soroban env then refund_on_campaign env (the (ld_campaign d)) (confirmed_of i s)
      else if issued d then claw_back env d (holders s (confirmed_of i s)) else done_with ()) s = (r, s1)"
    by fastforce
  then have s1: "tr_deals s1 = tr_deals s" by (auto split: if_splits dest: claw_back_frame refund_on_campaign_frame)
  have "table_follows (tr_deals (mark_refunded (confirmed_of i s) s1))
      (tr_deals (update_listed i (with_status env DealExpired) (mark_refunded (confirmed_of i s) s1)))" if "td_status d = DealOpen"
    using Some that by (intro table_follows_found [of i _ d] lifecycle_end) (auto simp: s1)
  then show ?thesis using Some s1 m by (cases r) (auto simp: close_underfunded_deal_def Let_def and_then_def)
qed (simp add: close_underfunded_deal_def)

lemma close_each_follows: "table_follows (tr_deals s) (tr_deals (close_each env ds s))"
  using close_follows table_follows_trans by (induction ds arbitrary: s) (auto, blast)

lemma lifecycle_deleted: "lifecycle d (d\<lparr>td_deleted := b\<rparr>)"
  by (simp add: lifecycle_def split: deal_status.split)

lemma step_follows: "deals_step s s' \<Longrightarrow> table_follows (tr_deals s) (tr_deals s')"
proof (induction rule: deals_step.induct)
  case (document s env upload file_size)
  then show ?case by (auto simp: add_document_def Let_def split: option.split)
next
  case (delete s i)
  then show ?case
    by (auto simp: soft_delete_deal_def lifecycle_deleted split: option.split intro!: table_follows_update)
next
  case (restore s i)
  then show ?case
    by (auto simp: restore_deal_def lifecycle_deleted split: option.split intro!: table_follows_update)
next
  case (refund s env)
  then show ?case by (simp add: refund_pending_on_expired_def Let_def)
qed (simp_all add: create_follows publish_follows cancel_follows expire_follows close_each_follows
       expire_overdue_deals_def update_document_storage_def)

text \<open>
  C6: the path of the status. Whatever sequence of these operations runs, a draft deal stays a draft or
  is canceled, an open deal stays open, is canceled or expires, and of a deal in any other status no
  column changes but the mark of deletion; no deal disappears and no identifier is given twice.
\<close>
theorem deals_follow_their_lifecycle:
  assumes "deals_step\<^sup>*\<^sup>* s s'" "distinct (map td_id (tr_deals s))"
  shows "distinct (map td_id (tr_deals s')) \<and> (\<forall>d \<in> set (tr_deals s). \<exists>d' \<in> set (tr_deals s'). lifecycle d d')"
proof -
  have "table_follows (tr_deals s) (tr_deals s')"
    using assms(1) by (induction rule: rtranclp_induct) (auto intro: table_follows_trans step_follows)
  then show ?thesis using assms(2) by (simp add: table_follows_def)
qed

theorem deals_follow_their_lifecycle_witness:
  "distinct (map td_id (tr_deals (snd (restore_deal ''d1'' (snd (soft_delete_deal ''d1'' (example_deals DealCanceled)))))))
   \<and> list_ex (lifecycle (example_listed DealCanceled))
       (tr_deals (snd (restore_deal ''d1'' (snd (soft_delete_deal ''d1'' (example_deals DealCanceled))))))"
proof -
  have "deals_step\<^sup>*\<^sup>* (example_deals DealCanceled) (snd (restore_deal ''d1'' (snd (soft_delete_deal ''d1'' (example_deals DealCanceled)))))"
    by (meson deals_step.delete deals_step.restore r_into_rtranclp rtranclp.rtrancl_into_rtrancl)
  from deals_follow_their_lifecycle [OF this] show ?thesis
    by (simp add: example_deals_def Bex_set)
qed

subsection \<open>Closing a campaign\<close>

lemma refund_each_stops:
  assumes "\<And>u. u \<in> set us \<Longrightarrow> present (wallet_in s u) \<and> tv_refund env c (the (wallet_in s u)) = None"
    and "\<not> present (wallet_in s v)"
  shows "refund_each env c (us @ v # vs) s = (Inl (Unprocessable ''INVESTOR_WALLET_REQUIRED''),
     s\<lparr>tr_campaigns := tr_campaigns s @ map (\<lambda>u. InvestorRefunded c (the (wallet_in s u))) us\<rparr>)"
  using assms
proof (induction us arbitrary: s)
  case (Cons u us)
  have wallet: "wallet_in (s\<lparr>tr_campaigns := x\<rparr>) w = wallet_in s w" for x w by (simp add: wallet_in_def)
  show ?case using Cons.prems Cons.IH [of "s\<lparr>tr_campaigns := tr_campaigns s @ [InvestorRefunded c (the (wallet_in s u))]\<rparr>"]
    by (simp add: wallet)
qed simp

text \<open>
  An investor without a wallet keeps a failed campaign from being closed. Every run marks the
  campaign failed and refunds the investors before that one again, and then gives up: after any
  number of runs the deal and the investments are as before, and the calls were made once per run.
\<close>
theorem failed_campaign_is_refunded_again:
  assumes "find_listed i (tr_deals s) = Some d" "td_status d = DealOpen" "td_total_invested d < td_total_value d"
    and "ld_campaign d = Some c" "c \<noteq> []" "tv_soroban env" "tv_mark_failed env c = None"
    and "confirmed_of i s = us @ v # vs" "\<not> present (wallet_in s v)"
    and "\<And>u. u \<in> set us \<Longrightarrow> present (wallet_in s u) \<and> tv_refund env c (the (wallet_in s u)) = None"
  shows "((\<lambda>s. snd (close_underfunded_deal env i s)) ^^ n) s =
     s\<lparr>tr_campaigns := tr_campaigns s @
         concat (replicate n (MarkedFailed c # map (\<lambda>u. InvestorRefunded c (the (wallet_in s u))) us))\<rparr>"
proof (induction n)
  case (Suc n)
  let ?calls = "MarkedFailed c # map (\<lambda>u. InvestorRefunded c (the (wallet_in s u))) us"
  have wallet: "wallet_in (s\<lparr>tr_campaigns := x\<rparr>) w = wallet_in s w" for x w by (simp add: wallet_in_def)
  have rows: "confirmed_of i (s\<lparr>tr_campaigns := x\<rparr>) = us @ v # vs" for x using assms(8) by (simp add: confirmed_of_def)
  have once: "snd (close_underfunded_deal env i (s\<lparr>tr_campaigns := x\<rparr>)) = s\<lparr>tr_campaigns := x @ ?calls\<rparr>" for x
  proof -
    have "refund_each env c (us @ v # vs) (s\<lparr>tr_campaigns := x @ [MarkedFailed c]\<rparr>) =
        (Inl (Unprocessable ''INVESTOR_WALLET_REQUIRED''), s\<lparr>tr_campaigns := x @ ?calls\<rparr>)"
      using refund_each_stops [of us "s\<lparr>tr_campaigns := x @ [MarkedFailed c]\<rparr>" env c v vs] assms(9,10) by (simp add: wallet)
    then show ?thesis
      using assms(1-7) by (simp add: close_underfunded_deal_def rows refund_on_campaign_def and_then_def)
  qed
  have "concat (replicate (Suc n) ?calls) = concat (replicate n ?calls) @ ?calls"
    by (induction n) simp_all
  then show ?case by (simp only: funpow.simps comp_apply Suc once append_assoc)
qed simp

definition example_campaign :: deals_state where
  "example_campaign = (example_deals DealOpen)
     \<lparr>tr_deals := [(example_listed DealOpen)\<lparr>ld_campaign := Some ''C''\<rparr>],
      tr_investments := [example_investment ''v1'' InvConfirmed, (example_investment ''v2'' InvConfirmed)\<lparr>iv_investor_id := ''i2''\<rparr>]\<rparr>"

theorem failed_campaign_is_refunded_again_witness:
  "tr_campaigns (((\<lambda>s. snd (close_underfunded_deal example_deals_env ''d1'' s)) ^^ 2) example_campaign) =
     [MarkedFailed ''C'', InvestorRefunded ''C'' ''G'', MarkedFailed ''C'', InvestorRefunded ''C'' ''G'']"
proof -
  have d: "find_listed ''d1'' (tr_deals example_campaign) = Some ((example_listed DealOpen)\<lparr>ld_campaign := Some ''C''\<rparr>)"
    "td_status ((example_listed DealOpen)\<lparr>ld_campaign := Some ''C''\<rparr>) = DealOpen"
    "td_total_invested ((example_listed DealOpen)\<lparr>ld_campaign := Some ''C''\<rparr>) < td_total_value ((example_listed DealOpen)\<lparr>ld_campaign := Some ''C''\<rparr>)"
    "ld_campaign ((example_listed DealOpen)\<lparr>ld_campaign := Some ''C''\<rparr>) = Some ''C''" "''C'' \<noteq> []"
    "tv_soroban example_deals_env" "tv_mark_failed example_deals_env ''C'' = None"
    "confirmed_of ''d1'' example_campaign = [example_investment ''v1'' InvConfirmed] @
       (example_investment ''v2'' InvConfirmed)\<lparr>iv_investor_id := ''i2''\<rparr> # []"
    "\<not> present (wallet_in example_campaign ((example_investment ''v2'' InvConfirmed)\<lparr>iv_investor_id := ''i2''\<rparr>))"
    and w: "wallet_in example_campaign (example_investment ''v1'' InvConfirmed) = Some ''G''"
    by (simp_all add: example_campaign_def example_deals_def example_listed_def new_deal_def example_deals_env_def example_dto_def
        find_listed_def find_one_def find_where_def example_investment_def confirmed_of_def investments_of_def wallet_in_def
        find_user_def sample_user_def)
  have u: "present (wallet_in example_campaign u) \<and> tv_refund example_deals_env ''C'' (the (wallet_in example_campaign u)) = None"
    if "u \<in> set [example_investment ''v1'' InvConfirmed]" for u
    using that w by (simp add: example_deals_env_def)
  have "tr_campaigns example_campaign = []" by (simp add: example_campaign_def example_deals_def)
  with failed_campaign_is_refunded_again [OF d u, of 2] show ?thesis
    by (simp add: w numeral_2_eq_2)
qed

end
