(* ===== verification/Insurance.thy ===== *)
theory Insurance
  imports Entities Decimals JsText QueueCrypto "HOL-Library.List_Lexorder" "HOL-Library.Char_ord" "HOL-Library.Product_Lexorder"
begin

text \<open>
  \<open>backend/src/insurance/insurance.service.ts\<close>: quotes of several providers for a deal are compared,
  a quote is issued as a policy whose contract is anchored on Stellar, claims are made on a policy
  by its users or by a signed event, and the signed messages of the provider approve, reject or pay
  a claim; a payment releases the money from an escrow to the farmer. The providers, Stellar, the
  digests, the configuration, clock and identifiers are the parameters gathered in
  \<open>insurance_env\<close>. Amounts are the numbers that \<open>Number\<close> makes of the decimal columns of two places.
  Left out: \<open>getAnalytics\<close>, which only counts rows, and logging.
\<close>

subsection \<open>Rows\<close>

datatype coverage_type = CropFailure | ShipmentDamage | PriceFluctuation

datatype quote_status = QuoteOffered | QuoteIssuing | QuoteIssued

datatype policy_status = PolicyAnchorPending | PolicyActive | PolicyExpired

datatype claim_status =
    ClaimSubmitted | ClaimSubmissionFailed | ClaimApproved | ClaimRejected
  | ClaimPayoutPending | ClaimPayoutProcessing | ClaimPaid

record insured_deal = trade_deal +
  id_risk_score :: "jsnum option"
  id_duration_days :: "jsnum option"

record insurance_quote =
  qt_id :: string
  qt_trade_deal_id :: string
  qt_created_by :: string
  qt_provider_id :: string
  qt_provider_quote_id :: string
  qt_coverage_type :: coverage_type
  qt_coverage_amount :: jsnum
  qt_premium :: jsnum
  qt_currency :: string
  qt_terms :: string
  qt_risk_score :: jsnum
  qt_expires_at :: int
  qt_status :: quote_status

record insurance_policy =
  pl_id :: string
  pl_quote_id :: string
  pl_trade_deal_id :: string
  pl_provider_id :: string
  pl_provider_policy_id :: string
  pl_policy_number :: "string option"
  pl_coverage_type :: coverage_type
  pl_coverage_amount :: jsnum
  pl_currency :: string
  pl_contract_hash :: string
  pl_tx_hash :: "string option"
  pl_status :: policy_status
  pl_created_at :: int

record insurance_claim =
  cl_id :: string
  cl_policy_id :: string
  cl_trade_deal_id :: string
  cl_provider_id :: string
  cl_event_id :: string
  cl_event_type :: coverage_type
  cl_amount :: jsnum
  cl_approved_amount :: "jsnum option"
  cl_evidence :: "string list"
  cl_provider_claim_id :: "string option"
  cl_provider_payout_id :: "string option"
  cl_payout_tx_hash :: "string option"
  cl_status :: claim_status

subsection \<open>The configured providers\<close>

text \<open>
  An entry of the configuration that is an object, with the fields that are strings, and the
  protocol, user name and password of its URL when that can be parsed.
\<close>

record provider_entry =
  pe_id :: "string option"
  pe_name :: "string option"
  pe_api_key :: "string option"
  pe_webhook_secret :: "string option"
  pe_url :: "(string \<times> string \<times> string) option"

datatype provider_config = NotJson | NotAnArray | ProviderEntries "provider_entry option list"

record insurance_provider =
  ip_id :: string
  ip_name :: string
  ip_api_key :: string
  ip_webhook_secret :: string

definition unavailable :: "string \<Rightarrow> http_error" where
  "unavailable msg = Internal (''ServiceUnavailable: '' @ msg)"

definition bad_gateway :: "string \<Rightarrow> http_error" where
  "bad_gateway msg = Internal (''BadGateway: '' @ msg)"

fun check_entries :: "string list \<Rightarrow> provider_entry option list \<Rightarrow> http_error + insurance_provider list" where
  "check_entries seen [] = Inr []"
| "check_entries seen (None # es) = Inl (unavailable ''Insurance provider configuration entries must be objects.'')"
| "check_entries seen (Some e # es) =
     (case pe_url e of
        None \<Rightarrow> Inl (unavailable ''An insurance provider URL is invalid.'')
      | Some (protocol, username, password) \<Rightarrow>
          if \<not> present (pe_id e) \<or> \<not> present (pe_name e) \<or> \<not> present (pe_api_key e) \<or> \<not> present (pe_webhook_secret e)
             \<or> the (pe_id e) \<in> set seen \<or> protocol \<noteq> ''https:'' \<or> username \<noteq> [] \<or> password \<noteq> []
          then Inl (unavailable ''Insurance providers require unique IDs, credentials, webhook secrets, and HTTPS base URLs.'')
          else (case check_entries (the (pe_id e) # seen) es of
                  Inl err \<Rightarrow> Inl err
                | Inr ps \<Rightarrow> Inr (\<lparr>ip_id = the (pe_id e), ip_name = the (pe_name e), ip_api_key = the (pe_api_key e),
                                  ip_webhook_secret = the (pe_webhook_secret e)\<rparr> # ps)))"

definition get_providers :: "provider_config \<Rightarrow> http_error + insurance_provider list" where
  "get_providers config =
     (case config of
        NotJson \<Rightarrow> Inl (unavailable ''INSURANCE_PROVIDERS is not valid JSON.'')
      | NotAnArray \<Rightarrow> Inl (unavailable ''INSURANCE_PROVIDERS must be a JSON array.'')
      | ProviderEntries es \<Rightarrow> check_entries [] es)"

definition get_provider :: "provider_config \<Rightarrow> string \<Rightarrow> http_error + insurance_provider" where
  "get_provider config provider_id =
     (case get_providers config of
        Inl e \<Rightarrow> Inl e
      | Inr ps \<Rightarrow> (case find_one (\<lambda>p. ip_id p = provider_id) ps of
                    None \<Rightarrow> Inl (NotFound ''Insurance provider is not configured.'')
                  | Some p \<Rightarrow> Inr p))"

subsection \<open>State and parameters\<close>

text \<open>
  What was sent to the providers, and what left the escrow. A quote of a provider consists of the
  values that \<open>Number\<close>, \<open>String\<close> and \<open>Date\<close> make of its fields; a number or date that is not
  finite is \<open>None\<close>.
\<close>

datatype provider_call =
    QuoteCall string string
  | PolicyCall string string
  | ClaimCall string string
  | PayoutCall string string jsnum

record provider_quote =
  pq_quote_id :: "string option"
  pq_premium :: "jsnum option"
  pq_coverage_amount :: "jsnum option"
  pq_currency :: string
  pq_terms :: "string option"
  pq_expires_at :: "int option option"

record insurance_state =
  in_deals :: "insured_deal list"
  in_users :: "user list"
  in_quotes :: "insurance_quote list"
  in_policies :: "insurance_policy list"
  in_claims :: "insurance_claim list"
  in_calls :: "provider_call list"
  in_anchors :: "string list"
  in_payouts :: "(string \<times> jsnum \<times> string) list"

text \<open>
  \<open>nv_release\<close> answers whether the transaction took effect and what the call returned: the call may
  fail although the payment was made. \<open>nv_new_id\<close> gives the identifier of the row that is made for
  a provider, quote or policy.
\<close>

record insurance_env =
  nv_providers :: provider_config
  nv_quote :: "string \<Rightarrow> string \<Rightarrow> coverage_type \<Rightarrow> jsnum \<Rightarrow> jsnum \<Rightarrow> provider_quote option"
  nv_policy :: "string \<Rightarrow> string \<Rightarrow> string \<Rightarrow> string \<Rightarrow> (string option \<times> string option) option"
  nv_claim :: "string \<Rightarrow> string \<Rightarrow> jsnum \<Rightarrow> string option option"
  nv_payout :: "string \<Rightarrow> string \<Rightarrow> jsnum \<Rightarrow> string option option"
  nv_anchor :: "string \<Rightarrow> string option"
  nv_release :: "string \<Rightarrow> jsnum \<Rightarrow> string \<Rightarrow> bool \<times> string option"
  nv_platform_secret :: string
  nv_payout_secret :: string
  nv_event_secret :: string
  nv_hmac :: "string \<Rightarrow> string \<Rightarrow> bytes"
  nv_contract_hash :: "insurance_quote \<Rightarrow> int \<Rightarrow> string"
  nv_show_num :: "jsnum \<Rightarrow> string"
  nv_policy_write :: bool
  nv_quote_write :: bool
  nv_new_id :: "string \<Rightarrow> string"
  nv_now :: int

type_synonym 'a insurance_handler = "(insurance_state, http_error, 'a) handler"

definition find_insured :: "string \<Rightarrow> insured_deal list \<Rightarrow> insured_deal option" where
  "find_insured i deals = find_one (\<lambda>d. td_id d = i \<and> \<not> td_deleted d) deals"

definition find_quote :: "string \<Rightarrow> insurance_state \<Rightarrow> insurance_quote option" where
  "find_quote i s = find_one (\<lambda>q. qt_id q = i) (in_quotes s)"

definition find_policy :: "string \<Rightarrow> insurance_state \<Rightarrow> insurance_policy option" where
  "find_policy i s = find_one (\<lambda>p. pl_id p = i) (in_policies s)"

definition update_quote :: "string \<Rightarrow> quote_status \<Rightarrow> insurance_state \<Rightarrow> insurance_state" where
  "update_quote i st s = s\<lparr>in_quotes := update_where (\<lambda>q. qt_id q = i) (\<lambda>q. q\<lparr>qt_status := st\<rparr>) (in_quotes s)\<rparr>"

text \<open>\<open>save\<close> of a row that was read before writes every column of it.\<close>

definition save_claim :: "insurance_claim \<Rightarrow> insurance_state \<Rightarrow> insurance_state" where
  "save_claim c s = s\<lparr>in_claims := update_where (\<lambda>x. cl_id x = cl_id c) (\<lambda>_. c) (in_claims s)\<rparr>"

definition save_policy :: "insurance_policy \<Rightarrow> insurance_state \<Rightarrow> insurance_state" where
  "save_policy p s = s\<lparr>in_policies := update_where (\<lambda>x. pl_id x = pl_id p) (\<lambda>_. p) (in_policies s)\<rparr>"

definition record_call :: "provider_call \<Rightarrow> insurance_state \<Rightarrow> insurance_state" where
  "record_call c s = s\<lparr>in_calls := in_calls s @ [c]\<rparr>"

definition admin_roles :: "string list" where
  "admin_roles = [''admin'', ''company_admin'']"

definition get_authorized_deal :: "user \<Rightarrow> string \<Rightarrow> insurance_state \<Rightarrow> http_error + insured_deal" where
  "get_authorized_deal u deal_id s =
     (case find_insured deal_id (in_deals s) of
        None \<Rightarrow> Inl (NotFound ''Trade deal not found.'')
      | Some d \<Rightarrow>
          if us_role u \<notin> set admin_roles \<and> td_farmer_id d \<noteq> us_id u \<and> td_trader_id d \<noteq> us_id u
          then Inl (Forbidden ''You cannot access insurance for this deal.'')
          else Inr d)"

subsection \<open>Quotes\<close>

fun base_rate :: "coverage_type \<Rightarrow> jsnum" where
  "base_rate CropFailure = lit (35 / 1000)"
| "base_rate ShipmentDamage = lit (2 / 100)"
| "base_rate PriceFluctuation = lit (25 / 1000)"

definition commodity_volatility :: "(string \<times> jsnum) list" where
  "commodity_volatility =
     [(''cocoa'', lit (12 / 10)), (''coffee'', lit (118 / 100)), (''sugar'', lit (125 / 100)), (''maize'', lit (108 / 100)),
      (''corn'', lit (108 / 100)), (''wheat'', lit (112 / 100)), (''rice'', lit (105 / 100)), (''soybeans'', lit (112 / 100)),
      (''cotton'', lit (11 / 10))]"

definition get_risk_score :: "insured_deal \<Rightarrow> jsnum" where
  "get_risk_score d = (case id_risk_score d of Some score \<Rightarrow> min 100 (max 0 score) | None \<Rightarrow> 50)"

definition calculate_premium :: "insured_deal \<Rightarrow> coverage_type \<Rightarrow> jsnum \<Rightarrow> jsnum \<Rightarrow> jsnum" where
  "calculate_premium d coverage coverage_amount risk_score =
     (let duration_factor = min 2 (max (1 / 2) (div_js (case id_duration_days d of Some n \<Rightarrow> n | None \<Rightarrow> 90) 90));
          commodity_factor = (case map_of commodity_volatility (ascii_lower (td_commodity d)) of
                                Some f \<Rightarrow> f | None \<Rightarrow> lit (11 / 10));
          risk_factor = add_js (3 / 4) (div_js risk_score 100)
      in mul_js (mul_js (mul_js (mul_js coverage_amount (base_rate coverage)) risk_factor) duration_factor) commodity_factor)"

record normal_quote =
  nq_quote_id :: string
  nq_premium :: jsnum
  nq_coverage_amount :: jsnum
  nq_currency :: string
  nq_terms :: string
  nq_expires_at :: int

definition normalize_quote :: "insurance_env \<Rightarrow> provider_quote \<Rightarrow> jsnum \<Rightarrow> normal_quote option" where
  "normalize_quote env r requested =
     (let currency = ascii_upper (pq_currency r);
          expires_at = (case pq_expires_at r of None \<Rightarrow> Some (nv_now env + 15 * 60 * 1000) | Some t \<Rightarrow> t)
      in if \<not> present (pq_quote_id r) then None
         else (case (pq_premium r, pq_coverage_amount r, pq_terms r, expires_at) of
                 (Some premium, Some coverage, Some terms, Some expires) \<Rightarrow>
                   if premium < 0 \<or> coverage \<le> 0 \<or> requested < coverage \<or> currency \<noteq> ''USD'' \<or> expires \<le> nv_now env then None
                   else Some \<lparr>nq_quote_id = the (pq_quote_id r), nq_premium = premium, nq_coverage_amount = coverage,
                              nq_currency = currency, nq_terms = terms, nq_expires_at = expires\<rparr>
               | _ \<Rightarrow> None))"

text \<open>One provider: \<open>None\<close> when the request, the answer or the write of the row fails.\<close>

definition quote_row :: "insurance_env \<Rightarrow> user \<Rightarrow> insured_deal \<Rightarrow> coverage_type \<Rightarrow> jsnum \<Rightarrow> string \<Rightarrow> normal_quote \<Rightarrow> insurance_quote" where
  "quote_row env u d coverage risk_score provider_id n =
     \<lparr>qt_id = nv_new_id env provider_id, qt_trade_deal_id = td_id d, qt_created_by = us_id u, qt_provider_id = provider_id,
      qt_provider_quote_id = nq_quote_id n, qt_coverage_type = coverage, qt_coverage_amount = to_fixed 2 (nq_coverage_amount n),
      qt_premium = to_fixed 2 (nq_premium n), qt_currency = nq_currency n, qt_terms = nq_terms n,
      qt_risk_score = to_fixed 2 risk_score, qt_expires_at = nq_expires_at n, qt_status = QuoteOffered\<rparr>"

definition request_quote ::
  "insurance_env \<Rightarrow> user \<Rightarrow> insured_deal \<Rightarrow> coverage_type \<Rightarrow> jsnum \<Rightarrow> jsnum \<Rightarrow> jsnum \<Rightarrow> insurance_provider \<Rightarrow> insurance_state \<Rightarrow>
   insurance_quote option \<times> insurance_state" where
  "request_quote env u d coverage coverage_amount premium risk_score p s =
     (let s1 = record_call (QuoteCall (ip_id p) (td_id d)) s
      in case nv_quote env (ip_id p) (td_id d) coverage (to_fixed 2 coverage_amount) (to_fixed 2 premium) of
           None \<Rightarrow> (None, s1)
         | Some r \<Rightarrow>
        (case normalize_quote env r coverage_amount of
           None \<Rightarrow> (None, s1)
         | Some n \<Rightarrow>
             (let row = quote_row env u d coverage risk_score (ip_id p) n
              in if \<exists>q \<in> set (in_quotes s1). qt_provider_id q = ip_id p \<and> qt_provider_quote_id q = nq_quote_id n then (None, s1)
                 else (Some row, s1\<lparr>in_quotes := insert_row row (in_quotes s1)\<rparr>))))"

fun request_quotes ::
  "insurance_env \<Rightarrow> user \<Rightarrow> insured_deal \<Rightarrow> coverage_type \<Rightarrow> jsnum \<Rightarrow> jsnum \<Rightarrow> jsnum \<Rightarrow> insurance_provider list \<Rightarrow> insurance_state \<Rightarrow>
   insurance_quote list \<times> insurance_state" where
  "request_quotes env u d coverage amount premium risk [] s = ([], s)"
| "request_quotes env u d coverage amount premium risk (p # ps) s =
     (case request_quote env u d coverage amount premium risk p s of
        (q, s1) \<Rightarrow> (case request_quotes env u d coverage amount premium risk ps s1 of
           (qs, s2) \<Rightarrow> (case q of Some x \<Rightarrow> x # qs | None \<Rightarrow> qs, s2)))"

definition value_score :: "insurance_quote \<Rightarrow> jsnum" where
  "value_score q = (if 0 < qt_coverage_amount q then div_js (qt_coverage_amount q) (max (qt_premium q) (lit (1 / 100))) else 0)"

text \<open>The stable sort by the score, the higher first, then by the premium.\<close>

definition rank_quotes :: "insurance_quote list \<Rightarrow> insurance_quote list" where
  "rank_quotes qs = sort_key (\<lambda>q. (- value_score q, qt_premium q)) qs"

record quote_comparison =
  qc_deal_id :: string
  qc_risk_score :: jsnum
  qc_indicative_premium :: jsnum
  qc_recommended :: string
  qc_quotes :: "insurance_quote list"
  qc_unavailable :: "string list"

definition compare_quotes :: "insurance_env \<Rightarrow> user \<Rightarrow> string \<Rightarrow> coverage_type \<Rightarrow> jsnum option \<Rightarrow> quote_comparison insurance_handler" where
  "compare_quotes env u deal_id coverage percent s =
     (case get_authorized_deal u deal_id s of
        Inl e \<Rightarrow> throw e s
      | Inr d \<Rightarrow>
     (case get_providers (nv_providers env) of
        Inl e \<Rightarrow> throw e s
      | Inr providers \<Rightarrow>
     if providers = [] then throw (unavailable ''No insurance providers are configured.'') s
     else
       (let risk_score = get_risk_score d;
            coverage_amount = div_js (mul_js (td_total_value d) (case percent of Some n \<Rightarrow> n | None \<Rightarrow> 100)) 100
        in if coverage_amount \<le> 0 then throw (BadRequest ''Trade deal value must be positive.'') s
           else
             (let premium = calculate_premium d coverage coverage_amount risk_score
              in case request_quotes env u d coverage coverage_amount premium risk_score providers s of
                   (quotes, s1) \<Rightarrow>
                     if quotes = [] then throw (unavailable ''No configured insurance provider returned a valid quote.'') s1
                     else
                       (let ranked = rank_quotes quotes
                        in done_with
                             \<lparr>qc_deal_id = deal_id, qc_risk_score = risk_score, qc_indicative_premium = to_fixed 2 premium,
                              qc_recommended = qt_id (hd ranked), qc_quotes = ranked,
                              qc_unavailable = map ip_id (filter (\<lambda>p. \<not> (\<exists>q \<in> set quotes. qt_provider_id q = ip_id p)) providers)\<rparr> s1)))))"

subsection \<open>Policies\<close>

definition anchor_policy_record :: "insurance_env \<Rightarrow> insurance_policy \<Rightarrow> insurance_policy insurance_handler" where
  "anchor_policy_record env p s =
     (if pl_status p = PolicyActive then done_with p s
      else if pl_status p \<noteq> PolicyAnchorPending then throw (Conflict ''Policy cannot be anchored in its current state.'') s
      else if nv_platform_secret env = [] then throw (unavailable ''Stellar policy anchoring is not configured.'') s
      else (case nv_anchor env (pl_contract_hash p) of
              None \<Rightarrow> throw (unavailable ''Policy was issued but its Stellar anchor is pending retry.'') s
            | Some tx \<Rightarrow>
                (let p' = p\<lparr>pl_tx_hash := Some tx, pl_status := PolicyActive\<rparr>
                 in done_with p' (save_policy p' (s\<lparr>in_anchors := in_anchors s @ [pl_contract_hash p]\<rparr>)))))"

definition anchor_policy :: "insurance_env \<Rightarrow> user \<Rightarrow> string \<Rightarrow> insurance_policy insurance_handler" where
  "anchor_policy env u policy_id s =
     (case find_policy policy_id s of
        None \<Rightarrow> throw (NotFound ''Insurance policy not found.'') s
      | Some p \<Rightarrow>
          (case get_authorized_deal u (pl_trade_deal_id p) s of
             Inl e \<Rightarrow> throw e s
           | Inr _ \<Rightarrow> anchor_policy_record env p s))"

definition policy_row :: "insurance_env \<Rightarrow> insurance_quote \<Rightarrow> string \<Rightarrow> string option \<Rightarrow> insurance_policy" where
  "policy_row env q provider_policy_id number =
     \<lparr>pl_id = nv_new_id env (qt_id q), pl_quote_id = qt_id q, pl_trade_deal_id = qt_trade_deal_id q,
      pl_provider_id = qt_provider_id q, pl_provider_policy_id = provider_policy_id, pl_policy_number = number,
      pl_coverage_type = qt_coverage_type q, pl_coverage_amount = qt_coverage_amount q, pl_currency = qt_currency q,
      pl_contract_hash = nv_contract_hash env q (nv_now env), pl_tx_hash = None, pl_status = PolicyAnchorPending,
      pl_created_at = nv_now env\<rparr>"

text \<open>The body of the \<open>try\<close>; its error is that of the first call or write that fails.\<close>

definition issue_body :: "insurance_env \<Rightarrow> insurance_quote \<Rightarrow> (insurance_state, string, insurance_policy) handler" where
  "issue_body env q s =
     (case get_provider (nv_providers env) (qt_provider_id q) of
        Inl _ \<Rightarrow> throw ''Insurance provider is not configured.'' s
      | Inr _ \<Rightarrow>
          (let s1 = record_call (PolicyCall (qt_provider_id q) (qt_id q)) s
           in case nv_policy env (qt_provider_id q) (qt_provider_quote_id q) (qt_id q) (nv_contract_hash env q (nv_now env)) of
                None \<Rightarrow> throw ''request failed'' s1
              | Some (policy_id, number) \<Rightarrow>
                  if \<not> present policy_id then throw ''Provider response omitted policy_id'' s1
                  else if \<not> nv_policy_write env \<or> (\<exists>p \<in> set (in_policies s1). pl_quote_id p = qt_id q) then throw ''write failed'' s1
                  else
                    (let row = policy_row env q (the policy_id) number;
                         s2 = s1\<lparr>in_policies := insert_row row (in_policies s1)\<rparr>
                     in if \<not> nv_quote_write env then throw ''write failed'' s2
                        else done_with row (update_quote (qt_id q) QuoteIssued s2))))"

text \<open>
  The \<open>catch\<close> clause has no parameter and names \<open>error\<close>, which nothing declares: after the quote is
  offered again, the clause itself throws.
\<close>

definition issue_policy :: "insurance_env \<Rightarrow> user \<Rightarrow> string \<Rightarrow> insurance_policy insurance_handler" where
  "issue_policy env u quote_id s =
     (case find_quote quote_id s of
        None \<Rightarrow> throw (NotFound ''Insurance quote not found.'') s
      | Some q \<Rightarrow>
     (case get_authorized_deal u (qt_trade_deal_id q) s of
        Inl e \<Rightarrow> throw e s
      | Inr d \<Rightarrow>
     if qt_expires_at q \<le> nv_now env then throw (Conflict ''Insurance quote has expired.'') s
     else if qt_status q \<noteq> QuoteOffered then throw (Conflict ''Insurance quote has already been issued.'') s
     else if nv_platform_secret env = [] then throw (unavailable ''Stellar policy anchoring is not configured.'') s
     else (case issue_body env q (update_quote quote_id QuoteIssuing s) of
             (Inl _, s1) \<Rightarrow> throw (Internal ''ReferenceError'') (update_quote quote_id QuoteOffered s1)
           | (Inr p, s1) \<Rightarrow> anchor_policy_record env p s1)))"

subsection \<open>Signatures\<close>

text \<open>A value of JSON; the properties of an object in the order of their insertion, undefined ones left out.\<close>

datatype json =
    JNull
  | JBool bool
  | JNumber jsnum
  | JString string
  | JArray "json list"
  | JObject "(string \<times> json) list"

text \<open>\<open>JSON.stringify\<close> of a text.\<close>

definition hex4 :: "nat \<Rightarrow> string" where
  "hex4 n = ''00'' @ [hex_digits ! (n div 16 mod 16), hex_digits ! (n mod 16)]"

definition json_char :: "char \<Rightarrow> string" where
  "json_char c =
     (let n = of_char c :: nat
      in if n = 34 \<or> n = 92 then [CHR 0x5C, c]
         else if n = 8 then [CHR 0x5C, CHR ''b'']
         else if n = 9 then [CHR 0x5C, CHR ''t'']
         else if n = 10 then [CHR 0x5C, CHR ''n'']
         else if n = 12 then [CHR 0x5C, CHR ''f'']
         else if n = 13 then [CHR 0x5C, CHR ''r'']
         else if n < 32 then CHR 0x5C # CHR ''u'' # hex4 n
         else [c])"

definition json_string :: "string \<Rightarrow> string" where
  "json_string t = CHR 0x22 # concat (map json_char t) @ [CHR 0x22]"

fun join_comma :: "string list \<Rightarrow> string" where
  "join_comma [] = []"
| "join_comma [t] = t"
| "join_comma (t # u # us) = t @ CHR '','' # join_comma (u # us)"

fun canonicalize :: "(jsnum \<Rightarrow> string) \<Rightarrow> json \<Rightarrow> string" where
  "canonicalize show_num JNull = ''null''"
| "canonicalize show_num (JBool b) = (if b then ''true'' else ''false'')"
| "canonicalize show_num (JNumber n) = show_num n"
| "canonicalize show_num (JString t) = json_string t"
| "canonicalize show_num (JArray vs) = CHR ''['' # join_comma (map (canonicalize show_num) vs) @ '']''"
| "canonicalize show_num (JObject fs) =
     CHR ''{'' # join_comma (map (\<lambda>(k, t). json_string k @ CHR '':'' # t)
                              (sort_key fst (map (\<lambda>(k, v). (k, canonicalize show_num v)) fs))) @ ''}''"

fun drop_prefix :: "string \<Rightarrow> string \<Rightarrow> string option" where
  "drop_prefix [] t = Some t"
| "drop_prefix (c # cs) [] = None"
| "drop_prefix (c # cs) (d # ds) = (if c = d then drop_prefix cs ds else None)"

definition verify_signature :: "insurance_env \<Rightarrow> json \<Rightarrow> string \<Rightarrow> string \<Rightarrow> http_error + unit" where
  "verify_signature env payload signature secret =
     (if secret = [] \<or> signature = [] then Inl (Forbidden ''Insurance webhook signature is not configured.'')
      else if from_hex (case drop_prefix ''sha256='' signature of Some t \<Rightarrow> t | None \<Rightarrow> signature)
              \<noteq> nv_hmac env secret (canonicalize (nv_show_num env) payload)
      then Inl (Forbidden ''Insurance webhook signature is invalid.'')
      else Inr ())"

subsection \<open>Claims\<close>

record claim_dto =
  cd_event_id :: string
  cd_event_type :: coverage_type
  cd_amount :: jsnum
  cd_evidence :: "string list option"

definition find_claim :: "string \<Rightarrow> string \<Rightarrow> insurance_state \<Rightarrow> insurance_claim option" where
  "find_claim policy_id event_id s = find_one (\<lambda>c. cl_policy_id c = policy_id \<and> cl_event_id c = event_id) (in_claims s)"

definition send_claim_to_provider :: "insurance_env \<Rightarrow> insurance_claim \<Rightarrow> insurance_claim insurance_handler" where
  "send_claim_to_provider env c s =
     (let failed = (\<lambda>s. throw (bad_gateway ''Insurance provider could not accept the claim.'')
                          (save_claim (c\<lparr>cl_status := ClaimSubmissionFailed\<rparr>) s))
      in case get_provider (nv_providers env) (cl_provider_id c) of
           Inl _ \<Rightarrow> failed s
         | Inr _ \<Rightarrow>
             (let s1 = record_call (ClaimCall (cl_provider_id c) (cl_id c)) s
              in case nv_claim env (cl_provider_id c) (cl_id c) (cl_amount c) of
                   None \<Rightarrow> failed s1
                 | Some provider_claim_id \<Rightarrow>
                     if \<not> present provider_claim_id then failed s1
                     else (let c' = c\<lparr>cl_provider_claim_id := provider_claim_id, cl_status := ClaimSubmitted\<rparr>
                           in done_with c' (save_claim c' s1))))"

definition claim_row :: "insurance_env \<Rightarrow> insurance_policy \<Rightarrow> claim_dto \<Rightarrow> insurance_claim" where
  "claim_row env p dto =
     \<lparr>cl_id = nv_new_id env (pl_id p), cl_policy_id = pl_id p, cl_trade_deal_id = pl_trade_deal_id p,
      cl_provider_id = pl_provider_id p, cl_event_id = cd_event_id dto, cl_event_type = cd_event_type dto,
      cl_amount = to_fixed 2 (cd_amount dto), cl_approved_amount = None,
      cl_evidence = (case cd_evidence dto of Some xs \<Rightarrow> xs | None \<Rightarrow> []),
      cl_provider_claim_id = None, cl_provider_payout_id = None, cl_payout_tx_hash = None, cl_status = ClaimSubmitted\<rparr>"

definition different_claim :: http_error where
  "different_claim = Conflict ''This event ID is already associated with a different claim.''"

definition same_claim :: "insurance_claim \<Rightarrow> claim_dto \<Rightarrow> bool" where
  "same_claim c dto \<longleftrightarrow> cl_event_type c = cd_event_type dto \<and> cl_amount c = cd_amount dto"

text \<open>The write of the new row, which the unique index on policy and event may refuse.\<close>

definition insert_claim :: "insurance_env \<Rightarrow> insurance_policy \<Rightarrow> claim_dto \<Rightarrow> insurance_claim insurance_handler" where
  "insert_claim env p dto s =
     (case find_claim (pl_id p) (cd_event_id dto) s of
        Some c \<Rightarrow> if same_claim c dto then done_with c s else throw different_claim s
      | None \<Rightarrow>
          (let row = claim_row env p dto
           in send_claim_to_provider env row (s\<lparr>in_claims := insert_row row (in_claims s)\<rparr>)))"

definition submit_claim :: "insurance_env \<Rightarrow> insurance_policy \<Rightarrow> claim_dto \<Rightarrow> insurance_claim insurance_handler" where
  "submit_claim env p dto s =
     (if pl_status p \<noteq> PolicyActive then throw (Conflict ''Claims require an active anchored policy.'') s
      else if cd_event_type dto \<noteq> pl_coverage_type p then throw (BadRequest ''Event type is not covered by this policy.'') s
      else if pl_coverage_amount p < cd_amount dto then throw (BadRequest ''Claim amount exceeds policy coverage.'') s
      else (case find_claim (pl_id p) (cd_event_id dto) s of
              Some c \<Rightarrow>
                if \<not> same_claim c dto then throw different_claim s
                else if cl_status c = ClaimSubmissionFailed then send_claim_to_provider env c s
                else done_with c s
            | None \<Rightarrow> insert_claim env p dto s))"

definition create_claim :: "insurance_env \<Rightarrow> user \<Rightarrow> string \<Rightarrow> claim_dto \<Rightarrow> insurance_claim insurance_handler" where
  "create_claim env u policy_id dto s =
     (case find_policy policy_id s of
        None \<Rightarrow> throw (NotFound ''Insurance policy not found.'') s
      | Some p \<Rightarrow>
          (case get_authorized_deal u (pl_trade_deal_id p) s of
             Inl e \<Rightarrow> throw e s
           | Inr _ \<Rightarrow> submit_claim env p dto s))"

subsection \<open>Covered events\<close>

record insurance_event =
  ev_deal_id :: string
  ev_event_id :: string
  ev_event_type :: coverage_type
  ev_loss_amount :: jsnum
  ev_occurred_at :: int
  ev_occurred_text :: string

fun coverage_text :: "coverage_type \<Rightarrow> string" where
  "coverage_text CropFailure = ''crop_failure''"
| "coverage_text ShipmentDamage = ''shipment_damage''"
| "coverage_text PriceFluctuation = ''price_fluctuation''"

definition event_json :: "insurance_event \<Rightarrow> json" where
  "event_json dto =
     JObject [(''dealId'', JString (ev_deal_id dto)), (''eventId'', JString (ev_event_id dto)),
              (''eventType'', JString (coverage_text (ev_event_type dto))), (''lossAmount'', JNumber (ev_loss_amount dto)),
              (''occurredAt'', JString (ev_occurred_text dto))]"

definition event_claim :: "insurance_event \<Rightarrow> insurance_policy \<Rightarrow> claim_dto" where
  "event_claim dto p =
     \<lparr>cd_event_id = ev_event_id dto, cd_event_type = ev_event_type dto,
      cd_amount = min (ev_loss_amount dto) (pl_coverage_amount p),
      cd_evidence = Some [''event:'' @ ev_event_id dto, ''occurred_at:'' @ ev_occurred_text dto]\<rparr>"

definition covers :: "insurance_event \<Rightarrow> insurance_policy \<Rightarrow> bool" where
  "covers dto p \<longleftrightarrow> pl_trade_deal_id p = ev_deal_id dto \<and> pl_status p = PolicyActive \<and> pl_coverage_type p = ev_event_type dto
     \<and> pl_created_at p \<le> ev_occurred_at dto \<and> 0 < pl_coverage_amount p"

text \<open>
  \<open>Promise.all\<close> over the policies: all of them are tried, and a failure of one is the failure of the
  call, because the \<open>catch\<close> clause, which names an undeclared \<open>error\<close>, throws itself.
\<close>

fun submit_each :: "insurance_env \<Rightarrow> insurance_event \<Rightarrow> insurance_policy list \<Rightarrow> insurance_claim list insurance_handler" where
  "submit_each env dto [] = done_with []"
| "submit_each env dto (p # ps) = (\<lambda>s.
     case submit_claim env p (event_claim dto p) s of
       (Inl _, s1) \<Rightarrow> (Inl (Internal ''ReferenceError''), snd (submit_each env dto ps s1))
     | (Inr c, s1) \<Rightarrow> and_then (submit_each env dto ps) (\<lambda>cs. done_with (c # cs)) s1)"

definition trigger_claims :: "insurance_env \<Rightarrow> insurance_event \<Rightarrow> string \<Rightarrow> insurance_claim list insurance_handler" where
  "trigger_claims env dto signature s =
     (case verify_signature env (event_json dto) signature (nv_event_secret env) of
        Inl e \<Rightarrow> throw e s
      | Inr _ \<Rightarrow>
          if nv_now env < ev_occurred_at dto then throw (BadRequest ''Covered event cannot occur in the future.'') s
          else submit_each env dto (find_where (covers dto) (in_policies s)) s)"

subsection \<open>Messages of the providers\<close>

datatype webhook_status = HookApproved | HookRejected | HookPaid

record provider_webhook =
  pw_claim_id :: string
  pw_provider_claim_id :: string
  pw_status :: webhook_status
  pw_approved_amount :: "jsnum option"
  pw_payout_id :: "string option"
  pw_payout_amount :: "jsnum option"

fun webhook_text :: "webhook_status \<Rightarrow> string" where
  "webhook_text HookApproved = ''approved''"
| "webhook_text HookRejected = ''rejected''"
| "webhook_text HookPaid = ''paid''"

definition optional_field :: "string \<Rightarrow> ('a \<Rightarrow> json) \<Rightarrow> 'a option \<Rightarrow> (string \<times> json) list" where
  "optional_field name to_json v = (case v of Some x \<Rightarrow> [(name, to_json x)] | None \<Rightarrow> [])"

definition webhook_json :: "provider_webhook \<Rightarrow> json" where
  "webhook_json dto =
     JObject ([(''claimId'', JString (pw_claim_id dto)), (''providerClaimId'', JString (pw_provider_claim_id dto)),
               (''status'', JString (webhook_text (pw_status dto)))]
              @ optional_field ''approvedAmount'' JNumber (pw_approved_amount dto)
              @ optional_field ''payoutId'' JString (pw_payout_id dto)
              @ optional_field ''payoutAmount'' JNumber (pw_payout_amount dto))"

text \<open>The reading part of the handler: the claim as it was read is the object the rest works on.\<close>

definition webhook_check :: "insurance_env \<Rightarrow> string \<Rightarrow> provider_webhook \<Rightarrow> string \<Rightarrow> insurance_state \<Rightarrow> http_error + insurance_claim" where
  "webhook_check env provider_id dto signature s =
     (case get_provider (nv_providers env) provider_id of
        Inl e \<Rightarrow> Inl e
      | Inr p \<Rightarrow>
     (case verify_signature env (webhook_json dto) signature (ip_webhook_secret p) of
        Inl e \<Rightarrow> Inl e
      | Inr _ \<Rightarrow>
     (case find_one (\<lambda>c. cl_id c = pw_claim_id dto \<and> cl_provider_id c = provider_id) (in_claims s) of
        None \<Rightarrow> Inl (NotFound ''Insurance claim not found.'')
      | Some c \<Rightarrow>
          if cl_provider_claim_id c \<noteq> Some (pw_provider_claim_id dto)
          then Inl (Forbidden ''Provider claim reference does not match.'')
          else Inr c)))"

definition farmer_wallet :: "insurance_claim \<Rightarrow> insurance_state \<Rightarrow> string option" where
  "farmer_wallet c s =
     (case find_insured (cl_trade_deal_id c) (in_deals s) of
        None \<Rightarrow> None
      | Some d \<Rightarrow> (case find_user (td_farmer_id d) (in_users s) of Some u \<Rightarrow> us_wallet_address u | None \<Rightarrow> None))"

definition or_zero :: "jsnum option \<Rightarrow> jsnum" where
  "or_zero x = (case x of Some n \<Rightarrow> n | None \<Rightarrow> 0)"

definition initiate_payout :: "insurance_env \<Rightarrow> insurance_claim \<Rightarrow> insurance_claim insurance_handler" where
  "initiate_payout env c s =
     (if find_insured (cl_trade_deal_id c) (in_deals s) = None then throw (NotFound ''Trade deal not found.'') s
      else if \<not> present (farmer_wallet c s) then throw (Conflict ''Farmer has no Stellar payout wallet.'') s
      else if nv_payout_secret env = [] then throw (unavailable ''Insurance payout escrow is not configured.'') s
      else if cl_status c = ClaimPayoutPending \<and> present (cl_provider_payout_id c) then done_with c s
      else (case get_provider (nv_providers env) (cl_provider_id c) of
              Inl e \<Rightarrow> throw e s
            | Inr _ \<Rightarrow>
                (let s1 = record_call (PayoutCall (cl_provider_id c) (cl_id c) (or_zero (cl_approved_amount c))) s
                 in case nv_payout env (cl_provider_id c) (cl_id c) (or_zero (cl_approved_amount c)) of
                      None \<Rightarrow> throw (Internal ''request failed'') s1
                    | Some payout_id \<Rightarrow>
                        if \<not> present payout_id then throw (bad_gateway ''Provider omitted payout_id.'') s1
                        else (let c' = c\<lparr>cl_provider_payout_id := payout_id, cl_status := ClaimPayoutPending\<rparr>
                              in done_with c' (save_claim c' s1)))))"

text \<open>The release of the money, after the row was claimed by the conditional update.\<close>

definition release_payout :: "insurance_env \<Rightarrow> insurance_claim \<Rightarrow> string \<Rightarrow> jsnum \<Rightarrow> insurance_claim insurance_handler" where
  "release_payout env c wallet amount s =
     (case nv_release env wallet amount (cl_id c) of (took_effect, result) \<Rightarrow>
        (let s1 = (if took_effect then s\<lparr>in_payouts := in_payouts s @ [(wallet, amount, cl_id c)]\<rparr> else s)
         in case result of
              None \<Rightarrow> throw (unavailable ''Insurer funds were confirmed, but payout status requires reconciliation before retry.'') s1
            | Some tx \<Rightarrow>
                (let c' = c\<lparr>cl_payout_tx_hash := Some tx, cl_status := ClaimPaid\<rparr>
                 in done_with c' (save_claim c' s1))))"

definition complete_payout :: "insurance_env \<Rightarrow> provider_webhook \<Rightarrow> insurance_claim \<Rightarrow> insurance_claim insurance_handler" where
  "complete_payout env dto c s =
     (let payout_amount = (case pw_payout_amount dto of Some n \<Rightarrow> n | None \<Rightarrow> or_zero (cl_approved_amount c));
          pending = (\<lambda>x. cl_id x = cl_id c \<and> cl_status x = ClaimPayoutPending)
      in if cl_status c = ClaimPaid then done_with c s
         else if cl_status c \<noteq> ClaimPayoutPending \<or> \<not> present (cl_provider_payout_id c)
         then throw (Conflict ''Claim has no pending insurer payout.'') s
         else if pw_payout_id dto \<noteq> cl_provider_payout_id c then throw (Forbidden ''Provider payout reference does not match.'') s
         else if payout_amount \<noteq> or_zero (cl_approved_amount c)
         then throw (BadRequest ''Confirmed payout must match the approved amount.'') s
         else if \<not> present (farmer_wallet c s) then throw (Conflict ''Farmer has no Stellar payout wallet.'') s
         else if affected pending (in_claims s) = 0
         then (case find_one (\<lambda>x. cl_id x = cl_id c) (in_claims s) of
                 Some x \<Rightarrow> done_with x s
               | None \<Rightarrow> throw (Internal ''EntityNotFoundError'') s)
         else release_payout env c (the (farmer_wallet c s)) payout_amount
                (s\<lparr>in_claims := update_where pending (\<lambda>x. x\<lparr>cl_status := ClaimPayoutProcessing\<rparr>) (in_claims s)\<rparr>))"

definition approve_claim :: "insurance_env \<Rightarrow> provider_webhook \<Rightarrow> insurance_claim \<Rightarrow> insurance_claim insurance_handler" where
  "approve_claim env dto c s =
     (let approved = (case pw_approved_amount dto of Some n \<Rightarrow> n | None \<Rightarrow> cl_amount c);
          c' = c\<lparr>cl_approved_amount := Some (to_fixed 2 approved), cl_status := ClaimApproved\<rparr>
      in if cl_status c \<in> {ClaimPayoutPending, ClaimPaid} then done_with c s
         else if cl_status c \<notin> {ClaimSubmitted, ClaimApproved} then throw (Conflict ''Claim cannot be approved in its current state.'') s
         else if cl_amount c < approved then throw (BadRequest ''Approved amount exceeds the submitted claim.'') s
         else initiate_payout env c' (save_claim c' s))"

definition reject_claim :: "insurance_claim \<Rightarrow> insurance_claim insurance_handler" where
  "reject_claim c s =
     (if cl_status c = ClaimPaid then throw (Conflict ''A paid claim cannot be rejected.'') s
      else (let c' = c\<lparr>cl_status := ClaimRejected\<rparr> in done_with c' (save_claim c' s)))"

definition webhook_act :: "insurance_env \<Rightarrow> provider_webhook \<Rightarrow> insurance_claim \<Rightarrow> insurance_claim insurance_handler" where
  "webhook_act env dto c =
     (case pw_status dto of
        HookRejected \<Rightarrow> reject_claim c
      | HookApproved \<Rightarrow> approve_claim env dto c
      | HookPaid \<Rightarrow> complete_payout env dto c)"

definition handle_provider_webhook :: "insurance_env \<Rightarrow> string \<Rightarrow> provider_webhook \<Rightarrow> string \<Rightarrow> insurance_claim insurance_handler" where
  "handle_provider_webhook env provider_id dto signature s =
     (case webhook_check env provider_id dto signature s of
        Inl e \<Rightarrow> throw e s
      | Inr c \<Rightarrow> webhook_act env dto c s)"

text \<open>The handlers, each run to its end, and new claims with identifiers of their own.\<close>

definition fresh_claims :: "insurance_env \<Rightarrow> insurance_state \<Rightarrow> bool" where
  "fresh_claims env s \<longleftrightarrow> inj (nv_new_id env) \<and>
     (\<forall>x. nv_new_id env x \<notin> cl_id ` set (in_claims s) \<and> nv_new_id env x \<notin> (snd \<circ> snd) ` set (in_payouts s))"

inductive insurance_step :: "insurance_state \<Rightarrow> insurance_state \<Rightarrow> bool" where
  quotes: "insurance_step s (snd (compare_quotes env u deal_id coverage percent s))"
| issue: "insurance_step s (snd (issue_policy env u quote_id s))"
| anchor: "insurance_step s (snd (anchor_policy env u policy_id s))"
| claim: "fresh_claims env s \<Longrightarrow> insurance_step s (snd (create_claim env u policy_id dto s))"
| event: "fresh_claims env s \<Longrightarrow> distinct (map pl_id (in_policies s)) \<Longrightarrow> insurance_step s (snd (trigger_claims env ev signature s))"
| webhook: "insurance_step s (snd (handle_provider_webhook env provider_id hook signature s))"

end
