(* ===== verification/InsuranceProps.thy ===== *)
theory InsuranceProps
  imports Insurance "HOL-Library.Multiset"
begin

text \<open>
  What the insurance service guarantees: a claim is paid out at most once and within its amount as
  long as the messages of a provider are handled one after the other, and twice when they overlap;
  one policy pays for any number of events; the text that is signed does not depend on the order
  of the properties; the recommended quote is the best of those offered.
\<close>

subsection \<open>Rounding to two places\<close>

lemma to_fixed_mono: "x \<le> y \<Longrightarrow> to_fixed d x \<le> to_fixed d y"
proof -
  have up: "fl (of_int \<lfloor>a * 10 ^ d + 1 / 2\<rfloor> / 10 ^ d) \<le> fl (of_int \<lfloor>b * 10 ^ d + 1 / 2\<rfloor> / 10 ^ d)" if "a \<le> b" for a b :: rat
  proof (rule fl_mono)
    have "\<lfloor>a * 10 ^ d + 1 / 2\<rfloor> \<le> \<lfloor>b * 10 ^ d + 1 / 2\<rfloor>" using that by (intro floor_mono add_right_mono mult_right_mono) auto
    then show "(of_int \<lfloor>a * 10 ^ d + 1 / 2\<rfloor> / 10 ^ d :: rat) \<le> of_int \<lfloor>b * 10 ^ d + 1 / 2\<rfloor> / 10 ^ d"
      by (intro divide_right_mono) simp_all
  qed
  have pos: "0 \<le> fl (of_int \<lfloor>a * 10 ^ d + 1 / 2\<rfloor> / 10 ^ d)" if "0 \<le> a" for a :: rat
    using up [OF that] by (simp add: fl_nonneg)
  assume xy: "x \<le> y"
  then consider "0 \<le> x" | "x < 0" "0 \<le> y" | "y < 0" by linarith
  then show ?thesis
  proof cases
    case 1
    then show ?thesis using up [OF xy] xy by (simp add: to_fixed_def)
  next
    case 2
    then have "to_fixed d x \<le> 0" "0 \<le> to_fixed d y" using pos [of "- x"] pos [of y] by (simp_all add: to_fixed_def)
    then show ?thesis by linarith
  next
    case 3
    then have "to_fixed d x = - fl (of_int \<lfloor>- x * 10 ^ d + 1 / 2\<rfloor> / 10 ^ d)"
        "to_fixed d y = - fl (of_int \<lfloor>- y * 10 ^ d + 1 / 2\<rfloor> / 10 ^ d)" using xy by (simp_all add: to_fixed_def)
    then show ?thesis using up [of "- y" "- x"] xy by simp
  qed
qed

lemma dec_le_whole:
  assumes "dec 2 n \<le> 10 ^ 13"
  shows "n \<le> 10 ^ 15"
proof (rule ccontr)
  assume "\<not> n \<le> 10 ^ 15"
  then have "of_int (10 ^ 15 + 1) / 10 ^ 2 \<le> (of_int n / 10 ^ 2 :: rat)" by (intro divide_right_mono of_int_le_iff [THEN iffD2]) auto
  then have "dec 2 (10 ^ 15 + 1) \<le> dec 2 n" unfolding dec_def by (rule fl_mono)
  moreover have "dec 2 (10 ^ 15) < dec 2 (10 ^ 15 + 1)" by (rule dec_less_iff [THEN iffD2]) simp_all
  moreover have "dec 2 (10 ^ 15) = 10 ^ 13" by (simp add: dec_def)
  ultimately show False using assms by linarith
qed

lemma to_fixed_below:
  assumes "x \<le> to_fixed 2 v" "0 \<le> to_fixed 2 v" "to_fixed 2 v \<le> 10 ^ 13"
  shows "to_fixed 2 x \<le> to_fixed 2 v"
proof -
  obtain n where n: "to_fixed 2 v = dec 2 n" using to_fixed_units by blast
  have "n \<le> 10 ^ 15" using dec_le_whole assms(3) n by simp
  moreover have "0 \<le> n"
  proof (rule ccontr)
    assume "\<not> 0 \<le> n"
    then have "of_int n / 10 ^ 2 \<le> (of_int (- 1) / 10 ^ 2 :: rat)" by (intro divide_right_mono of_int_le_iff [THEN iffD2]) auto
    then have "dec 2 n \<le> dec 2 (- 1)" unfolding dec_def by (rule fl_mono)
    moreover have "dec 2 (- 1) < 0" using dec_less_iff [of "- 1" 0 2] by simp
    ultimately show False using assms(2) n by linarith
  qed
  ultimately have "to_fixed 2 (dec 2 n) = dec 2 n" by (intro to_fixed_dec) simp_all
  then show ?thesis using to_fixed_mono [OF assms(1), of 2] n by simp
qed

subsection \<open>At most one payout\<close>

definition settled_claim :: "insurance_claim \<Rightarrow> bool" where
  "settled_claim c \<longleftrightarrow> cl_status c \<in> {ClaimPayoutProcessing, ClaimPaid, ClaimRejected}"

definition priced_claim :: "insurance_claim \<Rightarrow> bool" where
  "priced_claim c \<longleftrightarrow> (\<exists>v. cl_amount c = to_fixed 2 v) \<and>
     (0 \<le> cl_amount c \<and> cl_amount c \<le> 10 ^ 13 \<longrightarrow> or_zero (cl_approved_amount c) \<le> cl_amount c)"

definition payouts_backed :: "insurance_state \<Rightarrow> bool" where
  "payouts_backed s \<longleftrightarrow> distinct (map cl_id (in_claims s)) \<and> (\<forall>c \<in> set (in_claims s). priced_claim c)
     \<and> distinct (map (snd \<circ> snd) (in_payouts s))
     \<and> (\<forall>(w, a, i) \<in> set (in_payouts s). \<exists>c \<in> set (in_claims s). cl_id c = i \<and> settled_claim c \<and> a = or_zero (cl_approved_amount c))"

lemma backed_frame:
  "in_claims t = in_claims s \<Longrightarrow> in_payouts t = in_payouts s \<Longrightarrow> payouts_backed t = payouts_backed s"
  by (simp add: payouts_backed_def)

text \<open>A row may be replaced by one of the same identifier that keeps what a payout rests on.\<close>

definition keeps_claim :: "insurance_claim \<Rightarrow> insurance_claim \<Rightarrow> bool" where
  "keeps_claim c c' \<longleftrightarrow> cl_id c' = cl_id c \<and> (priced_claim c \<longrightarrow> priced_claim c') \<and>
     (settled_claim c \<longrightarrow> settled_claim c' \<and> cl_approved_amount c' = cl_approved_amount c)"

lemma same_row: "distinct (map cl_id rows) \<Longrightarrow> c \<in> set rows \<Longrightarrow> x \<in> set rows \<Longrightarrow> cl_id x = cl_id c \<Longrightarrow> x = c"
  by (auto simp: distinct_map dest: inj_onD)

lemma backed_replace:
  assumes "payouts_backed s" "c \<in> set (in_claims s)" "keeps_claim c c'"
  shows "payouts_backed (save_claim c' s)"
proof -
  let ?rows = "in_claims (save_claim c' s)"
  have id: "cl_id c' = cl_id c" using assms(3) by (simp add: keeps_claim_def)
  have d: "distinct (map cl_id (in_claims s))" using assms(1) by (simp add: payouts_backed_def)
  have ids: "map cl_id ?rows = map cl_id (in_claims s)" by (simp add: save_claim_def update_where_def id)
  have rows: "set ?rows = (\<lambda>x. if cl_id x = cl_id c then c' else x) ` set (in_claims s)"
    by (simp add: save_claim_def set_update_where id)
  have "priced_claim x" if "x \<in> set ?rows" for x
    using that assms by (auto simp: rows payouts_backed_def keeps_claim_def split: if_splits)
  moreover have "\<exists>y \<in> set ?rows. cl_id y = i \<and> settled_claim y \<and> a = or_zero (cl_approved_amount y)"
    if "(w, a, i) \<in> set (in_payouts s)" for w a i
  proof -
    obtain x where x: "x \<in> set (in_claims s)" "cl_id x = i" "settled_claim x" "a = or_zero (cl_approved_amount x)"
      using assms(1) \<open>(w, a, i) \<in> set (in_payouts s)\<close> unfolding payouts_backed_def by fast
    show ?thesis
    proof (cases "cl_id x = cl_id c")
      case True
      then have "x = c" using same_row d assms(2) x(1) by metis
      then show ?thesis using x assms(2,3) unfolding rows by (intro bexI [of _ c']) (auto simp: keeps_claim_def)
    next
      case False
      then show ?thesis using x unfolding rows by (intro bexI [of _ x]) auto
    qed
  qed
  moreover have "in_payouts (save_claim c' s) = in_payouts s" by (simp add: save_claim_def)
  ultimately show ?thesis using assms(1) d by (auto simp: payouts_backed_def ids)
qed

lemma backed_insert:
  assumes "payouts_backed s" "priced_claim c" "cl_id c \<notin> cl_id ` set (in_claims s)"
  shows "payouts_backed (s\<lparr>in_claims := insert_row c (in_claims s)\<rparr>)"
  using assms unfolding payouts_backed_def by (auto simp: insert_row_def)

lemma backed_payout:
  assumes "payouts_backed s" "c \<in> set (in_claims s)" "settled_claim c" "cl_id c \<notin> (snd \<circ> snd) ` set (in_payouts s)"
  shows "payouts_backed (s\<lparr>in_payouts := in_payouts s @ [(w, or_zero (cl_approved_amount c), cl_id c)]\<rparr>)"
  using assms unfolding payouts_backed_def by auto

lemma unsettled_unpaid:
  assumes "payouts_backed s" "c \<in> set (in_claims s)" "\<not> settled_claim c"
  shows "cl_id c \<notin> (snd \<circ> snd) ` set (in_payouts s)"
proof
  assume "cl_id c \<in> (snd \<circ> snd) ` set (in_payouts s)"
  then obtain w a where "(w, a, cl_id c) \<in> set (in_payouts s)" by force
  then obtain x where "x \<in> set (in_claims s)" "cl_id x = cl_id c" "settled_claim x"
    using assms(1) unfolding payouts_backed_def by fast
  then show False using same_row [of "in_claims s" c x] assms by (auto simp: payouts_backed_def)
qed

subsection \<open>Every operation keeps payouts backed\<close>

lemma record_call_simps [simp]:
  "in_claims (record_call x s) = in_claims s" "in_payouts (record_call x s) = in_payouts s"
  "in_policies (record_call x s) = in_policies s" "in_deals (record_call x s) = in_deals s"
  "in_users (record_call x s) = in_users s"
  by (simp_all add: record_call_def)

lemma save_claim_simps [simp]:
  "in_payouts (save_claim c s) = in_payouts s" "in_policies (save_claim c s) = in_policies s"
  "in_deals (save_claim c s) = in_deals s" "in_users (save_claim c s) = in_users s"
  by (simp_all add: save_claim_def)

lemma quote_frame [simp]: "in_claims (update_quote i st s) = in_claims s" "in_payouts (update_quote i st s) = in_payouts s"
  by (simp_all add: update_quote_def)

lemma request_quotes_frame:
  "in_claims (snd (request_quotes env u d c a p r ps s)) = in_claims s \<and> in_payouts (snd (request_quotes env u d c a p r ps s)) = in_payouts s"
proof (induction ps arbitrary: s)
  case (Cons x ps)
  have one: "in_claims (snd (request_quote env u d c a p r x s)) = in_claims s \<and> in_payouts (snd (request_quote env u d c a p r x s)) = in_payouts s"
    by (simp add: request_quote_def Let_def split: option.split)
  show ?case using Cons.IH one by (simp add: case_prod_beta)
qed simp

lemma compare_frame:
  "in_claims (snd (compare_quotes env u i c pc s)) = in_claims s \<and> in_payouts (snd (compare_quotes env u i c pc s)) = in_payouts s"
  using request_quotes_frame by (auto simp: compare_quotes_def Let_def case_prod_beta split: sum.split)

lemma anchor_record_frame:
  "in_claims (snd (anchor_policy_record env p s)) = in_claims s \<and> in_payouts (snd (anchor_policy_record env p s)) = in_payouts s"
  by (simp add: anchor_policy_record_def save_policy_def Let_def split: option.split)

lemma anchor_frame:
  "in_claims (snd (anchor_policy env u i s)) = in_claims s \<and> in_payouts (snd (anchor_policy env u i s)) = in_payouts s"
  using anchor_record_frame by (auto simp: anchor_policy_def split: option.split sum.split)

lemma issue_body_frame:
  "in_claims (snd (issue_body env q s)) = in_claims s \<and> in_payouts (snd (issue_body env q s)) = in_payouts s"
  by (auto simp: issue_body_def Let_def split: option.split sum.split prod.split)

lemma issue_frame:
  "in_claims (snd (issue_policy env u i s)) = in_claims s \<and> in_payouts (snd (issue_policy env u i s)) = in_payouts s"
  using issue_body_frame [of env _ "update_quote i QuoteIssuing s"] anchor_record_frame
  by (auto simp: issue_policy_def case_prod_beta split: option.split sum.split)

lemma send_backed:
  assumes "payouts_backed s" "c \<in> set (in_claims s)" "\<not> settled_claim c"
  shows "payouts_backed (snd (send_claim_to_provider env c s))"
proof -
  have keep: "keeps_claim c (c\<lparr>cl_status := st\<rparr>)" "keeps_claim c (c\<lparr>cl_provider_claim_id := x, cl_status := st\<rparr>)" for st x
    using assms(3) by (auto simp: keeps_claim_def priced_claim_def)
  have calls: "payouts_backed (record_call y s)" for y using assms(1) by (simp add: backed_frame [of "record_call y s" s])
  show ?thesis
    using backed_replace [OF assms(1,2) keep(1)] backed_replace [OF calls _ keep(1)] backed_replace [OF calls _ keep(2)] assms(2)
    by (auto simp: send_claim_to_provider_def Let_def split: sum.split option.split)
qed

lemma find_claim_in: "find_claim p e s = Some c \<Longrightarrow> c \<in> set (in_claims s)"
  by (auto simp: find_claim_def dest: find_one_SomeD)

lemma insert_claim_backed:
  assumes "payouts_backed s" "nv_new_id env (pl_id p) \<notin> cl_id ` set (in_claims s)"
  shows "payouts_backed (snd (insert_claim env p dto s))"
proof (cases "find_claim (pl_id p) (cd_event_id dto) s")
  case None
  let ?r = "claim_row env p dto"
  let ?s = "s\<lparr>in_claims := insert_row ?r (in_claims s)\<rparr>"
  have "priced_claim ?r" by (auto simp: priced_claim_def claim_row_def or_zero_def)
  then have "payouts_backed ?s" using assms by (intro backed_insert) (auto simp: claim_row_def)
  moreover have "\<not> settled_claim ?r" by (simp add: settled_claim_def claim_row_def)
  ultimately show ?thesis using None send_backed [of ?s ?r env] by (simp add: insert_claim_def Let_def)
qed (use assms in \<open>simp add: insert_claim_def\<close>)

lemma submit_backed:
  assumes "payouts_backed s" "nv_new_id env (pl_id p) \<notin> cl_id ` set (in_claims s)"
  shows "payouts_backed (snd (submit_claim env p dto s))"
  using assms insert_claim_backed [OF assms] send_backed [OF assms(1) find_claim_in]
  by (auto simp: submit_claim_def settled_claim_def split: option.split)

lemma send_ids:
  "map cl_id (in_claims (snd (send_claim_to_provider env c s))) = map cl_id (in_claims s)"
  by (auto simp: send_claim_to_provider_def Let_def save_claim_def update_where_def split: sum.split option.split)

lemma submit_ids:
  "cl_id ` set (in_claims (snd (submit_claim env p dto s))) \<subseteq> insert (nv_new_id env (pl_id p)) (cl_id ` set (in_claims s))"
proof -
  have "cl_id ` set (in_claims (snd (send_claim_to_provider env c t))) = cl_id ` set (in_claims t)" for c t
    using send_ids [of env c t] by (metis list.set_map)
  then show ?thesis by (auto simp: submit_claim_def insert_claim_def Let_def claim_row_def split: option.split)
qed

lemma submit_each_backed:
  assumes "payouts_backed s" "inj (nv_new_id env)" "distinct (map pl_id ps)"
    and "\<And>p. p \<in> set ps \<Longrightarrow> nv_new_id env (pl_id p) \<notin> cl_id ` set (in_claims s)"
  shows "payouts_backed (snd (submit_each env ev ps s))"
  using assms(1,3,4)
proof (induction ps arbitrary: s)
  case (Cons p ps)
  let ?s1 = "snd (submit_claim env p (event_claim ev p) s)"
  have b: "payouts_backed ?s1" using Cons.prems by (intro submit_backed) auto
  have "nv_new_id env (pl_id q) \<notin> cl_id ` set (in_claims ?s1)" if "q \<in> set ps" for q
  proof -
    have "pl_id p \<notin> pl_id ` set ps" using Cons.prems(2) by simp
    then have "pl_id q \<noteq> pl_id p" using that by (metis imageI)
    then have "nv_new_id env (pl_id q) \<noteq> nv_new_id env (pl_id p)" using assms(2) by (simp add: inj_eq)
    then show ?thesis using submit_ids [of env p "event_claim ev p" s] Cons.prems(3) [of q] that by auto
  qed
  then have "payouts_backed (snd (submit_each env ev ps ?s1))" using b Cons.prems(2) by (intro Cons.IH) auto
  then show ?case by (auto simp: case_prod_beta and_then_def split: sum.split)
qed simp

lemma initiate_backed:
  assumes "payouts_backed s" "c \<in> set (in_claims s)" "\<not> settled_claim c"
  shows "payouts_backed (snd (initiate_payout env c s))"
proof -
  have keep: "keeps_claim c (c\<lparr>cl_provider_payout_id := x, cl_status := ClaimPayoutPending\<rparr>)" for x
    using assms(3) by (auto simp: keeps_claim_def priced_claim_def)
  have calls: "payouts_backed (record_call y s)" for y using assms(1) by (simp add: backed_frame [of "record_call y s" s])
  show ?thesis
    using assms(1,2) calls backed_replace [OF calls _ keep]
    by (auto simp: initiate_payout_def Let_def split: sum.split option.split)
qed

lemma approve_backed:
  assumes "payouts_backed s" "c \<in> set (in_claims s)"
  shows "payouts_backed (snd (approve_claim env dto c s))"
proof (cases "cl_status c \<in> {ClaimSubmitted, ClaimApproved}")
  case True
  let ?approved = "case pw_approved_amount dto of Some n \<Rightarrow> n | None \<Rightarrow> cl_amount c"
  let ?c = "c\<lparr>cl_approved_amount := Some (to_fixed 2 ?approved), cl_status := ClaimApproved\<rparr>"
  have "payouts_backed (snd (initiate_payout env ?c (save_claim ?c s)))" if "?approved \<le> cl_amount c"
  proof -
    have open_claim: "\<not> settled_claim c" using True by (auto simp: settled_claim_def)
    have "priced_claim ?c" if "priced_claim c"
      using that to_fixed_below \<open>?approved \<le> cl_amount c\<close> by (auto simp: priced_claim_def or_zero_def)
    then have "keeps_claim c ?c" using open_claim by (simp add: keeps_claim_def)
    from backed_replace [OF assms this] have "payouts_backed (save_claim ?c s)" .
    moreover have "?c \<in> set (in_claims (save_claim ?c s))" using assms(2) by (force simp: save_claim_def set_update_where)
    moreover have "\<not> settled_claim ?c" by (simp add: settled_claim_def)
    ultimately show ?thesis by (rule initiate_backed)
  qed
  then show ?thesis using True assms(1) by (auto simp: approve_claim_def Let_def not_less)
qed (use assms in \<open>auto simp: approve_claim_def Let_def\<close>)

lemma reject_backed: "payouts_backed s \<Longrightarrow> c \<in> set (in_claims s) \<Longrightarrow> payouts_backed (snd (reject_claim c s))"
  using backed_replace [of s c "c\<lparr>cl_status := ClaimRejected\<rparr>"]
  by (auto simp: reject_claim_def Let_def keeps_claim_def settled_claim_def priced_claim_def)

lemma complete_backed:
  assumes "payouts_backed s" "c \<in> set (in_claims s)"
  shows "payouts_backed (snd (complete_payout env dto c s))"
proof (cases "cl_status c = ClaimPayoutPending")
  case True
  let ?pending = "\<lambda>x. cl_id x = cl_id c \<and> cl_status x = ClaimPayoutPending"
  let ?p = "c\<lparr>cl_status := ClaimPayoutProcessing\<rparr>"
  let ?s1 = "s\<lparr>in_claims := update_where ?pending (\<lambda>x. x\<lparr>cl_status := ClaimPayoutProcessing\<rparr>) (in_claims s)\<rparr>"
  have d: "distinct (map cl_id (in_claims s))" using assms(1) by (simp add: payouts_backed_def)
  have "update_where ?pending (\<lambda>x. x\<lparr>cl_status := ClaimPayoutProcessing\<rparr>) (in_claims s)
      = update_where (\<lambda>x. cl_id x = cl_id c) (\<lambda>_. ?p) (in_claims s)"
    unfolding update_where_def using same_row [OF d assms(2)] True by (intro map_cong) auto
  then have s1: "?s1 = save_claim ?p s" by (simp add: save_claim_def)
  have keep: "keeps_claim c ?p" using True by (auto simp: keeps_claim_def settled_claim_def priced_claim_def)
  have b1: "payouts_backed ?s1" unfolding s1 by (rule backed_replace [OF assms keep])
  have row: "?p \<in> set (in_claims ?s1)" using assms(2) unfolding s1 by (force simp: save_claim_def set_update_where)
  have unpaid: "cl_id ?p \<notin> (snd \<circ> snd) ` set (in_payouts ?s1)"
    using unsettled_unpaid [OF assms] True by (simp add: settled_claim_def)
  have settled: "settled_claim ?p" by (simp add: settled_claim_def)
  have b2: "payouts_backed (?s1\<lparr>in_payouts := in_payouts ?s1 @ [(w, or_zero (cl_approved_amount c), cl_id c)]\<rparr>)" for w
    using backed_payout [OF b1 row settled unpaid, of w] by simp
  have paid: "keeps_claim ?p (c\<lparr>cl_payout_tx_hash := Some tx, cl_status := ClaimPaid\<rparr>)" for tx
    by (simp add: keeps_claim_def settled_claim_def priced_claim_def)
  have "payouts_backed (snd (release_payout env c w (or_zero (cl_approved_amount c)) ?s1))" for w
    using b1 b2 [of w] backed_replace [OF b1 row paid] backed_replace [OF b2 [of w] _ paid] row
    by (auto simp: release_payout_def Let_def split: prod.split option.split)
  then show ?thesis using assms(1) by (auto simp: complete_payout_def Let_def split: option.split)
qed (use assms in \<open>auto simp: complete_payout_def Let_def\<close>)

lemma webhook_check_in: "webhook_check env p dto sg s = Inr c \<Longrightarrow> c \<in> set (in_claims s)"
  by (auto simp: webhook_check_def split: sum.splits option.splits if_splits dest: find_one_SomeD)

lemma webhook_backed: "payouts_backed s \<Longrightarrow> payouts_backed (snd (handle_provider_webhook env p dto sg s))"
  using approve_backed reject_backed complete_backed webhook_check_in
  by (auto simp: handle_provider_webhook_def webhook_act_def split: sum.split webhook_status.split)

lemma step_backed: "insurance_step s s' \<Longrightarrow> payouts_backed s \<Longrightarrow> payouts_backed s'"
proof (induction rule: insurance_step.induct)
  case (quotes s env u deal_id coverage percent)
  then show ?case using backed_frame compare_frame by blast
next
  case (issue s env u quote_id)
  then show ?case using backed_frame issue_frame by blast
next
  case (anchor s env u policy_id)
  then show ?case using backed_frame anchor_frame by blast
next
  case (claim env s u policy_id dto)
  then show ?case using submit_backed [of s env]
    by (auto simp: create_claim_def fresh_claims_def split: option.split sum.split)
next
  case (event env s ev signature)
  have "distinct (map pl_id (find_where (covers ev) (in_policies s)))"
    using event(2) by (simp add: find_where_def distinct_map_filter)
  then have "payouts_backed (snd (submit_each env ev (find_where (covers ev) (in_policies s)) s))"
    using event by (intro submit_each_backed) (auto simp: fresh_claims_def)
  then show ?case using event(3) by (auto simp: trigger_claims_def split: sum.split)
next
  case (webhook s env provider_id hook signature)
  then show ?case by (rule webhook_backed)
qed

subsection \<open>Sample state\<close>

definition example_provider :: provider_entry where
  "example_provider = \<lparr>pe_id = Some ''p'', pe_name = Some ''P'', pe_api_key = Some ''k'', pe_webhook_secret = Some ''w'',
     pe_url = Some (''https:'', [], [])\<rparr>"

definition example_insurance_env :: insurance_env where
  "example_insurance_env =
     \<lparr>nv_providers = ProviderEntries [Some example_provider],
      nv_quote = (\<lambda>_ _ _ _ _. Some \<lparr>pq_quote_id = Some ''q'', pq_premium = Some 5, pq_coverage_amount = Some 100,
        pq_currency = ''USD'', pq_terms = Some ''t'', pq_expires_at = None\<rparr>),
      nv_policy = (\<lambda>_ _ _ _. Some (Some ''n'', None)), nv_claim = (\<lambda>_ _ _. Some (Some ''x'')),
      nv_payout = (\<lambda>_ _ _. Some (Some ''y'')), nv_anchor = (\<lambda>_. Some ''tx''), nv_release = (\<lambda>_ _ _. (True, Some ''tx'')),
      nv_platform_secret = ''S'', nv_payout_secret = ''S'', nv_event_secret = ''S'', nv_hmac = (\<lambda>_ _. [1]),
      nv_contract_hash = (\<lambda>_ _. ''h''), nv_show_num = (\<lambda>_. ''n''), nv_policy_write = True, nv_quote_write = True,
      nv_new_id = (\<lambda>x. CHR ''c'' # x), nv_now = 10\<rparr>"

definition example_insured :: insured_deal where
  "example_insured =
     \<lparr>td_id = ''d1'', td_commodity = ''Cocoa'', td_total_value = 100, td_token_count = 1,
      td_token_symbol = ''COC'', td_status = DealOpen, td_farmer_id = ''f1'', td_trader_id = ''t1'',
      td_escrow_public_key = None, td_escrow_secret_key = None, td_issuer_public_key = None, td_issuer_secret_key = None,
      td_total_invested = 0, td_app_trace_id = None, td_min_lot_size = None, td_lot_step = None,
      td_milestone_release_pct = 0, td_minimum_tier = None, td_deleted = False, id_risk_score = None, id_duration_days = None\<rparr>"

definition example_farmer :: user where
  "example_farmer = \<lparr>us_id = ''f1'', us_email = ''e'', us_role = ''farmer'', us_wallet_address = Some ''G'', us_accreditation_tier = None\<rparr>"

definition example_policy :: insurance_policy where
  "example_policy =
     \<lparr>pl_id = ''l'', pl_quote_id = ''q'', pl_trade_deal_id = ''d1'', pl_provider_id = ''p'', pl_provider_policy_id = ''n'',
      pl_policy_number = None, pl_coverage_type = CropFailure, pl_coverage_amount = 100, pl_currency = ''USD'',
      pl_contract_hash = ''h'', pl_tx_hash = Some ''tx'', pl_status = PolicyActive, pl_created_at = 0\<rparr>"

definition example_claim :: insurance_claim where
  "example_claim =
     \<lparr>cl_id = ''cl'', cl_policy_id = ''l'', cl_trade_deal_id = ''d1'', cl_provider_id = ''p'', cl_event_id = ''e'',
      cl_event_type = CropFailure, cl_amount = 100, cl_approved_amount = None, cl_evidence = [], cl_provider_claim_id = Some ''x'',
      cl_provider_payout_id = None, cl_payout_tx_hash = None, cl_status = ClaimSubmitted\<rparr>"

definition example_insurance :: "insurance_claim list \<Rightarrow> insurance_state" where
  "example_insurance claims =
     \<lparr>in_deals = [example_insured], in_users = [example_farmer], in_quotes = [], in_policies = [example_policy],
      in_claims = claims, in_calls = [], in_anchors = [], in_payouts = []\<rparr>"

definition example_event :: "string \<Rightarrow> claim_dto" where
  "example_event e = \<lparr>cd_event_id = e, cd_event_type = CropFailure, cd_amount = 100, cd_evidence = None\<rparr>"

definition example_hook :: "webhook_status \<Rightarrow> provider_webhook" where
  "example_hook st =
     \<lparr>pw_claim_id = ''cl'', pw_provider_claim_id = ''x'', pw_status = st, pw_approved_amount = None, pw_payout_id = Some ''y'',
      pw_payout_amount = None\<rparr>"

subsection \<open>At most one payout, the property\<close>

text \<open>
  C9: a claim is paid out at most once. Starting without claims and payouts, whatever handlers run one
  after the other, with whatever answers of the providers and of Stellar: no claim occurs twice
  among the payouts, every payout belongs to a claim that is in processing, paid or rejected, its
  amount is the approved one, and that is at most the amount claimed (for amounts up to \<open>10 ^ 13\<close>).
\<close>
theorem claim_is_paid_at_most_once:
  assumes "insurance_step\<^sup>*\<^sup>* s0 s" "in_claims s0 = []" "in_payouts s0 = []"
  shows "distinct (map (snd \<circ> snd) (in_payouts s)) \<and>
    (\<forall>(w, a, i) \<in> set (in_payouts s). \<exists>c \<in> set (in_claims s). cl_id c = i \<and> a = or_zero (cl_approved_amount c)
       \<and> cl_status c \<in> {ClaimPayoutProcessing, ClaimPaid, ClaimRejected}
       \<and> (0 \<le> cl_amount c \<and> cl_amount c \<le> 10 ^ 13 \<longrightarrow> a \<le> cl_amount c))"
proof -
  have "payouts_backed s0" using assms(2,3) by (simp add: payouts_backed_def)
  with assms(1) have "payouts_backed s" by (induction rule: rtranclp_induct) (auto intro: step_backed)
  then show ?thesis unfolding payouts_backed_def settled_claim_def priced_claim_def by fastforce
qed

definition paid_example :: insurance_state where
  "paid_example =
     (let s1 = snd (create_claim example_insurance_env example_farmer ''l'' (example_event ''e'') (example_insurance []));
          s2 = snd (handle_provider_webhook example_insurance_env ''p'' (example_hook HookApproved) ''01'' s1)
      in snd (handle_provider_webhook example_insurance_env ''p'' (example_hook HookPaid) ''01'' s2))"

theorem claim_is_paid_at_most_once_witness:
  "in_payouts paid_example = [(''G'', 100, ''cl'')] \<and> distinct (map (snd \<circ> snd) (in_payouts paid_example))"
proof -
  have "fresh_claims example_insurance_env (example_insurance [])"
    by (simp add: fresh_claims_def example_insurance_env_def example_insurance_def inj_def)
  then have "insurance_step\<^sup>*\<^sup>* (example_insurance []) paid_example"
    unfolding paid_example_def Let_def by (meson insurance_step.claim insurance_step.webhook r_into_rtranclp rtranclp.rtrancl_into_rtrancl)
  then have "distinct (map (snd \<circ> snd) (in_payouts paid_example))"
    by (rule claim_is_paid_at_most_once [THEN conjunct1]) (simp_all add: example_insurance_def)
  moreover have "in_payouts paid_example = [(''G'', 100, ''cl'')]" by code_simp
  ultimately show ?thesis by blast
qed

subsection \<open>Overlapping messages\<close>

abbreviation pending_claim :: "jsnum \<Rightarrow> string \<Rightarrow> insurance_claim \<Rightarrow> insurance_claim" where
  "pending_claim a pid c \<equiv> c\<lparr>cl_approved_amount := Some a, cl_provider_payout_id := Some pid, cl_status := ClaimPayoutPending\<rparr>"

lemma farmer_wallet_frame:
  "in_deals t = in_deals s \<Longrightarrow> in_users t = in_users s \<Longrightarrow> cl_trade_deal_id c' = cl_trade_deal_id c \<Longrightarrow>
   farmer_wallet c' t = farmer_wallet c s"
  by (simp add: farmer_wallet_def split: option.split)

lemma approval_effect:
  assumes "get_provider (nv_providers env) (cl_provider_id c) = Inr prov"
    and "cl_status c = ClaimSubmitted" "pw_status dto = HookApproved" "pw_approved_amount dto = None"
    and "farmer_wallet c t = Some w" "w \<noteq> []" "nv_payout_secret env \<noteq> []"
    and "nv_payout env (cl_provider_id c) (cl_id c) (to_fixed 2 (cl_amount c)) = Some (Some pid)" "pid \<noteq> []"
  shows "in_claims (snd (webhook_act env dto c t)) =
      update_where (\<lambda>x. cl_id x = cl_id c) (\<lambda>_. pending_claim (to_fixed 2 (cl_amount c)) pid c) (in_claims t)"
    and "in_payouts (snd (webhook_act env dto c t)) = in_payouts t" "in_deals (snd (webhook_act env dto c t)) = in_deals t"
    and "in_users (snd (webhook_act env dto c t)) = in_users t"
proof -
  have "find_insured (cl_trade_deal_id c) (in_deals t) \<noteq> None" using assms(5) by (auto simp: farmer_wallet_def split: option.splits)
  then have "webhook_act env dto c t = (let c1 = c\<lparr>cl_approved_amount := Some (to_fixed 2 (cl_amount c)), cl_status := ClaimApproved\<rparr>;
        c2 = pending_claim (to_fixed 2 (cl_amount c)) pid c
     in (Inr c2, save_claim c2 (record_call (PayoutCall (cl_provider_id c) (cl_id c) (to_fixed 2 (cl_amount c))) (save_claim c1 t))))"
    using assms farmer_wallet_frame [of "save_claim x t" t] by (auto simp: webhook_act_def approve_claim_def initiate_payout_def Let_def or_zero_def farmer_wallet_def)
  then show "in_claims (snd (webhook_act env dto c t)) =
      update_where (\<lambda>x. cl_id x = cl_id c) (\<lambda>_. pending_claim (to_fixed 2 (cl_amount c)) pid c) (in_claims t)"
    "in_payouts (snd (webhook_act env dto c t)) = in_payouts t" "in_deals (snd (webhook_act env dto c t)) = in_deals t"
    "in_users (snd (webhook_act env dto c t)) = in_users t"
    by (simp_all add: Let_def save_claim_def update_where_def)
qed

lemma payment_effect:
  assumes "get_provider (nv_providers env) (cl_provider_id c) = Inr prov"
    and "verify_signature env (webhook_json dto) sg (ip_webhook_secret prov) = Inr ()"
    and "find_one (\<lambda>x. cl_id x = cl_id c \<and> cl_provider_id x = cl_provider_id c) (in_claims t) = Some (pending_claim a pid c)"
    and "pw_status dto = HookPaid" "pw_claim_id dto = cl_id c" "cl_provider_claim_id c = Some (pw_provider_claim_id dto)"
    and "pw_payout_id dto = Some pid" "pid \<noteq> []" "pw_payout_amount dto = None"
    and "farmer_wallet c t = Some w" "w \<noteq> []" "nv_release env w a (cl_id c) = (True, Some tx)"
  defines "t' \<equiv> snd (handle_provider_webhook env (cl_provider_id c) dto sg t)"
  shows "in_payouts t' = in_payouts t @ [(w, a, cl_id c)]" "in_deals t' = in_deals t" "in_users t' = in_users t"
    and "map (\<lambda>x. (cl_id x, cl_provider_id x)) (in_claims t') = map (\<lambda>x. (cl_id x, if cl_id x = cl_id c then cl_provider_id c else cl_provider_id x)) (in_claims t)"
proof -
  let ?c = "pending_claim a pid c"
  have row: "?c \<in> set (in_claims t)" using find_one_SomeD [OF assms(3)] by simp
  have "webhook_check env (cl_provider_id c) dto sg t = Inr ?c"
    using assms(1-3,5,6) by (simp add: webhook_check_def)
  moreover have "affected (\<lambda>x. cl_id x = cl_id c \<and> cl_status x = ClaimPayoutPending) (in_claims t) \<noteq> 0"
    unfolding affected_eq_0 using row by force
  moreover have "farmer_wallet ?c t = Some w" using assms(10) by (simp add: farmer_wallet_def)
  ultimately have t': "t' = save_claim (?c\<lparr>cl_payout_tx_hash := Some tx, cl_status := ClaimPaid\<rparr>)
      (t\<lparr>in_claims := update_where (\<lambda>x. cl_id x = cl_id c \<and> cl_status x = ClaimPayoutPending) (\<lambda>x. x\<lparr>cl_status := ClaimPayoutProcessing\<rparr>) (in_claims t),
         in_payouts := in_payouts t @ [(w, a, cl_id c)]\<rparr>)"
    using assms(4,7-9,11,12) unfolding t'_def
    by (auto simp: handle_provider_webhook_def webhook_act_def complete_payout_def release_payout_def Let_def or_zero_def)
  then show "in_payouts t' = in_payouts t @ [(w, a, cl_id c)]" "in_deals t' = in_deals t" "in_users t' = in_users t"
    by simp_all
  show "map (\<lambda>x. (cl_id x, cl_provider_id x)) (in_claims t') = map (\<lambda>x. (cl_id x, if cl_id x = cl_id c then cl_provider_id c else cl_provider_id x)) (in_claims t)"
    unfolding t' by (simp add: save_claim_def update_where_def)
qed

lemma find_replaced_claim:
  "find_one (\<lambda>x. cl_id x = i \<and> cl_provider_id x = p) rows \<noteq> None \<Longrightarrow> cl_id c = i \<Longrightarrow> cl_provider_id c = p \<Longrightarrow>
   find_one (\<lambda>x. cl_id x = i \<and> cl_provider_id x = p) (update_where (\<lambda>x. cl_id x = i) (\<lambda>_. c) rows) = Some c"
  by (induction rows) (auto simp: find_one_def update_where_def split: if_splits)

lemma find_claim_by_keys:
  "find_one (\<lambda>x. cl_id x = i \<and> cl_provider_id x = p) rows \<noteq> None \<longleftrightarrow> (i, p) \<in> set (map (\<lambda>x. (cl_id x, cl_provider_id x)) rows)"
  by (auto simp: find_one_None_iff)

text \<open>
  Overlapping messages pay a claim twice. The provider delivers the approval of a claim twice, and
  both deliveries have read the claim before the first is written. Between the writes of the two the
  claim is approved, paid and released; the second write puts it back to a pending payout, and the
  repeated message of the payment releases the money a second time.
\<close>
theorem overlapping_approvals_pay_twice:
  assumes "get_provider (nv_providers env) (cl_provider_id c) = Inr prov"
    and "verify_signature env (webhook_json paid) sg (ip_webhook_secret prov) = Inr ()"
    and "webhook_check env (cl_provider_id c) approval sg' s = Inr c" "cl_status c = ClaimSubmitted"
    and "pw_status approval = HookApproved" "pw_approved_amount approval = None"
    and "pw_status paid = HookPaid" "pw_claim_id paid = cl_id c" "cl_provider_claim_id c = Some (pw_provider_claim_id paid)"
    and "pw_payout_id paid = Some pid" "pid \<noteq> []" "pw_payout_amount paid = None"
    and "farmer_wallet c s = Some w" "w \<noteq> []" "nv_payout_secret env \<noteq> []"
    and "nv_payout env (cl_provider_id c) (cl_id c) (to_fixed 2 (cl_amount c)) = Some (Some pid)"
    and "nv_release env w (to_fixed 2 (cl_amount c)) (cl_id c) = (True, Some tx)"
    and "s1 = snd (webhook_act env approval c s)"
    and "s2 = snd (handle_provider_webhook env (cl_provider_id c) paid sg s1)"
    and "s3 = snd (webhook_act env approval c s2)"
    and "s4 = snd (handle_provider_webhook env (cl_provider_id c) paid sg s3)"
  shows "in_payouts s4 = in_payouts s @ [(w, to_fixed 2 (cl_amount c), cl_id c), (w, to_fixed 2 (cl_amount c), cl_id c)]"
proof -
  let ?find = "\<lambda>t. find_one (\<lambda>x. cl_id x = cl_id c \<and> cl_provider_id x = cl_provider_id c) (in_claims t)"
  note act = approval_effect [OF assms(1,4,5,6) _ assms(14,15,16,11)]
  note pay = payment_effect [OF assms(1,2) _ assms(7,8,9,10,11,12) _ assms(14,17)]
  have read: "find_one (\<lambda>x. cl_id x = pw_claim_id approval \<and> cl_provider_id x = cl_provider_id c) (in_claims s) = Some c"
    using assms(3) unfolding webhook_check_def assms(1) by (auto split: sum.splits option.splits if_splits)
  then have "?find s \<noteq> None" using find_one_SomeD [OF read] by simp
  then have f1: "?find s1 = Some (pending_claim (to_fixed 2 (cl_amount c)) pid c)"
    unfolding assms(18) by (simp add: act [OF assms(13)] find_replaced_claim)
  have w1: "farmer_wallet c s1 = Some w" using farmer_wallet_frame [OF act(3) [OF assms(13)] act(4) [OF assms(13)] refl] assms(13,18) by simp
  note s2 = pay [OF f1 w1, folded assms(19)]
  have w2: "farmer_wallet c s2 = Some w" using farmer_wallet_frame [OF s2(2,3) refl] w1 by simp
  have "(cl_id c, cl_provider_id c) \<in> set (map (\<lambda>x. (cl_id x, cl_provider_id x)) (in_claims s2))"
    unfolding s2(4) set_map using conjunct2 [OF find_one_SomeD [OF f1]] by (rule rev_image_eqI) simp
  then have "?find s2 \<noteq> None" by (simp only: find_claim_by_keys)
  then have f3: "?find s3 = Some (pending_claim (to_fixed 2 (cl_amount c)) pid c)"
    unfolding assms(20) by (simp add: act [OF w2] find_replaced_claim)
  have w3: "farmer_wallet c s3 = Some w" using farmer_wallet_frame [OF act(3) [OF w2] act(4) [OF w2] refl] w2 assms(20) by simp
  have "in_payouts s4 = in_payouts s3 @ [(w, to_fixed 2 (cl_amount c), cl_id c)]" using pay(1) [OF f3 w3] assms(21) by simp
  moreover have "in_payouts s3 = in_payouts s2" unfolding assms(20) by (rule act(2) [OF w2])
  moreover have "in_payouts s1 = in_payouts s" unfolding assms(18) by (rule act(2) [OF assms(13)])
  ultimately show ?thesis using s2(1) by simp
qed

definition twice_paid :: insurance_state where
  "twice_paid =
     (let env = example_insurance_env;
          s1 = snd (webhook_act env (example_hook HookApproved) example_claim (example_insurance [example_claim]));
          s2 = snd (handle_provider_webhook env ''p'' (example_hook HookPaid) ''01'' s1);
          s3 = snd (webhook_act env (example_hook HookApproved) example_claim s2)
      in snd (handle_provider_webhook env ''p'' (example_hook HookPaid) ''01'' s3))"

theorem overlapping_approvals_pay_twice_witness:
  "in_payouts twice_paid = [(''G'', to_fixed 2 100, ''cl''), (''G'', to_fixed 2 100, ''cl'')]"
proof -
  let ?env = example_insurance_env and ?c = example_claim and ?s = "example_insurance [example_claim]"
  have prov: "get_provider (nv_providers ?env) (cl_provider_id ?c) =
      Inr \<lparr>ip_id = ''p'', ip_name = ''P'', ip_api_key = ''k'', ip_webhook_secret = ''w''\<rparr>"
    by (simp add: example_insurance_env_def example_provider_def example_claim_def get_provider_def get_providers_def find_one_def)
  have sig: "verify_signature ?env (webhook_json d) ''01'' ''w'' = Inr ()" for d
    by (simp add: verify_signature_def example_insurance_env_def hex_value_def Let_def)
  have read: "webhook_check ?env (cl_provider_id ?c) (example_hook HookApproved) ''01'' ?s = Inr ?c"
    using sig by (simp add: webhook_check_def prov) (simp add: example_hook_def example_claim_def example_insurance_def find_one_def)
  have wallet: "farmer_wallet ?c ?s = Some ''G''"
    by (simp add: farmer_wallet_def example_claim_def example_insurance_def example_insured_def example_farmer_def find_insured_def
        find_user_def find_one_def)
  have "in_payouts twice_paid = in_payouts ?s @ [(''G'', to_fixed 2 (cl_amount ?c), cl_id ?c), (''G'', to_fixed 2 (cl_amount ?c), cl_id ?c)]"
    unfolding twice_paid_def Let_def
    by (rule overlapping_approvals_pay_twice [OF prov _ read, where paid = "example_hook HookPaid" and sg = "''01''" and pid = "''y''" and tx = "''tx''"])
      (use sig wallet in \<open>simp_all add: example_hook_def example_claim_def example_insurance_env_def\<close>)
  then show ?thesis by (simp add: example_claim_def example_insurance_def)
qed

subsection \<open>Claims on one policy\<close>

lemma claim_accepted:
  assumes "find_policy (pl_id p) s = Some p" "get_authorized_deal u (pl_trade_deal_id p) s = Inr d" "pl_status p = PolicyActive"
    and "get_provider (nv_providers env) (pl_provider_id p) = Inr prov"
    and "cd_event_type dto = pl_coverage_type p" "cd_amount dto \<le> pl_coverage_amount p" "find_claim (pl_id p) (cd_event_id dto) s = None"
    and "nv_claim env (pl_provider_id p) (nv_new_id env (pl_id p)) (to_fixed 2 (cd_amount dto)) = Some (Some x)" "x \<noteq> []"
    and "nv_new_id env (pl_id p) \<notin> cl_id ` set (in_claims s)"
  defines "row \<equiv> (claim_row env p dto)\<lparr>cl_provider_claim_id := Some x\<rparr>"
  shows "in_claims (snd (create_claim env u (pl_id p) dto s)) = in_claims s @ [row]"
    and "in_policies (snd (create_claim env u (pl_id p) dto s)) = in_policies s" "in_deals (snd (create_claim env u (pl_id p) dto s)) = in_deals s"
proof -
  let ?r = "claim_row env p dto"
  have r: "?r\<lparr>cl_provider_claim_id := Some x, cl_status := ClaimSubmitted\<rparr> = row" "cl_id ?r = nv_new_id env (pl_id p)"
    "cl_provider_id ?r = pl_provider_id p" "cl_amount ?r = to_fixed 2 (cd_amount dto)" "cl_id row = nv_new_id env (pl_id p)"
    by (simp_all add: claim_row_def row_def)
  have "update_where (\<lambda>y. cl_id y = nv_new_id env (pl_id p)) (\<lambda>_. row) (in_claims s) = in_claims s"
    using assms(10) by (intro update_where_none) (metis imageI)
  then have saved: "update_where (\<lambda>y. cl_id y = cl_id row) (\<lambda>_. row) (insert_row ?r (in_claims s)) = in_claims s @ [row]"
    using r(2,5) by (simp add: insert_row_def update_where_def)
  have run: "create_claim env u (pl_id p) dto s = send_claim_to_provider env ?r (s\<lparr>in_claims := insert_row ?r (in_claims s)\<rparr>)"
    using assms(1-3,5-7) by (simp add: create_claim_def submit_claim_def insert_claim_def Let_def not_less)
  show "in_claims (snd (create_claim env u (pl_id p) dto s)) = in_claims s @ [row]"
    "in_policies (snd (create_claim env u (pl_id p) dto s)) = in_policies s" "in_deals (snd (create_claim env u (pl_id p) dto s)) = in_deals s"
    unfolding run using assms(4,8,9) r saved by (simp_all add: send_claim_to_provider_def Let_def) (simp add: save_claim_def)
qed

fun make_claims :: "user \<Rightarrow> string \<Rightarrow> (insurance_env \<times> claim_dto) list \<Rightarrow> insurance_state \<Rightarrow> insurance_state" where
  "make_claims u policy_id [] s = s"
| "make_claims u policy_id ((env, dto) # runs) s = make_claims u policy_id runs (snd (create_claim env u policy_id dto s))"

text \<open>
  One policy answers for any number of events. The amount of a claim is compared with the coverage of
  the policy alone, never with what was claimed on it before: every claim for another event that the
  provider takes is stored with its full amount.
\<close>
theorem coverage_is_never_used_up:
  assumes "find_policy (pl_id p) s = Some p" "get_authorized_deal u (pl_trade_deal_id p) s = Inr d" "pl_status p = PolicyActive"
    and "distinct (map (\<lambda>(env, dto). nv_new_id env (pl_id p)) runs)" "distinct (map (\<lambda>(env, dto). cd_event_id dto) runs)"
    and "\<And>env dto. (env, dto) \<in> set runs \<Longrightarrow>
       isl (get_provider (nv_providers env) (pl_provider_id p)) = False \<and> cd_event_type dto = pl_coverage_type p
       \<and> cd_amount dto \<le> pl_coverage_amount p \<and> find_claim (pl_id p) (cd_event_id dto) s = None
       \<and> nv_new_id env (pl_id p) \<notin> cl_id ` set (in_claims s)
       \<and> (\<exists>x. nv_claim env (pl_provider_id p) (nv_new_id env (pl_id p)) (to_fixed 2 (cd_amount dto)) = Some (Some x) \<and> x \<noteq> [])"
  shows "map cl_amount (in_claims (make_claims u (pl_id p) runs s)) =
      map cl_amount (in_claims s) @ map (\<lambda>(env, dto). to_fixed 2 (cd_amount dto)) runs"
  using assms
proof (induction runs arbitrary: s)
  case (Cons run runs)
  obtain env dto where run: "run = (env, dto)" by fastforce
  note h = Cons.prems(6) [of env dto, unfolded run, simplified]
  obtain prov where prov: "get_provider (nv_providers env) (pl_provider_id p) = Inr prov" using h by (metis sum.collapse(2))
  obtain x where x: "nv_claim env (pl_provider_id p) (nv_new_id env (pl_id p)) (to_fixed 2 (cd_amount dto)) = Some (Some x)" "x \<noteq> []"
    using h by blast
  let ?row = "(claim_row env p dto)\<lparr>cl_provider_claim_id := Some x\<rparr>"
  let ?s1 = "snd (create_claim env u (pl_id p) dto s)"
  have s1: "in_claims ?s1 = in_claims s @ [?row]" "in_policies ?s1 = in_policies s" "in_deals ?s1 = in_deals s"
    using claim_accepted [OF Cons.prems(1-3) prov _ _ _ x] h by auto
  have "map cl_amount (in_claims (make_claims u (pl_id p) runs ?s1)) =
      map cl_amount (in_claims ?s1) @ map (\<lambda>(env, dto). to_fixed 2 (cd_amount dto)) runs"
  proof (rule Cons.IH)
    show "find_policy (pl_id p) ?s1 = Some p" using Cons.prems(1) s1(2) by (simp add: find_policy_def)
    show "get_authorized_deal u (pl_trade_deal_id p) ?s1 = Inr d" using Cons.prems(2) s1(3) by (simp add: get_authorized_deal_def)
    show "distinct (map (\<lambda>(env, dto). nv_new_id env (pl_id p)) runs)" "distinct (map (\<lambda>(env, dto). cd_event_id dto) runs)"
      using Cons.prems(4,5) by simp_all
    fix env' dto'
    assume in_runs: "(env', dto') \<in> set runs"
    have "nv_new_id env' (pl_id p) \<noteq> nv_new_id env (pl_id p)" "cd_event_id dto' \<noteq> cd_event_id dto"
      using Cons.prems(4,5) in_runs unfolding run by (force simp: image_iff)+
    moreover have "find_claim (pl_id p) (cd_event_id dto') s = None \<Longrightarrow> cd_event_id dto' \<noteq> cd_event_id dto \<Longrightarrow> find_claim (pl_id p) (cd_event_id dto') ?s1 = None"
      using s1(1) by (auto simp: find_claim_def find_one_None_iff claim_row_def)
    ultimately show "isl (get_provider (nv_providers env') (pl_provider_id p)) = False \<and> cd_event_type dto' = pl_coverage_type p
       \<and> cd_amount dto' \<le> pl_coverage_amount p \<and> find_claim (pl_id p) (cd_event_id dto') ?s1 = None
       \<and> nv_new_id env' (pl_id p) \<notin> cl_id ` set (in_claims ?s1)
       \<and> (\<exists>x. nv_claim env' (pl_provider_id p) (nv_new_id env' (pl_id p)) (to_fixed 2 (cd_amount dto')) = Some (Some x) \<and> x \<noteq> [])"
      using Cons.prems(6) [of env' dto'] in_runs s1(1) by (auto simp: claim_row_def)
  qed (use Cons.prems in simp)
  then show ?case by (simp add: run s1(1) claim_row_def)
qed simp

subsection \<open>The text that is signed\<close>

text \<open>\<open>JSON.stringify\<close>, and the value whose properties are sorted at every depth.\<close>

fun json_text :: "(jsnum \<Rightarrow> string) \<Rightarrow> json \<Rightarrow> string" where
  "json_text show_num JNull = ''null''"
| "json_text show_num (JBool b) = (if b then ''true'' else ''false'')"
| "json_text show_num (JNumber n) = show_num n"
| "json_text show_num (JString t) = json_string t"
| "json_text show_num (JArray vs) = CHR ''['' # join_comma (map (json_text show_num) vs) @ '']''"
| "json_text show_num (JObject fs) =
     CHR ''{'' # join_comma (map (\<lambda>(k, v). json_string k @ CHR '':'' # json_text show_num v) fs) @ ''}''"

fun sorted_json :: "json \<Rightarrow> json" where
  "sorted_json (JArray vs) = JArray (map sorted_json vs)"
| "sorted_json (JObject fs) = JObject (sort_key fst (map (\<lambda>(k, v). (k, sorted_json v)) fs))"
| "sorted_json v = v"

lemma sort_key_map:
  assumes "\<And>x. g (f x) = h x"
  shows "map f (sort_key h xs) = sort_key g (map f xs)"
proof -
  have "map f (insort_key h x xs) = insort_key g (f x) (map f xs)" for x xs
    using assms by (induction xs) auto
  then show ?thesis by (induction xs) simp_all
qed

definition example_runs :: "(insurance_env \<times> claim_dto) list" where
  "example_runs = [(example_insurance_env, example_event ''e''),
     (example_insurance_env\<lparr>nv_new_id := (\<lambda>x. CHR ''b'' # x)\<rparr>, example_event ''f'')]"

theorem coverage_is_never_used_up_witness:
  "pl_coverage_amount example_policy = 100 \<and>
   map cl_amount (in_claims (make_claims example_farmer ''l'' example_runs (example_insurance []))) = [100, 100]"
proof -
  have p: "find_policy (pl_id example_policy) (example_insurance []) = Some example_policy" "pl_status example_policy = PolicyActive"
    "get_authorized_deal example_farmer (pl_trade_deal_id example_policy) (example_insurance []) = Inr example_insured"
    by (simp_all add: find_policy_def find_one_def example_insurance_def example_policy_def get_authorized_deal_def find_insured_def
        example_insured_def example_farmer_def)
  have "get_provider (nv_providers example_insurance_env) ''p'' =
      Inr \<lparr>ip_id = ''p'', ip_name = ''P'', ip_api_key = ''k'', ip_webhook_secret = ''w''\<rparr>"
    by (simp add: example_insurance_env_def example_provider_def get_provider_def get_providers_def find_one_def)
  then have "map cl_amount (in_claims (make_claims example_farmer (pl_id example_policy) example_runs (example_insurance []))) =
      map cl_amount (in_claims (example_insurance [])) @ map (\<lambda>(env, dto). to_fixed 2 (cd_amount dto)) example_runs"
    by (intro coverage_is_never_used_up [OF p(1,3,2)])
      (auto simp: example_runs_def example_event_def example_policy_def example_insurance_def example_insurance_env_def find_claim_def find_one_def)
  moreover have "to_fixed 2 100 = (100 :: jsnum)" using to_fixed_dec [of 10000 2] by (simp add: dec_def)
  ultimately show ?thesis by (simp add: example_runs_def example_event_def example_insurance_def example_policy_def)
qed

lemma canonical_text: "canonicalize show_num v = json_text show_num (sorted_json v)"
proof (induction show_num v rule: canonicalize.induct)
  case (6 show_num fs)
  let ?text = "\<lambda>(k, v). (k, json_text show_num v)"
  have "map (\<lambda>(k, v). (k, canonicalize show_num v)) fs = map ?text (map (\<lambda>(k, v). (k, sorted_json v)) fs)"
    using 6 by (auto simp: case_prod_beta)
  then have "sort_key fst (map (\<lambda>(k, v). (k, canonicalize show_num v)) fs) =
      map ?text (sort_key fst (map (\<lambda>(k, v). (k, sorted_json v)) fs))"
    by (simp only:) (rule sort_key_map [symmetric], simp add: case_prod_beta)
  then show ?case by (simp add: comp_def split_def)
qed (simp_all add: comp_def cong: map_cong)

lemma sorted_json_permuted:
  assumes "mset fs = mset gs" "distinct (map fst fs)"
  shows "sorted_json (JObject fs) = sorted_json (JObject gs)"
proof -
  let ?f = "\<lambda>(k, v). (k, sorted_json v)"
  have "map fst (map ?f fs) = map fst fs" by (simp add: case_prod_beta)
  then have "inj_on fst (set (map ?f fs))" using assms(2) by (metis distinct_map)
  moreover have "mset (map ?f fs) = mset (sort_key fst (map ?f gs))" using assms(1) by simp
  ultimately have "sort_key fst (map ?f fs) = sort_key fst (map ?f gs)" by (intro sort_key_inj_key_eq) auto
  then show ?thesis by simp
qed

text \<open>
  What a signature covers. The text that is signed is the JSON text of the value with the properties
  of every object sorted; a signature is therefore accepted whatever the order in which the sender
  wrote the properties.
\<close>
theorem signature_ignores_property_order:
  assumes "mset fs = mset gs" "distinct (map fst fs)"
  shows "canonicalize show_num v = json_text show_num (sorted_json v) \<and>
   verify_signature env (JObject fs) signature secret = verify_signature env (JObject gs) signature secret"
  using sorted_json_permuted [OF assms] by (simp only: verify_signature_def canonical_text simp_thms)

theorem signature_ignores_property_order_witness:
  "verify_signature example_insurance_env (JObject [(''b'', JNull), (''a'', JBool True)]) ''01'' ''w'' =
   verify_signature example_insurance_env (JObject [(''a'', JBool True), (''b'', JNull)]) ''01'' ''w''"
  by (rule signature_ignores_property_order [THEN conjunct2]) simp_all

subsection \<open>The recommended quote\<close>

lemma request_quotes_valid:
  "q \<in> set (fst (request_quotes env u d c a p r ps s)) \<Longrightarrow>
   qt_coverage_amount q \<le> to_fixed 2 a \<and> qt_currency q = ''USD'' \<and> nv_now env < qt_expires_at q \<and> qt_status q = QuoteOffered
   \<and> qt_provider_id q \<in> ip_id ` set ps"
proof (induction ps arbitrary: s)
  case (Cons x ps)
  have one: "fst (request_quote env u d c a p r x s) = Some y \<Longrightarrow> qt_coverage_amount y \<le> to_fixed 2 a \<and> qt_currency y = ''USD''
      \<and> nv_now env < qt_expires_at y \<and> qt_status y = QuoteOffered \<and> qt_provider_id y = ip_id x" for y
    by (auto simp: request_quote_def normalize_quote_def quote_row_def Let_def not_less not_le
        intro!: to_fixed_mono split: option.splits if_splits)
  show ?case using Cons.IH [of "snd (request_quote env u d c a p r x s)"] Cons.prems one
    by (auto simp: case_prod_beta split: option.splits)
qed simp

lemma rank_nonempty: "qs \<noteq> [] \<Longrightarrow> rank_quotes qs \<noteq> []"
  using set_sort [of _ qs] unfolding rank_quotes_def by (metis set_empty)

text \<open>
  The recommended quote is one of the quotes of the comparison, and no other covers more per premium, or
  as much at a lower premium. Every quote of the comparison is one of a configured provider, in dollars, not
  expired, and covers no more than was asked for, to the cent.
\<close>
theorem recommended_quote_is_best:
  assumes "compare_quotes env u deal_id coverage percent s = (Inr r, s')"
  shows "(\<exists>q \<in> set (qc_quotes r). qt_id q = qc_recommended r \<and>
      (\<forall>x \<in> set (qc_quotes r). value_score x < value_score q \<or> value_score x = value_score q \<and> qt_premium q \<le> qt_premium x))
    \<and> (\<forall>x \<in> set (qc_quotes r). qt_currency x = ''USD'' \<and> nv_now env < qt_expires_at x \<and> qt_status x = QuoteOffered
        \<and> (\<exists>d \<in> set (in_deals s). qt_coverage_amount x \<le> to_fixed 2 (div_js (mul_js (td_total_value d)
              (case percent of Some n \<Rightarrow> n | None \<Rightarrow> 100)) 100)))"
proof -
  obtain d ps where d: "get_authorized_deal u deal_id s = Inr d" "get_providers (nv_providers env) = Inr ps"
    using assms by (auto simp: compare_quotes_def split: sum.splits)
  let ?a = "div_js (mul_js (td_total_value d) (case percent of Some n \<Rightarrow> n | None \<Rightarrow> 100)) 100"
  let ?p = "calculate_premium d coverage ?a (get_risk_score d)"
  let ?qs = "fst (request_quotes env u d coverage ?a ?p (get_risk_score d) ps s)"
  have qs: "?qs \<noteq> []" "qc_quotes r = rank_quotes ?qs" "qc_recommended r = qt_id (hd (rank_quotes ?qs))"
    using assms d by (auto simp: compare_quotes_def Let_def case_prod_beta split: if_splits)
  have ne: "rank_quotes ?qs \<noteq> []" using rank_nonempty [OF qs(1)] .
  have "sorted (map (\<lambda>q. (- value_score q, qt_premium q)) (rank_quotes ?qs))" by (simp add: rank_quotes_def)
  then have "\<forall>x \<in> set (rank_quotes ?qs). (- value_score (hd (rank_quotes ?qs)), qt_premium (hd (rank_quotes ?qs))) \<le> (- value_score x, qt_premium x)"
    using ne by (cases "rank_quotes ?qs") auto
  then have best: "\<forall>x \<in> set (rank_quotes ?qs). value_score x < value_score (hd (rank_quotes ?qs)) \<or>
      value_score x = value_score (hd (rank_quotes ?qs)) \<and> qt_premium (hd (rank_quotes ?qs)) \<le> qt_premium x"
    by (auto simp: less_eq_prod_def)
  have row: "d \<in> set (in_deals s)"
    using d(1) by (auto simp: get_authorized_deal_def find_insured_def split: option.splits if_splits dest: find_one_SomeD)
  have same: "set (rank_quotes ?qs) = set ?qs" by (simp add: rank_quotes_def)
  have first: "hd (rank_quotes ?qs) \<in> set (rank_quotes ?qs)" using ne by (rule hd_in_set)
  show ?thesis
  proof (intro conjI ballI)
    show "\<exists>q \<in> set (qc_quotes r). qt_id q = qc_recommended r \<and>
        (\<forall>x \<in> set (qc_quotes r). value_score x < value_score q \<or> value_score x = value_score q \<and> qt_premium q \<le> qt_premium x)"
      unfolding qs(2,3) by (rule bexI [OF _ first]) (use best in simp)
    fix x
    assume "x \<in> set (qc_quotes r)"
    then have x: "x \<in> set ?qs" using same qs(2) by simp
    note v = request_quotes_valid [OF x]
    show "qt_currency x = ''USD''" "nv_now env < qt_expires_at x" "qt_status x = QuoteOffered" using v by simp_all
    show "\<exists>d \<in> set (in_deals s). qt_coverage_amount x \<le> to_fixed 2 (div_js (mul_js (td_total_value d)
        (case percent of Some n \<Rightarrow> n | None \<Rightarrow> 100)) 100)"
      by (rule bexI [OF _ row]) (use v in simp)
  qed
qed

theorem recommended_quote_is_best_witness:
  "\<exists>r s'. compare_quotes example_insurance_env example_farmer ''d1'' CropFailure None (example_insurance []) = (Inr r, s')
     \<and> list_all (\<lambda>x. qt_currency x = ''USD'') (qc_quotes r)"
proof -
  have "get_authorized_deal example_farmer ''d1'' (example_insurance []) = Inr example_insured"
    by (simp add: get_authorized_deal_def find_insured_def find_one_def example_insurance_def example_insured_def example_farmer_def)
  moreover have "get_providers (nv_providers example_insurance_env) =
      Inr [\<lparr>ip_id = ''p'', ip_name = ''P'', ip_api_key = ''k'', ip_webhook_secret = ''w''\<rparr>]"
    by (simp add: example_insurance_env_def example_provider_def get_providers_def)
  moreover have "div_js (mul_js (td_total_value example_insured) 100) 100 = 100"
    by (simp add: example_insured_def mul_js_def div_js_def)
  moreover obtain row s1 where "request_quote example_insurance_env example_farmer example_insured CropFailure 100
      (calculate_premium example_insured CropFailure 100 (get_risk_score example_insured)) (get_risk_score example_insured)
      \<lparr>ip_id = ''p'', ip_name = ''P'', ip_api_key = ''k'', ip_webhook_secret = ''w''\<rparr> (example_insurance []) = (Some row, s1)"
    by (simp add: request_quote_def normalize_quote_def example_insurance_env_def example_insurance_def record_call_def
        ascii_upper_def char_between_def Let_def)
  ultimately have "\<not> isl (fst (compare_quotes example_insurance_env example_farmer ''d1'' CropFailure None (example_insurance [])))"
    by (simp add: compare_quotes_def Let_def)
  then obtain r s' where r: "compare_quotes example_insurance_env example_farmer ''d1'' CropFailure None (example_insurance []) = (Inr r, s')"
    by (metis prod.collapse sum.collapse(2))
  with recommended_quote_is_best [OF r] show ?thesis by (auto simp: list_all_iff)
qed

end
