(* ===== verification/JsDate.thy ===== *)
theory JsDate
  imports JsText
begin

text \<open>
  The date of a time stamp as text: \<open>new Date(t).toISOString().split('T')[0]\<close>, in the Gregorian
  calendar, and numbers as decimal digits. How a text is read as a date is left to the
  implementation for most texts, so that reading is a parameter of the components.
\<close>

subsection \<open>Digits\<close>

fun digits :: "nat \<Rightarrow> string" where
  "digits n = (if n < 10 then [''0123456789'' ! n] else digits (n div 10) @ [''0123456789'' ! (n mod 10)])"

declare digits.simps [simp del]

definition pad_zeros :: "nat \<Rightarrow> nat \<Rightarrow> string" where
  "pad_zeros w n = replicate (w - length (digits n)) CHR ''0'' @ digits n"

definition int_text :: "int \<Rightarrow> string" where
  "int_text n = (if n < 0 then CHR ''-'' # digits (nat (- n)) else digits (nat n))"

subsection \<open>Dates\<close>

definition day_ms :: int where
  "day_ms = 86400000"

text \<open>Year, month and day of a number of days after 1970-01-01; years begin in March inside.\<close>

definition civil_date :: "int \<Rightarrow> int \<times> int \<times> int" where
  "civil_date days =
     (let z = days + 719468;
          era = z div 146097;
          doe = z mod 146097;
          yoe = (doe - doe div 1460 + doe div 36524 - doe div 146096) div 365;
          doy = doe - (365 * yoe + yoe div 4 - yoe div 100);
          mp = (5 * doy + 2) div 153;
          d = doy - (153 * mp + 2) div 5 + 1;
          m = (if mp < 10 then mp + 3 else mp - 9)
      in (yoe + era * 400 + (if m \<le> 2 then 1 else 0), m, d))"

definition year_text :: "int \<Rightarrow> string" where
  "year_text y =
     (if 0 \<le> y \<and> y \<le> 9999 then pad_zeros 4 (nat y)
      else (if y < 0 then CHR ''-'' else CHR ''+'') # pad_zeros 6 (nat \<bar>y\<bar>))"

definition max_time :: int where
  "max_time = 8640000000000000"

text \<open>The number of a \<open>Date\<close> is cut to an integer; beyond the range of dates the text is refused.\<close>

definition date_time :: "jsnum \<Rightarrow> int option" where
  "date_time x =
     (let t = (if x < 0 then - \<lfloor>- x\<rfloor> else \<lfloor>x\<rfloor>)
      in if \<bar>x\<bar> \<le> of_int max_time then Some t else None)"

fun civil_text :: "int \<times> int \<times> int \<Rightarrow> string" where
  "civil_text (y, m, d) = year_text y @ CHR ''-'' # pad_zeros 2 (nat m) @ CHR ''-'' # pad_zeros 2 (nat d)"

definition day_text :: "int \<Rightarrow> string" where
  "day_text t = civil_text (civil_date (t div day_ms))"

end
