(* ===== verification/LetterOfCredit.thy ===== *)
theory LetterOfCredit
  imports Entities JsDate
begin

text \<open>
  \<open>backend/src/letter-of-credit/letter-of-credit.service.ts\<close>: letters of credit are issued from the
  terms of a deal, amended, checked against the documents that are presented, and settled. They are
  objects of a map in memory. Digests, random identifiers, the clock, the reading of dates and the
  texts of numbers and JSON are the parameters gathered in \<open>credit_env\<close>. An amendment may name any
  field: \<open>credit_change\<close> has one constructor for each of them, with a value of its type, and
  \<open>ChangeOther\<close> for the names that are skipped. The fields that an amendment set are copies of its
  values here; in the code they are the same objects, which only shows in the stored amendment.
\<close>

subsection \<open>Data\<close>

datatype credit_status =
    CreditDraft | CreditIssued | CreditAdvised | CreditConfirmed | DocumentsPresented
  | CreditVerified | CreditDiscrepant | CreditSettled | CreditCancelled | CreditExpired

datatype credit_type = IrrevocableTransferable | IrrevocableConfirmed | Standby | Revolving

datatype document_type =
    BillOfLading | CommercialInvoice | CertificateOfOrigin | PhytosanitaryCertificate
  | InsuranceCertificate | PackingList | InspectionCertificate

text \<open>The discrepancies, with what their texts are made of.\<close>

datatype discrepancy =
    AfterExpiry string
  | AfterShipment string string
  | AboveTolerance jsnum jsnum
  | BelowTolerance jsnum jsnum
  | CoverTooLow jsnum jsnum

record presented_document =
  pd_id :: string
  pd_type :: document_type
  pd_number :: string
  pd_issue_date :: string
  pd_hash :: string
  pd_url :: string
  pd_compliant :: bool
  pd_discrepancies :: "discrepancy list"
  pd_verified_at :: int

datatype amendment_status = AmendmentPending | AmendmentApproved | AmendmentRejected

datatype credit_change =
    ChangeDeal string | ChangeTitle string | ChangeCommodity string | ChangeType credit_type
  | ChangeIssuingBank string | ChangeAdvisingBank string | ChangeApplicant string | ChangeApplicantName string
  | ChangeBeneficiary string | ChangeBeneficiaryName string | ChangeAmount jsnum | ChangeCurrency string
  | ChangeTolerance jsnum | ChangeExpiry string | ChangePeriod jsnum | ChangeShipment string
  | ChangeLoading string | ChangeDischarge string | ChangeStatus credit_status | ChangeCompliant bool
  | ChangeMessage string | ChangeAnchor string | ChangeAnchorTx "string option"
  | ChangeRequired "document_type list" | ChangePresented "presented_document list"
  | ChangeAmendments "credit_amendment list" | ChangeCreated int | ChangeUpdated int
  | ChangeSettledAt "int option" | ChangeOther string
and credit_amendment =
  Amendment (an_id: string) (an_number: nat) (an_requested_by: string) (an_requested_at: int)
    (an_changes: "credit_change list") (an_status: amendment_status) (an_message: string)
    (an_reason: "string option") (an_decided_at: "int option")

record letter_of_credit =
  lc_id :: string
  lc_number :: string
  lc_deal_id :: string
  lc_deal_title :: string
  lc_commodity :: string
  lc_type :: credit_type
  lc_issuing_bank :: string
  lc_advising_bank :: string
  lc_applicant_id :: string
  lc_applicant_name :: string
  lc_beneficiary_id :: string
  lc_beneficiary_name :: string
  lc_amount :: jsnum
  lc_currency :: string
  lc_tolerance :: jsnum
  lc_expiry_date :: string
  lc_period_days :: jsnum
  lc_shipment_date :: string
  lc_loading :: string
  lc_discharge :: string
  lc_status :: credit_status
  lc_compliant :: bool
  lc_message :: string
  lc_anchor :: string
  lc_anchor_tx :: "string option"
  lc_required :: "document_type list"
  lc_presented :: "presented_document list"
  lc_amendments :: "credit_amendment list"
  lc_created_at :: int
  lc_updated_at :: int
  lc_settled_at :: "int option"

record credit_deal = trade_deal +
  kd_title :: "string option"
  kd_quantity :: jsnum
  kd_quantity_unit :: string
  kd_delivery_date :: "string option"

record create_credit_dto =
  kc_issuing_bank :: "string option"
  kc_advising_bank :: "string option"
  kc_type :: "credit_type option"
  kc_tolerance :: "jsnum option"
  kc_period_days :: "jsnum option"
  kc_loading :: "string option"
  kc_discharge :: "string option"
  kc_required :: "document_type list option"

record verify_document_dto =
  vd_type :: document_type
  vd_number :: string
  vd_issue_date :: string
  vd_url :: string
  vd_hash :: string
  vd_stated_amount :: "jsnum option"

text \<open>Beside the map: the answers of \<open>settleLc\<close>, a credit with its settlement transaction.\<close>

record credit_state =
  kt_deals :: "credit_deal list"
  kt_users :: "user list"
  kt_credits :: "letter_of_credit list"
  kt_settlements :: "(string \<times> string) list"

record credit_env =
  kv_now :: int
  kv_credit_id :: string
  kv_credit_number :: string
  kv_anchor_tx :: string
  kv_settlement_tx :: string
  kv_document_id :: string
  kv_sha256 :: "string \<Rightarrow> string"
  kv_read_date :: "string \<Rightarrow> int option"
  kv_show_num :: "jsnum \<Rightarrow> string"
  kv_show_fixed :: "jsnum \<Rightarrow> string"
  kv_show_changes :: "credit_change list \<Rightarrow> string"

type_synonym 'a credit_handler = "(credit_state, http_error, 'a) handler"

fun type_text :: "document_type \<Rightarrow> string" where
  "type_text BillOfLading = ''BILL_OF_LADING''"
| "type_text CommercialInvoice = ''COMMERCIAL_INVOICE''"
| "type_text CertificateOfOrigin = ''CERTIFICATE_OF_ORIGIN''"
| "type_text PhytosanitaryCertificate = ''PHYTOSANITARY_CERTIFICATE''"
| "type_text InsuranceCertificate = ''INSURANCE_CERTIFICATE''"
| "type_text PackingList = ''PACKING_LIST''"
| "type_text InspectionCertificate = ''INSPECTION_CERTIFICATE''"

subsection \<open>The map\<close>

definition get_lc :: "string \<Rightarrow> credit_state \<Rightarrow> http_error + letter_of_credit" where
  "get_lc i s =
     (case find_one (\<lambda>c. lc_id c = i) (kt_credits s) of
        None \<Rightarrow> Inl (NotFound (''Letter of credit '' @ i @ '' not found''))
      | Some c \<Rightarrow> Inr c)"

definition set_lc :: "letter_of_credit \<Rightarrow> credit_state \<Rightarrow> credit_state" where
  "set_lc c s =
     s\<lparr>kt_credits := (if \<exists>x \<in> set (kt_credits s). lc_id x = lc_id c
                      then update_where (\<lambda>x. lc_id x = lc_id c) (\<lambda>_. c) (kt_credits s)
                      else insert_row c (kt_credits s))\<rparr>"

definition get_deal_lcs :: "string \<Rightarrow> credit_state \<Rightarrow> letter_of_credit list" where
  "get_deal_lcs deal_id s = filter (\<lambda>c. lc_deal_id c = deal_id) (kt_credits s)"

definition get_all_lcs :: "credit_state \<Rightarrow> letter_of_credit list" where
  "get_all_lcs s = kt_credits s"

subsection \<open>SWIFT messages\<close>

definition compact_date :: "string \<Rightarrow> string" where
  "compact_date t = filter (\<lambda>c. c \<noteq> CHR ''-'') (drop 2 t)"

definition issue_date :: "credit_env \<Rightarrow> string" where
  "issue_date env = filter (\<lambda>c. c \<noteq> CHR ''-'') (take 8 (drop 2 (day_text (kv_now env))))"

record mt700_params =
  mt_number :: string
  mt_commodity :: string
  mt_quantity :: string
  mt_amount :: jsnum
  mt_currency :: string
  mt_issuing_bank :: string
  mt_advising_bank :: string
  mt_applicant :: string
  mt_beneficiary :: string
  mt_shipment_date :: string
  mt_expiry_date :: string
  mt_tolerance :: jsnum
  mt_loading :: string
  mt_discharge :: string
  mt_required :: "document_type list"

definition generate_swift_mt700 :: "credit_env \<Rightarrow> mt700_params \<Rightarrow> string" where
  "generate_swift_mt700 env p = join_with [CHR 0x0A]
     [''{1:F01'' @ mt_issuing_bank p @ ''XXXX0000000000}{2:I700'' @ mt_advising_bank p @ ''XXXXN}{4:'',
      '':27:1/1'',
      '':40A:IRREVOCABLE'',
      '':20:'' @ mt_number p,
      '':31C:'' @ issue_date env,
      '':40E:UCP LATEST VERSION'',
      '':31D:'' @ compact_date (mt_expiry_date p) @ '' AT ISSUING BANK'',
      '':50:'' @ mt_applicant p,
      '':59:'' @ mt_beneficiary p,
      '':32B:'' @ mt_currency p @ kv_show_fixed env (mt_amount p),
      '':39A:'' @ kv_show_num env (mt_tolerance p) @ ''/'' @ kv_show_num env (mt_tolerance p),
      '':41D:'' @ mt_issuing_bank p @ '' BY PAYMENT'',
      '':44E:'' @ mt_loading p,
      '':44F:'' @ mt_discharge p,
      '':44C:'' @ compact_date (mt_shipment_date p),
      '':45A:'' @ mt_quantity p @ '' OF '' @ ascii_upper (mt_commodity p) @ '' AS PER CONTRACT'',
      '':46A:'' @ join_with '', '' (map type_text (mt_required p)),
      '':47A:ALL DOCUMENTS MUST COMPLY WITH UCP 600. THIRD PARTY DOCUMENTS ACCEPTABLE.'',
      ''-}'']"

definition generate_swift_mt707 :: "credit_env \<Rightarrow> letter_of_credit \<Rightarrow> nat \<Rightarrow> credit_change list \<Rightarrow> string" where
  "generate_swift_mt707 env c number changes = join_with [CHR 0x0A]
     [''{1:F01'' @ lc_issuing_bank c @ ''XXXX0000000000}{2:I707'' @ lc_advising_bank c @ ''XXXXN}{4:'',
      '':20:'' @ lc_number c,
      '':21:'' @ digits number,
      '':31C:'' @ issue_date env,
      '':30:'' @ digits number,
      '':79:NARRATIVE: AMENDMENT DETAILS: '' @ kv_show_changes env changes,
      ''-}'']"

subsection \<open>Issuance\<close>

definition default_documents :: "document_type list" where
  "default_documents = [BillOfLading, CommercialInvoice, CertificateOfOrigin, PhytosanitaryCertificate, InsuranceCertificate]"

definition or_text :: "string option \<Rightarrow> string \<Rightarrow> string" where
  "or_text x t = (if present x then the x else t)"

text \<open>\<open>x || n\<close> for a number: zero counts as missing.\<close>

definition or_num :: "jsnum option \<Rightarrow> jsnum \<Rightarrow> jsnum" where
  "or_num x n = (case x of Some k \<Rightarrow> if k = 0 then n else k | None \<Rightarrow> n)"

definition email_of :: "string \<Rightarrow> credit_state \<Rightarrow> string option" where
  "email_of i s = map_option us_email (find_user i (kt_users s))"

definition shipment_time :: "credit_env \<Rightarrow> credit_deal \<Rightarrow> int option" where
  "shipment_time env d =
     (if present (kd_delivery_date d) then kv_read_date env (the (kd_delivery_date d))
      else Some (kv_now env + 60 * day_ms))"

text \<open>The days of shipment and expiry; \<open>toISOString\<close> of an invalid date throws.\<close>

definition credit_dates :: "credit_env \<Rightarrow> create_credit_dto \<Rightarrow> credit_deal \<Rightarrow> (string \<times> string) option" where
  "credit_dates env dto d =
     (case shipment_time env d of None \<Rightarrow> None
      | Some t \<Rightarrow>
     (case kv_read_date env (day_text t) of None \<Rightarrow> None
      | Some day \<Rightarrow>
     (case date_time (add_js (of_int day) (mul_js (or_num (kc_period_days dto) 21) 86400000)) of None \<Rightarrow> None
      | Some e \<Rightarrow> Some (day_text t, day_text e))))"

definition anchoring_payload :: "credit_env \<Rightarrow> letter_of_credit \<Rightarrow> string" where
  "anchoring_payload env c = join_with ''|''
     [lc_number c, lc_deal_id c, kv_show_num env (lc_amount c), ''USD'', lc_issuing_bank c, lc_advising_bank c,
      lc_shipment_date c, lc_expiry_date c]"

definition new_credit :: "credit_env \<Rightarrow> create_credit_dto \<Rightarrow> credit_deal \<Rightarrow> string \<Rightarrow> string \<Rightarrow> credit_state \<Rightarrow> letter_of_credit" where
  "new_credit env dto d shipment expiry s =
     \<lparr>lc_id = kv_credit_id env, lc_number = kv_credit_number env, lc_deal_id = td_id d,
      lc_deal_title = or_text (kd_title d) (td_commodity d @ '' Deal''), lc_commodity = td_commodity d,
      lc_type = (case kc_type dto of Some t \<Rightarrow> t | None \<Rightarrow> IrrevocableConfirmed),
      lc_issuing_bank = or_text (kc_issuing_bank dto) ''STANDARD_CHARTERED_GLOBAL'',
      lc_advising_bank = or_text (kc_advising_bank dto) ''BARCLAYS_COMMERCIAL'',
      lc_applicant_id = td_trader_id d, lc_applicant_name = or_text (email_of (td_trader_id d) s) ''Trader'',
      lc_beneficiary_id = td_farmer_id d, lc_beneficiary_name = or_text (email_of (td_farmer_id d) s) ''Farmer'',
      lc_amount = or_num (Some (td_total_value d)) 10000, lc_currency = ''USD'',
      lc_tolerance = (case kc_tolerance dto of Some n \<Rightarrow> n | None \<Rightarrow> 5), lc_expiry_date = expiry,
      lc_period_days = or_num (kc_period_days dto) 21, lc_shipment_date = shipment,
      lc_loading = or_text (kc_loading dto) ''Origin Regional Port'',
      lc_discharge = or_text (kc_discharge dto) ''Destination International Port'',
      lc_status = CreditIssued, lc_compliant = True, lc_message = [], lc_anchor = [], lc_anchor_tx = Some (kv_anchor_tx env),
      lc_required = (case kc_required dto of Some ts \<Rightarrow> ts | None \<Rightarrow> default_documents),
      lc_presented = [], lc_amendments = [], lc_created_at = kv_now env, lc_updated_at = kv_now env,
      lc_settled_at = None\<rparr>"

definition credit_message :: "credit_env \<Rightarrow> credit_deal \<Rightarrow> credit_state \<Rightarrow> letter_of_credit \<Rightarrow> string" where
  "credit_message env d s c = generate_swift_mt700 env
     \<lparr>mt_number = lc_number c, mt_commodity = td_commodity d,
      mt_quantity = kv_show_num env (kd_quantity d) @ '' '' @ kd_quantity_unit d, mt_amount = lc_amount c, mt_currency = ''USD'',
      mt_issuing_bank = lc_issuing_bank c, mt_advising_bank = lc_advising_bank c,
      mt_applicant = or_text (email_of (td_trader_id d) s) ''Trader Corp'',
      mt_beneficiary = or_text (email_of (td_farmer_id d) s) ''Farmer Cooperative'',
      mt_shipment_date = lc_shipment_date c, mt_expiry_date = lc_expiry_date c, mt_tolerance = lc_tolerance c,
      mt_loading = lc_loading c, mt_discharge = lc_discharge c, mt_required = lc_required c\<rparr>"

definition issue_from_deal :: "credit_env \<Rightarrow> string \<Rightarrow> create_credit_dto \<Rightarrow> letter_of_credit credit_handler" where
  "issue_from_deal env deal_id dto s =
     (case find_one (\<lambda>d. td_id d = deal_id \<and> \<not> td_deleted d) (kt_deals s) of
        None \<Rightarrow> throw (NotFound (''Trade deal '' @ deal_id @ '' not found'')) s
      | Some d \<Rightarrow>
          (case credit_dates env dto d of
             None \<Rightarrow> throw (Internal ''RangeError: Invalid time value'') s
           | Some (shipment, expiry) \<Rightarrow>
               (let c = new_credit env dto d shipment expiry s;
                    c' = c\<lparr>lc_message := credit_message env d s c, lc_anchor := kv_sha256 env (anchoring_payload env c)\<rparr>
                in done_with c' (set_lc c' s))))"

subsection \<open>Amendments\<close>

definition request_amendment :: "credit_env \<Rightarrow> string \<Rightarrow> credit_change list \<Rightarrow> string \<Rightarrow> string \<Rightarrow> credit_amendment credit_handler" where
  "request_amendment env i changes reason requested_by s =
     (case get_lc i s of
        Inl e \<Rightarrow> throw e s
      | Inr c \<Rightarrow>
          (let number = length (lc_amendments c) + 1;
               a = Amendment (''amend-'' @ int_text (kv_now env) @ ''-'' @ digits number) number requested_by (kv_now env) changes
                     AmendmentPending (generate_swift_mt707 env c number changes) (Some reason) None
           in done_with a (set_lc (c\<lparr>lc_amendments := lc_amendments c @ [a], lc_updated_at := kv_now env\<rparr>) s)))"

fun apply_change :: "credit_change \<Rightarrow> letter_of_credit \<Rightarrow> letter_of_credit" where
  "apply_change (ChangeDeal v) c = c\<lparr>lc_deal_id := v\<rparr>"
| "apply_change (ChangeTitle v) c = c\<lparr>lc_deal_title := v\<rparr>"
| "apply_change (ChangeCommodity v) c = c\<lparr>lc_commodity := v\<rparr>"
| "apply_change (ChangeType v) c = c\<lparr>lc_type := v\<rparr>"
| "apply_change (ChangeIssuingBank v) c = c\<lparr>lc_issuing_bank := v\<rparr>"
| "apply_change (ChangeAdvisingBank v) c = c\<lparr>lc_advising_bank := v\<rparr>"
| "apply_change (ChangeApplicant v) c = c\<lparr>lc_applicant_id := v\<rparr>"
| "apply_change (ChangeApplicantName v) c = c\<lparr>lc_applicant_name := v\<rparr>"
| "apply_change (ChangeBeneficiary v) c = c\<lparr>lc_beneficiary_id := v\<rparr>"
| "apply_change (ChangeBeneficiaryName v) c = c\<lparr>lc_beneficiary_name := v\<rparr>"
| "apply_change (ChangeAmount v) c = c\<lparr>lc_amount := v\<rparr>"
| "apply_change (ChangeCurrency v) c = c\<lparr>lc_currency := v\<rparr>"
| "apply_change (ChangeTolerance v) c = c\<lparr>lc_tolerance := v\<rparr>"
| "apply_change (ChangeExpiry v) c = c\<lparr>lc_expiry_date := v\<rparr>"
| "apply_change (ChangePeriod v) c = c\<lparr>lc_period_days := v\<rparr>"
| "apply_change (ChangeShipment v) c = c\<lparr>lc_shipment_date := v\<rparr>"
| "apply_change (ChangeLoading v) c = c\<lparr>lc_loading := v\<rparr>"
| "apply_change (ChangeDischarge v) c = c\<lparr>lc_discharge := v\<rparr>"
| "apply_change (ChangeStatus v) c = c\<lparr>lc_status := v\<rparr>"
| "apply_change (ChangeCompliant v) c = c\<lparr>lc_compliant := v\<rparr>"
| "apply_change (ChangeMessage v) c = c\<lparr>lc_message := v\<rparr>"
| "apply_change (ChangeAnchor v) c = c\<lparr>lc_anchor := v\<rparr>"
| "apply_change (ChangeAnchorTx v) c = c\<lparr>lc_anchor_tx := v\<rparr>"
| "apply_change (ChangeRequired v) c = c\<lparr>lc_required := v\<rparr>"
| "apply_change (ChangePresented v) c = c\<lparr>lc_presented := v\<rparr>"
| "apply_change (ChangeAmendments v) c = c\<lparr>lc_amendments := v\<rparr>"
| "apply_change (ChangeCreated v) c = c\<lparr>lc_created_at := v\<rparr>"
| "apply_change (ChangeUpdated v) c = c\<lparr>lc_updated_at := v\<rparr>"
| "apply_change (ChangeSettledAt v) c = c\<lparr>lc_settled_at := v\<rparr>"
| "apply_change (ChangeOther k) c = c"

definition apply_changes :: "credit_change list \<Rightarrow> letter_of_credit \<Rightarrow> letter_of_credit" where
  "apply_changes changes c = fold apply_change changes c"

definition decided :: "credit_env \<Rightarrow> bool \<Rightarrow> string option \<Rightarrow> credit_amendment \<Rightarrow> credit_amendment" where
  "decided env approved reason a =
     Amendment (an_id a) (an_number a) (an_requested_by a) (an_requested_at a) (an_changes a)
       (if approved then AmendmentApproved else AmendmentRejected) (an_message a)
       (if present reason then reason else an_reason a) (Some (kv_now env))"

text \<open>\<open>find\<close> gives the first amendment of that identifier, which is then changed in place.\<close>

fun replace_first :: "('a \<Rightarrow> bool) \<Rightarrow> 'a \<Rightarrow> 'a list \<Rightarrow> 'a list" where
  "replace_first p y [] = []"
| "replace_first p y (x # xs) = (if p x then y # xs else x # replace_first p y xs)"

definition re_anchored :: "credit_env \<Rightarrow> string \<Rightarrow> letter_of_credit \<Rightarrow> letter_of_credit" where
  "re_anchored env amendment_id c = c\<lparr>lc_anchor := kv_sha256 env (lc_anchor c @ ''|amend:'' @ amendment_id)\<rparr>"

fun amendment_text :: "amendment_status \<Rightarrow> string" where
  "amendment_text AmendmentPending = ''PENDING_APPROVAL''"
| "amendment_text AmendmentApproved = ''APPROVED''"
| "amendment_text AmendmentRejected = ''REJECTED''"

definition decide_amendment :: "credit_env \<Rightarrow> string \<Rightarrow> string \<Rightarrow> bool \<Rightarrow> string option \<Rightarrow> letter_of_credit credit_handler" where
  "decide_amendment env i amendment_id approved reason s =
     (case get_lc i s of
        Inl e \<Rightarrow> throw e s
      | Inr c \<Rightarrow>
     (case find_one (\<lambda>a. an_id a = amendment_id) (lc_amendments c) of
        None \<Rightarrow> throw (NotFound (''Amendment '' @ amendment_id @ '' not found on LC '' @ i)) s
      | Some a \<Rightarrow>
          if an_status a \<noteq> AmendmentPending then throw (BadRequest (''Amendment is already '' @ amendment_text (an_status a))) s
          else
            (let c1 = c\<lparr>lc_amendments := replace_first (\<lambda>x. an_id x = amendment_id) (decided env approved reason a) (lc_amendments c)\<rparr>;
                 c2 = (if approved then re_anchored env amendment_id (apply_changes (an_changes a) c1) else c1);
                 c3 = c2\<lparr>lc_updated_at := kv_now env\<rparr>
             in done_with c3 (set_lc c3 s))))"

subsection \<open>Documents\<close>

text \<open>A comparison with a date that cannot be read is false.\<close>

definition later :: "int option \<Rightarrow> int option \<Rightarrow> bool" where
  "later x y = (case (x, y) of (Some a, Some b) \<Rightarrow> b < a | _ \<Rightarrow> False)"

definition truthy_amount :: "jsnum option \<Rightarrow> bool" where
  "truthy_amount x \<longleftrightarrow> or_num x 0 \<noteq> 0"

definition max_allowed :: "letter_of_credit \<Rightarrow> jsnum" where
  "max_allowed c = mul_js (lc_amount c) (add_js 1 (div_js (lc_tolerance c) 100))"

definition min_allowed :: "letter_of_credit \<Rightarrow> jsnum" where
  "min_allowed c = mul_js (lc_amount c) (sub_js 1 (div_js (lc_tolerance c) 100))"

definition minimum_cover :: "letter_of_credit \<Rightarrow> jsnum" where
  "minimum_cover c = mul_js (lc_amount c) (lit (11 / 10))"

definition date_discrepancies :: "credit_env \<Rightarrow> verify_document_dto \<Rightarrow> letter_of_credit \<Rightarrow> discrepancy list" where
  "date_discrepancies env dto c =
     (let doc_date = kv_read_date env (vd_issue_date dto)
      in (if later doc_date (kv_read_date env (lc_expiry_date c)) then [AfterExpiry (lc_expiry_date c)] else [])
         @ (if vd_type dto = BillOfLading \<and> later doc_date (kv_read_date env (lc_shipment_date c))
            then [AfterShipment (vd_issue_date dto) (lc_shipment_date c)] else []))"

definition amount_discrepancies :: "verify_document_dto \<Rightarrow> letter_of_credit \<Rightarrow> discrepancy list" where
  "amount_discrepancies dto c =
     (let stated = or_num (vd_stated_amount dto) 0
      in (if vd_type dto = CommercialInvoice \<and> truthy_amount (vd_stated_amount dto)
          then (if max_allowed c < stated then [AboveTolerance stated (to_fixed 2 (max_allowed c))]
                else if stated < min_allowed c then [BelowTolerance stated (to_fixed 2 (min_allowed c))] else [])
          else [])
         @ (if vd_type dto = InsuranceCertificate \<and> truthy_amount (vd_stated_amount dto) \<and> stated < minimum_cover c
            then [CoverTooLow stated (to_fixed 2 (minimum_cover c))] else []))"

definition checked_document :: "credit_env \<Rightarrow> verify_document_dto \<Rightarrow> letter_of_credit \<Rightarrow> presented_document" where
  "checked_document env dto c =
     (let ds = date_discrepancies env dto c @ amount_discrepancies dto c
      in \<lparr>pd_id = kv_document_id env, pd_type = vd_type dto, pd_number = vd_number dto, pd_issue_date = vd_issue_date dto,
          pd_hash = vd_hash dto, pd_url = vd_url dto, pd_compliant = (ds = []), pd_discrepancies = ds,
          pd_verified_at = kv_now env\<rparr>)"

definition put_document :: "presented_document \<Rightarrow> presented_document list \<Rightarrow> presented_document list" where
  "put_document d ds =
     (if \<exists>x \<in> set ds. pd_type x = pd_type d then replace_first (\<lambda>x. pd_type x = pd_type d) d ds else ds @ [d])"

definition all_required_presented :: "letter_of_credit \<Rightarrow> bool" where
  "all_required_presented c \<longleftrightarrow>
     (\<forall>t \<in> set (lc_required c). \<exists>d \<in> set (lc_presented c). pd_type d = t \<and> pd_compliant d)"

definition document_status :: "letter_of_credit \<Rightarrow> credit_status" where
  "document_status c =
     (if all_required_presented c then CreditVerified
      else if \<exists>d \<in> set (lc_presented c). \<not> pd_compliant d then CreditDiscrepant
      else DocumentsPresented)"

definition verify_document :: "credit_env \<Rightarrow> string \<Rightarrow> verify_document_dto \<Rightarrow> presented_document credit_handler" where
  "verify_document env i dto s =
     (case get_lc i s of
        Inl e \<Rightarrow> throw e s
      | Inr c \<Rightarrow>
          (let d = checked_document env dto c;
               c1 = c\<lparr>lc_presented := put_document d (lc_presented c)\<rparr>;
               c2 = c1\<lparr>lc_status := document_status c1, lc_updated_at := kv_now env\<rparr>
           in done_with d (set_lc c2 s)))"

subsection \<open>Settlement and figures\<close>

definition settle_lc :: "credit_env \<Rightarrow> string \<Rightarrow> string credit_handler" where
  "settle_lc env i s =
     (case get_lc i s of
        Inl e \<Rightarrow> throw e s
      | Inr c \<Rightarrow>
          if lc_status c \<noteq> CreditVerified then throw (BadRequest ''Cannot settle LC'') s
          else (let c' = c\<lparr>lc_status := CreditSettled, lc_settled_at := Some (kv_now env), lc_updated_at := kv_now env\<rparr>
                in done_with (kv_settlement_tx env)
                     ((set_lc c' s)\<lparr>kt_settlements := kt_settlements s @ [(i, kv_settlement_tx env)]\<rparr>)))"

record credit_figures =
  kf_issued_volume :: jsnum
  kf_settled_volume :: jsnum
  kf_active :: nat
  kf_turnaround_days :: jsnum
  kf_compliance_rate :: jsnum
  kf_amendment_rate :: jsnum
  kf_discrepancy_rate :: jsnum
  kf_distribution :: "credit_status \<Rightarrow> nat"

definition percent_of :: "jsnum \<Rightarrow> (letter_of_credit \<Rightarrow> bool) \<Rightarrow> letter_of_credit list \<Rightarrow> jsnum" where
  "percent_of none p cs =
     (if cs = [] then none
      else math_round (mul_js (div_js (of_nat (length (filter p cs))) (of_nat (length cs))) 100))"

definition get_analytics :: "credit_state \<Rightarrow> credit_figures" where
  "get_analytics s =
     (let cs = kt_credits s
      in \<lparr>kf_issued_volume = sum_js lc_amount cs,
          kf_settled_volume = sum_js lc_amount (filter (\<lambda>c. lc_status c = CreditSettled) cs),
          kf_active = length (filter (\<lambda>c. lc_status c \<notin> {CreditSettled, CreditCancelled, CreditExpired}) cs),
          kf_turnaround_days = lit (32 / 10),
          kf_compliance_rate = percent_of 100 (\<lambda>c. lc_status c \<in> {CreditVerified, CreditSettled}) cs,
          kf_amendment_rate = percent_of 0 (\<lambda>c. lc_amendments c \<noteq> []) cs,
          kf_discrepancy_rate = percent_of 0 (\<lambda>c. lc_status c = CreditDiscrepant) cs,
          kf_distribution = (\<lambda>st. length (filter (\<lambda>c. lc_status c = st) cs))\<rparr>)"

subsection \<open>Steps\<close>

text \<open>An amendment of the terms: it leaves status, documents and amendments alone.\<close>

fun changes_terms :: "credit_change \<Rightarrow> bool" where
  "changes_terms (ChangeStatus v) = False"
| "changes_terms (ChangeRequired v) = False"
| "changes_terms (ChangePresented v) = False"
| "changes_terms (ChangeAmendments v) = False"
| "changes_terms _ = True"

inductive credit_step :: "credit_state \<Rightarrow> credit_state \<Rightarrow> bool" where
  issue: "credit_step s (snd (issue_from_deal env deal_id dto s))"
| request: "list_all changes_terms changes \<Longrightarrow> credit_step s (snd (request_amendment env i changes reason by s))"
| decide: "credit_step s (snd (decide_amendment env i amendment_id approved reason s))"
| verify: "credit_step s (snd (verify_document env i dto s))"
| settle: "credit_step s (snd (settle_lc env i s))"

end
