(* ===== verification/CreditProps.thy ===== *)
theory CreditProps
  imports LetterOfCredit Decimals
begin

text \<open>
  Properties of the letters of credit: the status follows the documents as long as amendments only
  change terms, and what happens when they do not, or when a settled credit is presented again.
\<close>

subsection \<open>The map\<close>

lemma get_lcD: "get_lc i s = Inr c \<Longrightarrow> lc_id c = i \<and> c \<in> set (kt_credits s)"
  by (auto simp: get_lc_def split: option.splits dest: find_one_SomeD)

lemma set_lc_members: "x \<in> set (kt_credits (set_lc c s)) \<Longrightarrow> x = c \<or> x \<in> set (kt_credits s)"
  by (auto simp: set_lc_def set_update_where split: if_splits)

lemma set_lc_settlements [simp]: "kt_settlements (set_lc c s) = kt_settlements s"
  by (simp add: set_lc_def)

lemma get_lc_settlements [simp]: "get_lc i (s\<lparr>kt_settlements := x\<rparr>) = get_lc i s"
  by (simp add: get_lc_def)

lemma get_set_lc:
  assumes "get_lc i s = Inr c0" "lc_id c = i"
  shows "get_lc i (set_lc c s) = Inr c"
proof -
  have "find_one (\<lambda>x. lc_id x = i) (update_where (\<lambda>x. lc_id x = i) (\<lambda>_. c) t)
      = map_option (\<lambda>x. if lc_id x = i then c else x) (find_one (\<lambda>x. lc_id x = i) t)" for t
    by (rule find_one_update) (simp add: assms(2))
  then show ?thesis using assms get_lcD [OF assms(1)]
    by (auto simp: get_lc_def set_lc_def split: option.splits dest: find_one_SomeD)
qed

subsection \<open>Documents\<close>

lemma set_replace_first: "x \<in> set (replace_first p y xs) \<Longrightarrow> x = y \<or> x \<in> set xs"
  by (induction xs) (auto split: if_splits)

lemma replace_first_other: "x \<in> set xs \<Longrightarrow> \<not> p x \<Longrightarrow> x \<in> set (replace_first p y xs)"
  by (induction xs) auto

lemma replace_first_new: "x \<in> set xs \<Longrightarrow> p x \<Longrightarrow> y \<in> set (replace_first p y xs)"
  by (induction xs) auto

lemma map_replace_first: "(\<And>x. p x \<Longrightarrow> f x = f y) \<Longrightarrow> map f (replace_first p y xs) = map f xs"
  by (induction xs) auto

lemma put_document_new: "d \<in> set (put_document d ds)"
  by (auto simp: put_document_def intro: replace_first_new)

lemma put_document_other: "x \<in> set ds \<Longrightarrow> pd_type x \<noteq> pd_type d \<Longrightarrow> x \<in> set (put_document d ds)"
  by (auto simp: put_document_def intro: replace_first_other)

lemma put_document_members: "x \<in> set (put_document d ds) \<Longrightarrow> x = d \<or> x \<in> set ds"
  by (auto simp: put_document_def dest: set_replace_first split: if_splits)

lemma put_document_types:
  "distinct (map pd_type ds) \<Longrightarrow> distinct (map pd_type (put_document d ds))"
  by (auto simp: put_document_def map_replace_first)

lemma required_after_put:
  assumes "all_required_presented c" "pd_compliant d"
  shows "all_required_presented (c\<lparr>lc_presented := put_document d (lc_presented c)\<rparr>)"
  unfolding all_required_presented_def
proof
  fix t assume "t \<in> set (lc_required (c\<lparr>lc_presented := put_document d (lc_presented c)\<rparr>))"
  then obtain x where x: "x \<in> set (lc_presented c)" "pd_type x = t" "pd_compliant x"
    using assms(1) by (auto simp: all_required_presented_def)
  show "\<exists>x \<in> set (lc_presented (c\<lparr>lc_presented := put_document d (lc_presented c)\<rparr>)). pd_type x = t \<and> pd_compliant x"
    using x assms(2) put_document_new [of d "lc_presented c"] put_document_other [of x "lc_presented c" d]
    by (cases "pd_type d = t") auto
qed

lemma checked_compliant: "pd_compliant (checked_document env dto c) \<longleftrightarrow> pd_discrepancies (checked_document env dto c) = []"
  by (simp add: checked_document_def Let_def)

subsection \<open>The status follows the documents\<close>

definition credit_ok :: "letter_of_credit \<Rightarrow> bool" where
  "credit_ok c \<longleftrightarrow>
     (\<forall>a \<in> set (lc_amendments c). list_all changes_terms (an_changes a)) \<and> distinct (map pd_type (lc_presented c))
     \<and> (\<forall>d \<in> set (lc_presented c). pd_compliant d \<longleftrightarrow> pd_discrepancies d = [])
     \<and> (lc_presented c = [] \<and> lc_status c = CreditIssued
        \<or> lc_presented c \<noteq> [] \<and> (lc_status c = document_status c \<or> lc_status c = CreditSettled \<and> all_required_presented c))"

lemma change_of_terms:
  "changes_terms ch \<Longrightarrow> lc_status (apply_change ch c) = lc_status c \<and> lc_required (apply_change ch c) = lc_required c
     \<and> lc_presented (apply_change ch c) = lc_presented c \<and> lc_amendments (apply_change ch c) = lc_amendments c"
  by (cases ch) simp_all

lemma changes_of_terms:
  "list_all changes_terms chs \<Longrightarrow> lc_status (apply_changes chs c) = lc_status c \<and> lc_required (apply_changes chs c) = lc_required c
     \<and> lc_presented (apply_changes chs c) = lc_presented c \<and> lc_amendments (apply_changes chs c) = lc_amendments c"
  by (induction chs arbitrary: c) (simp_all add: apply_changes_def change_of_terms)

lemma required_cong:
  "lc_required a = lc_required b \<Longrightarrow> lc_presented a = lc_presented b \<Longrightarrow> all_required_presented a = all_required_presented b"
  by (simp add: all_required_presented_def)

lemma status_cong:
  "lc_required a = lc_required b \<Longrightarrow> lc_presented a = lc_presented b \<Longrightarrow> document_status a = document_status b"
  by (simp add: document_status_def required_cong [of a b])

lemma credit_ok_terms: "credit_ok c \<Longrightarrow> a \<in> set (lc_amendments c) \<Longrightarrow> list_all changes_terms (an_changes a)"
  by (simp add: credit_ok_def)

lemma credit_ok_cong:
  assumes "credit_ok b" "lc_required a = lc_required b" "lc_presented a = lc_presented b" "lc_status a = lc_status b"
    "\<And>x. x \<in> set (lc_amendments a) \<Longrightarrow> list_all changes_terms (an_changes x)"
  shows "credit_ok a"
  using assms status_cong [OF assms(2,3)] required_cong [OF assms(2,3)] by (auto simp: credit_ok_def)

definition credits_ok :: "credit_state \<Rightarrow> bool" where
  "credits_ok s \<longleftrightarrow> (\<forall>x \<in> set (kt_credits s). credit_ok x)"

lemma credits_ok_set: "credits_ok s \<Longrightarrow> credit_ok c \<Longrightarrow> credits_ok (set_lc c s)"
  using set_lc_members unfolding credits_ok_def by blast

lemma credits_ok_get: "credits_ok s \<Longrightarrow> get_lc i s = Inr c \<Longrightarrow> credit_ok c"
  using get_lcD unfolding credits_ok_def by blast

lemma credits_ok_settlements [simp]: "credits_ok (s\<lparr>kt_settlements := x\<rparr>) = credits_ok s"
  by (simp add: credits_ok_def)

lemma issue_ok:
  assumes "credits_ok s"
  shows "credits_ok (snd (issue_from_deal env deal_id dto s))"
proof -
  have "credit_ok ((new_credit env dto d a b s)\<lparr>lc_message := m, lc_anchor := h\<rparr>)" for d a b m h
    by (simp add: credit_ok_def new_credit_def)
  then show ?thesis using assms
    by (simp add: issue_from_deal_def Let_def credits_ok_set split: option.split)
qed

lemma request_ok:
  assumes "credits_ok s" "list_all changes_terms changes"
  shows "credits_ok (snd (request_amendment env i changes reason by_whom s))"
proof (cases "get_lc i s")
  case (Inr c)
  then have ok: "credit_ok c" by (rule credits_ok_get [OF assms(1)])
  have "credit_ok (c\<lparr>lc_amendments := lc_amendments c @ [a], lc_updated_at := t\<rparr>)" if "an_changes a = changes" for a t
    by (rule credit_ok_cong [OF ok]) (use that assms(2) credit_ok_terms [OF ok] in auto)
  with Inr show ?thesis by (simp add: request_amendment_def Let_def credits_ok_set [OF assms(1)])
qed (simp add: request_amendment_def assms(1))

lemma decide_ok:
  assumes "credits_ok s"
  shows "credits_ok (snd (decide_amendment env i amendment_id approved reason s))"
proof (cases "get_lc i s")
  case (Inr c)
  then have ok: "credit_ok c" by (rule credits_ok_get [OF assms])
  show ?thesis
  proof (cases "find_one (\<lambda>a. an_id a = amendment_id) (lc_amendments c)")
    case (Some a)
    let ?as = "replace_first (\<lambda>x. an_id x = amendment_id) (decided env approved reason a) (lc_amendments c)"
    have terms: "list_all changes_terms (an_changes a)"
      using credit_ok_terms [OF ok] find_one_SomeD [OF Some] by blast
    have as: "list_all changes_terms (an_changes x)" if "x \<in> set ?as" for x
      using set_replace_first [OF that] credit_ok_terms [OF ok] terms by (auto simp: decided_def)
    have "credit_ok ((re_anchored env amendment_id (apply_changes (an_changes a) (c\<lparr>lc_amendments := ?as\<rparr>)))\<lparr>lc_updated_at := kv_now env\<rparr>)"
      using changes_of_terms [OF terms, of "c\<lparr>lc_amendments := ?as\<rparr>"] as
      by (intro credit_ok_cong [OF ok]) (simp_all add: re_anchored_def)
    moreover have "credit_ok (c\<lparr>lc_amendments := ?as, lc_updated_at := kv_now env\<rparr>)"
      using as by (intro credit_ok_cong [OF ok]) simp_all
    ultimately show ?thesis using Inr Some assms
      by (cases approved) (simp_all add: decide_amendment_def Let_def credits_ok_set [OF assms])
  qed (simp add: decide_amendment_def Inr assms)
qed (simp add: decide_amendment_def assms)

lemma verify_ok:
  assumes "credits_ok s"
  shows "credits_ok (snd (verify_document env i dto s))"
proof (cases "get_lc i s")
  case (Inr c)
  let ?c1 = "c\<lparr>lc_presented := put_document (checked_document env dto c) (lc_presented c)\<rparr>"
  from Inr have "credit_ok c" by (rule credits_ok_get [OF assms])
  moreover have "put_document (checked_document env dto c) (lc_presented c) \<noteq> []"
    using put_document_new [of "checked_document env dto c" "lc_presented c"] by auto
  moreover have "document_status (?c1\<lparr>lc_status := document_status ?c1, lc_updated_at := kv_now env\<rparr>) = document_status ?c1"
    by (rule status_cong) simp_all
  ultimately have "credit_ok (?c1\<lparr>lc_status := document_status ?c1, lc_updated_at := kv_now env\<rparr>)"
    using checked_compliant put_document_types put_document_members unfolding credit_ok_def by fastforce
  with Inr show ?thesis by (simp add: verify_document_def Let_def credits_ok_set [OF assms])
qed (simp add: verify_document_def assms)

lemma settle_ok:
  assumes "credits_ok s"
  shows "credits_ok (snd (settle_lc env i s))"
proof (cases "get_lc i s")
  case (Inr c)
  then have ok: "credit_ok c" by (rule credits_ok_get [OF assms])
  show ?thesis
  proof (cases "lc_status c = CreditVerified")
    case True
    with ok have "all_required_presented c" "lc_presented c \<noteq> []"
      by (auto simp: credit_ok_def document_status_def split: if_splits)
    moreover have "all_required_presented (c\<lparr>lc_status := CreditSettled, lc_settled_at := t, lc_updated_at := u\<rparr>) = all_required_presented c" for t u
      by (rule required_cong) simp_all
    ultimately have "credit_ok (c\<lparr>lc_status := CreditSettled, lc_settled_at := t, lc_updated_at := u\<rparr>)" for t u
      using ok by (simp add: credit_ok_def)
    with Inr True show ?thesis by (simp add: settle_lc_def Let_def credits_ok_set [OF assms])
  qed (simp add: settle_lc_def Inr assms)
qed (simp add: settle_lc_def assms)

lemma step_ok: "credit_step s t \<Longrightarrow> credits_ok s \<Longrightarrow> credits_ok t"
  by (induction rule: credit_step.induct) (simp_all add: issue_ok request_ok decide_ok verify_ok settle_ok)

text \<open>
  C8: the status of a letter of credit follows its documents. As long as amendments change terms only
  (not the status, the documents, or the amendments), after any operations: each type of document is
  presented at most once, a document is compliant exactly when it has no discrepancy, and a credit is
  issued without documents, or has the status its documents give it, or is settled; verified and
  settled credits have a compliant document of every required type.
\<close>
theorem credit_status_follows_documents:
  assumes "credit_step\<^sup>*\<^sup>* s0 s" "kt_credits s0 = []" "c \<in> set (kt_credits s)"
  shows "distinct (map pd_type (lc_presented c))
    \<and> (\<forall>d \<in> set (lc_presented c). pd_compliant d \<longleftrightarrow> pd_discrepancies d = [])
    \<and> (lc_presented c = [] \<and> lc_status c = CreditIssued
       \<or> lc_presented c \<noteq> [] \<and> (lc_status c = document_status c \<or> lc_status c = CreditSettled))
    \<and> (lc_status c \<in> {CreditVerified, CreditSettled} \<longrightarrow>
       (\<forall>t \<in> set (lc_required c). \<exists>d \<in> set (lc_presented c). pd_type d = t \<and> pd_compliant d))"
proof -
  have "credits_ok s0" using assms(2) by (simp add: credits_ok_def)
  with assms(1) have "credits_ok s" by (induction rule: rtranclp_induct) (auto intro: step_ok)
  with assms(3) have ok: "credit_ok c" by (auto simp: credits_ok_def)
  moreover have "\<forall>t \<in> set (lc_required c). \<exists>d \<in> set (lc_presented c). pd_type d = t \<and> pd_compliant d"
    if "lc_status c \<in> {CreditVerified, CreditSettled}"
    using ok that by (auto simp: credit_ok_def document_status_def all_required_presented_def split: if_splits)
  ultimately show ?thesis unfolding credit_ok_def by blast
qed

text \<open>The check of a document reads the dates, the amount and the tolerance of the credit alone.\<close>

definition same_terms :: "letter_of_credit \<Rightarrow> letter_of_credit \<Rightarrow> bool" where
  "same_terms a b \<longleftrightarrow> lc_expiry_date a = lc_expiry_date b \<and> lc_shipment_date a = lc_shipment_date b
     \<and> lc_amount a = lc_amount b \<and> lc_tolerance a = lc_tolerance b"

lemma checked_cong: "same_terms a b \<Longrightarrow> checked_document env dto a = checked_document env dto b"
  by (simp add: same_terms_def checked_document_def date_discrepancies_def amount_discrepancies_def max_allowed_def
      min_allowed_def minimum_cover_def Let_def)

subsection \<open>An example\<close>

definition example_credit_env :: credit_env where
  "example_credit_env =
     \<lparr>kv_now = 0, kv_credit_id = ''lc-1'', kv_credit_number = ''AGRI-LC-1'', kv_anchor_tx = ''t1'', kv_settlement_tx = ''t2'',
      kv_document_id = ''doc-1'', kv_sha256 = (\<lambda>t. ''h''), kv_read_date = (\<lambda>t. Some 0), kv_show_num = (\<lambda>n. ''1''),
      kv_show_fixed = (\<lambda>n. ''1.00''), kv_show_changes = (\<lambda>chs. ''{}'')\<rparr>"

definition example_credit_dto :: create_credit_dto where
  "example_credit_dto =
     \<lparr>kc_issuing_bank = None, kc_advising_bank = None, kc_type = None, kc_tolerance = Some 0, kc_period_days = None,
      kc_loading = None, kc_discharge = None, kc_required = Some [CommercialInvoice]\<rparr>"

definition example_credit_deal :: credit_deal where
  "example_credit_deal =
     \<lparr>td_id = ''d1'', td_commodity = ''cocoa'', td_total_value = 1000, td_token_count = 10, td_token_symbol = ''T'',
      td_status = DealOpen, td_farmer_id = ''f'', td_trader_id = ''t'', td_escrow_public_key = None,
      td_escrow_secret_key = None, td_issuer_public_key = None, td_issuer_secret_key = None, td_total_invested = 0,
      td_app_trace_id = None, td_min_lot_size = None, td_lot_step = None, td_milestone_release_pct = 0,
      td_minimum_tier = None, td_deleted = False, kd_title = None, kd_quantity = 5, kd_quantity_unit = ''kg'',
      kd_delivery_date = None\<rparr>"

definition example_credit_state :: credit_state where
  "example_credit_state = \<lparr>kt_deals = [example_credit_deal], kt_users = [], kt_credits = [], kt_settlements = []\<rparr>"

definition example_invoice :: verify_document_dto where
  "example_invoice =
     \<lparr>vd_type = CommercialInvoice, vd_number = ''1'', vd_issue_date = ''2026-01-01'', vd_url = [], vd_hash = [],
      vd_stated_amount = Some 1000\<rparr>"

text \<open>The credit that is issued, without its message and anchor, which no check reads.\<close>

definition issued_credit :: letter_of_credit where
  "issued_credit = new_credit example_credit_env example_credit_dto example_credit_deal
     (day_text (60 * day_ms)) (day_text 1814400000) example_credit_state"

definition issued_example :: credit_state where
  "issued_example = example_credit_state\<lparr>kt_credits := [issued_credit]\<rparr>"

definition verified_example :: credit_state where
  "verified_example = snd (verify_document example_credit_env ''lc-1'' example_invoice issued_example)"

lemma issued_credit_simps [simp]:
  "lc_id issued_credit = ''lc-1''" "lc_amount issued_credit = 1000" "lc_tolerance issued_credit = 0"
  "lc_presented issued_credit = []" "lc_required issued_credit = [CommercialInvoice]" "lc_amendments issued_credit = []"
  "lc_expiry_date issued_credit = day_text 1814400000"
  by (simp_all add: issued_credit_def new_credit_def example_credit_env_def example_credit_dto_def example_credit_deal_def or_num_def)

lemma example_dates:
  "credit_dates example_credit_env example_credit_dto example_credit_deal = Some (day_text (60 * day_ms), day_text 1814400000)"
proof -
  have "date_time (add_js (of_int 0) (mul_js 21 86400000)) = Some 1814400000"
    by (simp add: date_time_def add_js_def mul_js_def max_time_def)
  then show ?thesis
    by (simp add: credit_dates_def shipment_time_def example_credit_env_def example_credit_dto_def example_credit_deal_def or_num_def)
qed

lemma example_compliant:
  "pd_compliant (checked_document example_credit_env example_invoice issued_credit)"
  "pd_type (checked_document example_credit_env example_invoice issued_credit) = CommercialInvoice"
  by (simp_all add: checked_document_def date_discrepancies_def amount_discrepancies_def later_def truthy_amount_def or_num_def
      max_allowed_def min_allowed_def mul_js_def add_js_def sub_js_def div_js_def example_invoice_def example_credit_env_def Let_def)

lemma example_issued:
  "snd (issue_from_deal example_credit_env ''d1'' example_credit_dto example_credit_state) =
   example_credit_state\<lparr>kt_credits := [issued_credit
     \<lparr>lc_message := credit_message example_credit_env example_credit_deal example_credit_state issued_credit, lc_anchor := ''h''\<rparr>]\<rparr>"
proof -
  have "find_one (\<lambda>d. td_id d = ''d1'' \<and> \<not> td_deleted d) (kt_deals example_credit_state) = Some example_credit_deal"
    by (simp add: example_credit_state_def find_one_def example_credit_deal_def)
  then have "snd (issue_from_deal example_credit_env ''d1'' example_credit_dto example_credit_state) =
      set_lc (issued_credit\<lparr>lc_message := credit_message example_credit_env example_credit_deal example_credit_state issued_credit,
                lc_anchor := kv_sha256 example_credit_env (anchoring_payload example_credit_env issued_credit)\<rparr>) example_credit_state"
    by (simp add: issue_from_deal_def Let_def example_dates issued_credit_def)
  moreover have "kt_credits example_credit_state = []" by (simp add: example_credit_state_def)
  moreover have "kv_sha256 example_credit_env t = ''h''" for t by (simp add: example_credit_env_def)
  ultimately show ?thesis by (simp add: set_lc_def insert_row_def)
qed

lemma verified_state:
  "snd (verify_document example_credit_env ''lc-1'' example_invoice
     (example_credit_state\<lparr>kt_credits := [issued_credit\<lparr>lc_message := m, lc_anchor := h\<rparr>]\<rparr>)) =
   example_credit_state\<lparr>kt_credits := [issued_credit\<lparr>lc_message := m, lc_anchor := h,
     lc_presented := [checked_document example_credit_env example_invoice issued_credit], lc_status := CreditVerified, lc_updated_at := 0\<rparr>]\<rparr>"
proof -
  have "checked_document example_credit_env example_invoice (issued_credit\<lparr>lc_message := m, lc_anchor := h\<rparr>) =
      checked_document example_credit_env example_invoice issued_credit"
    by (rule checked_cong) (simp add: same_terms_def)
  moreover have "kv_now example_credit_env = 0" by (simp add: example_credit_env_def)
  ultimately show ?thesis using example_compliant
    by (simp add: verify_document_def get_lc_def find_one_def set_lc_def update_where_def put_document_def document_status_def
        all_required_presented_def Let_def)
qed

text \<open>The same credit with any message and anchor, as \<open>verified_state\<close> gives it, and without them.\<close>

lemma example_credits:
  "verified_example = example_credit_state\<lparr>kt_credits := [issued_credit
     \<lparr>lc_presented := [checked_document example_credit_env example_invoice issued_credit], lc_status := CreditVerified, lc_updated_at := 0\<rparr>]\<rparr>"
  "get_lc ''lc-1'' issued_example = Inr issued_credit"
  using verified_state [where m = "lc_message issued_credit" and h = "lc_anchor issued_credit"]
  by (simp_all add: verified_example_def issued_example_def get_lc_def find_one_def)

theorem credit_status_follows_documents_witness:
  "\<exists>s. credit_step\<^sup>*\<^sup>* example_credit_state s \<and> map lc_status (kt_credits s) = [CreditVerified] \<and>
     list_all (\<lambda>c. distinct (map pd_type (lc_presented c))) (kt_credits s)"
proof -
  define m where "m = credit_message example_credit_env example_credit_deal example_credit_state issued_credit"
  define t where "t = example_credit_state\<lparr>kt_credits := [issued_credit\<lparr>lc_message := m, lc_anchor := ''h''\<rparr>]\<rparr>"
  define s where "s = snd (verify_document example_credit_env ''lc-1'' example_invoice t)"
  have "credit_step example_credit_state t"
    using credit_step.issue [of example_credit_state example_credit_env "''d1''" example_credit_dto] by (simp add: example_issued t_def m_def)
  moreover have "credit_step t s" unfolding s_def by (rule credit_step.verify)
  ultimately have steps: "credit_step\<^sup>*\<^sup>* example_credit_state s" by simp
  have "kt_credits example_credit_state = []" by (simp add: example_credit_state_def)
  from credit_status_follows_documents [OF steps this]
  have "list_all (\<lambda>c. distinct (map pd_type (lc_presented c))) (kt_credits s)" by (auto simp: list_all_iff)
  moreover have "map lc_status (kt_credits s) = [CreditVerified]" by (simp add: s_def t_def verified_state)
  ultimately show ?thesis using steps by (intro exI [of _ s] conjI)
qed

subsection \<open>Settling again\<close>

definition present_and_settle :: "string \<Rightarrow> credit_env \<times> verify_document_dto \<Rightarrow> credit_state \<Rightarrow> credit_state" where
  "present_and_settle i run s = (case run of (env, dto) \<Rightarrow> snd (settle_lc env i (snd (verify_document env i dto s))))"

lemma present_and_settle_once:
  assumes "get_lc i s = Inr c" "all_required_presented c" "pd_compliant (checked_document env dto c)"
  obtains c' where "get_lc i (present_and_settle i (env, dto) s) = Inr c'" "all_required_presented c'" "same_terms c' c"
    "lc_status c' = CreditSettled"
    "kt_settlements (present_and_settle i (env, dto) s) = kt_settlements s @ [(i, kv_settlement_tx env)]"
proof -
  let ?c1 = "c\<lparr>lc_presented := put_document (checked_document env dto c) (lc_presented c)\<rparr>"
  let ?c2 = "?c1\<lparr>lc_status := CreditVerified, lc_updated_at := kv_now env\<rparr>"
  let ?c3 = "?c2\<lparr>lc_status := CreditSettled, lc_settled_at := Some (kv_now env), lc_updated_at := kv_now env\<rparr>"
  have all: "all_required_presented ?c1" by (rule required_after_put [OF assms(2,3)])
  then have "document_status ?c1 = CreditVerified" by (simp add: document_status_def)
  with assms(1) have v: "snd (verify_document env i dto s) = set_lc ?c2 s" by (simp add: verify_document_def Let_def)
  have g: "get_lc i (set_lc ?c2 s) = Inr ?c2" using get_lcD [OF assms(1)] by (intro get_set_lc [OF assms(1)]) simp
  then have p: "present_and_settle i (env, dto) s =
      (set_lc ?c3 (set_lc ?c2 s))\<lparr>kt_settlements := kt_settlements s @ [(i, kv_settlement_tx env)]\<rparr>"
    by (simp add: present_and_settle_def v settle_lc_def Let_def)
  have "get_lc i (set_lc ?c3 (set_lc ?c2 s)) = Inr ?c3"
    using get_lcD [OF assms(1)] by (intro get_set_lc [OF g]) simp
  moreover have "all_required_presented ?c3" using all by (simp add: all_required_presented_def)
  moreover have "same_terms ?c3 c" by (simp add: same_terms_def)
  ultimately show thesis by (intro that [of ?c3]) (simp_all add: p)
qed

text \<open>
  A settled credit settles again. Whatever the status of a credit whose required documents are all
  compliant (settled, cancelled and expired included), presenting a compliant document makes it
  verified, and it can be settled; this can be repeated any number of times, each time with a
  settlement of its own.
\<close>
theorem settled_credit_settles_again:
  assumes "get_lc i s = Inr c" "all_required_presented c"
    and "list_all (\<lambda>(env, dto). pd_compliant (checked_document env dto c)) runs"
  shows "kt_settlements (fold (present_and_settle i) runs s) =
    kt_settlements s @ map (\<lambda>(env, dto). (i, kv_settlement_tx env)) runs"
  using assms
proof (induction runs arbitrary: s c)
  case (Cons run runs)
  obtain env dto where run: "run = (env, dto)" by (cases run)
  with Cons.prems have "pd_compliant (checked_document env dto c)" by simp
  from present_and_settle_once [OF Cons.prems(1,2) this] obtain c' where
    c: "get_lc i (present_and_settle i (env, dto) s) = Inr c'" "all_required_presented c'" "same_terms c' c"
      "kt_settlements (present_and_settle i (env, dto) s) = kt_settlements s @ [(i, kv_settlement_tx env)]" .
  have "list_all (\<lambda>(env, dto). pd_compliant (checked_document env dto c')) runs"
    using Cons.prems(3) by (simp add: checked_cong [OF c(3)])
  from Cons.IH [OF c(1,2) this] show ?case by (simp add: run c(4))
qed simp

theorem settled_credit_settles_again_witness:
  "kt_settlements (fold (present_and_settle ''lc-1'') [(example_credit_env, example_invoice), (example_credit_env, example_invoice)]
     verified_example) = [(''lc-1'', ''t2''), (''lc-1'', ''t2'')]"
proof -
  let ?c = "issued_credit\<lparr>lc_presented := [checked_document example_credit_env example_invoice issued_credit],
    lc_status := CreditVerified, lc_updated_at := 0\<rparr>"
  let ?runs = "[(example_credit_env, example_invoice), (example_credit_env, example_invoice)]"
  have c: "get_lc ''lc-1'' verified_example = Inr ?c" by (simp add: example_credits get_lc_def find_one_def)
  have "all_required_presented ?c" using example_compliant by (simp add: all_required_presented_def)
  moreover have "checked_document example_credit_env example_invoice ?c = checked_document example_credit_env example_invoice issued_credit"
    by (rule checked_cong) (simp add: same_terms_def)
  then have "list_all (\<lambda>(env, dto). pd_compliant (checked_document env dto ?c)) ?runs" using example_compliant by simp
  ultimately have "kt_settlements (fold (present_and_settle ''lc-1'') ?runs verified_example) =
      kt_settlements verified_example @ map (\<lambda>(env, dto). (''lc-1'', kv_settlement_tx env)) ?runs"
    by (rule settled_credit_settles_again [OF c])
  then show ?thesis by (simp add: example_credits example_credit_state_def example_credit_env_def)
qed

subsection \<open>Amendments of the status\<close>

text \<open>
  An amendment settles a credit without documents. An amendment may name the status, so requesting
  and approving one that sets it to verified lets the credit be settled, whatever its status was and
  whatever documents were presented.
\<close>
theorem amendment_settles_without_documents:
  assumes "get_lc i s = Inr c"
    and "request_amendment env i [ChangeStatus CreditVerified] reason by_whom s = (Inr a, s1)"
    and "an_id a \<notin> an_id ` set (lc_amendments c)"
  shows "\<exists>c'. get_lc i (snd (settle_lc env' i (snd (decide_amendment env i (an_id a) True None s1)))) = Inr c'
    \<and> lc_status c' = CreditSettled \<and> lc_presented c' = lc_presented c
    \<and> kt_settlements (snd (settle_lc env' i (snd (decide_amendment env i (an_id a) True None s1)))) =
        kt_settlements s @ [(i, kv_settlement_tx env')]"
proof -
  let ?c1 = "c\<lparr>lc_amendments := lc_amendments c @ [a], lc_updated_at := kv_now env\<rparr>"
  have a: "an_status a = AmendmentPending" "an_changes a = [ChangeStatus CreditVerified]" and s1: "s1 = set_lc ?c1 s"
    using assms(1,2) by (auto simp: request_amendment_def Let_def)
  have g1: "get_lc i s1 = Inr ?c1" unfolding s1 using get_lcD [OF assms(1)] by (intro get_set_lc [OF assms(1)]) simp
  have "find_one (\<lambda>x. an_id x = an_id a) (lc_amendments c) = None"
    using assms(3) unfolding find_one_None_iff by (metis imageI)
  then have f: "find_one (\<lambda>x. an_id x = an_id a) (lc_amendments ?c1) = Some a"
    using find_one_insert [of "\<lambda>x. an_id x = an_id a" a "lc_amendments c"] by (simp add: insert_row_def)
  obtain c2 where d: "snd (decide_amendment env i (an_id a) True None s1) = set_lc c2 s1"
    and c2: "lc_id c2 = lc_id c" "lc_status c2 = CreditVerified" "lc_presented c2 = lc_presented c"
    using g1 f a by (auto simp: decide_amendment_def Let_def apply_changes_def re_anchored_def)
  have i: "lc_id c = i" using get_lcD [OF assms(1)] by simp
  have g2: "get_lc i (set_lc c2 s1) = Inr c2" using c2 i by (intro get_set_lc [OF g1]) simp
  let ?c3 = "c2\<lparr>lc_status := CreditSettled, lc_settled_at := Some (kv_now env'), lc_updated_at := kv_now env'\<rparr>"
  have "get_lc i (set_lc ?c3 (set_lc c2 s1)) = Inr ?c3" using c2 i by (intro get_set_lc [OF g2]) simp
  moreover have "kt_settlements s1 = kt_settlements s" by (simp add: s1)
  ultimately show ?thesis using c2 g2 by (simp add: d settle_lc_def Let_def)
qed

theorem amendment_settles_without_documents_witness:
  "\<exists>a s1 c'. request_amendment example_credit_env ''lc-1'' [ChangeStatus CreditVerified] ''r'' ''applicant'' issued_example = (Inr a, s1)
     \<and> get_lc ''lc-1'' (snd (settle_lc example_credit_env ''lc-1'' (snd (decide_amendment example_credit_env ''lc-1'' (an_id a) True None s1)))) = Inr c'
     \<and> lc_status c' = CreditSettled \<and> lc_presented c' = []"
proof -
  obtain a s1 where a: "request_amendment example_credit_env ''lc-1'' [ChangeStatus CreditVerified] ''r'' ''applicant'' issued_example = (Inr a, s1)"
    by (simp add: request_amendment_def example_credits Let_def)
  have "an_id a \<notin> an_id ` set (lc_amendments issued_credit)" by simp
  from amendment_settles_without_documents [OF example_credits(2) a this, of example_credit_env] a show ?thesis by auto
qed

subsection \<open>Tolerance\<close>

lemma tolerance_error:
  fixes amount a u :: rat
  assumes "0 \<le> amount" "amount \<le> 10 ^ 13" "\<bar>u\<bar> \<le> 1" "\<bar>a - u\<bar> \<le> 2 / 10 ^ 16"
  shows "\<bar>fl (amount * fl (1 + a)) - amount * (1 + u)\<bar> \<le> 1 / 100"
proof -
  have t: "(1::rat) / 2 ^ 53 \<le> 12 / 10 ^ 17" by simp
  have small: "\<bar>x\<bar> / 2 ^ 53 \<le> k * (12 / 10 ^ 17)" if "\<bar>x\<bar> \<le> k" for x k :: rat
    using mult_mono [OF that t] that by simp
  have "(2::rat) / 10 ^ 16 \<le> 1" by simp
  then have "\<bar>a\<bar> \<le> 2" using assms(3,4) by linarith
  then have "\<bar>1 + a\<bar> \<le> 3" by linarith
  from small [OF this] fl_abs_err [of "1 + a"] have e1: "\<bar>fl (1 + a) - (1 + a)\<bar> \<le> 4 / 10 ^ 16" by simp
  with assms(4) have e2: "\<bar>fl (1 + a) - (1 + u)\<bar> \<le> 6 / 10 ^ 16" by linarith
  moreover have "(6::rat) / 10 ^ 16 \<le> 1" by simp
  ultimately have b3: "\<bar>fl (1 + a)\<bar> \<le> 3" using assms(3) by linarith
  then have "\<bar>amount * fl (1 + a)\<bar> \<le> 10 ^ 13 * 3"
    unfolding abs_mult using assms(1,2) by (intro mult_mono) simp_all
  from small [OF this] fl_abs_err [of "amount * fl (1 + a)"]
  have e3: "\<bar>fl (amount * fl (1 + a)) - amount * fl (1 + a)\<bar> \<le> 38 / 10000" by simp
  have "\<bar>amount * fl (1 + a) - amount * (1 + u)\<bar> = amount * \<bar>fl (1 + a) - (1 + u)\<bar>"
    using assms(1) by (simp add: right_diff_distrib [symmetric] abs_mult)
  also have "\<dots> \<le> 10 ^ 13 * (6 / 10 ^ 16)" using assms(1,2) e2 by (intro mult_mono) simp_all
  finally have "\<bar>amount * fl (1 + a) - amount * (1 + u)\<bar> \<le> 6 / 1000" by simp
  with e3 show ?thesis by linarith
qed

text \<open>
  A commercial invoice that is accepted is dated no later than the expiry of the credit, where both
  dates can be read, and its amount, when one is stated, is that of the credit up to the tolerance of
  article 30, to the cent (for amounts up to \<open>10 ^ 13\<close>).
\<close>
theorem accepted_invoice_is_within_tolerance:
  assumes "get_lc i s = Inr c" "verify_document env i dto s = (Inr d, s')" "pd_compliant d"
    and "vd_type dto = CommercialInvoice" "vd_stated_amount dto = Some stated" "stated \<noteq> 0"
    and "0 \<le> lc_amount c" "lc_amount c \<le> 10 ^ 13" "0 \<le> lc_tolerance c" "lc_tolerance c \<le> 100"
    and "kv_read_date env (vd_issue_date dto) = Some x" "kv_read_date env (lc_expiry_date c) = Some y"
  shows "x \<le> y \<and> lc_amount c * (1 - lc_tolerance c / 100) - 1 / 100 \<le> stated
    \<and> stated \<le> lc_amount c * (1 + lc_tolerance c / 100) + 1 / 100"
proof -
  have d: "d = checked_document env dto c" using assms(1,2) by (simp add: verify_document_def Let_def)
  with assms(3) have "date_discrepancies env dto c = []" "amount_discrepancies dto c = []"
    by (simp_all add: checked_document_def Let_def)
  then have xy: "x \<le> y" and range: "stated \<le> max_allowed c" "min_allowed c \<le> stated"
    using assms(4,5,6,11,12)
    by (simp_all add: date_discrepancies_def later_def amount_discrepancies_def or_num_def truthy_amount_def Let_def not_less split: if_splits)
  let ?t = "lc_tolerance c / 100"
  have t: "\<bar>?t\<bar> \<le> 1" using assms(9,10) by simp
  have "\<bar>?t\<bar> / 2 ^ 53 \<le> 1 / 2 ^ 53" using t by (intro divide_right_mono) simp_all
  moreover have "(1::rat) / 2 ^ 53 + 1 / 10 ^ 18 \<le> 2 / 10 ^ 16" by simp
  ultimately have a: "\<bar>div_js (lc_tolerance c) 100 - ?t\<bar> \<le> 2 / 10 ^ 16"
    using fl_abs_err [of ?t] unfolding div_js_def by linarith
  from tolerance_error [OF assms(7,8) t a]
  have "max_allowed c \<le> lc_amount c * (1 + ?t) + 1 / 100"
    unfolding max_allowed_def mul_js_def add_js_def by linarith
  moreover have "min_allowed c \<ge> lc_amount c * (1 - ?t) - 1 / 100"
  proof -
    have "\<bar>- div_js (lc_tolerance c) 100 - (- ?t)\<bar> \<le> 2 / 10 ^ 16" using a by linarith
    moreover have "\<bar>- ?t\<bar> \<le> 1" using t by linarith
    ultimately have "\<bar>min_allowed c - lc_amount c * (1 - ?t)\<bar> \<le> 1 / 100"
      using tolerance_error [OF assms(7,8), of "- ?t" "- div_js (lc_tolerance c) 100"]
      by (simp only: min_allowed_def mul_js_def sub_js_def add_uminus_conv_diff)
    then show ?thesis by linarith
  qed
  ultimately show ?thesis using xy range by linarith
qed

theorem accepted_invoice_is_within_tolerance_witness:
  "(1000 :: rat) * (1 - 0 / 100) - 1 / 100 \<le> 1000 \<and> fst (verify_document example_credit_env ''lc-1'' example_invoice issued_example)
     = Inr (hd (lc_presented (hd (kt_credits verified_example))))"
proof -
  let ?d = "checked_document example_credit_env example_invoice issued_credit"
  have v: "verify_document example_credit_env ''lc-1'' example_invoice issued_example = (Inr ?d, verified_example)"
    using example_credits(2) by (simp add: prod_eq_iff verified_example_def verify_document_def Let_def)
  from accepted_invoice_is_within_tolerance [OF example_credits(2) v example_compliant(1), of 1000 0 0]
  have "(1000 :: rat) * (1 - 0 / 100) - 1 / 100 \<le> 1000" by (simp add: example_invoice_def example_credit_env_def)
  then show ?thesis by (simp add: v example_credits)
qed

end
