(* ===== verification/CoFarmers.thy ===== *)
theory CoFarmers
  imports Entities Decimals JsText
begin

text \<open>
  \<open>backend/src/trade-deals/deal-co-farmers.service.ts\<close>: co-farmers are invited onto a deal with a
  portion of its payout, accept or decline, and are removed; a gate refuses the publication of a deal
  while a co-farmer has not accepted or is not verified. An invitation is split where its reads end
  (\<open>invite_check\<close>) and its writes begin (\<open>invite_commit\<close>), so that two of them can overlap. The rows
  extend those of \<open>Entities\<close>. The clock, the token and identifier, the rounding that the database
  makes for the column \<open>DECIMAL(5,2)\<close> of the portion, and whether the mail can be sent, are the
  parameters gathered in \<open>co_farmer_env\<close>.
\<close>

subsection \<open>Rows and parameters\<close>

record co_farmer_row = deal_co_farmer +
  cr_id :: string
  cr_invited_email :: "string option"
  cr_token :: "string option"
  cr_expires_at :: "int option"
  cr_accepted_at :: "int option"
  cr_declined_at :: "int option"
  cr_invited_by :: string

record kyc_user = user +
  ku_full_name :: "string option"
  ku_kyc_status :: string

record invite_dto =
  ci_email :: "string option"
  ci_wallet_address :: "string option"
  ci_portion_percent :: jsnum

record invitation_mail =
  im_user_id :: string
  im_deal_id :: string
  im_deal_name :: string
  im_portion_percent :: jsnum
  im_lead_farmer_name :: "string option"
  im_accept_url :: string

record co_farmer_state =
  cw_deals :: "trade_deal list"
  cw_users :: "kyc_user list"
  cw_rows :: "co_farmer_row list"
  cw_mails :: "invitation_mail list"

record co_farmer_env =
  cv_now :: int
  cv_token :: string
  cv_new_id :: string
  cv_column :: "jsnum \<Rightarrow> int"
  cv_mail_error :: bool
  cv_base_url :: string

type_synonym 'a co_farmer_handler = "(co_farmer_state, http_error, 'a) handler"

definition invitation_ttl_ms :: int where
  "invitation_ttl_ms = 7 * 24 * 60 * 60 * 1000"

definition find_row :: "string \<Rightarrow> string \<Rightarrow> co_farmer_state \<Rightarrow> co_farmer_row option" where
  "find_row deal_id farmer_id s = find_one (\<lambda>r. cf_trade_deal_id r = deal_id \<and> cf_farmer_id r = farmer_id) (cw_rows s)"

definition rows_of :: "string \<Rightarrow> co_farmer_state \<Rightarrow> co_farmer_row list" where
  "rows_of deal_id s = find_where (\<lambda>r. cf_trade_deal_id r = deal_id) (cw_rows s)"

text \<open>\<open>save\<close> of a row that was read before; what is stored of the portion is the value of the column.\<close>

definition save_row :: "co_farmer_row \<Rightarrow> co_farmer_state \<Rightarrow> co_farmer_state" where
  "save_row r s = s\<lparr>cw_rows := update_where (\<lambda>x. cr_id x = cr_id r) (\<lambda>_. r) (cw_rows s)\<rparr>"

definition stored_portion :: "co_farmer_env \<Rightarrow> jsnum \<Rightarrow> jsnum" where
  "stored_portion env x = dec 2 (cv_column env x)"

subsection \<open>Invitations\<close>

definition owns_deal :: "trade_deal \<Rightarrow> string \<Rightarrow> bool" where
  "owns_deal d user_id \<longleftrightarrow> td_farmer_id d = user_id \<or> td_trader_id d = user_id"

definition invite_target :: "invite_dto \<Rightarrow> co_farmer_state \<Rightarrow> kyc_user option" where
  "invite_target dto s =
     find_one (if present (ci_wallet_address dto) then (\<lambda>u. us_wallet_address u = ci_wallet_address dto)
               else (\<lambda>u. us_email u = ascii_lower (the (ci_email dto)))) (cw_users s)"

definition committed_portions :: "string \<Rightarrow> string \<Rightarrow> co_farmer_state \<Rightarrow> jsnum" where
  "committed_portions deal_id target_id s =
     sum_js cf_portion_percent (filter (\<lambda>r. cf_status r \<noteq> CoRemoved \<and> cf_farmer_id r \<noteq> target_id) (rows_of deal_id s))"

definition invite_check ::
  "string \<Rightarrow> string \<Rightarrow> invite_dto \<Rightarrow> co_farmer_state \<Rightarrow> http_error + (trade_deal \<times> kyc_user \<times> co_farmer_row option)" where
  "invite_check deal_id inviter_id dto s =
     (if \<not> present (ci_email dto) \<and> \<not> present (ci_wallet_address dto) then Inl (BadRequest ''MISSING_INVITE_TARGET'')
      else case find_deal deal_id (cw_deals s) of
        None \<Rightarrow> Inl (NotFound ''Trade deal not found.'')
      | Some d \<Rightarrow>
     if \<not> owns_deal d inviter_id then Inl (Forbidden ''NOT_DEAL_OWNER'')
     else if td_status d \<noteq> DealDraft \<and> td_status d \<noteq> DealOpen then Inl (Unprocessable ''DEAL_NOT_MODIFIABLE'')
     else case invite_target dto s of
        None \<Rightarrow> Inl (BadRequest ''INVALID_CO_FARMER'')
      | Some target \<Rightarrow>
     if us_role target \<noteq> ''farmer'' then Inl (BadRequest ''INVALID_CO_FARMER'')
     else if us_id target = td_farmer_id d then Inl (Conflict ''LEAD_FARMER_CONFLICT'')
     else
       (let existing = find_row deal_id (us_id target) s
        in if existing \<noteq> None \<and> cf_status (the existing) \<noteq> CoRemoved then Inl (Conflict ''ALREADY_INVITED'')
           else if 100 < add_js (committed_portions deal_id (us_id target) s) (ci_portion_percent dto)
           then Inl (BadRequest ''PORTION_EXCEEDS_TOTAL'')
           else Inr (d, target, existing)))"

definition invited_row :: "co_farmer_env \<Rightarrow> string \<Rightarrow> string \<Rightarrow> invite_dto \<Rightarrow> kyc_user \<Rightarrow> co_farmer_row option \<Rightarrow> co_farmer_row" where
  "invited_row env deal_id inviter_id dto target existing =
     (case existing of
        Some r \<Rightarrow> r\<lparr>cf_status := CoInvited, cf_portion_percent := stored_portion env (ci_portion_percent dto),
                    cr_invited_email := Some (us_email target), cr_token := Some (cv_token env),
                    cr_expires_at := Some (cv_now env + invitation_ttl_ms), cr_invited_by := inviter_id\<rparr>
      | None \<Rightarrow>
          \<lparr>cf_trade_deal_id = deal_id, cf_farmer_id = us_id target, cf_portion_percent = stored_portion env (ci_portion_percent dto),
           cf_status = CoInvited, cr_id = cv_new_id env, cr_invited_email = Some (us_email target), cr_token = Some (cv_token env),
           cr_expires_at = Some (cv_now env + invitation_ttl_ms), cr_accepted_at = None, cr_declined_at = None,
           cr_invited_by = inviter_id\<rparr>)"

text \<open>The mail is made of the object in memory, whose portion is not rounded yet; a failure is only logged.\<close>

definition send_invitation_email :: "co_farmer_env \<Rightarrow> trade_deal \<Rightarrow> co_farmer_row \<Rightarrow> jsnum \<Rightarrow> string \<Rightarrow> co_farmer_state \<Rightarrow> co_farmer_state" where
  "send_invitation_email env d r portion inviter_id s =
     (if cv_mail_error env then s
      else s\<lparr>cw_mails := cw_mails s @
        [\<lparr>im_user_id = cf_farmer_id r, im_deal_id = td_id d, im_deal_name = td_commodity d, im_portion_percent = portion,
          im_lead_farmer_name = (case find_one (\<lambda>u. us_id u = inviter_id) (cw_users s) of Some u \<Rightarrow> ku_full_name u | None \<Rightarrow> None),
          im_accept_url = cv_base_url env @ ''/dashboard/deals/'' @ td_id d @ ''/co-farmers/accept?token=''
                          @ (case cr_token r of Some t \<Rightarrow> t | None \<Rightarrow> [])\<rparr>]\<rparr>)"

text \<open>The writes; a second row for the same farmer is refused by the unique index.\<close>

definition invite_commit ::
  "co_farmer_env \<Rightarrow> string \<Rightarrow> string \<Rightarrow> invite_dto \<Rightarrow> trade_deal \<times> kyc_user \<times> co_farmer_row option \<Rightarrow> co_farmer_row co_farmer_handler" where
  "invite_commit env deal_id inviter_id dto = (\<lambda>(d, target, existing) s.
     let r = invited_row env deal_id inviter_id dto target existing
     in if existing = None \<and> find_row deal_id (us_id target) s \<noteq> None then throw (Internal ''duplicate key'') s
        else (let s1 = (if existing = None then s\<lparr>cw_rows := insert_row r (cw_rows s)\<rparr> else save_row r s)
              in done_with r (send_invitation_email env d r (ci_portion_percent dto) inviter_id s1)))"

definition invite_co_farmer :: "co_farmer_env \<Rightarrow> string \<Rightarrow> string \<Rightarrow> invite_dto \<Rightarrow> co_farmer_row co_farmer_handler" where
  "invite_co_farmer env deal_id inviter_id dto s =
     (case invite_check deal_id inviter_id dto s of
        Inl e \<Rightarrow> throw e s
      | Inr found \<Rightarrow> invite_commit env deal_id inviter_id dto found s)"

subsection \<open>Answers\<close>

definition find_invitation :: "string \<Rightarrow> string \<Rightarrow> co_farmer_state \<Rightarrow> http_error + co_farmer_row" where
  "find_invitation deal_id user_id s =
     (case find_row deal_id user_id s of
        None \<Rightarrow> Inl (NotFound ''No invitation found for this user on the deal.'')
      | Some r \<Rightarrow>
          if cf_status r = CoRemoved then Inl (NotFound ''No invitation found for this user on the deal.'')
          else if cf_status r = CoAccepted then Inl (Conflict ''ALREADY_ACCEPTED'')
          else Inr r)"

definition accept_invitation :: "co_farmer_env \<Rightarrow> string \<Rightarrow> string \<Rightarrow> string \<Rightarrow> co_farmer_row co_farmer_handler" where
  "accept_invitation env deal_id user_id token s =
     (case find_invitation deal_id user_id s of
        Inl e \<Rightarrow> throw e s
      | Inr r \<Rightarrow>
          if cr_token r \<noteq> Some token \<or> cr_expires_at r = None \<or> the (cr_expires_at r) < cv_now env
          then throw (BadRequest ''INVALID_TOKEN'') s
          else (let r' = r\<lparr>cf_status := CoAccepted, cr_accepted_at := Some (cv_now env), cr_token := None\<rparr>
                in done_with r' (save_row r' s)))"

definition decline_invitation :: "co_farmer_env \<Rightarrow> string \<Rightarrow> string \<Rightarrow> string \<Rightarrow> co_farmer_row co_farmer_handler" where
  "decline_invitation env deal_id user_id token s =
     (case find_invitation deal_id user_id s of
        Inl e \<Rightarrow> throw e s
      | Inr r \<Rightarrow>
          if cr_token r \<noteq> Some token then throw (BadRequest ''INVALID_TOKEN'') s
          else (let r' = r\<lparr>cf_status := CoDeclined, cr_declined_at := Some (cv_now env), cr_token := None\<rparr>
                in done_with r' (save_row r' s)))"

definition remove_co_farmer :: "string \<Rightarrow> string \<Rightarrow> string \<Rightarrow> unit co_farmer_handler" where
  "remove_co_farmer deal_id farmer_id requester_id s =
     (case find_deal deal_id (cw_deals s) of
        None \<Rightarrow> throw (NotFound ''Trade deal not found.'') s
      | Some d \<Rightarrow>
     if \<not> owns_deal d requester_id then throw (Forbidden ''NOT_DEAL_OWNER'') s
     else if td_status d = DealDelivered \<or> td_status d = DealCompleted then throw (Unprocessable ''DEAL_NOT_MODIFIABLE'') s
     else case find_row deal_id farmer_id s of
        None \<Rightarrow> throw (NotFound ''Co-farmer not found.'') s
      | Some r \<Rightarrow> done_with () (save_row (r\<lparr>cf_status := CoRemoved\<rparr>) s))"

subsection \<open>The gate\<close>

definition list_co_farmers :: "string \<Rightarrow> co_farmer_state \<Rightarrow> co_farmer_row list" where
  "list_co_farmers deal_id s = rows_of deal_id s"

definition kyc_status_of :: "string \<Rightarrow> co_farmer_state \<Rightarrow> string option" where
  "kyc_status_of user_id s = map_option ku_kyc_status (find_one (\<lambda>u. us_id u = user_id) (cw_users s))"

definition blocking :: "co_farmer_state \<Rightarrow> co_farmer_row \<Rightarrow> (string \<times> string) list" where
  "blocking s r =
     (if cf_status r = CoRemoved then []
      else if cf_status r \<noteq> CoAccepted then [(cf_farmer_id r, ''invitation_not_accepted'')]
      else if kyc_status_of (cf_farmer_id r) s \<noteq> Some ''verified''
      then [(cf_farmer_id r, ''kyc_'' @ (case kyc_status_of (cf_farmer_id r) s of Some t \<Rightarrow> t | None \<Rightarrow> ''unknown''))]
      else [])"

definition assert_all_verified :: "string \<Rightarrow> unit co_farmer_handler" where
  "assert_all_verified deal_id s =
     (if concat (map (blocking s) (rows_of deal_id s)) = [] then done_with () s
      else throw (Unprocessable ''CO_FARMERS_NOT_VERIFIED'') s)"

definition get_accepted_portions :: "string \<Rightarrow> co_farmer_state \<Rightarrow> co_farmer_row list" where
  "get_accepted_portions deal_id s = find_where (\<lambda>r. cf_trade_deal_id r = deal_id \<and> cf_status r = CoAccepted) (cw_rows s)"

subsection \<open>Steps\<close>

text \<open>
  The column rounds to the nearest hundredth: of the decimal text of the number, which differs from
  the number itself by far less than a thousandth of a unit.
\<close>

definition rounds_to_hundredths :: "(jsnum \<Rightarrow> int) \<Rightarrow> bool" where
  "rounds_to_hundredths f \<longleftrightarrow> (\<forall>x. 0 \<le> x \<and> x \<le> 100 \<longrightarrow> \<bar>of_int (f x) - x * 100\<bar> \<le> 1 / 2 + 1 / 1000)"

text \<open>
  Requests run one after the other, with portions within the range that the request class allows and
  new rows with identifiers of their own; the deals and users change between them in any way.
\<close>

inductive co_farmer_step :: "co_farmer_state \<Rightarrow> co_farmer_state \<Rightarrow> bool" where
  invite: "rounds_to_hundredths (cv_column env) \<Longrightarrow> 1 / 100 \<le> ci_portion_percent dto \<Longrightarrow> ci_portion_percent dto \<le> 100 \<Longrightarrow>
     cv_new_id env \<notin> cr_id ` set (cw_rows s) \<Longrightarrow> co_farmer_step s (snd (invite_co_farmer env deal_id inviter_id dto s))"
| accept: "co_farmer_step s (snd (accept_invitation env deal_id user_id token s))"
| decline: "co_farmer_step s (snd (decline_invitation env deal_id user_id token s))"
| remove: "co_farmer_step s (snd (remove_co_farmer deal_id farmer_id requester_id s))"
| others: "co_farmer_step s (s\<lparr>cw_deals := deals, cw_users := users\<rparr>)"

end
