(* ===== verification/CoFarmerProps.thy ===== *)
theory CoFarmerProps
  imports CoFarmers Escrow
begin

text \<open>
  Properties of the co-farmers: the portions of a deal fit in its payout as long as invitations do not
  overlap, and how overlapping and late invitations and declined ones behave, up to the payout of the
  escrow.
\<close>

subsection \<open>Portions in hundredths of a percent\<close>

definition hundredths :: "co_farmer_row \<Rightarrow> int" where
  "hundredths r = \<lfloor>cf_portion_percent r * 100 + 1 / 2\<rfloor>"

definition counts_for :: "string \<Rightarrow> co_farmer_row \<Rightarrow> bool" where
  "counts_for deal_id r \<longleftrightarrow> cf_trade_deal_id r = deal_id \<and> cf_status r \<noteq> CoRemoved"

definition portion_of :: "string \<Rightarrow> co_farmer_row \<Rightarrow> int" where
  "portion_of deal_id r = (if counts_for deal_id r then hundredths r else 0)"

definition total_portions :: "string \<Rightarrow> co_farmer_row list \<Rightarrow> int" where
  "total_portions deal_id rows = (\<Sum>r\<leftarrow>rows. portion_of deal_id r)"

lemma floor_dec: "0 \<le> n \<Longrightarrow> n \<le> 10000 \<Longrightarrow> \<lfloor>dec 2 n * 100 + 1 / 2\<rfloor> = n"
proof -
  assume "0 \<le> n" "n \<le> 10000"
  then have "\<bar>dec 2 n * 10 ^ 2 - of_int n\<bar> \<le> 13 / 100" by (intro dec_err) simp_all
  then have "\<bar>dec 2 n * 100 - of_int n\<bar> \<le> 13 / 100" by simp
  then show ?thesis by (intro floor_unique) linarith+
qed

lemma dec_near: "0 \<le> n \<Longrightarrow> n \<le> 10000 \<Longrightarrow> \<bar>dec 2 n - of_int n / 100\<bar> \<le> 2 / 10 ^ 14"
proof -
  assume n: "0 \<le> n" "n \<le> 10000"
  then have "\<bar>of_int n / 100 :: rat\<bar> \<le> 100" by simp
  then have "\<bar>of_int n / 100 :: rat\<bar> / 2 ^ 53 \<le> 100 / 2 ^ 53" by (intro divide_right_mono) simp_all
  moreover have "(100::rat) / 2 ^ 53 + 1 / 10 ^ 18 \<le> 2 / 10 ^ 14" by simp
  ultimately show ?thesis using fl_abs_err [of "of_int n / 100"] by (simp add: dec_def)
qed

text \<open>The sum that the code makes in doubles is the exact one up to a tiny error.\<close>

lemma sum_dec_err:
  assumes "\<And>x. x \<in> set xs \<Longrightarrow> 0 \<le> n x" "(\<Sum>x\<leftarrow>xs. n x) \<le> 10000" "length xs \<le> 10000"
  shows "\<bar>sum_js (\<lambda>x. dec 2 (n x)) xs - of_int (\<Sum>x\<leftarrow>xs. n x) / 100\<bar> \<le> of_nat (length xs) / 10 ^ 13"
  using assms
proof (induction xs rule: rev_induct)
  case (snoc x xs)
  let ?A = "\<Sum>x\<leftarrow>xs. n x"
  let ?S = "sum_js (\<lambda>x. dec 2 (n x)) xs"
  have A: "0 \<le> ?A" using snoc.prems(1) by (intro sum_list_nonneg) auto
  have nx: "0 \<le> n x" "?A + n x \<le> 10000" using snoc.prems by auto
  have k: "length xs \<le> 10000" using snoc.prems(3) by simp
  have e: "\<bar>?S - of_int ?A / 100\<bar> \<le> of_nat (length xs) / 10 ^ 13"
    using snoc.IH snoc.prems A nx by simp
  have "(of_nat (length xs) :: rat) \<le> of_nat 10000" using k by (simp only: of_nat_le_iff)
  then have "(of_nat (length xs) :: rat) / 10 ^ 13 \<le> 10000 / 10 ^ 13" by (intro divide_right_mono) simp_all
  with e have e': "\<bar>?S - of_int ?A / 100\<bar> \<le> 1 / 10 ^ 9" by simp
  have d: "\<bar>dec 2 (n x) - of_int (n x) / 100\<bar> \<le> 2 / 10 ^ 14" by (rule dec_near) (use A nx in auto)
  have t: "(0::rat) \<le> of_int (?A + n x)" "of_int (?A + n x) \<le> (10000::rat)" using A nx by simp_all
  have "(1::rat) / 10 ^ 9 + 2 / 10 ^ 14 \<le> 1" by simp
  moreover have "(0::rat) \<le> of_int ?A + of_int (n x)" "of_int ?A + of_int (n x) \<le> (10000::rat)" using t by simp_all
  ultimately have "\<bar>?S + dec 2 (n x)\<bar> \<le> 101" using e' d by linarith
  then have "\<bar>?S + dec 2 (n x)\<bar> / 2 ^ 53 \<le> 101 / 2 ^ 53" by (intro divide_right_mono) simp_all
  moreover have "(101::rat) / 2 ^ 53 + 1 / 10 ^ 18 + 2 / 10 ^ 14 \<le> 1 / 10 ^ 13" by simp
  ultimately have "\<bar>fl (?S + dec 2 (n x)) - (of_int ?A / 100 + of_int (n x) / 100)\<bar> \<le> of_nat (length xs) / 10 ^ 13 + 1 / 10 ^ 13"
    using fl_abs_err [of "?S + dec 2 (n x)"] e d by linarith
  then show ?case by (simp add: sum_js_snoc add_js_def add_divide_distrib)
qed simp

text \<open>What the check of the code establishes for the stored values.\<close>

lemma portion_fits:
  assumes "add_js c x \<le> 100" "\<bar>c - of_int a / 100\<bar> \<le> 1 / 10 ^ 9" "0 \<le> a" "a \<le> 10000" "1 / 100 \<le> x" "x \<le> 100"
    and "\<bar>of_int m - x * 100\<bar> \<le> 1 / 2 + 1 / 1000"
  shows "1 \<le> m \<and> m \<le> 10000 \<and> a + m \<le> 10000"
proof -
  have t: "(0::rat) \<le> of_int a" "of_int a \<le> (10000::rat)" using assms(3,4) by simp_all
  have "(1::rat) / 10 ^ 9 \<le> 1 / 100" by simp
  then have "\<bar>c + x\<bar> \<le> 201" using assms(2,5,6) t by linarith
  then have "\<bar>c + x\<bar> / 2 ^ 53 \<le> 201 / 2 ^ 53" by (intro divide_right_mono) simp_all
  moreover have "(201::rat) / 2 ^ 53 + 1 / 10 ^ 18 + 1 / 10 ^ 9 \<le> 1 / 10 ^ 6" by simp
  ultimately have "of_int a / 100 + x \<le> 100 + 1 / 10 ^ 6"
    using fl_abs_err [of "c + x"] assms(1,2) unfolding add_js_def by linarith
  then have "of_int a + x * 100 \<le> 10000 + 1 / 10 ^ 4" by simp
  moreover have "(1::rat) / 10 ^ 4 + 1 / 2 + 1 / 1000 < 1" by simp
  ultimately have "of_int a + of_int m < (10001 :: rat)" using assms(7) by linarith
  then have "of_int (a + m) < (10001 :: rat)" by simp
  then have "a + m \<le> 10000" by linarith
  moreover have "(0::rat) < of_int m" using assms(5,7) by linarith
  then have "1 \<le> m" by simp
  ultimately show ?thesis using assms(3) by linarith
qed

subsection \<open>The invariant\<close>

definition portions_ok :: "co_farmer_row list \<Rightarrow> bool" where
  "portions_ok rows \<longleftrightarrow> distinct (map cr_id rows) \<and> distinct (map (\<lambda>r. (cf_trade_deal_id r, cf_farmer_id r)) rows)
     \<and> (\<forall>r \<in> set rows. \<exists>n. cf_portion_percent r = dec 2 n \<and> 1 \<le> n \<and> n \<le> 10000)
     \<and> (\<forall>deal_id. total_portions deal_id rows \<le> 10000)"

lemma portions_okD:
  assumes "portions_ok rows" "r \<in> set rows"
  shows "cf_portion_percent r = dec 2 (hundredths r)" "1 \<le> hundredths r" "hundredths r \<le> 10000"
proof -
  obtain n where "cf_portion_percent r = dec 2 n" "1 \<le> n" "n \<le> 10000" using assms by (auto simp: portions_ok_def)
  then show "cf_portion_percent r = dec 2 (hundredths r)" "1 \<le> hundredths r" "hundredths r \<le> 10000"
    using floor_dec [of n] by (simp_all add: hundredths_def)
qed

lemma sum_of_counted: "(\<Sum>r\<leftarrow>filter (counts_for d) rows. hundredths r) = total_portions d rows"
  by (induction rows) (simp_all add: total_portions_def portion_of_def)

lemma committed_near:
  assumes "portions_ok rows"
  shows "\<bar>sum_js cf_portion_percent (filter (counts_for d) rows) - of_int (total_portions d rows) / 100\<bar> \<le> 1 / 10 ^ 9"
    and "0 \<le> total_portions d rows"
proof -
  let ?xs = "filter (counts_for d) rows"
  have total: "(\<Sum>r\<leftarrow>?xs. hundredths r) \<le> 10000" using assms by (simp add: sum_of_counted portions_ok_def)
  have one: "1 \<le> hundredths r" if "r \<in> set ?xs" for r using portions_okD [OF assms] that by simp
  have "int (length ?xs) = (\<Sum>r\<leftarrow>?xs. 1)" by (simp add: sum_list_triv)
  also have "\<dots> \<le> (\<Sum>r\<leftarrow>?xs. hundredths r)" by (rule sum_list_mono_map) (rule one)
  finally have len: "length ?xs \<le> 10000" using total by linarith
  have "sum_js cf_portion_percent ?xs = sum_js (\<lambda>r. dec 2 (hundredths r)) ?xs"
    by (rule sum_js_cong) (simp_all add: portions_okD(1) [OF assms])
  moreover have "\<bar>sum_js (\<lambda>r. dec 2 (hundredths r)) ?xs - of_int (\<Sum>r\<leftarrow>?xs. hundredths r) / 100\<bar> \<le> of_nat (length ?xs) / 10 ^ 13"
    by (rule sum_dec_err) (use one total len in \<open>force+\<close>)
  moreover have "(of_nat (length ?xs) :: rat) / 10 ^ 13 \<le> of_nat 10000 / 10 ^ 13"
    using len by (intro divide_right_mono) (simp_all only: of_nat_le_iff, simp)
  ultimately show "\<bar>sum_js cf_portion_percent ?xs - of_int (total_portions d rows) / 100\<bar> \<le> 1 / 10 ^ 9"
    by (simp add: sum_of_counted)
  show "0 \<le> total_portions d rows" unfolding sum_of_counted [symmetric] using one by (intro sum_list_nonneg) force
qed

text \<open>Replacing a row: enough that its portion is a valid one and the total of its deal fits.\<close>

lemma portions_replaced:
  assumes "portions_ok rows" "r \<in> set rows" "cr_id r' = cr_id r" "cf_trade_deal_id r' = cf_trade_deal_id r"
    "cf_farmer_id r' = cf_farmer_id r" "\<exists>n. cf_portion_percent r' = dec 2 n \<and> 1 \<le> n \<and> n \<le> 10000"
    "\<And>d. total_portions d rows - portion_of d r + portion_of d r' \<le> 10000"
  shows "portions_ok (update_where (\<lambda>x. cr_id x = cr_id r') (\<lambda>_. r') rows)"
proof -
  have k: "distinct (map cr_id rows)" using assms(1) by (simp add: portions_ok_def)
  let ?u = "update_where (\<lambda>x. cr_id x = cr_id r) (\<lambda>_. r') rows"
  have "map cr_id ?u = map cr_id rows" by (rule map_update_key [OF k assms(2)]) (simp add: assms(3))
  moreover have "map (\<lambda>r. (cf_trade_deal_id r, cf_farmer_id r)) ?u = map (\<lambda>r. (cf_trade_deal_id r, cf_farmer_id r)) rows"
    by (rule map_update_key [OF k assms(2)]) (simp add: assms(4,5))
  moreover have "total_portions d ?u \<le> 10000" for d
    using sum_update_where [OF k assms(2), where r' = r' and g = "portion_of d"] assms(7) [of d] by (simp add: total_portions_def)
  moreover have "\<exists>n. cf_portion_percent x = dec 2 n \<and> 1 \<le> n \<and> n \<le> 10000" if "x \<in> set ?u" for x
    using that assms(1,6) by (auto simp: set_update_where portions_ok_def split: if_splits)
  ultimately show ?thesis using assms(1) by (simp add: portions_ok_def assms(3))
qed

lemma find_rowD: "find_row d f s = Some r \<Longrightarrow> r \<in> set (cw_rows s) \<and> cf_trade_deal_id r = d \<and> cf_farmer_id r = f"
  by (auto simp: find_row_def dest: find_one_SomeD)

text \<open>A row that is only answered or removed keeps its portion, so no total grows.\<close>

lemma portions_answered:
  assumes "portions_ok (cw_rows s)" "find_row d f s = Some r" "cf_status r \<noteq> CoRemoved \<or> cf_status r' = CoRemoved"
    "cr_id r' = cr_id r" "cf_trade_deal_id r' = cf_trade_deal_id r" "cf_farmer_id r' = cf_farmer_id r"
    "cf_portion_percent r' = cf_portion_percent r"
  shows "portions_ok (cw_rows (save_row r' s))"
proof -
  have r: "r \<in> set (cw_rows s)" using find_rowD [OF assms(2)] by simp
  have less: "portion_of x r' \<le> portion_of x r" for x
    using assms(3,5,7) portions_okD(2) [OF assms(1) r] by (auto simp: portion_of_def counts_for_def hundredths_def)
  have total: "total_portions x (cw_rows s) \<le> 10000" for x using assms(1) by (simp add: portions_ok_def)
  have "total_portions x (cw_rows s) - portion_of x r + portion_of x r' \<le> 10000" for x
    using less [of x] total [of x] by linarith
  moreover have "\<exists>n. cf_portion_percent r' = dec 2 n \<and> 1 \<le> n \<and> n \<le> 10000"
    using portions_okD [OF assms(1) r] assms(7) by metis
  ultimately show ?thesis
    using portions_replaced [OF assms(1) r assms(4,5,6)] by (simp add: save_row_def)
qed

lemma committed_counts:
  assumes "\<And>r. r \<in> set (cw_rows s) \<Longrightarrow> counts_for d r \<Longrightarrow> cf_farmer_id r \<noteq> f"
  shows "committed_portions d f s = sum_js cf_portion_percent (filter (counts_for d) (cw_rows s))"
proof -
  have "filter (\<lambda>r. cf_status r \<noteq> CoRemoved \<and> cf_farmer_id r \<noteq> f) (rows_of d s) = filter (counts_for d) (cw_rows s)"
    unfolding rows_of_def find_where_def filter_filter using assms by (intro filter_cong) (auto simp: counts_for_def)
  then show ?thesis by (simp add: committed_portions_def)
qed

lemma invited_row_fields:
  assumes "\<And>q. ex = Some q \<Longrightarrow> cf_trade_deal_id q = deal_id \<and> cf_farmer_id q = us_id u"
  shows "cf_portion_percent (invited_row env deal_id inviter_id dto u ex) = dec 2 (cv_column env (ci_portion_percent dto))
    \<and> cf_farmer_id (invited_row env deal_id inviter_id dto u ex) = us_id u
    \<and> cf_trade_deal_id (invited_row env deal_id inviter_id dto u ex) = deal_id"
  using assms by (cases ex) (simp_all add: invited_row_def stored_portion_def)

lemma invite_keeps_portions:
  assumes ok: "portions_ok (cw_rows s)" and "rounds_to_hundredths (cv_column env)"
    and "1 / 100 \<le> ci_portion_percent dto" "ci_portion_percent dto \<le> 100" and fresh: "cv_new_id env \<notin> cr_id ` set (cw_rows s)"
  shows "portions_ok (cw_rows (snd (invite_co_farmer env deal_id inviter_id dto s)))"
proof (cases "invite_check deal_id inviter_id dto s")
  case (Inr found)
  obtain d u ex where f: "found = (d, u, ex)" by (cases found)
  have ex: "ex = find_row deal_id (us_id u) s" and fits: "add_js (committed_portions deal_id (us_id u) s) (ci_portion_percent dto) \<le> 100"
    and removed: "\<And>r. ex = Some r \<Longrightarrow> cf_status r = CoRemoved"
    using Inr unfolding f by (auto simp: invite_check_def Let_def split: if_splits option.splits)
  let ?m = "cv_column env (ci_portion_percent dto)"
  have others: "cf_farmer_id r \<noteq> us_id u" if "r \<in> set (cw_rows s)" "counts_for deal_id r" for r
  proof
    assume same: "cf_farmer_id r = us_id u"
    then have "find_row deal_id (us_id u) s \<noteq> None" using that by (auto simp: find_row_def find_one_None_iff counts_for_def)
    with ex obtain q where q: "ex = Some q" by auto
    with find_rowD [of deal_id "us_id u" s q] ex have "q \<in> set (cw_rows s)" "cf_trade_deal_id q = deal_id" "cf_farmer_id q = us_id u" by auto
    with that same have "q = r" using ok by (auto simp: portions_ok_def distinct_map inj_on_def counts_for_def)
    with removed [OF q] that show False by (simp add: counts_for_def)
  qed
  have "add_js (sum_js cf_portion_percent (filter (counts_for deal_id) (cw_rows s))) (ci_portion_percent dto) \<le> 100"
    using fits by (simp add: committed_counts [OF others])
  moreover have "\<bar>of_int ?m - ci_portion_percent dto * 100\<bar> \<le> 1 / 2 + 1 / 1000"
    using assms(2,3,4) by (simp add: rounds_to_hundredths_def)
  ultimately have m: "1 \<le> ?m" "?m \<le> 10000" "total_portions deal_id (cw_rows s) + ?m \<le> 10000"
    using portion_fits [OF _ committed_near(1) [OF ok] committed_near(2) [OF ok] _ assms(3,4)] ok
    by (auto simp: portions_ok_def)
  let ?r = "invited_row env deal_id inviter_id dto u ex"
  have known: "cf_trade_deal_id q = deal_id \<and> cf_farmer_id q = us_id u" if "ex = Some q" for q
    using find_rowD [of deal_id "us_id u" s q] ex that by simp
  have r: "cf_portion_percent ?r = dec 2 ?m" "cf_farmer_id ?r = us_id u" "cf_trade_deal_id ?r = deal_id"
    using invited_row_fields [of ex deal_id u env inviter_id dto, OF known] by simp_all
  have "\<lfloor>dec 2 ?m * 100 + 1 / 2\<rfloor> = ?m" by (rule floor_dec) (use m(1,2) in linarith)+
  then have h: "hundredths ?r = ?m" by (simp only: hundredths_def r(1))
  show ?thesis
  proof (cases ex)
    case None
    have "total_portions x (cw_rows s) + portion_of x ?r \<le> 10000" for x
      using m ok h r(3) by (cases "x = deal_id") (auto simp: portion_of_def counts_for_def portions_ok_def)
    moreover have "(deal_id, us_id u) \<notin> (\<lambda>r. (cf_trade_deal_id r, cf_farmer_id r)) ` set (cw_rows s)"
      using None ex by (auto simp: find_row_def find_one_None_iff)
    moreover have "cr_id ?r = cv_new_id env" by (simp add: invited_row_def None)
    ultimately have "portions_ok (cw_rows s @ [?r])"
      using ok fresh m r by (auto simp: portions_ok_def total_portions_def)
    with Inr f None ex show ?thesis
      by (simp add: invite_co_farmer_def invite_commit_def Let_def send_invitation_email_def insert_row_def)
  next
    case (Some q)
    have q: "q \<in> set (cw_rows s)" "cf_status q = CoRemoved" "cf_trade_deal_id q = deal_id" "cf_farmer_id q = us_id u"
      using find_rowD [of deal_id "us_id u" s q] ex Some removed by auto
    have "total_portions x (cw_rows s) - portion_of x q + portion_of x ?r \<le> 10000" for x
      using m ok h r(3) q by (cases "x = deal_id") (auto simp: portion_of_def counts_for_def portions_ok_def)
    moreover have "cr_id ?r = cr_id q" by (simp add: invited_row_def Some)
    ultimately have "portions_ok (update_where (\<lambda>x. cr_id x = cr_id ?r) (\<lambda>_. ?r) (cw_rows s))"
      using r m q by (intro portions_replaced [OF ok q(1)]) auto
    with Inr f Some ex show ?thesis
      by (simp add: invite_co_farmer_def invite_commit_def Let_def send_invitation_email_def save_row_def)
  qed
qed (simp add: invite_co_farmer_def ok)

lemma find_invitationD: "find_invitation d u s = Inr r \<Longrightarrow> find_row d u s = Some r \<and> cf_status r \<noteq> CoRemoved"
  by (auto simp: find_invitation_def split: option.splits if_splits)

lemma step_keeps_portions: "co_farmer_step s t \<Longrightarrow> portions_ok (cw_rows s) \<Longrightarrow> portions_ok (cw_rows t)"
proof (induction rule: co_farmer_step.induct)
  case (accept s env deal_id user_id token)
  then show ?case
    by (auto simp: accept_invitation_def Let_def intro!: portions_answered dest!: find_invitationD split: sum.split)
next
  case (decline s env deal_id user_id token)
  then show ?case
    by (auto simp: decline_invitation_def Let_def intro!: portions_answered dest!: find_invitationD split: sum.split)
next
  case (remove s deal_id farmer_id requester_id)
  then show ?case
    by (auto simp: remove_co_farmer_def intro!: portions_answered split: option.split)
qed (simp_all add: invite_keeps_portions)

text \<open>
  C7: the portions of a deal fit. Starting without co-farmers, whatever requests run one after the other:
  a deal has at most one row for a farmer, and the stored portions of its co-farmers that are not removed
  add up to at most 100 percent, exactly, although the check adds doubles and the column rounds what
  was checked.
\<close>
theorem portions_fit_in_the_deal:
  assumes "co_farmer_step\<^sup>*\<^sup>* s0 s" "cw_rows s0 = []"
  shows "distinct (map (\<lambda>r. (cf_trade_deal_id r, cf_farmer_id r)) (cw_rows s))
    \<and> (\<Sum>r\<leftarrow>filter (\<lambda>r. cf_trade_deal_id r = deal_id \<and> cf_status r \<noteq> CoRemoved) (cw_rows s). hundredths r) \<le> 10000"
proof -
  have "portions_ok (cw_rows s0)" by (simp add: assms(2) portions_ok_def total_portions_def)
  with assms(1) have "portions_ok (cw_rows s)" by (induction rule: rtranclp_induct) (auto intro: step_keeps_portions)
  moreover have "filter (\<lambda>r. cf_trade_deal_id r = deal_id \<and> cf_status r \<noteq> CoRemoved) (cw_rows s) = filter (counts_for deal_id) (cw_rows s)"
    by (rule filter_cong) (simp_all add: counts_for_def)
  ultimately show ?thesis by (simp add: sum_of_counted portions_ok_def)
qed

subsection \<open>Examples\<close>

definition co_farmer_deal :: trade_deal where
  "co_farmer_deal =
     \<lparr>td_id = ''d1'', td_commodity = ''cocoa'', td_total_value = 1000, td_token_count = 10, td_token_symbol = ''T'',
      td_status = DealOpen, td_farmer_id = ''lead'', td_trader_id = ''t'', td_escrow_public_key = None,
      td_escrow_secret_key = None, td_issuer_public_key = None, td_issuer_secret_key = None, td_total_invested = 0,
      td_app_trace_id = None, td_min_lot_size = None, td_lot_step = None, td_milestone_release_pct = 0,
      td_minimum_tier = None, td_deleted = False\<rparr>"

definition example_co_user :: "string \<Rightarrow> kyc_user" where
  "example_co_user i =
     \<lparr>us_id = i, us_email = i, us_role = ''farmer'', us_wallet_address = None, us_accreditation_tier = None,
      ku_full_name = None, ku_kyc_status = ''pending''\<rparr>"

definition example_co_state :: co_farmer_state where
  "example_co_state =
     \<lparr>cw_deals = [co_farmer_deal], cw_users = [example_co_user ''a'', example_co_user ''b''], cw_rows = [], cw_mails = []\<rparr>"

definition example_co_env :: "string \<Rightarrow> co_farmer_env" where
  "example_co_env i =
     \<lparr>cv_now = 0, cv_token = ''k'', cv_new_id = i, cv_column = (\<lambda>x. \<lfloor>x * 100 + 1 / 2\<rfloor>), cv_mail_error = False, cv_base_url = []\<rparr>"

definition example_invite :: "string \<Rightarrow> invite_dto" where
  "example_invite i = \<lparr>ci_email = Some i, ci_wallet_address = None, ci_portion_percent = 60\<rparr>"

lemma example_checks:
  "invite_check ''d1'' ''lead'' (example_invite ''a'') example_co_state = Inr (co_farmer_deal, example_co_user ''a'', None)"
  "invite_check ''d1'' ''lead'' (example_invite ''b'') example_co_state = Inr (co_farmer_deal, example_co_user ''b'', None)"
  by (simp_all add: invite_check_def example_invite_def example_co_state_def co_farmer_deal_def example_co_user_def find_deal_def
      find_one_def owns_deal_def invite_target_def ascii_lower_def char_between_def find_row_def committed_portions_def rows_of_def
      find_where_def add_js_def)

lemma example_invited:
  "invite_co_farmer (example_co_env ''1'') ''d1'' ''lead'' (example_invite ''a'') example_co_state =
     (Inr (invited_row (example_co_env ''1'') ''d1'' ''lead'' (example_invite ''a'') (example_co_user ''a'') None),
      send_invitation_email (example_co_env ''1'') co_farmer_deal
        (invited_row (example_co_env ''1'') ''d1'' ''lead'' (example_invite ''a'') (example_co_user ''a'') None) 60 ''lead''
        (example_co_state\<lparr>cw_rows := [invited_row (example_co_env ''1'') ''d1'' ''lead'' (example_invite ''a'') (example_co_user ''a'') None]\<rparr>))"
proof -
  have "cw_rows example_co_state = []" "ci_portion_percent (example_invite ''a'') = 60"
    by (simp_all add: example_co_state_def example_invite_def)
  then show ?thesis
    by (simp add: invite_co_farmer_def example_checks invite_commit_def find_row_def find_one_def insert_row_def Let_def)
qed

lemma example_column: "rounds_to_hundredths (cv_column (example_co_env i))"
  unfolding rounds_to_hundredths_def
proof (intro allI impI)
  fix x :: rat
  have "of_int \<lfloor>x * 100 + 1 / 2\<rfloor> \<le> x * 100 + 1 / 2" by (rule of_int_floor_le)
  moreover have "x * 100 + 1 / 2 < of_int \<lfloor>x * 100 + 1 / 2\<rfloor> + 1" by (rule floor_correct [THEN conjunct2, simplified of_int_add of_int_1])
  ultimately have "\<bar>of_int \<lfloor>x * 100 + 1 / 2\<rfloor> - x * 100\<bar> \<le> 1 / 2 + 1 / 1000" by linarith
  then show "\<bar>of_int (cv_column (example_co_env i) x) - x * 100\<bar> \<le> 1 / 2 + 1 / 1000"
    by (simp only: example_co_env_def co_farmer_env.select_convs)
qed

theorem portions_fit_in_the_deal_witness:
  "map cf_status (cw_rows (snd (invite_co_farmer (example_co_env ''1'') ''d1'' ''lead'' (example_invite ''a'') example_co_state))) = [CoInvited]
   \<and> (\<Sum>r\<leftarrow>filter (\<lambda>r. cf_trade_deal_id r = ''d1'' \<and> cf_status r \<noteq> CoRemoved)
        (cw_rows (snd (invite_co_farmer (example_co_env ''1'') ''d1'' ''lead'' (example_invite ''a'') example_co_state))). hundredths r) \<le> 10000"
proof -
  have "co_farmer_step example_co_state (snd (invite_co_farmer (example_co_env ''1'') ''d1'' ''lead'' (example_invite ''a'') example_co_state))"
    by (rule co_farmer_step.invite [OF example_column]) (simp_all add: example_invite_def example_co_state_def)
  then have "co_farmer_step\<^sup>*\<^sup>* example_co_state (snd (invite_co_farmer (example_co_env ''1'') ''d1'' ''lead'' (example_invite ''a'') example_co_state))"
    by (rule r_into_rtranclp)
  moreover have "cw_rows example_co_state = []" by (simp add: example_co_state_def)
  moreover have "map cf_status (cw_rows (snd (invite_co_farmer (example_co_env ''1'') ''d1'' ''lead'' (example_invite ''a'') example_co_state))) = [CoInvited]"
    by (simp add: example_invited send_invitation_email_def invited_row_def)
  ultimately show ?thesis using portions_fit_in_the_deal [THEN conjunct2] by blast
qed

subsection \<open>Overlapping invitations\<close>

text \<open>
  Overlapping invitations exceed the deal. When two invitations of different farmers have both read
  the portions before either is written, both are accepted by the check and both are written, so that
  the portions grow by both.
\<close>
theorem overlapping_invitations_exceed_the_deal:
  assumes "invite_check deal_id i1 dto1 s = Inr (d, u1, None)" "invite_check deal_id i2 dto2 s = Inr (d, u2, None)"
    and "us_id u1 \<noteq> us_id u2"
    and "rounds_to_hundredths (cv_column env1)" "rounds_to_hundredths (cv_column env2)"
    and "1 / 100 \<le> ci_portion_percent dto1" "ci_portion_percent dto1 \<le> 100"
    and "1 / 100 \<le> ci_portion_percent dto2" "ci_portion_percent dto2 \<le> 100"
  shows "\<exists>r1 s1 r2 s2. invite_commit env1 deal_id i1 dto1 (d, u1, None) s = (Inr r1, s1)
    \<and> invite_commit env2 deal_id i2 dto2 (d, u2, None) s1 = (Inr r2, s2)
    \<and> total_portions deal_id (cw_rows s2) =
        total_portions deal_id (cw_rows s) + cv_column env1 (ci_portion_percent dto1) + cv_column env2 (ci_portion_percent dto2)"
proof -
  have range: "0 \<le> cv_column env x \<and> cv_column env x \<le> 10000"
    if "rounds_to_hundredths (cv_column env)" "1 / 100 \<le> x" "x \<le> 100" for env x
  proof -
    from that have "\<bar>of_int (cv_column env x) - x * 100\<bar> \<le> 1 / 2 + 1 / 1000" by (simp add: rounds_to_hundredths_def)
    with that have "(- 1 :: rat) < of_int (cv_column env x)" "of_int (cv_column env x) < (10001 :: rat)" by linarith+
    then show ?thesis by linarith
  qed
  have none: "find_row deal_id (us_id u1) s = None" "find_row deal_id (us_id u2) s = None"
    using assms(1,2) by (auto simp: invite_check_def Let_def split: if_splits option.splits)
  let ?r1 = "invited_row env1 deal_id i1 dto1 u1 None" and ?r2 = "invited_row env2 deal_id i2 dto2 u2 None"
  let ?s1 = "send_invitation_email env1 d ?r1 (ci_portion_percent dto1) i1 (s\<lparr>cw_rows := insert_row ?r1 (cw_rows s)\<rparr>)"
  have c1: "invite_commit env1 deal_id i1 dto1 (d, u1, None) s = (Inr ?r1, ?s1)"
    by (simp add: invite_commit_def none Let_def)
  have rows1: "cw_rows ?s1 = cw_rows s @ [?r1]" by (simp add: send_invitation_email_def insert_row_def)
  have "find_row deal_id (us_id u2) ?s1 = None"
    using none(2) assms(3) unfolding find_row_def rows1 by (auto simp: find_one_None_iff invited_row_def)
  then have c2: "invite_commit env2 deal_id i2 dto2 (d, u2, None) ?s1 = (Inr ?r2,
      send_invitation_email env2 d ?r2 (ci_portion_percent dto2) i2 (?s1\<lparr>cw_rows := insert_row ?r2 (cw_rows ?s1)\<rparr>))"
    by (simp add: invite_commit_def Let_def)
  have rows2: "cw_rows (send_invitation_email env2 d ?r2 (ci_portion_percent dto2) i2 (?s1\<lparr>cw_rows := insert_row ?r2 (cw_rows ?s1)\<rparr>))
      = cw_rows s @ [?r1, ?r2]"
    by (simp add: send_invitation_email_def insert_row_def)
  have "portion_of deal_id (invited_row env deal_id i dto u None) = cv_column env (ci_portion_percent dto)"
    if "rounds_to_hundredths (cv_column env)" "1 / 100 \<le> ci_portion_percent dto" "ci_portion_percent dto \<le> 100" for env i dto u
    using range [OF that] floor_dec [of "cv_column env (ci_portion_percent dto)"]
    by (simp add: portion_of_def counts_for_def hundredths_def invited_row_def stored_portion_def)
  then have "total_portions deal_id (cw_rows s @ [?r1, ?r2]) =
      total_portions deal_id (cw_rows s) + cv_column env1 (ci_portion_percent dto1) + cv_column env2 (ci_portion_percent dto2)"
    using assms(4-9) by (simp add: total_portions_def)
  with c1 c2 rows2 show ?thesis by (intro exI conjI) (assumption, assumption, simp only:)
qed

theorem overlapping_invitations_exceed_the_deal_witness:
  "\<exists>r1 s1 r2 s2. invite_commit (example_co_env ''1'') ''d1'' ''lead'' (example_invite ''a'') (co_farmer_deal, example_co_user ''a'', None) example_co_state = (Inr r1, s1)
    \<and> invite_commit (example_co_env ''2'') ''d1'' ''lead'' (example_invite ''b'') (co_farmer_deal, example_co_user ''b'', None) s1 = (Inr r2, s2)
    \<and> total_portions ''d1'' (cw_rows s2) = 12000"
proof -
  have "total_portions ''d1'' (cw_rows example_co_state) = 0" by (simp add: total_portions_def example_co_state_def)
  moreover have "cv_column (example_co_env i) (ci_portion_percent (example_invite j)) = 6000" for i j
    by (simp add: example_co_env_def example_invite_def)
  moreover have "us_id (example_co_user ''a'') \<noteq> us_id (example_co_user ''b'')" by (simp add: example_co_user_def)
  moreover have "1 / 100 \<le> ci_portion_percent (example_invite j)" "ci_portion_percent (example_invite j) \<le> 100" for j
    by (simp_all add: example_invite_def)
  ultimately show ?thesis
    using overlapping_invitations_exceed_the_deal [OF example_checks, of "example_co_env ''1''" "example_co_env ''2''"] example_column by simp
qed

subsection \<open>Late invitations\<close>

text \<open>
  The gate is passed once. The gate is asked when a deal is published, but a deal that is open takes
  further invitations: a farmer who is not verified can then be invited and accept, and takes part in
  the payout of the escrow with the portion of the invitation, although the gate would now refuse the deal.
\<close>
theorem late_co_farmer_skips_the_gate:
  assumes "find_deal deal_id (cw_deals s) = Some d" "td_status d = DealOpen"
    and "assert_all_verified deal_id s = (Inr (), s)"
    and "invite_co_farmer env deal_id inviter_id dto s = (Inr r, s1)"
    and "find_row deal_id (cf_farmer_id r) s = None" "cv_new_id env \<notin> cr_id ` set (cw_rows s)"
    and "kyc_status_of (cf_farmer_id r) s = Some kyc" "kyc \<noteq> ''verified''"
    and "cv_now env' \<le> cv_now env + invitation_ttl_ms"
  shows "\<exists>r' s2. accept_invitation env' deal_id (cf_farmer_id r) (cv_token env) s1 = (Inr r', s2)
    \<and> fst (assert_all_verified deal_id s2) = Inl (Unprocessable ''CO_FARMERS_NOT_VERIFIED'')
    \<and> (\<forall>es. es_co_farmers es = map deal_co_farmer.truncate (cw_rows s2) \<longrightarrow>
         (\<exists>p \<in> set (payout_participants d es). pp_farmer_id p = cf_farmer_id r
            \<and> pp_portion_percent p = stored_portion env (ci_portion_percent dto)))"
proof -
  obtain dd u ex where chk: "invite_check deal_id inviter_id dto s = Inr (dd, u, ex)"
    using assms(4) by (cases "invite_check deal_id inviter_id dto s") (auto simp: invite_co_farmer_def)
  have ex: "ex = find_row deal_id (us_id u) s"
    using chk by (auto simp: invite_check_def Let_def split: if_splits option.splits)
  have known: "cf_trade_deal_id q = deal_id \<and> cf_farmer_id q = us_id u" if "ex = Some q" for q
    using find_rowD [of deal_id "us_id u" s q] ex that by simp
  have r: "r = invited_row env deal_id inviter_id dto u ex"
    using assms(4) chk by (auto simp: invite_co_farmer_def invite_commit_def Let_def split: if_splits)
  then have f: "cf_farmer_id r = us_id u" "cf_trade_deal_id r = deal_id" "cf_portion_percent r = stored_portion env (ci_portion_percent dto)"
    using invited_row_fields [of ex deal_id u env inviter_id dto, OF known] by (simp_all add: stored_portion_def)
  with ex assms(5) have none: "ex = None" by simp
  with r have r': "cf_status r = CoInvited" "cr_token r = Some (cv_token env)" "cr_id r = cv_new_id env"
    "cr_expires_at r = Some (cv_now env + invitation_ttl_ms)"
    by (simp_all add: invited_row_def)
  have rows: "cw_rows s1 = cw_rows s @ [r]" "cw_users s1 = cw_users s"
    using assms(4) chk none r by (auto simp: invite_co_farmer_def invite_commit_def Let_def send_invitation_email_def insert_row_def split: if_splits)
  have "find_row deal_id (cf_farmer_id r) s1 = Some r"
    using assms(5) find_one_insert [of "\<lambda>x. cf_trade_deal_id x = deal_id \<and> cf_farmer_id x = cf_farmer_id r" r "cw_rows s"] f(2)
    by (simp add: find_row_def rows insert_row_def)
  then have inv: "find_invitation deal_id (cf_farmer_id r) s1 = Inr r" by (simp add: find_invitation_def r')
  let ?r = "r\<lparr>cf_status := CoAccepted, cr_accepted_at := Some (cv_now env'), cr_token := None\<rparr>"
  let ?s2 = "save_row ?r s1"
  have acc: "accept_invitation env' deal_id (cf_farmer_id r) (cv_token env) s1 = (Inr ?r, ?s2)"
    using assms(9) by (simp add: accept_invitation_def inv r' Let_def)
  have "cr_id x \<noteq> cr_id r" if "x \<in> set (cw_rows s)" for x using that assms(6) unfolding r'(3) by (metis imageI)
  then have rows2: "cw_rows ?s2 = cw_rows s @ [?r]"
    by (auto simp: save_row_def rows update_where_def intro: map_idI)
  have kyc: "kyc_status_of (us_id u) ?s2 = Some kyc" using assms(7) by (simp add: kyc_status_of_def save_row_def rows f(1))
  have "(us_id u, ''kyc_'' @ kyc) \<in> set (blocking ?s2 ?r)" using assms(8) by (simp add: blocking_def f(1) kyc)
  then have "concat (map (blocking ?s2) (rows_of deal_id ?s2)) \<noteq> []"
    unfolding rows_of_def rows2 by (auto simp: find_where_def f(2))
  then have gate: "fst (assert_all_verified deal_id ?s2) = Inl (Unprocessable ''CO_FARMERS_NOT_VERIFIED'')"
    by (simp add: assert_all_verified_def)
  have "td_id d = deal_id" using find_dealD [OF assms(1)] by simp
  then have "\<exists>p \<in> set (payout_participants d es). pp_farmer_id p = cf_farmer_id r \<and> pp_portion_percent p = stored_portion env (ci_portion_percent dto)"
    if "es_co_farmers es = map deal_co_farmer.truncate (cw_rows ?s2)" for es :: "'z escrow_state"
    using that f unfolding rows2
    by (auto simp: payout_participants_def accepted_co_farmers_def find_where_def deal_co_farmer.truncate_def Let_def)
  with acc gate show ?thesis by blast
qed

theorem late_co_farmer_skips_the_gate_witness:
  "\<exists>r s1 r' s2. invite_co_farmer (example_co_env ''1'') ''d1'' ''lead'' (example_invite ''a'') example_co_state = (Inr r, s1)
    \<and> accept_invitation (example_co_env ''1'') ''d1'' ''a'' ''k'' s1 = (Inr r', s2)
    \<and> list_ex (\<lambda>p. pp_farmer_id p = ''a'') (payout_participants co_farmer_deal
         (sample_state\<lparr>es_co_farmers := map deal_co_farmer.truncate (cw_rows s2)\<rparr>))"
proof -
  let ?i = "invite_co_farmer (example_co_env ''1'') ''d1'' ''lead'' (example_invite ''a'') example_co_state"
  obtain r s1 where i: "?i = (Inr r, s1)" and a: "cf_farmer_id r = ''a''"
    by (simp add: example_invited invited_row_def example_co_user_def)
  have d: "find_deal ''d1'' (cw_deals example_co_state) = Some co_farmer_deal" "td_status co_farmer_deal = DealOpen"
    by (simp_all add: find_deal_def find_one_def example_co_state_def co_farmer_deal_def)
  have g: "assert_all_verified ''d1'' example_co_state = (Inr (), example_co_state)"
    by (simp add: assert_all_verified_def rows_of_def find_where_def example_co_state_def)
  have n: "find_row ''d1'' (cf_farmer_id r) example_co_state = None" "cv_new_id (example_co_env ''1'') \<notin> cr_id ` set (cw_rows example_co_state)"
    by (simp_all add: find_row_def find_one_def example_co_state_def)
  have k: "kyc_status_of (cf_farmer_id r) example_co_state = Some ''pending''" "''pending'' \<noteq> ''verified''"
    "cv_now (example_co_env ''1'') \<le> cv_now (example_co_env ''1'') + invitation_ttl_ms"
    by (simp_all add: a kyc_status_of_def find_one_def example_co_state_def example_co_user_def invitation_ttl_ms_def)
  have t: "cv_token (example_co_env ''1'') = ''k''" by (simp add: example_co_env_def)
  obtain r' s2 where acc: "accept_invitation (example_co_env ''1'') ''d1'' ''a'' ''k'' s1 = (Inr r', s2)"
    and pay: "\<forall>es :: kv_store escrow_state. es_co_farmers es = map deal_co_farmer.truncate (cw_rows s2) \<longrightarrow>
       (\<exists>p \<in> set (payout_participants co_farmer_deal es). pp_farmer_id p = ''a''
          \<and> pp_portion_percent p = stored_portion (example_co_env ''1'') (ci_portion_percent (example_invite ''a'')))"
    using late_co_farmer_skips_the_gate [OF d g i n k, where 'a = kv_store] unfolding a t by blast
  have "\<exists>p \<in> set (payout_participants co_farmer_deal (sample_state\<lparr>es_co_farmers := map deal_co_farmer.truncate (cw_rows s2)\<rparr>)). pp_farmer_id p = ''a''"
    by (rule pay [rule_format, THEN bexE]) auto
  with i acc show ?thesis by (auto simp: list_ex_iff)
qed

end
