(* ===== verification/AmlRules.thy ===== *)
theory AmlRules
  imports EscrowConsumer JsText "HOL-Library.List_Lexorder" "HOL-Library.Char_ord"
begin

text \<open>
  \<open>backend/src/aml/aml-rules.service.ts\<close> with \<open>aml.constants.ts\<close> and the rule entity: the rules of
  the monitoring of money movements, the check of their parameters, the rules shipped with the
  program, and the multiplier that the judgements of the analysts give a rule. How a text is read
  as a number (\<open>Number(text)\<close>), the identifiers, and the author of a rule are parameters.
\<close>

subsection \<open>Vocabulary\<close>

datatype aml_pattern =
    Structuring | RapidMovement | Layering | Velocity | HighValue | HighRiskJurisdiction
  | SanctionsMatch | PepMatch | BehavioralAnomaly

datatype aml_severity = SeverityLow | SeverityMedium | SeverityHigh | SeverityCritical

datatype aml_action = ActAllow | ActFlagReview | ActRequireEnhancedDueDiligence | ActReject | ActCapTransaction

text \<open>
  A value of the JSON object of parameters. The items of an array are given by the texts that
  \<open>String\<close> makes of them.
\<close>

datatype parameter_value =
    NullValue
  | BoolValue bool
  | NumberValue jsnum
  | TextValue string
  | ListValue "string list"
  | ObjectValue

record aml_rule =
  ar_id :: string
  ar_rule_code :: string
  ar_name :: string
  ar_description :: string
  ar_pattern_type :: aml_pattern
  ar_risk_level :: aml_severity
  ar_action :: aml_action
  ar_enabled :: bool
  ar_jurisdiction :: string
  ar_window_hours :: int
  ar_parameters :: "(string \<times> parameter_value) list"
  ar_base_risk_score :: jsnum
  ar_alert_threshold_score :: jsnum
  ar_sensitivity :: jsnum
  ar_false_positives :: nat
  ar_true_positives :: nat
  ar_version :: nat
  ar_created_by :: "string option"

type_synonym 'a rules_handler = "(aml_rule list, http_error, 'a) handler"

subsection \<open>Sensitivity\<close>

definition sensitivity_from_disposition :: "nat \<Rightarrow> nat \<Rightarrow> jsnum" where
  "sensitivity_from_disposition fp tp =
     (let total = fp + tp; rate = div_js (of_nat fp) (of_nat total)
      in if total < 5 then 1
         else if lit (9 / 10) \<le> rate then lit (4 / 10)
         else if lit (75 / 100) \<le> rate then lit (6 / 10)
         else if lit (5 / 10) \<le> rate then lit (8 / 10)
         else if lit (25 / 100) \<le> rate then 1
         else lit (125 / 100))"

subsection \<open>Parameters\<close>

text \<open>\<open>Number(value)\<close>; \<open>None\<close> is a result that is not finite.\<close>

fun js_number :: "(string \<Rightarrow> jsnum option) \<Rightarrow> parameter_value \<Rightarrow> jsnum option" where
  "js_number text_number NullValue = Some 0"
| "js_number text_number (BoolValue b) = Some (if b then 1 else 0)"
| "js_number text_number (NumberValue n) = Some n"
| "js_number text_number (TextValue t) = text_number t"
| "js_number text_number (ListValue ts) = text_number (join_with '','' ts)"
| "js_number text_number ObjectValue = None"

definition parameter :: "string \<Rightarrow> aml_rule \<Rightarrow> parameter_value option" where
  "parameter key r = map_of (ar_parameters r) key"

fun required_parameters :: "aml_pattern \<Rightarrow> string list option" where
  "required_parameters Structuring = Some [''aggregateThresholdUsd'', ''maxIndividualAmountUsd'', ''minFlowCount'']"
| "required_parameters RapidMovement = Some [''movementRatio'', ''minInflowUsd'']"
| "required_parameters Layering = Some [''minDistinctDeals'', ''minFlowCount'']"
| "required_parameters Velocity = Some [''maxFlowsPerWindow'']"
| "required_parameters HighValue = Some [''amountThresholdUsd'']"
| "required_parameters HighRiskJurisdiction = Some [''countries'']"
| "required_parameters BehavioralAnomaly = Some [''zScoreThreshold'']"
| "required_parameters SanctionsMatch = None"
| "required_parameters PepMatch = None"

definition parameter_error :: "(string \<times> parameter_value) list \<Rightarrow> string \<Rightarrow> http_error option" where
  "parameter_error values key =
     (case map_of values key of
        None \<Rightarrow> Some (BadRequest ''Rule pattern requires parameter'')
      | Some v \<Rightarrow>
          if v = NullValue \<or> v = TextValue [] then Some (BadRequest ''Rule pattern requires parameter'')
          else if key = ''countries'' \<and> v = ListValue [] then None
          else (case v of
             NumberValue n \<Rightarrow>
               if n \<le> 0 then Some (BadRequest ''Rule parameter must be a positive number'')
               else if key = ''movementRatio'' \<and> 1 < n
               then Some (BadRequest ''movementRatio is a fraction of inflow and must be <= 1'')
               else None
           | _ \<Rightarrow> None))"

fun first_error :: "('a \<Rightarrow> 'e option) \<Rightarrow> 'a list \<Rightarrow> 'e option" where
  "first_error f [] = None"
| "first_error f (x # xs) = (case f x of Some e \<Rightarrow> Some e | None \<Rightarrow> first_error f xs)"

definition validate_parameters :: "aml_pattern \<Rightarrow> (string \<times> parameter_value) list option \<Rightarrow> http_error option" where
  "validate_parameters pattern parameters =
     (case required_parameters pattern of
        None \<Rightarrow> None
      | Some keys \<Rightarrow> first_error (parameter_error (case parameters of Some ps \<Rightarrow> ps | None \<Rightarrow> [])) keys)"

subsection \<open>Rules\<close>

record rule_dto =
  rd_rule_code :: "string option"
  rd_name :: "string option"
  rd_description :: "string option"
  rd_pattern_type :: "aml_pattern option"
  rd_risk_level :: "aml_severity option"
  rd_action :: "aml_action option"
  rd_enabled :: "bool option"
  rd_jurisdiction :: "string option"
  rd_window_hours :: "int option"
  rd_parameters :: "(string \<times> parameter_value) list option"
  rd_base_risk_score :: "jsnum option"
  rd_alert_threshold_score :: "jsnum option"

definition or_default :: "'a option \<Rightarrow> 'a \<Rightarrow> 'a" where
  "or_default x d = (case x of Some y \<Rightarrow> y | None \<Rightarrow> d)"

definition rule_code_of :: "string \<Rightarrow> string" where
  "rule_code_of code = ascii_upper (js_trim code)"

definition find_rule :: "string \<Rightarrow> aml_rule list \<Rightarrow> aml_rule option" where
  "find_rule i rules = find_one (\<lambda>r. ar_id r = i) rules"

definition get_rule :: "string \<Rightarrow> aml_rule list \<Rightarrow> http_error + aml_rule" where
  "get_rule i rules = (case find_rule i rules of None \<Rightarrow> Inl (NotFound ''AML rule not found'') | Some r \<Rightarrow> Inr r)"

text \<open>\<open>save\<close> of a rule that was read before; the code of a rule is unique in the table.\<close>

definition save_rule :: "aml_rule \<Rightarrow> aml_rule list \<Rightarrow> aml_rule list" where
  "save_rule r rules = update_where (\<lambda>x. ar_id x = ar_id r) (\<lambda>_. r) rules"

definition code_taken :: "aml_rule \<Rightarrow> aml_rule list \<Rightarrow> bool" where
  "code_taken r rules \<longleftrightarrow> (\<exists>x \<in> set rules. ar_rule_code x = ar_rule_code r \<and> ar_id x \<noteq> ar_id r)"

text \<open>The request class of \<open>createRule\<close> demands the code, the name and the pattern.\<close>

definition create_rule :: "string \<Rightarrow> string option \<Rightarrow> rule_dto \<Rightarrow> aml_rule rules_handler" where
  "create_rule new_id actor dto rules =
     (case validate_parameters (the (rd_pattern_type dto)) (rd_parameters dto) of
        Some e \<Rightarrow> throw e rules
      | None \<Rightarrow>
          (let code = rule_code_of (the (rd_rule_code dto))
           in case find_one (\<lambda>r. ar_rule_code r = code) rules of
                Some _ \<Rightarrow> throw (BadRequest ''Rule already exists'') rules
              | None \<Rightarrow>
                  (let r = \<lparr>ar_id = new_id, ar_rule_code = code, ar_name = the (rd_name dto),
                            ar_description = or_default (rd_description dto) [],
                            ar_pattern_type = the (rd_pattern_type dto),
                            ar_risk_level = or_default (rd_risk_level dto) SeverityMedium,
                            ar_action = or_default (rd_action dto) ActFlagReview,
                            ar_enabled = or_default (rd_enabled dto) True,
                            ar_jurisdiction = or_default (rd_jurisdiction dto) ''GLOBAL'',
                            ar_window_hours = or_default (rd_window_hours dto) 24,
                            ar_parameters = or_default (rd_parameters dto) [],
                            ar_base_risk_score = or_default (rd_base_risk_score dto) 50,
                            ar_alert_threshold_score = or_default (rd_alert_threshold_score dto) 40,
                            ar_sensitivity = 1, ar_false_positives = 0, ar_true_positives = 0, ar_version = 1,
                            ar_created_by = actor\<rparr>
                   in done_with r (insert_row r rules))))"

definition updated_rule :: "rule_dto \<Rightarrow> aml_rule \<Rightarrow> aml_rule" where
  "updated_rule dto r =
     (let ps = or_default (rd_parameters dto) (ar_parameters r);
          changed = (rd_parameters dto \<noteq> None \<and> rd_parameters dto \<noteq> Some (ar_parameters r))
      in r\<lparr>ar_rule_code := (case rd_rule_code dto of Some c \<Rightarrow> if c = [] then ar_rule_code r else rule_code_of c
                                                   | None \<Rightarrow> ar_rule_code r),
           ar_name := or_default (rd_name dto) (ar_name r),
           ar_description := or_default (rd_description dto) (ar_description r),
           ar_pattern_type := or_default (rd_pattern_type dto) (ar_pattern_type r),
           ar_risk_level := or_default (rd_risk_level dto) (ar_risk_level r),
           ar_action := or_default (rd_action dto) (ar_action r),
           ar_enabled := or_default (rd_enabled dto) (ar_enabled r),
           ar_jurisdiction := or_default (rd_jurisdiction dto) (ar_jurisdiction r),
           ar_window_hours := or_default (rd_window_hours dto) (ar_window_hours r),
           ar_parameters := ps,
           ar_base_risk_score := or_default (rd_base_risk_score dto) (ar_base_risk_score r),
           ar_alert_threshold_score := or_default (rd_alert_threshold_score dto) (ar_alert_threshold_score r),
           ar_version := (if changed then ar_version r + 1 else ar_version r)\<rparr>)"

definition update_rule :: "string \<Rightarrow> rule_dto \<Rightarrow> aml_rule rules_handler" where
  "update_rule i dto rules =
     (case get_rule i rules of
        Inl e \<Rightarrow> throw e rules
      | Inr r \<Rightarrow>
          (case validate_parameters (or_default (rd_pattern_type dto) (ar_pattern_type r))
                  (Some (or_default (rd_parameters dto) (ar_parameters r))) of
             Some e \<Rightarrow> throw e rules
           | None \<Rightarrow>
               (let r' = updated_rule dto r
                in if code_taken r' rules then throw (Internal ''duplicate key'') rules
                   else done_with r' (save_rule r' rules))))"

definition set_enabled :: "string \<Rightarrow> bool \<Rightarrow> aml_rule rules_handler" where
  "set_enabled i enabled rules =
     (case get_rule i rules of
        Inl e \<Rightarrow> throw e rules
      | Inr r \<Rightarrow> (let r' = r\<lparr>ar_enabled := enabled\<rparr> in done_with r' (save_rule r' rules)))"

definition recalculate_sensitivity :: "string \<Rightarrow> (jsnum \<times> nat \<times> nat) rules_handler" where
  "recalculate_sensitivity i rules =
     (case get_rule i rules of
        Inl e \<Rightarrow> throw e rules
      | Inr r \<Rightarrow>
          (let m = sensitivity_from_disposition (ar_false_positives r) (ar_true_positives r)
           in done_with (m, ar_false_positives r, ar_true_positives r)
                (if m \<noteq> ar_sensitivity r then save_rule (r\<lparr>ar_sensitivity := m\<rparr>) rules else rules)))"

text \<open>The level is a text in the database, so that the descending order is that of the texts.\<close>

fun severity_text :: "aml_severity \<Rightarrow> string" where
  "severity_text SeverityLow = ''LOW''"
| "severity_text SeverityMedium = ''MEDIUM''"
| "severity_text SeverityHigh = ''HIGH''"
| "severity_text SeverityCritical = ''CRITICAL''"

definition list_rules :: "bool \<Rightarrow> aml_rule list \<Rightarrow> aml_rule list" where
  "list_rules enabled_only rules =
     rev (sort_key (\<lambda>r. severity_text (ar_risk_level r))
            (rev (sort_key ar_rule_code (find_where (\<lambda>r. enabled_only \<longrightarrow> ar_enabled r) rules))))"

definition active_flow_rules :: "aml_rule list \<Rightarrow> aml_rule list" where
  "active_flow_rules rules =
     filter (\<lambda>r. ar_pattern_type r \<noteq> SanctionsMatch \<and> ar_pattern_type r \<noteq> PepMatch) (find_where ar_enabled rules)"

subsection \<open>The rules shipped with the program\<close>

definition preset :: "string \<Rightarrow> string \<Rightarrow> aml_pattern \<Rightarrow> aml_severity \<Rightarrow> aml_action \<Rightarrow> int \<Rightarrow> jsnum \<Rightarrow> jsnum \<Rightarrow>
    (string \<times> parameter_value) list \<Rightarrow> string \<Rightarrow> aml_rule" where
  "preset code name pattern level action hours base threshold ps description =
     \<lparr>ar_id = [], ar_rule_code = code, ar_name = name, ar_description = description, ar_pattern_type = pattern,
      ar_risk_level = level, ar_action = action, ar_enabled = True, ar_jurisdiction = ''GLOBAL'', ar_window_hours = hours,
      ar_parameters = ps, ar_base_risk_score = base, ar_alert_threshold_score = threshold, ar_sensitivity = 1,
      ar_false_positives = 0, ar_true_positives = 0, ar_version = 1, ar_created_by = None\<rparr>"

definition default_rules :: "aml_rule list" where
  "default_rules =
     [preset ''AML-MON-STRUCT-001'' ''Sub-threshold deposit clustering'' Structuring SeverityHigh ActFlagReview 24 70 45
        [(''maxIndividualAmountUsd'', NumberValue 9500), (''aggregateThresholdUsd'', NumberValue 10000), (''minFlowCount'', NumberValue 3)]
        ''Several inflows each below the currency transaction report threshold that together reach it inside one day.'',
      preset ''AML-MON-RAPID-001'' ''Same-window pass-through'' RapidMovement SeverityHigh ActFlagReview 48 65 40
        [(''movementRatio'', NumberValue (lit (9 / 10))), (''minInflowUsd'', NumberValue 1000)]
        ''Funds that arrive and leave again inside two days at near full value, a funnel-account indicator.'',
      preset ''AML-MON-LAYER-001'' ''Multi-deal layering'' Layering SeverityCritical ActRequireEnhancedDueDiligence (24 * 7) 80 50
        [(''minDistinctDeals'', NumberValue 3), (''minFlowCount'', NumberValue 4)]
        ''In and out movements interleaved across several distinct deals inside a week.'',
      preset ''AML-MON-VELO-001'' ''Movement velocity'' Velocity SeverityMedium ActFlagReview 24 50 35
        [(''maxFlowsPerWindow'', NumberValue 12)]
        ''More movements in a day than the account normally performs.'',
      preset ''AML-MON-HV-001'' ''Single high-value movement'' HighValue SeverityMedium ActFlagReview 24 55 40
        [(''amountThresholdUsd'', NumberValue 50000)]
        ''One movement at or above the enhanced due diligence ceiling.'',
      preset ''AML-MON-JURIS-001'' ''High-risk jurisdiction exposure'' HighRiskJurisdiction SeverityHigh ActRequireEnhancedDueDiligence (24 * 30) 60 40
        [(''countries'', ListValue [])]
        ''Account or deal counterparty located in a jurisdiction flagged for enhanced monitoring.'',
      preset ''AML-MON-BEHAV-001'' ''Behavioural anomaly'' BehavioralAnomaly SeverityMedium ActFlagReview (24 * 30) 45 30
        [(''zScoreThreshold'', NumberValue 3), (''minHistorySamples'', NumberValue 5)]
        ''Amount or cadence far outside the account owner behaviour baseline.'']"

text \<open>The identifier of a rule that is made of a preset is given by its code.\<close>

fun seed_rules :: "(string \<Rightarrow> string) \<Rightarrow> string option \<Rightarrow> aml_rule list \<Rightarrow> aml_rule list \<Rightarrow> string list \<times> aml_rule list" where
  "seed_rules new_id actor [] rules = ([], rules)"
| "seed_rules new_id actor (p # ps) rules =
     (if find_one (\<lambda>r. ar_rule_code r = ar_rule_code p) rules \<noteq> None then seed_rules new_id actor ps rules
      else (let r = p\<lparr>ar_id := new_id (ar_rule_code p), ar_created_by := actor\<rparr>;
                (created, rules') = seed_rules new_id actor ps (insert_row r rules)
            in (ar_rule_code p # created, rules')))"

definition ensure_defaults :: "(string \<Rightarrow> string) \<Rightarrow> string option \<Rightarrow> aml_rule list \<Rightarrow> string list \<times> aml_rule list" where
  "ensure_defaults new_id actor rules = seed_rules new_id actor default_rules rules"

end
