(* ===== verification/AmlDetectors.thy ===== *)
theory AmlDetectors
  imports AmlRules JsDate Decimals
begin

text \<open>
  \<open>backend/src/aml/aml-detectors.ts\<close> and \<open>aml-behavioral.ts\<close>: the detectors of the patterns, pure
  functions of a rule and the money movements of one account. A detector throws when the list of
  countries of its rule is not an array. The texts of a match that only a person reads (title,
  reason, evidence) are left out. \<open>Math.log10\<close> and \<open>Math.sqrt\<close>, whose results the language leaves
  to the implementation, and how a text is read as a number are the parameters of \<open>detector_env\<close>.
\<close>

subsection \<open>Money movements and matches\<close>

datatype flow_direction = FlowIn | FlowOut

datatype flow_source = FromInvestments | FromDistributions | FromLogs

record cash_flow =
  fw_id :: string
  fw_user_id :: string
  fw_direction :: flow_direction
  fw_amount_usd :: jsnum
  fw_at :: int
  fw_deal_id :: "string option"
  fw_source :: flow_source
  fw_country :: "string option"
  fw_commodity :: "string option"

record pattern_match =
  pm_pattern_type :: aml_pattern
  pm_rule_id :: string
  pm_rule_code :: string
  pm_severity :: aml_severity
  pm_action :: aml_action
  pm_base_risk_score :: jsnum
  pm_risk_score :: jsnum
  pm_dedupe_key :: string
  pm_amount_usd :: jsnum
  pm_flow_ids :: "string list"

record detector_env =
  dn_text_number :: "string \<Rightarrow> jsnum option"
  dn_log10 :: "jsnum \<Rightarrow> jsnum"
  dn_sqrt :: "jsnum \<Rightarrow> jsnum"

definition hour_ms :: int where
  "hour_ms = 3600000"

text \<open>\<open>num(raw, fallback)\<close>; a missing parameter is not a number.\<close>

definition num :: "detector_env \<Rightarrow> parameter_value option \<Rightarrow> jsnum \<Rightarrow> jsnum" where
  "num env raw fallback =
     (case raw of None \<Rightarrow> fallback | Some v \<Rightarrow> or_default (js_number (dn_text_number env) v) fallback)"

subsection \<open>Scores\<close>

definition clamp_score :: "jsnum \<Rightarrow> jsnum" where
  "clamp_score score = round_cents (min 100 (max 0 score))"

definition effective_risk_score :: "aml_rule \<Rightarrow> jsnum \<Rightarrow> jsnum" where
  "effective_risk_score r boost =
     clamp_score (mul_js (mul_js (ar_base_risk_score r) (ar_sensitivity r)) (add_js 1 boost))"

definition magnitude_boost :: "detector_env \<Rightarrow> jsnum \<Rightarrow> jsnum \<Rightarrow> jsnum" where
  "magnitude_boost env amount threshold =
     (if threshold \<le> 0 \<or> amount \<le> threshold then 0
      else min (lit (75 / 100)) (mul_js (lit (25 / 100)) (dn_log10 env (div_js amount threshold))))"

subsection \<open>Windows\<close>

definition iso_text :: "int \<Rightarrow> string" where
  "iso_text t =
     (let ms = t mod day_ms
      in day_text t @ ''T'' @ pad_zeros 2 (nat (ms div hour_ms)) @ '':'' @ pad_zeros 2 (nat (ms div 60000 mod 60)) @ '':''
         @ pad_zeros 2 (nat (ms div 1000 mod 60)) @ ''.'' @ pad_zeros 3 (nat (ms mod 1000)) @ ''Z'')"

definition window_start_label :: "cash_flow list \<Rightarrow> int \<Rightarrow> string" where
  "window_start_label flows hours =
     (case flows of
        [] \<Rightarrow> ''unknown''
      | f # _ \<Rightarrow> (let bucket = max 1 hours * hour_ms in iso_text (fw_at f div bucket * bucket)))"

fun windows :: "int \<Rightarrow> cash_flow list \<Rightarrow> cash_flow list list" where
  "windows hours [] = []"
| "windows hours (f # fs) =
     (let w = takeWhile (\<lambda>g. fw_at g - fw_at f \<le> hours * hour_ms) (f # fs)
      in (if w = [] then [] else [w]) @ windows hours fs)"

definition sum_usd :: "cash_flow list \<Rightarrow> jsnum" where
  "sum_usd flows = sum_js fw_amount_usd flows"

definition distinct_deals :: "cash_flow list \<Rightarrow> string list" where
  "distinct_deals flows = remdups (map the (filter present (map fw_deal_id flows)))"

definition by_time :: "cash_flow list \<Rightarrow> cash_flow list" where
  "by_time flows = sort_key fw_at flows"

definition matched ::
  "aml_rule \<Rightarrow> aml_pattern \<Rightarrow> string \<Rightarrow> jsnum \<Rightarrow> cash_flow list \<Rightarrow> jsnum \<Rightarrow> pattern_match" where
  "matched r pattern key amount flows boost =
     \<lparr>pm_pattern_type = pattern, pm_rule_id = ar_id r, pm_rule_code = ar_rule_code r, pm_severity = ar_risk_level r,
      pm_action = ar_action r, pm_base_risk_score = clamp_score (ar_base_risk_score r),
      pm_risk_score = effective_risk_score r boost, pm_dedupe_key = key, pm_amount_usd = round_cents amount,
      pm_flow_ids = map fw_id flows\<rparr>"

text \<open>The loop of a detector over its candidates: what it matches, without a key that was seen.\<close>

fun collect_matches :: "('a \<Rightarrow> pattern_match option) \<Rightarrow> string list \<Rightarrow> 'a list \<Rightarrow> pattern_match list" where
  "collect_matches f seen [] = []"
| "collect_matches f seen (x # xs) =
     (case f x of
        None \<Rightarrow> collect_matches f seen xs
      | Some m \<Rightarrow>
          if pm_dedupe_key m \<in> set seen then collect_matches f seen xs
          else m # collect_matches f (pm_dedupe_key m # seen) xs)"

definition window_key :: "aml_rule \<Rightarrow> string \<Rightarrow> cash_flow list \<Rightarrow> string" where
  "window_key r kind w =
     ar_rule_code r @ '':'' @ kind @ '':'' @ fw_user_id (hd w) @ '':'' @ window_start_label w (ar_window_hours r)"

subsection \<open>Detectors\<close>

definition eligible_flows :: "detector_env \<Rightarrow> aml_rule \<Rightarrow> cash_flow list \<Rightarrow> cash_flow list" where
  "eligible_flows env r flows =
     by_time (filter (\<lambda>f. fw_direction f = FlowIn \<and>
                          fw_amount_usd f \<le> num env (parameter ''maxIndividualAmountUsd'' r) 9500) flows)"

definition structuring_match :: "detector_env \<Rightarrow> aml_rule \<Rightarrow> cash_flow list \<Rightarrow> pattern_match option" where
  "structuring_match env r w =
     (let aggregate = num env (parameter ''aggregateThresholdUsd'' r) 10000;
          min_count = num env (parameter ''minFlowCount'' r) 3
      in if of_nat (length w) < min_count \<or> sum_usd w < aggregate then None
         else Some (matched r Structuring (window_key r ''structuring'' w) (sum_usd w) w
                      (magnitude_boost env (sum_usd w) aggregate)))"

definition detect_structuring :: "detector_env \<Rightarrow> aml_rule \<Rightarrow> cash_flow list \<Rightarrow> pattern_match list" where
  "detect_structuring env r flows =
     collect_matches (structuring_match env r) [] (windows (ar_window_hours r) (eligible_flows env r flows))"

definition pass_through_window :: "aml_rule \<Rightarrow> cash_flow list \<Rightarrow> cash_flow \<Rightarrow> cash_flow list" where
  "pass_through_window r ordered anchor =
     filter (\<lambda>f. fw_at anchor \<le> fw_at f \<and> fw_at f - fw_at anchor \<le> ar_window_hours r * hour_ms) ordered"

definition rapid_match :: "detector_env \<Rightarrow> aml_rule \<Rightarrow> cash_flow list \<Rightarrow> cash_flow \<Rightarrow> pattern_match option" where
  "rapid_match env r ordered anchor =
     (let ratio = num env (parameter ''movementRatio'' r) (lit (9 / 10));
          min_inflow = num env (parameter ''minInflowUsd'' r) 1000;
          w = pass_through_window r ordered anchor;
          in_total = sum_usd (filter (\<lambda>f. fw_direction f = FlowIn) w);
          out_total = sum_usd (filter (\<lambda>f. fw_direction f = FlowOut) w)
      in if in_total < min_inflow \<or> out_total < mul_js in_total ratio then None
         else Some (matched r RapidMovement
                      (ar_rule_code r @ '':rapid-movement:'' @ fw_user_id anchor @ '':'' @ fw_id anchor)
                      (max in_total out_total) w (magnitude_boost env in_total min_inflow)))"

definition detect_rapid_movement :: "detector_env \<Rightarrow> aml_rule \<Rightarrow> cash_flow list \<Rightarrow> pattern_match list" where
  "detect_rapid_movement env r flows =
     (let ordered = by_time flows
      in collect_matches (rapid_match env r ordered) [] (filter (\<lambda>f. fw_direction f = FlowIn) ordered))"

fun direction_changes :: "cash_flow list \<Rightarrow> nat" where
  "direction_changes (f # g # fs) = (if fw_direction f \<noteq> fw_direction g then 1 else 0) + direction_changes (g # fs)"
| "direction_changes _ = 0"

definition layering_match :: "detector_env \<Rightarrow> aml_rule \<Rightarrow> cash_flow list \<Rightarrow> pattern_match option" where
  "layering_match env r w =
     (let min_deals = num env (parameter ''minDistinctDeals'' r) 3;
          min_count = num env (parameter ''minFlowCount'' r) 4;
          deals = of_nat (length (distinct_deals w))
      in if of_nat (length w) < min_count \<or> deals < min_deals \<or> direction_changes w < 2 then None
         else Some (matched r Layering (window_key r ''layering'' w) (sum_usd w) w (magnitude_boost env deals min_deals)))"

definition detect_layering :: "detector_env \<Rightarrow> aml_rule \<Rightarrow> cash_flow list \<Rightarrow> pattern_match list" where
  "detect_layering env r flows =
     collect_matches (layering_match env r) [] (windows (ar_window_hours r) (by_time flows))"

definition velocity_match :: "detector_env \<Rightarrow> aml_rule \<Rightarrow> cash_flow list \<Rightarrow> pattern_match option" where
  "velocity_match env r w =
     (let max_flows = num env (parameter ''maxFlowsPerWindow'' r) 10
      in if of_nat (length w) \<le> max_flows then None
         else Some (matched r Velocity (window_key r ''velocity'' w) (sum_usd w) w
                      (magnitude_boost env (of_nat (length w)) max_flows)))"

definition detect_velocity :: "detector_env \<Rightarrow> aml_rule \<Rightarrow> cash_flow list \<Rightarrow> pattern_match list" where
  "detect_velocity env r flows =
     collect_matches (velocity_match env r) [] (windows (ar_window_hours r) (by_time flows))"

definition high_value_match :: "detector_env \<Rightarrow> aml_rule \<Rightarrow> cash_flow \<Rightarrow> pattern_match" where
  "high_value_match env r f =
     matched r HighValue (ar_rule_code r @ '':high-value:'' @ fw_id f) (fw_amount_usd f) [f]
       (magnitude_boost env (fw_amount_usd f) (num env (parameter ''amountThresholdUsd'' r) 50000))"

definition detect_high_value :: "detector_env \<Rightarrow> aml_rule \<Rightarrow> cash_flow list \<Rightarrow> pattern_match list" where
  "detect_high_value env r flows =
     map (high_value_match env r)
       (filter (\<lambda>f. num env (parameter ''amountThresholdUsd'' r) 50000 \<le> fw_amount_usd f) flows)"

text \<open>\<open>(rule.parameters?.countries ?? []).map(...)\<close>: a value without \<open>map\<close> is a type error.\<close>

definition listed_countries :: "aml_rule \<Rightarrow> string + string list" where
  "listed_countries r =
     (case parameter ''countries'' r of
        None \<Rightarrow> Inr []
      | Some NullValue \<Rightarrow> Inr []
      | Some (ListValue ts) \<Rightarrow> Inr (map ascii_upper ts)
      | Some _ \<Rightarrow> Inl ''TypeError'')"

definition country_of :: "cash_flow \<Rightarrow> string" where
  "country_of f = ascii_upper (or_default (fw_country f) [])"

definition counterparty_match :: "aml_rule \<Rightarrow> cash_flow \<Rightarrow> pattern_match option" where
  "counterparty_match r f =
     Some (matched r HighRiskJurisdiction
             (ar_rule_code r @ '':counterparty:'' @ fw_user_id f @ '':'' @ country_of f) (fw_amount_usd f) [f] 0)"

definition detect_high_risk_jurisdiction :: "aml_rule \<Rightarrow> cash_flow list \<Rightarrow> string option \<Rightarrow> string + pattern_match list" where
  "detect_high_risk_jurisdiction r flows user_country =
     (case listed_countries r of
        Inl e \<Rightarrow> Inl e
      | Inr countries \<Rightarrow>
          (let uc = ascii_upper (or_default user_country []);
               flagged = filter (\<lambda>f. country_of f \<noteq> [] \<and> country_of f \<in> set countries) flows;
               key = ar_rule_code r @ '':jurisdiction:'' @ (case flows of [] \<Rightarrow> ''unknown'' | f # _ \<Rightarrow> fw_user_id f) @ '':'' @ uc
           in if countries = [] then Inr []
              else if uc \<noteq> [] \<and> uc \<in> set countries
              then Inr (matched r HighRiskJurisdiction key (sum_usd flows) flows 0
                          # collect_matches (counterparty_match r) [key] flagged)
              else Inr (collect_matches (counterparty_match r) [] flagged)))"

subsection \<open>Behaviour of an account\<close>

definition mean_of :: "jsnum list \<Rightarrow> jsnum" where
  "mean_of xs = (if xs = [] then 0 else div_js (sum_js (\<lambda>x. x) xs) (of_nat (length xs)))"

definition stddev :: "detector_env \<Rightarrow> jsnum list \<Rightarrow> jsnum" where
  "stddev env xs =
     (if length xs < 2 then 0
      else dn_sqrt env (div_js (sum_js (\<lambda>x. mul_js (sub_js x (mean_of xs)) (sub_js x (mean_of xs))) xs)
                               (of_nat (length xs - 1))))"

definition z_score :: "jsnum \<Rightarrow> jsnum \<Rightarrow> jsnum \<Rightarrow> jsnum" where
  "z_score value average deviation = (if deviation \<le> 0 then 0 else div_js (sub_js value average) deviation)"

fun gaps_hours :: "cash_flow list \<Rightarrow> jsnum list" where
  "gaps_hours (f # g # fs) = div_js (of_int (fw_at g - fw_at f)) (of_int hour_ms) # gaps_hours (g # fs)"
| "gaps_hours _ = []"

definition intervals_hours :: "cash_flow list \<Rightarrow> jsnum list" where
  "intervals_hours flows = gaps_hours (by_time flows)"

record behavioural_baseline =
  bb_sample_count :: nat
  bb_mean_amount :: jsnum
  bb_stddev_amount :: jsnum
  bb_mean_interval :: jsnum
  bb_stddev_interval :: jsnum
  bb_known_countries :: "string list"

text \<open>
  \<open>ordered.length - Math.max(1, recentCount)\<close> from below by zero, cut to an integer by \<open>slice\<close>; when
  the count is not a number, so is the difference, and \<open>slice\<close> takes it for zero.
\<close>

definition split_at :: "cash_flow list \<Rightarrow> jsnum option \<Rightarrow> nat" where
  "split_at ordered recent_count =
     (case recent_count of
        None \<Rightarrow> 0
      | Some n \<Rightarrow> nat \<lfloor>max 0 (sub_js (of_nat (length ordered)) (max 1 n))\<rfloor>)"

definition build_baseline :: "detector_env \<Rightarrow> cash_flow list \<Rightarrow> jsnum option \<Rightarrow> behavioural_baseline" where
  "build_baseline env flows recent_count =
     (let ordered = by_time flows;
          history = take (split_at ordered recent_count) ordered;
          amounts = filter (\<lambda>a. 0 < a) (map fw_amount_usd history);
          gaps = intervals_hours history
      in \<lparr>bb_sample_count = length history, bb_mean_amount = round_cents (mean_of amounts),
          bb_stddev_amount = round_cents (stddev env amounts), bb_mean_interval = round_cents (mean_of gaps),
          bb_stddev_interval = round_cents (stddev env gaps),
          bb_known_countries = map the (filter present (map fw_country history))\<rparr>)"

record behavioural_anomaly =
  ba_flow :: cash_flow
  ba_amount_z :: jsnum
  ba_cadence_z :: "jsnum option"
  ba_new_country :: "string option"

text \<open>\<open>value >= threshold\<close>, which is false for a threshold that is not a number.\<close>

definition reaches :: "jsnum \<Rightarrow> jsnum option \<Rightarrow> bool" where
  "reaches x threshold = (case threshold of None \<Rightarrow> False | Some t \<Rightarrow> t \<le> x)"

definition flow_anomaly ::
  "behavioural_baseline \<Rightarrow> jsnum option \<Rightarrow> cash_flow option \<Rightarrow> cash_flow \<Rightarrow> behavioural_anomaly option" where
  "flow_anomaly b threshold previous f =
     (let amount_z = z_score (fw_amount_usd f) (bb_mean_amount b) (bb_stddev_amount b);
          cadence_z = (case previous of
                         None \<Rightarrow> None
                       | Some p \<Rightarrow> if 0 < bb_mean_interval b
                                   then Some (z_score (div_js (of_int (fw_at f - fw_at p)) (of_int hour_ms))
                                                (bb_mean_interval b) (bb_stddev_interval b))
                                   else None);
          new_country = (if present (fw_country f) \<and> the (fw_country f) \<notin> set (bb_known_countries b)
                         then fw_country f else None)
      in if reaches amount_z threshold \<or> (cadence_z \<noteq> None \<and> reaches \<bar>the cadence_z\<bar> threshold) \<or> new_country \<noteq> None
         then Some \<lparr>ba_flow = f, ba_amount_z = amount_z, ba_cadence_z = cadence_z, ba_new_country = new_country\<rparr>
         else None)"

definition find_behavioural_anomalies ::
  "detector_env \<Rightarrow> cash_flow list \<Rightarrow> jsnum option \<Rightarrow> jsnum option \<Rightarrow> jsnum option \<Rightarrow> behavioural_anomaly list" where
  "find_behavioural_anomalies env flows threshold min_samples recent_count =
     (let b = build_baseline env flows recent_count;
          ordered = by_time flows
      in if (case min_samples of None \<Rightarrow> False | Some n \<Rightarrow> of_nat (bb_sample_count b) < n) then []
         else List.map_filter
                (\<lambda>i. flow_anomaly b threshold (if i = 0 then None else Some (ordered ! (i - 1))) (ordered ! i))
                [split_at ordered recent_count..<length ordered])"

definition behaviour_match :: "aml_rule \<Rightarrow> behavioural_anomaly \<Rightarrow> pattern_match" where
  "behaviour_match r a =
     (let f = ba_flow a;
          deviation = max 0 (max (ba_amount_z a) \<bar>or_default (ba_cadence_z a) 0\<bar>);
          boost = (if ba_new_country a \<noteq> None then lit (2 / 10) else min (lit (75 / 100)) (div_js deviation 20))
      in \<lparr>pm_pattern_type = BehavioralAnomaly, pm_rule_id = ar_id r, pm_rule_code = ar_rule_code r,
          pm_severity = ar_risk_level r, pm_action = ar_action r, pm_base_risk_score = ar_base_risk_score r,
          pm_risk_score = effective_risk_score r boost,
          pm_dedupe_key = ar_rule_code r @ '':behaviour:'' @ fw_user_id f @ '':'' @ fw_id f,
          pm_amount_usd = fw_amount_usd f, pm_flow_ids = [fw_id f]\<rparr>)"

text \<open>\<open>Number(rule.parameters?.key ?? fallback)\<close>.\<close>

definition number_or :: "detector_env \<Rightarrow> string \<Rightarrow> jsnum \<Rightarrow> aml_rule \<Rightarrow> jsnum option" where
  "number_or env key fallback r =
     (case parameter key r of
        None \<Rightarrow> Some fallback
      | Some NullValue \<Rightarrow> Some fallback
      | Some v \<Rightarrow> js_number (dn_text_number env) v)"

definition detect_behavioural_anomalies :: "detector_env \<Rightarrow> aml_rule \<Rightarrow> cash_flow list \<Rightarrow> pattern_match list" where
  "detect_behavioural_anomalies env r flows =
     map (behaviour_match r)
       (find_behavioural_anomalies env flows (number_or env ''zScoreThreshold'' 3 r)
          (number_or env ''minHistorySamples'' 5 r) (number_or env ''recentCount'' 5 r))"

subsection \<open>Dispatch\<close>

definition run_detector :: "detector_env \<Rightarrow> aml_rule \<Rightarrow> cash_flow list \<Rightarrow> string option \<Rightarrow> string + pattern_match list" where
  "run_detector env r flows user_country =
     (if \<not> ar_enabled r \<or> flows = [] then Inr []
      else (case ar_pattern_type r of
              Structuring \<Rightarrow> Inr (detect_structuring env r flows)
            | RapidMovement \<Rightarrow> Inr (detect_rapid_movement env r flows)
            | Layering \<Rightarrow> Inr (detect_layering env r flows)
            | Velocity \<Rightarrow> Inr (detect_velocity env r flows)
            | HighValue \<Rightarrow> Inr (detect_high_value env r flows)
            | HighRiskJurisdiction \<Rightarrow> detect_high_risk_jurisdiction r flows user_country
            | BehavioralAnomaly \<Rightarrow> Inr (detect_behavioural_anomalies env r flows)
            | _ \<Rightarrow> Inr []))"

end
