(* ===== verification/AmlCases.thy ===== *)
theory AmlCases
  imports AmlDetectors
begin

text \<open>
  \<open>backend/src/aml/aml-case.service.ts\<close> with the alert, case and feedback entities: alerts are grouped
  into a case, the case is worked on and closed with a disposition, and every judgement of an alert
  is recorded and tunes the rule that raised it. The triage of an alert is split where its read ends
  (\<open>triage_check\<close>) and its writes begin (\<open>triage_commit\<close>), so that two of them can overlap. The clock,
  the identifiers and the rounding of the column of the exposure are the parameters of \<open>case_env\<close>.
  Left out: the snapshot of the subject, the details of the timeline and the audit log, which nothing reads.
\<close>

subsection \<open>Rows\<close>

datatype alert_status = AlertPending | AlertTriaged | AlertEscalated | AlertFalsePositive | AlertDismissed

datatype case_status = CaseOpen | CaseInReview | CaseEscalated | CaseAwaitingInformation | CaseClosed

datatype aml_disposition =
    DispositionFalsePositive | DispositionSarFiled | DispositionNoAction
  | DispositionReferred | DispositionRestricted

record aml_alert =
  al_id :: string
  al_pattern_type :: aml_pattern
  al_rule_id :: "string option"
  al_rule_code :: string
  al_user_id :: "string option"
  al_deal_id :: "string option"
  al_severity :: aml_severity
  al_action :: aml_action
  al_risk_score :: jsnum
  al_amount_usd :: "jsnum option"
  al_flow_ids :: "string list"
  al_status :: alert_status
  al_case_id :: "string option"
  al_run_id :: "string option"
  al_dedupe_key :: string
  al_reviewed_by :: "string option"
  al_reviewed_at :: "int option"
  al_created_at :: int

record timeline_entry =
  te_at :: int
  te_action :: string
  te_actor :: "string option"

record aml_case =
  ac_id :: string
  ac_case_number :: string
  ac_title :: string
  ac_subject_user_id :: "string option"
  ac_priority :: aml_severity
  ac_status :: case_status
  ac_assigned_to :: "string option"
  ac_opened_by :: "string option"
  ac_alert_ids :: "string list"
  ac_risk_score :: jsnum
  ac_exposure_usd :: jsnum
  ac_timeline :: "timeline_entry list"
  ac_disposition :: "aml_disposition option"
  ac_notes :: "string option"
  ac_due_at :: "int option"
  ac_closed_at :: "int option"
  ac_created_at :: int

record disposition_feedback =
  fb_alert_id :: "string option"
  fb_case_id :: "string option"
  fb_rule_code :: string
  fb_rule_id :: "string option"
  fb_pattern_type :: "aml_pattern option"
  fb_disposition :: aml_disposition
  fb_recorded_by :: "string option"
  fb_reason :: "string option"
  fb_before :: "jsnum option"
  fb_after :: "jsnum option"

record aml_state =
  am_rules :: "aml_rule list"
  am_alerts :: "aml_alert list"
  am_cases :: "aml_case list"
  am_feedback :: "disposition_feedback list"

text \<open>\<open>ev_case_id n\<close> is the identifier of the case that is made when the table has \<open>n\<close> rows.\<close>

record case_env =
  ev_now :: int
  ev_case_id :: "nat \<Rightarrow> string"
  ev_column :: "jsnum \<Rightarrow> jsnum"

type_synonym 'a aml_handler = "(aml_state, http_error, 'a) handler"

definition find_alert :: "string \<Rightarrow> aml_state \<Rightarrow> aml_alert option" where
  "find_alert i s = find_one (\<lambda>a. al_id a = i) (am_alerts s)"

definition alerts_in :: "string list \<Rightarrow> aml_state \<Rightarrow> aml_alert list" where
  "alerts_in ids s = find_where (\<lambda>a. al_id a \<in> set ids) (am_alerts s)"

definition save_alert :: "aml_alert \<Rightarrow> aml_state \<Rightarrow> aml_state" where
  "save_alert a s = s\<lparr>am_alerts := update_where (\<lambda>x. al_id x = al_id a) (\<lambda>_. a) (am_alerts s)\<rparr>"

text \<open>The update of a group of alerts writes the case and the status only.\<close>

definition group_alerts :: "string list \<Rightarrow> string \<Rightarrow> aml_state \<Rightarrow> aml_state" where
  "group_alerts ids case_id s =
     s\<lparr>am_alerts := update_where (\<lambda>a. al_id a \<in> set ids)
                      (\<lambda>a. a\<lparr>al_case_id := Some case_id, al_status := AlertTriaged\<rparr>) (am_alerts s)\<rparr>"

definition get_case :: "string \<Rightarrow> aml_state \<Rightarrow> http_error + aml_case" where
  "get_case i s =
     (case find_one (\<lambda>c. ac_id c = i) (am_cases s) of None \<Rightarrow> Inl (NotFound ''Case not found'') | Some c \<Rightarrow> Inr c)"

definition save_case :: "aml_case \<Rightarrow> aml_state \<Rightarrow> aml_state" where
  "save_case c s = s\<lparr>am_cases := update_where (\<lambda>x. ac_id x = ac_id c) (\<lambda>_. c) (am_cases s)\<rparr>"

subsection \<open>Opening a case\<close>

fun sla_days :: "aml_severity \<Rightarrow> int" where
  "sla_days SeverityCritical = 3"
| "sla_days SeverityHigh = 5"
| "sla_days SeverityMedium = 10"
| "sla_days SeverityLow = 30"

fun severity_rank :: "aml_severity \<Rightarrow> int" where
  "severity_rank SeverityLow = 0"
| "severity_rank SeverityMedium = 1"
| "severity_rank SeverityHigh = 2"
| "severity_rank SeverityCritical = 3"

definition due_date :: "aml_severity \<Rightarrow> int \<Rightarrow> int" where
  "due_date priority from_time = from_time + sla_days priority * day_ms"

definition case_prefix :: "int \<Rightarrow> string" where
  "case_prefix now = ''AML-CASE-'' @ int_text (fst (civil_date (now div day_ms))) @ ''-''"

definition next_case_number :: "case_env \<Rightarrow> aml_state \<Rightarrow> string" where
  "next_case_number env s =
     (let prefix = case_prefix (ev_now env);
          count = affected (\<lambda>c. take (length prefix) (ac_case_number c) = prefix) (am_cases s)
      in prefix @ pad_zeros 6 (count + 1))"

definition timeline :: "case_env \<Rightarrow> aml_case \<Rightarrow> string \<Rightarrow> string option \<Rightarrow> timeline_entry list" where
  "timeline env c action actor = ac_timeline c @ [\<lparr>te_at = ev_now env, te_action = action, te_actor = actor\<rparr>]"

record create_case_dto =
  cc_alert_ids :: "string list option"
  cc_subject_user_id :: "string option"
  cc_priority :: "aml_severity option"
  cc_title :: "string option"

fun pattern_text :: "aml_pattern \<Rightarrow> string" where
  "pattern_text Structuring = ''STRUCTURING''"
| "pattern_text RapidMovement = ''RAPID_MOVEMENT''"
| "pattern_text Layering = ''LAYERING''"
| "pattern_text Velocity = ''VELOCITY''"
| "pattern_text HighValue = ''HIGH_VALUE''"
| "pattern_text HighRiskJurisdiction = ''HIGH_RISK_JURISDICTION''"
| "pattern_text SanctionsMatch = ''SANCTIONS_MATCH''"
| "pattern_text PepMatch = ''PEP_MATCH''"
| "pattern_text BehavioralAnomaly = ''BEHAVIORAL_ANOMALY''"

text \<open>\<open>[...new Set(xs)]\<close>: the first occurrences in their order.\<close>

definition first_occurrences :: "'a list \<Rightarrow> 'a list" where
  "first_occurrences xs = rev (remdups (rev xs))"

definition highest_priority :: "aml_alert list \<Rightarrow> aml_severity" where
  "highest_priority alerts =
     (case sort_key (\<lambda>v. - severity_rank v) (map al_severity alerts) of [] \<Rightarrow> SeverityMedium | v # _ \<Rightarrow> v)"

definition exposure_of :: "aml_alert list \<Rightarrow> jsnum" where
  "exposure_of alerts = sum_js (\<lambda>a. or_default (al_amount_usd a) 0) alerts"

definition new_case :: "case_env \<Rightarrow> create_case_dto \<Rightarrow> string option \<Rightarrow> aml_alert list \<Rightarrow> aml_state \<Rightarrow> aml_case" where
  "new_case env dto actor alerts s =
     (let priority = or_default (cc_priority dto) (highest_priority alerts)
      in \<lparr>ac_id = ev_case_id env (length (am_cases s)), ac_case_number = next_case_number env s,
          ac_title = or_default (cc_title dto)
            (if alerts \<noteq> []
             then ''AML review: '' @ join_with '', '' (first_occurrences (map (\<lambda>a. pattern_text (al_pattern_type a)) alerts))
             else ''AML investigation''),
          ac_subject_user_id = (if cc_subject_user_id dto \<noteq> None then cc_subject_user_id dto
                                else case find_one (\<lambda>a. present (al_user_id a)) alerts of
                                       Some a \<Rightarrow> al_user_id a | None \<Rightarrow> None),
          ac_priority = priority, ac_status = CaseOpen, ac_assigned_to = None, ac_opened_by = actor,
          ac_alert_ids = map al_id alerts,
          ac_risk_score = foldl (\<lambda>m a. max m (al_risk_score a)) 0 alerts,
          ac_exposure_usd = ev_column env (exposure_of alerts),
          ac_timeline = [\<lparr>te_at = ev_now env, te_action = ''case_opened'', te_actor = actor\<rparr>],
          ac_disposition = None, ac_notes = None, ac_due_at = Some (due_date priority (ev_now env)),
          ac_closed_at = None, ac_created_at = ev_now env\<rparr>)"

text \<open>The number of a case is unique in the table; the alerts are updated after the case is stored.\<close>

definition create_case :: "case_env \<Rightarrow> create_case_dto \<Rightarrow> string option \<Rightarrow> aml_case aml_handler" where
  "create_case env dto actor s =
     (let ids = or_default (cc_alert_ids dto) [];
          alerts = (if ids = [] then [] else alerts_in ids s)
      in if ids \<noteq> [] \<and> length alerts \<noteq> length ids then throw (NotFound ''One or more alerts do not exist'') s
         else if \<exists>a \<in> set alerts. al_case_id a \<noteq> None
         then throw (BadRequest ''One or more alerts already belong to a case'') s
         else (let c = new_case env dto actor alerts s
               in if \<exists>x \<in> set (am_cases s). ac_case_number x = ac_case_number c
                  then throw (Internal ''duplicate key'') s
                  else (let s1 = s\<lparr>am_cases := insert_row c (am_cases s)\<rparr>
                        in done_with c (if alerts = [] then s1 else group_alerts (map al_id alerts) (ac_id c) s1))))"

subsection \<open>Working on a case\<close>

definition attach_alerts :: "case_env \<Rightarrow> string \<Rightarrow> string list \<Rightarrow> string option \<Rightarrow> aml_case aml_handler" where
  "attach_alerts env case_id ids actor s =
     (case get_case case_id s of
        Inl e \<Rightarrow> throw e s
      | Inr c \<Rightarrow>
          (let alerts = alerts_in ids s
           in if length alerts \<noteq> length ids then throw (NotFound ''One or more alerts do not exist'') s
              else if \<exists>a \<in> set alerts. al_case_id a \<noteq> None \<and> al_case_id a \<noteq> Some case_id
              then throw (BadRequest ''One or more alerts belong to another case'') s
              else (let c' = c\<lparr>ac_alert_ids := first_occurrences (ac_alert_ids c @ ids),
                               ac_risk_score := foldl (\<lambda>m a. max m (al_risk_score a)) (ac_risk_score c) alerts,
                               ac_exposure_usd := ev_column env (add_js (ac_exposure_usd c) (exposure_of alerts)),
                               ac_timeline := timeline env c ''alerts_attached'' actor\<rparr>
                    in done_with c' (save_case c' (group_alerts ids (ac_id c) s)))))"

record update_case_dto =
  uc_status :: "case_status option"
  uc_priority :: "aml_severity option"
  uc_assigned_to :: "string option"
  uc_notes :: "string option"

fun case_status_text :: "case_status \<Rightarrow> string" where
  "case_status_text CaseOpen = ''open''"
| "case_status_text CaseInReview = ''in_review''"
| "case_status_text CaseEscalated = ''escalated''"
| "case_status_text CaseAwaitingInformation = ''awaiting_information''"
| "case_status_text CaseClosed = ''closed''"

definition with_case_status :: "case_env \<Rightarrow> string option \<Rightarrow> case_status option \<Rightarrow> aml_case \<Rightarrow> aml_case" where
  "with_case_status env actor st c =
     (case st of
        None \<Rightarrow> c
      | Some v \<Rightarrow> c\<lparr>ac_timeline := timeline env c (''status_'' @ case_status_text v) actor, ac_status := v\<rparr>)"

definition with_priority :: "case_env \<Rightarrow> string option \<Rightarrow> aml_severity option \<Rightarrow> aml_case \<Rightarrow> aml_case" where
  "with_priority env actor p c =
     (case p of
        None \<Rightarrow> c
      | Some v \<Rightarrow> c\<lparr>ac_priority := v, ac_due_at := Some (due_date v (ev_now env)),
                    ac_timeline := timeline env c ''priority_changed'' actor\<rparr>)"

definition with_assignee :: "case_env \<Rightarrow> string option \<Rightarrow> string option \<Rightarrow> aml_case \<Rightarrow> aml_case" where
  "with_assignee env actor who c =
     (if present who then c\<lparr>ac_assigned_to := who, ac_timeline := timeline env c ''assigned'' actor\<rparr> else c)"

definition with_notes :: "case_env \<Rightarrow> string option \<Rightarrow> string option \<Rightarrow> aml_case \<Rightarrow> aml_case" where
  "with_notes env actor notes c =
     (if present notes then c\<lparr>ac_notes := notes, ac_timeline := timeline env c ''note_added'' actor\<rparr> else c)"

definition update_case :: "case_env \<Rightarrow> string \<Rightarrow> update_case_dto \<Rightarrow> string option \<Rightarrow> aml_case aml_handler" where
  "update_case env case_id dto actor s =
     (case get_case case_id s of
        Inl e \<Rightarrow> throw e s
      | Inr c \<Rightarrow>
          if ac_status c = CaseClosed then throw (BadRequest ''Closed cases cannot be edited; reopen a new case instead'') s
          else (let c' = with_notes env actor (uc_notes dto) (with_assignee env actor (uc_assigned_to dto)
                           (with_priority env actor (uc_priority dto) (with_case_status env actor (uc_status dto) c)))
                in done_with c' (save_case c' s)))"

subsection \<open>Judgements\<close>

fun disposed_status :: "aml_disposition \<Rightarrow> alert_status" where
  "disposed_status DispositionFalsePositive = AlertFalsePositive"
| "disposed_status DispositionSarFiled = AlertEscalated"
| "disposed_status DispositionNoAction = AlertDismissed"
| "disposed_status DispositionReferred = AlertEscalated"
| "disposed_status DispositionRestricted = AlertEscalated"

definition judged_rule :: "aml_disposition \<Rightarrow> aml_rule \<Rightarrow> aml_rule" where
  "judged_rule d r =
     (let r' = (if d = DispositionFalsePositive then r\<lparr>ar_false_positives := ar_false_positives r + 1\<rparr>
                else r\<lparr>ar_true_positives := ar_true_positives r + 1\<rparr>)
      in r'\<lparr>ar_sensitivity := sensitivity_from_disposition (ar_false_positives r') (ar_true_positives r')\<rparr>)"

text \<open>The alert is given by the columns that are read; a case without alerts to judge gives none of them.\<close>

definition record_feedback ::
  "string option \<Rightarrow> string option \<Rightarrow> string \<Rightarrow> aml_pattern option \<Rightarrow> aml_disposition \<Rightarrow> string option \<Rightarrow> string option \<Rightarrow>
   string option \<Rightarrow> aml_state \<Rightarrow> aml_state" where
  "record_feedback alert_id rule_id rule_code pattern d reason actor case_id s =
     (let rule = (case rule_id of None \<Rightarrow> None | Some i \<Rightarrow> find_rule i (am_rules s));
          row = \<lparr>fb_alert_id = alert_id, fb_case_id = case_id, fb_rule_code = rule_code, fb_rule_id = rule_id,
                 fb_pattern_type = pattern, fb_disposition = d, fb_recorded_by = actor, fb_reason = reason,
                 fb_before = map_option ar_sensitivity rule,
                 fb_after = map_option (\<lambda>r. ar_sensitivity (judged_rule d r)) rule\<rparr>
      in s\<lparr>am_rules := (case rule of None \<Rightarrow> am_rules s | Some r \<Rightarrow> save_rule (judged_rule d r) (am_rules s)),
           am_feedback := insert_row row (am_feedback s)\<rparr>)"

definition triage_check :: "string \<Rightarrow> aml_state \<Rightarrow> http_error + aml_alert" where
  "triage_check alert_id s =
     (case find_alert alert_id s of
        None \<Rightarrow> Inl (NotFound ''Alert not found'')
      | Some a \<Rightarrow> if al_reviewed_at a \<noteq> None then Inl (BadRequest ''Alert has already been triaged'') else Inr a)"

definition triage_commit ::
  "case_env \<Rightarrow> aml_disposition \<Rightarrow> string option \<Rightarrow> string option \<Rightarrow> aml_alert \<Rightarrow> aml_alert aml_handler" where
  "triage_commit env d reason actor a s =
     (let a' = a\<lparr>al_status := disposed_status d, al_reviewed_by := actor, al_reviewed_at := Some (ev_now env)\<rparr>
      in done_with a' (record_feedback (Some (al_id a)) (al_rule_id a) (al_rule_code a) (Some (al_pattern_type a))
                         d reason actor None (save_alert a' s)))"

definition triage_alert ::
  "case_env \<Rightarrow> string \<Rightarrow> aml_disposition \<Rightarrow> string option \<Rightarrow> string option \<Rightarrow> aml_alert aml_handler" where
  "triage_alert env alert_id d reason actor s =
     (case triage_check alert_id s of Inl e \<Rightarrow> throw e s | Inr a \<Rightarrow> triage_commit env d reason actor a s)"

fun triage_each ::
  "case_env \<Rightarrow> aml_disposition \<Rightarrow> string option \<Rightarrow> string option \<Rightarrow> string list \<Rightarrow> unit aml_handler" where
  "triage_each env d reason actor [] s = done_with () s"
| "triage_each env d reason actor (i # ids) s =
     (case triage_alert env i d reason actor s of
        (Inl e, s') \<Rightarrow> (Inl e, s')
      | (Inr _, s') \<Rightarrow> triage_each env d reason actor ids s')"

definition record_disposition_for_case ::
  "case_env \<Rightarrow> aml_case \<Rightarrow> aml_disposition \<Rightarrow> string option \<Rightarrow> string option \<Rightarrow> unit aml_handler" where
  "record_disposition_for_case env c d reason actor s =
     (let untriaged = filter (\<lambda>a. al_reviewed_at a = None) (alerts_in (ac_alert_ids c) s)
      in if untriaged = [] then done_with () (record_feedback None None ''CASE'' None d reason actor (Some (ac_id c)) s)
         else triage_each env d reason actor (map al_id untriaged) s)"

definition closed_case :: "case_env \<Rightarrow> aml_disposition \<Rightarrow> string option \<Rightarrow> string option \<Rightarrow> aml_case \<Rightarrow> aml_case" where
  "closed_case env d notes actor c =
     c\<lparr>ac_status := CaseClosed, ac_disposition := Some d, ac_closed_at := Some (ev_now env),
       ac_notes := (if notes \<noteq> None then notes else ac_notes c), ac_timeline := timeline env c ''case_closed'' actor\<rparr>"

definition close_case :: "case_env \<Rightarrow> string \<Rightarrow> aml_disposition \<Rightarrow> string option \<Rightarrow> string option \<Rightarrow> aml_case aml_handler" where
  "close_case env case_id d notes actor s =
     (case get_case case_id s of
        Inl e \<Rightarrow> throw e s
      | Inr c \<Rightarrow>
          if ac_status c = CaseClosed then throw (BadRequest ''Case is already closed'') s
          else (let c' = closed_case env d notes actor c
                in case record_disposition_for_case env c' d notes actor (save_case c' s) of
                     (Inl e, s') \<Rightarrow> (Inl e, s')
                   | (Inr _, s') \<Rightarrow> done_with c' s'))"

subsection \<open>Queries\<close>

definition list_page :: "int option \<Rightarrow> int option \<Rightarrow> 'a list \<Rightarrow> 'a list \<times> nat" where
  "list_page limit page rows =
     (let size = min (max (or_default limit 50) 1) 200; p = max (or_default page 0) 0
      in (take (nat size) (drop (nat (p * size)) rows), length rows))"

definition list_cases ::
  "case_status option \<Rightarrow> string option \<Rightarrow> string option \<Rightarrow> int option \<Rightarrow> int option \<Rightarrow> aml_state \<Rightarrow> aml_case list \<times> nat" where
  "list_cases st assigned subject limit page s =
     list_page limit page
       (sort_key (\<lambda>c. - ac_created_at c)
          (find_where (\<lambda>c. (st = None \<or> st = Some (ac_status c)) \<and> (present assigned \<longrightarrow> ac_assigned_to c = assigned)
                           \<and> (present subject \<longrightarrow> ac_subject_user_id c = subject)) (am_cases s)))"

definition list_alerts ::
  "alert_status option \<Rightarrow> string option \<Rightarrow> aml_pattern option \<Rightarrow> string option \<Rightarrow> int option \<Rightarrow> int option \<Rightarrow> aml_state \<Rightarrow>
   aml_alert list \<times> nat" where
  "list_alerts st user_id pattern code limit page s =
     list_page limit page
       (sort_key (\<lambda>a. - al_risk_score a) (sort_key (\<lambda>a. - al_created_at a)
          (find_where (\<lambda>a. (st = None \<or> st = Some (al_status a)) \<and> (present user_id \<longrightarrow> al_user_id a = user_id)
                           \<and> (pattern = None \<or> pattern = Some (al_pattern_type a))
                           \<and> (present code \<longrightarrow> Some (al_rule_code a) = code)) (am_alerts s))))"

definition overdue_cases :: "int \<Rightarrow> aml_state \<Rightarrow> aml_case list" where
  "overdue_cases now s =
     sort_key (\<lambda>c. the (ac_due_at c))
       (find_where (\<lambda>c. ac_status c \<noteq> CaseClosed \<and> (case ac_due_at c of None \<Rightarrow> False | Some t \<Rightarrow> t < now)) (am_cases s))"

record case_summary =
  sm_open :: nat
  sm_in_review :: nat
  sm_escalated :: nat
  sm_closed :: nat
  sm_overdue :: nat
  sm_false_positive_rate :: jsnum

definition summary :: "case_env \<Rightarrow> aml_state \<Rightarrow> case_summary" where
  "summary env s =
     (let count = (\<lambda>st. affected (\<lambda>c. ac_status c = st) (am_cases s));
          feedback = length (am_feedback s);
          false_positives = affected (\<lambda>f. fb_disposition f = DispositionFalsePositive) (am_feedback s)
      in \<lparr>sm_open = count CaseOpen, sm_in_review = count CaseInReview, sm_escalated = count CaseEscalated,
          sm_closed = count CaseClosed, sm_overdue = length (overdue_cases (ev_now env) s),
          sm_false_positive_rate = (if 0 < feedback then div_js (of_nat false_positives) (of_nat feedback) else 0)\<rparr>)"

end
