(* ===== verification/AmlMonitoring.thy ===== *)
theory AmlMonitoring
  imports AmlCases
begin

text \<open>
  \<open>backend/src/aml/transaction-monitoring.service.ts\<close> and the sweep of
  \<open>aml-monitoring-cron.service.ts\<close>: the money movements of a period are read from the tables that
  hold them, the detectors run over those of each account, and every new finding becomes an alert,
  and a case when its score is high. The second screening of a finding by the regulatory rules only
  adds to the evidence of the alert and is left out, like the audit log. The parameters are gathered
  in \<open>sweep_env\<close>.
\<close>

subsection \<open>Rows and parameters\<close>

record dated_distribution = payment_distribution +
  dd_id :: string
  dd_created_at :: int

record located_deal = trade_deal +
  ld_country :: "string option"

record resident = user +
  rs_country :: "string option"

datatype run_status = RunRunning | RunCompleted

record monitoring_run =
  rn_id :: string
  rn_window_start :: int
  rn_window_end :: int
  rn_status :: run_status
  rn_rules_applied :: nat
  rn_users_evaluated :: nat
  rn_flows_evaluated :: nat
  rn_alerts_raised :: nat
  rn_cases_opened :: nat

record monitoring_state =
  mw_aml :: aml_state
  mw_investments :: "investment list"
  mw_distributions :: "dated_distribution list"
  mw_logs :: "transaction_log list"
  mw_deals :: "located_deal list"
  mw_users :: "resident list"
  mw_runs :: "monitoring_run list"
  mw_in_flight :: bool

text \<open>
  \<open>sv_alert_id n\<close> is the identifier of the alert that is made when the table has \<open>n\<close> rows;
  \<open>sv_enabled\<close> is the text of the configuration, \<open>sv_auto_case_score\<close> the number it gives.
\<close>

record sweep_env =
  sv_detect :: detector_env
  sv_case :: case_env
  sv_alert_id :: "nat \<Rightarrow> string"
  sv_run_id :: "nat \<Rightarrow> string"
  sv_rule_id :: "string \<Rightarrow> string"
  sv_enabled :: string
  sv_auto_case_score :: "jsnum option"

type_synonym 'a monitoring_handler = "(monitoring_state, http_error, 'a) handler"

definition is_enabled :: "sweep_env \<Rightarrow> bool" where
  "is_enabled env \<longleftrightarrow> ascii_lower (sv_enabled env) \<noteq> ''false''"

subsection \<open>Money movements\<close>

definition some_text :: "string option \<Rightarrow> string option" where
  "some_text t = (if present t then t else None)"

definition deal_of :: "string \<Rightarrow> monitoring_state \<Rightarrow> located_deal option" where
  "deal_of i s = find_one (\<lambda>d. td_id d = i) (mw_deals s)"

definition deal_country :: "string \<Rightarrow> monitoring_state \<Rightarrow> string option" where
  "deal_country i s = (case deal_of i s of None \<Rightarrow> None | Some d \<Rightarrow> some_text (ld_country d))"

definition deal_commodity :: "string \<Rightarrow> monitoring_state \<Rightarrow> string option" where
  "deal_commodity i s = (case deal_of i s of None \<Rightarrow> None | Some d \<Rightarrow> some_text (Some (td_commodity d)))"

definition about_user :: "string option \<Rightarrow> string \<Rightarrow> bool" where
  "about_user wanted u \<longleftrightarrow> \<not> present wanted \<or> wanted = Some u"

definition inflows :: "int \<Rightarrow> int \<Rightarrow> string option \<Rightarrow> monitoring_state \<Rightarrow> cash_flow list" where
  "inflows from_time to_time wanted s =
     map (\<lambda>v. \<lparr>fw_id = iv_id v, fw_user_id = iv_investor_id v, fw_direction = FlowIn, fw_amount_usd = iv_amount_usd v,
               fw_at = iv_created_at v, fw_deal_id = some_text (Some (iv_trade_deal_id v)), fw_source = FromInvestments,
               fw_country = deal_country (iv_trade_deal_id v) s, fw_commodity = deal_commodity (iv_trade_deal_id v) s\<rparr>)
       (find_where (\<lambda>v. from_time \<le> iv_created_at v \<and> iv_created_at v \<le> to_time \<and> \<not> iv_deleted v
                        \<and> about_user wanted (iv_investor_id v)) (mw_investments s))"

definition outflows :: "int \<Rightarrow> int \<Rightarrow> string option \<Rightarrow> monitoring_state \<Rightarrow> cash_flow list" where
  "outflows from_time to_time wanted s =
     map (\<lambda>p. \<lparr>fw_id = dd_id p, fw_user_id = or_default (pd_recipient_id p) [], fw_direction = FlowOut,
               fw_amount_usd = pd_amount_usd p, fw_at = dd_created_at p, fw_deal_id = some_text (Some (pd_trade_deal_id p)),
               fw_source = FromDistributions, fw_country = deal_country (pd_trade_deal_id p) s,
               fw_commodity = deal_commodity (pd_trade_deal_id p) s\<rparr>)
       (find_where (\<lambda>p. from_time \<le> dd_created_at p \<and> dd_created_at p \<le> to_time \<and> pd_recipient_type p = RecipientInvestor
                        \<and> pd_status p = PaymentConfirmed
                        \<and> (present wanted \<longrightarrow> pd_recipient_id p = wanted)) (mw_distributions s))"

definition log_flows :: "int \<Rightarrow> int \<Rightarrow> string option \<Rightarrow> monitoring_state \<Rightarrow> cash_flow list" where
  "log_flows from_time to_time wanted s =
     map (\<lambda>l. \<lparr>fw_id = tl_id l, fw_user_id = or_default (tl_user_id l) [], fw_direction = FlowOut, fw_amount_usd = 0,
               fw_at = tl_created_at l, fw_deal_id = some_text (tl_deal_id l), fw_source = FromLogs, fw_country = None,
               fw_commodity = None\<rparr>)
       (find_where (\<lambda>l. from_time \<le> tl_created_at l \<and> tl_created_at l \<le> to_time \<and> tl_status l = TxSuccess
                        \<and> (present wanted \<longrightarrow> tl_user_id l = wanted)) (mw_logs s))"

definition load_cash_flows :: "int \<Rightarrow> int \<Rightarrow> string option \<Rightarrow> monitoring_state \<Rightarrow> cash_flow list" where
  "load_cash_flows from_time to_time wanted s =
     filter (\<lambda>f. fw_user_id f \<noteq> [])
       (inflows from_time to_time wanted s @ outflows from_time to_time wanted s @ log_flows from_time to_time wanted s)"

text \<open>The accounts in the order in which they first occur, each with its movements in the order of time.\<close>

definition group_by_user :: "cash_flow list \<Rightarrow> (string \<times> cash_flow list) list" where
  "group_by_user flows =
     map (\<lambda>u. (u, by_time (filter (\<lambda>f. fw_user_id f = u) flows))) (first_occurrences (map fw_user_id flows))"

subsection \<open>Evaluation\<close>

record candidate =
  cd_match :: pattern_match
  cd_user_id :: string
  cd_flows :: "cash_flow list"

definition in_window :: "int \<Rightarrow> int \<Rightarrow> cash_flow list \<Rightarrow> cash_flow list" where
  "in_window window_start window_end flows = filter (\<lambda>f. window_start \<le> fw_at f \<and> fw_at f \<le> window_end) flows"

text \<open>A match is reported when one of its movements lies inside the window.\<close>

definition reported :: "cash_flow list \<Rightarrow> pattern_match \<Rightarrow> bool" where
  "reported inside m \<longleftrightarrow> (\<exists>i \<in> set (pm_flow_ids m). \<exists>f \<in> set inside. fw_id f = i)"

fun evaluate_rules ::
  "detector_env \<Rightarrow> string option \<Rightarrow> string \<Rightarrow> cash_flow list \<Rightarrow> cash_flow list \<Rightarrow> aml_rule list \<Rightarrow> http_error + candidate list" where
  "evaluate_rules env country u flows inside [] = Inr []"
| "evaluate_rules env country u flows inside (r # rs) =
     (case run_detector env r flows country of
        Inl e \<Rightarrow> Inl (Internal e)
      | Inr ms \<Rightarrow>
          (case evaluate_rules env country u flows inside rs of
             Inl e \<Rightarrow> Inl e
           | Inr cs \<Rightarrow>
               Inr (map (\<lambda>m. \<lparr>cd_match = m, cd_user_id = u, cd_flows = flows\<rparr>) (filter (reported inside) ms) @ cs)))"

fun evaluate ::
  "detector_env \<Rightarrow> (string \<Rightarrow> string option) \<Rightarrow> aml_rule list \<Rightarrow> int \<Rightarrow> int \<Rightarrow> (string \<times> cash_flow list) list \<Rightarrow>
   http_error + candidate list" where
  "evaluate env country rules window_start window_end [] = Inr []"
| "evaluate env country rules window_start window_end ((u, flows) # rest) =
     (let inside = in_window window_start window_end flows
      in if inside = [] then evaluate env country rules window_start window_end rest
         else (case evaluate_rules env (country u) u flows inside rules of
                 Inl e \<Rightarrow> Inl e
               | Inr cs \<Rightarrow>
                   (case evaluate env country rules window_start window_end rest of
                      Inl e \<Rightarrow> Inl e
                    | Inr cs' \<Rightarrow> Inr (cs @ cs'))))"

subsection \<open>A sweep\<close>

record sweep_progress =
  sp_seen :: "string list"
  sp_open :: "(string \<times> string) list"
  sp_raised :: nat
  sp_duplicates :: nat
  sp_below :: nat
  sp_cases :: "string list"

definition alert_of :: "sweep_env \<Rightarrow> string option \<Rightarrow> candidate \<Rightarrow> aml_state \<Rightarrow> aml_alert" where
  "alert_of env run_id c s =
     (let m = cd_match c
      in \<lparr>al_id = sv_alert_id env (length (am_alerts s)), al_pattern_type = pm_pattern_type m, al_rule_id = Some (pm_rule_id m),
          al_rule_code = pm_rule_code m, al_user_id = Some (cd_user_id c),
          al_deal_id = (case pm_flow_ids m of
                          [] \<Rightarrow> None
                        | i # _ \<Rightarrow> (case find_one (\<lambda>f. fw_id f = i) (cd_flows c) of Some f \<Rightarrow> fw_deal_id f | None \<Rightarrow> None)),
          al_severity = pm_severity m, al_action = pm_action m, al_risk_score = pm_risk_score m,
          al_amount_usd = Some (pm_amount_usd m), al_flow_ids = pm_flow_ids m, al_status = AlertPending, al_case_id = None,
          al_run_id = run_id, al_dedupe_key = pm_dedupe_key m, al_reviewed_by = None, al_reviewed_at = None,
          al_created_at = ev_now (sv_case env)\<rparr>)"

text \<open>The key of an alert is unique in the table.\<close>

definition raise_alert :: "sweep_env \<Rightarrow> string option \<Rightarrow> candidate \<Rightarrow> aml_alert aml_handler" where
  "raise_alert env run_id c s =
     (if \<exists>a \<in> set (am_alerts s). al_dedupe_key a = pm_dedupe_key (cd_match c) then throw (Internal ''duplicate key'') s
      else (let a = alert_of env run_id c s in done_with a (s\<lparr>am_alerts := insert_row a (am_alerts s)\<rparr>)))"

definition below_threshold :: "aml_rule list \<Rightarrow> pattern_match \<Rightarrow> bool" where
  "below_threshold rules m \<longleftrightarrow>
     (case find_one (\<lambda>r. ar_id r = pm_rule_id m) rules of
        None \<Rightarrow> False
      | Some r \<Rightarrow> pm_risk_score m < ar_alert_threshold_score r)"

definition opens_case :: "sweep_env \<Rightarrow> candidate \<Rightarrow> sweep_progress \<Rightarrow> bool" where
  "opens_case env c p \<longleftrightarrow> reaches (pm_risk_score (cd_match c)) (sv_auto_case_score env)
     \<and> (cd_user_id c, pm_rule_code (cd_match c)) \<notin> set (sp_open p)"

definition process_candidate ::
  "sweep_env \<Rightarrow> aml_rule list \<Rightarrow> bool \<Rightarrow> string option \<Rightarrow> candidate \<Rightarrow> sweep_progress \<Rightarrow> sweep_progress aml_handler" where
  "process_candidate env rules dry run_id c p s =
     (let m = cd_match c; p' = p\<lparr>sp_seen := pm_dedupe_key m # sp_seen p, sp_raised := sp_raised p + 1\<rparr>
      in if pm_dedupe_key m \<in> set (sp_seen p) then done_with (p\<lparr>sp_duplicates := sp_duplicates p + 1\<rparr>) s
         else if below_threshold rules m then done_with (p\<lparr>sp_below := sp_below p + 1\<rparr>) s
         else if dry then done_with p' s
         else (case raise_alert env run_id c s of
                 (Inl e, s1) \<Rightarrow> (Inl e, s1)
               | (Inr a, s1) \<Rightarrow>
                   if opens_case env c p
                   then (case create_case (sv_case env)
                                \<lparr>cc_alert_ids = Some [al_id a], cc_subject_user_id = Some (cd_user_id c), cc_priority = None,
                                 cc_title = None\<rparr> None s1 of
                           (Inl e, s2) \<Rightarrow> (Inl e, s2)
                         | (Inr opened, s2) \<Rightarrow>
                             done_with (p'\<lparr>sp_cases := sp_cases p @ [ac_case_number opened],
                                           sp_open := (cd_user_id c, pm_rule_code m) # sp_open p\<rparr>) s2)
                   else done_with p' s1))"

fun process_candidates ::
  "sweep_env \<Rightarrow> aml_rule list \<Rightarrow> bool \<Rightarrow> string option \<Rightarrow> candidate list \<Rightarrow> sweep_progress \<Rightarrow> sweep_progress aml_handler" where
  "process_candidates env rules dry run_id [] p s = done_with p s"
| "process_candidates env rules dry run_id (c # cs) p s =
     (case process_candidate env rules dry run_id c p s of
        (Inl e, s') \<Rightarrow> (Inl e, s')
      | (Inr p', s') \<Rightarrow> process_candidates env rules dry run_id cs p' s')"

definition find_existing_keys :: "string list \<Rightarrow> aml_state \<Rightarrow> string list" where
  "find_existing_keys keys s = map al_dedupe_key (find_where (\<lambda>a. al_dedupe_key a \<in> set keys) (am_alerts s))"

text \<open>The accounts and rule codes with an alert in a case that is not closed.\<close>

definition open_case_rule_codes :: "string list \<Rightarrow> aml_state \<Rightarrow> (string \<times> string) list" where
  "open_case_rule_codes users s =
     map (\<lambda>a. (the (al_user_id a), al_rule_code a))
       (find_where (\<lambda>a. al_user_id a \<noteq> None \<and> the (al_user_id a) \<in> set users
                        \<and> (\<exists>c \<in> set (am_cases s). al_case_id a = Some (ac_id c) \<and> ac_status c \<noteq> CaseClosed)) (am_alerts s))"

record sweep_options =
  so_window_start :: "int option"
  so_window_end :: "int option"
  so_user_id :: "string option"
  so_dry_run :: bool

record sweep_result =
  sr_run_id :: "string option"
  sr_users_evaluated :: nat
  sr_flows_evaluated :: nat
  sr_rules_applied :: nat
  sr_alerts_raised :: nat
  sr_duplicates :: nat
  sr_below :: nat
  sr_cases :: "string list"
  sr_skipped :: bool

definition max_window_hours :: "aml_rule list \<Rightarrow> int" where
  "max_window_hours rules = foldl (\<lambda>m r. max m (ar_window_hours r)) 24 rules"

definition start_run :: "sweep_env \<Rightarrow> int \<Rightarrow> int \<Rightarrow> nat \<Rightarrow> monitoring_state \<Rightarrow> monitoring_run" where
  "start_run env window_start window_end n s =
     \<lparr>rn_id = sv_run_id env (length (mw_runs s)), rn_window_start = window_start, rn_window_end = window_end,
      rn_status = RunRunning, rn_rules_applied = n, rn_users_evaluated = 0, rn_flows_evaluated = 0, rn_alerts_raised = 0,
      rn_cases_opened = 0\<rparr>"

definition finish_run :: "string option \<Rightarrow> sweep_result \<Rightarrow> monitoring_state \<Rightarrow> monitoring_state" where
  "finish_run run_id res s =
     s\<lparr>mw_runs := update_where (\<lambda>r. Some (rn_id r) = run_id)
         (\<lambda>r. r\<lparr>rn_status := RunCompleted, rn_users_evaluated := sr_users_evaluated res,
                rn_flows_evaluated := sr_flows_evaluated res, rn_alerts_raised := sr_alerts_raised res,
                rn_cases_opened := length (sr_cases res)\<rparr>) (mw_runs s)\<rparr>"

definition user_country :: "monitoring_state \<Rightarrow> string \<Rightarrow> string option" where
  "user_country s u = (case find_one (\<lambda>x. us_id x = u) (mw_users s) of None \<Rightarrow> None | Some x \<Rightarrow> rs_country x)"

definition result_of :: "string option \<Rightarrow> candidate list \<Rightarrow> cash_flow list \<Rightarrow> aml_rule list \<Rightarrow> sweep_progress \<Rightarrow> sweep_result" where
  "result_of run_id cs flows rules p =
     \<lparr>sr_run_id = run_id, sr_users_evaluated = length (remdups (map cd_user_id cs)), sr_flows_evaluated = length flows,
      sr_rules_applied = length rules, sr_alerts_raised = sp_raised p, sr_duplicates = sp_duplicates p,
      sr_below = sp_below p, sr_cases = sp_cases p, sr_skipped = False\<rparr>"

definition skipped_sweep :: sweep_result where
  "skipped_sweep =
     \<lparr>sr_run_id = None, sr_users_evaluated = 0, sr_flows_evaluated = 0, sr_rules_applied = 0, sr_alerts_raised = 0,
      sr_duplicates = 0, sr_below = 0, sr_cases = [], sr_skipped = True\<rparr>"

definition sweep_window :: "sweep_env \<Rightarrow> sweep_options \<Rightarrow> int \<times> int" where
  "sweep_window env opts =
     (let e = or_default (so_window_end opts) (ev_now (sv_case env))
      in (or_default (so_window_start opts) (e - 24 * hour_ms), e))"

definition sweep_flows :: "sweep_env \<Rightarrow> sweep_options \<Rightarrow> monitoring_state \<Rightarrow> cash_flow list" where
  "sweep_flows env opts s =
     (let (window_start, window_end) = sweep_window env opts
      in load_cash_flows (window_start - max_window_hours (active_flow_rules (am_rules (mw_aml s))) * hour_ms)
           window_end (so_user_id opts) s)"

definition sweep_candidates :: "sweep_env \<Rightarrow> sweep_options \<Rightarrow> monitoring_state \<Rightarrow> http_error + candidate list" where
  "sweep_candidates env opts s =
     (let (window_start, window_end) = sweep_window env opts
      in evaluate (sv_detect env) (user_country s) (active_flow_rules (am_rules (mw_aml s))) window_start window_end
           (group_by_user (sweep_flows env opts s)))"

definition first_progress :: "candidate list \<Rightarrow> cash_flow list \<Rightarrow> aml_state \<Rightarrow> sweep_progress" where
  "first_progress cs flows s =
     \<lparr>sp_seen = find_existing_keys (map (\<lambda>c. pm_dedupe_key (cd_match c)) cs) s,
      sp_open = open_case_rule_codes (map fst (group_by_user flows)) s,
      sp_raised = 0, sp_duplicates = 0, sp_below = 0, sp_cases = []\<rparr>"

definition run_sweep :: "sweep_env \<Rightarrow> sweep_options \<Rightarrow> sweep_result monitoring_handler" where
  "run_sweep env opts s =
     (if \<not> is_enabled env then done_with skipped_sweep s
      else (let (window_start, window_end) = sweep_window env opts;
                rules = active_flow_rules (am_rules (mw_aml s));
                flows = sweep_flows env opts s;
                run_id = (if so_dry_run opts then None else Some (sv_run_id env (length (mw_runs s))));
                s1 = (if so_dry_run opts then s
                      else s\<lparr>mw_runs := insert_row (start_run env window_start window_end (length rules) s) (mw_runs s)\<rparr>)
            in case sweep_candidates env opts s of
                 Inl e \<Rightarrow> throw e s1
               | Inr cs \<Rightarrow>
                   (case process_candidates env rules (so_dry_run opts) run_id cs (first_progress cs flows (mw_aml s)) (mw_aml s) of
                      (Inl e, a) \<Rightarrow> throw e (s1\<lparr>mw_aml := a\<rparr>)
                    | (Inr p, a) \<Rightarrow>
                        (let res = result_of run_id cs flows rules p; s2 = s1\<lparr>mw_aml := a\<rparr>
                         in done_with res (if so_dry_run opts then s2 else finish_run run_id res s2)))))"

definition monitor_user :: "sweep_env \<Rightarrow> string \<Rightarrow> int \<Rightarrow> bool \<Rightarrow> sweep_result monitoring_handler" where
  "monitor_user env user_id lookback_hours dry =
     run_sweep env
       \<lparr>so_window_start = Some (ev_now (sv_case env) - lookback_hours * hour_ms), so_window_end = Some (ev_now (sv_case env)),
        so_user_id = Some user_id, so_dry_run = dry\<rparr>"

definition alerts_for_user :: "string \<Rightarrow> nat \<Rightarrow> aml_state \<Rightarrow> aml_alert list" where
  "alerts_for_user user_id limit s =
     take limit (sort_key (\<lambda>a. - al_created_at a) (find_where (\<lambda>a. al_user_id a = Some user_id) (am_alerts s)))"

subsection \<open>The hourly sweep\<close>

text \<open>An error of the sweep is only logged, and the flag is cleared in any case.\<close>

definition run_hourly_sweep :: "sweep_env \<Rightarrow> monitoring_state \<Rightarrow> monitoring_state" where
  "run_hourly_sweep env s =
     (if \<not> is_enabled env \<or> mw_in_flight s then s
      else (let (created, rules) = ensure_defaults (sv_rule_id env) None (am_rules (mw_aml s));
                s1 = s\<lparr>mw_in_flight := True, mw_aml := (mw_aml s)\<lparr>am_rules := rules\<rparr>\<rparr>;
                now = ev_now (sv_case env);
                (outcome, s2) = run_sweep env
                  \<lparr>so_window_start = Some (now - hour_ms), so_window_end = Some now, so_user_id = None, so_dry_run = False\<rparr> s1
            in s2\<lparr>mw_in_flight := False\<rparr>))"

subsection \<open>Steps\<close>

text \<open>
  Requests and the parts of a sweep run one after the other, with new rows that have identifiers of their own. The
  alert that a sweep raises names a rule of the table.
\<close>

inductive aml_step :: "aml_state \<Rightarrow> aml_state \<Rightarrow> bool" where
  create_rule: "new_id \<notin> ar_id ` set (am_rules s) \<Longrightarrow>
     aml_step s (s\<lparr>am_rules := snd (create_rule new_id actor rdto (am_rules s))\<rparr>)"
| update_rule: "aml_step s (s\<lparr>am_rules := snd (update_rule i rdto (am_rules s))\<rparr>)"
| set_enabled: "aml_step s (s\<lparr>am_rules := snd (set_enabled i enabled (am_rules s))\<rparr>)"
| recalculate: "aml_step s (s\<lparr>am_rules := snd (recalculate_sensitivity i (am_rules s))\<rparr>)"
| seed: "inj rule_ids \<Longrightarrow> range rule_ids \<inter> ar_id ` set (am_rules s) = {} \<Longrightarrow>
     aml_step s (s\<lparr>am_rules := snd (ensure_defaults rule_ids actor (am_rules s))\<rparr>)"
| raise: "sv_alert_id env (length (am_alerts s)) \<notin> al_id ` set (am_alerts s) \<Longrightarrow>
     r \<in> set (am_rules s) \<Longrightarrow> pm_rule_id (cd_match c) = ar_id r \<Longrightarrow> 0 \<le> pm_risk_score (cd_match c) \<Longrightarrow>
     pm_risk_score (cd_match c) \<le> 100 \<Longrightarrow> aml_step s (snd (raise_alert env run_id c s))"
| create_case: "ev_case_id cenv (length (am_cases s)) \<notin> ac_id ` set (am_cases s) \<Longrightarrow>
     aml_step s (snd (create_case cenv cdto actor s))"
| attach: "aml_step s (snd (attach_alerts cenv case_id ids actor s))"
| update_case: "aml_step s (snd (update_case cenv case_id udto actor s))"
| close_case: "aml_step s (snd (close_case cenv case_id d notes actor s))"
| triage: "aml_step s (snd (triage_alert cenv alert_id d reason actor s))"

definition no_aml_rows :: aml_state where
  "no_aml_rows = \<lparr>am_rules = [], am_alerts = [], am_cases = [], am_feedback = []\<rparr>"

definition aml_reachable :: "aml_state \<Rightarrow> bool" where
  "aml_reachable s \<longleftrightarrow> aml_step\<^sup>*\<^sup>* no_aml_rows s"

end
