(* ===== verification/AmlDetectorProps.thy ===== *)
theory AmlDetectorProps
  imports AmlDetectors
begin

text \<open>
  What the detectors find: structuring is reported exactly when some deposits show it, the scores stay
  in their range, and a history of equal amounts hides every amount from the behavioural detector.
\<close>

subsection \<open>Windows\<close>

lemma subseq_takeWhile:
  "subseq S L \<Longrightarrow> sorted_wrt (\<lambda>a b. P b \<longrightarrow> P a) L \<Longrightarrow> list_all P S \<Longrightarrow> subseq S (takeWhile P L)"
proof (induction L arbitrary: S)
  case (Cons x L)
  show ?case
  proof (cases S)
    case (Cons y S')
    have "y \<in> set (x # L)" using \<open>S = y # S'\<close> Cons.prems(1) subseq_set [of S "x # L"] by auto
    then have "P x" using Cons.prems(2,3) \<open>S = y # S'\<close> by auto
    then show ?thesis using Cons.IH [of S'] Cons.IH [of S] Cons.prems \<open>S = y # S'\<close> by (auto split: if_splits)
  qed simp
qed simp

lemma window_covers:
  "subseq (f # S) L \<Longrightarrow> sorted_wrt (\<lambda>a b. fw_at a \<le> fw_at b) L \<Longrightarrow> list_all (\<lambda>g. fw_at g - fw_at f \<le> hours * hour_ms) (f # S)
    \<Longrightarrow> \<exists>w \<in> set (windows hours L). subseq (f # S) w \<and> hd w = f"
proof (induction L)
  case (Cons x L)
  let ?P = "\<lambda>g. fw_at g - fw_at f \<le> hours * hour_ms"
  show ?case
  proof (cases "f = x")
    case True
    have "sorted_wrt (\<lambda>a b. ?P b \<longrightarrow> ?P a) (x # L)"
      by (rule sorted_wrt_mono_rel [OF _ Cons.prems(2)]) linarith
    then have "subseq (f # S) (takeWhile ?P (x # L))"
      by (rule subseq_takeWhile [OF Cons.prems(1) _ Cons.prems(3)])
    moreover have "?P x" using True Cons.prems(3) by simp
    ultimately show ?thesis using True by (simp add: Let_def)
  next
    case False
    then have "subseq (f # S) L" using Cons.prems(1) by (simp add: subseq_Cons2_neq)
    then obtain w where "w \<in> set (windows hours L)" "subseq (f # S) w" "hd w = f"
      using Cons.IH Cons.prems(2,3) by auto
    then show ?thesis by (auto simp: Let_def)
  qed
qed simp

lemma windowD:
  "w \<in> set (windows hours L) \<Longrightarrow>
     w \<noteq> [] \<and> subseq w L \<and> list_all (\<lambda>g. fw_at g - fw_at (hd w) \<le> hours * hour_ms) w"
proof (induction L)
  case (Cons x L)
  let ?P = "\<lambda>g. fw_at g - fw_at x \<le> hours * hour_ms"
  show ?case
  proof (cases "w = takeWhile ?P (x # L) \<and> w \<noteq> []")
    case True
    then have "hd w = x" "?P x" by (auto split: if_splits)
    moreover have "prefix w (x # L)" using True by (simp add: takeWhile_is_prefix)
    moreover have "list_all ?P w" using True by (auto simp: list_all_iff dest: set_takeWhileD)
    ultimately show ?thesis using True by (auto intro: prefix_imp_subseq)
  next
    case False
    then have "w \<in> set (windows hours L)" using Cons.prems by (auto simp: Let_def split: if_splits)
    then show ?thesis using Cons.IH by auto
  qed
qed simp

subsection \<open>Sums of amounts\<close>

lemma sum_js_subseq_aux:
  assumes "subseq xs ys" "a \<le> b" "fl b = b" "list_all (\<lambda>y. 0 \<le> f y) ys"
  shows "foldl (\<lambda>s x. add_js s (f x)) a xs \<le> foldl (\<lambda>s x. add_js s (f x)) b ys"
  using assms
proof (induction arbitrary: a b rule: list_emb.induct)
  case (list_emb_Nil ys)
  then show ?case
  proof (induction ys arbitrary: b)
    case (Cons y ys)
    have "b \<le> add_js b (f y)"
      using fl_mono [of b "b + f y"] Cons.prems by (simp add: add_js_def)
    then show ?case using Cons by (simp add: add_js_def)
  qed simp
next
  case (list_emb_Cons xs ys y)
  have "b \<le> add_js b (f y)"
    using fl_mono [of b "b + f y"] list_emb_Cons.prems by (simp add: add_js_def)
  then show ?case using list_emb_Cons by (simp add: add_js_def)
next
  case (list_emb_Cons2 x y xs ys)
  then have "add_js a (f x) \<le> add_js b (f y)" by (simp add: add_js_def fl_mono)
  then show ?case using list_emb_Cons2 by (simp add: add_js_def)
qed

lemma sum_js_subseq: "subseq xs ys \<Longrightarrow> list_all (\<lambda>y. 0 \<le> f y) ys \<Longrightarrow> sum_js f xs \<le> sum_js f ys"
  unfolding sum_js_def by (rule sum_js_subseq_aux) simp_all

subsection \<open>Matches of the loops\<close>

lemma collect_sound:
  "m \<in> set (collect_matches f seen xs) \<Longrightarrow> pm_dedupe_key m \<notin> set seen \<and> (\<exists>x \<in> set xs. f x = Some m)"
  by (induction xs arbitrary: seen) (force split: option.splits if_splits)+

lemma collect_covers:
  "x \<in> set xs \<Longrightarrow> f x = Some m \<Longrightarrow>
     pm_dedupe_key m \<in> set seen \<or> pm_dedupe_key m \<in> pm_dedupe_key ` set (collect_matches f seen xs)"
proof (induction xs arbitrary: seen)
  case (Cons y ys)
  show ?case
  proof (cases "x = y")
    case True
    then show ?thesis using Cons.prems(2) by simp
  next
    case False
    then have "x \<in> set ys" using Cons.prems(1) by simp
    then show ?thesis
      using Cons.IH [of seen] Cons.IH [of "pm_dedupe_key (the (f y)) # seen"] Cons.prems(2) by (auto split: option.splits)
  qed
qed simp

lemma collect_distinct: "distinct (map pm_dedupe_key (collect_matches f seen xs))"
proof (induction xs arbitrary: seen)
  case (Cons y ys)
  show ?case using Cons.IH collect_sound [of _ f _ ys] by (fastforce split: option.splits)
qed simp

subsection \<open>Structuring\<close>

text \<open>
  Deposits that show structuring: each small enough, in the order of time, all within the hours of the rule after
  the first, at least as many as the rule demands, and of a sum that reaches its threshold.
\<close>

definition shows_structuring :: "detector_env \<Rightarrow> aml_rule \<Rightarrow> cash_flow list \<Rightarrow> cash_flow list \<Rightarrow> bool" where
  "shows_structuring env r flows S \<longleftrightarrow> S \<noteq> [] \<and> subseq S (eligible_flows env r flows)
     \<and> list_all (\<lambda>g. fw_at g - fw_at (hd S) \<le> ar_window_hours r * hour_ms) S
     \<and> num env (parameter ''minFlowCount'' r) 3 \<le> of_nat (length S)
     \<and> num env (parameter ''aggregateThresholdUsd'' r) 10000 \<le> sum_usd S"

lemma eligible_sorted: "sorted_wrt (\<lambda>a b. fw_at a \<le> fw_at b) (eligible_flows env r flows)"
  using sorted_sort_key [of fw_at] by (simp add: eligible_flows_def by_time_def sorted_map)

lemma window_key_hd: "xs \<noteq> [] \<Longrightarrow> ys \<noteq> [] \<Longrightarrow> hd xs = hd ys \<Longrightarrow> window_key r k xs = window_key r k ys"
  by (cases xs; cases ys) (simp_all add: window_key_def window_start_label_def)

lemma detect_sound:
  assumes "m \<in> set (detect_structuring env r flows)"
  shows "\<exists>S. shows_structuring env r flows S \<and> pm_flow_ids m = map fw_id S \<and> pm_dedupe_key m = window_key r ''structuring'' S"
proof -
  obtain w where w: "w \<in> set (windows (ar_window_hours r) (eligible_flows env r flows))" "structuring_match env r w = Some m"
    using collect_sound assms unfolding detect_structuring_def by blast
  then have "shows_structuring env r flows w" "pm_flow_ids m = map fw_id w" "pm_dedupe_key m = window_key r ''structuring'' w"
    using windowD [OF w(1)]
    by (auto simp: shows_structuring_def structuring_match_def matched_def Let_def not_less split: if_splits)
  then show ?thesis by blast
qed

lemma detect_complete:
  assumes nonneg: "list_all (\<lambda>f. 0 \<le> fw_amount_usd f) flows" and S: "shows_structuring env r flows S"
  shows "window_key r ''structuring'' S \<in> pm_dedupe_key ` set (detect_structuring env r flows)"
proof -
  let ?L = "eligible_flows env r flows"
  obtain f S' where f: "S = f # S'" using S by (cases S) (auto simp: shows_structuring_def)
  obtain w where w: "w \<in> set (windows (ar_window_hours r) ?L)" "subseq S w" "hd w = f"
    using window_covers [OF _ eligible_sorted] S f unfolding shows_structuring_def by fastforce
  have "subseq w ?L" using windowD [OF w(1)] by simp
  then have "list_all (\<lambda>f. 0 \<le> fw_amount_usd f) w"
    using nonneg subseq_set [of w ?L] by (auto simp: list_all_iff eligible_flows_def by_time_def)
  then have "sum_usd S \<le> sum_usd w" unfolding sum_usd_def by (rule sum_js_subseq [OF w(2)])
  moreover have "(of_nat (length S) :: rat) \<le> of_nat (length w)" using list_emb_length [OF w(2)] by simp
  ultimately have "\<exists>m. structuring_match env r w = Some m \<and> pm_dedupe_key m = window_key r ''structuring'' w"
    using S by (simp add: structuring_match_def shows_structuring_def Let_def not_less matched_def)
  then obtain m where m: "structuring_match env r w = Some m" "pm_dedupe_key m = window_key r ''structuring'' w" by blast
  have "window_key r ''structuring'' w = window_key r ''structuring'' S"
    by (rule window_key_hd) (use w f in auto)
  then show ?thesis using collect_covers [where f = "structuring_match env r" and seen = "[]", OF w(1) m(1)] m(2) by (simp add: detect_structuring_def)
qed

text \<open>
  C22: Detection of structuring (functional). For movements with amounts that are not negative: every match of the
  detector consists of deposits that show structuring, and carries their key, their identifiers and a score between 0
  and 100; and whatever deposits show structuring, a match with the key of their first deposit is reported. No two
  matches have the same key.
\<close>

theorem structuring_is_detected:
  assumes "list_all (\<lambda>f. 0 \<le> fw_amount_usd f) flows"
  shows "pm_dedupe_key ` set (detect_structuring env r flows) = window_key r ''structuring'' ` Collect (shows_structuring env r flows)
    \<and> distinct (map pm_dedupe_key (detect_structuring env r flows))
    \<and> (\<forall>m \<in> set (detect_structuring env r flows). \<exists>S. shows_structuring env r flows S
         \<and> pm_flow_ids m = map fw_id S \<and> pm_dedupe_key m = window_key r ''structuring'' S)"
proof (intro conjI ballI)
  show "pm_dedupe_key ` set (detect_structuring env r flows) = window_key r ''structuring'' ` Collect (shows_structuring env r flows)"
    using detect_sound detect_complete [OF assms] by fast
  show "distinct (map pm_dedupe_key (detect_structuring env r flows))"
    unfolding detect_structuring_def by (rule collect_distinct)
qed (rule detect_sound)

text \<open>Three deposits of 4000 dollars under the rule that the program ships.\<close>

definition example_detector_env :: detector_env where
  "example_detector_env = \<lparr>dn_text_number = (\<lambda>_. None), dn_log10 = (\<lambda>_. 0), dn_sqrt = (\<lambda>x. x)\<rparr>"

definition example_flow :: "string \<Rightarrow> jsnum \<Rightarrow> int \<Rightarrow> string option \<Rightarrow> cash_flow" where
  "example_flow i amount t country =
     \<lparr>fw_id = i, fw_user_id = ''u1'', fw_direction = FlowIn, fw_amount_usd = amount, fw_at = t, fw_deal_id = None,
      fw_source = FromInvestments, fw_country = country, fw_commodity = None\<rparr>"

definition example_deposits :: "cash_flow list" where
  "example_deposits = [example_flow ''f1'' 4000 0 None, example_flow ''f2'' 4000 3600000 None, example_flow ''f3'' 4000 7200000 None]"

definition example_structuring_rule :: aml_rule where
  "example_structuring_rule = preset ''S'' [] Structuring SeverityHigh ActFlagReview 24 70 45
     [(''maxIndividualAmountUsd'', NumberValue 9500), (''aggregateThresholdUsd'', NumberValue 10000), (''minFlowCount'', NumberValue 3)] []"

lemma example_shows_structuring:
  "shows_structuring example_detector_env example_structuring_rule example_deposits example_deposits"
proof -
  have num: "num example_detector_env (parameter ''maxIndividualAmountUsd'' example_structuring_rule) x = 9500"
    "num example_detector_env (parameter ''aggregateThresholdUsd'' example_structuring_rule) x = 10000"
    "num example_detector_env (parameter ''minFlowCount'' example_structuring_rule) x = 3" for x
    by (simp_all add: num_def parameter_def example_structuring_rule_def preset_def or_default_def)
  have "eligible_flows example_detector_env example_structuring_rule example_deposits = example_deposits"
    by (simp add: eligible_flows_def num by_time_def example_deposits_def example_flow_def)
  moreover have "sum_usd example_deposits = 12000"
    by (simp add: sum_usd_def sum_js_def example_deposits_def example_flow_def add_js_def)
  moreover have "list_all (\<lambda>g. fw_at g - fw_at (hd example_deposits) \<le> ar_window_hours example_structuring_rule * hour_ms) example_deposits"
    by (simp add: example_deposits_def example_flow_def example_structuring_rule_def preset_def hour_ms_def)
  ultimately show ?thesis by (simp add: shows_structuring_def num) (simp add: example_deposits_def)
qed

theorem structuring_is_detected_witness:
  "window_key example_structuring_rule ''structuring'' example_deposits
     \<in> pm_dedupe_key ` set (detect_structuring example_detector_env example_structuring_rule example_deposits)"
proof -
  have "list_all (\<lambda>f. 0 \<le> fw_amount_usd f) example_deposits" by (simp add: example_deposits_def example_flow_def)
  from structuring_is_detected [OF this, of example_detector_env example_structuring_rule] show ?thesis
    using example_shows_structuring by auto
qed

subsection \<open>Scores\<close>

lemma round_cents_bounds:
  assumes "0 \<le> x" "x \<le> 100"
  shows "0 \<le> round_cents x" and "round_cents x \<le> 100"
proof -
  have "0 \<le> mul_js x 100" using assms by (simp add: mul_js_def fl_nonneg)
  moreover have "mul_js x 100 \<le> 10000"
    using fl_le_int [of "x * 100" 10000] assms by (simp add: mul_js_def)
  ultimately have "0 \<le> \<lfloor>mul_js x 100 + 1 / 2\<rfloor>" "\<lfloor>mul_js x 100 + 1 / 2\<rfloor> \<le> 10000" by linarith+
  then have r: "0 \<le> math_round (mul_js x 100)" "math_round (mul_js x 100) \<le> 10000"
    unfolding math_round_def by simp_all
  then show "0 \<le> round_cents x" by (simp add: round_cents_def div_js_def fl_nonneg)
  show "round_cents x \<le> 100"
    using fl_le_int [of "math_round (mul_js x 100) / 100" 100] r by (simp add: round_cents_def div_js_def)
qed

lemma effective_score_bounds: "0 \<le> effective_risk_score r b \<and> effective_risk_score r b \<le> 100"
  by (simp add: effective_risk_score_def clamp_score_def round_cents_bounds)

text \<open>Every match of every detector belongs to its rule and has a score in the range.\<close>

definition match_of :: "aml_rule \<Rightarrow> pattern_match \<Rightarrow> bool" where
  "match_of r m \<longleftrightarrow> pm_rule_id m = ar_id r \<and> pm_rule_code m = ar_rule_code r \<and> 0 \<le> pm_risk_score m \<and> pm_risk_score m \<le> 100"

lemma match_of_matched [simp]: "match_of r (matched r k key amount flows b)"
  by (simp add: match_of_def matched_def effective_score_bounds)

lemma match_of_behaviour [simp]: "match_of r (behaviour_match r a)"
  by (simp add: match_of_def behaviour_match_def Let_def effective_score_bounds)

lemma match_of_collected:
  "m \<in> set (collect_matches f seen xs) \<Longrightarrow> (\<And>x m. f x = Some m \<Longrightarrow> match_of r m) \<Longrightarrow> match_of r m"
  using collect_sound by blast

lemmas match_functions = structuring_match_def rapid_match_def layering_match_def velocity_match_def counterparty_match_def
  high_value_match_def

lemma jurisdiction_matches:
  "detect_high_risk_jurisdiction r flows country = Inr ms \<Longrightarrow> m \<in> set ms \<Longrightarrow> match_of r m"
  by (auto simp: detect_high_risk_jurisdiction_def Let_def counterparty_match_def elim!: match_of_collected
      split: sum.splits if_splits)

lemma run_detector_matches:
  assumes "run_detector env r flows country = Inr ms" "m \<in> set ms"
  shows "match_of r m"
proof -
  have "match_of r m" if "m \<in> set (detect_structuring env r flows)"
    using that unfolding detect_structuring_def by (rule match_of_collected) (auto simp: match_functions Let_def split: if_splits)
  moreover have "match_of r m" if "m \<in> set (detect_rapid_movement env r flows)"
    using that unfolding detect_rapid_movement_def Let_def by (rule match_of_collected) (auto simp: match_functions Let_def split: if_splits)
  moreover have "match_of r m" if "m \<in> set (detect_layering env r flows)"
    using that unfolding detect_layering_def by (rule match_of_collected) (auto simp: match_functions Let_def split: if_splits)
  moreover have "match_of r m" if "m \<in> set (detect_velocity env r flows)"
    using that unfolding detect_velocity_def by (rule match_of_collected) (auto simp: match_functions Let_def split: if_splits)
  moreover have "match_of r m" if "m \<in> set (detect_high_value env r flows)"
    using that by (auto simp: detect_high_value_def match_functions)
  moreover have "match_of r m" if "m \<in> set (detect_behavioural_anomalies env r flows)"
    using that by (auto simp: detect_behavioural_anomalies_def)
  ultimately show ?thesis
    using assms jurisdiction_matches by (auto simp: run_detector_def split: if_splits aml_pattern.splits)
qed

subsection \<open>Behaviour\<close>

lemma sum_js_zero: "list_all (\<lambda>x. f x = 0) xs \<Longrightarrow> sum_js f xs = 0"
  by (induction xs rule: rev_induct) (simp_all add: sum_js_snoc add_js_def)

lemma stddev_of_equal:
  assumes "0 \<le> a" "int n * a \<le> 2 ^ 53" "dn_sqrt env 0 = 0"
  shows "stddev env (replicate n (of_int a)) = 0"
proof (cases "n = 0")
  case False
  have "sum_js (\<lambda>x. x) (replicate n (of_int a)) = of_int (\<Sum>x\<leftarrow>replicate n (of_int a :: rat). \<lfloor>x\<rfloor>)"
    by (rule sum_js_int [where g = "\<lambda>x. \<lfloor>x\<rfloor>"]) (use assms in \<open>auto simp: sum_list_replicate\<close>)
  then have "mean_of (replicate n (of_int a)) = fl (of_int (int n * a) / of_nat n)"
    using False by (simp add: mean_of_def div_js_def sum_list_replicate)
  also have "\<dots> = fl (of_int a)" using False by simp
  also have "\<dots> = of_int a"
  proof (rule fl_of_int)
    have "a \<le> int n * a" using False assms(1) by (simp add: mult_le_cancel_right1)
    then show "\<bar>a\<bar> \<le> 2 ^ 53" using assms by linarith
  qed
  finally have "mean_of (replicate n (of_int a)) = of_int a" .
  then have "sum_js (\<lambda>x. mul_js (sub_js x (mean_of (replicate n (of_int a)))) (sub_js x (mean_of (replicate n (of_int a)))))
      (replicate n (of_int a)) = 0"
    by (intro sum_js_zero) (simp add: sub_js_def mul_js_def list_all_iff)
  then show ?thesis by (simp add: stddev_def div_js_def assms(3))
qed (simp add: stddev_def)

text \<open>
  A constant history hides every amount (safety). When the movements before the recent ones all have the same
  positive amount, no recent movement is reported for its amount, however large it is: its distance from the
  history counts as zero, and what is reported is reported for its cadence or its country.
\<close>

theorem constant_history_hides_amounts:
  assumes "map fw_amount_usd (take (split_at (by_time flows) recent) (by_time flows)) = replicate n (of_int a)"
    and "0 < a" "int n * a \<le> 2 ^ 53" "dn_sqrt env 0 = 0" "0 < t"
    and "x \<in> set (find_behavioural_anomalies env flows (Some t) min_samples recent)"
  shows "ba_amount_z x = 0 \<and> (ba_cadence_z x \<noteq> None \<or> ba_new_country x \<noteq> None)"
proof -
  let ?b = "build_baseline env flows recent"
  have "filter (\<lambda>v. 0 < v) (replicate n (of_int a :: rat)) = replicate n (of_int a)" using assms(2) by simp
  then have "bb_stddev_amount ?b = 0"
    using stddev_of_equal [of a n env] assms(1-4)
    by (simp add: build_baseline_def Let_def round_cents_def mul_js_def div_js_def math_round_def)
  moreover obtain p f where "flow_anomaly ?b (Some t) p f = Some x"
    using assms(6) by (auto simp: find_behavioural_anomalies_def Let_def List.map_filter_def split: if_splits)
  ultimately show ?thesis
    using assms(5) by (auto simp: flow_anomaly_def Let_def z_score_def reaches_def split: if_splits)
qed

text \<open>Six movements of 400 dollars and then one of 18000 dollars to a country that is new to the account.\<close>

definition example_history :: "cash_flow list" where
  "example_history = replicate 6 (example_flow ''f1'' 400 0 None) @ [example_flow ''f2'' 18000 0 (Some ''NG'')]"

theorem constant_history_hides_amounts_witness:
  "\<exists>x. x \<in> set (find_behavioural_anomalies example_detector_env example_history (Some 3) (Some 5) (Some 1)) \<and> ba_amount_z x = 0"
proof -
  have time: "by_time example_history = example_history"
    by (simp add: by_time_def example_history_def example_flow_def numeral_eq_Suc)
  have split: "split_at example_history (Some 1) = 6"
    by (simp add: split_at_def example_history_def sub_js_def)
  have history: "take 6 example_history = replicate 6 (example_flow ''f1'' 400 0 None)" "example_history ! 6 = example_flow ''f2'' 18000 0 (Some ''NG'')"
    "example_history ! 5 = example_flow ''f1'' 400 0 None" "length example_history = 7"
    by (simp_all add: example_history_def nth_append)
  have baseline: "bb_sample_count (build_baseline example_detector_env example_history (Some 1)) = 6"
    "bb_known_countries (build_baseline example_detector_env example_history (Some 1)) = []"
    by (simp_all add: build_baseline_def Let_def time split history example_flow_def)
  have "[split_at example_history (Some 1)..<length example_history] = [6]" by (simp add: split history upt_rec)
  moreover have "\<exists>x. flow_anomaly (build_baseline example_detector_env example_history (Some 1)) (Some 3) p (example_history ! 6) = Some x" for p
    by (simp add: flow_anomaly_def Let_def baseline history example_flow_def)
  ultimately obtain x where x: "x \<in> set (find_behavioural_anomalies example_detector_env example_history (Some 3) (Some 5) (Some 1))"
    by (auto simp: find_behavioural_anomalies_def Let_def baseline time List.map_filter_def)
  have "ba_amount_z x = 0 \<and> (ba_cadence_z x \<noteq> None \<or> ba_new_country x \<noteq> None)"
    by (rule constant_history_hides_amounts [where a = 400 and n = 6, OF _ _ _ _ _ x])
      (simp_all add: time split history example_detector_env_def example_flow_def)
  then show ?thesis using x by blast
qed

end
