(* ===== verification/AmlCaseProps.thy ===== *)
theory AmlCaseProps
  imports AmlMonitoring AmlDetectorProps
begin

text \<open>
  Properties of rules, alerts, cases and judgements under any order of requests: the counters and the multiplier of a
  rule follow the recorded judgements, an alert belongs to at most one case and is judged at most once, the numbers of
  cases differ; and how closed cases, judged alerts and overlapping requests behave.
\<close>

subsection \<open>Rules and judgements\<close>

definition verdicts :: "bool \<Rightarrow> string \<Rightarrow> disposition_feedback list \<Rightarrow> nat" where
  "verdicts false_positive i rows =
     affected (\<lambda>f. fb_rule_id f = Some i \<and> (fb_disposition f = DispositionFalsePositive) = false_positive) rows"

definition learnt :: "disposition_feedback list \<Rightarrow> aml_rule \<Rightarrow> bool" where
  "learnt rows r \<longleftrightarrow> ar_false_positives r = verdicts True (ar_id r) rows \<and> ar_true_positives r = verdicts False (ar_id r) rows
     \<and> ar_sensitivity r = sensitivity_from_disposition (ar_false_positives r) (ar_true_positives r)"

definition rules_ok :: "aml_state \<Rightarrow> bool" where
  "rules_ok s \<longleftrightarrow> distinct (map ar_id (am_rules s)) \<and> list_all (learnt (am_feedback s)) (am_rules s)
     \<and> list_all (\<lambda>f. \<forall>i. fb_rule_id f = Some i \<longrightarrow> i \<in> ar_id ` set (am_rules s)) (am_feedback s)
     \<and> list_all (\<lambda>a. \<forall>i. al_rule_id a = Some i \<longrightarrow> i \<in> ar_id ` set (am_rules s)) (am_alerts s)"

lemma rules_okI:
  assumes "distinct (map ar_id (am_rules s))" "\<And>r. r \<in> set (am_rules s) \<Longrightarrow> learnt (am_feedback s) r"
    and "\<And>f i. f \<in> set (am_feedback s) \<Longrightarrow> fb_rule_id f = Some i \<Longrightarrow> i \<in> ar_id ` set (am_rules s)"
    and "\<And>a i. a \<in> set (am_alerts s) \<Longrightarrow> al_rule_id a = Some i \<Longrightarrow> i \<in> ar_id ` set (am_rules s)"
  shows "rules_ok s"
  using assms by (simp add: rules_ok_def list_all_iff)

lemma rules_okD:
  assumes "rules_ok s"
  shows "distinct (map ar_id (am_rules s))" "r \<in> set (am_rules s) \<Longrightarrow> learnt (am_feedback s) r"
    and "f \<in> set (am_feedback s) \<Longrightarrow> fb_rule_id f = Some i \<Longrightarrow> i \<in> ar_id ` set (am_rules s)"
    and "a \<in> set (am_alerts s) \<Longrightarrow> al_rule_id a = Some i \<Longrightarrow> i \<in> ar_id ` set (am_rules s)"
  using assms by (simp_all add: rules_ok_def list_all_iff)

definition judged_ids :: "disposition_feedback list \<Rightarrow> string list" where
  "judged_ids rows = List.map_filter fb_alert_id rows"

definition alerts_ok :: "aml_state \<Rightarrow> bool" where
  "alerts_ok s \<longleftrightarrow> distinct (map al_id (am_alerts s)) \<and> distinct (map al_dedupe_key (am_alerts s))
     \<and> list_all (\<lambda>a. 0 \<le> al_risk_score a \<and> al_risk_score a \<le> 100) (am_alerts s)
     \<and> distinct (judged_ids (am_feedback s))
     \<and> set (judged_ids (am_feedback s)) = al_id ` {a \<in> set (am_alerts s). al_reviewed_at a \<noteq> None}"

lemma sensitivity_start [simp]: "sensitivity_from_disposition 0 0 = 1"
  by (simp add: sensitivity_from_disposition_def)

lemma verdicts_insert:
  "verdicts b i (insert_row f rows) =
     verdicts b i rows + (if fb_rule_id f = Some i \<and> (fb_disposition f = DispositionFalsePositive) = b then 1 else 0)"
  by (simp add: verdicts_def affected_def insert_row_def)

lemma verdicts_none:
  "list_all (\<lambda>f. \<forall>j. fb_rule_id f = Some j \<longrightarrow> j \<in> ids) rows \<Longrightarrow> i \<notin> ids \<Longrightarrow> verdicts b i rows = 0"
  by (auto simp: verdicts_def list_all_iff)

text \<open>What the operations on the table of rules keep.\<close>

definition rules_follow :: "aml_rule list \<Rightarrow> aml_rule list \<Rightarrow> bool" where
  "rules_follow rs rs' \<longleftrightarrow> map ar_id rs' = map ar_id rs \<and>
     list_all2 (\<lambda>r r'. ar_false_positives r' = ar_false_positives r \<and> ar_true_positives r' = ar_true_positives r
       \<and> (ar_sensitivity r' = ar_sensitivity r
          \<or> ar_sensitivity r' = sensitivity_from_disposition (ar_false_positives r) (ar_true_positives r))) rs rs'"

lemma rules_follow_refl [simp]: "rules_follow rs rs"
  by (simp add: rules_follow_def list_all2_refl)

lemma rules_follow_save:
  assumes "distinct (map ar_id rs)" "get_rule i rs = Inr r" "ar_id r' = ar_id r"
    and "ar_false_positives r' = ar_false_positives r" "ar_true_positives r' = ar_true_positives r"
    and "ar_sensitivity r' = ar_sensitivity r
          \<or> ar_sensitivity r' = sensitivity_from_disposition (ar_false_positives r) (ar_true_positives r)"
  shows "rules_follow rs (save_rule r' rs)"
proof -
  have r: "r \<in> set rs" using assms(2) by (auto simp: get_rule_def find_rule_def split: option.splits dest: find_one_SomeD)
  have "map ar_id (save_rule r' rs) = map ar_id rs"
    using map_update_key [OF assms(1) r, of ar_id r'] assms(3) by (simp add: save_rule_def)
  moreover have "x = r" if "x \<in> set rs" "ar_id x = ar_id r" for x
    using assms(1) r that by (auto simp: distinct_map dest: inj_onD)
  ultimately show ?thesis
    using assms(3-6) unfolding rules_follow_def save_rule_def update_where_def list_all2_map2
    by (auto intro!: list.rel_refl_strong)
qed

lemma learnt_follow:
  assumes "rules_follow (am_rules s) rs'" "rules_ok s"
  shows "rules_ok (s\<lparr>am_rules := rs'\<rparr>)"
proof -
  have ids: "ar_id ` set rs' = ar_id ` set (am_rules s)"
    using assms(1) unfolding rules_follow_def by (metis list.set_map)
  have "list_all (learnt (am_feedback s)) rs'"
    unfolding list_all_length
  proof (intro allI impI)
    fix n assume n: "n < length rs'"
    then have len: "n < length (am_rules s)" using assms(1) by (auto simp: rules_follow_def dest: list_all2_lengthD)
    have "map ar_id rs' ! n = map ar_id (am_rules s) ! n" using assms(1) by (simp add: rules_follow_def)
    then have "ar_id (rs' ! n) = ar_id (am_rules s ! n)" using n len by simp
    moreover have "learnt (am_feedback s) (am_rules s ! n)" using assms(2) len by (simp add: rules_ok_def list_all_length)
    ultimately show "learnt (am_feedback s) (rs' ! n)"
      using assms(1) len n unfolding rules_follow_def learnt_def by (auto dest: list_all2_nthD2)
  qed
  then show ?thesis using assms ids by (simp add: rules_ok_def rules_follow_def)
qed

lemma rules_ok_insert:
  assumes "rules_ok s" "ar_id r \<notin> ar_id ` set (am_rules s)" "ar_false_positives r = 0" "ar_true_positives r = 0" "ar_sensitivity r = 1"
  shows "rules_ok (s\<lparr>am_rules := insert_row r (am_rules s)\<rparr>)"
proof -
  have "verdicts b (ar_id r) (am_feedback s) = 0" for b
    using assms(1,2) verdicts_none unfolding rules_ok_def by blast
  then have "learnt (am_feedback s) r" using assms(3-5) by (simp add: learnt_def)
  then show ?thesis using assms(1,2) by (auto simp: rules_ok_def insert_row_def list_all_iff)
qed

lemma rules_ok_rule_requests:
  assumes "rules_ok s"
  shows "new_id \<notin> ar_id ` set (am_rules s) \<Longrightarrow> rules_ok (s\<lparr>am_rules := snd (create_rule new_id actor dto (am_rules s))\<rparr>)"
    and "rules_ok (s\<lparr>am_rules := snd (update_rule i dto (am_rules s))\<rparr>)"
    and "rules_ok (s\<lparr>am_rules := snd (set_enabled i enabled (am_rules s))\<rparr>)"
    and "rules_ok (s\<lparr>am_rules := snd (recalculate_sensitivity i (am_rules s))\<rparr>)"
proof -
  have d: "distinct (map ar_id (am_rules s))" using assms by (simp add: rules_ok_def)
  show "new_id \<notin> ar_id ` set (am_rules s) \<Longrightarrow> rules_ok (s\<lparr>am_rules := snd (create_rule new_id actor dto (am_rules s))\<rparr>)"
    using rules_ok_insert [OF assms] assms by (simp add: create_rule_def Let_def split: option.splits)
  show "rules_ok (s\<lparr>am_rules := snd (update_rule i dto (am_rules s))\<rparr>)"
    by (rule learnt_follow [OF _ assms])
      (simp add: update_rule_def Let_def rules_follow_save [OF d] updated_rule_def split: sum.splits option.splits)
  show "rules_ok (s\<lparr>am_rules := snd (set_enabled i enabled (am_rules s))\<rparr>)"
    by (rule learnt_follow [OF _ assms]) (simp add: set_enabled_def Let_def rules_follow_save [OF d] split: sum.splits)
  show "rules_ok (s\<lparr>am_rules := snd (recalculate_sensitivity i (am_rules s))\<rparr>)"
    by (rule learnt_follow [OF _ assms]) (simp add: recalculate_sensitivity_def Let_def rules_follow_save [OF d] split: sum.splits)
qed

lemma rules_ok_seed:
  assumes "inj new_id" "list_all (\<lambda>p. ar_false_positives p = 0 \<and> ar_true_positives p = 0 \<and> ar_sensitivity p = 1) ps"
    and "distinct (map ar_rule_code ps)" "rules_ok s" "\<forall>p \<in> set ps. new_id (ar_rule_code p) \<notin> ar_id ` set (am_rules s)"
  shows "rules_ok (s\<lparr>am_rules := snd (seed_rules new_id actor ps (am_rules s))\<rparr>)"
  using assms(2-5)
proof (induction ps arbitrary: s)
  case (Cons p ps)
  let ?r = "p\<lparr>ar_id := new_id (ar_rule_code p), ar_created_by := actor\<rparr>"
  have "rules_ok (s\<lparr>am_rules := insert_row ?r (am_rules s)\<rparr>)" using Cons.prems by (intro rules_ok_insert) simp_all
  moreover have "new_id (ar_rule_code q) \<noteq> new_id (ar_rule_code p)" if "q \<in> set ps" for q
    using assms(1) Cons.prems(2) that by (metis distinct.simps(2) imageI injD list.map(2) list.set_map)
  ultimately have "rules_ok (s\<lparr>am_rules := snd (seed_rules new_id actor ps (insert_row ?r (am_rules s)))\<rparr>)"
    using Cons.IH [of "s\<lparr>am_rules := insert_row ?r (am_rules s)\<rparr>"] Cons.prems by auto
  moreover have "rules_ok (s\<lparr>am_rules := snd (seed_rules new_id actor ps (am_rules s))\<rparr>)" using Cons by auto
  ultimately show ?case by (simp add: Let_def split_def)
qed simp

lemma default_codes_distinct: "distinct (map ar_rule_code default_rules)"
  by (simp add: default_rules_def preset_def)

lemma rules_ok_defaults:
  "inj new_id \<Longrightarrow> range new_id \<inter> ar_id ` set (am_rules s) = {} \<Longrightarrow> rules_ok s \<Longrightarrow>
   rules_ok (s\<lparr>am_rules := snd (ensure_defaults new_id actor (am_rules s))\<rparr>)"
  unfolding ensure_defaults_def
  by (rule rules_ok_seed) (auto simp: default_codes_distinct, simp_all add: default_rules_def preset_def)

subsection \<open>Alerts and their judgements\<close>

lemma judged_ids_insert:
  "judged_ids (insert_row f rows) = judged_ids rows @ (case fb_alert_id f of None \<Rightarrow> [] | Some i \<Rightarrow> [i])"
  by (simp add: judged_ids_def insert_row_def List.map_filter_def split: option.split)

text \<open>The table of alerts after a change that keeps what the invariants read.\<close>

definition alerts_follow :: "aml_alert list \<Rightarrow> aml_alert list \<Rightarrow> bool" where
  "alerts_follow as as' \<longleftrightarrow> list_all2 (\<lambda>a a'. al_id a' = al_id a \<and> al_dedupe_key a' = al_dedupe_key a \<and> al_risk_score a' = al_risk_score a
     \<and> al_rule_id a' = al_rule_id a \<and> al_reviewed_at a' = al_reviewed_at a) as as'"

lemma alerts_follow_refl [simp]: "alerts_follow as as"
  by (simp add: alerts_follow_def list_all2_refl)

lemma alerts_follow_group [simp]: "alerts_follow (am_alerts s) (am_alerts (group_alerts ids i s))"
  by (auto simp: alerts_follow_def group_alerts_def update_where_def list_all2_map2 intro!: list.rel_refl_strong)

lemma alerts_follow_maps:
  assumes "alerts_follow as as'"
  shows "map al_id as' = map al_id as" "map al_dedupe_key as' = map al_dedupe_key as"
    "map al_risk_score as' = map al_risk_score as" "map al_rule_id as' = map al_rule_id as"
    "map (\<lambda>a. (al_id a, al_reviewed_at a)) as' = map (\<lambda>a. (al_id a, al_reviewed_at a)) as"
  using assms unfolding alerts_follow_def
  by (induction rule: list_all2_induct) simp_all

lemma reviewed_ids: "al_id ` {a \<in> set as. al_reviewed_at a \<noteq> None} = fst ` {p \<in> set (map (\<lambda>a. (al_id a, al_reviewed_at a)) as). snd p \<noteq> None}"
  by force

lemma alerts_ok_follow:
  assumes "alerts_follow (am_alerts s) (am_alerts s')" "am_feedback s' = am_feedback s" "alerts_ok s"
  shows "alerts_ok s'"
proof -
  have "list_all (\<lambda>x. 0 \<le> x \<and> x \<le> 100) (map al_risk_score (am_alerts s))"
    using assms(3) by (simp add: alerts_ok_def list_all_iff)
  then have "list_all (\<lambda>x. 0 \<le> x \<and> x \<le> 100) (map al_risk_score (am_alerts s'))"
    using alerts_follow_maps(3) [OF assms(1)] by simp
  moreover have "al_id ` {a \<in> set (am_alerts s'). al_reviewed_at a \<noteq> None} = al_id ` {a \<in> set (am_alerts s). al_reviewed_at a \<noteq> None}"
    unfolding reviewed_ids alerts_follow_maps(5) [OF assms(1)] by (rule refl)
  ultimately show ?thesis
    using assms(2,3) alerts_follow_maps(1,2) [OF assms(1)] by (simp add: alerts_ok_def list_all_iff del: not_None_eq)
qed

lemma rules_ok_follow:
  assumes "alerts_follow (am_alerts s) (am_alerts s')" "am_feedback s' = am_feedback s" "am_rules s' = am_rules s" "rules_ok s"
  shows "rules_ok s'"
proof -
  have "list_all (\<lambda>x. \<forall>i. x = Some i \<longrightarrow> i \<in> ar_id ` set (am_rules s)) (map al_rule_id (am_alerts s'))"
    using assms(4) alerts_follow_maps(4) [OF assms(1)] by (simp add: rules_ok_def list_all_iff)
  then show ?thesis using assms(2-4) by (simp add: rules_ok_def list_all_iff)
qed

lemma raise_ok:
  assumes "rules_ok s" "alerts_ok s" "sv_alert_id env (length (am_alerts s)) \<notin> al_id ` set (am_alerts s)" "r \<in> set (am_rules s)"
    and "pm_rule_id (cd_match c) = ar_id r" "0 \<le> pm_risk_score (cd_match c)" "pm_risk_score (cd_match c) \<le> 100"
  shows "rules_ok (snd (raise_alert env run_id c s)) \<and> alerts_ok (snd (raise_alert env run_id c s))"
proof (cases "\<exists>a \<in> set (am_alerts s). al_dedupe_key a = pm_dedupe_key (cd_match c)")
  case True
  then show ?thesis using assms(1,2) by (simp add: raise_alert_def)
next
  case False
  let ?a = "alert_of env run_id c s"
  have a: "al_id ?a = sv_alert_id env (length (am_alerts s))" "al_dedupe_key ?a = pm_dedupe_key (cd_match c)"
    "al_risk_score ?a = pm_risk_score (cd_match c)" "al_rule_id ?a = Some (ar_id r)" "al_reviewed_at ?a = None"
    using assms(5) by (simp_all add: alert_of_def Let_def)
  have "snd (raise_alert env run_id c s) = s\<lparr>am_alerts := insert_row ?a (am_alerts s)\<rparr>" using False by (simp add: raise_alert_def Let_def)
  moreover have "rules_ok (s\<lparr>am_alerts := insert_row ?a (am_alerts s)\<rparr>)"
    using assms(1,4) a by (auto simp: rules_ok_def insert_row_def list_all_iff)
  moreover have "{x \<in> set (insert_row ?a (am_alerts s)). al_reviewed_at x \<noteq> None} = {x \<in> set (am_alerts s). al_reviewed_at x \<noteq> None}"
    using a by auto
  moreover have "pm_dedupe_key (cd_match c) \<notin> al_dedupe_key ` set (am_alerts s)" using False by auto
  ultimately show ?thesis
    using assms(2,3,6,7) a by (simp add: alerts_ok_def) (simp add: insert_row_def)
qed

subsection \<open>A judgement\<close>

lemma learnt_after:
  assumes "learnt rows r" "fb_rule_id f = Some (ar_id r)" "fb_disposition f = d"
  shows "learnt (insert_row f rows) (judged_rule d r)"
  using assms by (cases "d = DispositionFalsePositive") (simp_all add: learnt_def verdicts_insert judged_rule_def)

lemma learnt_other: "learnt rows r \<Longrightarrow> fb_rule_id f \<noteq> Some (ar_id r) \<Longrightarrow> learnt (insert_row f rows) r"
  by (simp add: learnt_def verdicts_insert)

lemma judged_rule_id [simp]: "ar_id (judged_rule d r) = ar_id r"
  by (simp add: judged_rule_def Let_def)

lemma rules_ok_feedback:
  assumes "rules_ok s" "\<And>i. rule_id = Some i \<Longrightarrow> i \<in> ar_id ` set (am_rules s)"
  shows "rules_ok (record_feedback alert_id rule_id code pattern d reason actor case_id s)"
proof (cases rule_id)
  case None
  show ?thesis
  proof -
    define f where "f = \<lparr>fb_alert_id = alert_id, fb_case_id = case_id, fb_rule_code = code, fb_rule_id = None,
      fb_pattern_type = pattern, fb_disposition = d, fb_recorded_by = actor, fb_reason = reason, fb_before = None, fb_after = None\<rparr>"
    have f: "fb_rule_id f = None"
      "record_feedback alert_id rule_id code pattern d reason actor case_id s = s\<lparr>am_feedback := insert_row f (am_feedback s)\<rparr>"
      using None by (simp_all add: record_feedback_def f_def Let_def)
    have "learnt (insert_row f (am_feedback s)) r" if "r \<in> set (am_rules s)" for r
      by (rule learnt_other) (use rules_okD(2) [OF assms(1) that] f(1) in simp_all)
    then show ?thesis
      unfolding f(2) using rules_okD(1,3,4) [OF assms(1)] f(1) by (intro rules_okI) auto
  qed
next
  case (Some i)
  have dist: "distinct (map ar_id (am_rules s))" using assms(1) by (simp add: rules_ok_def)
  have "find_one (\<lambda>r. ar_id r = i) (am_rules s) \<noteq> None"
    using assms(2) [OF Some] by (auto simp: find_one_None_iff)
  then obtain r where r: "find_rule i (am_rules s) = Some r" by (auto simp: find_rule_def)
  then have mem: "r \<in> set (am_rules s)" "ar_id r = i" using find_one_SomeD unfolding find_rule_def by fastforce+
  let ?row = "\<lparr>fb_alert_id = alert_id, fb_case_id = case_id, fb_rule_code = code, fb_rule_id = rule_id, fb_pattern_type = pattern,
     fb_disposition = d, fb_recorded_by = actor, fb_reason = reason, fb_before = Some (ar_sensitivity r),
     fb_after = Some (ar_sensitivity (judged_rule d r))\<rparr>"
  have eq: "record_feedback alert_id rule_id code pattern d reason actor case_id s =
      s\<lparr>am_rules := save_rule (judged_rule d r) (am_rules s), am_feedback := insert_row ?row (am_feedback s)\<rparr>"
    using Some r by (simp add: record_feedback_def Let_def)
  have ids: "map ar_id (save_rule (judged_rule d r) (am_rules s)) = map ar_id (am_rules s)"
    using map_update_key [OF dist mem(1), of ar_id "judged_rule d r"] by (simp add: save_rule_def)
  then have ids': "ar_id ` set (save_rule (judged_rule d r) (am_rules s)) = ar_id ` set (am_rules s)" by (metis list.set_map)
  have same: "x = r" if "x \<in> set (am_rules s)" "ar_id x = i" for x
    using dist mem that by (auto simp: distinct_map dest: inj_onD)
  have "learnt (insert_row ?row (am_feedback s)) x" if "x \<in> set (save_rule (judged_rule d r) (am_rules s))" for x
  proof -
    from that consider "x = judged_rule d r" | "x \<in> set (am_rules s)" "ar_id x \<noteq> i"
      using mem by (auto simp: save_rule_def set_update_where)
    then show ?thesis
    proof cases
      case 1
      then show ?thesis using assms(1) mem Some by (auto simp: rules_ok_def list_all_iff intro!: learnt_after)
    next
      case 2
      then show ?thesis using assms(1) Some by (auto simp: rules_ok_def list_all_iff intro!: learnt_other)
    qed
  qed
  then show ?thesis
    unfolding eq using assms(1) dist ids ids' mem Some by (intro rules_okI) (auto dest: rules_okD)
qed

lemma record_feedback_rows:
  "am_alerts (record_feedback ai ri code pattern d reason actor ci s) = am_alerts s"
  "am_cases (record_feedback ai ri code pattern d reason actor ci s) = am_cases s"
  "judged_ids (am_feedback (record_feedback ai ri code pattern d reason actor ci s)) =
     judged_ids (am_feedback s) @ (case ai of None \<Rightarrow> [] | Some i \<Rightarrow> [i])"
  by (simp_all add: record_feedback_def Let_def judged_ids_insert)

lemma triage_alert_cases: "am_cases (snd (triage_alert env i d reason actor s)) = am_cases s"
  by (simp add: triage_alert_def triage_commit_def Let_def record_feedback_rows save_alert_def split: sum.splits)

lemma triage_each_cases: "am_cases (snd (triage_each env d reason actor ids s)) = am_cases s"
proof (induction ids arbitrary: s)
  case (Cons i ids)
  then show ?case using triage_alert_cases [of env i d reason actor s] by (auto split: prod.splits sum.splits)
qed simp

lemma record_disposition_cases: "am_cases (snd (record_disposition_for_case env c d reason actor s)) = am_cases s"
  by (simp add: record_disposition_for_case_def Let_def triage_each_cases record_feedback_rows)

definition judging_ok :: "aml_state \<Rightarrow> bool" where
  "judging_ok s \<longleftrightarrow> rules_ok s \<and> alerts_ok s"

lemma judging_ok_cases [simp]: "judging_ok (s\<lparr>am_cases := cs\<rparr>) = judging_ok s"
  by (simp add: judging_ok_def rules_ok_def alerts_ok_def)

lemma judging_ok_save_case [simp]: "judging_ok (save_case c s) = judging_ok s"
  by (simp add: save_case_def)

lemma judging_ok_group: "judging_ok s \<Longrightarrow> judging_ok (group_alerts ids i s)"
  using alerts_ok_follow [of s "group_alerts ids i s"] rules_ok_follow [of s "group_alerts ids i s"]
  by (simp add: judging_ok_def) (simp add: group_alerts_def)

lemma find_alertD: "find_alert i s = Some a \<Longrightarrow> a \<in> set (am_alerts s) \<and> al_id a = i"
  using find_one_SomeD unfolding find_alert_def by fastforce

lemma triage_checkD: "triage_check i s = Inr a \<Longrightarrow> a \<in> set (am_alerts s) \<and> al_id a = i \<and> al_reviewed_at a = None"
  by (auto simp: triage_check_def dest: find_alertD split: option.splits if_splits)

text \<open>The alert after a judgement, in place of the one before.\<close>

lemma save_alert_rows:
  assumes "alerts_ok s" "a \<in> set (am_alerts s)" "al_id a' = al_id a" "h a' = h a"
  shows "map h (am_alerts (save_alert a' s)) = map h (am_alerts s)"
  using map_update_key [of al_id "am_alerts s" a h a'] assms by (simp add: save_alert_def alerts_ok_def)

lemma set_save_alert:
  assumes "alerts_ok s" "a \<in> set (am_alerts s)" "al_id a' = al_id a"
  shows "set (am_alerts (save_alert a' s)) = insert a' {x \<in> set (am_alerts s). al_id x \<noteq> al_id a}"
  using assms by (auto simp: save_alert_def set_update_where)

lemma judging_ok_triage_commit:
  assumes ok: "judging_ok s" and a: "a \<in> set (am_alerts s)" "al_reviewed_at a = None"
  shows "judging_ok (snd (triage_commit env d reason actor a s))"
proof -
  define a' where "a' = a\<lparr>al_status := disposed_status d, al_reviewed_by := actor, al_reviewed_at := Some (ev_now env)\<rparr>"
  have a': "al_id a' = al_id a" "al_dedupe_key a' = al_dedupe_key a" "al_risk_score a' = al_risk_score a"
    "al_rule_id a' = al_rule_id a" "al_reviewed_at a' \<noteq> None"
    by (simp_all add: a'_def)
  let ?s = "save_alert a' s"
  let ?t = "snd (triage_commit env d reason actor a s)"
  have t: "?t = record_feedback (Some (al_id a)) (al_rule_id a) (al_rule_code a) (Some (al_pattern_type a)) d reason actor None ?s"
    by (simp add: triage_commit_def Let_def a'_def)
  have s: "am_rules ?s = am_rules s" "am_feedback ?s = am_feedback s" by (simp_all add: save_alert_def)
  have ok': "rules_ok s" "alerts_ok s" using ok by (simp_all add: judging_ok_def)
  note rows = save_alert_rows [OF ok'(2) a(1) a'(1)] and members = set_save_alert [OF ok'(2) a(1) a'(1)]
  have "rules_ok ?s"
  proof (rule rules_okI, unfold s)
    fix x i assume "x \<in> set (am_alerts ?s)" "al_rule_id x = Some i"
    then show "i \<in> ar_id ` set (am_rules s)" using rules_okD(4) [OF ok'(1)] a(1) a'(4) by (auto simp: members)
  qed (use rules_okD [OF ok'(1)] in blast)+
  then have "rules_ok ?t" unfolding t by (rule rules_ok_feedback) (use rules_okD(4) [OF ok'(1) a(1)] s in simp)
  moreover have "alerts_ok ?t"
  proof -
    have j: "judged_ids (am_feedback ?t) = judged_ids (am_feedback s) @ [al_id a]" "am_alerts ?t = am_alerts ?s"
      unfolding t by (simp_all add: record_feedback_rows s)
    have inj: "x = a" if "x \<in> set (am_alerts s)" "al_id x = al_id a" for x
      using ok'(2) a(1) that by (auto simp: alerts_ok_def distinct_map dest: inj_onD)
    have judged: "set (judged_ids (am_feedback s)) = al_id ` {x \<in> set (am_alerts s). al_reviewed_at x \<noteq> None}"
      using ok'(2) by (simp add: alerts_ok_def)
    then have "al_id a \<notin> set (judged_ids (am_feedback s))" using inj a(2) by auto
    moreover have "{x \<in> set (am_alerts ?s). al_reviewed_at x \<noteq> None} = insert a' {x \<in> set (am_alerts s). al_reviewed_at x \<noteq> None}"
      using a a' unfolding members by (auto dest: inj)
    moreover have "list_all (\<lambda>x. 0 \<le> al_risk_score x \<and> al_risk_score x \<le> 100) (am_alerts ?s)"
      using ok'(2) a(1) a'(3) by (auto simp: alerts_ok_def list_all_iff members)
    ultimately show ?thesis
      using ok'(2) a' j judged by (simp add: alerts_ok_def rows del: not_None_eq)
  qed
  ultimately show ?thesis by (simp add: judging_ok_def)
qed

lemma judging_ok_triage: "judging_ok s \<Longrightarrow> judging_ok (snd (triage_alert env i d reason actor s))"
  using judging_ok_triage_commit by (auto simp: triage_alert_def dest: triage_checkD split: sum.splits)

lemma judging_ok_triage_each: "judging_ok s \<Longrightarrow> judging_ok (snd (triage_each env d reason actor ids s))"
proof (induction ids arbitrary: s)
  case (Cons i ids)
  then show ?case using judging_ok_triage [of s env i d reason actor] by (auto split: prod.splits sum.splits)
qed simp

lemma judging_ok_disposition: "judging_ok s \<Longrightarrow> judging_ok (snd (record_disposition_for_case env c d reason actor s))"
  using judging_ok_triage_each rules_ok_feedback [of s None]
  by (auto simp: record_disposition_for_case_def judging_ok_def alerts_ok_def record_feedback_rows Let_def)

lemma judging_ok_close: "judging_ok s \<Longrightarrow> judging_ok (snd (close_case env i d remarks actor s))"
proof -
  assume "judging_ok s"
  then have "judging_ok (snd (record_disposition_for_case env c d remarks actor (save_case c s)))" for c
    by (intro judging_ok_disposition) simp
  then have "record_disposition_for_case env c d remarks actor (save_case c s) = (x, t) \<Longrightarrow> judging_ok t" for c x t
    by (metis snd_conv)
  then show ?thesis using \<open>judging_ok s\<close> by (auto simp: close_case_def Let_def split: sum.splits prod.splits)
qed

lemma judging_ok_step: "aml_step s s' \<Longrightarrow> judging_ok s \<Longrightarrow> judging_ok s'"
proof (induction rule: aml_step.induct)
  case (raise env s r c run_id)
  then show ?case using raise_ok by (simp add: judging_ok_def)
next
  case (create_case cenv s cdto actor)
  then show ?case by (simp add: create_case_def Let_def judging_ok_group)
next
  case (attach s cenv case_id ids actor)
  then show ?case by (simp add: attach_alerts_def Let_def judging_ok_group split: sum.splits)
next
  case (update_case s cenv case_id udto actor)
  then show ?case by (simp add: update_case_def Let_def split: sum.splits)
next
  case (close_case s cenv case_id d remarks actor)
  then show ?case by (rule judging_ok_close [rotated])
next
  case (triage s cenv alert_id d reason actor)
  then show ?case by (rule judging_ok_triage)
qed (auto simp: judging_ok_def alerts_ok_def intro: rules_ok_rule_requests rules_ok_defaults)

lemma judging_ok_reachable: "aml_reachable s \<Longrightarrow> judging_ok s"
  unfolding aml_reachable_def
proof (induction rule: rtranclp_induct)
  case base
  show ?case by (simp add: no_aml_rows_def judging_ok_def rules_ok_def alerts_ok_def judged_ids_def List.map_filter_simps)
qed (rule judging_ok_step)

end
