(* ===== verification/AmlGroupProps.thy ===== *)
theory AmlGroupProps
  imports AmlCaseProps
begin

text \<open>
  Cases and their alerts: the alerts that name a case are those that the case lists, the numbers of cases differ, and
  what closing, grouping and judging do to each other.
\<close>

subsection \<open>Numbers of cases\<close>

definition text_value :: "string \<Rightarrow> nat" where
  "text_value t = foldl (\<lambda>v c. 10 * v + (of_char c - 48)) 0 t"

lemma digit_char: "n < 10 \<Longrightarrow> of_char (''0123456789'' ! n) - (48 :: nat) = n \<and> ''0123456789'' ! n \<noteq> CHR ''-''"
  by (auto simp: less_Suc_eq numeral_eq_Suc)

lemma text_value_digits: "text_value (digits n) = n \<and> CHR ''-'' \<notin> set (digits n)"
proof (induction n rule: digits.induct)
  case (1 n)
  show ?case
  proof (cases "n < 10")
    case True
    then show ?thesis using digit_char [OF True] by (subst (1 2) digits.simps) (auto simp: text_value_def)
  next
    case False
    have "n mod 10 < 10" by simp
    from digit_char [OF this] False 1 show ?thesis by (subst (1 2) digits.simps) (auto simp: text_value_def)
  qed
qed

lemma text_value_pad: "text_value (pad_zeros w n) = n"
proof -
  have "text_value (replicate k CHR ''0'' @ t) = text_value t" for k t
    by (induction k) (simp_all add: text_value_def)
  then show ?thesis using text_value_digits by (simp add: pad_zeros_def)
qed

lemma pad_no_dash: "CHR ''-'' \<notin> set (pad_zeros w n)"
  using text_value_digits by (auto simp: pad_zeros_def)

lemma split_at_last:
  "xs @ c # d = ys @ c # e \<Longrightarrow> c \<notin> set d \<Longrightarrow> c \<notin> set e \<Longrightarrow> xs = ys \<and> d = e"
proof -
  assume eq: "xs @ c # d = ys @ c # e" and "c \<notin> set d" "c \<notin> set e"
  have "takeWhile (\<lambda>x. x \<noteq> c) (rev (xs @ c # d)) = rev d" "takeWhile (\<lambda>x. x \<noteq> c) (rev (ys @ c # e)) = rev e"
    using \<open>c \<notin> set d\<close> \<open>c \<notin> set e\<close> by (auto simp: takeWhile_tail)
  then have "d = e" using eq by simp
  then show ?thesis using eq by simp
qed

definition case_number :: "int \<Rightarrow> nat \<Rightarrow> string" where
  "case_number now n = case_prefix now @ pad_zeros 6 n"

definition year_part :: "int \<Rightarrow> string" where
  "year_part now = ''AML-CASE-'' @ int_text (fst (civil_date (now div day_ms)))"

lemma case_prefix_year: "case_prefix now = year_part now @ ''-''"
  by (simp add: case_prefix_def year_part_def)

lemma case_number_eq: "case_number now m = case_number now' n \<Longrightarrow> case_prefix now = case_prefix now' \<and> m = n"
proof -
  assume "case_number now m = case_number now' n"
  then have "year_part now @ CHR ''-'' # pad_zeros 6 m = year_part now' @ CHR ''-'' # pad_zeros 6 n"
    by (simp add: case_number_def case_prefix_year)
  then have "year_part now = year_part now' \<and> pad_zeros 6 m = pad_zeros 6 n"
    by (rule split_at_last) (rule pad_no_dash)+
  moreover from this have "text_value (pad_zeros 6 m) = text_value (pad_zeros 6 n)" by (rule conjE) (rule arg_cong)
  then have "m = n" unfolding text_value_pad .
  ultimately show ?thesis unfolding case_prefix_year by simp
qed

definition with_prefix :: "int \<Rightarrow> string list \<Rightarrow> nat" where
  "with_prefix now numbers = length (filter (\<lambda>t. take (length (case_prefix now)) t = case_prefix now) numbers)"

lemma with_prefix_snoc: "with_prefix now (ts @ [t]) = with_prefix now ts + (if take (length (case_prefix now)) t = case_prefix now then 1 else 0)"
  by (simp add: with_prefix_def)

text \<open>Each number was made when the ones before it were in the table.\<close>

inductive numbered :: "string list \<Rightarrow> bool" where
  "numbered []"
| "numbered ts \<Longrightarrow> numbered (ts @ [case_number now (with_prefix now ts + 1)])"

lemma numbered_below: "numbered ts \<Longrightarrow> case_number now n \<in> set ts \<Longrightarrow> n \<le> with_prefix now ts"
proof (induction rule: numbered.induct)
  case (2 ts now')
  show ?case
  proof (cases "case_number now n \<in> set ts")
    case True
    then show ?thesis using "2.IH" by (simp add: with_prefix_snoc)
  next
    case False
    then have eq: "case_number now n = case_number now' (with_prefix now' ts + 1)" using "2.prems" by simp
    then have "case_prefix now = case_prefix now'" "n = with_prefix now' ts + 1" using case_number_eq by blast+
    then have "n = with_prefix now ts + 1" by (simp add: with_prefix_def)
    then show ?thesis unfolding with_prefix_snoc eq [symmetric] by (simp add: case_number_def)
  qed
qed simp

lemma numbered_fresh: "numbered ts \<Longrightarrow> case_number now (with_prefix now ts + 1) \<notin> set ts"
  using numbered_below [of ts now "with_prefix now ts + 1"] by auto

lemma numbered_distinct: "numbered ts \<Longrightarrow> distinct ts"
  by (induction rule: numbered.induct) (simp_all add: numbered_fresh [simplified])

lemma next_case_number_eq:
  "next_case_number env s = case_number (ev_now env) (with_prefix (ev_now env) (map ac_case_number (am_cases s)) + 1)"
  by (simp add: next_case_number_def case_number_def with_prefix_def affected_def Let_def filter_map comp_def)

subsection \<open>Cases and the alerts they list\<close>

definition attached :: "aml_state \<Rightarrow> (string \<times> string) set" where
  "attached s = {(al_id a, i) | a i. a \<in> set (am_alerts s) \<and> al_case_id a = Some i}"

definition listed :: "aml_state \<Rightarrow> (string \<times> string) set" where
  "listed s = {(i, ac_id c) | i c. c \<in> set (am_cases s) \<and> i \<in> set (ac_alert_ids c)}"

lemma attached_iff: "(x, i) \<in> attached s \<longleftrightarrow> (\<exists>a \<in> set (am_alerts s). al_id a = x \<and> al_case_id a = Some i)"
  by (auto simp: attached_def)

lemma listed_iff: "(x, i) \<in> listed s \<longleftrightarrow> (\<exists>c \<in> set (am_cases s). ac_id c = i \<and> x \<in> set (ac_alert_ids c))"
  by (auto simp: listed_def)

definition grouping_ok :: "aml_state \<Rightarrow> bool" where
  "grouping_ok s \<longleftrightarrow> distinct (map ac_id (am_cases s)) \<and> numbered (map ac_case_number (am_cases s)) \<and> attached s = listed s"

lemma attached_view: "attached s = {(x, i) | x i. (x, Some i) \<in> set (map (\<lambda>a. (al_id a, al_case_id a)) (am_alerts s))}"
  by (force simp: attached_def)

lemma listed_view: "listed s = {(i, x) | i x ids. (x, ids) \<in> set (map (\<lambda>c. (ac_id c, ac_alert_ids c)) (am_cases s)) \<and> i \<in> set ids}"
  by (force simp: listed_def)

definition same_groups :: "aml_state \<Rightarrow> aml_state \<Rightarrow> bool" where
  "same_groups s t \<longleftrightarrow> map (\<lambda>a. (al_id a, al_case_id a)) (am_alerts t) = map (\<lambda>a. (al_id a, al_case_id a)) (am_alerts s)
     \<and> map ac_case_number (am_cases t) = map ac_case_number (am_cases s)
     \<and> map (\<lambda>c. (ac_id c, ac_alert_ids c)) (am_cases t) = map (\<lambda>c. (ac_id c, ac_alert_ids c)) (am_cases s)"

lemma same_groups_refl [simp]: "same_groups s s"
  by (simp add: same_groups_def)

lemma same_groups_trans: "same_groups s t \<Longrightarrow> same_groups t u \<Longrightarrow> same_groups s u"
  by (simp add: same_groups_def)

lemma grouping_ok_same: "same_groups s t \<Longrightarrow> grouping_ok s \<Longrightarrow> grouping_ok t"
proof -
  assume st: "same_groups s t" and "grouping_ok s"
  have "map fst (map (\<lambda>c. (ac_id c, ac_alert_ids c)) (am_cases t)) = map fst (map (\<lambda>c. (ac_id c, ac_alert_ids c)) (am_cases s))"
    using st by (simp only: same_groups_def)
  then have "map ac_id (am_cases t) = map ac_id (am_cases s)" by (simp add: comp_def)
  then show ?thesis using st \<open>grouping_ok s\<close> unfolding grouping_ok_def attached_view listed_view same_groups_def by simp
qed

lemma same_groups_save_case:
  assumes "get_case i s = Inr c" "distinct (map ac_id (am_cases s))" "ac_id c' = ac_id c"
    "ac_case_number c' = ac_case_number c" "ac_alert_ids c' = ac_alert_ids c"
  shows "same_groups s (save_case c' s)"
proof -
  have c: "c \<in> set (am_cases s)" using assms(1) by (auto simp: get_case_def split: option.splits dest: find_one_SomeD)
  note upd = map_update_key [OF assms(2) c, where r' = c']
  show ?thesis
    using upd [of ac_case_number] upd [of "\<lambda>c. (ac_id c, ac_alert_ids c)"] assms(3-5)
    by (simp add: same_groups_def save_case_def)
qed

lemma same_groups_triage: "alerts_ok s \<Longrightarrow> same_groups s (snd (triage_alert env i d reason actor s))"
  using save_alert_rows [of s _ _ "\<lambda>a. (al_id a, al_case_id a)"]
  by (auto simp: triage_alert_def triage_commit_def Let_def same_groups_def record_feedback_rows save_alert_def
      dest!: triage_checkD split: sum.splits)

lemma same_groups_triage_each: "judging_ok s \<Longrightarrow> same_groups s (snd (triage_each env d reason actor ids s))"
proof (induction ids arbitrary: s)
  case (Cons i ids)
  let ?t = "snd (triage_alert env i d reason actor s)"
  have "same_groups s ?t" using same_groups_triage Cons.prems by (simp add: judging_ok_def)
  moreover have "same_groups ?t (snd (triage_each env d reason actor ids ?t))" using Cons.IH judging_ok_triage [OF Cons.prems] by blast
  ultimately show ?case using same_groups_trans by (fastforce split: prod.splits sum.splits)
qed simp

lemma same_groups_disposition: "judging_ok s \<Longrightarrow> same_groups s (snd (record_disposition_for_case env c d reason actor s))"
  using same_groups_triage_each by (simp add: record_disposition_for_case_def Let_def) (simp add: same_groups_def record_feedback_rows)

lemma same_groups_close:
  assumes "judging_ok s" "grouping_ok s"
  shows "same_groups s (snd (close_case env i d remarks actor s))"
proof -
  have "same_groups s t" if "get_case i s = Inr c" "record_disposition_for_case env (closed_case env d remarks actor c) d remarks actor
      (save_case (closed_case env d remarks actor c) s) = (x, t)" for c x t
  proof -
    let ?c = "closed_case env d remarks actor c"
    have "same_groups s (save_case ?c s)"
      using assms(2) that(1) by (intro same_groups_save_case) (simp_all add: grouping_ok_def closed_case_def)
    moreover have "same_groups (save_case ?c s) t"
      using same_groups_disposition [of "save_case ?c s" env ?c d remarks actor] assms(1) that(2) by simp
    ultimately show ?thesis by (rule same_groups_trans)
  qed
  then show ?thesis by (auto simp: close_case_def Let_def split: sum.splits prod.splits)
qed

subsection \<open>Grouping\<close>

lemma attached_group:
  "attached (group_alerts ids k s) =
     {p \<in> attached s. fst p \<notin> set ids} \<union> {(i, k) | i. i \<in> set ids \<and> i \<in> al_id ` set (am_alerts s)}"
proof -
  have "(x, i) \<in> attached (group_alerts ids k s) \<longleftrightarrow>
      (x, i) \<in> {p \<in> attached s. fst p \<notin> set ids} \<union> {(i, k) | i. i \<in> set ids \<and> i \<in> al_id ` set (am_alerts s)}" for x i
  proof -
    have "(x, i) \<in> attached (group_alerts ids k s) \<longleftrightarrow>
       (\<exists>a \<in> set (am_alerts s). al_id (if al_id a \<in> set ids then a\<lparr>al_case_id := Some k, al_status := AlertTriaged\<rparr> else a) = x
          \<and> al_case_id (if al_id a \<in> set ids then a\<lparr>al_case_id := Some k, al_status := AlertTriaged\<rparr> else a) = Some i)"
      by (simp add: attached_iff group_alerts_def set_update_where del: if_image_distrib)
    also have "\<dots> \<longleftrightarrow> (\<exists>a \<in> set (am_alerts s). al_id a = x \<and> (if x \<in> set ids then i = k else al_case_id a = Some i))"
      by (rule bex_cong) auto
    also have "\<dots> \<longleftrightarrow> (x, i) \<in> {p \<in> attached s. fst p \<notin> set ids} \<union> {(i, k) | i. i \<in> set ids \<and> i \<in> al_id ` set (am_alerts s)}"
      by (cases "x \<in> set ids") (auto simp: attached_iff)
    finally show ?thesis .
  qed
  from this [of "fst p" "snd p" for p] show ?thesis unfolding prod.collapse by (rule set_eqI)
qed

lemma group_alerts_cases [simp]: "am_cases (group_alerts ids k s) = am_cases s"
  by (simp add: group_alerts_def)

lemma alerts_in_ids: "al_id ` set (alerts_in ids s) = set ids \<inter> al_id ` set (am_alerts s)"
  by (auto simp: alerts_in_def find_where_def)

lemma alerts_in_all:
  assumes "alerts_ok s" "length (alerts_in ids s) = length ids"
  shows "set ids \<subseteq> al_id ` set (am_alerts s)" and "set (map al_id (alerts_in ids s)) = set ids"
proof -
  have "distinct (map al_id (alerts_in ids s))"
    using assms(1) by (simp add: alerts_ok_def alerts_in_def find_where_def distinct_map_filter)
  then have "card (al_id ` set (alerts_in ids s)) = length ids"
    using assms(2) distinct_card [of "map al_id (alerts_in ids s)"] by simp
  then have "card (set ids) \<le> card (set ids \<inter> al_id ` set (am_alerts s))"
    using card_length [of ids] by (simp add: alerts_in_ids)
  then have "set ids \<inter> al_id ` set (am_alerts s) = set ids" by (intro card_seteq) simp_all
  then show "set ids \<subseteq> al_id ` set (am_alerts s)" "set (map al_id (alerts_in ids s)) = set ids"
    using alerts_in_ids by auto
qed

lemma grouping_ok_create:
  assumes ok: "judging_ok s" "grouping_ok s" and new: "ev_case_id env (length (am_cases s)) \<notin> ac_id ` set (am_cases s)"
  shows "grouping_ok (snd (create_case env dto actor s))"
proof -
  define ids where "ids = or_default (cc_alert_ids dto) []"
  define alerts where "alerts = (if ids = [] then [] else alerts_in ids s)"
  define c where "c = new_case env dto actor alerts s"
  define t where "t = s\<lparr>am_cases := insert_row c (am_cases s)\<rparr>"
  have c: "ac_id c = ev_case_id env (length (am_cases s))" "ac_case_number c = next_case_number env s" "ac_alert_ids c = map al_id alerts"
    by (simp_all add: c_def new_case_def Let_def)
  have eq: "snd (create_case env dto actor s) = s \<or>
     (ids \<noteq> [] \<longrightarrow> length alerts = length ids) \<and> (\<forall>a \<in> set alerts. al_case_id a = None)
       \<and> snd (create_case env dto actor s) = (if alerts = [] then t else group_alerts (map al_id alerts) (ac_id c) t)"
    unfolding create_case_def Let_def ids_def [symmetric] alerts_def [symmetric] c_def [symmetric] t_def [symmetric] by auto
  show ?thesis
  proof (cases "snd (create_case env dto actor s) = s")
    case True
    then show ?thesis using ok by simp
  next
    case False
    then have all: "ids \<noteq> [] \<longrightarrow> length alerts = length ids" "\<forall>a \<in> set alerts. al_case_id a = None"
      and u: "snd (create_case env dto actor s) = (if alerts = [] then t else group_alerts (map al_id alerts) (ac_id c) t)"
      using eq by blast+
    let ?u = "group_alerts (map al_id alerts) (ac_id c) t"
    have "snd (create_case env dto actor s) = ?u"
      using u by (simp add: group_alerts_def update_where_def t_def)
    moreover have "am_cases ?u = insert_row c (am_cases s)" by (simp add: t_def)
    moreover have "attached ?u = attached s \<union> {(i, ac_id c) | i. i \<in> al_id ` set alerts}"
    proof -
      have sub: "set alerts \<subseteq> set (am_alerts s)" by (auto simp: alerts_def alerts_in_def find_where_def)
      have inj: "x = y" if "x \<in> set (am_alerts s)" "y \<in> set (am_alerts s)" "al_id x = al_id y" for x y
        using ok(1) that by (auto simp: judging_ok_def alerts_ok_def distinct_map dest: inj_onD)
      have "fst p \<notin> al_id ` set alerts" if "p \<in> attached s" for p
      proof
        assume "fst p \<in> al_id ` set alerts"
        then obtain a where a: "a \<in> set alerts" "al_id a = fst p" by auto
        have "(fst p, snd p) \<in> attached s" using that by simp
        then obtain b where b: "b \<in> set (am_alerts s)" "al_id b = fst p" "al_case_id b = Some (snd p)"
          unfolding attached_iff by blast
        have "a = b" using inj [of a b] a b sub by auto
        then show False using a(1) all(2) b(3) by simp
      qed
      then show ?thesis using sub by (auto simp: attached_group) (auto simp: t_def attached_def)
    qed
    moreover have "listed ?u = listed s \<union> {(i, ac_id c) | i. i \<in> al_id ` set alerts}"
      by (rule set_eqI, rename_tac p, case_tac p) (auto simp: listed_iff t_def c(3))
    moreover have "numbered (map ac_case_number (insert_row c (am_cases s)))"
      using numbered.intros(2) ok(2) by (simp add: insert_row_def c(2) next_case_number_eq grouping_ok_def del: Suc_eq_plus1)
    ultimately show ?thesis using ok(2) new c(1) by (simp add: grouping_ok_def insert_row_def)
  qed
qed

lemma set_first_occurrences [simp]: "set (first_occurrences xs) = set xs"
  by (simp add: first_occurrences_def)

lemma get_caseD: "get_case i s = Inr c \<Longrightarrow> c \<in> set (am_cases s) \<and> ac_id c = i"
  by (auto simp: get_case_def split: option.splits dest: find_one_SomeD)

lemma grouping_ok_attach:
  assumes ok: "judging_ok s" "grouping_ok s"
  shows "grouping_ok (snd (attach_alerts env i ids actor s))"
proof (cases "snd (attach_alerts env i ids actor s) = s")
  case False
  then obtain c where c: "get_case i s = Inr c" and all: "length (alerts_in ids s) = length ids"
    and free: "\<forall>a \<in> set (alerts_in ids s). al_case_id a = None \<or> al_case_id a = Some i"
    by (auto simp: attach_alerts_def Let_def split: sum.splits if_splits)
  define c' where "c' = c\<lparr>ac_alert_ids := first_occurrences (ac_alert_ids c @ ids),
     ac_risk_score := foldl (\<lambda>m a. max m (al_risk_score a)) (ac_risk_score c) (alerts_in ids s),
     ac_exposure_usd := ev_column env (add_js (ac_exposure_usd c) (exposure_of (alerts_in ids s))),
     ac_timeline := timeline env c ''alerts_attached'' actor\<rparr>"
  let ?t = "save_case c' (group_alerts ids (ac_id c) s)"
  have t: "snd (attach_alerts env i ids actor s) = ?t"
    using False c by (auto simp: attach_alerts_def Let_def c'_def split: if_splits)
  have mem: "c \<in> set (am_cases s)" "ac_id c = i" using get_caseD [OF c] by auto
  have dist: "distinct (map ac_id (am_cases s))" using ok(2) by (simp add: grouping_ok_def)
  have c': "ac_id c' = ac_id c" "ac_case_number c' = ac_case_number c" "set (ac_alert_ids c') = set (ac_alert_ids c) \<union> set ids"
    by (simp_all add: c'_def)
  note upd = map_update_key [OF dist mem(1), where r' = c']
  have maps: "map ac_id (am_cases ?t) = map ac_id (am_cases s)" "map ac_case_number (am_cases ?t) = map ac_case_number (am_cases s)"
    using upd [of ac_id] upd [of ac_case_number] c' by (simp_all add: save_case_def)
  have only: "x = c" if "x \<in> set (am_cases s)" "ac_id x = i" for x
    using dist mem that by (auto simp: distinct_map dest: inj_onD)
  have "set (am_cases ?t) = insert c' {x \<in> set (am_cases s). ac_id x \<noteq> i}"
    using mem c'(1) by (auto simp: save_case_def set_update_where)
  moreover have "(x, i) \<in> listed s \<longleftrightarrow> x \<in> set (ac_alert_ids c)" for x
    unfolding listed_iff using mem only by blast
  ultimately have "(x, k) \<in> listed ?t \<longleftrightarrow> (x, k) \<in> listed s \<or> x \<in> set ids \<and> k = i" for x k
    using mem(2) c' by (cases "k = i") (auto simp: listed_iff)
  then have "listed ?t = listed s \<union> {(j, i) | j. j \<in> set ids}" by auto
  moreover have "attached ?t = attached s \<union> {(j, i) | j. j \<in> set ids}"
  proof -
    have "attached ?t = attached (group_alerts ids i s)" by (simp add: attached_def save_case_def mem(2))
    moreover have "snd p = i" if "p \<in> attached s" "fst p \<in> set ids" for p
      using that free by (fastforce simp: attached_def alerts_in_def find_where_def)
    ultimately show ?thesis
      using alerts_in_all(1) [OF _ all] ok(1) by (auto simp: attached_group judging_ok_def)
  qed
  ultimately show ?thesis unfolding t using ok(2) maps by (simp add: grouping_ok_def)
qed (use ok in simp)

lemma with_parts_view [simp]:
  "ac_id (with_case_status env actor st c) = ac_id c" "ac_id (with_priority env actor p c) = ac_id c"
  "ac_id (with_assignee env actor w c) = ac_id c" "ac_id (with_notes env actor n c) = ac_id c"
  "ac_case_number (with_case_status env actor st c) = ac_case_number c" "ac_case_number (with_priority env actor p c) = ac_case_number c"
  "ac_case_number (with_assignee env actor w c) = ac_case_number c" "ac_case_number (with_notes env actor n c) = ac_case_number c"
  "ac_alert_ids (with_case_status env actor st c) = ac_alert_ids c" "ac_alert_ids (with_priority env actor p c) = ac_alert_ids c"
  "ac_alert_ids (with_assignee env actor w c) = ac_alert_ids c" "ac_alert_ids (with_notes env actor n c) = ac_alert_ids c"
  by (simp_all add: with_case_status_def with_priority_def with_assignee_def with_notes_def split: option.split)

lemma grouping_ok_update: "grouping_ok s \<Longrightarrow> grouping_ok (snd (update_case env i dto actor s))"
proof -
  assume ok: "grouping_ok s"
  then have "distinct (map ac_id (am_cases s))" by (simp add: grouping_ok_def)
  then have "same_groups s (snd (update_case env i dto actor s))"
    by (auto simp: update_case_def Let_def split: sum.splits intro!: same_groups_save_case)
  then show ?thesis using ok by (rule grouping_ok_same)
qed

lemma grouping_ok_step: "aml_step s s' \<Longrightarrow> judging_ok s \<Longrightarrow> grouping_ok s \<Longrightarrow> grouping_ok s'"
proof (induction rule: aml_step.induct)
  case (raise env s r c run_id)
  have "attached (snd (raise_alert env run_id c s)) = attached s"
    by (auto simp: raise_alert_def attached_def alert_of_def Let_def)
  then show ?case using raise by (simp add: grouping_ok_def listed_def) (simp add: raise_alert_def Let_def)
next
  case (create_case cenv s cdto actor)
  then show ?case by (intro grouping_ok_create)
next
  case (attach s cenv case_id ids actor)
  then show ?case by (intro grouping_ok_attach)
next
  case (update_case s cenv case_id udto actor)
  then show ?case by (intro grouping_ok_update)
next
  case (close_case s cenv case_id d remarks actor)
  then show ?case using same_groups_close grouping_ok_same by blast
next
  case (triage s cenv alert_id d reason actor)
  then show ?case using same_groups_triage grouping_ok_same unfolding judging_ok_def by blast
qed (simp_all add: grouping_ok_def attached_def listed_def)

lemma grouping_ok_reachable: "aml_reachable s \<Longrightarrow> grouping_ok s"
proof -
  assume "aml_reachable s"
  then have "judging_ok s \<and> grouping_ok s" unfolding aml_reachable_def
  proof (induction rule: rtranclp_induct)
    case base
    have "grouping_ok no_aml_rows" by (simp add: no_aml_rows_def grouping_ok_def attached_def listed_def numbered.intros(1))
    moreover have "judging_ok no_aml_rows" by (rule judging_ok_reachable) (simp add: aml_reachable_def)
    ultimately show ?case by simp
  next
    case (step t u)
    then show ?case using judging_ok_step grouping_ok_step by blast
  qed
  then show ?thesis by simp
qed

end
