(* ===== verification/AmlProps.thy ===== *)
theory AmlProps
  imports AmlGroupProps
begin

text \<open>
  Properties of the judgements and cases of the monitoring of money movements.
\<close>

subsection \<open>An example\<close>

text \<open>A rule is created, raises an alert that is judged a false positive, and the alert is then put into a case.\<close>

definition example_case_env :: case_env where
  "example_case_env = \<lparr>ev_now = 0, ev_case_id = (\<lambda>n. replicate n CHR ''c''), ev_column = (\<lambda>x. x)\<rparr>"

definition example_sweep_env :: sweep_env where
  "example_sweep_env =
     \<lparr>sv_detect = example_detector_env, sv_case = example_case_env, sv_alert_id = (\<lambda>n. replicate n CHR ''a''),
      sv_run_id = (\<lambda>n. replicate n CHR ''r''), sv_rule_id = (\<lambda>t. t), sv_enabled = ''true'', sv_auto_case_score = None\<rparr>"

definition example_rule_dto :: rule_dto where
  "example_rule_dto =
     \<lparr>rd_rule_code = Some ''HV'', rd_name = Some ''High value'', rd_description = None, rd_pattern_type = Some HighValue,
      rd_risk_level = None, rd_action = None, rd_enabled = None, rd_jurisdiction = None, rd_window_hours = None,
      rd_parameters = Some [(''amountThresholdUsd'', NumberValue 50000)], rd_base_risk_score = None,
      rd_alert_threshold_score = Some 0\<rparr>"

definition example_rule :: aml_rule where
  "example_rule =
     \<lparr>ar_id = ''r1'', ar_rule_code = ''HV'', ar_name = ''High value'', ar_description = [], ar_pattern_type = HighValue,
      ar_risk_level = SeverityMedium, ar_action = ActFlagReview, ar_enabled = True, ar_jurisdiction = ''GLOBAL'',
      ar_window_hours = 24, ar_parameters = [(''amountThresholdUsd'', NumberValue 50000)], ar_base_risk_score = 50,
      ar_alert_threshold_score = 0, ar_sensitivity = 1, ar_false_positives = 0, ar_true_positives = 0, ar_version = 1,
      ar_created_by = None\<rparr>"

definition example_start :: aml_state where
  "example_start = no_aml_rows\<lparr>am_rules := [example_rule]\<rparr>"

definition example_candidate :: candidate where
  "example_candidate =
     \<lparr>cd_match = \<lparr>pm_pattern_type = HighValue, pm_rule_id = ''r1'', pm_rule_code = ''HV'', pm_severity = SeverityMedium,
                  pm_action = ActFlagReview, pm_base_risk_score = 50, pm_risk_score = 50, pm_dedupe_key = ''k1'',
                  pm_amount_usd = 60000, pm_flow_ids = [''f1'']\<rparr>, cd_user_id = ''u1'', cd_flows = []\<rparr>"

definition example_judged :: aml_state where
  "example_judged = snd (triage_alert example_case_env [] DispositionFalsePositive None None
     (snd (raise_alert example_sweep_env None example_candidate example_start)))"

definition example_case_dto :: create_case_dto where
  "example_case_dto = \<lparr>cc_alert_ids = Some [[]], cc_subject_user_id = None, cc_priority = None, cc_title = None\<rparr>"

definition example_grouped :: aml_state where
  "example_grouped = snd (create_case example_case_env example_case_dto None example_judged)"

lemma example_rule_created: "snd (create_rule ''r1'' None example_rule_dto []) = [example_rule]"
  by (simp add: create_rule_def validate_parameters_def parameter_error_def example_rule_dto_def rule_code_of_def js_trim_def
      white_space_def ascii_upper_def char_between_def find_one_def insert_row_def or_default_def Let_def example_rule_def)

lemma reachable_step: "aml_reachable s \<Longrightarrow> aml_step s t \<Longrightarrow> aml_reachable t"
  unfolding aml_reachable_def by (rule rtranclp.rtrancl_into_rtrancl)

lemma example_start_reachable: "aml_reachable example_start"
proof -
  have "aml_reachable no_aml_rows" by (simp add: aml_reachable_def)
  then have "aml_reachable (no_aml_rows\<lparr>am_rules := snd (create_rule ''r1'' None example_rule_dto (am_rules no_aml_rows))\<rparr>)"
    by (rule reachable_step) (rule aml_step.create_rule, simp add: no_aml_rows_def)
  then show ?thesis by (simp add: example_start_def example_rule_created no_aml_rows_def)
qed

lemma example_judged_reachable: "aml_reachable example_judged"
proof -
  have "aml_reachable (snd (raise_alert example_sweep_env None example_candidate example_start))"
    by (rule reachable_step [OF example_start_reachable], rule aml_step.raise [where r = example_rule])
      (simp_all add: example_start_def no_aml_rows_def example_rule_def example_candidate_def)
  then show ?thesis unfolding example_judged_def by (rule reachable_step) (rule aml_step.triage)
qed

lemma example_grouped_reachable: "aml_reachable example_grouped"
  unfolding example_grouped_def
  by (rule reachable_step [OF example_judged_reachable], rule aml_step.create_case)
    (simp add: example_judged_def raise_alert_def triage_alert_cases example_start_def no_aml_rows_def Let_def)

lemmas example_judged_simps = example_judged_def example_start_def no_aml_rows_def raise_alert_def alert_of_def triage_alert_def
  triage_check_def find_alert_def find_one_def insert_row_def triage_commit_def record_feedback_def find_rule_def save_alert_def
  save_rule_def update_where_def example_candidate_def example_rule_def example_sweep_env_def example_case_env_def Let_def

lemma example_judged_rows:
  "am_alerts example_judged = [(alert_of example_sweep_env None example_candidate example_start)
     \<lparr>al_status := AlertFalsePositive, al_reviewed_by := None, al_reviewed_at := Some 0\<rparr>]"
  "am_rules example_judged = [judged_rule DispositionFalsePositive example_rule]" "am_cases example_judged = []"
  by (simp_all add: example_judged_simps)

lemma example_alert_fields:
  "al_id (alert_of example_sweep_env None example_candidate example_start) = []"
  "al_case_id (alert_of example_sweep_env None example_candidate example_start) = None"
  by (simp_all add: alert_of_def Let_def example_sweep_env_def example_start_def no_aml_rows_def)

lemma example_found:
  "find_alert [] example_judged = Some ((alert_of example_sweep_env None example_candidate example_start)
     \<lparr>al_status := AlertFalsePositive, al_reviewed_by := None, al_reviewed_at := Some 0\<rparr>)"
  by (simp add: find_alert_def find_one_def example_judged_rows example_alert_fields)

lemma example_created: "\<exists>c. create_case example_case_env example_case_dto None example_judged = (Inr c, example_grouped)
    \<and> get_case [] example_grouped = Inr c \<and> ac_status c = CaseOpen \<and> ac_disposition c = None"
proof -
  have "alerts_in [[]] example_judged = am_alerts example_judged"
    by (simp add: alerts_in_def find_where_def example_judged_rows example_alert_fields)
  then have eq: "create_case example_case_env example_case_dto None example_judged =
      (let c = new_case example_case_env example_case_dto None (am_alerts example_judged) example_judged
       in (Inr c, group_alerts [[]] (ac_id c) (example_judged\<lparr>am_cases := insert_row c (am_cases example_judged)\<rparr>)))"
    by (simp add: create_case_def example_case_dto_def or_default_def example_judged_rows example_alert_fields Let_def)
  then show ?thesis
    by (simp add: example_grouped_def Let_def get_case_def find_one_def insert_row_def example_judged_rows(3) new_case_def example_case_env_def)
qed

subsection \<open>Invariants of the tables\<close>

text \<open>
  C23: Rules learn from every judgement (invariant). In every reachable state, the two counters of a rule are the numbers
  of recorded judgements of its alerts that were false positives and that were not, its multiplier is the one that
  belongs to these counters, and no alert was judged twice.
\<close>

theorem rules_learn_from_judgements:
  assumes "aml_reachable s" "r \<in> set (am_rules s)"
  shows "ar_false_positives r = verdicts True (ar_id r) (am_feedback s)
    \<and> ar_true_positives r = verdicts False (ar_id r) (am_feedback s)
    \<and> ar_sensitivity r = sensitivity_from_disposition (ar_false_positives r) (ar_true_positives r)
    \<and> distinct (judged_ids (am_feedback s))"
  using judging_ok_reachable [OF assms(1)] rules_okD(2) assms(2)
  by (auto simp: judging_ok_def alerts_ok_def learnt_def)

theorem rules_learn_from_judgements_witness:
  "ar_false_positives (judged_rule DispositionFalsePositive example_rule) = verdicts True ''r1'' (am_feedback example_judged)
    \<and> distinct (judged_ids (am_feedback example_judged))"
  using rules_learn_from_judgements [OF example_judged_reachable, of "judged_rule DispositionFalsePositive example_rule"]
  by (simp add: example_judged_rows) (simp add: example_rule_def)

text \<open>
  C24: An alert belongs to at most one case (invariant). In every reachable state the alerts that name a case are
  exactly those that the case lists, no alert is listed by two cases, and no two cases have the same number.
\<close>

theorem alert_belongs_to_one_case:
  assumes "aml_reachable s"
  shows "attached s = listed s \<and> single_valued (listed s) \<and> distinct (map ac_case_number (am_cases s))"
proof -
  have g: "grouping_ok s" and a: "alerts_ok s"
    using grouping_ok_reachable [OF assms] judging_ok_reachable [OF assms] by (simp_all add: judging_ok_def)
  have "single_valued (attached s)"
    using a by (auto simp: single_valued_def attached_iff alerts_ok_def distinct_map dest: inj_onD)
  then show ?thesis using g numbered_distinct by (simp add: grouping_ok_def)
qed

theorem alert_belongs_to_one_case_witness: "attached example_grouped = listed example_grouped \<and> single_valued (listed example_grouped)"
  using alert_belongs_to_one_case [OF example_grouped_reachable] by blast

subsection \<open>Closed cases\<close>

text \<open>A closed case keeps its status and its disposition in every step.\<close>

definition closed_with :: "string \<Rightarrow> aml_disposition option \<Rightarrow> aml_state \<Rightarrow> bool" where
  "closed_with i d s \<longleftrightarrow> (\<exists>c. get_case i s = Inr c \<and> ac_status c = CaseClosed \<and> ac_disposition c = d)"

lemma get_case_iff: "get_case i s = Inr c \<longleftrightarrow> find_one (\<lambda>c. ac_id c = i) (am_cases s) = Some c"
  by (simp add: get_case_def split: option.split)

lemma get_case_cong: "am_cases s = am_cases t \<Longrightarrow> get_case i s = get_case i t"
  by (simp add: get_case_def)

lemma get_case_saved:
  assumes "get_case j s = Inr c" "ac_id c' = ac_id c"
  shows "get_case i (save_case c' s) = (if i = j then Inr c' else get_case i s)"
proof -
  have j: "ac_id c = j" and found: "find_one (\<lambda>c. ac_id c = j) (am_cases s) = Some c"
    using assms(1) by (auto simp: get_case_iff dest: find_one_SomeD)
  have "find_one (\<lambda>c. ac_id c = j) (update_where (\<lambda>x. ac_id x = j) (\<lambda>_. c') (am_cases s)) = Some c'"
    using find_one_replaced [OF found, of c' ac_id] assms(2) j by simp
  moreover have "find_one (\<lambda>c. ac_id c = i) (update_where (\<lambda>x. ac_id x = j) (\<lambda>_. c') cs) = find_one (\<lambda>c. ac_id c = i) cs"
    if "i \<noteq> j" for cs
    using that assms(2) j by (induction cs) (auto simp: find_one_def update_where_def)
  ultimately show ?thesis using assms(2) j by (simp add: get_case_def save_case_def)
qed

lemma closed_with_saved:
  "closed_with i d s \<Longrightarrow> get_case j s = Inr c \<Longrightarrow> ac_id c' = ac_id c \<Longrightarrow>
   (ac_status c = CaseClosed \<Longrightarrow> ac_status c' = CaseClosed \<and> ac_disposition c' = ac_disposition c) \<Longrightarrow> closed_with i d (save_case c' s)"
  by (auto simp: closed_with_def get_case_saved)

lemma closed_with_insert: "closed_with i d s \<Longrightarrow> closed_with i d (s\<lparr>am_cases := insert_row c (am_cases s)\<rparr>)"
  by (auto simp: closed_with_def get_case_iff find_one_insert)

lemma closed_with_cong: "am_cases s = am_cases t \<Longrightarrow> closed_with i d s = closed_with i d t"
  using get_case_cong unfolding closed_with_def by metis

lemma closed_with_step: "aml_step s t \<Longrightarrow> closed_with i d s \<Longrightarrow> closed_with i d t"
proof (induction rule: aml_step.induct)
  case (raise env s r c run_id)
  have "am_cases (snd (raise_alert env run_id c s)) = am_cases s" by (simp add: raise_alert_def Let_def)
  then show ?case using raise.prems closed_with_cong by blast
next
  case (create_case cenv s cdto actor)
  have "closed_with i d (group_alerts ids k (s\<lparr>am_cases := insert_row c (am_cases s)\<rparr>))" for ids k c
    using closed_with_insert [OF create_case.prems] by (rule closed_with_cong [THEN iffD1, rotated]) simp
  then show ?case using create_case.prems closed_with_insert by (simp add: create_case_def Let_def)
next
  case (attach s cenv case_id ids actor)
  then show ?case
    by (auto simp: attach_alerts_def Let_def get_case_cong [of "group_alerts ids k s" s for k]
        closed_with_cong [of "group_alerts ids k s" s for k] split: sum.splits intro!: closed_with_saved)
next
  case (update_case s cenv case_id udto actor)
  then show ?case by (auto simp: update_case_def Let_def split: sum.splits intro!: closed_with_saved)
next
  case (close_case s cenv case_id d' remarks actor)
  have "closed_with i d u" if "get_case case_id s = Inr c" "ac_status c \<noteq> CaseClosed"
    "record_disposition_for_case cenv (closed_case cenv d' remarks actor c) d' remarks actor
       (save_case (closed_case cenv d' remarks actor c) s) = (x, u)" for c x u
  proof -
    let ?c = "closed_case cenv d' remarks actor c"
    have "closed_with i d (save_case ?c s)"
      using that(2) by (intro closed_with_saved [OF close_case.prems that(1)]) (simp_all add: closed_case_def)
    moreover have "am_cases u = am_cases (save_case ?c s)" using record_disposition_cases that(3) by (metis snd_conv)
    ultimately show ?thesis using closed_with_cong by blast
  qed
  then show ?case using close_case.prems by (auto simp: close_case_def Let_def split: sum.splits prod.splits)
next
  case (triage s cenv alert_id d reason actor)
  then show ?case using triage_alert_cases closed_with_cong by blast
qed (simp_all add: closed_with_def get_case_def)

lemma closed_with_steps: "aml_step\<^sup>*\<^sup>* s t \<Longrightarrow> closed_with i d s \<Longrightarrow> closed_with i d t"
  by (induction rule: rtranclp_induct) (auto intro: closed_with_step)

text \<open>
  A case that is closed by an update never gets a disposition (safety). The update of a case accepts the status
  closed: the case is then closed without a judgement of its alerts, which stay as they were, and whatever requests
  follow, it stays closed without a disposition and closing it properly is refused.
\<close>

theorem closing_by_update_skips_the_disposition:
  assumes "get_case i s = Inr c" "ac_status c \<noteq> CaseClosed" "ac_disposition c = None" "uc_status dto = Some CaseClosed"
    and "s1 = snd (update_case env i dto actor s)" "aml_step\<^sup>*\<^sup>* s1 t"
  shows "am_alerts s1 = am_alerts s \<and> am_feedback s1 = am_feedback s \<and> closed_with i None t
    \<and> close_case env' i d remarks actor' t = (Inl (BadRequest ''Case is already closed''), t)"
proof -
  let ?c = "with_notes env actor (uc_notes dto) (with_assignee env actor (uc_assigned_to dto)
              (with_priority env actor (uc_priority dto) (with_case_status env actor (uc_status dto) c)))"
  have s1: "s1 = save_case ?c s" using assms(1,2,5) by (simp add: update_case_def Let_def)
  have "ac_status ?c = CaseClosed \<and> ac_disposition ?c = None"
    using assms(3,4) by (simp add: with_case_status_def with_priority_def with_assignee_def with_notes_def split: option.split)
  then have "closed_with i None s1" unfolding s1 using get_case_saved [OF assms(1), of ?c i] by (simp add: closed_with_def)
  then have t: "closed_with i None t" by (rule closed_with_steps [OF assms(6)])
  then have "close_case env' i d remarks actor' t = (Inl (BadRequest ''Case is already closed''), t)"
    by (auto simp: closed_with_def close_case_def)
  then show ?thesis using t by (simp add: s1 save_case_def)
qed

theorem closing_by_update_skips_the_disposition_witness:
  "closed_with [] None (snd (update_case example_case_env []
     \<lparr>uc_status = Some CaseClosed, uc_priority = None, uc_assigned_to = None, uc_notes = None\<rparr> None example_grouped))"
proof -
  let ?dto = "\<lparr>uc_status = Some CaseClosed, uc_priority = None, uc_assigned_to = None, uc_notes = None\<rparr>"
  obtain c where c: "get_case [] example_grouped = Inr c" "ac_status c = CaseOpen" "ac_disposition c = None"
    using example_created by blast
  show ?thesis
    using closing_by_update_skips_the_disposition [where dto = ?dto, OF c(1) _ c(3) _ refl rtranclp.rtrancl_refl] c(2) by simp
qed

subsection \<open>Judged alerts in new cases\<close>

definition stuck :: "string \<Rightarrow> aml_state \<Rightarrow> bool" where
  "stuck i s \<longleftrightarrow> (\<exists>a. find_alert i s = Some a \<and> al_status a = AlertTriaged \<and> al_reviewed_at a \<noteq> None)"

lemma stuck_cong: "am_alerts s = am_alerts t \<Longrightarrow> stuck i s = stuck i t"
  by (simp add: stuck_def find_alert_def)

lemma stuck_group: "stuck i s \<Longrightarrow> stuck i (group_alerts ids k s)"
proof -
  have "find_alert i (group_alerts ids k s) =
      map_option (\<lambda>a. if al_id a \<in> set ids then a\<lparr>al_case_id := Some k, al_status := AlertTriaged\<rparr> else a) (find_alert i s)"
    by (simp add: find_alert_def group_alerts_def find_one_update)
  then show "stuck i s \<Longrightarrow> stuck i (group_alerts ids k s)" by (cases "find_alert i s") (auto simp: stuck_def)
qed

lemma stuck_triage: "stuck i s \<Longrightarrow> stuck i (snd (triage_alert env j d reason actor s))"
proof (cases "triage_check j s")
  case (Inr a)
  assume st: "stuck i s"
  then have "j \<noteq> i" using Inr by (auto simp: stuck_def triage_check_def split: option.splits if_splits)
  have "al_id a = j" using triage_checkD [OF Inr] by simp
  have other: "find_one (\<lambda>x. al_id x = i) (update_where (\<lambda>x. al_id x = j) (\<lambda>_. a') as) = find_one (\<lambda>x. al_id x = i) as"
    if "al_id a' = j" for as and a' :: aml_alert
    using that \<open>j \<noteq> i\<close> by (induction as) (auto simp: find_one_def update_where_def)
  then have "find_alert i (snd (triage_alert env j d reason actor s)) = find_alert i s"
    using Inr \<open>al_id a = j\<close>
    by (simp add: triage_alert_def triage_commit_def Let_def find_alert_def record_feedback_rows save_alert_def)
  then show ?thesis using st by (simp add: stuck_def)
qed (simp add: triage_alert_def)

lemma stuck_triage_each: "stuck i s \<Longrightarrow> stuck i (snd (triage_each env d reason actor ids s))"
proof (induction ids arbitrary: s)
  case (Cons j ids)
  then show ?case using stuck_triage [of i s env j d reason actor] by (auto split: prod.splits sum.splits)
qed simp

lemma stuck_disposition: "stuck i s \<Longrightarrow> stuck i (snd (record_disposition_for_case env c d reason actor s))"
  using stuck_cong [OF record_feedback_rows(1)]
  by (simp add: record_disposition_for_case_def Let_def stuck_triage_each)

lemma stuck_save_case [simp]: "stuck i (save_case c s) = stuck i s"
  by (rule stuck_cong) (simp add: save_case_def)

lemma stuck_step: "aml_step s t \<Longrightarrow> stuck i s \<Longrightarrow> stuck i t"
proof (induction rule: aml_step.induct)
  case (raise env s r c run_id)
  then show ?case by (auto simp: raise_alert_def Let_def stuck_def find_alert_def find_one_insert)
next
  case (create_case cenv s cdto actor)
  have "stuck i (s\<lparr>am_cases := cs\<rparr>)" for cs using create_case.prems stuck_cong [of s "s\<lparr>am_cases := cs\<rparr>"] by simp
  then show ?case using create_case.prems by (simp add: create_case_def Let_def stuck_group)
next
  case (attach s cenv case_id ids actor)
  then show ?case by (simp add: attach_alerts_def Let_def stuck_group split: sum.splits)
next
  case (update_case s cenv case_id udto actor)
  then show ?case by (simp add: update_case_def Let_def split: sum.splits)
next
  case (close_case s cenv case_id d remarks actor)
  have "stuck i (snd (record_disposition_for_case cenv c d remarks actor (save_case c s)))" for c
    using close_case.prems by (intro stuck_disposition) simp
  then have "record_disposition_for_case cenv c d remarks actor (save_case c s) = (x, t) \<Longrightarrow> stuck i t" for c x t
    by (metis snd_conv)
  then show ?case using close_case.prems by (auto simp: close_case_def Let_def split: sum.splits prod.splits)
next
  case (triage s cenv alert_id d reason actor)
  then show ?case by (rule stuck_triage [rotated])
qed (simp_all add: stuck_def find_alert_def)

text \<open>
  A judged alert that is put into a new case stays triaged for ever (safety). An alert that was judged on its own
  can still be grouped into a case, which sets its status back to triaged; whatever requests follow, the status stays
  triaged and another judgement is refused, so that the result of the analysis never shows in the status again.
\<close>

theorem grouped_judged_alert_stays_triaged:
  assumes "aml_reachable s" "find_alert i s = Some a" "al_reviewed_at a \<noteq> None" "al_case_id a = None"
    and "create_case env dto actor s = (Inr c, s1)" "cc_alert_ids dto = Some [i]" "aml_step\<^sup>*\<^sup>* s1 t"
  shows "stuck i t \<and> triage_alert env' i d reason actor' t = (Inl (BadRequest ''Alert has already been triaged''), t)"
proof -
  have a: "a \<in> set (am_alerts s)" "al_id a = i" using find_alertD [OF assms(2)] by auto
  have "s1 = group_alerts (map al_id (alerts_in [i] s)) (ac_id c) (s\<lparr>am_cases := insert_row c (am_cases s)\<rparr>) \<and> alerts_in [i] s \<noteq> []"
    using assms(5,6) a by (auto simp: create_case_def Let_def or_default_def alerts_in_def find_where_def filter_empty_conv split: if_splits)
  moreover have "i \<in> set (map al_id (alerts_in [i] s))" using a by (auto simp: alerts_in_def find_where_def)
  ultimately have "find_alert i s1 = Some (a\<lparr>al_case_id := Some (ac_id c), al_status := AlertTriaged\<rparr>)"
    using assms(2) a(2) by (auto simp: find_alert_def group_alerts_def find_one_update)
  then have "stuck i s1" using assms(3) by (simp add: stuck_def)
  with assms(7) have "stuck i t" by (induction rule: rtranclp_induct) (auto intro: stuck_step)
  moreover from this have "triage_alert env' i d reason actor' t = (Inl (BadRequest ''Alert has already been triaged''), t)"
    by (auto simp: stuck_def triage_alert_def triage_check_def)
  ultimately show ?thesis by blast
qed

theorem grouped_judged_alert_stays_triaged_witness: "stuck [] example_grouped"
proof -
  obtain c where c: "create_case example_case_env example_case_dto None example_judged = (Inr c, example_grouped)"
    using example_created by blast
  show ?thesis
    using grouped_judged_alert_stays_triaged [OF example_judged_reachable example_found _ _ c _ rtranclp.rtrancl_refl]
    by (simp add: example_alert_fields example_case_dto_def)
qed

subsection \<open>Requests that overlap, and alerts attached again\<close>

lemma find_judged_rule:
  assumes "find_rule k rules = Some r"
  shows "find_rule k (save_rule (judged_rule d r) rules) = Some (judged_rule d r)"
proof -
  have "ar_id r = k" using assms by (auto simp: find_rule_def dest: find_one_SomeD)
  then show ?thesis using find_one_replaced [of "\<lambda>r. ar_id r = k" rules r "judged_rule d r" ar_id] assms by (simp add: find_rule_def save_rule_def)
qed

lemma triage_commit_effect:
  assumes "al_rule_id a = Some k" "find_rule k (am_rules s) = Some r"
  shows "find_rule k (am_rules (snd (triage_commit env d reason actor a s))) = Some (judged_rule d r)"
    and "judged_ids (am_feedback (snd (triage_commit env d reason actor a s))) = judged_ids (am_feedback s) @ [al_id a]"
  using assms find_judged_rule [OF assms(2), of d]
  by (simp_all add: triage_commit_def Let_def record_feedback_def judged_ids_insert save_alert_def)

text \<open>
  Two requests that both found the alert before either wrote its judgement record two judgements, and both count for
  the rule; the second decides the status.
\<close>

lemma overlapping_triages_count_twice:
  assumes "triage_check i s = Inr a" "al_rule_id a = Some k" "find_rule k (am_rules s) = Some r"
    and "s1 = snd (triage_commit env1 DispositionFalsePositive reason1 actor1 a s)"
    and "s2 = snd (triage_commit env2 DispositionSarFiled reason2 actor2 a s1)"
  shows "judged_ids (am_feedback s2) = judged_ids (am_feedback s) @ [i, i]
    \<and> (\<exists>r2. find_rule k (am_rules s2) = Some r2 \<and> ar_false_positives r2 = ar_false_positives r + 1
         \<and> ar_true_positives r2 = ar_true_positives r + 1)"
proof -
  have i: "al_id a = i" using triage_checkD [OF assms(1)] by simp
  note first = triage_commit_effect [OF assms(2,3), of env1 DispositionFalsePositive reason1 actor1, folded assms(4)]
  note second = triage_commit_effect [OF assms(2) first(1), of env2 DispositionSarFiled reason2 actor2, folded assms(5)]
  show ?thesis using first second i by (simp add: judged_rule_def)
qed

text \<open>Attaching an alert again that the case already lists counts its amount a second time.\<close>

lemma attaching_again_counts_twice:
  assumes "get_case i s = Inr c" "find_where (\<lambda>a. al_id a = j) (am_alerts s) = [a]" "al_case_id a = Some i" "al_amount_usd a = Some x"
  shows "\<exists>c' t. attach_alerts env i [j] actor s = (Inr c', t) \<and> ac_exposure_usd c' = ev_column env (add_js (ac_exposure_usd c) (fl x))"
  using assms by (simp add: attach_alerts_def alerts_in_def exposure_of_def or_default_def sum_js_def add_js_def Let_def)

text \<open>A judgement as a false positive can raise the multiplier: the fifth judgement ends the neutral start.\<close>

lemma fl_dyadic: "\<bar>m\<bar> \<le> 2 ^ 53 \<Longrightarrow> fl (of_int m / 32) = of_int m / 32"
proof -
  have p: "(2::rat) powi (- 5) = 1 / 32" by (simp add: power_int_minus)
  show "\<bar>m\<bar> \<le> 2 ^ 53 \<Longrightarrow> fl (of_int m / 32) = of_int m / 32"
    using fl_exact [of m "- 5"] unfolding p by simp
qed

lemma fifth_judgement_can_raise_sensitivity:
  "sensitivity_from_disposition 0 4 < sensitivity_from_disposition 1 4"
proof -
  have half: "fl (1 / 2) = 1 / 2" and quarter: "fl (1 / 4) = 1 / 4" and low: "fl (7 / 32) = 7 / 32" and high: "fl (5 / 4) = 5 / 4"
    using fl_dyadic [of 16] fl_dyadic [of 8] fl_dyadic [of 7] fl_dyadic [of 40] by simp_all
  have "fl (1 / 5) \<le> 7 / 32" using fl_mono [of "1 / 5" "7 / 32"] low by simp
  moreover have "1 / 2 \<le> fl (9 / 10)" "1 / 2 \<le> fl (3 / 4)"
    using fl_mono [of "1 / 2" "9 / 10"] fl_mono [of "1 / 2" "3 / 4"] half by simp_all
  ultimately show ?thesis using half quarter high
    by (simp add: sensitivity_from_disposition_def lit_def div_js_def)
qed

end
