(* ===== verification/AmlSweepProps.thy ===== *)
theory AmlSweepProps
  imports AmlProps
begin

text \<open>
  Properties of a sweep: it is a run of the steps of the tables, ends, raises each new finding once and nothing the
  second time; and a rule whose list of countries is not an array stops every sweep.
\<close>

subsection \<open>Candidates\<close>

abbreviation key_of :: "candidate \<Rightarrow> string" where
  "key_of c \<equiv> pm_dedupe_key (cd_match c)"

definition alert_keys :: "aml_state \<Rightarrow> string list" where
  "alert_keys s = map al_dedupe_key (am_alerts s)"

definition finding_keys :: "aml_rule list \<Rightarrow> candidate list \<Rightarrow> string set" where
  "finding_keys rules cs = key_of ` {c \<in> set cs. \<not> below_threshold rules (cd_match c)}"

lemma evaluate_rules_matches:
  "evaluate_rules env country u flows inside rules = Inr cs \<Longrightarrow> c \<in> set cs \<Longrightarrow> \<exists>r \<in> set rules. match_of r (cd_match c)"
  by (induction rules arbitrary: cs) (fastforce split: sum.splits dest: run_detector_matches)+

lemma evaluate_matches:
  "evaluate env country rules ws we gs = Inr cs \<Longrightarrow> c \<in> set cs \<Longrightarrow> \<exists>r \<in> set rules. match_of r (cd_match c)"
proof (induction gs arbitrary: cs)
  case (Cons g gs)
  obtain u flows where g: "g = (u, flows)" by (cases g)
  show ?case using Cons unfolding g by (auto simp: Let_def split: sum.splits if_splits dest: evaluate_rules_matches)
qed simp

lemma sweep_candidates_match:
  "sweep_candidates env opts s = Inr cs \<Longrightarrow> c \<in> set cs \<Longrightarrow> \<exists>r \<in> set (am_rules (mw_aml s)). match_of r (cd_match c)"
  unfolding sweep_candidates_def Let_def split_def
  by (drule (1) evaluate_matches) (auto simp: active_flow_rules_def find_where_def)

subsection \<open>What a sweep does to the tables\<close>

lemma create_case_rows:
  "am_rules (snd (create_case env dto actor s)) = am_rules s"
  "alerts_follow (am_alerts s) (am_alerts (snd (create_case env dto actor s)))"
proof -
  show "am_rules (snd (create_case env dto actor s)) = am_rules s"
    by (simp add: create_case_def Let_def group_alerts_def)
  have "alerts_follow (am_alerts s) (am_alerts (group_alerts ids k (s\<lparr>am_cases := cs\<rparr>)))" for ids k cs
    using alerts_follow_group [of "s\<lparr>am_cases := cs\<rparr>" ids k] by simp
  then show "alerts_follow (am_alerts s) (am_alerts (snd (create_case env dto actor s)))"
    by (simp add: create_case_def Let_def)
qed

lemma create_case_keys: "alert_keys (snd (create_case env dto actor s)) = alert_keys s"
  using alerts_follow_maps(2) [OF create_case_rows(2)] by (simp add: alert_keys_def)

lemma raise_alert_rows:
  "am_rules (snd (raise_alert env run_id c s)) = am_rules s"
  "fst (raise_alert env run_id c s) = Inr a \<Longrightarrow> alert_keys (snd (raise_alert env run_id c s)) = alert_keys s @ [key_of c]"
  by (auto simp: raise_alert_def Let_def alert_keys_def insert_row_def alert_of_def split: if_splits)

lemma process_candidate_skips:
  "key_of c \<in> set (sp_seen p) \<Longrightarrow>
     process_candidate env rules dry run_id c p s = (Inr (p\<lparr>sp_duplicates := sp_duplicates p + 1\<rparr>), s)"
  "key_of c \<notin> set (sp_seen p) \<Longrightarrow> below_threshold rules (cd_match c) \<Longrightarrow>
     process_candidate env rules dry run_id c p s = (Inr (p\<lparr>sp_below := sp_below p + 1\<rparr>), s)"
  by (simp_all add: process_candidate_def)

lemma process_candidate_effect:
  assumes "process_candidate env rules False run_id c p s = (Inr p', s')"
  shows "if key_of c \<in> set (sp_seen p) \<or> below_threshold rules (cd_match c)
         then s' = s \<and> sp_seen p' = sp_seen p \<and> sp_raised p' = sp_raised p \<and> sp_cases p' = sp_cases p
         else alert_keys s' = alert_keys s @ [key_of c] \<and> sp_seen p' = key_of c # sp_seen p \<and> sp_raised p' = sp_raised p + 1"
proof (cases "key_of c \<in> set (sp_seen p) \<or> below_threshold rules (cd_match c)")
  case True
  then show ?thesis using assms process_candidate_skips [where env = env and run_id = run_id and c = c and p = p and s = s] by (cases "key_of c \<in> set (sp_seen p)") auto
next
  case False
  obtain x s1 where r: "raise_alert env run_id c s = (x, s1)" by (cases "raise_alert env run_id c s")
  then obtain a where a: "x = Inr a" using assms False by (cases x) (auto simp: process_candidate_def Let_def)
  have k1: "alert_keys s1 = alert_keys s @ [key_of c]" using raise_alert_rows(2) r a by (metis fst_conv snd_conv)
  define dto where "dto = \<lparr>cc_alert_ids = Some [al_id a], cc_subject_user_id = Some (cd_user_id c), cc_priority = None, cc_title = None\<rparr>"
  obtain y s2 where cr: "create_case (sv_case env) dto None s1 = (y, s2)" by (cases "create_case (sv_case env) dto None s1")
  have "alert_keys s2 = alert_keys s1" using create_case_keys cr by (metis snd_conv)
  then show ?thesis using assms False r a cr k1 unfolding dto_def
    by (auto simp: process_candidate_def Let_def split: if_splits sum.splits)
qed

lemma process_candidates_keys:
  assumes "process_candidates env rules False run_id cs p s = (Inr p', s')"
  shows "\<exists>new. alert_keys s' = alert_keys s @ new \<and> distinct new \<and> set new = finding_keys rules cs - set (sp_seen p)
           \<and> sp_raised p' = sp_raised p + length new"
  using assms
proof (induction cs arbitrary: p s)
  case Nil
  then show ?case by (simp add: finding_keys_def)
next
  case (Cons c cs)
  obtain p1 s1 where 1: "process_candidate env rules False run_id c p s = (Inr p1, s1)"
    and rest: "process_candidates env rules False run_id cs p1 s1 = (Inr p', s')"
    using Cons.prems by (auto split: prod.splits sum.splits)
  obtain new where new: "alert_keys s' = alert_keys s1 @ new" "distinct new" "set new = finding_keys rules cs - set (sp_seen p1)"
    "sp_raised p' = sp_raised p1 + length new"
    using Cons.IH [OF rest] by blast
  note eff = process_candidate_effect [OF 1]
  have keys: "finding_keys rules (c # cs) =
      (if below_threshold rules (cd_match c) then finding_keys rules cs else insert (key_of c) (finding_keys rules cs))"
    by (auto simp: finding_keys_def)
  show ?case
  proof (cases "key_of c \<in> set (sp_seen p) \<or> below_threshold rules (cd_match c)")
    case True
    then have "finding_keys rules (c # cs) - set (sp_seen p) = finding_keys rules cs - set (sp_seen p)" by (auto simp: keys)
    then show ?thesis using new eff True by auto
  next
    case False
    then show ?thesis using new eff by (intro exI [of _ "key_of c # new"]) (auto simp: keys)
  qed
qed

lemma process_candidates_nothing:
  "(\<And>c. c \<in> set cs \<Longrightarrow> key_of c \<in> set (sp_seen p) \<or> below_threshold rules (cd_match c)) \<Longrightarrow>
   \<exists>p'. process_candidates env rules False run_id cs p s = (Inr p', s) \<and> sp_raised p' = sp_raised p \<and> sp_cases p' = sp_cases p"
proof (induction cs arbitrary: p)
  case (Cons c cs)
  let ?p = "if key_of c \<in> set (sp_seen p) then p\<lparr>sp_duplicates := sp_duplicates p + 1\<rparr> else p\<lparr>sp_below := sp_below p + 1\<rparr>"
  have "process_candidate env rules False run_id c p s = (Inr ?p, s)"
    using Cons.prems [of c] process_candidate_skips [where env = env and run_id = run_id and c = c and p = p and s = s] by auto
  moreover have "\<exists>p'. process_candidates env rules False run_id cs ?p s = (Inr p', s) \<and> sp_raised p' = sp_raised ?p \<and> sp_cases p' = sp_cases ?p"
    by (rule Cons.IH) (use Cons.prems in auto)
  ultimately show ?case by (auto split: if_splits)
qed simp

lemma process_candidates_rules:
  "am_rules (snd (process_candidates env rules dry run_id cs p s)) = am_rules s"
proof (induction cs arbitrary: p s)
  case (Cons c cs)
  have "am_rules (snd (process_candidate env rules dry run_id c p s)) = am_rules s"
    using raise_alert_rows(1) [of env run_id c s] create_case_rows(1)
    by (auto simp: process_candidate_def Let_def split: prod.splits sum.splits) (metis snd_conv)+
  then show ?case using Cons.IH by (auto split: prod.splits sum.splits)
qed simp

subsection \<open>Each finding once\<close>

lemma image_restricted: "f ` {a \<in> A. f a \<in> B} = B \<inter> f ` A"
  by auto

lemma first_seen:
  "set (sp_seen (first_progress cs flows s)) = key_of ` set cs \<inter> set (alert_keys s)"
proof -
  have "(\<lambda>c. pm_dedupe_key (cd_match c)) ` set cs = key_of ` set cs" by (rule refl)
  then have "set (sp_seen (first_progress cs flows s)) = al_dedupe_key ` {a \<in> set (am_alerts s). al_dedupe_key a \<in> key_of ` set cs}"
    by (simp add: first_progress_def find_existing_keys_def find_where_def)
  then show ?thesis unfolding alert_keys_def set_map image_restricted .
qed

text \<open>A sweep that is enabled and not dry, taken apart.\<close>

lemma run_sweep_InrD:
  assumes "run_sweep env opts s = (Inr res, t)" "is_enabled env" "\<not> so_dry_run opts"
  obtains cs p where "sweep_candidates env opts s = Inr cs"
    and "process_candidates env (active_flow_rules (am_rules (mw_aml s))) False (Some (sv_run_id env (length (mw_runs s)))) cs
           (first_progress cs (sweep_flows env opts s) (mw_aml s)) (mw_aml s) = (Inr p, mw_aml t)"
    and "sr_alerts_raised res = sp_raised p" "sr_cases res = sp_cases p"
    and "\<exists>runs. t = s\<lparr>mw_aml := mw_aml t, mw_runs := runs\<rparr>"
proof -
  obtain we ws where w: "sweep_window env opts = (ws, we)" by (cases "sweep_window env opts")
  obtain cs where cs: "sweep_candidates env opts s = Inr cs"
    using assms w by (cases "sweep_candidates env opts s") (auto simp: run_sweep_def Let_def)
  obtain x a where x: "process_candidates env (active_flow_rules (am_rules (mw_aml s))) False (Some (sv_run_id env (length (mw_runs s)))) cs
           (first_progress cs (sweep_flows env opts s) (mw_aml s)) (mw_aml s) = (x, a)"
    by (cases "process_candidates env (active_flow_rules (am_rules (mw_aml s))) False (Some (sv_run_id env (length (mw_runs s)))) cs
           (first_progress cs (sweep_flows env opts s) (mw_aml s)) (mw_aml s)")
  obtain p where p: "x = Inr p" using assms w cs x by (cases x) (auto simp: run_sweep_def Let_def)
  have "t = finish_run (Some (sv_run_id env (length (mw_runs s)))) res
       (s\<lparr>mw_runs := insert_row (start_run env ws we (length (active_flow_rules (am_rules (mw_aml s)))) s) (mw_runs s), mw_aml := a\<rparr>)"
    and res: "res = result_of (Some (sv_run_id env (length (mw_runs s)))) cs (sweep_flows env opts s) (active_flow_rules (am_rules (mw_aml s))) p"
    using assms w cs x p by (auto simp: run_sweep_def Let_def)
  then have "mw_aml t = a" "\<exists>runs. t = s\<lparr>mw_aml := a, mw_runs := runs\<rparr>" by (simp_all add: finish_run_def) blast
  then show thesis using that [of cs p] cs x p res by (simp add: result_of_def)
qed

lemma sweep_keys:
  assumes "is_enabled env" "\<not> so_dry_run opts" "run_sweep env opts s = (Inr res, t)" "sweep_candidates env opts s = Inr cs"
  shows "\<exists>new. alert_keys (mw_aml t) = alert_keys (mw_aml s) @ new \<and> distinct new
    \<and> set new = finding_keys (active_flow_rules (am_rules (mw_aml s))) cs - set (alert_keys (mw_aml s))
    \<and> sr_alerts_raised res = length new"
proof -
  let ?rules = "active_flow_rules (am_rules (mw_aml s))"
  obtain p where p: "process_candidates env ?rules False (Some (sv_run_id env (length (mw_runs s)))) cs
           (first_progress cs (sweep_flows env opts s) (mw_aml s)) (mw_aml s) = (Inr p, mw_aml t)" "sr_alerts_raised res = sp_raised p"
    using run_sweep_InrD [OF assms(3,1,2)] assms(4) by (metis sum.inject(2))
  obtain new where new: "alert_keys (mw_aml t) = alert_keys (mw_aml s) @ new" "distinct new"
    "set new = finding_keys ?rules cs - set (sp_seen (first_progress cs (sweep_flows env opts s) (mw_aml s)))" "sp_raised p = length new"
    using process_candidates_keys [OF p(1)] by (auto simp: first_progress_def)
  have "finding_keys ?rules cs \<subseteq> key_of ` set cs" by (auto simp: finding_keys_def)
  then have "set new = finding_keys ?rules cs - set (alert_keys (mw_aml s))" unfolding new(3) first_seen by blast
  then show ?thesis using new p(2) by (intro exI [of _ new]) simp
qed

text \<open>
  C19: A sweep raises each new finding once (functional). An enabled sweep that ends adds to the alerts exactly one for
  each key that a finding above the threshold of its rule has and no stored alert had, and none else; the counter of
  raised alerts is their number. The findings are the matches of the enabled rules over the movements of each account
  that lie, at least in part, inside the window.
\<close>

theorem sweep_raises_each_finding_once:
  assumes "is_enabled env" "\<not> so_dry_run opts" "run_sweep env opts s = (Inr res, t)" "sweep_candidates env opts s = Inr cs"
  shows "\<exists>new. alert_keys (mw_aml t) = alert_keys (mw_aml s) @ new \<and> distinct new
    \<and> set new = finding_keys (active_flow_rules (am_rules (mw_aml s))) cs - set (alert_keys (mw_aml s))
    \<and> sr_alerts_raised res = length new"
  by (rule sweep_keys [OF assms])

lemma same_candidates:
  assumes "am_rules a = am_rules (mw_aml s)" "sv_detect env2 = sv_detect env" "sweep_window env2 opts = sweep_window env opts"
  shows "sweep_candidates env2 opts (s\<lparr>mw_aml := a, mw_runs := runs\<rparr>) = sweep_candidates env opts s"
  using assms
  by (simp add: sweep_candidates_def sweep_flows_def load_cash_flows_def inflows_def outflows_def log_flows_def deal_country_def
      deal_commodity_def deal_of_def user_country_def [abs_def])

text \<open>
  A repeated sweep raises nothing (safety). When the same window is swept again, and no rule, movement or account
  has changed, the second sweep ends, raises no alert, opens no case and leaves rules, alerts, cases and judgements as
  they are.
\<close>

theorem repeated_sweep_raises_nothing:
  assumes "is_enabled env" "\<not> so_dry_run opts" "run_sweep env opts s = (Inr res, t)"
    and "is_enabled env2" "sv_detect env2 = sv_detect env" "sweep_window env2 opts = sweep_window env opts"
  shows "\<exists>res2 u. run_sweep env2 opts t = (Inr res2, u) \<and> sr_alerts_raised res2 = 0 \<and> sr_cases res2 = [] \<and> mw_aml u = mw_aml t"
proof -
  let ?rules = "active_flow_rules (am_rules (mw_aml s))"
  obtain cs p where cs: "sweep_candidates env opts s = Inr cs"
    and p: "process_candidates env ?rules False (Some (sv_run_id env (length (mw_runs s)))) cs
           (first_progress cs (sweep_flows env opts s) (mw_aml s)) (mw_aml s) = (Inr p, mw_aml t)"
    and t: "\<exists>runs. t = s\<lparr>mw_aml := mw_aml t, mw_runs := runs\<rparr>"
    by (rule run_sweep_InrD [OF assms(3,1,2)])
  have rules: "am_rules (mw_aml t) = am_rules (mw_aml s)" using process_candidates_rules p by (metis snd_conv)
  obtain runs where runs: "t = s\<lparr>mw_aml := mw_aml t, mw_runs := runs\<rparr>" using t by blast
  have cs2: "sweep_candidates env2 opts t = Inr cs"
    by (subst runs) (simp only: same_candidates [OF rules assms(5,6)] cs)
  obtain new where new: "alert_keys (mw_aml t) = alert_keys (mw_aml s) @ new"
    "set new = finding_keys ?rules cs - set (alert_keys (mw_aml s))"
    using sweep_keys [OF assms(1-3) cs] by blast
  then have "finding_keys ?rules cs \<subseteq> set (alert_keys (mw_aml t))" by auto
  then have seen: "key_of c \<in> set (sp_seen (first_progress cs flows (mw_aml t))) \<or> below_threshold ?rules (cd_match c)"
    if "c \<in> set cs" for c flows
    using that by (auto simp: first_seen finding_keys_def)
  obtain ws we where w: "sweep_window env2 opts = (ws, we)" by (cases "sweep_window env2 opts")
  from process_candidates_nothing [of cs "first_progress cs (sweep_flows env2 opts t) (mw_aml t)" ?rules env2
      "Some (sv_run_id env2 (length (mw_runs t)))" "mw_aml t", OF seen]
  obtain p2 where "process_candidates env2 ?rules False (Some (sv_run_id env2 (length (mw_runs t)))) cs
      (first_progress cs (sweep_flows env2 opts t) (mw_aml t)) (mw_aml t) = (Inr p2, mw_aml t)" "sp_raised p2 = 0" "sp_cases p2 = []"
    by (auto simp: first_progress_def)
  then show ?thesis
    using assms(2,4) w cs2 rules by (simp add: run_sweep_def Let_def result_of_def finish_run_def)
qed

subsection \<open>A rule that stops every sweep\<close>

text \<open>A rule whose countries are neither missing, null nor an array makes its detector throw.\<close>

definition unusable :: "aml_rule \<Rightarrow> bool" where
  "unusable r \<longleftrightarrow> ar_enabled r \<and> ar_pattern_type r = HighRiskJurisdiction \<and> listed_countries r = Inl ''TypeError''"

lemma run_detector_total: "run_detector env r flows country = Inl e \<longleftrightarrow> flows \<noteq> [] \<and> unusable r \<and> e = ''TypeError''"
  by (auto simp: run_detector_def unusable_def detect_high_risk_jurisdiction_def listed_countries_def Let_def
      split: aml_pattern.splits sum.splits if_splits option.splits parameter_value.splits)

lemma evaluate_rules_fails:
  "flows \<noteq> [] \<Longrightarrow> r \<in> set rules \<Longrightarrow> unusable r \<Longrightarrow> evaluate_rules env country u flows inside rules = Inl (Internal ''TypeError'')"
proof (induction rules)
  case (Cons x rules)
  then show ?case
    using run_detector_total [of env x flows country] by (cases "run_detector env x flows country") auto
qed simp

lemma evaluate_fails:
  "(u, flows) \<in> set gs \<Longrightarrow> in_window ws we flows \<noteq> [] \<Longrightarrow> r \<in> set rules \<Longrightarrow> unusable r \<Longrightarrow>
   evaluate env country rules ws we gs = Inl (Internal ''TypeError'')"
proof (induction gs)
  case (Cons g gs)
  obtain v fs where g: "g = (v, fs)" by (cases g)
  have here: "evaluate_rules env (country v) v fs (in_window ws we fs) rules = Inl (Internal ''TypeError'')" if "in_window ws we fs \<noteq> []"
    using that by (intro evaluate_rules_fails [OF _ Cons.prems(3,4)]) (auto simp: in_window_def)
  show ?case
  proof (cases "in_window ws we fs = []")
    case True
    then have "(u, flows) \<in> set gs" using Cons.prems(1,2) g by auto
    then show ?thesis using Cons.IH Cons.prems True by (simp add: g)
  next
    case False
    then show ?thesis using here by (simp add: g Let_def)
  qed
qed simp

text \<open>
  A list of countries that is not an array stops all monitoring (error). A rule for jurisdictions whose countries are
  a text passes the check of its parameters; as soon as it is enabled and some account has a movement in the window,
  every sweep fails with a type error before any alert is raised, for all accounts and rules, and its run stays
  marked as running.
\<close>

theorem text_of_countries_stops_every_sweep:
  assumes "is_enabled env" "\<not> so_dry_run opts" "r \<in> set (am_rules (mw_aml s))" "ar_enabled r"
    and "ar_pattern_type r = HighRiskJurisdiction" "ar_parameters r = [(''countries'', TextValue txt)]" "txt \<noteq> []"
    and "sweep_window env opts = (ws, we)" "(u, flows) \<in> set (group_by_user (sweep_flows env opts s))" "in_window ws we flows \<noteq> []"
  shows "validate_parameters HighRiskJurisdiction (Some (ar_parameters r)) = None
    \<and> run_sweep env opts s = (Inl (Internal ''TypeError''),
        s\<lparr>mw_runs := mw_runs s @ [start_run env ws we (length (active_flow_rules (am_rules (mw_aml s)))) s]\<rparr>)
    \<and> rn_status (start_run env ws we (length (active_flow_rules (am_rules (mw_aml s)))) s) = RunRunning"
proof -
  have "unusable r" using assms(4-6) by (simp add: unusable_def listed_countries_def parameter_def)
  moreover have "r \<in> set (active_flow_rules (am_rules (mw_aml s)))"
    using assms(3-5) by (simp add: active_flow_rules_def find_where_def)
  ultimately have "sweep_candidates env opts s = Inl (Internal ''TypeError'')"
    using evaluate_fails [OF assms(9,10)] assms(8) by (simp add: sweep_candidates_def)
  moreover have "validate_parameters HighRiskJurisdiction (Some (ar_parameters r)) = None"
    using assms(6,7) by (simp add: validate_parameters_def parameter_error_def)
  ultimately show ?thesis
    using assms(1,2,8) by (simp add: run_sweep_def Let_def insert_row_def start_run_def)
qed

subsection \<open>A sweep is a run of steps and ends\<close>

text \<open>The identifiers that the generators will give are not in the tables.\<close>

definition ids_ahead :: "sweep_env \<Rightarrow> aml_state \<Rightarrow> bool" where
  "ids_ahead env s \<longleftrightarrow> inj (sv_alert_id env) \<and> inj (ev_case_id (sv_case env))
     \<and> (\<forall>n \<ge> length (am_alerts s). sv_alert_id env n \<notin> al_id ` set (am_alerts s))
     \<and> (\<forall>n \<ge> length (am_cases s). ev_case_id (sv_case env) n \<notin> ac_id ` set (am_cases s))"

lemma ids_ahead_now:
  assumes "ids_ahead env s"
  shows "sv_alert_id env (length (am_alerts s)) \<notin> al_id ` set (am_alerts s)"
    and "ev_case_id (sv_case env) (length (am_cases s)) \<notin> ac_id ` set (am_cases s)"
  using assms by (simp_all add: ids_ahead_def)

lemma ids_ahead_raise:
  assumes "ids_ahead env s"
  shows "ids_ahead env (snd (raise_alert env run_id c s))"
proof -
  have "sv_alert_id env n \<noteq> sv_alert_id env (length (am_alerts s))" if "Suc (length (am_alerts s)) \<le> n" for n
    using assms that by (auto simp: ids_ahead_def dest: injD)
  then show ?thesis using assms by (simp add: ids_ahead_def raise_alert_def Let_def insert_row_def alert_of_def)
qed

lemma ids_ahead_create:
  assumes "ids_ahead env s"
  shows "ids_ahead env (snd (create_case (sv_case env) dto actor s))"
proof -
  have same: "map al_id (am_alerts (snd (create_case (sv_case env) dto actor s))) = map al_id (am_alerts s)"
    using alerts_follow_maps(1) [OF create_case_rows(2)] .
  then have al: "length (am_alerts (snd (create_case (sv_case env) dto actor s))) = length (am_alerts s)"
    "al_id ` set (am_alerts (snd (create_case (sv_case env) dto actor s))) = al_id ` set (am_alerts s)"
    by (metis length_map) (metis same list.set_map)
  have "am_cases (snd (create_case (sv_case env) dto actor s)) = am_cases s \<or>
      (\<exists>c. ac_id c = ev_case_id (sv_case env) (length (am_cases s)) \<and> am_cases (snd (create_case (sv_case env) dto actor s)) = am_cases s @ [c])"
    by (auto simp: create_case_def Let_def insert_row_def new_case_def)
  moreover have "ev_case_id (sv_case env) n \<noteq> ev_case_id (sv_case env) (length (am_cases s))" if "Suc (length (am_cases s)) \<le> n" for n
    using assms that by (auto simp: ids_ahead_def dest: injD)
  moreover from this have "\<forall>n \<ge> Suc (length (am_cases s)). ev_case_id (sv_case env) n \<notin>
      insert (ev_case_id (sv_case env) (length (am_cases s))) (ac_id ` set (am_cases s))"
    using assms by (simp add: ids_ahead_def)
  ultimately show ?thesis using assms al by (elim disjE exE conjE) (simp_all add: ids_ahead_def)
qed

text \<open>What is kept while the candidates are processed.\<close>

definition sweep_ok :: "sweep_env \<Rightarrow> aml_state \<Rightarrow> bool" where
  "sweep_ok env s \<longleftrightarrow> ids_ahead env s \<and> judging_ok s \<and> grouping_ok s"

lemma raise_step:
  assumes "sweep_ok env s" "r \<in> set (am_rules s)" "match_of r (cd_match c)"
  shows "aml_step s (snd (raise_alert env run_id c s))" "sweep_ok env (snd (raise_alert env run_id c s))"
proof -
  show st: "aml_step s (snd (raise_alert env run_id c s))"
    using assms ids_ahead_now unfolding sweep_ok_def match_of_def by (intro aml_step.raise [where r = r]) blast+
  show "sweep_ok env (snd (raise_alert env run_id c s))"
    using assms(1) ids_ahead_raise judging_ok_step [OF st] grouping_ok_step [OF st] unfolding sweep_ok_def by blast
qed

lemma create_step:
  assumes "sweep_ok env s"
  shows "aml_step s (snd (create_case (sv_case env) dto actor s))" "sweep_ok env (snd (create_case (sv_case env) dto actor s))"
proof -
  show st: "aml_step s (snd (create_case (sv_case env) dto actor s))"
    using assms ids_ahead_now unfolding sweep_ok_def by (intro aml_step.create_case) blast
  show "sweep_ok env (snd (create_case (sv_case env) dto actor s))"
    using assms ids_ahead_create judging_ok_step [OF st] grouping_ok_step [OF st] unfolding sweep_ok_def by blast
qed

lemma process_candidate_ok:
  assumes "sweep_ok env s" "r \<in> set (am_rules s)" "match_of r (cd_match c)"
  shows "aml_step\<^sup>*\<^sup>* s (snd (process_candidate env rules dry run_id c p s))
    \<and> sweep_ok env (snd (process_candidate env rules dry run_id c p s))"
proof -
  note st = raise_step [OF assms, of run_id]
  let ?s1 = "snd (raise_alert env run_id c s)"
  have two: "aml_step\<^sup>*\<^sup>* s (snd (create_case (sv_case env) dto None ?s1)) \<and> sweep_ok env (snd (create_case (sv_case env) dto None ?s1))" for dto
    using create_step [OF st(2), of dto None] st(1) by (meson converse_rtranclp_into_rtranclp r_into_rtranclp)
  have one: "aml_step\<^sup>*\<^sup>* s ?s1 \<and> sweep_ok env ?s1" using st by blast
  show ?thesis
  proof (cases "key_of c \<in> set (sp_seen p) \<or> below_threshold rules (cd_match c) \<or> dry")
    case True
    then have "snd (process_candidate env rules dry run_id c p s) = s" by (auto simp: process_candidate_def Let_def)
    then show ?thesis using assms(1) by simp
  next
    case False
    obtain x s1 where r: "raise_alert env run_id c s = (x, s1)" by (cases "raise_alert env run_id c s")
    show ?thesis
    proof (cases "(\<exists>a. x = Inr a) \<and> opens_case env c p")
      case True
      then obtain a where a: "x = Inr a" by blast
      define dto where "dto = \<lparr>cc_alert_ids = Some [al_id a], cc_subject_user_id = Some (cd_user_id c), cc_priority = None, cc_title = None\<rparr>"
      have "snd (process_candidate env rules dry run_id c p s) = snd (create_case (sv_case env) dto None s1)"
        using False True r a by (simp add: process_candidate_def Let_def dto_def split: prod.split sum.split)
      then show ?thesis using two [of dto] r by simp
    next
      case f: False
      then have "snd (process_candidate env rules dry run_id c p s) = s1"
        using False r by (cases x) (simp_all add: process_candidate_def Let_def)
      then show ?thesis using one r by simp
    qed
  qed
qed

lemma process_candidates_ok:
  assumes "sweep_ok env s" "\<And>c. c \<in> set cs \<Longrightarrow> \<exists>r \<in> set (am_rules s). match_of r (cd_match c)"
  shows "aml_step\<^sup>*\<^sup>* s (snd (process_candidates env rules dry run_id cs p s))
    \<and> sweep_ok env (snd (process_candidates env rules dry run_id cs p s))"
  using assms
proof (induction cs arbitrary: p s)
  case (Cons c cs)
  let ?t = "snd (process_candidate env rules dry run_id c p s)"
  obtain r where r: "r \<in> set (am_rules s)" "match_of r (cd_match c)" using Cons.prems(2) [of c] by auto
  have t: "aml_step\<^sup>*\<^sup>* s ?t" "sweep_ok env ?t" using process_candidate_ok [OF Cons.prems(1) r] by blast+
  have "am_rules ?t = am_rules s" using process_candidates_rules [of env rules dry run_id "[c]" p s] by (auto split: prod.splits sum.splits)
  then have "aml_step\<^sup>*\<^sup>* ?t (snd (process_candidates env rules dry run_id cs p' ?t))
    \<and> sweep_ok env (snd (process_candidates env rules dry run_id cs p' ?t))" for p'
    using Cons.prems(2) by (intro Cons.IH [OF t(2)]) simp
  then show ?case using t by (auto split: prod.splits sum.splits) (metis rtranclp_trans snd_conv)+
qed simp


lemma create_case_of_new_alert:
  assumes "sweep_ok env s" "raise_alert env run_id c s = (Inr a, s1)" "sweep_ok env s1"
  shows "\<exists>k s2. create_case (sv_case env) \<lparr>cc_alert_ids = Some [al_id a], cc_subject_user_id = u, cc_priority = None, cc_title = None\<rparr> None s1
    = (Inr k, s2)"
proof -
  have s1: "am_alerts s1 = am_alerts s @ [a]" "al_id a = sv_alert_id env (length (am_alerts s))" "al_case_id a = None"
    using assms(2) by (auto simp: raise_alert_def Let_def insert_row_def alert_of_def split: if_splits)
  have "al_id a \<notin> al_id ` set (am_alerts s)" using ids_ahead_now(1) assms(1) s1(2) by (simp add: sweep_ok_def)
  then have "filter (\<lambda>x. al_id x = al_id a) (am_alerts s) = []" unfolding filter_empty_conv by (metis imageI)
  then have "alerts_in [al_id a] s1 = [a]" by (simp add: alerts_in_def find_where_def s1(1))
  moreover have "next_case_number (sv_case env) s1 \<notin> ac_case_number ` set (am_cases s1)"
    using assms(3) numbered_fresh unfolding sweep_ok_def grouping_ok_def next_case_number_eq by (metis list.set_map)
  ultimately show ?thesis using s1(3) by (auto simp: create_case_def Let_def or_default_def new_case_def image_iff)
qed

lemma process_candidate_succeeds:
  assumes "sweep_ok env s" "r \<in> set (am_rules s)" "match_of r (cd_match c)"
    and "key_of c \<in> set (alert_keys s) \<Longrightarrow> key_of c \<in> set (sp_seen p)"
  shows "\<exists>p' s'. process_candidate env rules dry run_id c p s = (Inr p', s')"
proof (cases "key_of c \<in> set (sp_seen p) \<or> below_threshold rules (cd_match c) \<or> dry")
  case True
  then show ?thesis by (auto simp: process_candidate_def Let_def)
next
  case False
  then have "\<not> (\<exists>a \<in> set (am_alerts s). al_dedupe_key a = key_of c)" using assms(4) by (metis alert_keys_def imageI list.set_map)
  then have "raise_alert env run_id c s =
      (Inr (alert_of env run_id c s), s\<lparr>am_alerts := insert_row (alert_of env run_id c s) (am_alerts s)\<rparr>)"
    unfolding raise_alert_def Let_def by (simp only: if_False done_with_simp)
  then obtain a s1 where r: "raise_alert env run_id c s = (Inr a, s1)" by blast
  then have "sweep_ok env s1" using raise_step(2) [OF assms(1-3), of run_id] by simp
  then obtain k s2 where "create_case (sv_case env)
      \<lparr>cc_alert_ids = Some [al_id a], cc_subject_user_id = Some (cd_user_id c), cc_priority = None, cc_title = None\<rparr> None s1 = (Inr k, s2)"
    using create_case_of_new_alert [OF assms(1) r] by blast
  then show ?thesis using False r by (simp add: process_candidate_def Let_def)
qed

lemma process_candidate_dry: "snd (process_candidate env rules True run_id c p s) = s"
  by (simp add: process_candidate_def Let_def)

lemma process_candidates_succeed:
  assumes "sweep_ok env s" "\<And>c. c \<in> set cs \<Longrightarrow> \<exists>r \<in> set (am_rules s). match_of r (cd_match c)"
    and "key_of ` set cs \<inter> set (alert_keys s) \<subseteq> set (sp_seen p)"
  shows "\<exists>p' s'. process_candidates env rules dry run_id cs p s = (Inr p', s')"
  using assms
proof (induction cs arbitrary: p s)
  case (Cons c cs)
  obtain r where r: "r \<in> set (am_rules s)" "match_of r (cd_match c)" using Cons.prems(2) [of c] by auto
  obtain p1 s1 where 1: "process_candidate env rules dry run_id c p s = (Inr p1, s1)"
  proof -
    have "key_of c \<in> set (alert_keys s) \<Longrightarrow> key_of c \<in> set (sp_seen p)" using Cons.prems(3) by auto
    from process_candidate_succeeds [OF Cons.prems(1) r this] show thesis using that by blast
  qed
  have ok: "sweep_ok env s1" using process_candidate_ok [OF Cons.prems(1) r, of rules dry run_id p] 1 by simp
  have rules: "am_rules s1 = am_rules s" using process_candidates_rules [of env rules dry run_id "[c]" p s] 1 by simp
  have "key_of ` set cs \<inter> set (alert_keys s1) \<subseteq> set (sp_seen p1)"
  proof (cases dry)
    case True
    then have "s1 = s" using process_candidate_dry 1 by (metis snd_conv)
    moreover have "set (sp_seen p) \<subseteq> set (sp_seen p1)" using 1 True by (auto simp: process_candidate_def Let_def split: if_splits)
    ultimately show ?thesis using Cons.prems(3) by auto
  next
    case False
    then show ?thesis using process_candidate_effect [of env rules run_id c p s p1 s1] 1 Cons.prems(3) by (auto split: if_splits)
  qed
  then show ?case using Cons.IH [OF ok] Cons.prems(2) rules 1 by simp
qed simp

lemma sweep_succeeds:
  assumes "aml_reachable (mw_aml s)" "ids_ahead env (mw_aml s)" "\<not> list_ex unusable (am_rules (mw_aml s))"
  shows "\<exists>res t. run_sweep env opts s = (Inr res, t)"
proof -
  have ok: "sweep_ok env (mw_aml s)"
    using assms judging_ok_reachable grouping_ok_reachable by (simp add: sweep_ok_def)
  have one: "\<exists>cs. evaluate_rules env' country u flows inside rules = Inr cs" if "\<not> list_ex unusable rules" for env' country u flows inside rules
    using that
  proof (induction rules)
    case (Cons x rules)
    then show ?case using run_detector_total [of env' x flows country] by (cases "run_detector env' x flows country") auto
  qed simp
  have all: "\<exists>cs. evaluate env' country rules ws we gs = Inr cs" if "\<not> list_ex unusable rules" for env' country rules ws we gs
  proof (induction gs)
    case (Cons g gs)
    obtain u flows where g: "g = (u, flows)" by (cases g)
    show ?case using Cons.IH one [OF that, of env' "country u" u flows "in_window ws we flows"] by (auto simp: g Let_def)
  qed simp
  have "\<not> list_ex unusable (active_flow_rules (am_rules (mw_aml s)))"
    using assms(3) by (auto simp: list_ex_iff active_flow_rules_def find_where_def)
  then obtain cs where cs: "sweep_candidates env opts s = Inr cs"
    using all unfolding sweep_candidates_def Let_def split_def by blast
  have "\<exists>p' a. process_candidates env rules dry run_id cs (first_progress cs flows (mw_aml s)) (mw_aml s) = (Inr p', a)" for rules dry run_id flows
    using sweep_candidates_match [OF cs] by (intro process_candidates_succeed [OF ok]) (simp_all add: first_seen)
  from this [of "active_flow_rules (am_rules (mw_aml s))" "so_dry_run opts"
      "if so_dry_run opts then None else Some (sv_run_id env (length (mw_runs s)))" "sweep_flows env opts s"]
  show ?thesis using cs by (auto simp: run_sweep_def Let_def split_def)
qed

text \<open>
  C21: A sweep ends (liveness). In a reachable state, with identifiers that are new, and when no enabled rule for
  jurisdictions has an unusable list of countries, every sweep returns its result and never an error, whatever the
  movements, the scores and the cases opened before.
\<close>

theorem sweep_ends:
  assumes "aml_reachable (mw_aml s)" "ids_ahead env (mw_aml s)" "\<not> list_ex unusable (am_rules (mw_aml s))"
  shows "\<exists>res t. run_sweep env opts s = (Inr res, t)"
  by (rule sweep_succeeds [OF assms])

subsection \<open>An example\<close>

text \<open>One investment of 60000 dollars under the rule for high values.\<close>

definition example_deposit_row :: investment where
  "example_deposit_row =
     \<lparr>iv_id = ''i1'', iv_trade_deal_id = ''d1'', iv_investor_id = ''u1'', iv_token_amount = 60, iv_amount_usd = 60000,
      iv_stellar_tx_id = None, iv_compliance_data = None, iv_status = InvConfirmed, iv_created_at = 0, iv_deleted = False\<rparr>"

definition example_monitoring :: "aml_rule list \<Rightarrow> monitoring_state" where
  "example_monitoring rules =
     \<lparr>mw_aml = no_aml_rows\<lparr>am_rules := rules\<rparr>, mw_investments = [example_deposit_row], mw_distributions = [], mw_logs = [],
      mw_deals = [], mw_users = [], mw_runs = [], mw_in_flight = False\<rparr>"

definition example_options :: sweep_options where
  "example_options = \<lparr>so_window_start = Some 0, so_window_end = Some 0, so_user_id = None, so_dry_run = False\<rparr>"

abbreviation example_world :: monitoring_state where
  "example_world \<equiv> example_monitoring [example_rule]"

lemma example_ids: "ids_ahead example_sweep_env (mw_aml example_world)"
  by (simp add: ids_ahead_def example_sweep_env_def example_case_env_def example_monitoring_def no_aml_rows_def inj_def)

lemma example_reachable: "aml_reachable (mw_aml example_world)"
  using example_start_reachable by (simp add: example_monitoring_def example_start_def)

lemma example_enabled: "is_enabled example_sweep_env" "\<not> so_dry_run example_options" "sweep_window example_sweep_env example_options = (0, 0)"
  by (simp_all add: is_enabled_def example_sweep_env_def ascii_lower_def char_between_def example_options_def sweep_window_def or_default_def)

lemma example_flows:
  assumes "list_all (\<lambda>r. ar_window_hours r = 24) rules"
  shows "group_by_user (sweep_flows example_sweep_env example_options (example_monitoring rules)) =
     [(''u1'', [\<lparr>fw_id = ''i1'', fw_user_id = ''u1'', fw_direction = FlowIn, fw_amount_usd = 60000, fw_at = 0, fw_deal_id = Some ''d1'',
               fw_source = FromInvestments, fw_country = None, fw_commodity = None\<rparr>])]"
proof -
  have "foldl (\<lambda>m r. max m (ar_window_hours r)) 24 rs = 24" if "list_all (\<lambda>r. ar_window_hours r = 24) rs" for rs :: "aml_rule list"
    using that by (induction rs rule: rev_induct) auto
  moreover have "list_all (\<lambda>r. ar_window_hours r = 24) (active_flow_rules rules)"
    using assms by (auto simp: active_flow_rules_def find_where_def list_all_iff)
  ultimately have "foldl (\<lambda>m r. max m (ar_window_hours r)) 24 (active_flow_rules rules) = 24" by blast
  then show ?thesis
    unfolding sweep_flows_def example_enabled(3)
    by (simp add: load_cash_flows_def inflows_def outflows_def log_flows_def find_where_def
        example_monitoring_def example_deposit_row_def example_options_def max_window_hours_def no_aml_rows_def hour_ms_def about_user_def
        deal_country_def deal_commodity_def deal_of_def find_one_def some_text_def group_by_user_def first_occurrences_def by_time_def)
qed

lemma example_candidates: "\<exists>c. sweep_candidates example_sweep_env example_options example_world = Inr [c] \<and> key_of c = ''HV:high-value:i1''
    \<and> finding_keys (active_flow_rules (am_rules (mw_aml example_world))) [c] = {''HV:high-value:i1''}"
proof -
  have rules: "active_flow_rules (am_rules (mw_aml example_world)) = [example_rule]"
    by (simp add: example_monitoring_def active_flow_rules_def find_where_def example_rule_def)
  have num: "num (sv_detect example_sweep_env) (parameter ''amountThresholdUsd'' example_rule) 50000 = 50000"
    by (simp add: num_def parameter_def example_rule_def or_default_def)
  have run: "ar_enabled example_rule" "ar_pattern_type example_rule = HighValue" "ar_rule_code example_rule = ''HV''" "ar_id example_rule = ''r1''"
    "ar_alert_threshold_score example_rule = 0"
    by (simp_all add: example_rule_def)
  have "\<exists>c. sweep_candidates example_sweep_env example_options example_world = Inr [c] \<and> key_of c = ''HV:high-value:i1''
      \<and> match_of example_rule (cd_match c)"
    by (simp add: sweep_candidates_def example_enabled(3) rules example_flows run(1) list_all_iff example_rule_def [THEN arg_cong [where f = ar_window_hours]]
        in_window_def run_detector_def run detect_high_value_def num high_value_match_def reported_def)
      (simp add: matched_def run match_of_def effective_score_bounds)
  then obtain c where c: "sweep_candidates example_sweep_env example_options example_world = Inr [c]" "key_of c = ''HV:high-value:i1''"
    "match_of example_rule (cd_match c)" by blast
  have "\<not> below_threshold [example_rule] (cd_match c)"
    using c(3) run by (auto simp: below_threshold_def find_one_def match_of_def)
  then show ?thesis using c unfolding rules by (auto simp: finding_keys_def)
qed

lemma example_sweep_succeeds: "\<exists>res t. run_sweep example_sweep_env example_options example_world = (Inr res, t)"
  by (rule sweep_succeeds [OF example_reachable example_ids])
    (simp add: example_monitoring_def unusable_def example_rule_def)

theorem sweep_raises_each_finding_once_witness:
  "\<exists>res t. run_sweep example_sweep_env example_options example_world = (Inr res, t)
     \<and> set (alert_keys (mw_aml t)) = {''HV:high-value:i1''} \<and> sr_alerts_raised res = length (alert_keys (mw_aml t))"
proof -
  obtain res t where run: "run_sweep example_sweep_env example_options example_world = (Inr res, t)" using example_sweep_succeeds by blast
  obtain c where c: "sweep_candidates example_sweep_env example_options example_world = Inr [c]"
    "finding_keys (active_flow_rules (am_rules (mw_aml example_world))) [c] = {''HV:high-value:i1''}"
    using example_candidates by blast
  have none: "alert_keys (mw_aml example_world) = []" by (simp add: alert_keys_def example_monitoring_def no_aml_rows_def)
  show ?thesis
    using sweep_raises_each_finding_once [OF example_enabled(1,2) run c(1)] run unfolding c(2) none by auto
qed

theorem repeated_sweep_raises_nothing_witness:
  "\<exists>res t res2 u. run_sweep example_sweep_env example_options example_world = (Inr res, t)
     \<and> run_sweep example_sweep_env example_options t = (Inr res2, u) \<and> sr_alerts_raised res2 = 0"
proof -
  obtain res t where run: "run_sweep example_sweep_env example_options example_world = (Inr res, t)" using example_sweep_succeeds by blast
  from repeated_sweep_raises_nothing [OF example_enabled(1,2) run example_enabled(1) refl refl] run show ?thesis by blast
qed

definition example_bad_rule :: aml_rule where
  "example_bad_rule = example_rule\<lparr>ar_pattern_type := HighRiskJurisdiction, ar_parameters := [(''countries'', TextValue ''IR'')]\<rparr>"

theorem text_of_countries_stops_every_sweep_witness:
  "fst (run_sweep example_sweep_env example_options (example_monitoring [example_bad_rule])) = Inl (Internal ''TypeError'')"
proof -
  have bad: "ar_enabled example_bad_rule" "ar_pattern_type example_bad_rule = HighRiskJurisdiction"
    "ar_parameters example_bad_rule = [(''countries'', TextValue ''IR'')]" "ar_window_hours example_bad_rule = 24"
    by (simp_all add: example_bad_rule_def example_rule_def)
  have "example_bad_rule \<in> set (am_rules (mw_aml (example_monitoring [example_bad_rule])))" by (simp add: example_monitoring_def)
  from text_of_countries_stops_every_sweep [OF example_enabled(1,2) this bad(1-3) _ example_enabled(3), of "''u1''"]
  show ?thesis using bad(4) by (simp add: example_flows in_window_def)
qed


theorem sweep_ends_witness: "\<exists>res t. run_sweep example_sweep_env example_options example_world = (Inr res, t)"
  by (rule sweep_ends [OF example_reachable example_ids])
    (simp add: example_monitoring_def unusable_def example_rule_def)

end
