(* ===== verification/SecurityThreat.thy ===== *)
theory SecurityThreat
  imports Idempotency EscrowConsumer JsText "HOL-Library.Word"
begin

unbundle bit_operations_syntax

text \<open>
  \<open>backend/src/auth/security-threat.service.ts\<close>: the detection of distributed attacks on logins. Counters,
  sets and marks live in Redis and run out after their window; blocks are rows that an administrator approves
  and lifts. The values of Redis are those of \<open>Idempotency\<close> with times in milliseconds; sets and counters
  are added here with the documented behaviour of \<open>SADD\<close>, \<open>EXPIRE\<close>, \<open>SCARD\<close>, \<open>SREM\<close> and \<open>INCR\<close>. The number
  that a text stands for (\<open>Number\<close>, \<open>parseInt\<close>) and the answer of hCaptcha are parameters.
\<close>

subsection \<open>Redis\<close>

record redis_store =
  rs_keys :: kv_store
  rs_sets :: "string \<Rightarrow> (string list \<times> nat) option"
  rs_counts :: "string \<Rightarrow> (nat \<times> nat) option"
  rs_denied :: "string list"

text \<open>The client is missing, not connected, or open.\<close>

datatype redis_client_state = RedisMissing | RedisClosed | RedisOpen

definition red_clock :: "redis_store \<Rightarrow> nat" where
  "red_clock r = clock (rs_keys r)"

definition red_get :: "string \<Rightarrow> redis_store \<Rightarrow> string option" where
  "red_get k r = kv_get k (rs_keys r)"

definition red_setex :: "string \<Rightarrow> nat \<Rightarrow> string \<Rightarrow> redis_store \<Rightarrow> redis_store" where
  "red_setex k seconds v r = r\<lparr>rs_keys := kv_set k v (1000 * seconds) (rs_keys r)\<rparr>"

definition red_del :: "string \<Rightarrow> redis_store \<Rightarrow> redis_store" where
  "red_del k r = r\<lparr>rs_keys := kv_del k (rs_keys r)\<rparr>"

definition red_members :: "string \<Rightarrow> redis_store \<Rightarrow> string list" where
  "red_members k r = (case rs_sets r k of Some (xs, e) \<Rightarrow> if red_clock r < e then xs else [] | None \<Rightarrow> [])"

definition red_count :: "string \<Rightarrow> redis_store \<Rightarrow> nat" where
  "red_count k r = (case rs_counts r k of Some (n, e) \<Rightarrow> if red_clock r < e then n else 0 | None \<Rightarrow> 0)"

text \<open>The helpers of the service; without an open client they do nothing.\<close>

definition has_key :: "redis_client_state \<Rightarrow> string \<Rightarrow> redis_store \<Rightarrow> bool" where
  "has_key c k r \<longleftrightarrow> c = RedisOpen \<and> red_get k r \<noteq> None"

definition set_if_absent :: "redis_client_state \<Rightarrow> string \<Rightarrow> nat \<Rightarrow> redis_store \<Rightarrow> bool \<times> redis_store" where
  "set_if_absent c k seconds r =
     (if c \<noteq> RedisOpen then (False, r)
      else (case kv_set_nx k ''1'' (1000 * seconds) (rs_keys r) of (ok, keys) \<Rightarrow> (ok, r\<lparr>rs_keys := keys\<rparr>)))"

definition s_add :: "redis_client_state \<Rightarrow> string \<Rightarrow> string \<Rightarrow> nat \<Rightarrow> redis_store \<Rightarrow> redis_store" where
  "s_add c k member seconds r =
     (if c \<noteq> RedisOpen then r
      else r\<lparr>rs_sets := (rs_sets r)(k \<mapsto> (List.insert member (red_members k r), red_clock r + 1000 * seconds))\<rparr>)"

definition s_card :: "redis_client_state \<Rightarrow> string \<Rightarrow> redis_store \<Rightarrow> nat" where
  "s_card c k r = (if c \<noteq> RedisOpen then 0 else length (red_members k r))"

text \<open>The window of a counter starts with its first increment.\<close>

definition incr_with_ttl :: "redis_client_state \<Rightarrow> string \<Rightarrow> nat \<Rightarrow> redis_store \<Rightarrow> nat \<times> redis_store" where
  "incr_with_ttl c k seconds r =
     (if c \<noteq> RedisOpen then (0, r)
      else let n = red_count k r + 1;
               e = (if n = 1 then red_clock r + 1000 * seconds
                    else case rs_counts r k of Some (_, e) \<Rightarrow> e | None \<Rightarrow> 0)
           in (n, r\<lparr>rs_counts := (rs_counts r)(k \<mapsto> (n, e))\<rparr>))"

subsection \<open>Addresses\<close>

text \<open>\<open>threat_number\<close> is \<open>Number(text)\<close> and \<open>threat_parse_int\<close> is \<open>parseInt(text, 10)\<close>, \<open>None\<close> for NaN.\<close>

record threat_config =
  tc_number :: "string \<Rightarrow> jsnum option"
  tc_parse_int :: "string \<Rightarrow> int option"
  tc_distinct_ips :: jsnum
  tc_subnet_fails :: jsnum
  tc_geo_countries :: jsnum
  tc_captcha_score :: jsnum
  tc_block_score :: jsnum
  tc_bad_ranges :: string
  tc_captcha_secret :: "string option"
  tc_captcha_answer :: "string \<Rightarrow> string option \<Rightarrow> bool"
  tc_client :: redis_client_state
  tc_block_id :: "nat \<Rightarrow> string"

definition octet_of :: "threat_config \<Rightarrow> string \<Rightarrow> int option" where
  "octet_of cfg part =
     (case tc_number cfg part of
        Some x \<Rightarrow> if x = of_int \<lfloor>x\<rfloor> \<and> 0 \<le> x \<and> x \<le> 255 then Some \<lfloor>x\<rfloor> else None
      | None \<Rightarrow> None)"

fun join_octets :: "threat_config \<Rightarrow> int \<Rightarrow> string list \<Rightarrow> int option" where
  "join_octets cfg n [] = Some n"
| "join_octets cfg n (p # ps) = (case octet_of cfg p of Some x \<Rightarrow> join_octets cfg (n * 256 + x) ps | None \<Rightarrow> None)"

definition ipv4_to_long :: "threat_config \<Rightarrow> string \<Rightarrow> 32 word option" where
  "ipv4_to_long cfg ip =
     (let parts = split_on CHR ''.'' ip
      in if length parts \<noteq> 4 then None else map_option word_of_int (join_octets cfg 0 parts))"

definition mask_address :: "32 word \<Rightarrow> nat \<Rightarrow> 32 word" where
  "mask_address v width = (if width = 0 then 0 else v AND push_bit (32 - width) (- 1))"

definition parse_cidr :: "threat_config \<Rightarrow> string \<Rightarrow> (32 word \<times> nat) option" where
  "parse_cidr cfg cidr =
     (let parts = split_on CHR ''/'' cidr
      in case ipv4_to_long cfg (hd parts) of
           None \<Rightarrow> None
         | Some network \<Rightarrow>
             (case (if tl parts = [] then Some 32 else tc_parse_int cfg (hd (tl parts))) of
                None \<Rightarrow> None
              | Some p \<Rightarrow> if p < 0 \<or> 32 < p then None else Some (mask_address network (nat p), nat p)))"

definition parse_bad_ranges :: "threat_config \<Rightarrow> (32 word \<times> nat) list" where
  "parse_bad_ranges cfg =
     List.map_filter (parse_cidr cfg)
       (filter (\<lambda>e. e \<noteq> []) (map js_trim (split_on CHR '','' (tc_bad_ranges cfg))))"

definition is_in_bad_range :: "threat_config \<Rightarrow> string \<Rightarrow> bool" where
  "is_in_bad_range cfg ip =
     (case ipv4_to_long cfg ip of
        None \<Rightarrow> False
      | Some a \<Rightarrow> list_ex (\<lambda>(n, p). mask_address a p = mask_address n p) (parse_bad_ranges cfg))"

definition short_number :: "string \<Rightarrow> bool" where
  "short_number t \<longleftrightarrow> 1 \<le> length t \<and> length t \<le> 3 \<and> list_all (char_between CHR ''0'' CHR ''9'') t"

definition ipv4_subnet16 :: "string \<Rightarrow> string option" where
  "ipv4_subnet16 ip =
     (case split_on CHR ''.'' ip of
        [a, b, c, d] \<Rightarrow>
          if list_all short_number [a, b, c, d] then Some (a @ ''.'' @ b @ ''.0.0/16'') else None
      | _ \<Rightarrow> None)"

definition norm_email :: "string \<Rightarrow> string" where
  "norm_email e = ascii_lower (js_trim e)"

subsection \<open>Blocks\<close>

datatype block_type = CaptchaEmail | EmailRateLimit | SubnetPending | SubnetActive

record security_block =
  sb_id :: string
  sb_type :: block_type
  sb_cidr :: string
  sb_reason :: string
  sb_approved_by :: "string option"
  sb_expires_at :: "int option"
  sb_active :: bool

record threat_state =
  th_redis :: redis_store
  th_blocks :: "security_block list"
  th_alerts :: "(string \<times> string) list"

type_synonym 'a threat_handler = "(threat_state, http_error, 'a) handler"

definition persist_block :: "threat_config \<Rightarrow> block_type \<Rightarrow> string \<Rightarrow> string \<Rightarrow> int option \<Rightarrow> threat_state \<Rightarrow> threat_state" where
  "persist_block cfg ty cidr reason expires s =
     s\<lparr>th_blocks := insert_row \<lparr>sb_id = tc_block_id cfg (length (th_blocks s)), sb_type = ty, sb_cidr = cidr,
        sb_reason = reason, sb_approved_by = None, sb_expires_at = expires, sb_active = True\<rparr> (th_blocks s)\<rparr>"

definition alert_security_team :: "string \<Rightarrow> string \<Rightarrow> threat_state \<Rightarrow> threat_state" where
  "alert_security_team kind about s = s\<lparr>th_alerts := th_alerts s @ [(kind, about)]\<rparr>"

definition set_mark :: "string \<Rightarrow> string \<Rightarrow> nat \<Rightarrow> threat_state \<Rightarrow> threat_state" where
  "set_mark name about seconds s = s\<lparr>th_redis := red_setex (name @ about) seconds ''1'' (th_redis s)\<rparr>"

definition after_seconds :: "nat \<Rightarrow> threat_state \<Rightarrow> int option" where
  "after_seconds n s = Some (int (red_clock (th_redis s)) + 1000 * int n)"

subsection \<open>The gate before a login\<close>

record login_verdict =
  lv_blocked :: bool
  lv_captcha :: bool
  lv_reasons :: "string list"

definition active_subnet :: "string \<Rightarrow> security_block \<Rightarrow> bool" where
  "active_subnet cidr b \<longleftrightarrow> sb_cidr b = cidr \<and> sb_type b = SubnetActive \<and> sb_active b"

definition denied_subnet :: "threat_config \<Rightarrow> string \<Rightarrow> threat_state \<Rightarrow> bool" where
  "denied_subnet cfg subnet s \<longleftrightarrow>
     (if tc_client cfg = RedisOpen then subnet \<in> set (rs_denied (th_redis s))
      else list_ex (active_subnet subnet) (th_blocks s))"

definition blocked_for :: "string \<Rightarrow> login_verdict" where
  "blocked_for reason = \<lparr>lv_blocked = True, lv_captcha = False, lv_reasons = [reason]\<rparr>"

definition check_login :: "threat_config \<Rightarrow> string \<Rightarrow> string option \<Rightarrow> threat_state \<Rightarrow> login_verdict" where
  "check_login cfg email ip s =
     (if present ip \<and> is_in_bad_range cfg (the ip) then blocked_for ''bad_ip_range''
      else if present ip \<and> (case ipv4_subnet16 (the ip) of Some n \<Rightarrow> denied_subnet cfg n s | None \<Rightarrow> False)
      then blocked_for ''subnet_blocked''
      else if has_key (tc_client cfg) (''sec:ratelimit:'' @ norm_email email) (th_redis s)
      then blocked_for ''email_rate_limited''
      else let captcha = has_key (tc_client cfg) (''sec:captcha:'' @ norm_email email) (th_redis s)
           in \<lparr>lv_blocked = False, lv_captcha = captcha, lv_reasons = (if captcha then [''captcha_required''] else [])\<rparr>)"

definition verify_captcha :: "threat_config \<Rightarrow> string \<Rightarrow> string option \<Rightarrow> bool" where
  "verify_captcha cfg token ip \<longleftrightarrow> \<not> present (tc_captcha_secret cfg) \<or> tc_captcha_answer cfg token ip"

subsection \<open>Failed logins\<close>

definition escalate_targeted_email :: "threat_config \<Rightarrow> string \<Rightarrow> threat_state \<Rightarrow> threat_state" where
  "escalate_targeted_email cfg email s =
     (case set_if_absent (tc_client cfg) (''sec:escalated:email:'' @ email) 3600 (th_redis s) of (fresh, r) \<Rightarrow>
        let s1 = s\<lparr>th_redis := r\<rparr>
        in if \<not> fresh then s1
           else alert_security_team ''targeted_email_attack'' email
                  (persist_block cfg CaptchaEmail email ''distributed_credential_stuffing'' (after_seconds 1800 s)
                    (persist_block cfg EmailRateLimit email ''distributed_credential_stuffing'' (after_seconds 3600 s)
                      (set_mark ''sec:captcha:'' email 1800 (set_mark ''sec:ratelimit:'' email 3600 s1)))))"

definition propose_subnet_block :: "threat_config \<Rightarrow> string \<Rightarrow> threat_state \<Rightarrow> threat_state" where
  "propose_subnet_block cfg subnet s =
     (if list_ex (\<lambda>b. sb_cidr b = subnet \<and> sb_type b \<in> {SubnetPending, SubnetActive}) (th_blocks s) then s
      else alert_security_team ''subnet_block_proposed'' subnet
             (persist_block cfg SubnetPending subnet ''credential_stuffing'' None s))"

definition escalate_geo_anomaly :: "threat_config \<Rightarrow> string \<Rightarrow> threat_state \<Rightarrow> threat_state" where
  "escalate_geo_anomaly cfg email s =
     (case set_if_absent (tc_client cfg) (''sec:escalated:geo:'' @ email) 3600 (th_redis s) of (fresh, r) \<Rightarrow>
        let s1 = s\<lparr>th_redis := r\<rparr>
        in if \<not> fresh then s1
           else alert_security_team ''geo_anomaly'' email
                  (persist_block cfg CaptchaEmail email ''unusual_geo_distribution'' (after_seconds 1800 s)
                    (set_mark ''sec:captcha:'' email 1800 s1)))"

definition note_address :: "threat_config \<Rightarrow> string \<Rightarrow> string \<Rightarrow> threat_state \<Rightarrow> threat_state" where
  "note_address cfg email ip s =
     (let k = ''sec:login:ips:'' @ email; s1 = s\<lparr>th_redis := s_add (tc_client cfg) k ip 3600 (th_redis s)\<rparr>
      in if tc_distinct_ips cfg < of_nat (s_card (tc_client cfg) k (th_redis s1)) then escalate_targeted_email cfg email s1 else s1)"

definition note_subnet :: "threat_config \<Rightarrow> string \<Rightarrow> threat_state \<Rightarrow> threat_state" where
  "note_subnet cfg ip s =
     (case ipv4_subnet16 ip of
        None \<Rightarrow> s
      | Some subnet \<Rightarrow>
          (case incr_with_ttl (tc_client cfg) (''sec:fail:subnet:'' @ subnet) 600 (th_redis s) of (n, r) \<Rightarrow>
             if of_nat n = tc_subnet_fails cfg then propose_subnet_block cfg subnet (s\<lparr>th_redis := r\<rparr>)
             else s\<lparr>th_redis := r\<rparr>))"

definition note_country :: "threat_config \<Rightarrow> string \<Rightarrow> string \<Rightarrow> threat_state \<Rightarrow> threat_state" where
  "note_country cfg email country s =
     (let k = ''sec:geo:'' @ email;
          s1 = s\<lparr>th_redis := s_add (tc_client cfg) k (ascii_upper country) 3600 (th_redis s)\<rparr>
      in if tc_geo_countries cfg < of_nat (s_card (tc_client cfg) k (th_redis s1)) then escalate_geo_anomaly cfg email s1 else s1)"

definition record_failed_login :: "threat_config \<Rightarrow> string \<Rightarrow> string option \<Rightarrow> string option \<Rightarrow> threat_state \<Rightarrow> threat_state" where
  "record_failed_login cfg email ip country s =
     (let e = norm_email email;
          s1 = (if present ip then note_subnet cfg (the ip) (note_address cfg e (the ip) s) else s)
      in if present country then note_country cfg e (the country) s1 else s1)"

definition evaluate_behavioral_risk ::
  "threat_config \<Rightarrow> jsnum option \<Rightarrow> string option \<Rightarrow> string list \<Rightarrow> login_verdict threat_handler" where
  "evaluate_behavioral_risk cfg risk user reasons s =
     (let score = (case risk of Some x \<Rightarrow> min 1 (max 0 x) | None \<Rightarrow> 0);
          marked = (\<lambda>s. if present user \<and> tc_client cfg \<noteq> RedisMissing
                        then set_mark ''sec:behavioral:'' (norm_email (the user)) 1800 s else s)
      in if score \<ge> tc_captcha_score cfg \<or> score \<ge> tc_block_score cfg then
           (if present user \<and> tc_client cfg = RedisClosed then throw (Internal ''ClientClosedError'') s
            else if score \<ge> tc_block_score cfg
            then done_with \<lparr>lv_blocked = True, lv_captcha = False, lv_reasons = reasons @ [''behavioral_risk_blocked'']\<rparr>
                   (alert_security_team ''behavioral_risk'' (case user of Some u \<Rightarrow> u | None \<Rightarrow> []) (marked s))
            else done_with \<lparr>lv_blocked = False, lv_captcha = True, lv_reasons = reasons @ [''behavioral_risk_captcha'']\<rparr> (marked s))
         else done_with \<lparr>lv_blocked = False, lv_captcha = False, lv_reasons = reasons\<rparr> s)"

subsection \<open>Administration\<close>

definition find_block :: "string \<Rightarrow> threat_state \<Rightarrow> security_block option" where
  "find_block i s = find_one (\<lambda>b. sb_id b = i) (th_blocks s)"

definition save_block :: "security_block \<Rightarrow> threat_state \<Rightarrow> threat_state" where
  "save_block b s = s\<lparr>th_blocks := update_where (\<lambda>x. sb_id x = sb_id b) (\<lambda>_. b) (th_blocks s)\<rparr>"

definition add_to_deny_set :: "threat_config \<Rightarrow> string \<Rightarrow> threat_state \<Rightarrow> threat_state" where
  "add_to_deny_set cfg cidr s =
     (if tc_client cfg = RedisOpen then s\<lparr>th_redis := (th_redis s)\<lparr>rs_denied := List.insert cidr (rs_denied (th_redis s))\<rparr>\<rparr> else s)"

definition remove_from_deny_set :: "threat_config \<Rightarrow> string \<Rightarrow> threat_state \<Rightarrow> threat_state" where
  "remove_from_deny_set cfg cidr s =
     (if tc_client cfg = RedisOpen then s\<lparr>th_redis := (th_redis s)\<lparr>rs_denied := filter (\<lambda>x. x \<noteq> cidr) (rs_denied (th_redis s))\<rparr>\<rparr> else s)"

definition approve_block :: "threat_config \<Rightarrow> string \<Rightarrow> string \<Rightarrow> security_block threat_handler" where
  "approve_block cfg block_id admin s =
     (case find_block block_id s of
        None \<Rightarrow> throw (Internal ''Security block not found.'') s
      | Some b \<Rightarrow>
          if sb_type b \<noteq> SubnetPending then throw (Internal ''Only pending subnet blocks can be approved.'') s
          else (let b' = b\<lparr>sb_type := SubnetActive, sb_approved_by := Some admin\<rparr>
                in done_with b' (add_to_deny_set cfg (sb_cidr b) (save_block b' s))))"

definition drop_mark :: "threat_config \<Rightarrow> string \<Rightarrow> security_block \<Rightarrow> security_block threat_handler" where
  "drop_mark cfg name b s =
     (case tc_client cfg of
        RedisMissing \<Rightarrow> done_with b s
      | RedisClosed \<Rightarrow> throw (Internal ''ClientClosedError'') s
      | RedisOpen \<Rightarrow> done_with b (s\<lparr>th_redis := red_del (name @ sb_cidr b) (th_redis s)\<rparr>))"

definition lift_block :: "threat_config \<Rightarrow> string \<Rightarrow> security_block threat_handler" where
  "lift_block cfg block_id s =
     (case find_block block_id s of
        None \<Rightarrow> throw (Internal ''Security block not found.'') s
      | Some b \<Rightarrow>
          (let b' = b\<lparr>sb_active := False\<rparr>; s1 = save_block b' s
           in case sb_type b of
                SubnetActive \<Rightarrow> done_with b' (remove_from_deny_set cfg (sb_cidr b) s1)
              | CaptchaEmail \<Rightarrow> drop_mark cfg ''sec:captcha:'' b' s1
              | EmailRateLimit \<Rightarrow> drop_mark cfg ''sec:ratelimit:'' b' s1
              | SubnetPending \<Rightarrow> done_with b' s1))"

text \<open>At the start of the service the approved blocks of the table are put into the set again.\<close>

definition reseed_denied :: "threat_config \<Rightarrow> threat_state \<Rightarrow> threat_state" where
  "reseed_denied cfg s =
     foldl (\<lambda>t b. add_to_deny_set cfg (sb_cidr b) t) s (find_where (\<lambda>b. sb_type b = SubnetActive \<and> sb_active b) (th_blocks s))"

definition list_blocks :: "threat_state \<Rightarrow> security_block list" where
  "list_blocks s = take 200 (rev (th_blocks s))"


end
