(* ===== verification/Accounts.thy ===== *)
theory Accounts
  imports SecurityThreat Sanctions
begin

text \<open>
  \<open>backend/src/auth/auth.service.ts\<close> (registration, logins, token pairs, logout, unlocking, passwords, roles and
  wallets), \<open>token-blocklist.service.ts\<close>, \<open>jwt.strategy.ts\<close> and \<open>utils/redirect-sanitizer.ts\<close>. The library that
  signs and verifies tokens, password hashes, digests, random values, the mail service and the service of
  behavioural risk, whose file is not in the repository, are parameters, gathered in \<open>auth_env\<close>.
  Tokens that were signed are kept in the state, as are mails and events that were sent.
\<close>

subsection \<open>Rows\<close>

datatype kyc_status = KycPending | KycVerified | KycRejected | KycExpired

record company_details =
  cy_company_name :: "string option"
  cy_registration_number :: "string option"
  cy_articles_url :: "string option"

record account = user +
  ac_password_hash :: string
  ac_google_subject :: "string option"
  ac_country :: string
  ac_kyc_status :: kyc_status
  ac_token_version :: nat
  ac_is_company :: bool
  ac_company_details :: "company_details option"
  ac_email_verified :: bool
  ac_verification_token :: "string option"
  ac_failed_attempts :: nat
  ac_lockout_until :: "int option"
  ac_mfa_secret :: "string option"
  ac_mfa_enabled :: bool
  ac_backup_codes :: "string list option"
  ac_mfa_failed :: nat
  ac_mfa_locked_until :: "int option"
  ac_enrollment_required :: bool
  ac_deleted :: bool

record login_log =
  ll_user_id :: string
  ll_ip_address :: string
  ll_user_agent :: string
  ll_country :: "string option"
  ll_country_code :: "string option"
  ll_fingerprint :: string

datatype submission_status = SubPendingReview | SubApproved | SubRejected | SubExpired

record kyc_submission =
  ks_id :: string
  ks_user_id :: string
  ks_is_corporate :: bool
  ks_company :: company_details
  ks_documents :: "string option list"
  ks_expires_at :: "int option"
  ks_alert_30 :: "int option"
  ks_alert_15 :: "int option"
  ks_alert_3 :: "int option"
  ks_status :: submission_status

datatype admin_act = ApproveKyc | RejectKyc | ApproveCorporateKyc | UpdateUserRole

record admin_action =
  aa_admin_id :: string
  aa_target_user_id :: string
  aa_action :: admin_act
  aa_about :: string
  aa_reason :: "string option"

datatype token_type = AccessToken | RefreshToken | UnlockToken

record jwt_payload =
  jp_sub :: string
  jp_typ :: token_type
  jp_version :: "nat option"
  jp_jti :: "string option"
  jp_family :: "string option"
  jp_exp :: int

datatype auth_mail = VerificationMail string string | LockedMail string string | ExpiredMail string

datatype auth_event =
    NewDevice string string
  | KycVerifiedEvent string
  | KycRejectedEvent string "string option"

record auth_state =
  au_users :: "account list"
  au_logs :: "login_log list"
  au_submissions :: "kyc_submission list"
  au_actions :: "admin_action list"
  au_threat :: threat_state
  au_signed :: "jwt_payload list"
  au_mails :: "auth_mail list"
  au_events :: "auth_event list"

text \<open>
  \<open>ae_verify t\<close> is the verification of a token at the time \<open>t\<close> in milliseconds; \<open>ae_decoded_exp\<close> reads the
  expiry without verification. \<open>ae_argon2\<close> is \<open>None\<close> for a text that is no hash, where the library throws;
  \<open>ae_totp t token secret\<close> likewise for one-time passwords. Secrets and codes are the random values of a request.
\<close>

datatype risk_decision = RiskAllow | RiskRequireMfa | RiskForceReauth

record auth_env =
  ae_threat :: threat_config
  ae_hash :: "string \<Rightarrow> string"
  ae_argon2 :: "string \<Rightarrow> string \<Rightarrow> bool option"
  ae_bcrypt :: "string \<Rightarrow> string \<Rightarrow> bool"
  ae_random :: string
  ae_new_id :: string
  ae_jti :: string
  ae_family :: string
  ae_sign :: "jwt_payload \<Rightarrow> string"
  ae_verify :: "nat \<Rightarrow> string \<Rightarrow> jwt_payload option"
  ae_decoded_exp :: "string \<Rightarrow> int option"
  ae_access_seconds :: int
  ae_refresh_seconds :: int
  ae_refresh_text :: string
  ae_redis_up :: bool
  ae_digest :: "string \<Rightarrow> string"
  ae_needs_reauth :: "string \<Rightarrow> bool"
  ae_risk :: "(string \<Rightarrow> risk_decision) option"
  ae_mail_error :: bool
  ae_sanctioned :: "string \<Rightarrow> http_error + bool"
  ae_totp :: "nat \<Rightarrow> string \<Rightarrow> string \<Rightarrow> bool option"
  ae_totp_secret :: string
  ae_backup_codes :: "string list"
  ae_bcrypt_hash :: "string \<Rightarrow> string"

type_synonym 'a auth_handler = "(auth_state, http_error, 'a) handler"

definition auth_redis :: "auth_state \<Rightarrow> redis_store" where
  "auth_redis s = th_redis (au_threat s)"

definition now_ms :: "auth_state \<Rightarrow> int" where
  "now_ms s = int (red_clock (auth_redis s))"

definition with_redis :: "(redis_store \<Rightarrow> redis_store) \<Rightarrow> auth_state \<Rightarrow> auth_state" where
  "with_redis f s = s\<lparr>au_threat := (au_threat s)\<lparr>th_redis := f (th_redis (au_threat s))\<rparr>\<rparr>"

definition find_account :: "(account \<Rightarrow> bool) \<Rightarrow> auth_state \<Rightarrow> account option" where
  "find_account p s = find_one (\<lambda>u. p u \<and> \<not> ac_deleted u) (au_users s)"

definition account_by_id :: "string \<Rightarrow> auth_state \<Rightarrow> account option" where
  "account_by_id i s = find_account (\<lambda>u. us_id u = i) s"

definition account_by_email :: "string \<Rightarrow> auth_state \<Rightarrow> account option" where
  "account_by_email e s = find_account (\<lambda>u. us_email u = e) s"

definition save_account :: "account \<Rightarrow> auth_state \<Rightarrow> auth_state" where
  "save_account u s = s\<lparr>au_users := update_where (\<lambda>x. us_id x = us_id u) (\<lambda>_. u) (au_users s)\<rparr>"

definition revoke_tokens :: "account \<Rightarrow> account" where
  "revoke_tokens u = u\<lparr>ac_token_version := ac_token_version u + 1\<rparr>"

subsection \<open>Redirects\<close>

definition sanitize_redirect_url :: "string option \<Rightarrow> http_error + string option" where
  "sanitize_redirect_url redirect =
     (if \<not> present redirect then Inr None
      else let url = js_trim (the redirect)
           in if url = [] then Inr None
              else if starts_with ''//'' url \<or> starts_with ''http://'' url \<or> starts_with ''https://'' url
                \<or> \<not> starts_with ''/'' url \<or> str_includes [CHR 0x5C] url \<or> str_includes ''%5c'' url \<or> str_includes ''%5C'' url
              then Inl (BadRequest ''INVALID_REDIRECT'')
              else Inr (Some url))"

subsection \<open>Passwords\<close>

definition is_bcrypt_hash :: "string \<Rightarrow> bool" where
  "is_bcrypt_hash h \<longleftrightarrow> starts_with ''$2b$'' h \<or> starts_with ''$2a$'' h"

definition verify_password :: "auth_env \<Rightarrow> string \<Rightarrow> string \<Rightarrow> bool option" where
  "verify_password env h pw = (if is_bcrypt_hash h then Some (ae_bcrypt env pw h) else ae_argon2 env h pw)"

subsection \<open>The list of blocked tokens\<close>

definition block_key :: "auth_env \<Rightarrow> string \<Rightarrow> string \<Rightarrow> int \<Rightarrow> string \<Rightarrow> auth_state \<Rightarrow> auth_state" where
  "block_key env kind name seconds v s =
     (if seconds \<le> 0 \<or> \<not> ae_redis_up env then s else with_redis (red_setex (kind @ name) (nat seconds) v) s)"

definition key_is :: "auth_env \<Rightarrow> string \<Rightarrow> string \<Rightarrow> string \<Rightarrow> auth_state \<Rightarrow> bool" where
  "key_is env kind name v s \<longleftrightarrow> ae_redis_up env \<and> red_get (kind @ name) (auth_redis s) = Some v"

definition blocklist_token :: "auth_env \<Rightarrow> string \<Rightarrow> int \<Rightarrow> auth_state \<Rightarrow> auth_state" where
  "blocklist_token env token seconds = block_key env ''blocklist:jwt:'' token seconds ''revoked''"

definition is_blocklisted :: "auth_env \<Rightarrow> string \<Rightarrow> auth_state \<Rightarrow> bool" where
  "is_blocklisted env token = key_is env ''blocklist:jwt:'' token ''revoked''"

definition mark_refresh_token_rotated :: "auth_env \<Rightarrow> string \<Rightarrow> int \<Rightarrow> auth_state \<Rightarrow> auth_state" where
  "mark_refresh_token_rotated env jti seconds = block_key env ''blocklist:refresh:jti:'' jti seconds ''rotated''"

definition is_refresh_token_rotated :: "auth_env \<Rightarrow> string \<Rightarrow> auth_state \<Rightarrow> bool" where
  "is_refresh_token_rotated env jti = key_is env ''blocklist:refresh:jti:'' jti ''rotated''"

definition revoke_token_family :: "auth_env \<Rightarrow> string \<Rightarrow> int \<Rightarrow> auth_state \<Rightarrow> auth_state" where
  "revoke_token_family env family seconds = block_key env ''blocklist:refresh:family:'' family seconds ''revoked''"

definition is_token_family_revoked :: "auth_env \<Rightarrow> string \<Rightarrow> auth_state \<Rightarrow> bool" where
  "is_token_family_revoked env family = key_is env ''blocklist:refresh:family:'' family ''revoked''"

subsection \<open>Tokens\<close>

definition now_seconds :: "auth_state \<Rightarrow> int" where
  "now_seconds s = now_ms s div 1000"

definition sign_token :: "auth_env \<Rightarrow> jwt_payload \<Rightarrow> auth_state \<Rightarrow> string \<times> auth_state" where
  "sign_token env p s = (ae_sign env p, s\<lparr>au_signed := au_signed s @ [p]\<rparr>)"

definition verified_payload :: "auth_env \<Rightarrow> string \<Rightarrow> auth_state \<Rightarrow> jwt_payload option" where
  "verified_payload env token s = ae_verify env (red_clock (auth_redis s)) token"

record token_pair =
  tk_access :: string
  tk_refresh :: string

definition access_payload :: "auth_env \<Rightarrow> account \<Rightarrow> auth_state \<Rightarrow> jwt_payload" where
  "access_payload env u s =
     \<lparr>jp_sub = us_id u, jp_typ = AccessToken, jp_version = Some (ac_token_version u), jp_jti = None, jp_family = None,
      jp_exp = now_seconds s + ae_access_seconds env\<rparr>"

definition refresh_payload :: "auth_env \<Rightarrow> account \<Rightarrow> string \<Rightarrow> auth_state \<Rightarrow> jwt_payload" where
  "refresh_payload env u family s =
     \<lparr>jp_sub = us_id u, jp_typ = RefreshToken, jp_version = Some (ac_token_version u), jp_jti = Some (ae_jti env),
      jp_family = Some family, jp_exp = now_seconds s + ae_refresh_seconds env\<rparr>"

definition issue_token_pair :: "auth_env \<Rightarrow> account \<Rightarrow> string \<Rightarrow> auth_state \<Rightarrow> token_pair \<times> auth_state" where
  "issue_token_pair env u family s =
     (case sign_token env (access_payload env u s) s of (a, s1) \<Rightarrow>
      (case sign_token env (refresh_payload env u family s) s1 of (r, s2) \<Rightarrow> (\<lparr>tk_access = a, tk_refresh = r\<rparr>, s2)))"

text \<open>A duration such as \<open>15m\<close> or \<open>7d\<close> in seconds, zero when the text has another form.\<close>

fun digits_value :: "nat \<Rightarrow> string \<Rightarrow> nat" where
  "digits_value n [] = n"
| "digits_value n (c # cs) = digits_value (10 * n + (of_char c - 48)) cs"

fun unit_seconds :: "string \<Rightarrow> int option" where
  "unit_seconds [] = Some 1"
| "unit_seconds [c] =
     (let k = ascii_lower [c]
      in if k = ''s'' then Some 1 else if k = ''m'' then Some 60 else if k = ''h'' then Some 3600
         else if k = ''d'' then Some 86400 else None)"
| "unit_seconds (c # d # cs) = None"

definition duration_to_seconds :: "string \<Rightarrow> int" where
  "duration_to_seconds t =
     (let digit = char_between CHR ''0'' CHR ''9''; v = js_trim t; ds = takeWhile digit v
      in if ds = [] then 0
         else case unit_seconds (dropWhile white_space (dropWhile digit v)) of
                None \<Rightarrow> 0
              | Some k \<Rightarrow> int (digits_value 0 ds) * k)"

subsection \<open>Registration\<close>

record register_dto =
  rg_email :: string
  rg_password :: string
  rg_role :: string
  rg_country :: string
  rg_redirect :: "string option"

definition blank_account :: account where
  "blank_account =
     \<lparr>us_id = [], us_email = [], us_role = ''investor'', us_wallet_address = None, us_accreditation_tier = Some Retail,
      ac_password_hash = [], ac_google_subject = None, ac_country = [], ac_kyc_status = KycPending, ac_token_version = 0,
      ac_is_company = False, ac_company_details = None, ac_email_verified = False, ac_verification_token = None,
      ac_failed_attempts = 0, ac_lockout_until = None, ac_mfa_secret = None, ac_mfa_enabled = False,
      ac_backup_codes = None, ac_mfa_failed = 0, ac_mfa_locked_until = None, ac_enrollment_required = False,
      ac_deleted = False\<rparr>"

text \<open>
  The unique columns: key, e-mail address, Google subject and wallet address, of deleted rows too. A row is
  \<open>taken\<close> when it cannot be inserted, and \<open>clashes\<close> when it cannot be saved again.
\<close>

definition same_unique :: "account \<Rightarrow> account \<Rightarrow> bool" where
  "same_unique u x \<longleftrightarrow> us_email x = us_email u
     \<or> (ac_google_subject u \<noteq> None \<and> ac_google_subject x = ac_google_subject u)
     \<or> (us_wallet_address u \<noteq> None \<and> us_wallet_address x = us_wallet_address u)"

definition taken :: "account \<Rightarrow> auth_state \<Rightarrow> bool" where
  "taken u s \<longleftrightarrow> list_ex (\<lambda>x. us_id x = us_id u \<or> same_unique u x) (au_users s)"

definition clashes :: "account \<Rightarrow> auth_state \<Rightarrow> bool" where
  "clashes u s \<longleftrightarrow> list_ex (\<lambda>x. us_id x \<noteq> us_id u \<and> same_unique u x) (au_users s)"

definition send_mail :: "auth_env \<Rightarrow> auth_mail \<Rightarrow> unit auth_handler" where
  "send_mail env m s = (if ae_mail_error env then throw (Internal ''MAIL'') s else done_with () (s\<lparr>au_mails := au_mails s @ [m]\<rparr>))"

definition registered_account :: "auth_env \<Rightarrow> register_dto \<Rightarrow> account" where
  "registered_account env dto =
     blank_account\<lparr>us_id := ae_new_id env, us_email := rg_email dto, ac_password_hash := ae_hash env (rg_password dto),
       us_role := rg_role dto, ac_country := rg_country dto, ac_verification_token := Some (ae_random env)\<rparr>"

definition register :: "auth_env \<Rightarrow> register_dto \<Rightarrow> (account \<times> string option) auth_handler" where
  "register env dto s =
     (let u = registered_account env dto
      in if account_by_email (rg_email dto) s \<noteq> None \<or> taken u s then throw (Conflict ''EMAIL_EXISTS'') s
         else and_then (send_mail env (VerificationMail (rg_email dto) (ae_random env)))
                (\<lambda>_ s1. case sanitize_redirect_url (rg_redirect dto) of Inl e \<Rightarrow> throw e s1 | Inr r \<Rightarrow> done_with (u, r) s1)
                (s\<lparr>au_users := insert_row u (au_users s)\<rparr>))"

definition verify_email :: "string \<Rightarrow> unit auth_handler" where
  "verify_email token s =
     (case find_account (\<lambda>u. ac_verification_token u = Some token) s of
        None \<Rightarrow> throw (BadRequest ''Invalid or expired verification token.'') s
      | Some u \<Rightarrow> done_with () (save_account (u\<lparr>ac_email_verified := True, ac_verification_token := None\<rparr>) s))"

subsection \<open>Login\<close>

definition lockout_max_attempts :: nat where
  "lockout_max_attempts = 5"

definition lockout_duration_ms :: int where
  "lockout_duration_ms = 15 * 60 * 1000"

record login_meta =
  lm_ip :: "string option"
  lm_user_agent :: "string option"
  lm_country :: "string option"
  lm_accept_language :: "string option"

record login_dto =
  lg_email :: string
  lg_password :: string
  lg_redirect :: "string option"
  lg_captcha :: "string option"

definition still_after :: "int option \<Rightarrow> auth_state \<Rightarrow> bool" where
  "still_after t s \<longleftrightarrow> (case t of None \<Rightarrow> False | Some x \<Rightarrow> now_ms s < x)"

definition unlock_payload :: "account \<Rightarrow> auth_state \<Rightarrow> jwt_payload" where
  "unlock_payload u s =
     \<lparr>jp_sub = us_id u, jp_typ = UnlockToken, jp_version = None, jp_jti = None, jp_family = None, jp_exp = now_seconds s + 900\<rparr>"

definition note_failure :: "auth_env \<Rightarrow> login_dto \<Rightarrow> login_meta \<Rightarrow> auth_state \<Rightarrow> auth_state" where
  "note_failure env dto meta s =
     s\<lparr>au_threat := record_failed_login (ae_threat env) (lg_email dto) (lm_ip meta) (lm_country meta) (au_threat s)\<rparr>"

definition wrong_password :: "auth_env \<Rightarrow> login_dto \<Rightarrow> login_meta \<Rightarrow> account \<Rightarrow> 'a auth_handler" where
  "wrong_password env dto meta u s =
     (let n = ac_failed_attempts u + 1; s1 = note_failure env dto meta s
      in if n < lockout_max_attempts
         then throw (Unauthorized ''Invalid credentials.'') (save_account (u\<lparr>ac_failed_attempts := n\<rparr>) s1)
         else (case sign_token env (unlock_payload u s1)
                      (save_account (u\<lparr>ac_failed_attempts := 0, ac_lockout_until := Some (now_ms s1 + lockout_duration_ms)\<rparr>) s1) of
                 (token, s2) \<Rightarrow>
                   and_then (send_mail env (LockedMail (us_email u) token)) (\<lambda>_. throw (Unauthorized ''Account locked'')) s2))"

definition fingerprint :: "auth_env \<Rightarrow> login_meta \<Rightarrow> string" where
  "fingerprint env meta =
     take 32 (ae_digest env ((case lm_user_agent meta of Some a \<Rightarrow> a | None \<Rightarrow> []) @ ''|''
                            @ (case lm_accept_language meta of Some l \<Rightarrow> l | None \<Rightarrow> [])))"

definition known_agent :: "login_meta \<Rightarrow> string" where
  "known_agent meta = (case lm_user_agent meta of Some a \<Rightarrow> a | None \<Rightarrow> ''unknown'')"

definition log_entry :: "auth_env \<Rightarrow> string \<Rightarrow> string \<Rightarrow> login_meta \<Rightarrow> login_log" where
  "log_entry env user agent meta =
     \<lparr>ll_user_id = user, ll_ip_address = the (lm_ip meta), ll_user_agent = agent, ll_country = lm_country meta,
      ll_country_code = (if present (lm_country meta) then Some (take 2 (ascii_upper (the (lm_country meta)))) else None),
      ll_fingerprint = fingerprint env meta\<rparr>"

definition recent_logs :: "string \<Rightarrow> auth_state \<Rightarrow> login_log list" where
  "recent_logs user s = take 5 (rev (find_where (\<lambda>l. ll_user_id l = user) (au_logs s)))"

definition record_successful_login :: "auth_env \<Rightarrow> login_meta \<Rightarrow> account \<Rightarrow> auth_state \<Rightarrow> auth_state" where
  "record_successful_login env meta u s =
     (if \<not> present (lm_ip meta) then s
      else let before = recent_logs (us_id u) s;
               s1 = s\<lparr>au_logs := insert_row (log_entry env (us_id u) (known_agent meta) meta) (au_logs s)\<rparr>
           in if before \<noteq> [] \<and> \<not> list_ex (\<lambda>l. ll_fingerprint l = fingerprint env meta) before
              then s1\<lparr>au_events := au_events s1 @ [NewDevice (us_id u) (ae_random env)]\<rparr> else s1)"

definition admin_role :: "account \<Rightarrow> bool" where
  "admin_role u \<longleftrightarrow> us_role u = ''admin'' \<or> us_role u = ''company_admin''"

definition passed_account :: "auth_env \<Rightarrow> login_dto \<Rightarrow> account \<Rightarrow> account" where
  "passed_account env dto u =
     u\<lparr>ac_failed_attempts := 0, ac_lockout_until := None,
       ac_password_hash := (if is_bcrypt_hash (ac_password_hash u) then ae_hash env (lg_password dto) else ac_password_hash u)\<rparr>"

definition right_password :: "auth_env \<Rightarrow> login_dto \<Rightarrow> login_meta \<Rightarrow> account \<Rightarrow> (token_pair \<times> string option) auth_handler" where
  "right_password env dto meta u s =
     (let u1 = passed_account env dto u
      in if admin_role u1 \<and> \<not> ac_mfa_enabled u1
         then throw (Forbidden ''MFA_ENROLLMENT_REQUIRED'') (save_account (u1\<lparr>ac_enrollment_required := True\<rparr>) s)
         else (case issue_token_pair env u1 (ae_family env) (record_successful_login env meta u1 (save_account u1 s)) of
                 (tokens, s1) \<Rightarrow>
                   (case sanitize_redirect_url (lg_redirect dto) of
                      Inl e \<Rightarrow> throw e s1
                    | Inr r \<Rightarrow> done_with (tokens, r) s1)))"

definition login_account :: "auth_env \<Rightarrow> login_dto \<Rightarrow> login_meta \<Rightarrow> account \<Rightarrow> (token_pair \<times> string option) auth_handler" where
  "login_account env dto meta u s =
     (if still_after (ac_lockout_until u) s then throw (Unauthorized ''Account locked'') s
      else if \<not> ac_email_verified u then throw (Unauthorized ''EMAIL_NOT_VERIFIED'') s
      else case verify_password env (ac_password_hash u) (lg_password dto) of
             None \<Rightarrow> throw (Internal ''HASH'') s
           | Some ok \<Rightarrow> if ok then right_password env dto meta u s else wrong_password env dto meta u s)"

definition login :: "auth_env \<Rightarrow> login_dto \<Rightarrow> login_meta \<Rightarrow> (token_pair \<times> string option) auth_handler" where
  "login env dto meta s =
     (let verdict = check_login (ae_threat env) (lg_email dto) (lm_ip meta) (au_threat s)
      in if lv_blocked verdict then throw (TooManyRequests ''LOGIN_RATE_LIMITED'') s
         else if lv_captcha verdict \<and> \<not> present (lg_captcha dto) then throw (Forbidden ''CAPTCHA_REQUIRED'') s
         else if lv_captcha verdict \<and> \<not> verify_captcha (ae_threat env) (the (lg_captcha dto)) (lm_ip meta)
         then throw (Forbidden ''CAPTCHA_INVALID'') s
         else case account_by_email (lg_email dto) s of
                None \<Rightarrow> throw (Unauthorized ''Invalid credentials.'') (note_failure env dto meta s)
              | Some u \<Rightarrow> login_account env dto meta u s)"

record google_identity =
  gi_subject :: string
  gi_email :: string
  gi_email_verified :: bool

definition google_account :: "google_identity \<Rightarrow> auth_state \<Rightarrow> account option" where
  "google_account g s =
     (case find_account (\<lambda>u. ac_google_subject u = Some (gi_subject g)) s of
        Some u \<Rightarrow> Some u
      | None \<Rightarrow> account_by_email (gi_email g) s)"

definition google_opened :: "account \<Rightarrow> account" where
  "google_opened u = u\<lparr>ac_failed_attempts := 0, ac_lockout_until := None, ac_email_verified := True\<rparr>"

definition login_with_google :: "auth_env \<Rightarrow> google_identity \<Rightarrow> token_pair auth_handler" where
  "login_with_google env g s =
     (if \<not> gi_email_verified g then throw (Unauthorized ''GOOGLE_EMAIL_NOT_VERIFIED'') s
      else case google_account g s of
             Some u \<Rightarrow>
               if us_role u \<noteq> ''investor'' then throw (Forbidden ''INVESTORS_ONLY'') s
               else if present (ac_google_subject u) \<and> ac_google_subject u \<noteq> Some (gi_subject g)
               then throw (Unauthorized ''OTHER_GOOGLE_ACCOUNT'') s
               else let u1 = google_opened (u\<lparr>ac_google_subject := Some (gi_subject g)\<rparr>)
                    in if clashes u1 s then throw (Internal ''duplicate key'') s
                       else (case issue_token_pair env u1 (ae_family env) (save_account u1 s) of (t, s1) \<Rightarrow> done_with t s1)
           | None \<Rightarrow>
               let u1 = google_opened (blank_account\<lparr>us_id := ae_new_id env, us_email := gi_email g,
                          ac_google_subject := Some (gi_subject g), ac_password_hash := ae_hash env (ae_random env),
                          ac_country := ''UN''\<rparr>)
               in if taken u1 s then throw (Internal ''duplicate key'') s
                  else (case issue_token_pair env u1 (ae_family env) (s\<lparr>au_users := insert_row u1 (au_users s)\<rparr>) of
                          (t, s1) \<Rightarrow> done_with t s1))"

subsection \<open>Sessions\<close>

text \<open>The check of a bearer token that guards the requests of a user.\<close>

definition validate :: "auth_env \<Rightarrow> string \<Rightarrow> auth_state \<Rightarrow> http_error + account" where
  "validate env token s =
     (case verified_payload env token s of
        None \<Rightarrow> Inl (Unauthorized [])
      | Some p \<Rightarrow>
          if is_blocklisted env token s then Inl (Unauthorized ''Token has been revoked.'')
          else if jp_typ p = RefreshToken then Inl (Unauthorized ''REFRESH_TOKEN'')
          else case account_by_id (jp_sub p) s of
                 None \<Rightarrow> Inl (Unauthorized [])
               | Some u \<Rightarrow>
                   if (case jp_version p of Some v \<Rightarrow> v | None \<Rightarrow> 0) \<noteq> ac_token_version u
                   then Inl (Unauthorized ''Token no longer valid.'')
                   else if ae_needs_reauth env (us_id u) then Inl (Unauthorized ''REAUTHENTICATION_REQUIRED'')
                   else Inr u)"

text \<open>
  A refresh reads the list of blocked tokens and writes it afterwards; other requests can run in between.
\<close>

definition reuse_detected :: "auth_env \<Rightarrow> jwt_payload \<Rightarrow> account \<Rightarrow> auth_state \<Rightarrow> auth_state" where
  "reuse_detected env p u s =
     save_account (revoke_tokens u)
       (if present (jp_family p)
        then revoke_token_family env (the (jp_family p)) (duration_to_seconds (ae_refresh_text env)) s else s)"

definition refresh_check :: "auth_env \<Rightarrow> string \<Rightarrow> (jwt_payload \<times> account) auth_handler" where
  "refresh_check env token s =
     (case verified_payload env token s of
        None \<Rightarrow> throw (Unauthorized ''Invalid or expired refresh token.'') s
      | Some p \<Rightarrow>
          if jp_typ p \<noteq> RefreshToken then throw (Unauthorized ''Invalid refresh token.'') s
          else case account_by_id (jp_sub p) s of
                 None \<Rightarrow> throw (Unauthorized ''Invalid or expired refresh token.'') s
               | Some u \<Rightarrow>
                   if (case jp_version p of Some v \<Rightarrow> v | None \<Rightarrow> 0) \<noteq> ac_token_version u
                   then throw (Unauthorized ''Token no longer valid.'') s
                   else if present (jp_family p) \<and> is_token_family_revoked env (the (jp_family p)) s
                   then throw (Unauthorized ''Token no longer valid.'') s
                   else if present (jp_jti p) \<and> is_refresh_token_rotated env (the (jp_jti p)) s
                   then throw (Unauthorized ''REFRESH_TOKEN_REUSE'') (reuse_detected env p u s)
                   else done_with (p, u) s)"

definition refresh_commit :: "auth_env \<Rightarrow> jwt_payload \<Rightarrow> account \<Rightarrow> token_pair auth_handler" where
  "refresh_commit env p u s =
     (let s1 = (if present (jp_jti p)
                then mark_refresh_token_rotated env (the (jp_jti p)) (max (jp_exp p - now_seconds s) 1) s else s)
      in case issue_token_pair env u (case jp_family p of Some f \<Rightarrow> f | None \<Rightarrow> ae_family env) s1 of (t, s2) \<Rightarrow> done_with t s2)"

definition refresh :: "auth_env \<Rightarrow> string \<Rightarrow> token_pair auth_handler" where
  "refresh env token = and_then (refresh_check env token) (\<lambda>(p, u). refresh_commit env p u)"

definition logout :: "auth_env \<Rightarrow> string \<Rightarrow> string option \<Rightarrow> unit auth_handler" where
  "logout env user_id token s =
     (let s1 = (if present token
                then case ae_decoded_exp env (the token) of
                       None \<Rightarrow> s
                     | Some e \<Rightarrow> blocklist_token env (the token) (e - now_seconds s) s
                else s)
      in case account_by_id user_id s1 of
           None \<Rightarrow> throw (NotFound ''User not found.'') s1
         | Some u \<Rightarrow> done_with () (save_account (revoke_tokens u) s1))"

text \<open>
  \<open>LIKE\<close> of SQL. The row that is looked for belongs to the user of the latest log entry: this is the query that is
  meant; as its callback does not return the inner query, the library may reject it, and then the answer is \<open>None\<close>.
\<close>

fun sql_like :: "string \<Rightarrow> string \<Rightarrow> bool" where
  "sql_like [] t = (t = [])"
| "sql_like (c # cs) t =
     (if c = CHR ''%'' then (case t of [] \<Rightarrow> sql_like cs [] | d # ds \<Rightarrow> sql_like cs (d # ds) \<or> sql_like (c # cs) ds)
      else if c = CHR ''_'' then (case t of [] \<Rightarrow> False | d # ds \<Rightarrow> sql_like cs ds)
      else if c = CHR 0x5C \<and> cs \<noteq> [] then (case t of [] \<Rightarrow> False | d # ds \<Rightarrow> d = hd cs \<and> sql_like (tl cs) ds)
      else (case t of [] \<Rightarrow> False | d # ds \<Rightarrow> c = d \<and> sql_like cs ds))"

definition find_user_by_revoke_token :: "string \<Rightarrow> auth_state \<Rightarrow> string option" where
  "find_user_by_revoke_token token s =
     (if au_logs s = [] then None
      else map_option ll_user_id
             (find_one (\<lambda>l. ll_user_id l = ll_user_id (last (au_logs s)) \<and> sql_like (''%revoke:'' @ token @ ''%'') (ll_user_agent l))
               (au_logs s)))"

definition revoke_session :: "string \<Rightarrow> unit auth_handler" where
  "revoke_session token s =
     (case find_user_by_revoke_token token s of
        None \<Rightarrow> throw (BadRequest ''Invalid or expired revocation link.'') s
      | Some i \<Rightarrow>
          (case account_by_id i s of
             None \<Rightarrow> throw (NotFound ''User not found.'') s
           | Some u \<Rightarrow> done_with () (save_account (revoke_tokens u) s)))"

definition unlock_account :: "auth_env \<Rightarrow> string \<Rightarrow> login_meta \<Rightarrow> bool auth_handler" where
  "unlock_account env token meta s =
     (case verified_payload env token s of
        None \<Rightarrow> throw (BadRequest ''INVALID_UNLOCK_TOKEN'') s
      | Some p \<Rightarrow>
          if jp_typ p \<noteq> UnlockToken \<or> jp_sub p = [] then throw (BadRequest ''INVALID_UNLOCK_TOKEN'') s
          else case account_by_id (jp_sub p) s of
                 None \<Rightarrow> throw (NotFound ''User not found.'') s
               | Some u \<Rightarrow>
                   (let s1 = save_account (u\<lparr>ac_lockout_until := None, ac_failed_attempts := 0\<rparr>) s
                    in done_with (still_after (ac_lockout_until u) s)
                         (if present (lm_ip meta)
                          then s1\<lparr>au_logs := insert_row (log_entry env (us_id u) (''unlock_attempt|'' @ known_agent meta) meta) (au_logs s1)\<rparr>
                          else s1)))"

subsection \<open>The account\<close>

definition change_password :: "auth_env \<Rightarrow> string \<Rightarrow> string \<Rightarrow> string \<Rightarrow> unit auth_handler" where
  "change_password env user_id current new s =
     (case account_by_id user_id s of
        None \<Rightarrow> throw (NotFound ''User not found.'') s
      | Some u \<Rightarrow>
          (case verify_password env (ac_password_hash u) current of
             None \<Rightarrow> throw (Internal ''HASH'') s
           | Some ok \<Rightarrow>
               if \<not> ok then throw (BadRequest ''Current password is incorrect.'') s
               else if current = new then throw (BadRequest ''SAME_PASSWORD'') s
               else done_with () (save_account (revoke_tokens (u\<lparr>ac_password_hash := ae_hash env new\<rparr>)) s)))"

definition record_action :: "string \<Rightarrow> string \<Rightarrow> admin_act \<Rightarrow> string \<Rightarrow> string option \<Rightarrow> auth_state \<Rightarrow> auth_state" where
  "record_action admin target act about reason s =
     s\<lparr>au_actions := insert_row \<lparr>aa_admin_id = admin, aa_target_user_id = target, aa_action = act, aa_about = about,
                                 aa_reason = reason\<rparr> (au_actions s)\<rparr>"

definition update_user_role :: "string \<Rightarrow> string \<Rightarrow> string option \<Rightarrow> string option \<Rightarrow> unit auth_handler" where
  "update_user_role user_id role admin reason s =
     (case account_by_id user_id s of
        None \<Rightarrow> throw (NotFound ''User not found.'') s
      | Some u \<Rightarrow>
          (let s1 = save_account (revoke_tokens (u\<lparr>us_role := role\<rparr>)) s
           in done_with () (if present admin then record_action (the admin) user_id UpdateUserRole role reason s1 else s1)))"

definition link_wallet :: "auth_env \<Rightarrow> string \<Rightarrow> string \<Rightarrow> unit auth_handler" where
  "link_wallet env user_id wallet s =
     (case account_by_id user_id s of
        None \<Rightarrow> throw (NotFound ''User not found.'') s
      | Some u \<Rightarrow>
          (case ae_sanctioned env wallet of
             Inl e \<Rightarrow> throw e s
           | Inr sanctioned \<Rightarrow>
               if sanctioned then throw (BadRequest ''SANCTIONED_ADDRESS'') s
               else (let u1 = u\<lparr>us_wallet_address := Some wallet\<rparr>
                     in if clashes u1 s then throw (Internal ''duplicate key'') s else done_with () (save_account u1 s))))"

definition assess_behavioral_risk :: "auth_env \<Rightarrow> string \<Rightarrow> risk_decision auth_handler" where
  "assess_behavioral_risk env user_id s =
     (case account_by_id user_id s of
        None \<Rightarrow> throw (NotFound ''User not found.'') s
      | Some u \<Rightarrow>
          (case ae_risk env of
             None \<Rightarrow> done_with RiskAllow s
           | Some decide \<Rightarrow>
               done_with (decide user_id)
                 (if decide user_id = RiskForceReauth then save_account (revoke_tokens u) s else s)))"

end
