(* ===== verification/Mfa.thy ===== *)
theory Mfa
  imports Accounts
begin

text \<open>
  The second factor: enrolment, verification and removal in \<open>backend/src/auth/auth.service.ts\<close>, and the guard of
  sensitive requests in \<open>guards/mfa.guard.ts\<close>. The library of one-time passwords and bcrypt are parameters.
\<close>

definition mfa_max_attempts :: nat where
  "mfa_max_attempts = 5"

definition mfa_lockout_ms :: int where
  "mfa_lockout_ms = 10 * 60 * 1000"

definition verify_totp_token :: "auth_env \<Rightarrow> string \<Rightarrow> string \<Rightarrow> auth_state \<Rightarrow> bool" where
  "verify_totp_token env secret token s \<longleftrightarrow> ae_totp env (red_clock (auth_redis s)) (js_trim token) secret = Some True"

text \<open>The first stored code that matches is removed.\<close>

fun use_backup_code :: "auth_env \<Rightarrow> string \<Rightarrow> string list \<Rightarrow> string list option" where
  "use_backup_code env token [] = None"
| "use_backup_code env token (h # hs) =
     (if ae_bcrypt env (js_trim token) h then Some hs else map_option (Cons h) (use_backup_code env token hs))"

definition second_factor :: "auth_env \<Rightarrow> string \<Rightarrow> account \<Rightarrow> auth_state \<Rightarrow> account option" where
  "second_factor env token u s =
     (if verify_totp_token env (the (ac_mfa_secret u)) token s then Some u
      else case ac_backup_codes u of
             None \<Rightarrow> None
           | Some codes \<Rightarrow> map_option (\<lambda>rest. u\<lparr>ac_backup_codes := Some rest\<rparr>) (use_backup_code env token codes))"

definition mfa_refused :: "account \<Rightarrow> auth_state \<Rightarrow> account" where
  "mfa_refused u s =
     (if ac_mfa_failed u + 1 < mfa_max_attempts then u\<lparr>ac_mfa_failed := ac_mfa_failed u + 1\<rparr>
      else u\<lparr>ac_mfa_failed := 0, ac_mfa_locked_until := Some (now_ms s + mfa_lockout_ms)\<rparr>)"

definition mfa_passed :: "account \<Rightarrow> account" where
  "mfa_passed u = u\<lparr>ac_mfa_failed := 0, ac_mfa_locked_until := None\<rparr>"

definition setup_mfa :: "auth_env \<Rightarrow> string \<Rightarrow> (string \<times> string list) auth_handler" where
  "setup_mfa env user_id s =
     (case account_by_id user_id s of
        None \<Rightarrow> throw (NotFound ''User not found.'') s
      | Some u \<Rightarrow>
          done_with (ae_totp_secret env, ae_backup_codes env)
            (save_account (u\<lparr>ac_mfa_secret := Some (ae_totp_secret env),
                             ac_backup_codes := Some (map (ae_bcrypt_hash env) (ae_backup_codes env))\<rparr>) s))"

definition enable_mfa :: "auth_env \<Rightarrow> string \<Rightarrow> string \<Rightarrow> unit auth_handler" where
  "enable_mfa env user_id token s =
     (case account_by_id user_id s of
        None \<Rightarrow> throw (NotFound ''User not found.'') s
      | Some u \<Rightarrow>
          if \<not> present (ac_mfa_secret u) then throw (BadRequest ''MFA secret not setup. Call /auth/mfa/setup first.'') s
          else if \<not> verify_totp_token env (the (ac_mfa_secret u)) token s
          then throw (BadRequest ''Invalid MFA verification code.'') s
          else done_with () (save_account ((mfa_passed u)\<lparr>ac_mfa_enabled := True\<rparr>) s))"

definition disable_mfa :: "auth_env \<Rightarrow> string \<Rightarrow> string \<Rightarrow> string \<Rightarrow> unit auth_handler" where
  "disable_mfa env user_id token pw s =
     (case account_by_id user_id s of
        None \<Rightarrow> throw (NotFound ''User not found.'') s
      | Some u \<Rightarrow>
          if \<not> ac_mfa_enabled u then throw (BadRequest ''MFA is not enabled for this account.'') s
          else (case verify_password env (ac_password_hash u) pw of
                  None \<Rightarrow> throw (Internal ''HASH'') s
                | Some ok \<Rightarrow>
                    if \<not> ok then throw (BadRequest ''Invalid password.'') s
                    else if \<not> (case ac_mfa_secret u of None \<Rightarrow> False | Some k \<Rightarrow> verify_totp_token env k token s)
                    then throw (BadRequest ''Invalid MFA token.'') s
                    else done_with () (save_account ((mfa_passed u)\<lparr>ac_mfa_enabled := False, ac_mfa_secret := None,
                                                        ac_backup_codes := None\<rparr>) s)))"

definition verify_mfa :: "auth_env \<Rightarrow> string \<Rightarrow> string \<Rightarrow> unit auth_handler" where
  "verify_mfa env user_id token s =
     (case account_by_id user_id s of
        None \<Rightarrow> throw (NotFound ''User not found.'') s
      | Some u \<Rightarrow>
          if \<not> ac_mfa_enabled u \<or> \<not> present (ac_mfa_secret u)
          then throw (BadRequest ''MFA is not enabled for this account.'') s
          else if still_after (ac_mfa_locked_until u) s then throw (Forbidden ''MFA_LOCKED_OUT'') s
          else (case second_factor env token u s of
                  None \<Rightarrow> throw (BadRequest ''Invalid MFA token.'') (save_account (mfa_refused u s) s)
                | Some u1 \<Rightarrow> done_with () (save_account (mfa_passed u1) s)))"

text \<open>The guard; the header is \<open>None\<close> when it is missing.\<close>

definition mfa_guard :: "auth_env \<Rightarrow> string \<Rightarrow> string option \<Rightarrow> unit auth_handler" where
  "mfa_guard env user_id header s =
     (case account_by_id user_id s of
        None \<Rightarrow> throw (Unauthorized ''Authentication required'') s
      | Some u \<Rightarrow>
          if \<not> ac_mfa_enabled u \<or> \<not> present (ac_mfa_secret u)
          then (if admin_role u then throw (Forbidden ''MFA_ENROLLMENT_REQUIRED'') s else done_with () s)
          else if still_after (ac_mfa_locked_until u) s then throw (Forbidden ''MFA_LOCKED_OUT'') s
          else if \<not> present header then throw (Forbidden ''MFA_REQUIRED'') s
          else (case second_factor env (the header) u s of
                  None \<Rightarrow> throw (Forbidden ''MFA_REQUIRED'') (save_account (mfa_refused u s) s)
                | Some u1 \<Rightarrow> done_with () (save_account (mfa_passed u1) s)))"

subsection \<open>Requests, one after the other\<close>

text \<open>
  One request of the service after the other, with the clock running in between. Requests of a user carry a
  bearer token that \<open>validate\<close> accepts; the change of a role by an administrator is a step of its own. What is
  assumed of the library that verifies tokens is \<open>honest\<close>: it accepts only tokens that were signed and are
  not expired, and reads the same content from the same token at any time.
\<close>

definition honest :: "(string \<Rightarrow> jwt_payload option) \<Rightarrow> auth_env \<Rightarrow> auth_state \<Rightarrow> bool" where
  "honest content env s \<longleftrightarrow>
     (\<forall>t token p. ae_verify env t token = Some p \<longrightarrow>
        content token = Some p \<and> p \<in> set (au_signed s) \<and> int t div 1000 < jp_exp p)"

definition pass_time :: "nat \<Rightarrow> auth_state \<Rightarrow> auth_state" where
  "pass_time d = with_redis (\<lambda>r. r\<lparr>rs_keys := advance d (rs_keys r)\<rparr>)"

inductive user_step :: "(string \<Rightarrow> jwt_payload option) \<Rightarrow> auth_state \<Rightarrow> auth_state \<Rightarrow> bool"
  for content :: "string \<Rightarrow> jwt_payload option" where
  wait: "user_step content s (pass_time d s)"
| register: "user_step content s (snd (register env dto s))"
| verify_email: "user_step content s (snd (verify_email t s))"
| login: "user_step content s (snd (login env dto meta s))"
| google: "user_step content s (snd (login_with_google env g s))"
| refresh: "honest content env s \<Longrightarrow> ae_redis_up env \<Longrightarrow> user_step content s (snd (refresh env token s))"
| revoke: "user_step content s (snd (revoke_session t s))"
| unlock: "honest content env s \<Longrightarrow> user_step content s (snd (unlock_account env token meta s))"
| logout: "honest content env s \<Longrightarrow> validate env token s = Inr u \<Longrightarrow> user_step content s (snd (logout env (us_id u) (Some token) s))"
| password: "honest content env s \<Longrightarrow> validate env token s = Inr u \<Longrightarrow>
     user_step content s (snd (change_password env (us_id u) current new s))"
| wallet: "honest content env s \<Longrightarrow> validate env token s = Inr u \<Longrightarrow> user_step content s (snd (link_wallet env (us_id u) w s))"
| risk: "honest content env s \<Longrightarrow> validate env token s = Inr u \<Longrightarrow> user_step content s (snd (assess_behavioral_risk env (us_id u) s))"
| start_mfa: "honest content env s \<Longrightarrow> validate env token s = Inr u \<Longrightarrow> user_step content s (snd (setup_mfa env (us_id u) s))"
| confirm_mfa: "honest content env s \<Longrightarrow> validate env token s = Inr u \<Longrightarrow> user_step content s (snd (enable_mfa env (us_id u) code s))"
| end_mfa: "honest content env s \<Longrightarrow> validate env token s = Inr u \<Longrightarrow> user_step content s (snd (disable_mfa env (us_id u) code pw s))"
| check_mfa: "honest content env s \<Longrightarrow> validate env token s = Inr u \<Longrightarrow> user_step content s (snd (verify_mfa env (us_id u) code s))"
| guarded: "honest content env s \<Longrightarrow> validate env token s = Inr u \<Longrightarrow> user_step content s (snd (mfa_guard env (us_id u) header s))"

inductive auth_step :: "(string \<Rightarrow> jwt_payload option) \<Rightarrow> auth_state \<Rightarrow> auth_state \<Rightarrow> bool"
  for content :: "string \<Rightarrow> jwt_payload option" where
  user: "user_step content s t \<Longrightarrow> auth_step content s t"
| role: "auth_step content s (snd (update_user_role i role admin reason s))"

text \<open>At first there are no accounts and no tokens; Redis may hold anything.\<close>

definition auth_reachable :: "(string \<Rightarrow> jwt_payload option) \<Rightarrow> auth_state \<Rightarrow> bool" where
  "auth_reachable content s \<longleftrightarrow> (\<exists>s0. au_users s0 = [] \<and> au_signed s0 = [] \<and> (auth_step content)\<^sup>*\<^sup>* s0 s)"

end
