(* ===== verification/KycRules.thy ===== *)
theory KycRules
  imports EscrowConsumer JsText "HOL-Library.List_Lexorder" "HOL-Library.Char_ord" "HOL-Library.Product_Lexorder"
begin

text \<open>
  \<open>backend/src/kyc-rules/kyc-rules.service.ts\<close>: which documents a country demands of a customer, in versions of
  rules. The match of a regular expression (\<open>None\<close> for an invalid one) and the reading of a date (\<open>None\<close> for
  an invalid one) are parameters; the audit log is left out.
\<close>

datatype customer_type = Individual | Corporate

record kyc_rule =
  kr_id :: string
  kr_country :: string
  kr_customer :: customer_type
  kr_required :: "string list"
  kr_accepted :: "string list"
  kr_pattern :: "string option"
  kr_proof_of_address :: bool
  kr_selfie :: bool
  kr_max_age_days :: "int option"
  kr_expiry_required :: bool
  kr_active :: bool
  kr_version :: nat
  kr_change_reason :: "string option"
  kr_created_by :: "string option"
  kr_updated_by :: "string option"

record kyc_rules_env =
  kv_matches :: "string \<Rightarrow> string \<Rightarrow> bool option"
  kv_date :: "string \<Rightarrow> int option"
  kv_now :: int
  kv_new_id :: string

type_synonym 'a kyc_rules_handler = "(kyc_rule list, http_error, 'a) handler"

subsection \<open>The rule of a country\<close>

definition rules_of :: "string \<Rightarrow> customer_type \<Rightarrow> kyc_rule list \<Rightarrow> kyc_rule list" where
  "rules_of country customer rules = find_where (\<lambda>r. kr_country r = country \<and> kr_customer r = customer) rules"

text \<open>The first row of an order by the version, the highest first.\<close>

definition highest_version :: "kyc_rule list \<Rightarrow> kyc_rule option" where
  "highest_version rs = (case rev (sort_key kr_version rs) of [] \<Rightarrow> None | r # _ \<Rightarrow> Some r)"

definition get_active_rule :: "string \<Rightarrow> customer_type \<Rightarrow> kyc_rule list \<Rightarrow> kyc_rule option" where
  "get_active_rule country customer rules =
     highest_version (filter kr_active (rules_of (ascii_upper (js_trim country)) customer rules))"

definition get_form_metadata :: "string \<Rightarrow> customer_type \<Rightarrow> kyc_rule list \<Rightarrow> http_error + kyc_rule" where
  "get_form_metadata country customer rules =
     (case get_active_rule country customer rules of
        None \<Rightarrow> Inl (NotFound ''NO_ACTIVE_RULE'')
      | Some r \<Rightarrow> Inr r)"

subsection \<open>Checking a submission\<close>

record submission_check =
  sc_country :: string
  sc_customer :: customer_type
  sc_document_type :: "string option"
  sc_id_number :: "string option"
  sc_expires_at :: "string option"
  sc_id_front :: bool
  sc_id_back :: bool
  sc_proof_of_address :: bool
  sc_selfie :: bool
  sc_business_license :: bool
  sc_articles :: bool

datatype kyc_error =
    NoActiveRule | MissingDocument string | TypeNotAccepted string | WrongIdFormat | ExpiryRequired | ExpiryNotInFuture

definition documents_given :: "submission_check \<Rightarrow> string list" where
  "documents_given d =
     (if sc_id_front d then [''government_id_front''] else []) @ (if sc_id_back d then [''government_id_back''] else [])
     @ (if sc_proof_of_address d then [''proof_of_address''] else []) @ (if sc_selfie d then [''selfie''] else [])
     @ (if sc_business_license d then [''business_license''] else [])
     @ (if sc_articles d then [''articles_of_incorporation''] else [])"

definition rule_errors :: "kyc_rules_env \<Rightarrow> submission_check \<Rightarrow> kyc_rule \<Rightarrow> kyc_error list" where
  "rule_errors env d r =
     map MissingDocument (filter (\<lambda>x. x \<notin> set (documents_given d)) (kr_required r))
     @ (if present (sc_document_type d) \<and> kr_accepted r \<noteq> [] \<and> the (sc_document_type d) \<notin> set (kr_accepted r)
        then [TypeNotAccepted (the (sc_document_type d))] else [])
     @ (if present (sc_id_number d) \<and> present (kr_pattern r)
           \<and> kv_matches env (the (kr_pattern r)) (the (sc_id_number d)) = Some False
        then [WrongIdFormat] else [])
     @ (if kr_expiry_required r \<and> \<not> present (sc_expires_at d) then [ExpiryRequired] else [])
     @ (if present (sc_expires_at d)
           \<and> (case kv_date env (the (sc_expires_at d)) of None \<Rightarrow> True | Some t \<Rightarrow> t \<le> kv_now env)
        then [ExpiryNotInFuture] else [])"

definition validate_submission :: "kyc_rules_env \<Rightarrow> submission_check \<Rightarrow> kyc_rule list \<Rightarrow> kyc_error list" where
  "validate_submission env d rules =
     (case get_active_rule (sc_country d) (sc_customer d) rules of
        None \<Rightarrow> [NoActiveRule]
      | Some r \<Rightarrow> rule_errors env d r)"

definition assert_valid_submission :: "kyc_rules_env \<Rightarrow> submission_check \<Rightarrow> kyc_rule list \<Rightarrow> http_error option" where
  "assert_valid_submission env d rules =
     (if validate_submission env d rules = [] then None else Some (BadRequest ''KYC_REQUIREMENTS''))"

subsection \<open>Administration\<close>

definition list_kyc_rules :: "string option \<Rightarrow> customer_type option \<Rightarrow> bool \<Rightarrow> kyc_rule list \<Rightarrow> kyc_rule list" where
  "list_kyc_rules country customer active_only rules =
     sort_key (\<lambda>r. (kr_country r, kr_customer r = Corporate))
       (rev (sort_key kr_version
         (find_where (\<lambda>r. (present country \<longrightarrow> kr_country r = ascii_upper (the country))
                          \<and> (case customer of None \<Rightarrow> True | Some c \<Rightarrow> kr_customer r = c)
                          \<and> (active_only \<longrightarrow> kr_active r)) rules)))"

definition get_matrix :: "kyc_rule list \<Rightarrow> (string \<times> customer_type) \<Rightarrow> kyc_rule option" where
  "get_matrix rules key =
     find_one (\<lambda>r. kr_country r = fst key \<and> kr_customer r = snd key) (list_kyc_rules None None True rules)"

record kyc_rule_dto =
  kd_country :: string
  kd_customer :: customer_type
  kd_required :: "string list option"
  kd_accepted :: "string list option"
  kd_pattern :: "string option"
  kd_proof_of_address :: "bool option"
  kd_selfie :: "bool option"
  kd_max_age_days :: "int option"
  kd_expiry_required :: "bool option"
  kd_active :: "bool option"
  kd_change_reason :: "string option"

definition given :: "'a option \<Rightarrow> 'a \<Rightarrow> 'a" where
  "given x d = (case x of Some y \<Rightarrow> y | None \<Rightarrow> d)"

definition save_kyc_rule :: "kyc_rule \<Rightarrow> kyc_rule list \<Rightarrow> kyc_rule list" where
  "save_kyc_rule r rules = update_where (\<lambda>x. kr_id x = kr_id r) (\<lambda>_. r) rules"

definition new_kyc_rule :: "kyc_rules_env \<Rightarrow> kyc_rule_dto \<Rightarrow> string option \<Rightarrow> nat \<Rightarrow> kyc_rule" where
  "new_kyc_rule env dto actor version =
     \<lparr>kr_id = kv_new_id env, kr_country = ascii_upper (kd_country dto), kr_customer = kd_customer dto,
      kr_required = given (kd_required dto) [], kr_accepted = given (kd_accepted dto) [], kr_pattern = kd_pattern dto,
      kr_proof_of_address = given (kd_proof_of_address dto) True, kr_selfie = given (kd_selfie dto) True,
      kr_max_age_days = kd_max_age_days dto, kr_expiry_required = given (kd_expiry_required dto) True, kr_active = True,
      kr_version = version, kr_change_reason = kd_change_reason dto, kr_created_by = actor, kr_updated_by = actor\<rparr>"

definition create_kyc_rule :: "kyc_rules_env \<Rightarrow> kyc_rule_dto \<Rightarrow> string option \<Rightarrow> kyc_rule kyc_rules_handler" where
  "create_kyc_rule env dto actor rules =
     (case highest_version (rules_of (ascii_upper (kd_country dto)) (kd_customer dto) rules) of
        None \<Rightarrow> (let r = new_kyc_rule env dto actor 1 in done_with r (insert_row r rules))
      | Some latest \<Rightarrow>
          (let r = new_kyc_rule env dto actor (kr_version latest + 1);
               rules1 = (if kr_active latest then save_kyc_rule (latest\<lparr>kr_active := False\<rparr>) rules else rules)
           in done_with r (insert_row r rules1)))"

definition updated_kyc_rule :: "kyc_rule_dto \<Rightarrow> string option \<Rightarrow> kyc_rule \<Rightarrow> kyc_rule" where
  "updated_kyc_rule dto actor r =
     r\<lparr>kr_required := given (kd_required dto) (kr_required r), kr_accepted := given (kd_accepted dto) (kr_accepted r),
       kr_pattern := (case kd_pattern dto of None \<Rightarrow> kr_pattern r | Some p \<Rightarrow> Some p),
       kr_proof_of_address := given (kd_proof_of_address dto) (kr_proof_of_address r),
       kr_selfie := given (kd_selfie dto) (kr_selfie r),
       kr_max_age_days := (case kd_max_age_days dto of None \<Rightarrow> kr_max_age_days r | Some n \<Rightarrow> Some n),
       kr_expiry_required := given (kd_expiry_required dto) (kr_expiry_required r),
       kr_active := given (kd_active dto) (kr_active r), kr_change_reason := kd_change_reason dto, kr_updated_by := actor\<rparr>"

definition find_kyc_rule :: "string \<Rightarrow> kyc_rule list \<Rightarrow> kyc_rule option" where
  "find_kyc_rule i rules = find_one (\<lambda>r. kr_id r = i) rules"

definition update_kyc_rule :: "string \<Rightarrow> kyc_rule_dto \<Rightarrow> string option \<Rightarrow> kyc_rule kyc_rules_handler" where
  "update_kyc_rule i dto actor rules =
     (case find_kyc_rule i rules of
        None \<Rightarrow> throw (NotFound ''KYC jurisdiction rule not found'') rules
      | Some r \<Rightarrow>
          if \<not> present (kd_change_reason dto) then throw (BadRequest ''changeReason is required for updates'') rules
          else (let r1 = updated_kyc_rule dto actor r in done_with r1 (save_kyc_rule r1 rules)))"

definition deactivate_kyc_rule :: "string \<Rightarrow> string \<Rightarrow> string option \<Rightarrow> kyc_rule kyc_rules_handler" where
  "deactivate_kyc_rule i reason actor rules =
     (if js_trim reason = [] then throw (BadRequest ''changeReason is required'') rules
      else case find_kyc_rule i rules of
             None \<Rightarrow> throw (NotFound ''KYC jurisdiction rule not found'') rules
           | Some r \<Rightarrow>
               if \<not> kr_active r then throw (Conflict ''Rule is already inactive'') rules
               else (let r1 = r\<lparr>kr_active := False, kr_change_reason := Some reason, kr_updated_by := actor\<rparr>
                     in done_with r1 (save_kyc_rule r1 rules)))"

end
