(* ===== verification/KycReview.thy ===== *)
theory KycReview
  imports Mfa KycRules Insurance
begin

text \<open>
  The identity checks of users: the operations on submissions in \<open>backend/src/auth/auth.service.ts\<close> (submission,
  draft, webhook of the provider, single, corporate and bulk approval) and the daily job of
  \<open>kyc-cron.service.ts\<close>. The state is that of \<open>Accounts\<close>; the rules are those of \<open>KycRules\<close>. The audit log and
  the in-app notifications are left out. The column of the draft is missing in the entity, so that a draft
  is not stored.
\<close>

subsection \<open>Submission\<close>

record submit_dto =
  sd_country :: "string option"
  sd_document_type :: "string option"
  sd_id_number :: "string option"
  sd_expires_at :: "string option"
  sd_is_corporate :: bool
  sd_company :: company_details
  sd_id_front :: "string option"
  sd_id_back :: "string option"
  sd_proof_of_address :: "string option"
  sd_selfie :: "string option"
  sd_business_license :: "string option"

record kyc_env =
  ky_rules :: "kyc_rule list option"
  ky_rules_env :: kyc_rules_env
  ky_auto_approve :: "string option"
  ky_new_id :: string

definition check_of :: "submit_dto \<Rightarrow> submission_check" where
  "check_of d =
     \<lparr>sc_country = the (sd_country d), sc_customer = (if sd_is_corporate d then Corporate else Individual),
      sc_document_type = sd_document_type d, sc_id_number = sd_id_number d, sc_expires_at = sd_expires_at d,
      sc_id_front = present (sd_id_front d), sc_id_back = present (sd_id_back d),
      sc_proof_of_address = present (sd_proof_of_address d), sc_selfie = present (sd_selfie d),
      sc_business_license = present (sd_business_license d), sc_articles = present (cy_articles_url (sd_company d))\<rparr>"

definition rules_refuse :: "kyc_env \<Rightarrow> submit_dto \<Rightarrow> http_error option" where
  "rules_refuse env d =
     (case ky_rules env of
        None \<Rightarrow> None
      | Some rules \<Rightarrow> if present (sd_country d) then assert_valid_submission (ky_rules_env env) (check_of d) rules else None)"

definition automated :: "kyc_env \<Rightarrow> submit_dto \<Rightarrow> bool" where
  "automated env d \<longleftrightarrow> \<not> sd_is_corporate d \<and> ky_auto_approve env = Some ''true''"

definition new_submission :: "kyc_env \<Rightarrow> string \<Rightarrow> submit_dto \<Rightarrow> kyc_submission" where
  "new_submission env user_id d =
     \<lparr>ks_id = ky_new_id env, ks_user_id = user_id, ks_is_corporate = sd_is_corporate d, ks_company = sd_company d,
      ks_documents = [sd_id_front d, sd_id_back d, sd_proof_of_address d, sd_selfie d, sd_business_license d],
      ks_expires_at = (if present (sd_expires_at d) then kv_date (ky_rules_env env) (the (sd_expires_at d)) else None),
      ks_alert_30 = None, ks_alert_15 = None, ks_alert_3 = None,
      ks_status = (if automated env d then SubApproved else SubPendingReview)\<rparr>"

definition emit_event :: "auth_event \<Rightarrow> auth_state \<Rightarrow> auth_state" where
  "emit_event e s = s\<lparr>au_events := au_events s @ [e]\<rparr>"

definition set_company :: "company_details \<Rightarrow> account \<Rightarrow> account" where
  "set_company c u = u\<lparr>ac_company_details := Some c\<rparr>"

definition set_kyc :: "kyc_status \<Rightarrow> account \<Rightarrow> account" where
  "set_kyc k u = u\<lparr>ac_kyc_status := k\<rparr>"

definition submit_kyc :: "kyc_env \<Rightarrow> string \<Rightarrow> submit_dto \<Rightarrow> kyc_status auth_handler" where
  "submit_kyc env user_id d s =
     (case account_by_id user_id s of
        None \<Rightarrow> throw (NotFound ''User not found.'') s
      | Some u \<Rightarrow>
          (case rules_refuse env d of
             Some e \<Rightarrow> throw e s
           | None \<Rightarrow>
               (let s1 = s\<lparr>au_submissions := insert_row (new_submission env user_id d) (au_submissions s)\<rparr>;
                    u1 = (if sd_is_corporate d then set_company (sd_company d) u else u);
                    s2 = (if sd_is_corporate d then save_account u1 s1 else s1)
                in if automated env d
                   then done_with KycVerified (emit_event (KycVerifiedEvent user_id) (save_account (set_kyc KycVerified u1) s2))
                   else done_with (ac_kyc_status u1) s2)))"

definition get_kyc_draft :: "string \<Rightarrow> json option auth_handler" where
  "get_kyc_draft user_id s =
     (case account_by_id user_id s of None \<Rightarrow> throw (NotFound ''User not found.'') s | Some u \<Rightarrow> done_with None s)"

definition save_kyc_draft :: "string \<Rightarrow> json \<Rightarrow> json option auth_handler" where
  "save_kyc_draft user_id draft s =
     (case account_by_id user_id s of None \<Rightarrow> throw (NotFound ''User not found.'') s | Some u \<Rightarrow> done_with (Some draft) s)"

subsection \<open>The webhook of the provider\<close>

fun pick_first_string :: "(string \<times> json) list \<Rightarrow> string list \<Rightarrow> string option" where
  "pick_first_string source [] = None"
| "pick_first_string source (k # ks) =
     (case map_of source k of
        Some (JString v) \<Rightarrow> if js_trim v \<noteq> [] then Some (js_trim v) else pick_first_string source ks
      | _ \<Rightarrow> pick_first_string source ks)"

definition as_record :: "json option \<Rightarrow> (string \<times> json) list option" where
  "as_record v = (case v of Some (JObject fs) \<Rightarrow> Some fs | _ \<Rightarrow> None)"

definition provider_answer :: "(string \<times> json) list \<Rightarrow> string option" where
  "provider_answer payload =
     (let root = pick_first_string payload [''status'', ''reviewStatus'', ''kycStatus'', ''result''];
          answer = (case as_record (map_of payload ''reviewResult'') of
                      None \<Rightarrow> None
                    | Some r \<Rightarrow> pick_first_string r [''reviewAnswer'', ''answer''])
      in case answer of Some a \<Rightarrow> Some (ascii_lower a) | None \<Rightarrow> map_option ascii_lower root)"

definition map_provider_kyc_status :: "(string \<times> json) list \<Rightarrow> kyc_status option" where
  "map_provider_kyc_status payload =
     (case provider_answer payload of
        None \<Rightarrow> None
      | Some a \<Rightarrow>
          if a \<in> {''approved'', ''verified'', ''green'', ''completed'', ''success''} then Some KycVerified
          else if a \<in> {''rejected'', ''declined'', ''red'', ''failed'', ''failure''} then Some KycRejected
          else if a \<in> {''pending'', ''yellow'', ''processing'', ''queued'', ''on_hold''} then Some KycPending
          else None)"

definition webhook_user_reference :: "(string \<times> json) list \<Rightarrow> string option" where
  "webhook_user_reference payload =
     (case pick_first_string payload [''externalUserId'', ''userId'', ''customerId'', ''clientId'', ''email''] of
        Some r \<Rightarrow> Some r
      | None \<Rightarrow>
          (case as_record (map_of payload ''applicant'') of
             None \<Rightarrow> None
           | Some a \<Rightarrow> pick_first_string a [''externalUserId'', ''userId'', ''email'']))"

text \<open>The answer tells whether a user was updated.\<close>

definition handle_kyc_webhook :: "(string \<times> json) list \<Rightarrow> bool auth_handler" where
  "handle_kyc_webhook payload s =
     (case webhook_user_reference payload of
        None \<Rightarrow> done_with False s
      | Some ref \<Rightarrow>
          (case find_account (\<lambda>u. us_id u = ref \<or> us_email u = ref) s of
             None \<Rightarrow> done_with False s
           | Some u \<Rightarrow>
               (case map_provider_kyc_status payload of
                  None \<Rightarrow> done_with False s
                | Some k \<Rightarrow>
                    if ac_kyc_status u = k then done_with False s
                    else (let s1 = save_account (set_kyc k u) s
                          in done_with True (if k = KycVerified then emit_event (KycVerifiedEvent (us_id u)) s1 else s1)))))"

subsection \<open>Review by an administrator\<close>

definition save_submission :: "kyc_submission \<Rightarrow> auth_state \<Rightarrow> auth_state" where
  "save_submission k s = s\<lparr>au_submissions := update_where (\<lambda>x. ks_id x = ks_id k) (\<lambda>_. k) (au_submissions s)\<rparr>"

definition decide_submission :: "submission_status \<Rightarrow> kyc_submission \<Rightarrow> kyc_submission" where
  "decide_submission st k = k\<lparr>ks_status := st\<rparr>"

definition make_company :: "kyc_submission \<Rightarrow> account \<Rightarrow> account" where
  "make_company k u = u\<lparr>ac_is_company := True, ac_company_details := Some (ks_company k)\<rparr>"

definition approve_corporate_kyc_submission :: "string \<Rightarrow> string \<Rightarrow> string option \<Rightarrow> kyc_status auth_handler" where
  "approve_corporate_kyc_submission submission_id admin reason s =
     (case find_one (\<lambda>k. ks_id k = submission_id) (au_submissions s) of
        None \<Rightarrow> throw (NotFound ''KYC submission not found.'') s
      | Some k \<Rightarrow>
          if \<not> ks_is_corporate k then throw (Conflict ''NOT_CORPORATE_SUBMISSION'') s
          else (case account_by_id (ks_user_id k) s of
                  None \<Rightarrow> throw (NotFound ''User not found.'') s
                | Some u \<Rightarrow>
                    done_with KycVerified
                      (record_action admin (us_id u) ApproveCorporateKyc submission_id reason
                        (save_account (set_kyc KycVerified (make_company k u))
                          (save_submission (decide_submission SubApproved k) s)))))"

definition pending_submission :: "string \<Rightarrow> auth_state \<Rightarrow> kyc_submission option" where
  "pending_submission user_id s =
     find_one (\<lambda>k. ks_user_id k = user_id \<and> ks_status k = SubPendingReview) (rev (au_submissions s))"

definition approved_state :: "string \<Rightarrow> string option \<Rightarrow> kyc_submission \<Rightarrow> account \<Rightarrow> auth_state \<Rightarrow> auth_state" where
  "approved_state admin reason k u s =
     emit_event (KycVerifiedEvent (us_id u))
       (record_action admin (us_id u) ApproveKyc (ks_id k) reason
         (save_account (set_kyc KycVerified (if ks_is_corporate k then make_company k u else u))
           (save_submission (decide_submission SubApproved k) s)))"

definition rejected_state :: "string \<Rightarrow> string option \<Rightarrow> kyc_submission \<Rightarrow> account \<Rightarrow> auth_state \<Rightarrow> auth_state" where
  "rejected_state admin reason k u s =
     emit_event (KycRejectedEvent (us_id u) reason)
       (record_action admin (us_id u) RejectKyc (ks_id k) reason
         (save_account (set_kyc KycRejected u) (save_submission (decide_submission SubRejected k) s)))"

definition approve_kyc :: "string \<Rightarrow> string \<Rightarrow> string option \<Rightarrow> kyc_status auth_handler" where
  "approve_kyc user_id admin reason s =
     (case account_by_id user_id s of
        None \<Rightarrow> throw (NotFound ''User not found.'') s
      | Some u \<Rightarrow>
          (case pending_submission user_id s of
             None \<Rightarrow> throw (NotFound ''No pending KYC submission found for this user.'') s
           | Some k \<Rightarrow> done_with KycVerified (approved_state admin reason k u s)))"

text \<open>The bulk review: the users that were processed and those that failed, with the state.\<close>

fun bulk_each ::
  "bool \<Rightarrow> string \<Rightarrow> string option \<Rightarrow> string list \<Rightarrow> auth_state \<Rightarrow> (string \<times> kyc_status) list \<times> (string \<times> string) list \<times> auth_state"
where
  "bulk_each approve admin reason [] s = ([], [], s)"
| "bulk_each approve admin reason (i # is) s =
     (case account_by_id i s of
        None \<Rightarrow> (case bulk_each approve admin reason is s of (ps, fs, t) \<Rightarrow> (ps, (i, ''User not found.'') # fs, t))
      | Some u \<Rightarrow>
          (case pending_submission i s of
             None \<Rightarrow> (case bulk_each approve admin reason is s of
                        (ps, fs, t) \<Rightarrow> (ps, (i, ''No pending KYC submission found for this user.'') # fs, t))
           | Some k \<Rightarrow>
               (case bulk_each approve admin reason is
                       (if approve then approved_state admin reason k u s else rejected_state admin reason k u s) of
                  (ps, fs, t) \<Rightarrow> ((i, if approve then KycVerified else KycRejected) # ps, fs, t))))"

definition bulk_approve_or_reject_kyc ::
  "bool \<Rightarrow> string \<Rightarrow> string option \<Rightarrow> string list \<Rightarrow> ((string \<times> kyc_status) list \<times> (string \<times> string) list) auth_handler"
where
  "bulk_approve_or_reject_kyc approve admin reason users s =
     (if \<not> approve \<and> (case reason of None \<Rightarrow> True | Some r \<Rightarrow> js_trim r = [])
      then throw (BadRequest ''A reason is required when rejecting KYC submissions.'') s
      else case bulk_each approve admin reason users s of (ps, fs, t) \<Rightarrow> done_with (ps, fs) t)"

subsection \<open>Expiry of documents\<close>

text \<open>The days to the expiry, rounded up.\<close>

definition days_until :: "int \<Rightarrow> int \<Rightarrow> int" where
  "days_until expires now = \<lceil>div_js (of_int (expires - now)) 86400000\<rceil>"

definition kyc_reminder_days :: "int list" where
  "kyc_reminder_days = [30, 14, 7]"

definition alert_sent :: "int \<Rightarrow> kyc_submission \<Rightarrow> int option" where
  "alert_sent days k = (if days = 30 then ks_alert_30 k else if days = 14 then ks_alert_15 k else ks_alert_3 k)"

definition reminder_due :: "int \<Rightarrow> kyc_submission \<Rightarrow> bool" where
  "reminder_due days k \<longleftrightarrow> list_ex (\<lambda>d. days \<le> d \<and> alert_sent d k = None) kyc_reminder_days"

text \<open>
  \<open>sendReminder\<close> reads a variable that is declared nowhere, outside of its \<open>try\<close>, before it does anything
  else for a user that exists.
\<close>

definition send_reminder :: "account option \<Rightarrow> unit auth_handler" where
  "send_reminder owner s =
     (case owner of None \<Rightarrow> done_with () s | Some u \<Rightarrow> throw (Internal ''ReferenceError: daysRemaining'') s)"

text \<open>A mail that fails is caught; the rows are written before it.\<close>

definition handle_expiration :: "auth_env \<Rightarrow> kyc_submission \<Rightarrow> account option \<Rightarrow> auth_state \<Rightarrow> auth_state" where
  "handle_expiration env k owner s =
     (case owner of
        None \<Rightarrow> s
      | Some u \<Rightarrow>
          snd (send_mail env (ExpiredMail (us_email u))
            (s\<lparr>au_submissions := update_where (\<lambda>x. ks_id x = ks_id k) (decide_submission SubExpired) (au_submissions s),
               au_users := update_where (\<lambda>x. us_id x = us_id u) (set_kyc KycExpired) (au_users s)\<rparr>)))"

fun expire_each :: "auth_env \<Rightarrow> int \<Rightarrow> (kyc_submission \<times> account option) list \<Rightarrow> unit auth_handler" where
  "expire_each env now [] s = done_with () s"
| "expire_each env now ((k, owner) # rows) s =
     (case ks_expires_at k of
        None \<Rightarrow> expire_each env now rows s
      | Some e \<Rightarrow>
          if days_until e now \<le> 0 then expire_each env now rows (handle_expiration env k owner s)
          else if reminder_due (days_until e now) k
          then and_then (send_reminder owner) (\<lambda>_. expire_each env now rows) s
          else expire_each env now rows s)"

definition check_kyc_expirations :: "auth_env \<Rightarrow> unit auth_handler" where
  "check_kyc_expirations env s =
     expire_each env (now_ms s)
       (map (\<lambda>k. (k, account_by_id (ks_user_id k) s)) (find_where (\<lambda>k. ks_status k = SubApproved) (au_submissions s))) s"

end
