(* ===== verification/AccountProps.thy ===== *)
theory AccountProps
  imports Mfa
begin

text \<open>
  What holds of accounts and sessions: the frames of the operations, rotated refresh tokens, revoked tokens,
  the number of guesses of a password, and what goes wrong with unlock tokens, administrators without a
  second factor and the set-up of a second factor.
\<close>

subsection \<open>Frames\<close>

lemma save_account_frame [simp]:
  "auth_redis (save_account u s) = auth_redis s" "au_signed (save_account u s) = au_signed s"
  "au_threat (save_account u s) = au_threat s" "au_mails (save_account u s) = au_mails s" "au_logs (save_account u s) = au_logs s"
  by (simp_all add: save_account_def auth_redis_def)

lemma now_save [simp]: "now_ms (save_account u s) = now_ms s" "now_seconds (save_account u s) = now_seconds s"
  by (simp_all add: now_ms_def now_seconds_def)

lemma note_failure_frame [simp]:
  "au_users (note_failure env dto meta s) = au_users s" "au_signed (note_failure env dto meta s) = au_signed s"
  by (simp_all add: note_failure_def)

lemma record_successful_frame [simp]:
  "au_users (record_successful_login env meta u s) = au_users s" "au_signed (record_successful_login env meta u s) = au_signed s"
  "au_threat (record_successful_login env meta u s) = au_threat s" "auth_redis (record_successful_login env meta u s) = auth_redis s"
  by (simp_all add: record_successful_login_def Let_def auth_redis_def)

lemma block_key_frame [simp]:
  "au_users (block_key env k n d v s) = au_users s" "au_signed (block_key env k n d v s) = au_signed s"
  by (simp_all add: block_key_def with_redis_def)

lemma with_redis_frame [simp]:
  "au_users (with_redis f s) = au_users s" "au_signed (with_redis f s) = au_signed s" "auth_redis (with_redis f s) = f (auth_redis s)"
  by (simp_all add: with_redis_def auth_redis_def)

lemma record_action_frame [simp]:
  "au_users (record_action a i k x r s) = au_users s" "au_signed (record_action a i k x r s) = au_signed s"
  "auth_redis (record_action a i k x r s) = auth_redis s"
  by (simp_all add: record_action_def auth_redis_def)

lemma issue_token_pair_frame [simp]:
  "au_users (snd (issue_token_pair env u f s)) = au_users s" "auth_redis (snd (issue_token_pair env u f s)) = auth_redis s"
  by (simp_all add: issue_token_pair_def sign_token_def auth_redis_def)

lemma issue_signed: "au_signed (snd (issue_token_pair env u f s)) = au_signed s @ [access_payload env u s, refresh_payload env u f s]"
  by (simp add: issue_token_pair_def sign_token_def refresh_payload_def now_seconds_def now_ms_def auth_redis_def)

lemma send_mail_frame [simp]:
  "au_users (snd (send_mail env m s)) = au_users s" "au_signed (snd (send_mail env m s)) = au_signed s"
  "auth_redis (snd (send_mail env m s)) = auth_redis s"
  by (simp_all add: send_mail_def auth_redis_def)

lemma snd_and_then_throw [simp]: "snd (and_then m (\<lambda>_. throw e) s) = snd (m s)"
  by (simp add: and_then_def split: prod.split sum.split)

subsection \<open>Redis\<close>

text \<open>An entry of Redis with its expiry, whether or not it has run out, and the clock.\<close>

definition entry :: "string \<Rightarrow> redis_store \<Rightarrow> (string \<times> nat) option" where
  "entry k r = entries (rs_keys r) k"

definition untouched :: "string \<Rightarrow> redis_store \<Rightarrow> redis_store \<Rightarrow> bool" where
  "untouched k r r' \<longleftrightarrow> entry k r' = entry k r \<and> red_clock r' = red_clock r"

lemma untouched_refl [simp]: "untouched k r r"
  by (simp add: untouched_def)

lemma untouched_trans: "untouched k a b \<Longrightarrow> untouched k b c \<Longrightarrow> untouched k a c"
  by (simp add: untouched_def)

lemma setex_untouched: "k \<noteq> k' \<Longrightarrow> untouched k r (red_setex k' n v r)"
  by (simp add: untouched_def entry_def red_setex_def kv_set_def red_clock_def)

lemma clock_setex [simp]: "red_clock (red_setex k n v r) = red_clock r"
  by (simp add: red_setex_def kv_set_def red_clock_def)

lemma absent_untouched: "k \<noteq> k' \<Longrightarrow> untouched k r (snd (set_if_absent c k' n r))"
  by (simp add: untouched_def entry_def set_if_absent_def kv_set_nx_def kv_set_def red_clock_def)

lemma s_add_untouched [simp]: "untouched k r (s_add c k' m n r)"
  by (simp add: untouched_def entry_def s_add_def red_clock_def)

lemma incr_untouched [simp]: "untouched k r (snd (incr_with_ttl c k' n r))"
  by (simp add: untouched_def entry_def incr_with_ttl_def red_clock_def Let_def)

lemma threat_rows [simp]:
  "th_redis (persist_block cfg ty c r x s) = th_redis s" "th_redis (alert_security_team a b s) = th_redis s"
  by (simp_all add: persist_block_def alert_security_team_def)

text \<open>What the detection writes has a key that begins with \<open>sec:\<close>.\<close>

definition no_threat_key :: "string \<Rightarrow> bool" where
  "no_threat_key k \<longleftrightarrow> \<not> starts_with ''sec:'' k"

lemma threat_key_neq: "no_threat_key k \<Longrightarrow> starts_with ''sec:'' m \<Longrightarrow> k \<noteq> m"
  by (auto simp: no_threat_key_def)

lemma mark_untouched: "no_threat_key k \<Longrightarrow> starts_with ''sec:'' (m @ b) \<Longrightarrow> untouched k (th_redis s) (th_redis (set_mark m b n s))"
  by (simp add: set_mark_def setex_untouched threat_key_neq)

lemma escalate_email_untouched:
  assumes "no_threat_key k"
  shows "untouched k (th_redis s) (th_redis (escalate_targeted_email cfg e s))"
proof (cases "set_if_absent (tc_client cfg) (''sec:escalated:email:'' @ e) 3600 (th_redis s)")
  case (Pair fresh r)
  define s1 where "s1 = s\<lparr>th_redis := r\<rparr>"
  define s2 where "s2 = set_mark ''sec:ratelimit:'' e 3600 s1"
  have a: "untouched k (th_redis s) (th_redis s1)"
    using absent_untouched [OF threat_key_neq [OF assms], of "''sec:escalated:email:'' @ e" "th_redis s" "tc_client cfg" 3600] Pair
    by (simp add: s1_def)
  have b: "untouched k (th_redis s) (th_redis s2)"
    unfolding s2_def by (rule untouched_trans [OF a mark_untouched [OF assms]]) simp
  have c: "untouched k (th_redis s) (th_redis (set_mark ''sec:captcha:'' e 1800 s2))"
    by (rule untouched_trans [OF b mark_untouched [OF assms]]) simp
  show ?thesis
    unfolding escalate_targeted_email_def Pair Let_def s1_def [symmetric] prod.case s2_def [symmetric] using a c by simp
qed

lemma escalate_geo_untouched:
  assumes "no_threat_key k"
  shows "untouched k (th_redis s) (th_redis (escalate_geo_anomaly cfg e s))"
proof (cases "set_if_absent (tc_client cfg) (''sec:escalated:geo:'' @ e) 3600 (th_redis s)")
  case (Pair fresh r)
  define s1 where "s1 = s\<lparr>th_redis := r\<rparr>"
  have a: "untouched k (th_redis s) (th_redis s1)"
    using absent_untouched [OF threat_key_neq [OF assms], of "''sec:escalated:geo:'' @ e" "th_redis s" "tc_client cfg" 3600] Pair
    by (simp add: s1_def)
  have c: "untouched k (th_redis s) (th_redis (set_mark ''sec:captcha:'' e 1800 s1))"
    by (rule untouched_trans [OF a mark_untouched [OF assms]]) simp
  show ?thesis unfolding escalate_geo_anomaly_def Pair Let_def s1_def [symmetric] prod.case using a c by simp
qed

lemma note_address_untouched:
  assumes "no_threat_key k"
  shows "untouched k (th_redis s) (th_redis (note_address cfg e ip s))"
proof -
  define s1 where "s1 = s\<lparr>th_redis := s_add (tc_client cfg) (''sec:login:ips:'' @ e) ip 3600 (th_redis s)\<rparr>"
  have a: "untouched k (th_redis s) (th_redis s1)" by (simp add: s1_def)
  note b = untouched_trans [OF a escalate_email_untouched [OF assms]]
  show ?thesis unfolding note_address_def Let_def s1_def [symmetric] using a b by (simp split: if_split)
qed

lemma note_country_untouched:
  assumes "no_threat_key k"
  shows "untouched k (th_redis s) (th_redis (note_country cfg e c s))"
proof -
  define s1 where "s1 = s\<lparr>th_redis := s_add (tc_client cfg) (''sec:geo:'' @ e) (ascii_upper c) 3600 (th_redis s)\<rparr>"
  have a: "untouched k (th_redis s) (th_redis s1)" by (simp add: s1_def)
  note b = untouched_trans [OF a escalate_geo_untouched [OF assms]]
  show ?thesis unfolding note_country_def Let_def s1_def [symmetric] using a b by (simp split: if_split)
qed

lemma propose_untouched [simp]: "th_redis (propose_subnet_block cfg n s) = th_redis s"
  by (simp add: propose_subnet_block_def)

lemma note_subnet_untouched: "untouched k (th_redis s) (th_redis (note_subnet cfg ip s))"
proof (cases "ipv4_subnet16 ip")
  case (Some n)
  obtain m r where m: "incr_with_ttl (tc_client cfg) (''sec:fail:subnet:'' @ n) 600 (th_redis s) = (m, r)" by force
  have "untouched k (th_redis s) r"
    using incr_untouched [of k "th_redis s" "tc_client cfg" "''sec:fail:subnet:'' @ n" 600] unfolding m by simp
  then show ?thesis unfolding note_subnet_def Some option.case m prod.case by simp
qed (simp add: note_subnet_def)

lemma record_failed_untouched:
  assumes "no_threat_key k"
  shows "untouched k (th_redis s) (th_redis (record_failed_login cfg e ip c s))"
proof -
  define s1 where "s1 = (if present ip then note_subnet cfg (the ip) (note_address cfg (norm_email e) (the ip) s) else s)"
  have a: "untouched k (th_redis s) (th_redis s1)"
    unfolding s1_def by (simp add: untouched_trans [OF note_address_untouched [OF assms] note_subnet_untouched])
  note b = untouched_trans [OF a note_country_untouched [OF assms]]
  show ?thesis unfolding record_failed_login_def Let_def s1_def [symmetric] using a b by (simp split: if_split)
qed

lemma note_failure_untouched: "no_threat_key k \<Longrightarrow> untouched k (auth_redis s) (auth_redis (note_failure env dto meta s))"
  by (simp add: note_failure_def auth_redis_def record_failed_untouched)

lemma block_key_untouched: "k \<noteq> kind @ n \<Longrightarrow> untouched k (auth_redis s) (auth_redis (block_key env kind n d v s))"
  by (simp add: block_key_def setex_untouched)

lemma register_redis [simp]: "auth_redis (snd (register env dto s)) = auth_redis s"
  by (auto simp: register_def Let_def and_then_def send_mail_def auth_redis_def split: sum.split)

lemma google_redis [simp]: "auth_redis (snd (login_with_google env g s)) = auth_redis s"
  by (auto simp: login_with_google_def Let_def issue_token_pair_def sign_token_def split: option.split)
     (simp_all add: auth_redis_def)

lemma quiet_redis [simp]:
  "auth_redis (snd (verify_email t s)) = auth_redis s"
  "auth_redis (snd (revoke_session t s)) = auth_redis s"
  "auth_redis (snd (unlock_account env t meta s)) = auth_redis s"
  "auth_redis (snd (change_password env i a b s)) = auth_redis s"
  "auth_redis (snd (update_user_role i r who x s)) = auth_redis s"
  "auth_redis (snd (link_wallet env i w s)) = auth_redis s"
  "auth_redis (snd (assess_behavioral_risk env i s)) = auth_redis s"
  by (simp_all add: verify_email_def revoke_session_def unlock_account_def change_password_def update_user_role_def
        link_wallet_def assess_behavioral_risk_def Let_def split: option.split sum.split)
     (simp_all add: auth_redis_def)

lemma mfa_redis [simp]:
  "auth_redis (snd (setup_mfa env i s)) = auth_redis s"
  "auth_redis (snd (enable_mfa env i c s)) = auth_redis s"
  "auth_redis (snd (disable_mfa env i c p s)) = auth_redis s"
  "auth_redis (snd (verify_mfa env i c s)) = auth_redis s"
  "auth_redis (snd (mfa_guard env i h s)) = auth_redis s"
  by (simp_all add: setup_mfa_def enable_mfa_def disable_mfa_def verify_mfa_def mfa_guard_def split: option.split)

lemma right_password_redis [simp]: "auth_redis (snd (right_password env dto meta u s)) = auth_redis s"
  by (simp add: right_password_def Let_def issue_token_pair_def sign_token_def split: sum.split)
     (simp add: auth_redis_def)

lemma wrong_password_redis: "auth_redis (snd (wrong_password env dto meta u s)) = auth_redis (note_failure env dto meta s)"
  by (simp add: wrong_password_def Let_def sign_token_def) (simp add: auth_redis_def save_account_def)

lemma login_untouched: "no_threat_key k \<Longrightarrow> untouched k (auth_redis s) (auth_redis (snd (login env dto meta s)))"
  by (simp add: login_def login_account_def Let_def wrong_password_redis note_failure_untouched split: option.split)

lemma logout_untouched:
  "(\<And>t. k \<noteq> ''blocklist:jwt:'' @ t) \<Longrightarrow> untouched k (auth_redis s) (auth_redis (snd (logout env i token s)))"
  by (simp add: logout_def Let_def blocklist_token_def block_key_untouched split: option.split)

subsection \<open>Rotated refresh tokens\<close>

definition rotation_key :: "string \<Rightarrow> string" where
  "rotation_key j = ''blocklist:refresh:jti:'' @ j"

text \<open>The mark of a rotated token outlives the token.\<close>

definition spent :: "string \<Rightarrow> int \<Rightarrow> auth_state \<Rightarrow> bool" where
  "spent j e s \<longleftrightarrow> 1000 * e \<le> now_ms s
     \<or> (\<exists>x. entry (rotation_key j) (auth_redis s) = Some (''rotated'', x) \<and> 1000 * e \<le> int x)"

lemma spent_untouched: "spent j e s \<Longrightarrow> untouched (rotation_key j) (auth_redis s) (auth_redis t) \<Longrightarrow> spent j e t"
  by (auto simp: spent_def untouched_def now_ms_def)

lemma rotation_key_no_threat [simp]: "no_threat_key (rotation_key j)"
  by (simp add: no_threat_key_def rotation_key_def)

lemma rotation_key_other:
  "rotation_key j \<noteq> ''blocklist:jwt:'' @ t" "rotation_key j \<noteq> ''blocklist:refresh:family:'' @ t"
  "rotation_key j = ''blocklist:refresh:jti:'' @ i \<longleftrightarrow> i = j"
  by (auto simp: rotation_key_def)

lemma rotated_iff:
  "is_refresh_token_rotated env j s \<longleftrightarrow>
     ae_redis_up env \<and> (\<exists>x. entry (rotation_key j) (auth_redis s) = Some (''rotated'', x) \<and> now_ms s < int x)"
  by (auto simp: is_refresh_token_rotated_def key_is_def red_get_def kv_get_def entry_def rotation_key_def now_ms_def red_clock_def
      split: option.splits)

lemma reuse_untouched: "untouched (rotation_key j) (auth_redis s) (auth_redis (reuse_detected env p u s))"
proof -
  have "untouched (rotation_key j) (auth_redis s) (auth_redis (revoke_token_family env f n s))" for f n
    unfolding revoke_token_family_def by (rule block_key_untouched [OF rotation_key_other(2)])
  then show ?thesis by (simp add: reuse_detected_def)
qed

lemma refresh_check_untouched: "untouched (rotation_key j) (auth_redis s) (auth_redis (snd (refresh_check env token s)))"
  using reuse_untouched by (simp add: refresh_check_def split: option.split)

lemma refresh_check_ok:
  assumes "refresh_check env token s = (Inr (p, u), t)"
  shows "t = s \<and> verified_payload env token s = Some p \<and> jp_typ p = RefreshToken \<and> account_by_id (jp_sub p) s = Some u
    \<and> (case jp_version p of Some v \<Rightarrow> v | None \<Rightarrow> 0) = ac_token_version u
    \<and> (present (jp_jti p) \<longrightarrow> \<not> is_refresh_token_rotated env (the (jp_jti p)) s)"
  using assms by (auto simp: refresh_check_def split: option.splits if_splits)

lemma refresh_commit_redis:
  "auth_redis (snd (refresh_commit env p u s)) =
     (if present (jp_jti p) then auth_redis (mark_refresh_token_rotated env (the (jp_jti p)) (max (jp_exp p - now_seconds s) 1) s)
      else auth_redis s)"
  by (simp add: refresh_commit_def Let_def split: prod.split) (metis issue_token_pair_frame(2) snd_conv)

lemma now_bounds: "1000 * now_seconds s \<le> now_ms s" "now_ms s < 1000 * now_seconds s + 1000"
  unfolding now_seconds_def by linarith+

lemma mark_spends:
  assumes "ae_redis_up env"
  shows "spent j e (mark_refresh_token_rotated env j (max (e - now_seconds s) 1) s)"
proof -
  have "entry (rotation_key j) (auth_redis (mark_refresh_token_rotated env j (max (e - now_seconds s) 1) s))
    = Some (''rotated'', red_clock (auth_redis s) + 1000 * nat (max (e - now_seconds s) 1))"
    using assms by (simp add: mark_refresh_token_rotated_def block_key_def entry_def rotation_key_def red_setex_def kv_set_def red_clock_def)
  moreover have "1000 * e \<le> int (red_clock (auth_redis s) + 1000 * nat m)" if "m = max (e - now_seconds s) 1" for m
  proof -
    have "0 < m" "e - now_seconds s \<le> m" using that by simp_all
    then show ?thesis using now_bounds [of s] by (simp add: now_ms_def)
  qed
  ultimately show ?thesis by (auto simp: spent_def)
qed

lemma mark_other_untouched:
  "i \<noteq> j \<Longrightarrow> untouched (rotation_key j) (auth_redis s) (auth_redis (mark_refresh_token_rotated env i n s))"
  using rotation_key_other(3) [of j i] unfolding mark_refresh_token_rotated_def by (intro block_key_untouched) simp

lemma mark_keeps_spent:
  assumes "spent j e s" "ae_redis_up env" "\<not> is_refresh_token_rotated env i s"
  shows "spent j e (mark_refresh_token_rotated env i n s)"
proof (cases "i = j \<and> \<not> 1000 * e \<le> now_ms s")
  case True
  with assms have False by (auto simp: spent_def rotated_iff)
  then show ?thesis ..
next
  case False
  show ?thesis
  proof (cases "i = j")
    case True
    with False have "1000 * e \<le> now_ms s" by simp
    then show ?thesis
      by (simp add: spent_def now_ms_def mark_refresh_token_rotated_def block_key_def)
  qed (rule spent_untouched [OF assms(1) mark_other_untouched])
qed

lemma refresh_keeps_spent:
  assumes "spent j e s" "ae_redis_up env"
  shows "spent j e (snd (refresh env token s))"
proof (cases "refresh_check env token s")
  case (Pair r s1)
  show ?thesis
  proof (cases r)
    case (Inl x)
    then show ?thesis
      using spent_untouched [OF assms(1) refresh_check_untouched [of j s env token]] Pair by (simp add: refresh_def and_then_def)
  next
    case (Inr pu)
    obtain p u where pu: "pu = (p, u)" by force
    have ok: "s1 = s" "present (jp_jti p) \<longrightarrow> \<not> is_refresh_token_rotated env (the (jp_jti p)) s"
      using refresh_check_ok [of env token s p u s1] Pair Inr pu by auto
    have "auth_redis (snd (refresh env token s)) =
      auth_redis (if present (jp_jti p) then mark_refresh_token_rotated env (the (jp_jti p)) (max (jp_exp p - now_seconds s) 1) s else s)"
      using Pair Inr pu ok(1) by (simp add: refresh_def and_then_def refresh_commit_redis)
    moreover have "spent j e (if present (jp_jti p) then mark_refresh_token_rotated env (the (jp_jti p)) (max (jp_exp p - now_seconds s) 1) s else s)"
      using mark_keeps_spent [OF assms(1) assms(2)] ok(2) assms(1) by simp
    ultimately show ?thesis by (simp add: spent_def now_ms_def)
  qed
qed

lemma pass_time_spent: "spent j e s \<Longrightarrow> spent j e (pass_time d s)"
  by (auto simp: spent_def pass_time_def now_ms_def red_clock_def entry_def advance_def)

lemma spent_same_redis: "spent j e s \<Longrightarrow> auth_redis t = auth_redis s \<Longrightarrow> spent j e t"
  by (simp add: spent_def now_ms_def)

lemma user_step_spent: "user_step content s t \<Longrightarrow> spent j e s \<Longrightarrow> spent j e t"
proof (induction rule: user_step.induct)
  case (login s env dto meta)
  then show ?case by (blast intro: spent_untouched login_untouched rotation_key_no_threat)
next
  case (logout env s token u)
  have "untouched (rotation_key j) (auth_redis s) (auth_redis (snd (logout env (us_id u) (Some token) s)))"
    by (rule logout_untouched) (rule rotation_key_other(1))
  with logout.prems show ?case by (rule spent_untouched)
qed (simp_all add: pass_time_spent refresh_keeps_spent spent_same_redis)

lemma auth_steps_spent: "(auth_step content)\<^sup>*\<^sup>* s t \<Longrightarrow> spent j e s \<Longrightarrow> spent j e t"
proof (induction rule: rtranclp_induct)
  case (step y z)
  from step.hyps(2) step.IH [OF step.prems] show ?case
    by cases (auto intro: user_step_spent spent_same_redis)
qed simp

text \<open>
  Hashes are the passwords themselves, the library of tokens signs one token of each kind, and it accepts what was
  signed until it expires.
\<close>

definition plain_detection :: threat_config where
  "plain_detection =
     \<lparr>tc_number = (\<lambda>_. None), tc_parse_int = (\<lambda>_. None), tc_distinct_ips = 5, tc_subnet_fails = 100, tc_geo_countries = 3,
      tc_captcha_score = 1, tc_block_score = 1, tc_bad_ranges = [], tc_captcha_secret = None, tc_captcha_answer = (\<lambda>_ _. True),
      tc_client = RedisOpen, tc_block_id = (\<lambda>_. ''b'')\<rparr>"

definition token_name :: "jwt_payload \<Rightarrow> string" where
  "token_name p = (case jp_typ p of AccessToken \<Rightarrow> ''A'' | RefreshToken \<Rightarrow> ''R'' | UnlockToken \<Rightarrow> ''U'')"

definition plain_service :: "(string \<Rightarrow> jwt_payload option) \<Rightarrow> auth_env" where
  "plain_service content =
     \<lparr>ae_threat = plain_detection, ae_hash = (\<lambda>p. p), ae_argon2 = (\<lambda>h p. Some (h = p)), ae_bcrypt = (\<lambda>p h. False),
      ae_random = ''x'', ae_new_id = ''u1'', ae_jti = ''j'', ae_family = ''f'', ae_sign = token_name,
      ae_verify = (\<lambda>t token. case content token of None \<Rightarrow> None | Some p \<Rightarrow> if int t div 1000 < jp_exp p then Some p else None),
      ae_decoded_exp = (\<lambda>_. None), ae_access_seconds = 900, ae_refresh_seconds = 604800, ae_refresh_text = ''7d'',
      ae_redis_up = True, ae_digest = (\<lambda>x. x), ae_needs_reauth = (\<lambda>_. False), ae_risk = None, ae_mail_error = False,
      ae_sanctioned = (\<lambda>_. Inr False), ae_totp = (\<lambda>_ token secret. Some (token = secret)), ae_totp_secret = ''new'',
      ae_backup_codes = [], ae_bcrypt_hash = (\<lambda>x. x)\<rparr>"

definition plain_state :: "account list \<Rightarrow> jwt_payload list \<Rightarrow> auth_state" where
  "plain_state users tokens =
     \<lparr>au_users = users, au_logs = [], au_submissions = [], au_actions = [],
      au_threat = \<lparr>th_redis = \<lparr>rs_keys = \<lparr>entries = Map.empty, clock = 0\<rparr>, rs_sets = Map.empty, rs_counts = Map.empty, rs_denied = []\<rparr>,
                   th_blocks = [], th_alerts = []\<rparr>,
      au_signed = tokens, au_mails = [], au_events = []\<rparr>"

definition plain_account :: account where
  "plain_account = blank_account\<lparr>us_id := ''u1'', us_email := ''a'', ac_password_hash := ''p'', ac_email_verified := True\<rparr>"

definition plain_token :: "token_type \<Rightarrow> int \<Rightarrow> jwt_payload" where
  "plain_token k e = \<lparr>jp_sub = ''u1'', jp_typ = k, jp_version = Some 0, jp_jti = (if k = RefreshToken then Some ''j'' else None),
     jp_family = (if k = RefreshToken then Some ''f'' else None), jp_exp = e\<rparr>"

definition plain_content :: "string \<Rightarrow> jwt_payload option" where
  "plain_content token =
     (if token = ''A'' then Some (plain_token AccessToken 900) else if token = ''R'' then Some (plain_token RefreshToken 604800) else None)"

lemma plain_honest: "(\<And>token p. content token = Some p \<Longrightarrow> p \<in> set (au_signed s)) \<Longrightarrow> honest content (plain_service content) s"
  by (auto simp: honest_def plain_service_def split: option.splits if_splits)

lemma plain_honest_tokens:
  "plain_token AccessToken 900 \<in> set (au_signed s) \<Longrightarrow> plain_token RefreshToken 604800 \<in> set (au_signed s)
   \<Longrightarrow> honest plain_content (plain_service plain_content) s"
  by (rule plain_honest) (auto simp: plain_content_def split: if_splits)

text \<open>A first login with Google makes an account and signs the two tokens.\<close>

definition plain_google :: google_identity where
  "plain_google = \<lparr>gi_subject = ''g'', gi_email = ''a'', gi_email_verified = True\<rparr>"

definition plain_session :: auth_state where
  "plain_session = snd (login_with_google (plain_service plain_content) plain_google (plain_state [] []))"

definition google_user :: account where
  "google_user = plain_account\<lparr>ac_google_subject := Some ''g'', ac_password_hash := ''x'', ac_country := ''UN''\<rparr>"

lemma plain_session_rows:
  "au_users plain_session = [google_user]"
  "au_signed plain_session = [plain_token AccessToken 900, plain_token RefreshToken 604800]"
  by (simp_all add: plain_session_def login_with_google_def plain_google_def plain_state_def google_account_def find_account_def
        account_by_email_def find_one_def taken_def google_opened_def issue_token_pair_def sign_token_def access_payload_def
        refresh_payload_def plain_token_def plain_service_def now_seconds_def now_ms_def red_clock_def auth_redis_def
        insert_row_def google_user_def plain_account_def blank_account_def Let_def)

lemma plain_session_reachable: "auth_reachable plain_content plain_session"
proof -
  have "auth_step plain_content (plain_state [] []) plain_session"
    unfolding plain_session_def by (intro auth_step.user user_step.google)
  moreover have "au_users (plain_state [] []) = []" "au_signed (plain_state [] []) = []" by (simp_all add: plain_state_def)
  ultimately show ?thesis unfolding auth_reachable_def by blast
qed

lemma plain_session_user: "account_by_id ''u1'' plain_session = Some google_user"
  by (simp add: account_by_id_def find_account_def find_one_def plain_session_rows google_user_def plain_account_def blank_account_def)

lemma plain_session_clock: "red_clock (auth_redis plain_session) = 0" "rs_keys (auth_redis plain_session) = \<lparr>entries = Map.empty, clock = 0\<rparr>"
  by (simp_all add: plain_session_def plain_state_def red_clock_def) (simp_all add: auth_redis_def)

lemma plain_refresh:
  "refresh_check (plain_service plain_content) ''R'' plain_session = (Inr (plain_token RefreshToken 604800, google_user), plain_session)"
  by (simp add: refresh_check_def verified_payload_def plain_session_clock plain_session_user plain_token_def plain_content_def
        is_token_family_revoked_def is_refresh_token_rotated_def key_is_def red_get_def kv_get_def google_user_def plain_account_def
        blank_account_def plain_service_def present_def)

lemma plain_refreshed:
  "\<exists>pair. fst (refresh (plain_service plain_content) ''R'' plain_session) = Inr pair"
  "plain_token AccessToken 900 \<in> set (au_signed (snd (refresh (plain_service plain_content) ''R'' plain_session)))"
  "plain_token RefreshToken 604800 \<in> set (au_signed (snd (refresh (plain_service plain_content) ''R'' plain_session)))"
  by (simp_all add: refresh_def and_then_def plain_refresh refresh_commit_def issue_token_pair_def sign_token_def Let_def
        mark_refresh_token_rotated_def block_key_def plain_session_rows)

text \<open>
  C11: A rotated refresh token is refused for ever (safety). After a refresh has succeeded with a token, no later
  refresh with the same token succeeds, whatever requests and how much time lie between: as long as Redis answers,
  the mark of the rotation outlives the token.
\<close>

theorem rotated_refresh_token_is_refused:
  assumes "honest content env s" "ae_redis_up env" "refresh env token s = (Inr pair, s1)"
    and "content token = Some p" "jp_jti p = Some j" "j \<noteq> []"
    and "(auth_step content)\<^sup>*\<^sup>* s1 t" "honest content env' t" "ae_redis_up env'"
  shows "\<exists>e t'. refresh env' token t = (Inl (Unauthorized e), t')"
proof -
  obtain p' u where check: "refresh_check env token s = (Inr (p', u), s)" and s1: "s1 = snd (refresh_commit env p' u s)"
    using assms(3) refresh_check_ok by (fastforce simp: refresh_def and_then_def split: prod.splits sum.splits)
  then have p': "p' = p" using assms(1,4) refresh_check_ok [OF check] by (auto simp: honest_def verified_payload_def)
  have "auth_redis s1 = auth_redis (mark_refresh_token_rotated env j (max (jp_exp p - now_seconds s) 1) s)"
    using s1 p' assms(5,6) by (simp add: refresh_commit_redis)
  with mark_spends [OF assms(2)] have "spent j (jp_exp p) s1" by (rule spent_same_redis)
  then have spent: "spent j (jp_exp p) t" using auth_steps_spent assms(7) by blast
  have "\<exists>e t'. refresh_check env' token t = (Inl (Unauthorized e), t')"
  proof (cases "verified_payload env' token t")
    case (Some q)
    then have q: "q = p" and live: "now_seconds t < jp_exp p"
      using assms(4,8) by (auto simp: honest_def verified_payload_def now_seconds_def now_ms_def)
    from live have "\<not> 1000 * jp_exp p \<le> now_ms t" using now_bounds [of t] by linarith
    with spent assms(9) have "is_refresh_token_rotated env' j t" by (auto simp: spent_def rotated_iff)
    with Some q assms(5,6) show ?thesis by (auto simp: refresh_check_def split: option.split)
  qed (simp add: refresh_check_def)
  then show ?thesis by (auto simp: refresh_def and_then_def)
qed

theorem rotated_refresh_token_is_refused_witness:
  "\<exists>e t'. refresh (plain_service plain_content) ''R'' (snd (refresh (plain_service plain_content) ''R'' plain_session))
     = (Inl (Unauthorized e), t')"
proof -
  have "honest plain_content (plain_service plain_content) plain_session"
    by (rule plain_honest_tokens) (simp_all add: plain_session_rows)
  moreover have "honest plain_content (plain_service plain_content) (snd (refresh (plain_service plain_content) ''R'' plain_session))"
    by (rule plain_honest_tokens) (simp_all add: plain_refreshed)
  moreover have "\<exists>pair s1. refresh (plain_service plain_content) ''R'' plain_session = (Inr pair, s1)"
    using plain_refreshed(1) by (metis prod.collapse)
  ultimately show ?thesis
    using rotated_refresh_token_is_refused [of plain_content "plain_service plain_content" plain_session "''R''" _ _
        "plain_token RefreshToken 604800" "''j''" _ "plain_service plain_content"]
    by (auto simp: plain_service_def plain_content_def plain_token_def)
qed

subsection \<open>The rows of accounts\<close>

text \<open>
  What a request does to the rows: nothing, one row that was found is saved, or a row that is not taken is
  inserted. \<open>R\<close> relates the row before and after.
\<close>

definition edits :: "(account \<Rightarrow> account \<Rightarrow> bool) \<Rightarrow> auth_state \<Rightarrow> auth_state \<Rightarrow> bool" where
  "edits R s t \<longleftrightarrow> au_users t = au_users s
     \<or> (\<exists>u u'. u \<in> set (au_users s) \<and> \<not> ac_deleted u \<and> R u u'
          \<and> au_users t = update_where (\<lambda>x. us_id x = us_id u) (\<lambda>_. u') (au_users s))
     \<or> (\<exists>u. \<not> taken u s \<and> au_users t = au_users s @ [u])"

text \<open>What every request keeps of a row, and what those keep that neither change roles nor enrol.\<close>

definition same_person :: "account \<Rightarrow> account \<Rightarrow> bool" where
  "same_person u u' \<longleftrightarrow> us_id u' = us_id u \<and> us_email u' = us_email u \<and> ac_deleted u' = ac_deleted u
     \<and> ac_token_version u \<le> ac_token_version u'"

definition same_standing :: "account \<Rightarrow> account \<Rightarrow> bool" where
  "same_standing u u' \<longleftrightarrow> same_person u u' \<and> us_role u' = us_role u \<and> ac_mfa_enabled u' = ac_mfa_enabled u"

lemma find_accountD: "find_account p s = Some u \<Longrightarrow> p u \<and> u \<in> set (au_users s) \<and> \<not> ac_deleted u"
  unfolding find_account_def by (auto dest: find_one_SomeD)

lemma account_by_idD: "account_by_id i s = Some u \<Longrightarrow> us_id u = i \<and> u \<in> set (au_users s) \<and> \<not> ac_deleted u"
  unfolding account_by_id_def by (auto dest: find_accountD)

lemma account_by_emailD: "account_by_email e s = Some u \<Longrightarrow> us_email u = e \<and> u \<in> set (au_users s) \<and> \<not> ac_deleted u"
  unfolding account_by_email_def by (auto dest: find_accountD)

lemma edits_same: "au_users t = au_users s \<Longrightarrow> edits R s t"
  by (simp add: edits_def)

lemma edits_save:
  assumes "u \<in> set (au_users s)" "\<not> ac_deleted u" "R u u'" "us_id u' = us_id u" "au_users s1 = au_users s"
  shows "edits R s (save_account u' s1)"
proof -
  have "au_users (save_account u' s1) = update_where (\<lambda>x. us_id x = us_id u) (\<lambda>_. u') (au_users s)"
    using assms by (simp add: save_account_def)
  with assms show ?thesis unfolding edits_def by blast
qed

lemma edits_insert: "\<not> taken u s \<Longrightarrow> au_users t = au_users s @ [u] \<Longrightarrow> edits R s t"
  by (auto simp: edits_def)

lemma edits_cong: "edits R s t \<Longrightarrow> au_users t' = au_users t \<Longrightarrow> edits R s t'"
  by (simp add: edits_def)

lemma edits_mono: "edits R s t \<Longrightarrow> (\<And>u u'. R u u' \<Longrightarrow> Q u u') \<Longrightarrow> edits Q s t"
  unfolding edits_def by blast

lemma edits_by_id:
  "account_by_id i s = Some u \<Longrightarrow> R u u' \<Longrightarrow> us_id u' = us_id u \<Longrightarrow> au_users s1 = au_users s \<Longrightarrow> edits R s (save_account u' s1)"
  using account_by_idD edits_save by blast

lemma revoke_same [simp]: "same_person u (revoke_tokens u)" "same_standing u (revoke_tokens u)"
  by (simp_all add: same_standing_def same_person_def revoke_tokens_def)

text \<open>Saving a row whose other columns change keeps person and standing.\<close>

lemma same_by_fields:
  "us_id u' = us_id u \<Longrightarrow> us_email u' = us_email u \<Longrightarrow> ac_deleted u' = ac_deleted u \<Longrightarrow> ac_token_version u' = ac_token_version u
   \<Longrightarrow> us_role u' = us_role u \<Longrightarrow> ac_mfa_enabled u' = ac_mfa_enabled u \<Longrightarrow> same_standing u u'"
  by (simp add: same_standing_def same_person_def)

lemma edits_standing:
  "u \<in> set (au_users s) \<Longrightarrow> \<not> ac_deleted u \<Longrightarrow> same_standing u u' \<Longrightarrow> au_users s1 = au_users s \<Longrightarrow> edits same_standing s (save_account u' s1)"
  by (rule edits_save) (auto simp: same_standing_def same_person_def)

lemma register_edits: "edits same_standing s (snd (register env dto s))"
  by (auto simp: register_def Let_def and_then_def send_mail_def insert_row_def split: sum.split intro: edits_same edits_insert)

lemma verify_email_edits: "edits same_standing s (snd (verify_email t s))"
proof (cases "find_account (\<lambda>u. ac_verification_token u = Some t) s")
  case (Some u)
  have "edits same_standing s (save_account (u\<lparr>ac_email_verified := True, ac_verification_token := None\<rparr>) s)"
    using find_accountD [OF Some] by (intro edits_standing same_by_fields) simp_all
  with Some show ?thesis by (simp add: verify_email_def)
qed (simp add: verify_email_def edits_same)

lemma wrong_password_edits:
  assumes "u \<in> set (au_users s)" "\<not> ac_deleted u"
  shows "edits same_standing s (snd (wrong_password env dto meta u s))"
proof -
  have a: "edits same_standing s (save_account (u\<lparr>ac_failed_attempts := n\<rparr>) (note_failure env dto meta s))" for n
    by (rule edits_standing [OF assms]) (simp_all add: same_by_fields)
  have b: "edits same_standing s (save_account (u\<lparr>ac_failed_attempts := n, ac_lockout_until := l\<rparr>) (note_failure env dto meta s))" for n l
    by (rule edits_standing [OF assms]) (simp_all add: same_by_fields)
  show ?thesis
    by (auto simp: wrong_password_def Let_def sign_token_def intro: a edits_cong [OF b])
qed

text \<open>A pair of tokens signed after a save.\<close>

lemma edits_issue: "edits R s s1 \<Longrightarrow> issue_token_pair env u f s1 = (ts, t) \<Longrightarrow> edits R s t"
  using issue_token_pair_frame(1) [of env u f s1] by (auto intro: edits_cong)

lemma right_password_edits:
  assumes "u \<in> set (au_users s)" "\<not> ac_deleted u"
  shows "edits same_standing s (snd (right_password env dto meta u s))"
proof -
  define v where "v = passed_account env dto u"
  have v: "edits same_standing s (save_account v s)"
    by (rule edits_standing [OF assms]) (simp_all add: same_by_fields passed_account_def v_def)
  have w: "edits same_standing s (save_account (v\<lparr>ac_enrollment_required := True\<rparr>) s)"
    by (rule edits_standing [OF assms]) (simp_all add: same_by_fields passed_account_def v_def)
  obtain ts t where t: "issue_token_pair env v (ae_family env) (record_successful_login env meta v (save_account v s)) = (ts, t)"
    by force
  have "edits same_standing s t" by (rule edits_issue [OF edits_cong [OF v] t]) simp
  with w show ?thesis
    unfolding right_password_def Let_def v_def [symmetric] t prod.case by (simp split: sum.split)
qed

lemma login_edits: "edits same_standing s (snd (login env dto meta s))"
  by (auto simp: login_def login_account_def Let_def split: option.split dest!: account_by_emailD
      intro: edits_same wrong_password_edits right_password_edits)

lemma edits_id:
  "account_by_id i s = Some u \<Longrightarrow> same_standing u u' \<Longrightarrow> au_users s1 = au_users s \<Longrightarrow> edits same_standing s (save_account u' s1)"
  using account_by_idD edits_standing by blast

lemma same_revoked: "same_standing u v \<Longrightarrow> same_standing u (revoke_tokens v)"
  by (auto simp: same_standing_def same_person_def revoke_tokens_def)

lemma google_accountD: "google_account g s = Some u \<Longrightarrow> u \<in> set (au_users s) \<and> \<not> ac_deleted u"
  by (auto simp: google_account_def split: option.splits dest: find_accountD account_by_emailD)

lemma google_edits: "edits same_standing s (snd (login_with_google env g s))"
proof (cases "google_account g s")
  case (Some u)
  define v where "v = google_opened (u\<lparr>ac_google_subject := Some (gi_subject g)\<rparr>)"
  obtain ts t where t: "issue_token_pair env v (ae_family env) (save_account v s) = (ts, t)" by force
  have "edits same_standing s (save_account v s)"
    using google_accountD [OF Some] by (intro edits_standing [of u]) (simp_all add: same_by_fields v_def google_opened_def)
  then have "edits same_standing s t" using t by (rule edits_issue)
  with Some show ?thesis
    unfolding login_with_google_def Let_def Some option.case v_def [symmetric] t prod.case by (simp add: edits_same)
next
  case None
  define v where "v = google_opened (blank_account\<lparr>us_id := ae_new_id env, us_email := gi_email g,
      ac_google_subject := Some (gi_subject g), ac_password_hash := ae_hash env (ae_random env), ac_country := ''UN''\<rparr>)"
  obtain ts t where t: "issue_token_pair env v (ae_family env) (s\<lparr>au_users := insert_row v (au_users s)\<rparr>) = (ts, t)" by force
  have "edits same_standing s t" if "\<not> taken v s"
    by (rule edits_issue [OF edits_insert t]) (use that in \<open>simp_all add: insert_row_def\<close>)
  then show ?thesis
    unfolding login_with_google_def Let_def None option.case v_def [symmetric] t prod.case by (simp add: edits_same)
qed

lemma refresh_edits: "edits same_standing s (snd (refresh env token s))"
proof (cases "refresh_check env token s")
  case (Pair r s1)
  have s1: "edits same_standing s s1"
    using Pair by (auto simp: refresh_check_def reuse_detected_def revoke_token_family_def split: option.splits if_splits
        intro: edits_same edits_id [OF _ revoke_same(2)])
  show ?thesis
  proof (cases r)
    case (Inr pu)
    obtain p u where pu: "pu = (p, u)" by force
    have "au_users (snd (refresh_commit env p u s1)) = au_users s1"
      by (simp add: refresh_commit_def Let_def mark_refresh_token_rotated_def split: prod.split) (metis block_key_frame(1) issue_token_pair_frame(1) snd_conv)
    with s1 Pair Inr pu show ?thesis by (simp add: refresh_def and_then_def edits_cong)
  qed (use s1 Pair in \<open>simp add: refresh_def and_then_def\<close>)
qed

lemma revoke_edits: "edits same_standing s (snd (revoke_session t s))"
  by (auto simp: revoke_session_def split: option.split intro!: edits_id intro: edits_same)

lemma unlock_edits: "edits same_standing s (snd (unlock_account env t meta s))"
proof -
  have a: "edits same_standing s (save_account (u\<lparr>ac_lockout_until := None, ac_failed_attempts := 0\<rparr>) s)"
    if "account_by_id i s = Some u" for i u
    using that by (rule edits_id) (simp_all add: same_by_fields)
  show ?thesis by (auto simp: unlock_account_def Let_def split: option.split intro: edits_same edits_cong [OF a] a)
qed

lemma logout_edits: "edits same_standing s (snd (logout env i token s))"
proof -
  define s1 where "s1 = (if present token then case ae_decoded_exp env (the token) of None \<Rightarrow> s
      | Some e \<Rightarrow> blocklist_token env (the token) (e - now_seconds s) s else s)"
  have u: "au_users s1 = au_users s" by (simp add: s1_def blocklist_token_def split: option.split)
  then have "account_by_id i s1 = account_by_id i s" by (simp add: account_by_id_def find_account_def)
  with u show ?thesis
    unfolding logout_def Let_def s1_def [symmetric] by (auto split: option.split intro!: edits_id intro: edits_same)
qed

lemma password_edits: "edits same_standing s (snd (change_password env i a b s))"
proof -
  have "edits same_standing s (save_account (revoke_tokens (u\<lparr>ac_password_hash := h\<rparr>)) s)" if "account_by_id i s = Some u" for u h
    using that by (rule edits_id) (simp_all add: same_by_fields same_revoked)
  then show ?thesis by (auto simp: change_password_def split: option.split intro: edits_same)
qed

lemma wallet_edits: "edits same_standing s (snd (link_wallet env i w s))"
proof -
  have "edits same_standing s (save_account (u\<lparr>us_wallet_address := x\<rparr>) s)" if "account_by_id i s = Some u" for u x
    using that by (rule edits_id) (simp_all add: same_by_fields)
  then show ?thesis by (auto simp: link_wallet_def Let_def split: option.split sum.split intro: edits_same)
qed

lemma risk_edits: "edits same_standing s (snd (assess_behavioral_risk env i s))"
  by (auto simp: assess_behavioral_risk_def split: option.split intro!: edits_id intro: edits_same)

lemma second_factor_standing: "second_factor env c u s = Some v \<Longrightarrow> same_standing u (mfa_passed v)"
  by (auto simp: second_factor_def mfa_passed_def split: if_splits option.splits intro!: same_by_fields)

lemma refused_standing: "same_standing u (mfa_refused u s)"
  by (auto simp: mfa_refused_def intro!: same_by_fields)

lemma verify_mfa_edits: "edits same_standing s (snd (verify_mfa env i c s))"
  by (auto simp: verify_mfa_def split: option.split intro!: edits_id refused_standing second_factor_standing intro: edits_same)

lemma guard_edits: "edits same_standing s (snd (mfa_guard env i h s))"
  by (auto simp: mfa_guard_def split: option.split intro!: edits_id refused_standing second_factor_standing intro: edits_same)

lemma setup_edits: "edits same_standing s (snd (setup_mfa env i s))"
proof -
  have "edits same_standing s (save_account (u\<lparr>ac_mfa_secret := x, ac_backup_codes := y\<rparr>) s)" if "account_by_id i s = Some u" for u x y
    using that by (rule edits_id) (simp_all add: same_by_fields)
  then show ?thesis by (auto simp: setup_mfa_def split: option.split intro: edits_same)
qed

text \<open>The requests that change the standing of the one account they are about.\<close>

definition same_but :: "string \<Rightarrow> account \<Rightarrow> account \<Rightarrow> bool" where
  "same_but i u u' \<longleftrightarrow> same_person u u' \<and> us_id u = i"

lemma edits_but:
  "account_by_id i s = Some u \<Longrightarrow> same_person u u' \<Longrightarrow> edits (same_but i) s (save_account u' s)"
  by (rule edits_by_id) (auto dest: account_by_idD simp: same_but_def same_person_def)

lemma enable_edits: "edits (same_but i) s (snd (enable_mfa env i c s))"
proof -
  have "edits (same_but i) s (save_account ((mfa_passed u)\<lparr>ac_mfa_enabled := True\<rparr>) s)" if "account_by_id i s = Some u" for u
    using that by (rule edits_but) (simp add: same_person_def mfa_passed_def)
  then show ?thesis by (auto simp: enable_mfa_def split: option.split intro: edits_same)
qed

lemma disable_edits: "edits (same_but i) s (snd (disable_mfa env i c p s))"
proof -
  have "edits (same_but i) s (save_account ((mfa_passed u)\<lparr>ac_mfa_enabled := False, ac_mfa_secret := None, ac_backup_codes := None\<rparr>) s)"
    if "account_by_id i s = Some u" for u
    using that by (rule edits_but) (simp add: same_person_def mfa_passed_def)
  then show ?thesis by (auto simp: disable_mfa_def split: option.split intro: edits_same)
qed

lemma role_edits: "edits (same_but i) s (snd (update_user_role i r who x s))"
proof -
  have a: "edits (same_but i) s (save_account (revoke_tokens (u\<lparr>us_role := r\<rparr>)) s)" if "account_by_id i s = Some u" for u
    using that by (rule edits_but) (simp add: same_person_def revoke_tokens_def)
  show ?thesis by (auto simp: update_user_role_def Let_def split: option.split intro: edits_same a edits_cong [OF a])
qed

subsection \<open>Versions of tokens\<close>

definition keyed :: "auth_state \<Rightarrow> bool" where
  "keyed s \<longleftrightarrow> distinct (map us_id (au_users s))"

definition token_version_of :: "jwt_payload \<Rightarrow> nat" where
  "token_version_of p = (case jp_version p of Some v \<Rightarrow> v | None \<Rightarrow> 0)"

lemma user_step_edits: "user_step content s t \<Longrightarrow> edits same_person s t"
proof (induction rule: user_step.induct)
  case (wait s d)
  show ?case by (rule edits_same) (simp add: pass_time_def)
qed (blast intro: edits_mono register_edits verify_email_edits login_edits google_edits refresh_edits revoke_edits unlock_edits
      logout_edits password_edits wallet_edits risk_edits setup_edits enable_edits disable_edits verify_mfa_edits guard_edits
      same_standing_def [THEN iffD1, THEN conjunct1] same_but_def [THEN iffD1, THEN conjunct1])+

lemma auth_step_edits: "auth_step content s t \<Longrightarrow> edits same_person s t"
  by (induction rule: auth_step.induct)
     (blast intro: user_step_edits edits_mono role_edits same_but_def [THEN iffD1, THEN conjunct1])+

lemma not_taken: "\<not> taken u s \<Longrightarrow> us_id u \<notin> us_id ` set (au_users s)"
  unfolding taken_def list_ex_iff by force

lemma edits_keyed: "edits same_person s t \<Longrightarrow> keyed s \<Longrightarrow> keyed t"
  unfolding edits_def keyed_def
  by (elim disjE exE conjE) (simp_all add: same_person_def map_update_where not_taken)

lemma account_in: "keyed s \<Longrightarrow> u \<in> set (au_users s) \<Longrightarrow> \<not> ac_deleted u \<Longrightarrow> account_by_id (us_id u) s = Some u"
proof (cases "account_by_id (us_id u) s")
  case None
  then show "u \<in> set (au_users s) \<Longrightarrow> \<not> ac_deleted u \<Longrightarrow> ?thesis"
    by (auto simp: account_by_id_def find_account_def find_one_None_iff)
next
  case (Some v)
  then show "keyed s \<Longrightarrow> u \<in> set (au_users s) \<Longrightarrow> ?thesis"
    using account_by_idD [OF Some] by (auto simp: keyed_def distinct_map inj_on_def)
qed

lemma account_saved:
  assumes "account_by_id i s = Some a" "us_id a' = i" "\<not> ac_deleted a'"
    and "au_users t = update_where (\<lambda>x. us_id x = i) (\<lambda>_. a') (au_users s)"
  shows "account_by_id i t = Some a'"
  using find_one_replaced [of "\<lambda>u. us_id u = i \<and> \<not> ac_deleted u" "au_users s" a a' us_id] account_by_idD [OF assms(1)] assms
  by (simp add: account_by_id_def find_account_def)

lemma account_other:
  assumes "us_id u' = j" "i \<noteq> j" "au_users t = update_where (\<lambda>x. us_id x = j) (\<lambda>_. u') (au_users s)"
  shows "account_by_id i t = account_by_id i s"
proof -
  have "find_one (\<lambda>u. us_id u = i \<and> \<not> ac_deleted u) (update_where (\<lambda>x. us_id x = j) (\<lambda>_. u') (au_users s))
    = map_option (\<lambda>r. if us_id r = j then u' else r) (find_one (\<lambda>u. us_id u = i \<and> \<not> ac_deleted u) (au_users s))"
    by (rule find_one_update) (use assms in auto)
  also have "\<dots> = find_one (\<lambda>u. us_id u = i \<and> \<not> ac_deleted u) (au_users s)"
    using assms(2) by (cases "find_one (\<lambda>u. us_id u = i \<and> \<not> ac_deleted u) (au_users s)") (auto dest: find_one_SomeD)
  finally show ?thesis using assms(3) by (simp add: account_by_id_def find_account_def)
qed

text \<open>Accounts stay, and an edit relates the rows of an account by its relation or not at all.\<close>

lemma edits_account:
  assumes "edits R s t" "keyed s" "account_by_id i s = Some a" "\<And>u u'. R u u' \<Longrightarrow> same_person u u'"
  shows "\<exists>a'. account_by_id i t = Some a' \<and> (a' = a \<or> R a a')"
proof -
  consider (same) "au_users t = au_users s"
    | (save) u u' where "u \<in> set (au_users s)" "\<not> ac_deleted u" "R u u'"
        "au_users t = update_where (\<lambda>x. us_id x = us_id u) (\<lambda>_. u') (au_users s)"
    | (new) u where "\<not> taken u s" "au_users t = au_users s @ [u]"
    using assms(1) unfolding edits_def by blast
  then show ?thesis
  proof cases
    case same
    with assms(3) show ?thesis by (simp add: account_by_id_def find_account_def)
  next
    case save
    have u': "us_id u' = us_id u" "\<not> ac_deleted u'" using assms(4) [OF save(3)] save(2) by (simp_all add: same_person_def)
    show ?thesis
    proof (cases "i = us_id u")
      case True
      with account_in [OF assms(2) save(1,2)] assms(3) have "a = u" by simp
      moreover have "account_by_id i t = Some u'" using account_saved [OF assms(3)] u' save(4) True by simp
      ultimately show ?thesis using save(3) by blast
    next
      case False
      with account_other [OF u'(1) False save(4)] assms(3) show ?thesis by simp
    qed
  next
    case new
    then have "account_by_id i t = Some a"
      using assms(3) find_one_insert [of "\<lambda>u. us_id u = i \<and> \<not> ac_deleted u" u "au_users s"]
      by (simp add: account_by_id_def find_account_def insert_row_def)
    then show ?thesis by blast
  qed
qed

lemma step_account:
  assumes "auth_step content s t" "keyed s" "account_by_id i s = Some a"
  shows "\<exists>a'. account_by_id i t = Some a' \<and> ac_token_version a \<le> ac_token_version a'"
  using edits_account [OF auth_step_edits [OF assms(1)] assms(2,3)] by (auto simp: same_person_def)

lemma steps_keyed: "(auth_step content)\<^sup>*\<^sup>* s t \<Longrightarrow> keyed s \<Longrightarrow> keyed t"
  by (induction rule: rtranclp_induct) (auto dest: auth_step_edits intro: edits_keyed)

lemma steps_account:
  "(auth_step content)\<^sup>*\<^sup>* s t \<Longrightarrow> keyed s \<Longrightarrow> account_by_id i s = Some a \<Longrightarrow>
   \<exists>a'. account_by_id i t = Some a' \<and> ac_token_version a \<le> ac_token_version a'"
proof (induction rule: rtranclp_induct)
  case (step y z)
  from step.IH [OF step.prems] obtain b where b: "account_by_id i y = Some b" "ac_token_version a \<le> ac_token_version b" by blast
  from step_account [OF step.hyps(2) steps_keyed [OF step.hyps(1) step.prems(1)] b(1)] b(2) show ?case by auto
qed auto

text \<open>Tokens that are signed belong to an account and have at most its version.\<close>

definition signed_ok :: "auth_state \<Rightarrow> bool" where
  "signed_ok s \<longleftrightarrow> (\<forall>p \<in> set (au_signed s). \<exists>u. account_by_id (jp_sub p) s = Some u \<and> token_version_of p \<le> ac_token_version u)"

definition signs :: "jwt_payload list \<Rightarrow> auth_state \<Rightarrow> auth_state \<Rightarrow> bool" where
  "signs new s t \<longleftrightarrow> au_signed t = au_signed s @ new \<and>
     (\<forall>p \<in> set new. \<exists>u \<in> set (au_users t). \<not> ac_deleted u \<and> us_id u = jp_sub p \<and> token_version_of p \<le> ac_token_version u)"

lemma signs_none: "au_signed t = au_signed s \<Longrightarrow> signs [] s t"
  by (simp add: signs_def)

lemma signs_ok:
  assumes "signs new s t" "edits same_person s t" "keyed s" "signed_ok s"
  shows "signed_ok t"
  unfolding signed_ok_def
proof
  fix p assume p: "p \<in> set (au_signed t)"
  show "\<exists>u. account_by_id (jp_sub p) t = Some u \<and> token_version_of p \<le> ac_token_version u"
  proof (cases "p \<in> set new")
    case True
    then obtain u where "u \<in> set (au_users t)" "\<not> ac_deleted u" "us_id u = jp_sub p" "token_version_of p \<le> ac_token_version u"
      using assms(1) unfolding signs_def by blast
    then show ?thesis using account_in [OF edits_keyed [OF assms(2,3)]] by metis
  next
    case False
    with p assms(1) have "p \<in> set (au_signed s)" by (auto simp: signs_def)
    then obtain u where u: "account_by_id (jp_sub p) s = Some u" "token_version_of p \<le> ac_token_version u"
      using assms(4) unfolding signed_ok_def by blast
    from edits_account [OF assms(2,3) u(1)] u(2) show ?thesis by (auto simp: same_person_def)
  qed
qed

lemma saved_in: "u \<in> set (au_users s) \<Longrightarrow> us_id u' = us_id u \<Longrightarrow> u' \<in> set (au_users (save_account u' s))"
  by (force simp: save_account_def set_update_where)

lemma payload_versions [simp]:
  "token_version_of (access_payload env u s) = ac_token_version u" "jp_sub (access_payload env u s) = us_id u"
  "token_version_of (refresh_payload env u f s) = ac_token_version u" "jp_sub (refresh_payload env u f s) = us_id u"
  "token_version_of (unlock_payload u s) = 0" "jp_sub (unlock_payload u s) = us_id u"
  by (simp_all add: access_payload_def refresh_payload_def unlock_payload_def token_version_of_def)

lemma signs_issue:
  assumes "issue_token_pair env u f s1 = (ts, t)" "u \<in> set (au_users s1)" "\<not> ac_deleted u" "au_signed s1 = au_signed s"
  shows "signs [access_payload env u s1, refresh_payload env u f s1] s t"
  using issue_signed [of env u f s1] issue_token_pair_frame(1) [of env u f s1] assms by (auto simp: signs_def)

lemma right_password_signs:
  assumes "u \<in> set (au_users s)" "\<not> ac_deleted u"
  shows "\<exists>new. signs new s (snd (right_password env dto meta u s))"
proof -
  define v where "v = passed_account env dto u"
  have v: "us_id v = us_id u" "\<not> ac_deleted v" using assms(2) by (simp_all add: v_def passed_account_def)
  obtain ts t where t: "issue_token_pair env v (ae_family env) (record_successful_login env meta v (save_account v s)) = (ts, t)"
    by force
  have "\<exists>new. signs new s t"
    using signs_issue [OF t, of s] saved_in [OF assms(1) v(1)] v(2) by auto
  moreover have "\<exists>new. signs new s (save_account (v\<lparr>ac_enrollment_required := True\<rparr>) s)" by (blast intro: signs_none save_account_frame(2))
  ultimately show ?thesis
    unfolding right_password_def Let_def v_def [symmetric] t prod.case by (simp split: sum.split)
qed

lemma wrong_password_signs:
  assumes "u \<in> set (au_users s)" "\<not> ac_deleted u"
  shows "\<exists>new. signs new s (snd (wrong_password env dto meta u s))"
proof (cases "ac_failed_attempts u + 1 < lockout_max_attempts")
  case True
  have "signs [] s (save_account (u\<lparr>ac_failed_attempts := ac_failed_attempts u + 1\<rparr>) (note_failure env dto meta s))"
    by (rule signs_none) simp
  with True show ?thesis by (auto simp: wrong_password_def Let_def)
next
  case False
  define v where "v = u\<lparr>ac_failed_attempts := 0, ac_lockout_until := Some (now_ms (note_failure env dto meta s) + lockout_duration_ms)\<rparr>"
  have v: "us_id v = us_id u" "\<not> ac_deleted v" using assms(2) by (simp_all add: v_def)
  have "v \<in> set (au_users (save_account v (note_failure env dto meta s)))"
    by (rule saved_in [where u = u]) (simp_all add: assms v(1))
  then have "signs [unlock_payload u (note_failure env dto meta s)] s (snd (wrong_password env dto meta u s))"
    using False v by (auto simp: wrong_password_def Let_def sign_token_def signs_def v_def [symmetric])
  then show ?thesis ..
qed

lemma login_signs: "\<exists>new. signs new s (snd (login env dto meta s))"
proof (cases "account_by_email (lg_email dto) s")
  case (Some u)
  note u = account_by_emailD [OF Some]
  have "\<exists>new. signs new s s" by (blast intro: signs_none)
  then show ?thesis
    using Some right_password_signs [of u s env dto meta] wrong_password_signs [of u s env dto meta] u
    by (auto simp: login_def login_account_def Let_def split: option.split)
next
  case None
  have "\<exists>new. signs new s s" "\<exists>new. signs new s (note_failure env dto meta s)" by (blast intro: signs_none note_failure_frame(2))+
  with None show ?thesis by (simp add: login_def Let_def)
qed

lemma google_signs: "\<exists>new. signs new s (snd (login_with_google env g s))"
proof (cases "google_account g s")
  case (Some u)
  define v where "v = google_opened (u\<lparr>ac_google_subject := Some (gi_subject g)\<rparr>)"
  obtain ts t where t: "issue_token_pair env v (ae_family env) (save_account v s) = (ts, t)" by force
  have v: "us_id v = us_id u" "\<not> ac_deleted v" using google_accountD [OF Some] by (simp_all add: v_def google_opened_def)
  have "\<exists>new. signs new s t"
    using signs_issue [OF t, of s] saved_in [OF _ v(1)] google_accountD [OF Some] v(2) by auto
  moreover have "\<exists>new. signs new s s" by (blast intro: signs_none)
  ultimately show ?thesis
    unfolding login_with_google_def Let_def Some option.case v_def [symmetric] t prod.case by simp
next
  case None
  define v where "v = google_opened (blank_account\<lparr>us_id := ae_new_id env, us_email := gi_email g,
      ac_google_subject := Some (gi_subject g), ac_password_hash := ae_hash env (ae_random env), ac_country := ''UN''\<rparr>)"
  obtain ts t where t: "issue_token_pair env v (ae_family env) (s\<lparr>au_users := insert_row v (au_users s)\<rparr>) = (ts, t)" by force
  have "\<not> ac_deleted v" by (simp add: v_def google_opened_def blank_account_def)
  then have "\<exists>new. signs new s t" using signs_issue [OF t, of s] by auto
  moreover have "\<exists>new. signs new s s" by (blast intro: signs_none)
  ultimately show ?thesis
    unfolding login_with_google_def Let_def None option.case v_def [symmetric] t prod.case by simp
qed

lemma refresh_signs: "\<exists>new. signs new s (snd (refresh env token s))"
proof (cases "refresh_check env token s")
  case (Pair r s1)
  show ?thesis
  proof (cases r)
    case (Inr pu)
    obtain p u where pu: "pu = (p, u)" by force
    have ok: "s1 = s" "account_by_id (jp_sub p) s = Some u" using refresh_check_ok [of env token s p u s1] Pair Inr pu by auto
    define s2 where "s2 = (if present (jp_jti p)
      then mark_refresh_token_rotated env (the (jp_jti p)) (max (jp_exp p - now_seconds s) 1) s else s)"
    obtain ts t where t: "issue_token_pair env u (case jp_family p of Some f \<Rightarrow> f | None \<Rightarrow> ae_family env) s2 = (ts, t)" by force
    have s2: "au_users s2 = au_users s" "au_signed s2 = au_signed s" by (simp_all add: s2_def mark_refresh_token_rotated_def)
    have "snd (refresh env token s) = t"
      using Pair Inr pu ok(1) t by (simp add: refresh_def and_then_def refresh_commit_def Let_def s2_def)
    then show ?thesis using signs_issue [OF t, of s] account_by_idD [OF ok(2)] s2 by auto
  next
    case (Inl e)
    have "au_signed s1 = au_signed s"
      using Pair by (auto simp: refresh_check_def reuse_detected_def revoke_token_family_def split: option.splits if_splits)
    with Inl Pair show ?thesis by (auto simp: refresh_def and_then_def intro: signs_none)
  qed
qed

lemma quiet_signed [simp]:
  "au_signed (snd (register env dto s)) = au_signed s"
  "au_signed (snd (verify_email t s)) = au_signed s"
  "au_signed (snd (revoke_session t s)) = au_signed s"
  "au_signed (snd (unlock_account env t meta s)) = au_signed s"
  "au_signed (snd (change_password env i a b s)) = au_signed s"
  "au_signed (snd (update_user_role i r who x s)) = au_signed s"
  "au_signed (snd (link_wallet env i w s)) = au_signed s"
  "au_signed (snd (assess_behavioral_risk env i s)) = au_signed s"
  by (simp_all add: register_def and_then_def send_mail_def verify_email_def revoke_session_def unlock_account_def change_password_def
        update_user_role_def link_wallet_def assess_behavioral_risk_def Let_def split: option.split sum.split)

lemma mfa_signed [simp]:
  "au_signed (snd (setup_mfa env i s)) = au_signed s"
  "au_signed (snd (enable_mfa env i c s)) = au_signed s"
  "au_signed (snd (disable_mfa env i c p s)) = au_signed s"
  "au_signed (snd (verify_mfa env i c s)) = au_signed s"
  "au_signed (snd (mfa_guard env i h s)) = au_signed s"
  by (simp_all add: setup_mfa_def enable_mfa_def disable_mfa_def verify_mfa_def mfa_guard_def split: option.split)

lemma logout_signed [simp]: "au_signed (snd (logout env i token s)) = au_signed s"
  by (simp add: logout_def Let_def blocklist_token_def split: option.split)

lemma pass_time_frame [simp]: "au_signed (pass_time d s) = au_signed s" "au_users (pass_time d s) = au_users s"
  by (simp_all add: pass_time_def)

lemma user_step_signs: "user_step content s t \<Longrightarrow> \<exists>new. signs new s t"
  by (induction rule: user_step.induct)
     (rule login_signs google_signs refresh_signs | rule exI, rule signs_none, simp)+

lemma auth_step_signs: "auth_step content s t \<Longrightarrow> \<exists>new. signs new s t"
  by (induction rule: auth_step.induct) (rule user_step_signs, assumption, rule exI, rule signs_none, simp)

lemma steps_signed: "(auth_step content)\<^sup>*\<^sup>* s t \<Longrightarrow> keyed s \<Longrightarrow> signed_ok s \<Longrightarrow> keyed t \<and> signed_ok t"
  by (induction rule: rtranclp_induct) (auto dest: auth_step_signs auth_step_edits intro: edits_keyed signs_ok)

lemma reachable_ok: "auth_reachable content s \<Longrightarrow> keyed s \<and> signed_ok s"
  unfolding auth_reachable_def using steps_signed by (fastforce simp: keyed_def signed_ok_def)

lemma old_token_refused:
  assumes "content token = Some p" "honest content env t" "account_by_id (jp_sub p) t = Some u" "token_version_of p < ac_token_version u"
  shows "(\<exists>e. validate env token t = Inl (Unauthorized e)) \<and> (\<exists>e. refresh env token t = (Inl (Unauthorized e), t))"
proof (cases "verified_payload env token t")
  case None
  then show ?thesis by (simp add: validate_def refresh_def refresh_check_def and_then_def)
next
  case (Some q)
  then have "q = p" using assms(1,2) by (auto simp: honest_def verified_payload_def)
  with Some assms(3,4) show ?thesis
    by (auto simp: validate_def refresh_def refresh_check_def and_then_def token_version_of_def split: option.splits)
qed

text \<open>
  C10: Ended sessions stay ended (invariant). Once the version of an account was raised (by a logout, a change of the
  password or the role, a revocation, a replayed refresh token or a high risk), every token that was signed for it
  before is refused for ever, as an access token and as a refresh token, whatever requests follow.
\<close>

theorem ended_sessions_stay_ended:
  assumes "auth_reachable content s" "p \<in> set (au_signed s)" "content token = Some p"
    and "account_by_id (jp_sub p) s = Some u" "(auth_step content)\<^sup>*\<^sup>* s s1" "account_by_id (jp_sub p) s1 = Some u1"
    and "ac_token_version u < ac_token_version u1" "(auth_step content)\<^sup>*\<^sup>* s1 t" "honest content env t"
  shows "(\<exists>e. validate env token t = Inl (Unauthorized e)) \<and> (\<exists>e. refresh env token t = (Inl (Unauthorized e), t))"
proof -
  have keyed: "keyed s" "signed_ok s" using reachable_ok [OF assms(1)] by simp_all
  then have "token_version_of p \<le> ac_token_version u" using assms(2,4) by (auto simp: signed_ok_def)
  moreover have "keyed s1" using steps_keyed [OF assms(5) keyed(1)] .
  then obtain v where "account_by_id (jp_sub p) t = Some v" "ac_token_version u1 \<le> ac_token_version v"
    using steps_account [OF assms(8) _ assms(6)] by blast
  ultimately show ?thesis using old_token_refused [OF assms(3,9)] assms(7) by simp
qed

theorem ended_sessions_stay_ended_witness:
  "(\<exists>e. validate (plain_service plain_content) ''A'' (snd (update_user_role ''u1'' ''farmer'' None None plain_session))
        = Inl (Unauthorized e))
   \<and> (\<exists>e. refresh (plain_service plain_content) ''A'' (snd (update_user_role ''u1'' ''farmer'' None None plain_session))
        = (Inl (Unauthorized e), snd (update_user_role ''u1'' ''farmer'' None None plain_session)))"
proof -
  define s1 where "s1 = snd (update_user_role ''u1'' ''farmer'' None None plain_session)"
  have s1: "au_users s1 = [revoke_tokens (google_user\<lparr>us_role := ''farmer''\<rparr>)]" "au_signed s1 = au_signed plain_session"
    by (simp_all add: s1_def update_user_role_def plain_session_user save_account_def update_where_def plain_session_rows
        revoke_tokens_def google_user_def plain_account_def blank_account_def present_def)
  have u1: "account_by_id ''u1'' s1 = Some (revoke_tokens (google_user\<lparr>us_role := ''farmer''\<rparr>))"
    by (simp add: account_by_id_def find_account_def find_one_def s1 revoke_tokens_def google_user_def plain_account_def blank_account_def)
  have "honest plain_content (plain_service plain_content) s1"
    by (rule plain_honest_tokens) (simp_all add: s1 plain_session_rows)
  moreover have "(auth_step plain_content)\<^sup>*\<^sup>* plain_session s1" unfolding s1_def by (intro r_into_rtranclp auth_step.role)
  ultimately show ?thesis
    using ended_sessions_stay_ended [OF plain_session_reachable, of "plain_token AccessToken 900" "''A''" google_user s1
        "revoke_tokens (google_user\<lparr>us_role := ''farmer''\<rparr>)" s1 "plain_service plain_content"] plain_session_user u1
    unfolding s1_def [symmetric] by (simp add: plain_session_rows plain_token_def plain_content_def revoke_tokens_def)
qed

end
