(* ===== verification/LoginProps.thy ===== *)
theory LoginProps
  imports AccountProps
begin

text \<open>
  How many passwords can be tried, what the mail that unlocks an account gives away, and what becomes of users
  that are made administrators.
\<close>

subsection \<open>Guessing a password\<close>

text \<open>A login compares a password when neither the detection of attacks nor a lock stops it.\<close>

definition compares_password :: "auth_env \<Rightarrow> login_dto \<Rightarrow> login_meta \<Rightarrow> auth_state \<Rightarrow> bool" where
  "compares_password env dto meta s \<longleftrightarrow>
     (let verdict = check_login (ae_threat env) (lg_email dto) (lm_ip meta) (au_threat s)
      in \<not> lv_blocked verdict
         \<and> (lv_captcha verdict \<longrightarrow> present (lg_captcha dto) \<and> verify_captcha (ae_threat env) (the (lg_captcha dto)) (lm_ip meta))
         \<and> (case account_by_email (lg_email dto) s of
              None \<Rightarrow> False
            | Some u \<Rightarrow> \<not> still_after (ac_lockout_until u) s \<and> ac_email_verified u))"

lemma uncompared_password_is_not_read:
  "\<not> compares_password env dto meta s \<Longrightarrow> login env (dto\<lparr>lg_password := pw\<rparr>) meta s = login env dto meta s"
  by (auto simp: compares_password_def login_def login_account_def note_failure_def Let_def split: option.splits)

text \<open>
  Attempts on the account of one address with wrong passwords. In between the row of the account stays as it is
  and the clock does not run backwards; \<open>n\<close> counts the passwords that were compared.
\<close>

inductive guesses :: "string \<Rightarrow> auth_state \<Rightarrow> nat \<Rightarrow> auth_state \<Rightarrow> bool" for e :: string and s :: auth_state where
  none: "guesses e s 0 s"
| other: "guesses e s n t \<Longrightarrow> account_by_email e t' = account_by_email e t \<Longrightarrow> now_ms t \<le> now_ms t' \<Longrightarrow> guesses e s n t'"
| guess: "guesses e s n t \<Longrightarrow> lg_email dto = e \<Longrightarrow> account_by_email e t = Some u
    \<Longrightarrow> verify_password env (ac_password_hash u) (lg_password dto) = Some False
    \<Longrightarrow> guesses e s (if compares_password env dto meta t then n + 1 else n) (snd (login env dto meta t))"

definition guess_invariant :: "string \<Rightarrow> int \<Rightarrow> nat \<Rightarrow> auth_state \<Rightarrow> bool" where
  "guess_invariant e t0 n t \<longleftrightarrow>
     (n < lockout_max_attempts \<and> (n = 0 \<or> (\<exists>u. account_by_email e t = Some u \<and> n \<le> ac_failed_attempts u)))
     \<or> (n \<le> lockout_max_attempts
          \<and> (\<exists>u l. account_by_email e t = Some u \<and> ac_lockout_until u = Some l \<and> t0 + lockout_duration_ms \<le> l))
     \<or> t0 + lockout_duration_ms \<le> now_ms t"

lemma login_clock [simp]: "now_ms (snd (login env dto meta s)) = now_ms s"
  using login_untouched [of "''x''" s env dto meta] by (simp add: no_threat_key_def untouched_def now_ms_def)

lemma note_failure_clock [simp]: "now_ms (note_failure env dto meta s) = now_ms s"
  using note_failure_untouched [of "''x''" s env dto meta] by (simp add: no_threat_key_def untouched_def now_ms_def)

lemma email_saved:
  assumes "account_by_email e s = Some u" "us_id u' = us_id u" "us_email u' = e" "\<not> ac_deleted u'" "au_users s1 = au_users s"
  shows "account_by_email e (save_account u' s1) = Some u'"
  using find_one_replaced [of "\<lambda>x. us_email x = e \<and> \<not> ac_deleted x" "au_users s" u u' us_id] assms
  by (simp add: account_by_email_def find_account_def save_account_def)

lemma email_same_users: "au_users t = au_users s \<Longrightarrow> account_by_email e t = account_by_email e s"
  by (simp add: account_by_email_def find_account_def)

lemma uncompared_keeps_account:
  assumes "\<not> compares_password env dto meta s" "account_by_email (lg_email dto) s = Some u"
  shows "snd (login env dto meta s) = s"
  using assms by (auto simp: compares_password_def login_def login_account_def Let_def)

lemma wrong_guess:
  assumes "compares_password env dto meta s" "account_by_email (lg_email dto) s = Some u"
    and "verify_password env (ac_password_hash u) (lg_password dto) = Some False"
  shows "snd (login env dto meta s) = snd (wrong_password env dto meta u s :: (http_error + token_pair \<times> string option) \<times> auth_state)"
    and "\<not> still_after (ac_lockout_until u) s"
  using assms by (auto simp: compares_password_def login_def login_account_def Let_def)

lemma wrong_counted:
  assumes "account_by_email e s = Some u" "ac_failed_attempts u + 1 < lockout_max_attempts"
  shows "account_by_email e (snd (wrong_password env dto meta u s)) = Some (u\<lparr>ac_failed_attempts := ac_failed_attempts u + 1\<rparr>)"
proof -
  have "account_by_email e (save_account (u\<lparr>ac_failed_attempts := ac_failed_attempts u + 1\<rparr>) (note_failure env dto meta s))
    = Some (u\<lparr>ac_failed_attempts := ac_failed_attempts u + 1\<rparr>)"
    using account_by_emailD [OF assms(1)] by (intro email_saved [OF assms(1)]) simp_all
  with assms(2) show ?thesis by (simp add: wrong_password_def Let_def)
qed

lemma wrong_locks:
  assumes "account_by_email e s = Some u" "\<not> ac_failed_attempts u + 1 < lockout_max_attempts"
  shows "account_by_email e (snd (wrong_password env dto meta u s))
    = Some (u\<lparr>ac_failed_attempts := 0, ac_lockout_until := Some (now_ms s + lockout_duration_ms)\<rparr>)"
proof -
  have "account_by_email e (save_account (u\<lparr>ac_failed_attempts := 0, ac_lockout_until := Some (now_ms s + lockout_duration_ms)\<rparr>)
      (note_failure env dto meta s)) = Some (u\<lparr>ac_failed_attempts := 0, ac_lockout_until := Some (now_ms s + lockout_duration_ms)\<rparr>)"
    using account_by_emailD [OF assms(1)] by (intro email_saved [OF assms(1)]) simp_all
  with assms(2) show ?thesis
    by (simp add: wrong_password_def Let_def sign_token_def account_by_email_def find_account_def)
qed

lemma guess_step:
  assumes "guess_invariant e t0 n t" "t0 \<le> now_ms t" "lg_email dto = e" "account_by_email e t = Some u"
    and "verify_password env (ac_password_hash u) (lg_password dto) = Some False"
  shows "guess_invariant e t0 (if compares_password env dto meta t then n + 1 else n) (snd (login env dto meta t))"
proof (cases "compares_password env dto meta t")
  case False
  with uncompared_keeps_account [OF False] assms show ?thesis by simp
next
  case True
  note guess = wrong_guess [OF True _ assms(5), unfolded assms(3), OF assms(4)]
  consider (late) "t0 + lockout_duration_ms \<le> now_ms t"
    | (locked) l where "ac_lockout_until u = Some l" "t0 + lockout_duration_ms \<le> l"
    | (unlocked) "n < lockout_max_attempts" "n \<le> ac_failed_attempts u"
    using assms(1,4) unfolding guess_invariant_def by auto
  then show ?thesis
  proof cases
    case late
    then show ?thesis by (simp add: guess_invariant_def)
  next
    case locked
    with guess(2) have "t0 + lockout_duration_ms \<le> now_ms t" by (simp add: still_after_def)
    then show ?thesis by (simp add: guess_invariant_def)
  next
    case unlocked
    show ?thesis
    proof (cases "ac_failed_attempts u + 1 < lockout_max_attempts")
      case less: True
      show ?thesis
        unfolding guess_invariant_def guess(1) wrong_counted [OF assms(4) less] using less unlocked True by simp
    next
      case no: False
      show ?thesis
        unfolding guess_invariant_def guess(1) wrong_locks [OF assms(4) no] using unlocked True assms(2) by simp
    qed
  qed
qed

lemma guesses_invariant:
  "guesses e s n t \<Longrightarrow> now_ms s \<le> now_ms t \<and> guess_invariant e (now_ms s) n t"
proof (induction rule: guesses.induct)
  case none
  show ?case by (simp add: guess_invariant_def lockout_max_attempts_def)
next
  case (other n t t')
  then show ?case by (auto simp: guess_invariant_def)
next
  case (guess n t dto u env meta)
  then show ?case using guess_step by simp
qed


text \<open>A login with a wrong password.\<close>

definition plain_login :: login_dto where
  "plain_login = \<lparr>lg_email = ''a'', lg_password = ''q'', lg_redirect = None, lg_captcha = None\<rparr>"

definition plain_meta :: login_meta where
  "plain_meta = \<lparr>lm_ip = None, lm_user_agent = None, lm_country = None, lm_accept_language = None\<rparr>"

lemma plain_login_compares:
  assumes "us_email u = ''a''" "\<not> ac_deleted u" "ac_email_verified u" "ac_lockout_until u = None"
  shows "account_by_email ''a'' (plain_state [u] ps) = Some u"
    and "compares_password (plain_service content) plain_login plain_meta (plain_state [u] ps)"
  using assms
  by (simp_all add: compares_password_def plain_service_def plain_login_def plain_meta_def plain_state_def check_login_def present_def
        account_by_email_def find_account_def find_one_def has_key_def red_get_def kv_get_def still_after_def Let_def)



subsection \<open>Administrators without a second factor\<close>

text \<open>
  The account is an administrator without a second factor, and every token that was signed for it is out of date.
\<close>

definition shut_out :: "string \<Rightarrow> auth_state \<Rightarrow> bool" where
  "shut_out i s \<longleftrightarrow> keyed s \<and> (\<exists>a. account_by_id i s = Some a \<and> admin_role a \<and> \<not> ac_mfa_enabled a \<and> 0 < ac_token_version a
     \<and> (\<forall>p \<in> set (au_signed s). jp_sub p = i \<longrightarrow> token_version_of p < ac_token_version a))"

definition nothing_new :: "string \<Rightarrow> auth_state \<Rightarrow> auth_state \<Rightarrow> bool" where
  "nothing_new i s t \<longleftrightarrow> (\<exists>new. au_signed t = au_signed s @ new \<and> (\<forall>p \<in> set new. jp_sub p = i \<longrightarrow> token_version_of p = 0))"

lemma nothing_new_same: "au_signed t = au_signed s \<Longrightarrow> nothing_new i s t"
  by (simp add: nothing_new_def)

lemma nothing_new_issue:
  assumes "issue_token_pair env u f s1 = (ts, t)" "us_id u \<noteq> i" "au_signed s1 = au_signed s"
  shows "nothing_new i s t"
  using issue_signed [of env u f s1] assms by (auto simp: nothing_new_def)

lemma shut_out_account:
  assumes "shut_out i s" "u \<in> set (au_users s)" "\<not> ac_deleted u" "us_id u = i"
  shows "admin_role u \<and> \<not> ac_mfa_enabled u"
  using assms account_in [of s u] by (auto simp: shut_out_def)

lemma shut_out_token:
  assumes "shut_out i s" "honest content env s" "verified_payload env token s = Some p" "jp_sub p = i" "account_by_id i s = Some u"
  shows "token_version_of p < ac_token_version u"
  using assms by (auto simp: shut_out_def honest_def verified_payload_def)

lemma shut_out_bearer:
  assumes "shut_out i s" "honest content env s" "validate env token s = Inr u"
  shows "us_id u \<noteq> i"
proof
  assume i: "us_id u = i"
  from assms(3) obtain p where p: "verified_payload env token s = Some p" "account_by_id (jp_sub p) s = Some u" "token_version_of p = ac_token_version u"
    by (auto simp: validate_def token_version_of_def split: option.splits if_splits)
  then have "jp_sub p = i" using i account_by_idD [OF p(2)] by simp
  with shut_out_token [OF assms(1,2) p(1)] p show False by simp
qed

lemma right_password_new:
  assumes "shut_out i s" "u \<in> set (au_users s)" "\<not> ac_deleted u"
  shows "nothing_new i s (snd (right_password env dto meta u s))"
    and "us_id u = i \<Longrightarrow> fst (right_password env dto meta u s) = Inl (Forbidden ''MFA_ENROLLMENT_REQUIRED'')"
proof -
  define v where "v = passed_account env dto u"
  have v: "us_id v = us_id u" "admin_role v = admin_role u" "ac_mfa_enabled v = ac_mfa_enabled u"
    by (simp_all add: v_def passed_account_def admin_role_def)
  obtain ts t where t: "issue_token_pair env v (ae_family env) (record_successful_login env meta v (save_account v s)) = (ts, t)" by force
  have a: "admin_role v \<and> \<not> ac_mfa_enabled v" if "us_id u = i" using shut_out_account [OF assms that] v by simp
  have b: "nothing_new i s t" if "us_id u \<noteq> i" by (rule nothing_new_issue [OF t]) (use that v(1) in simp_all)
  have c: "nothing_new i s (save_account (v\<lparr>ac_enrollment_required := True\<rparr>) s)" by (rule nothing_new_same) simp
  show "nothing_new i s (snd (right_password env dto meta u s))"
    unfolding right_password_def Let_def v_def [symmetric] t prod.case using a b c by (simp split: sum.split) blast
  show "us_id u = i \<Longrightarrow> fst (right_password env dto meta u s) = Inl (Forbidden ''MFA_ENROLLMENT_REQUIRED'')"
    unfolding right_password_def Let_def v_def [symmetric] using a by simp
qed

lemma wrong_password_new: "nothing_new i s (snd (wrong_password env dto meta u s))"
  by (simp add: wrong_password_def Let_def sign_token_def nothing_new_def)

lemma wrong_password_error: "\<exists>e. fst (wrong_password env dto meta u s) = Inl e"
  by (auto simp: wrong_password_def Let_def sign_token_def and_then_def split: sum.split prod.split)

lemma login_new:
  assumes "shut_out i s"
  shows "nothing_new i s (snd (login env dto meta s))"
proof (cases "account_by_email (lg_email dto) s")
  case (Some u)
  have "nothing_new i s s" by (simp add: nothing_new_same)
  with Some right_password_new(1) [OF assms] account_by_emailD [OF Some] show ?thesis
    by (simp add: wrong_password_new login_def login_account_def Let_def split: option.split)
next
  case None
  then show ?thesis by (simp add: login_def Let_def nothing_new_same)
qed

lemma google_new:
  assumes "shut_out i s"
  shows "nothing_new i s (snd (login_with_google env g s))"
proof (cases "google_account g s")
  case (Some u)
  define v where "v = google_opened (u\<lparr>ac_google_subject := Some (gi_subject g)\<rparr>)"
  obtain ts t where t: "issue_token_pair env v (ae_family env) (save_account v s) = (ts, t)" by force
  have "us_id u \<noteq> i" if "us_role u = ''investor''"
    using that shut_out_account [OF assms, of u] google_accountD [OF Some] by (auto simp: admin_role_def)
  then have "nothing_new i s t" if "us_role u = ''investor''"
    using that by (intro nothing_new_issue [OF t]) (simp_all add: v_def google_opened_def)
  moreover have "nothing_new i s s" by (simp add: nothing_new_same)
  ultimately show ?thesis
    unfolding login_with_google_def Let_def Some option.case v_def [symmetric] t prod.case by simp
next
  case None
  define v where "v = google_opened (blank_account\<lparr>us_id := ae_new_id env, us_email := gi_email g,
      ac_google_subject := Some (gi_subject g), ac_password_hash := ae_hash env (ae_random env), ac_country := ''UN''\<rparr>)"
  obtain ts t where t: "issue_token_pair env v (ae_family env) (s\<lparr>au_users := insert_row v (au_users s)\<rparr>) = (ts, t)" by force
  have "i \<in> us_id ` set (au_users s)" using assms account_by_idD by (fastforce simp: shut_out_def)
  then have "nothing_new i s t" if "\<not> taken v s"
    using not_taken [OF that] by (intro nothing_new_issue [OF t]) auto
  moreover have "nothing_new i s s" by (simp add: nothing_new_same)
  ultimately show ?thesis
    unfolding login_with_google_def Let_def None option.case v_def [symmetric] t prod.case by simp
qed

lemma refresh_new:
  assumes "shut_out i s" "honest content env s"
  shows "nothing_new i s (snd (refresh env token s))"
proof (cases "refresh_check env token s")
  case (Pair r s1)
  show ?thesis
  proof (cases r)
    case (Inr pu)
    obtain p u where pu: "pu = (p, u)" by force
    have ok: "s1 = s" "verified_payload env token s = Some p" "account_by_id (jp_sub p) s = Some u" "token_version_of p = ac_token_version u"
      using refresh_check_ok [of env token s p u s1] Pair Inr pu by (auto simp: token_version_of_def)
    have "jp_sub p \<noteq> i" using shut_out_token [OF assms ok(2)] ok(3,4) by auto
    then have u: "us_id u \<noteq> i" using account_by_idD [OF ok(3)] by simp
    define s2 where "s2 = (if present (jp_jti p)
      then mark_refresh_token_rotated env (the (jp_jti p)) (max (jp_exp p - now_seconds s) 1) s else s)"
    obtain ts t where t: "issue_token_pair env u (case jp_family p of Some f \<Rightarrow> f | None \<Rightarrow> ae_family env) s2 = (ts, t)" by force
    have "au_signed s2 = au_signed s" by (simp add: s2_def mark_refresh_token_rotated_def)
    moreover have "snd (refresh env token s) = t"
      using Pair Inr pu ok(1) t by (simp add: refresh_def and_then_def refresh_commit_def Let_def s2_def)
    ultimately show ?thesis using nothing_new_issue [OF t u] by simp
  next
    case (Inl e)
    have "au_signed s1 = au_signed s"
      using Pair by (auto simp: refresh_check_def reuse_detected_def revoke_token_family_def split: option.splits if_splits)
    with Inl Pair show ?thesis by (simp add: refresh_def and_then_def nothing_new_same)
  qed
qed

lemma user_step_new: "user_step content s t \<Longrightarrow> shut_out i s \<Longrightarrow> nothing_new i s t"
  by (induction rule: user_step.induct)
     (simp_all add: login_new google_new refresh_new nothing_new_same)

text \<open>What a request of a user does to the account: it can neither enrol nor end an enrolment.\<close>

lemma user_step_standing:
  assumes "user_step content s t" "shut_out i s"
  shows "\<exists>R. edits R s t \<and> (\<forall>u u'. R u u' \<longrightarrow> same_person u u') \<and> (\<forall>u u'. R u u' \<longrightarrow> us_id u = i \<longrightarrow> same_standing u u')"
proof -
  have std: ?thesis if "edits same_standing s t" using that by (auto simp: same_standing_def)
  have but: ?thesis if "edits (same_but j) s t" "j \<noteq> i" for j using that by (auto simp: same_but_def)
  from assms(1) show ?thesis
  proof cases
    case (wait d)
    then show ?thesis by (intro std edits_same) simp
  next
    case (confirm_mfa env token u code)
    then show ?thesis using but [OF _ shut_out_bearer [OF assms(2)]] enable_edits by blast
  next
    case (end_mfa env token u code pw)
    then show ?thesis using but [OF _ shut_out_bearer [OF assms(2)]] disable_edits by blast
  qed (use std register_edits verify_email_edits login_edits google_edits refresh_edits revoke_edits unlock_edits
      logout_edits password_edits wallet_edits risk_edits setup_edits verify_mfa_edits guard_edits in metis)+
qed

lemma user_step_shut_out:
  assumes "user_step content s t" "shut_out i s"
  shows "shut_out i t"
proof -
  from assms(2) obtain a where a: "keyed s" "account_by_id i s = Some a" "admin_role a" "\<not> ac_mfa_enabled a" "0 < ac_token_version a"
    "\<forall>p \<in> set (au_signed s). jp_sub p = i \<longrightarrow> token_version_of p < ac_token_version a" by (auto simp: shut_out_def)
  obtain R where R: "edits R s t" "\<And>u u'. R u u' \<Longrightarrow> same_person u u'" "\<And>u u'. R u u' \<Longrightarrow> us_id u = i \<Longrightarrow> same_standing u u'"
    using user_step_standing [OF assms] by blast
  have "same_standing a a" by (simp add: same_by_fields)
  then obtain b where b: "account_by_id i t = Some b" "same_standing a b"
    using edits_account [OF R(1) a(1,2) R(2)] R(3) account_by_idD [OF a(2)] by blast
  have "keyed t" using edits_keyed [OF user_step_edits [OF assms(1)] a(1)] .
  moreover have "\<forall>p \<in> set (au_signed t). jp_sub p = i \<longrightarrow> token_version_of p < ac_token_version b"
    using user_step_new [OF assms] a(5,6) b(2) by (auto simp: nothing_new_def same_standing_def same_person_def dest!: bspec)
  ultimately show ?thesis
    using b a(3-5) by (auto simp: shut_out_def same_standing_def same_person_def admin_role_def)
qed

lemma user_steps_shut_out: "(user_step content)\<^sup>*\<^sup>* s t \<Longrightarrow> shut_out i s \<Longrightarrow> shut_out i t"
  by (induction rule: rtranclp_induct) (auto intro: user_step_shut_out)

lemma promotion_shuts_out:
  assumes "keyed s" "signed_ok s" "account_by_id i s = Some u" "\<not> ac_mfa_enabled u" "role \<in> {''admin'', ''company_admin''}"
  shows "shut_out i (snd (update_user_role i role who reason s))"
proof -
  define v where "v = revoke_tokens (u\<lparr>us_role := role\<rparr>)"
  note u = account_by_idD [OF assms(3)]
  have v: "us_id v = i" "\<not> ac_deleted v" "admin_role v" "\<not> ac_mfa_enabled v" "ac_token_version v = ac_token_version u + 1"
    using u assms(4,5) by (auto simp: v_def revoke_tokens_def admin_role_def)
  define t where "t = snd (update_user_role i role who reason s)"
  have t: "au_users t = au_users (save_account v s)" "au_signed t = au_signed s"
    using assms(3) by (simp_all add: t_def update_user_role_def Let_def v_def)
  have "account_by_id i t = Some v"
    using account_saved [OF assms(3) v(1,2), of t] t v(1) by (simp add: save_account_def)
  moreover have "keyed t"
    using edits_keyed [OF edits_mono [OF role_edits] assms(1)] unfolding t_def by (blast dest: same_but_def [THEN iffD1])
  moreover have "\<forall>p \<in> set (au_signed t). jp_sub p = i \<longrightarrow> token_version_of p < ac_token_version v"
    using assms(2,3) t(2) v(5) by (force simp: signed_ok_def)
  ultimately show ?thesis using v unfolding t_def [symmetric] by (auto simp: shut_out_def)
qed

lemma shut_out_login:
  assumes "shut_out i s" "account_by_email (lg_email dto) s = Some u" "us_id u = i"
  shows "\<exists>e. fst (login env dto meta s) = Inl e"
  using assms(2) right_password_new(2) [OF assms(1), of u] account_by_emailD [OF assms(2)] assms(3)
  by (auto simp: login_def login_account_def Let_def wrong_password_error split: option.split)




subsection \<open>The mail that unlocks an account\<close>

lemma validate_unlock:
  assumes "verified_payload env token s = Some (unlock_payload u s')" "\<not> is_blocklisted env token s"
    and "account_by_id (us_id u) s = Some v" "ac_token_version v = 0" "\<not> ae_needs_reauth env (us_id v)"
  shows "validate env token s = Inr v"
  using assms by (simp add: validate_def unlock_payload_def)

text \<open>
  C14: The link that unlocks an account opens the whole interface (safety). The fifth wrong password sends the owner a
  mail with a token for unlocking. For an account whose sessions were never ended that token is accepted as a
  bearer token by every request: its type is only checked against that of refresh tokens, and a token without a
  version counts as version zero.
\<close>

theorem unlock_token_opens_the_api:
  assumes "keyed s" "account_by_email (lg_email dto) s = Some u" "compares_password env dto meta s"
    and "verify_password env (ac_password_hash u) (lg_password dto) = Some False" "4 \<le> ac_failed_attempts u"
    and "ac_token_version u = 0" "\<not> ae_mail_error env" "\<not> ae_needs_reauth env (us_id u)"
    and "\<not> is_blocklisted env (ae_sign env (unlock_payload u s)) (snd (login env dto meta s))"
    and "ae_verify env (red_clock (auth_redis s)) (ae_sign env (unlock_payload u s)) = Some (unlock_payload u s)"
  shows "(\<exists>e. fst (login env dto meta s) = Inl e)
    \<and> LockedMail (us_email u) (ae_sign env (unlock_payload u s)) \<in> set (au_mails (snd (login env dto meta s)))
    \<and> (\<exists>v. validate env (ae_sign env (unlock_payload u s)) (snd (login env dto meta s)) = Inr v \<and> us_id v = us_id u)"
proof -
  define s1 where "s1 = snd (login env dto meta s)"
  define f where "f = note_failure env dto meta s"
  define v where "v = u\<lparr>ac_failed_attempts := 0, ac_lockout_until := Some (now_ms s + lockout_duration_ms)\<rparr>"
  note u = account_by_emailD [OF assms(2)]
  have five: "\<not> ac_failed_attempts u + 1 < lockout_max_attempts" using assms(5) by (simp add: lockout_max_attempts_def)
  have f: "unlock_payload u f = unlock_payload u s" "now_ms f = now_ms s" "au_users f = au_users s"
    by (simp_all add: f_def unlock_payload_def now_seconds_def)
  have login: "login env dto meta s = wrong_password env dto meta u s"
    using assms(2,3,4) by (auto simp: login_def login_account_def compares_password_def Let_def)
  have wrong: "login env dto meta s =
    (Inl (Unauthorized ''Account locked''), (save_account v f)\<lparr>au_signed := au_signed f @ [unlock_payload u s],
       au_mails := au_mails f @ [LockedMail (us_email u) (ae_sign env (unlock_payload u s))]\<rparr>)"
    using five assms(7) f
    by (simp add: login wrong_password_def Let_def sign_token_def send_mail_def and_then_def f_def [symmetric] v_def)
  have s1: "au_users s1 = au_users (save_account v s)" "red_clock (auth_redis s1) = red_clock (auth_redis s)"
    using wrong f(2,3) by (simp_all add: s1_def save_account_def auth_redis_def now_ms_def)
  have "account_by_id (us_id u) s = Some u" using account_in [OF assms(1)] u by simp
  then have v: "account_by_id (us_id u) s1 = Some v"
    using account_saved [of "us_id u" s u v s1] u s1(1) by (simp add: v_def save_account_def)
  have "validate env (ae_sign env (unlock_payload u s)) s1 = Inr v"
    by (rule validate_unlock [OF _ _ v]) (use assms(6,8,9,10) s1(2) in \<open>simp_all add: verified_payload_def s1_def v_def\<close>)
  moreover have "us_id v = us_id u" by (simp add: v_def)
  ultimately show ?thesis using wrong unfolding s1_def by auto
qed

theorem unlock_token_opens_the_api_witness:
  "\<exists>v. validate (plain_service (\<lambda>_. Some (unlock_payload plain_account (plain_state [] [])))) ''U''
         (snd (login (plain_service (\<lambda>_. Some (unlock_payload plain_account (plain_state [] [])))) plain_login plain_meta
           (plain_state [plain_account\<lparr>ac_failed_attempts := 4\<rparr>] []))) = Inr v \<and> us_id v = ''u1''"
proof -
  define u where "u = plain_account\<lparr>ac_failed_attempts := 4\<rparr>"
  define s where "s = plain_state [u] []"
  define env where "env = plain_service (\<lambda>_. Some (unlock_payload plain_account (plain_state [] [])))"
  have u: "account_by_email ''a'' s = Some u" "compares_password env plain_login plain_meta s"
    unfolding s_def env_def by (rule plain_login_compares; simp add: u_def plain_account_def blank_account_def)+
  have p: "unlock_payload u s = unlock_payload plain_account (plain_state [] [])" "ae_sign env (unlock_payload u s) = ''U''"
    by (simp_all add: env_def plain_service_def token_name_def unlock_payload_def u_def s_def plain_state_def now_seconds_def now_ms_def
        auth_redis_def red_clock_def plain_account_def)
  have free: "\<not> is_blocklisted env ''U'' (snd (login env plain_login plain_meta s))"
  proof -
    have "untouched ''blocklist:jwt:U'' (auth_redis s) (auth_redis (snd (login env plain_login plain_meta s)))"
      by (rule login_untouched) (simp add: no_threat_key_def)
    moreover have "entry ''blocklist:jwt:U'' (auth_redis s) = None" by (simp add: entry_def s_def plain_state_def auth_redis_def)
    ultimately show ?thesis by (simp add: is_blocklisted_def key_is_def red_get_def kv_get_def untouched_def entry_def)
  qed
  have "keyed s" by (simp add: keyed_def s_def plain_state_def)
  moreover have "verify_password env (ac_password_hash u) (lg_password plain_login) = Some False"
    by (simp add: verify_password_def is_bcrypt_hash_def env_def plain_service_def plain_login_def u_def plain_account_def)
  moreover have "ae_verify env (red_clock (auth_redis s)) ''U'' = Some (unlock_payload u s)"
    unfolding p(1) by (simp add: env_def plain_service_def unlock_payload_def s_def plain_state_def now_seconds_def now_ms_def auth_redis_def red_clock_def)
  moreover have "4 \<le> ac_failed_attempts u \<and> ac_token_version u = 0 \<and> us_id u = ''u1'' \<and> lg_email plain_login = ''a''"
    by (simp add: u_def plain_account_def blank_account_def plain_login_def)
  moreover have "\<not> ae_mail_error env \<and> \<not> ae_needs_reauth env (us_id u)" by (simp add: env_def plain_service_def)
  ultimately show ?thesis
    using unlock_token_opens_the_api [of s plain_login u env plain_meta] u free
    unfolding env_def [symmetric] u_def [symmetric] s_def [symmetric] by (simp add: p(2))
qed


subsection \<open>Setting up a second factor again\<close>

text \<open>
  A bearer token is enough to replace the second factor (safety). For a user whose second factor is enabled a new
  set-up overwrites the secret and the recovery codes without asking for the old ones, and the second factor stays
  enabled: the next code made from the new secret passes both the verification and the guard of sensitive requests.
\<close>

theorem setup_replaces_second_factor:
  assumes "validate env token s = Inr u" "ac_mfa_enabled u" "\<not> still_after (ac_mfa_locked_until u) s"
    and "ae_totp_secret env \<noteq> []" "code \<noteq> []" "ae_totp env (red_clock (auth_redis s)) (js_trim code) (ae_totp_secret env) = Some True"
  shows "fst (verify_mfa env (us_id u) code (snd (setup_mfa env (us_id u) s))) = Inr ()
    \<and> fst (mfa_guard env (us_id u) (Some code) (snd (setup_mfa env (us_id u) s))) = Inr ()"
proof -
  have "\<exists>i. account_by_id i s = Some u" using assms(1) by (auto simp: validate_def split: option.splits if_splits)
  then have u: "account_by_id (us_id u) s = Some u" using account_by_idD by metis
  define v where "v = u\<lparr>ac_mfa_secret := Some (ae_totp_secret env), ac_backup_codes := Some (map (ae_bcrypt_hash env) (ae_backup_codes env))\<rparr>"
  have s1: "snd (setup_mfa env (us_id u) s) = save_account v s" using u by (simp add: setup_mfa_def v_def)
  have "account_by_id (us_id u) (save_account v s) = Some v"
    using account_saved [OF u, of v "save_account v s"] account_by_idD [OF u] by (simp add: v_def save_account_def)
  then show ?thesis
    using assms(2-6)
    by (simp add: s1 verify_mfa_def mfa_guard_def second_factor_def verify_totp_token_def v_def still_after_def present_def split: option.splits)
qed

theorem setup_replaces_second_factor_witness:
  "fst (mfa_guard (plain_service plain_content) ''u1'' (Some ''new'')
     (snd (setup_mfa (plain_service plain_content) ''u1''
       (plain_state [plain_account\<lparr>ac_mfa_enabled := True, ac_mfa_secret := Some ''old''\<rparr>] [])))) = Inr ()"
proof -
  define u where "u = plain_account\<lparr>ac_mfa_enabled := True, ac_mfa_secret := Some ''old''\<rparr>"
  define s where "s = plain_state [u] []"
  have "account_by_id ''u1'' s = Some u"
    by (simp add: s_def u_def plain_state_def account_by_id_def find_account_def find_one_def plain_account_def blank_account_def)
  moreover have "verified_payload (plain_service plain_content) ''A'' s = Some (plain_token AccessToken 900)"
    by (simp add: verified_payload_def plain_service_def plain_content_def plain_token_def s_def plain_state_def auth_redis_def red_clock_def)
  moreover have "\<not> is_blocklisted (plain_service plain_content) ''A'' s"
    by (simp add: is_blocklisted_def key_is_def red_get_def kv_get_def s_def plain_state_def auth_redis_def)
  ultimately have "validate (plain_service plain_content) ''A'' s = Inr u"
    by (simp add: validate_def plain_token_def u_def plain_account_def blank_account_def plain_service_def)
  moreover have "ae_totp_secret (plain_service plain_content) = ''new''" "ae_totp (plain_service plain_content) n ''new'' ''new'' = Some True" for n
    by (simp_all add: plain_service_def)
  moreover have "js_trim ''new'' = ''new''" by code_simp
  moreover have "us_id u = ''u1'' \<and> ac_mfa_enabled u \<and> \<not> still_after (ac_mfa_locked_until u) s"
    by (simp add: u_def plain_account_def blank_account_def still_after_def)
  ultimately show ?thesis
    using setup_replaces_second_factor [of "plain_service plain_content" "''A''" s u "''new''"]
    unfolding u_def [symmetric] s_def [symmetric] by simp
qed


end
