(* ===== verification/KycProps.thy ===== *)
theory KycProps
  imports KycReview LoginProps "HOL-Library.Multiset"
begin

text \<open>
  What holds of identity checks: the bulk review, the daily job that ends checks whose documents have expired, and
  the rules of countries.
\<close>

subsection \<open>The bulk review\<close>

definition open_submissions :: "auth_state \<Rightarrow> kyc_submission list" where
  "open_submissions s = filter (\<lambda>k. ks_status k = SubPendingReview) (au_submissions s)"

definition decision :: "bool \<Rightarrow> kyc_status" where
  "decision approve = (if approve then KycVerified else KycRejected)"

definition decided_state :: "bool \<Rightarrow> string \<Rightarrow> string option \<Rightarrow> kyc_submission \<Rightarrow> account \<Rightarrow> auth_state \<Rightarrow> auth_state" where
  "decided_state approve admin reason k u s = (if approve then approved_state admin reason k u s else rejected_state admin reason k u s)"

lemma bulk_each_step:
  "bulk_each approve admin reason (i # is) s =
     (case account_by_id i s of
        None \<Rightarrow> (case bulk_each approve admin reason is s of (ps, fs, t) \<Rightarrow> (ps, (i, ''User not found.'') # fs, t))
      | Some u \<Rightarrow>
          (case pending_submission i s of
             None \<Rightarrow> (case bulk_each approve admin reason is s of
                        (ps, fs, t) \<Rightarrow> (ps, (i, ''No pending KYC submission found for this user.'') # fs, t))
           | Some k \<Rightarrow>
               (case bulk_each approve admin reason is (decided_state approve admin reason k u s) of
                  (ps, fs, t) \<Rightarrow> ((i, decision approve) # ps, fs, t))))"
  by (simp only: bulk_each.simps decided_state_def decision_def)

lemma bulk_each_cases:
  assumes "bulk_each approve admin reason (i # is) s = (ps, fs, t)"
  obtains (failed) why fs' where "fs = (i, why) # fs'" "bulk_each approve admin reason is s = (ps, fs', t)"
    | (decided) u k ps' where "account_by_id i s = Some u" "pending_submission i s = Some k" "ps = (i, decision approve) # ps'"
        "bulk_each approve admin reason is (decided_state approve admin reason k u s) = (ps', fs, t)"
  using assms unfolding bulk_each_step by (auto split: option.splits prod.splits)

lemma decided_actions:
  "\<exists>a. au_actions (decided_state approve admin reason k u s) = au_actions s @ [a] \<and> aa_target_user_id a = us_id u \<and> aa_admin_id a = admin"
  by (simp add: decided_state_def approved_state_def rejected_state_def emit_event_def record_action_def save_account_def
      save_submission_def insert_row_def)

lemma decided_users:
  "\<exists>u'. au_users (decided_state approve admin reason k u s) = update_where (\<lambda>x. us_id x = us_id u) (\<lambda>_. u') (au_users s)
     \<and> us_id u' = us_id u \<and> ac_deleted u' = ac_deleted u \<and> ac_kyc_status u' = decision approve"
  by (auto simp: decided_state_def approved_state_def rejected_state_def emit_event_def record_action_def save_account_def
      save_submission_def set_kyc_def make_company_def decision_def)

lemma decided_submissions:
  "au_submissions (decided_state approve admin reason k u s) =
     update_where (\<lambda>x. ks_id x = ks_id k) (\<lambda>_. decide_submission (if approve then SubApproved else SubRejected) k) (au_submissions s)"
  by (simp add: decided_state_def approved_state_def rejected_state_def emit_event_def record_action_def save_account_def
      save_submission_def decide_submission_def)

lemma decided_account:
  assumes "account_by_id (us_id u) s = Some u"
  shows "\<exists>v. account_by_id (us_id u) (decided_state approve admin reason k u s) = Some v \<and> ac_kyc_status v = decision approve"
    and "account_by_id j s = Some w \<Longrightarrow> \<exists>v. account_by_id j (decided_state approve admin reason k u s) = Some v
           \<and> (ac_kyc_status v = ac_kyc_status w \<or> ac_kyc_status v = decision approve)"
proof -
  obtain u' where u': "au_users (decided_state approve admin reason k u s) = update_where (\<lambda>x. us_id x = us_id u) (\<lambda>_. u') (au_users s)"
    "us_id u' = us_id u" "ac_deleted u' = ac_deleted u" "ac_kyc_status u' = decision approve" using decided_users by metis
  note saved = account_saved [OF assms u'(2) _ u'(1)]
  have new: "account_by_id (us_id u) (decided_state approve admin reason k u s) = Some u'"
    using saved account_by_idD [OF assms] u'(3) by simp
  then show "\<exists>v. account_by_id (us_id u) (decided_state approve admin reason k u s) = Some v \<and> ac_kyc_status v = decision approve"
    using u'(4) by blast
  show "\<exists>v. account_by_id j (decided_state approve admin reason k u s) = Some v
      \<and> (ac_kyc_status v = ac_kyc_status w \<or> ac_kyc_status v = decision approve)" if w: "account_by_id j s = Some w"
    using account_other [OF u'(2) _ u'(1), of j] w new u'(4) by (cases "j = us_id u") auto
qed

lemma bulk_keeps_decisions:
  "bulk_each approve admin reason is s = (ps, fs, t) \<Longrightarrow> account_by_id j s = Some w \<Longrightarrow> ac_kyc_status w = decision approve
   \<Longrightarrow> \<exists>v. account_by_id j t = Some v \<and> ac_kyc_status v = decision approve"
proof (induction "is" arbitrary: s ps fs w)
  case (Cons i "is")
  from Cons.prems(1) show ?case
  proof (cases rule: bulk_each_cases)
    case (failed why fs')
    with Cons show ?thesis by blast
  next
    case (decided u k ps')
    have "us_id u = i" using account_by_idD [OF decided(1)] by simp
    then obtain v where "account_by_id j (decided_state approve admin reason k u s) = Some v" "ac_kyc_status v = decision approve"
      using decided_account(2) [of u s j w approve admin reason k] decided(1) Cons.prems(2,3) by auto
    with Cons.IH [OF decided(4)] show ?thesis by blast
  qed
qed auto

lemma bulk_decides:
  "bulk_each approve admin reason is s = (ps, fs, t) \<Longrightarrow> (i, d) \<in> set ps
   \<Longrightarrow> d = decision approve \<and> (\<exists>v. account_by_id i t = Some v \<and> ac_kyc_status v = decision approve)"
proof (induction "is" arbitrary: s ps fs)
  case (Cons j "is")
  from Cons.prems(1) show ?case
  proof (cases rule: bulk_each_cases)
    case (failed why fs')
    with Cons show ?thesis by blast
  next
    case (decided u k ps')
    have "us_id u = j" using account_by_idD [OF decided(1)] by simp
    then obtain v where "account_by_id j (decided_state approve admin reason k u s) = Some v" "ac_kyc_status v = decision approve"
      using decided_account(1) [of u s approve admin reason k] decided(1) by auto
    with bulk_keeps_decisions [OF decided(4)] Cons.IH [OF decided(4)] Cons.prems(2) decided(3) show ?thesis by auto
  qed
qed auto

lemma bulk_everyone: "bulk_each approve admin reason is s = (ps, fs, t) \<Longrightarrow> mset is = mset (map fst ps) + mset (map fst fs)"
proof (induction "is" arbitrary: s ps fs)
  case (Cons i "is")
  from Cons.prems(1) show ?case
    by (cases rule: bulk_each_cases) (use Cons.IH in fastforce)+
qed auto

lemma bulk_actions:
  "bulk_each approve admin reason is s = (ps, fs, t) \<Longrightarrow>
   \<exists>as. au_actions t = au_actions s @ as \<and> map aa_target_user_id as = map fst ps \<and> (\<forall>a \<in> set as. aa_admin_id a = admin)"
proof (induction "is" arbitrary: s ps fs)
  case (Cons i "is")
  from Cons.prems(1) show ?case
  proof (cases rule: bulk_each_cases)
    case (failed why fs')
    with Cons show ?thesis by blast
  next
    case (decided u k ps')
    from Cons.IH [OF decided(4)] obtain as where as: "au_actions t = au_actions (decided_state approve admin reason k u s) @ as"
      "map aa_target_user_id as = map fst ps'" "\<forall>a \<in> set as. aa_admin_id a = admin" by blast
    obtain a where a: "au_actions (decided_state approve admin reason k u s) = au_actions s @ [a]" "aa_target_user_id a = us_id u" "aa_admin_id a = admin"
      using decided_actions by blast
    then have "au_actions t = au_actions s @ (a # as) \<and> map aa_target_user_id (a # as) = map fst ps \<and> (\<forall>b \<in> set (a # as). aa_admin_id b = admin)"
      using as decided(3) account_by_idD [OF decided(1)] by simp
    then show ?thesis by blast
  qed
qed auto

text \<open>Every decision closes one open submission.\<close>

lemma pending_submissionD:
  "pending_submission i s = Some k \<Longrightarrow> k \<in> set (open_submissions s) \<and> ks_user_id k = i \<and> ks_status k = SubPendingReview"
  by (auto simp: pending_submission_def open_submissions_def dest: find_one_SomeD)

lemma decided_closes:
  assumes "distinct (map ks_id (au_submissions s))" "pending_submission i s = Some k"
  shows "distinct (map ks_id (au_submissions (decided_state approve admin reason k u s)))"
    and "length (open_submissions (decided_state approve admin reason k u s)) + 1 = length (open_submissions s)"
proof -
  define k' where "k' = decide_submission (if approve then SubApproved else SubRejected) k"
  have k: "k \<in> set (au_submissions s)" "ks_status k = SubPendingReview" using pending_submissionD [OF assms(2)] by (auto simp: open_submissions_def)
  have k': "ks_id k' = ks_id k" "ks_status k' \<noteq> SubPendingReview" by (simp_all add: k'_def decide_submission_def)
  have sub: "au_submissions (decided_state approve admin reason k u s) = update_where (\<lambda>x. ks_id x = ks_id k) (\<lambda>_. k') (au_submissions s)"
    by (simp add: decided_submissions k'_def)
  show "distinct (map ks_id (au_submissions (decided_state approve admin reason k u s)))"
    using assms(1) map_update_key [OF assms(1) k(1) k'(1)] by (simp add: sub)
  have "length (filter (\<lambda>x. ks_status x = SubPendingReview) (update_where (\<lambda>x. ks_id x = ks_id k) (\<lambda>_. k') rows)) + 1
    = length (filter (\<lambda>x. ks_status x = SubPendingReview) rows)" if "distinct (map ks_id rows)" "k \<in> set rows" for rows
    using that
  proof (induction rows)
    case (Cons r rows)
    have none: "update_where (\<lambda>x. ks_id x = ks_id k) (\<lambda>_. k') rows = rows" if "ks_id k \<notin> ks_id ` set rows"
      using that by (induction rows) (auto simp: update_where_def)
    show ?case
    proof (cases "ks_id r = ks_id k")
      case True
      with Cons.prems have "r = k" by (auto simp: image_iff)
      with Cons.prems none k(2) k'(2) show ?thesis by (simp add: update_where_def)
    next
      case False
      with Cons show ?thesis by (auto simp: update_where_def)
    qed
  qed simp
  from this [OF assms(1) k(1)] show "length (open_submissions (decided_state approve admin reason k u s)) + 1 = length (open_submissions s)"
    by (simp add: open_submissions_def sub)
qed

lemma bulk_closes:
  "bulk_each approve admin reason is s = (ps, fs, t) \<Longrightarrow> distinct (map ks_id (au_submissions s)) \<Longrightarrow>
   length (open_submissions t) + length ps = length (open_submissions s)"
proof (induction "is" arbitrary: s ps fs)
  case (Cons i "is")
  from Cons.prems(1) show ?case
  proof (cases rule: bulk_each_cases)
    case (failed why fs')
    with Cons show ?thesis by blast
  next
    case (decided u k ps')
    with Cons.IH [OF decided(4)] decided_closes [OF Cons.prems(2) decided(2), of approve admin reason u] show ?thesis by simp
  qed
qed auto


text \<open>One user with one open submission.\<close>

definition plain_submission :: "string \<Rightarrow> submission_status \<Rightarrow> int \<Rightarrow> kyc_submission" where
  "plain_submission i st expires =
     \<lparr>ks_id = i, ks_user_id = ''u1'', ks_is_corporate = False,
      ks_company = \<lparr>cy_company_name = None, cy_registration_number = None, cy_articles_url = None\<rparr>, ks_documents = [],
      ks_expires_at = Some expires, ks_alert_30 = None, ks_alert_15 = None, ks_alert_3 = None, ks_status = st\<rparr>"

definition checked_state :: "kyc_submission list \<Rightarrow> auth_state" where
  "checked_state ks = (plain_state [plain_account] [])\<lparr>au_submissions := ks\<rparr>"

lemma checked_account: "account_by_id ''u1'' (checked_state ks) = Some plain_account" "account_by_id ''u2'' (checked_state ks) = None"
  by (simp_all add: checked_state_def plain_state_def account_by_id_def find_account_def find_one_def plain_account_def blank_account_def)


subsection \<open>The daily job\<close>

text \<open>A submission whose owner is to be reminded.\<close>

definition reminds :: "int \<Rightarrow> kyc_submission \<times> account option \<Rightarrow> bool" where
  "reminds now row \<longleftrightarrow> snd row \<noteq> None
     \<and> (case ks_expires_at (fst row) of None \<Rightarrow> False | Some e \<Rightarrow> 0 < days_until e now \<and> reminder_due (days_until e now) (fst row))"

lemma expire_each_stops:
  "list_all (\<lambda>row. \<not> reminds now row) rows \<Longrightarrow> reminds now row \<Longrightarrow>
   expire_each env now (rows @ row # others) s = (Inl (Internal ''ReferenceError: daysRemaining''), snd (expire_each env now rows s))"
proof (induction rows arbitrary: s)
  case Nil
  then show ?case by (cases row) (auto simp: reminds_def send_reminder_def and_then_def split: option.splits)
next
  case (Cons r rows)
  obtain k owner where r: "r = (k, owner)" by force
  show ?case
  proof (cases "ks_expires_at k")
    case None
    with Cons r show ?thesis by simp
  next
    case (Some e)
    consider (expired) "days_until e now \<le> 0" | (silent) "0 < days_until e now" "\<not> reminder_due (days_until e now) k"
      | (nobody) "0 < days_until e now" "reminder_due (days_until e now) k" "owner = None"
      using Cons.prems(1) Some r by (force simp: reminds_def)
    then show ?thesis
      by cases (use Cons r Some in \<open>simp_all add: send_reminder_def and_then_def\<close>)
  qed
qed

lemma handle_expiration_keeps:
  "x \<in> set (au_submissions s) \<Longrightarrow> ks_id x \<noteq> ks_id k \<Longrightarrow> x \<in> set (au_submissions (handle_expiration env k owner s))"
  by (auto simp: handle_expiration_def send_mail_def set_update_where split: option.split)

lemma expire_each_keeps:
  "x \<in> set (au_submissions s) \<Longrightarrow> ks_id x \<notin> (ks_id \<circ> fst) ` set rows \<Longrightarrow> x \<in> set (au_submissions (snd (expire_each env now rows s)))"
proof (induction rows arbitrary: s)
  case (Cons r rows)
  obtain k owner where r: "r = (k, owner)" by force
  have "x \<in> set (au_submissions (handle_expiration env k owner s))" using handle_expiration_keeps Cons.prems r by simp
  with Cons r show ?case by (auto simp: send_reminder_def and_then_def split: option.split)
qed simp

text \<open>
  C18: The first reminder ends the daily job (error). As soon as one approved submission is due for a reminder, the job
  throws there: nobody is reminded, and every approved submission after it stays approved however long its
  documents have expired. As the reminder is never recorded, the next runs end in the same way.
\<close>

theorem reminder_stops_the_expiry:
  assumes "distinct (map ks_id (au_submissions s))"
    and "find_where (\<lambda>k. ks_status k = SubApproved) (au_submissions s) = before @ k # after"
    and "reminds (now_ms s) (k, account_by_id (ks_user_id k) s)"
    and "list_all (\<lambda>x. \<not> reminds (now_ms s) (x, account_by_id (ks_user_id x) s)) before"
  shows "fst (check_kyc_expirations env s) = Inl (Internal ''ReferenceError: daysRemaining'')
    \<and> set (k # after) \<subseteq> set (au_submissions (snd (check_kyc_expirations env s)))"
proof -
  define owned where "owned x = (x, account_by_id (ks_user_id x) s)" for x :: kyc_submission
  have run: "check_kyc_expirations env s = expire_each env (now_ms s) (map owned before @ owned k # map owned after) s"
    by (simp add: check_kyc_expirations_def assms(2) owned_def [abs_def])
  have "list_all (\<lambda>row. \<not> reminds (now_ms s) row) (map owned before)" using assms(4) by (simp add: list_all_iff owned_def)
  then have eq: "check_kyc_expirations env s =
    (Inl (Internal ''ReferenceError: daysRemaining''), snd (expire_each env (now_ms s) (map owned before) s))"
    using expire_each_stops assms(3) unfolding run owned_def by blast
  have "distinct (map ks_id (before @ k # after))"
    using assms(1) unfolding assms(2) [symmetric] find_where_def by (rule distinct_map_filter)
  then have ids: "ks_id x \<notin> (ks_id \<circ> fst) ` set (map owned before)" if "x \<in> set (k # after)" for x
    using that by (auto simp: owned_def image_iff)
  have "x \<in> set (au_submissions s)" if "x \<in> set (k # after)" for x
  proof -
    have "x \<in> set (find_where (\<lambda>k. ks_status k = SubApproved) (au_submissions s))" using that assms(2) by auto
    then show ?thesis by (simp add: find_where_def)
  qed
  then have "set (k # after) \<subseteq> set (au_submissions (snd (expire_each env (now_ms s) (map owned before) s)))"
    using expire_each_keeps ids by blast
  with eq show ?thesis by simp
qed

theorem reminder_stops_the_expiry_witness:
  "fst (check_kyc_expirations (plain_service Map.empty)
      (checked_state [plain_submission ''k1'' SubApproved 864000000, plain_submission ''k2'' SubApproved 0]))
     = Inl (Internal ''ReferenceError: daysRemaining'')"
proof -
  define s where "s = checked_state [plain_submission ''k1'' SubApproved 864000000, plain_submission ''k2'' SubApproved 0]"
  have now: "now_ms s = 0" by (simp add: s_def checked_state_def plain_state_def now_ms_def auth_redis_def red_clock_def)
  have "distinct (map ks_id (au_submissions s))" by (simp add: s_def checked_state_def plain_submission_def)
  moreover have "find_where (\<lambda>k. ks_status k = SubApproved) (au_submissions s)
    = [] @ plain_submission ''k1'' SubApproved 864000000 # [plain_submission ''k2'' SubApproved 0]"
    by (simp add: s_def checked_state_def find_where_def plain_submission_def)
  moreover have "days_until 864000000 0 = 10" by (simp add: days_until_def div_js_def)
  then have "reminds 0 (plain_submission ''k1'' SubApproved 864000000, Some plain_account)"
    by (simp add: reminds_def plain_submission_def reminder_due_def kyc_reminder_days_def alert_sent_def)
  then have "reminds (now_ms s) (plain_submission ''k1'' SubApproved 864000000,
      account_by_id (ks_user_id (plain_submission ''k1'' SubApproved 864000000)) s)"
    unfolding now by (simp add: s_def plain_submission_def checked_account)
  ultimately show ?thesis
    using reminder_stops_the_expiry [of s "[]" "plain_submission ''k1'' SubApproved 864000000" "[plain_submission ''k2'' SubApproved 0]"]
    unfolding s_def by simp
qed

subsection \<open>The rules of countries\<close>

lemma highest_version_Some:
  assumes "highest_version rs = Some r"
  shows "r \<in> set rs" and "\<forall>x \<in> set rs. kr_version x \<le> kr_version r"
proof -
  from assms obtain rest where rest: "rev (sort_key kr_version rs) = r # rest" by (auto simp: highest_version_def split: list.splits)
  then have sorted: "sort_key kr_version rs = rev rest @ [r]" by (simp add: rev_eq_Cons_iff)
  have "set (sort_key kr_version rs) = set rs" by simp
  with sorted have set: "set rs = insert r (set rest)" by simp
  then show "r \<in> set rs" by simp
  have "sorted (map kr_version (rev rest @ [r]))" using sorted_sort_key [of kr_version rs] sorted by simp
  then show "\<forall>x \<in> set rs. kr_version x \<le> kr_version r" unfolding set by (auto simp: sorted_append)
qed

lemma highest_version_None: "highest_version rs = None \<longleftrightarrow> rs = []"
proof -
  have "length (rev (sort_key kr_version rs)) = length rs" by simp
  then show ?thesis unfolding highest_version_def by (cases "rev (sort_key kr_version rs)") auto
qed

lemma highest_version_unique:
  assumes "r \<in> set rs" "\<And>x. x \<in> set rs \<Longrightarrow> x \<noteq> r \<Longrightarrow> kr_version x < kr_version r"
  shows "highest_version rs = Some r"
proof (cases "highest_version rs")
  case None
  with assms(1) show ?thesis by (simp add: highest_version_None)
next
  case (Some x)
  from highest_version_Some [OF Some] assms show ?thesis using Some by (cases "x = r") (auto simp: not_less [symmetric])
qed

text \<open>
  A new rule is in force at once (functional). The rule that an administrator creates for a country is the one by
  which submissions of that country are judged and the one whose form is shown, whatever rules existed before,
  unless the country was given with blanks around it, which are not removed when the rule is stored.
\<close>

theorem new_rule_is_in_force:
  assumes "create_kyc_rule env dto actor rules = (Inr r, rules')" "js_trim (kd_country dto) = kd_country dto"
    and "sc_country d = kd_country dto" "sc_customer d = kd_customer dto"
  shows "get_active_rule (kd_country dto) (kd_customer dto) rules' = Some r
    \<and> validate_submission env' d rules' = rule_errors env' d r \<and> kr_required r = given (kd_required dto) []"
proof -
  define c where "c = ascii_upper (kd_country dto)"
  define older where "older = rules_of c (kd_customer dto) rules"
  have old: "\<exists>rules1. rules' = rules1 @ [r] \<and> kr_country r = c \<and> kr_customer r = kd_customer dto \<and> kr_active r
      \<and> kr_required r = given (kd_required dto) []
      \<and> (\<forall>x \<in> set (rules_of c (kd_customer dto) rules1). kr_version x < kr_version r)"
  proof (cases "highest_version older")
    case None
    then have "r = new_kyc_rule env dto actor 1" "rules' = rules @ [r]"
      using assms(1) unfolding create_kyc_rule_def c_def [symmetric] older_def [symmetric] by (auto simp: Let_def insert_row_def)
    moreover have "rules_of c (kd_customer dto) rules = []" using None by (simp add: highest_version_None older_def)
    ultimately show ?thesis by (simp add: new_kyc_rule_def c_def)
  next
    case (Some latest)
    define rules1 where "rules1 = (if kr_active latest then save_kyc_rule (latest\<lparr>kr_active := False\<rparr>) rules else rules)"
    note latest = highest_version_Some [OF Some]
    have eq: "r = new_kyc_rule env dto actor (kr_version latest + 1)" "rules' = rules1 @ [r]"
      using assms(1) Some unfolding create_kyc_rule_def c_def [symmetric] older_def [symmetric]
      by (auto simp: rules1_def Let_def insert_row_def)
    have "kr_version x \<le> kr_version latest" if "x \<in> set (rules_of c (kd_customer dto) rules1)" for x
    proof -
      from that have "x \<in> set older \<or> x = latest\<lparr>kr_active := False\<rparr>"
        by (auto simp: rules1_def older_def rules_of_def find_where_def save_kyc_rule_def update_where_def split: if_splits)
      with latest(2) show ?thesis by auto
    qed
    with eq show ?thesis by (auto simp: new_kyc_rule_def c_def less_Suc_eq_le)
  qed
  then obtain rules1 where r: "rules' = rules1 @ [r]" "kr_country r = c" "kr_customer r = kd_customer dto" "kr_active r"
      "kr_required r = given (kd_required dto) []" "\<And>x. x \<in> set (rules_of c (kd_customer dto) rules1) \<Longrightarrow> kr_version x < kr_version r"
    by blast
  have "get_active_rule (kd_country dto) (kd_customer dto) rules' = Some r"
    unfolding get_active_rule_def assms(2) c_def [symmetric]
    by (rule highest_version_unique) (use r in \<open>auto simp: rules_of_def find_where_def\<close>)
  with r(5) assms(3,4) show ?thesis by (simp add: validate_submission_def)
qed

text \<open>What a rule says about a selfie, a proof of address or the age of documents is never looked at.\<close>

lemma selfie_address_and_age_are_ignored:
  "rule_errors env d (r\<lparr>kr_proof_of_address := a, kr_selfie := b, kr_max_age_days := n\<rparr>) = rule_errors env d r"
  by (simp add: rule_errors_def)

text \<open>Without a country no rule is looked at, and no document is needed.\<close>

lemma no_country_no_rules: "\<not> present (sd_country d) \<Longrightarrow> rules_refuse env d = None"
  by (simp add: rules_refuse_def split: option.split)

end
