(* ===== verification/ThreatProps.thy ===== *)
theory ThreatProps
  imports SecurityThreat
begin

unbundle bit_operations_syntax

text \<open>
  What holds of the detection of attacks: the test of bad ranges of addresses against its definition by prefixes,
  and the life of the block of a subnet.
\<close>

subsection \<open>Ranges of addresses\<close>

text \<open>The same on natural numbers: two addresses agree in their first \<open>p\<close> bits.\<close>

definition same_prefix :: "nat \<Rightarrow> nat \<Rightarrow> nat \<Rightarrow> bool" where
  "same_prefix p a b \<longleftrightarrow> a div 2 ^ (32 - p) = b div 2 ^ (32 - p)"

definition address_of :: "threat_config \<Rightarrow> string \<Rightarrow> nat option" where
  "address_of cfg ip =
     (case map (octet_of cfg) (split_on CHR ''.'' ip) of
        [Some a, Some b, Some c, Some d] \<Rightarrow> Some (nat (16777216 * a + 65536 * b + 256 * c + d))
      | _ \<Rightarrow> None)"

definition range_of :: "threat_config \<Rightarrow> string \<Rightarrow> (nat \<times> nat) option" where
  "range_of cfg entry =
     (case split_on CHR ''/'' entry of
        [] \<Rightarrow> None
      | host # rest \<Rightarrow>
          (case (address_of cfg host, if rest = [] then Some 32 else tc_parse_int cfg (hd rest)) of
             (Some n, Some p) \<Rightarrow> if 0 \<le> p \<and> p \<le> 32 then Some (n, nat p) else None
           | _ \<Rightarrow> None))"

lemma octet_bounds: "octet_of cfg part = Some x \<Longrightarrow> 0 \<le> x \<and> x \<le> 255"
  by (auto simp: octet_of_def split: option.splits if_splits)

lemma join_octets_four:
  "join_octets cfg 0 [a, b, c, d] =
     (case (octet_of cfg a, octet_of cfg b, octet_of cfg c, octet_of cfg d) of
        (Some w, Some x, Some y, Some z) \<Rightarrow> Some (16777216 * w + 65536 * x + 256 * y + z)
      | _ \<Rightarrow> None)"
  by (simp split: option.split)

lemma four_parts: "length xs = 4 \<Longrightarrow> \<exists>a b c d. xs = [a, b, c, d]"
  by (auto simp: numeral_eq_Suc length_Suc_conv)

lemma unat_of_small_int: "0 \<le> n \<Longrightarrow> n < 2 ^ 32 \<Longrightarrow> unat (word_of_int n :: 32 word) = nat n"
  by (simp add: unsigned_of_int take_bit_int_eq_self)

lemma ipv4_to_long_address: "map_option unat (ipv4_to_long cfg ip) = address_of cfg ip"
proof (cases "length (split_on CHR ''.'' ip) = 4")
  case True
  then obtain a b c d where parts: "split_on CHR ''.'' ip = [a, b, c, d]" using four_parts by blast
  have fits: "unat (word_of_int (16777216 * w + 65536 * x + 256 * y + z) :: 32 word) = nat (16777216 * w + 65536 * x + 256 * y + z)"
    if "octet_of cfg a = Some w" "octet_of cfg b = Some x" "octet_of cfg c = Some y" "octet_of cfg d = Some z" for w x y z
  proof -
    have "0 \<le> 16777216 * w + 65536 * x + 256 * y + z" "16777216 * w + 65536 * x + 256 * y + z < 2 ^ 32"
      using that [THEN octet_bounds] by simp_all
    then show ?thesis by (rule unat_of_small_int)
  qed
  show ?thesis
    by (auto simp: ipv4_to_long_def address_of_def parts fits simp del: join_octets.simps of_int_add of_int_mult of_int_numeral
        simp add: join_octets_four split: option.splits)
next
  case False
  then have "address_of cfg ip = None"
    by (auto simp: address_of_def split: list.split option.split)
  with False show ?thesis by (simp add: ipv4_to_long_def)
qed

lemma mask_address_iff:
  assumes "p \<le> 32"
  shows "mask_address a p = mask_address b p \<longleftrightarrow> same_prefix p (unat a) (unat b)"
proof -
  define k where "k = 32 - p"
  have mask: "mask_address v p = push_bit k (drop_bit k v)" for v
  proof (cases "p = 0")
    case True
    then show ?thesis by (intro bit_word_eqI) (simp add: mask_address_def k_def bit_simps)
  next
    case False
    show ?thesis
      by (rule bit_word_eqI) (use False in \<open>auto simp: mask_address_def k_def bit_simps\<close>)
  qed
  have "mask_address a p = mask_address b p \<longleftrightarrow> drop_bit k a = drop_bit k b"
  proof -
    have "drop_bit k (push_bit k (drop_bit k v)) = drop_bit k v" for v :: "32 word"
      by (rule bit_word_eqI) (auto simp: bit_simps dest: bit_imp_le_length)
    then show ?thesis unfolding mask by metis
  qed
  also have "\<dots> \<longleftrightarrow> unat (drop_bit k a) = unat (drop_bit k b)" by (metis unsigned_word_eqI)
  also have "\<dots> \<longleftrightarrow> same_prefix p (unat a) (unat b)"
  proof -
    have "unat (drop_bit k v) = unat v div 2 ^ k" for v :: "32 word"
      by (subst unat_drop_bit_eq) (rule drop_bit_eq_div)
    then show ?thesis by (simp only: same_prefix_def k_def)
  qed
  finally show ?thesis .
qed

lemma same_prefix_masked:
  assumes "p \<le> 32"
  shows "mask_address a p = mask_address (mask_address b p) p \<longleftrightarrow> same_prefix p (unat a) (unat b)"
proof -
  have "mask_address (mask_address b p) p = mask_address b p"
    by (rule bit_word_eqI) (auto simp: mask_address_def bit_simps)
  then show ?thesis by (simp only: mask_address_iff [OF assms, of a b])
qed

lemma parse_cidr_range:
  "parse_cidr cfg entry = map_option (\<lambda>(n, p). (mask_address (word_of_nat n) p, p)) (range_of cfg entry)"
proof (cases "split_on CHR ''/'' entry")
  case (Cons host rest)
  have long: "ipv4_to_long cfg host = map_option word_of_nat (address_of cfg host)"
    unfolding ipv4_to_long_address [symmetric] by (cases "ipv4_to_long cfg host") simp_all
  show ?thesis
    by (auto simp: parse_cidr_def range_of_def Cons long not_le Let_def split: option.split)
qed simp

lemma no_empty_range: "range_of cfg [] = None"
  by (cases "octet_of cfg []") (simp_all add: range_of_def address_of_def)

lemma address_small: "address_of cfg ip = Some n \<Longrightarrow> unat (word_of_nat n :: 32 word) = n"
  unfolding ipv4_to_long_address [symmetric] by auto

lemma range_small: "range_of cfg entry = Some (n, p) \<Longrightarrow> unat (word_of_nat n :: 32 word) = n"
  by (auto simp: range_of_def split: list.splits option.splits if_splits intro: address_small)

lemma range_width: "range_of cfg entry = Some (n, p) \<Longrightarrow> p \<le> 32"
  by (auto simp: range_of_def split: list.splits option.splits if_splits)

lemma list_ex_ranges:
  "list_ex P (List.map_filter f (filter (\<lambda>e. e \<noteq> []) (map g xs))) = list_ex (\<lambda>x. case f (g x) of None \<Rightarrow> False | Some y \<Rightarrow> P y) xs"
  if "f [] = None"
  using that by (induction xs) (auto simp: List.map_filter_simps split: option.split)

lemma range_matches:
  "(case parse_cidr cfg entry of None \<Rightarrow> False | Some (n, p) \<Rightarrow> mask_address a p = mask_address n p) =
   (case range_of cfg entry of None \<Rightarrow> False | Some (n, p) \<Rightarrow> same_prefix p (unat a) n)"
proof (cases "range_of cfg entry")
  case (Some range)
  obtain n p where range: "range = (n, p)" by force
  show ?thesis
    using same_prefix_masked [OF range_width, of cfg entry n p a "word_of_nat n"] range_small [of cfg entry n p] Some range
    by (simp add: parse_cidr_range)
qed (simp add: parse_cidr_range)

text \<open>
  C16: The test of bad ranges is the match of prefixes (equivalence). An address of version four, read as a number, is in
  a bad range exactly when it agrees with the network of one of the configured ranges in as many leading bits as the
  range says; entries that are no ranges match nothing, and a range of width zero matches every address.
\<close>

theorem bad_range_is_prefix_match:
  "is_in_bad_range cfg ip =
     (case address_of cfg ip of
        None \<Rightarrow> False
      | Some a \<Rightarrow> list_ex (\<lambda>entry. case range_of cfg (js_trim entry) of None \<Rightarrow> False | Some (n, p) \<Rightarrow> same_prefix p a n)
                   (split_on CHR '','' (tc_bad_ranges cfg)))"
proof (cases "ipv4_to_long cfg ip")
  case None
  then show ?thesis using ipv4_to_long_address [of cfg ip] by (simp add: is_in_bad_range_def)
next
  case (Some a)
  have "parse_cidr cfg [] = None" by (simp add: parse_cidr_range no_empty_range)
  moreover have "address_of cfg ip = Some (unat a)" using ipv4_to_long_address [of cfg ip] Some by simp
  ultimately show ?thesis
    using Some by (simp add: is_in_bad_range_def parse_bad_ranges_def list_ex_ranges range_matches)
qed

subsection \<open>The block of a subnet\<close>

text \<open>
  The service runs one request after the other, with Redis open or not; keys of rows come from the generator \<open>ids\<close>.
  A start of the service puts the approved blocks into the set again. At first there are no rows and the set is
  empty.
\<close>

inductive threat_step :: "(nat \<Rightarrow> string) \<Rightarrow> threat_state \<Rightarrow> threat_state \<Rightarrow> bool" for ids :: "nat \<Rightarrow> string" where
  wait: "threat_step ids s (s\<lparr>th_redis := (th_redis s)\<lparr>rs_keys := advance d (rs_keys (th_redis s))\<rparr>\<rparr>)"
| failed: "tc_block_id cfg = ids \<Longrightarrow> threat_step ids s (record_failed_login cfg e ip c s)"
| risk: "threat_step ids s (snd (evaluate_behavioral_risk cfg r u why s))"
| approve: "threat_step ids s (snd (approve_block cfg i admin s))"
| lift: "threat_step ids s (snd (lift_block cfg i s))"
| start: "threat_step ids s (reseed_denied cfg s)"

definition threat_reachable :: "(nat \<Rightarrow> string) \<Rightarrow> threat_state \<Rightarrow> bool" where
  "threat_reachable ids s \<longleftrightarrow> (\<exists>s0. th_blocks s0 = [] \<and> rs_denied (th_redis s0) = [] \<and> (threat_step ids)\<^sup>*\<^sup>* s0 s)"

definition about_subnet :: "string \<Rightarrow> security_block \<Rightarrow> bool" where
  "about_subnet cidr b \<longleftrightarrow> sb_cidr b = cidr \<and> sb_type b \<in> {SubnetPending, SubnetActive}"

text \<open>A failed login adds rows one by one; a row about a subnet is a proposal for a subnet without a row.\<close>

inductive adds_row :: "(nat \<Rightarrow> string) \<Rightarrow> threat_state \<Rightarrow> threat_state \<Rightarrow> bool" for ids :: "nat \<Rightarrow> string" where
  same: "th_blocks t = th_blocks s \<Longrightarrow> rs_denied (th_redis t) = rs_denied (th_redis s) \<Longrightarrow> adds_row ids s t"
| row: "th_blocks t = th_blocks s @ [b] \<Longrightarrow> rs_denied (th_redis t) = rs_denied (th_redis s) \<Longrightarrow> sb_id b = ids (length (th_blocks s))
    \<Longrightarrow> sb_type b \<noteq> SubnetActive \<Longrightarrow> (sb_type b = SubnetPending \<longrightarrow> \<not> list_ex (about_subnet (sb_cidr b)) (th_blocks s)) \<Longrightarrow> adds_row ids s t"

abbreviation adds_rows :: "(nat \<Rightarrow> string) \<Rightarrow> threat_state \<Rightarrow> threat_state \<Rightarrow> bool" where
  "adds_rows ids \<equiv> (adds_row ids)\<^sup>*\<^sup>*"

lemma adds_same: "th_blocks t = th_blocks s \<Longrightarrow> rs_denied (th_redis t) = rs_denied (th_redis s) \<Longrightarrow> adds_rows ids s t"
  by (blast intro: adds_row.same)

lemma redis_denied [simp]:
  "rs_denied (red_setex k n v r) = rs_denied r" "rs_denied (snd (set_if_absent c k n r)) = rs_denied r"
  "rs_denied (s_add c k m n r) = rs_denied r" "rs_denied (snd (incr_with_ttl c k n r)) = rs_denied r"
  by (simp_all add: red_setex_def set_if_absent_def s_add_def incr_with_ttl_def Let_def split: prod.split)

lemma threat_frames [simp]:
  "th_blocks (alert_security_team a b s) = th_blocks s" "th_redis (alert_security_team a b s) = th_redis s"
  "th_blocks (set_mark n a d s) = th_blocks s" "rs_denied (th_redis (set_mark n a d s)) = rs_denied (th_redis s)"
  by (simp_all add: alert_security_team_def set_mark_def)

lemma persist_adds:
  assumes "tc_block_id cfg = ids" "ty \<noteq> SubnetActive" "ty = SubnetPending \<longrightarrow> \<not> list_ex (about_subnet cidr) (th_blocks s)"
  shows "adds_row ids s (persist_block cfg ty cidr why e s)"
  by (rule adds_row.row, simp add: persist_block_def insert_row_def) (use assms in \<open>simp_all add: persist_block_def insert_row_def\<close>)

lemma escalate_email_adds:
  assumes "tc_block_id cfg = ids"
  shows "adds_rows ids s (escalate_targeted_email cfg e s)"
proof (cases "set_if_absent (tc_client cfg) (''sec:escalated:email:'' @ e) 3600 (th_redis s)")
  case (Pair fresh r)
  have r: "rs_denied r = rs_denied (th_redis s)"
    using redis_denied(2) [of "tc_client cfg" "''sec:escalated:email:'' @ e" 3600 "th_redis s"] unfolding Pair by simp
  define s1 where "s1 = set_mark ''sec:captcha:'' e 1800 (set_mark ''sec:ratelimit:'' e 3600 (s\<lparr>th_redis := r\<rparr>))"
  define s2 where "s2 = persist_block cfg EmailRateLimit e ''distributed_credential_stuffing'' (after_seconds 3600 s) s1"
  define s3 where "s3 = persist_block cfg CaptchaEmail e ''distributed_credential_stuffing'' (after_seconds 1800 s) s2"
  have "adds_rows ids s s1" using r by (intro adds_same) (simp_all add: s1_def)
  also have "adds_row ids s1 s2" unfolding s2_def by (rule persist_adds [OF assms]) simp_all
  also have "adds_row ids s2 s3" unfolding s3_def by (rule persist_adds [OF assms]) simp_all
  also have "adds_row ids s3 (alert_security_team ''targeted_email_attack'' e s3)" by (rule adds_row.same) simp_all
  finally have "adds_rows ids s (alert_security_team ''targeted_email_attack'' e s3)" .
  moreover have "adds_rows ids s (s\<lparr>th_redis := r\<rparr>)" using r by (intro adds_same) simp_all
  ultimately show ?thesis
    unfolding escalate_targeted_email_def Pair Let_def prod.case s1_def [symmetric] s2_def [symmetric] s3_def [symmetric] by simp
qed

lemma escalate_geo_adds:
  assumes "tc_block_id cfg = ids"
  shows "adds_rows ids s (escalate_geo_anomaly cfg e s)"
proof (cases "set_if_absent (tc_client cfg) (''sec:escalated:geo:'' @ e) 3600 (th_redis s)")
  case (Pair fresh r)
  have r: "rs_denied r = rs_denied (th_redis s)"
    using redis_denied(2) [of "tc_client cfg" "''sec:escalated:geo:'' @ e" 3600 "th_redis s"] unfolding Pair by simp
  define s1 where "s1 = set_mark ''sec:captcha:'' e 1800 (s\<lparr>th_redis := r\<rparr>)"
  define s2 where "s2 = persist_block cfg CaptchaEmail e ''unusual_geo_distribution'' (after_seconds 1800 s) s1"
  have "adds_rows ids s s1" using r by (intro adds_same) (simp_all add: s1_def)
  also have "adds_row ids s1 s2" unfolding s2_def by (rule persist_adds [OF assms]) simp_all
  also have "adds_row ids s2 (alert_security_team ''geo_anomaly'' e s2)" by (rule adds_row.same) simp_all
  finally have "adds_rows ids s (alert_security_team ''geo_anomaly'' e s2)" .
  moreover have "adds_rows ids s (s\<lparr>th_redis := r\<rparr>)" using r by (intro adds_same) simp_all
  ultimately show ?thesis
    unfolding escalate_geo_anomaly_def Pair Let_def prod.case s1_def [symmetric] s2_def [symmetric] by simp
qed

lemma propose_adds:
  assumes "tc_block_id cfg = ids"
  shows "adds_rows ids s (propose_subnet_block cfg n s)"
proof -
  define s1 where "s1 = persist_block cfg SubnetPending n ''credential_stuffing'' None s"
  have "adds_row ids s s1" if "\<not> list_ex (about_subnet n) (th_blocks s)"
    unfolding s1_def by (rule persist_adds [OF assms]) (use that in simp_all)
  moreover have "adds_row ids s1 (alert_security_team ''subnet_block_proposed'' n s1)" by (rule adds_row.same) simp_all
  moreover have "propose_subnet_block cfg n s =
    (if list_ex (about_subnet n) (th_blocks s) then s else alert_security_team ''subnet_block_proposed'' n s1)"
    by (simp add: propose_subnet_block_def s1_def about_subnet_def [abs_def])
  ultimately show ?thesis by (cases "list_ex (about_subnet n) (th_blocks s)") auto
qed

lemma note_address_adds:
  assumes "tc_block_id cfg = ids"
  shows "adds_rows ids s (note_address cfg e ip s)"
proof -
  define s1 where "s1 = s\<lparr>th_redis := s_add (tc_client cfg) (''sec:login:ips:'' @ e) ip 3600 (th_redis s)\<rparr>"
  have a: "adds_rows ids s s1" by (rule adds_same) (simp_all add: s1_def)
  with rtranclp_trans [OF a escalate_email_adds [OF assms]] show ?thesis unfolding note_address_def Let_def s1_def [symmetric] by simp
qed

lemma note_country_adds:
  assumes "tc_block_id cfg = ids"
  shows "adds_rows ids s (note_country cfg e c s)"
proof -
  define s1 where "s1 = s\<lparr>th_redis := s_add (tc_client cfg) (''sec:geo:'' @ e) (ascii_upper c) 3600 (th_redis s)\<rparr>"
  have a: "adds_rows ids s s1" by (rule adds_same) (simp_all add: s1_def)
  with rtranclp_trans [OF a escalate_geo_adds [OF assms]] show ?thesis unfolding note_country_def Let_def s1_def [symmetric] by simp
qed

lemma note_subnet_adds:
  assumes "tc_block_id cfg = ids"
  shows "adds_rows ids s (note_subnet cfg ip s)"
proof (cases "ipv4_subnet16 ip")
  case (Some n)
  obtain m r where m: "incr_with_ttl (tc_client cfg) (''sec:fail:subnet:'' @ n) 600 (th_redis s) = (m, r)" by force
  have "rs_denied r = rs_denied (th_redis s)"
    using redis_denied(4) [of "tc_client cfg" "''sec:fail:subnet:'' @ n" 600 "th_redis s"] unfolding m by simp
  then have a: "adds_rows ids s (s\<lparr>th_redis := r\<rparr>)" by (intro adds_same) simp_all
  with rtranclp_trans [OF a propose_adds [OF assms]] show ?thesis unfolding note_subnet_def Some option.case m prod.case by simp
qed (simp add: note_subnet_def)

lemma record_failed_adds:
  assumes "tc_block_id cfg = ids"
  shows "adds_rows ids s (record_failed_login cfg e ip c s)"
proof -
  define s1 where "s1 = (if present ip then note_subnet cfg (the ip) (note_address cfg (norm_email e) (the ip) s) else s)"
  have a: "adds_rows ids s s1"
    unfolding s1_def using rtranclp_trans [OF note_address_adds [OF assms] note_subnet_adds [OF assms]] by simp
  with rtranclp_trans [OF a note_country_adds [OF assms]] show ?thesis unfolding record_failed_login_def Let_def s1_def [symmetric] by simp
qed

text \<open>Keys are distinct, and a subnet has at most one row.\<close>

definition subnet_row :: "security_block \<Rightarrow> bool" where
  "subnet_row b \<longleftrightarrow> sb_type b \<in> {SubnetPending, SubnetActive}"

definition rows_ok :: "(nat \<Rightarrow> string) \<Rightarrow> security_block list \<Rightarrow> bool" where
  "rows_ok ids bs \<longleftrightarrow> distinct (map sb_id bs) \<and> sb_id ` set bs \<subseteq> ids ` {..<length bs} \<and> distinct (map sb_cidr (filter subnet_row bs))"

definition lifted :: "string \<Rightarrow> threat_state \<Rightarrow> bool" where
  "lifted cidr s \<longleftrightarrow> list_ex (about_subnet cidr) (th_blocks s)
     \<and> (\<forall>b \<in> set (th_blocks s). about_subnet cidr b \<longrightarrow> sb_type b = SubnetActive \<and> \<not> sb_active b)
     \<and> cidr \<notin> set (rs_denied (th_redis s))"

lemma rows_ok_add:
  assumes "inj ids" "rows_ok ids bs" "sb_id b = ids (length bs)" "sb_type b \<noteq> SubnetActive"
    and "sb_type b = SubnetPending \<longrightarrow> \<not> list_ex (about_subnet (sb_cidr b)) bs"
  shows "rows_ok ids (bs @ [b])"
proof -
  have "ids (length bs) \<notin> ids ` {..<length bs}" using assms(1) by (auto dest: injD)
  with assms show ?thesis
    by (auto simp: rows_ok_def subnet_row_def about_subnet_def list_ex_iff less_Suc_eq)
qed

lemma adds_row_ok: "adds_row ids s t \<Longrightarrow> inj ids \<Longrightarrow> rows_ok ids (th_blocks s) \<Longrightarrow> rows_ok ids (th_blocks t)"
  by (induction rule: adds_row.induct) (simp_all add: rows_ok_add)

lemma adds_rows_ok: "adds_rows ids s t \<Longrightarrow> inj ids \<Longrightarrow> rows_ok ids (th_blocks s) \<Longrightarrow> rows_ok ids (th_blocks t)"
  by (induction rule: rtranclp_induct) (auto intro: adds_row_ok)

lemma adds_row_lifted: "adds_row ids s t \<Longrightarrow> lifted cidr s \<Longrightarrow> lifted cidr t"
proof (induction rule: adds_row.induct)
  case (row t s b)
  have "\<not> about_subnet cidr b"
    using row.hyps(4,5) row.prems by (auto simp: lifted_def about_subnet_def)
  with row show ?case by (auto simp: lifted_def)
qed (simp add: lifted_def)

lemma adds_rows_lifted: "adds_rows ids s t \<Longrightarrow> lifted cidr s \<Longrightarrow> lifted cidr t"
  by (induction rule: rtranclp_induct) (auto intro: adds_row_lifted)

text \<open>Rows that are saved keep key, text and what they are about.\<close>

definition same_row :: "security_block \<Rightarrow> security_block \<Rightarrow> bool" where
  "same_row b b' \<longleftrightarrow> sb_id b' = sb_id b \<and> sb_cidr b' = sb_cidr b \<and> subnet_row b' = subnet_row b"

lemma find_blockD: "find_block i s = Some b \<Longrightarrow> b \<in> set (th_blocks s) \<and> sb_id b = i"
  by (auto simp: find_block_def dest: find_one_SomeD)

lemma save_block_ok:
  assumes "rows_ok ids (th_blocks s)" "b \<in> set (th_blocks s)" "same_row b b'"
  shows "rows_ok ids (th_blocks (save_block b' s))"
proof -
  define h where "h x = (sb_id x, sb_cidr x, subnet_row x)" for x
  have rows: "th_blocks (save_block b' s) = update_where (\<lambda>x. sb_id x = sb_id b) (\<lambda>_. b') (th_blocks s)"
    using assms(3) by (simp add: save_block_def same_row_def)
  have h: "map h (th_blocks (save_block b' s)) = map h (th_blocks s)"
    unfolding rows by (rule map_update_key [where k = sb_id]) (use assms in \<open>auto simp: rows_ok_def h_def same_row_def\<close>)
  have "rows_ok ids bs = (distinct (map fst (map h bs)) \<and> fst ` set (map h bs) \<subseteq> ids ` {..<length (map h bs)}
      \<and> distinct (map (fst \<circ> snd) (filter (snd \<circ> snd) (map h bs))))" for bs
    by (simp add: rows_ok_def h_def filter_map o_def image_image)
  then show ?thesis using assms(1) h by metis
qed

lemma save_block_lifted:
  assumes "rows_ok ids (th_blocks s)" "lifted cidr s" "b \<in> set (th_blocks s)" "same_row b b'"
    and "about_subnet cidr b' \<Longrightarrow> sb_type b' = SubnetActive \<and> \<not> sb_active b'"
  shows "lifted cidr (save_block b' s)"
proof -
  have same: "about_subnet cidr b' = about_subnet cidr b" using assms(4) by (auto simp: same_row_def about_subnet_def subnet_row_def)
  have rows: "th_blocks (save_block b' s) = update_where (\<lambda>x. sb_id x = sb_id b) (\<lambda>_. b') (th_blocks s)"
    using assms(4) by (simp add: save_block_def same_row_def)
  have all: "\<forall>x \<in> set (th_blocks (save_block b' s)). about_subnet cidr x \<longrightarrow> sb_type x = SubnetActive \<and> \<not> sb_active x"
    using assms(2,5) unfolding rows by (auto simp: lifted_def set_update_where)
  obtain x where x: "x \<in> set (th_blocks s)" "about_subnet cidr x" using assms(2) by (auto simp: lifted_def list_ex_iff)
  have "b' \<in> set (th_blocks (save_block b' s))" using assms(3) unfolding rows set_update_where by auto
  moreover have "x \<in> set (th_blocks (save_block b' s))" if "sb_id x \<noteq> sb_id b" using that x(1) unfolding rows set_update_where by auto
  moreover have "x = b" if "sb_id x = sb_id b" using that x(1) assms(1,3) by (auto simp: rows_ok_def distinct_map dest: inj_onD)
  ultimately have "list_ex (about_subnet cidr) (th_blocks (save_block b' s))" using x same by (auto simp: list_ex_iff)
  with all assms(2) show ?thesis by (simp add: lifted_def save_block_def)
qed

text \<open>What the requests do to rows and set.\<close>

lemma drop_mark_frame [simp]:
  "th_blocks (snd (drop_mark cfg n b s)) = th_blocks s" "rs_denied (th_redis (snd (drop_mark cfg n b s))) = rs_denied (th_redis s)"
  by (simp_all add: drop_mark_def red_del_def split: redis_client_state.split)

lemma deny_set_frame [simp]:
  "th_blocks (add_to_deny_set cfg c s) = th_blocks s" "th_blocks (remove_from_deny_set cfg c s) = th_blocks s"
  by (simp_all add: add_to_deny_set_def remove_from_deny_set_def)

lemma lifted_frame:
  "lifted cidr s \<Longrightarrow> th_blocks t = th_blocks s \<Longrightarrow> set (rs_denied (th_redis t)) \<subseteq> set (rs_denied (th_redis s)) \<Longrightarrow> lifted cidr t"
  by (auto simp: lifted_def)

lemma approve_cases:
  obtains (nothing) "snd (approve_block cfg i admin s) = s"
    | (approved) b where "b \<in> set (th_blocks s)" "sb_type b = SubnetPending"
        "snd (approve_block cfg i admin s) = add_to_deny_set cfg (sb_cidr b) (save_block (b\<lparr>sb_type := SubnetActive, sb_approved_by := Some admin\<rparr>) s)"
proof (cases "find_block i s")
  case (Some b)
  then show ?thesis
    using find_blockD [OF Some] by (cases "sb_type b = SubnetPending") (auto simp: approve_block_def Let_def intro: that)
qed (auto simp: approve_block_def intro: that)

lemma lift_cases:
  obtains (nothing) "snd (lift_block cfg i s) = s"
    | (lifted) b where "find_block i s = Some b" "th_blocks (snd (lift_block cfg i s)) = th_blocks (save_block (b\<lparr>sb_active := False\<rparr>) s)"
        "set (rs_denied (th_redis (snd (lift_block cfg i s)))) \<subseteq> set (rs_denied (th_redis s))"
proof (cases "find_block i s")
  case (Some b)
  have "th_blocks (snd (lift_block cfg i s)) = th_blocks (save_block (b\<lparr>sb_active := False\<rparr>) s)"
    "set (rs_denied (th_redis (snd (lift_block cfg i s)))) \<subseteq> set (rs_denied (th_redis s))"
    using Some by (auto simp: lift_block_def Let_def remove_from_deny_set_def save_block_def split: block_type.split)
  with Some show ?thesis by (rule that(2))
qed (auto simp: lift_block_def intro: that)

lemma same_row_flags:
  "sb_type b = SubnetPending \<Longrightarrow> same_row b (b\<lparr>sb_type := SubnetActive, sb_approved_by := a\<rparr>)" "same_row b (b\<lparr>sb_active := x\<rparr>)"
  by (simp_all add: same_row_def subnet_row_def)

lemma reseed_blocks [simp]: "th_blocks (reseed_denied cfg s) = th_blocks s"
proof -
  have "th_blocks (foldl (\<lambda>t b. add_to_deny_set cfg (sb_cidr b) t) s bs) = th_blocks s" for bs
    by (induction bs arbitrary: s) simp_all
  then show ?thesis by (simp add: reseed_denied_def)
qed

lemma reseed_denies:
  "set (rs_denied (th_redis (reseed_denied cfg s))) \<subseteq>
   set (rs_denied (th_redis s)) \<union> {sb_cidr b |b. b \<in> set (th_blocks s) \<and> sb_type b = SubnetActive \<and> sb_active b}"
proof -
  have "set (rs_denied (th_redis (foldl (\<lambda>t b. add_to_deny_set cfg (sb_cidr b) t) s bs))) \<subseteq> set (rs_denied (th_redis s)) \<union> sb_cidr ` set bs" for bs
  proof (induction bs arbitrary: s)
    case (Cons b bs)
    from Cons [of "add_to_deny_set cfg (sb_cidr b) s"] show ?case by (auto simp: add_to_deny_set_def split: if_splits)
  qed simp
  from this [of "find_where (\<lambda>b. sb_type b = SubnetActive \<and> sb_active b) (th_blocks s)"] show ?thesis
    by (auto simp: reseed_denied_def find_where_def)
qed

lemma risk_frame [simp]:
  "th_blocks (snd (evaluate_behavioral_risk cfg r u why s)) = th_blocks s"
  "rs_denied (th_redis (snd (evaluate_behavioral_risk cfg r u why s))) = rs_denied (th_redis s)"
  by (simp_all add: evaluate_behavioral_risk_def Let_def)

lemma threat_step_ok: "threat_step ids s t \<Longrightarrow> inj ids \<Longrightarrow> rows_ok ids (th_blocks s) \<Longrightarrow> rows_ok ids (th_blocks t)"
proof (induction rule: threat_step.induct)
  case (failed cfg s e ip c)
  then show ?case by (blast intro: adds_rows_ok record_failed_adds)
next
  case (approve s cfg i admin)
  show ?case
    by (rule approve_cases [of cfg i admin s]) (use approve in \<open>simp_all add: save_block_ok same_row_flags\<close>)
next
  case (lift s cfg i)
  show ?case
    by (rule lift_cases [of cfg i s]) (use lift in \<open>auto dest: find_blockD intro: save_block_ok same_row_flags\<close>)
qed simp_all

lemma threat_step_lifted:
  "threat_step ids s t \<Longrightarrow> rows_ok ids (th_blocks s) \<Longrightarrow> lifted cidr s \<Longrightarrow> lifted cidr t"
proof (induction rule: threat_step.induct)
  case (wait s d)
  from wait.prems(2) show ?case by (rule lifted_frame) simp_all
next
  case (failed cfg s e ip c)
  then show ?case by (blast intro: adds_rows_lifted record_failed_adds)
next
  case (risk s cfg r u why)
  from risk.prems(2) show ?case by (rule lifted_frame) simp_all
next
  case (approve s cfg i admin)
  show ?case
  proof (cases rule: approve_cases [of cfg i admin s])
    case (approved b)
    then have other: "sb_cidr b \<noteq> cidr" using approve.prems(2) by (auto simp: lifted_def about_subnet_def)
    define b' where "b' = b\<lparr>sb_type := SubnetActive, sb_approved_by := Some admin\<rparr>"
    have "lifted cidr (save_block b' s)"
      by (rule save_block_lifted [OF approve.prems approved(1)])
         (use other approved(2) in \<open>simp_all add: b'_def same_row_flags about_subnet_def\<close>)
    then show ?thesis unfolding approved(3) b'_def [symmetric] using other by (auto simp: lifted_def add_to_deny_set_def)
  qed (use approve in simp)
next
  case (lift s cfg i)
  show ?case
  proof (cases rule: lift_cases [of cfg i s])
    case (lifted b)
    have b: "b \<in> set (th_blocks s)" using find_blockD [OF lifted(1)] by simp
    then have "about_subnet cidr b \<Longrightarrow> sb_type b = SubnetActive" using lift.prems(2) by (auto simp: lifted_def)
    then have "lifted cidr (save_block (b\<lparr>sb_active := False\<rparr>) s)"
      by (intro save_block_lifted [OF lift.prems b same_row_flags(2)]) (auto simp: about_subnet_def)
    then show ?thesis by (rule lifted_frame) (use lifted in \<open>simp_all add: save_block_def\<close>)
  qed (use lift in simp)
next
  case (start s cfg)
  then show ?case using reseed_denies [of cfg s] by (auto simp: lifted_def about_subnet_def)
qed

lemma threat_steps_ok: "(threat_step ids)\<^sup>*\<^sup>* s t \<Longrightarrow> inj ids \<Longrightarrow> rows_ok ids (th_blocks s) \<Longrightarrow> rows_ok ids (th_blocks t)"
  by (induction rule: rtranclp_induct) (auto intro: threat_step_ok)

lemma threat_steps_lifted:
  "(threat_step ids)\<^sup>*\<^sup>* s t \<Longrightarrow> inj ids \<Longrightarrow> rows_ok ids (th_blocks s) \<Longrightarrow> lifted cidr s \<Longrightarrow> lifted cidr t"
proof (induction rule: rtranclp_induct)
  case (step y z)
  then show ?case using threat_step_lifted [OF step.hyps(2) threat_steps_ok [OF step.hyps(1)]] by blast
qed

lemma threat_reachable_ok: "threat_reachable ids s \<Longrightarrow> inj ids \<Longrightarrow> rows_ok ids (th_blocks s)"
  unfolding threat_reachable_def using threat_steps_ok by (fastforce simp: rows_ok_def)

lemma lift_lifts:
  assumes "rows_ok ids (th_blocks s)" "lift_block cfg i s = (Inr b, s1)" "sb_type b = SubnetActive" "tc_client cfg = RedisOpen"
  shows "lifted (sb_cidr b) s1"
proof -
  obtain b0 where b0: "find_block i s = Some b0" using assms(2) by (cases "find_block i s") (auto simp: lift_block_def)
  have b: "b = b0\<lparr>sb_active := False\<rparr>" "sb_type b0 = SubnetActive" "sb_cidr b = sb_cidr b0"
    and s1: "s1 = remove_from_deny_set cfg (sb_cidr b) (save_block b s)"
    using assms(2,3) b0 by (auto simp: lift_block_def Let_def drop_mark_def split: block_type.splits redis_client_state.splits)
  note in0 = find_blockD [OF b0]
  have rows: "th_blocks s1 = update_where (\<lambda>x. sb_id x = sb_id b0) (\<lambda>_. b) (th_blocks s)" using b(1) by (simp add: s1 save_block_def)
  have only: "x = b0" if "x \<in> set (th_blocks s)" "about_subnet (sb_cidr b0) x" for x
  proof -
    have "inj_on sb_cidr (set (filter subnet_row (th_blocks s)))" using assms(1) by (simp add: rows_ok_def distinct_map)
    moreover have "x \<in> set (filter subnet_row (th_blocks s))" "b0 \<in> set (filter subnet_row (th_blocks s))" "sb_cidr x = sb_cidr b0"
      using that in0 b(2) by (simp_all add: about_subnet_def subnet_row_def)
    ultimately show ?thesis by (auto dest: inj_onD)
  qed
  have "b \<in> set (th_blocks s1)" using in0 unfolding rows set_update_where by auto
  moreover have "about_subnet (sb_cidr b) b" using b by (simp add: about_subnet_def)
  moreover have "\<forall>x \<in> set (th_blocks s1). about_subnet (sb_cidr b) x \<longrightarrow> x = b"
    using only b(3) unfolding rows by (auto simp: set_update_where)
  moreover have "sb_cidr b \<notin> set (rs_denied (th_redis s1))" using assms(4) by (simp add: s1 remove_from_deny_set_def)
  moreover have "\<not> sb_active b" using b(1) by simp
  ultimately show ?thesis unfolding lifted_def list_ex_iff using assms(3) by blast
qed

lemma lifted_not_denied: "lifted cidr s \<Longrightarrow> \<not> denied_subnet cfg cidr s"
  by (auto simp: lifted_def denied_subnet_def active_subnet_def about_subnet_def list_ex_iff)


text \<open>One failed login is enough for a proposal, which is approved and lifted.\<close>

definition one_strike :: threat_config where
  "one_strike =
     \<lparr>tc_number = (\<lambda>_. None), tc_parse_int = (\<lambda>_. None), tc_distinct_ips = 5, tc_subnet_fails = 1, tc_geo_countries = 3,
      tc_captcha_score = 1, tc_block_score = 1, tc_bad_ranges = [], tc_captcha_secret = None, tc_captcha_answer = (\<lambda>_ _. True),
      tc_client = RedisOpen, tc_block_id = (\<lambda>n. replicate n CHR ''b'')\<rparr>"

definition quiet_threats :: threat_state where
  "quiet_threats =
     \<lparr>th_redis = \<lparr>rs_keys = \<lparr>entries = Map.empty, clock = 0\<rparr>, rs_sets = Map.empty, rs_counts = Map.empty, rs_denied = []\<rparr>,
      th_blocks = [], th_alerts = []\<rparr>"

definition struck :: threat_state where
  "struck = snd (approve_block one_strike [] ''adm'' (record_failed_login one_strike ''a'' (Some ''1.2.3.4'') None quiet_threats))"

lemma struck_reachable: "threat_reachable (\<lambda>n. replicate n CHR ''b'') struck"
proof -
  define s where "s = record_failed_login one_strike ''a'' (Some ''1.2.3.4'') None quiet_threats"
  have "threat_step (\<lambda>n. replicate n CHR ''b'') quiet_threats s"
    unfolding s_def by (rule threat_step.failed) (simp add: one_strike_def)
  moreover have "threat_step (\<lambda>n. replicate n CHR ''b'') s struck"
    unfolding struck_def s_def [symmetric] by (rule threat_step.approve)
  ultimately have "(threat_step (\<lambda>n. replicate n CHR ''b''))\<^sup>*\<^sup>* quiet_threats struck" by (meson converse_rtranclp_into_rtranclp r_into_rtranclp)
  then show ?thesis unfolding threat_reachable_def by (intro exI [of _ quiet_threats]) (simp add: quiet_threats_def)
qed

lemma struck_row:
  "find_block [] struck = Some \<lparr>sb_id = [], sb_type = SubnetActive, sb_cidr = ''1.2.0.0/16'', sb_reason = ''credential_stuffing'',
     sb_approved_by = Some ''adm'', sb_expires_at = None, sb_active = True\<rparr>"
proof -
  have subnet: "ipv4_subnet16 ''1.2.3.4'' = Some ''1.2.0.0/16''" by code_simp
  have "th_blocks (record_failed_login one_strike ''a'' (Some ''1.2.3.4'') None quiet_threats)
    = [\<lparr>sb_id = [], sb_type = SubnetPending, sb_cidr = ''1.2.0.0/16'', sb_reason = ''credential_stuffing'',
       sb_approved_by = None, sb_expires_at = None, sb_active = True\<rparr>]"
    by (simp add: record_failed_login_def note_address_def note_subnet_def subnet one_strike_def quiet_threats_def s_add_def s_card_def
        red_members_def red_clock_def incr_with_ttl_def red_count_def propose_subnet_block_def persist_block_def present_def Let_def insert_row_def)
  then show ?thesis
    by (simp add: struck_def approve_block_def find_block_def find_one_def save_block_def update_where_def Let_def)
qed

definition struck_block :: security_block where
  "struck_block = \<lparr>sb_id = [], sb_type = SubnetActive, sb_cidr = ''1.2.0.0/16'', sb_reason = ''credential_stuffing'',
     sb_approved_by = Some ''adm'', sb_expires_at = None, sb_active = False\<rparr>"


text \<open>Lifted while Redis is away, a block stays in the set, and is in force again with Redis.\<close>

lemma lifting_without_redis_keeps_the_block:
  assumes "tc_client cfg \<noteq> RedisOpen" "tc_client cfg' = RedisOpen" "cidr \<in> set (rs_denied (th_redis s))"
  shows "denied_subnet cfg' cidr (snd (lift_block cfg i s))"
  using assms
  by (cases "find_block i s")
     (auto simp: lift_block_def Let_def denied_subnet_def remove_from_deny_set_def save_block_def split: block_type.split)


end
