(* ===== verification/Spec2Isabelle.thy ===== *)
theory Spec2Isabelle
  imports
    JsNumber Prelude Money PayoutSplit Idempotency Outbox RetryPolicy Fees AnnualCap Entities
    QueueService Pagination InvestmentEvents Sanctions Investments Shipments MilestoneRelease
    Escrow Decimals Marketplace MarketMatching MarketOutcomes Netting NettingCorrect NettingCycles
    NettingBilateral QueueCrypto EscrowConsumer QueueProcessor Settlement BigDecimal Amm AmmProps
    JsText TradeDeals DealLifecycle Insurance InsuranceProps
    JsDate LetterOfCredit CreditProps CoFarmers CoFarmerProps
    AmlRules AmlDetectors AmlCases AmlMonitoring AmlDetectorProps AmlCaseProps AmlGroupProps AmlProps AmlSweepProps
    SecurityThreat Accounts Mfa KycRules KycReview AccountProps LoginProps KycProps ThreatProps
begin

text \<open>
  AGRI-FI: A VERIFICATION LIBRARY FOR THE BACKEND

  THE PROGRAM. Agri-fi finances agricultural trade deals. A trader publishes a deal, investors
  buy tokens of it, shipment milestones are recorded, and once the goods are delivered the
  escrow on the Stellar network is released and the proceeds are recorded as payment
  distributions. The backend (\<open>src/backend/src\<close>, TypeScript on NestJS and TypeORM) is the part
  that keeps the money: its services change rows of a PostgreSQL database, send jobs to RabbitMQ
  either directly or through a transactional outbox, take leases in Redis, and call Stellar.
  This library models the services on the path of the money.

  HOW THE PARTS INTERACT. \<open>trade-deals.service.ts\<close> creates, publishes and cancels deals, and its
  scheduled job closes those that are not funded in time. \<open>investments.service.ts\<close> creates an investment (checked against the
  accreditation and annual caps, the sanctions service and the remaining value of the deal),
  confirms it and funds the deal, which enqueues \<open>deal.funded\<close> in the outbox.
  \<open>shipments.service.ts\<close> records the four milestones of a funded deal in order; the last one
  delivers the deal and emits \<open>deal.delivered\<close>. \<open>milestone-partial-release.service.ts\<close> listens to
  every milestone and releases a share of the pool. \<open>escrow.service.ts\<close> consumes
  \<open>deal.delivered\<close> under a lease of \<open>idempotency.service.ts\<close>, releases the escrow, and records
  the payments with \<open>payout-split.ts\<close>. \<open>outbox.service.ts\<close> and \<open>outbox.processor.ts\<close> carry the
  events of the outbox table to the broker, and the retry policies space the repetitions. The
  messages are encrypted by \<open>queue.crypto.ts\<close> and received by \<open>escrow.consumer.ts\<close>, which calls the
  escrow service, and by \<open>queue.processor.ts\<close>, which publishes deals, funds investments, sends
  mails and closes accounts. Beside the escrow, \<open>settlement.service.ts\<close> settles a campaign on a
  contract, \<open>netting.service.ts\<close> nets obligations between parties, and tokens are traded on the
  secondary market (\<open>marketplace-settlement.service.ts\<close>) and with the market maker (\<open>amm\<close>).
  \<open>insurance.service.ts\<close> insures the farmer of a deal with external providers, whose signed messages
  lead to payouts from an escrow of its own. \<open>deal-co-farmers.service.ts\<close> shares the payout of a deal
  between its lead farmer and invited co-farmers, and gates its publication.
  \<open>letter-of-credit.service.ts\<close> keeps letters of credit for deals, beside the escrow.
  Every hour \<open>transaction-monitoring.service.ts\<close> reads investments, payment distributions and
  transaction logs as movements of money, runs the detectors of the enabled rules of
  \<open>aml-rules.service.ts\<close> over them, raises alerts and opens cases, which \<open>aml-case.service.ts\<close> lets
  analysts group, judge and close; the judgements tune the rules.
  Users register, sign in and hold tokens through \<open>auth.service.ts\<close>, which asks \<open>security-threat.service.ts\<close>
  before every login and tells it of every failure, keeps blocked tokens in Redis with
  \<open>token-blocklist.service.ts\<close>, and counts the versions of tokens in the row of the user, which
  \<open>jwt.strategy.ts\<close> compares at every request. The identity of users is checked by the same service against the
  rules of \<open>kyc-rules.service.ts\<close>, and \<open>kyc-cron.service.ts\<close> ends the checks whose documents have expired.

  THE THEORIES, and what they model (paths under \<open>src/backend/src\<close>).
  \<^item> \<open>JsNumber\<close>: JavaScript's numbers. A double is a rational, every operation of the code is the
    exact operation followed by the rounding \<open>fl\<close> to binary64; with the bounds of that rounding.
  \<^item> \<open>Prelude\<close>: handlers that may throw, transactions, tables as lists of rows with the operations
    of a repository (find, insert, update, delete) and the locale \<open>repository\<close> of their laws.
  \<^item> \<open>JsText\<close>: functions on text that several components use, among them the joining of texts.
  \<^item> \<open>Money\<close>: \<open>common/money/split-ratio.ts\<close> and \<open>stroops.ts\<close>.
  \<^item> \<open>PayoutSplit\<close>: \<open>escrow/payout-split.ts\<close>, the division of the farmers' pool by weights.
  \<^item> \<open>Idempotency\<close>: \<open>queue/idempotency.service.ts\<close>; locale \<open>redis_client\<close> states what the service
    relies on from Redis, and the consumers are an inductive step relation.
  \<^item> \<open>Outbox\<close>: \<open>outbox/outbox.service.ts\<close>, \<open>outbox.processor.ts\<close>, \<open>outbox.entity.ts\<close>.
  \<^item> \<open>RetryPolicy\<close>: \<open>common/retry-policy.ts\<close> and \<open>queue/retry-policy.ts\<close>.
  \<^item> \<open>Fees\<close>: \<open>investments/fee-calculator.service.ts\<close> and \<open>fee-transaction.utils.ts\<close>.
  \<^item> \<open>AnnualCap\<close>: \<open>accreditation/annual-cap.service.ts\<close> and the tiers of \<open>auth/entities/user.entity.ts\<close>.
  \<^item> \<open>Entities\<close>: the rows shared by the services (deals, co-farmers, users, investments) and the
    HTTP errors, one constructor per exception class of the framework.
  \<^item> \<open>QueueService\<close>: \<open>queue/queue.service.ts\<close>, direct and transactional enqueueing.
  \<^item> \<open>Pagination\<close>: \<open>common/pagination.ts\<close>.
  \<^item> \<open>InvestmentEvents\<close>: \<open>investments/investment-event-store.service.ts\<close> and \<open>lot-size.utils.ts\<close>.
  \<^item> \<open>Sanctions\<close>: \<open>auth/utils/ofac-sanctions-check.ts\<close>.
  \<^item> \<open>Investments\<close>: \<open>investments/investments.service.ts\<close>.
  \<^item> \<open>Shipments\<close>: \<open>shipments/shipments.service.ts\<close>, with its inductive step relation.
  \<^item> \<open>MilestoneRelease\<close>: \<open>escrow/milestone-partial-release.service.ts\<close>.
  \<^item> \<open>Escrow\<close>: \<open>escrow/escrow.service.ts\<close>.
  \<^item> \<open>Decimals\<close>: decimal columns held in doubles; sums, differences and comparisons of them.
  \<^item> \<open>Marketplace\<close>: \<open>investments/marketplace-settlement.service.ts\<close> and
    \<open>secondary-order-matching.service.ts\<close>; \<open>MarketMatching\<close> holds the invariant of the book and its
    reachable states, \<open>MarketOutcomes\<close> the properties.
  \<^item> \<open>Netting\<close>: \<open>settlement/netting.service.ts\<close>; \<open>NettingCorrect\<close> proves the netting exact, against
    the same loop over integers, \<open>NettingCycles\<close> follows the rows through the cycles, and
    \<open>NettingBilateral\<close> shows that bilateral and multilateral netting agree.
  \<^item> \<open>QueueCrypto\<close>: \<open>queue/queue.crypto.ts\<close>, the key ring and the two formats of payloads.
  \<^item> \<open>EscrowConsumer\<close>: \<open>escrow/escrow.consumer.ts\<close>, \<open>escrow-dlq.service.ts\<close>, \<open>failed-payments.service.ts\<close>.
  \<^item> \<open>QueueProcessor\<close>: \<open>queue/queue.processor.ts\<close>, the handlers of all other messages.
  \<^item> \<open>Settlement\<close>: \<open>settlement/settlement.service.ts\<close>, whose rows extend those of the deals.
  \<^item> \<open>BigDecimal\<close>: the decimal arithmetic of the market maker, with the locale \<open>bignumber\<close> of what
    is assumed of its library; \<open>Amm\<close>: \<open>amm/services\<close> and \<open>amm/entities\<close>; \<open>AmmProps\<close> its properties,
    with the locale \<open>amm_invariant\<close> by which an invariant of the writes is one of all operations.
  \<^item> \<open>TradeDeals\<close>: \<open>trade-deals/trade-deals.service.ts\<close> and \<open>trade-deals-cron.service.ts\<close>, whose rows
    extend those of the deals; \<open>DealLifecycle\<close>: their properties, alone and together with
    \<open>Investments\<close> and \<open>QueueProcessor\<close>.
  \<^item> \<open>Insurance\<close>: \<open>insurance/insurance.service.ts\<close>, its rows and the step relation of its handlers;
    \<open>InsuranceProps\<close>: the invariant of the payouts and the other properties.
  \<^item> \<open>JsDate\<close>: digits and the dates of time stamps. \<open>LetterOfCredit\<close>: the files of \<open>letter-of-credit\<close>;
    \<open>CreditProps\<close>: the invariant of status and documents, settlement, amendments and tolerance.
  \<^item> \<open>CoFarmers\<close>: \<open>trade-deals/deal-co-farmers.service.ts\<close>; \<open>CoFarmerProps\<close>: the invariant of the portions
    and the properties that reach into the payout of \<open>Escrow\<close>.

  \<^item> \<open>AmlRules\<close>: \<open>aml/aml-rules.service.ts\<close> and \<open>aml.constants.ts\<close>; \<open>AmlDetectors\<close>: \<open>aml/aml-detectors.ts\<close>
    and \<open>aml-behavioral.ts\<close>; \<open>AmlCases\<close>: \<open>aml/aml-case.service.ts\<close> with the rows of alerts, cases and
    judgements; \<open>AmlMonitoring\<close>: \<open>aml/transaction-monitoring.service.ts\<close>, the hourly job of
    \<open>aml-monitoring-cron.service.ts\<close>, and the inductive step relation of rules, alerts and cases.
  \<^item> \<open>AmlDetectorProps\<close>: sliding windows, structuring, behaviour; \<open>AmlCaseProps\<close> and \<open>AmlGroupProps\<close>: the
    invariants of judgements and of the grouping of alerts; \<open>AmlProps\<close>: what they give in reachable
    states; \<open>AmlSweepProps\<close>: the sweep, which refines the step relation.
  \<^item> \<open>SecurityThreat\<close>: \<open>auth/security-threat.service.ts\<close> with the sets and counters of Redis; \<open>Accounts\<close>:
    \<open>auth/auth.service.ts\<close> (accounts, logins, tokens), \<open>token-blocklist.service.ts\<close>, \<open>jwt.strategy.ts\<close> and
    \<open>utils/redirect-sanitizer.ts\<close>; \<open>Mfa\<close>: the second factor, \<open>guards/mfa.guard.ts\<close> and the inductive step
    relations of the requests; \<open>KycRules\<close>: \<open>kyc-rules/kyc-rules.service.ts\<close>; \<open>KycReview\<close>: the identity checks of
    \<open>auth.service.ts\<close> and \<open>kyc-cron.service.ts\<close>.
  \<^item> \<open>AccountProps\<close>: frames, the relation \<open>edits\<close> of what a request does to the rows, rotated and outdated tokens;
    \<open>LoginProps\<close>: the number of guesses, unlocking, promoted administrators, the set-up of a second factor;
    \<open>KycProps\<close>: bulk review, daily job and rules; \<open>ThreatProps\<close>: ranges of addresses and blocks of subnets.

  HOW STATE AND OPERATIONS CORRESPOND. The state of a service is a record of the tables it
  reads and writes, together with what it has sent: \<open>outbox_state\<close>, \<open>investments_state\<close>,
  \<open>shipments_state\<close>, \<open>escrow_state\<close>. A method is a function from its arguments and the state to
  a result and the next state; a thrown exception is the \<open>Inl\<close> of the result. A database
  transaction is a body whose state is dropped when it throws. Where the code awaits between a
  check and a write the method is split at that point (\<open>confirm_check\<close> and \<open>confirm_commit\<close>,
  \<open>cancel_check\<close> and \<open>cancel_commit\<close>, \<open>refresh_check\<close> and \<open>refresh_commit\<close>, \<open>enforce_caps\<close> and \<open>record_annual_investment\<close>), so that
  interleavings of two requests can be stated and evaluated. Logging is left out.

  WHAT THE LEMMAS SHOW. The escrow: what a release records, that it is recorded at most once,
  and how a database failure after the release leads to a second release. The investments: the
  outcomes of creation, confirmation and cancellation, and three interleavings in which the
  guards do not hold what they promise. The shipments: milestones follow the sequence in every
  reachable state. The partial releases: one per milestone, at most 98 percent together. The
  split: positive whole cents that add up to the pool. The leases: mutual exclusion while no
  lease expires, and its failure when one does. The outbox: the invariant of a tick, its order,
  that it drains, and the double publication of two processors. Fees, caps, money, pagination,
  lot sizes, sanctions and retry delays: their functional behaviour on every branch. The
  consumers: what each answer to the broker depends on, and how messages are lost, returned for
  ever, or paid twice. The encryption: what is encrypted for a queue is decrypted to the same
  value. The secondary market: every fill is backed by a settled trade in every reachable state
  of the book, fills follow price and time, and placing an order always throws. The netting:
  exact to the cent, refining a loop over integers, which ends. The settlement: how it keeps the
  escrow from being released. The market maker: the product of the reserves is kept up to
  rounding, deposits gain nothing, rows stay within their columns, every swap fails after
  moving the pool, and rewards are never claimable. The deals: what a
  cancellation changes, the path of the status of a deal through any operations, and how a second
  publication, a canceled deal and a failed campaign go wrong between the services. The insurance:
  a claim is paid at most once while handlers do not overlap, twice when two approvals do, the
  coverage of a policy is never used up, what is signed does not depend on the order of
  properties, and which quote is recommended. The letters of credit: the status follows the
  documents as long as amendments leave it alone, and credits that settle again or without
  documents. The co-farmers: the portions add up to at most 100 percent, unless invitations
  overlap, and a late invitation takes part in the payout without passing the gate. The monitoring: structuring is
  reported exactly where deposits show it, a sweep raises each new finding once, is a run of the
  steps of single requests and ends without an error unless a rule has a list of countries that is
  no array, which stops all sweeps; rules learn from every judgement, an alert belongs to one case,
  and how judged alerts lose their status and constant histories hide amounts. The accounts: a raised
  version ends all earlier sessions for ever, a rotated refresh token is never taken again, five wrong
  passwords at most are compared in a quarter of an hour, and how unlock tokens open the interface,
  promoted administrators are locked out and a second factor is replaced. The identity checks: a bulk
  review accounts for every user, a new rule is in force at once, and the first reminder stops the daily
  job. The detection: bad ranges are prefixes of addresses, and a lifted subnet is never blocked again.

  BOUNDS. A number of the code is a double (\<open>jsnum\<close>) and every sum, product and quotient is
    rounded as the machine rounds it. Theorems about exact totals therefore bound the amounts:
    integers up to \<open>2 ^ 53\<close> are exact, and the split of a pool is proved for pools of at most
    \<open>2 ^ 40\<close> cents (ten thousand million dollars) and at most a thousand participants, for which the accumulated
    rounding error of the floors stays below one cent. Decimal columns read as doubles are exact
    below \<open>2 ^ 50\<close> units; the netting is proved for at most a thousand obligations (three hundred for
    the pairs, whose threshold is a tenth of a cent) of together at most \<open>2 ^ 39\<close> cents. Overflow to
    infinity and NaN are not represented for doubles; for the market maker, whose library computes
    with them, they are. No definition needs fuel: every loop of the modelled code runs over a
    finite list, and the deliveries of a message are counted by an argument.

  PARAMETERS. The library that signs and verifies tokens (of which \<open>honest\<close> assumes that it accepts only what was
  signed and is not expired), password hashes, one-time passwords, hCaptcha, the risk of behaviour, Stellar, the settlement contracts, the insurance providers, Redis, the broker and its placement of returned
  messages, the sanctions service, ciphers and digests, the parser of JSON, the rounding
  operations of bignumber.js, square root and logarithm, the number a text stands for, the clock, the generated identifiers and the failures of the
  database and of mails are arguments of the definitions that use them.

  READINGS. The query of crossing orders passes its direction to \<open>orderBy\<close> twice; the model takes the
  direction of the expression. Keys of rows are texts, also where the database has uuid columns. Where a \<open>findOne\<close> matches several rows the model takes the oldest.

  NOT MODELLED. The sign-in with a Stellar wallet (SEP-10), with biometrics and with API keys, controllers, the other guards and DTO decorators (glue of the framework), the Stellar and
  Soroban clients (calls of an external SDK) and the campaign initialised after a publication,
  the texts of notifications and mails (pure output), of the monitoring the texts and the evidence of a
  match beside its key, its second screening by the regulatory rules and the audit log, the
  frontend, the contracts and the SDK package, and the services beside the path of the money
  that the manifest lists one by one.
\<close>

end
